(* ===== verification/Std_Map.thy ===== *)
theory Std_Map
  imports Main
begin

text \<open>
  \<open>std::map\<close>, with its iteration order: an association list sorted by key, each key once.
  \<open>emplace\<close> and \<open>insert\<close> leave an existing entry alone, \<open>erase\<close> removes one by key, and \<open>assign\<close> is a
  change through an iterator.
\<close>

definition std_map :: "('k::linorder \<times> 'v) list \<Rightarrow> bool" where
  "std_map xs \<longleftrightarrow> sorted (map fst xs) \<and> distinct (map fst xs)"

definition emplace :: "'k::linorder \<Rightarrow> 'v \<Rightarrow> ('k \<times> 'v) list \<Rightarrow> ('k \<times> 'v) list" where
  "emplace k v xs = (if map_of xs k = None then insort_key fst (k, v) xs else xs)"

definition erase :: "'k \<Rightarrow> ('k \<times> 'v) list \<Rightarrow> ('k \<times> 'v) list" where
  "erase k xs = filter (\<lambda>x. fst x \<noteq> k) xs"

definition assign :: "'k \<Rightarrow> 'v \<Rightarrow> ('k \<times> 'v) list \<Rightarrow> ('k \<times> 'v) list" where
  "assign k v xs = map (\<lambda>x. if fst x = k then (k, v) else x) xs"

lemma std_map_Nil [simp]: "std_map []"
  by (simp add: std_map_def)

lemma map_of_insort: "map_of (insort_key fst (k, v) xs) = (map_of xs)(k \<mapsto> v)" if "map_of xs k = None"
  using that by (induction xs) (auto simp: fun_eq_iff split: if_splits)

lemma map_of_emplace [simp]: "map_of (emplace k v xs) = (if map_of xs k = None then (map_of xs)(k \<mapsto> v) else map_of xs)"
  by (simp add: emplace_def map_of_insort)

lemma map_of_erase [simp]: "map_of (erase k xs) = (map_of xs)(k := None)"
  by (induction xs) (auto simp: erase_def fun_eq_iff)

lemma keys_assign [simp]: "map fst (assign k v xs) = map fst xs"
  by (induction xs) (auto simp: assign_def)

lemma map_of_assign: "map_of (assign k v xs) j = (if j = k \<and> map_of xs k \<noteq> None then Some v else map_of xs j)"
  by (induction xs) (auto simp: assign_def)

lemma std_map_emplace: "std_map xs \<Longrightarrow> std_map (emplace k v xs)"
proof -
  assume xs: "std_map xs"
  have keys: "map fst (insort_key fst (k, v) xs) = insort k (map fst xs)" for xs :: "('a \<times> 'b) list"
    by (induction xs) auto
  show ?thesis
    using xs by (auto simp: std_map_def emplace_def keys sorted_insort distinct_insort map_of_eq_None_iff)
qed

lemma std_map_erase: "std_map xs \<Longrightarrow> std_map (erase k xs)"
  by (auto simp: std_map_def erase_def sorted_filter distinct_map_filter)

lemma std_map_assign: "std_map (assign k v xs) = std_map xs"
  by (simp add: std_map_def)

lemma length_emplace: "map_of xs k = None \<Longrightarrow> length (emplace k v xs) = Suc (length xs)"
  by (simp add: emplace_def)

lemma erase_absent: "k \<notin> fst ` set xs \<Longrightarrow> erase k xs = xs"
  unfolding erase_def by (rule filter_True) force

lemma length_erase: "std_map xs \<Longrightarrow> map_of xs k = Some v \<Longrightarrow> Suc (length (erase k xs)) = length xs"
proof (induction xs)
  case (Cons x xs)
  then show ?case
  proof (cases "fst x = k")
    case True
    then have "erase k xs = xs" using Cons.prems(1) by (intro erase_absent) (auto simp: std_map_def)
    with True show ?thesis by (simp add: erase_def)
  qed (auto simp: std_map_def erase_def)
qed simp

lemma length_assign [simp]: "length (assign k v xs) = length xs"
  by (simp add: assign_def)

lemma emplace_new [simp]: "map_of (emplace k v xs) k \<noteq> None"
  by simp

lemma std_map_size: "std_map xs \<Longrightarrow> card (dom (map_of xs)) = length xs"
  unfolding std_map_def dom_map_of_conv_image_fst by (metis distinct_card length_map list.set_map)

lemma erase_emplace: "std_map xs \<Longrightarrow> map_of xs k = None \<Longrightarrow> erase k (emplace k v xs) = xs"
proof -
  assume "map_of xs k = None"
  moreover have "erase k (insort_key fst (k, v) xs) = xs" if "k \<notin> fst ` set xs" for xs :: "('a \<times> 'b) list"
    using that by (induction xs) (auto simp: erase_def dest: erase_absent [unfolded erase_def])
  ultimately show ?thesis by (simp add: emplace_def map_of_eq_None_iff)
qed

end
