(* ===== verification/Rialto_Prelude.thy ===== *)
theory Rialto_Prelude
  imports Main "HOL-Library.Word"
begin

text \<open>
  Shared vocabulary of the development: the machine types of the C++ code, byte memory with
  \<open>memcpy\<close> / \<open>memset\<close>, the \<open>std::find_if\<close>-and-update idiom, and the arithmetic lemmas on
  words that the components use.
\<close>

section \<open>Machine types\<close>

type_synonym u8 = "8 word"
type_synonym u16 = "16 word"
type_synonym u32 = "32 word"
type_synonym u64 = "64 word"
type_synonym i32 = "32 word"
type_synonym i64 = "64 word"

text \<open>
  A byte buffer is a total map from byte offsets to bytes. The length of a buffer is not part
  of the map: that no access leaves a buffer is a theorem about the offsets.
\<close>

type_synonym mem = "nat \<Rightarrow> u8"

section \<open>Proof collections\<close>

named_theorems mem_simps \<open>reading back what was written\<close>
named_theorems nowrap \<open>word arithmetic under a no-overflow side condition\<close>

section \<open>Definitions\<close>

subsection \<open>Byte memory\<close>

definition write_bytes :: "mem \<Rightarrow> nat \<Rightarrow> u8 list \<Rightarrow> mem" where
  "write_bytes m a bs = (\<lambda>i. if a \<le> i \<and> i < a + length bs then bs ! (i - a) else m i)"

definition memset :: "mem \<Rightarrow> nat \<Rightarrow> u8 \<Rightarrow> nat \<Rightarrow> mem" where
  "memset m a b n = (\<lambda>i. if a \<le> i \<and> i < a + n then b else m i)"

definition read_bytes :: "mem \<Rightarrow> nat \<Rightarrow> nat \<Rightarrow> u8 list" where
  "read_bytes m a n = map m [a..<a + n]"

text \<open>Two half-open byte ranges, given by start and length, do not meet.\<close>

definition ranges_disjoint :: "nat \<Rightarrow> nat \<Rightarrow> nat \<Rightarrow> nat \<Rightarrow> bool" where
  "ranges_disjoint a n b k \<longleftrightarrow> a + n \<le> b \<or> b + k \<le> a"

subsection \<open>First match in a vector\<close>

fun update_first :: "('a \<Rightarrow> bool) \<Rightarrow> ('a \<Rightarrow> 'a) \<Rightarrow> 'a list \<Rightarrow> 'a list" where
  "update_first P f [] = []"
| "update_first P f (x # xs) = (if P x then f x # xs else x # update_first P f xs)"

fun first_index :: "('a \<Rightarrow> bool) \<Rightarrow> 'a list \<Rightarrow> nat" where
  "first_index P [] = 0"
| "first_index P (x # xs) = (if P x then 0 else Suc (first_index P xs))"

subsection \<open>Running an operation on several arguments\<close>

text \<open>The operation is applied in turn, stopping at the first one that reports failure.\<close>

primrec run_all :: "('i \<Rightarrow> 's \<Rightarrow> bool \<times> 's) \<Rightarrow> 'i list \<Rightarrow> 's \<Rightarrow> bool \<times> 's" where
  "run_all f [] s = (True, s)"
| "run_all f (i # is) s = (let (ok, s') = f i s in if ok then run_all f is s' else (False, s'))"

subsection \<open>Subtraction on \<open>size_t\<close>\<close>

text \<open>\<open>size_t\<close> values are naturals below \<open>2 ^ 64\<close>; a difference wraps around.\<close>

definition size_t_minus :: "nat \<Rightarrow> nat \<Rightarrow> nat" where
  "size_t_minus a b = (if b \<le> a then a - b else 2 ^ 64 + a - b)"

section \<open>Lemmas on byte memory\<close>

lemma length_read_bytes [simp]: "length (read_bytes m a n) = n"
  by (simp add: read_bytes_def)

lemma read_bytes_nth [simp]: "i < n \<Longrightarrow> read_bytes m a n ! i = m (a + i)"
  by (simp add: read_bytes_def)

lemma read_bytes_0 [simp]: "read_bytes m a 0 = []"
  by (simp add: read_bytes_def)

lemma read_bytes_add: "read_bytes m a (n + k) = read_bytes m a n @ read_bytes m (a + n) k"
  by (rule nth_equalityI) (auto simp: nth_append)

lemma read_bytes_Suc: "read_bytes m a (Suc n) = m a # read_bytes m (Suc a) n"
  by (rule nth_equalityI) (auto simp: nth_Cons split: nat.splits)

lemma read_bytes_cong: "(\<And>i. a \<le> i \<Longrightarrow> i < a + n \<Longrightarrow> m i = m' i) \<Longrightarrow> read_bytes m a n = read_bytes m' a n"
  by (simp add: read_bytes_def)

lemma read_write_same [mem_simps]:
  "n = length bs \<Longrightarrow> read_bytes (write_bytes m a bs) a n = bs"
  by (rule nth_equalityI) (auto simp: write_bytes_def)

lemma read_write_disjoint [mem_simps]:
  "ranges_disjoint b n a (length bs) \<Longrightarrow> read_bytes (write_bytes m a bs) b n = read_bytes m b n"
  by (rule read_bytes_cong) (auto simp: write_bytes_def ranges_disjoint_def)

lemma read_memset_disjoint [mem_simps]:
  "ranges_disjoint b n a k \<Longrightarrow> read_bytes (memset m a x k) b n = read_bytes m b n"
  by (rule read_bytes_cong) (auto simp: memset_def ranges_disjoint_def)

lemma read_memset_same [mem_simps]: "read_bytes (memset m a x n) a n = replicate n x"
  by (rule nth_equalityI) (auto simp: memset_def)

lemma write_bytes_Nil [simp]: "write_bytes m a [] = m"
  by (auto simp: write_bytes_def fun_eq_iff)

lemma memset_0 [simp]: "memset m a x 0 = m"
  by (auto simp: memset_def fun_eq_iff)

lemma memset_eq_write: "memset m a x n = write_bytes m a (replicate n x)"
  by (auto simp: memset_def write_bytes_def fun_eq_iff)

lemma write_bytes_append:
  "write_bytes (write_bytes m a bs) (a + length bs) cs = write_bytes m a (bs @ cs)"
  by (auto simp: write_bytes_def fun_eq_iff nth_append)

lemma write_bytes_single: "m(a := b) = write_bytes m a [b]"
  by (auto simp: write_bytes_def fun_eq_iff)

lemma write_bytes_outside: "i < a \<or> a + length bs \<le> i \<Longrightarrow> write_bytes m a bs i = m i"
  by (auto simp: write_bytes_def)

lemma ranges_disjoint_sym: "ranges_disjoint a n b k = ranges_disjoint b k a n"
  by (auto simp: ranges_disjoint_def)

lemma ranges_disjoint_sub:
  "ranges_disjoint a n b k \<Longrightarrow> a \<le> a' \<Longrightarrow> a' + n' \<le> a + n \<Longrightarrow> b \<le> b' \<Longrightarrow> b' + k' \<le> b + k
    \<Longrightarrow> ranges_disjoint a' n' b' k'"
  by (auto simp: ranges_disjoint_def)

section \<open>Lemmas on first matches\<close>

lemma update_first_id: "(\<forall>x \<in> set xs. \<not> P x) \<Longrightarrow> update_first P f xs = xs"
  by (induction xs) auto

lemma length_update_first [simp]: "length (update_first P f xs) = length xs"
  by (induction xs) auto

lemma map_update_first_same:
  "(\<And>x. P x \<Longrightarrow> g (f x) = g x) \<Longrightarrow> map g (update_first P f xs) = map g xs"
  by (induction xs) auto

lemma update_first_split:
  "\<exists>x \<in> set xs. P x \<Longrightarrow>
    \<exists>us x vs. xs = us @ x # vs \<and> P x \<and> (\<forall>u \<in> set us. \<not> P u) \<and> update_first P f xs = us @ f x # vs"
proof (induction xs)
  case Nil
  then show ?case by simp
next
  case (Cons y ys)
  show ?case
  proof (cases "P y")
    case True
    then have "update_first P f (y # ys) = [] @ f y # ys" by simp
    with True show ?thesis by fastforce
  next
    case False
    with Cons obtain us x vs where "ys = us @ x # vs" "P x" "\<forall>u \<in> set us. \<not> P u"
      "update_first P f ys = us @ f x # vs" by auto
    with False have "y # ys = (y # us) @ x # vs \<and> P x \<and> (\<forall>u \<in> set (y # us). \<not> P u) \<and>
      update_first P f (y # ys) = (y # us) @ f x # vs" by auto
    then show ?thesis by blast
  qed
qed

lemma find_first_index:
  "find P xs = (if first_index P xs < length xs then Some (xs ! first_index P xs) else None)"
  by (induction xs) auto

lemma first_index_le: "first_index P xs \<le> length xs"
  by (induction xs) auto

lemma first_index_less_iff: "first_index P xs < length xs \<longleftrightarrow> (\<exists>x \<in> set xs. P x)"
  by (induction xs) auto

lemma first_index_holds: "first_index P xs < length xs \<Longrightarrow> P (xs ! first_index P xs)"
  by (induction xs) auto

lemma find_Some_first_index:
  "find P xs = Some x \<Longrightarrow> first_index P xs < length xs \<and> xs ! first_index P xs = x \<and> P x"
  by (auto simp: find_first_index first_index_holds split: if_splits)

lemma find_SomeE: "find P xs = Some x \<Longrightarrow> x \<in> set xs \<and> P x"
  by (auto simp: find_Some_iff)

text \<open>Offsets of consecutive items: the sizes of the items before the \<open>k\<close>-th one.\<close>

lemma sum_take_Suc:
  "k < length xs \<Longrightarrow> sum_list (map f (take (Suc k) xs)) = sum_list (map f (take k xs)) + f (xs ! k)"
  by (simp add: take_Suc_conv_app_nth)

lemma sum_take_mono:
  fixes f :: "'a \<Rightarrow> nat"
  shows "k \<le> l \<Longrightarrow> sum_list (map f (take k xs)) \<le> sum_list (map f (take l xs))"
proof -
  assume "k \<le> l"
  then have "take l xs = take k xs @ take (l - k) (drop k xs)"
    by (metis add_diff_inverse_nat not_le take_add)
  then show ?thesis by simp
qed

lemma sum_take_next:
  fixes f :: "'a \<Rightarrow> nat"
  shows "k < l \<Longrightarrow> l \<le> length xs \<Longrightarrow>
    sum_list (map f (take k xs)) + f (xs ! k) \<le> sum_list (map f (take l xs))"
  using sum_take_mono [of "Suc k" l f xs] by (simp add: sum_take_Suc)

lemma sum_take_bound:
  fixes f :: "'a \<Rightarrow> nat"
  shows "k < length xs \<Longrightarrow> sum_list (map f (take k xs)) + f (xs ! k) \<le> sum_list (map f xs)"
  using sum_take_next [of k "length xs" xs f] by simp

lemma replicate_2: "replicate 2 x = [x, x]"
  by (simp add: numeral_2_eq_2)

text \<open>A run is transported along a simulation of the single operation.\<close>

lemma run_all_map:
  assumes "\<And>i s. f i (h s) = map_prod id h (g i s)"
  shows "run_all f is (h s) = map_prod id h (run_all g is s)"
  by (induction "is" arbitrary: s) (simp_all add: assms case_prod_beta Let_def)

section \<open>Lemmas on words\<close>

lemma unat_add_nowrap [nowrap]:
  fixes a b :: u32
  shows "unat a + unat b < 2 ^ 32 \<Longrightarrow> unat (a + b) = unat a + unat b"
  by (simp add: unat_word_ariths)

lemma unat_sub_nowrap [nowrap]:
  fixes a b :: u32
  shows "unat b \<le> unat a \<Longrightarrow> unat (a - b) = unat a - unat b"
  by (simp add: unat_sub word_le_nat_alt)

lemma unat_mult_nowrap [nowrap]:
  fixes a b :: u32
  shows "unat a * unat b < 2 ^ 32 \<Longrightarrow> unat (a * b) = unat a * unat b"
  by (simp add: unat_word_ariths)

lemma unat_sub_add_nowrap:
  fixes a b c :: u32
  shows "unat b \<le> unat a \<Longrightarrow> unat a - unat b + unat c < 2 ^ 32 \<Longrightarrow> unat (a - b + c) = unat a - unat b + unat c"
  by (simp add: unat_add_nowrap unat_sub_nowrap)

lemma unat_u32_bound: "unat (x :: u32) < 2 ^ 32"
  using unsigned_less [of x] by simp

lemma unat_of_nat_u32 [nowrap]: "n < 2 ^ 32 \<Longrightarrow> unat (of_nat n :: u32) = n"
  by (simp add: unat_of_nat)

lemma unat_ucast_up [simp]: "unat (ucast (x :: u32) :: u64) = unat x"
  using unat_u32_bound [of x] by (simp add: unsigned_ucast_eq take_bit_nat_eq_self_iff)

lemma unat_ucast_down: "unat (x :: u64) < 2 ^ 32 \<Longrightarrow> unat (ucast x :: u32) = unat x"
  by (simp add: unsigned_ucast_eq take_bit_nat_eq_self)

lemma ucast_ucast_small: "unat (x :: u64) < 2 ^ 32 \<Longrightarrow> ucast (ucast x :: u32) = x"
  by (simp add: word_unat_eq_iff unat_ucast_down)

lemma sint_nonneg: assumes "unat (x::u32) < 2^31" shows "sint x = int (unat x)"
proof -
  have u: "int (unat x) = uint x" by simp
  have "sint x = signed_take_bit 31 (uint x)" by (simp only: sint_uint) simp
  also have "\<dots> = uint x"
  proof (rule signed_take_bit_int_eq_self)
    show "- (2 ^ 31) \<le> uint x" by (rule order_trans [OF _ uint_ge_0]) simp
    have "int (unat x) < int (2 ^ 31)" using assms by (simp only: of_nat_less_iff)
    then show "uint x < 2 ^ 31" by (simp only: u) simp
  qed
  finally show ?thesis using u by simp
qed

lemma unat_scast_nonneg: assumes "unat (x::u32) < 2^31" shows "unat (scast x :: u64) = unat x"
proof -
  have "scast x = (of_nat (unat x) :: u64)" 
    by (simp only: scast_eq sint_nonneg [OF assms] of_int_of_nat_eq)
  then show ?thesis by simp
qed

lemma size_t_minus_le [simp]: "b \<le> a \<Longrightarrow> size_t_minus a b = a - b"
  by (simp add: size_t_minus_def)

end
