(* ===== verification/Media_Common.thy ===== *)
theory Media_Common
  imports Rialto_Prelude
begin

text \<open>
  The data types shared by client and server: the enumerations and structures of
  \<open>media/public/include/MediaCommon.h\<close> and the media segments of
  \<open>media/public/include/IMediaPipeline.h\<close>. Enumerators that several C++ enumerations share
  carry a prefix naming their enumeration.
\<close>

section \<open>Enumerations\<close>

datatype MediaSourceType = MST_UNKNOWN | AUDIO | VIDEO

datatype MediaType = MT_UNKNOWN | MSE

datatype MediaSourceStatus = MSS_OK | MSS_EOS | MSS_ERROR | MSS_CODEC_CHANGED | MSS_NO_AVAILABLE_SAMPLES

datatype NetworkState = NS_UNKNOWN | NS_IDLE | NS_BUFFERING | NS_BUFFERING_PROGRESS | NS_BUFFERED
  | NS_STALLED | NS_FORMAT_ERROR | NS_NETWORK_ERROR | NS_DECODE_ERROR

datatype PlaybackState = PS_UNKNOWN | PS_IDLE | PS_PLAYING | PS_PAUSED | PS_SEEKING | PS_FLUSHED
  | PS_STOPPED | PS_END_OF_STREAM | PS_FAILURE

datatype AddSegmentStatus = ASS_OK | ASS_NO_SPACE | ASS_ERROR

datatype SegmentAlignment = SA_UNDEFINED | SA_NAL | SA_AU

datatype WebAudioPlayerState = WAS_UNKNOWN | WAS_IDLE | WAS_PLAYING | WAS_PAUSED | WAS_END_OF_STREAM
  | WAS_FAILURE

datatype MediaKeyErrorStatus = MKE_OK | MKE_FAIL | MKE_BAD_SESSION_ID | MKE_NOT_SUPPORTED | MKE_INVALID_STATE

datatype SourceConfigType = SCT_UNKNOWN | SCT_AUDIO | SCT_VIDEO | SCT_VIDEO_DOLBY_VISION

datatype StreamFormat = SF_UNDEFINED | SF_RAW | SF_AVC | SF_BYTE_STREAM

section \<open>Structures\<close>

record SubSamplePair =
  numClearBytes :: u64
  numEncryptedBytes :: u64

record MediaPlayerShmInfo =
  maxMetadataBytes :: u32
  metadataOffset :: u32
  mediaDataOffset :: u32
  maxMediaBytes :: u32

record WebAudioShmInfo =
  offsetMain :: u32
  lengthMain :: u32
  offsetWrap :: u32
  lengthWrap :: u32

record WebAudioPcmConfig =
  pcm_rate :: u32
  pcm_channels :: u32
  pcm_sampleSize :: u32
  pcm_isBigEndian :: bool
  pcm_isSigned :: bool
  pcm_isFloat :: bool

record QosInfo =
  qos_processed :: u64
  qos_dropped :: u64

record AudioConfig =
  ac_numberOfChannels :: u32
  ac_sampleRate :: u32
  ac_codecSpecificConfig :: "u8 list"

section \<open>Media sources\<close>

text \<open>
  A source of media: \<open>ms_type\<close> is what the virtual \<open>getType\<close> returns, \<open>ms_class\<close> the dynamic class with the members the class
  adds.
\<close>

datatype SourceClass = PlainSource | AudioSource AudioConfig | VideoSource | DolbyVisionSource u32

record MediaSource =
  ms_type :: MediaSourceType
  ms_id :: i32
  ms_mimeType :: string
  ms_configType :: SourceConfigType
  ms_alignment :: SegmentAlignment
  ms_streamFormat :: StreamFormat
  ms_codecData :: "u8 list"
  ms_class :: SourceClass

definition newMediaSourceAudio :: "i32 \<Rightarrow> string \<Rightarrow> AudioConfig \<Rightarrow> SegmentAlignment \<Rightarrow> StreamFormat \<Rightarrow> u8 list \<Rightarrow> MediaSource" where
  "newMediaSourceAudio i mimeType audioConfig alignment streamFormat codecData =
     \<lparr>ms_type = AUDIO, ms_id = i, ms_mimeType = mimeType, ms_configType = SCT_AUDIO, ms_alignment = alignment,
      ms_streamFormat = streamFormat, ms_codecData = codecData, ms_class = AudioSource audioConfig\<rparr>"

definition newMediaSourceVideo :: "i32 \<Rightarrow> string \<Rightarrow> SegmentAlignment \<Rightarrow> StreamFormat \<Rightarrow> u8 list \<Rightarrow> MediaSource" where
  "newMediaSourceVideo i mimeType alignment streamFormat codecData =
     \<lparr>ms_type = VIDEO, ms_id = i, ms_mimeType = mimeType, ms_configType = SCT_VIDEO, ms_alignment = alignment,
      ms_streamFormat = streamFormat, ms_codecData = codecData, ms_class = VideoSource\<rparr>"

definition newMediaSourceVideoDolbyVision :: "i32 \<Rightarrow> string \<Rightarrow> u32 \<Rightarrow> SegmentAlignment \<Rightarrow> StreamFormat \<Rightarrow> u8 list \<Rightarrow> MediaSource" where
  "newMediaSourceVideoDolbyVision i mimeType dolbyVisionProfile alignment streamFormat codecData =
     \<lparr>ms_type = VIDEO, ms_id = i, ms_mimeType = mimeType, ms_configType = SCT_VIDEO_DOLBY_VISION, ms_alignment = alignment,
      ms_streamFormat = streamFormat, ms_codecData = codecData, ms_class = DolbyVisionSource dolbyVisionProfile\<rparr>"

lemmas source_constructor_defs =
  newMediaSourceAudio_def newMediaSourceVideo_def newMediaSourceVideoDolbyVision_def

section \<open>Media segments\<close>

text \<open>
  The dynamic class of a segment with the members the class adds: \<open>MediaSegmentAudio\<close> its
  sample rate and channel count, \<open>MediaSegmentVideo\<close> its width and height, the base class
  nothing. A \<open>dynamic_cast\<close> inspects this tag, not \<open>m_type\<close>.
\<close>

datatype SegmentClass = PlainSegment | AudioSegment i32 i32 | VideoSegment i32 i32

text \<open>
  \<open>m_data\<close> is the pointer to the payload: \<open>None\<close> is \<open>nullptr\<close>, \<open>Some bs\<close> a pointer to memory
  that holds the bytes \<open>bs\<close>.
\<close>

record MediaSegment =
  m_sourceId :: i32
  m_type :: MediaSourceType
  m_data :: "u8 list option"
  m_dataLength :: u32
  m_timeStamp :: i64
  m_duration :: i64
  m_extraData :: "u8 list"
  m_encrypted :: bool
  m_mediaKeySessionId :: i32
  m_keyId :: "u8 list"
  m_initVector :: "u8 list"
  m_subSamples :: "SubSamplePair list"
  m_initWithLast15 :: u32
  m_alignment :: SegmentAlignment
  m_class :: SegmentClass

definition newMediaSegment :: "i32 \<Rightarrow> MediaSourceType \<Rightarrow> i64 \<Rightarrow> i64 \<Rightarrow> SegmentClass \<Rightarrow> MediaSegment" where
  "newMediaSegment sourceId type timeStamp duration cls =
     \<lparr>m_sourceId = sourceId, m_type = type, m_data = None, m_dataLength = 0,
      m_timeStamp = timeStamp, m_duration = duration, m_extraData = [], m_encrypted = False,
      m_mediaKeySessionId = 0, m_keyId = [], m_initVector = [], m_subSamples = [],
      m_initWithLast15 = 0, m_alignment = SA_UNDEFINED, m_class = cls\<rparr>"

definition newMediaSegmentAudio :: "i32 \<Rightarrow> i64 \<Rightarrow> i64 \<Rightarrow> i32 \<Rightarrow> i32 \<Rightarrow> MediaSegment" where
  "newMediaSegmentAudio sourceId timeStamp duration sampleRate numberOfChannels =
     newMediaSegment sourceId AUDIO timeStamp duration (AudioSegment sampleRate numberOfChannels)"

definition newMediaSegmentVideo :: "i32 \<Rightarrow> i64 \<Rightarrow> i64 \<Rightarrow> i32 \<Rightarrow> i32 \<Rightarrow> MediaSegment" where
  "newMediaSegmentVideo sourceId timeStamp duration width height =
     newMediaSegment sourceId VIDEO timeStamp duration (VideoSegment width height)"

definition setData :: "u32 \<Rightarrow> u8 list option \<Rightarrow> MediaSegment \<Rightarrow> MediaSegment" where
  "setData dataLength data seg = seg\<lparr>m_dataLength := dataLength, m_data := data\<rparr>"

text \<open>
  The payload a segment carries, and the sanity condition every caller of the library has to
  meet: the pointer is valid for \<open>m_dataLength\<close> bytes.
\<close>

definition payload :: "MediaSegment \<Rightarrow> u8 list" where
  "payload seg = (case m_data seg of None \<Rightarrow> [] | Some bs \<Rightarrow> bs)"

definition segment_ok :: "MediaSegment \<Rightarrow> bool" where
  "segment_ok seg \<longleftrightarrow> length (payload seg) = unat (m_dataLength seg)"

text \<open>The dynamic class agrees with \<open>m_type\<close>, as it does for every segment the classes' own constructors make.\<close>

definition class_ok :: "MediaSegment \<Rightarrow> bool" where
  "class_ok seg \<longleftrightarrow> (case m_class seg of
      PlainSegment \<Rightarrow> m_type seg = MST_UNKNOWN
    | AudioSegment _ _ \<Rightarrow> m_type seg = AUDIO
    | VideoSegment _ _ \<Rightarrow> m_type seg = VIDEO)"

lemmas segment_constructor_defs =
  newMediaSegment_def newMediaSegmentAudio_def newMediaSegmentVideo_def

lemma class_ok_constructors [simp]:
  "class_ok (newMediaSegmentAudio s t d r c)" "class_ok (newMediaSegmentVideo s t d w h)"
  by (simp_all add: class_ok_def segment_constructor_defs)

end
