(* ===== verification/Shared_Memory.thy ===== *)
theory Shared_Memory
  imports Media_Common
begin

text \<open>
  The shared memory buffer of the server, \<open>media/server/main/source/SharedMemoryBuffer.cpp\<close>: one
  mapping, cut into one partition per playback and per web audio player. A pointer into the
  mapping is its byte offset from \<open>m_dataBuffer\<close>; \<open>nullptr\<close> is \<open>None\<close>.
\<close>

section \<open>Data\<close>

text \<open>
  The code also handles a value of \<open>MediaPlaybackType\<close> outside its enumerators;
  \<open>INVALID_PLAYBACK\<close> stands for those.
\<close>

datatype MediaPlaybackType = GENERIC | WEB_AUDIO | INVALID_PLAYBACK

record Partition =
  part_id :: int
  dataBufferAudioLen :: u32
  dataBufferVideoLen :: u32

record SharedMemoryBuffer =
  m_genericPartitions :: "Partition list"
  m_webAudioPartitions :: "Partition list"
  m_dataBufferLen :: u32
  m_dataBufferFd :: int
  m_dataBuffer :: "u64 option"

definition NO_ID_ASSIGNED :: int where "NO_ID_ASSIGNED = -1"
definition videoRegionSize :: u32 where "videoRegionSize = 7 * 1024 * 1024"
definition audioRegionSize :: u32 where "audioRegionSize = 1 * 1024 * 1024"
definition webAudioRegionSize :: u32 where "webAudioRegionSize = 10 * 1024"

section \<open>Construction\<close>

text \<open>
  \<open>num\<close> arrives as \<open>unsigned\<close> and is a parameter of type \<open>int\<close>; a negative value makes
  the vector constructor throw \<open>std::length_error\<close> (\<open>None\<close>).
\<close>

definition calculatePartitionSize :: "MediaPlaybackType \<Rightarrow> u32 \<Rightarrow> Partition list option" where
  "calculatePartitionSize playbackType num =
     (if playbackType = GENERIC then
        (if sint num < 0 then None
         else Some (replicate (unat num)
                (\<lparr>part_id = NO_ID_ASSIGNED, dataBufferAudioLen = audioRegionSize,
                  dataBufferVideoLen = videoRegionSize\<rparr>)))
      else if playbackType = WEB_AUDIO then
        (if sint num < 0 then None
         else Some (replicate (unat num)
                (\<lparr>part_id = NO_ID_ASSIGNED, dataBufferAudioLen = webAudioRegionSize,
                  dataBufferVideoLen = 0\<rparr>)))
      else Some [])"

text \<open>
  \<open>std::accumulate\<close> is called with the initial value \<open>0\<close>, so its accumulator is an \<open>int\<close>:
  each step widens it to \<open>size_t\<close>, adds the two lengths and narrows the sum back.
\<close>

definition accumulate_step :: "i32 \<Rightarrow> Partition \<Rightarrow> i32" where
  "accumulate_step acc p =
     ucast ((scast acc :: u64) + ucast (dataBufferAudioLen p) + ucast (dataBufferVideoLen p))"

definition accumulate_partitions :: "Partition list \<Rightarrow> u64" where
  "accumulate_partitions ps = scast (foldl accumulate_step 0 ps)"

definition calculateBufferSize :: "SharedMemoryBuffer \<Rightarrow> u64" where
  "calculateBufferSize s =
     accumulate_partitions (m_genericPartitions s) + accumulate_partitions (m_webAudioPartitions s)"

text \<open>
  The outcomes of the system calls the constructor makes: the descriptor \<open>memfd_create\<close> returns
  (negative on failure), whether \<open>ftruncate\<close> to a size and the sealing \<open>fcntl\<close> succeed, and the
  address \<open>mmap\<close> returns for a size (\<open>None\<close> is \<open>MAP_FAILED\<close>).
\<close>

record ShmSyscalls =
  sys_memfd :: int
  sys_ftruncate :: "u64 \<Rightarrow> bool"
  sys_seal :: bool
  sys_mmap :: "u64 \<Rightarrow> u64 option"

text \<open>The constructor; \<open>None\<close> is a thrown exception.\<close>

definition newSharedMemoryBuffer :: "ShmSyscalls \<Rightarrow> u32 \<Rightarrow> u32 \<Rightarrow> SharedMemoryBuffer option" where
  "newSharedMemoryBuffer sys numOfPlaybacks numOfWebAudioPlayers =
     (case calculatePartitionSize GENERIC numOfPlaybacks of None \<Rightarrow> None
      | Some gps \<Rightarrow>
     (case calculatePartitionSize WEB_AUDIO numOfWebAudioPlayers of None \<Rightarrow> None
      | Some wps \<Rightarrow>
        (let s = \<lparr>m_genericPartitions = gps, m_webAudioPartitions = wps,
                  m_dataBufferLen = 0, m_dataBufferFd = -1, m_dataBuffer = None\<rparr>;
             bufferSize = calculateBufferSize s
         in if sys_memfd sys < 0 then None
            else if \<not> sys_ftruncate sys bufferSize then None
            else if \<not> sys_seal sys then None
            else (case sys_mmap sys bufferSize of
                None \<Rightarrow> None
              | Some addr \<Rightarrow> Some (s\<lparr>m_dataBufferLen := ucast bufferSize, m_dataBufferFd := sys_memfd sys,
                                       m_dataBuffer := Some addr\<rparr>)))))"

text \<open>The destructor; the results of \<open>munmap\<close> and \<open>close\<close> are only logged.\<close>

definition destroySharedMemoryBuffer :: "SharedMemoryBuffer \<Rightarrow> SharedMemoryBuffer" where
  "destroySharedMemoryBuffer s =
     (if m_dataBufferFd s \<noteq> -1
      then s\<lparr>m_dataBufferLen := 0, m_dataBufferFd := -1, m_dataBuffer := None\<rparr> else s)"

section \<open>Partitions\<close>

definition getPlaybackTypePartition :: "MediaPlaybackType \<Rightarrow> SharedMemoryBuffer \<Rightarrow> Partition list option" where
  "getPlaybackTypePartition playbackType s =
     (if playbackType = GENERIC then Some (m_genericPartitions s)
      else if playbackType = WEB_AUDIO then Some (m_webAudioPartitions s)
      else None)"

text \<open>Writing through the pointer that \<open>getPlaybackTypePartition\<close> returns.\<close>

definition putPlaybackTypePartition ::
  "MediaPlaybackType \<Rightarrow> Partition list \<Rightarrow> SharedMemoryBuffer \<Rightarrow> SharedMemoryBuffer" where
  "putPlaybackTypePartition playbackType ps s =
     (if playbackType = GENERIC then s\<lparr>m_genericPartitions := ps\<rparr>
      else if playbackType = WEB_AUDIO then s\<lparr>m_webAudioPartitions := ps\<rparr>
      else s)"

abbreviation has_id :: "int \<Rightarrow> Partition \<Rightarrow> bool" where
  "has_id i \<equiv> \<lambda>p. part_id p = i"

definition mapPartition :: "MediaPlaybackType \<Rightarrow> int \<Rightarrow> SharedMemoryBuffer \<Rightarrow> bool \<times> SharedMemoryBuffer" where
  "mapPartition playbackType i s =
     (case getPlaybackTypePartition playbackType s of
        None \<Rightarrow> (False, s)
      | Some partitions \<Rightarrow>
          (case find (has_id i) partitions of
             Some p \<Rightarrow> (True, s)
           | None \<Rightarrow>
               (case find (has_id NO_ID_ASSIGNED) partitions of
                  None \<Rightarrow> (False, s)
                | Some freePartition \<Rightarrow>
                    (True, putPlaybackTypePartition playbackType
                             (update_first (has_id NO_ID_ASSIGNED) (\<lambda>p. p\<lparr>part_id := i\<rparr>) partitions) s))))"

definition unmapPartition :: "MediaPlaybackType \<Rightarrow> int \<Rightarrow> SharedMemoryBuffer \<Rightarrow> bool \<times> SharedMemoryBuffer" where
  "unmapPartition playbackType i s =
     (case getPlaybackTypePartition playbackType s of
        None \<Rightarrow> (False, s)
      | Some partitions \<Rightarrow>
          (case find (has_id i) partitions of
             None \<Rightarrow> (False, s)
           | Some p \<Rightarrow>
               (True, putPlaybackTypePartition playbackType
                        (update_first (has_id i) (\<lambda>p. p\<lparr>part_id := NO_ID_ASSIGNED\<rparr>) partitions) s)))"

text \<open>
  One of the two loops of \<open>getDataPtrForPartition\<close>: \<open>Inr ptr\<close> when it returns from inside the
  loop, \<open>Inl ptr\<close> with the pointer behind the last partition otherwise. The addition of the two
  lengths is on \<open>uint32_t\<close>.
\<close>

fun scanPartitions :: "bool \<Rightarrow> int \<Rightarrow> nat \<Rightarrow> Partition list \<Rightarrow> nat + nat" where
  "scanPartitions typeMatches i result [] = Inl result"
| "scanPartitions typeMatches i result (p # ps) =
     (if typeMatches \<and> part_id p = i then Inr result
      else scanPartitions typeMatches i (result + unat (dataBufferVideoLen p + dataBufferAudioLen p)) ps)"

definition getDataPtrForPartition :: "MediaPlaybackType \<Rightarrow> int \<Rightarrow> SharedMemoryBuffer \<Rightarrow> nat option" where
  "getDataPtrForPartition playbackType i s =
     (case scanPartitions (playbackType = GENERIC) i 0 (m_genericPartitions s) of
        Inr ptr \<Rightarrow> Some ptr
      | Inl result \<Rightarrow>
          (case scanPartitions (playbackType = WEB_AUDIO) i result (m_webAudioPartitions s) of
             Inr ptr \<Rightarrow> Some ptr
           | Inl _ \<Rightarrow> None))"

definition clearData ::
  "MediaPlaybackType \<Rightarrow> int \<Rightarrow> MediaSourceType \<Rightarrow> SharedMemoryBuffer \<Rightarrow> mem \<Rightarrow> bool \<times> mem" where
  "clearData playbackType i mediaSourceType s m =
     (case getPlaybackTypePartition playbackType s of
        None \<Rightarrow> (False, m)
      | Some partitions \<Rightarrow>
          (case find (has_id i) partitions of
             None \<Rightarrow> (False, m)
           | Some p \<Rightarrow>
               (case getDataPtrForPartition playbackType i s of
                  None \<Rightarrow> (False, m)
                | Some ptr \<Rightarrow>
                    if mediaSourceType = AUDIO then
                      (True, memset m (ptr + unat (dataBufferVideoLen p)) 0 (unat (dataBufferAudioLen p)))
                    else if mediaSourceType = VIDEO then
                      (True, memset m ptr 0 (unat (dataBufferVideoLen p)))
                    else (False, m))))"

definition getDataPtr :: "MediaPlaybackType \<Rightarrow> int \<Rightarrow> MediaSourceType \<Rightarrow> SharedMemoryBuffer \<Rightarrow> nat option" where
  "getDataPtr playbackType i mediaSourceType s =
     (case getPlaybackTypePartition playbackType s of
        None \<Rightarrow> None
      | Some partitions \<Rightarrow>
          (case find (has_id i) partitions of
             None \<Rightarrow> None
           | Some p \<Rightarrow>
               (case getDataPtrForPartition playbackType i s of
                  None \<Rightarrow> None
                | Some ptr \<Rightarrow>
                    if mediaSourceType = AUDIO \<and> 0 \<noteq> dataBufferAudioLen p then
                      Some (ptr + unat (dataBufferVideoLen p))
                    else if mediaSourceType = VIDEO \<and> 0 \<noteq> dataBufferVideoLen p then Some ptr
                    else None)))"

text \<open>\<open>None\<close> is the \<open>std::runtime_error\<close> of \<open>getDataOffset\<close>.\<close>

definition getDataOffset :: "MediaPlaybackType \<Rightarrow> int \<Rightarrow> MediaSourceType \<Rightarrow> SharedMemoryBuffer \<Rightarrow> u32 option" where
  "getDataOffset playbackType i mediaSourceType s =
     map_option of_nat (getDataPtr playbackType i mediaSourceType s)"

definition getMaxDataLen :: "MediaPlaybackType \<Rightarrow> int \<Rightarrow> MediaSourceType \<Rightarrow> SharedMemoryBuffer \<Rightarrow> u32" where
  "getMaxDataLen playbackType i mediaSourceType s =
     (case getPlaybackTypePartition playbackType s of
        None \<Rightarrow> 0
      | Some partitions \<Rightarrow>
          (case find (has_id i) partitions of
             None \<Rightarrow> 0
           | Some p \<Rightarrow>
               if mediaSourceType = AUDIO then dataBufferAudioLen p
               else if mediaSourceType = VIDEO then dataBufferVideoLen p
               else 0))"

definition getSize :: "SharedMemoryBuffer \<Rightarrow> u32" where
  "getSize s = m_dataBufferLen s"

definition getFd :: "SharedMemoryBuffer \<Rightarrow> int" where
  "getFd s = m_dataBufferFd s"

definition getBuffer :: "SharedMemoryBuffer \<Rightarrow> u64 option" where
  "getBuffer s = m_dataBuffer s"

section \<open>Specification\<close>

text \<open>
  The buffer as one sequence of partitions, generic ones first; the bytes a partition takes; where
  the \<open>k\<close>-th one starts.
\<close>

definition layout :: "SharedMemoryBuffer \<Rightarrow> Partition list" where
  "layout s = m_genericPartitions s @ m_webAudioPartitions s"

definition part_len :: "Partition \<Rightarrow> nat" where
  "part_len p = unat (dataBufferVideoLen p) + unat (dataBufferAudioLen p)"

definition part_start :: "Partition list \<Rightarrow> nat \<Rightarrow> nat" where
  "part_start ps k = sum_list (map part_len (take k ps))"

definition assigned_ids :: "Partition list \<Rightarrow> int list" where
  "assigned_ids ps = filter (\<lambda>i. i \<noteq> NO_ID_ASSIGNED) (map part_id ps)"

text \<open>
  The invariant of the buffer: no partition's two lengths overflow, the partitions fill the mapping
  exactly, and no id owns two partitions of the same playback type.
\<close>

definition shm_inv :: "SharedMemoryBuffer \<Rightarrow> bool" where
  "shm_inv s \<longleftrightarrow>
     (\<forall>p \<in> set (layout s). part_len p < 2 ^ 32) \<and>
     sum_list (map part_len (layout s)) = unat (m_dataBufferLen s) \<and>
     distinct (assigned_ids (m_genericPartitions s)) \<and>
     distinct (assigned_ids (m_webAudioPartitions s))"

definition is_mapped :: "MediaPlaybackType \<Rightarrow> int \<Rightarrow> SharedMemoryBuffer \<Rightarrow> bool" where
  "is_mapped t i s \<longleftrightarrow>
     (case getPlaybackTypePartition t s of None \<Rightarrow> False
      | Some ps \<Rightarrow> i \<noteq> NO_ID_ASSIGNED \<and> i \<in> part_id ` set ps)"

definition free_count :: "MediaPlaybackType \<Rightarrow> SharedMemoryBuffer \<Rightarrow> nat" where
  "free_count t s =
     (case getPlaybackTypePartition t s of None \<Rightarrow> 0
      | Some ps \<Rightarrow> length (filter (has_id NO_ID_ASSIGNED) ps))"

text \<open>The position in \<open>layout\<close> of the first partition of a type that carries an id.\<close>

definition locate :: "MediaPlaybackType \<Rightarrow> int \<Rightarrow> SharedMemoryBuffer \<Rightarrow> nat option" where
  "locate t i s =
     (case t of
        GENERIC \<Rightarrow>
          (let k = first_index (has_id i) (m_genericPartitions s)
           in if k < length (m_genericPartitions s) then Some k else None)
      | WEB_AUDIO \<Rightarrow>
          (let k = first_index (has_id i) (m_webAudioPartitions s)
           in if k < length (m_webAudioPartitions s)
              then Some (length (m_genericPartitions s) + k) else None)
      | INVALID_PLAYBACK \<Rightarrow> None)"

section \<open>Where a partition lies\<close>

lemmas partition_access_defs = getPlaybackTypePartition_def putPlaybackTypePartition_def

lemma part_start_next: "k < l \<Longrightarrow> l \<le> length ps \<Longrightarrow> part_start ps k + part_len (ps ! k) \<le> part_start ps l"
  unfolding part_start_def by (rule sum_take_next)

lemma part_start_bound: "k < length ps \<Longrightarrow> part_start ps k + part_len (ps ! k) \<le> sum_list (map part_len ps)"
  unfolding part_start_def by (rule sum_take_bound)

lemma unat_part_len:
  "part_len p < 2 ^ 32 \<Longrightarrow> unat (dataBufferVideoLen p + dataBufferAudioLen p) = part_len p"
  by (simp add: part_len_def nowrap)

lemma scanPartitions_eq:
  assumes "\<forall>p \<in> set ps. part_len p < 2 ^ 32"
  shows "scanPartitions b i r ps =
    (if b \<and> first_index (has_id i) ps < length ps
     then Inr (r + part_start ps (first_index (has_id i) ps))
     else Inl (r + sum_list (map part_len ps)))"
  using assms
  by (induction ps arbitrary: r) (auto simp: unat_part_len part_start_def)

lemma getDataPtrForPartition_eq:
  assumes "shm_inv s"
  shows "getDataPtrForPartition t i s = map_option (part_start (layout s)) (locate t i s)"
proof -
  have ok: "\<forall>p \<in> set (m_genericPartitions s). part_len p < 2 ^ 32"
    "\<forall>p \<in> set (m_webAudioPartitions s). part_len p < 2 ^ 32"
    using assms by (auto simp: shm_inv_def layout_def)
  show ?thesis
    by (cases t) (auto simp: getDataPtrForPartition_def scanPartitions_eq [OF ok(1)]
        scanPartitions_eq [OF ok(2)] locate_def layout_def Let_def part_start_def first_index_le)
qed

lemma find_locate:
  "(case getPlaybackTypePartition t s of None \<Rightarrow> None | Some ps \<Rightarrow> find (has_id i) ps) =
    map_option (\<lambda>k. layout s ! k) (locate t i s)"
  by (cases t)
    (auto simp: partition_access_defs find_first_index locate_def layout_def nth_append)

lemma locate_bound: "locate t i s = Some k \<Longrightarrow> k < length (layout s)"
  by (cases t) (auto simp: locate_def layout_def Let_def split: if_splits)

lemma locate_id: "locate t i s = Some k \<Longrightarrow> part_id (layout s ! k) = i"
  using first_index_holds [of "has_id i" "m_genericPartitions s"]
    first_index_holds [of "has_id i" "m_webAudioPartitions s"]
  by (cases t) (auto simp: locate_def layout_def Let_def nth_append split: if_splits)

lemma locate_inj: "locate t i s = Some k \<Longrightarrow> locate t' i' s = Some k \<Longrightarrow> t = t' \<and> i = i'"
  using locate_id [of t i s k] locate_id [of t' i' s k]
  by (cases t; cases t') (auto simp: locate_def Let_def split: if_splits)

text \<open>The region handed out for one source of a partition, in closed form.\<close>

lemma getMaxDataLen_eq:
  "getMaxDataLen t i src s =
    (case locate t i s of None \<Rightarrow> 0
     | Some k \<Rightarrow> (case src of AUDIO \<Rightarrow> dataBufferAudioLen (layout s ! k)
                 | VIDEO \<Rightarrow> dataBufferVideoLen (layout s ! k) | MST_UNKNOWN \<Rightarrow> 0))"
  using find_locate [where t = t and s = s and i = i]
  by (cases src) (auto simp: getMaxDataLen_def split: option.splits)

lemma getDataPtr_eq:
  assumes "shm_inv s"
  shows "getDataPtr t i src s =
    (case locate t i s of None \<Rightarrow> None
     | Some k \<Rightarrow> (if getMaxDataLen t i src s = 0 then None
         else Some (part_start (layout s) k +
           (if src = AUDIO then unat (dataBufferVideoLen (layout s ! k)) else 0))))"
  using find_locate [where t = t and s = s and i = i] getDataPtrForPartition_eq [OF assms, of t i]
  by (cases src) (auto simp: getDataPtr_def getMaxDataLen_eq split: option.splits)

lemma getDataPtrE:
  assumes "shm_inv s" and "getDataPtr t i src s = Some a"
  obtains k where "locate t i s = Some k" and "k < length (layout s)"
    and "src = AUDIO \<or> src = VIDEO"
    and "a = part_start (layout s) k + (if src = AUDIO then unat (dataBufferVideoLen (layout s ! k)) else 0)"
    and "unat (getMaxDataLen t i src s) =
      (if src = AUDIO then unat (dataBufferAudioLen (layout s ! k)) else unat (dataBufferVideoLen (layout s ! k)))"
proof -
  from assms(2) getDataPtr_eq [OF assms(1), of t i src] obtain k where k: "locate t i s = Some k"
    by (auto split: option.splits)
  show thesis
    by (rule that [of k]; use assms(2) k getDataPtr_eq [OF assms(1), of t i src] locate_bound [OF k]
        in \<open>cases src; auto simp: getMaxDataLen_eq split: if_splits\<close>)
qed

lemma video_before_audio:
  "shm_inv s \<Longrightarrow> getDataPtr t i VIDEO s = Some v \<Longrightarrow> getDataPtr t i AUDIO s = Some a \<Longrightarrow>
    v + unat (getMaxDataLen t i VIDEO s) = a"
  by (auto simp: getDataPtr_eq getMaxDataLen_eq split: option.splits if_splits)

lemma getDataPtr_unknown [simp]: "getDataPtr t i MST_UNKNOWN s = None"
  by (simp add: getDataPtr_def split: option.splits)

lemma region_in_partition:
  assumes "shm_inv s" and "getDataPtr t i src s = Some a"
  shows "\<exists>k. locate t i s = Some k \<and> part_start (layout s) k \<le> a \<and>
    a + unat (getMaxDataLen t i src s) \<le> part_start (layout s) k + part_len (layout s ! k)"
  by (rule getDataPtrE [OF assms]) (auto simp: part_len_def)

section \<open>Mapping and unmapping\<close>

text \<open>The effect of both operations on the list of one playback type.\<close>

definition assign_first :: "int \<Rightarrow> Partition list \<Rightarrow> Partition list" where
  "assign_first i = update_first (has_id NO_ID_ASSIGNED) (\<lambda>p. p\<lparr>part_id := i\<rparr>)"

definition release_first :: "int \<Rightarrow> Partition list \<Rightarrow> Partition list" where
  "release_first i = update_first (has_id i) (\<lambda>p. p\<lparr>part_id := NO_ID_ASSIGNED\<rparr>)"

lemma assigned_ids_simps [simp]:
  "assigned_ids [] = []"
  "assigned_ids (p # ps) = (if part_id p = NO_ID_ASSIGNED then assigned_ids ps else part_id p # assigned_ids ps)"
  "assigned_ids (ps @ qs) = assigned_ids ps @ assigned_ids qs"
  by (simp_all add: assigned_ids_def)

lemma set_assigned_ids: "set (assigned_ids ps) = part_id ` set ps - {NO_ID_ASSIGNED}"
  by (auto simp: assigned_ids_def)

lemma map_part_len_update [simp]:
  "map part_len (assign_first i ps) = map part_len ps"
  "map part_len (release_first i ps) = map part_len ps"
  by (simp_all add: assign_first_def release_first_def map_update_first_same part_len_def)

lemma part_len_set_update:
  "(\<forall>p \<in> set (assign_first i ps). part_len p < n) = (\<forall>p \<in> set ps. part_len p < n)"
  "(\<forall>p \<in> set (release_first i ps). part_len p < n) = (\<forall>p \<in> set ps. part_len p < n)"
proof -
  have *: "(\<forall>p \<in> set qs. part_len p < n) = (\<forall>l \<in> set (map part_len qs). l < n)" for qs
    by simp
  show "(\<forall>p \<in> set (assign_first i ps). part_len p < n) = (\<forall>p \<in> set ps. part_len p < n)"
    "(\<forall>p \<in> set (release_first i ps). part_len p < n) = (\<forall>p \<in> set ps. part_len p < n)"
    by (simp_all only: * map_part_len_update)
qed

lemma assign_first_ids:
  assumes "i \<noteq> NO_ID_ASSIGNED" and "NO_ID_ASSIGNED \<in> part_id ` set ps"
  shows "\<exists>xs ys. assigned_ids ps = xs @ ys \<and> assigned_ids (assign_first i ps) = xs @ i # ys"
    and "Suc (length (filter (has_id NO_ID_ASSIGNED) (assign_first i ps))) =
      length (filter (has_id NO_ID_ASSIGNED) ps)"
proof -
  from assms(2) have "\<exists>p \<in> set ps. has_id NO_ID_ASSIGNED p" by force
  from update_first_split [OF this, of "\<lambda>p. p\<lparr>part_id := i\<rparr>"] obtain us x vs where
    ps: "ps = us @ x # vs" "part_id x = NO_ID_ASSIGNED" "assign_first i ps = us @ x\<lparr>part_id := i\<rparr> # vs"
    unfolding assign_first_def by blast
  have "assigned_ids ps = assigned_ids us @ assigned_ids vs \<and>
    assigned_ids (assign_first i ps) = assigned_ids us @ i # assigned_ids vs"
    using assms(1) ps by simp
  then show "\<exists>xs ys. assigned_ids ps = xs @ ys \<and> assigned_ids (assign_first i ps) = xs @ i # ys"
    by blast
  show "Suc (length (filter (has_id NO_ID_ASSIGNED) (assign_first i ps))) =
      length (filter (has_id NO_ID_ASSIGNED) ps)"
    using assms(1) ps by simp
qed

lemma release_first_ids:
  assumes "i \<noteq> NO_ID_ASSIGNED" and "i \<in> part_id ` set ps"
  shows "\<exists>xs ys. assigned_ids ps = xs @ i # ys \<and> assigned_ids (release_first i ps) = xs @ ys"
    and "length (filter (has_id NO_ID_ASSIGNED) (release_first i ps)) =
      Suc (length (filter (has_id NO_ID_ASSIGNED) ps))"
proof -
  from assms(2) have "\<exists>p \<in> set ps. has_id i p" by force
  from update_first_split [OF this, of "\<lambda>p. p\<lparr>part_id := NO_ID_ASSIGNED\<rparr>"] obtain us x vs where
    ps: "ps = us @ x # vs" "part_id x = i" "release_first i ps = us @ x\<lparr>part_id := NO_ID_ASSIGNED\<rparr> # vs"
    unfolding release_first_def by blast
  have "assigned_ids ps = assigned_ids us @ i # assigned_ids vs \<and>
    assigned_ids (release_first i ps) = assigned_ids us @ assigned_ids vs"
    using assms(1) ps by simp
  then show "\<exists>xs ys. assigned_ids ps = xs @ i # ys \<and> assigned_ids (release_first i ps) = xs @ ys"
    by blast
  show "length (filter (has_id NO_ID_ASSIGNED) (release_first i ps)) =
      Suc (length (filter (has_id NO_ID_ASSIGNED) ps))"
    using assms(1) ps by simp
qed

lemma find_has_id_None: "find (has_id i) ps = None \<longleftrightarrow> i \<notin> part_id ` set ps"
  by (auto simp: find_None_iff)

lemma find_has_id_Some: "find (has_id i) ps = Some p \<Longrightarrow> i \<in> part_id ` set ps"
  using find_SomeE by fastforce

text \<open>Both operations, by cases on the ids in use.\<close>

lemma mapPartition_cases:
  "mapPartition t i s =
    (case getPlaybackTypePartition t s of None \<Rightarrow> (False, s)
     | Some ps \<Rightarrow> if i \<in> part_id ` set ps then (True, s)
         else if NO_ID_ASSIGNED \<in> part_id ` set ps then (True, putPlaybackTypePartition t (assign_first i ps) s)
         else (False, s))"
  by (auto simp: mapPartition_def assign_first_def find_has_id_None dest: find_has_id_Some split: option.splits)

lemma unmapPartition_cases:
  "unmapPartition t i s =
    (case getPlaybackTypePartition t s of None \<Rightarrow> (False, s)
     | Some ps \<Rightarrow> if i \<in> part_id ` set ps then (True, putPlaybackTypePartition t (release_first i ps) s)
         else (False, s))"
  by (auto simp: unmapPartition_def release_first_def find_has_id_None dest: find_has_id_Some split: option.splits)

lemma get_put_partition:
  "getPlaybackTypePartition t s = Some ps \<Longrightarrow>
    getPlaybackTypePartition t' (putPlaybackTypePartition t qs s) =
      (if t' = t then Some qs else getPlaybackTypePartition t' s)"
  by (auto simp: partition_access_defs split: if_splits)

lemma put_partition_inv:
  assumes "shm_inv s" and "getPlaybackTypePartition t s = Some ps"
    and "map part_len qs = map part_len ps"
    and "\<forall>p \<in> set qs. part_len p < 2 ^ 32" and "distinct (assigned_ids qs)"
  shows "shm_inv (putPlaybackTypePartition t qs s)"
  using assms by (auto simp: shm_inv_def layout_def partition_access_defs split: if_splits)

lemma inv_partition:
  "shm_inv s \<Longrightarrow> getPlaybackTypePartition t s = Some ps \<Longrightarrow>
    (\<forall>p \<in> set ps. part_len p < 2 ^ 32) \<and> distinct (assigned_ids ps)"
  by (auto simp: shm_inv_def layout_def partition_access_defs split: if_splits)

lemma mapPartition_inv:
  assumes "shm_inv s"
  shows "shm_inv (snd (mapPartition t i s))"
proof (cases "\<exists>ps. getPlaybackTypePartition t s = Some ps \<and> i \<notin> part_id ` set ps \<and> NO_ID_ASSIGNED \<in> part_id ` set ps")
  case False
  with assms show ?thesis by (auto simp: mapPartition_cases split: option.splits)
next
  case True
  then obtain ps where ps: "getPlaybackTypePartition t s = Some ps" "i \<notin> part_id ` set ps"
    "NO_ID_ASSIGNED \<in> part_id ` set ps" by blast
  then have i: "i \<noteq> NO_ID_ASSIGNED" by auto
  obtain xs ys where "assigned_ids ps = xs @ ys" "assigned_ids (assign_first i ps) = xs @ i # ys"
    using assign_first_ids(1) [OF i ps(3)] by blast
  moreover have "i \<notin> set (assigned_ids ps)" using ps(2) by (simp add: set_assigned_ids)
  ultimately have "distinct (assigned_ids (assign_first i ps))"
    using inv_partition [OF assms ps(1)] by auto
  then have "shm_inv (putPlaybackTypePartition t (assign_first i ps) s)"
    by (intro put_partition_inv [OF assms ps(1)])
      (use inv_partition [OF assms ps(1)] in \<open>simp_all add: part_len_set_update\<close>)
  with ps show ?thesis by (simp add: mapPartition_cases)
qed

lemma release_first_distinct:
  assumes "i \<in> part_id ` set ps" and "distinct (assigned_ids ps)"
  shows "distinct (assigned_ids (release_first i ps))"
proof (cases "i = NO_ID_ASSIGNED")
  case True
  have "map part_id (release_first i ps) = map part_id ps"
    unfolding True release_first_def by (rule map_update_first_same) simp
  then show ?thesis using assms(2) by (simp add: assigned_ids_def)
next
  case False
  then obtain xs ys where "assigned_ids ps = xs @ i # ys" "assigned_ids (release_first i ps) = xs @ ys"
    using release_first_ids(1) [OF _ assms(1)] by blast
  with assms(2) show ?thesis by auto
qed

lemma unmapPartition_inv:
  assumes "shm_inv s"
  shows "shm_inv (snd (unmapPartition t i s))"
proof (cases "\<exists>ps. getPlaybackTypePartition t s = Some ps \<and> i \<in> part_id ` set ps")
  case False
  with assms show ?thesis by (auto simp: unmapPartition_cases split: option.splits)
next
  case True
  then obtain ps where ps: "getPlaybackTypePartition t s = Some ps" "i \<in> part_id ` set ps" by blast
  have "shm_inv (putPlaybackTypePartition t (release_first i ps) s)"
    by (intro put_partition_inv [OF assms ps(1)])
      (use inv_partition [OF assms ps(1)] release_first_distinct [OF ps(2)]
        in \<open>simp_all add: part_len_set_update\<close>)
  with ps show ?thesis by (simp add: unmapPartition_cases)
qed

lemma mapPartition_result:
  assumes "i \<noteq> NO_ID_ASSIGNED"
  shows "fst (mapPartition t i s) \<longleftrightarrow> is_mapped t i s \<or> 0 < free_count t s"
  using assms
  by (auto simp: mapPartition_cases is_mapped_def free_count_def split: option.splits)
    (force simp: filter_empty_conv)+

lemma is_mapped_ids:
  "is_mapped t i s \<longleftrightarrow>
    (case getPlaybackTypePartition t s of None \<Rightarrow> False | Some ps \<Rightarrow> i \<in> set (assigned_ids ps))"
  by (auto simp: is_mapped_def set_assigned_ids split: option.splits)

lemma mapPartition_mapped:
  assumes "i \<noteq> NO_ID_ASSIGNED" and "fst (mapPartition t i s)"
  shows "is_mapped t' j (snd (mapPartition t i s)) \<longleftrightarrow> (t' = t \<and> j = i) \<or> is_mapped t' j s"
proof -
  from assms(2) obtain ps where ps: "getPlaybackTypePartition t s = Some ps"
    and hit: "i \<in> part_id ` set ps \<or> NO_ID_ASSIGNED \<in> part_id ` set ps"
    by (auto simp: mapPartition_cases split: option.splits if_splits)
  show ?thesis
  proof (cases "i \<in> part_id ` set ps")
    case True
    with ps assms(1) show ?thesis by (auto simp: mapPartition_cases is_mapped_def)
  next
    case False
    with hit obtain xs ys where "assigned_ids ps = xs @ ys" "assigned_ids (assign_first i ps) = xs @ i # ys"
      using assign_first_ids(1) [OF assms(1)] by blast
    moreover have "snd (mapPartition t i s) = putPlaybackTypePartition t (assign_first i ps) s"
      using False hit ps by (simp add: mapPartition_cases)
    ultimately show ?thesis
      using ps get_put_partition [OF ps, of t' "assign_first i ps"]
      by (cases "t' = t") (auto simp: is_mapped_ids)
  qed
qed

lemma mapPartition_free:
  assumes "i \<noteq> NO_ID_ASSIGNED" and "fst (mapPartition t i s)" and "\<not> is_mapped t i s"
  shows "Suc (free_count t (snd (mapPartition t i s))) = free_count t s"
proof -
  from assms obtain ps where ps: "getPlaybackTypePartition t s = Some ps" "i \<notin> part_id ` set ps"
    "NO_ID_ASSIGNED \<in> part_id ` set ps"
    by (auto simp: mapPartition_cases is_mapped_def split: option.splits if_splits)
  then show ?thesis
    using assign_first_ids(2) [OF assms(1) ps(3)] get_put_partition [OF ps(1), of t "assign_first i ps"]
    by (simp add: mapPartition_cases free_count_def)
qed

lemma mapPartition_failed: "\<not> fst (mapPartition t i s) \<Longrightarrow> snd (mapPartition t i s) = s"
  by (auto simp: mapPartition_cases split: option.splits if_splits)

lemma unmapPartition_result:
  "i \<noteq> NO_ID_ASSIGNED \<Longrightarrow> fst (unmapPartition t i s) \<longleftrightarrow> is_mapped t i s"
  by (auto simp: unmapPartition_cases is_mapped_def split: option.splits)

lemma unmapPartition_mapped:
  assumes "shm_inv s" and "i \<noteq> NO_ID_ASSIGNED"
  shows "is_mapped t' j (snd (unmapPartition t i s)) \<longleftrightarrow> \<not> (t' = t \<and> j = i) \<and> is_mapped t' j s"
proof (cases "\<exists>ps. getPlaybackTypePartition t s = Some ps \<and> i \<in> part_id ` set ps")
  case False
  then show ?thesis by (auto simp: unmapPartition_cases is_mapped_def split: option.splits)
next
  case True
  then obtain ps where ps: "getPlaybackTypePartition t s = Some ps" "i \<in> part_id ` set ps" by blast
  obtain xs ys where "assigned_ids ps = xs @ i # ys" "assigned_ids (release_first i ps) = xs @ ys"
    using release_first_ids(1) [OF assms(2) ps(2)] by blast
  moreover have "distinct (assigned_ids ps)" using inv_partition [OF assms(1) ps(1)] by simp
  moreover have "snd (unmapPartition t i s) = putPlaybackTypePartition t (release_first i ps) s"
    using ps by (simp add: unmapPartition_cases)
  ultimately show ?thesis
    using ps get_put_partition [OF ps(1), of t' "release_first i ps"]
    by (cases "t' = t") (auto simp: is_mapped_ids)
qed

lemma unmapPartition_free:
  assumes "i \<noteq> NO_ID_ASSIGNED" and "is_mapped t i s"
  shows "free_count t (snd (unmapPartition t i s)) = Suc (free_count t s)"
proof -
  from assms obtain ps where ps: "getPlaybackTypePartition t s = Some ps" "i \<in> part_id ` set ps"
    by (auto simp: is_mapped_def split: option.splits)
  then show ?thesis
    using release_first_ids(2) [OF assms(1) ps(2)] get_put_partition [OF ps(1), of t "release_first i ps"]
    by (simp add: unmapPartition_cases free_count_def)
qed

section \<open>The contract of the buffer towards the players\<close>

text \<open>
  What the server components rely on when they map and unmap the partition of a session: a map of
  a fresh id succeeds exactly while a partition is free and takes one, an unmap gives it back, and
  nobody else's mapping changes.
\<close>

locale partition_store =
  fixes map_op unmap_op :: "'t \<Rightarrow> int \<Rightarrow> 's \<Rightarrow> bool \<times> 's"
    and mapped :: "'t \<Rightarrow> int \<Rightarrow> 's \<Rightarrow> bool"
    and free :: "'t \<Rightarrow> 's \<Rightarrow> nat"
    and valid :: "int \<Rightarrow> bool"
    and inv :: "'s \<Rightarrow> bool"
  assumes map_result: "valid i \<Longrightarrow> fst (map_op t i s) \<longleftrightarrow> mapped t i s \<or> 0 < free t s"
    and map_mapped: "valid i \<Longrightarrow> fst (map_op t i s) \<Longrightarrow>
      mapped t' j (snd (map_op t i s)) \<longleftrightarrow> (t' = t \<and> j = i) \<or> mapped t' j s"
    and map_free: "valid i \<Longrightarrow> fst (map_op t i s) \<Longrightarrow> \<not> mapped t i s \<Longrightarrow>
      Suc (free t (snd (map_op t i s))) = free t s"
    and map_failed: "\<not> fst (map_op t i s) \<Longrightarrow> snd (map_op t i s) = s"
    and map_inv: "inv s \<Longrightarrow> inv (snd (map_op t i s))"
    and unmap_result: "valid i \<Longrightarrow> fst (unmap_op t i s) \<longleftrightarrow> mapped t i s"
    and unmap_mapped: "inv s \<Longrightarrow> valid i \<Longrightarrow>
      mapped t' j (snd (unmap_op t i s)) \<longleftrightarrow> \<not> (t' = t \<and> j = i) \<and> mapped t' j s"
    and unmap_free: "valid i \<Longrightarrow> mapped t i s \<Longrightarrow> free t (snd (unmap_op t i s)) = Suc (free t s)"
    and unmap_inv: "inv s \<Longrightarrow> inv (snd (unmap_op t i s))"
begin

lemma run_all_capacity:
  assumes "distinct is" and "\<forall>i \<in> set is. valid i \<and> \<not> mapped t i s"
  shows "fst (run_all (map_op t) is s) \<longleftrightarrow> length is \<le> free t s"
  using assms
proof (induction "is" arbitrary: s)
  case Nil
  then show ?case by simp
next
  case (Cons i "is")
  show ?case
  proof (cases "fst (map_op t i s)")
    case True
    let ?s = "snd (map_op t i s)"
    have "\<forall>j \<in> set is. valid j \<and> \<not> mapped t j ?s"
      using Cons.prems map_mapped [of i t s] True by auto
    then have "fst (run_all (map_op t) is ?s) \<longleftrightarrow> length is \<le> free t ?s"
      using Cons by simp
    moreover have "Suc (free t ?s) = free t s"
      using Cons.prems map_free [of i t s] True by simp
    ultimately show ?thesis using True by (simp add: case_prod_beta Let_def) arith
  next
    case False
    then have "free t s = 0" using Cons.prems map_result [of i t s] by simp
    then show ?thesis using False by (simp add: case_prod_beta Let_def)
  qed
qed

lemma map_then_unmap:
  assumes "inv s" and "valid i" and "fst (map_op t i s)" and "\<not> mapped t i s"
  shows "mapped t' j (snd (unmap_op t i (snd (map_op t i s)))) = mapped t' j s"
    and "free t (snd (unmap_op t i (snd (map_op t i s)))) = free t s"
proof -
  let ?s = "snd (map_op t i s)"
  have "inv ?s" "mapped t i ?s" using assms map_inv map_mapped by auto
  then show "mapped t' j (snd (unmap_op t i ?s)) = mapped t' j s"
    using assms map_mapped unmap_mapped by auto
  show "free t (snd (unmap_op t i ?s)) = free t s"
    using \<open>mapped t i ?s\<close> assms unmap_free map_free by metis
qed

end

interpretation shm: partition_store mapPartition unmapPartition is_mapped free_count
  "\<lambda>i. i \<noteq> NO_ID_ASSIGNED" shm_inv
  by unfold_locales
    (rule mapPartition_result mapPartition_mapped mapPartition_free mapPartition_failed mapPartition_inv
      unmapPartition_result unmapPartition_mapped unmapPartition_free unmapPartition_inv; assumption)+

section \<open>The size of the mapping\<close>

lemma unat_accumulate_step:
  assumes "unat acc + part_len p < 2 ^ 31"
  shows "unat (accumulate_step acc p) = unat acc + part_len p"
proof -
  have a: "unat (scast acc :: u64) = unat acc" using assms by (intro unat_scast_nonneg) simp
  have b: "unat (ucast (dataBufferAudioLen p) :: u64) = unat (dataBufferAudioLen p)"
    "unat (ucast (dataBufferVideoLen p) :: u64) = unat (dataBufferVideoLen p)"
    by simp_all
  have "unat ((scast acc :: u64) + ucast (dataBufferAudioLen p) + ucast (dataBufferVideoLen p)) =
    unat acc + part_len p"
    using assms by (simp add: unat_word_ariths a b part_len_def)
  then show ?thesis
    using assms by (simp add: accumulate_step_def unat_ucast_down)
qed

lemma unat_accumulate_foldl:
  "unat acc + sum_list (map part_len ps) < 2 ^ 31 \<Longrightarrow>
    unat (foldl accumulate_step acc ps) = unat acc + sum_list (map part_len ps)"
  by (induction ps arbitrary: acc) (auto simp: unat_accumulate_step)

lemma unat_accumulate_partitions:
  assumes "sum_list (map part_len ps) < 2 ^ 31"
  shows "unat (accumulate_partitions ps) = sum_list (map part_len ps)"
  using assms unat_accumulate_foldl [of 0 ps]
  by (simp add: accumulate_partitions_def unat_scast_nonneg)

lemma region_sizes [simp]:
  "unat videoRegionSize = 7340032" "unat audioRegionSize = 1048576" "unat webAudioRegionSize = 10240"
  by (simp_all add: videoRegionSize_def audioRegionSize_def webAudioRegionSize_def)

lemma calculatePartitionSize_Some:
  assumes "unat n < 2 ^ 31"
  shows "calculatePartitionSize GENERIC n = Some (replicate (unat n)
      \<lparr>part_id = NO_ID_ASSIGNED, dataBufferAudioLen = audioRegionSize, dataBufferVideoLen = videoRegionSize\<rparr>)"
    and "calculatePartitionSize WEB_AUDIO n = Some (replicate (unat n)
      \<lparr>part_id = NO_ID_ASSIGNED, dataBufferAudioLen = webAudioRegionSize, dataBufferVideoLen = 0\<rparr>)"
  using sint_nonneg [OF assms] by (simp_all add: calculatePartitionSize_def)

lemma assigned_ids_replicate [simp]:
  "part_id p = NO_ID_ASSIGNED \<Longrightarrow> assigned_ids (replicate n p) = []"
  by (simp add: assigned_ids_def)

lemma newSharedMemoryBuffer_inv:
  assumes size: "unat n * 8388608 + unat k * 10240 < 2 ^ 31"
    and new: "newSharedMemoryBuffer sys n k = Some s"
  shows "shm_inv s \<and> free_count GENERIC s = unat n \<and> free_count WEB_AUDIO s = unat k \<and>
    unat (m_dataBufferLen s) = unat n * 8388608 + unat k * 10240"
proof -
  let ?g = "\<lparr>part_id = NO_ID_ASSIGNED, dataBufferAudioLen = audioRegionSize, dataBufferVideoLen = videoRegionSize\<rparr>"
  let ?w = "\<lparr>part_id = NO_ID_ASSIGNED, dataBufferAudioLen = webAudioRegionSize, dataBufferVideoLen = 0\<rparr>"
  let ?s0 = "\<lparr>m_genericPartitions = replicate (unat n) ?g, m_webAudioPartitions = replicate (unat k) ?w,
    m_dataBufferLen = 0, m_dataBufferFd = -1, m_dataBuffer = None\<rparr>"
  have "unat n < 2 ^ 31" "unat k < 2 ^ 31" using size by simp_all
  note parts = calculatePartitionSize_Some(1) [OF this(1)] calculatePartitionSize_Some(2) [OF this(2)]
  have lens: "part_len ?g = 8388608" "part_len ?w = 10240" by (simp_all add: part_len_def)
  have acc: "unat (accumulate_partitions (replicate (unat n) ?g)) = unat n * 8388608"
    "unat (accumulate_partitions (replicate (unat k) ?w)) = unat k * 10240"
    using size by (simp_all add: unat_accumulate_partitions sum_list_replicate lens)
  have total: "unat (calculateBufferSize ?s0) = unat n * 8388608 + unat k * 10240"
    using size acc by (simp add: calculateBufferSize_def unat_word_ariths)
  obtain addr where s: "s = ?s0\<lparr>m_dataBufferLen := ucast (calculateBufferSize ?s0),
      m_dataBufferFd := sys_memfd sys, m_dataBuffer := Some addr\<rparr>"
    using new by (auto simp: newSharedMemoryBuffer_def parts Let_def split: if_splits option.splits)
  have len: "unat (m_dataBufferLen s) = unat n * 8388608 + unat k * 10240"
    using total size by (simp add: s unat_ucast_down)
  moreover have "shm_inv s"
    using len by (auto simp: shm_inv_def layout_def s sum_list_replicate lens)
  ultimately show ?thesis
    by (simp add: s free_count_def partition_access_defs)
qed

section \<open>Disjointness of regions\<close>

lemma regions_disjoint:
  assumes "shm_inv s"
    and "getDataPtr t i src s = Some a" and "getDataPtr t' i' src' s = Some b"
    and "(t, i, src) \<noteq> (t', i', src')"
  shows "ranges_disjoint a (unat (getMaxDataLen t i src s)) b (unat (getMaxDataLen t' i' src' s))"
proof (cases "t = t' \<and> i = i'")
  case True
  have "src \<noteq> src'" using True assms(4) by simp
  moreover have "src \<noteq> MST_UNKNOWN" "src' \<noteq> MST_UNKNOWN"
    using assms(2,3) getDataPtr_unknown by auto
  ultimately show ?thesis
    using True assms(2,3) video_before_audio [OF assms(1), of t i]
    by (cases src; cases src') (auto simp: ranges_disjoint_def)
next
  case False
  obtain k where k: "locate t i s = Some k" "part_start (layout s) k \<le> a"
    "a + unat (getMaxDataLen t i src s) \<le> part_start (layout s) k + part_len (layout s ! k)"
    using region_in_partition [OF assms(1,2)] by blast
  obtain l where l: "locate t' i' s = Some l" "part_start (layout s) l \<le> b"
    "b + unat (getMaxDataLen t' i' src' s) \<le> part_start (layout s) l + part_len (layout s ! l)"
    using region_in_partition [OF assms(1,3)] by blast
  have "k \<noteq> l" using False locate_inj k(1) l(1) by blast
  then have "part_start (layout s) k + part_len (layout s ! k) \<le> part_start (layout s) l \<or>
    part_start (layout s) l + part_len (layout s ! l) \<le> part_start (layout s) k"
    using part_start_next locate_bound [OF k(1)] locate_bound [OF l(1)] by (meson less_imp_le nat_neq_iff)
  then show ?thesis using k l by (auto simp: ranges_disjoint_def)
qed

lemma clearData_region:
  assumes "shm_inv s" and "getDataPtr t i src s = Some a"
  shows "clearData t i src s m = (True, memset m a 0 (unat (getMaxDataLen t i src s)))"
  using assms(2)
  by (cases src) (auto simp: clearData_def getDataPtr_def getMaxDataLen_def split: option.splits if_splits)

lemma region_bounds:
  assumes "shm_inv s" and "getDataPtr t i src s = Some a"
  shows "a + unat (getMaxDataLen t i src s) \<le> unat (getSize s) \<and>
    0 < unat (getMaxDataLen t i src s) \<and>
    (\<exists>off. getDataOffset t i src s = Some off \<and> unat off = a)"
proof -
  obtain k where k: "locate t i s = Some k"
    "a + unat (getMaxDataLen t i src s) \<le> part_start (layout s) k + part_len (layout s ! k)"
    using region_in_partition [OF assms] by blast
  have le: "a + unat (getMaxDataLen t i src s) \<le> unat (m_dataBufferLen s)"
    using k part_start_bound [OF locate_bound [OF k(1)]] assms(1) by (simp add: shm_inv_def)
  have pos: "getMaxDataLen t i src s \<noteq> 0"
    using assms(2) getDataPtr_eq [OF assms(1), of t i src] by (auto split: option.splits if_splits)
  have "a < 2 ^ 32" using le unat_u32_bound [of "m_dataBufferLen s"] by linarith
  then show ?thesis
    using le pos assms(2) by (simp add: getSize_def getDataOffset_def unat_of_nat_u32 unat_gt_0)
qed

text \<open>The layout every constructed buffer has and keeps: all partitions of a type have the fixed sizes.\<close>

definition has_sizes :: "u32 \<Rightarrow> u32 \<Rightarrow> Partition \<Rightarrow> bool" where
  "has_sizes a v p \<longleftrightarrow> dataBufferAudioLen p = a \<and> dataBufferVideoLen p = v"

definition std_layout :: "SharedMemoryBuffer \<Rightarrow> bool" where
  "std_layout s \<longleftrightarrow> m_dataBuffer s \<noteq> None \<and>
     (\<forall>p \<in> set (m_genericPartitions s). has_sizes audioRegionSize videoRegionSize p) \<and>
     (\<forall>p \<in> set (m_webAudioPartitions s). has_sizes webAudioRegionSize 0 p)"

lemma update_first_all:
  "\<forall>x \<in> set xs. Q x \<Longrightarrow> (\<And>x. Q x \<Longrightarrow> Q (f x)) \<Longrightarrow> \<forall>x \<in> set (update_first P f xs). Q x"
  by (induction xs) auto

lemma std_layout_update:
  assumes "std_layout s" and "getPlaybackTypePartition t s = Some ps" and "\<And>p. dataBufferAudioLen (f p) = dataBufferAudioLen p"
    and "\<And>p. dataBufferVideoLen (f p) = dataBufferVideoLen p"
  shows "std_layout (putPlaybackTypePartition t (update_first P f ps) s)"
proof -
  have "\<forall>p \<in> set (update_first P f ps). has_sizes a v p" if "\<forall>p \<in> set ps. has_sizes a v p" for a v
    using that assms(3,4) by (intro update_first_all) (simp_all add: has_sizes_def)
  then show ?thesis
    using assms(1,2) by (auto simp: std_layout_def partition_access_defs split: if_splits)
qed

lemma mapPartition_std: "std_layout s \<Longrightarrow> std_layout (snd (mapPartition t i s))"
  by (auto simp: mapPartition_def intro!: std_layout_update split: option.splits)

lemma unmapPartition_std: "std_layout s \<Longrightarrow> std_layout (snd (unmapPartition t i s))"
  by (auto simp: unmapPartition_def intro!: std_layout_update split: option.splits)

lemma newSharedMemoryBuffer_std:
  assumes "unat n < 2 ^ 31" and "unat k < 2 ^ 31" and "newSharedMemoryBuffer sys n k = Some s"
  shows "std_layout s"
  using assms(3) calculatePartitionSize_Some(1) [OF assms(1)] calculatePartitionSize_Some(2) [OF assms(2)]
  by (auto simp: newSharedMemoryBuffer_def Let_def std_layout_def has_sizes_def split: option.splits if_splits)

text \<open>The size of a region by type and source, and that a mapped session has its regions.\<close>

fun region_size :: "MediaPlaybackType \<Rightarrow> MediaSourceType \<Rightarrow> nat" where
  "region_size GENERIC AUDIO = 1048576"
| "region_size GENERIC VIDEO = 7340032"
| "region_size WEB_AUDIO AUDIO = 10240"
| "region_size _ _ = 0"

lemma locate_mapped: "is_mapped t i s \<Longrightarrow> \<exists>k. locate t i s = Some k"
  by (cases t) (auto simp: is_mapped_def locate_def Let_def partition_access_defs first_index_less_iff)

lemma mapped_region:
  assumes "shm_inv s" and "std_layout s" and "is_mapped t i s" and "0 < region_size t src"
  shows "\<exists>a off. getDataPtr t i src s = Some a \<and> unat (getMaxDataLen t i src s) = region_size t src \<and>
    a + region_size t src \<le> unat (getSize s) \<and> getDataOffset t i src s = Some off \<and> unat off = a"
proof -
  obtain p where p: "find (has_id i) (case t of GENERIC \<Rightarrow> m_genericPartitions s | _ \<Rightarrow> m_webAudioPartitions s) = Some p"
    using assms(3) find_has_id_None [of i] by (cases t) (auto simp: is_mapped_def partition_access_defs)
  have len: "unat (getMaxDataLen t i src s) = region_size t src"
    using assms(2,4) p find_SomeE [OF p]
    by (cases t; cases src) (auto simp: getMaxDataLen_def partition_access_defs std_layout_def has_sizes_def)
  then have "getMaxDataLen t i src s \<noteq> 0" using assms(4) by auto
  then obtain a where a: "getDataPtr t i src s = Some a"
    using locate_mapped [OF assms(3)] getDataPtr_eq [OF assms(1), of t i src] by auto
  show ?thesis using region_bounds [OF assms(1) a] a len by auto
qed

section \<open>Properties\<close>

text \<open>C8. A successfully constructed buffer satisfies the invariant, has one free partition per
  playback and per web audio player, and its mapping is exactly as long as all partitions together
  (under the bound that keeps the \<open>int\<close> accumulator of the size computation from overflowing).\<close>

theorem shm_construction:
  assumes "unat n * 8388608 + unat k * 10240 < 2 ^ 31"
    and "newSharedMemoryBuffer sys n k = Some s"
  shows "shm_inv s \<and> free_count GENERIC s = unat n \<and> free_count WEB_AUDIO s = unat k \<and>
    unat (getSize s) = unat n * 8388608 + unat k * 10240"
  using newSharedMemoryBuffer_inv [OF assms] by (simp add: getSize_def)

text \<open>The two lengths of a partition, which mapping and unmapping leave alone.\<close>

definition part_sizes :: "Partition \<Rightarrow> u32 \<times> u32" where
  "part_sizes p = (dataBufferAudioLen p, dataBufferVideoLen p)"

lemma map_part_sizes_update [simp]:
  "map part_sizes (assign_first i ps) = map part_sizes ps" "map part_sizes (release_first i ps) = map part_sizes ps"
  by (simp_all add: assign_first_def release_first_def map_update_first_same part_sizes_def)

lemma first_index_update:
  "j \<noteq> i \<Longrightarrow> j \<noteq> NO_ID_ASSIGNED \<Longrightarrow> first_index (has_id j) (assign_first i ps) = first_index (has_id j) ps"
  "j \<noteq> i \<Longrightarrow> j \<noteq> NO_ID_ASSIGNED \<Longrightarrow> first_index (has_id j) (release_first i ps) = first_index (has_id j) ps"
  by (induction ps) (simp_all add: assign_first_def release_first_def)

lemma put_partition_layout:
  assumes "getPlaybackTypePartition t s = Some ps" and "map part_sizes qs = map part_sizes ps"
    and "\<And>j. j \<noteq> i \<Longrightarrow> j \<noteq> NO_ID_ASSIGNED \<Longrightarrow> first_index (has_id j) qs = first_index (has_id j) ps"
  shows "map part_sizes (layout (putPlaybackTypePartition t qs s)) = map part_sizes (layout s) \<and>
    getSize (putPlaybackTypePartition t qs s) = getSize s \<and>
    (\<forall>u j. (u, j) \<noteq> (t, i) \<and> j \<noteq> NO_ID_ASSIGNED \<longrightarrow> locate u j (putPlaybackTypePartition t qs s) = locate u j s)"
proof -
  have "length qs = length ps" using assms(2) map_eq_imp_length_eq by blast
  then show ?thesis using assms
    by (auto simp: partition_access_defs layout_def getSize_def locate_def Let_def split: if_splits MediaPlaybackType.splits)
qed

text \<open>Where the partition of an id lies and how long its parts are determine the regions handed out for it.\<close>

lemma region_eq:
  assumes "shm_inv s" and "shm_inv s'" and "map part_sizes (layout s') = map part_sizes (layout s)" and "locate u j s' = locate u j s"
  shows "getDataPtr u j src s' = getDataPtr u j src s \<and> getMaxDataLen u j src s' = getMaxDataLen u j src s"
proof -
  have len: "length (layout s') = length (layout s)" using assms(3) map_eq_imp_length_eq by blast
  have sizes: "part_sizes (layout s' ! k) = part_sizes (layout s ! k)" if "k < length (layout s)" for k
    using assms(3) that len by (metis nth_map)
  have "map part_len (layout s') = map part_len (layout s)"
    using arg_cong [OF assms(3), of "map (\<lambda>(a, v). unat v + unat a)"] by (simp add: part_sizes_def part_len_def [abs_def] comp_def)
  then have start: "part_start (layout s') k = part_start (layout s) k" for k
    by (simp add: part_start_def take_map [symmetric])
  show ?thesis
  proof (cases "locate u j s")
    case (Some k)
    then show ?thesis
      using sizes [OF locate_bound [OF Some]] start assms(4) getDataPtr_eq [OF assms(1)] getDataPtr_eq [OF assms(2)]
      by (simp add: getMaxDataLen_eq part_sizes_def split: MediaSourceType.splits)
  qed (use assms(4) getDataPtr_eq [OF assms(1)] getDataPtr_eq [OF assms(2)] in \<open>simp add: getMaxDataLen_eq\<close>)
qed

lemma operations_layout:
  assumes "s' = snd (mapPartition t i s) \<or> s' = snd (unmapPartition t i s)"
  shows "map part_sizes (layout s') = map part_sizes (layout s) \<and> getSize s' = getSize s \<and>
    (\<forall>u j. (u, j) \<noteq> (t, i) \<and> j \<noteq> NO_ID_ASSIGNED \<longrightarrow> locate u j s' = locate u j s)"
  using assms put_partition_layout [of t s _ "assign_first i _" i] put_partition_layout [of t s _ "release_first i _" i]
  by (auto simp: mapPartition_cases unmapPartition_cases first_index_update split: option.splits if_splits)

text \<open>C9. Mapping and unmapping a partition keep the buffer invariant and touch nothing else: the size of the buffer and the lengths of
  all partitions stay as they are, the regions handed out for every other id and playback type stay where they are, and
  mapping an id that has a partition changes nothing.\<close>

theorem shm_operations_keep_invariant:
  assumes "shm_inv s" and "s' = snd (mapPartition t i s) \<or> s' = snd (unmapPartition t i s)"
  shows "shm_inv s' \<and> map part_sizes (layout s') = map part_sizes (layout s) \<and> getSize s' = getSize s \<and>
    (is_mapped t i s \<longrightarrow> mapPartition t i s = (True, s)) \<and>
    (\<forall>u j src. (u, j) \<noteq> (t, i) \<and> j \<noteq> NO_ID_ASSIGNED \<longrightarrow>
      getDataPtr u j src s' = getDataPtr u j src s \<and> getMaxDataLen u j src s' = getMaxDataLen u j src s)"
proof -
  have inv: "shm_inv s'" using assms mapPartition_inv [OF assms(1)] unmapPartition_inv [OF assms(1)] by auto
  note same = operations_layout [OF assms(2)]
  then have "getDataPtr u j src s' = getDataPtr u j src s \<and> getMaxDataLen u j src s' = getMaxDataLen u j src s"
    if "(u, j) \<noteq> (t, i)" "j \<noteq> NO_ID_ASSIGNED" for u j src
    using region_eq [OF assms(1) inv] that by blast
  moreover have "is_mapped t i s \<longrightarrow> mapPartition t i s = (True, s)"
    by (auto simp: is_mapped_def mapPartition_cases split: option.splits)
  ultimately show ?thesis using inv same by blast
qed

text \<open>C10. Isolation of sessions: the byte regions the buffer hands out for two different
  (playback type, id, source) triples never overlap.\<close>

theorem shm_regions_disjoint:
  assumes "shm_inv s"
    and "getDataPtr t i src s = Some a" and "getDataPtr t' i' src' s = Some b"
    and "(t, i, src) \<noteq> (t', i', src')"
  shows "ranges_disjoint a (unat (getMaxDataLen t i src s)) b (unat (getMaxDataLen t' i' src' s))"
  using assms by (rule regions_disjoint)

text \<open>C11. No region handed out leaves the mapping, and its offset is reported without truncation.\<close>

theorem shm_region_in_bounds:
  assumes "shm_inv s" and "getDataPtr t i src s = Some a"
  shows "a + unat (getMaxDataLen t i src s) \<le> unat (getSize s) \<and>
    0 < unat (getMaxDataLen t i src s) \<and>
    (\<exists>off. getDataOffset t i src s = Some off \<and> unat off = a)"
  using assms by (rule region_bounds)

text \<open>Clearing the data of a source zeroes exactly the region handed out for it, and never a
  byte of another region.\<close>

theorem shm_clearData_exact:
  assumes "shm_inv s" and "getDataPtr t i src s = Some a"
  shows "clearData t i src s m = (True, memset m a 0 (unat (getMaxDataLen t i src s))) \<and>
    (getDataPtr t' i' src' s = Some b \<and> (t, i, src) \<noteq> (t', i', src') \<longrightarrow>
      read_bytes (snd (clearData t i src s m)) b (unat (getMaxDataLen t' i' src' s)) =
        read_bytes m b (unat (getMaxDataLen t' i' src' s)))"
  using clearData_region [OF assms] regions_disjoint [OF assms(1) _ assms(2), of t' i' src' b]
  by (auto simp: mem_simps)

text \<open>Capacity: a list of distinct, not yet mapped session ids can be mapped one after the other
  exactly if there are at least as many free partitions of the type.\<close>

theorem shm_capacity:
  assumes "distinct is" and "\<forall>i \<in> set is. i \<noteq> NO_ID_ASSIGNED \<and> \<not> is_mapped t i s"
  shows "fst (run_all (mapPartition t) is s) \<longleftrightarrow> length is \<le> free_count t s"
  using assms by (rule shm.run_all_capacity)

text \<open>Ending a session gives its partition back: mapping a fresh id and unmapping it leaves every
  mapping and the number of free partitions as they were.\<close>

theorem shm_map_unmap_restores:
  assumes "shm_inv s" and "i \<noteq> NO_ID_ASSIGNED" and "\<not> is_mapped t i s" and "fst (mapPartition t i s)"
  shows "is_mapped t' j (snd (unmapPartition t i (snd (mapPartition t i s)))) = is_mapped t' j s \<and>
    free_count t (snd (unmapPartition t i (snd (mapPartition t i s)))) = free_count t s"
  using shm.map_then_unmap [OF assms(1,2,4,3)] by blast

section \<open>Witnesses\<close>

definition demo_sys :: ShmSyscalls where
  "demo_sys = \<lparr>sys_memfd = 5, sys_ftruncate = (\<lambda>_. True), sys_seal = True, sys_mmap = (\<lambda>_. Some 65536)\<rparr>"

definition demo_shm :: SharedMemoryBuffer where
  "demo_shm =
     \<lparr>m_genericPartitions =
        replicate 2 \<lparr>part_id = NO_ID_ASSIGNED, dataBufferAudioLen = audioRegionSize,
          dataBufferVideoLen = videoRegionSize\<rparr>,
      m_webAudioPartitions =
        replicate 1 \<lparr>part_id = NO_ID_ASSIGNED, dataBufferAudioLen = webAudioRegionSize,
          dataBufferVideoLen = 0\<rparr>,
      m_dataBufferLen = 16787456, m_dataBufferFd = 5, m_dataBuffer = Some 65536\<rparr>"

definition demo_shm_mapped :: SharedMemoryBuffer where
  "demo_shm_mapped = snd (mapPartition GENERIC 8 (snd (mapPartition GENERIC 7 demo_shm)))"

lemma demo_new: "newSharedMemoryBuffer demo_sys 2 1 = Some demo_shm"
  by (simp add: newSharedMemoryBuffer_def demo_sys_def demo_shm_def calculatePartitionSize_def
      Let_def calculateBufferSize_def accumulate_partitions_def accumulate_step_def replicate_2
      audioRegionSize_def videoRegionSize_def webAudioRegionSize_def)

lemma demo_shm_inv: "shm_inv demo_shm"
  using newSharedMemoryBuffer_inv [OF _ demo_new] by simp

lemma demo_shm_std: "std_layout demo_shm"
  by (rule newSharedMemoryBuffer_std [OF _ _ demo_new]) simp_all

lemma demo_shm_mapped_inv: "shm_inv demo_shm_mapped"
  unfolding demo_shm_mapped_def by (intro mapPartition_inv demo_shm_inv)

lemma demo_shm_mapped_eq:
  "demo_shm_mapped = demo_shm\<lparr>m_genericPartitions :=
     [\<lparr>part_id = 7, dataBufferAudioLen = audioRegionSize, dataBufferVideoLen = videoRegionSize\<rparr>,
      \<lparr>part_id = 8, dataBufferAudioLen = audioRegionSize, dataBufferVideoLen = videoRegionSize\<rparr>]\<rparr>"
  by (simp add: demo_shm_mapped_def demo_shm_def mapPartition_def partition_access_defs replicate_2
      NO_ID_ASSIGNED_def)

lemmas demo_eval = demo_shm_mapped_eq demo_shm_def getDataPtr_def getMaxDataLen_def getDataOffset_def
  getDataPtrForPartition_def partition_access_defs audioRegionSize_def videoRegionSize_def
  webAudioRegionSize_def getSize_def

lemma demo_ptrs:
  "getDataPtr GENERIC 7 AUDIO demo_shm_mapped = Some 7340032"
  "getDataPtr GENERIC 8 VIDEO demo_shm_mapped = Some 8388608"
  by (simp_all add: demo_eval)

theorem shm_construction_witness:
  "newSharedMemoryBuffer demo_sys 2 1 = Some demo_shm \<and> shm_inv demo_shm \<and>
    free_count GENERIC demo_shm = 2 \<and> unat (getSize demo_shm) = 16787456"
  using shm_construction [OF _ demo_new] demo_new by simp

theorem shm_operations_keep_invariant_witness:
  "getDataPtr GENERIC 8 VIDEO (snd (unmapPartition GENERIC 7 demo_shm_mapped)) = Some 8388608 \<and>
    getDataPtr GENERIC 8 VIDEO (snd (mapPartition GENERIC 9 demo_shm_mapped)) = Some 8388608"
proof -
  have "getDataPtr GENERIC 8 VIDEO (snd (unmapPartition GENERIC 7 demo_shm_mapped)) = Some 8388608"
    using shm_operations_keep_invariant [OF demo_shm_mapped_inv disjI2, OF refl, of GENERIC 7] demo_ptrs(2) by (simp add: NO_ID_ASSIGNED_def)
  moreover have "getDataPtr GENERIC 8 VIDEO (snd (mapPartition GENERIC 9 demo_shm_mapped)) = Some 8388608"
    using shm_operations_keep_invariant [OF demo_shm_mapped_inv disjI1, OF refl, of GENERIC 9] demo_ptrs(2) by (simp add: NO_ID_ASSIGNED_def)
  ultimately show ?thesis ..
qed

theorem shm_regions_disjoint_witness:
  "ranges_disjoint 7340032 (unat (getMaxDataLen GENERIC 7 AUDIO demo_shm_mapped))
     8388608 (unat (getMaxDataLen GENERIC 8 VIDEO demo_shm_mapped))"
  using shm_regions_disjoint [OF demo_shm_mapped_inv demo_ptrs] by simp

theorem shm_region_in_bounds_witness:
  "8388608 + unat (getMaxDataLen GENERIC 8 VIDEO demo_shm_mapped) \<le> unat (getSize demo_shm_mapped)"
  using shm_region_in_bounds [OF demo_shm_mapped_inv demo_ptrs(2)] by simp

theorem shm_clearData_exact_witness:
  "clearData GENERIC 7 AUDIO demo_shm_mapped (\<lambda>_. 1) =
     (True, memset (\<lambda>_. 1) 7340032 0 (unat (getMaxDataLen GENERIC 7 AUDIO demo_shm_mapped)))"
  using shm_clearData_exact [OF demo_shm_mapped_inv demo_ptrs(1), where m = "\<lambda>_. 1"] by simp

theorem shm_capacity_witness:
  "fst (run_all (mapPartition GENERIC) [10, 11] demo_shm) \<and>
    \<not> fst (run_all (mapPartition GENERIC) [10, 11, 12] demo_shm)"
  using shm_capacity [of "[10, 11]" GENERIC demo_shm] shm_capacity [of "[10, 11, 12]" GENERIC demo_shm]
  by (simp add: is_mapped_def free_count_def demo_shm_def partition_access_defs NO_ID_ASSIGNED_def)

theorem shm_map_unmap_restores_witness:
  "free_count GENERIC (snd (unmapPartition GENERIC 10 (snd (mapPartition GENERIC 10 demo_shm)))) = 2"
proof -
  have "fst (mapPartition GENERIC 10 demo_shm)" "\<not> is_mapped GENERIC 10 demo_shm"
    "free_count GENERIC demo_shm = 2"
    by (simp_all add: mapPartition_def is_mapped_def free_count_def demo_shm_def partition_access_defs
        NO_ID_ASSIGNED_def replicate_2)
  then show ?thesis
    using shm_map_unmap_restores [OF demo_shm_inv, of 10 GENERIC] by (simp add: NO_ID_ASSIGNED_def)
qed

end
