(* ===== verification/Frame_Interface.thy ===== *)
theory Frame_Interface
  imports Media_Common
begin

text \<open>
  The interface between the client's frame writers and the server's frame readers
  (\<open>IMediaFrameWriter\<close>, \<open>IDataReader\<close>): what a metadata format has to promise so that the frames a
  client writes into shared memory arrive at the server.
\<close>

text \<open>
  \<open>start\<close> is the constructor of a writer, \<open>add\<close> writes one frame, \<open>read\<close> reads a number of frames of a
  source type back. \<open>written info segs st\<close> says that \<open>st\<close> is a writer state in which exactly the
  frames \<open>segs\<close> have been written; \<open>fits\<close> is the space condition and \<open>view\<close> what survives of a segment.
\<close>

locale frame_format =
  fixes start :: "MediaPlayerShmInfo \<Rightarrow> mem \<Rightarrow> 'st"
    and add :: "MediaSegment \<Rightarrow> 'st \<Rightarrow> bool \<times> 'st"
    and read :: "MediaSourceType \<Rightarrow> MediaPlayerShmInfo \<Rightarrow> 'st \<Rightarrow> MediaSegment list"
    and info_ok :: "MediaPlayerShmInfo \<Rightarrow> bool"
    and fits :: "MediaPlayerShmInfo \<Rightarrow> MediaSegment list \<Rightarrow> bool"
    and writable :: "MediaSegment \<Rightarrow> bool"
    and view :: "MediaSegment \<Rightarrow> MediaSegment"
    and written :: "MediaPlayerShmInfo \<Rightarrow> MediaSegment list \<Rightarrow> 'st \<Rightarrow> bool"
  assumes start_written: "info_ok info \<Longrightarrow> written info [] (start info m)"
    and add_written: "info_ok info \<Longrightarrow> written info segs st \<Longrightarrow> \<forall>s \<in> set segs. writable s \<Longrightarrow> writable seg \<Longrightarrow>
      fits info (segs @ [seg]) \<Longrightarrow> \<exists>st'. add seg st = (True, st') \<and> written info (segs @ [seg]) st'"
    and read_written: "info_ok info \<Longrightarrow> written info segs st \<Longrightarrow>
      \<forall>seg \<in> set segs. writable seg \<and> m_type seg = t \<Longrightarrow> read t info st = map view segs"
    and fits_prefix: "fits info (xs @ ys) \<Longrightarrow> fits info xs"
begin

lemma add_all_written:
  assumes "info_ok info" and "written info segs st" and "\<forall>seg \<in> set (segs @ new). writable seg"
    and "fits info (segs @ new)"
  shows "\<exists>st'. run_all add new st = (True, st') \<and> written info (segs @ new) st'"
  using assms(2-)
proof (induction new arbitrary: segs st)
  case Nil
  then show ?case by simp
next
  case (Cons seg new)
  have "fits info (segs @ [seg])" using Cons.prems(3) fits_prefix [of info "segs @ [seg]" new] by simp
  then obtain st1 where one: "add seg st = (True, st1)" and wr: "written info (segs @ [seg]) st1"
    using add_written [OF assms(1) Cons.prems(1)] Cons.prems by auto
  then obtain st' where "run_all add new st1 = (True, st')" "written info ((segs @ [seg]) @ new) st'"
    using Cons.IH [OF wr] Cons.prems by auto
  with one show ?case by auto
qed

text \<open>All frames that fit are accepted, and reading gives back what was written, in order.\<close>

lemma write_read:
  assumes "info_ok info" and "\<forall>seg \<in> set segs. writable seg \<and> m_type seg = t" and "fits info segs"
  shows "\<exists>st. run_all add segs (start info m) = (True, st) \<and> written info segs st \<and>
    read t info st = map view segs"
proof -
  obtain st where "run_all add segs (start info m) = (True, st)" "written info segs st"
    using add_all_written [OF assms(1) start_written [OF assms(1)], of segs] assms by auto
  with read_written [OF assms(1)] assms(2) show ?thesis by blast
qed

end

end
