(* ===== verification/Byte_Writer.thy ===== *)
theory Byte_Writer
  imports Rialto_Prelude
begin

unbundle bit_operations_syntax

text \<open>
  The byte writer of \<open>media/common/source/ByteWriter.cpp\<close> and the little-endian readers the
  server uses. Every operation takes the buffer and the offset and returns the changed buffer and the
  new offset; offsets are \<open>size_t\<close> values.
\<close>

section \<open>Operations\<close>

definition writeByte :: "mem \<Rightarrow> nat \<Rightarrow> u8 \<Rightarrow> mem \<times> nat" where
  "writeByte buf off byte = (buf(off := byte), off + 1)"

definition writeBytes :: "mem \<Rightarrow> nat \<Rightarrow> u8 list \<Rightarrow> nat \<Rightarrow> mem \<times> nat" where
  "writeBytes buf off bytes count =
     (if count \<noteq> 0 then write_bytes buf off (take count bytes) else buf, off + count)"

definition fillBytes :: "mem \<Rightarrow> nat \<Rightarrow> u8 \<Rightarrow> nat \<Rightarrow> mem \<times> nat" where
  "fillBytes buf off byte count = (if count \<noteq> 0 then memset buf off byte count else buf, off + count)"

definition writeUint32 :: "mem \<Rightarrow> nat \<Rightarrow> u32 \<Rightarrow> mem \<times> nat" where
  "writeUint32 buf off val =
     (buf(off := ucast (drop_bit 0 (val AND 0x000000ff)),
          off + 1 := ucast (drop_bit 8 (val AND 0x0000ff00)),
          off + 2 := ucast (drop_bit 16 (val AND 0x00ff0000)),
          off + 3 := ucast (drop_bit 24 (val AND 0xff000000))), off + 4)"

definition writeInt64 :: "mem \<Rightarrow> nat \<Rightarrow> i64 \<Rightarrow> mem \<times> nat" where
  "writeInt64 buf off val =
     (buf(off := ucast (drop_bit 0 (val AND 0x00000000000000ff)),
          off + 1 := ucast (drop_bit 8 (val AND 0x000000000000ff00)),
          off + 2 := ucast (drop_bit 16 (val AND 0x0000000000ff0000)),
          off + 3 := ucast (drop_bit 24 (val AND 0x00000000ff000000)),
          off + 4 := ucast (drop_bit 32 (val AND 0x000000ff00000000)),
          off + 5 := ucast (drop_bit 40 (val AND 0x0000ff0000000000)),
          off + 6 := ucast (drop_bit 48 (val AND 0x00ff000000000000)),
          off + 7 := ucast (drop_bit 56 (val AND 0xff00000000000000))), off + 8)"

text \<open>The C string is given by its bytes; the loop stops at the first NUL, which it writes too.\<close>

fun writeCString :: "mem \<Rightarrow> nat \<Rightarrow> u8 list \<Rightarrow> mem \<times> nat" where
  "writeCString buf off [] = (buf(off := 0), off + 1)"
| "writeCString buf off (c # str) =
     (if c = 0 then (buf(off := 0), off + 1) else writeCString (buf(off := c)) (off + 1) str)"

text \<open>\<open>readLEUint32\<close> of \<open>DataReaderFactory.cpp\<close>; also what reading a \<open>uint32_t\<close> or \<open>int64_t\<close> through
  a pointer does on the little-endian targets.\<close>

definition readLEUint32 :: "mem \<Rightarrow> nat \<Rightarrow> u32" where
  "readLEUint32 buf off =
     push_bit 24 (ucast (buf (off + 3))) OR push_bit 16 (ucast (buf (off + 2)))
     OR push_bit 8 (ucast (buf (off + 1))) OR ucast (buf off)"

definition readLEInt64 :: "mem \<Rightarrow> nat \<Rightarrow> i64" where
  "readLEInt64 buf off =
     push_bit 32 (ucast (readLEUint32 buf (off + 4))) OR ucast (readLEUint32 buf off)"

section \<open>Reference encodings\<close>

definition le32 :: "u32 \<Rightarrow> u8 list" where
  "le32 v = map (\<lambda>k. ucast (drop_bit (8 * k) v)) [0..<4]"

definition le64 :: "u64 \<Rightarrow> u8 list" where
  "le64 v = map (\<lambda>k. ucast (drop_bit (8 * k) v)) [0..<8]"

lemma length_le [simp]: "length (le32 v) = 4" "length (le64 w) = 8"
  by (simp_all add: le32_def le64_def)

text \<open>Masking a byte and shifting it down is shifting and truncating.\<close>

lemma ucast_drop_mask:
  fixes v :: "'a::len word"
  shows "(ucast (drop_bit k (v AND push_bit k (mask 8))) :: u8) = ucast (drop_bit k v)"
  by (rule bit_word_eqI) (auto simp: bit_simps dest: bit_imp_le_length)

lemma upt_le [simp]: "[0..<4] = [0, 1, 2, 3 :: nat]" "[0..<8] = [0, 1, 2, 3, 4, 5, 6, 7 :: nat]"
  by (simp_all add: upt_rec)

lemma writeUint32_eq: "writeUint32 buf off v = (write_bytes buf off (le32 v), off + 4)"
proof -
  have "ucast (drop_bit 0 (v AND 0x000000ff)) = (ucast (drop_bit 0 v) :: u8)"
    "ucast (drop_bit 8 (v AND 0x0000ff00)) = (ucast (drop_bit 8 v) :: u8)"
    "ucast (drop_bit 16 (v AND 0x00ff0000)) = (ucast (drop_bit 16 v) :: u8)"
    "ucast (drop_bit 24 (v AND 0xff000000)) = (ucast (drop_bit 24 v) :: u8)"
    using ucast_drop_mask [of 0 v] ucast_drop_mask [of 8 v] ucast_drop_mask [of 16 v]
      ucast_drop_mask [of 24 v] by (simp_all add: push_bit_eq_mult mask_numeral)
  then show ?thesis
    by (auto simp: writeUint32_def le32_def write_bytes_def fun_eq_iff nth_Cons' numeral_eq_Suc
        simp del: drop_bit_0)
qed

lemma writeInt64_eq: "writeInt64 buf off v = (write_bytes buf off (le64 v), off + 8)"
proof -
  have "ucast (drop_bit 0 (v AND 0x00000000000000ff)) = (ucast (drop_bit 0 v) :: u8)"
    "ucast (drop_bit 8 (v AND 0x000000000000ff00)) = (ucast (drop_bit 8 v) :: u8)"
    "ucast (drop_bit 16 (v AND 0x0000000000ff0000)) = (ucast (drop_bit 16 v) :: u8)"
    "ucast (drop_bit 24 (v AND 0x00000000ff000000)) = (ucast (drop_bit 24 v) :: u8)"
    "ucast (drop_bit 32 (v AND 0x000000ff00000000)) = (ucast (drop_bit 32 v) :: u8)"
    "ucast (drop_bit 40 (v AND 0x0000ff0000000000)) = (ucast (drop_bit 40 v) :: u8)"
    "ucast (drop_bit 48 (v AND 0x00ff000000000000)) = (ucast (drop_bit 48 v) :: u8)"
    "ucast (drop_bit 56 (v AND 0xff00000000000000)) = (ucast (drop_bit 56 v) :: u8)"
    using ucast_drop_mask [of 0 v] ucast_drop_mask [of 8 v] ucast_drop_mask [of 16 v]
      ucast_drop_mask [of 24 v] ucast_drop_mask [of 32 v] ucast_drop_mask [of 40 v]
      ucast_drop_mask [of 48 v] ucast_drop_mask [of 56 v]
    by (simp_all add: push_bit_eq_mult mask_numeral)
  then show ?thesis
    by (auto simp: writeInt64_def le64_def write_bytes_def fun_eq_iff nth_Cons' numeral_eq_Suc
        simp del: drop_bit_0)
qed

lemma writeBytes_eq: "length bs = n \<Longrightarrow> writeBytes buf off bs n = (write_bytes buf off bs, off + n)"
  by (auto simp: writeBytes_def)

lemma fillBytes_eq: "fillBytes buf off b n = (write_bytes buf off (replicate n b), off + n)"
  by (simp add: fillBytes_def memset_eq_write)

lemma writeCString_eq:
  "0 \<notin> set cs \<Longrightarrow> writeCString buf off cs = (write_bytes buf off (cs @ [0]), off + length cs + 1)"
proof (induction cs arbitrary: buf off)
  case Nil
  then show ?case by (simp add: write_bytes_single)
next
  case (Cons c cs)
  then show ?case
    using write_bytes_append [of buf off "[c]" "cs @ [0]"] by (simp add: write_bytes_single)
qed

section \<open>Reading back\<close>

lemma ucast_bytes32:
  "(push_bit 24 (ucast (ucast (drop_bit 24 v) :: u8)) OR push_bit 16 (ucast (ucast (drop_bit 16 v) :: u8))
    OR push_bit 8 (ucast (ucast (drop_bit 8 v) :: u8)) OR ucast (ucast v :: u8)) = (v :: u32)" (is "?l = v")
proof (rule bit_word_eqI)
  fix n assume "n < LENGTH(32)"
  then have "n < 8 \<or> (8 \<le> n \<and> n < 16) \<or> (16 \<le> n \<and> n < 24) \<or> (24 \<le> n \<and> n < 32)" by auto
  then show "bit ?l n = bit v n"
    by (auto simp: bit_simps)
qed

lemma bytes_nth: "read_bytes m p n = bs \<Longrightarrow> k < n \<Longrightarrow> m (p + k) = bs ! k"
  by auto

lemma readLEUint32_le32:
  assumes "read_bytes m p 4 = le32 v"
  shows "readLEUint32 m p = v"
  using bytes_nth [OF assms, of 0] bytes_nth [OF assms, of 1] bytes_nth [OF assms, of 2]
    bytes_nth [OF assms, of 3] ucast_bytes32 [of v]
  by (simp add: readLEUint32_def le32_def numeral_2_eq_2 numeral_3_eq_3)

lemma ucast_halves64: "(push_bit 32 (ucast (ucast (drop_bit 32 v) :: u32)) OR ucast (ucast v :: u32)) = (v :: u64)"
  (is "?l = v")
proof (rule bit_word_eqI)
  fix n assume "n < LENGTH(64)"
  then have "n < 32 \<or> (32 \<le> n \<and> n < 64)" by auto
  then show "bit ?l n = bit v n"
    by (auto simp: bit_simps)
qed

lemma ucast_drop_ucast:
  "k + 8 \<le> 32 \<Longrightarrow> (ucast (drop_bit k (ucast (v :: u64) :: u32)) :: u8) = ucast (drop_bit k v)"
  by (rule bit_word_eqI) (auto simp: bit_simps)

lemma le64_split: "le64 v = le32 (ucast v) @ le32 (ucast (drop_bit 32 v))"
  using ucast_drop_ucast [of 0 v] ucast_drop_ucast [of 8 v] ucast_drop_ucast [of 16 v]
    ucast_drop_ucast [of 24 v] ucast_drop_ucast [of 0 "drop_bit 32 v"] ucast_drop_ucast [of 8 "drop_bit 32 v"]
    ucast_drop_ucast [of 16 "drop_bit 32 v"] ucast_drop_ucast [of 24 "drop_bit 32 v"]
  by (simp add: le64_def le32_def drop_bit_drop_bit)

lemma readLEInt64_le64:
  assumes "read_bytes m p 8 = le64 v"
  shows "readLEInt64 m p = v"
proof -
  have "read_bytes m p 4 @ read_bytes m (p + 4) 4 = le32 (ucast v) @ le32 (ucast (drop_bit 32 v))"
    using assms read_bytes_add [of m p 4 4] by (simp add: le64_split)
  then have "read_bytes m p 4 = le32 (ucast v)" "read_bytes m (p + 4) 4 = le32 (ucast (drop_bit 32 v))"
    by simp_all
  then show ?thesis
    using ucast_halves64 [of v] by (simp add: readLEInt64_def readLEUint32_le32)
qed

text \<open>A read of a concatenation is the concatenation of the reads.\<close>

lemma read_bytes_append:
  "read_bytes m p (length xs + n) = xs @ ys \<longleftrightarrow>
    read_bytes m p (length xs) = xs \<and> read_bytes m (p + length xs) n = ys"
  by (auto simp: read_bytes_add)

end
