(* ===== verification/Frame_V1.thy ===== *)
theory Frame_V1
  imports Frame_Interface Byte_Writer
begin

text \<open>
  Media frames in metadata format version 1: the client's writer
  (\<open>media/common/source/MediaFrameWriterV1.cpp\<close>) and the server's reader
  (\<open>media/server/main/source/DataReaderV1.cpp\<close>). Both work on the shared buffer, a \<open>mem\<close> that is
  passed along explicitly.
\<close>

section \<open>Constants\<close>

definition VERSION_SIZE_BYTES :: u32 where "VERSION_SIZE_BYTES = 4"
definition MAX_EXTRA_DATA_SIZE :: u32 where "MAX_EXTRA_DATA_SIZE = 32"
definition METADATA_V1_SIZE_PER_FRAME_BYTES :: u32 where "METADATA_V1_SIZE_PER_FRAME_BYTES = 104"
definition kMetadataVersionV1 :: u32 where "kMetadataVersionV1 = 1"
definition kEncryptionMetadataSizeBytes :: u32 where "kEncryptionMetadataSizeBytes = 32"

section \<open>The writer\<close>

record MediaFrameWriterV1 =
  w1_maxMediaBytes :: u32
  w1_maxMetadataBytes :: u32
  w1_metadataBytesWritten :: u32
  w1_mediaBytesWritten :: u32
  w1_mediaDataOffset :: u32
  w1_metadataOffset :: u32
  w1_numFrames :: u32

type_synonym writer1_state = "mem \<times> MediaFrameWriterV1"

text \<open>\<open>m_metadataOffset = m_bytewriter.op(m_shmBuffer, m_metadataOffset, ...)\<close>: the returned \<open>size_t\<close>
  is narrowed to the \<open>uint32_t\<close> member.\<close>

definition write_metadata1 :: "(mem \<Rightarrow> nat \<Rightarrow> mem \<times> nat) \<Rightarrow> writer1_state \<Rightarrow> writer1_state" where
  "write_metadata1 write_op st =
     (let (m, w) = st; (m', off) = write_op m (unat (w1_metadataOffset w))
      in (m', w\<lparr>w1_metadataOffset := of_nat off\<rparr>))"

definition newMediaFrameWriterV1 :: "MediaPlayerShmInfo \<Rightarrow> mem \<Rightarrow> writer1_state" where
  "newMediaFrameWriterV1 shmInfo m =
     (let w = \<lparr>w1_maxMediaBytes = maxMediaBytes shmInfo, w1_maxMetadataBytes = maxMetadataBytes shmInfo,
               w1_metadataBytesWritten = 0, w1_mediaBytesWritten = 0,
               w1_mediaDataOffset = mediaDataOffset shmInfo, w1_metadataOffset = metadataOffset shmInfo,
               w1_numFrames = 0\<rparr>;
          (m, _) = fillBytes m (unat (w1_metadataOffset w)) 0 (unat (w1_maxMetadataBytes w));
          (m, w) = write_metadata1 (\<lambda>m off. writeUint32 m off kMetadataVersionV1) (m, w)
      in (m, w\<lparr>w1_metadataBytesWritten := 4\<rparr>))"

definition writeMetaDataGeneric :: "MediaSegment \<Rightarrow> writer1_state \<Rightarrow> bool \<times> writer1_state" where
  "writeMetaDataGeneric data st =
     (let (m, w) = st in
      if w1_metadataBytesWritten w + METADATA_V1_SIZE_PER_FRAME_BYTES > w1_maxMetadataBytes w
      then (False, st)
      else
        let st = write_metadata1 (\<lambda>m off. writeUint32 m off (w1_mediaDataOffset w)) st;
            st = write_metadata1 (\<lambda>m off. writeUint32 m off (m_dataLength data)) st;
            st = write_metadata1 (\<lambda>m off. writeInt64 m off (m_timeStamp data)) st;
            st = write_metadata1 (\<lambda>m off. writeInt64 m off (m_duration data)) st;
            st = write_metadata1 (\<lambda>m off. writeUint32 m off (m_sourceId data)) st;
            st = write_metadata1 (\<lambda>m off. writeUint32 m off (of_nat (length (m_extraData data)))) st;
            st = (if 0 \<noteq> length (m_extraData data)
                  then write_metadata1 (\<lambda>m off. writeBytes m off (m_extraData data) (length (m_extraData data))) st
                  else st);
            st = write_metadata1 (\<lambda>m off. fillBytes m off 0
                   (size_t_minus (unat MAX_EXTRA_DATA_SIZE) (length (m_extraData data)))) st;
            (m, w) = st
        in (True, (m, w\<lparr>w1_metadataOffset := w1_metadataOffset w + kEncryptionMetadataSizeBytes\<rparr>)))"

text \<open>A failing \<open>dynamic_cast\<close> throws \<open>std::bad_cast\<close>, which the function catches and reports as
  \<open>false\<close>.\<close>

definition writeMetaDataTypeSpecific :: "MediaSegment \<Rightarrow> writer1_state \<Rightarrow> bool \<times> writer1_state" where
  "writeMetaDataTypeSpecific data st =
     (case m_type data of
        AUDIO \<Rightarrow>
          (case m_class data of
             AudioSegment sampleRate numberOfChannels \<Rightarrow>
               (True, write_metadata1 (\<lambda>m off. writeUint32 m off numberOfChannels)
                        (write_metadata1 (\<lambda>m off. writeUint32 m off sampleRate) st))
           | _ \<Rightarrow> (False, st))
      | VIDEO \<Rightarrow>
          (case m_class data of
             VideoSegment width height \<Rightarrow>
               (True, write_metadata1 (\<lambda>m off. writeUint32 m off height)
                        (write_metadata1 (\<lambda>m off. writeUint32 m off width) st))
           | _ \<Rightarrow> (False, st))
      | MST_UNKNOWN \<Rightarrow> (False, st))"

definition writeData :: "MediaSegment \<Rightarrow> writer1_state \<Rightarrow> bool \<times> writer1_state" where
  "writeData data st =
     (let (m, w) = st in
      if w1_mediaBytesWritten w + m_dataLength data > w1_maxMediaBytes w
      then (False, st)
      else
        let (m, off) = writeBytes m (unat (w1_mediaDataOffset w)) (payload data) (unat (m_dataLength data))
        in (True, (m, w\<lparr>w1_mediaDataOffset := of_nat off,
                        w1_mediaBytesWritten := w1_mediaBytesWritten w + m_dataLength data\<rparr>)))"

definition writeFrameV1 :: "MediaSegment \<Rightarrow> writer1_state \<Rightarrow> AddSegmentStatus \<times> writer1_state" where
  "writeFrameV1 data st =
     (let (ok, st) = writeMetaDataGeneric data st in
      if \<not> ok then (ASS_NO_SPACE, st)
      else
        let (ok, st) = writeData data st in
        if \<not> ok then (ASS_NO_SPACE, st)
        else
          let (ok, st) = writeMetaDataTypeSpecific data st in
          if \<not> ok then (ASS_ERROR, st)
          else
            let (m, w) = st in
            (ASS_OK, (m, w\<lparr>w1_numFrames := w1_numFrames w + 1,
                           w1_metadataBytesWritten :=
                             w1_metadataBytesWritten w + METADATA_V1_SIZE_PER_FRAME_BYTES\<rparr>)))"

definition getNumFramesV1 :: "MediaFrameWriterV1 \<Rightarrow> u32" where
  "getNumFramesV1 w = w1_numFrames w"

section \<open>The reader\<close>

record MetadataV1 =
  md1_offset :: u32
  md1_length :: u32
  md1_timePosition :: i64
  md1_sampleDuration :: i64
  md1_streamId :: u32
  md1_extraDataSize :: u32
  md1_extraData :: "u8 list"
  md1_mediaKeysId :: u32
  md1_mediaKeySessionIdentifierOffset :: u32
  md1_mediaKeySessionIdentifierLength :: u32
  md1_initVectorOffset :: u32
  md1_initVectorLength :: u32
  md1_subSampleInfoOffset :: u32
  md1_subSampleInfoLen :: u32
  md1_initWithLast15 :: u32
  md1_extra1 :: u32
  md1_extra2 :: u32

text \<open>Dereferencing the pointer \<open>reinterpret_cast\<close> makes of a frame's metadata address: the
  fields in declaration order, without padding (the size is asserted to be 104).\<close>

definition derefMetadataV1 :: "mem \<Rightarrow> nat \<Rightarrow> MetadataV1" where
  "derefMetadataV1 m p =
     \<lparr>md1_offset = readLEUint32 m p, md1_length = readLEUint32 m (p + 4),
      md1_timePosition = readLEInt64 m (p + 8), md1_sampleDuration = readLEInt64 m (p + 16),
      md1_streamId = readLEUint32 m (p + 24), md1_extraDataSize = readLEUint32 m (p + 28),
      md1_extraData = read_bytes m (p + 32) 32, md1_mediaKeysId = readLEUint32 m (p + 64),
      md1_mediaKeySessionIdentifierOffset = readLEUint32 m (p + 68),
      md1_mediaKeySessionIdentifierLength = readLEUint32 m (p + 72),
      md1_initVectorOffset = readLEUint32 m (p + 76), md1_initVectorLength = readLEUint32 m (p + 80),
      md1_subSampleInfoOffset = readLEUint32 m (p + 84), md1_subSampleInfoLen = readLEUint32 m (p + 88),
      md1_initWithLast15 = readLEUint32 m (p + 92), md1_extra1 = readLEUint32 m (p + 96),
      md1_extra2 = readLEUint32 m (p + 100)\<rparr>"

record DataReaderV1 =
  r1_mediaSourceType :: MediaSourceType
  r1_metadataOffset :: u32
  r1_numFrames :: u32

definition readMetadata :: "DataReaderV1 \<Rightarrow> mem \<Rightarrow> MetadataV1 list" where
  "readMetadata r m =
     map (\<lambda>frame. derefMetadataV1 m (unat (r1_metadataOffset r) +
            unat ((of_nat frame :: u32) * METADATA_V1_SIZE_PER_FRAME_BYTES)))
       [0..<unat (r1_numFrames r)]"

text \<open>\<open>createSegment<SegmentType>\<close>: \<open>mk\<close> is the constructor of the segment type. The copy of the extra
  data takes \<open>extraDataSize\<close> bytes of the 32-byte array.\<close>

definition createSegmentV1 :: "(i32 \<Rightarrow> i64 \<Rightarrow> i64 \<Rightarrow> i32 \<Rightarrow> i32 \<Rightarrow> MediaSegment) \<Rightarrow> mem \<Rightarrow> MetadataV1 \<Rightarrow> MediaSegment" where
  "createSegmentV1 mk m metadata =
     (let seg = mk 0 (md1_timePosition metadata) (md1_sampleDuration metadata)
                  (md1_extra1 metadata) (md1_extra2 metadata);
          seg = setData (md1_length metadata)
                  (Some (read_bytes m (unat (md1_offset metadata)) (unat (md1_length metadata)))) seg;
          extraDataVec = take (unat (md1_extraDataSize metadata)) (md1_extraData metadata)
      in seg\<lparr>m_extraData := extraDataVec, m_encrypted := False\<rparr>)"

definition readDataV1 :: "DataReaderV1 \<Rightarrow> mem \<Rightarrow> MediaSegment list" where
  "readDataV1 r m =
     concat (map (\<lambda>metadata.
         if r1_mediaSourceType r = AUDIO then [createSegmentV1 newMediaSegmentAudio m metadata]
         else if r1_mediaSourceType r = VIDEO then [createSegmentV1 newMediaSegmentVideo m metadata]
         else [])
       (readMetadata r m))"

section \<open>Specification\<close>

text \<open>The bytes of a frame's metadata: the generic part, 32 untouched bytes, the type-specific part.\<close>

definition header1 :: "u32 \<Rightarrow> MediaSegment \<Rightarrow> u8 list" where
  "header1 dataOff seg =
     le32 dataOff @ le32 (m_dataLength seg) @ le64 (m_timeStamp seg) @ le64 (m_duration seg) @
     le32 (m_sourceId seg) @ le32 (of_nat (length (m_extraData seg))) @ m_extraData seg @
     replicate (32 - length (m_extraData seg)) 0"

fun class_params :: "SegmentClass \<Rightarrow> i32 \<times> i32" where
  "class_params PlainSegment = (0, 0)"
| "class_params (AudioSegment r c) = (r, c)"
| "class_params (VideoSegment w h) = (w, h)"

definition trailer1 :: "MediaSegment \<Rightarrow> u8 list" where
  "trailer1 seg = le32 (fst (class_params (m_class seg))) @ le32 (snd (class_params (m_class seg)))"

text \<open>The frame stands in memory: metadata at \<open>p\<close>, payload at \<open>d\<close>.\<close>

definition frame1_at :: "mem \<Rightarrow> nat \<Rightarrow> nat \<Rightarrow> MediaSegment \<Rightarrow> bool" where
  "frame1_at m p d seg \<longleftrightarrow>
     read_bytes m p 64 = header1 (of_nat d) seg \<and> read_bytes m (p + 96) 8 = trailer1 seg \<and>
     read_bytes m d (unat (m_dataLength seg)) = payload seg"

text \<open>What the format keeps of a segment: version 1 carries no encryption data, no alignment, and
  the reader does not restore the source id.\<close>

definition segment_view1 :: "MediaSegment \<Rightarrow> MediaSegment" where
  "segment_view1 seg =
     (newMediaSegment 0 (m_type seg) (m_timeStamp seg) (m_duration seg) (m_class seg))
       \<lparr>m_data := Some (payload seg), m_dataLength := m_dataLength seg, m_extraData := m_extraData seg\<rparr>"

text \<open>Segments the format can carry.\<close>

definition writable1 :: "MediaSegment \<Rightarrow> bool" where
  "writable1 seg \<longleftrightarrow> segment_ok seg \<and> class_ok seg \<and> m_type seg \<noteq> MST_UNKNOWN \<and> length (m_extraData seg) \<le> 32"

section \<open>The writer in closed form\<close>

lemma unat_frame_constants [simp]:
  "unat METADATA_V1_SIZE_PER_FRAME_BYTES = 104" "unat MAX_EXTRA_DATA_SIZE = 32"
  "unat kEncryptionMetadataSizeBytes = 32" "unat VERSION_SIZE_BYTES = 4"
  by (simp_all add: METADATA_V1_SIZE_PER_FRAME_BYTES_def MAX_EXTRA_DATA_SIZE_def
      kEncryptionMetadataSizeBytes_def VERSION_SIZE_BYTES_def)

text \<open>A metadata write behind the bytes \<open>xs\<close> already written from \<open>a\<close> on appends to them.\<close>

definition metadata_written :: "mem \<Rightarrow> MediaFrameWriterV1 \<Rightarrow> nat \<Rightarrow> u8 list \<Rightarrow> writer1_state" where
  "metadata_written m w a xs = (write_bytes m a xs, w\<lparr>w1_metadataOffset := of_nat (a + length xs)\<rparr>)"

lemma write_metadata1_append:
  assumes "a + length xs < 2 ^ 32"
    and "\<And>m off. write_op m off = (write_bytes m off bs, off + length bs)"
  shows "write_metadata1 write_op (metadata_written m w a xs) = metadata_written m w a (xs @ bs)"
  using assms(1)
  by (simp add: metadata_written_def write_metadata1_def assms(2) unat_of_nat_u32 write_bytes_append
      add.assoc del: of_nat_add)

lemma write_metadata1_u32:
  "a + length xs < 2 ^ 32 \<Longrightarrow>
    write_metadata1 (\<lambda>m off. writeUint32 m off v) (metadata_written m w a xs) = metadata_written m w a (xs @ le32 v)"
  by (rule write_metadata1_append) (simp_all add: writeUint32_eq)

lemma write_metadata1_i64:
  "a + length xs < 2 ^ 32 \<Longrightarrow>
    write_metadata1 (\<lambda>m off. writeInt64 m off v) (metadata_written m w a xs) = metadata_written m w a (xs @ le64 v)"
  by (rule write_metadata1_append) (simp_all add: writeInt64_eq)

lemma write_metadata1_bytes:
  "a + length xs < 2 ^ 32 \<Longrightarrow>
    write_metadata1 (\<lambda>m off. writeBytes m off bs (length bs)) (metadata_written m w a xs) =
      metadata_written m w a (xs @ bs)"
  by (rule write_metadata1_append) (simp_all add: writeBytes_eq)

lemma write_metadata1_fill:
  "a + length xs < 2 ^ 32 \<Longrightarrow>
    write_metadata1 (\<lambda>m off. fillBytes m off b n) (metadata_written m w a xs) =
      metadata_written m w a (xs @ replicate n b)"
  by (rule write_metadata1_append) (simp_all add: fillBytes_eq)

lemmas write_metadata1_steps =
  write_metadata1_u32 write_metadata1_i64 write_metadata1_bytes write_metadata1_fill

lemma metadata_written_start: "(m, w) = metadata_written m w (unat (w1_metadataOffset w)) []"
  by (simp add: metadata_written_def)

lemma length_header1: "length (m_extraData seg) \<le> 32 \<Longrightarrow> length (header1 d seg) = 64"
  by (simp add: header1_def)

lemma length_trailer1 [simp]: "length (trailer1 seg) = 8"
  by (simp add: trailer1_def)

lemma writeMetaDataGeneric_ok:
  assumes "\<not> w1_metadataBytesWritten w + METADATA_V1_SIZE_PER_FRAME_BYTES > w1_maxMetadataBytes w"
    and "length (m_extraData data) \<le> 32" and "unat (w1_metadataOffset w) + 64 < 2 ^ 32"
  shows "writeMetaDataGeneric data (m, w) =
    (True, (write_bytes m (unat (w1_metadataOffset w)) (header1 (w1_mediaDataOffset w) data),
            w\<lparr>w1_metadataOffset := w1_metadataOffset w + 96\<rparr>))"
proof -
  let ?a = "unat (w1_metadataOffset w)"
  let ?x = "m_extraData data"
  let ?fixed = "le32 (w1_mediaDataOffset w) @ le32 (m_dataLength data) @ le64 (m_timeStamp data) @
    le64 (m_duration data) @ le32 (m_sourceId data) @ le32 (of_nat (length ?x))"
  have fixed: "write_metadata1 (\<lambda>m off. writeUint32 m off (of_nat (length ?x)))
      (write_metadata1 (\<lambda>m off. writeUint32 m off (m_sourceId data))
      (write_metadata1 (\<lambda>m off. writeInt64 m off (m_duration data))
      (write_metadata1 (\<lambda>m off. writeInt64 m off (m_timeStamp data))
      (write_metadata1 (\<lambda>m off. writeUint32 m off (m_dataLength data))
      (write_metadata1 (\<lambda>m off. writeUint32 m off (w1_mediaDataOffset w)) (m, w)))))) =
    metadata_written m w ?a ?fixed"
    unfolding metadata_written_start [of m w] using assms(3) by (simp add: write_metadata1_steps)
  have extra: "(if 0 \<noteq> length ?x then write_metadata1 (\<lambda>m off. writeBytes m off ?x (length ?x))
      (metadata_written m w ?a ?fixed) else metadata_written m w ?a ?fixed) = metadata_written m w ?a (?fixed @ ?x)"
    using assms(3) by (simp add: write_metadata1_bytes)
  have pad: "write_metadata1 (\<lambda>m off. fillBytes m off 0 (32 - length ?x)) (metadata_written m w ?a (?fixed @ ?x)) =
    metadata_written m w ?a (header1 (w1_mediaDataOffset w) data)"
    using assms(2,3) by (simp add: write_metadata1_fill header1_def)
  have "writeMetaDataGeneric data (m, w) =
    (True, (case metadata_written m w ?a (header1 (w1_mediaDataOffset w) data) of
       (m, w) \<Rightarrow> (m, w\<lparr>w1_metadataOffset := w1_metadataOffset w + kEncryptionMetadataSizeBytes\<rparr>)))"
    by (simp only: writeMetaDataGeneric_def Let_def prod.case assms(1) if_False fixed extra
        unat_frame_constants size_t_minus_le [OF assms(2)] pad) (simp add: case_prod_beta)
  then show ?thesis
    using assms(2) by (simp add: metadata_written_def length_header1 kEncryptionMetadataSizeBytes_def)
qed

lemma writeData_ok:
  assumes "\<not> w1_mediaBytesWritten w + m_dataLength data > w1_maxMediaBytes w" and "segment_ok data"
  shows "writeData data (m, w) =
    (True, (write_bytes m (unat (w1_mediaDataOffset w)) (payload data),
            w\<lparr>w1_mediaDataOffset := w1_mediaDataOffset w + m_dataLength data,
              w1_mediaBytesWritten := w1_mediaBytesWritten w + m_dataLength data\<rparr>))"
  using assms by (simp add: writeData_def segment_ok_def writeBytes_eq)

lemma writeMetaDataTypeSpecific_ok:
  assumes "class_ok data" and "m_type data \<noteq> MST_UNKNOWN" and "unat (w1_metadataOffset w) + 8 < 2 ^ 32"
  shows "writeMetaDataTypeSpecific data (m, w) =
    (True, (write_bytes m (unat (w1_metadataOffset w)) (trailer1 data),
            w\<lparr>w1_metadataOffset := w1_metadataOffset w + 8\<rparr>))"
proof -
  have *: "write_metadata1 (\<lambda>m off. writeUint32 m off y) (write_metadata1 (\<lambda>m off. writeUint32 m off x) (m, w)) =
    metadata_written m w (unat (w1_metadataOffset w)) (le32 x @ le32 y)" for x y
    unfolding metadata_written_start [of m w] using assms(3) by (simp add: write_metadata1_steps)
  show ?thesis
    using assms(1,2)
    by (auto simp: writeMetaDataTypeSpecific_def class_ok_def trailer1_def * metadata_written_def
        split: MediaSourceType.splits SegmentClass.splits)
qed

text \<open>Room for one more frame, in both regions and in the 32-bit offsets.\<close>

definition room1 :: "MediaFrameWriterV1 \<Rightarrow> MediaSegment \<Rightarrow> bool" where
  "room1 w seg \<longleftrightarrow>
     unat (w1_metadataBytesWritten w) + 104 \<le> unat (w1_maxMetadataBytes w) \<and>
     unat (w1_mediaBytesWritten w) + unat (m_dataLength seg) \<le> unat (w1_maxMediaBytes w) \<and>
     unat (w1_metadataOffset w) + 104 < 2 ^ 32 \<and>
     unat (w1_mediaDataOffset w) + unat (m_dataLength seg) < 2 ^ 32"

definition after_frame1 :: "MediaSegment \<Rightarrow> MediaFrameWriterV1 \<Rightarrow> MediaFrameWriterV1" where
  "after_frame1 seg w = w\<lparr>w1_metadataBytesWritten := w1_metadataBytesWritten w + 104,
     w1_mediaBytesWritten := w1_mediaBytesWritten w + m_dataLength seg,
     w1_mediaDataOffset := w1_mediaDataOffset w + m_dataLength seg,
     w1_metadataOffset := w1_metadataOffset w + 104, w1_numFrames := w1_numFrames w + 1\<rparr>"

lemma unat_104: "unat (104 :: u32) = 104" "unat (96 :: u32) = 96"
  by simp_all

lemma writeFrameV1_ok:
  assumes "writable1 seg" and "room1 w seg"
  shows "writeFrameV1 seg (m, w) =
    (ASS_OK,
     (write_bytes (write_bytes (write_bytes m (unat (w1_metadataOffset w)) (header1 (w1_mediaDataOffset w) seg))
        (unat (w1_mediaDataOffset w)) (payload seg)) (unat (w1_metadataOffset w) + 96) (trailer1 seg),
      after_frame1 seg w))"
proof -
  have meta: "\<not> w1_metadataBytesWritten w + METADATA_V1_SIZE_PER_FRAME_BYTES > w1_maxMetadataBytes w"
    using assms(2) unat_u32_bound [of "w1_maxMetadataBytes w"]
    by (simp add: room1_def word_less_nat_alt nowrap)
  have media: "\<not> w1_mediaBytesWritten w + m_dataLength seg > w1_maxMediaBytes w"
    using assms(2) unat_u32_bound [of "w1_maxMediaBytes w"]
    by (simp add: room1_def word_less_nat_alt nowrap)
  have off: "unat (w1_metadataOffset w + 96) = unat (w1_metadataOffset w) + 96"
    using assms(2) by (simp add: room1_def nowrap)
  show ?thesis
    using assms meta media off
    by (simp add: writeFrameV1_def Let_def writable1_def room1_def writeMetaDataGeneric_ok writeData_ok
        writeMetaDataTypeSpecific_ok after_frame1_def METADATA_V1_SIZE_PER_FRAME_BYTES_def add.assoc)
qed

section \<open>A sequence of frames\<close>

text \<open>What the server promises about the regions it hands out in a need-data request.\<close>

definition shm_info_ok :: "MediaPlayerShmInfo \<Rightarrow> bool" where
  "shm_info_ok info \<longleftrightarrow>
     4 \<le> unat (maxMetadataBytes info) \<and>
     unat (metadataOffset info) + unat (maxMetadataBytes info) < 2 ^ 32 \<and>
     unat (mediaDataOffset info) + unat (maxMediaBytes info) < 2 ^ 32 \<and>
     ranges_disjoint (unat (metadataOffset info)) (unat (maxMetadataBytes info))
       (unat (mediaDataOffset info)) (unat (maxMediaBytes info))"

abbreviation seg_len :: "MediaSegment \<Rightarrow> nat" where
  "seg_len seg \<equiv> unat (m_dataLength seg)"

text \<open>The state after exactly the frames \<open>segs\<close> have been written.\<close>

definition written1 :: "MediaPlayerShmInfo \<Rightarrow> MediaSegment list \<Rightarrow> writer1_state \<Rightarrow> bool" where
  "written1 info segs st \<longleftrightarrow> (let (m, w) = st; n = length segs; total = sum_list (map seg_len segs) in
     w1_maxMediaBytes w = maxMediaBytes info \<and> w1_maxMetadataBytes w = maxMetadataBytes info \<and>
     unat (w1_metadataBytesWritten w) = 4 + 104 * n \<and> 4 + 104 * n \<le> unat (maxMetadataBytes info) \<and>
     unat (w1_mediaBytesWritten w) = total \<and> total \<le> unat (maxMediaBytes info) \<and>
     unat (w1_mediaDataOffset w) = unat (mediaDataOffset info) + total \<and>
     unat (w1_metadataOffset w) = unat (metadataOffset info) + 4 + 104 * n \<and>
     unat (w1_numFrames w) = n \<and>
     read_bytes m (unat (metadataOffset info)) 4 = le32 1 \<and>
     (\<forall>k < n. frame1_at m (unat (metadataOffset info) + 4 + 104 * k)
        (unat (mediaDataOffset info) + sum_list (map seg_len (take k segs))) (segs ! k)))"

lemma newMediaFrameWriterV1_written:
  assumes "shm_info_ok info"
  shows "written1 info [] (newMediaFrameWriterV1 info m)"
  using assms unat_u32_bound [of "maxMetadataBytes info"]
  by (simp add: shm_info_ok_def written1_def newMediaFrameWriterV1_def write_metadata1_def Let_def
      fillBytes_eq writeUint32_eq mem_simps kMetadataVersionV1_def nowrap)

lemma frame1_at_write_disjoint:
  assumes "frame1_at m p d seg" and "ranges_disjoint p 104 a (length bs)"
    and "ranges_disjoint d (seg_len seg) a (length bs)"
  shows "frame1_at (write_bytes m a bs) p d seg"
proof -
  have "ranges_disjoint p 64 a (length bs)" "ranges_disjoint (p + 96) 8 a (length bs)"
    using assms(2) by (auto simp: ranges_disjoint_def)
  with assms show ?thesis by (simp add: frame1_at_def mem_simps)
qed

lemma frame1_at_new:
  assumes "writable1 seg" and "ranges_disjoint p 104 d (seg_len seg)"
  shows "frame1_at (write_bytes (write_bytes (write_bytes m p (header1 (of_nat d) seg)) d (payload seg))
    (p + 96) (trailer1 seg)) p d seg"
proof -
  have len: "length (header1 (of_nat d) seg) = 64" "length (payload seg) = seg_len seg"
    using assms(1) by (simp_all add: writable1_def length_header1 segment_ok_def)
  have "ranges_disjoint p 64 (p + 96) 8" "ranges_disjoint p 64 d (seg_len seg)"
    "ranges_disjoint d (seg_len seg) (p + 96) 8"
    using assms(2) by (auto simp: ranges_disjoint_def)
  then show ?thesis using len by (simp add: frame1_at_def mem_simps)
qed

lemma writeFrameV1_written:
  assumes info: "shm_info_ok info" and wr: "written1 info segs st" and seg: "writable1 seg"
    and meta: "4 + 104 * Suc (length segs) \<le> unat (maxMetadataBytes info)"
    and media: "sum_list (map seg_len segs) + seg_len seg \<le> unat (maxMediaBytes info)"
  shows "\<exists>st'. writeFrameV1 seg st = (ASS_OK, st') \<and> written1 info (segs @ [seg]) st'"
proof -
  obtain m w where st: "st = (m, w)" by (cases st)
  let ?n = "length segs"
  let ?total = "sum_list (map seg_len segs)"
  let ?p = "unat (metadataOffset info) + 4 + 104 * ?n"
  let ?d = "unat (mediaDataOffset info) + ?total"
  have w: "w1_maxMediaBytes w = maxMediaBytes info" "w1_maxMetadataBytes w = maxMetadataBytes info"
    "unat (w1_metadataBytesWritten w) = 4 + 104 * ?n" "unat (w1_mediaBytesWritten w) = ?total"
    "unat (w1_mediaDataOffset w) = ?d" "unat (w1_metadataOffset w) = ?p" "unat (w1_numFrames w) = ?n"
    and ver: "read_bytes m (unat (metadataOffset info)) 4 = le32 1"
    and old: "\<And>k. k < ?n \<Longrightarrow> frame1_at m (unat (metadataOffset info) + 4 + 104 * k)
        (unat (mediaDataOffset info) + sum_list (map seg_len (take k segs))) (segs ! k)"
    using wr by (simp_all add: written1_def st Let_def)
  note geo = info [unfolded shm_info_ok_def ranges_disjoint_def] meta media
  have room: "room1 w seg"
    using geo w by (simp add: room1_def)
  have "of_nat (unat (w1_mediaDataOffset w)) = w1_mediaDataOffset w" by simp
  then have d: "w1_mediaDataOffset w = of_nat ?d" by (simp only: w(5))
  let ?m = "write_bytes (write_bytes (write_bytes m ?p (header1 (of_nat ?d) seg)) ?d (payload seg))
    (?p + 96) (trailer1 seg)"
  have eq: "writeFrameV1 seg st = (ASS_OK, (?m, after_frame1 seg w))"
    using writeFrameV1_ok [OF seg room, of m] w d by (simp add: st)
  have len: "length (header1 (of_nat ?d) seg) = 64" "length (payload seg) = seg_len seg"
    using seg by (simp_all add: writable1_def length_header1 segment_ok_def)
  have "frame1_at ?m ?p ?d seg"
    by (rule frame1_at_new [OF seg]) (use geo in \<open>auto simp: ranges_disjoint_def\<close>)
  moreover have "frame1_at ?m (unat (metadataOffset info) + 4 + 104 * k)
        (unat (mediaDataOffset info) + sum_list (map seg_len (take k segs))) (segs ! k)" if "k < ?n" for k
    using geo sum_take_bound [OF that, of seg_len] that len
    by (intro frame1_at_write_disjoint old that) (auto simp: ranges_disjoint_def)
  moreover have "ranges_disjoint (unat (metadataOffset info)) 4 ?p 64"
    "ranges_disjoint (unat (metadataOffset info)) 4 ?d (seg_len seg)"
    "ranges_disjoint (unat (metadataOffset info)) 4 (?p + 96) 8"
    using geo by (auto simp: ranges_disjoint_def)
  then have "read_bytes ?m (unat (metadataOffset info)) 4 = le32 1"
    using len ver by (simp add: mem_simps)
  moreover have "unat (w1_metadataBytesWritten w + 104) = 4 + 104 * Suc ?n"
    "unat (w1_mediaBytesWritten w + m_dataLength seg) = ?total + seg_len seg"
    "unat (w1_mediaDataOffset w + m_dataLength seg) = ?d + seg_len seg"
    "unat (w1_metadataOffset w + 104) = ?p + 104" "unat (w1_numFrames w + 1) = Suc ?n"
    using geo w unat_u32_bound [of "maxMetadataBytes info"] unat_u32_bound [of "maxMediaBytes info"]
    by (simp_all add: nowrap)
  ultimately have "written1 info (segs @ [seg]) (?m, after_frame1 seg w)"
    using w meta media by (auto simp: written1_def Let_def after_frame1_def less_Suc_eq nth_append)
  with eq show ?thesis by blast
qed

section \<open>Writing a list of frames\<close>

definition add_frame1 :: "MediaSegment \<Rightarrow> writer1_state \<Rightarrow> bool \<times> writer1_state" where
  "add_frame1 seg st = (let (status, st') = writeFrameV1 seg st in (status = ASS_OK, st'))"

section \<open>Reading frames back\<close>

lemma frame1_at_deref:
  assumes "frame1_at m p d seg" and "length (m_extraData seg) \<le> 32"
  shows "md1_offset (derefMetadataV1 m p) = of_nat d"
    and "md1_length (derefMetadataV1 m p) = m_dataLength seg"
    and "md1_timePosition (derefMetadataV1 m p) = m_timeStamp seg"
    and "md1_sampleDuration (derefMetadataV1 m p) = m_duration seg"
    and "md1_extraDataSize (derefMetadataV1 m p) = of_nat (length (m_extraData seg))"
    and "md1_extraData (derefMetadataV1 m p) = m_extraData seg @ replicate (32 - length (m_extraData seg)) 0"
    and "md1_extra1 (derefMetadataV1 m p) = fst (class_params (m_class seg))"
    and "md1_extra2 (derefMetadataV1 m p) = snd (class_params (m_class seg))"
proof -
  let ?x = "m_extraData seg @ replicate (32 - length (m_extraData seg)) 0"
  have "read_bytes m p (4 + (4 + (8 + (8 + (4 + (4 + 32)))))) = header1 (of_nat d) seg"
    using assms(1) by (simp add: frame1_at_def)
  then have "read_bytes m p 4 = le32 (of_nat d) \<and> read_bytes m (p + 4) 4 = le32 (m_dataLength seg) \<and>
    read_bytes m (p + 8) 8 = le64 (m_timeStamp seg) \<and> read_bytes m (p + 16) 8 = le64 (m_duration seg) \<and>
    read_bytes m (p + 28) 4 = le32 (of_nat (length (m_extraData seg))) \<and> read_bytes m (p + 32) 32 = ?x"
    by (simp only: read_bytes_add header1_def append_eq_append_conv length_read_bytes length_le)
      (simp add: add.commute)
  moreover have "read_bytes m (p + 96) (4 + 4) = trailer1 seg"
    using assms(1) by (simp add: frame1_at_def)
  then have "read_bytes m (p + 96) 4 = le32 (fst (class_params (m_class seg))) \<and>
    read_bytes m (p + 100) 4 = le32 (snd (class_params (m_class seg)))"
    by (simp only: read_bytes_add trailer1_def append_eq_append_conv length_read_bytes length_le)
      (simp add: add.commute)
  ultimately show "md1_offset (derefMetadataV1 m p) = of_nat d"
    "md1_length (derefMetadataV1 m p) = m_dataLength seg"
    "md1_timePosition (derefMetadataV1 m p) = m_timeStamp seg"
    "md1_sampleDuration (derefMetadataV1 m p) = m_duration seg"
    "md1_extraDataSize (derefMetadataV1 m p) = of_nat (length (m_extraData seg))"
    "md1_extraData (derefMetadataV1 m p) = ?x"
    "md1_extra1 (derefMetadataV1 m p) = fst (class_params (m_class seg))"
    "md1_extra2 (derefMetadataV1 m p) = snd (class_params (m_class seg))"
    by (simp_all add: derefMetadataV1_def readLEUint32_le32 readLEInt64_le64)
qed

lemma frame1_at_createSegment:
  assumes "frame1_at m p d seg" and "writable1 seg" and "d < 2 ^ 32"
  shows "createSegmentV1 (if m_type seg = AUDIO then newMediaSegmentAudio else newMediaSegmentVideo) m
      (derefMetadataV1 m p) = segment_view1 seg"
proof -
  have len: "length (m_extraData seg) \<le> 32" "class_ok seg" "m_type seg \<noteq> MST_UNKNOWN"
    using assms(2) by (simp_all add: writable1_def)
  then have "unat (of_nat (length (m_extraData seg)) :: u32) = length (m_extraData seg)"
    by (simp add: unat_of_nat_u32)
  then show ?thesis
    using assms(1,3) len
    by (cases "m_class seg"; cases "m_type seg")
      (auto simp: createSegmentV1_def Let_def frame1_at_deref [OF assms(1) len(1)] segment_constructor_defs
        setData_def segment_view1_def class_ok_def unat_of_nat_u32 frame1_at_def)
qed

lemma readDataV1_frames:
  assumes "\<forall>k < length segs. frame1_at m (unat mo + 104 * k) (ds k) (segs ! k) \<and> ds k < 2 ^ 32 \<and>
      writable1 (segs ! k) \<and> m_type (segs ! k) = t"
    and "unat mo + 104 * length segs < 2 ^ 32" and "unat n = length segs"
  shows "readDataV1 \<lparr>r1_mediaSourceType = t, r1_metadataOffset = mo, r1_numFrames = n\<rparr> m = map segment_view1 segs"
proof -
  let ?mk = "if t = AUDIO then newMediaSegmentAudio else newMediaSegmentVideo"
  let ?f = "\<lambda>k. derefMetadataV1 m (unat mo + unat ((of_nat k :: u32) * METADATA_V1_SIZE_PER_FRAME_BYTES))"
  have one: "createSegmentV1 ?mk m (?f k) = segment_view1 (segs ! k)" if "k < length segs" for k
  proof -
    have "unat ((of_nat k :: u32) * METADATA_V1_SIZE_PER_FRAME_BYTES) = 104 * k"
      using assms(2) that by (simp add: unat_mult_nowrap unat_of_nat_u32)
    then show ?thesis
      using assms(1) that frame1_at_createSegment [of m "unat mo + 104 * k" "ds k" "segs ! k"] by auto
  qed
  have t: "segs \<noteq> [] \<Longrightarrow> t = AUDIO \<or> t = VIDEO"
    using assms(1) by (cases t) (auto simp: writable1_def)
  have "readDataV1 \<lparr>r1_mediaSourceType = t, r1_metadataOffset = mo, r1_numFrames = n\<rparr> m =
    map (\<lambda>k. createSegmentV1 ?mk m (?f k)) [0..<length segs]"
    using t assms(3) by (cases segs) (auto simp: readDataV1_def readMetadata_def comp_def)
  also have "\<dots> = map (\<lambda>k. segment_view1 (segs ! k)) [0..<length segs]"
    using one by simp
  also have "\<dots> = map segment_view1 segs"
    by (rule nth_equalityI) auto
  finally show ?thesis .
qed

section \<open>The format's contract\<close>

definition fits1 :: "MediaPlayerShmInfo \<Rightarrow> MediaSegment list \<Rightarrow> bool" where
  "fits1 info segs \<longleftrightarrow> 4 + 104 * length segs \<le> unat (maxMetadataBytes info) \<and>
     sum_list (map seg_len segs) \<le> unat (maxMediaBytes info)"

definition read_back1 :: "MediaSourceType \<Rightarrow> MediaPlayerShmInfo \<Rightarrow> writer1_state \<Rightarrow> MediaSegment list" where
  "read_back1 t info st =
     readDataV1 \<lparr>r1_mediaSourceType = t, r1_metadataOffset = metadataOffset info + VERSION_SIZE_BYTES,
                 r1_numFrames = getNumFramesV1 (snd st)\<rparr> (fst st)"

lemma add_frame1_written:
  assumes "shm_info_ok info" and "written1 info segs st" and "writable1 seg" and "fits1 info (segs @ [seg])"
  shows "\<exists>st'. add_frame1 seg st = (True, st') \<and> written1 info (segs @ [seg]) st'"
  using writeFrameV1_written [OF assms(1-3)] assms(4) by (auto simp: fits1_def add_frame1_def)

lemma read_back1_written:
  assumes info: "shm_info_ok info" and wr: "written1 info segs st"
    and segs: "\<forall>seg \<in> set segs. writable1 seg \<and> m_type seg = t"
  shows "read_back1 t info st = map segment_view1 segs"
proof -
  obtain m w where st: "st = (m, w)" by (cases st)
  let ?d = "\<lambda>k. unat (mediaDataOffset info) + sum_list (map seg_len (take k segs))"
  have mo: "unat (metadataOffset info + VERSION_SIZE_BYTES) = unat (metadataOffset info) + 4"
    using info by (simp add: shm_info_ok_def nowrap)
  have "sum_list (map seg_len segs) \<le> unat (maxMediaBytes info)"
    using wr by (simp add: written1_def st Let_def)
  then have "?d k < 2 ^ 32" if "k < length segs" for k
    using info sum_take_bound [OF that, of seg_len] by (simp add: shm_info_ok_def)
  then have "\<forall>k < length segs. frame1_at m (unat (metadataOffset info + VERSION_SIZE_BYTES) + 104 * k) (?d k) (segs ! k) \<and>
      ?d k < 2 ^ 32 \<and> writable1 (segs ! k) \<and> m_type (segs ! k) = t"
    using wr segs by (simp add: written1_def st Let_def mo)
  moreover have "unat (metadataOffset info + VERSION_SIZE_BYTES) + 104 * length segs < 2 ^ 32"
    using wr info by (simp add: written1_def st Let_def mo shm_info_ok_def)
  ultimately show ?thesis
    unfolding read_back1_def st fst_conv snd_conv getNumFramesV1_def
    by (rule readDataV1_frames) (use wr in \<open>simp add: written1_def st Let_def\<close>)
qed

interpretation fmt1: frame_format newMediaFrameWriterV1 add_frame1 read_back1 shm_info_ok fits1 writable1
  segment_view1 written1
proof unfold_locales
  show "fits1 info xs" if "fits1 info (xs @ ys)" for info xs ys
    using that by (simp add: fits1_def)
qed (blast intro: newMediaFrameWriterV1_written add_frame1_written read_back1_written)+

end
