(* ===== verification/Frame_V2.thy ===== *)
theory Frame_V2
  imports Frame_V1
begin

text \<open>
  Media frames in metadata format version 2: the client's writer
  (\<open>media/common/source/MediaFrameWriterV2.cpp\<close>), the server's reader
  (\<open>media/server/main/source/DataReaderV2.cpp\<close>), and the two factories that choose between the
  versions. The metadata of a frame is a protobuf message; the protobuf library is a parameter of the
  model, a \<open>codec\<close> with the three operations the code calls.
\<close>

section \<open>The protobuf message and its codec\<close>

datatype PbSegmentAlignment = ALIGNMENT_UNDEFINED | ALIGNMENT_NAL | ALIGNMENT_AU

text \<open>\<open>MediaSegmentMetadata\<close> of \<open>proto/metadata.proto\<close>: an optional field is an \<open>option\<close>.\<close>

record MediaSegmentMetadata =
  pb_length :: u32
  pb_time_position :: i64
  pb_sample_duration :: i64
  pb_stream_id :: u32
  pb_sample_rate :: "u32 option"
  pb_channels_num :: "u32 option"
  pb_width :: "u32 option"
  pb_height :: "u32 option"
  pb_segment_alignment :: "PbSegmentAlignment option"
  pb_extra_data :: "u8 list option"
  pb_media_key_session_id :: "i32 option"
  pb_key_id :: "u8 list option"
  pb_init_vector :: "u8 list option"
  pb_init_with_last_15 :: "u32 option"
  pb_sub_sample_info :: "(u32 \<times> u32) list"

text \<open>
  \<open>byteSizeLong\<close>, \<open>serializeToArray\<close> (\<open>None\<close>: returns \<open>false\<close>) and \<open>parseFromArray\<close> (\<open>None\<close>: returns
  \<open>false\<close>) of the protobuf runtime.
\<close>

record codec =
  byteSizeLong :: "MediaSegmentMetadata \<Rightarrow> nat"
  serializeToArray :: "MediaSegmentMetadata \<Rightarrow> u8 list option"
  parseFromArray :: "u8 list \<Rightarrow> MediaSegmentMetadata option"

text \<open>The documented behaviour of protobuf that the code relies on, for one message: it serialises
  to \<open>ByteSizeLong\<close> bytes, and these parse to the same message.\<close>

definition codec_ok :: "codec \<Rightarrow> MediaSegmentMetadata \<Rightarrow> bool" where
  "codec_ok pb md \<longleftrightarrow>
     (case serializeToArray pb md of None \<Rightarrow> False
      | Some bs \<Rightarrow> length bs = byteSizeLong pb md \<and> parseFromArray pb bs = Some md)"

section \<open>The writer\<close>

record MediaFrameWriterV2 =
  w2_maxBytes :: u32
  w2_bytesWritten :: u32
  w2_dataOffset :: u32
  w2_numFrames :: u32

type_synonym writer2_state = "mem \<times> MediaFrameWriterV2"

definition kMetadataVersionV2 :: u32 where "kMetadataVersionV2 = 2"

fun convertSegmentAlignmentToPb :: "SegmentAlignment \<Rightarrow> PbSegmentAlignment" where
  "convertSegmentAlignmentToPb SA_UNDEFINED = ALIGNMENT_UNDEFINED"
| "convertSegmentAlignmentToPb SA_NAL = ALIGNMENT_NAL"
| "convertSegmentAlignmentToPb SA_AU = ALIGNMENT_AU"

definition newMediaFrameWriterV2 :: "MediaPlayerShmInfo \<Rightarrow> mem \<Rightarrow> writer2_state" where
  "newMediaFrameWriterV2 shmInfo m =
     (let w = \<lparr>w2_maxBytes = maxMediaBytes shmInfo, w2_bytesWritten = 0,
               w2_dataOffset = mediaDataOffset shmInfo, w2_numFrames = 0\<rparr>;
          (m, _) = fillBytes m (unat (metadataOffset shmInfo)) 0 (unat (maxMetadataBytes shmInfo));
          (m, _) = fillBytes m (unat (w2_dataOffset w)) 0 (unat (w2_maxBytes w));
          (m, _) = writeUint32 m (unat (metadataOffset shmInfo)) kMetadataVersionV2
      in (m, w))"

text \<open>\<open>None\<close> is a thrown exception: an unknown source type or a failing \<open>dynamic_cast\<close>.\<close>

definition buildMetadata :: "MediaSegment \<Rightarrow> MediaSegmentMetadata option" where
  "buildMetadata data =
     (let md = \<lparr>pb_length = m_dataLength data, pb_time_position = m_timeStamp data,
                pb_sample_duration = m_duration data, pb_stream_id = m_sourceId data,
                pb_sample_rate = None, pb_channels_num = None, pb_width = None, pb_height = None,
                pb_segment_alignment = None, pb_extra_data = None, pb_media_key_session_id = None,
                pb_key_id = None, pb_init_vector = None, pb_init_with_last_15 = None,
                pb_sub_sample_info = []\<rparr>;
          typed =
            (case m_type data of
               AUDIO \<Rightarrow> (case m_class data of
                   AudioSegment sampleRate channels \<Rightarrow>
                     Some (md\<lparr>pb_sample_rate := Some sampleRate, pb_channels_num := Some channels\<rparr>)
                 | _ \<Rightarrow> None)
             | VIDEO \<Rightarrow> (case m_class data of
                   VideoSegment width height \<Rightarrow> Some (md\<lparr>pb_width := Some width, pb_height := Some height\<rparr>)
                 | _ \<Rightarrow> None)
             | MST_UNKNOWN \<Rightarrow> None)
      in case typed of None \<Rightarrow> None
         | Some md \<Rightarrow>
             let md = (if m_extraData data \<noteq> [] then md\<lparr>pb_extra_data := Some (m_extraData data)\<rparr> else md);
                 md = (if SA_UNDEFINED \<noteq> m_alignment data
                       then md\<lparr>pb_segment_alignment := Some (convertSegmentAlignmentToPb (m_alignment data))\<rparr>
                       else md);
                 md = (if m_encrypted data
                       then md\<lparr>pb_media_key_session_id := Some (m_mediaKeySessionId data),
                               pb_key_id := Some (m_keyId data),
                               pb_init_vector := Some (m_initVector data),
                               pb_init_with_last_15 := Some (m_initWithLast15 data),
                               pb_sub_sample_info :=
                                 map (\<lambda>s. (ucast (numClearBytes s), ucast (numEncryptedBytes s))) (m_subSamples data)\<rparr>
                       else md)
             in Some md)"

text \<open>The space check computes in \<open>size_t\<close> (8 bytes on the 64-bit targets), and counts
  \<open>sizeof(size_t)\<close> for the 4-byte size field.\<close>

definition writeFrameV2 :: "codec \<Rightarrow> MediaSegment \<Rightarrow> writer2_state \<Rightarrow> AddSegmentStatus \<times> writer2_state" where
  "writeFrameV2 pb data st =
     (let (m, w) = st in
      case buildMetadata data of
        None \<Rightarrow> (ASS_ERROR, st)
      | Some metadata \<Rightarrow>
          let metadataSize = byteSizeLong pb metadata;
              needed = 8 + metadataSize + unat (m_dataLength data)
          in if unat (w2_bytesWritten w) + needed > unat (w2_maxBytes w) then (ASS_NO_SPACE, st)
             else
               let (m, off) = writeUint32 m (unat (w2_dataOffset w)) (of_nat metadataSize);
                   w = w\<lparr>w2_dataOffset := of_nat off\<rparr>
               in case serializeToArray pb metadata of
                    None \<Rightarrow> (ASS_ERROR, (m, w\<lparr>w2_dataOffset := w2_dataOffset w - 4\<rparr>))
                  | Some bs \<Rightarrow>
                      let m = write_bytes m (unat (w2_dataOffset w)) bs;
                          w = w\<lparr>w2_dataOffset := w2_dataOffset w + of_nat metadataSize\<rparr>;
                          (m, off) = writeBytes m (unat (w2_dataOffset w)) (payload data) (unat (m_dataLength data))
                      in (ASS_OK, (m, w\<lparr>w2_dataOffset := of_nat off,
                                        w2_bytesWritten := w2_bytesWritten w + of_nat needed,
                                        w2_numFrames := w2_numFrames w + 1\<rparr>)))"

definition getNumFramesV2 :: "MediaFrameWriterV2 \<Rightarrow> u32" where
  "getNumFramesV2 w = w2_numFrames w"

section \<open>The reader\<close>

fun convertSegmentAlignmentFromPb :: "PbSegmentAlignment \<Rightarrow> SegmentAlignment" where
  "convertSegmentAlignmentFromPb ALIGNMENT_UNDEFINED = SA_UNDEFINED"
| "convertSegmentAlignmentFromPb ALIGNMENT_NAL = SA_NAL"
| "convertSegmentAlignmentFromPb ALIGNMENT_AU = SA_AU"

text \<open>\<open>createSegment\<close>; \<open>None\<close> is the null pointer it returns for incomplete metadata.\<close>

definition createSegmentV2 :: "MediaSegmentMetadata \<Rightarrow> MediaSourceType \<Rightarrow> MediaSegment option" where
  "createSegmentV2 md type =
     (let segment =
        (if type = AUDIO then
           (case (pb_sample_rate md, pb_channels_num md) of
              (Some rate, Some channels) \<Rightarrow>
                Some (newMediaSegmentAudio (pb_stream_id md) (pb_time_position md) (pb_sample_duration md) rate channels)
            | _ \<Rightarrow> None)
         else if type = VIDEO then
           (case (pb_width md, pb_height md) of
              (Some width, Some height) \<Rightarrow>
                Some (newMediaSegmentVideo (pb_stream_id md) (pb_time_position md) (pb_sample_duration md) width height)
            | _ \<Rightarrow> None)
         else None)
      in case segment of None \<Rightarrow> None
         | Some seg \<Rightarrow>
             let seg = (case pb_segment_alignment md of None \<Rightarrow> seg
                        | Some a \<Rightarrow> seg\<lparr>m_alignment := convertSegmentAlignmentFromPb a\<rparr>);
                 seg = (case pb_extra_data md of None \<Rightarrow> seg | Some x \<Rightarrow> seg\<lparr>m_extraData := x\<rparr>);
                 seg = seg\<lparr>m_encrypted :=
                          pb_media_key_session_id md \<noteq> None \<or> pb_key_id md \<noteq> None \<or>
                          pb_init_vector md \<noteq> None \<or> pb_init_with_last_15 md \<noteq> None\<rparr>;
                 seg = (case pb_media_key_session_id md of None \<Rightarrow> seg | Some i \<Rightarrow> seg\<lparr>m_mediaKeySessionId := i\<rparr>);
                 seg = (case pb_key_id md of None \<Rightarrow> seg | Some k \<Rightarrow> seg\<lparr>m_keyId := k\<rparr>);
                 seg = (case pb_init_vector md of None \<Rightarrow> seg | Some v \<Rightarrow> seg\<lparr>m_initVector := v\<rparr>);
                 seg = (case pb_init_with_last_15 md of None \<Rightarrow> seg | Some x \<Rightarrow> seg\<lparr>m_initWithLast15 := x\<rparr>)
             in Some (seg\<lparr>m_subSamples := m_subSamples seg @
                  map (\<lambda>(c, e). \<lparr>numClearBytes = ucast c, numEncryptedBytes = ucast e\<rparr>) (pb_sub_sample_info md)\<rparr>))"

record DataReaderV2 =
  r2_mediaSourceType :: MediaSourceType
  r2_dataOffset :: u32
  r2_numFrames :: u32

text \<open>The loop of \<open>readData\<close>: \<open>n\<close> frames from the read position on; \<open>None\<close> is the early return of an
  empty vector.\<close>

fun readFramesV2 :: "codec \<Rightarrow> MediaSourceType \<Rightarrow> mem \<Rightarrow> nat \<Rightarrow> nat \<Rightarrow> MediaSegment list option" where
  "readFramesV2 pb type m pos 0 = Some []"
| "readFramesV2 pb type m pos (Suc n) =
     (let metadataSize = unat (readLEUint32 m pos); pos = pos + 4 in
      case parseFromArray pb (read_bytes m pos metadataSize) of
        None \<Rightarrow> None
      | Some metadata \<Rightarrow>
          (case createSegmentV2 metadata type of
             None \<Rightarrow> None
           | Some seg \<Rightarrow>
               let pos = pos + metadataSize;
                   seg = setData (pb_length metadata) (Some (read_bytes m pos (unat (pb_length metadata)))) seg
               in map_option (Cons seg) (readFramesV2 pb type m (pos + unat (pb_length metadata)) n)))"

definition readDataV2 :: "codec \<Rightarrow> DataReaderV2 \<Rightarrow> mem \<Rightarrow> MediaSegment list" where
  "readDataV2 pb r m =
     (case readFramesV2 pb (r2_mediaSourceType r) m (unat (r2_dataOffset r)) (unat (r2_numFrames r)) of
        None \<Rightarrow> [] | Some segs \<Rightarrow> segs)"

section \<open>The factories\<close>

definition kPrerollNumFrames :: u32 where "kPrerollNumFrames = 1"
definition kMaxFrames :: u32 where "kMaxFrames = 24"

definition getMaxMetadataBytes :: u32 where
  "getMaxMetadataBytes = VERSION_SIZE_BYTES + kMaxFrames * METADATA_V1_SIZE_PER_FRAME_BYTES"

datatype DataReader = ReaderV1 DataReaderV1 | ReaderV2 DataReaderV2

definition createDataReader :: "MediaSourceType \<Rightarrow> mem \<Rightarrow> u32 \<Rightarrow> u32 \<Rightarrow> DataReader option" where
  "createDataReader mediaSourceType buffer dataOffset numFrames =
     (let version = readLEUint32 buffer (unat dataOffset) in
      if 1 = version then
        Some (ReaderV1 \<lparr>r1_mediaSourceType = mediaSourceType,
                        r1_metadataOffset = dataOffset + VERSION_SIZE_BYTES, r1_numFrames = numFrames\<rparr>)
      else if 2 = version then
        Some (ReaderV2 \<lparr>r2_mediaSourceType = mediaSourceType,
                        r2_dataOffset = dataOffset + getMaxMetadataBytes, r2_numFrames = numFrames\<rparr>)
      else None)"

fun readData :: "codec \<Rightarrow> DataReader \<Rightarrow> mem \<Rightarrow> MediaSegment list" where
  "readData pb (ReaderV1 r) m = readDataV1 r m"
| "readData pb (ReaderV2 r) m = readDataV2 pb r m"

definition kLatestMetadataVersion :: int where "kLatestMetadataVersion = 2"

text \<open>
  The constructor of the writer factory: \<open>envVar\<close> is the value of \<open>RIALTO_METADATA_VERSION\<close> if set, and
  \<open>stoi\<close> the result of \<open>std::stoi\<close> on it (\<open>None\<close> if it throws).
\<close>

definition newMediaFrameWriterFactory :: "(string \<Rightarrow> int option) \<Rightarrow> string option \<Rightarrow> int" where
  "newMediaFrameWriterFactory stoi envVar =
     (case envVar of None \<Rightarrow> kLatestMetadataVersion
      | Some envVarStr \<Rightarrow>
          let v = (case stoi envVarStr of None \<Rightarrow> kLatestMetadataVersion | Some v \<Rightarrow> v)
          in if v > kLatestMetadataVersion then kLatestMetadataVersion else v)"

datatype FrameWriter = WriterV1 MediaFrameWriterV1 | WriterV2 MediaFrameWriterV2

definition createFrameWriter :: "int \<Rightarrow> MediaPlayerShmInfo \<Rightarrow> mem \<Rightarrow> mem \<times> FrameWriter" where
  "createFrameWriter metadataVersion shmInfo m =
     (if 1 = metadataVersion then map_prod id WriterV1 (newMediaFrameWriterV1 shmInfo m)
      else map_prod id WriterV2 (newMediaFrameWriterV2 shmInfo m))"

fun writeFrame :: "codec \<Rightarrow> MediaSegment \<Rightarrow> mem \<times> FrameWriter \<Rightarrow> AddSegmentStatus \<times> mem \<times> FrameWriter" where
  "writeFrame pb seg (m, WriterV1 w) = map_prod id (map_prod id WriterV1) (writeFrameV1 seg (m, w))"
| "writeFrame pb seg (m, WriterV2 w) = map_prod id (map_prod id WriterV2) (writeFrameV2 pb seg (m, w))"

fun getNumFrames :: "FrameWriter \<Rightarrow> u32" where
  "getNumFrames (WriterV1 w) = getNumFramesV1 w"
| "getNumFrames (WriterV2 w) = getNumFramesV2 w"

section \<open>Specification\<close>

text \<open>What the format keeps of a segment: everything, except that the decryption parameters of a
  segment that is not encrypted are dropped.\<close>

definition segment_view2 :: "MediaSegment \<Rightarrow> MediaSegment" where
  "segment_view2 seg =
     (if m_encrypted seg then seg
      else seg\<lparr>m_mediaKeySessionId := 0, m_keyId := [], m_initVector := [], m_subSamples := [],
               m_initWithLast15 := 0\<rparr>)"

text \<open>Segments the format can carry: the sub-sample lengths fit the 32-bit message fields, and
  protobuf handles the message.\<close>

definition writable2 :: "codec \<Rightarrow> MediaSegment \<Rightarrow> bool" where
  "writable2 pb seg \<longleftrightarrow> segment_ok seg \<and> class_ok seg \<and> m_type seg \<noteq> MST_UNKNOWN \<and> m_data seg \<noteq> None \<and>
     (\<forall>s \<in> set (m_subSamples seg). unat (numClearBytes s) < 2 ^ 32 \<and> unat (numEncryptedBytes s) < 2 ^ 32) \<and>
     (case buildMetadata seg of None \<Rightarrow> False | Some md \<Rightarrow> codec_ok pb md)"

definition metadata_bytes2 :: "codec \<Rightarrow> MediaSegment \<Rightarrow> u8 list" where
  "metadata_bytes2 pb seg = the (serializeToArray pb (the (buildMetadata seg)))"

text \<open>One frame in memory, and the space the writer reserves for it.\<close>

definition frame2 :: "codec \<Rightarrow> MediaSegment \<Rightarrow> u8 list" where
  "frame2 pb seg = le32 (of_nat (length (metadata_bytes2 pb seg))) @ metadata_bytes2 pb seg @ payload seg"

definition cost2 :: "codec \<Rightarrow> MediaSegment \<Rightarrow> nat" where
  "cost2 pb seg = 8 + length (metadata_bytes2 pb seg) + unat (m_dataLength seg)"

lemma writable2_metadata:
  assumes "writable2 pb seg"
  obtains md where "buildMetadata seg = Some md" and "serializeToArray pb md = Some (metadata_bytes2 pb seg)"
    and "byteSizeLong pb md = length (metadata_bytes2 pb seg)"
    and "parseFromArray pb (metadata_bytes2 pb seg) = Some md"
  using assms by (auto simp: writable2_def codec_ok_def metadata_bytes2_def split: option.splits)

lemma length_frame2:
  "segment_ok seg \<Longrightarrow> length (frame2 pb seg) = 4 + length (metadata_bytes2 pb seg) + unat (m_dataLength seg)"
  by (simp add: frame2_def segment_ok_def)

lemma frame2_cost: "segment_ok seg \<Longrightarrow> length (frame2 pb seg) + 4 = cost2 pb seg"
  by (simp add: length_frame2 cost2_def)

section \<open>The writer in closed form\<close>

lemma writeFrameV2_ok:
  assumes "writable2 pb seg" and "unat (w2_bytesWritten w) + cost2 pb seg \<le> unat (w2_maxBytes w)"
    and "unat (w2_dataOffset w) + cost2 pb seg < 2 ^ 32"
  shows "writeFrameV2 pb seg (m, w) =
    (ASS_OK, (write_bytes m (unat (w2_dataOffset w)) (frame2 pb seg),
      w\<lparr>w2_dataOffset := w2_dataOffset w + of_nat (length (frame2 pb seg)),
        w2_bytesWritten := w2_bytesWritten w + of_nat (cost2 pb seg),
        w2_numFrames := w2_numFrames w + 1\<rparr>))"
proof -
  let ?b = "metadata_bytes2 pb seg"
  obtain md where md: "buildMetadata seg = Some md" "serializeToArray pb md = Some ?b"
    "byteSizeLong pb md = length ?b" by (rule writable2_metadata [OF assms(1)])
  have ok: "length (payload seg) = unat (m_dataLength seg)"
    using assms(1) by (simp add: writable2_def segment_ok_def)
  let ?o = "unat (w2_dataOffset w)"
  have offs: "unat (w2_dataOffset w + 4) = ?o + 4"
    "unat (w2_dataOffset w + 4 + of_nat (length ?b)) = ?o + 4 + length ?b"
    using assms(3) by (simp_all add: cost2_def nowrap)
  have mem: "write_bytes (write_bytes (write_bytes m ?o (le32 (of_nat (length ?b)))) (?o + 4) ?b)
      (?o + 4 + length ?b) (payload seg) = write_bytes m ?o (frame2 pb seg)"
    using write_bytes_append [of m ?o "le32 (of_nat (length ?b))" ?b]
      write_bytes_append [of m ?o "le32 (of_nat (length ?b)) @ ?b" "payload seg"]
    by (simp add: frame2_def add.assoc)
  show ?thesis
    using assms(2) md ok offs mem
    by (simp add: writeFrameV2_def Let_def cost2_def writeUint32_eq writeBytes_eq length_frame2 [unfolded segment_ok_def]
        algebra_simps)
qed

section \<open>A sequence of frames\<close>

abbreviation stream2 :: "codec \<Rightarrow> MediaSegment list \<Rightarrow> u8 list" where
  "stream2 pb segs \<equiv> concat (map (frame2 pb) segs)"

definition written2 :: "codec \<Rightarrow> MediaPlayerShmInfo \<Rightarrow> MediaSegment list \<Rightarrow> writer2_state \<Rightarrow> bool" where
  "written2 pb info segs st \<longleftrightarrow> (let (m, w) = st in
     w2_maxBytes w = maxMediaBytes info \<and>
     unat (w2_bytesWritten w) = sum_list (map (cost2 pb) segs) \<and>
     unat (w2_dataOffset w) = unat (mediaDataOffset info) + length (stream2 pb segs) \<and>
     unat (w2_numFrames w) = length segs \<and>
     read_bytes m (unat (metadataOffset info)) 4 = le32 2 \<and>
     read_bytes m (unat (mediaDataOffset info)) (length (stream2 pb segs)) = stream2 pb segs)"

definition fits2 :: "codec \<Rightarrow> MediaPlayerShmInfo \<Rightarrow> MediaSegment list \<Rightarrow> bool" where
  "fits2 pb info segs \<longleftrightarrow> sum_list (map (cost2 pb) segs) \<le> unat (maxMediaBytes info)"

definition add_frame2 :: "codec \<Rightarrow> MediaSegment \<Rightarrow> writer2_state \<Rightarrow> bool \<times> writer2_state" where
  "add_frame2 pb seg st = (let (status, st') = writeFrameV2 pb seg st in (status = ASS_OK, st'))"

definition read_back2 :: "codec \<Rightarrow> MediaSourceType \<Rightarrow> MediaPlayerShmInfo \<Rightarrow> writer2_state \<Rightarrow> MediaSegment list" where
  "read_back2 pb t info st =
     readDataV2 pb \<lparr>r2_mediaSourceType = t, r2_dataOffset = mediaDataOffset info,
                    r2_numFrames = getNumFramesV2 (snd st)\<rparr> (fst st)"

lemma newMediaFrameWriterV2_written:
  assumes "shm_info_ok info"
  shows "written2 pb info [] (newMediaFrameWriterV2 info m)"
  using assms
  by (simp add: written2_def newMediaFrameWriterV2_def Let_def fillBytes_eq writeUint32_eq mem_simps
      kMetadataVersionV2_def)

lemma stream2_cost:
  "\<forall>s \<in> set segs. segment_ok s \<Longrightarrow> length (stream2 pb segs) + 4 * length segs = sum_list (map (cost2 pb) segs)"
  by (induction segs) (auto simp: frame2_cost [symmetric])

lemma add_frame2_written:
  assumes info: "shm_info_ok info" and wr: "written2 pb info segs st" and ok: "\<forall>s \<in> set segs. writable2 pb s"
    and seg: "writable2 pb seg" and fits: "fits2 pb info (segs @ [seg])"
  shows "\<exists>st'. add_frame2 pb seg st = (True, st') \<and> written2 pb info (segs @ [seg]) st'"
proof -
  obtain m w where st: "st = (m, w)" by (cases st)
  let ?d = "unat (mediaDataOffset info) + length (stream2 pb segs)"
  have w: "w2_maxBytes w = maxMediaBytes info" "unat (w2_bytesWritten w) = sum_list (map (cost2 pb) segs)"
    "unat (w2_dataOffset w) = ?d" "unat (w2_numFrames w) = length segs"
    "read_bytes m (unat (metadataOffset info)) 4 = le32 2"
    "read_bytes m (unat (mediaDataOffset info)) (length (stream2 pb segs)) = stream2 pb segs"
    using wr by (simp_all add: written2_def st Let_def)
  have segok: "segment_ok seg" using seg by (simp add: writable2_def)
  have cost: "length (stream2 pb segs) + 4 * length segs = sum_list (map (cost2 pb) segs)"
    using ok by (intro stream2_cost) (auto simp: writable2_def)
  note geo = info [unfolded shm_info_ok_def ranges_disjoint_def] fits [unfolded fits2_def]
    frame2_cost [OF segok, of pb] cost
  have room: "unat (w2_bytesWritten w) + cost2 pb seg \<le> unat (w2_maxBytes w)"
    "unat (w2_dataOffset w) + cost2 pb seg < 2 ^ 32"
    using geo w by simp_all
  let ?m = "write_bytes m ?d (frame2 pb seg)"
  let ?w = "w\<lparr>w2_dataOffset := w2_dataOffset w + of_nat (length (frame2 pb seg)),
        w2_bytesWritten := w2_bytesWritten w + of_nat (cost2 pb seg), w2_numFrames := w2_numFrames w + 1\<rparr>"
  have "add_frame2 pb seg st = (True, (?m, ?w))"
    using writeFrameV2_ok [OF seg room, of m] w by (simp add: st add_frame2_def)
  moreover have "unat (w2_dataOffset w + of_nat (length (frame2 pb seg))) = ?d + length (frame2 pb seg)"
    "unat (w2_bytesWritten w + of_nat (cost2 pb seg)) = sum_list (map (cost2 pb) (segs @ [seg]))"
    "unat (w2_numFrames w + 1) = Suc (length segs)"
    using geo w unat_u32_bound [of "maxMediaBytes info"] by (simp_all add: nowrap)
  moreover have "ranges_disjoint (unat (metadataOffset info)) 4 ?d (length (frame2 pb seg))"
    "ranges_disjoint (unat (mediaDataOffset info)) (length (stream2 pb segs)) ?d (length (frame2 pb seg))"
    using geo by (auto simp: ranges_disjoint_def)
  ultimately show ?thesis
    using w by (simp add: written2_def Let_def mem_simps read_bytes_add)
qed

section \<open>Reading frames back\<close>

lemma convert_alignment_roundtrip [simp]:
  "convertSegmentAlignmentFromPb (convertSegmentAlignmentToPb a) = a"
  by (cases a) simp_all

lemma ucast_subsample:
  "unat (numClearBytes s) < 2 ^ 32 \<Longrightarrow> unat (numEncryptedBytes s) < 2 ^ 32 \<Longrightarrow>
    \<lparr>numClearBytes = ucast (ucast (numClearBytes s) :: u32),
     numEncryptedBytes = ucast (ucast (numEncryptedBytes s) :: u32)\<rparr> = (s :: SubSamplePair)"
  by (cases s) (simp add: ucast_ucast_small)

lemma createSegment_buildMetadata:
  assumes "writable2 pb seg" and "buildMetadata seg = Some md"
  shows "pb_length md = m_dataLength seg \<and>
    (\<exists>seg'. createSegmentV2 md (m_type seg) = Some seg' \<and>
      setData (m_dataLength seg) (Some (payload seg)) seg' = segment_view2 seg)"
proof -
  have subs: "map (\<lambda>(c, e). \<lparr>numClearBytes = ucast c, numEncryptedBytes = ucast e\<rparr>)
      (map (\<lambda>s. (ucast (numClearBytes s) :: u32, ucast (numEncryptedBytes s) :: u32)) (m_subSamples seg)) = m_subSamples seg"
    using assms(1) by (intro map_idI [THEN trans [OF map_map]]) (auto simp: writable2_def ucast_subsample)
  have "m_data seg = Some (payload seg)" using assms(1) by (auto simp: writable2_def payload_def)
  moreover have "class_ok seg" "m_type seg \<noteq> MST_UNKNOWN" using assms(1) by (simp_all add: writable2_def)
  ultimately show ?thesis
    using assms(2) subs
    by (cases "m_class seg"; cases "m_extraData seg = []"; cases "m_alignment seg = SA_UNDEFINED"; cases "m_encrypted seg")
      (auto simp: class_ok_def buildMetadata_def createSegmentV2_def Let_def segment_view2_def
        segment_constructor_defs setData_def intro!: MediaSegment.equality)
qed

lemma readFramesV2_stream:
  assumes "\<forall>seg \<in> set segs. writable2 pb seg \<and> m_type seg = t \<and> length (metadata_bytes2 pb seg) < 2 ^ 32"
    and "read_bytes m pos (length (stream2 pb segs)) = stream2 pb segs"
  shows "readFramesV2 pb t m pos (length segs) = Some (map segment_view2 segs)"
  using assms
proof (induction segs arbitrary: pos)
  case Nil
  then show ?case by simp
next
  case (Cons seg segs)
  let ?b = "metadata_bytes2 pb seg"
  let ?n = "length ?b"
  have seg: "writable2 pb seg" "m_type seg = t" "?n < 2 ^ 32" using Cons.prems(1) by auto
  have ok: "length (payload seg) = unat (m_dataLength seg)"
    using seg(1) by (simp add: writable2_def segment_ok_def)
  have "read_bytes m pos (4 + (?n + (unat (m_dataLength seg) + length (stream2 pb segs)))) =
      le32 (of_nat ?n) @ ?b @ payload seg @ stream2 pb segs"
    using Cons.prems(2) ok by (simp add: frame2_def [of pb seg] add.assoc)
  then have rd: "read_bytes m pos 4 = le32 (of_nat ?n)" "read_bytes m (pos + 4) ?n = ?b"
    "read_bytes m (pos + 4 + ?n) (unat (m_dataLength seg)) = payload seg"
    "read_bytes m (pos + 4 + ?n + unat (m_dataLength seg)) (length (stream2 pb segs)) = stream2 pb segs"
    by (simp_all only: read_bytes_add append_eq_append_conv length_read_bytes length_le ok simp_thms)
  obtain md where md: "buildMetadata seg = Some md" "parseFromArray pb ?b = Some md"
    by (rule writable2_metadata [OF seg(1)])
  obtain seg' where seg': "pb_length md = m_dataLength seg" "createSegmentV2 md t = Some seg'"
    "setData (m_dataLength seg) (Some (payload seg)) seg' = segment_view2 seg"
    using createSegment_buildMetadata [OF seg(1) md(1)] seg(2) by auto
  have size: "unat (readLEUint32 m pos) = ?n"
    using readLEUint32_le32 [OF rd(1)] seg(3) by (simp add: unat_of_nat_u32)
  have "readFramesV2 pb t m (pos + 4 + ?n + unat (m_dataLength seg)) (length segs) = Some (map segment_view2 segs)"
    using Cons.IH [OF _ rd(4)] Cons.prems(1) by auto
  then show ?case
    by (simp add: Let_def size rd(2,3) md seg')
qed

lemma metadata_bytes2_bound:
  assumes "shm_info_ok info" and "written2 pb info segs st" and "\<forall>s \<in> set segs. writable2 pb s" and "seg \<in> set segs"
  shows "length (metadata_bytes2 pb seg) < 2 ^ 32"
proof -
  obtain m w where st: "st = (m, w)" by (cases st)
  have "cost2 pb seg \<le> sum_list (map (cost2 pb) segs)"
    using assms(4) by (simp add: member_le_sum_list)
  also have "\<dots> = unat (w2_bytesWritten w)" using assms(2) by (simp add: written2_def st)
  finally show ?thesis using unat_u32_bound [of "w2_bytesWritten w"] by (simp add: cost2_def)
qed

lemma read_back2_written:
  assumes "shm_info_ok info" and "written2 pb info segs st"
    and "\<forall>seg \<in> set segs. writable2 pb seg \<and> m_type seg = t"
  shows "read_back2 pb t info st = map segment_view2 segs"
proof -
  obtain m w where st: "st = (m, w)" by (cases st)
  have "readFramesV2 pb t m (unat (mediaDataOffset info)) (length segs) = Some (map segment_view2 segs)"
    by (rule readFramesV2_stream)
      (use assms metadata_bytes2_bound [OF assms(1,2)] in \<open>auto simp: written2_def st\<close>)
  moreover have "unat (w2_numFrames w) = length segs" using assms(2) by (simp add: written2_def st)
  ultimately show ?thesis
    by (simp add: read_back2_def readDataV2_def st getNumFramesV2_def)
qed

interpretation fmt2: frame_format newMediaFrameWriterV2 "add_frame2 pb" "read_back2 pb" shm_info_ok "fits2 pb"
  "writable2 pb" segment_view2 "written2 pb" for pb
proof unfold_locales
  show "fits2 pb info xs" if "fits2 pb info (xs @ ys)" for info xs ys
    using that by (simp add: fits2_def)
qed (blast intro: newMediaFrameWriterV2_written add_frame2_written read_back2_written)+

section \<open>Both formats behind the factories\<close>

text \<open>The region description a need-data request carries: the metadata region has room for the
  version and 24 version 1 frames, the media region follows it.\<close>

definition need_data_info :: "MediaPlayerShmInfo \<Rightarrow> bool" where
  "need_data_info info \<longleftrightarrow> maxMetadataBytes info = getMaxMetadataBytes \<and>
     mediaDataOffset info = metadataOffset info + getMaxMetadataBytes \<and>
     unat (metadataOffset info) + 2500 + unat (maxMediaBytes info) < 2 ^ 32"

lemma unat_getMaxMetadataBytes [simp]: "unat getMaxMetadataBytes = 2500"
  by (simp add: getMaxMetadataBytes_def VERSION_SIZE_BYTES_def kMaxFrames_def METADATA_V1_SIZE_PER_FRAME_BYTES_def)

lemma need_data_info_ok: "need_data_info info \<Longrightarrow> shm_info_ok info"
  by (simp add: need_data_info_def shm_info_ok_def nowrap ranges_disjoint_def)

definition add_frame :: "codec \<Rightarrow> MediaSegment \<Rightarrow> mem \<times> FrameWriter \<Rightarrow> bool \<times> mem \<times> FrameWriter" where
  "add_frame pb seg st = (let (status, st') = writeFrame pb seg st in (status = ASS_OK, st'))"

lemma run_add_frame1:
  "run_all (add_frame pb) segs (map_prod id WriterV1 st) =
    map_prod id (map_prod id WriterV1) (run_all add_frame1 segs st)"
  by (rule run_all_map) (auto simp: add_frame_def add_frame1_def case_prod_beta)

lemma run_add_frame2:
  "run_all (add_frame pb) segs (map_prod id WriterV2 st) =
    map_prod id (map_prod id WriterV2) (run_all (add_frame2 pb) segs st)"
  by (rule run_all_map) (auto simp: add_frame_def add_frame2_def case_prod_beta)

lemma frames_roundtrip1:
  assumes "need_data_info info" and "\<forall>seg \<in> set segs. writable1 seg \<and> m_type seg = t" and "fits1 info segs"
  shows "\<exists>m' w. run_all (add_frame pb) segs (createFrameWriter 1 info m) = (True, m', w) \<and>
    unat (getNumFrames w) = length segs \<and>
    map_option (\<lambda>r. readData pb r m') (createDataReader t m' (metadataOffset info) (getNumFrames w)) =
      Some (map segment_view1 segs)"
proof -
  obtain m' w where st: "run_all add_frame1 segs (newMediaFrameWriterV1 info m) = (True, (m', w))"
    "written1 info segs (m', w)" "read_back1 t info (m', w) = map segment_view1 segs"
    using fmt1.write_read [OF need_data_info_ok [OF assms(1)] assms(2,3), of m] by (auto simp: split_paired_Ex)
  have "readLEUint32 m' (unat (metadataOffset info)) = 1" and n: "unat (w1_numFrames w) = length segs"
    using st(2) by (auto simp: written1_def Let_def intro: readLEUint32_le32)
  moreover have "run_all (add_frame pb) segs (createFrameWriter 1 info m) = (True, m', WriterV1 w)"
    using st(1) by (simp add: createFrameWriter_def run_add_frame1)
  ultimately show ?thesis
    using st(3) by (auto simp: createDataReader_def read_back1_def getNumFramesV1_def)
qed

lemma frames_roundtrip2:
  assumes "need_data_info info" and "\<forall>seg \<in> set segs. writable2 pb seg \<and> m_type seg = t" and "fits2 pb info segs"
  shows "\<exists>m' w. run_all (add_frame pb) segs (createFrameWriter 2 info m) = (True, m', w) \<and>
    unat (getNumFrames w) = length segs \<and>
    map_option (\<lambda>r. readData pb r m') (createDataReader t m' (metadataOffset info) (getNumFrames w)) =
      Some (map segment_view2 segs)"
proof -
  obtain m' w where st: "run_all (add_frame2 pb) segs (newMediaFrameWriterV2 info m) = (True, (m', w))"
    "written2 pb info segs (m', w)" "read_back2 pb t info (m', w) = map segment_view2 segs"
    using fmt2.write_read [OF need_data_info_ok [OF assms(1)] assms(2,3), of m] by (auto simp: split_paired_Ex)
  have "readLEUint32 m' (unat (metadataOffset info)) = 2" and n: "unat (w2_numFrames w) = length segs"
    using st(2) by (auto simp: written2_def Let_def intro: readLEUint32_le32)
  moreover have "run_all (add_frame pb) segs (createFrameWriter 2 info m) = (True, m', WriterV2 w)"
    using st(1) by (simp add: createFrameWriter_def run_add_frame2)
  ultimately show ?thesis
    using st(3) assms(1)
    by (auto simp: createDataReader_def read_back2_def getNumFramesV2_def need_data_info_def)
qed

text \<open>The position of a version 2 writer within the region \<open>base .. base + maxBytes\<close> it was given.\<close>

definition in_region2 :: "nat \<Rightarrow> MediaFrameWriterV2 \<Rightarrow> bool" where
  "in_region2 base w \<longleftrightarrow> base + unat (w2_maxBytes w) < 2 ^ 32 \<and> unat (w2_bytesWritten w) \<le> unat (w2_maxBytes w) \<and>
     base \<le> unat (w2_dataOffset w) \<and> unat (w2_dataOffset w) \<le> base + unat (w2_bytesWritten w)"

section \<open>Properties\<close>

text \<open>Round trip of format version 1: after a client has written the frames \<open>segs\<close> into the regions
  of a need-data request, every one was accepted, and the reader the server creates for the region gives
  back their time stamps, durations, extra data, type parameters and payload, in order.\<close>

theorem v1_frames_roundtrip:
  assumes "need_data_info info" and "\<forall>seg \<in> set segs. writable1 seg \<and> m_type seg = t" and "fits1 info segs"
  shows "\<exists>m' w. run_all (add_frame pb) segs (createFrameWriter 1 info m) = (True, m', w) \<and>
    unat (getNumFrames w) = length segs \<and>
    map_option (\<lambda>r. readData pb r m') (createDataReader t m' (metadataOffset info) (getNumFrames w)) =
      Some (map segment_view1 segs)"
  using assms by (rule frames_roundtrip1)

text \<open>C12. Round trip of format version 2: likewise for the protobuf format, where an encrypted segment
  comes back completely unchanged and a clear one without decryption parameters. Protobuf is assumed
  to parse what it serialised for the messages of these segments.\<close>

theorem v2_frames_roundtrip:
  assumes "need_data_info info" and "\<forall>seg \<in> set segs. writable2 pb seg \<and> m_type seg = t" and "fits2 pb info segs"
  shows "\<exists>m' w. run_all (add_frame pb) segs (createFrameWriter 2 info m) = (True, m', w) \<and>
    unat (getNumFrames w) = length segs \<and>
    map_option (\<lambda>r. readData pb r m') (createDataReader t m' (metadataOffset info) (getNumFrames w)) =
      Some (map segment_view2 segs)"
  using assms by (rule frames_roundtrip2)

text \<open>A version 1 frame refused for lack of media space has already been half written: the writer's
  metadata position stays 96 bytes further on, although no frame was counted, so the next accepted frame
  does not stand where the reader looks for it.\<close>

theorem v1_refused_frame_moves_metadata:
  assumes "unat (w1_metadataBytesWritten w) + 104 \<le> unat (w1_maxMetadataBytes w)"
    and "length (m_extraData seg) \<le> 32" and "unat (w1_metadataOffset w) + 64 < 2 ^ 32"
    and "w1_mediaBytesWritten w + m_dataLength seg > w1_maxMediaBytes w"
  shows "\<exists>m'. writeFrameV1 seg (m, w) = (ASS_NO_SPACE, m', w\<lparr>w1_metadataOffset := w1_metadataOffset w + 96\<rparr>) \<and>
    read_bytes m' (unat (w1_metadataOffset w)) 64 = header1 (w1_mediaDataOffset w) seg"
proof -
  have "\<not> w1_metadataBytesWritten w + METADATA_V1_SIZE_PER_FRAME_BYTES > w1_maxMetadataBytes w"
    using assms(1) unat_u32_bound [of "w1_maxMetadataBytes w"] by (simp add: word_less_nat_alt nowrap)
  from writeMetaDataGeneric_ok [OF this assms(2,3), of m] show ?thesis
    using assms(2,4) by (simp add: writeFrameV1_def writeData_def Let_def mem_simps length_header1)
qed

text \<open>A version 2 writer never touches a byte outside its media region, whatever the segment and
  whatever the outcome, and keeps its position within the space it has accounted for.\<close>

theorem v2_writer_stays_in_region:
  assumes "in_region2 base w" and "segment_ok seg"
    and "\<forall>md bs. serializeToArray pb md = Some bs \<longrightarrow> length bs = byteSizeLong pb md"
    and "writeFrameV2 pb seg (m, w) = (status, m', w')"
  shows "in_region2 base w' \<and> (\<forall>i. i < base \<or> base + unat (w2_maxBytes w) \<le> i \<longrightarrow> m' i = m i)"
proof (cases "\<exists>md. buildMetadata seg = Some md \<and>
    unat (w2_bytesWritten w) + (8 + byteSizeLong pb md + seg_len seg) \<le> unat (w2_maxBytes w)")
  case False
  then have "m' = m \<and> w' = w" using assms(4)
    by (auto simp: writeFrameV2_def Let_def split: option.splits if_splits)
  with assms(1) show ?thesis by simp
next
  case True
  then obtain md where md: "buildMetadata seg = Some md"
    and space: "unat (w2_bytesWritten w) + (8 + byteSizeLong pb md + seg_len seg) \<le> unat (w2_maxBytes w)"
    by blast
  let ?o = "unat (w2_dataOffset w)"
  let ?n = "byteSizeLong pb md"
  note geo = assms(1) [unfolded in_region2_def] space
  have offs: "unat (w2_dataOffset w + 4) = ?o + 4" "unat (w2_dataOffset w + 4 + of_nat ?n) = ?o + 4 + ?n"
    "unat (w2_dataOffset w + 4 + of_nat ?n + m_dataLength seg) = ?o + 4 + ?n + seg_len seg"
    "unat (w2_bytesWritten w + (8 + of_nat ?n + m_dataLength seg)) = unat (w2_bytesWritten w) + (8 + ?n + seg_len seg)"
    using geo by (simp_all add: nowrap)
  show ?thesis
  proof (cases "serializeToArray pb md")
    case None
    then have "m' = write_bytes m ?o (le32 (of_nat ?n)) \<and> w' = w"
      using assms(4) md space by (simp add: writeFrameV2_def Let_def writeUint32_eq) auto
    with geo show ?thesis by (auto simp: in_region2_def write_bytes_outside)
  next
    case (Some bs)
    then have len: "length bs = ?n" "length (payload seg) = seg_len seg"
      using assms(2,3) by (auto simp: segment_ok_def)
    have "m' = write_bytes (write_bytes (write_bytes m ?o (le32 (of_nat ?n))) (?o + 4) bs) (?o + 4 + ?n) (payload seg) \<and>
      w' = w\<lparr>w2_dataOffset := w2_dataOffset w + 4 + of_nat ?n + m_dataLength seg,
             w2_bytesWritten := w2_bytesWritten w + (8 + of_nat ?n + m_dataLength seg),
             w2_numFrames := w2_numFrames w + 1\<rparr>"
      using assms(4) md space Some offs len
      by (simp add: writeFrameV2_def Let_def writeUint32_eq writeBytes_eq algebra_simps)
    with geo len offs show ?thesis by (auto simp: in_region2_def write_bytes_outside)
  qed
qed

section \<open>Witnesses\<close>

definition demo_info :: MediaPlayerShmInfo where
  "demo_info = \<lparr>maxMetadataBytes = 2500, metadataOffset = 0, mediaDataOffset = 2500, maxMediaBytes = 1000\<rparr>"

definition demo_segment :: MediaSegment where
  "demo_segment = setData 3 (Some [1, 2, 3]) (newMediaSegmentAudio 1 100 20 48000 2)"

definition demo_codec :: codec where
  "demo_codec = \<lparr>byteSizeLong = (\<lambda>_. 2), serializeToArray = (\<lambda>_. Some [7, 8]),
                 parseFromArray = (\<lambda>_. buildMetadata demo_segment)\<rparr>"

definition demo_writer1 :: MediaFrameWriterV1 where
  "demo_writer1 = \<lparr>w1_maxMediaBytes = 1, w1_maxMetadataBytes = 2500, w1_metadataBytesWritten = 4,
     w1_mediaBytesWritten = 0, w1_mediaDataOffset = 2500, w1_metadataOffset = 4, w1_numFrames = 0\<rparr>"

lemmas demo_defs = demo_info_def demo_segment_def demo_codec_def demo_writer1_def segment_constructor_defs setData_def

lemma demo_info_need_data: "need_data_info demo_info"
  by (simp add: demo_info_def need_data_info_def getMaxMetadataBytes_def VERSION_SIZE_BYTES_def kMaxFrames_def
      METADATA_V1_SIZE_PER_FRAME_BYTES_def)

lemma demo_segment_ok: "segment_ok demo_segment" "writable1 demo_segment" "writable2 demo_codec demo_segment"
  "m_type demo_segment = AUDIO"
  by (simp_all add: demo_defs writable1_def writable2_def segment_ok_def class_ok_def payload_def buildMetadata_def codec_ok_def)

theorem v1_frames_roundtrip_witness:
  "\<exists>m' w. run_all (add_frame demo_codec) [demo_segment, demo_segment] (createFrameWriter 1 demo_info (\<lambda>_. 0)) = (True, m', w) \<and>
    unat (getNumFrames w) = length [demo_segment, demo_segment] \<and>
    map_option (\<lambda>r. readData demo_codec r m') (createDataReader AUDIO m' 0 (getNumFrames w)) =
      Some [segment_view1 demo_segment, segment_view1 demo_segment]"
proof -
  have "fits1 demo_info [demo_segment, demo_segment]"
    by (simp add: fits1_def demo_defs payload_def)
  from v1_frames_roundtrip [OF demo_info_need_data _ this, where t = AUDIO and m = "\<lambda>_. 0" and pb = demo_codec]
  show ?thesis using demo_segment_ok by (simp add: demo_info_def)
qed

theorem v2_frames_roundtrip_witness:
  "\<exists>m' w. run_all (add_frame demo_codec) [demo_segment, demo_segment] (createFrameWriter 2 demo_info (\<lambda>_. 0)) = (True, m', w) \<and>
    unat (getNumFrames w) = length [demo_segment, demo_segment] \<and>
    map_option (\<lambda>r. readData demo_codec r m') (createDataReader AUDIO m' 0 (getNumFrames w)) =
      Some [demo_segment, demo_segment]"
proof -
  have view: "segment_view2 demo_segment = demo_segment"
    by (simp add: segment_view2_def demo_defs)
  have "fits2 demo_codec demo_info [demo_segment, demo_segment]"
    by (simp add: fits2_def cost2_def metadata_bytes2_def demo_defs)
  from v2_frames_roundtrip [OF demo_info_need_data _ this, where t = AUDIO and m = "\<lambda>_. 0"]
  show ?thesis using demo_segment_ok by (simp add: demo_info_def view)
qed

theorem v1_refused_frame_moves_metadata_witness:
  "\<exists>m'. writeFrameV1 demo_segment (\<lambda>_. 0, demo_writer1) = (ASS_NO_SPACE, m', demo_writer1\<lparr>w1_metadataOffset := 100\<rparr>) \<and>
    read_bytes m' 4 64 = header1 2500 demo_segment"
  using v1_refused_frame_moves_metadata [of demo_writer1 demo_segment "\<lambda>_. 0"]
  by (simp add: demo_defs)

theorem v2_writer_stays_in_region_witness:
  "\<exists>m' w'. writeFrameV2 demo_codec demo_segment
      (\<lambda>_. 9, \<lparr>w2_maxBytes = 20, w2_bytesWritten = 0, w2_dataOffset = 2500, w2_numFrames = 0\<rparr>) = (ASS_OK, m', w') \<and>
    in_region2 2500 w' \<and> m' 2499 = 9 \<and> m' 2520 = 9"
proof -
  let ?w = "\<lparr>w2_maxBytes = 20, w2_bytesWritten = 0, w2_dataOffset = 2500, w2_numFrames = 0\<rparr> :: MediaFrameWriterV2"
  obtain status m' w' where run: "writeFrameV2 demo_codec demo_segment (\<lambda>_. 9, ?w) = (status, m', w')"
    by (cases "writeFrameV2 demo_codec demo_segment (\<lambda>_. 9, ?w)")
  moreover have "cost2 demo_codec demo_segment = 13"
    by (simp add: cost2_def metadata_bytes2_def demo_defs)
  with writeFrameV2_ok [OF demo_segment_ok(3), of ?w "\<lambda>_. 9"] have "status = ASS_OK"
    using run by simp
  moreover have "in_region2 2500 ?w" by (simp add: in_region2_def)
  ultimately show ?thesis
    using v2_writer_stays_in_region [OF _ demo_segment_ok(1) _ run, of 2500]
    by (auto simp: demo_codec_def)
qed

end
