(* ===== verification/Active_Requests.thy ===== *)
theory Active_Requests
  imports Media_Common
begin

text \<open>
  The registry of outstanding need-data requests of one media pipeline
  (\<open>media/server/main/source/ActiveRequests.cpp\<close>): which request id belongs to which source, and, when
  client and server share a process, the segments added to it so far. The interface locale
  \<open>request_registry\<close> states what the pipeline relies on.
\<close>

section \<open>Data\<close>

record ActiveRequestsData =
  ar_type :: MediaSourceType
  ar_bytesWritten :: u32
  ar_maxMediaBytes :: u32
  ar_segments :: "MediaSegment list"

record ActiveRequests =
  m_currentId :: u32
  m_requestMap :: "u32 \<rightharpoonup> ActiveRequestsData"

definition newActiveRequestsData :: "MediaSourceType \<Rightarrow> u32 \<Rightarrow> ActiveRequestsData" where
  "newActiveRequestsData type maxBytes =
     \<lparr>ar_type = type, ar_bytesWritten = 0, ar_maxMediaBytes = maxBytes, ar_segments = []\<rparr>"

definition newActiveRequests :: ActiveRequests where
  "newActiveRequests = \<lparr>m_currentId = 0, m_requestMap = Map.empty\<rparr>"

section \<open>Operations\<close>

text \<open>The copy of a segment owns a fresh copy of the \<open>getDataLength()\<close> bytes behind its data pointer.\<close>

definition copySegment :: "MediaSegment \<Rightarrow> MediaSegment" where
  "copySegment seg = setData (m_dataLength seg) (Some (take (unat (m_dataLength seg)) (payload seg))) seg"

definition addSegmentData :: "MediaSegment \<Rightarrow> ActiveRequestsData \<Rightarrow> AddSegmentStatus \<times> ActiveRequestsData" where
  "addSegmentData segment r =
     (if ar_bytesWritten r + m_dataLength segment > ar_maxMediaBytes r then (ASS_NO_SPACE, r)
      else (ASS_OK, r\<lparr>ar_segments := ar_segments r @ [copySegment segment],
                      ar_bytesWritten := ar_bytesWritten r + m_dataLength segment\<rparr>))"

text \<open>\<open>std::map::insert\<close> keeps an element that is already there.\<close>

definition insertRequest :: "MediaSourceType \<Rightarrow> u32 \<Rightarrow> ActiveRequests \<Rightarrow> u32 \<times> ActiveRequests" where
  "insertRequest mediaSourceType maxBytes s =
     (let reqs = (case m_requestMap s (m_currentId s) of
                    None \<Rightarrow> (m_requestMap s)(m_currentId s \<mapsto> newActiveRequestsData mediaSourceType maxBytes)
                  | Some _ \<Rightarrow> m_requestMap s)
      in (m_currentId s, s\<lparr>m_currentId := m_currentId s + 1, m_requestMap := reqs\<rparr>))"

definition getRequestType :: "u32 \<Rightarrow> ActiveRequests \<Rightarrow> MediaSourceType" where
  "getRequestType requestId s =
     (case m_requestMap s requestId of Some r \<Rightarrow> ar_type r | None \<Rightarrow> MST_UNKNOWN)"

definition eraseRequest :: "u32 \<Rightarrow> ActiveRequests \<Rightarrow> ActiveRequests" where
  "eraseRequest requestId s = s\<lparr>m_requestMap := (m_requestMap s)(requestId := None)\<rparr>"

definition eraseRequestType :: "MediaSourceType \<Rightarrow> ActiveRequests \<Rightarrow> ActiveRequests" where
  "eraseRequestType mediaSourceType s =
     s\<lparr>m_requestMap := (\<lambda>i. case m_requestMap s i of None \<Rightarrow> None
         | Some r \<Rightarrow> if ar_type r = mediaSourceType then None else Some r)\<rparr>"

definition clearRequests :: "ActiveRequests \<Rightarrow> ActiveRequests" where
  "clearRequests s = s\<lparr>m_requestMap := Map.empty\<rparr>"

text \<open>\<open>None\<close> as a segment is a null pointer.\<close>

definition addRequestSegment :: "u32 \<Rightarrow> MediaSegment option \<Rightarrow> ActiveRequests \<Rightarrow> AddSegmentStatus \<times> ActiveRequests" where
  "addRequestSegment requestId segment s =
     (case segment of None \<Rightarrow> (ASS_ERROR, s)
      | Some seg \<Rightarrow>
          if m_data seg = None then (ASS_ERROR, s)
          else (case m_requestMap s requestId of
                  Some r \<Rightarrow> let (status, r') = addSegmentData seg r
                            in (status, s\<lparr>m_requestMap := (m_requestMap s)(requestId \<mapsto> r')\<rparr>)
                | None \<Rightarrow> (ASS_ERROR, s)))"

text \<open>\<open>None\<close> is the \<open>std::runtime_error\<close>.\<close>

definition getRequestSegments :: "u32 \<Rightarrow> ActiveRequests \<Rightarrow> MediaSegment list option" where
  "getRequestSegments requestId s = map_option ar_segments (m_requestMap s requestId)"

section \<open>The invariant\<close>

text \<open>
  The segments of a request add up to the bytes accounted for, which stay within the limit; a request
  never has an unknown type, so \<open>getType\<close> distinguishes outstanding ids from all others.
\<close>

definition request_ok :: "ActiveRequestsData \<Rightarrow> bool" where
  "request_ok r \<longleftrightarrow> ar_type r \<noteq> MST_UNKNOWN \<and>
     unat (ar_bytesWritten r) = sum_list (map (\<lambda>seg. unat (m_dataLength seg)) (ar_segments r)) \<and>
     ar_bytesWritten r \<le> ar_maxMediaBytes r \<and>
     (\<forall>seg \<in> set (ar_segments r). m_data seg \<noteq> None)"

definition requests_ok :: "ActiveRequests \<Rightarrow> bool" where
  "requests_ok s \<longleftrightarrow> (\<forall>i r. m_requestMap s i = Some r \<longrightarrow> request_ok r)"

text \<open>Every outstanding id was handed out since the counter last wrapped.\<close>

definition ids_below :: "ActiveRequests \<Rightarrow> bool" where
  "ids_below s \<longleftrightarrow> (\<forall>i \<in> dom (m_requestMap s). i < m_currentId s)"

lemmas request_defs = insertRequest_def getRequestType_def eraseRequest_def eraseRequestType_def clearRequests_def
  getRequestSegments_def

lemma ids_below_fresh: "ids_below s \<Longrightarrow> m_requestMap s (m_currentId s) = None"
  by (auto simp: ids_below_def)

lemma insertRequest_below:
  assumes "ids_below s" and "m_currentId s \<noteq> -1"
  shows "ids_below (snd (insertRequest t n s))"
proof -
  have "m_currentId s < m_currentId s + 1"
    using assms(2) unatSuc [of "m_currentId s"] by (simp add: word_less_nat_alt add.commute eq_neg_iff_add_eq_0)
  then show ?thesis using assms(1)
    by (auto simp: ids_below_def insertRequest_def Let_def dest: less_trans [rotated] split: option.splits)
qed

lemma erase_below:
  "ids_below s \<Longrightarrow> ids_below (eraseRequest i s)" "ids_below s \<Longrightarrow> ids_below (eraseRequestType t s)"
  "ids_below (clearRequests s)"
  by (auto simp: ids_below_def request_defs dom_def split: option.splits)

lemma request_ok_new: "t \<noteq> MST_UNKNOWN \<Longrightarrow> request_ok (newActiveRequestsData t n)"
  by (simp add: request_ok_def newActiveRequestsData_def)

lemma addSegmentData_ok:
  assumes "request_ok r" and "unat (ar_bytesWritten r) + unat (m_dataLength seg) < 2 ^ 32"
  shows "request_ok (snd (addSegmentData seg r))"
  using assms
  by (auto simp: request_ok_def addSegmentData_def copySegment_def setData_def not_less nowrap)

lemma insertRequest_ok: "requests_ok s \<Longrightarrow> t \<noteq> MST_UNKNOWN \<Longrightarrow> requests_ok (snd (insertRequest t n s))"
  by (auto simp: requests_ok_def insertRequest_def Let_def request_ok_new split: option.splits if_splits)

lemma erase_ok:
  "requests_ok s \<Longrightarrow> requests_ok (eraseRequest i s)" "requests_ok s \<Longrightarrow> requests_ok (eraseRequestType t s)"
  "requests_ok (clearRequests s)"
  by (auto simp: requests_ok_def request_defs split: option.splits if_splits)

lemma addRequestSegment_ok:
  assumes "requests_ok s"
    and "\<forall>r. m_requestMap s i = Some r \<longrightarrow> unat (ar_bytesWritten r) + unat (m_dataLength seg) < 2 ^ 32"
  shows "requests_ok (snd (addRequestSegment i (Some seg) s))"
  using assms addSegmentData_ok [of _ seg]
  by (auto simp: requests_ok_def addRequestSegment_def case_prod_beta split: option.splits)

lemma newActiveRequests_ok: "requests_ok newActiveRequests" "ids_below newActiveRequests"
  by (simp_all add: newActiveRequests_def requests_ok_def ids_below_def)

section \<open>The interface\<close>

text \<open>
  What a pipeline relies on: an id handed out was not outstanding before and is outstanding with its
  type afterwards, and the erasing operations forget exactly the requests they name.
\<close>

locale request_registry =
  fixes ins :: "MediaSourceType \<Rightarrow> u32 \<Rightarrow> 's \<Rightarrow> u32 \<times> 's"
    and type_of :: "u32 \<Rightarrow> 's \<Rightarrow> MediaSourceType"
    and erase_id :: "u32 \<Rightarrow> 's \<Rightarrow> 's"
    and erase_type :: "MediaSourceType \<Rightarrow> 's \<Rightarrow> 's"
    and inv :: "'s \<Rightarrow> bool"
  assumes ins_fresh: "inv s \<Longrightarrow> type_of (fst (ins t n s)) s = MST_UNKNOWN"
    and ins_type: "inv s \<Longrightarrow> type_of i (snd (ins t n s)) = (if i = fst (ins t n s) then t else type_of i s)"
    and erase_id_type: "type_of i (erase_id j s) = (if i = j then MST_UNKNOWN else type_of i s)"
    and erase_type_type: "type_of i (erase_type t s) = (if type_of i s = t then MST_UNKNOWN else type_of i s)"
    and erase_id_inv: "inv s \<Longrightarrow> inv (erase_id j s)"
begin

text \<open>A request is outstanding from its insertion until it is erased, and only then.\<close>

lemma insert_erase:
  assumes "inv s"
  shows "type_of i (erase_id (fst (ins t n s)) (snd (ins t n s))) = type_of i s"
  using ins_fresh [OF assms, of t n] ins_type [OF assms, of i t n] by (simp add: erase_id_type)

lemma erase_commute:
  "type_of k (erase_id i (erase_id j s)) = type_of k (erase_id j (erase_id i s))"
  by (simp add: erase_id_type)

lemma insert_erase_type:
  assumes "inv s"
  shows "type_of i (erase_type t (snd (ins t n s))) = type_of i (erase_type t s)"
  using ins_fresh [OF assms, of t n] ins_type [OF assms, of i t n] by (auto simp: erase_type_type)

end

interpretation reqs: request_registry insertRequest getRequestType eraseRequest eraseRequestType ids_below
  by unfold_locales
    (auto simp: request_defs Let_def newActiveRequestsData_def dest: ids_below_fresh intro: erase_below(1) [unfolded eraseRequest_def]
      split: option.splits)

end
