(* ===== verification/Main_Thread.thy ===== *)
theory Main_Thread
  imports Rialto_Prelude
begin

text \<open>
  The server's main thread (\<open>media/server/main/source/MainThread.cpp\<close>): a FIFO of tasks, each posted
  under a client id, executed one after the other; the tasks of a client that is not registered are
  dropped. A component that runs on the main thread is modelled as an extension of the record below,
  with a datatype \<open>'a\<close> of the closures it posts and a function that executes them.
\<close>

section \<open>State and operations\<close>

text \<open>The closures the main thread posts to itself, and those of its clients.\<close>

datatype 'a Task = RegisterTask u32 | ShutdownTask | ClientTask 'a

record 'a MainThread =
  mt_isMainThreadRunning :: bool
  mt_taskQueue :: "(u32 \<times> 'a Task) list"
  mt_nextClientId :: u32
  mt_registeredClients :: "u32 set"

definition mainThreadClientId :: u32 where "mainThreadClientId = 0"

definition newMainThread :: "'a MainThread" where
  "newMainThread = \<lparr>mt_isMainThreadRunning = True, mt_taskQueue = [], mt_nextClientId = 1,
                    mt_registeredClients = {mainThreadClientId}\<rparr>"

definition enqueueTask :: "u32 \<Rightarrow> 'a Task \<Rightarrow> ('a, 'z) MainThread_scheme \<Rightarrow> ('a, 'z) MainThread_scheme" where
  "enqueueTask clientId task s = s\<lparr>mt_taskQueue := mt_taskQueue s @ [(clientId, task)]\<rparr>"

definition registerClient :: "('a, 'z) MainThread_scheme \<Rightarrow> u32 \<times> ('a, 'z) MainThread_scheme" where
  "registerClient s =
     (let clientId = mt_nextClientId s in
      (clientId, enqueueTask mainThreadClientId (RegisterTask clientId) (s\<lparr>mt_nextClientId := clientId + 1\<rparr>)))"

definition unregisterClient :: "u32 \<Rightarrow> ('a, 'z) MainThread_scheme \<Rightarrow> ('a, 'z) MainThread_scheme" where
  "unregisterClient clientId s = s\<lparr>mt_registeredClients := mt_registeredClients s - {clientId}\<rparr>"

text \<open>The destructor posts the task that ends the loop.\<close>

definition destroyMainThread :: "('a, 'z) MainThread_scheme \<Rightarrow> ('a, 'z) MainThread_scheme" where
  "destroyMainThread s = enqueueTask mainThreadClientId ShutdownTask s"

fun runTask :: "('a \<Rightarrow> ('a, 'z) MainThread_scheme \<Rightarrow> ('a, 'z) MainThread_scheme) \<Rightarrow> 'a Task \<Rightarrow>
    ('a, 'z) MainThread_scheme \<Rightarrow> ('a, 'z) MainThread_scheme" where
  "runTask exec (RegisterTask clientId) s = s\<lparr>mt_registeredClients := insert clientId (mt_registeredClients s)\<rparr>"
| "runTask exec ShutdownTask s = s\<lparr>mt_isMainThreadRunning := False\<rparr>"
| "runTask exec (ClientTask t) s = exec t s"

text \<open>One iteration of \<open>mainThreadLoop\<close> on the first task of a non-empty queue.\<close>

definition mainThreadStep :: "('a \<Rightarrow> ('a, 'z) MainThread_scheme \<Rightarrow> ('a, 'z) MainThread_scheme) \<Rightarrow>
    u32 \<times> 'a Task \<Rightarrow> ('a, 'z) MainThread_scheme \<Rightarrow> ('a, 'z) MainThread_scheme" where
  "mainThreadStep exec taskInfo s =
     (if fst taskInfo \<in> mt_registeredClients s then runTask exec (snd taskInfo) s else s)"

text \<open>\<open>n\<close> iterations of the loop, fewer if it is stopped or has to wait for a task.\<close>

fun mainThreadLoop :: "('a \<Rightarrow> ('a, 'z) MainThread_scheme \<Rightarrow> ('a, 'z) MainThread_scheme) \<Rightarrow> nat \<Rightarrow>
    ('a, 'z) MainThread_scheme \<Rightarrow> ('a, 'z) MainThread_scheme" where
  "mainThreadLoop exec 0 s = s"
| "mainThreadLoop exec (Suc n) s =
     (if \<not> mt_isMainThreadRunning s then s
      else case mt_taskQueue s of
        [] \<Rightarrow> s
      | taskInfo # rest \<Rightarrow> mainThreadLoop exec n (mainThreadStep exec taskInfo (s\<lparr>mt_taskQueue := rest\<rparr>)))"

text \<open>
  \<open>enqueueTaskAndWait\<close>: the tasks that are queued already run first, in order, then the task, if its
  client is registered by then. \<open>None\<close> means that the task was not run: the client was not registered,
  and the caller's result variable is not assigned, or the loop has ended.
\<close>

definition enqueueTaskAndWait :: "('a \<Rightarrow> ('a, 'z) MainThread_scheme \<Rightarrow> ('a, 'z) MainThread_scheme) \<Rightarrow> u32 \<Rightarrow>
    (('a, 'z) MainThread_scheme \<Rightarrow> 'r \<times> ('a, 'z) MainThread_scheme) \<Rightarrow> ('a, 'z) MainThread_scheme \<Rightarrow>
    'r option \<times> ('a, 'z) MainThread_scheme" where
  "enqueueTaskAndWait exec clientId task s =
     (let s = mainThreadLoop exec (length (mt_taskQueue s)) s in
      if mt_isMainThreadRunning s \<and> clientId \<in> mt_registeredClients s
      then map_prod Some id (task s) else (None, s))"

lemmas main_thread_defs = enqueueTask_def registerClient_def unregisterClient_def mainThreadStep_def

text \<open>A main thread that is running, serves itself and has not been told to stop.\<close>

definition thread_ready :: "'a MainThread \<Rightarrow> bool" where
  "thread_ready mt \<longleftrightarrow> mt_isMainThreadRunning mt \<and> mainThreadClientId \<in> mt_registeredClients mt \<and>
     (\<forall>x \<in> set (mt_taskQueue mt). snd x \<noteq> ShutdownTask)"

section \<open>What a client may rely on\<close>

text \<open>
  A client's tasks only do with the main thread what its interface offers: they leave the queue in
  front of them alone, may post further tasks behind it, and neither stop the loop nor touch the
  registration of clients.
\<close>

locale main_thread_client =
  fixes exec :: "'a \<Rightarrow> ('a, 'z) MainThread_scheme \<Rightarrow> ('a, 'z) MainThread_scheme"
  assumes exec_running: "mt_isMainThreadRunning (exec t s) = mt_isMainThreadRunning s"
    and exec_registered: "mt_registeredClients (exec t s) = mt_registeredClients s"
    and exec_queue: "\<exists>q. mt_taskQueue (exec t s) = mt_taskQueue s @ q"
begin

lemma runTask_queue: "\<exists>q. mt_taskQueue (runTask exec t s) = mt_taskQueue s @ q"
  by (cases t) (simp_all add: exec_queue)

lemma step_queue: "\<exists>q. mt_taskQueue (mainThreadStep exec x s) = mt_taskQueue s @ q"
  using runTask_queue by (simp add: mainThreadStep_def)

lemma step_running:
  "snd x \<noteq> ShutdownTask \<Longrightarrow> mt_isMainThreadRunning (mainThreadStep exec x s) = mt_isMainThreadRunning s"
  by (cases "snd x") (simp_all add: mainThreadStep_def exec_running)

text \<open>What every single task keeps is kept by the loop.\<close>

lemma loop_invariant:
  assumes "\<And>x q s. Q s \<Longrightarrow> mt_taskQueue s = x # q \<Longrightarrow> Q (mainThreadStep exec x (s\<lparr>mt_taskQueue := q\<rparr>))"
  shows "Q s \<Longrightarrow> Q (mainThreadLoop exec n s)"
  by (induction n arbitrary: s) (auto simp: assms split: list.split)

text \<open>The queue as it stands is executed front to back; what its tasks post stays queued behind.\<close>

lemma loop_prefix:
  "mt_isMainThreadRunning s \<Longrightarrow> mt_taskQueue s = q1 @ q2 \<Longrightarrow> \<forall>x \<in> set q1. snd x \<noteq> ShutdownTask \<Longrightarrow>
    \<exists>q. mt_taskQueue (mainThreadLoop exec (length q1) s) = q2 @ q"
proof (induction q1 arbitrary: s q2)
  case Nil
  then show ?case by simp
next
  case (Cons x q1)
  let ?s = "mainThreadStep exec x (s\<lparr>mt_taskQueue := q1 @ q2\<rparr>)"
  obtain q where q: "mt_taskQueue ?s = q1 @ q2 @ q"
    using step_queue [of x "s\<lparr>mt_taskQueue := q1 @ q2\<rparr>"] by auto
  have "mt_isMainThreadRunning ?s"
    using Cons.prems step_running [of x] by simp
  then obtain q' where "mt_taskQueue (mainThreadLoop exec (length q1) ?s) = (q2 @ q) @ q'"
    using Cons.IH [of ?s "q2 @ q"] q Cons.prems(3) by auto
  then show ?case using Cons.prems by simp
qed

lemma loop_running:
  "mt_isMainThreadRunning s \<Longrightarrow> mt_taskQueue s = q1 @ q2 \<Longrightarrow> \<forall>x \<in> set q1. snd x \<noteq> ShutdownTask \<Longrightarrow>
    mt_isMainThreadRunning (mainThreadLoop exec (length q1) s)"
proof (induction q1 arbitrary: s q2)
  case Nil
  then show ?case by simp
next
  case (Cons x q1)
  let ?s = "mainThreadStep exec x (s\<lparr>mt_taskQueue := q1 @ q2\<rparr>)"
  obtain q where q: "mt_taskQueue ?s = q1 @ q2 @ q"
    using step_queue [of x "s\<lparr>mt_taskQueue := q1 @ q2\<rparr>"] by auto
  have "mt_isMainThreadRunning ?s"
    using Cons.prems step_running [of x] by simp
  then show ?case using Cons.IH [of ?s "q2 @ q"] q Cons.prems by auto
qed

text \<open>Executing one task never takes a registration back.\<close>

lemma step_registered_mono: "mt_registeredClients s \<subseteq> mt_registeredClients (mainThreadStep exec x s)"
  by (cases "snd x") (auto simp: mainThreadStep_def exec_registered)

lemma loop_registered_mono: "mt_registeredClients s \<subseteq> mt_registeredClients (mainThreadLoop exec n s)"
proof (induction n arbitrary: s)
  case 0
  then show ?case by simp
next
  case (Suc n)
  show ?case
  proof (cases "mt_taskQueue s")
    case Nil
    then show ?thesis by simp
  next
    case (Cons x q)
    have "mt_registeredClients s \<subseteq> mt_registeredClients (mainThreadStep exec x (s\<lparr>mt_taskQueue := q\<rparr>))"
      using step_registered_mono [of "s\<lparr>mt_taskQueue := q\<rparr>" x] by simp
    then show ?thesis using Suc Cons by (auto dest: subsetD)
  qed
qed

lemma loop_registers:
  "mt_isMainThreadRunning s \<Longrightarrow> mainThreadClientId \<in> mt_registeredClients s \<Longrightarrow> \<forall>x \<in> set q1. snd x \<noteq> ShutdownTask \<Longrightarrow>
    mt_taskQueue s = q1 @ q2 \<Longrightarrow> (mainThreadClientId, RegisterTask c) \<in> set q1 \<Longrightarrow>
    c \<in> mt_registeredClients (mainThreadLoop exec (length q1) s)"
proof (induction q1 arbitrary: s q2)
  case Nil
  then show ?case by simp
next
  case (Cons x q1)
  let ?s = "mainThreadStep exec x (s\<lparr>mt_taskQueue := q1 @ q2\<rparr>)"
  obtain q where q: "mt_taskQueue ?s = q1 @ q2 @ q"
    using step_queue [of x "s\<lparr>mt_taskQueue := q1 @ q2\<rparr>"] by auto
  have run: "mt_isMainThreadRunning ?s"
    using Cons.prems step_running [of x] by simp
  have reg: "mainThreadClientId \<in> mt_registeredClients ?s"
    using step_registered_mono [of "s\<lparr>mt_taskQueue := q1 @ q2\<rparr>" x] Cons.prems(2) by auto
  show ?case
  proof (cases "x = (mainThreadClientId, RegisterTask c)")
    case True
    then have "c \<in> mt_registeredClients ?s" using Cons.prems by (simp add: mainThreadStep_def)
    then show ?thesis
      using Cons.prems loop_registered_mono [of ?s "length q1"] by auto
  next
    case False
    then show ?thesis using Cons.IH [OF run reg _ q] Cons.prems by simp
  qed
qed

text \<open>A client that has just registered can post a task and wait for it: the task is run.\<close>

lemma register_then_wait:
  assumes "mt_isMainThreadRunning s" and "mainThreadClientId \<in> mt_registeredClients s"
    and "\<forall>x \<in> set (mt_taskQueue s). snd x \<noteq> ShutdownTask"
  shows "\<exists>s1. enqueueTaskAndWait exec (fst (registerClient s)) task (snd (registerClient s)) = map_prod Some id (task s1) \<and>
    mt_isMainThreadRunning s1 \<and> fst (registerClient s) \<in> mt_registeredClients s1"
proof -
  let ?s = "snd (registerClient s)"
  have q: "mt_taskQueue ?s = mt_taskQueue ?s @ []" and in_q: "(mainThreadClientId, RegisterTask (mt_nextClientId s)) \<in> set (mt_taskQueue ?s)"
    and ok: "\<forall>x \<in> set (mt_taskQueue ?s). snd x \<noteq> ShutdownTask" "mt_isMainThreadRunning ?s"
      "mainThreadClientId \<in> mt_registeredClients ?s"
    using assms by (auto simp: registerClient_def enqueueTask_def Let_def)
  show ?thesis
    using loop_registers [OF ok(2,3,1) q in_q] loop_running [OF ok(2) q ok(1)]
    by (auto simp: enqueueTaskAndWait_def Let_def registerClient_def)
qed

text \<open>After a client has unregistered, none of the tasks it still has in the queue is executed:
  dropping them from the queue makes no difference.\<close>

lemma unregistered_ignored:
  assumes "c \<notin> mt_registeredClients s"
  shows "mainThreadStep exec (c, t) s = s"
  using assms by (simp add: mainThreadStep_def)

end

end
