(* ===== verification/Media_Pipeline_Server.thy ===== *)
theory Media_Pipeline_Server
  imports Complex_Main Shared_Memory Frame_V2 Active_Requests Main_Thread
begin

text \<open>
  One media pipeline of the session server
  (\<open>media/server/main/source/MediaPipelineServerInternal.cpp\<close> and \<open>NeedMediaData.cpp\<close>): it owns a
  partition of the shared memory buffer, runs on the main thread, drives a player and asks the client
  for media data. The calls it makes on the player and the events it sends to the client are recorded
  in the order they are made.
\<close>

section \<open>Data\<close>

text \<open>A C++ \<open>double\<close>; the code only compares it with zero and passes it on.\<close>

type_synonym double = real

datatype PlayerCall =
    PC_create MediaType | PC_destroy
  | PC_attachSource MediaSource | PC_removeSource MediaSourceType
  | PC_play | PC_pause | PC_stop
  | PC_setPlaybackRate double | PC_setPosition i64
  | PC_setVideoGeometry u32 u32 u32 u32
  | PC_attachSegments "MediaSegment list" | PC_attachReader DataReader
  | PC_setEos MediaSourceType | PC_renderFrame | PC_setVolume double

datatype ClientEvent =
    CE_playbackState PlaybackState
  | CE_needMediaData i32 u32 u32 MediaPlayerShmInfo
  | CE_position i64 | CE_networkState NetworkState | CE_qos i32 QosInfo

datatype PipelineOutput = ToPlayer PlayerCall | ToClient ClientEvent

text \<open>The closures the pipeline posts to the main thread without waiting for them.\<close>

datatype PipelineTask =
    NotifyPlaybackStateTask PlaybackState
  | NotifyPositionTask i64
  | NotifyNetworkStateTask NetworkState
  | ClearActiveRequestsTask
  | InvalidateActiveRequestsTask MediaSourceType
  | NotifyQosTask MediaSourceType QosInfo
  | ResendNeedMediaDataTask MediaSourceType

text \<open>
  The members of \<open>MediaPipelineServerInternal\<close>, on top of the main thread it runs on. \<open>p_client\<close> and
  \<open>p_gstPlayer\<close> say whether the pointers are set, \<open>p_timers\<close> maps a source to its resend timer with
  the timer's \<open>isActive()\<close>, \<open>p_mem\<close> is the content of the shared memory, \<open>p_sourceId\<close> the static counter of
  \<open>generateSourceId\<close>.
\<close>

record MediaPipelineServer = "PipelineTask MainThread" +
  p_client :: bool
  p_gstPlayer :: bool
  p_sessionId :: int
  p_shmBuffer :: SharedMemoryBuffer
  p_mem :: mem
  p_activeRequests :: ActiveRequests
  p_mainThreadClientId :: u32
  p_currentPlaybackState :: PlaybackState
  p_timers :: "MediaSourceType \<rightharpoonup> bool"
  p_attachedSources :: "MediaSourceType \<rightharpoonup> i32"
  p_sourceId :: i32
  p_out :: "PipelineOutput list"

definition toPlayer :: "PlayerCall \<Rightarrow> MediaPipelineServer \<Rightarrow> MediaPipelineServer" where
  "toPlayer c s = s\<lparr>p_out := p_out s @ [ToPlayer c]\<rparr>"

definition toClient :: "ClientEvent \<Rightarrow> MediaPipelineServer \<Rightarrow> MediaPipelineServer" where
  "toClient e s = s\<lparr>p_out := p_out s @ [ToClient e]\<rparr>"

section \<open>The need-data message\<close>

record NeedMediaData =
  nmd_client :: bool
  nmd_mediaSourceType :: MediaSourceType
  nmd_frameCount :: u32
  nmd_sourceId :: i32
  nmd_maxMediaBytes :: u32
  nmd_shmInfo :: "MediaPlayerShmInfo option"
  nmd_isValid :: bool

definition newNeedMediaData ::
  "bool \<Rightarrow> SharedMemoryBuffer \<Rightarrow> int \<Rightarrow> MediaSourceType \<Rightarrow> i32 \<Rightarrow> PlaybackState \<Rightarrow> NeedMediaData" where
  "newNeedMediaData client shmBuffer sessionId mediaSourceType sourceId currentPlaybackState =
     (let n = \<lparr>nmd_client = client, nmd_mediaSourceType = mediaSourceType, nmd_frameCount = kMaxFrames,
               nmd_sourceId = sourceId, nmd_maxMediaBytes = 0, nmd_shmInfo = None, nmd_isValid = False\<rparr>;
          n = (if PS_PLAYING \<noteq> currentPlaybackState then n\<lparr>nmd_frameCount := kPrerollNumFrames\<rparr> else n)
      in if AUDIO \<noteq> mediaSourceType \<and> VIDEO \<noteq> mediaSourceType then n
         else
           let n = n\<lparr>nmd_maxMediaBytes := getMaxDataLen GENERIC sessionId mediaSourceType shmBuffer - getMaxMetadataBytes\<rparr>
           in case getDataOffset GENERIC sessionId mediaSourceType shmBuffer of
                None \<Rightarrow> n
              | Some off \<Rightarrow>
                  n\<lparr>nmd_shmInfo := Some \<lparr>maxMetadataBytes = getMaxMetadataBytes, metadataOffset = off,
                                         mediaDataOffset = off + getMaxMetadataBytes,
                                         maxMediaBytes = nmd_maxMediaBytes n\<rparr>,
                    nmd_isValid := True\<rparr>)"

definition sendNeedMediaData :: "NeedMediaData \<Rightarrow> MediaPipelineServer \<Rightarrow> bool \<times> MediaPipelineServer" where
  "sendNeedMediaData n s =
     (case nmd_shmInfo n of
        Some info \<Rightarrow>
          if nmd_client n \<and> nmd_isValid n then
            let (requestId, reqs) = insertRequest (nmd_mediaSourceType n) (nmd_maxMediaBytes n) (p_activeRequests s);
                s = s\<lparr>p_activeRequests := reqs\<rparr>
            in (True, toClient (CE_needMediaData (nmd_sourceId n) (nmd_frameCount n) requestId info) s)
          else (False, s)
      | None \<Rightarrow> (False, s))"

section \<open>Tasks on the main thread\<close>

definition generateSourceId :: "MediaPipelineServer \<Rightarrow> i32 \<times> MediaPipelineServer" where
  "generateSourceId s = (p_sourceId s, s\<lparr>p_sourceId := p_sourceId s + 1\<rparr>)"

definition post :: "PipelineTask \<Rightarrow> MediaPipelineServer \<Rightarrow> MediaPipelineServer" where
  "post t s = enqueueTask (p_mainThreadClientId s) (ClientTask t) s"

definition notifyPlaybackState :: "PlaybackState \<Rightarrow> MediaPipelineServer \<Rightarrow> MediaPipelineServer" where
  "notifyPlaybackState state s = post (NotifyPlaybackStateTask state) s"

definition notifyPosition :: "i64 \<Rightarrow> MediaPipelineServer \<Rightarrow> MediaPipelineServer" where
  "notifyPosition position s = post (NotifyPositionTask position) s"

definition notifyNetworkState :: "NetworkState \<Rightarrow> MediaPipelineServer \<Rightarrow> MediaPipelineServer" where
  "notifyNetworkState state s = post (NotifyNetworkStateTask state) s"

definition clearActiveRequestsCache :: "MediaPipelineServer \<Rightarrow> MediaPipelineServer" where
  "clearActiveRequestsCache s = post ClearActiveRequestsTask s"

definition invalidateActiveRequests :: "MediaSourceType \<Rightarrow> MediaPipelineServer \<Rightarrow> MediaPipelineServer" where
  "invalidateActiveRequests type s = post (InvalidateActiveRequestsTask type) s"

definition notifyQos :: "MediaSourceType \<Rightarrow> QosInfo \<Rightarrow> MediaPipelineServer \<Rightarrow> MediaPipelineServer" where
  "notifyQos mediaSourceType qosInfo s = post (NotifyQosTask mediaSourceType qosInfo) s"

definition notifyNeedMediaDataInternal :: "MediaSourceType \<Rightarrow> MediaPipelineServer \<Rightarrow> bool \<times> MediaPipelineServer" where
  "notifyNeedMediaDataInternal mediaSourceType s =
     (let s = s\<lparr>p_timers := (p_timers s)(mediaSourceType := None)\<rparr>;
          s = s\<lparr>p_mem := snd (clearData GENERIC (p_sessionId s) mediaSourceType (p_shmBuffer s) (p_mem s))\<rparr>
      in case p_attachedSources s mediaSourceType of
           None \<Rightarrow> (False, s)
         | Some sourceId \<Rightarrow>
             sendNeedMediaData (newNeedMediaData (p_client s) (p_shmBuffer s) (p_sessionId s) mediaSourceType
               sourceId (p_currentPlaybackState s)) s)"

text \<open>A new timer replaces an inactive one and is active.\<close>

definition scheduleNotifyNeedMediaData :: "MediaSourceType \<Rightarrow> MediaPipelineServer \<Rightarrow> MediaPipelineServer" where
  "scheduleNotifyNeedMediaData mediaSourceType s =
     (if p_timers s mediaSourceType = Some True then s
      else s\<lparr>p_timers := (p_timers s)(mediaSourceType \<mapsto> True)\<rparr>)"

text \<open>An active timer expires: its callback posts the resend task, then the timer is inactive.\<close>

definition timerExpired :: "MediaSourceType \<Rightarrow> MediaPipelineServer \<Rightarrow> MediaPipelineServer" where
  "timerExpired mediaSourceType s =
     (if p_timers s mediaSourceType = Some True
      then post (ResendNeedMediaDataTask mediaSourceType)
             (s\<lparr>p_timers := (p_timers s)(mediaSourceType \<mapsto> False)\<rparr>)
      else s)"

fun pipelineTask :: "PipelineTask \<Rightarrow> MediaPipelineServer \<Rightarrow> MediaPipelineServer" where
  "pipelineTask (NotifyPlaybackStateTask state) s =
     (let s = s\<lparr>p_currentPlaybackState := state\<rparr> in
      if p_client s then toClient (CE_playbackState state) s else s)"
| "pipelineTask (NotifyPositionTask position) s =
     (if p_client s then toClient (CE_position position) s else s)"
| "pipelineTask (NotifyNetworkStateTask state) s =
     (if p_client s then toClient (CE_networkState state) s else s)"
| "pipelineTask ClearActiveRequestsTask s = s\<lparr>p_activeRequests := clearRequests (p_activeRequests s)\<rparr>"
| "pipelineTask (InvalidateActiveRequestsTask type) s =
     s\<lparr>p_activeRequests := eraseRequestType type (p_activeRequests s)\<rparr>"
| "pipelineTask (NotifyQosTask mediaSourceType qosInfo) s =
     (if p_client s then
        (case p_attachedSources s mediaSourceType of
           None \<Rightarrow> s
         | Some sourceId \<Rightarrow> toClient (CE_qos sourceId qosInfo) s)
      else s)"
| "pipelineTask (ResendNeedMediaDataTask mediaSourceType) s =
     (let s = s\<lparr>p_timers := (p_timers s)(mediaSourceType := None)\<rparr>;
          (sent, s) = notifyNeedMediaDataInternal mediaSourceType s
      in if \<not> sent then scheduleNotifyNeedMediaData mediaSourceType s else s)"

text \<open>A public method: its body runs on the main thread and the caller waits.\<close>

definition onMainThread :: "(MediaPipelineServer \<Rightarrow> 'r \<times> MediaPipelineServer) \<Rightarrow> MediaPipelineServer \<Rightarrow>
    'r option \<times> MediaPipelineServer" where
  "onMainThread task s = enqueueTaskAndWait pipelineTask (p_mainThreadClientId s) task s"

definition notifyNeedMediaData :: "MediaSourceType \<Rightarrow> MediaPipelineServer \<Rightarrow> bool option \<times> MediaPipelineServer" where
  "notifyNeedMediaData mediaSourceType = onMainThread (notifyNeedMediaDataInternal mediaSourceType)"

section \<open>Construction and destruction\<close>

text \<open>
  The constructor; the main thread is \<open>None\<close> when the factory returns no main thread. \<open>Inl\<close> is a thrown
  exception, with the main thread it leaves behind: a failing constructor does not unregister.
\<close>

definition newMediaPipelineServerInternal ::
  "PipelineTask MainThread option \<Rightarrow> bool \<Rightarrow> int \<Rightarrow> SharedMemoryBuffer \<Rightarrow> mem \<Rightarrow> i32 \<Rightarrow>
     MediaPipelineServer option + MediaPipelineServer" where
  "newMediaPipelineServerInternal mainThread client sessionId shmBuffer m sourceId =
     (case mainThread of
        None \<Rightarrow> Inl None
      | Some mt \<Rightarrow>
          let s = \<lparr>mt_isMainThreadRunning = mt_isMainThreadRunning mt, mt_taskQueue = mt_taskQueue mt,
                   mt_nextClientId = mt_nextClientId mt, mt_registeredClients = mt_registeredClients mt,
                   p_client = client, p_gstPlayer = False, p_sessionId = sessionId, p_shmBuffer = shmBuffer,
                   p_mem = m, p_activeRequests = newActiveRequests, p_mainThreadClientId = 0,
                   p_currentPlaybackState = PS_UNKNOWN, p_timers = Map.empty,
                   p_attachedSources = Map.empty, p_sourceId = sourceId, p_out = []\<rparr>;
              (clientId, s) = registerClient s;
              s = s\<lparr>p_mainThreadClientId := clientId\<rparr>;
              (result, s) = onMainThread (\<lambda>s. let (r, shm) = mapPartition GENERIC (p_sessionId s) (p_shmBuffer s)
                                              in (r, s\<lparr>p_shmBuffer := shm\<rparr>)) s
          in if result = Some True then Inr s else Inl (Some s))"

text \<open>The task of the destructor: cancel the timers, give the partition back, unregister.\<close>

definition destroyTask :: "MediaPipelineServer \<Rightarrow> unit \<times> MediaPipelineServer" where
  "destroyTask s =
     (let s = s\<lparr>p_timers := map_option (\<lambda>_. False) \<circ> p_timers s\<rparr>;
          s = s\<lparr>p_shmBuffer := snd (unmapPartition GENERIC (p_sessionId s) (p_shmBuffer s))\<rparr>
      in ((), unregisterClient (p_mainThreadClientId s) s))"

definition destroyMediaPipelineServerInternal :: "MediaPipelineServer \<Rightarrow> unit option \<times> MediaPipelineServer" where
  "destroyMediaPipelineServerInternal s = onMainThread destroyTask s"

section \<open>Controlling the player\<close>

text \<open>\<open>created\<close> says whether the player factory returns a player.\<close>

definition loadInternal :: "bool \<Rightarrow> MediaType \<Rightarrow> MediaPipelineServer \<Rightarrow> bool \<times> MediaPipelineServer" where
  "loadInternal created type s =
     (let s = (if p_gstPlayer s then toPlayer PC_destroy (s\<lparr>p_gstPlayer := False\<rparr>) else s);
          s = (if created then toPlayer (PC_create type) (s\<lparr>p_gstPlayer := True\<rparr>) else s)
      in if \<not> p_gstPlayer s then (False, s) else (True, notifyNetworkState NS_BUFFERING s))"

definition load :: "bool \<Rightarrow> MediaType \<Rightarrow> MediaPipelineServer \<Rightarrow> bool option \<times> MediaPipelineServer" where
  "load created type = onMainThread (loadInternal created type)"

text \<open>The result carries the source with the id the call sets.\<close>

definition attachSourceInternal :: "MediaSource \<Rightarrow> MediaPipelineServer \<Rightarrow> (bool \<times> MediaSource) \<times> MediaPipelineServer" where
  "attachSourceInternal source s =
     (let source = source\<lparr>ms_id := -1\<rparr> in
      if \<not> p_gstPlayer s then ((False, source), s)
      else if ms_type source = MST_UNKNOWN then ((False, source), s)
      else
        let s = toPlayer (PC_attachSource source) s in
        case p_attachedSources s (ms_type source) of
          None \<Rightarrow>
            let (i, s) = generateSourceId s; source = source\<lparr>ms_id := i\<rparr>
            in ((True, source), s\<lparr>p_attachedSources := (p_attachedSources s)(ms_type source \<mapsto> ms_id source)\<rparr>)
        | Some i \<Rightarrow> ((True, source\<lparr>ms_id := i\<rparr>), s))"

definition attachSource :: "MediaSource \<Rightarrow> MediaPipelineServer \<Rightarrow> (bool \<times> MediaSource) option \<times> MediaPipelineServer" where
  "attachSource source = onMainThread (attachSourceInternal source)"

text \<open>\<open>std::find_if\<close> walks the \<open>std::map\<close> in the order of its keys.\<close>

definition findSource :: "i32 \<Rightarrow> MediaPipelineServer \<Rightarrow> MediaSourceType option" where
  "findSource i s = find (\<lambda>t. p_attachedSources s t = Some i) [MST_UNKNOWN, AUDIO, VIDEO]"

definition removeSourceInternal :: "i32 \<Rightarrow> MediaPipelineServer \<Rightarrow> bool \<times> MediaPipelineServer" where
  "removeSourceInternal i s =
     (if \<not> p_gstPlayer s then (False, s)
      else case findSource i s of
        None \<Rightarrow> (False, s)
      | Some t \<Rightarrow>
          let s = toPlayer (PC_removeSource t) s
          in (True, s\<lparr>p_attachedSources := (p_attachedSources s)(t := None)\<rparr>))"

definition removeSource :: "i32 \<Rightarrow> MediaPipelineServer \<Rightarrow> bool option \<times> MediaPipelineServer" where
  "removeSource i = onMainThread (removeSourceInternal i)"

definition playInternal :: "MediaPipelineServer \<Rightarrow> bool \<times> MediaPipelineServer" where
  "playInternal s = (if \<not> p_gstPlayer s then (False, s) else (True, toPlayer PC_play s))"

definition play :: "MediaPipelineServer \<Rightarrow> bool option \<times> MediaPipelineServer" where
  "play = onMainThread playInternal"

definition pauseInternal :: "MediaPipelineServer \<Rightarrow> bool \<times> MediaPipelineServer" where
  "pauseInternal s = (if \<not> p_gstPlayer s then (False, s) else (True, toPlayer PC_pause s))"

definition pause :: "MediaPipelineServer \<Rightarrow> bool option \<times> MediaPipelineServer" where
  "pause = onMainThread pauseInternal"

definition stopInternal :: "MediaPipelineServer \<Rightarrow> bool \<times> MediaPipelineServer" where
  "stopInternal s = (if \<not> p_gstPlayer s then (False, s) else (True, toPlayer PC_stop s))"

definition stop :: "MediaPipelineServer \<Rightarrow> bool option \<times> MediaPipelineServer" where
  "stop = onMainThread stopInternal"

definition setPlaybackRateInternal :: "double \<Rightarrow> MediaPipelineServer \<Rightarrow> bool \<times> MediaPipelineServer" where
  "setPlaybackRateInternal rate s =
     (if \<not> p_gstPlayer s then (False, s)
      else if 0 = rate then (False, s)
      else (True, toPlayer (PC_setPlaybackRate rate) s))"

definition setPlaybackRate :: "double \<Rightarrow> MediaPipelineServer \<Rightarrow> bool option \<times> MediaPipelineServer" where
  "setPlaybackRate rate = onMainThread (setPlaybackRateInternal rate)"

definition setPositionInternal :: "i64 \<Rightarrow> MediaPipelineServer \<Rightarrow> bool \<times> MediaPipelineServer" where
  "setPositionInternal position s =
     (if \<not> p_gstPlayer s then (False, s) else (True, toPlayer (PC_setPosition position) s))"

definition setPosition :: "i64 \<Rightarrow> MediaPipelineServer \<Rightarrow> bool option \<times> MediaPipelineServer" where
  "setPosition position = onMainThread (setPositionInternal position)"

text \<open>The two queries: \<open>reply\<close> is the player's answer, \<open>None\<close> when it returns \<open>false\<close>.\<close>

definition getPositionInternal :: "i64 option \<Rightarrow> MediaPipelineServer \<Rightarrow> i64 option \<times> MediaPipelineServer" where
  "getPositionInternal reply s = (if \<not> p_gstPlayer s then (None, s) else (reply, s))"

definition getPosition :: "i64 option \<Rightarrow> MediaPipelineServer \<Rightarrow> i64 option option \<times> MediaPipelineServer" where
  "getPosition reply = onMainThread (getPositionInternal reply)"

definition getVolumeInternal :: "double option \<Rightarrow> MediaPipelineServer \<Rightarrow> double option \<times> MediaPipelineServer" where
  "getVolumeInternal reply s = (if \<not> p_gstPlayer s then (None, s) else (reply, s))"

definition getVolume :: "double option \<Rightarrow> MediaPipelineServer \<Rightarrow> double option option \<times> MediaPipelineServer" where
  "getVolume reply = onMainThread (getVolumeInternal reply)"

definition setVideoWindowInternal ::
  "u32 \<Rightarrow> u32 \<Rightarrow> u32 \<Rightarrow> u32 \<Rightarrow> MediaPipelineServer \<Rightarrow> bool \<times> MediaPipelineServer" where
  "setVideoWindowInternal x y width height s =
     (if \<not> p_gstPlayer s then (False, s) else (True, toPlayer (PC_setVideoGeometry x y width height) s))"

definition setVideoWindow ::
  "u32 \<Rightarrow> u32 \<Rightarrow> u32 \<Rightarrow> u32 \<Rightarrow> MediaPipelineServer \<Rightarrow> bool option \<times> MediaPipelineServer" where
  "setVideoWindow x y width height = onMainThread (setVideoWindowInternal x y width height)"

definition renderFrameInternal :: "MediaPipelineServer \<Rightarrow> bool \<times> MediaPipelineServer" where
  "renderFrameInternal s = (if \<not> p_gstPlayer s then (False, s) else (True, toPlayer PC_renderFrame s))"

definition renderFrame :: "MediaPipelineServer \<Rightarrow> bool option \<times> MediaPipelineServer" where
  "renderFrame = onMainThread renderFrameInternal"

definition setVolumeInternal :: "double \<Rightarrow> MediaPipelineServer \<Rightarrow> bool \<times> MediaPipelineServer" where
  "setVolumeInternal volume s =
     (if \<not> p_gstPlayer s then (False, s) else (True, toPlayer (PC_setVolume volume) s))"

definition setVolume :: "double \<Rightarrow> MediaPipelineServer \<Rightarrow> bool option \<times> MediaPipelineServer" where
  "setVolume volume = onMainThread (setVolumeInternal volume)"

section \<open>Data from the client\<close>

text \<open>Client and server in one process: the segments were added to the request.\<close>

definition haveDataInternal :: "MediaSourceStatus \<Rightarrow> u32 \<Rightarrow> MediaPipelineServer \<Rightarrow> bool \<times> MediaPipelineServer" where
  "haveDataInternal status needDataRequestId s =
     (if \<not> p_gstPlayer s then (False, s)
      else
        let mediaSourceType = getRequestType needDataRequestId (p_activeRequests s);
            erase = (\<lambda>s. s\<lparr>p_activeRequests := eraseRequest needDataRequestId (p_activeRequests s)\<rparr>)
        in if MST_UNKNOWN = mediaSourceType then (True, s)
           else if status \<noteq> MSS_OK \<and> status \<noteq> MSS_EOS then
             (True, scheduleNotifyNeedMediaData mediaSourceType (erase s))
           else case getRequestSegments needDataRequestId (p_activeRequests s) of
                  None \<Rightarrow> (False, erase s)
                | Some segments \<Rightarrow>
                    let s = erase (toPlayer (PC_attachSegments segments) s)
                    in (True, if status = MSS_EOS then toPlayer (PC_setEos mediaSourceType) s else s))"

definition haveData :: "MediaSourceStatus \<Rightarrow> u32 \<Rightarrow> MediaPipelineServer \<Rightarrow> bool option \<times> MediaPipelineServer" where
  "haveData status needDataRequestId = onMainThread (haveDataInternal status needDataRequestId)"

text \<open>Client in another process: the frames are in the shared memory region of the source.\<close>

definition haveDataShmInternal ::
  "MediaSourceStatus \<Rightarrow> u32 \<Rightarrow> u32 \<Rightarrow> MediaPipelineServer \<Rightarrow> bool \<times> MediaPipelineServer" where
  "haveDataShmInternal status numFrames needDataRequestId s =
     (if \<not> p_gstPlayer s then (False, s)
      else
        let mediaSourceType = getRequestType needDataRequestId (p_activeRequests s) in
        if MST_UNKNOWN = mediaSourceType then (True, s)
        else
          let s = s\<lparr>p_activeRequests := eraseRequest needDataRequestId (p_activeRequests s)\<rparr> in
          if status \<noteq> MSS_OK \<and> status \<noteq> MSS_EOS then (True, scheduleNotifyNeedMediaData mediaSourceType s)
          else if getBuffer (p_shmBuffer s) = None then (False, notifyPlaybackState PS_FAILURE s)
          else
            case getDataOffset GENERIC (p_sessionId s) mediaSourceType (p_shmBuffer s) of
              None \<Rightarrow> (False, notifyPlaybackState PS_FAILURE s)
            | Some regionOffset \<Rightarrow>
                let eos = (\<lambda>s. if status = MSS_EOS then toPlayer (PC_setEos mediaSourceType) s else s) in
                if 0 \<noteq> numFrames then
                  (case createDataReader mediaSourceType (p_mem s) regionOffset numFrames of
                     None \<Rightarrow> (False, notifyPlaybackState PS_FAILURE s)
                   | Some dataReader \<Rightarrow> (True, eos (toPlayer (PC_attachReader dataReader) s)))
                else (True, eos s))"

definition haveDataShm ::
  "MediaSourceStatus \<Rightarrow> u32 \<Rightarrow> u32 \<Rightarrow> MediaPipelineServer \<Rightarrow> bool option \<times> MediaPipelineServer" where
  "haveDataShm status numFrames needDataRequestId = onMainThread (haveDataShmInternal status numFrames needDataRequestId)"

definition addSegmentInternal ::
  "u32 \<Rightarrow> MediaSegment option \<Rightarrow> MediaPipelineServer \<Rightarrow> AddSegmentStatus \<times> MediaPipelineServer" where
  "addSegmentInternal needDataRequestId mediaSegment s =
     (let (status, reqs) = addRequestSegment needDataRequestId mediaSegment (p_activeRequests s)
      in (status, s\<lparr>p_activeRequests := reqs\<rparr>))"

definition addSegment ::
  "u32 \<Rightarrow> MediaSegment option \<Rightarrow> MediaPipelineServer \<Rightarrow> AddSegmentStatus option \<times> MediaPipelineServer" where
  "addSegment needDataRequestId mediaSegment = onMainThread (addSegmentInternal needDataRequestId mediaSegment)"

section \<open>The main thread contract\<close>

text \<open>What the closures and most handlers leave alone: everything but requests, output, memory, timers
  and the playback state.\<close>

definition same_frame :: "MediaPipelineServer \<Rightarrow> MediaPipelineServer \<Rightarrow> bool" where
  "same_frame s s' \<longleftrightarrow> mt_isMainThreadRunning s' = mt_isMainThreadRunning s \<and> mt_taskQueue s' = mt_taskQueue s \<and>
     mt_nextClientId s' = mt_nextClientId s \<and> mt_registeredClients s' = mt_registeredClients s \<and>
     p_client s' = p_client s \<and> p_gstPlayer s' = p_gstPlayer s \<and> p_sessionId s' = p_sessionId s \<and>
     p_shmBuffer s' = p_shmBuffer s \<and> p_mainThreadClientId s' = p_mainThreadClientId s \<and>
     p_attachedSources s' = p_attachedSources s \<and> p_sourceId s' = p_sourceId s"

lemmas output_defs = toPlayer_def toClient_def

lemma sendNeedMediaData_frame: "same_frame s (snd (sendNeedMediaData n s))"
  by (simp add: same_frame_def sendNeedMediaData_def output_defs Let_def case_prod_beta split: option.split)

lemma same_frame_trans: "same_frame s s' \<Longrightarrow> same_frame s' s'' \<Longrightarrow> same_frame s s''"
  by (simp add: same_frame_def)

lemma notifyNeedMediaDataInternal_frame: "same_frame s (snd (notifyNeedMediaDataInternal t s))"
proof -
  let ?s = "s\<lparr>p_timers := (p_timers s)(t := None),
    p_mem := snd (clearData GENERIC (p_sessionId s) t (p_shmBuffer s) (p_mem s))\<rparr>"
  have "same_frame s ?s" by (simp add: same_frame_def)
  then show ?thesis
    using same_frame_trans [OF _ sendNeedMediaData_frame [of ?s]]
    by (simp add: notifyNeedMediaDataInternal_def Let_def split: option.split)
qed

lemma scheduleNotifyNeedMediaData_frame: "same_frame s (scheduleNotifyNeedMediaData t s)"
  by (simp add: same_frame_def scheduleNotifyNeedMediaData_def)

lemma pipelineTask_frame: "same_frame s (pipelineTask t s)"
proof (cases t)
  case (ResendNeedMediaDataTask src)
  let ?s = "s\<lparr>p_timers := (p_timers s)(src := None)\<rparr>"
  have "same_frame s ?s" by (simp add: same_frame_def)
  then have *: "same_frame s (snd (notifyNeedMediaDataInternal src ?s))"
    by (rule same_frame_trans) (rule notifyNeedMediaDataInternal_frame)
  then show ?thesis
    using same_frame_trans [OF * scheduleNotifyNeedMediaData_frame]
    by (simp add: ResendNeedMediaDataTask case_prod_beta Let_def)
qed (simp_all add: same_frame_def output_defs Let_def split: option.split)

interpretation pipe: main_thread_client pipelineTask
  by unfold_locales (use pipelineTask_frame in \<open>auto simp: same_frame_def\<close>)

section \<open>Main-thread execution in a quiet state\<close>

text \<open>When nothing is queued, a public method is its body.\<close>

definition idle :: "MediaPipelineServer \<Rightarrow> bool" where
  "idle s \<longleftrightarrow> mt_isMainThreadRunning s \<and> mt_taskQueue s = [] \<and> p_mainThreadClientId s \<in> mt_registeredClients s"

lemma onMainThread_idle: "idle s \<Longrightarrow> onMainThread f s = map_prod Some id (f s)"
  by (simp add: onMainThread_def enqueueTaskAndWait_def idle_def)

end
