(* ===== verification/Media_Pipeline_Proofs.thy ===== *)
theory Media_Pipeline_Proofs
  imports Media_Pipeline_Server
begin

text \<open>
  The life of a media pipeline as a step relation, the invariant of its states, and what its handlers
  guarantee: the regions it asks the client to fill, the bookkeeping of requests, the retry after a bad
  answer, and the clean end of a session.
\<close>

section \<open>The pipeline as a state machine\<close>

text \<open>The requests a client or the player can make, as the bodies that run on the main thread.\<close>

datatype PipelineRequest =
    LoadReq bool MediaType | AttachSourceReq MediaSource | RemoveSourceReq i32
  | PlayReq | PauseReq | StopReq | SetPlaybackRateReq double | SetPositionReq i64
  | SetVideoWindowReq u32 u32 u32 u32 | RenderFrameReq | SetVolumeReq double
  | HaveDataReq MediaSourceStatus u32 | HaveDataShmReq MediaSourceStatus u32 u32
  | AddSegmentReq u32 "MediaSegment option" | NeedMediaDataReq MediaSourceType

fun respond :: "PipelineRequest \<Rightarrow> MediaPipelineServer \<Rightarrow> bool \<times> MediaPipelineServer" where
  "respond (LoadReq created type) s = loadInternal created type s"
| "respond (AttachSourceReq source) s = map_prod fst id (attachSourceInternal source s)"
| "respond (RemoveSourceReq i) s = removeSourceInternal i s"
| "respond PlayReq s = playInternal s"
| "respond PauseReq s = pauseInternal s"
| "respond StopReq s = stopInternal s"
| "respond (SetPlaybackRateReq rate) s = setPlaybackRateInternal rate s"
| "respond (SetPositionReq pos) s = setPositionInternal pos s"
| "respond (SetVideoWindowReq x y w h) s = setVideoWindowInternal x y w h s"
| "respond RenderFrameReq s = renderFrameInternal s"
| "respond (SetVolumeReq v) s = setVolumeInternal v s"
| "respond (HaveDataReq status i) s = haveDataInternal status i s"
| "respond (HaveDataShmReq status n i) s = haveDataShmInternal status n i s"
| "respond (AddSegmentReq i seg) s = map_prod (\<lambda>status. status = ASS_OK) id (addSegmentInternal i seg s)"
| "respond (NeedMediaDataReq t) s = notifyNeedMediaDataInternal t s"

text \<open>The requests that act on the player.\<close>

fun needs_player :: "PipelineRequest \<Rightarrow> bool" where
  "needs_player (LoadReq _ _) = False"
| "needs_player (AddSegmentReq _ _) = False"
| "needs_player (NeedMediaDataReq _) = False"
| "needs_player _ = True"

text \<open>
  One step: a task or a request runs on the main thread, a task is posted, a timer expires, the client
  writes the shared memory, or another session maps or unmaps its partition. Source ids come from a
  signed counter, so the steps stop short of its overflow, which C++ leaves undefined.
\<close>

inductive pipeline_step :: "MediaPipelineServer \<Rightarrow> MediaPipelineServer \<Rightarrow> bool" where
  run_task: "mt_taskQueue s = x # q \<Longrightarrow> pipeline_step s (mainThreadStep pipelineTask x (s\<lparr>mt_taskQueue := q\<rparr>))"
| request: "sint (p_sourceId s) < 2 ^ 31 - 1 \<Longrightarrow> pipeline_step s (snd (respond r s))"
| post_task: "pipeline_step s (post t s)"
| timer: "pipeline_step s (timerExpired t s)"
| client_writes: "pipeline_step s (s\<lparr>p_mem := m\<rparr>)"
| other_maps: "i \<noteq> NO_ID_ASSIGNED \<Longrightarrow>
    pipeline_step s (s\<lparr>p_shmBuffer := snd (mapPartition t i (p_shmBuffer s))\<rparr>)"
| other_unmaps: "i \<noteq> NO_ID_ASSIGNED \<Longrightarrow> (t, i) \<noteq> (GENERIC, p_sessionId s) \<Longrightarrow>
    pipeline_step s (s\<lparr>p_shmBuffer := snd (unmapPartition t i (p_shmBuffer s))\<rparr>)"

section \<open>The invariant\<close>

text \<open>The main thread serves the pipeline, its session owns a partition, every outstanding request
  belongs to a real source, and the attached sources have different ids.\<close>

definition on_thread :: "MediaPipelineServer \<Rightarrow> bool" where
  "on_thread s \<longleftrightarrow> mt_isMainThreadRunning s \<and> p_mainThreadClientId s \<in> mt_registeredClients s \<and>
     (\<forall>x \<in> set (mt_taskQueue s). snd x \<noteq> ShutdownTask)"

definition owns_partition :: "MediaPipelineServer \<Rightarrow> bool" where
  "owns_partition s \<longleftrightarrow> p_sessionId s \<noteq> NO_ID_ASSIGNED \<and> shm_inv (p_shmBuffer s) \<and> std_layout (p_shmBuffer s) \<and>
     is_mapped GENERIC (p_sessionId s) (p_shmBuffer s)"

definition typed_requests :: "ActiveRequests \<Rightarrow> bool" where
  "typed_requests r \<longleftrightarrow> (\<forall>i d. m_requestMap r i = Some d \<longrightarrow> ar_type d \<noteq> MST_UNKNOWN)"

definition sources_ok :: "MediaPipelineServer \<Rightarrow> bool" where
  "sources_ok s \<longleftrightarrow> p_attachedSources s MST_UNKNOWN = None \<and>
     (\<forall>t i. p_attachedSources s t = Some i \<longrightarrow> sint i < sint (p_sourceId s)) \<and>
     (\<forall>t t' i. p_attachedSources s t = Some i \<and> p_attachedSources s t' = Some i \<longrightarrow> t = t')"

definition pipeline_inv :: "MediaPipelineServer \<Rightarrow> bool" where
  "pipeline_inv s \<longleftrightarrow> on_thread s \<and> owns_partition s \<and> typed_requests (p_activeRequests s) \<and> sources_ok s"

lemma typed_requests_simps [simp]:
  "typed_requests newActiveRequests" "typed_requests (clearRequests r)"
  "typed_requests r \<Longrightarrow> typed_requests (eraseRequest i r)"
  "typed_requests r \<Longrightarrow> typed_requests (eraseRequestType t r)"
  "typed_requests r \<Longrightarrow> t \<noteq> MST_UNKNOWN \<Longrightarrow> typed_requests (snd (insertRequest t n r))"
  "typed_requests r \<Longrightarrow> typed_requests (snd (addRequestSegment i seg r))"
  by (auto simp: typed_requests_def request_defs newActiveRequests_def newActiveRequestsData_def addRequestSegment_def
      addSegmentData_def Let_def split: option.splits if_splits)

lemma typed_sendNeedMediaData:
  "typed_requests (p_activeRequests s) \<Longrightarrow> nmd_mediaSourceType n \<noteq> MST_UNKNOWN \<Longrightarrow>
    typed_requests (p_activeRequests (snd (sendNeedMediaData n s)))"
  by (simp add: sendNeedMediaData_def output_defs Let_def case_prod_beta split: option.split)

lemma typed_notifyNeedMediaData:
  assumes "typed_requests (p_activeRequests s)" and "p_attachedSources s MST_UNKNOWN = None"
  shows "typed_requests (p_activeRequests (snd (notifyNeedMediaDataInternal t s)))"
proof (cases "t = MST_UNKNOWN")
  case True
  with assms show ?thesis by (simp add: notifyNeedMediaDataInternal_def Let_def)
next
  case False
  have "nmd_mediaSourceType (newNeedMediaData c shm sid t i st) = t" for c shm sid i st
    by (simp add: newNeedMediaData_def Let_def split: option.split)
  with False assms(1) show ?thesis
    by (simp add: notifyNeedMediaDataInternal_def Let_def typed_sendNeedMediaData split: option.split)
qed

lemma typed_pipelineTask:
  assumes "typed_requests (p_activeRequests s)" and "p_attachedSources s MST_UNKNOWN = None"
  shows "typed_requests (p_activeRequests (pipelineTask t s))"
  using assms typed_notifyNeedMediaData
  by (cases t) (simp_all add: output_defs Let_def case_prod_beta scheduleNotifyNeedMediaData_def split: option.split)

lemma same_frame_inv:
  assumes "pipeline_inv s" and "same_frame s s'" and "typed_requests (p_activeRequests s')"
  shows "pipeline_inv s'"
  using assms by (simp add: pipeline_inv_def same_frame_def on_thread_def owns_partition_def sources_ok_def)

lemma pipelineTask_inv:
  assumes "pipeline_inv s"
  shows "pipeline_inv (pipelineTask t s)"
  by (rule same_frame_inv [OF assms pipelineTask_frame])
    (use assms typed_pipelineTask in \<open>simp add: pipeline_inv_def sources_ok_def\<close>)

lemma mainThreadStep_inv:
  assumes "pipeline_inv s" and "mt_taskQueue s = x # q"
  shows "pipeline_inv (mainThreadStep pipelineTask x (s\<lparr>mt_taskQueue := q\<rparr>))"
proof -
  let ?s = "s\<lparr>mt_taskQueue := q\<rparr>"
  have inv: "pipeline_inv ?s" and x: "snd x \<noteq> ShutdownTask"
    using assms by (auto simp: pipeline_inv_def on_thread_def owns_partition_def sources_ok_def)
  show ?thesis
  proof (cases "snd x")
    case (RegisterTask c)
    with inv show ?thesis
      by (simp add: mainThreadStep_def pipeline_inv_def on_thread_def owns_partition_def sources_ok_def)
  next
    case (ClientTask t)
    with inv pipelineTask_inv [OF inv] show ?thesis by (simp add: mainThreadStep_def)
  qed (use x in simp)
qed

lemma sint_inc:
  assumes "sint (x :: i32) < 2 ^ 31 - 1"
  shows "sint (x + 1) = sint x + 1"
proof -
  have "- (2 ^ 31) \<le> sint x" using sint_greater_eq [of x] by simp
  then have "signed_take_bit 31 (sint x + 1) = sint x + 1"
    using assms by (intro signed_take_bit_int_eq_self) simp_all
  then show ?thesis by (simp add: sint_word_ariths)
qed

lemma attachSource_inv:
  assumes "pipeline_inv s" and "sint (p_sourceId s) < 2 ^ 31 - 1"
  shows "pipeline_inv (snd (attachSourceInternal source s))"
  using assms sint_inc [OF assms(2)]
  by (simp add: attachSourceInternal_def Let_def output_defs generateSourceId_def pipeline_inv_def on_thread_def
      owns_partition_def sources_ok_def split: option.split) fastforce

lemma removeSource_inv:
  assumes "pipeline_inv s"
  shows "pipeline_inv (snd (removeSourceInternal i s))"
  using assms
  by (auto simp: removeSourceInternal_def Let_def output_defs pipeline_inv_def on_thread_def
      owns_partition_def sources_ok_def split: option.split)

lemma enqueueTask_inv: "pipeline_inv s \<Longrightarrow> pipeline_inv (post t s)"
  by (simp add: post_def enqueueTask_def pipeline_inv_def on_thread_def owns_partition_def sources_ok_def)

lemma load_inv: "pipeline_inv s \<Longrightarrow> pipeline_inv (snd (loadInternal created type s))"
  by (simp add: loadInternal_def notifyNetworkState_def post_def enqueueTask_def Let_def output_defs pipeline_inv_def
      on_thread_def owns_partition_def sources_ok_def)

lemma haveData_inv: "pipeline_inv s \<Longrightarrow> pipeline_inv (snd (haveDataInternal status i s))"
  by (simp add: haveDataInternal_def scheduleNotifyNeedMediaData_def Let_def output_defs pipeline_inv_def on_thread_def
      owns_partition_def sources_ok_def split: option.split)

lemma haveDataShm_inv: "pipeline_inv s \<Longrightarrow> pipeline_inv (snd (haveDataShmInternal status n i s))"
  by (simp add: haveDataShmInternal_def scheduleNotifyNeedMediaData_def notifyPlaybackState_def post_def enqueueTask_def
      Let_def output_defs pipeline_inv_def on_thread_def owns_partition_def sources_ok_def split: option.split)

lemma notifyNeedMediaData_inv: "pipeline_inv s \<Longrightarrow> pipeline_inv (snd (notifyNeedMediaDataInternal t s))"
  by (rule same_frame_inv [OF _ notifyNeedMediaDataInternal_frame])
    (simp_all add: pipeline_inv_def sources_ok_def typed_notifyNeedMediaData)

lemmas control_defs = playInternal_def pauseInternal_def stopInternal_def setPlaybackRateInternal_def
  setPositionInternal_def setVideoWindowInternal_def renderFrameInternal_def setVolumeInternal_def

lemma control_inv:
  "pipeline_inv s \<Longrightarrow> pipeline_inv (toPlayer c s)"
  "pipeline_inv s \<Longrightarrow> pipeline_inv (snd (addSegmentInternal i seg s))"
  by (simp_all add: addSegmentInternal_def case_prod_beta Let_def output_defs pipeline_inv_def on_thread_def
      owns_partition_def sources_ok_def)

lemma respond_inv:
  assumes "pipeline_inv s" and "sint (p_sourceId s) < 2 ^ 31 - 1"
  shows "pipeline_inv (snd (respond r s))"
  using assms
  by (cases r) (simp_all add: control_defs control_inv attachSource_inv removeSource_inv load_inv haveData_inv
      haveDataShm_inv notifyNeedMediaData_inv)

lemma pipeline_step_inv:
  assumes "pipeline_step s s'" and "pipeline_inv s"
  shows "pipeline_inv s'"
  using assms
proof cases
  case (run_task x q)
  then show ?thesis using assms(2) mainThreadStep_inv by simp
next
  case (request r)
  then show ?thesis using assms(2) respond_inv by simp
next
  case (post_task t)
  then show ?thesis using assms(2) enqueueTask_inv by simp
next
  case (timer t)
  have "pipeline_inv (s\<lparr>p_timers := ts\<rparr>)" for ts
    using assms(2) by (simp add: pipeline_inv_def on_thread_def owns_partition_def sources_ok_def)
  then show ?thesis using timer assms(2) enqueueTask_inv by (simp add: timerExpired_def)
next
  case (client_writes m)
  then show ?thesis
    using assms(2) by (simp add: pipeline_inv_def on_thread_def owns_partition_def sources_ok_def)
next
  case (other_maps i t)
  have "is_mapped GENERIC (p_sessionId s) (snd (mapPartition t i (p_shmBuffer s)))"
    using assms(2) other_maps shm.map_mapped [of i t "p_shmBuffer s"] shm.map_failed [of t i "p_shmBuffer s"]
    by (cases "fst (mapPartition t i (p_shmBuffer s))") (auto simp: pipeline_inv_def owns_partition_def)
  then show ?thesis
    using other_maps assms(2)
    by (simp add: pipeline_inv_def on_thread_def owns_partition_def sources_ok_def mapPartition_inv mapPartition_std)
next
  case (other_unmaps i t)
  then show ?thesis
    using assms(2) shm.unmap_mapped [of "p_shmBuffer s" i GENERIC "p_sessionId s" t]
    by (auto simp: pipeline_inv_def on_thread_def owns_partition_def sources_ok_def unmapPartition_inv unmapPartition_std)
qed

lemma pipeline_steps_inv: "pipeline_step\<^sup>*\<^sup>* s s' \<Longrightarrow> pipeline_inv s \<Longrightarrow> pipeline_inv s'"
  by (induction rule: rtranclp_induct) (auto intro: pipeline_step_inv)

section \<open>Construction and destruction\<close>

lemma mainThreadLoop_inv: "pipeline_inv s \<Longrightarrow> pipeline_inv (mainThreadLoop pipelineTask n s)"
  using pipe.loop_invariant [of pipeline_inv] mainThreadStep_inv by blast

text \<open>While the constructor waits for its first task, tasks that were queued before run; none of them
  touches the new pipeline's session, buffer or sources.\<close>

definition constructing :: "int \<Rightarrow> SharedMemoryBuffer \<Rightarrow> u32 \<Rightarrow> MediaPipelineServer \<Rightarrow> bool" where
  "constructing sid shm c s \<longleftrightarrow> mt_isMainThreadRunning s \<and> (\<forall>x \<in> set (mt_taskQueue s). snd x \<noteq> ShutdownTask) \<and>
     p_sessionId s = sid \<and> p_shmBuffer s = shm \<and> p_mainThreadClientId s = c \<and>
     p_attachedSources s = Map.empty \<and> typed_requests (p_activeRequests s)"

lemma constructing_step:
  assumes "constructing sid shm c s" and "mt_taskQueue s = x # q"
  shows "constructing sid shm c (mainThreadStep pipelineTask x (s\<lparr>mt_taskQueue := q\<rparr>))"
proof -
  let ?s = "s\<lparr>mt_taskQueue := q\<rparr>"
  have x: "snd x \<noteq> ShutdownTask" and s: "constructing sid shm c ?s"
    using assms by (auto simp: constructing_def)
  show ?thesis
  proof (cases "snd x")
    case (RegisterTask d)
    with s show ?thesis by (simp add: mainThreadStep_def constructing_def)
  next
    case (ClientTask t)
    moreover have "constructing sid shm c (pipelineTask t ?s)"
      using s pipelineTask_frame [of ?s t] typed_pipelineTask [of ?s t] by (simp add: constructing_def same_frame_def)
    ultimately show ?thesis using s by (simp add: mainThreadStep_def)
  qed (use x in simp)
qed

lemma construction_eq:
  assumes "thread_ready mt"
  shows "\<exists>s1 c. constructing sid shm c s1 \<and> c \<in> mt_registeredClients s1 \<and>
    newMediaPipelineServerInternal (Some mt) client sid shm m k =
      (let (ok, shm') = mapPartition GENERIC sid shm; s2 = s1\<lparr>p_shmBuffer := shm'\<rparr>
       in if ok then Inr s2 else Inl (Some s2))"
proof -
  define c where "c = mt_nextClientId mt"
  define q where "q = mt_taskQueue mt @ [(mainThreadClientId, RegisterTask c)]"
  define s0 where "s0 = \<lparr>mt_isMainThreadRunning = mt_isMainThreadRunning mt, mt_taskQueue = q,
      mt_nextClientId = c + 1, mt_registeredClients = mt_registeredClients mt,
      p_client = client, p_gstPlayer = False, p_sessionId = sid, p_shmBuffer = shm,
      p_mem = m, p_activeRequests = newActiveRequests, p_mainThreadClientId = c,
      p_currentPlaybackState = PS_UNKNOWN, p_timers = Map.empty,
      p_attachedSources = Map.empty, p_sourceId = k, p_out = []\<rparr>"
  define s1 where "s1 = mainThreadLoop pipelineTask (length q) s0"
  have q: "\<forall>x \<in> set q. snd x \<noteq> ShutdownTask" using assms by (auto simp: thread_ready_def q_def)
  have "constructing sid shm c s0"
    using assms q by (simp add: constructing_def s0_def thread_ready_def)
  then have s1: "constructing sid shm c s1"
    unfolding s1_def using pipe.loop_invariant [of "constructing sid shm c"] constructing_step by blast
  have reg: "c \<in> mt_registeredClients s1"
    unfolding s1_def
    by (rule pipe.loop_registers [of s0 q "[]"]) (use assms q in \<open>auto simp: s0_def q_def thread_ready_def\<close>)
  have "newMediaPipelineServerInternal (Some mt) client sid shm m k =
      (let (result, s) = onMainThread (\<lambda>s. let (r, shm) = mapPartition GENERIC (p_sessionId s) (p_shmBuffer s)
                                              in (r, s\<lparr>p_shmBuffer := shm\<rparr>)) s0
       in if result = Some True then Inr s else Inl (Some s))"
    by (simp add: newMediaPipelineServerInternal_def registerClient_def enqueueTask_def Let_def s0_def q_def c_def)
  also have "\<dots> = (let (ok, shm') = mapPartition GENERIC sid shm; s2 = s1\<lparr>p_shmBuffer := shm'\<rparr>
       in if ok then Inr s2 else Inl (Some s2))"
    using s1 reg
    by (simp add: onMainThread_def enqueueTaskAndWait_def constructing_def Let_def case_prod_beta
        s1_def [symmetric] s0_def) (simp add: s1_def s0_def)
  finally show ?thesis using s1 reg by blast
qed

lemma construction_inv:
  assumes "thread_ready mt" and "shm_inv shm" and "std_layout shm" and "sid \<noteq> NO_ID_ASSIGNED"
    and "newMediaPipelineServerInternal (Some mt) client sid shm m k = Inr s"
  shows "pipeline_inv s"
proof -
  obtain s1 c where s1: "constructing sid shm c s1" "c \<in> mt_registeredClients s1"
    "newMediaPipelineServerInternal (Some mt) client sid shm m k =
      (let (ok, shm') = mapPartition GENERIC sid shm; s2 = s1\<lparr>p_shmBuffer := shm'\<rparr>
       in if ok then Inr s2 else Inl (Some s2))"
    using construction_eq [OF assms(1), of sid shm client m k] by blast
  then have ok: "fst (mapPartition GENERIC sid shm)" and s: "s = s1\<lparr>p_shmBuffer := snd (mapPartition GENERIC sid shm)\<rparr>"
    using assms(5) by (auto simp: case_prod_beta Let_def split: if_splits)
  show ?thesis
    using s1(1,2) assms(2-4) shm.map_mapped [OF assms(4) ok]
    by (simp add: s constructing_def pipeline_inv_def on_thread_def owns_partition_def sources_ok_def mapPartition_inv
        mapPartition_std)
qed

section \<open>Asking for data\<close>

lemma unat_minus_2500: "2500 \<le> unat (x :: u32) \<Longrightarrow> unat (x - getMaxMetadataBytes) = unat x - 2500"
  by (simp add: nowrap)

definition request_info :: "MediaSourceType \<Rightarrow> MediaPipelineServer \<Rightarrow> MediaPlayerShmInfo" where
  "request_info t s = (let off = the (getDataOffset GENERIC (p_sessionId s) t (p_shmBuffer s)) in
     \<lparr>maxMetadataBytes = getMaxMetadataBytes, metadataOffset = off, mediaDataOffset = off + getMaxMetadataBytes,
      maxMediaBytes = getMaxDataLen GENERIC (p_sessionId s) t (p_shmBuffer s) - getMaxMetadataBytes\<rparr>)"

lemma request_info_ok:
  assumes "owns_partition s" and "t \<noteq> MST_UNKNOWN"
  shows "need_data_info (request_info t s) \<and> 2500 + unat (maxMediaBytes (request_info t s)) = region_size GENERIC t \<and>
    getDataPtr GENERIC (p_sessionId s) t (p_shmBuffer s) = Some (unat (metadataOffset (request_info t s))) \<and>
    unat (metadataOffset (request_info t s)) + region_size GENERIC t \<le> unat (getSize (p_shmBuffer s)) \<and>
    unat (getMaxDataLen GENERIC (p_sessionId s) t (p_shmBuffer s)) = region_size GENERIC t"
proof -
  have size: "2500 \<le> region_size GENERIC t" using assms(2) by (cases t) simp_all
  then obtain a off where r: "getDataPtr GENERIC (p_sessionId s) t (p_shmBuffer s) = Some a"
    "unat (getMaxDataLen GENERIC (p_sessionId s) t (p_shmBuffer s)) = region_size GENERIC t"
    "a + region_size GENERIC t \<le> unat (getSize (p_shmBuffer s))"
    "getDataOffset GENERIC (p_sessionId s) t (p_shmBuffer s) = Some off" "unat off = a"
    using mapped_region [of "p_shmBuffer s" GENERIC "p_sessionId s" t] assms(1) by (auto simp: owns_partition_def)
  then show ?thesis
    using size unat_u32_bound [of "getSize (p_shmBuffer s)"]
    by (simp add: request_info_def need_data_info_def unat_minus_2500 Let_def)
qed

lemma need_data_sent:
  assumes "owns_partition s" and "t \<noteq> MST_UNKNOWN" and "p_attachedSources s t = Some i" and "p_client s"
  shows "notifyNeedMediaDataInternal t s = (True, s\<lparr>p_timers := (p_timers s)(t := None),
      p_mem := memset (p_mem s) (unat (metadataOffset (request_info t s))) 0 (region_size GENERIC t),
      p_activeRequests := snd (insertRequest t (maxMediaBytes (request_info t s)) (p_activeRequests s)),
      p_out := p_out s @ [ToClient (CE_needMediaData i (if p_currentPlaybackState s = PS_PLAYING then kMaxFrames else kPrerollNumFrames)
        (m_currentId (p_activeRequests s)) (request_info t s))]\<rparr>)"
proof -
  note r = request_info_ok [OF assms(1,2)]
  then have "\<exists>off. getDataOffset GENERIC (p_sessionId s) t (p_shmBuffer s) = Some off"
    by (auto simp: getDataOffset_def)
  then show ?thesis
    using assms r clearData_region [of "p_shmBuffer s" GENERIC "p_sessionId s" t]
    by (cases t) (auto simp: notifyNeedMediaDataInternal_def sendNeedMediaData_def newNeedMediaData_def Let_def
        case_prod_beta output_defs request_info_def owns_partition_def insertRequest_def)
qed

section \<open>Answers to requests\<close>

lemma haveDataShm_erases:
  assumes "p_gstPlayer s" and "getRequestType i (p_activeRequests s) \<noteq> MST_UNKNOWN"
  shows "p_activeRequests (snd (haveDataShmInternal status n i s)) = eraseRequest i (p_activeRequests s) \<and>
    p_gstPlayer (snd (haveDataShmInternal status n i s))"
  using assms
  by (simp add: haveDataShmInternal_def scheduleNotifyNeedMediaData_def notifyPlaybackState_def post_def enqueueTask_def
      Let_def output_defs split: option.split)

lemma haveData_erases:
  assumes "p_gstPlayer s" and "getRequestType i (p_activeRequests s) \<noteq> MST_UNKNOWN"
  shows "p_activeRequests (snd (haveDataInternal status i s)) = eraseRequest i (p_activeRequests s) \<and>
    p_gstPlayer (snd (haveDataInternal status i s))"
  using assms
  by (simp add: haveDataInternal_def scheduleNotifyNeedMediaData_def Let_def output_defs split: option.split)

lemma haveData_unknown:
  assumes "p_gstPlayer s" and "getRequestType i (p_activeRequests s) = MST_UNKNOWN"
  shows "haveDataInternal status i s = (True, s)" and "haveDataShmInternal status n i s = (True, s)"
  using assms by (simp_all add: haveDataInternal_def haveDataShmInternal_def)

section \<open>After the end of a session\<close>

text \<open>Tasks of a client that is not registered run to no effect.\<close>

lemma ignored_loop:
  assumes "c \<notin> mt_registeredClients s" and "\<forall>x \<in> set (mt_taskQueue s). fst x = c"
  shows "\<exists>q. mainThreadLoop pipelineTask n s = s\<lparr>mt_taskQueue := q\<rparr>"
  using assms
proof (induction n arbitrary: s)
  case 0
  have "mainThreadLoop pipelineTask 0 s = s\<lparr>mt_taskQueue := mt_taskQueue s\<rparr>" by simp
  then show ?case by blast
next
  case (Suc n)
  show ?case
  proof (cases "mt_isMainThreadRunning s \<and> mt_taskQueue s \<noteq> []")
    case False
    then have "mainThreadLoop pipelineTask (Suc n) s = s\<lparr>mt_taskQueue := mt_taskQueue s\<rparr>" by auto
    then show ?thesis by blast
  next
    case True
    then obtain x q where q: "mt_taskQueue s = x # q" by (cases "mt_taskQueue s") auto
    have "mainThreadStep pipelineTask x (s\<lparr>mt_taskQueue := q\<rparr>) = s\<lparr>mt_taskQueue := q\<rparr>"
      using Suc.prems q by (simp add: mainThreadStep_def)
    then show ?thesis
      using Suc.IH [of "s\<lparr>mt_taskQueue := q\<rparr>"] Suc.prems True q by auto
  qed
qed

lemma fold_post:
  "\<exists>q. fold post ts s = s\<lparr>mt_taskQueue := mt_taskQueue s @ q\<rparr> \<and> (\<forall>x \<in> set q. fst x = p_mainThreadClientId s)"
proof (induction ts arbitrary: s)
  case Nil
  have "fold post [] s = s\<lparr>mt_taskQueue := mt_taskQueue s @ []\<rparr>" by simp
  then show ?case by fastforce
next
  case (Cons t ts)
  from Cons.IH [of "post t s"] obtain q where "fold post ts (post t s) =
      (post t s)\<lparr>mt_taskQueue := mt_taskQueue (post t s) @ q\<rparr>" "\<forall>x \<in> set q. fst x = p_mainThreadClientId (post t s)"
    by blast
  then have "fold post (t # ts) s = s\<lparr>mt_taskQueue := mt_taskQueue s @ ((p_mainThreadClientId s, ClientTask t) # q)\<rparr>"
    "\<forall>x \<in> set ((p_mainThreadClientId s, ClientTask t) # q). fst x = p_mainThreadClientId s"
    by (auto simp: post_def enqueueTask_def)
  then show ?case by blast
qed

text \<open>The tasks that are queued ahead of the destructor's leave buffer and session alone.\<close>

definition same_session :: "MediaPipelineServer \<Rightarrow> MediaPipelineServer \<Rightarrow> bool" where
  "same_session s s' \<longleftrightarrow> p_shmBuffer s' = p_shmBuffer s \<and> p_sessionId s' = p_sessionId s \<and>
     p_mainThreadClientId s' = p_mainThreadClientId s"

lemma same_session_step:
  "same_session s0 s \<Longrightarrow> same_session s0 (mainThreadStep pipelineTask x (s\<lparr>mt_taskQueue := q\<rparr>))"
  using pipelineTask_frame [of "s\<lparr>mt_taskQueue := q\<rparr>"]
  by (cases "snd x") (auto simp: mainThreadStep_def same_session_def same_frame_def)

lemma same_session_loop: "same_session s (mainThreadLoop pipelineTask n s)"
  using pipe.loop_invariant [of "same_session s"] same_session_step by (auto simp: same_session_def)

lemma own_tasks_drained:
  assumes "mt_isMainThreadRunning s" and "\<forall>x \<in> set (mt_taskQueue s). \<exists>t. snd x = ClientTask t"
  shows "mt_taskQueue (mainThreadLoop pipelineTask (length (mt_taskQueue s)) s) = []"
  using assms
proof (induction "mt_taskQueue s" arbitrary: s)
  case Nil
  then show ?case by (simp flip: Nil.hyps)
next
  case (Cons x q)
  let ?s = "mainThreadStep pipelineTask x (s\<lparr>mt_taskQueue := q\<rparr>)"
  obtain t where "snd x = ClientTask t" using Cons by (metis list.set_intros(1))
  then have "mt_taskQueue ?s = q" "mt_isMainThreadRunning ?s"
    using pipelineTask_frame [of "s\<lparr>mt_taskQueue := q\<rparr>" t] Cons.prems(1)
    by (auto simp: mainThreadStep_def same_frame_def)
  then have "mt_taskQueue (mainThreadLoop pipelineTask (length q) ?s) = []"
    using Cons.hyps(1) [of ?s] Cons.hyps(2) Cons.prems(2) by (metis list.set_intros(2))
  then show ?case using Cons.prems(1) by (simp flip: Cons.hyps(2))
qed

lemma destroy_releases:
  assumes "pipeline_inv s" and "\<forall>x \<in> set (mt_taskQueue s). \<exists>t. snd x = ClientTask t"
  shows "\<exists>s'. destroyMediaPipelineServerInternal s = (Some (), s') \<and> mt_taskQueue s' = [] \<and>
    p_mainThreadClientId s' \<notin> mt_registeredClients s' \<and>
    p_shmBuffer s' = snd (unmapPartition GENERIC (p_sessionId s) (p_shmBuffer s))"
proof -
  let ?s = "mainThreadLoop pipelineTask (length (mt_taskQueue s)) s"
  have inv: "pipeline_inv ?s" by (rule mainThreadLoop_inv) (rule assms(1))
  moreover have "mt_taskQueue ?s = []"
    using own_tasks_drained [OF _ assms(2)] assms(1) by (simp add: pipeline_inv_def on_thread_def)
  ultimately show ?thesis
    using same_session_loop [of s "length (mt_taskQueue s)"]
    by (simp add: destroyMediaPipelineServerInternal_def onMainThread_def enqueueTaskAndWait_def Let_def destroyTask_def
        unregisterClient_def pipeline_inv_def on_thread_def same_session_def)
qed

section \<open>Properties\<close>

text \<open>C2. Every state a pipeline reaches, however client requests, player notifications, timers, the
  client's writes and other sessions interleave, satisfies the invariant: it is served by the main
  thread, its session owns its partition of an intact buffer, every outstanding request belongs to a
  real source, and no two attached sources have the same id.\<close>

theorem pipeline_invariant:
  assumes "thread_ready mt" and "shm_inv shm" and "std_layout shm" and "sid \<noteq> NO_ID_ASSIGNED"
    and "newMediaPipelineServerInternal (Some mt) client sid shm m k = Inr s0" and "pipeline_step\<^sup>*\<^sup>* s0 s"
  shows "pipeline_inv s"
  using construction_inv [OF assms(1-5)] pipeline_steps_inv [OF assms(6)] by blast

text \<open>A new session gets a pipeline exactly if its id owns a partition or one is free; otherwise the
  constructor throws and the buffer is as it was.\<close>

theorem pipeline_construction:
  assumes "thread_ready mt" and "sid \<noteq> NO_ID_ASSIGNED"
  shows "if is_mapped GENERIC sid shm \<or> 0 < free_count GENERIC shm
    then \<exists>s. newMediaPipelineServerInternal (Some mt) client sid shm m k = Inr s \<and> is_mapped GENERIC sid (p_shmBuffer s)
    else \<exists>s. newMediaPipelineServerInternal (Some mt) client sid shm m k = Inl (Some s) \<and> p_shmBuffer s = shm"
proof -
  obtain s1 c where "newMediaPipelineServerInternal (Some mt) client sid shm m k =
      (let (ok, shm') = mapPartition GENERIC sid shm; s2 = s1\<lparr>p_shmBuffer := shm'\<rparr>
       in if ok then Inr s2 else Inl (Some s2))"
    using construction_eq [OF assms(1), of sid shm client m k] by blast
  then show ?thesis
    using shm.map_result [OF assms(2), of GENERIC shm] shm.map_mapped [OF assms(2), of GENERIC shm]
      shm.map_failed [of GENERIC sid shm]
    by (auto simp: case_prod_beta Let_def)
qed

text \<open>C3. A pipeline that asks for data sends one request: under an id that was not outstanding before and is registered
  with the type of the source afterwards, while all other requests stay as they are and the next id is one higher, with the
  frame count of the playback state (24 when playing, 1 before), and with a description of exactly the region the buffer
  handed out to this session and source, which has been cleared, lies in the mapping and holds the metadata and the media
  data without overlap. Ids count up from 0 in 32 bits, so that the outstanding ones lie below the next one, which is the
  hypothesis on the requests and holds again afterwards, until \<open>2 ^ 32\<close> requests have been made.\<close>

theorem need_data_request:
  assumes "pipeline_inv s" and "p_attachedSources s t = Some i" and "p_client s" and "ids_below (p_activeRequests s)"
    and "r = m_currentId (p_activeRequests s)"
  shows "\<exists>s' info. notifyNeedMediaDataInternal t s = (True, s') \<and>
    p_out s' = p_out s @ [ToClient (CE_needMediaData i (if p_currentPlaybackState s = PS_PLAYING then 24 else 1) r info)] \<and>
    getRequestType r (p_activeRequests s) = MST_UNKNOWN \<and>
    (\<forall>k. getRequestType k (p_activeRequests s') = (if k = r then t else getRequestType k (p_activeRequests s))) \<and>
    m_currentId (p_activeRequests s') = r + 1 \<and> (r \<noteq> - 1 \<longrightarrow> ids_below (p_activeRequests s')) \<and>
    need_data_info info \<and>
    getDataPtr GENERIC (p_sessionId s) t (p_shmBuffer s) = Some (unat (metadataOffset info)) \<and>
    2500 + unat (maxMediaBytes info) = unat (getMaxDataLen GENERIC (p_sessionId s) t (p_shmBuffer s)) \<and>
    unat (mediaDataOffset info) + unat (maxMediaBytes info) \<le> unat (getSize (p_shmBuffer s)) \<and>
    read_bytes (p_mem s') (unat (metadataOffset info)) (2500 + unat (maxMediaBytes info)) =
      replicate (2500 + unat (maxMediaBytes info)) 0"
proof -
  have own: "owns_partition s" and t: "t \<noteq> MST_UNKNOWN"
    using assms(1,2) by (auto simp: pipeline_inv_def sources_ok_def)
  note r = request_info_ok [OF own t]
  let ?a = "p_activeRequests s" and ?n = "maxMediaBytes (request_info t s)"
  have id: "fst (insertRequest t ?n ?a) = r" "m_currentId (snd (insertRequest t ?n ?a)) = r + 1"
    using assms(5) by (simp_all add: insertRequest_def Let_def)
  have new: "getRequestType r ?a = MST_UNKNOWN"
    "getRequestType k (snd (insertRequest t ?n ?a)) = (if k = r then t else getRequestType k ?a)" for k
    using reqs.ins_fresh [OF assms(4), of t ?n] reqs.ins_type [OF assms(4), of k t ?n] id(1) by simp_all
  have below: "r \<noteq> - 1 \<longrightarrow> ids_below (snd (insertRequest t ?n ?a))" using insertRequest_below [OF assms(4)] assms(5) by simp
  have "unat (mediaDataOffset (request_info t s)) = unat (metadataOffset (request_info t s)) + 2500"
    using r by (auto simp: need_data_info_def nowrap)
  with r show ?thesis
    by (intro exI [of _ "snd (notifyNeedMediaDataInternal t s)"] exI [of _ "request_info t s"])
      (simp add: need_data_sent [OF own t assms(2,3)] id new below assms(5) [symmetric] kMaxFrames_def kPrerollNumFrames_def mem_simps)
qed

text \<open>C4. A request is answered at most once: after an answer, in either mode and with any status, the
  request is not outstanding any more, all others are as before, and a second answer to it changes nothing.\<close>

theorem request_answered_once:
  assumes "p_gstPlayer s" and "getRequestType i (p_activeRequests s) \<noteq> MST_UNKNOWN"
    and "s' = snd (haveDataInternal status i s) \<or> s' = snd (haveDataShmInternal status n i s)"
  shows "getRequestType i (p_activeRequests s') = MST_UNKNOWN \<and>
    (\<forall>j. j \<noteq> i \<longrightarrow> getRequestType j (p_activeRequests s') = getRequestType j (p_activeRequests s)) \<and>
    haveDataInternal status' i s' = (True, s') \<and> haveDataShmInternal status' n' i s' = (True, s')"
proof -
  have "p_activeRequests s' = eraseRequest i (p_activeRequests s)" "p_gstPlayer s'"
    using assms haveData_erases haveDataShm_erases by auto
  then show ?thesis
    using haveData_unknown [of s' i] by (simp add: reqs.erase_id_type)
qed

text \<open>An answer with neither data nor end of stream is retried: the resend timer of the source is
  running afterwards, and when it expires the pipeline asks again for the source, or, if the source is
  not attached at that time, keeps the timer running.\<close>

theorem bad_status_retried:
  assumes "pipeline_inv s" and "mt_taskQueue s = []" and "p_client s" and "p_gstPlayer s"
    and "getRequestType r (p_activeRequests s) = t" and "t \<noteq> MST_UNKNOWN" and "status \<noteq> MSS_OK" and "status \<noteq> MSS_EOS"
    and "s1 = snd (haveDataShmInternal status n r s)" and "s2 = mainThreadLoop pipelineTask 1 (timerExpired t s1)"
  shows "p_timers s1 t = Some True \<and>
    (case p_attachedSources s t of
       Some i \<Rightarrow> \<exists>count r' info. p_out s2 = p_out s @ [ToClient (CE_needMediaData i count r' info)] \<and> need_data_info info
     | None \<Rightarrow> p_timers s2 t = Some True \<and> p_out s2 = p_out s)"
proof -
  let ?s = "s\<lparr>p_activeRequests := eraseRequest r (p_activeRequests s)\<rparr>"
  have s1: "s1 = ?s\<lparr>p_timers := (p_timers s)(t \<mapsto> True)\<rparr>"
    using assms(4-9)
    by (auto simp: haveDataShmInternal_def scheduleNotifyNeedMediaData_def Let_def fun_upd_idem)
  let ?e = "?s\<lparr>mt_taskQueue := [], p_timers := (p_timers s)(t := None)\<rparr>"
  have "s2 = pipelineTask (ResendNeedMediaDataTask t) (?s\<lparr>mt_taskQueue := [], p_timers := (p_timers s)(t \<mapsto> False)\<rparr>)"
    using assms(1,2,10) by (simp add: s1 timerExpired_def post_def enqueueTask_def mainThreadStep_def pipeline_inv_def
        on_thread_def)
  then have s2: "s2 = (let (sent, s) = notifyNeedMediaDataInternal t ?e in if sent then s else scheduleNotifyNeedMediaData t s)"
    by (simp add: case_prod_beta Let_def)
  show ?thesis
  proof (cases "p_attachedSources s t")
    case None
    then show ?thesis
      by (simp add: s1 s2 notifyNeedMediaDataInternal_def scheduleNotifyNeedMediaData_def Let_def)
  next
    case (Some i)
    have own: "owns_partition ?e" using assms(1) by (simp add: pipeline_inv_def owns_partition_def)
    show ?thesis
      using Some need_data_sent [OF own assms(6), of i] request_info_ok [OF own assms(6)] assms(3)
      by (simp add: s1 s2)
  qed
qed

text \<open>Without a player no request that needs one has any effect: it is refused and the pipeline is
  unchanged.\<close>

theorem no_player_refused:
  assumes "\<not> p_gstPlayer s" and "needs_player r"
  shows "respond r s = (False, s)"
  using assms
  by (cases r) (simp_all add: control_defs attachSourceInternal_def removeSourceInternal_def haveDataInternal_def
      haveDataShmInternal_def Let_def)

text \<open>Attaching a source that is not attached yet gives it an id no other source has, and removing that
  id detaches exactly this source; attaching the same type again keeps the id.\<close>

theorem attach_remove_source:
  assumes "pipeline_inv s" and "p_gstPlayer s" and "ms_type src \<noteq> MST_UNKNOWN" and "p_attachedSources s (ms_type src) = None"
    and "attachSourceInternal src s = ((ok, src'), s')"
  shows "ok \<and> p_attachedSources s' = (p_attachedSources s)(ms_type src \<mapsto> ms_id src') \<and>
    ms_id src' \<notin> ran (p_attachedSources s) \<and>
    ms_id (snd (fst (attachSourceInternal src s'))) = ms_id src' \<and>
    fst (removeSourceInternal (ms_id src') s') \<and>
    p_attachedSources (snd (removeSourceInternal (ms_id src') s')) = p_attachedSources s"
proof -
  let ?t = "ms_type src"
  have new: "ok" "ms_id src' = p_sourceId s" "p_attachedSources s' = (p_attachedSources s)(?t \<mapsto> p_sourceId s)" "p_gstPlayer s'"
    using assms(2-5) by (auto simp: attachSourceInternal_def Let_def output_defs generateSourceId_def)
  have fresh: "p_attachedSources s t \<noteq> Some (p_sourceId s)" for t
    using assms(1) by (fastforce simp: pipeline_inv_def sources_ok_def)
  then have "findSource (p_sourceId s) s' = Some ?t"
    using new(3) by (cases ?t) (auto simp: findSource_def)
  then show ?thesis
    using new fresh assms(3,4)
    by (auto simp: removeSourceInternal_def attachSourceInternal_def Let_def output_defs ran_def fun_upd_idem)
qed

text \<open>C13. Ending a session gives its partition back and silences the pipeline: tasks that are still posted
  for it afterwards, whatever they are, are dropped and cause no call and no event.\<close>

theorem pipeline_destruction:
  assumes "pipeline_inv s" and "\<forall>x \<in> set (mt_taskQueue s). \<exists>t. snd x = ClientTask t"
  shows "\<exists>s'. destroyMediaPipelineServerInternal s = (Some (), s') \<and>
    \<not> is_mapped GENERIC (p_sessionId s) (p_shmBuffer s') \<and>
    free_count GENERIC (p_shmBuffer s') = Suc (free_count GENERIC (p_shmBuffer s)) \<and>
    (\<forall>ts n. p_out (mainThreadLoop pipelineTask n (fold post ts s')) = p_out s')"
proof -
  obtain s' where s': "destroyMediaPipelineServerInternal s = (Some (), s')" "mt_taskQueue s' = []"
    "p_mainThreadClientId s' \<notin> mt_registeredClients s'"
    "p_shmBuffer s' = snd (unmapPartition GENERIC (p_sessionId s) (p_shmBuffer s))"
    using destroy_releases [OF assms] by blast
  have own: "p_sessionId s \<noteq> NO_ID_ASSIGNED" "shm_inv (p_shmBuffer s)" "is_mapped GENERIC (p_sessionId s) (p_shmBuffer s)"
    using assms(1) by (simp_all add: pipeline_inv_def owns_partition_def)
  have "p_out (mainThreadLoop pipelineTask n (fold post ts s')) = p_out s'" for ts n
  proof -
    obtain q where q: "fold post ts s' = s'\<lparr>mt_taskQueue := q\<rparr>" "\<forall>x \<in> set q. fst x = p_mainThreadClientId s'"
      using fold_post [of ts s'] s'(2) by auto
    then show ?thesis
      using ignored_loop [of "p_mainThreadClientId s'" "s'\<lparr>mt_taskQueue := q\<rparr>" n] s'(3) by auto
  qed
  then show ?thesis
    using s' own shm.unmap_mapped [OF own(2,1)] shm.unmap_free [OF own(1,3)] by auto
qed

section \<open>Witnesses\<close>

text \<open>A session on the buffer of two playbacks: constructed, then loaded, then with an audio source.\<close>

definition demo_pipeline :: MediaPipelineServer where
  "demo_pipeline = \<lparr>mt_isMainThreadRunning = True, mt_taskQueue = [], mt_nextClientId = 2, mt_registeredClients = {0, 1},
     p_client = True, p_gstPlayer = False, p_sessionId = 7, p_shmBuffer = snd (mapPartition GENERIC 7 demo_shm),
     p_mem = (\<lambda>_. 9), p_activeRequests = newActiveRequests, p_mainThreadClientId = 1,
     p_currentPlaybackState = PS_UNKNOWN, p_timers = Map.empty, p_attachedSources = Map.empty, p_sourceId = 1,
     p_out = []\<rparr>"

definition demo_source :: MediaSource where
  "demo_source = newMediaSourceAudio 0 ''audio/mp4'' \<lparr>ac_numberOfChannels = 2, ac_sampleRate = 48000, ac_codecSpecificConfig = []\<rparr>
     SA_UNDEFINED SF_RAW []"

definition demo_loaded :: MediaPipelineServer where
  "demo_loaded = demo_pipeline\<lparr>p_gstPlayer := True, p_out := [ToPlayer (PC_create MSE)],
     mt_taskQueue := [(1, ClientTask (NotifyNetworkStateTask NS_BUFFERING))]\<rparr>"

definition demo_attached :: MediaPipelineServer where
  "demo_attached = demo_pipeline\<lparr>p_gstPlayer := True, p_attachedSources := [AUDIO \<mapsto> 1], p_sourceId := 2,
     p_out := [ToPlayer (PC_create MSE), ToClient (CE_networkState NS_BUFFERING),
               ToPlayer (PC_attachSource (demo_source\<lparr>ms_id := -1\<rparr>))]\<rparr>"

definition demo_waiting :: MediaPipelineServer where
  "demo_waiting = snd (notifyNeedMediaDataInternal AUDIO demo_attached)"

lemma demo_thread_ready: "thread_ready newMainThread"
  by (simp add: thread_ready_def newMainThread_def)

lemma demo_map: "fst (mapPartition GENERIC 7 demo_shm)"
  by (simp add: demo_shm_def mapPartition_def partition_access_defs replicate_2 NO_ID_ASSIGNED_def)

lemma demo_construction:
  "newMediaPipelineServerInternal (Some newMainThread) True 7 demo_shm (\<lambda>_. 9) 1 = Inr demo_pipeline"
proof -
  obtain shm where "mapPartition GENERIC 7 demo_shm = (True, shm)"
    using demo_map by (cases "mapPartition GENERIC 7 demo_shm") simp
  then show ?thesis
    by (simp add: newMediaPipelineServerInternal_def newMainThread_def registerClient_def enqueueTask_def Let_def
        onMainThread_def enqueueTaskAndWait_def mainThreadStep_def mainThreadClientId_def demo_pipeline_def insert_commute)
qed

lemma demo_pipeline_inv: "pipeline_inv demo_pipeline"
  by (rule construction_inv [OF demo_thread_ready demo_shm_inv demo_shm_std _ demo_construction]) (simp add: NO_ID_ASSIGNED_def)

lemma demo_steps: "pipeline_step\<^sup>*\<^sup>* demo_pipeline demo_attached"
proof -
  let ?mid = "demo_loaded\<lparr>mt_taskQueue := [], p_out := [ToPlayer (PC_create MSE), ToClient (CE_networkState NS_BUFFERING)]\<rparr>"
  have "snd (respond (LoadReq True MSE) demo_pipeline) = demo_loaded"
    by (simp add: loadInternal_def Let_def demo_pipeline_def demo_loaded_def output_defs notifyNetworkState_def post_def
        enqueueTask_def)
  then have 1: "pipeline_step demo_pipeline demo_loaded"
    using pipeline_step.request [of demo_pipeline "LoadReq True MSE"] by (simp add: demo_pipeline_def)
  have 2: "pipeline_step demo_loaded ?mid"
    using pipeline_step.run_task [of demo_loaded "(1, ClientTask (NotifyNetworkStateTask NS_BUFFERING))" "[]"]
    by (simp add: demo_loaded_def demo_pipeline_def mainThreadStep_def output_defs)
  have 3: "pipeline_step ?mid demo_attached"
    using pipeline_step.request [of ?mid "AttachSourceReq demo_source"]
    by (simp add: demo_loaded_def demo_pipeline_def demo_attached_def attachSourceInternal_def Let_def output_defs
        generateSourceId_def demo_source_def source_constructor_defs)
  show ?thesis
    by (rule converse_rtranclp_into_rtranclp [of pipeline_step, OF 1])
      (rule converse_rtranclp_into_rtranclp [of pipeline_step, OF 2 r_into_rtranclp [of pipeline_step, OF 3]])
qed

lemma demo_attached_inv: "pipeline_inv demo_attached"
  using pipeline_steps_inv [OF demo_steps demo_pipeline_inv] .

lemma demo_waiting_state:
  "pipeline_inv demo_waiting" "mt_taskQueue demo_waiting = []" "p_client demo_waiting" "p_gstPlayer demo_waiting"
  "getRequestType 0 (p_activeRequests demo_waiting) = AUDIO" "p_attachedSources demo_waiting AUDIO = Some 1"
proof -
  have own: "owns_partition demo_attached" using demo_attached_inv by (simp add: pipeline_inv_def)
  note eq = need_data_sent [OF own, of AUDIO 1]
  show "pipeline_inv demo_waiting"
    unfolding demo_waiting_def by (rule notifyNeedMediaData_inv) (rule demo_attached_inv)
  show "mt_taskQueue demo_waiting = []" "p_client demo_waiting" "p_gstPlayer demo_waiting"
    "getRequestType 0 (p_activeRequests demo_waiting) = AUDIO" "p_attachedSources demo_waiting AUDIO = Some 1"
    using eq by (simp_all add: demo_waiting_def demo_attached_def demo_pipeline_def newActiveRequests_def request_defs Let_def
        newActiveRequestsData_def)
qed

theorem pipeline_invariant_witness: "pipeline_inv demo_attached \<and> p_attachedSources demo_attached AUDIO = Some 1"
  using pipeline_invariant [OF demo_thread_ready demo_shm_inv demo_shm_std _ demo_construction demo_steps]
  by (simp add: NO_ID_ASSIGNED_def demo_attached_def)

theorem pipeline_construction_witness:
  "\<exists>s. newMediaPipelineServerInternal (Some newMainThread) True 7 demo_shm (\<lambda>_. 9) 1 = Inr s \<and> is_mapped GENERIC 7 (p_shmBuffer s)"
proof -
  have "0 < free_count GENERIC demo_shm"
    by (simp add: free_count_def partition_access_defs demo_shm_def)
  then show ?thesis
    using pipeline_construction [OF demo_thread_ready, of 7 demo_shm True "\<lambda>_. 9" 1] by (simp add: NO_ID_ASSIGNED_def)
qed

theorem need_data_request_witness:
  "\<exists>s' info. notifyNeedMediaDataInternal AUDIO demo_attached = (True, s') \<and>
    last (p_out s') = ToClient (CE_needMediaData 1 1 0 info) \<and> getRequestType 0 (p_activeRequests s') = AUDIO"
proof -
  have "p_attachedSources demo_attached AUDIO = Some 1" "p_client demo_attached" "ids_below (p_activeRequests demo_attached)"
    "0 = m_currentId (p_activeRequests demo_attached)" "p_currentPlaybackState demo_attached \<noteq> PS_PLAYING"
    using newActiveRequests_ok by (simp_all add: demo_attached_def demo_pipeline_def newActiveRequests_def)
  then show ?thesis using need_data_request [OF demo_attached_inv, of AUDIO 1 0] by fastforce
qed

theorem request_answered_once_witness:
  "let s' = snd (haveDataShmInternal MSS_OK 0 0 demo_waiting)
   in getRequestType 0 (p_activeRequests s') = MST_UNKNOWN \<and> haveDataShmInternal MSS_OK 0 0 s' = (True, s')"
proof -
  define s' where s': "s' = snd (haveDataShmInternal MSS_OK 0 0 demo_waiting)"
  have "getRequestType 0 (p_activeRequests s') = MST_UNKNOWN \<and> haveDataShmInternal MSS_OK 0 0 s' = (True, s')"
    using request_answered_once [OF demo_waiting_state(4) _ disjI2 [OF s']] demo_waiting_state(5) by simp
  then show ?thesis unfolding Let_def s' .
qed

theorem bad_status_retried_witness:
  "let s2 = mainThreadLoop pipelineTask 1 (timerExpired AUDIO (snd (haveDataShmInternal MSS_NO_AVAILABLE_SAMPLES 0 0 demo_waiting)))
   in \<exists>count r' info. p_out s2 = p_out demo_waiting @ [ToClient (CE_needMediaData 1 count r' info)] \<and> need_data_info info"
proof -
  define s1 where s1: "s1 = snd (haveDataShmInternal MSS_NO_AVAILABLE_SAMPLES 0 0 demo_waiting)"
  define s2 where s2: "s2 = mainThreadLoop pipelineTask 1 (timerExpired AUDIO s1)"
  have "\<exists>count r' info. p_out s2 = p_out demo_waiting @ [ToClient (CE_needMediaData 1 count r' info)] \<and> need_data_info info"
    using bad_status_retried [OF demo_waiting_state(1-5) _ _ _ s1 s2] demo_waiting_state(6) by simp
  then show ?thesis unfolding Let_def s2 s1 .
qed

theorem no_player_refused_witness: "respond PlayReq demo_pipeline = (False, demo_pipeline)"
  by (rule no_player_refused) (simp_all add: demo_pipeline_def)

theorem attach_remove_source_witness:
  "let s = demo_attached; s' = snd (attachSourceInternal (demo_source\<lparr>ms_type := VIDEO\<rparr>) s)
   in p_attachedSources s' VIDEO = Some 2 \<and> p_attachedSources (snd (removeSourceInternal 2 s')) = p_attachedSources s"
proof -
  let ?src = "demo_source\<lparr>ms_type := VIDEO\<rparr>"
  obtain ok src' s' where a: "attachSourceInternal ?src demo_attached = ((ok, src'), s')"
    by (metis surj_pair)
  have "ms_id src' = 2"
    using a by (auto simp: attachSourceInternal_def Let_def demo_attached_def demo_pipeline_def demo_source_def source_constructor_defs output_defs
        generateSourceId_def)
  then show ?thesis
    using attach_remove_source [OF demo_attached_inv _ _ _ a] a
    by (simp add: Let_def demo_source_def source_constructor_defs demo_attached_def)
qed

theorem pipeline_destruction_witness:
  "\<exists>s'. destroyMediaPipelineServerInternal demo_attached = (Some (), s') \<and> \<not> is_mapped GENERIC 7 (p_shmBuffer s') \<and>
    p_out (mainThreadLoop pipelineTask 5 (fold post [NotifyPositionTask 3] s')) = p_out s'"
proof -
  have "p_sessionId demo_attached = 7" "mt_taskQueue demo_attached = []"
    by (simp_all add: demo_attached_def demo_pipeline_def)
  then obtain s' where "destroyMediaPipelineServerInternal demo_attached = (Some (), s')" "\<not> is_mapped GENERIC 7 (p_shmBuffer s')"
    "\<forall>ts n. p_out (mainThreadLoop pipelineTask n (fold post ts s')) = p_out s'"
    using pipeline_destruction [OF demo_attached_inv] by auto
  then show ?thesis by blast
qed

end
