(* ===== verification/Ring_Buffer.thy ===== *)
theory Ring_Buffer
  imports Main
begin

text \<open>
  The ring buffer behind web audio playback, on natural numbers: \<open>M\<close> bytes, of which the free ones are
  the \<open>lm\<close> bytes from position \<open>o\<close> on (the main part) and then the first \<open>lw\<close> bytes (the wrapped part). The
  rest is stored data. Positions are listed in the order in which data is written and read.
\<close>

definition avail_pos :: "nat \<Rightarrow> nat \<Rightarrow> nat \<Rightarrow> nat list" where
  "avail_pos p lm lw = [p..<p + lm] @ [0..<lw]"

definition stored_pos :: "nat \<Rightarrow> nat \<Rightarrow> nat \<Rightarrow> nat \<Rightarrow> nat list" where
  "stored_pos M p lm lw = (if lw \<noteq> 0 then [lw..<p] else [p + lm..<M] @ [0..<p])"

definition ring_ok :: "nat \<Rightarrow> nat \<Rightarrow> nat \<Rightarrow> nat \<Rightarrow> bool" where
  "ring_ok M p lm lw \<longleftrightarrow> p + lm \<le> M \<and> (lw \<noteq> 0 \<longrightarrow> p + lm = M \<and> lw \<le> p)"

text \<open>\<open>s\<close> bytes have been written to the free part, \<open>g\<close> bytes have been read.\<close>

definition ring_update :: "nat \<Rightarrow> nat \<Rightarrow> nat \<Rightarrow> nat \<Rightarrow> nat \<Rightarrow> nat \<Rightarrow> nat \<times> nat \<times> nat" where
  "ring_update M p lm lw s g =
     (if s \<le> lm then
        let e = M - (p + lm) in
        if g \<le> e then (p + s, lm - s + g, lw) else (p + s, lm - s + e, lw + (g - e))
      else
        let p' = s - lm in
        if g \<le> lm then (p', lw - p' + g, 0) else (p', M - p', g - lm))"

lemma ring_lengths:
  "ring_ok M p lm lw \<Longrightarrow> length (avail_pos p lm lw) = lm + lw"
  "ring_ok M p lm lw \<Longrightarrow> length (stored_pos M p lm lw) = M - lm - lw"
  "ring_ok M p lm lw \<Longrightarrow> lm + lw \<le> M"
  by (auto simp: avail_pos_def stored_pos_def ring_ok_def)

text \<open>The bookkeeping implements a queue: what is written goes behind the stored data, what is read is
  taken from its front and becomes free.\<close>

lemma upt_append: "i \<le> j \<Longrightarrow> j \<le> k \<Longrightarrow> [i..<j] @ [j..<k] = [i..<k]"
  by (metis le_Suc_ex upt_add_eq_append)

lemma take_upt_min: "take n [i..<j] = [i..<min (i + n) j]"
  by (cases "i + n \<le> j") (auto simp: min_def)

definition ring_step_ok :: "nat \<Rightarrow> nat \<Rightarrow> nat \<Rightarrow> nat \<Rightarrow> nat \<Rightarrow> nat \<Rightarrow> bool" where
  "ring_step_ok M p lm lw s g \<longleftrightarrow> s \<le> lm + lw \<and> g \<le> (M - lm - lw) + s \<and> (lm < s \<longrightarrow> g = 0 \<or> lm + lw = M)"

lemma ring_update_ok:
  assumes "ring_ok M p lm lw" and "ring_step_ok M p lm lw s g" and "ring_update M p lm lw s g = (p', lm', lw')"
  shows "ring_ok M p' lm' lw'" and "lm' + lw' + s = lm + lw + g"
  using assms by (auto simp: ring_ok_def ring_step_ok_def ring_update_def Let_def split: if_splits)

lemma upt_split_max: "j \<le> k \<Longrightarrow> m = max i j \<Longrightarrow> [i..<k] = [i..<j] @ [m..<k]"
  using upt_append [of i j k] by (cases "i \<le> j") (auto simp: max_def)

lemma ring_update_stored:
  assumes "ring_ok M p lm lw" and "ring_step_ok M p lm lw s g" and "ring_update M p lm lw s g = (p', lm', lw')"
  shows "stored_pos M p' lm' lw' = drop g (stored_pos M p lm lw @ take s (avail_pos p lm lw))"
  using assms
  by (auto simp: ring_ok_def ring_step_ok_def ring_update_def Let_def stored_pos_def avail_pos_def take_upt_min min_def
      upt_append add.assoc intro!: upt_split_max split: if_splits)

text \<open>Reading alone only appends to the free positions.\<close>

lemma ring_update_free:
  assumes "ring_ok M p lm lw" and "ring_step_ok M p lm lw 0 g" and "ring_update M p lm lw 0 g = (p', lm', lw')"
  shows "\<exists>zs. avail_pos p' lm' lw' = avail_pos p lm lw @ zs"
proof (cases "lw = 0 \<and> g \<le> M - (p + lm)")
  case True
  then have "avail_pos p' lm' lw' = avail_pos p lm lw @ [p + lm..<p + lm + g]"
    using assms(3) upt_add_eq_append [of p "p + lm" g] by (auto simp: ring_update_def avail_pos_def Let_def add.assoc)
  then show ?thesis by blast
next
  case False
  show ?thesis
  proof (cases "g = 0")
    case True
    then show ?thesis using assms(3) by (auto simp: ring_update_def Let_def)
  next
    case g: False
    let ?e = "M - (p + lm)"
    have p: "p' = p" "lm' = lm + ?e" "lw' = lw + (g - ?e)" "p + lm + ?e = M"
      using False g assms by (auto simp: ring_update_def ring_ok_def Let_def split: if_splits)
    have "lw = 0 \<or> ?e = 0" using assms(1) by (auto simp: ring_ok_def)
    moreover have "[0..<lw'] = [0..<lw] @ [lw..<lw']" using p(3) upt_append [of 0 lw lw'] by simp
    moreover have "[p..<p + lm'] = [p..<p + lm] @ [p + lm..<p + lm']" using p(2) upt_append [of p "p + lm" "p + lm'"] by simp
    ultimately have "avail_pos p' lm' lw' = avail_pos p lm lw @ ([p + lm..<p + lm'] @ [lw..<lw'])"
      using p by (auto simp: avail_pos_def)
    then show ?thesis by blast
  qed
qed

text \<open>Free and stored positions together are all positions, each once.\<close>

lemma ring_partition:
  assumes "ring_ok M p lm lw"
  shows "distinct (avail_pos p lm lw @ stored_pos M p lm lw)" and "set (avail_pos p lm lw @ stored_pos M p lm lw) = {..<M}"
  using assms by (auto simp: ring_ok_def avail_pos_def stored_pos_def)

end
