(* ===== verification/Web_Audio_Server.thy ===== *)
theory Web_Audio_Server
  imports Complex_Main Shared_Memory Main_Thread Ring_Buffer
begin

text \<open>
  The web audio player of the session server
  (\<open>media/server/main/source/WebAudioPlayerServerInternal.cpp\<close>), the write task of its player
  (\<open>media/server/gstplayer/source/tasks/webAudio/WriteBuffer.cpp\<close>) and the client's writer
  (\<open>media/client/main/source/WebAudioPlayer.cpp\<close>). Audio travels through a ring buffer in the
  shared memory partition of the player.
\<close>

section \<open>The player's write task\<close>

definition kMaxWebAudioBytes :: u32 where "kMaxWebAudioBytes = 10 * 1024"

text \<open>
  What GStreamer answers while one write task runs: the fill level of the application source, whether a
  buffer can be allocated, whether the push is accepted, and whether the caller gives up waiting before
  the task is done. \<open>gst_buffer_fill\<close> copies all bytes it is given into a buffer that is large enough.
\<close>

record AppSrcReply =
  as_level :: u64
  as_allocated :: bool
  as_pushed :: bool
  as_timeout :: bool

text \<open>\<open>WriteBuffer::execute\<close>: the bytes pushed, and the count recorded for the caller.\<close>

definition executeWriteBuffer :: "AppSrcReply \<Rightarrow> u8 list \<Rightarrow> u8 list \<Rightarrow> u8 list \<times> nat" where
  "executeWriteBuffer reply mainData wrapData =
     (let freeBytes = unat (ucast kMaxWebAudioBytes - as_level reply);
          bytesToWrite = min freeBytes (length mainData + length wrapData)
      in if as_allocated reply then
           let filled = (if bytesToWrite = length mainData + length wrapData then mainData @ wrapData
                         else if bytesToWrite > length mainData then mainData @ take (bytesToWrite - length mainData) wrapData
                         else take bytesToWrite mainData)
           in if as_pushed reply then (filled, length filled) else ([], 0)
         else ([], 0))"

section \<open>State\<close>

datatype WebAudioOutput =
    WO_create u32 | WO_setCaps | WO_play | WO_pause | WO_setEos | WO_setVolume real
  | WO_push "u8 list" | WO_notifyState WebAudioPlayerState

datatype WebAudioTask =
    WA_PlayTask | WA_PauseTask | WA_SetEosTask | WA_SetVolumeTask
  | WA_NotifyStateTask WebAudioPlayerState | WA_WriteDataTimerTask

text \<open>
  The members of \<open>WebAudioPlayerServerInternal\<close>. \<open>w_timer\<close> is \<open>m_writeDataTimer\<close> (\<open>None\<close>: null) with its
  \<open>isActive()\<close>; \<open>w_replies\<close> and \<open>w_calls\<close> are GStreamer's answers to the write tasks, in order, and how
  many have been used; \<open>w_mem\<close> is the shared memory; \<open>w_volumeArg\<close> is the stack slot of the argument of
  \<open>setVolume\<close>, to which the posted closure keeps a reference.
\<close>

record WebAudioPlayerServer = "WebAudioTask MainThread" +
  w_client :: bool
  w_shmBuffer :: SharedMemoryBuffer
  w_mem :: mem
  w_mainThreadClientId :: u32
  w_priority :: u32
  w_gstPlayer :: bool
  w_shmId :: int
  w_partitionOffset :: u32
  w_maxDataLength :: u32
  w_availableBuffer :: WebAudioShmInfo
  w_expectWriteBuffer :: bool
  w_timer :: "bool option"
  w_bytesPerFrame :: u32
  w_isEosRequested :: bool
  w_replies :: "nat \<Rightarrow> AppSrcReply"
  w_calls :: nat
  w_volumeArg :: real
  w_out :: "WebAudioOutput list"

definition emit :: "WebAudioOutput \<Rightarrow> WebAudioPlayerServer \<Rightarrow> WebAudioPlayerServer" where
  "emit c s = s\<lparr>w_out := w_out s @ [c]\<rparr>"

text \<open>\<open>GstWebAudioPlayer::writeBuffer\<close>: run the write task on the worker thread and wait for its result.\<close>

definition gstWriteBuffer :: "u8 list \<Rightarrow> u8 list \<Rightarrow> WebAudioPlayerServer \<Rightarrow> u32 \<times> WebAudioPlayerServer" where
  "gstWriteBuffer mainData wrapData s =
     (let reply = w_replies s (w_calls s);
          (pushed, written) = executeWriteBuffer reply mainData wrapData;
          s = emit (WO_push pushed) (s\<lparr>w_calls := Suc (w_calls s)\<rparr>)
      in (if as_timeout reply then 0 else of_nat written, s))"

section \<open>The ring buffer\<close>

definition updateAvailableBuffer :: "u32 \<Rightarrow> u32 \<Rightarrow> WebAudioPlayerServer \<Rightarrow> WebAudioPlayerServer" where
  "updateAvailableBuffer bytesWrittenToShm bytesWrittenToGst s =
     (let a = w_availableBuffer s in
      if bytesWrittenToShm \<le> lengthMain a then
        let offetRelativeToPartition = offsetMain a - w_partitionOffset s;
            storedDataLengthAtEndOfShm = w_maxDataLength s - (offetRelativeToPartition + lengthMain a);
            a = a\<lparr>offsetMain := offsetMain a + bytesWrittenToShm\<rparr>
        in if bytesWrittenToGst \<le> storedDataLengthAtEndOfShm then
             s\<lparr>w_availableBuffer := a\<lparr>lengthMain := lengthMain a - bytesWrittenToShm + bytesWrittenToGst\<rparr>\<rparr>
           else
             s\<lparr>w_availableBuffer :=
               a\<lparr>lengthMain := lengthMain a - bytesWrittenToShm + storedDataLengthAtEndOfShm,
                 lengthWrap := lengthWrap a + (bytesWrittenToGst - storedDataLengthAtEndOfShm)\<rparr>\<rparr>
      else
        let newDataLengthAtEndOfShm = lengthMain a;
            a = a\<lparr>offsetMain := offsetWrap a + (bytesWrittenToShm - lengthMain a)\<rparr>;
            newOffetRelativeToPartition = offsetMain a - w_partitionOffset s
        in if bytesWrittenToGst \<le> lengthMain a then
             s\<lparr>w_availableBuffer :=
               a\<lparr>lengthMain := (lengthWrap a - newOffetRelativeToPartition) + bytesWrittenToGst, lengthWrap := 0\<rparr>\<rparr>
           else
             s\<lparr>w_availableBuffer :=
               a\<lparr>lengthMain := w_maxDataLength s - newOffetRelativeToPartition,
                 lengthWrap := bytesWrittenToGst - newDataLengthAtEndOfShm\<rparr>\<rparr>)"

definition getQueuedFramesInShm :: "WebAudioPlayerServer \<Rightarrow> u32" where
  "getQueuedFramesInShm s =
     (w_maxDataLength s - (lengthMain (w_availableBuffer s) + lengthWrap (w_availableBuffer s))) div w_bytesPerFrame s"

definition writeStoredBuffers :: "WebAudioPlayerServer \<Rightarrow> bool \<times> WebAudioPlayerServer" where
  "writeStoredBuffers s =
     (let a = w_availableBuffer s in
      if lengthWrap a + lengthMain a = w_maxDataLength s then (True, s)
      else
        let (mainPtr, mainLength, wrapPtr, wrapLength) =
              (if lengthWrap a \<noteq> 0 then
                 let startOfDataOffset = offsetWrap a + lengthWrap a
                 in (startOfDataOffset, offsetMain a - startOfDataOffset, 0, 0)
               else
                 let startOfDataOffset = offsetMain a + lengthMain a
                 in (startOfDataOffset, w_maxDataLength s - (startOfDataOffset - w_partitionOffset s),
                     w_partitionOffset s, offsetMain a - w_partitionOffset s));
            (storedBytesWritten, s) = gstWriteBuffer (read_bytes (w_mem s) (unat mainPtr) (unat mainLength))
                                        (read_bytes (w_mem s) (unat wrapPtr) (unat wrapLength)) s;
            s = updateAvailableBuffer 0 storedBytesWritten s
        in if storedBytesWritten = mainLength + wrapLength then
             (True, if w_isEosRequested s then (emit WO_setEos s)\<lparr>w_isEosRequested := False\<rparr> else s)
           else (False, s))"

text \<open>The part of \<open>writeBufferInternal\<close> that writes new frames.\<close>

definition writeNewFrames :: "u32 \<Rightarrow> WebAudioPlayerServer \<Rightarrow> WebAudioPlayerServer" where
  "writeNewFrames numberOfBytesToWrite s =
     (let a = w_availableBuffer s;
          (mainLength, wrapLength) =
            (if numberOfBytesToWrite \<le> lengthMain a then (numberOfBytesToWrite, 0)
             else (lengthMain a, numberOfBytesToWrite - lengthMain a));
          (newBytesWritten, s) = gstWriteBuffer (read_bytes (w_mem s) (unat (offsetMain a)) (unat mainLength))
                                   (read_bytes (w_mem s) (unat (offsetWrap a)) (unat wrapLength)) s;
          s = updateAvailableBuffer numberOfBytesToWrite newBytesWritten s
      in if newBytesWritten \<noteq> numberOfBytesToWrite then s\<lparr>w_timer := Some True\<rparr> else s)"

definition writeBufferInternal :: "u32 \<Rightarrow> WebAudioPlayerServer \<Rightarrow> bool \<times> WebAudioPlayerServer" where
  "writeBufferInternal numberOfFrames s =
     (if \<not> w_expectWriteBuffer s then (False, s)
      else
        let s = s\<lparr>w_expectWriteBuffer := False\<rparr>;
            s = (if w_timer s = Some True then s\<lparr>w_timer := None\<rparr> else s);
            numberOfBytesToWrite = numberOfFrames * w_bytesPerFrame s;
            (allWritten, s) = writeStoredBuffers s
        in if \<not> allWritten then (True, (updateAvailableBuffer numberOfBytesToWrite 0 s)\<lparr>w_timer := Some True\<rparr>)
           else if 0 = numberOfFrames then (True, s)
           else (True, writeNewFrames numberOfBytesToWrite s))"

section \<open>Tasks on the main thread\<close>

definition postWebAudio :: "WebAudioTask \<Rightarrow> WebAudioPlayerServer \<Rightarrow> WebAudioPlayerServer" where
  "postWebAudio t s = enqueueTask (w_mainThreadClientId s) (ClientTask t) s"

text \<open>The write timer expires: its callback posts a task, then the timer is inactive.\<close>

definition handleWriteDataTimer :: "WebAudioPlayerServer \<Rightarrow> WebAudioPlayerServer" where
  "handleWriteDataTimer s =
     (if w_timer s = Some True then postWebAudio WA_WriteDataTimerTask (s\<lparr>w_timer := Some False\<rparr>) else s)"

fun webAudioTask :: "WebAudioTask \<Rightarrow> WebAudioPlayerServer \<Rightarrow> WebAudioPlayerServer" where
  "webAudioTask WA_PlayTask s = emit WO_play s"
| "webAudioTask WA_PauseTask s = emit WO_pause s"
| "webAudioTask WA_SetEosTask s =
     (if 0 \<noteq> getQueuedFramesInShm s then s\<lparr>w_isEosRequested := True\<rparr> else emit WO_setEos s)"
| "webAudioTask WA_SetVolumeTask s = emit (WO_setVolume (w_volumeArg s)) s"
| "webAudioTask (WA_NotifyStateTask state) s = (if w_client s then emit (WO_notifyState state) s else s)"
| "webAudioTask WA_WriteDataTimerTask s =
     (let (allWritten, s) = writeStoredBuffers s
      in s\<lparr>w_timer := (if \<not> allWritten then Some True else None)\<rparr>)"

definition onWebAudioThread :: "(WebAudioPlayerServer \<Rightarrow> 'r \<times> WebAudioPlayerServer) \<Rightarrow> WebAudioPlayerServer \<Rightarrow>
    'r option \<times> WebAudioPlayerServer" where
  "onWebAudioThread task s = enqueueTaskAndWait webAudioTask (w_mainThreadClientId s) task s"

definition playWebAudio :: "WebAudioPlayerServer \<Rightarrow> bool \<times> WebAudioPlayerServer" where
  "playWebAudio s = (True, postWebAudio WA_PlayTask s)"

definition pauseWebAudio :: "WebAudioPlayerServer \<Rightarrow> bool \<times> WebAudioPlayerServer" where
  "pauseWebAudio s = (True, postWebAudio WA_PauseTask s)"

definition setEosWebAudio :: "WebAudioPlayerServer \<Rightarrow> bool \<times> WebAudioPlayerServer" where
  "setEosWebAudio s = (True, postWebAudio WA_SetEosTask s)"

definition setVolumeWebAudio :: "real \<Rightarrow> WebAudioPlayerServer \<Rightarrow> bool \<times> WebAudioPlayerServer" where
  "setVolumeWebAudio volume s = (True, postWebAudio WA_SetVolumeTask (s\<lparr>w_volumeArg := volume\<rparr>))"

definition notifyState :: "WebAudioPlayerState \<Rightarrow> WebAudioPlayerServer \<Rightarrow> WebAudioPlayerServer" where
  "notifyState state s = postWebAudio (WA_NotifyStateTask state) s"

text \<open>The task of \<open>getBufferAvailable\<close>; the method itself refuses a null \<open>webAudioShmInfo\<close>.\<close>

definition bufferAvailableTask :: "WebAudioPlayerServer \<Rightarrow> (u32 \<times> WebAudioShmInfo) \<times> WebAudioPlayerServer" where
  "bufferAvailableTask s =
     (let a = w_availableBuffer s
      in (((lengthMain a + lengthWrap a) div w_bytesPerFrame s, a), s\<lparr>w_expectWriteBuffer := True\<rparr>))"

definition getBufferAvailable ::
  "bool \<Rightarrow> WebAudioPlayerServer \<Rightarrow> (u32 \<times> WebAudioShmInfo) option \<times> WebAudioPlayerServer" where
  "getBufferAvailable webAudioShmInfo s =
     (if \<not> webAudioShmInfo then (None, s) else onWebAudioThread bufferAvailableTask s)"

text \<open>\<open>queuedBytes\<close> is the player's answer; \<open>None\<close> is the error return.\<close>

definition bufferDelayTask :: "u64 \<Rightarrow> WebAudioPlayerServer \<Rightarrow> u32 option \<times> WebAudioPlayerServer" where
  "bufferDelayTask queuedBytes s =
     (let queuedFrames = queuedBytes div ucast (w_bytesPerFrame s) + ucast (getQueuedFramesInShm s)
      in (if queuedFrames > 4294967295 then None else Some (ucast queuedFrames), s))"

definition getBufferDelay :: "u64 \<Rightarrow> WebAudioPlayerServer \<Rightarrow> u32 option option \<times> WebAudioPlayerServer" where
  "getBufferDelay queuedBytes = onWebAudioThread (bufferDelayTask queuedBytes)"

definition writeBuffer :: "u32 \<Rightarrow> WebAudioPlayerServer \<Rightarrow> bool option \<times> WebAudioPlayerServer" where
  "writeBuffer numberOfFrames = onWebAudioThread (writeBufferInternal numberOfFrames)"

definition kPreferredFrames :: u32 where "kPreferredFrames = 640"

definition getDeviceInfo :: "WebAudioPlayerServer \<Rightarrow> u32 \<times> u32 \<times> bool" where
  "getDeviceInfo s =
     (let maximumFrames = w_maxDataLength s div w_bytesPerFrame s
      in (min kPreferredFrames maximumFrames, maximumFrames, True))"

definition getVolumeWebAudio :: "real option \<Rightarrow> WebAudioPlayerServer \<Rightarrow> real option option \<times> WebAudioPlayerServer" where
  "getVolumeWebAudio reply = onWebAudioThread (\<lambda>s. (reply, s))"

section \<open>Construction and destruction\<close>

definition initGstWebAudioPlayer :: "bool \<Rightarrow> WebAudioPlayerServer \<Rightarrow> bool \<times> WebAudioPlayerServer" where
  "initGstWebAudioPlayer created s =
     (if \<not> created then (False, s)
      else (True, emit WO_setCaps (emit (WO_create (w_priority s)) (s\<lparr>w_gstPlayer := True\<rparr>))))"

definition initWebAudioPlayerInternal :: "bool \<Rightarrow> WebAudioPlayerServer \<Rightarrow> bool \<times> WebAudioPlayerServer" where
  "initWebAudioPlayerInternal created s =
     (let (mapped, shm) = mapPartition WEB_AUDIO (w_shmId s) (w_shmBuffer s);
          s = s\<lparr>w_shmBuffer := shm\<rparr>
      in if \<not> mapped then (False, s)
         else if getBuffer (w_shmBuffer s) = None then (False, s)
         else case getDataOffset WEB_AUDIO (w_shmId s) AUDIO (w_shmBuffer s) of
           None \<Rightarrow> (False, s)
         | Some off \<Rightarrow>
             let s = s\<lparr>w_partitionOffset := off,
                       w_maxDataLength := getMaxDataLen WEB_AUDIO (w_shmId s) AUDIO (w_shmBuffer s)\<rparr>
             in if w_maxDataLength s = 0 then (False, s)
                else let (ok, s) = initGstWebAudioPlayer created s
                     in if \<not> ok then (False, s)
                        else (True, s\<lparr>w_availableBuffer :=
                               (w_availableBuffer s)\<lparr>lengthMain := w_maxDataLength s, offsetMain := w_partitionOffset s,
                                                    offsetWrap := w_partitionOffset s\<rparr>\<rparr>))"

text \<open>The constructor; \<open>Inl None\<close> is an exception before the main thread is involved, \<open>Inl (Some s)\<close> one
  after a failed initialisation. A null config is \<open>None\<close>.\<close>

definition newWebAudioPlayerServerInternal ::
  "WebAudioTask MainThread option \<Rightarrow> bool \<Rightarrow> string \<Rightarrow> u32 \<Rightarrow> WebAudioPcmConfig option \<Rightarrow> SharedMemoryBuffer \<Rightarrow> mem \<Rightarrow>
     int \<Rightarrow> bool \<Rightarrow> (nat \<Rightarrow> AppSrcReply) \<Rightarrow> WebAudioPlayerServer option + WebAudioPlayerServer" where
  "newWebAudioPlayerServerInternal mainThread client audioMimeType priority config shmBuffer m handle created replies =
     (if audioMimeType = ''audio/x-raw'' then
        (case config of
           None \<Rightarrow> Inl None
         | Some pcm \<Rightarrow>
             let bytesPerFrame = pcm_channels pcm * (pcm_sampleSize pcm div 8) in
             if bytesPerFrame = 0 then Inl None
             else (case mainThread of
                 None \<Rightarrow> Inl None
               | Some mt \<Rightarrow>
                   let s = \<lparr>mt_isMainThreadRunning = mt_isMainThreadRunning mt, mt_taskQueue = mt_taskQueue mt,
                            mt_nextClientId = mt_nextClientId mt, mt_registeredClients = mt_registeredClients mt,
                            w_client = client, w_shmBuffer = shmBuffer, w_mem = m, w_mainThreadClientId = 0,
                            w_priority = priority, w_gstPlayer = False, w_shmId = handle, w_partitionOffset = 0,
                            w_maxDataLength = 0,
                            w_availableBuffer = \<lparr>offsetMain = 0, lengthMain = 0, offsetWrap = 0, lengthWrap = 0\<rparr>,
                            w_expectWriteBuffer = False, w_timer = None, w_bytesPerFrame = bytesPerFrame,
                            w_isEosRequested = False, w_replies = replies, w_calls = 0, w_volumeArg = 0, w_out = []\<rparr>;
                       (clientId, s) = registerClient s;
                       s = s\<lparr>w_mainThreadClientId := clientId\<rparr>;
                       (result, s) = onWebAudioThread (initWebAudioPlayerInternal created) s
                   in if result = Some True then Inr s else Inl (Some s)))
      else Inl None)"

definition destroyWebAudioTask :: "WebAudioPlayerServer \<Rightarrow> unit \<times> WebAudioPlayerServer" where
  "destroyWebAudioTask s =
     (let s = (if w_timer s = Some True then s\<lparr>w_timer := Some False\<rparr> else s);
          s = s\<lparr>w_shmBuffer := snd (unmapPartition WEB_AUDIO (w_shmId s) (w_shmBuffer s))\<rparr>
      in ((), unregisterClient (w_mainThreadClientId s) s))"

definition destroyWebAudioPlayerServerInternal :: "WebAudioPlayerServer \<Rightarrow> unit option \<times> WebAudioPlayerServer" where
  "destroyWebAudioPlayerServerInternal s = onWebAudioThread destroyWebAudioTask s"

section \<open>The client's side\<close>

text \<open>
  \<open>WebAudioPlayer::writeBuffer\<close> of the client, up to the remote call: \<open>data\<close> is the caller's memory from the
  data pointer on, \<open>info\<close> the result of the last \<open>getBufferAvailable\<close>. \<open>None\<close> means that it returns \<open>false\<close>
  without a remote call. When the data fits the main part, the copy is still as long as that part.
\<close>

definition clientWriteBuffer :: "u32 \<Rightarrow> WebAudioShmInfo option \<Rightarrow> bool \<Rightarrow> u32 \<Rightarrow> mem \<Rightarrow> mem \<Rightarrow> mem option" where
  "clientWriteBuffer bytesPerFrame info shmValid numberOfFrames data m =
     (case info of
        None \<Rightarrow> None
      | Some a \<Rightarrow>
          let dataLength = numberOfFrames * bytesPerFrame;
              availableDataLength = lengthMain a + lengthWrap a
          in if dataLength > availableDataLength then None
             else if \<not> shmValid then None
             else if dataLength > lengthMain a then
               let m = write_bytes m (unat (offsetMain a)) (read_bytes data 0 (unat (lengthMain a)))
               in Some (write_bytes m (unat (offsetWrap a))
                         (read_bytes data (unat (lengthMain a)) (unat (dataLength - lengthMain a))))
             else Some (write_bytes m (unat (offsetMain a)) (read_bytes data 0 (unat (lengthMain a)))))"

end
