(* ===== verification/Web_Audio_Proofs.thy ===== *)
theory Web_Audio_Proofs
  imports Web_Audio_Server
begin

text \<open>
  The ring buffer of the web audio player computes in 32-bit words; this theory relates it to the ring on
  natural numbers and shows that audio data passes through it as through a queue.
\<close>

section \<open>The invariant\<close>

abbreviation part :: "WebAudioPlayerServer \<Rightarrow> nat" where "part s \<equiv> unat (w_partitionOffset s)"
abbreviation cap :: "WebAudioPlayerServer \<Rightarrow> nat" where "cap s \<equiv> unat (w_maxDataLength s)"
abbreviation free_at :: "WebAudioPlayerServer \<Rightarrow> nat" where "free_at s \<equiv> unat (offsetMain (w_availableBuffer s)) - part s"
abbreviation free_main :: "WebAudioPlayerServer \<Rightarrow> nat" where "free_main s \<equiv> unat (lengthMain (w_availableBuffer s))"
abbreviation free_wrap :: "WebAudioPlayerServer \<Rightarrow> nat" where "free_wrap s \<equiv> unat (lengthWrap (w_availableBuffer s))"

definition ring_inv :: "WebAudioPlayerServer \<Rightarrow> bool" where
  "ring_inv s \<longleftrightarrow> part s + cap s < 2 ^ 32 \<and> offsetWrap (w_availableBuffer s) = w_partitionOffset s \<and>
     part s \<le> unat (offsetMain (w_availableBuffer s)) \<and> ring_ok (cap s) (free_at s) (free_main s) (free_wrap s)"

definition stored_bytes :: "WebAudioPlayerServer \<Rightarrow> u8 list" where
  "stored_bytes s = map (\<lambda>i. w_mem s (part s + i)) (stored_pos (cap s) (free_at s) (free_main s) (free_wrap s))"

definition free_bytes :: "WebAudioPlayerServer \<Rightarrow> u8 list" where
  "free_bytes s = map (\<lambda>i. w_mem s (part s + i)) (avail_pos (free_at s) (free_main s) (free_wrap s))"

text \<open>Everything the player has pushed so far.\<close>

definition pushed :: "WebAudioPlayerServer \<Rightarrow> u8 list" where
  "pushed s = concat (map (\<lambda>c. case c of WO_push bs \<Rightarrow> bs | _ \<Rightarrow> []) (w_out s))"

lemma ring_bounds:
  assumes "ring_inv s"
  shows "unat (offsetMain (w_availableBuffer s)) = part s + free_at s" "free_at s + free_main s \<le> cap s"
    "free_wrap s \<noteq> 0 \<Longrightarrow> free_at s + free_main s = cap s \<and> free_wrap s \<le> free_at s" "part s + cap s < 2 ^ 32"
    "unat (offsetWrap (w_availableBuffer s)) = part s"
  using assms by (auto simp: ring_inv_def ring_ok_def)

section \<open>The word arithmetic of the bookkeeping\<close>

lemma updateAvailableBuffer_frame:
  "updateAvailableBuffer x y s = s\<lparr>w_availableBuffer := w_availableBuffer (updateAvailableBuffer x y s)\<rparr>"
  by (simp add: updateAvailableBuffer_def Let_def)

lemma updateAvailableBuffer_refines:
  assumes inv: "ring_inv s" and ok: "ring_step_ok (cap s) (free_at s) (free_main s) (free_wrap s) (unat x) (unat y)"
  defines "b \<equiv> w_availableBuffer (updateAvailableBuffer x y s)"
  shows "offsetWrap b = w_partitionOffset s \<and> part s \<le> unat (offsetMain b) \<and>
    (unat (offsetMain b) - part s, unat (lengthMain b), unat (lengthWrap b)) =
      ring_update (cap s) (free_at s) (free_main s) (free_wrap s) (unat x) (unat y)"
proof -
  note bounds = ring_bounds [OF inv] ok [unfolded ring_step_ok_def]
  let ?a = "w_availableBuffer s"
  have rel: "unat (offsetMain ?a - w_partitionOffset s) = free_at s"
    using bounds by (simp add: nowrap)
  have e: "unat (w_maxDataLength s - (offsetMain ?a - w_partitionOffset s + lengthMain ?a)) = cap s - (free_at s + free_main s)"
    using bounds rel by (simp add: nowrap)
  show ?thesis
  proof (cases "unat x \<le> free_main s")
    case True
    have p': "unat (offsetMain ?a + x) = part s + free_at s + unat x" using bounds True by (simp add: nowrap)
    show ?thesis
    proof (cases "unat y \<le> cap s - (free_at s + free_main s)")
      case le: True
      have "unat (lengthMain ?a - x + y) = free_main s - unat x + unat y" using bounds True le by (simp add: nowrap)
      then show ?thesis
        using True le p' e inv
        by (simp add: b_def updateAvailableBuffer_def Let_def word_le_nat_alt ring_update_def ring_inv_def)
    next
      case gt: False
      define ev where "ev = w_maxDataLength s - (offsetMain ?a - w_partitionOffset s + lengthMain ?a)"
      have ev: "unat ev = cap s - (free_at s + free_main s)" unfolding ev_def by (rule e)
      have "unat (lengthMain ?a - x + ev) = free_main s - unat x + (cap s - (free_at s + free_main s))"
        using bounds True ev by (simp add: nowrap)
      moreover have "unat (lengthWrap ?a + (y - ev)) = free_wrap s + (unat y - (cap s - (free_at s + free_main s)))"
      proof -
        have d: "unat (y - ev) = unat y - unat ev" using gt ev by (simp add: nowrap)
        have "free_wrap s + (unat y - unat ev) < 2 ^ 32"
          using bounds True ev by (cases "free_wrap s = 0") auto
        then show ?thesis using d ev unat_add_nowrap [of "lengthWrap ?a" "y - ev"] by simp
      qed
      ultimately show ?thesis
        using True gt p' ev inv unfolding b_def updateAvailableBuffer_def Let_def word_le_nat_alt ev_def [symmetric]
        by (simp add: ring_update_def ring_inv_def Let_def)
    qed
  next
    case False
    have d: "unat (x - lengthMain ?a) = unat x - free_main s" using False by (simp add: nowrap)
    have p': "unat (offsetWrap ?a + (x - lengthMain ?a)) = part s + (unat x - free_main s)"
    proof -
      have "part s + (unat x - free_main s) < 2 ^ 32" using bounds False by (cases "free_wrap s = 0") auto
      then show ?thesis using d bounds unat_add_nowrap [of "offsetWrap ?a" "x - lengthMain ?a"] by simp
    qed
    have rel': "unat (offsetWrap ?a + (x - lengthMain ?a) - w_partitionOffset s) = unat x - free_main s"
      using p' by (simp add: nowrap)
    show ?thesis
    proof (cases "unat y \<le> free_main s")
      case le: True
      have "unat (lengthWrap ?a - (offsetWrap ?a + (x - lengthMain ?a) - w_partitionOffset s) + y) =
          free_wrap s - (unat x - free_main s) + unat y"
      proof -
        have "unat x - free_main s \<le> free_wrap s" "free_wrap s - (unat x - free_main s) + unat y < 2 ^ 32"
          using bounds False le by (cases "free_wrap s = 0"; auto)+
        then show ?thesis
          using rel' unat_sub_add_nowrap [of "offsetWrap ?a + (x - lengthMain ?a) - w_partitionOffset s" "lengthWrap ?a" y] by simp
      qed
      then show ?thesis
        using False le p' inv
        by (simp add: b_def updateAvailableBuffer_def Let_def word_le_nat_alt ring_update_def ring_inv_def)
    next
      case gt: False
      have "unat (w_maxDataLength s - (offsetWrap ?a + (x - lengthMain ?a) - w_partitionOffset s)) = cap s - (unat x - free_main s)"
      proof -
        have "unat x - free_main s \<le> cap s" using bounds False by (cases "free_wrap s = 0") auto
        then show ?thesis
          using rel' unat_sub_nowrap [of "offsetWrap ?a + (x - lengthMain ?a) - w_partitionOffset s" "w_maxDataLength s"] by simp
      qed
      moreover have "unat (y - lengthMain ?a) = unat y - free_main s" using gt by (simp add: nowrap)
      ultimately show ?thesis
        using False gt p' inv
        by (simp add: b_def updateAvailableBuffer_def Let_def word_le_nat_alt ring_update_def ring_inv_def)
    qed
  qed
qed

text \<open>The effect of the bookkeeping on the bytes: \<open>x\<close> bytes join the stored data, \<open>y\<close> bytes leave it.\<close>

lemma updateAvailableBuffer_bytes:
  assumes inv: "ring_inv s" and ok: "ring_step_ok (cap s) (free_at s) (free_main s) (free_wrap s) (unat x) (unat y)"
  shows "ring_inv (updateAvailableBuffer x y s)"
    and "stored_bytes (updateAvailableBuffer x y s) = drop (unat y) (stored_bytes s @ take (unat x) (free_bytes s))"
    and "free_main (updateAvailableBuffer x y s) + free_wrap (updateAvailableBuffer x y s) + unat x =
      free_main s + free_wrap s + unat y"
proof -
  define b where "b = w_availableBuffer (updateAvailableBuffer x y s)"
  have fr: "updateAvailableBuffer x y s = s\<lparr>w_availableBuffer := b\<rparr>"
    unfolding b_def by (rule updateAvailableBuffer_frame)
  have b: "offsetWrap b = w_partitionOffset s" "part s \<le> unat (offsetMain b)"
    "ring_update (cap s) (free_at s) (free_main s) (free_wrap s) (unat x) (unat y) =
      (unat (offsetMain b) - part s, unat (lengthMain b), unat (lengthWrap b))"
    using updateAvailableBuffer_refines [OF inv ok] by (simp_all add: b_def)
  have ring: "ring_ok (cap s) (free_at s) (free_main s) (free_wrap s)" using inv by (simp add: ring_inv_def)
  show "ring_inv (updateAvailableBuffer x y s)"
    using ring_update_ok(1) [OF ring ok b(3)] b inv by (simp add: fr ring_inv_def)
  show "stored_bytes (updateAvailableBuffer x y s) = drop (unat y) (stored_bytes s @ take (unat x) (free_bytes s))"
    using ring_update_stored [OF ring ok b(3)] by (simp add: fr stored_bytes_def free_bytes_def drop_map take_map)
  show "free_main (updateAvailableBuffer x y s) + free_wrap (updateAvailableBuffer x y s) + unat x =
      free_main s + free_wrap s + unat y"
    using ring_update_ok(2) [OF ring ok b(3)] by (simp add: fr)
qed

lemma length_ring_bytes:
  assumes "ring_inv s"
  shows "length (stored_bytes s) = cap s - free_main s - free_wrap s" and "length (free_bytes s) = free_main s + free_wrap s"
    and "free_main s + free_wrap s \<le> cap s"
  using ring_lengths [of "cap s" "free_at s" "free_main s" "free_wrap s"] assms
  by (simp_all add: stored_bytes_def free_bytes_def ring_inv_def)

section \<open>Writing to the player\<close>

text \<open>How many of \<open>n\<close> bytes the application source takes.\<close>

definition accepted :: "AppSrcReply \<Rightarrow> nat \<Rightarrow> nat" where
  "accepted reply n =
     (if as_allocated reply \<and> as_pushed reply then min (unat (ucast kMaxWebAudioBytes - as_level reply)) n else 0)"

lemma accepted_le: "accepted reply n \<le> n"
  by (simp add: accepted_def)

lemma executeWriteBuffer_prefix:
  "executeWriteBuffer reply bs cs =
    (take (accepted reply (length (bs @ cs))) (bs @ cs), accepted reply (length (bs @ cs)))"
  by (cases "as_allocated reply \<and> as_pushed reply")
    (auto simp: executeWriteBuffer_def accepted_def Let_def min_def)

lemma gstWriteBuffer_prefix:
  assumes "\<not> as_timeout (w_replies s (w_calls s))" and "length (bs @ cs) < 2 ^ 32"
  shows "\<exists>n \<le> length (bs @ cs). n = accepted (w_replies s (w_calls s)) (length (bs @ cs)) \<and>
    fst (gstWriteBuffer bs cs s) = of_nat n \<and> unat (fst (gstWriteBuffer bs cs s)) = n \<and>
    snd (gstWriteBuffer bs cs s) = emit (WO_push (take n (bs @ cs))) (s\<lparr>w_calls := Suc (w_calls s)\<rparr>)"
proof -
  define n where "n = accepted (w_replies s (w_calls s)) (length (bs @ cs))"
  have "n \<le> length (bs @ cs)" "executeWriteBuffer (w_replies s (w_calls s)) bs cs = (take n (bs @ cs), n)"
    unfolding n_def by (rule accepted_le executeWriteBuffer_prefix)+
  then show ?thesis
    using assms n_def by (intro exI [of _ n]) (simp add: gstWriteBuffer_def Let_def nowrap)
qed

lemma pushed_emit [simp]:
  "pushed (emit (WO_push bs) s) = pushed s @ bs" "pushed (emit WO_setEos s) = pushed s"
  by (simp_all add: pushed_def emit_def)

lemma emit_frame [simp]:
  "ring_inv (emit c s) = ring_inv s" "stored_bytes (emit c s) = stored_bytes s" "free_bytes (emit c s) = free_bytes s"
  by (simp_all add: emit_def ring_inv_def stored_bytes_def free_bytes_def)

section \<open>Stored data\<close>

lemma read_bytes_upt: "read_bytes m (p + i) n = map (\<lambda>j. m (p + j)) [i..<i + n]"
  by (simp add: list_eq_iff_nth_eq add.assoc)

text \<open>The main and the wrapped part of the stored data, as \<open>writeStoredBuffers\<close> computes them.\<close>

definition stored_parts :: "WebAudioPlayerServer \<Rightarrow> u32 \<times> u32 \<times> u32 \<times> u32" where
  "stored_parts s =
     (let a = w_availableBuffer s in
      if lengthWrap a \<noteq> 0 then
        let startOfDataOffset = offsetWrap a + lengthWrap a
        in (startOfDataOffset, offsetMain a - startOfDataOffset, 0, 0)
      else
        let startOfDataOffset = offsetMain a + lengthMain a
        in (startOfDataOffset, w_maxDataLength s - (startOfDataOffset - w_partitionOffset s),
            w_partitionOffset s, offsetMain a - w_partitionOffset s))"

lemma stored_parts_bytes:
  assumes inv: "ring_inv s" and parts: "stored_parts s = (mp, ml, wp, wl)"
  shows "read_bytes (w_mem s) (unat mp) (unat ml) @ read_bytes (w_mem s) (unat wp) (unat wl) = stored_bytes s"
    and "unat (ml + wl) = length (stored_bytes s)"
proof -
  note bounds = ring_bounds [OF inv]
  let ?a = "w_availableBuffer s"
  have "read_bytes (w_mem s) (unat mp) (unat ml) @ read_bytes (w_mem s) (unat wp) (unat wl) = stored_bytes s \<and>
    unat ml + unat wl = length (stored_bytes s)"
  proof (cases "lengthWrap ?a = 0")
    case False
    then have lw: "free_wrap s \<noteq> 0" by (simp add: unat_eq_0)
    then have start: "unat (offsetWrap ?a + lengthWrap ?a) = part s + free_wrap s"
      using bounds unat_add_nowrap [of "offsetWrap ?a" "lengthWrap ?a"] by auto
    moreover have "unat (offsetMain ?a - (offsetWrap ?a + lengthWrap ?a)) = free_at s - free_wrap s"
      using bounds lw start unat_sub_nowrap [of "offsetWrap ?a + lengthWrap ?a" "offsetMain ?a"] by simp
    ultimately show ?thesis
      using parts False lw bounds(3) by (auto simp: stored_parts_def Let_def read_bytes_upt stored_bytes_def stored_pos_def)
  next
    case True
    then have lw: "free_wrap s = 0" by simp
    have start: "unat (offsetMain ?a + lengthMain ?a) = part s + free_at s + free_main s"
      using bounds by (simp add: nowrap)
    moreover have "unat (offsetMain ?a + lengthMain ?a - w_partitionOffset s) = free_at s + free_main s"
      using start unat_sub_nowrap [of "w_partitionOffset s" "offsetMain ?a + lengthMain ?a"] by simp
    then have "unat (w_maxDataLength s - (offsetMain ?a + lengthMain ?a - w_partitionOffset s)) = cap s - (free_at s + free_main s)"
      using bounds(2) unat_sub_nowrap [of "offsetMain ?a + lengthMain ?a - w_partitionOffset s" "w_maxDataLength s"] by simp
    moreover have "unat (offsetMain ?a - w_partitionOffset s) = free_at s" using bounds by (simp add: nowrap)
    ultimately show ?thesis
      using parts True lw bounds(2) read_bytes_upt [of "w_mem s" "part s" 0 "free_at s"]
        read_bytes_upt [of "w_mem s" "part s" "free_at s + free_main s"]
      by (auto simp: stored_parts_def Let_def stored_bytes_def stored_pos_def add.assoc)
  qed
  moreover have "length (stored_bytes s) < 2 ^ 32" using bounds(4) length_ring_bytes(1) [OF inv] by simp
  ultimately show "read_bytes (w_mem s) (unat mp) (unat ml) @ read_bytes (w_mem s) (unat wp) (unat wl) = stored_bytes s"
    and "unat (ml + wl) = length (stored_bytes s)"
    using unat_add_nowrap [of ml wl] by simp_all
qed

lemma nothing_stored:
  assumes "ring_inv s"
  shows "lengthWrap (w_availableBuffer s) + lengthMain (w_availableBuffer s) = w_maxDataLength s \<longleftrightarrow> stored_bytes s = []"
proof -
  note len = length_ring_bytes [OF assms]
  have "unat (lengthWrap (w_availableBuffer s) + lengthMain (w_availableBuffer s)) = free_main s + free_wrap s"
    using len(3) ring_bounds(4) [OF assms] by (simp add: nowrap)
  then show ?thesis
    using len by (auto simp: word_unat_eq_iff simp flip: length_0_conv)
qed

text \<open>Writing the stored data hands a prefix of it to the player and keeps the rest. GStreamer answers in
  time, so that the count it reports is the count it took.\<close>

definition in_time :: "WebAudioPlayerServer \<Rightarrow> bool" where
  "in_time s \<longleftrightarrow> (\<forall>n. \<not> as_timeout (w_replies s n))"

lemma writeStoredBuffers_eq:
  assumes inv: "ring_inv s" and time: "in_time s" and some: "stored_bytes s \<noteq> []"
  shows "\<exists>n \<le> length (stored_bytes s). \<exists>s1. n = accepted (w_replies s (w_calls s)) (length (stored_bytes s)) \<and> ring_inv s1 \<and> stored_bytes s1 = drop n (stored_bytes s) \<and>
    s1 = s\<lparr>w_calls := Suc (w_calls s), w_out := w_out s @ [WO_push (take n (stored_bytes s))],
           w_availableBuffer := w_availableBuffer s1\<rparr> \<and>
    updateAvailableBuffer 0 (of_nat n) (emit (WO_push (take n (stored_bytes s))) (s\<lparr>w_calls := Suc (w_calls s)\<rparr>)) = s1 \<and>
    writeStoredBuffers s = (if n = length (stored_bytes s)
      then (True, if w_isEosRequested s then s1\<lparr>w_out := w_out s1 @ [WO_setEos], w_isEosRequested := False\<rparr> else s1)
      else (False, s1))"
proof -
  obtain mp ml wp wl where parts: "stored_parts s = (mp, ml, wp, wl)" by (cases "stored_parts s") auto
  let ?bs = "read_bytes (w_mem s) (unat mp) (unat ml)" and ?cs = "read_bytes (w_mem s) (unat wp) (unat wl)"
  note bytes = stored_parts_bytes [OF inv parts]
  have len: "length (stored_bytes s) < 2 ^ 32" using length_ring_bytes(1) [OF inv] ring_bounds(4) [OF inv] by simp
  then obtain n where n: "n \<le> length (stored_bytes s)" "fst (gstWriteBuffer ?bs ?cs s) = of_nat n"
    "unat (fst (gstWriteBuffer ?bs ?cs s)) = n"
    "snd (gstWriteBuffer ?bs ?cs s) = emit (WO_push (take n (stored_bytes s))) (s\<lparr>w_calls := Suc (w_calls s)\<rparr>)"
    and count: "n = accepted (w_replies s (w_calls s)) (length (stored_bytes s))"
    using gstWriteBuffer_prefix [of s ?bs ?cs, unfolded bytes(1)] time by (auto simp: in_time_def)
  let ?s = "emit (WO_push (take n (stored_bytes s))) (s\<lparr>w_calls := Suc (w_calls s)\<rparr>)"
  let ?s1 = "updateAvailableBuffer 0 (of_nat n) ?s"
  have same: "ring_inv ?s" "stored_bytes ?s = stored_bytes s" "w_availableBuffer ?s = w_availableBuffer s" "cap ?s = cap s"
    using inv by (simp_all add: emit_def ring_inv_def stored_bytes_def)
  have "ring_step_ok (cap ?s) (free_at ?s) (free_main ?s) (free_wrap ?s) (unat (0 :: u32)) (unat (of_nat n :: u32))"
    using n(1,3) n(2) length_ring_bytes(1) [OF inv] by (simp add: ring_step_ok_def emit_def)
  note upd = updateAvailableBuffer_bytes [OF same(1) this]
  have s1: "?s1 = s\<lparr>w_calls := Suc (w_calls s), w_out := w_out s @ [WO_push (take n (stored_bytes s))],
           w_availableBuffer := w_availableBuffer ?s1\<rparr>"
    using updateAvailableBuffer_frame [of 0 "of_nat n" ?s] by (simp add: emit_def)
  have stored: "stored_bytes ?s1 = drop n (stored_bytes s)" using upd(2) n(2,3) same(2) by simp
  have all: "of_nat n = ml + wl \<longleftrightarrow> n = length (stored_bytes s)"
    using bytes(2) n(2,3) by (simp add: word_unat_eq_iff)
  have eos: "w_isEosRequested ?s1 = w_isEosRequested s" by (subst s1) simp
  have "writeStoredBuffers s = (if n = length (stored_bytes s)
      then (True, if w_isEosRequested s then ?s1\<lparr>w_out := w_out ?s1 @ [WO_setEos], w_isEosRequested := False\<rparr> else ?s1)
      else (False, ?s1))"
    using some nothing_stored [OF inv] n(2,4) all eos parts
    unfolding writeStoredBuffers_def stored_parts_def Let_def
    by (auto simp: case_prod_beta emit_def)
  then show ?thesis using n(1) upd(1) stored s1 count by blast
qed

section \<open>New data\<close>

lemma take_free_bytes:
  assumes inv: "ring_inv s" and n: "n \<le> free_main s + free_wrap s"
  shows "take n (free_bytes s) = read_bytes (w_mem s) (unat (offsetMain (w_availableBuffer s))) (min n (free_main s)) @
    read_bytes (w_mem s) (unat (offsetWrap (w_availableBuffer s))) (n - free_main s)"
proof -
  have "take n [free_at s..<free_at s + free_main s] = [free_at s..<free_at s + min n (free_main s)]"
    by (simp add: take_upt_min min_def)
  moreover have "take (n - free_main s) [0..<free_wrap s] = [0..<n - free_main s]" using n by simp
  ultimately show ?thesis
    using ring_bounds(1,5) [OF inv] read_bytes_upt [of "w_mem s" "part s" "free_at s"] read_bytes_upt [of "w_mem s" "part s" 0]
    by (simp add: free_bytes_def avail_pos_def take_map)
qed

text \<open>\<open>updateAvailableBuffer 0 y\<close> leaves the free bytes as a prefix, so data the client has already written there
  stays where it is.\<close>

lemma updateAvailableBuffer_free:
  assumes inv: "ring_inv s" and ok: "ring_step_ok (cap s) (free_at s) (free_main s) (free_wrap s) 0 (unat y)"
    and n: "n \<le> free_main s + free_wrap s"
  shows "take n (free_bytes (updateAvailableBuffer 0 y s)) = take n (free_bytes s)"
proof -
  define b where "b = w_availableBuffer (updateAvailableBuffer 0 y s)"
  have fr: "updateAvailableBuffer 0 y s = s\<lparr>w_availableBuffer := b\<rparr>"
    unfolding b_def by (rule updateAvailableBuffer_frame)
  have b: "ring_update (cap s) (free_at s) (free_main s) (free_wrap s) 0 (unat y) =
      (unat (offsetMain b) - part s, unat (lengthMain b), unat (lengthWrap b))"
    using updateAvailableBuffer_refines [OF inv, of 0 y] ok by (simp add: b_def)
  have ring: "ring_ok (cap s) (free_at s) (free_main s) (free_wrap s)" using inv by (simp add: ring_inv_def)
  obtain zs where "avail_pos (unat (offsetMain b) - part s) (unat (lengthMain b)) (unat (lengthWrap b)) =
      avail_pos (free_at s) (free_main s) (free_wrap s) @ zs"
    using ring_update_free [OF ring ok b] by blast
  then show ?thesis
    using n ring_lengths(1) [OF ring] by (simp add: fr free_bytes_def take_map)
qed

lemma writeStoredBuffers_fifo:
  assumes inv: "ring_inv s" and time: "in_time s" and run: "writeStoredBuffers s = (ok, s')"
  shows "ring_inv s' \<and> pushed s' @ stored_bytes s' = pushed s @ stored_bytes s \<and> (ok \<longleftrightarrow> stored_bytes s' = []) \<and>
    free_main s + free_wrap s \<le> free_main s' + free_wrap s' \<and>
    (\<forall>n \<le> free_main s + free_wrap s. take n (free_bytes s') = take n (free_bytes s)) \<and>
    in_time s' \<and> w_bytesPerFrame s' = w_bytesPerFrame s"
proof (cases "stored_bytes s = []")
  case True
  then have "ok \<and> s' = s" using run nothing_stored [OF inv] by (simp add: writeStoredBuffers_def Let_def)
  with True assms show ?thesis by simp
next
  case False
  obtain n s1 where n: "n \<le> length (stored_bytes s)" and s1: "ring_inv s1" "stored_bytes s1 = drop n (stored_bytes s)"
    "s1 = s\<lparr>w_calls := Suc (w_calls s), w_out := w_out s @ [WO_push (take n (stored_bytes s))],
           w_availableBuffer := w_availableBuffer s1\<rparr>"
    "updateAvailableBuffer 0 (of_nat n) (emit (WO_push (take n (stored_bytes s))) (s\<lparr>w_calls := Suc (w_calls s)\<rparr>)) = s1"
    and w: "writeStoredBuffers s = (if n = length (stored_bytes s)
      then (True, if w_isEosRequested s then s1\<lparr>w_out := w_out s1 @ [WO_setEos], w_isEosRequested := False\<rparr> else s1)
      else (False, s1))"
    using writeStoredBuffers_eq [OF inv time False] by blast
  let ?s = "emit (WO_push (take n (stored_bytes s))) (s\<lparr>w_calls := Suc (w_calls s)\<rparr>)"
  have n32: "unat (of_nat n :: u32) = n"
    using n length_ring_bytes(1) [OF inv] ring_bounds(4) [OF inv] by (simp add: nowrap)
  have same: "ring_inv ?s" "free_bytes ?s = free_bytes s" "free_main ?s = free_main s" "free_wrap ?s = free_wrap s"
    using inv by (simp_all add: emit_def ring_inv_def free_bytes_def)
  have step: "ring_step_ok (cap ?s) (free_at ?s) (free_main ?s) (free_wrap ?s) 0 (unat (of_nat n :: u32))"
    using n n32 length_ring_bytes(1) [OF inv] by (simp add: ring_step_ok_def emit_def)
  have free: "take k (free_bytes s1) = take k (free_bytes s)" if "k \<le> free_main s + free_wrap s" for k
    using updateAvailableBuffer_free [OF same(1) step, of k] that same s1(4) by simp
  have grow: "free_main s + free_wrap s \<le> free_main s1 + free_wrap s1"
    using updateAvailableBuffer_bytes(3) [OF same(1), of 0 "of_nat n"] step same s1(4) by simp
  have "pushed s1 = pushed s @ take n (stored_bytes s)" by (subst s1(3)) (simp add: pushed_def)
  moreover have "s' = s1 \<or> s' = s1\<lparr>w_out := w_out s1 @ [WO_setEos], w_isEosRequested := False\<rparr>"
    using run w by (auto split: if_splits)
  moreover have "in_time s1" "w_bytesPerFrame s1 = w_bytesPerFrame s"
    using time by (subst s1(3), simp add: in_time_def)+
  moreover have "ok \<longleftrightarrow> n = length (stored_bytes s)" using run w by (auto split: if_splits)
  ultimately show ?thesis
    using s1(1,2) free grow n
    by (auto simp: ring_inv_def stored_bytes_def free_bytes_def pushed_def in_time_def)
qed

text \<open>The three ways in which \<open>writeBufferInternal\<close> deals with the new data.\<close>

lemma store_new_data:
  assumes "ring_inv s" and "unat nb \<le> free_main s + free_wrap s"
  shows "ring_inv (updateAvailableBuffer nb 0 s)"
    and "stored_bytes (updateAvailableBuffer nb 0 s) = stored_bytes s @ take (unat nb) (free_bytes s)"
    and "pushed (updateAvailableBuffer nb 0 s) = pushed s"
proof -
  have "ring_step_ok (cap s) (free_at s) (free_main s) (free_wrap s) (unat nb) (unat (0 :: u32))"
    using assms(2) by (simp add: ring_step_ok_def)
  note upd = updateAvailableBuffer_bytes [OF assms(1) this]
  show "ring_inv (updateAvailableBuffer nb 0 s)" by (rule upd(1))
  show "stored_bytes (updateAvailableBuffer nb 0 s) = stored_bytes s @ take (unat nb) (free_bytes s)" using upd(2) by simp
  show "pushed (updateAvailableBuffer nb 0 s) = pushed s"
    by (subst updateAvailableBuffer_frame) (simp add: pushed_def)
qed

definition new_parts :: "u32 \<Rightarrow> WebAudioPlayerServer \<Rightarrow> u8 list \<times> u8 list" where
  "new_parts nb s = (let a = w_availableBuffer s;
     (ml, wl) = (if nb \<le> lengthMain a then (nb, 0) else (lengthMain a, nb - lengthMain a))
   in (read_bytes (w_mem s) (unat (offsetMain a)) (unat ml), read_bytes (w_mem s) (unat (offsetWrap a)) (unat wl)))"

lemma new_parts_bytes:
  assumes "ring_inv s" and "unat nb \<le> free_main s + free_wrap s" and "new_parts nb s = (bs, cs)"
  shows "bs @ cs = take (unat nb) (free_bytes s)"
  using assms(3) take_free_bytes [OF assms(1,2)]
  by (cases "nb \<le> lengthMain (w_availableBuffer s)")
    (auto simp: new_parts_def Let_def word_le_nat_alt min_def unat_sub_nowrap)

lemma push_new_data:
  assumes inv: "ring_inv s" and time: "in_time s" and empty: "stored_bytes s = []"
    and nb: "unat nb \<le> free_main s + free_wrap s" and parts: "new_parts nb s = (bs, cs)"
    and run: "gstWriteBuffer bs cs s = (g, s1)"
  shows "ring_inv (updateAvailableBuffer nb g s1)"
    and "pushed (updateAvailableBuffer nb g s1) @ stored_bytes (updateAvailableBuffer nb g s1) =
      pushed s @ take (unat nb) (free_bytes s)"
    and "stored_bytes (updateAvailableBuffer nb g s1) = [] \<longleftrightarrow> g = nb"
proof -
  note len = length_ring_bytes [OF inv]
  have data: "bs @ cs = take (unat nb) (free_bytes s)" by (rule new_parts_bytes [OF inv nb parts])
  have total: "length (bs @ cs) = unat nb" unfolding data using nb len(2) by simp
  then have "length (bs @ cs) < 2 ^ 32" using unat_u32_bound [of nb] by simp
  then obtain n where n: "n \<le> unat nb" "unat g = n"
    "s1 = emit (WO_push (take n (bs @ cs))) (s\<lparr>w_calls := Suc (w_calls s)\<rparr>)"
    using gstWriteBuffer_prefix [of s bs cs] time run total by (auto simp: in_time_def)
  have same: "ring_inv s1" "stored_bytes s1 = []" "free_bytes s1 = free_bytes s" "w_availableBuffer s1 = w_availableBuffer s"
    "cap s1 = cap s" "part s1 = part s"
    using inv empty by (simp_all add: n(3) emit_def ring_inv_def stored_bytes_def free_bytes_def)
  have "ring_step_ok (cap s1) (free_at s1) (free_main s1) (free_wrap s1) (unat nb) (unat g)"
    using n nb len empty same by (simp add: ring_step_ok_def)
  note upd = updateAvailableBuffer_bytes [OF same(1) this]
  have "pushed (updateAvailableBuffer nb g s1) = pushed s @ take n (bs @ cs)"
    by (subst updateAvailableBuffer_frame) (simp add: n(3) pushed_def emit_def)
  moreover have stored: "stored_bytes (updateAvailableBuffer nb g s1) = drop n (bs @ cs)"
    using upd(2) same n(2) data by simp
  ultimately show "pushed (updateAvailableBuffer nb g s1) @ stored_bytes (updateAvailableBuffer nb g s1) =
      pushed s @ take (unat nb) (free_bytes s)"
    by (simp only: append_assoc append_take_drop_id data)
  show "stored_bytes (updateAvailableBuffer nb g s1) = [] \<longleftrightarrow> g = nb"
    unfolding stored using n(1,2) total by (auto simp: word_unat_eq_iff)
  show "ring_inv (updateAvailableBuffer nb g s1)" by (rule upd(1))
qed

lemma timer_frame [simp]:
  "ring_inv (s\<lparr>w_timer := x\<rparr>) = ring_inv s" "stored_bytes (s\<lparr>w_timer := x\<rparr>) = stored_bytes s"
  "pushed (s\<lparr>w_timer := x\<rparr>) = pushed s"
  by (simp_all add: ring_inv_def stored_bytes_def pushed_def)

lemma writeNewFrames_fifo:
  assumes inv: "ring_inv s" and time: "in_time s" and empty: "stored_bytes s = []"
    and nb: "unat nb \<le> free_main s + free_wrap s"
  shows "ring_inv (writeNewFrames nb s) \<and>
    pushed (writeNewFrames nb s) @ stored_bytes (writeNewFrames nb s) = pushed s @ take (unat nb) (free_bytes s) \<and>
    (stored_bytes (writeNewFrames nb s) \<noteq> [] \<longrightarrow> w_timer (writeNewFrames nb s) = Some True)"
proof -
  obtain bs cs where parts: "new_parts nb s = (bs, cs)" by (cases "new_parts nb s")
  obtain g s1 where g: "gstWriteBuffer bs cs s = (g, s1)" by (cases "gstWriteBuffer bs cs s")
  have "writeNewFrames nb s = (let s2 = updateAvailableBuffer nb g s1 in if g \<noteq> nb then s2\<lparr>w_timer := Some True\<rparr> else s2)"
    using parts g by (simp add: writeNewFrames_def new_parts_def Let_def split: if_splits)
  then show ?thesis
    using push_new_data [OF inv time empty nb parts g] by (auto simp: Let_def)
qed

lemma writeBufferInternal_fifo:
  assumes inv: "ring_inv s" and time: "in_time s" and expect: "w_expectWriteBuffer s"
    and space: "unat (n * w_bytesPerFrame s) \<le> free_main s + free_wrap s"
    and run: "writeBufferInternal n s = (ok, s')"
  shows "ok \<and> ring_inv s' \<and>
    pushed s' @ stored_bytes s' = pushed s @ stored_bytes s @ take (unat (n * w_bytesPerFrame s)) (free_bytes s) \<and>
    (stored_bytes s' \<noteq> [] \<longrightarrow> w_timer s' = Some True)"
proof -
  define s0 where "s0 = s\<lparr>w_expectWriteBuffer := False, w_timer := (if w_timer s = Some True then None else w_timer s)\<rparr>"
  let ?nb = "n * w_bytesPerFrame s"
  have s0: "ring_inv s0" "in_time s0" "pushed s0 = pushed s" "stored_bytes s0 = stored_bytes s" "free_bytes s0 = free_bytes s"
    "free_main s0 = free_main s" "free_wrap s0 = free_wrap s" "w_bytesPerFrame s0 = w_bytesPerFrame s"
    using inv time by (simp_all add: s0_def ring_inv_def in_time_def pushed_def stored_bytes_def free_bytes_def)
  obtain all s1 where w: "writeStoredBuffers s0 = (all, s1)" by (cases "writeStoredBuffers s0")
  note st = writeStoredBuffers_fifo [OF s0(1,2) w]
  have nb1: "unat ?nb \<le> free_main s1 + free_wrap s1" and data: "take (unat ?nb) (free_bytes s1) = take (unat ?nb) (free_bytes s)"
    using st s0 space by simp_all
  have eq: "writeBufferInternal n s = (True,
      if \<not> all then (updateAvailableBuffer ?nb 0 s1)\<lparr>w_timer := Some True\<rparr>
      else if 0 = n then s1 else writeNewFrames ?nb s1)"
  proof -
    have "(let s = s\<lparr>w_expectWriteBuffer := False\<rparr> in if w_timer s = Some True then s\<lparr>w_timer := None\<rparr> else s) = s0"
      by (auto simp: s0_def Let_def)
    then show ?thesis using expect w s0(8) unfolding writeBufferInternal_def Let_def by simp
  qed
  show ?thesis
  proof (cases all)
    case False
    then show ?thesis
      using eq run store_new_data [of s1 ?nb] st nb1 data s0 by (simp flip: append_assoc)
  next
    case True
    then have empty: "stored_bytes s1 = []" using st by simp
    show ?thesis
    proof (cases "n = 0")
      case True
      then show ?thesis using eq run \<open>all\<close> st empty s0 by simp
    next
      case False
      then show ?thesis
        using eq run \<open>all\<close> writeNewFrames_fifo [OF _ _ empty nb1] st empty data s0 by auto
    qed
  qed
qed

section \<open>The client's side\<close>

lemma write_bytes_eq_read:
  "i < length bs \<Longrightarrow> write_bytes m a bs (a + i) = bs ! i"
  by (simp add: write_bytes_def)

text \<open>The client writes only free bytes, so the stored data stays, and the new data stands at the front of the
  free bytes.\<close>

lemma write_free_bytes:
  assumes inv: "ring_inv s" and "a + n \<le> part s + free_at s + free_main s" and "part s + free_at s \<le> a"
    and "b + k \<le> part s + free_wrap s" and "part s \<le> b"
  shows "stored_bytes (s\<lparr>w_mem := write_bytes (write_bytes (w_mem s) a (read_bytes d a' n)) b (read_bytes d b' k)\<rparr>) =
    stored_bytes s"
proof -
  let ?m = "write_bytes (write_bytes (w_mem s) a (read_bytes d a' n)) b (read_bytes d b' k)"
  have "?m (part s + i) = w_mem s (part s + i)" if "i \<in> set (stored_pos (cap s) (free_at s) (free_main s) (free_wrap s))" for i
  proof -
    have "i < free_at s \<or> free_at s + free_main s \<le> i" "free_wrap s \<le> i"
      using that ring_bounds(2,3) [OF inv] by (auto simp: stored_pos_def split: if_splits)
    then have "part s + i < a \<or> a + n \<le> part s + i" "part s + i < b \<or> b + k \<le> part s + i"
      using assms(2-) by auto
    then show ?thesis by (simp add: write_bytes_outside)
  qed
  then show ?thesis by (simp add: stored_bytes_def)
qed

lemma clientWriteBuffer_bytes:
  assumes inv: "ring_inv s" and run: "clientWriteBuffer bpf (Some (w_availableBuffer s)) True n data (w_mem s) = Some m'"
  shows "unat (n * bpf) \<le> free_main s + free_wrap s \<and> stored_bytes (s\<lparr>w_mem := m'\<rparr>) = stored_bytes s \<and>
    take (unat (n * bpf)) (free_bytes (s\<lparr>w_mem := m'\<rparr>)) = read_bytes data 0 (unat (n * bpf))"
proof -
  let ?a = "w_availableBuffer s" and ?nb = "n * bpf" and ?s = "s\<lparr>w_mem := m'\<rparr>"
  note bounds = ring_bounds [OF inv]
  have sum: "unat (lengthMain ?a + lengthWrap ?a) = free_main s + free_wrap s"
    using length_ring_bytes(3) [OF inv] bounds(4) by (simp add: nowrap)
  have nb: "unat ?nb \<le> free_main s + free_wrap s"
    using run sum by (simp add: clientWriteBuffer_def Let_def word_less_nat_alt split: if_splits)
  have inv': "ring_inv ?s" using inv by (simp add: ring_inv_def)
  have front: "take (unat ?nb) (free_bytes ?s) = read_bytes m' (part s + free_at s) (min (unat ?nb) (free_main s)) @
      read_bytes m' (part s) (unat ?nb - free_main s)"
    using take_free_bytes [OF inv', of "unat ?nb"] nb bounds by simp
  show ?thesis
  proof (cases "free_main s < unat ?nb")
    case True
    then have lw: "free_wrap s \<noteq> 0" using nb by auto
    have d: "unat (?nb - lengthMain ?a) = unat ?nb - free_main s" using True by (simp add: nowrap)
    have m': "m' = write_bytes (write_bytes (w_mem s) (part s + free_at s) (read_bytes data 0 (free_main s))) (part s)
        (read_bytes data (free_main s) (unat ?nb - free_main s))"
      using run True d sum nb bounds by (simp add: clientWriteBuffer_def Let_def word_less_nat_alt)
    have disjoint: "ranges_disjoint (part s + free_at s) (free_main s) (part s) (unat ?nb - free_main s)"
      using bounds lw nb by (auto simp: ranges_disjoint_def)
    have "read_bytes m' (part s + free_at s) (free_main s) = read_bytes data 0 (free_main s)"
      "read_bytes m' (part s) (unat ?nb - free_main s) = read_bytes data (free_main s) (unat ?nb - free_main s)"
      using disjoint by (simp_all add: m' mem_simps)
    moreover have "read_bytes data 0 (unat ?nb) = read_bytes data 0 (free_main s) @ read_bytes data (free_main s) (unat ?nb - free_main s)"
      using True read_bytes_add [of data 0 "free_main s" "unat ?nb - free_main s"] by simp
    ultimately show ?thesis
      using True front nb write_free_bytes [OF inv, of "part s + free_at s" "free_main s" "part s" "unat ?nb - free_main s" data 0 "free_main s"]
      by (simp add: m' min_def)
  next
    case False
    have m': "m' = write_bytes (write_bytes (w_mem s) (part s + free_at s) (read_bytes data 0 (free_main s))) (part s) (read_bytes data 0 0)"
      using run False sum nb bounds by (simp add: clientWriteBuffer_def Let_def word_less_nat_alt)
    have "read_bytes m' (part s + free_at s) (unat ?nb) = read_bytes data 0 (unat ?nb)"
      using False by (auto simp: m' list_eq_iff_nth_eq write_bytes_eq_read)
    then show ?thesis
      using False front nb write_free_bytes [OF inv, of "part s + free_at s" "free_main s" "part s" 0 data 0 0]
      by (simp add: m' min_def)
  qed
qed

section \<open>Tasks and the main thread\<close>

text \<open>What the bookkeeping leaves alone.\<close>

definition same_player :: "WebAudioPlayerServer \<Rightarrow> WebAudioPlayerServer \<Rightarrow> bool" where
  "same_player s s' \<longleftrightarrow> mt_isMainThreadRunning s' = mt_isMainThreadRunning s \<and> mt_taskQueue s' = mt_taskQueue s \<and>
     mt_registeredClients s' = mt_registeredClients s \<and> w_mainThreadClientId s' = w_mainThreadClientId s \<and>
     w_replies s' = w_replies s \<and> w_bytesPerFrame s' = w_bytesPerFrame s \<and> w_mem s' = w_mem s \<and>
     w_shmBuffer s' = w_shmBuffer s \<and> w_shmId s' = w_shmId s"

lemma same_player_refl [simp]: "same_player s s"
  by (simp add: same_player_def)

lemma same_player_trans: "same_player s s' \<Longrightarrow> same_player s' s'' \<Longrightarrow> same_player s s''"
  by (simp add: same_player_def)

lemma updateAvailableBuffer_same: "same_player s (updateAvailableBuffer x y s)"
  by (simp add: updateAvailableBuffer_def same_player_def Let_def)

lemma gstWriteBuffer_same: "same_player s (snd (gstWriteBuffer bs cs s))"
  by (simp add: gstWriteBuffer_def same_player_def emit_def Let_def case_prod_beta)

lemma write_update_same: "same_player s (updateAvailableBuffer x y (snd (gstWriteBuffer bs cs s)))"
  by (rule same_player_trans [OF gstWriteBuffer_same updateAvailableBuffer_same])

lemma same_player_upd [simp]:
  "same_player s (s'\<lparr>w_timer := x\<rparr>) = same_player s s'" "same_player s (emit c s') = same_player s s'"
  "same_player s (s'\<lparr>w_isEosRequested := b\<rparr>) = same_player s s'" "same_player s (s'\<lparr>w_expectWriteBuffer := b\<rparr>) = same_player s s'"
  by (simp_all add: same_player_def emit_def)

lemma writeStoredBuffers_same: "same_player s (snd (writeStoredBuffers s))"
  by (simp add: writeStoredBuffers_def Let_def case_prod_beta write_update_same)

lemma writeNewFrames_same: "same_player s (writeNewFrames nb s)"
  by (simp add: writeNewFrames_def Let_def case_prod_beta write_update_same)

lemma webAudioTask_same: "same_player s (webAudioTask t s)"
  by (cases t) (simp_all add: case_prod_beta writeStoredBuffers_same)

interpretation wapipe: main_thread_client webAudioTask
  by unfold_locales (use webAudioTask_same in \<open>auto simp: same_player_def\<close>)

lemma writeBufferInternal_same:
  "same_player s (snd (writeBufferInternal n s))"
proof -
  let ?s0 = "let s = s\<lparr>w_expectWriteBuffer := False\<rparr> in if w_timer s = Some True then s\<lparr>w_timer := None\<rparr> else s"
  have "same_player s ?s0" by (simp add: Let_def)
  then have w: "same_player s (snd (writeStoredBuffers ?s0))"
    using writeStoredBuffers_same by (rule same_player_trans)
  show ?thesis
    using same_player_trans [OF w updateAvailableBuffer_same] same_player_trans [OF w writeNewFrames_same] w
    by (cases "w_timer s = Some True") (simp_all add: writeBufferInternal_def Let_def case_prod_beta)
qed

lemma webAudioTask_fifo:
  assumes "ring_inv s" and "in_time s"
  shows "ring_inv (webAudioTask t s) \<and> in_time (webAudioTask t s) \<and>
    pushed (webAudioTask t s) @ stored_bytes (webAudioTask t s) = pushed s @ stored_bytes s \<and>
    (if t = WA_WriteDataTimerTask then stored_bytes (webAudioTask t s) \<noteq> [] \<longrightarrow> w_timer (webAudioTask t s) = Some True
     else stored_bytes (webAudioTask t s) = stored_bytes s \<and> w_timer (webAudioTask t s) = w_timer s)"
proof (cases "t = WA_WriteDataTimerTask")
  case True
  obtain all s1 where w: "writeStoredBuffers s = (all, s1)" by (cases "writeStoredBuffers s")
  then show ?thesis
    using writeStoredBuffers_fifo [OF assms w] True by (auto simp: in_time_def)
next
  case False
  then show ?thesis
    using assms by (cases t) (auto simp: emit_def ring_inv_def in_time_def pushed_def stored_bytes_def)
qed

section \<open>The stream of audio data\<close>

text \<open>
  A component that passes data on in order: every step appends its input to the stream. The stream of a
  run is then the concatenation of the inputs.
\<close>

primrec run_ops :: "('op \<Rightarrow> 's \<Rightarrow> 's) \<Rightarrow> 'op list \<Rightarrow> 's \<Rightarrow> 's" where
  "run_ops step [] s = s"
| "run_ops step (x # xs) s = run_ops step xs (step x s)"

primrec inputs :: "('op \<Rightarrow> 's \<Rightarrow> 's) \<Rightarrow> ('op \<Rightarrow> 's \<Rightarrow> 'b list) \<Rightarrow> 'op list \<Rightarrow> 's \<Rightarrow> 'b list" where
  "inputs step inp [] s = []"
| "inputs step inp (x # xs) s = inp x s @ inputs step inp xs (step x s)"

locale byte_stream =
  fixes step :: "'op \<Rightarrow> 's \<Rightarrow> 's" and inp :: "'op \<Rightarrow> 's \<Rightarrow> 'b list" and inv :: "'s \<Rightarrow> bool" and stream :: "'s \<Rightarrow> 'b list"
  assumes step_inv: "inv s \<Longrightarrow> inv (step x s)"
    and step_stream: "inv s \<Longrightarrow> stream (step x s) = stream s @ inp x s"
begin

lemma run_inv: "inv s \<Longrightarrow> inv (run_ops step xs s)"
  by (induction xs arbitrary: s) (simp_all add: step_inv)

lemma run_stream: "inv s \<Longrightarrow> stream (run_ops step xs s) = stream s @ inputs step inp xs s"
  by (induction xs arbitrary: s) (simp_all add: step_inv step_stream)

end

text \<open>
  The operations of a web audio session: the client asks for space, writes data and announces it; a task
  is posted; the write timer expires; the main thread runs the next task.
\<close>

datatype AudioOp = WriteOp u32 mem | PostOp WebAudioTask | ExpireOp | RunOp

definition acceptedWrite :: "u32 \<Rightarrow> mem \<Rightarrow> WebAudioPlayerServer \<Rightarrow> mem option" where
  "acceptedWrite n data s = clientWriteBuffer (w_bytesPerFrame s) (Some (snd (fst (bufferAvailableTask s)))) True n data (w_mem s)"

fun audio_step :: "AudioOp \<Rightarrow> WebAudioPlayerServer \<Rightarrow> WebAudioPlayerServer" where
  "audio_step (WriteOp n data) s =
     (let s1 = snd (bufferAvailableTask s) in
      case acceptedWrite n data s of
        None \<Rightarrow> s1
      | Some m \<Rightarrow> snd (writeBufferInternal n (s1\<lparr>w_mem := m\<rparr>)))"
| "audio_step (PostOp t) s = postWebAudio t s"
| "audio_step ExpireOp s = handleWriteDataTimer s"
| "audio_step RunOp s = mainThreadLoop webAudioTask 1 s"

fun audio_input :: "AudioOp \<Rightarrow> WebAudioPlayerServer \<Rightarrow> u8 list" where
  "audio_input (WriteOp n data) s =
     (case acceptedWrite n data s of None \<Rightarrow> [] | Some _ \<Rightarrow> read_bytes data 0 (unat (n * w_bytesPerFrame s)))"
| "audio_input _ s = []"

text \<open>The invariant of a session: the ring is consistent, and stored data is never forgotten, the write timer
  is running or its task is queued.\<close>

definition write_pending :: "WebAudioPlayerServer \<Rightarrow> bool" where
  "write_pending s \<longleftrightarrow> w_timer s = Some True \<or>
     (w_mainThreadClientId s, ClientTask WA_WriteDataTimerTask) \<in> set (mt_taskQueue s)"

definition audio_inv :: "WebAudioPlayerServer \<Rightarrow> bool" where
  "audio_inv s \<longleftrightarrow> ring_inv s \<and> in_time s \<and> mt_isMainThreadRunning s \<and> w_mainThreadClientId s \<in> mt_registeredClients s \<and>
     (\<forall>x \<in> set (mt_taskQueue s). snd x \<noteq> ShutdownTask) \<and> (stored_bytes s \<noteq> [] \<longrightarrow> write_pending s)"

text \<open>The invariant without what it says of the player, which answers every write within its time limit.\<close>

definition audio_ready :: "WebAudioPlayerServer \<Rightarrow> bool" where
  "audio_ready s \<longleftrightarrow> ring_inv s \<and> mt_isMainThreadRunning s \<and> w_mainThreadClientId s \<in> mt_registeredClients s \<and>
     (\<forall>x \<in> set (mt_taskQueue s). snd x \<noteq> ShutdownTask) \<and> (stored_bytes s \<noteq> [] \<longrightarrow> write_pending s)"

lemma audio_inv_iff: "audio_inv s \<longleftrightarrow> audio_ready s \<and> (\<forall>n. \<not> as_timeout (w_replies s n))"
  by (auto simp: audio_inv_def audio_ready_def in_time_def)

definition audio_stream :: "WebAudioPlayerServer \<Rightarrow> u8 list" where
  "audio_stream s = pushed s @ stored_bytes s"

lemma audio_write_inv:
  assumes "audio_inv s"
  shows "audio_inv (audio_step (WriteOp n data) s) \<and>
    audio_stream (audio_step (WriteOp n data) s) = audio_stream s @ audio_input (WriteOp n data) s"
proof (cases "acceptedWrite n data s")
  case None
  then show ?thesis
    using assms
    by (simp add: bufferAvailableTask_def Let_def audio_inv_def audio_stream_def write_pending_def ring_inv_def in_time_def
        stored_bytes_def pushed_def)
next
  case (Some m)
  let ?s = "(snd (bufferAvailableTask s))\<lparr>w_mem := m\<rparr>"
  have inv: "ring_inv s" and time: "in_time ?s"
    using assms by (auto simp: audio_inv_def in_time_def bufferAvailableTask_def Let_def)
  have same: "w_bytesPerFrame ?s = w_bytesPerFrame s" "w_expectWriteBuffer ?s" "pushed ?s = pushed s"
    "ring_inv ?s = ring_inv s" "free_main ?s = free_main s" "free_wrap ?s = free_wrap s"
    "stored_bytes ?s = stored_bytes (s\<lparr>w_mem := m\<rparr>)" "free_bytes ?s = free_bytes (s\<lparr>w_mem := m\<rparr>)"
    by (simp_all add: bufferAvailableTask_def Let_def pushed_def ring_inv_def stored_bytes_def free_bytes_def)
  have client: "unat (n * w_bytesPerFrame s) \<le> free_main s + free_wrap s" "stored_bytes (s\<lparr>w_mem := m\<rparr>) = stored_bytes s"
    "take (unat (n * w_bytesPerFrame s)) (free_bytes (s\<lparr>w_mem := m\<rparr>)) = read_bytes data 0 (unat (n * w_bytesPerFrame s))"
    using clientWriteBuffer_bytes [OF inv] Some by (simp_all add: acceptedWrite_def bufferAvailableTask_def Let_def)
  obtain ok s' where run: "writeBufferInternal n ?s = (ok, s')" by (cases "writeBufferInternal n ?s")
  have w: "ring_inv s'" "pushed s' @ stored_bytes s' = pushed s @ stored_bytes s @ read_bytes data 0 (unat (n * w_bytesPerFrame s))"
    "stored_bytes s' \<noteq> [] \<Longrightarrow> w_timer s' = Some True"
    using writeBufferInternal_fifo [OF _ time _ _ run] inv same client by simp_all
  have "same_player ?s s'" using writeBufferInternal_same [of ?s n] run by simp
  then have "audio_inv s'"
    using w(1,3) assms time by (auto simp: audio_inv_def same_player_def in_time_def bufferAvailableTask_def Let_def write_pending_def)
  then show ?thesis using Some w(2) run by (simp add: audio_stream_def)
qed

lemma audio_run_inv:
  assumes "audio_inv s"
  shows "audio_inv (audio_step RunOp s) \<and> audio_stream (audio_step RunOp s) = audio_stream s"
proof (cases "mt_taskQueue s")
  case Nil
  then show ?thesis using assms by simp
next
  case (Cons x q)
  let ?s = "s\<lparr>mt_taskQueue := q\<rparr>"
  let ?s' = "mainThreadStep webAudioTask x ?s"
  have eq: "audio_step RunOp s = ?s'" using assms Cons by (simp add: audio_inv_def)
  have x: "snd x \<noteq> ShutdownTask" and inv: "ring_inv ?s" "in_time ?s" and same: "stored_bytes ?s = stored_bytes s" "pushed ?s = pushed s"
    using assms Cons by (auto simp: audio_inv_def ring_inv_def in_time_def stored_bytes_def pushed_def)
  show ?thesis
  proof (cases "fst x \<in> mt_registeredClients s")
    case False
    then have "?s' = ?s" "x \<noteq> (w_mainThreadClientId s, ClientTask WA_WriteDataTimerTask)"
      using assms by (auto simp: mainThreadStep_def audio_inv_def)
    then show ?thesis
      using eq assms Cons inv same by (auto simp: audio_inv_def audio_stream_def write_pending_def)
  next
    case True
    show ?thesis
    proof (cases "snd x")
      case (RegisterTask c)
      then have "?s' = ?s\<lparr>mt_registeredClients := insert c (mt_registeredClients s)\<rparr>" "x \<noteq> (w_mainThreadClientId s, ClientTask WA_WriteDataTimerTask)"
        using True by (auto simp: mainThreadStep_def)
      then show ?thesis
        using eq assms Cons by (auto simp: audio_inv_def audio_stream_def write_pending_def ring_inv_def in_time_def
            stored_bytes_def pushed_def)
    next
      case (ClientTask t)
      then have s': "?s' = webAudioTask t ?s" using True by (simp add: mainThreadStep_def)
      have "t \<noteq> WA_WriteDataTimerTask \<Longrightarrow> x \<noteq> (w_mainThreadClientId s, ClientTask WA_WriteDataTimerTask)"
        using ClientTask by auto
      then show ?thesis
        using eq s' assms Cons same webAudioTask_fifo [OF inv, of t] webAudioTask_same [of ?s t]
        by (auto simp: audio_inv_def audio_stream_def write_pending_def same_player_def split: if_splits)
    qed (use x in simp)
  qed
qed

lemma audio_post_inv:
  assumes "audio_inv s"
  shows "audio_inv (postWebAudio t s) \<and> audio_stream (postWebAudio t s) = audio_stream s"
    and "audio_inv (handleWriteDataTimer s) \<and> audio_stream (handleWriteDataTimer s) = audio_stream s"
  using assms
  by (auto simp: postWebAudio_def handleWriteDataTimer_def enqueueTask_def audio_inv_def audio_stream_def write_pending_def
      ring_inv_def in_time_def stored_bytes_def pushed_def)

lemma audio_step_inv:
  assumes "audio_inv s"
  shows "audio_inv (audio_step x s) \<and> audio_stream (audio_step x s) = audio_stream s @ audio_input x s"
proof (cases x)
  case (WriteOp n data)
  then show ?thesis using audio_write_inv [OF assms] by blast
next
  case RunOp
  then show ?thesis using audio_run_inv [OF assms] by simp
qed (use audio_post_inv [OF assms] in auto)

interpretation audio: byte_stream audio_step audio_input audio_inv audio_stream
  by unfold_locales (blast dest: audio_step_inv)+

section \<open>Initialisation\<close>

lemma initWebAudioPlayerInternal_ok:
  assumes shm: "shm_inv (w_shmBuffer s)" "std_layout (w_shmBuffer s)" and sid: "w_shmId s \<noteq> NO_ID_ASSIGNED"
    and fresh: "lengthWrap (w_availableBuffer s) = 0" and run: "initWebAudioPlayerInternal created s = (True, s')"
  shows "ring_inv s' \<and> stored_bytes s' = [] \<and> cap s' = 10240 \<and> part s' + 10240 \<le> unat (getSize (w_shmBuffer s')) \<and>
    getDataPtr WEB_AUDIO (w_shmId s) AUDIO (w_shmBuffer s') = Some (part s') \<and> is_mapped WEB_AUDIO (w_shmId s) (w_shmBuffer s')"
proof -
  define shm' where "shm' = snd (mapPartition WEB_AUDIO (w_shmId s) (w_shmBuffer s))"
  have ok: "fst (mapPartition WEB_AUDIO (w_shmId s) (w_shmBuffer s))"
    using run by (auto simp: initWebAudioPlayerInternal_def Let_def case_prod_beta split: if_splits)
  have inv: "shm_inv shm'" "std_layout shm'" "is_mapped WEB_AUDIO (w_shmId s) shm'"
    using shm mapPartition_inv mapPartition_std mapPartition_mapped [OF sid ok] by (simp_all add: shm'_def)
  obtain a off where a: "getDataPtr WEB_AUDIO (w_shmId s) AUDIO shm' = Some a"
    "unat (getMaxDataLen WEB_AUDIO (w_shmId s) AUDIO shm') = 10240" "a + 10240 \<le> unat (getSize shm')"
    "getDataOffset WEB_AUDIO (w_shmId s) AUDIO shm' = Some off" "unat off = a"
    using mapped_region [OF inv, of AUDIO] by auto
  have size: "unat (getSize shm') < 2 ^ 32" by (rule unat_u32_bound)
  have s': "w_partitionOffset s' = off" "w_maxDataLength s' = getMaxDataLen WEB_AUDIO (w_shmId s) AUDIO shm'"
    "w_shmBuffer s' = shm'" "offsetMain (w_availableBuffer s') = off" "offsetWrap (w_availableBuffer s') = off"
    "lengthMain (w_availableBuffer s') = getMaxDataLen WEB_AUDIO (w_shmId s) AUDIO shm'" "lengthWrap (w_availableBuffer s') = 0"
    using run a(4) fresh ok
    by (auto simp: initWebAudioPlayerInternal_def initGstWebAudioPlayer_def emit_def Let_def case_prod_beta shm'_def
        split: if_splits)
  show ?thesis
    using a s' size inv(3) by (simp add: ring_inv_def ring_ok_def stored_bytes_def stored_pos_def)
qed

section \<open>Draining\<close>

lemma writeStoredBuffers_all:
  assumes "ring_inv s" and "in_time s" and "stored_bytes s \<noteq> []"
    and "accepted (w_replies s (w_calls s)) (length (stored_bytes s)) = length (stored_bytes s)"
    and "writeStoredBuffers s = (ok, s')"
  shows "ok \<and> stored_bytes s' = [] \<and>
    w_out s' = w_out s @ [WO_push (stored_bytes s)] @ (if w_isEosRequested s then [WO_setEos] else [])"
proof -
  obtain n s1 where n: "n = length (stored_bytes s)" and s1: "stored_bytes s1 = drop n (stored_bytes s)"
    and out: "s1 = s\<lparr>w_calls := Suc (w_calls s), w_out := w_out s @ [WO_push (take n (stored_bytes s))],
           w_availableBuffer := w_availableBuffer s1\<rparr>"
    and run: "writeStoredBuffers s = (if n = length (stored_bytes s)
      then (True, if w_isEosRequested s then s1\<lparr>w_out := w_out s1 @ [WO_setEos], w_isEosRequested := False\<rparr> else s1)
      else (False, s1))"
    using writeStoredBuffers_eq [OF assms(1-3)] assms(4) by auto
  have "w_out s1 = w_out s @ [WO_push (stored_bytes s)]" by (subst out) (simp add: n)
  moreover have "stored_bytes (s1\<lparr>w_out := x, w_isEosRequested := False\<rparr>) = stored_bytes s1" for x
    by (simp add: stored_bytes_def)
  ultimately show ?thesis using run assms(5) n s1 by (auto split: if_splits)
qed

lemma accepted_all:
  assumes "as_level reply = 0" "as_allocated reply" "as_pushed reply" "n \<le> 10240"
  shows "accepted reply n = n"
proof -
  have "unat (ucast kMaxWebAudioBytes - as_level reply) = 10240"
    using assms(1) by (simp add: kMaxWebAudioBytes_def)
  then show ?thesis using assms by (simp add: accepted_def)
qed

section \<open>Properties\<close>

text \<open>The bookkeeping of the ring buffer in 32-bit words computes the reference ring on natural numbers: no
  sum wraps and no difference underflows, as long as the step writes into free space and reads stored data.\<close>

theorem web_audio_bookkeeping:
  assumes "ring_inv s" and "ring_step_ok (cap s) (free_at s) (free_main s) (free_wrap s) (unat x) (unat y)"
    and "a = w_availableBuffer (updateAvailableBuffer x y s)"
  shows "(unat (offsetMain a) - part s, unat (lengthMain a), unat (lengthWrap a)) =
      ring_update (cap s) (free_at s) (free_main s) (free_wrap s) (unat x) (unat y) \<and>
    ring_inv (updateAvailableBuffer x y s)"
  using updateAvailableBuffer_refines [OF assms(1,2)] updateAvailableBuffer_bytes(1) [OF assms(1,2)] assms(3) by simp

text \<open>C5. As long as no write to the player runs into its time limit, a web audio session delivers audio in order and without
  loss or duplication: after any sequence of client writes, timer expiries, posted and executed tasks, what has been pushed
  to the player followed by what is still stored in the ring is what there was before, followed by the data of all accepted
  writes. A write that runs into the time limit reports 0 bytes although they may be pushed later, and the server pushes
  them once more.\<close>

theorem web_audio_in_order:
  assumes "audio_ready s" and "\<forall>n. \<not> as_timeout (w_replies s n)" and "s' = run_ops audio_step ops s"
  shows "pushed s' @ stored_bytes s' = pushed s @ stored_bytes s @ inputs audio_step audio_input ops s"
proof -
  have "audio_inv s" using assms(1,2) by (simp add: audio_inv_iff)
  then show ?thesis using audio.run_stream [of s ops] assms(3) by (simp add: audio_stream_def)
qed

text \<open>C6. Stored audio is never forgotten: after any sequence of operations the ring is consistent and, if it
  holds data, the write timer is running or its task is queued.\<close>

theorem web_audio_never_stuck:
  assumes "audio_inv s" and "s' = run_ops audio_step ops s" and "stored_bytes s' \<noteq> []"
  shows "ring_inv s' \<and> (w_timer s' = Some True \<or>
    (w_mainThreadClientId s', ClientTask WA_WriteDataTimerTask) \<in> set (mt_taskQueue s'))"
  using audio.run_inv [OF assms(1), of ops] assms(2,3) by (auto simp: audio_inv_def write_pending_def)

text \<open>C7. When the write timer expires and the player has room, all stored audio is pushed in one piece, the
  timer is gone, and a requested end of stream follows the data.\<close>

theorem web_audio_drains:
  assumes "audio_inv s" and "mt_taskQueue s = []" and "stored_bytes s \<noteq> []" and "cap s \<le> 10240"
    and "as_level (w_replies s (w_calls s)) = 0" and "as_allocated (w_replies s (w_calls s))" and "as_pushed (w_replies s (w_calls s))"
    and "s' = mainThreadLoop webAudioTask 1 (handleWriteDataTimer s)"
  shows "stored_bytes s' = [] \<and> w_timer s' = None \<and>
    w_out s' = w_out s @ [WO_push (stored_bytes s)] @ (if w_isEosRequested s then [WO_setEos] else [])"
proof -
  have timer: "w_timer s = Some True" using assms(1-3) by (simp add: audio_inv_def write_pending_def)
  let ?s = "s\<lparr>w_timer := Some False, mt_taskQueue := []\<rparr>"
  have inv: "ring_inv ?s" "in_time ?s" and same: "stored_bytes ?s = stored_bytes s" and len: "length (stored_bytes s) \<le> 10240"
    using assms(1,4) length_ring_bytes [of s] by (auto simp: audio_inv_def ring_inv_def in_time_def stored_bytes_def)
  obtain ok s1 where w: "writeStoredBuffers ?s = (ok, s1)" by (cases "writeStoredBuffers ?s")
  have "s' = webAudioTask WA_WriteDataTimerTask ?s"
    using assms(1,2,8) timer
    by (simp add: handleWriteDataTimer_def postWebAudio_def enqueueTask_def audio_inv_def mainThreadStep_def)
  moreover have "ok \<and> stored_bytes s1 = [] \<and>
    w_out s1 = w_out s @ [WO_push (stored_bytes s)] @ (if w_isEosRequested s then [WO_setEos] else [])"
    using writeStoredBuffers_all [OF inv _ _ w] assms(3,5,6,7) same accepted_all len by simp
  moreover have "stored_bytes (s1\<lparr>w_timer := x\<rparr>) = stored_bytes s1" for x by (simp add: stored_bytes_def)
  ultimately show ?thesis using w by simp
qed

text \<open>Initialisation: a web audio player that initialises owns a web audio partition, its ring is exactly the
  10240 bytes of that partition's region, inside the mapping, and it starts empty.\<close>

theorem web_audio_initialised:
  assumes "shm_inv (w_shmBuffer s)" and "std_layout (w_shmBuffer s)" and "w_shmId s \<noteq> NO_ID_ASSIGNED"
    and "lengthWrap (w_availableBuffer s) = 0" and "initWebAudioPlayerInternal created s = (True, s')"
  shows "ring_inv s' \<and> stored_bytes s' = [] \<and> cap s' = 10240 \<and> part s' + 10240 \<le> unat (getSize (w_shmBuffer s')) \<and>
    getDataPtr WEB_AUDIO (w_shmId s) AUDIO (w_shmBuffer s') = Some (part s') \<and> is_mapped WEB_AUDIO (w_shmId s) (w_shmBuffer s')"
  by (rule initWebAudioPlayerInternal_ok) (rule assms)+

text \<open>The server does not check a write against the free space: with an empty ring, a write of more bytes than
  the ring holds, of which the player takes none, is reported as successful and leaves a free length larger than
  the whole ring.\<close>

theorem web_audio_unchecked_write:
  assumes "ring_inv s" and "w_expectWriteBuffer s" and "free_main s = cap s" and "free_wrap s = 0"
    and "cap s < unat (n * w_bytesPerFrame s)" and "\<not> as_pushed (w_replies s (w_calls s))"
  shows "fst (writeBufferInternal n s) \<and> cap s < free_main (snd (writeBufferInternal n s))"
proof -
  let ?a = "w_availableBuffer s" and ?nb = "n * w_bytesPerFrame s"
  define s0 where "s0 = s\<lparr>w_expectWriteBuffer := False, w_timer := (if w_timer s = Some True then None else w_timer s)\<rparr>"
  have s0: "w_availableBuffer s0 = ?a" "w_maxDataLength s0 = w_maxDataLength s" "w_partitionOffset s0 = w_partitionOffset s"
    "w_bytesPerFrame s0 = w_bytesPerFrame s" "\<not> as_pushed (w_replies s0 (w_calls s0))"
    using assms(6) by (simp_all add: s0_def)
  have len: "lengthMain ?a = w_maxDataLength s" "lengthWrap ?a = 0" using assms(3,4) by (simp_all add: word_unat_eq_iff)
  have wrap: "offsetWrap ?a = w_partitionOffset s" using assms(1) by (simp add: ring_inv_def)
  have gt: "\<not> ?nb \<le> w_maxDataLength s" and nz: "n \<noteq> 0" "?nb \<noteq> 0" using assms(5) by (auto simp: word_le_nat_alt)
  have none: "fst (gstWriteBuffer bs cs s0) = 0" "w_availableBuffer (snd (gstWriteBuffer bs cs s0)) = ?a"
    "w_partitionOffset (snd (gstWriteBuffer bs cs s0)) = w_partitionOffset s"
    "w_maxDataLength (snd (gstWriteBuffer bs cs s0)) = w_maxDataLength s" for bs cs
    using s0 by (simp_all add: gstWriteBuffer_def executeWriteBuffer_def emit_def Let_def)
  have "(let s = s\<lparr>w_expectWriteBuffer := False\<rparr> in if w_timer s = Some True then s\<lparr>w_timer := None\<rparr> else s) = s0"
    by (simp add: s0_def Let_def)
  moreover have "writeStoredBuffers s0 = (True, s0)" using s0 len by (simp add: writeStoredBuffers_def)
  ultimately have run: "writeBufferInternal n s = (True, writeNewFrames ?nb s0)"
    using assms(2) nz s0(4) by (simp add: writeBufferInternal_def Let_def)
  have "free_main (writeNewFrames ?nb s0) = unat (w_maxDataLength s - ?nb)"
    using none len wrap gt nz s0(1) by (simp add: writeNewFrames_def updateAvailableBuffer_def Let_def case_prod_beta)
  moreover have "unat (w_maxDataLength s - ?nb) = 2 ^ 32 - (unat ?nb - cap s)"
    using assms(5) unat_sub_if_size [of "w_maxDataLength s" ?nb] by (simp add: word_size)
  ultimately show ?thesis using run assms(5) unat_u32_bound [of ?nb] by simp
qed

section \<open>Witnesses\<close>

text \<open>A player with an 8-byte ring at offset 16 and four bytes per frame, and one that has stored a frame.\<close>

definition demo_audio :: WebAudioPlayerServer where
  "demo_audio =
     \<lparr>mt_isMainThreadRunning = True, mt_taskQueue = [], mt_nextClientId = 2, mt_registeredClients = {0, 1},
      w_client = True, w_shmBuffer = demo_shm, w_mem = (\<lambda>_. 0), w_mainThreadClientId = 1, w_priority = 1,
      w_gstPlayer = True, w_shmId = 3, w_partitionOffset = 16, w_maxDataLength = 8,
      w_availableBuffer = \<lparr>offsetMain = 16, lengthMain = 8, offsetWrap = 16, lengthWrap = 0\<rparr>,
      w_expectWriteBuffer = False, w_timer = None, w_bytesPerFrame = 4, w_isEosRequested = False,
      w_replies = (\<lambda>_. \<lparr>as_level = 0, as_allocated = True, as_pushed = True, as_timeout = False\<rparr>),
      w_calls = 0, w_volumeArg = 0, w_out = []\<rparr>"

definition demo_stored :: WebAudioPlayerServer where
  "demo_stored = demo_audio\<lparr>w_availableBuffer := \<lparr>offsetMain = 20, lengthMain = 4, offsetWrap = 16, lengthWrap = 0\<rparr>,
     w_timer := Some True, w_isEosRequested := True\<rparr>"

lemma demo_audio_inv: "audio_inv demo_audio" and demo_stored_inv: "audio_inv demo_stored"
  and demo_stored_bytes: "stored_bytes demo_stored = [0, 0, 0, 0]"
  by (simp_all add: audio_inv_def ring_inv_def ring_ok_def in_time_def stored_bytes_def stored_pos_def write_pending_def
      demo_audio_def demo_stored_def upt_rec)

theorem web_audio_bookkeeping_witness:
  "let a = w_availableBuffer (updateAvailableBuffer 6 2 demo_audio)
   in (unat (offsetMain a) - 16, unat (lengthMain a), unat (lengthWrap a)) = (6, 2, 2)"
proof -
  have "ring_inv demo_audio" using demo_audio_inv by (simp add: audio_inv_def)
  from web_audio_bookkeeping [OF this _ refl, of 6 2] show ?thesis
    by (simp add: demo_audio_def ring_step_ok_def ring_update_def Let_def)
qed

theorem web_audio_in_order_witness:
  "let s' = run_ops audio_step [WriteOp 1 (\<lambda>_. 5), ExpireOp, RunOp] demo_audio
   in pushed s' @ stored_bytes s' = [5, 5, 5, 5]"
proof -
  have "inputs audio_step audio_input [WriteOp 1 (\<lambda>_. 5), ExpireOp, RunOp] demo_audio = [5, 5, 5, 5]"
    by (simp add: acceptedWrite_def clientWriteBuffer_def bufferAvailableTask_def demo_audio_def read_bytes_def Let_def upt_rec)
  then show ?thesis
    unfolding Let_def using web_audio_in_order [OF _ _ refl, of demo_audio "[WriteOp 1 (\<lambda>_. 5), ExpireOp, RunOp]"]
      demo_audio_inv by (simp add: audio_inv_iff demo_audio_def pushed_def stored_bytes_def stored_pos_def)
qed

theorem web_audio_never_stuck_witness:
  "let s' = run_ops audio_step [PostOp WA_PlayTask, RunOp] demo_stored
   in stored_bytes s' = [0, 0, 0, 0] \<and> ring_inv s' \<and> (w_timer s' = Some True \<or>
     (w_mainThreadClientId s', ClientTask WA_WriteDataTimerTask) \<in> set (mt_taskQueue s'))"
proof -
  have b: "stored_bytes (run_ops audio_step [PostOp WA_PlayTask, RunOp] demo_stored) = [0, 0, 0, 0]"
    by (simp add: postWebAudio_def enqueueTask_def mainThreadStep_def emit_def stored_bytes_def stored_pos_def
        demo_audio_def demo_stored_def upt_rec)
  then show ?thesis
    unfolding Let_def using web_audio_never_stuck [OF demo_stored_inv refl, of "[PostOp WA_PlayTask, RunOp]"] by simp
qed

theorem web_audio_drains_witness:
  "let s' = mainThreadLoop webAudioTask 1 (handleWriteDataTimer demo_stored)
   in stored_bytes s' = [] \<and> w_out s' = [WO_push [0, 0, 0, 0], WO_setEos]"
proof -
  have out: "w_out demo_stored = []" "w_isEosRequested demo_stored" by (simp_all add: demo_stored_def demo_audio_def)
  show ?thesis
    unfolding Let_def using web_audio_drains [OF demo_stored_inv _ _ _ _ _ _ refl] out demo_stored_bytes
    by (simp add: demo_stored_def demo_audio_def)
qed

theorem web_audio_initialised_witness:
  "\<exists>s'. initWebAudioPlayerInternal True demo_audio = (True, s') \<and> cap s' = 10240 \<and> is_mapped WEB_AUDIO 3 (w_shmBuffer s')"
proof -
  have "fst (initWebAudioPlayerInternal True demo_audio)"
    by (simp add: initWebAudioPlayerInternal_def initGstWebAudioPlayer_def demo_audio_def demo_shm_def mapPartition_def
        partition_access_defs NO_ID_ASSIGNED_def getBuffer_def getDataOffset_def getDataPtr_def getMaxDataLen_def
        getDataPtrForPartition_def webAudioRegionSize_def replicate_2 Let_def)
  then obtain s' where "initWebAudioPlayerInternal True demo_audio = (True, s')" by (metis prod.collapse)
  moreover have "w_shmBuffer demo_audio = demo_shm" "w_shmId demo_audio = 3" "lengthWrap (w_availableBuffer demo_audio) = 0"
    by (simp_all add: demo_audio_def)
  ultimately show ?thesis
    using web_audio_initialised [of demo_audio True s'] demo_shm_inv demo_shm_std by (simp add: NO_ID_ASSIGNED_def)
qed

theorem web_audio_unchecked_write_witness:
  "let s = demo_audio\<lparr>w_expectWriteBuffer := True, w_replies := (\<lambda>_. \<lparr>as_level = 0, as_allocated = True, as_pushed = False, as_timeout = False\<rparr>)\<rparr>
   in fst (writeBufferInternal 3 s) \<and> 8 < free_main (snd (writeBufferInternal 3 s))"
proof -
  let ?s = "demo_audio\<lparr>w_expectWriteBuffer := True,
    w_replies := (\<lambda>_. \<lparr>as_level = 0, as_allocated = True, as_pushed = False, as_timeout = False\<rparr>)\<rparr>"
  have "ring_inv ?s" using demo_audio_inv by (simp add: audio_inv_def ring_inv_def)
  moreover have s: "w_expectWriteBuffer ?s" "free_main ?s = cap ?s" "free_wrap ?s = 0" "cap ?s < unat (3 * w_bytesPerFrame ?s)"
    "\<not> as_pushed (w_replies ?s (w_calls ?s))" "cap ?s = 8"
    by (simp_all add: demo_audio_def)
  ultimately have "fst (writeBufferInternal 3 ?s) \<and> cap ?s < free_main (snd (writeBufferInternal 3 ?s))"
    by (intro web_audio_unchecked_write)
  then show ?thesis unfolding Let_def s(6) .
qed

end
