(* ===== verification/Playback_Service.thy ===== *)
theory Playback_Service
  imports Std_Map Media_Pipeline_Proofs Web_Audio_Proofs
begin

text \<open>
  The playback service of the session server (\<open>media/server/service/source/PlaybackService.cpp\<close>,
  \<open>MediaPipelineService.cpp\<close>, \<open>WebAudioPlayerService.cpp\<close>): it owns the shared memory buffer while the server
  is active, and the media pipelines and web audio players created in it. The services use their sessions only
  through the interfaces of the two internal players, so the model takes construction and destruction of a
  session as arguments; the interpretations at the end put the models of the players in.
\<close>

section \<open>State\<close>

text \<open>What the factories and destructors of the players do, seen from the service: they return a session or
  null, and they map or unmap partitions of the buffer.\<close>

type_synonym 'p creator = "int \<Rightarrow> SharedMemoryBuffer \<Rightarrow> 'p option \<times> SharedMemoryBuffer"
type_synonym 'p destroyer = "int \<Rightarrow> 'p \<Rightarrow> SharedMemoryBuffer \<Rightarrow> SharedMemoryBuffer"

text \<open>The members of \<open>PlaybackService\<close>, \<open>MediaPipelineService\<close> and \<open>WebAudioPlayerService\<close>.\<close>

record ('p, 'w) PlaybackService =
  ps_shmBuffer :: "SharedMemoryBuffer option"
  ps_isActive :: bool
  ps_maxPlaybacks :: int
  ps_maxWebAudioPlayers :: int
  ps_mediaPipelines :: "(int \<times> 'p) list"
  ps_webAudioPlayers :: "(int \<times> 'w) list"

definition newPlaybackService :: "('p, 'w) PlaybackService" where
  "newPlaybackService = \<lparr>ps_shmBuffer = None, ps_isActive = False, ps_maxPlaybacks = 0, ps_maxWebAudioPlayers = 0,
                         ps_mediaPipelines = [], ps_webAudioPlayers = []\<rparr>"

section \<open>Activation\<close>

text \<open>The limits are \<open>int\<close>; the buffer factory takes \<open>unsigned\<close>, so a negative limit is a huge one.\<close>

definition playbackToActive :: "ShmSyscalls \<Rightarrow> ('p, 'w) PlaybackService \<Rightarrow> bool \<times> ('p, 'w) PlaybackService" where
  "playbackToActive sys s =
     (case newSharedMemoryBuffer sys (word_of_int (ps_maxPlaybacks s)) (word_of_int (ps_maxWebAudioPlayers s)) of
        Some shmBuffer \<Rightarrow> (True, s\<lparr>ps_shmBuffer := Some shmBuffer, ps_isActive := True\<rparr>)
      | None \<Rightarrow> (False, s\<lparr>ps_isActive := False\<rparr>))"

definition clearMediaPipelines :: "'p destroyer \<Rightarrow> ('p, 'w) PlaybackService \<Rightarrow> ('p, 'w) PlaybackService" where
  "clearMediaPipelines del s =
     s\<lparr>ps_shmBuffer := map_option (fold (\<lambda>(i, p). del i p) (ps_mediaPipelines s)) (ps_shmBuffer s), ps_mediaPipelines := []\<rparr>"

definition clearWebAudioPlayers :: "'w destroyer \<Rightarrow> ('p, 'w) PlaybackService \<Rightarrow> ('p, 'w) PlaybackService" where
  "clearWebAudioPlayers del s =
     s\<lparr>ps_shmBuffer := map_option (fold (\<lambda>(i, p). del i p) (ps_webAudioPlayers s)) (ps_shmBuffer s), ps_webAudioPlayers := []\<rparr>"

definition playbackToInactive :: "'p destroyer \<Rightarrow> 'w destroyer \<Rightarrow> ('p, 'w) PlaybackService \<Rightarrow> ('p, 'w) PlaybackService" where
  "playbackToInactive delP delW s =
     (let s = s\<lparr>ps_isActive := False\<rparr>;
          s = clearMediaPipelines delP s;
          s = clearWebAudioPlayers delW s
      in s\<lparr>ps_shmBuffer := None\<rparr>)"

definition setMaxPlaybacks :: "int \<Rightarrow> ('p, 'w) PlaybackService \<Rightarrow> ('p, 'w) PlaybackService" where
  "setMaxPlaybacks maxPlaybacks s = s\<lparr>ps_maxPlaybacks := maxPlaybacks\<rparr>"

definition setMaxWebAudioPlayers :: "int \<Rightarrow> ('p, 'w) PlaybackService \<Rightarrow> ('p, 'w) PlaybackService" where
  "setMaxWebAudioPlayers maxWebAudio s = s\<lparr>ps_maxWebAudioPlayers := maxWebAudio\<rparr>"

definition getSharedMemory :: "('p, 'w) PlaybackService \<Rightarrow> (int \<times> u32) option" where
  "getSharedMemory s =
     (case ps_shmBuffer s of None \<Rightarrow> None | Some shmBuffer \<Rightarrow> Some (getFd shmBuffer, getSize shmBuffer))"

section \<open>Sessions\<close>

text \<open>The comparison with the limit is on \<open>size_t\<close>. An active service has a buffer, so the branch without one is
  never taken.\<close>

definition at_limit :: "('k \<times> 'v) list \<Rightarrow> int \<Rightarrow> bool" where
  "at_limit xs limit \<longleftrightarrow> (of_nat (length xs) :: u64) = word_of_int limit"

definition createSession :: "'p creator \<Rightarrow> int \<Rightarrow> ('p, 'w) PlaybackService \<Rightarrow> bool \<times> ('p, 'w) PlaybackService" where
  "createSession new sessionId s =
     (if \<not> ps_isActive s then (False, s)
      else if at_limit (ps_mediaPipelines s) (ps_maxPlaybacks s) then (False, s)
      else if map_of (ps_mediaPipelines s) sessionId \<noteq> None then (False, s)
      else (case ps_shmBuffer s of
          None \<Rightarrow> (False, s)
        | Some shmBuffer \<Rightarrow>
            let (pipeline, shmBuffer) = new sessionId shmBuffer;
                s = s\<lparr>ps_shmBuffer := Some shmBuffer\<rparr>
            in (case pipeline of
                  None \<Rightarrow> (False, s)
                | Some p \<Rightarrow> (True, s\<lparr>ps_mediaPipelines := emplace sessionId p (ps_mediaPipelines s)\<rparr>))))"

definition destroySession :: "'p destroyer \<Rightarrow> int \<Rightarrow> ('p, 'w) PlaybackService \<Rightarrow> bool \<times> ('p, 'w) PlaybackService" where
  "destroySession del sessionId s =
     (case map_of (ps_mediaPipelines s) sessionId of
        None \<Rightarrow> (False, s)
      | Some p \<Rightarrow> (True, s\<lparr>ps_shmBuffer := map_option (del sessionId p) (ps_shmBuffer s),
                            ps_mediaPipelines := erase sessionId (ps_mediaPipelines s)\<rparr>))"

text \<open>Every other method of the media pipeline service looks its session up and forwards the call;
  \<open>missing\<close> is what it returns without a session.\<close>

definition onSession :: "'r \<Rightarrow> int \<Rightarrow> ('p \<Rightarrow> SharedMemoryBuffer option \<Rightarrow> 'r \<times> 'p) \<Rightarrow> ('p, 'w) PlaybackService \<Rightarrow>
    'r \<times> ('p, 'w) PlaybackService" where
  "onSession missing sessionId call s =
     (case map_of (ps_mediaPipelines s) sessionId of
        None \<Rightarrow> (missing, s)
      | Some p \<Rightarrow> (let (r, p) = call p (ps_shmBuffer s)
                   in (r, s\<lparr>ps_mediaPipelines := assign sessionId p (ps_mediaPipelines s)\<rparr>)))"

definition createWebAudioPlayer :: "'w creator \<Rightarrow> int \<Rightarrow> ('p, 'w) PlaybackService \<Rightarrow> bool \<times> ('p, 'w) PlaybackService" where
  "createWebAudioPlayer new handle s =
     (if \<not> ps_isActive s then (False, s)
      else if at_limit (ps_webAudioPlayers s) (ps_maxWebAudioPlayers s) then (False, s)
      else if map_of (ps_webAudioPlayers s) handle \<noteq> None then (False, s)
      else (case ps_shmBuffer s of
          None \<Rightarrow> (False, s)
        | Some shmBuffer \<Rightarrow>
            let (player, shmBuffer) = new handle shmBuffer;
                s = s\<lparr>ps_shmBuffer := Some shmBuffer\<rparr>
            in (case player of
                  None \<Rightarrow> (False, s)
                | Some p \<Rightarrow> (True, s\<lparr>ps_webAudioPlayers := emplace handle p (ps_webAudioPlayers s)\<rparr>))))"

definition destroyWebAudioPlayer :: "'w destroyer \<Rightarrow> int \<Rightarrow> ('p, 'w) PlaybackService \<Rightarrow> bool \<times> ('p, 'w) PlaybackService" where
  "destroyWebAudioPlayer del handle s =
     (case map_of (ps_webAudioPlayers s) handle of
        None \<Rightarrow> (False, s)
      | Some p \<Rightarrow> (True, s\<lparr>ps_shmBuffer := map_option (del handle p) (ps_shmBuffer s),
                            ps_webAudioPlayers := erase handle (ps_webAudioPlayers s)\<rparr>))"

definition onWebAudioPlayer :: "'r \<Rightarrow> int \<Rightarrow> ('w \<Rightarrow> 'r \<times> 'w) \<Rightarrow> ('p, 'w) PlaybackService \<Rightarrow> 'r \<times> ('p, 'w) PlaybackService" where
  "onWebAudioPlayer missing handle call s =
     (case map_of (ps_webAudioPlayers s) handle of
        None \<Rightarrow> (missing, s)
      | Some p \<Rightarrow> (let (r, p) = call p in (r, s\<lparr>ps_webAudioPlayers := assign handle p (ps_webAudioPlayers s)\<rparr>)))"

section \<open>What the services rely on\<close>

text \<open>
  The contract of a session factory and destructor of playback type \<open>kind\<close>, in an environment \<open>e\<close> (the main
  thread, the client's parameters, the answers of the platform): a session is created exactly if its partition
  can be mapped, and destroying it gives exactly this partition back.
\<close>

definition fit_shm :: "SharedMemoryBuffer \<Rightarrow> bool" where
  "fit_shm b \<longleftrightarrow> shm_inv b \<and> std_layout b"

lemma fit_shm_map: "fit_shm b \<Longrightarrow> fit_shm (snd (mapPartition t i b))"
  and fit_shm_unmap: "fit_shm b \<Longrightarrow> fit_shm (snd (unmapPartition t i b))"
  by (simp_all add: fit_shm_def mapPartition_inv mapPartition_std unmapPartition_inv unmapPartition_std)

lemma free_count_other:
  "t \<noteq> t' \<Longrightarrow> free_count t' (snd (mapPartition t i s)) = free_count t' s"
  "t \<noteq> t' \<Longrightarrow> free_count t' (snd (unmapPartition t i s)) = free_count t' s"
  by (cases t; cases t'; auto simp: mapPartition_def unmapPartition_def free_count_def partition_access_defs
      split: option.splits)+

definition sessions_ok :: "MediaPlaybackType \<Rightarrow> (int \<Rightarrow> 'p \<Rightarrow> bool) \<Rightarrow> nat \<Rightarrow> (int \<times> 'p) list \<Rightarrow> SharedMemoryBuffer \<Rightarrow> bool" where
  "sessions_ok t good n xs b \<longleftrightarrow> std_map xs \<and> (\<forall>i. is_mapped t i b \<longleftrightarrow> map_of xs i \<noteq> None) \<and>
     free_count t b + length xs = n \<and> (\<forall>i p. map_of xs i = Some p \<longrightarrow> good i p)"

lemma sessions_ok_other:
  assumes "fit_shm b" and "i \<noteq> NO_ID_ASSIGNED" and "t \<noteq> t'" and "sessions_ok t' good n xs b"
  shows "fst (mapPartition t i b) \<Longrightarrow> sessions_ok t' good n xs (snd (mapPartition t i b))"
    and "sessions_ok t' good n xs (snd (unmapPartition t i b))"
  using assms shm.map_mapped [OF assms(2), of t b t'] shm.unmap_mapped [of b i t' _ t] free_count_other
  by (auto simp: sessions_ok_def fit_shm_def)

lemma sessions_ok_assign:
  "sessions_ok t good n xs b \<Longrightarrow> good i p \<Longrightarrow> sessions_ok t good n (assign i p xs) b"
  by (auto simp: sessions_ok_def std_map_assign map_of_assign)

locale session_provider =
  fixes kind :: MediaPlaybackType and usable :: "'e \<Rightarrow> bool" and new :: "'e \<Rightarrow> 'p creator" and del :: "'p destroyer"
    and good :: "int \<Rightarrow> 'p \<Rightarrow> bool"
  assumes new_some: "usable e \<Longrightarrow> fit_shm b \<Longrightarrow> i \<noteq> NO_ID_ASSIGNED \<Longrightarrow> fst (mapPartition kind i b) \<Longrightarrow>
      \<exists>p. new e i b = (Some p, snd (mapPartition kind i b)) \<and> good i p"
    and new_none: "usable e \<Longrightarrow> fit_shm b \<Longrightarrow> i \<noteq> NO_ID_ASSIGNED \<Longrightarrow> \<not> fst (mapPartition kind i b) \<Longrightarrow> new e i b = (None, b)"
    and del_unmaps: "fit_shm b \<Longrightarrow> good i p \<Longrightarrow> del i p b = snd (unmapPartition kind i b)"
begin

lemma create:
  assumes "usable e" and fit: "fit_shm b" and i: "i \<noteq> NO_ID_ASSIGNED" and ok: "sessions_ok kind good n xs b" and fresh: "map_of xs i = None"
  shows "if length xs < n
    then \<exists>p. new e i b = (Some p, snd (mapPartition kind i b)) \<and> fst (mapPartition kind i b) \<and> good i p \<and>
      sessions_ok kind good n (emplace i p xs) (snd (mapPartition kind i b))
    else new e i b = (None, b)"
proof (cases "length xs < n")
  case True
  then have "0 < free_count kind b" using ok by (simp add: sessions_ok_def)
  then have m: "fst (mapPartition kind i b)" using shm.map_result [OF i] by blast
  obtain p where p: "new e i b = (Some p, snd (mapPartition kind i b))" "good i p" using new_some assms m by blast
  have "\<not> is_mapped kind i b" using ok fresh by (simp add: sessions_ok_def)
  then have "sessions_ok kind good n (emplace i p xs) (snd (mapPartition kind i b))"
    using ok fresh p(2) shm.map_mapped [OF i m] shm.map_free [OF i m]
    by (auto simp: sessions_ok_def std_map_emplace length_emplace)
  with p m True show ?thesis by auto
next
  case False
  then have "free_count kind b = 0" "\<not> is_mapped kind i b" using ok fresh by (auto simp: sessions_ok_def)
  then have "\<not> fst (mapPartition kind i b)" using shm.map_result [OF i] by simp
  then show ?thesis using False new_none assms by simp
qed

lemma destroy:
  assumes fit: "fit_shm b" and ok: "sessions_ok kind good n xs b" and p: "map_of xs i = Some p"
  shows "del i p b = snd (unmapPartition kind i b) \<and> i \<noteq> NO_ID_ASSIGNED \<and> sessions_ok kind good n (erase i xs) (snd (unmapPartition kind i b))"
proof -
  have "good i p" "is_mapped kind i b" using ok p by (auto simp: sessions_ok_def)
  moreover from this(2) have i: "i \<noteq> NO_ID_ASSIGNED" by (auto simp: is_mapped_def split: option.splits)
  ultimately have "sessions_ok kind good n (erase i xs) (snd (unmapPartition kind i b))"
    using ok fit p shm.unmap_mapped [of b i kind _ kind] shm.unmap_free [of i kind b] length_erase [of xs i p]
    by (auto simp: sessions_ok_def fit_shm_def std_map_erase)
  then show ?thesis using del_unmaps [OF fit \<open>good i p\<close>] i by simp
qed

end

section \<open>The invariant of the service\<close>

text \<open>
  An inactive service holds nothing. An active one holds an intact buffer whose mapped partitions are exactly
  those of its sessions, and as many free ones as sessions may still be created. The bound on the limits keeps
  the size of the buffer below \<open>2 ^ 31\<close>.
\<close>

definition limits_ok :: "('p, 'w) PlaybackService \<Rightarrow> bool" where
  "limits_ok s \<longleftrightarrow> 0 \<le> ps_maxPlaybacks s \<and> 0 \<le> ps_maxWebAudioPlayers s \<and>
     ps_maxPlaybacks s * 8388608 + ps_maxWebAudioPlayers s * 10240 < 2 ^ 31"

definition playback_inv :: "(int \<Rightarrow> 'p \<Rightarrow> bool) \<Rightarrow> (int \<Rightarrow> 'w \<Rightarrow> bool) \<Rightarrow> ('p, 'w) PlaybackService \<Rightarrow> bool" where
  "playback_inv goodP goodW s \<longleftrightarrow> limits_ok s \<and>
     (if ps_isActive s
      then \<exists>b. ps_shmBuffer s = Some b \<and> fit_shm b \<and>
        sessions_ok GENERIC goodP (nat (ps_maxPlaybacks s)) (ps_mediaPipelines s) b \<and>
        sessions_ok WEB_AUDIO goodW (nat (ps_maxWebAudioPlayers s)) (ps_webAudioPlayers s) b
      else ps_shmBuffer s = None \<and> ps_mediaPipelines s = [] \<and> ps_webAudioPlayers s = [])"

lemma at_limit_iff:
  assumes "length xs \<le> nat n" and "0 \<le> n" and "n < 2 ^ 31"
  shows "at_limit xs n \<longleftrightarrow> length xs = nat n"
proof -
  have "at_limit xs n \<longleftrightarrow> (word_of_nat (length xs) :: u64) = word_of_nat (nat n)"
    using assms(2) by (simp add: at_limit_def)
  also have "\<dots> \<longleftrightarrow> length xs = nat n"
    using assms by (subst word_of_nat_eq_iff) (simp add: take_bit_nat_eq_self)
  finally show ?thesis .
qed

lemma limits_word:
  assumes "limits_ok s"
  shows "unat (word_of_int (ps_maxPlaybacks s) :: u32) = nat (ps_maxPlaybacks s)"
    and "unat (word_of_int (ps_maxWebAudioPlayers s) :: u32) = nat (ps_maxWebAudioPlayers s)"
  using assms by (simp_all add: limits_ok_def unsigned_of_int take_bit_int_eq_self)

lemma new_buffer_unmapped:
  assumes "unat n < 2 ^ 31" and "unat k < 2 ^ 31" and "newSharedMemoryBuffer sys n k = Some b"
  shows "\<not> is_mapped t i b"
  using assms(3) calculatePartitionSize_Some(1) [OF assms(1)] calculatePartitionSize_Some(2) [OF assms(2)]
  by (cases t) (auto simp: newSharedMemoryBuffer_def Let_def is_mapped_def partition_access_defs split: option.splits if_splits)

lemma playbackToActive_inv:
  assumes "playback_inv goodP goodW s" and "\<not> ps_isActive s"
  shows "playback_inv goodP goodW (snd (playbackToActive sys s))"
proof -
  let ?n = "word_of_int (ps_maxPlaybacks s) :: u32" and ?k = "word_of_int (ps_maxWebAudioPlayers s) :: u32"
  have lim: "limits_ok s" and none: "ps_shmBuffer s = None" "ps_mediaPipelines s = []" "ps_webAudioPlayers s = []"
    using assms by (simp_all add: playback_inv_def)
  show ?thesis
  proof (cases "newSharedMemoryBuffer sys ?n ?k")
    case None
    with assms show ?thesis by (simp add: playbackToActive_def playback_inv_def limits_ok_def)
  next
    case (Some b)
    note w = limits_word [OF lim]
    have size: "unat ?n * 8388608 + unat ?k * 10240 < 2 ^ 31"
    proof -
      have "int (unat ?n * 8388608 + unat ?k * 10240) < int (2 ^ 31)" using lim w by (simp add: limits_ok_def)
      then show ?thesis by (simp only: of_nat_less_iff)
    qed
    then have b: "unat ?n < 2 ^ 31" "unat ?k < 2 ^ 31" by simp_all
    show ?thesis
      using Some newSharedMemoryBuffer_inv [OF size Some] newSharedMemoryBuffer_std [OF b Some] new_buffer_unmapped [OF b Some] lim none w
      by (simp add: playbackToActive_def playback_inv_def fit_shm_def sessions_ok_def limits_ok_def)
  qed
qed

lemma playbackToInactive_inv:
  "playback_inv goodP goodW s \<Longrightarrow> playback_inv goodP goodW (playbackToInactive delP delW s)"
  by (simp add: playback_inv_def playbackToInactive_def clearMediaPipelines_def clearWebAudioPlayers_def Let_def limits_ok_def)

section \<open>Sessions and the invariant\<close>

locale playback_providers =
  P: session_provider GENERIC usableP newP delP goodP + W: session_provider WEB_AUDIO usableW newW delW goodW
  for usableP :: "'e \<Rightarrow> bool" and newP :: "'e \<Rightarrow> 'p creator" and delP goodP
    and usableW :: "'f \<Rightarrow> bool" and newW :: "'f \<Rightarrow> 'w creator" and delW goodW
begin

lemma createSession_ok:
  assumes inv: "playback_inv goodP goodW s" and e: "usableP e" and i: "i \<noteq> NO_ID_ASSIGNED"
  shows "fst (createSession (newP e) i s) \<longleftrightarrow> ps_isActive s \<and> map_of (ps_mediaPipelines s) i = None \<and>
      length (ps_mediaPipelines s) < nat (ps_maxPlaybacks s)"
    and "playback_inv goodP goodW (snd (createSession (newP e) i s))"
proof -
  let ?xs = "ps_mediaPipelines s"
  have "(fst (createSession (newP e) i s) \<longleftrightarrow> ps_isActive s \<and> map_of ?xs i = None \<and> length ?xs < nat (ps_maxPlaybacks s)) \<and>
    playback_inv goodP goodW (snd (createSession (newP e) i s))"
  proof (cases "ps_isActive s \<and> map_of ?xs i = None \<and> \<not> at_limit ?xs (ps_maxPlaybacks s)")
    case True
    then obtain b where b: "ps_shmBuffer s = Some b" "fit_shm b"
      "sessions_ok GENERIC goodP (nat (ps_maxPlaybacks s)) ?xs b"
      "sessions_ok WEB_AUDIO goodW (nat (ps_maxWebAudioPlayers s)) (ps_webAudioPlayers s) b"
      using inv by (auto simp: playback_inv_def)
    have "length ?xs \<noteq> nat (ps_maxPlaybacks s)" "length ?xs \<le> nat (ps_maxPlaybacks s)"
      using True at_limit_iff [of ?xs "ps_maxPlaybacks s"] inv b(3) by (auto simp: playback_inv_def limits_ok_def sessions_ok_def)
    then have less: "length ?xs < nat (ps_maxPlaybacks s)" by simp
    then obtain p where p: "newP e i b = (Some p, snd (mapPartition GENERIC i b))" "fst (mapPartition GENERIC i b)"
      "sessions_ok GENERIC goodP (nat (ps_maxPlaybacks s)) (emplace i p ?xs) (snd (mapPartition GENERIC i b))"
      using P.create [OF e b(2) i b(3)] True by auto
    show ?thesis
      using True b less p inv fit_shm_map [OF b(2)] sessions_ok_other(1) [OF b(2) i _ b(4) p(2)]
      by (simp add: createSession_def playback_inv_def limits_ok_def)
  next
    case False
    moreover have "at_limit ?xs (ps_maxPlaybacks s) \<Longrightarrow> ps_isActive s \<Longrightarrow> length ?xs = nat (ps_maxPlaybacks s)"
      using inv at_limit_iff [of ?xs "ps_maxPlaybacks s"] by (auto simp: playback_inv_def limits_ok_def sessions_ok_def)
    ultimately show ?thesis using inv by (auto simp: createSession_def)
  qed
  then show "fst (createSession (newP e) i s) \<longleftrightarrow> ps_isActive s \<and> map_of ?xs i = None \<and> length ?xs < nat (ps_maxPlaybacks s)"
    and "playback_inv goodP goodW (snd (createSession (newP e) i s))" by blast+
qed

lemma createWebAudioPlayer_ok:
  assumes inv: "playback_inv goodP goodW s" and e: "usableW e" and i: "i \<noteq> NO_ID_ASSIGNED"
  shows "fst (createWebAudioPlayer (newW e) i s) \<longleftrightarrow> ps_isActive s \<and> map_of (ps_webAudioPlayers s) i = None \<and>
      length (ps_webAudioPlayers s) < nat (ps_maxWebAudioPlayers s)"
    and "playback_inv goodP goodW (snd (createWebAudioPlayer (newW e) i s))"
proof -
  let ?xs = "ps_webAudioPlayers s"
  have "(fst (createWebAudioPlayer (newW e) i s) \<longleftrightarrow> ps_isActive s \<and> map_of ?xs i = None \<and> length ?xs < nat (ps_maxWebAudioPlayers s)) \<and>
    playback_inv goodP goodW (snd (createWebAudioPlayer (newW e) i s))"
  proof (cases "ps_isActive s \<and> map_of ?xs i = None \<and> \<not> at_limit ?xs (ps_maxWebAudioPlayers s)")
    case True
    then obtain b where b: "ps_shmBuffer s = Some b" "fit_shm b"
      "sessions_ok WEB_AUDIO goodW (nat (ps_maxWebAudioPlayers s)) ?xs b"
      "sessions_ok GENERIC goodP (nat (ps_maxPlaybacks s)) (ps_mediaPipelines s) b"
      using inv by (auto simp: playback_inv_def)
    have "length ?xs \<noteq> nat (ps_maxWebAudioPlayers s)" "length ?xs \<le> nat (ps_maxWebAudioPlayers s)"
      using True at_limit_iff [of ?xs "ps_maxWebAudioPlayers s"] inv b(3) by (auto simp: playback_inv_def limits_ok_def sessions_ok_def)
    then have less: "length ?xs < nat (ps_maxWebAudioPlayers s)" by simp
    then obtain p where p: "newW e i b = (Some p, snd (mapPartition WEB_AUDIO i b))" "fst (mapPartition WEB_AUDIO i b)"
      "sessions_ok WEB_AUDIO goodW (nat (ps_maxWebAudioPlayers s)) (emplace i p ?xs) (snd (mapPartition WEB_AUDIO i b))"
      using W.create [OF e b(2) i b(3)] True by auto
    show ?thesis
      using True b less p inv fit_shm_map [OF b(2)] sessions_ok_other(1) [OF b(2) i _ b(4) p(2)]
      by (simp add: createWebAudioPlayer_def playback_inv_def limits_ok_def)
  next
    case False
    moreover have "at_limit ?xs (ps_maxWebAudioPlayers s) \<Longrightarrow> ps_isActive s \<Longrightarrow> length ?xs = nat (ps_maxWebAudioPlayers s)"
      using inv at_limit_iff [of ?xs "ps_maxWebAudioPlayers s"] by (auto simp: playback_inv_def limits_ok_def sessions_ok_def)
    ultimately show ?thesis using inv by (auto simp: createWebAudioPlayer_def)
  qed
  then show "fst (createWebAudioPlayer (newW e) i s) \<longleftrightarrow> ps_isActive s \<and> map_of ?xs i = None \<and> length ?xs < nat (ps_maxWebAudioPlayers s)"
    and "playback_inv goodP goodW (snd (createWebAudioPlayer (newW e) i s))" by blast+
qed

text \<open>A session that exists belongs to an active service.\<close>

lemma session_active:
  assumes "playback_inv goodP goodW s"
  shows "map_of (ps_mediaPipelines s) i \<noteq> None \<Longrightarrow> ps_isActive s" "map_of (ps_webAudioPlayers s) i \<noteq> None \<Longrightarrow> ps_isActive s"
  using assms by (auto simp: playback_inv_def split: if_splits)

lemma destroySession_inv:
  assumes inv: "playback_inv goodP goodW s"
  shows "playback_inv goodP goodW (snd (destroySession delP i s))"
proof (cases "map_of (ps_mediaPipelines s) i")
  case None
  with inv show ?thesis by (simp add: destroySession_def)
next
  case (Some p)
  then have active: "ps_isActive s" using session_active(1) [OF inv, of i] by simp
  then obtain b where b: "ps_shmBuffer s = Some b" "fit_shm b"
    "sessions_ok GENERIC goodP (nat (ps_maxPlaybacks s)) (ps_mediaPipelines s) b"
    "sessions_ok WEB_AUDIO goodW (nat (ps_maxWebAudioPlayers s)) (ps_webAudioPlayers s) b"
    using inv by (auto simp: playback_inv_def)
  note d = P.destroy [OF b(2,3) Some]
  have "sessions_ok WEB_AUDIO goodW (nat (ps_maxWebAudioPlayers s)) (ps_webAudioPlayers s) (delP i p b)"
    using d sessions_ok_other(2) [OF b(2) _ _ b(4)] by simp
  then show ?thesis
    using inv Some active b d fit_shm_unmap [OF b(2)] by (simp add: destroySession_def playback_inv_def limits_ok_def)
qed

lemma destroyWebAudioPlayer_inv:
  assumes inv: "playback_inv goodP goodW s"
  shows "playback_inv goodP goodW (snd (destroyWebAudioPlayer delW i s))"
proof (cases "map_of (ps_webAudioPlayers s) i")
  case None
  with inv show ?thesis by (simp add: destroyWebAudioPlayer_def)
next
  case (Some p)
  then have active: "ps_isActive s" using session_active(2) [OF inv, of i] by simp
  then obtain b where b: "ps_shmBuffer s = Some b" "fit_shm b"
    "sessions_ok WEB_AUDIO goodW (nat (ps_maxWebAudioPlayers s)) (ps_webAudioPlayers s) b"
    "sessions_ok GENERIC goodP (nat (ps_maxPlaybacks s)) (ps_mediaPipelines s) b"
    using inv by (auto simp: playback_inv_def)
  note d = W.destroy [OF b(2,3) Some]
  have "sessions_ok GENERIC goodP (nat (ps_maxPlaybacks s)) (ps_mediaPipelines s) (delW i p b)"
    using d sessions_ok_other(2) [OF b(2) _ _ b(4)] by simp
  then show ?thesis
    using inv Some active b d fit_shm_unmap [OF b(2)] by (simp add: destroyWebAudioPlayer_def playback_inv_def limits_ok_def)
qed

lemma onSession_inv:
  assumes inv: "playback_inv goodP goodW s" and call: "\<And>p b. goodP i p \<Longrightarrow> goodP i (snd (call p b))"
  shows "playback_inv goodP goodW (snd (onSession r i call s))"
proof (cases "map_of (ps_mediaPipelines s) i")
  case None
  with inv show ?thesis by (simp add: onSession_def)
next
  case (Some p)
  then have active: "ps_isActive s" using session_active(1) [OF inv, of i] by simp
  have "goodP i (snd (call p (ps_shmBuffer s)))"
    using inv Some active call by (auto simp: playback_inv_def sessions_ok_def)
  then show ?thesis
    using inv Some active sessions_ok_assign by (fastforce simp: onSession_def playback_inv_def limits_ok_def case_prod_beta)
qed

lemma onWebAudioPlayer_inv:
  assumes inv: "playback_inv goodP goodW s" and call: "\<And>p. goodW i p \<Longrightarrow> goodW i (snd (call p))"
  shows "playback_inv goodP goodW (snd (onWebAudioPlayer r i call s))"
proof (cases "map_of (ps_webAudioPlayers s) i")
  case None
  with inv show ?thesis by (simp add: onWebAudioPlayer_def)
next
  case (Some p)
  then have active: "ps_isActive s" using session_active(2) [OF inv, of i] by simp
  have "goodW i (snd (call p))"
    using inv Some active call by (auto simp: playback_inv_def sessions_ok_def)
  then show ?thesis
    using inv Some active sessions_ok_assign by (fastforce simp: onWebAudioPlayer_def playback_inv_def limits_ok_def case_prod_beta)
qed

end

end
