(* ===== verification/Session_Services.thy ===== *)
theory Session_Services
  imports Playback_Service
begin

text \<open>
  The two kinds of sessions in the playback service: media pipelines and web audio players, with the
  factories that create them (\<open>MediaPipelineServerInternal.cpp\<close>, \<open>WebAudioPlayerServerInternal.cpp\<close>), and the
  service's methods that forward to them.
\<close>

section \<open>Factories and destructors\<close>

text \<open>What a factory call finds: the main thread, the client, and the values the platform returns.\<close>

record PipelineEnv =
  pe_mainThread :: "PipelineTask MainThread option"
  pe_client :: bool
  pe_mem :: mem
  pe_sourceId :: i32

definition createMediaPipelineServerInternal :: "PipelineEnv \<Rightarrow> MediaPipelineServer creator" where
  "createMediaPipelineServerInternal e sessionId shmBuffer =
     (if \<not> pe_client e then (None, shmBuffer)
      else case newMediaPipelineServerInternal (pe_mainThread e) True sessionId shmBuffer (pe_mem e) (pe_sourceId e) of
          Inr s \<Rightarrow> (Some s, p_shmBuffer s)
        | Inl (Some s) \<Rightarrow> (None, p_shmBuffer s)
        | Inl None \<Rightarrow> (None, shmBuffer))"

text \<open>A session refers to the service's buffer; the copy in its record is brought up to date when it is used.\<close>

definition deleteMediaPipeline :: "MediaPipelineServer destroyer" where
  "deleteMediaPipeline sessionId p shmBuffer =
     p_shmBuffer (snd (destroyMediaPipelineServerInternal (p\<lparr>p_shmBuffer := shmBuffer\<rparr>)))"

record WebAudioEnv =
  we_mainThread :: "WebAudioTask MainThread option"
  we_client :: bool
  we_mimeType :: string
  we_priority :: u32
  we_config :: "WebAudioPcmConfig option"
  we_mem :: mem
  we_created :: bool
  we_replies :: "nat \<Rightarrow> AppSrcReply"

definition createWebAudioPlayerServerInternal :: "WebAudioEnv \<Rightarrow> WebAudioPlayerServer creator" where
  "createWebAudioPlayerServerInternal e handle shmBuffer =
     (case newWebAudioPlayerServerInternal (we_mainThread e) (we_client e) (we_mimeType e) (we_priority e) (we_config e)
             shmBuffer (we_mem e) handle (we_created e) (we_replies e) of
        Inr s \<Rightarrow> (Some s, w_shmBuffer s)
      | Inl (Some s) \<Rightarrow> (None, w_shmBuffer s)
      | Inl None \<Rightarrow> (None, shmBuffer))"

definition deleteWebAudioPlayer :: "WebAudioPlayerServer destroyer" where
  "deleteWebAudioPlayer handle p shmBuffer =
     w_shmBuffer (snd (destroyWebAudioPlayerServerInternal (p\<lparr>w_shmBuffer := shmBuffer\<rparr>)))"

section \<open>Media pipelines as sessions\<close>

definition usable_pipeline :: "PipelineEnv \<Rightarrow> bool" where
  "usable_pipeline e \<longleftrightarrow> pe_client e \<and> (case pe_mainThread e of None \<Rightarrow> False | Some mt \<Rightarrow> thread_ready mt)"

definition good_pipeline :: "int \<Rightarrow> MediaPipelineServer \<Rightarrow> bool" where
  "good_pipeline i p \<longleftrightarrow> p_sessionId p = i \<and> on_thread p"

lemma pipeline_wait:
  assumes "on_thread p"
  shows "\<exists>s1. onMainThread task p = map_prod Some id (task s1) \<and> same_session p s1 \<and> on_thread s1"
proof -
  define Q where "Q = (\<lambda>s. on_thread s \<and> same_session p s)"
  have step: "Q (mainThreadStep pipelineTask x (s\<lparr>mt_taskQueue := q\<rparr>))" if "Q s" "mt_taskQueue s = x # q" for x q s
  proof -
    have "on_thread (mainThreadStep pipelineTask x (s\<lparr>mt_taskQueue := q\<rparr>))"
      using that pipelineTask_frame [of "s\<lparr>mt_taskQueue := q\<rparr>"]
      by (cases "snd x") (auto simp: Q_def on_thread_def mainThreadStep_def same_frame_def)
    then show ?thesis using that same_session_step [of p s x q] by (simp add: Q_def)
  qed
  let ?s = "mainThreadLoop pipelineTask (length (mt_taskQueue p)) p"
  have "Q ?s" by (rule pipe.loop_invariant [of Q, OF step]) (use assms in \<open>simp_all add: Q_def same_session_def\<close>)
  then have "on_thread ?s" "same_session p ?s" "p_mainThreadClientId p \<in> mt_registeredClients ?s"
    by (auto simp: Q_def on_thread_def same_session_def)
  then show ?thesis
    by (intro exI [of _ ?s]) (simp add: onMainThread_def enqueueTaskAndWait_def on_thread_def Let_def)
qed

interpretation pipelines: session_provider GENERIC usable_pipeline createMediaPipelineServerInternal deleteMediaPipeline
  good_pipeline
proof
  fix e :: PipelineEnv and b i
  assume e: "usable_pipeline e"
  then obtain mt where mt: "pe_mainThread e = Some mt" "thread_ready mt" "pe_client e"
    by (auto simp: usable_pipeline_def split: option.splits)
  obtain s1 c where s1: "constructing i b c s1" "c \<in> mt_registeredClients s1"
    "newMediaPipelineServerInternal (Some mt) True i b (pe_mem e) (pe_sourceId e) =
      (let (ok, shm') = mapPartition GENERIC i b; s2 = s1\<lparr>p_shmBuffer := shm'\<rparr> in if ok then Inr s2 else Inl (Some s2))"
    using construction_eq [OF mt(2)] by blast
  show "\<exists>p. createMediaPipelineServerInternal e i b = (Some p, snd (mapPartition GENERIC i b)) \<and> good_pipeline i p"
    if "fst (mapPartition GENERIC i b)"
    using that mt s1
    by (auto simp: createMediaPipelineServerInternal_def case_prod_beta Let_def good_pipeline_def constructing_def on_thread_def)
  show "createMediaPipelineServerInternal e i b = (None, b)" if "\<not> fst (mapPartition GENERIC i b)"
    using that mt s1 mapPartition_failed [of GENERIC i b]
    by (auto simp: createMediaPipelineServerInternal_def case_prod_beta Let_def)
next
  fix b i p
  assume "good_pipeline i p"
  then have p: "p_sessionId p = i" "on_thread (p\<lparr>p_shmBuffer := b\<rparr>)" by (auto simp: good_pipeline_def on_thread_def)
  from pipeline_wait [OF p(2), of destroyTask] obtain s1 where
    "destroyMediaPipelineServerInternal (p\<lparr>p_shmBuffer := b\<rparr>) = map_prod Some id (destroyTask s1)"
    "same_session (p\<lparr>p_shmBuffer := b\<rparr>) s1" unfolding destroyMediaPipelineServerInternal_def by blast
  then show "deleteMediaPipeline i p b = snd (unmapPartition GENERIC i b)"
    using p(1) by (simp add: deleteMediaPipeline_def destroyTask_def same_session_def unregisterClient_def Let_def)
qed

section \<open>Web audio players as sessions\<close>

text \<open>A request the constructor accepts; with \<open>usable_audio\<close>, GStreamer also supplies a player.\<close>

definition audio_request_ok :: "WebAudioEnv \<Rightarrow> bool" where
  "audio_request_ok e \<longleftrightarrow> we_mimeType e = ''audio/x-raw'' \<and>
     (case we_mainThread e of None \<Rightarrow> False | Some mt \<Rightarrow> thread_ready mt) \<and>
     (case we_config e of None \<Rightarrow> False | Some pcm \<Rightarrow> pcm_channels pcm * (pcm_sampleSize pcm div 8) \<noteq> 0)"

definition usable_audio :: "WebAudioEnv \<Rightarrow> bool" where
  "usable_audio e \<longleftrightarrow> audio_request_ok e \<and> we_created e"

definition audio_on_thread :: "WebAudioPlayerServer \<Rightarrow> bool" where
  "audio_on_thread s \<longleftrightarrow> mt_isMainThreadRunning s \<and> w_mainThreadClientId s \<in> mt_registeredClients s \<and>
     (\<forall>x \<in> set (mt_taskQueue s). snd x \<noteq> ShutdownTask)"

definition good_audio :: "int \<Rightarrow> WebAudioPlayerServer \<Rightarrow> bool" where
  "good_audio i p \<longleftrightarrow> w_shmId p = i \<and> audio_on_thread p"

definition same_audio :: "WebAudioPlayerServer \<Rightarrow> WebAudioPlayerServer \<Rightarrow> bool" where
  "same_audio s s' \<longleftrightarrow> w_shmBuffer s' = w_shmBuffer s \<and> w_shmId s' = w_shmId s \<and>
     w_mainThreadClientId s' = w_mainThreadClientId s"

definition thread_up :: "WebAudioPlayerServer \<Rightarrow> bool" where
  "thread_up s \<longleftrightarrow> mt_isMainThreadRunning s \<and> (\<forall>x \<in> set (mt_taskQueue s). snd x \<noteq> ShutdownTask)"

lemma audio_loop:
  assumes "thread_up s"
  shows "thread_up (mainThreadLoop webAudioTask n s) \<and> same_audio s (mainThreadLoop webAudioTask n s)"
proof -
  define Q where "Q = (\<lambda>s'. thread_up s' \<and> same_audio s s')"
  have "Q (mainThreadStep webAudioTask x (s'\<lparr>mt_taskQueue := q\<rparr>))" if "Q s'" "mt_taskQueue s' = x # q" for x q s'
    using that webAudioTask_same [of "s'\<lparr>mt_taskQueue := q\<rparr>"]
    by (cases "snd x") (auto simp: Q_def thread_up_def mainThreadStep_def same_player_def same_audio_def)
  then have "Q (mainThreadLoop webAudioTask n s)"
    by (rule wapipe.loop_invariant [of Q]) (use assms in \<open>simp_all add: Q_def same_audio_def\<close>)
  then show ?thesis by (simp add: Q_def)
qed

lemma audio_wait:
  assumes "audio_on_thread p"
  shows "\<exists>s1. onWebAudioThread task p = map_prod Some id (task s1) \<and> same_audio p s1 \<and> audio_on_thread s1"
proof -
  let ?s = "mainThreadLoop webAudioTask (length (mt_taskQueue p)) p"
  have "thread_up p" using assms by (simp add: thread_up_def audio_on_thread_def)
  note up = audio_loop [OF this, of "length (mt_taskQueue p)"]
  moreover have "w_mainThreadClientId p \<in> mt_registeredClients ?s"
    using wapipe.loop_registered_mono assms by (auto simp: audio_on_thread_def dest: subsetD)
  ultimately show ?thesis
    by (intro exI [of _ ?s])
      (simp add: onWebAudioThread_def enqueueTaskAndWait_def audio_on_thread_def thread_up_def same_audio_def Let_def)
qed

text \<open>Initialisation succeeds exactly if the partition can be mapped and GStreamer supplies a player; the
  partition is mapped in any case.\<close>

lemma initWebAudioPlayerInternal_eq:
  assumes fit: "fit_shm (w_shmBuffer s)" and i: "w_shmId s \<noteq> NO_ID_ASSIGNED"
  shows "\<exists>s'. initWebAudioPlayerInternal created s = (fst (mapPartition WEB_AUDIO (w_shmId s) (w_shmBuffer s)) \<and> created, s') \<and>
    w_shmBuffer s' = snd (mapPartition WEB_AUDIO (w_shmId s) (w_shmBuffer s)) \<and> w_shmId s' = w_shmId s \<and>
    (audio_on_thread s \<longrightarrow> audio_on_thread s')"
proof (cases "fst (mapPartition WEB_AUDIO (w_shmId s) (w_shmBuffer s))")
  case False
  then show ?thesis
    by (auto simp: initWebAudioPlayerInternal_def case_prod_beta Let_def audio_on_thread_def)
next
  case True
  define b where "b = snd (mapPartition WEB_AUDIO (w_shmId s) (w_shmBuffer s))"
  have b: "shm_inv b" "std_layout b" "is_mapped WEB_AUDIO (w_shmId s) b"
    using fit_shm_map [OF fit] shm.map_mapped [OF i True] by (simp_all add: b_def fit_shm_def)
  obtain off where off: "getDataOffset WEB_AUDIO (w_shmId s) AUDIO b = Some off"
    "unat (getMaxDataLen WEB_AUDIO (w_shmId s) AUDIO b) = 10240"
    using mapped_region [OF b, of AUDIO] by auto
  then have "getMaxDataLen WEB_AUDIO (w_shmId s) AUDIO b \<noteq> 0" by auto
  moreover have "getBuffer b \<noteq> None" using b(2) by (simp add: std_layout_def getBuffer_def)
  ultimately show ?thesis
    using True off(1)
    by (simp add: initWebAudioPlayerInternal_def case_prod_beta Let_def b_def [symmetric] initGstWebAudioPlayer_def
        emit_def audio_on_thread_def)
qed

lemma audio_construction_eq:
  assumes e: "audio_request_ok e" and fit: "fit_shm b" and i: "i \<noteq> NO_ID_ASSIGNED"
  shows "\<exists>s. newWebAudioPlayerServerInternal (we_mainThread e) (we_client e) (we_mimeType e) (we_priority e) (we_config e)
      b (we_mem e) i (we_created e) (we_replies e) =
      (if fst (mapPartition WEB_AUDIO i b) \<and> we_created e then Inr s else Inl (Some s)) \<and>
    w_shmBuffer s = snd (mapPartition WEB_AUDIO i b) \<and> good_audio i s"
proof -
  obtain mt pcm where env: "we_mimeType e = ''audio/x-raw''" "we_mainThread e = Some mt" "thread_ready mt"
    "we_config e = Some pcm" "pcm_channels pcm * (pcm_sampleSize pcm div 8) \<noteq> 0"
    using e by (auto simp: audio_request_ok_def split: option.splits)
  define c where "c = mt_nextClientId mt"
  define q where "q = mt_taskQueue mt @ [(mainThreadClientId, RegisterTask c)]"
  define s0 where "s0 = \<lparr>mt_isMainThreadRunning = mt_isMainThreadRunning mt, mt_taskQueue = q,
      mt_nextClientId = c + 1, mt_registeredClients = mt_registeredClients mt,
      w_client = we_client e, w_shmBuffer = b, w_mem = we_mem e, w_mainThreadClientId = c,
      w_priority = we_priority e, w_gstPlayer = False, w_shmId = i, w_partitionOffset = 0, w_maxDataLength = 0,
      w_availableBuffer = \<lparr>offsetMain = 0, lengthMain = 0, offsetWrap = 0, lengthWrap = 0\<rparr>,
      w_expectWriteBuffer = False, w_timer = None, w_bytesPerFrame = pcm_channels pcm * (pcm_sampleSize pcm div 8),
      w_isEosRequested = False, w_replies = we_replies e, w_calls = 0, w_volumeArg = 0, w_out = []\<rparr>"
  define s1 where "s1 = mainThreadLoop webAudioTask (length q) s0"
  have "thread_up s0" using env(3) by (auto simp: thread_up_def s0_def q_def thread_ready_def)
  note up = audio_loop [OF this, of "length q", folded s1_def]
  have "c \<in> mt_registeredClients s1"
    unfolding s1_def by (rule wapipe.loop_registers [of s0 q "[]"]) (use env(3) in \<open>auto simp: s0_def q_def thread_ready_def\<close>)
  then have on: "audio_on_thread s1" "w_shmBuffer s1 = b" "w_shmId s1 = i"
    using up by (auto simp: audio_on_thread_def thread_up_def same_audio_def s0_def)
  obtain s' where s': "initWebAudioPlayerInternal (we_created e) s1 = (fst (mapPartition WEB_AUDIO i b) \<and> we_created e, s')"
    "w_shmBuffer s' = snd (mapPartition WEB_AUDIO i b)" "good_audio i s'"
    using initWebAudioPlayerInternal_eq [of s1 "we_created e"] on fit i by (auto simp: good_audio_def)
  have "onWebAudioThread (initWebAudioPlayerInternal (we_created e)) s0 = (Some (fst (mapPartition WEB_AUDIO i b) \<and> we_created e), s')"
    using s'(1) on up \<open>c \<in> mt_registeredClients s1\<close>
    by (simp add: onWebAudioThread_def enqueueTaskAndWait_def Let_def thread_up_def s0_def [THEN arg_cong, of mt_taskQueue]
        s0_def [THEN arg_cong, of w_mainThreadClientId] s1_def)
  then have "newWebAudioPlayerServerInternal (we_mainThread e) (we_client e) (we_mimeType e) (we_priority e) (we_config e)
      b (we_mem e) i (we_created e) (we_replies e) =
        (if fst (mapPartition WEB_AUDIO i b) \<and> we_created e then Inr s' else Inl (Some s'))"
    using env by (simp add: newWebAudioPlayerServerInternal_def registerClient_def enqueueTask_def Let_def s0_def q_def c_def)
  then show ?thesis using s' by blast
qed

interpretation audio_players: session_provider WEB_AUDIO usable_audio createWebAudioPlayerServerInternal deleteWebAudioPlayer
  good_audio
proof
  fix e :: WebAudioEnv and b i
  assume e: "usable_audio e" and b: "fit_shm b" "i \<noteq> NO_ID_ASSIGNED"
  then have created: "we_created e" and "audio_request_ok e" by (simp_all add: usable_audio_def)
  note new = audio_construction_eq [OF this(2) b]
  show "\<exists>p. createWebAudioPlayerServerInternal e i b = (Some p, snd (mapPartition WEB_AUDIO i b)) \<and> good_audio i p"
    if "fst (mapPartition WEB_AUDIO i b)"
    using that new created by (auto simp: createWebAudioPlayerServerInternal_def)
  show "createWebAudioPlayerServerInternal e i b = (None, b)" if "\<not> fst (mapPartition WEB_AUDIO i b)"
    using that new mapPartition_failed [of WEB_AUDIO i b] by (auto simp: createWebAudioPlayerServerInternal_def)
next
  fix b i p
  assume "good_audio i p"
  then have p: "w_shmId p = i" "audio_on_thread (p\<lparr>w_shmBuffer := b\<rparr>)" by (auto simp: good_audio_def audio_on_thread_def)
  from audio_wait [OF p(2), of destroyWebAudioTask] obtain s1 where
    "destroyWebAudioPlayerServerInternal (p\<lparr>w_shmBuffer := b\<rparr>) = map_prod Some id (destroyWebAudioTask s1)"
    "same_audio (p\<lparr>w_shmBuffer := b\<rparr>) s1" unfolding destroyWebAudioPlayerServerInternal_def by blast
  then show "deleteWebAudioPlayer i p b = snd (unmapPartition WEB_AUDIO i b)"
    using p(1) by (simp add: deleteWebAudioPlayer_def destroyWebAudioTask_def same_audio_def unregisterClient_def Let_def)
qed

interpretation services: playback_providers usable_pipeline createMediaPipelineServerInternal deleteMediaPipeline good_pipeline
    usable_audio createWebAudioPlayerServerInternal deleteWebAudioPlayer good_audio ..

section \<open>The methods that forward to a session\<close>

type_synonym Service = "(MediaPipelineServer, WebAudioPlayerServer) PlaybackService"

text \<open>A call on a session of the media pipeline service. The outer option of a result is \<open>None\<close> when the main
  thread did not run the call.\<close>

definition forward :: "(MediaPipelineServer \<Rightarrow> 'r \<times> MediaPipelineServer) \<Rightarrow> MediaPipelineServer \<Rightarrow>
    SharedMemoryBuffer option \<Rightarrow> 'r \<times> MediaPipelineServer" where
  "forward call p shm = call (case shm of None \<Rightarrow> p | Some b \<Rightarrow> p\<lparr>p_shmBuffer := b\<rparr>)"

definition mps_load :: "int \<Rightarrow> bool \<Rightarrow> MediaType \<Rightarrow> Service \<Rightarrow> bool option \<times> Service" where
  "mps_load sessionId created type = onSession (Some False) sessionId (forward (load created type))"

definition mps_attachSource :: "int \<Rightarrow> MediaSource \<Rightarrow> Service \<Rightarrow> (bool \<times> MediaSource) option \<times> Service" where
  "mps_attachSource sessionId source = onSession (Some (False, source)) sessionId (forward (attachSource source))"

definition mps_removeSource :: "int \<Rightarrow> i32 \<Rightarrow> Service \<Rightarrow> bool option \<times> Service" where
  "mps_removeSource sessionId sourceId = onSession (Some False) sessionId (forward (removeSource sourceId))"

definition mps_play :: "int \<Rightarrow> Service \<Rightarrow> bool option \<times> Service" where
  "mps_play sessionId = onSession (Some False) sessionId (forward play)"

definition mps_pause :: "int \<Rightarrow> Service \<Rightarrow> bool option \<times> Service" where
  "mps_pause sessionId = onSession (Some False) sessionId (forward pause)"

definition mps_stop :: "int \<Rightarrow> Service \<Rightarrow> bool option \<times> Service" where
  "mps_stop sessionId = onSession (Some False) sessionId (forward stop)"

definition mps_setPlaybackRate :: "int \<Rightarrow> double \<Rightarrow> Service \<Rightarrow> bool option \<times> Service" where
  "mps_setPlaybackRate sessionId rate = onSession (Some False) sessionId (forward (setPlaybackRate rate))"

definition mps_setPosition :: "int \<Rightarrow> i64 \<Rightarrow> Service \<Rightarrow> bool option \<times> Service" where
  "mps_setPosition sessionId position = onSession (Some False) sessionId (forward (setPosition position))"

definition mps_getPosition :: "int \<Rightarrow> i64 option \<Rightarrow> Service \<Rightarrow> i64 option option \<times> Service" where
  "mps_getPosition sessionId reply = onSession (Some None) sessionId (forward (getPosition reply))"

definition mps_setVideoWindow :: "int \<Rightarrow> u32 \<Rightarrow> u32 \<Rightarrow> u32 \<Rightarrow> u32 \<Rightarrow> Service \<Rightarrow> bool option \<times> Service" where
  "mps_setVideoWindow sessionId x y width height =
     onSession (Some False) sessionId (forward (setVideoWindow x y width height))"

definition mps_haveData :: "int \<Rightarrow> MediaSourceStatus \<Rightarrow> u32 \<Rightarrow> u32 \<Rightarrow> Service \<Rightarrow> bool option \<times> Service" where
  "mps_haveData sessionId status numFrames needDataRequestId =
     onSession (Some False) sessionId (forward (haveDataShm status numFrames needDataRequestId))"

definition mps_renderFrame :: "int \<Rightarrow> Service \<Rightarrow> bool option \<times> Service" where
  "mps_renderFrame sessionId = onSession (Some False) sessionId (forward renderFrame)"

definition mps_setVolume :: "int \<Rightarrow> double \<Rightarrow> Service \<Rightarrow> bool option \<times> Service" where
  "mps_setVolume sessionId volume = onSession (Some False) sessionId (forward (setVolume volume))"

definition mps_getVolume :: "int \<Rightarrow> double option \<Rightarrow> Service \<Rightarrow> double option option \<times> Service" where
  "mps_getVolume sessionId reply = onSession (Some None) sessionId (forward (getVolume reply))"

text \<open>The methods of the web audio player service.\<close>

definition wap_play :: "int \<Rightarrow> Service \<Rightarrow> bool \<times> Service" where
  "wap_play handle = onWebAudioPlayer False handle playWebAudio"

definition wap_pause :: "int \<Rightarrow> Service \<Rightarrow> bool \<times> Service" where
  "wap_pause handle = onWebAudioPlayer False handle pauseWebAudio"

definition wap_setEos :: "int \<Rightarrow> Service \<Rightarrow> bool \<times> Service" where
  "wap_setEos handle = onWebAudioPlayer False handle setEosWebAudio"

definition wap_getBufferAvailable :: "int \<Rightarrow> bool \<Rightarrow> Service \<Rightarrow> (u32 \<times> WebAudioShmInfo) option \<times> Service" where
  "wap_getBufferAvailable handle webAudioShmInfo = onWebAudioPlayer None handle (getBufferAvailable webAudioShmInfo)"

definition wap_getBufferDelay :: "int \<Rightarrow> u64 \<Rightarrow> Service \<Rightarrow> u32 option option \<times> Service" where
  "wap_getBufferDelay handle queuedBytes = onWebAudioPlayer (Some None) handle (getBufferDelay queuedBytes)"

definition wap_writeBuffer :: "int \<Rightarrow> u32 \<Rightarrow> Service \<Rightarrow> bool option \<times> Service" where
  "wap_writeBuffer handle numberOfFrames = onWebAudioPlayer (Some False) handle (writeBuffer numberOfFrames)"

definition wap_getDeviceInfo :: "int \<Rightarrow> Service \<Rightarrow> (u32 \<times> u32 \<times> bool) option \<times> Service" where
  "wap_getDeviceInfo handle = onWebAudioPlayer None handle (\<lambda>p. (Some (getDeviceInfo p), p))"

definition wap_setVolume :: "int \<Rightarrow> double \<Rightarrow> Service \<Rightarrow> bool \<times> Service" where
  "wap_setVolume handle volume = onWebAudioPlayer False handle (setVolumeWebAudio volume)"

definition wap_getVolume :: "int \<Rightarrow> real option \<Rightarrow> Service \<Rightarrow> real option option \<times> Service" where
  "wap_getVolume handle reply = onWebAudioPlayer (Some None) handle (getVolumeWebAudio reply)"

section \<open>Every operation of the service\<close>

datatype ServiceOp =
    ActivateOp ShmSyscalls | DeactivateOp
  | CreateSessionOp PipelineEnv int | DestroySessionOp int
  | LoadOp int bool MediaType | AttachSourceOp int MediaSource | RemoveSourceOp int i32 | PlayOp int | PauseOp int
  | StopOp int | SetPlaybackRateOp int double | SetPositionOp int i64 | GetPositionOp int "i64 option"
  | SetVideoWindowOp int u32 u32 u32 u32 | HaveDataOp int MediaSourceStatus u32 u32 | RenderFrameOp int
  | SetVolumeOp int double | GetVolumeOp int "double option"
  | CreatePlayerOp WebAudioEnv int | DestroyPlayerOp int | PlayAudioOp int | PauseAudioOp int | SetEosOp int
  | GetBufferAvailableOp int bool | GetBufferDelayOp int u64 | WriteBufferOp int u32 | GetDeviceInfoOp int
  | SetAudioVolumeOp int double | GetAudioVolumeOp int "double option"

fun service_op :: "ServiceOp \<Rightarrow> Service \<Rightarrow> Service" where
  "service_op (ActivateOp sys) s = snd (playbackToActive sys s)"
| "service_op DeactivateOp s = playbackToInactive deleteMediaPipeline deleteWebAudioPlayer s"
| "service_op (CreateSessionOp e i) s = snd (createSession (createMediaPipelineServerInternal e) i s)"
| "service_op (DestroySessionOp i) s = snd (destroySession deleteMediaPipeline i s)"
| "service_op (LoadOp i created t) s = snd (mps_load i created t s)"
| "service_op (AttachSourceOp i source) s = snd (mps_attachSource i source s)"
| "service_op (RemoveSourceOp i k) s = snd (mps_removeSource i k s)"
| "service_op (PlayOp i) s = snd (mps_play i s)"
| "service_op (PauseOp i) s = snd (mps_pause i s)"
| "service_op (StopOp i) s = snd (mps_stop i s)"
| "service_op (SetPlaybackRateOp i rate) s = snd (mps_setPlaybackRate i rate s)"
| "service_op (SetPositionOp i pos) s = snd (mps_setPosition i pos s)"
| "service_op (GetPositionOp i reply) s = snd (mps_getPosition i reply s)"
| "service_op (SetVideoWindowOp i x y w h) s = snd (mps_setVideoWindow i x y w h s)"
| "service_op (HaveDataOp i status n r) s = snd (mps_haveData i status n r s)"
| "service_op (RenderFrameOp i) s = snd (mps_renderFrame i s)"
| "service_op (SetVolumeOp i v) s = snd (mps_setVolume i v s)"
| "service_op (GetVolumeOp i reply) s = snd (mps_getVolume i reply s)"
| "service_op (CreatePlayerOp e i) s = snd (createWebAudioPlayer (createWebAudioPlayerServerInternal e) i s)"
| "service_op (DestroyPlayerOp i) s = snd (destroyWebAudioPlayer deleteWebAudioPlayer i s)"
| "service_op (PlayAudioOp i) s = snd (wap_play i s)"
| "service_op (PauseAudioOp i) s = snd (wap_pause i s)"
| "service_op (SetEosOp i) s = snd (wap_setEos i s)"
| "service_op (GetBufferAvailableOp i b) s = snd (wap_getBufferAvailable i b s)"
| "service_op (GetBufferDelayOp i q) s = snd (wap_getBufferDelay i q s)"
| "service_op (WriteBufferOp i n) s = snd (wap_writeBuffer i n s)"
| "service_op (GetDeviceInfoOp i) s = snd (wap_getDeviceInfo i s)"
| "service_op (SetAudioVolumeOp i v) s = snd (wap_setVolume i v s)"
| "service_op (GetAudioVolumeOp i reply) s = snd (wap_getVolume i reply s)"

text \<open>The session server activates only when it is not active, and ids of sessions are not the mark of a free
  partition; a factory finds a main thread that serves it and, for web audio, a player.\<close>

fun admissible :: "ServiceOp \<Rightarrow> Service \<Rightarrow> bool" where
  "admissible (ActivateOp sys) s = (\<not> ps_isActive s)"
| "admissible (CreateSessionOp e i) s = (usable_pipeline e \<and> i \<noteq> NO_ID_ASSIGNED)"
| "admissible (CreatePlayerOp e i) s = (usable_audio e \<and> i \<noteq> NO_ID_ASSIGNED)"
| "admissible _ s = True"

abbreviation service_inv :: "Service \<Rightarrow> bool" where
  "service_inv \<equiv> playback_inv good_pipeline good_audio"

lemma respond_keeps:
  assumes "on_thread s"
  shows "on_thread (snd (respond r s)) \<and> p_sessionId (snd (respond r s)) = p_sessionId s"
proof (cases r)
  case (NeedMediaDataReq t)
  then show ?thesis
    using assms notifyNeedMediaDataInternal_frame [of s t] by (simp add: same_frame_def on_thread_def)
qed (use assms in \<open>simp_all add: control_defs loadInternal_def attachSourceInternal_def removeSourceInternal_def
  haveDataInternal_def haveDataShmInternal_def addSegmentInternal_def scheduleNotifyNeedMediaData_def notifyNetworkState_def
  notifyPlaybackState_def post_def enqueueTask_def generateSourceId_def output_defs on_thread_def Let_def case_prod_beta
  split: option.split\<close>)

lemma forward_good:
  assumes p: "good_pipeline i p" and task: "\<And>s. on_thread s \<Longrightarrow> on_thread (snd (task s)) \<and> p_sessionId (snd (task s)) = p_sessionId s"
  shows "good_pipeline i (snd (forward (onMainThread task) p b))"
proof -
  have on: "on_thread (p\<lparr>p_shmBuffer := b'\<rparr>)" "p_sessionId (p\<lparr>p_shmBuffer := b'\<rparr>) = i" for b'
    using p by (auto simp: good_pipeline_def on_thread_def)
  have "good_pipeline i (snd (onMainThread task p'))" if "on_thread p'" "p_sessionId p' = i" for p'
    using pipeline_wait [OF that(1), of task] that(2) task by (auto simp: good_pipeline_def same_session_def)
  then show ?thesis using on p by (cases b) (simp_all add: forward_def good_pipeline_def)
qed

lemma request_good:
  assumes "good_pipeline i p" and "\<And>s. snd (task s) = snd (respond r s)"
  shows "good_pipeline i (snd (forward (onMainThread task) p b))"
  by (rule forward_good [OF assms(1)]) (simp add: assms(2) respond_keeps)

lemma audio_call_good:
  assumes p: "good_audio i p" and task: "\<And>s. audio_on_thread s \<Longrightarrow> audio_on_thread (snd (task s)) \<and> w_shmId (snd (task s)) = w_shmId s"
  shows "good_audio i (snd (onWebAudioThread task p))"
  using audio_wait [of p task] p task by (auto simp: good_audio_def same_audio_def)

lemma audio_post_good: "good_audio i p \<Longrightarrow> good_audio i (postWebAudio t p)"
  by (simp add: good_audio_def audio_on_thread_def postWebAudio_def enqueueTask_def)

lemma writeBufferInternal_keeps:
  "audio_on_thread s \<Longrightarrow> audio_on_thread (snd (writeBufferInternal n s)) \<and> w_shmId (snd (writeBufferInternal n s)) = w_shmId s"
  using writeBufferInternal_same [of s n] by (simp add: audio_on_thread_def same_player_def)

lemma session_request_inv:
  assumes "service_inv s" and "\<And>s. snd (task s) = snd (respond r s)"
  shows "service_inv (snd (onSession m i (forward (onMainThread task)) s))"
  by (rule services.onSession_inv [OF assms(1)]) (rule request_good [OF _ assms(2)])

lemma session_query_inv:
  assumes "service_inv s" and "\<And>s. snd (task s) = s"
  shows "service_inv (snd (onSession m i (forward (onMainThread task)) s))"
  by (rule services.onSession_inv [OF assms(1)], erule forward_good) (simp add: assms(2))

lemma player_call_inv:
  assumes "service_inv s" and "\<And>s. audio_on_thread s \<Longrightarrow> audio_on_thread (snd (task s)) \<and> w_shmId (snd (task s)) = w_shmId s"
  shows "service_inv (snd (onWebAudioPlayer m i (onWebAudioThread task) s))"
  by (rule services.onWebAudioPlayer_inv [OF assms(1)]) (rule audio_call_good [OF _ assms(2)])

lemma player_post_inv:
  assumes "service_inv s" and "\<And>p. good_audio i p \<Longrightarrow> good_audio i (snd (call p))"
  shows "service_inv (snd (onWebAudioPlayer m i call s))"
  by (rule services.onWebAudioPlayer_inv [OF assms]) assumption

lemmas mps_defs = mps_load_def mps_attachSource_def mps_removeSource_def mps_play_def mps_pause_def mps_stop_def
  mps_setPlaybackRate_def mps_setPosition_def mps_getPosition_def mps_setVideoWindow_def mps_haveData_def
  mps_renderFrame_def mps_setVolume_def mps_getVolume_def

lemmas pipeline_method_defs = load_def attachSource_def removeSource_def play_def pause_def stop_def setPlaybackRate_def
  setPosition_def getPosition_def setVideoWindow_def haveDataShm_def renderFrame_def setVolume_def getVolume_def

lemma mps_inv:
  assumes "service_inv s"
  shows "service_inv (snd (mps_load i created t s))" "service_inv (snd (mps_attachSource i source s))"
    "service_inv (snd (mps_removeSource i k s))" "service_inv (snd (mps_play i s))" "service_inv (snd (mps_pause i s))"
    "service_inv (snd (mps_stop i s))" "service_inv (snd (mps_setPlaybackRate i rate s))"
    "service_inv (snd (mps_setPosition i pos s))" "service_inv (snd (mps_getPosition i reply s))"
    "service_inv (snd (mps_setVideoWindow i x y w h s))" "service_inv (snd (mps_haveData i status n r s))"
    "service_inv (snd (mps_renderFrame i s))" "service_inv (snd (mps_setVolume i v s))"
    "service_inv (snd (mps_getVolume i vol s))"
  unfolding mps_defs pipeline_method_defs
  subgoal by (rule session_request_inv [OF assms, of _ "LoadReq created t"]) simp
  subgoal by (rule session_request_inv [OF assms, of _ "AttachSourceReq source"]) simp
  subgoal by (rule session_request_inv [OF assms, of _ "RemoveSourceReq k"]) simp
  subgoal by (rule session_request_inv [OF assms, of _ PlayReq]) simp
  subgoal by (rule session_request_inv [OF assms, of _ PauseReq]) simp
  subgoal by (rule session_request_inv [OF assms, of _ StopReq]) simp
  subgoal by (rule session_request_inv [OF assms, of _ "SetPlaybackRateReq rate"]) simp
  subgoal by (rule session_request_inv [OF assms, of _ "SetPositionReq pos"]) simp
  subgoal by (rule session_query_inv [OF assms]) (simp add: getPositionInternal_def)
  subgoal by (rule session_request_inv [OF assms, of _ "SetVideoWindowReq x y w h"]) simp
  subgoal by (rule session_request_inv [OF assms, of _ "HaveDataShmReq status n r"]) simp
  subgoal by (rule session_request_inv [OF assms, of _ RenderFrameReq]) simp
  subgoal by (rule session_request_inv [OF assms, of _ "SetVolumeReq v"]) simp
  subgoal by (rule session_query_inv [OF assms]) (simp add: getVolumeInternal_def)
  done

lemma wap_inv:
  assumes "service_inv s"
  shows "service_inv (snd (wap_play i s))" "service_inv (snd (wap_pause i s))" "service_inv (snd (wap_setEos i s))"
    "service_inv (snd (wap_getBufferAvailable i b s))" "service_inv (snd (wap_getBufferDelay i q s))"
    "service_inv (snd (wap_writeBuffer i n s))" "service_inv (snd (wap_getDeviceInfo i s))"
    "service_inv (snd (wap_setVolume i v s))" "service_inv (snd (wap_getVolume i reply s))"
  unfolding wap_play_def wap_pause_def wap_setEos_def wap_getBufferAvailable_def wap_getBufferDelay_def wap_writeBuffer_def
    wap_getDeviceInfo_def wap_setVolume_def wap_getVolume_def getBufferDelay_def writeBuffer_def getVolumeWebAudio_def
  subgoal by (rule player_post_inv [OF assms]) (simp add: playWebAudio_def audio_post_good)
  subgoal by (rule player_post_inv [OF assms]) (simp add: pauseWebAudio_def audio_post_good)
  subgoal by (rule player_post_inv [OF assms]) (simp add: setEosWebAudio_def audio_post_good)
  subgoal
    by (rule player_post_inv [OF assms])
      (auto simp: getBufferAvailable_def intro!: audio_call_good simp: bufferAvailableTask_def Let_def audio_on_thread_def)
  subgoal by (rule player_call_inv [OF assms]) (simp add: bufferDelayTask_def Let_def)
  subgoal by (rule player_call_inv [OF assms]) (rule writeBufferInternal_keeps)
  subgoal by (rule player_post_inv [OF assms]) simp
  subgoal
    by (rule player_post_inv [OF assms])
      (simp add: setVolumeWebAudio_def good_audio_def audio_on_thread_def postWebAudio_def enqueueTask_def)
  subgoal by (rule player_call_inv [OF assms]) simp
  done

lemma service_op_inv:
  assumes "service_inv s" and "admissible x s"
  shows "service_inv (service_op x s)"
  using assms
  by (cases x) (simp_all add: playbackToActive_inv playbackToInactive_inv services.createSession_ok(2)
      services.createWebAudioPlayer_ok(2) services.destroySession_inv services.destroyWebAudioPlayer_inv mps_inv wap_inv)

text \<open>A run in which every operation is admissible when it happens.\<close>

inductive service_run :: "Service \<Rightarrow> Service \<Rightarrow> bool" where
  service_start: "service_run s s"
| service_next: "service_run s s' \<Longrightarrow> admissible x s' \<Longrightarrow> service_run s (service_op x s')"

inductive_cases service_runE: "service_run s s'"

lemma service_run_inv: "service_run s s' \<Longrightarrow> service_inv s \<Longrightarrow> service_inv s'"
  by (induction rule: service_run.induct) (auto intro: service_op_inv)

definition configuredService :: "int \<Rightarrow> int \<Rightarrow> Service" where
  "configuredService maxPlaybacks maxWebAudio = setMaxWebAudioPlayers maxWebAudio (setMaxPlaybacks maxPlaybacks newPlaybackService)"

lemma configured_inv:
  "0 \<le> n \<Longrightarrow> 0 \<le> k \<Longrightarrow> n * 8388608 + k * 10240 < 2 ^ 31 \<Longrightarrow> service_inv (configuredService n k)"
  by (simp add: configuredService_def setMaxPlaybacks_def setMaxWebAudioPlayers_def newPlaybackService_def playback_inv_def limits_ok_def)

section \<open>A player that cannot be created\<close>

lemma failed_player_keeps_partition:
  assumes "audio_request_ok e" and "\<not> we_created e" and "fit_shm b" and "i \<noteq> NO_ID_ASSIGNED"
  shows "createWebAudioPlayerServerInternal e i b = (None, snd (mapPartition WEB_AUDIO i b))"
  using audio_construction_eq [OF assms(1,3,4)] assms(2) by (auto simp: createWebAudioPlayerServerInternal_def)

lemma create_without_partition:
  assumes inv: "ps_isActive s" "ps_shmBuffer s = Some b" "fit_shm b" and "free_count WEB_AUDIO b = 0" and "\<not> is_mapped WEB_AUDIO j b"
    and e: "audio_request_ok e" and j: "j \<noteq> NO_ID_ASSIGNED"
  shows "\<not> fst (createWebAudioPlayer (createWebAudioPlayerServerInternal e) j s)"
proof -
  have "\<not> fst (mapPartition WEB_AUDIO j b)" using assms(4,5) shm.map_result [OF j] by simp
  then have "fst (createWebAudioPlayerServerInternal e j b) = None"
    using audio_construction_eq [OF e inv(3) j] by (auto simp: createWebAudioPlayerServerInternal_def)
  then show ?thesis using inv by (simp add: createWebAudioPlayer_def case_prod_beta)
qed

section \<open>Properties\<close>

text \<open>C14. In every state the playback service reaches, whatever sessions are created, used and destroyed and however
  often the server is activated, an inactive service holds no session and no buffer, and the partitions of an active
  service are mapped exactly for its sessions, of which there are never more than configured. The pipeline, or the player,
  of every session has the id of the session and is registered with a main thread that runs and has not been told to stop.
  The operations of a run are admissible: the server is only activated when it is inactive, sessions get ids other than the
  mark of a free partition, and for every one of them there are a running main thread, a client and,
  for web audio, a configuration of raw audio and a player.\<close>

theorem service_invariant:
  assumes "0 \<le> n" and "0 \<le> k" and "n * 8388608 + k * 10240 < 2 ^ 31" and "service_run (configuredService n k) s"
  shows "if ps_isActive s
    then \<exists>b. ps_shmBuffer s = Some b \<and> shm_inv b \<and>
      (\<forall>i. is_mapped GENERIC i b \<longleftrightarrow> map_of (ps_mediaPipelines s) i \<noteq> None) \<and>
      (\<forall>i. is_mapped WEB_AUDIO i b \<longleftrightarrow> map_of (ps_webAudioPlayers s) i \<noteq> None) \<and>
      (\<forall>i p. map_of (ps_mediaPipelines s) i = Some p \<longrightarrow> p_sessionId p = i \<and> on_thread p) \<and>
      (\<forall>i p. map_of (ps_webAudioPlayers s) i = Some p \<longrightarrow> w_shmId p = i \<and> audio_on_thread p) \<and>
      length (ps_mediaPipelines s) + free_count GENERIC b = nat (ps_maxPlaybacks s) \<and>
      length (ps_webAudioPlayers s) + free_count WEB_AUDIO b = nat (ps_maxWebAudioPlayers s)
    else ps_shmBuffer s = None \<and> ps_mediaPipelines s = [] \<and> ps_webAudioPlayers s = []"
  using service_run_inv [OF assms(4) configured_inv [OF assms(1-3)]]
  by (auto simp: playback_inv_def sessions_ok_def fit_shm_def good_pipeline_def good_audio_def split: if_splits)

text \<open>C36. In every state an admissible run reaches, a media session with a running main thread and a client is created exactly if
  the server is active, the id is new and the limit is not reached: the limit of the service and the number of partitions
  always agree, so mapping the partition never fails.\<close>

theorem session_created_iff:
  assumes "0 \<le> n" and "0 \<le> k" and "n * 8388608 + k * 10240 < 2 ^ 31" and "service_run (configuredService n k) s"
    and "usable_pipeline e" and "i \<noteq> NO_ID_ASSIGNED"
  shows "fst (createSession (createMediaPipelineServerInternal e) i s) \<longleftrightarrow>
    ps_isActive s \<and> map_of (ps_mediaPipelines s) i = None \<and> length (ps_mediaPipelines s) < nat (ps_maxPlaybacks s)"
  by (rule services.createSession_ok(1)) (rule service_run_inv [OF assms(4) configured_inv [OF assms(1-3)]] assms(5,6))+

text \<open>When GStreamer does not supply a web audio player, the constructor fails after it has mapped the partition
  and nobody unmaps it: the service has no player, yet a later request under another handle is refused.\<close>

theorem web_audio_partition_leak:
  assumes "service_inv s" and "ps_isActive s" and "ps_maxWebAudioPlayers s = 1" and "ps_webAudioPlayers s = []"
    and "audio_request_ok e" and "\<not> we_created e" and "usable_audio e'"
    and "i \<noteq> NO_ID_ASSIGNED" and "j \<noteq> NO_ID_ASSIGNED" and "i \<noteq> j"
    and "createWebAudioPlayer (createWebAudioPlayerServerInternal e) i s = (ok, s')"
  shows "\<not> ok \<and> ps_webAudioPlayers s' = [] \<and>
    \<not> fst (createWebAudioPlayer (createWebAudioPlayerServerInternal e') j s')"
proof -
  obtain b where b: "ps_shmBuffer s = Some b" "fit_shm b" "sessions_ok WEB_AUDIO good_audio 1 [] b"
    using assms(1-4) by (auto simp: playback_inv_def)
  let ?b = "snd (mapPartition WEB_AUDIO i b)"
  have free: "free_count WEB_AUDIO b = 1" "\<not> is_mapped WEB_AUDIO i b" "\<not> is_mapped WEB_AUDIO j b"
    using b(3) by (simp_all add: sessions_ok_def)
  then have m: "fst (mapPartition WEB_AUDIO i b)" using shm.map_result [OF assms(8)] by simp
  have "free_count WEB_AUDIO ?b = 0" "\<not> is_mapped WEB_AUDIO j ?b"
    using shm.map_free [OF assms(8) m] shm.map_mapped [OF assms(8) m] free assms(10) by auto
  moreover have "\<not> at_limit ([] :: (int \<times> WebAudioPlayerServer) list) 1" by (simp add: at_limit_def)
  then have "(ok, s') = (False, s\<lparr>ps_shmBuffer := Some ?b\<rparr>)"
    using assms(2-4,11) b(1) failed_player_keeps_partition [OF assms(5,6) b(2) assms(8)]
    by (simp add: createWebAudioPlayer_def)
  ultimately show ?thesis
    using create_without_partition [of s' ?b j e'] assms(2,4,7,9) fit_shm_map [OF b(2)] by (simp add: usable_audio_def)
qed

text \<open>Destroying a session undoes its creation: the sessions and the mapped partitions are as before.\<close>

theorem session_create_destroy:
  assumes "service_inv s" and "usable_pipeline e" and "i \<noteq> NO_ID_ASSIGNED"
    and "createSession (createMediaPipelineServerInternal e) i s = (True, s')"
    and "destroySession deleteMediaPipeline i s' = (ok, s'')" and "ps_shmBuffer s = Some b"
  shows "ok \<and> ps_mediaPipelines s'' = ps_mediaPipelines s \<and> ps_webAudioPlayers s'' = ps_webAudioPlayers s \<and>
    (\<exists>b''. ps_shmBuffer s'' = Some b'' \<and> shm_inv b'' \<and> (\<forall>t j. is_mapped t j b'' = is_mapped t j b))"
proof -
  let ?xs = "ps_mediaPipelines s"
  have act: "ps_isActive s" "map_of ?xs i = None" "length ?xs < nat (ps_maxPlaybacks s)"
    and fit: "fit_shm b" "sessions_ok GENERIC good_pipeline (nat (ps_maxPlaybacks s)) ?xs b"
    using services.createSession_ok(1) [OF assms(1-3)] assms(1,4,6) by (auto simp: playback_inv_def)
  obtain p where p: "createMediaPipelineServerInternal e i b = (Some p, snd (mapPartition GENERIC i b))" "good_pipeline i p"
      "fst (mapPartition GENERIC i b)"
    using pipelines.create [OF assms(2) fit(1) assms(3) fit(2) act(2)] act(3) by auto
  have s': "s' = s\<lparr>ps_shmBuffer := Some (snd (mapPartition GENERIC i b)), ps_mediaPipelines := emplace i p ?xs\<rparr>"
    using assms(4,6) act p(1) by (auto simp: createSession_def split: if_splits)
  have std: "std_map ?xs" "\<not> is_mapped GENERIC i b" using fit(2) act(2) by (simp_all add: sessions_ok_def)
  have "ok \<and> s'' = s'\<lparr>ps_shmBuffer := Some (snd (unmapPartition GENERIC i (snd (mapPartition GENERIC i b)))),
      ps_mediaPipelines := ?xs\<rparr>"
    using assms(5) s' act(2) p(2) pipelines.del_unmaps [OF fit_shm_map [OF fit(1)]] erase_emplace [OF std(1) act(2)]
    by (auto simp: destroySession_def)
  then show ?thesis
    using s' shm.map_then_unmap(1) [of b i GENERIC] assms(3) p(3) std(2) fit(1)
    by (auto simp: fit_shm_def unmapPartition_inv mapPartition_inv)
qed

section \<open>Witnesses\<close>

definition demo_penv :: PipelineEnv where
  "demo_penv = \<lparr>pe_mainThread = Some newMainThread, pe_client = True, pe_mem = (\<lambda>_. 9), pe_sourceId = 1\<rparr>"

definition demo_aenv :: "bool \<Rightarrow> WebAudioEnv" where
  "demo_aenv created = \<lparr>we_mainThread = Some newMainThread, we_client = True, we_mimeType = ''audio/x-raw'', we_priority = 1,
     we_config = Some \<lparr>pcm_rate = 48000, pcm_channels = 2, pcm_sampleSize = 16, pcm_isBigEndian = False, pcm_isSigned = True,
       pcm_isFloat = False\<rparr>, we_mem = (\<lambda>_. 0), we_created = created,
     we_replies = (\<lambda>_. \<lparr>as_level = 0, as_allocated = True, as_pushed = True, as_timeout = False\<rparr>)\<rparr>"

definition demo_service :: Service where
  "demo_service = snd (playbackToActive demo_sys (configuredService 2 1))"

lemma demo_envs: "usable_pipeline demo_penv" "audio_request_ok (demo_aenv c)" "usable_audio (demo_aenv True)" "\<not> we_created (demo_aenv False)"
  by (simp_all add: usable_pipeline_def demo_penv_def usable_audio_def audio_request_ok_def demo_aenv_def thread_ready_def newMainThread_def)

lemma demo_service_eq:
  "demo_service = \<lparr>ps_shmBuffer = Some demo_shm, ps_isActive = True, ps_maxPlaybacks = 2, ps_maxWebAudioPlayers = 1,
     ps_mediaPipelines = [], ps_webAudioPlayers = []\<rparr>"
  using demo_new
  by (simp add: demo_service_def playbackToActive_def configuredService_def setMaxPlaybacks_def setMaxWebAudioPlayers_def
      newPlaybackService_def)

lemma demo_service_run: "service_run (configuredService 2 1) demo_service"
  using service_next [OF service_start, of "ActivateOp demo_sys" "configuredService 2 1"]
  by (simp add: demo_service_def configuredService_def setMaxPlaybacks_def setMaxWebAudioPlayers_def newPlaybackService_def)

lemma demo_service_inv: "service_inv demo_service"
  by (rule service_run_inv [OF demo_service_run configured_inv]) simp_all

theorem service_invariant_witness:
  "let s = service_op (CreateSessionOp demo_penv 7) demo_service
   in \<exists>b p. ps_shmBuffer s = Some b \<and> is_mapped GENERIC 7 b \<and> map_of (ps_mediaPipelines s) 7 = Some p \<and> on_thread p"
proof -
  let ?c = "createSession (createMediaPipelineServerInternal demo_penv) 7 demo_service"
  let ?s = "service_op (CreateSessionOp demo_penv 7) demo_service"
  have run: "service_run (configuredService 2 1) ?s"
    by (rule service_next [OF demo_service_run]) (simp add: demo_envs NO_ID_ASSIGNED_def)
  have "fst ?c"
    using services.createSession_ok(1) [OF demo_service_inv demo_envs(1), of 7] by (simp add: demo_service_eq NO_ID_ASSIGNED_def)
  then have "ps_isActive ?s \<and> (\<exists>p. map_of (ps_mediaPipelines ?s) 7 = Some p)"
    by (auto simp: createSession_def demo_service_eq emplace_def Let_def case_prod_beta split: if_splits option.splits)
  with service_invariant [OF _ _ _ run] show ?thesis unfolding Let_def by auto
qed

theorem session_created_iff_witness:
  "fst (createSession (createMediaPipelineServerInternal demo_penv) 7 demo_service)"
  using session_created_iff [OF _ _ _ demo_service_run demo_envs(1), of 7] by (simp add: demo_service_eq NO_ID_ASSIGNED_def)

theorem web_audio_partition_leak_witness:
  "\<not> fst (createWebAudioPlayer (createWebAudioPlayerServerInternal (demo_aenv True)) 6
     (snd (createWebAudioPlayer (createWebAudioPlayerServerInternal (demo_aenv False)) 5 demo_service)))"
proof -
  obtain ok s' where s': "createWebAudioPlayer (createWebAudioPlayerServerInternal (demo_aenv False)) 5 demo_service = (ok, s')"
    by (metis surj_pair)
  show ?thesis
    using web_audio_partition_leak [OF demo_service_inv _ _ _ demo_envs(2) demo_envs(4) demo_envs(3) _ _ _ s', of 6] s'
    by (simp add: demo_service_eq NO_ID_ASSIGNED_def)
qed

theorem session_create_destroy_witness:
  "\<exists>s' s''. createSession (createMediaPipelineServerInternal demo_penv) 7 demo_service = (True, s') \<and>
    destroySession deleteMediaPipeline 7 s' = (True, s'') \<and> ps_mediaPipelines s'' = []"
proof -
  let ?c = "createSession (createMediaPipelineServerInternal demo_penv) 7 demo_service"
  have "fst ?c"
    using services.createSession_ok(1) [OF demo_service_inv demo_envs(1), of 7] by (simp add: demo_service_eq NO_ID_ASSIGNED_def)
  then obtain s' where s': "?c = (True, s')" by (metis prod.collapse)
  obtain ok s'' where s'': "destroySession deleteMediaPipeline 7 s' = (ok, s'')" by (metis surj_pair)
  have "ps_shmBuffer demo_service = Some demo_shm" "ps_mediaPipelines demo_service = []" by (simp_all add: demo_service_eq)
  then show ?thesis
    using session_create_destroy [OF demo_service_inv demo_envs(1) _ s' s''] s' s'' by (simp add: NO_ID_ASSIGNED_def)
qed

end
