(* ===== verification/Media_Keys.thy ===== *)
theory Media_Keys
  imports Std_Map Media_Common Main_Thread
begin

text \<open>
  Key sessions of the session server (\<open>media/server/main/source/MediaKeySession.cpp\<close>) and the media keys objects
  that own them (\<open>media/server/main/source/MediaKeysServerInternal.cpp\<close>). The calls of \<open>IOcdmSession\<close> and
  \<open>IOcdmSystem\<close> are recorded, and their answers, in the order of the calls, are an input of the model; the wrappers
  that give them are modelled in \<open>Ocdm_Wrapper\<close>.
\<close>

section \<open>Types\<close>

datatype KeySessionType = KST_UNKNOWN | KST_TEMPORARY | KST_PERSISTENT_LICENCE | KST_PERSISTENT_RELEASE_MESSAGE

datatype InitDataType = IDT_UNKNOWN | IDT_CENC | IDT_KEY_IDS | IDT_WEBM | IDT_DRMHEADER

datatype KeyStatus = KS_USABLE | KS_EXPIRED | KS_OUTPUT_RESTRICTED | KS_PENDING | KS_INTERNAL_ERROR | KS_RELEASED

type_synonym KeyStatusVector = "(u8 list \<times> KeyStatus) list"

text \<open>The calls on the OCDM session and system; lengths that the interface takes in eight bits are arguments.\<close>

datatype OcdmCall =
    OC_constructSession KeySessionType InitDataType "u8 list" | OC_getChallengeData bool "u32 option"
  | OC_storeLicenseData "u8 list" | OC_load | OC_update "u8 list" | OC_decrypt u32 u32 | OC_remove | OC_close
  | OC_cancelChallengeData | OC_cleanDecryptContext | OC_destructSession | OC_getStatus "u8 list"
  | OC_getCdmKeySessionId | OC_selectKeyId u8 "u8 list" | OC_hasKeyId "u8 list" u8 | OC_setDrmHeader "u8 list"
  | OC_getLastDrmError | OS_createSession | OS_deleteSecureStore | OS_deleteKeyStore | OS_getSecureStoreHash u32
  | OS_getKeyStoreHash u32 | OS_getLdlSessionsLimit | OS_getDrmTime

text \<open>What a call answers: a status, and the value the particular call produces.\<close>

record OcdmReply =
  or_status :: MediaKeyErrorStatus
  or_bytes :: "u8 list"
  or_value :: u64
  or_keyStatus :: KeyStatus

datatype KeyEvent =
    KE_ocdm int OcdmCall
  | KE_licenseRequest int "u8 list" string | KE_licenseRenewal int "u8 list" | KE_keyStatusesChanged int KeyStatusVector

datatype KeyTask =
    GetChallengeTask int | ProcessChallengeTask int "u8 list" string | KeyUpdatedTask int "u8 list" | AllKeysUpdatedTask int

text \<open>The members of \<open>MediaKeySession\<close>; \<open>ks_client\<close> says whether the weak pointer to the client can be locked.\<close>

record MediaKeySession =
  ks_keySystem :: string
  ks_keySessionId :: int
  ks_sessionType :: KeySessionType
  ks_client :: bool
  ks_isLDL :: bool
  ks_isSessionConstructed :: bool
  ks_licenseRequested :: bool
  ks_updatedKeyStatuses :: KeyStatusVector
  ks_mainThreadClientId :: u32
  ks_selectedKeyId :: "u8 list"

record MediaKeySessionUsage =
  mu_mediaKeySession :: MediaKeySession
  mu_bufCounter :: u32
  mu_shouldBeDestroyed :: bool

text \<open>The members of \<open>MediaKeysServerInternal\<close>, the counter of \<open>generateSessionId\<close>, OCDM's answers with the number
  used so far, and what has been called and sent.\<close>

record MediaKeysServer = "KeyTask MainThread" +
  k_ocdmSystem :: bool
  k_mediaKeySessions :: "(int \<times> MediaKeySessionUsage) list"
  k_keySystem :: string
  k_mainThreadClientId :: u32
  k_keySessionId :: int
  k_replies :: "nat \<Rightarrow> OcdmReply"
  k_calls :: nat
  k_out :: "KeyEvent list"

definition kNetflixKeySystem :: string where "kNetflixKeySystem = ''com.netflix.playready''"

definition ocdm :: "int \<Rightarrow> OcdmCall \<Rightarrow> MediaKeysServer \<Rightarrow> OcdmReply \<times> MediaKeysServer" where
  "ocdm i c s = (k_replies s (k_calls s), s\<lparr>k_calls := Suc (k_calls s), k_out := k_out s @ [KE_ocdm i c]\<rparr>)"

definition notify :: "KeyEvent \<Rightarrow> MediaKeysServer \<Rightarrow> MediaKeysServer" where
  "notify e s = s\<lparr>k_out := k_out s @ [e]\<rparr>"

section \<open>A key session\<close>

text \<open>\<open>MediaKeySession\<close>'s constructor; \<open>None\<close> is the exception when OCDM creates no session. The registration with
  the main thread has happened by then.\<close>

definition newMediaKeySession :: "string \<Rightarrow> int \<Rightarrow> KeySessionType \<Rightarrow> bool \<Rightarrow> bool \<Rightarrow> MediaKeysServer \<Rightarrow>
    MediaKeySession option \<times> MediaKeysServer" where
  "newMediaKeySession keySystem keySessionId sessionType client isLDL s =
     (let (clientId, s) = registerClient s;
          (r, s) = ocdm keySessionId OS_createSession s
      in if or_status r \<noteq> MKE_OK then (None, s)
         else (Some \<lparr>ks_keySystem = keySystem, ks_keySessionId = keySessionId, ks_sessionType = sessionType,
                     ks_client = client, ks_isLDL = isLDL, ks_isSessionConstructed = False, ks_licenseRequested = False,
                     ks_updatedKeyStatuses = [], ks_mainThreadClientId = clientId, ks_selectedKeyId = []\<rparr>, s))"

definition getChallenge :: "MediaKeySession \<Rightarrow> MediaKeysServer \<Rightarrow> MediaKeysServer" where
  "getChallenge ses s = enqueueTask (ks_mainThreadClientId ses) (ClientTask (GetChallengeTask (ks_keySessionId ses))) s"

definition ks_generateRequest :: "InitDataType \<Rightarrow> u8 list \<Rightarrow> MediaKeySession \<Rightarrow> MediaKeysServer \<Rightarrow>
    MediaKeyErrorStatus \<times> MediaKeySession \<times> MediaKeysServer" where
  "ks_generateRequest initDataType initData ses s =
     (let ses = ses\<lparr>ks_licenseRequested := True\<rparr> in
      if \<not> ks_isSessionConstructed ses then
        let (r, s) = ocdm (ks_keySessionId ses) (OC_constructSession (ks_sessionType ses) initDataType initData) s
        in if or_status r \<noteq> MKE_OK then (or_status r, ses\<lparr>ks_licenseRequested := False\<rparr>, s)
           else (or_status r, ses\<lparr>ks_isSessionConstructed := True\<rparr>,
                 if ks_keySystem ses = kNetflixKeySystem then getChallenge ses s else s)
      else (MKE_OK, ses, s))"

text \<open>The calls that only pass OCDM's status on.\<close>

definition ks_pass :: "OcdmCall \<Rightarrow> MediaKeySession \<Rightarrow> MediaKeysServer \<Rightarrow> MediaKeyErrorStatus \<times> MediaKeySession \<times> MediaKeysServer" where
  "ks_pass c ses s = (let (r, s) = ocdm (ks_keySessionId ses) c s in (or_status r, ses, s))"

definition ks_loadSession where "ks_loadSession = ks_pass OC_load"

definition ks_updateSession :: "u8 list \<Rightarrow> MediaKeySession \<Rightarrow> MediaKeysServer \<Rightarrow> MediaKeyErrorStatus \<times> MediaKeySession \<times> MediaKeysServer" where
  "ks_updateSession responseData ses s =
     (if ks_keySystem ses = kNetflixKeySystem then ks_pass (OC_storeLicenseData responseData) ses s
      else ks_pass (OC_update responseData) ses s)"

definition ks_decrypt where "ks_decrypt subSampleCount initWithLast15 = ks_pass (OC_decrypt subSampleCount initWithLast15)"

definition ks_closeKeySession :: "MediaKeySession \<Rightarrow> MediaKeysServer \<Rightarrow> MediaKeyErrorStatus \<times> MediaKeySession \<times> MediaKeysServer" where
  "ks_closeKeySession ses s =
     (let i = ks_keySessionId ses;
          (failed, s) = (if ks_keySystem ses = kNetflixKeySystem
                         then (None, snd (ocdm i OC_cleanDecryptContext (snd (ocdm i OC_cancelChallengeData s))))
                         else let (r, s) = ocdm i OC_close s
                              in (if or_status r \<noteq> MKE_OK then Some (or_status r) else None, s))
      in case failed of
           Some status \<Rightarrow> (status, ses, s)
         | None \<Rightarrow> (let (r, s) = ocdm i OC_destructSession s
                   in (or_status r, if or_status r \<noteq> MKE_OK then ses else ses\<lparr>ks_isSessionConstructed := False\<rparr>, s)))"

definition ks_removeKeySession where "ks_removeKeySession = ks_pass OC_remove"

definition ks_getCdmKeySessionId :: "MediaKeySession \<Rightarrow> MediaKeysServer \<Rightarrow> (MediaKeyErrorStatus \<times> u8 list) \<times> MediaKeysServer" where
  "ks_getCdmKeySessionId ses s =
     (let (r, s) = ocdm (ks_keySessionId ses) OC_getCdmKeySessionId s in ((or_status r, or_bytes r), s))"

definition ks_containsKey :: "u8 list \<Rightarrow> MediaKeySession \<Rightarrow> MediaKeysServer \<Rightarrow> bool \<times> MediaKeysServer" where
  "ks_containsKey keyId ses s =
     (let (r, s) = ocdm (ks_keySessionId ses) (OC_hasKeyId keyId (of_nat (length keyId))) s in (or_value r \<noteq> 0, s))"

definition ks_setDrmHeader where "ks_setDrmHeader requestData = ks_pass (OC_setDrmHeader requestData)"

definition ks_getLastDrmError :: "MediaKeySession \<Rightarrow> MediaKeysServer \<Rightarrow> (MediaKeyErrorStatus \<times> u32) \<times> MediaKeysServer" where
  "ks_getLastDrmError ses s =
     (let (r, s) = ocdm (ks_keySessionId ses) OC_getLastDrmError s in ((or_status r, ucast (or_value r)), s))"

definition ks_selectKeyId :: "u8 list \<Rightarrow> MediaKeySession \<Rightarrow> MediaKeysServer \<Rightarrow> MediaKeyErrorStatus \<times> MediaKeySession \<times> MediaKeysServer" where
  "ks_selectKeyId keyId ses s =
     (if ks_selectedKeyId ses = keyId then (MKE_OK, ses, s)
      else let (r, s) = ocdm (ks_keySessionId ses) (OC_selectKeyId (of_nat (length keyId)) keyId) s
           in (or_status r, if or_status r = MKE_OK then ses\<lparr>ks_selectedKeyId := keyId\<rparr> else ses, s))"

definition ks_isNetflixKeySystem :: "MediaKeySession \<Rightarrow> bool" where
  "ks_isNetflixKeySystem ses \<longleftrightarrow> ks_keySystem ses = kNetflixKeySystem"

text \<open>The destructor.\<close>

definition destroyMediaKeySession :: "MediaKeySession \<Rightarrow> MediaKeysServer \<Rightarrow> MediaKeysServer" where
  "destroyMediaKeySession ses s =
     (let s = (if ks_isSessionConstructed ses then snd (snd (ks_closeKeySession ses s)) else s)
      in unregisterClient (ks_mainThreadClientId ses) s)"

text \<open>The callbacks of OCDM, which post a task each. The challenge length is an argument of sixteen bits.\<close>

definition onProcessChallenge :: "MediaKeySession \<Rightarrow> string \<Rightarrow> u8 list \<Rightarrow> u16 \<Rightarrow> MediaKeysServer \<Rightarrow> MediaKeysServer" where
  "onProcessChallenge ses url challenge challengeLength s =
     enqueueTask (ks_mainThreadClientId ses)
       (ClientTask (ProcessChallengeTask (ks_keySessionId ses) (take (unat challengeLength) challenge) url)) s"

definition onKeyUpdated :: "MediaKeySession \<Rightarrow> u8 list \<Rightarrow> u8 \<Rightarrow> MediaKeysServer \<Rightarrow> MediaKeysServer" where
  "onKeyUpdated ses keyId keyIdLength s =
     enqueueTask (ks_mainThreadClientId ses) (ClientTask (KeyUpdatedTask (ks_keySessionId ses) (take (unat keyIdLength) keyId))) s"

definition onAllKeysUpdated :: "MediaKeySession \<Rightarrow> MediaKeysServer \<Rightarrow> MediaKeysServer" where
  "onAllKeysUpdated ses s = enqueueTask (ks_mainThreadClientId ses) (ClientTask (AllKeysUpdatedTask (ks_keySessionId ses))) s"

section \<open>The tasks\<close>

text \<open>A session's tasks refer to it by its address. They run only while its client id is registered, which ends with
  the session, so the branches without a session are never taken.\<close>

definition putSession :: "int \<Rightarrow> MediaKeySessionUsage \<Rightarrow> MediaKeySession \<Rightarrow> MediaKeysServer \<Rightarrow> MediaKeysServer" where
  "putSession i u ses s = s\<lparr>k_mediaKeySessions := assign i (u\<lparr>mu_mediaKeySession := ses\<rparr>) (k_mediaKeySessions s)\<rparr>"

definition challengeTask :: "MediaKeySession \<Rightarrow> MediaKeysServer \<Rightarrow> MediaKeysServer" where
  "challengeTask ses s =
     (let i = ks_keySessionId ses;
          (r, s) = ocdm i (OC_getChallengeData (ks_isLDL ses) None) s;
          (r, s) = ocdm i (OC_getChallengeData (ks_isLDL ses) (Some (ucast (or_value r)))) s
      in if or_status r \<noteq> MKE_OK then s
         else onProcessChallenge ses [] (or_bytes r) (ucast (ucast (or_value r) :: u32)) s)"

fun sessionTask :: "KeyTask \<Rightarrow> MediaKeySession \<Rightarrow> MediaKeysServer \<Rightarrow> MediaKeySession \<times> MediaKeysServer" where
  "sessionTask (GetChallengeTask _) ses s = (ses, challengeTask ses s)"
| "sessionTask (ProcessChallengeTask _ challenge url) ses s =
     (if \<not> ks_client ses then (ses, s)
      else if ks_licenseRequested ses
      then (ses\<lparr>ks_licenseRequested := False\<rparr>, notify (KE_licenseRequest (ks_keySessionId ses) challenge url) s)
      else (ses, notify (KE_licenseRenewal (ks_keySessionId ses) challenge) s))"
| "sessionTask (KeyUpdatedTask _ keyId) ses s =
     (if \<not> ks_client ses then (ses, s)
      else let (r, s) = ocdm (ks_keySessionId ses) (OC_getStatus keyId) s
           in (ses\<lparr>ks_updatedKeyStatuses := ks_updatedKeyStatuses ses @ [(keyId, or_keyStatus r)]\<rparr>, s))"
| "sessionTask (AllKeysUpdatedTask _) ses s =
     (if \<not> ks_client ses then (ses, s)
      else (ses\<lparr>ks_updatedKeyStatuses := []\<rparr>,
            notify (KE_keyStatusesChanged (ks_keySessionId ses) (ks_updatedKeyStatuses ses)) s))"

fun taskSession :: "KeyTask \<Rightarrow> int" where
  "taskSession (GetChallengeTask i) = i"
| "taskSession (ProcessChallengeTask i _ _) = i"
| "taskSession (KeyUpdatedTask i _) = i"
| "taskSession (AllKeysUpdatedTask i) = i"

definition keyTask :: "KeyTask \<Rightarrow> MediaKeysServer \<Rightarrow> MediaKeysServer" where
  "keyTask t s =
     (case map_of (k_mediaKeySessions s) (taskSession t) of
        None \<Rightarrow> s
      | Some u \<Rightarrow> (let (ses, s) = sessionTask t (mu_mediaKeySession u) s in putSession (taskSession t) u ses s))"

section \<open>Media keys\<close>

definition onKeysThread :: "(MediaKeysServer \<Rightarrow> 'r \<times> MediaKeysServer) \<Rightarrow> MediaKeysServer \<Rightarrow> 'r option \<times> MediaKeysServer" where
  "onKeysThread task s = enqueueTaskAndWait keyTask (k_mainThreadClientId s) task s"

text \<open>The constructor: \<open>Inl None\<close> without a main thread, \<open>Inl (Some s)\<close> when OCDM has no such key system.\<close>

definition newMediaKeysServerInternal :: "KeyTask MainThread option \<Rightarrow> string \<Rightarrow> bool \<Rightarrow> int \<Rightarrow> (nat \<Rightarrow> OcdmReply) \<Rightarrow>
    MediaKeysServer option + MediaKeysServer" where
  "newMediaKeysServerInternal mainThread keySystem created sessionCounter replies =
     (case mainThread of
        None \<Rightarrow> Inl None
      | Some mt \<Rightarrow>
          let s = \<lparr>mt_isMainThreadRunning = mt_isMainThreadRunning mt, mt_taskQueue = mt_taskQueue mt,
                   mt_nextClientId = mt_nextClientId mt, mt_registeredClients = mt_registeredClients mt,
                   k_ocdmSystem = False, k_mediaKeySessions = [], k_keySystem = keySystem, k_mainThreadClientId = 0,
                   k_keySessionId = sessionCounter, k_replies = replies, k_calls = 0, k_out = []\<rparr>;
              (clientId, s) = registerClient s;
              s = s\<lparr>k_mainThreadClientId := clientId\<rparr>;
              (result, s) = onKeysThread (\<lambda>s. (created, s\<lparr>k_ocdmSystem := created\<rparr>)) s
          in if result = Some True then Inr s else Inl (Some s))"

text \<open>The destructor: the task, then the members, with them every key session.\<close>

definition destroyMediaKeysServerInternal :: "MediaKeysServer \<Rightarrow> MediaKeysServer" where
  "destroyMediaKeysServerInternal s =
     (let s = snd (onKeysThread (\<lambda>s. ((), unregisterClient (k_mainThreadClientId s) (s\<lparr>k_ocdmSystem := False\<rparr>))) s)
      in (fold (\<lambda>(i, u). destroyMediaKeySession (mu_mediaKeySession u)) (k_mediaKeySessions s) s)\<lparr>k_mediaKeySessions := []\<rparr>)"

text \<open>The counter has thirty-two bits in the code; it is unbounded here, so the model covers the first \<open>2 ^ 31\<close> sessions.\<close>

definition generateSessionId :: "MediaKeysServer \<Rightarrow> int \<times> MediaKeysServer" where
  "generateSessionId s = (k_keySessionId s, s\<lparr>k_keySessionId := k_keySessionId s + 1\<rparr>)"

definition createKeySessionInternal :: "KeySessionType \<Rightarrow> bool \<Rightarrow> bool \<Rightarrow> MediaKeysServer \<Rightarrow>
    (MediaKeyErrorStatus \<times> int option) \<times> MediaKeysServer" where
  "createKeySessionInternal sessionType client isLDL s =
     (let (keySessionIdTemp, s) = generateSessionId s;
          (ses, s) = newMediaKeySession (k_keySystem s) keySessionIdTemp sessionType client isLDL s
      in case ses of
           None \<Rightarrow> ((MKE_FAIL, None), s)
         | Some ses \<Rightarrow>
             ((MKE_OK, Some keySessionIdTemp),
              s\<lparr>k_mediaKeySessions := emplace keySessionIdTemp
                 \<lparr>mu_mediaKeySession = ses, mu_bufCounter = 0, mu_shouldBeDestroyed = False\<rparr> (k_mediaKeySessions s)\<rparr>))"

text \<open>The methods that find a session and call it; \<open>missing\<close> is what they return without one.\<close>

definition withKeySession :: "'r \<Rightarrow> int \<Rightarrow> (MediaKeySession \<Rightarrow> MediaKeysServer \<Rightarrow> 'r \<times> MediaKeySession \<times> MediaKeysServer) \<Rightarrow>
    MediaKeysServer \<Rightarrow> 'r \<times> MediaKeysServer" where
  "withKeySession missing keySessionId call s =
     (case map_of (k_mediaKeySessions s) keySessionId of
        None \<Rightarrow> (missing, s)
      | Some u \<Rightarrow> (let (r, ses, s) = call (mu_mediaKeySession u) s in (r, putSession keySessionId u ses s)))"

definition selectKeyIdInternal where
  "selectKeyIdInternal keySessionId keyId = withKeySession MKE_BAD_SESSION_ID keySessionId (ks_selectKeyId keyId)"

definition containsKeyInternal where
  "containsKeyInternal keySessionId keyId =
     withKeySession False keySessionId (\<lambda>ses s. let (r, s) = ks_containsKey keyId ses s in (r, ses, s))"

definition generateRequestInternal where
  "generateRequestInternal keySessionId initDataType initData =
     withKeySession MKE_BAD_SESSION_ID keySessionId (ks_generateRequest initDataType initData)"

definition loadSessionInternal where
  "loadSessionInternal keySessionId = withKeySession MKE_BAD_SESSION_ID keySessionId ks_loadSession"

definition updateSessionInternal where
  "updateSessionInternal keySessionId responseData =
     withKeySession MKE_BAD_SESSION_ID keySessionId (ks_updateSession responseData)"

definition setDrmHeaderInternal where
  "setDrmHeaderInternal keySessionId requestData =
     withKeySession MKE_BAD_SESSION_ID keySessionId (ks_setDrmHeader requestData)"

definition removeKeySessionInternal where
  "removeKeySessionInternal keySessionId = withKeySession MKE_BAD_SESSION_ID keySessionId ks_removeKeySession"

definition getLastDrmErrorInternal where
  "getLastDrmErrorInternal keySessionId =
     withKeySession (MKE_BAD_SESSION_ID, 0) keySessionId (\<lambda>ses s. let (r, s) = ks_getLastDrmError ses s in (r, ses, s))"

definition getCdmKeySessionIdInternal where
  "getCdmKeySessionIdInternal keySessionId =
     withKeySession (MKE_BAD_SESSION_ID, []) keySessionId (\<lambda>ses s. let (r, s) = ks_getCdmKeySessionId ses s in (r, ses, s))"

definition decryptInternal where
  "decryptInternal keySessionId subSampleCount initWithLast15 =
     withKeySession MKE_BAD_SESSION_ID keySessionId (ks_decrypt subSampleCount initWithLast15)"

text \<open>The lookup of \<open>hasSession\<close>; the call only reads the map, so waiting tasks are left to the next call that runs them.\<close>

definition hasSession :: "int \<Rightarrow> MediaKeysServer \<Rightarrow> bool" where
  "hasSession keySessionId s \<longleftrightarrow> map_of (k_mediaKeySessions s) keySessionId \<noteq> None"

definition isNetflixKeySystemInternal :: "int \<Rightarrow> MediaKeysServer \<Rightarrow> bool" where
  "isNetflixKeySystemInternal keySessionId s =
     (case map_of (k_mediaKeySessions s) keySessionId of None \<Rightarrow> False | Some u \<Rightarrow> ks_isNetflixKeySystem (mu_mediaKeySession u))"

text \<open>Closing: \<open>closeAndErase\<close> is the part that \<open>closeKeySessionInternal\<close> and \<open>decrementSessionIdUsageCounterInternal\<close>
  share; erasing the entry runs the session's destructor.\<close>

definition closeAndErase :: "int \<Rightarrow> MediaKeySessionUsage \<Rightarrow> MediaKeysServer \<Rightarrow> MediaKeyErrorStatus \<times> MediaKeysServer" where
  "closeAndErase keySessionId u s =
     (let (status, ses, s) = ks_closeKeySession (mu_mediaKeySession u) s
      in if status \<noteq> MKE_OK then (status, putSession keySessionId u ses s)
         else (status, (destroyMediaKeySession ses s)\<lparr>k_mediaKeySessions := erase keySessionId (k_mediaKeySessions s)\<rparr>))"

definition closeKeySessionInternal :: "int \<Rightarrow> MediaKeysServer \<Rightarrow> MediaKeyErrorStatus \<times> MediaKeysServer" where
  "closeKeySessionInternal keySessionId s =
     (case map_of (k_mediaKeySessions s) keySessionId of
        None \<Rightarrow> (MKE_BAD_SESSION_ID, s)
      | Some u \<Rightarrow>
          if mu_bufCounter u = 0 then closeAndErase keySessionId u s
          else (MKE_OK, s\<lparr>k_mediaKeySessions := assign keySessionId (u\<lparr>mu_shouldBeDestroyed := True\<rparr>) (k_mediaKeySessions s)\<rparr>))"

definition incrementSessionIdUsageCounterInternal :: "int \<Rightarrow> MediaKeysServer \<Rightarrow> MediaKeysServer" where
  "incrementSessionIdUsageCounterInternal keySessionId s =
     (case map_of (k_mediaKeySessions s) keySessionId of
        None \<Rightarrow> s
      | Some u \<Rightarrow> s\<lparr>k_mediaKeySessions := assign keySessionId (u\<lparr>mu_bufCounter := mu_bufCounter u + 1\<rparr>) (k_mediaKeySessions s)\<rparr>)"

definition decrementSessionIdUsageCounterInternal :: "int \<Rightarrow> MediaKeysServer \<Rightarrow> MediaKeysServer" where
  "decrementSessionIdUsageCounterInternal keySessionId s =
     (case map_of (k_mediaKeySessions s) keySessionId of
        None \<Rightarrow> s
      | Some u \<Rightarrow>
          let u = (if mu_bufCounter u > 0 then u\<lparr>mu_bufCounter := mu_bufCounter u - 1\<rparr> else u);
              s = s\<lparr>k_mediaKeySessions := assign keySessionId u (k_mediaKeySessions s)\<rparr>
          in if mu_bufCounter u = 0 \<and> mu_shouldBeDestroyed u then snd (closeAndErase keySessionId u s) else s)"

text \<open>The calls on the OCDM system. The hash methods reserve capacity and let OCDM write there; the size of the
  vector stays zero, so what the caller gets is empty.\<close>

definition deleteDrmStoreTask where
  "deleteDrmStoreTask s = (let (r, s) = ocdm 0 OS_deleteSecureStore s in (or_status r, s))"

definition deleteKeyStoreTask where
  "deleteKeyStoreTask s = (let (r, s) = ocdm 0 OS_deleteKeyStore s in (or_status r, s))"

definition getDrmStoreHashTask :: "MediaKeysServer \<Rightarrow> (MediaKeyErrorStatus \<times> u8 list) \<times> MediaKeysServer" where
  "getDrmStoreHashTask s = (let (r, s) = ocdm 0 (OS_getSecureStoreHash 256) s in ((or_status r, []), s))"

definition getKeyStoreHashTask :: "MediaKeysServer \<Rightarrow> (MediaKeyErrorStatus \<times> u8 list) \<times> MediaKeysServer" where
  "getKeyStoreHashTask s = (let (r, s) = ocdm 0 (OS_getKeyStoreHash 256) s in ((or_status r, []), s))"

definition getLdlSessionsLimitTask :: "MediaKeysServer \<Rightarrow> (MediaKeyErrorStatus \<times> u32) \<times> MediaKeysServer" where
  "getLdlSessionsLimitTask s = (let (r, s) = ocdm 0 OS_getLdlSessionsLimit s in ((or_status r, ucast (or_value r)), s))"

definition getDrmTimeTask :: "MediaKeysServer \<Rightarrow> (MediaKeyErrorStatus \<times> u64) \<times> MediaKeysServer" where
  "getDrmTimeTask s = (let (r, s) = ocdm 0 OS_getDrmTime s in ((or_status r, or_value r), s))"

section \<open>The methods\<close>

text \<open>The public methods run the corresponding task on the main thread and wait for it; \<open>None\<close> is the uninitialised
  result of a call whose task the thread ignored.\<close>

named_theorems keys_api \<open>the public methods of the media keys as calls on the main thread\<close>

definition selectKeyId where [keys_api]:
  "selectKeyId keySessionId keyId = onKeysThread (selectKeyIdInternal keySessionId keyId)"

definition containsKey where [keys_api]:
  "containsKey keySessionId keyId = onKeysThread (containsKeyInternal keySessionId keyId)"

definition createKeySession where [keys_api]:
  "createKeySession sessionType client isLDL = onKeysThread (createKeySessionInternal sessionType client isLDL)"

definition generateRequest where [keys_api]:
  "generateRequest keySessionId initDataType initData = onKeysThread (generateRequestInternal keySessionId initDataType initData)"

definition loadSession where [keys_api]:
  "loadSession keySessionId = onKeysThread (loadSessionInternal keySessionId)"

definition updateSession where [keys_api]:
  "updateSession keySessionId responseData = onKeysThread (updateSessionInternal keySessionId responseData)"

definition setDrmHeader where [keys_api]:
  "setDrmHeader keySessionId requestData = onKeysThread (setDrmHeaderInternal keySessionId requestData)"

definition closeKeySession where [keys_api]:
  "closeKeySession keySessionId = onKeysThread (closeKeySessionInternal keySessionId)"

definition removeKeySession where [keys_api]:
  "removeKeySession keySessionId = onKeysThread (removeKeySessionInternal keySessionId)"

definition getLastDrmError where [keys_api]:
  "getLastDrmError keySessionId = onKeysThread (getLastDrmErrorInternal keySessionId)"

definition getCdmKeySessionId where [keys_api]:
  "getCdmKeySessionId keySessionId = onKeysThread (getCdmKeySessionIdInternal keySessionId)"

definition decrypt where [keys_api]:
  "decrypt keySessionId subSampleCount initWithLast15 = onKeysThread (decryptInternal keySessionId subSampleCount initWithLast15)"

definition isNetflixKeySystem where [keys_api]:
  "isNetflixKeySystem keySessionId = onKeysThread (\<lambda>s. (isNetflixKeySystemInternal keySessionId s, s))"

definition incrementSessionIdUsageCounter where [keys_api]:
  "incrementSessionIdUsageCounter keySessionId = onKeysThread (\<lambda>s. ((), incrementSessionIdUsageCounterInternal keySessionId s))"

definition decrementSessionIdUsageCounter where [keys_api]:
  "decrementSessionIdUsageCounter keySessionId = onKeysThread (\<lambda>s. ((), decrementSessionIdUsageCounterInternal keySessionId s))"

definition deleteDrmStore where [keys_api]: "deleteDrmStore = onKeysThread deleteDrmStoreTask"

definition deleteKeyStore where [keys_api]: "deleteKeyStore = onKeysThread deleteKeyStoreTask"

definition getDrmStoreHash where [keys_api]: "getDrmStoreHash = onKeysThread getDrmStoreHashTask"

definition getKeyStoreHash where [keys_api]: "getKeyStoreHash = onKeysThread getKeyStoreHashTask"

definition getLdlSessionsLimit where [keys_api]: "getLdlSessionsLimit = onKeysThread getLdlSessionsLimitTask"

definition getDrmTime where [keys_api]: "getDrmTime = onKeysThread getDrmTimeTask"

end
