(* ===== verification/Media_Keys_Proofs.thy ===== *)
theory Media_Keys_Proofs
  imports Media_Keys
begin

text \<open>
  What the key sessions guarantee: no task runs on a session that is gone, a session in use is not closed, and the
  client hears of license requests and key statuses exactly as OCDM reports them.
\<close>

section \<open>What a task leaves alone\<close>

definition same_keys :: "MediaKeysServer \<Rightarrow> MediaKeysServer \<Rightarrow> bool" where
  "same_keys s s' \<longleftrightarrow> mt_isMainThreadRunning s' = mt_isMainThreadRunning s \<and> mt_registeredClients s' = mt_registeredClients s \<and>
     mt_nextClientId s' = mt_nextClientId s \<and> k_mainThreadClientId s' = k_mainThreadClientId s \<and>
     k_keySessionId s' = k_keySessionId s \<and> k_ocdmSystem s' = k_ocdmSystem s \<and> k_keySystem s' = k_keySystem s"

text \<open>A session method keeps the identity of the session; the queue grows by tasks of the session itself.\<close>

definition same_session_id :: "MediaKeySession \<Rightarrow> MediaKeySession \<Rightarrow> bool" where
  "same_session_id ses ses' \<longleftrightarrow> ks_keySessionId ses' = ks_keySessionId ses \<and> ks_mainThreadClientId ses' = ks_mainThreadClientId ses"

definition own_task :: "MediaKeySession \<Rightarrow> u32 \<times> KeyTask Task \<Rightarrow> bool" where
  "own_task ses x \<longleftrightarrow> fst x = ks_mainThreadClientId ses \<and> (\<exists>t. snd x = ClientTask t \<and> taskSession t = ks_keySessionId ses)"

definition session_effect :: "MediaKeySession \<Rightarrow> MediaKeysServer \<Rightarrow> MediaKeySession \<Rightarrow> MediaKeysServer \<Rightarrow> bool" where
  "session_effect ses s ses' s' \<longleftrightarrow> same_keys s s' \<and> same_session_id ses ses' \<and> k_mediaKeySessions s' = k_mediaKeySessions s \<and>
     (\<exists>q. mt_taskQueue s' = mt_taskQueue s @ q \<and> (\<forall>x \<in> set q. own_task ses x))"

lemma ocdm_same [simp]:
  "mt_isMainThreadRunning (snd (ocdm i c s)) = mt_isMainThreadRunning s" "mt_taskQueue (snd (ocdm i c s)) = mt_taskQueue s"
  "mt_registeredClients (snd (ocdm i c s)) = mt_registeredClients s" "mt_nextClientId (snd (ocdm i c s)) = mt_nextClientId s"
  "k_mediaKeySessions (snd (ocdm i c s)) = k_mediaKeySessions s" "k_mainThreadClientId (snd (ocdm i c s)) = k_mainThreadClientId s"
  "k_keySessionId (snd (ocdm i c s)) = k_keySessionId s" "k_ocdmSystem (snd (ocdm i c s)) = k_ocdmSystem s"
  "k_keySystem (snd (ocdm i c s)) = k_keySystem s" "k_out (snd (ocdm i c s)) = k_out s @ [KE_ocdm i c]"
  "k_calls (snd (ocdm i c s)) = Suc (k_calls s)" "k_replies (snd (ocdm i c s)) = k_replies s"
  "fst (ocdm i c s) = k_replies s (k_calls s)"
  by (simp_all add: ocdm_def)

lemma notify_same [simp]:
  "mt_isMainThreadRunning (notify e s) = mt_isMainThreadRunning s" "mt_taskQueue (notify e s) = mt_taskQueue s"
  "mt_registeredClients (notify e s) = mt_registeredClients s" "mt_nextClientId (notify e s) = mt_nextClientId s"
  "k_mediaKeySessions (notify e s) = k_mediaKeySessions s" "k_mainThreadClientId (notify e s) = k_mainThreadClientId s"
  "k_keySessionId (notify e s) = k_keySessionId s" "k_ocdmSystem (notify e s) = k_ocdmSystem s"
  "k_keySystem (notify e s) = k_keySystem s" "k_out (notify e s) = k_out s @ [e]"
  by (simp_all add: notify_def)

lemmas effect_defs = session_effect_def same_keys_def same_session_id_def own_task_def

lemma ks_method_effects:
  "session_effect ses s (fst (snd (ks_generateRequest it d ses s))) (snd (snd (ks_generateRequest it d ses s)))"
  "session_effect ses s (fst (snd (ks_pass c ses s))) (snd (snd (ks_pass c ses s)))"
  "session_effect ses s (fst (snd (ks_updateSession d ses s))) (snd (snd (ks_updateSession d ses s)))"
  "session_effect ses s (fst (snd (ks_selectKeyId d ses s))) (snd (snd (ks_selectKeyId d ses s)))"
  "session_effect ses s ses (snd (ks_containsKey d ses s))"
  "session_effect ses s ses (snd (ks_getCdmKeySessionId ses s))"
  "session_effect ses s ses (snd (ks_getLastDrmError ses s))"
  by (auto simp: effect_defs ks_generateRequest_def ks_pass_def ks_updateSession_def ks_selectKeyId_def ks_containsKey_def
      ks_getCdmKeySessionId_def ks_getLastDrmError_def getChallenge_def enqueueTask_def Let_def case_prod_beta)

lemma ks_closeKeySession_effect:
  "session_effect ses s (fst (snd (ks_closeKeySession ses s))) (snd (snd (ks_closeKeySession ses s)))"
  by (auto simp: effect_defs ks_closeKeySession_def Let_def case_prod_beta split: option.split)

lemma sessionTask_effect:
  "session_effect ses s (fst (sessionTask t ses s)) (snd (sessionTask t ses s))"
  by (cases t)
    (auto simp: effect_defs challengeTask_def onProcessChallenge_def enqueueTask_def Let_def case_prod_beta)

lemma effect_queue:
  "session_effect ses s ses' s' \<Longrightarrow> \<exists>q. mt_taskQueue s' = mt_taskQueue s @ q \<and> (\<forall>x \<in> set q. own_task ses x)"
  by (auto simp: session_effect_def)

interpretation keys: main_thread_client keyTask
proof
  fix t s
  show "mt_isMainThreadRunning (keyTask t s) = mt_isMainThreadRunning s" "mt_registeredClients (keyTask t s) = mt_registeredClients s"
    using sessionTask_effect
    by (auto simp: keyTask_def putSession_def session_effect_def same_keys_def case_prod_beta split: option.split)
  show "\<exists>q. mt_taskQueue (keyTask t s) = mt_taskQueue s @ q"
    using effect_queue [OF sessionTask_effect]
    by (fastforce simp: keyTask_def putSession_def case_prod_beta split: option.split)
qed

section \<open>The invariant\<close>

text \<open>
  Client ids are used up in order. A session's id in the map is its own id, below the counter. A task in the queue
  either belongs to a client that is not registered and will not be, or to a live session with this client id.
\<close>

definition pending :: "MediaKeysServer \<Rightarrow> u32 set" where
  "pending s = {c. \<exists>k. (k, RegisterTask c) \<in> set (mt_taskQueue s)}"

definition live_client :: "MediaKeysServer \<Rightarrow> u32 \<Rightarrow> bool" where
  "live_client s c \<longleftrightarrow> c \<in> mt_registeredClients s \<or> c \<in> pending s"

definition session_of :: "MediaKeysServer \<Rightarrow> KeyTask \<Rightarrow> u32 \<Rightarrow> bool" where
  "session_of s t c \<longleftrightarrow> (\<exists>u. map_of (k_mediaKeySessions s) (taskSession t) = Some u \<and> ks_mainThreadClientId (mu_mediaKeySession u) = c)"

definition keys_inv :: "MediaKeysServer \<Rightarrow> bool" where
  "keys_inv s \<longleftrightarrow> mt_isMainThreadRunning s \<and> std_map (k_mediaKeySessions s) \<and>
     (\<forall>i u. map_of (k_mediaKeySessions s) i = Some u \<longrightarrow> ks_keySessionId (mu_mediaKeySession u) = i \<and> i < k_keySessionId s) \<and>
     (\<forall>c t. (c, ClientTask t) \<in> set (mt_taskQueue s) \<longrightarrow> c < mt_nextClientId s \<and> (live_client s c \<longrightarrow> session_of s t c)) \<and>
     (\<forall>c. live_client s c \<longrightarrow> c < mt_nextClientId s) \<and>
     (\<forall>x \<in> set (mt_taskQueue s). snd x \<noteq> ShutdownTask) \<and>
     (\<forall>i u. map_of (k_mediaKeySessions s) i = Some u \<longrightarrow> ks_mainThreadClientId (mu_mediaKeySession u) < mt_nextClientId s)"

lemma pending_client [simp]: "pending (s\<lparr>mt_taskQueue := mt_taskQueue s @ q\<rparr>) = pending s" if "\<forall>x \<in> set q. own_task ses x"
  using that by (force simp: pending_def own_task_def)

lemma effect_inv:
  assumes inv: "keys_inv s" and u: "map_of (k_mediaKeySessions s) i = Some u"
    and eff: "session_effect (mu_mediaKeySession u) s ses' s'"
  shows "keys_inv (putSession i u ses' s')" and "pending (putSession i u ses' s') = pending s"
    and "hasSession j (putSession i u ses' s') = hasSession j s"
proof -
  let ?ses = "mu_mediaKeySession u" and ?s = "putSession i u ses' s'"
  obtain q where q: "mt_taskQueue s' = mt_taskQueue s @ q" "\<forall>x \<in> set q. own_task ?ses x" using effect_queue [OF eff] by blast
  have id: "ks_keySessionId ?ses = i" "ks_mainThreadClientId ?ses < mt_nextClientId s" "i < k_keySessionId s" using inv u by (auto simp: keys_inv_def)
  have same: "same_keys s ?s" "mt_taskQueue ?s = mt_taskQueue s @ q" using eff q by (simp_all add: effect_defs putSession_def)
  have maps: "map_of (k_mediaKeySessions ?s) j = (if j = i then Some (u\<lparr>mu_mediaKeySession := ses'\<rparr>) else map_of (k_mediaKeySessions s) j)" for j
    using eff u by (simp add: effect_defs putSession_def map_of_assign)
  have clients: "same_session_id ?ses ses'" "std_map (k_mediaKeySessions ?s) = std_map (k_mediaKeySessions s)"
    using eff by (simp_all add: effect_defs putSession_def std_map_assign)
  show pend: "pending ?s = pending s" using same(2) q(2) by (force simp: pending_def own_task_def)
  show "hasSession j ?s = hasSession j s" using u by (simp add: hasSession_def maps)
  have live: "live_client ?s c = live_client s c" for c using same(1) pend by (simp add: live_client_def same_keys_def)
  have sess: "session_of ?s t c = session_of s t c" for t c
    using u clients(1) by (auto simp: session_of_def maps same_session_id_def)
  have own: "c < mt_nextClientId s \<and> session_of s t c" if "(c, ClientTask t) \<in> set q" for c t
    using q(2) that u id by (force simp: own_task_def session_of_def)
  show "keys_inv ?s"
    using inv same(1) q(2) maps clients id own
    unfolding keys_inv_def same(2) live sess same_keys_def
    by (auto simp: same_session_id_def own_task_def)
qed

lemma keyTask_inv: "keys_inv s \<Longrightarrow> keys_inv (keyTask t s) \<and> pending (keyTask t s) = pending s"
  using effect_inv(1,2) [OF _ _ sessionTask_effect]
  by (auto simp: keyTask_def case_prod_beta split: option.split)

lemma pop_inv:
  assumes inv: "keys_inv s" and q: "mt_taskQueue s = (k, x) # q" and dead: "\<And>c. x = RegisterTask c \<Longrightarrow> k \<notin> mt_registeredClients s"
  shows "keys_inv (s\<lparr>mt_taskQueue := q\<rparr>)"
proof -
  have "live_client (s\<lparr>mt_taskQueue := q\<rparr>) c \<Longrightarrow> live_client s c" for c by (auto simp: live_client_def pending_def q)
  then show ?thesis using inv q by (auto simp: keys_inv_def session_of_def)
qed

lemma keys_step_inv:
  assumes inv: "keys_inv s" and q: "mt_taskQueue s = x # q"
  shows "keys_inv (mainThreadStep keyTask x (s\<lparr>mt_taskQueue := q\<rparr>))"
proof -
  obtain k t where x: "x = (k, t)" by (cases x)
  have t: "t \<noteq> ShutdownTask" using inv q x by (auto simp: keys_inv_def)
  show ?thesis
  proof (cases "k \<in> mt_registeredClients s")
    case False
    then show ?thesis using pop_inv [OF inv] q x by (simp add: mainThreadStep_def)
  next
    case True
    show ?thesis
    proof (cases t)
      case (RegisterTask c)
      let ?s = "s\<lparr>mt_taskQueue := q, mt_registeredClients := insert c (mt_registeredClients s)\<rparr>"
      have "live_client ?s d = live_client s d" for d using q x RegisterTask by (auto simp: live_client_def pending_def)
      then have "keys_inv ?s" using inv q by (auto simp: keys_inv_def session_of_def)
      then show ?thesis using True x RegisterTask by (simp add: mainThreadStep_def)
    next
      case (ClientTask task)
      then have "keys_inv (s\<lparr>mt_taskQueue := q\<rparr>)" using pop_inv [OF inv] q x by simp
      then show ?thesis using True x ClientTask keyTask_inv by (simp add: mainThreadStep_def)
    qed (use t in simp)
  qed
qed

text \<open>When a method gets its turn on the main thread, every registration that was queued has been made.\<close>

lemma loop_pending:
  "keys_inv s \<Longrightarrow> mt_taskQueue s = q1 @ q2 \<Longrightarrow> \<forall>x \<in> set q2. \<forall>c. snd x \<noteq> RegisterTask c \<Longrightarrow>
    keys_inv (mainThreadLoop keyTask (length q1) s) \<and> pending (mainThreadLoop keyTask (length q1) s) = {}"
proof (induction q1 arbitrary: s q2)
  case Nil
  then show ?case by (auto simp: pending_def)
next
  case (Cons x q1)
  let ?s = "mainThreadStep keyTask x (s\<lparr>mt_taskQueue := q1 @ q2\<rparr>)"
  have inv: "keys_inv ?s" using keys_step_inv [OF Cons.prems(1)] Cons.prems(2) by simp
  have "\<exists>q. mt_taskQueue ?s = (q1 @ q2) @ q \<and> (\<forall>y \<in> set q. \<forall>c. snd y \<noteq> RegisterTask c)"
  proof (cases "snd x")
    case (ClientTask t)
    have "\<exists>q. mt_taskQueue (keyTask t s') = mt_taskQueue s' @ q \<and> (\<forall>y \<in> set q. \<forall>c. snd y \<noteq> RegisterTask c)" for s'
    proof (cases "map_of (k_mediaKeySessions s') (taskSession t)")
      case (Some u)
      then show ?thesis
        using effect_queue [OF sessionTask_effect [of "mu_mediaKeySession u" s' t]]
        by (fastforce simp: keyTask_def putSession_def case_prod_beta own_task_def)
    qed (simp add: keyTask_def)
    from this [of "s\<lparr>mt_taskQueue := q1 @ q2\<rparr>"] show ?thesis using ClientTask by (auto simp: mainThreadStep_def)
  qed (auto simp: mainThreadStep_def)
  then obtain q where q: "mt_taskQueue ?s = q1 @ (q2 @ q)" "\<forall>y \<in> set q. \<forall>c. snd y \<noteq> RegisterTask c" by auto
  have "mt_isMainThreadRunning s" using Cons.prems(1) by (simp add: keys_inv_def)
  moreover have "\<forall>x \<in> set (q2 @ q). \<forall>c. snd x \<noteq> RegisterTask c" using q(2) Cons.prems(3) by auto
  ultimately show ?case using Cons.IH [OF inv q(1)] Cons.prems(2) by simp
qed

section \<open>Requests\<close>

datatype KeyRequest =
    CreateKeySession KeySessionType bool bool | GenerateRequest int InitDataType "u8 list" | LoadSession int
  | UpdateSession int "u8 list" | SetDrmHeader int "u8 list" | CloseKeySession int | RemoveKeySession int
  | SelectKeyId int "u8 list" | ContainsKey int "u8 list" | GetLastDrmError int | GetCdmKeySessionId int
  | Decrypt int u32 u32 | IncrementUsage int | DecrementUsage int | DeleteDrmStore | DeleteKeyStore | GetDrmStoreHash
  | GetKeyStoreHash | GetLdlSessionsLimit | GetDrmTime

fun keyRequest :: "KeyRequest \<Rightarrow> MediaKeysServer \<Rightarrow> MediaKeysServer" where
  "keyRequest (CreateKeySession t client ldl) s = snd (createKeySessionInternal t client ldl s)"
| "keyRequest (GenerateRequest i t d) s = snd (generateRequestInternal i t d s)"
| "keyRequest (LoadSession i) s = snd (loadSessionInternal i s)"
| "keyRequest (UpdateSession i d) s = snd (updateSessionInternal i d s)"
| "keyRequest (SetDrmHeader i d) s = snd (setDrmHeaderInternal i d s)"
| "keyRequest (CloseKeySession i) s = snd (closeKeySessionInternal i s)"
| "keyRequest (RemoveKeySession i) s = snd (removeKeySessionInternal i s)"
| "keyRequest (SelectKeyId i k) s = snd (selectKeyIdInternal i k s)"
| "keyRequest (ContainsKey i k) s = snd (containsKeyInternal i k s)"
| "keyRequest (GetLastDrmError i) s = snd (getLastDrmErrorInternal i s)"
| "keyRequest (GetCdmKeySessionId i) s = snd (getCdmKeySessionIdInternal i s)"
| "keyRequest (Decrypt i n w) s = snd (decryptInternal i n w s)"
| "keyRequest (IncrementUsage i) s = incrementSessionIdUsageCounterInternal i s"
| "keyRequest (DecrementUsage i) s = decrementSessionIdUsageCounterInternal i s"
| "keyRequest DeleteDrmStore s = snd (deleteDrmStoreTask s)"
| "keyRequest DeleteKeyStore s = snd (deleteKeyStoreTask s)"
| "keyRequest GetDrmStoreHash s = snd (getDrmStoreHashTask s)"
| "keyRequest GetKeyStoreHash s = snd (getKeyStoreHashTask s)"
| "keyRequest GetLdlSessionsLimit s = snd (getLdlSessionsLimitTask s)"
| "keyRequest GetDrmTime s = snd (getDrmTimeTask s)"

lemma session_effect_trans:
  "session_effect ses s ses' s' \<Longrightarrow> session_effect ses' s' ses'' s'' \<Longrightarrow> session_effect ses s ses'' s''"
  by (force simp: effect_defs)

lemma withKeySession_inv:
  assumes "keys_inv s" and "\<And>ses s. session_effect ses s (fst (snd (call ses s))) (snd (snd (call ses s)))"
  shows "keys_inv (snd (withKeySession m i call s))"
  using effect_inv(1) [OF assms(1) _ assms(2)] assms(1)
  by (auto simp: withKeySession_def case_prod_beta split: option.split)

lemma usage_inv:
  assumes inv: "keys_inv s" and u: "map_of (k_mediaKeySessions s) i = Some u" and u': "mu_mediaKeySession u' = mu_mediaKeySession u"
  shows "keys_inv (s\<lparr>k_mediaKeySessions := assign i u' (k_mediaKeySessions s)\<rparr>)" (is "keys_inv ?s")
    and "pending (s\<lparr>k_mediaKeySessions := assign i u' (k_mediaKeySessions s)\<rparr>) = pending s"
proof -
  show "pending ?s = pending s" by (simp add: pending_def)
  then have "live_client ?s c = live_client s c" "session_of ?s t c = session_of s t c" for c t
    using u u' by (auto simp: live_client_def session_of_def map_of_assign)
  then show "keys_inv ?s" using inv u u' unfolding keys_inv_def by (auto simp: std_map_assign map_of_assign)
qed

lemma drop_session_inv:
  assumes inv: "keys_inv s" and pend: "pending s = {}" and u: "map_of (k_mediaKeySessions s) i = Some u"
    and eff: "session_effect (mu_mediaKeySession u) s ses' s'"
  shows "keys_inv ((unregisterClient (ks_mainThreadClientId ses') s')\<lparr>k_mediaKeySessions := erase i (k_mediaKeySessions s')\<rparr>)"
    (is "keys_inv ?s")
proof -
  let ?c = "ks_mainThreadClientId (mu_mediaKeySession u)"
  obtain q where q: "mt_taskQueue s' = mt_taskQueue s @ q" "\<forall>x \<in> set q. own_task (mu_mediaKeySession u) x"
    using effect_queue [OF eff] by blast
  have s': "same_keys s s'" "ks_mainThreadClientId ses' = ?c" "k_mediaKeySessions s' = k_mediaKeySessions s"
    using eff by (simp_all add: effect_defs)
  have "pending ?s = {}" using pend q by (force simp: pending_def own_task_def unregisterClient_def)
  then have live: "live_client ?s c \<longleftrightarrow> c \<noteq> ?c \<and> c \<in> mt_registeredClients s" for c
    using s' by (auto simp: live_client_def unregisterClient_def same_keys_def)
  have queue: "c < mt_nextClientId s \<and> (c = ?c \<or> (c \<in> mt_registeredClients s \<longrightarrow> session_of ?s t c))"
    if "(c, ClientTask t) \<in> set (mt_taskQueue s @ q)" for c t
  proof (cases "(c, ClientTask t) \<in> set q")
    case True
    then show ?thesis using q(2) inv u by (force simp: own_task_def keys_inv_def)
  next
    case False
    then have "(c, ClientTask t) \<in> set (mt_taskQueue s)" using that by simp
    then have "c < mt_nextClientId s" "c \<in> mt_registeredClients s \<Longrightarrow> session_of s t c"
      using inv by (auto simp: keys_inv_def live_client_def)
    then show ?thesis using u s'(3) by (auto simp: session_of_def)
  qed
  show ?thesis
    using inv s' q(2) queue unfolding keys_inv_def live
    by (auto simp: unregisterClient_def q(1) same_keys_def std_map_erase own_task_def live_client_def split: if_splits)
qed

lemma destroyMediaKeySession_eq:
  "\<exists>ses' s'. session_effect ses s ses' s' \<and> destroyMediaKeySession ses s = unregisterClient (ks_mainThreadClientId ses') s'"
proof (cases "ks_isSessionConstructed ses")
  case True
  then show ?thesis
    using ks_closeKeySession_effect [of ses s]
    by (intro exI [of _ "fst (snd (ks_closeKeySession ses s))"] exI [of _ "snd (snd (ks_closeKeySession ses s))"])
      (simp add: destroyMediaKeySession_def session_effect_def same_session_id_def)
next
  case False
  then show ?thesis
    by (intro exI [of _ ses] exI [of _ s]) (simp add: destroyMediaKeySession_def effect_defs)
qed

lemma closeAndErase_inv:
  assumes "keys_inv s" and "pending s = {}" and "map_of (k_mediaKeySessions s) i = Some u"
  shows "keys_inv (snd (closeAndErase i u s))"
proof -
  obtain status ses s1 where c: "ks_closeKeySession (mu_mediaKeySession u) s = (status, ses, s1)" by (metis prod_cases3)
  then have e: "session_effect (mu_mediaKeySession u) s ses s1" using ks_closeKeySession_effect [of "mu_mediaKeySession u" s] by simp
  obtain ses' s' where d: "session_effect ses s1 ses' s'" "destroyMediaKeySession ses s1 = unregisterClient (ks_mainThreadClientId ses') s'"
    using destroyMediaKeySession_eq by blast
  have "k_mediaKeySessions s' = k_mediaKeySessions s1" using d(1) by (simp add: session_effect_def)
  then show ?thesis
    using c effect_inv(1) [OF assms(1,3) e] drop_session_inv [OF assms session_effect_trans [OF e d(1)]] d(2)
    by (simp add: closeAndErase_def)
qed

lemma createKeySession_inv:
  assumes inv: "keys_inv s" and room: "mt_nextClientId s < mt_nextClientId s + 1"
  shows "keys_inv (snd (createKeySessionInternal t client ldl s))"
proof -
  let ?c = "mt_nextClientId s" and ?i = "k_keySessionId s"
  let ?s = "s\<lparr>k_keySessionId := ?i + 1, mt_nextClientId := ?c + 1, mt_taskQueue := mt_taskQueue s @ [(mainThreadClientId, RegisterTask ?c)],
    k_calls := Suc (k_calls s), k_out := k_out s @ [KE_ocdm ?i OS_createSession]\<rparr>"
  have live: "live_client ?s d \<longleftrightarrow> d = ?c \<or> live_client s d" for d by (auto simp: live_client_def pending_def)
  have fresh: "map_of (k_mediaKeySessions s) ?i = None"
    using inv by (cases "map_of (k_mediaKeySessions s) ?i") (auto simp: keys_inv_def)
  have old: "c < ?c \<Longrightarrow> c < ?c + 1" for c using room by order
  have old_id: "map_of (k_mediaKeySessions s) i = Some u \<Longrightarrow> i \<le> ?i" for i u using inv by (force simp: keys_inv_def)
  have base: "keys_inv ?s" using inv room old old_id unfolding keys_inv_def live by (auto simp: session_of_def)
  show ?thesis
  proof (cases "or_status (k_replies s (k_calls s)) = MKE_OK")
    case False
    then show ?thesis
      using base by (simp add: createKeySessionInternal_def generateSessionId_def newMediaKeySession_def registerClient_def
          enqueueTask_def ocdm_def Let_def)
  next
    case True
    let ?u = "\<lparr>mu_mediaKeySession = \<lparr>ks_keySystem = k_keySystem s, ks_keySessionId = ?i, ks_sessionType = t,
        ks_client = client, ks_isLDL = ldl, ks_isSessionConstructed = False, ks_licenseRequested = False,
        ks_updatedKeyStatuses = [], ks_mainThreadClientId = ?c, ks_selectedKeyId = []\<rparr>, mu_bufCounter = 0, mu_shouldBeDestroyed = False\<rparr>"
    let ?s' = "?s\<lparr>k_mediaKeySessions := emplace ?i ?u (k_mediaKeySessions s)\<rparr>"
    have eq: "snd (createKeySessionInternal t client ldl s) = ?s'"
      using True by (simp add: createKeySessionInternal_def generateSessionId_def newMediaKeySession_def registerClient_def
          enqueueTask_def ocdm_def Let_def)
    have "live_client ?s' d = live_client ?s d" for d by (simp add: live_client_def pending_def)
    moreover have "session_of ?s tk d \<Longrightarrow> session_of ?s' tk d" for tk d using fresh by (auto simp: session_of_def)
    ultimately show ?thesis using base fresh room unfolding eq keys_inv_def by (auto simp: std_map_emplace)
  qed
qed

text \<open>Client ids are unsigned: the guard on the counter excludes the wrap after \<open>2 ^ 32\<close> registrations.\<close>

lemma keyRequest_inv:
  assumes inv: "keys_inv s" and pend: "pending s = {}" and room: "mt_nextClientId s < mt_nextClientId s + 1"
  shows "keys_inv (keyRequest r s)"
proof -
  have sys: "keys_inv (snd (ocdm i c s))" for i c
    using inv by (simp add: keys_inv_def live_client_def pending_def session_of_def)
  show ?thesis
  proof (cases r)
    case (CloseKeySession i)
    show ?thesis
      using inv closeAndErase_inv [OF inv pend] usage_inv(1) [OF inv]
      by (auto simp: CloseKeySession closeKeySessionInternal_def split: option.split)
  next
    case (IncrementUsage i)
    show ?thesis
      using inv usage_inv(1) [OF inv] by (auto simp: IncrementUsage incrementSessionIdUsageCounterInternal_def split: option.split)
  next
    case (DecrementUsage i)
    show ?thesis
    proof (cases "map_of (k_mediaKeySessions s) i")
      case (Some u)
      define u' where "u' = (if mu_bufCounter u > 0 then u\<lparr>mu_bufCounter := mu_bufCounter u - 1\<rparr> else u)"
      let ?s = "s\<lparr>k_mediaKeySessions := assign i u' (k_mediaKeySessions s)\<rparr>"
      have "keys_inv ?s" "pending ?s = {}" "map_of (k_mediaKeySessions ?s) i = Some u'"
        using usage_inv [OF inv Some, of u'] pend Some by (simp_all add: u'_def map_of_assign)
      then show ?thesis
        using closeAndErase_inv Some
        by (simp add: DecrementUsage decrementSessionIdUsageCounterInternal_def u'_def [symmetric] Let_def)
    qed (use inv in \<open>simp add: DecrementUsage decrementSessionIdUsageCounterInternal_def\<close>)
  qed (use ks_method_effects createKeySession_inv [OF inv room] sys in
    \<open>simp_all add: withKeySession_inv [OF inv] generateRequestInternal_def loadSessionInternal_def ks_loadSession_def updateSessionInternal_def
      setDrmHeaderInternal_def ks_setDrmHeader_def removeKeySessionInternal_def ks_removeKeySession_def selectKeyIdInternal_def
      containsKeyInternal_def getLastDrmErrorInternal_def getCdmKeySessionIdInternal_def decryptInternal_def ks_decrypt_def
      deleteDrmStoreTask_def deleteKeyStoreTask_def getDrmStoreHashTask_def getKeyStoreHashTask_def getLdlSessionsLimitTask_def getDrmTimeTask_def
      Let_def case_prod_beta\<close>)
qed

text \<open>
  A run: the main thread executes a task; a method waits for its turn and runs; OCDM reports a challenge, a key or the
  end of an update for a session it knows.
\<close>

inductive keys_step :: "MediaKeysServer \<Rightarrow> MediaKeysServer \<Rightarrow> bool" where
  keys_task: "mt_taskQueue s = x # q \<Longrightarrow> keys_step s (mainThreadStep keyTask x (s\<lparr>mt_taskQueue := q\<rparr>))"
| keys_request: "mt_nextClientId s < mt_nextClientId s + 1 \<Longrightarrow>
    keys_step s (snd (onKeysThread (\<lambda>s. ((), keyRequest r s)) s))"
| ocdm_challenge: "map_of (k_mediaKeySessions s) i = Some u \<Longrightarrow> keys_step s (onProcessChallenge (mu_mediaKeySession u) url c n s)"
| ocdm_key_updated: "map_of (k_mediaKeySessions s) i = Some u \<Longrightarrow> keys_step s (onKeyUpdated (mu_mediaKeySession u) k n s)"
| ocdm_all_updated: "map_of (k_mediaKeySessions s) i = Some u \<Longrightarrow> keys_step s (onAllKeysUpdated (mu_mediaKeySession u) s)"

inductive_cases keys_stepE: "keys_step s s'"

lemma callback_inv:
  assumes inv: "keys_inv s" and u: "map_of (k_mediaKeySessions s) i = Some u" and t: "taskSession t = ks_keySessionId (mu_mediaKeySession u)"
  shows "keys_inv (enqueueTask (ks_mainThreadClientId (mu_mediaKeySession u)) (ClientTask t) s)" (is "keys_inv ?s")
proof -
  have "ks_keySessionId (mu_mediaKeySession u) = i" "ks_mainThreadClientId (mu_mediaKeySession u) < mt_nextClientId s"
    using inv u by (auto simp: keys_inv_def)
  moreover have "live_client ?s c = live_client s c" "session_of ?s t' c = session_of s t' c" for c t'
    by (simp_all add: live_client_def pending_def session_of_def enqueueTask_def)
  moreover have "session_of s t (ks_mainThreadClientId (mu_mediaKeySession u))"
    using u t calculation(1) by (simp add: session_of_def)
  ultimately show ?thesis using inv unfolding keys_inv_def by (auto simp: enqueueTask_def)
qed

lemma keys_loop_inv: "keys_inv s \<Longrightarrow> keys_inv (mainThreadLoop keyTask n s)"
  using keys.loop_invariant [of keys_inv] keys_step_inv by blast

lemma same_keys_loop: "mt_nextClientId (mainThreadLoop keyTask n s) = mt_nextClientId s"
proof -
  define m where "m = mt_nextClientId s"
  have step: "mt_nextClientId (keyTask t s') = mt_nextClientId s'" for t s'
    using sessionTask_effect by (auto simp: keyTask_def putSession_def session_effect_def same_keys_def case_prod_beta split: option.split)
  have "mt_nextClientId (mainThreadLoop keyTask n s) = m"
  proof (rule keys.loop_invariant)
    fix x q and s' :: MediaKeysServer
    assume "mt_nextClientId s' = m"
    then show "mt_nextClientId (mainThreadStep keyTask x (s'\<lparr>mt_taskQueue := q\<rparr>)) = m"
      using step by (cases "snd x") (auto simp: mainThreadStep_def)
  qed (simp add: m_def)
  then show ?thesis by (simp add: m_def)
qed

lemma keys_steps_inv:
  assumes "keys_step\<^sup>*\<^sup>* s s'" and "keys_inv s"
  shows "keys_inv s'"
  using assms
proof (induction rule: rtranclp_induct)
  case (step s1 s2)
  then have inv: "keys_inv s1" by blast
  from step.hyps(2) show ?case
  proof cases
    case (keys_task x q)
    then show ?thesis using keys_step_inv [OF inv] by simp
  next
    case (keys_request r)
    let ?s = "mainThreadLoop keyTask (length (mt_taskQueue s1)) s1"
    have "keys_inv ?s \<and> pending ?s = {}" using loop_pending [OF inv, of "mt_taskQueue s1" "[]"] by simp
    then show ?thesis
      using keys_request keyRequest_inv [of ?s r] same_keys_loop [of "length (mt_taskQueue s1)" s1]
      by (simp add: onKeysThread_def enqueueTaskAndWait_def Let_def)
  next
    case (ocdm_challenge i u url c n)
    then show ?thesis using callback_inv [OF inv] by (simp add: onProcessChallenge_def)
  next
    case (ocdm_key_updated i u k n)
    then show ?thesis using callback_inv [OF inv] by (simp add: onKeyUpdated_def)
  next
    case (ocdm_all_updated i u)
    then show ?thesis using callback_inv [OF inv] by (simp add: onAllKeysUpdated_def)
  qed
qed

section \<open>Construction\<close>

definition unused_thread :: "KeyTask MainThread \<Rightarrow> bool" where
  "unused_thread mt \<longleftrightarrow> mt_isMainThreadRunning mt \<and> mt_taskQueue mt = [] \<and> mainThreadClientId \<in> mt_registeredClients mt \<and>
     (\<forall>c \<in> mt_registeredClients mt. c < mt_nextClientId mt) \<and> mt_nextClientId mt < mt_nextClientId mt + 1"

lemma keys_construction:
  assumes "unused_thread mt" and "newMediaKeysServerInternal (Some mt) keySystem created n replies = Inr s"
  shows "keys_inv s \<and> k_mediaKeySessions s = [] \<and> mt_taskQueue s = []"
proof -
  have "c < mt_nextClientId mt + 1" if "c \<in> mt_registeredClients mt" for c
    using assms(1) that order.strict_trans by (auto simp: unused_thread_def)
  then show ?thesis
    using assms
    by (auto simp: newMediaKeysServerInternal_def registerClient_def enqueueTask_def onKeysThread_def enqueueTaskAndWait_def
        mainThreadStep_def unused_thread_def keys_inv_def live_client_def pending_def Let_def split: if_splits)
qed

section \<open>Closing a session in use\<close>

lemma assign_same: "std_map xs \<Longrightarrow> map_of xs i = Some u \<Longrightarrow> assign i u xs = xs"
proof -
  assume xs: "std_map xs" "map_of xs i = Some u"
  have "(if fst x = i then (i, u) else x) = x" if "x \<in> set xs" for x
    using xs that map_of_eq_Some_iff [of xs "fst x" "snd x"] by (cases x) (auto simp: std_map_def simp del: map_of_eq_Some_iff)
  then show ?thesis by (simp add: assign_def map_idI)
qed

lemma assign_assign [simp]: "assign i v (assign i u xs) = assign i v xs"
  by (auto simp: assign_def)

abbreviation release :: "int \<Rightarrow> MediaKeysServer \<Rightarrow> MediaKeysServer" where
  "release \<equiv> decrementSessionIdUsageCounterInternal"

lemma release_in_use:
  assumes "map_of (k_mediaKeySessions s) i = Some u" and "1 < unat (mu_bufCounter u)"
  shows "release i s = s\<lparr>k_mediaKeySessions := assign i (u\<lparr>mu_bufCounter := mu_bufCounter u - 1\<rparr>) (k_mediaKeySessions s)\<rparr>"
proof -
  have "mu_bufCounter u > 0" "mu_bufCounter u - 1 \<noteq> 0" using assms(2) by (auto simp: word_less_nat_alt)
  then show ?thesis using assms(1) by (simp add: decrementSessionIdUsageCounterInternal_def Let_def)
qed

lemma releases_in_use:
  assumes "std_map (k_mediaKeySessions s)" and "map_of (k_mediaKeySessions s) i = Some u" and "k < unat (mu_bufCounter u)"
  shows "(release i ^^ k) s =
    s\<lparr>k_mediaKeySessions := assign i (u\<lparr>mu_bufCounter := mu_bufCounter u - of_nat k\<rparr>) (k_mediaKeySessions s)\<rparr>"
  using assms(3)
proof (induction k)
  case 0
  then show ?case using assms(1,2) by (simp add: assign_same)
next
  case (Suc k)
  let ?u = "u\<lparr>mu_bufCounter := mu_bufCounter u - of_nat k\<rparr>"
  let ?s = "s\<lparr>k_mediaKeySessions := assign i ?u (k_mediaKeySessions s)\<rparr>"
  have "unat (of_nat k :: u32) = k" using Suc.prems unat_u32_bound [of "mu_bufCounter u"] by (intro unat_of_nat_u32) simp
  then have "unat (mu_bufCounter ?u) = unat (mu_bufCounter u) - k"
    using Suc.prems by (simp add: unat_sub_nowrap)
  then have "release i ?s = ?s\<lparr>k_mediaKeySessions := assign i (?u\<lparr>mu_bufCounter := mu_bufCounter ?u - 1\<rparr>) (k_mediaKeySessions ?s)\<rparr>"
    using Suc.prems assms(2) by (intro release_in_use) (simp_all add: map_of_assign)
  then show ?case using Suc by (simp add: algebra_simps)
qed

definition closing_calls :: "MediaKeySession \<Rightarrow> KeyEvent list" where
  "closing_calls ses = map (KE_ocdm (ks_keySessionId ses))
     (if ks_isNetflixKeySystem ses then [OC_cancelChallengeData, OC_cleanDecryptContext, OC_destructSession]
      else [OC_close, OC_destructSession])"

lemma closeAndErase_ok:
  assumes "\<And>n. or_status (k_replies s n) = MKE_OK"
  shows "fst (closeAndErase i u s) = MKE_OK \<and> \<not> hasSession i (snd (closeAndErase i u s)) \<and>
    k_out (snd (closeAndErase i u s)) = k_out s @ closing_calls (mu_mediaKeySession u)"
  using assms
  by (simp add: closeAndErase_def ks_closeKeySession_def destroyMediaKeySession_def closing_calls_def ks_isNetflixKeySystem_def
      hasSession_def ocdm_def unregisterClient_def Let_def)

lemma last_release:
  assumes "map_of (k_mediaKeySessions s) i = Some u" and "mu_bufCounter u = 1" and "mu_shouldBeDestroyed u"
  shows "release i s = snd (closeAndErase i (u\<lparr>mu_bufCounter := 0\<rparr>)
    (s\<lparr>k_mediaKeySessions := assign i (u\<lparr>mu_bufCounter := 0\<rparr>) (k_mediaKeySessions s)\<rparr>))"
  using assms by (simp add: decrementSessionIdUsageCounterInternal_def Let_def)

section \<open>Properties\<close>

text \<open>Key session tasks never outlive their session: whenever a task reaches the front of the queue and its client is
  still registered, the session it refers to exists and is the one that posted it.\<close>

theorem key_tasks_find_session:
  assumes "unused_thread mt" and "newMediaKeysServerInternal (Some mt) keySystem created n replies = Inr s"
    and "keys_step\<^sup>*\<^sup>* s s'" and "mt_taskQueue s' = (c, ClientTask t) # q" and "c \<in> mt_registeredClients s'"
  shows "\<exists>u. map_of (k_mediaKeySessions s') (taskSession t) = Some u \<and> ks_keySessionId (mu_mediaKeySession u) = taskSession t \<and>
    ks_mainThreadClientId (mu_mediaKeySession u) = c"
proof -
  have "keys_inv s'" using keys_steps_inv [OF assms(3)] keys_construction [OF assms(1,2)] by blast
  then show ?thesis using assms(4,5) by (fastforce simp: keys_inv_def live_client_def session_of_def)
qed

text \<open>C15. Closing a session whose key is in use is deferred: the call succeeds, OCDM is not called and the session stays
  until the last user releases it; then it is closed and gone.\<close>

theorem deferred_close:
  assumes "std_map (k_mediaKeySessions s)" and "map_of (k_mediaKeySessions s) i = Some u" and "unat (mu_bufCounter u) = Suc n"
    and "closeKeySessionInternal i s = (status, s1)"
  shows "status = MKE_OK \<and> (\<forall>k \<le> n. hasSession i ((release i ^^ k) s1) \<and> k_out ((release i ^^ k) s1) = k_out s) \<and>
    ((\<forall>j. or_status (k_replies s j) = MKE_OK) \<longrightarrow>
      \<not> hasSession i ((release i ^^ Suc n) s1) \<and> k_out ((release i ^^ Suc n) s1) = k_out s @ closing_calls (mu_mediaKeySession u))"
proof -
  let ?u = "u\<lparr>mu_shouldBeDestroyed := True\<rparr>"
  have "mu_bufCounter u \<noteq> 0" using assms(3) by auto
  then have s1: "status = MKE_OK" "s1 = s\<lparr>k_mediaKeySessions := assign i ?u (k_mediaKeySessions s)\<rparr>"
    using assms(2,4) by (simp_all add: closeKeySessionInternal_def)
  then have m1: "std_map (k_mediaKeySessions s1)" "map_of (k_mediaKeySessions s1) i = Some ?u"
    using assms(1,2) by (simp_all add: std_map_assign map_of_assign)
  have pow: "(release i ^^ k) s1 = s1\<lparr>k_mediaKeySessions := assign i (?u\<lparr>mu_bufCounter := mu_bufCounter u - of_nat k\<rparr>) (k_mediaKeySessions s1)\<rparr>"
    if "k \<le> n" for k using releases_in_use [OF m1, of k] that assms(3) by simp
  have "hasSession i ((release i ^^ k) s1) \<and> k_out ((release i ^^ k) s1) = k_out s" if "k \<le> n" for k
    using pow [OF that] assms(2) s1(2) by (simp add: hasSession_def map_of_assign)
  moreover have "\<not> hasSession i ((release i ^^ Suc n) s1) \<and>
      k_out ((release i ^^ Suc n) s1) = k_out s @ closing_calls (mu_mediaKeySession u)"
    if ok: "\<forall>j. or_status (k_replies s j) = MKE_OK"
  proof -
    let ?v = "?u\<lparr>mu_bufCounter := mu_bufCounter u - of_nat n\<rparr>"
    have "unat (mu_bufCounter u - of_nat n) = 1"
      using assms(3) unat_u32_bound [of "mu_bufCounter u"] by (simp add: unat_sub_nowrap unat_of_nat_u32)
    then have one: "mu_bufCounter ?v = 1" by (simp add: word_unat_eq_iff)
    let ?s = "s1\<lparr>k_mediaKeySessions := assign i ?v (k_mediaKeySessions s1)\<rparr>"
    have "map_of (k_mediaKeySessions ?s) i = Some ?v" using m1(2) by (simp add: map_of_assign)
    from last_release [OF this one] have "release i ((release i ^^ n) s1) = snd (closeAndErase i (?v\<lparr>mu_bufCounter := 0\<rparr>)
        (s1\<lparr>k_mediaKeySessions := assign i (?v\<lparr>mu_bufCounter := 0\<rparr>) (k_mediaKeySessions s1)\<rparr>))"
      by (simp add: pow)
    then show ?thesis using closeAndErase_ok ok s1(2) by simp
  qed
  ultimately show ?thesis using s1(1) by blast
qed

text \<open>A license request is announced once: of the challenges OCDM reports for a session with a pending license
  request, the first is passed on as the license request and all further ones as renewals, in order and unchanged.\<close>

theorem license_request_once:
  assumes "ks_client ses"
    and "fold (\<lambda>(c, url) (ses, s). sessionTask (ProcessChallengeTask i c url) ses s) challenges (ses, s) = (ses', s')"
  shows "k_out s' = k_out s @ (case challenges of [] \<Rightarrow> []
    | (c, url) # rest \<Rightarrow> (if ks_licenseRequested ses then KE_licenseRequest (ks_keySessionId ses) c url
                        else KE_licenseRenewal (ks_keySessionId ses) c) # map (\<lambda>(c, _). KE_licenseRenewal (ks_keySessionId ses) c) rest)"
proof -
  let ?f = "\<lambda>(c, url) (ses, s). sessionTask (ProcessChallengeTask i c url) ses s"
  have later: "k_out (snd (fold ?f cs (ses, s))) = k_out s @ map (\<lambda>(c, _). KE_licenseRenewal (ks_keySessionId ses) c) cs"
    if "ks_client ses" "\<not> ks_licenseRequested ses" for cs ses s
    using that by (induction cs arbitrary: s) (auto simp: case_prod_beta)
  show ?thesis
  proof (cases challenges)
    case Nil
    then show ?thesis using assms(2) by simp
  next
    case (Cons x rest)
    show ?thesis
      using assms Cons later [of ses rest "notify (KE_licenseRenewal (ks_keySessionId ses) (fst x)) s"]
        later [of "ses\<lparr>ks_licenseRequested := False\<rparr>" rest "notify (KE_licenseRequest (ks_keySessionId ses) (fst x) (snd x)) s"]
      by (cases x) (auto split: if_splits)
  qed
qed

text \<open>Key statuses are reported completely: the updates OCDM reports for a session are collected in order with their
  status and delivered in one message when the update ends, and none is delivered twice.\<close>

theorem key_statuses_reported:
  assumes "ks_client ses" and "ks_updatedKeyStatuses ses = []"
    and "fold (\<lambda>k (ses, s). sessionTask (KeyUpdatedTask i k) ses s) keys (ses, s) = (ses1, s1)"
    and "sessionTask (AllKeysUpdatedTask i) ses1 s1 = (ses', s')"
  shows "last (k_out s') = KE_keyStatusesChanged (ks_keySessionId ses)
      (map (\<lambda>j. (keys ! j, or_keyStatus (k_replies s (k_calls s + j)))) [0..<length keys]) \<and> ks_updatedKeyStatuses ses' = []"
proof -
  let ?f = "\<lambda>k (ses, s). sessionTask (KeyUpdatedTask i k) ses s"
  have run: "fold ?f keys (ses, s) = (ses1, s1) \<Longrightarrow> ks_client ses \<Longrightarrow> ks_client ses1 \<and> ks_keySessionId ses1 = ks_keySessionId ses \<and>
    ks_updatedKeyStatuses ses1 = ks_updatedKeyStatuses ses @
      map (\<lambda>j. (keys ! j, or_keyStatus (k_replies s (k_calls s + j)))) [0..<length keys]" for ses s
  proof (induction keys arbitrary: ses s)
    case (Cons k keys)
    let ?ses = "ses\<lparr>ks_updatedKeyStatuses := ks_updatedKeyStatuses ses @ [(k, or_keyStatus (k_replies s (k_calls s)))]\<rparr>"
    let ?s = "snd (ocdm (ks_keySessionId ses) (OC_getStatus k) s)"
    have "fold ?f keys (?ses, ?s) = (ses1, s1)" using Cons.prems by (simp add: ocdm_def)
    from Cons.IH [OF this] Cons.prems(2) show ?case by (simp add: upt_conv_Cons map_Suc_upt [symmetric] del: upt_Suc)
  qed simp
  show ?thesis using run [OF assms(3,1)] assms(2,4) by (auto simp: notify_def)
qed

section \<open>Witnesses\<close>

definition ok_reply :: OcdmReply where
  "ok_reply = \<lparr>or_status = MKE_OK, or_bytes = [], or_value = 0, or_keyStatus = KS_USABLE\<rparr>"

definition demo_keys :: MediaKeysServer where
  "demo_keys = \<lparr>mt_isMainThreadRunning = True, mt_taskQueue = [], mt_nextClientId = 2, mt_registeredClients = {0, 1},
     k_ocdmSystem = True, k_mediaKeySessions = [], k_keySystem = kNetflixKeySystem, k_mainThreadClientId = 1,
     k_keySessionId = 0, k_replies = (\<lambda>_. ok_reply), k_calls = 0, k_out = []\<rparr>"

definition demo_key_session :: MediaKeySession where
  "demo_key_session = \<lparr>ks_keySystem = kNetflixKeySystem, ks_keySessionId = 0, ks_sessionType = KST_TEMPORARY,
     ks_client = True, ks_isLDL = False, ks_isSessionConstructed = True, ks_licenseRequested = True,
     ks_updatedKeyStatuses = [], ks_mainThreadClientId = 2, ks_selectedKeyId = []\<rparr>"

definition demo_keys_used :: MediaKeysServer where
  "demo_keys_used = demo_keys\<lparr>mt_registeredClients := {0, 1, 2}, mt_nextClientId := 3, k_keySessionId := 1,
     k_mediaKeySessions := [(0, \<lparr>mu_mediaKeySession = demo_key_session, mu_bufCounter = 2, mu_shouldBeDestroyed = False\<rparr>)]\<rparr>"

lemma demo_keys_new: "newMediaKeysServerInternal (Some newMainThread) kNetflixKeySystem True 0 (\<lambda>_. ok_reply) = Inr demo_keys"
  by (simp add: newMediaKeysServerInternal_def newMainThread_def registerClient_def enqueueTask_def onKeysThread_def
      enqueueTaskAndWait_def mainThreadStep_def mainThreadClientId_def demo_keys_def insert_commute)

lemma unused_new: "unused_thread newMainThread"
  by (simp add: unused_thread_def newMainThread_def mainThreadClientId_def)

definition demo_keys_waiting :: MediaKeysServer where
  "demo_keys_waiting = snd (onKeysThread (\<lambda>s. ((), keyRequest (GenerateRequest 0 IDT_CENC [1]) s))
     (snd (onKeysThread (\<lambda>s. ((), keyRequest (CreateKeySession KST_TEMPORARY True False) s)) demo_keys)))"

lemma demo_keys_created:
  "snd (onKeysThread (\<lambda>s. ((), keyRequest (CreateKeySession KST_TEMPORARY True False) s)) demo_keys) =
    demo_keys\<lparr>mt_taskQueue := [(0, RegisterTask 2)], mt_nextClientId := 3, k_keySessionId := 1, k_calls := 1,
      k_out := [KE_ocdm 0 OS_createSession],
      k_mediaKeySessions := [(0, \<lparr>mu_mediaKeySession = demo_key_session\<lparr>ks_isSessionConstructed := False, ks_licenseRequested := False\<rparr>,
        mu_bufCounter = 0, mu_shouldBeDestroyed = False\<rparr>)]\<rparr>"
  by (simp add: demo_keys_def onKeysThread_def enqueueTaskAndWait_def createKeySessionInternal_def generateSessionId_def
      newMediaKeySession_def registerClient_def enqueueTask_def mainThreadClientId_def ocdm_def ok_reply_def emplace_def
      demo_key_session_def)

lemma demo_keys_waiting_state:
  "mt_taskQueue demo_keys_waiting = [(2, ClientTask (GetChallengeTask 0))]" "2 \<in> mt_registeredClients demo_keys_waiting"
  unfolding demo_keys_waiting_def demo_keys_created
  by (simp_all add: demo_keys_def onKeysThread_def enqueueTaskAndWait_def mainThreadStep_def generateRequestInternal_def
      withKeySession_def ks_generateRequest_def ocdm_def ok_reply_def getChallenge_def enqueueTask_def putSession_def
      demo_key_session_def)

lemma demo_keys_steps: "keys_step\<^sup>*\<^sup>* demo_keys demo_keys_waiting"
proof -
  let ?s = "snd (onKeysThread (\<lambda>s. ((), keyRequest (CreateKeySession KST_TEMPORARY True False) s)) demo_keys)"
  have "keys_step demo_keys ?s" by (rule keys_request) (simp add: demo_keys_def)
  moreover have "keys_step ?s demo_keys_waiting"
    unfolding demo_keys_waiting_def by (rule keys_request) (simp add: demo_keys_created del: keyRequest.simps)
  ultimately show ?thesis by (meson converse_rtranclp_into_rtranclp r_into_rtranclp)
qed

theorem key_tasks_find_session_witness:
  "\<exists>u. map_of (k_mediaKeySessions demo_keys_waiting) 0 = Some u \<and> ks_mainThreadClientId (mu_mediaKeySession u) = 2"
  using key_tasks_find_session [OF unused_new demo_keys_new demo_keys_steps demo_keys_waiting_state] by auto

theorem deferred_close_witness:
  "let s1 = snd (closeKeySessionInternal 0 demo_keys_used)
   in hasSession 0 ((release 0 ^^ 1) s1) \<and> \<not> hasSession 0 ((release 0 ^^ 2) s1)"
proof -
  obtain status s1 where s1: "closeKeySessionInternal 0 demo_keys_used = (status, s1)" by (metis surj_pair)
  have d: "std_map (k_mediaKeySessions demo_keys_used)"
    "map_of (k_mediaKeySessions demo_keys_used) 0 = Some \<lparr>mu_mediaKeySession = demo_key_session, mu_bufCounter = 2, mu_shouldBeDestroyed = False\<rparr>"
    and ok: "\<forall>j. or_status (k_replies demo_keys_used j) = MKE_OK"
    by (simp_all add: demo_keys_used_def std_map_def demo_keys_def ok_reply_def)
  have n: "unat (mu_bufCounter \<lparr>mu_mediaKeySession = demo_key_session, mu_bufCounter = 2, mu_shouldBeDestroyed = False\<rparr>) = Suc 1" by simp
  from deferred_close [OF d n s1] ok have "hasSession 0 ((release 0 ^^ 1) s1)" "\<not> hasSession 0 ((release 0 ^^ Suc 1) s1)" by blast+
  then show ?thesis unfolding Let_def s1 snd_conv by (metis Suc_1)
qed

theorem license_request_once_witness:
  "k_out (snd (fold (\<lambda>(c, url) (ses, s). sessionTask (ProcessChallengeTask 0 c url) ses s) [([7], ''u''), ([8], ''u'')] (demo_key_session, demo_keys))) =
    [KE_licenseRequest 0 [7] ''u'', KE_licenseRenewal 0 [8]]"
proof -
  let ?run = "fold (\<lambda>(c, url) (ses, s). sessionTask (ProcessChallengeTask 0 c url) ses s) [([7], ''u''), ([8], ''u'')] (demo_key_session, demo_keys)"
  obtain ses' s' where run: "?run = (ses', s')" by (metis surj_pair)
  have ses: "ks_client demo_key_session" "ks_licenseRequested demo_key_session" "ks_keySessionId demo_key_session = 0" "k_out demo_keys = []"
    by (simp_all add: demo_key_session_def demo_keys_def)
  show ?thesis unfolding run snd_conv using license_request_once [OF ses(1) run] ses by simp
qed

theorem key_statuses_reported_witness:
  "let (ses1, s1) = fold (\<lambda>k (ses, s). sessionTask (KeyUpdatedTask 0 k) ses s) [[1], [2]] (demo_key_session, demo_keys)
   in last (k_out (snd (sessionTask (AllKeysUpdatedTask 0) ses1 s1))) = KE_keyStatusesChanged 0 [([1], KS_USABLE), ([2], KS_USABLE)]"
proof -
  let ?run = "fold (\<lambda>k (ses, s). sessionTask (KeyUpdatedTask 0 k) ses s) [[1], [2]] (demo_key_session, demo_keys)"
  obtain ses1 s1 where run: "?run = (ses1, s1)" by (metis surj_pair)
  obtain ses' s' where all: "sessionTask (AllKeysUpdatedTask 0) ses1 s1 = (ses', s')" by (metis surj_pair)
  have ses: "ks_client demo_key_session" "ks_updatedKeyStatuses demo_key_session = []" "ks_keySessionId demo_key_session = 0"
    "or_keyStatus (k_replies demo_keys n) = KS_USABLE" for n
    by (simp_all add: demo_key_session_def demo_keys_def ok_reply_def)
  show ?thesis unfolding run prod.case using key_statuses_reported [OF ses(1,2) run all] ses all by (simp add: upt_rec)
qed

end
