(* ===== verification/Cdm_Service.thy ===== *)
theory Cdm_Service
  imports Media_Keys_Proofs
begin

text \<open>
  The CDM service of the session server (\<open>media/server/service/source/CdmService.cpp\<close>): media keys objects by
  handle, the clients of their key sessions, and the calls the decryptor makes by key session id.
\<close>

section \<open>State\<close>

text \<open>The members of \<open>CdmService\<close>. \<open>cs_mediaKeysClients\<close> lists the key sessions whose client is kept alive here;
  \<open>cs_keySessionId\<close> is the counter of \<open>generateSessionId\<close>, which all media keys objects share.\<close>

record CdmService =
  cs_isActive :: bool
  cs_mediaKeys :: "(int \<times> MediaKeysServer) list"
  cs_mediaKeysClients :: "(int \<times> unit) list"
  cs_keySessionId :: int

definition newCdmService :: CdmService where
  "newCdmService = \<lparr>cs_isActive = False, cs_mediaKeys = [], cs_mediaKeysClients = [], cs_keySessionId = 0\<rparr>"

record KeysEnv =
  kv_mainThread :: "KeyTask MainThread option"
  kv_created :: bool
  kv_replies :: "nat \<Rightarrow> OcdmReply"

definition createMediaKeysServerInternal :: "KeysEnv \<Rightarrow> string \<Rightarrow> int \<Rightarrow> MediaKeysServer option" where
  "createMediaKeysServerInternal e keySystem counter =
     (case newMediaKeysServerInternal (kv_mainThread e) keySystem (kv_created e) counter (kv_replies e) of
        Inr m \<Rightarrow> Some m
      | Inl _ \<Rightarrow> None)"

definition cdmToActive :: "CdmService \<Rightarrow> bool \<times> CdmService" where
  "cdmToActive s = (True, s\<lparr>cs_isActive := True\<rparr>)"

definition cdmToInactive :: "CdmService \<Rightarrow> CdmService" where
  "cdmToInactive s = s\<lparr>cs_isActive := False, cs_mediaKeys := []\<rparr>"

section \<open>Media keys\<close>

definition createMediaKeys :: "KeysEnv \<Rightarrow> int \<Rightarrow> string \<Rightarrow> CdmService \<Rightarrow> bool \<times> CdmService" where
  "createMediaKeys e mediaKeysHandle keySystem s =
     (if \<not> cs_isActive s then (False, s)
      else if map_of (cs_mediaKeys s) mediaKeysHandle \<noteq> None then (False, s)
      else case createMediaKeysServerInternal e keySystem (cs_keySessionId s) of
          None \<Rightarrow> (False, s)
        | Some m \<Rightarrow> (True, s\<lparr>cs_mediaKeys := emplace mediaKeysHandle m (cs_mediaKeys s)\<rparr>))"

definition destroyMediaKeys :: "int \<Rightarrow> CdmService \<Rightarrow> bool \<times> CdmService" where
  "destroyMediaKeys mediaKeysHandle s =
     (case map_of (cs_mediaKeys s) mediaKeysHandle of
        None \<Rightarrow> (False, s)
      | Some m \<Rightarrow> (True, s\<lparr>cs_mediaKeys := erase mediaKeysHandle (cs_mediaKeys s)\<rparr>))"

text \<open>A call on the media keys of a handle; \<open>missing\<close> is the result without one. The outer option of a result is
  \<open>None\<close> when the main thread did not run the call.\<close>

definition onMediaKeys :: "'r \<Rightarrow> int \<Rightarrow> (MediaKeysServer \<Rightarrow> 'r \<times> MediaKeysServer) \<Rightarrow> CdmService \<Rightarrow> 'r \<times> CdmService" where
  "onMediaKeys missing mediaKeysHandle call s =
     (case map_of (cs_mediaKeys s) mediaKeysHandle of
        None \<Rightarrow> (missing, s)
      | Some m \<Rightarrow> (let (r, m) = call (m\<lparr>k_keySessionId := cs_keySessionId s\<rparr>)
                   in (r, s\<lparr>cs_mediaKeys := assign mediaKeysHandle m (cs_mediaKeys s), cs_keySessionId := k_keySessionId m\<rparr>)))"

text \<open>When the last shared pointer to a client goes, the weak pointer of its session cannot be locked any more.\<close>

definition expireClient :: "int \<Rightarrow> MediaKeysServer \<Rightarrow> MediaKeysServer" where
  "expireClient keySessionId m =
     (case map_of (k_mediaKeySessions m) keySessionId of
        None \<Rightarrow> m
      | Some u \<Rightarrow> putSession keySessionId u ((mu_mediaKeySession u)\<lparr>ks_client := False\<rparr>) m)"

definition cdmRemoveKeySessionInternal :: "int \<Rightarrow> int \<Rightarrow> CdmService \<Rightarrow> MediaKeyErrorStatus option \<times> CdmService" where
  "cdmRemoveKeySessionInternal mediaKeysHandle keySessionId s =
     (let (status, s) = onMediaKeys (Some MKE_FAIL) mediaKeysHandle (removeKeySession keySessionId) s
      in if status = Some MKE_OK
         then (status, snd (onMediaKeys () mediaKeysHandle (\<lambda>m. ((), expireClient keySessionId m))
                 (s\<lparr>cs_mediaKeysClients := erase keySessionId (cs_mediaKeysClients s)\<rparr>)))
         else (status, s))"

definition cdmCreateKeySession :: "int \<Rightarrow> KeySessionType \<Rightarrow> bool \<Rightarrow> CdmService \<Rightarrow>
    (MediaKeyErrorStatus \<times> int option) option \<times> CdmService" where
  "cdmCreateKeySession mediaKeysHandle sessionType isLDL s =
     (let (r, s) = onMediaKeys (Some (MKE_FAIL, None)) mediaKeysHandle (createKeySession sessionType True isLDL) s
      in case r of
           Some (MKE_OK, Some keySessionId) \<Rightarrow>
             if map_of (cs_mediaKeysClients s) keySessionId \<noteq> None
             then (Some (MKE_FAIL, Some keySessionId), snd (cdmRemoveKeySessionInternal mediaKeysHandle keySessionId s))
             else (r, s\<lparr>cs_mediaKeysClients := emplace keySessionId () (cs_mediaKeysClients s)\<rparr>)
         | _ \<Rightarrow> (r, s))"

definition cdmRemoveKeySession where
  "cdmRemoveKeySession mediaKeysHandle keySessionId = cdmRemoveKeySessionInternal mediaKeysHandle keySessionId"

definition cdmGenerateRequest where
  "cdmGenerateRequest mediaKeysHandle keySessionId initDataType initData =
     onMediaKeys (Some MKE_FAIL) mediaKeysHandle (generateRequest keySessionId initDataType initData)"

definition cdmLoadSession where
  "cdmLoadSession mediaKeysHandle keySessionId =
     onMediaKeys (Some MKE_FAIL) mediaKeysHandle (loadSession keySessionId)"

definition cdmUpdateSession where
  "cdmUpdateSession mediaKeysHandle keySessionId responseData =
     onMediaKeys (Some MKE_FAIL) mediaKeysHandle (updateSession keySessionId responseData)"

definition cdmCloseKeySession where
  "cdmCloseKeySession mediaKeysHandle keySessionId =
     onMediaKeys (Some MKE_FAIL) mediaKeysHandle (closeKeySession keySessionId)"

definition cdmGetCdmKeySessionId where
  "cdmGetCdmKeySessionId mediaKeysHandle keySessionId =
     onMediaKeys (Some (MKE_FAIL, [])) mediaKeysHandle (getCdmKeySessionId keySessionId)"

definition cdmContainsKey where
  "cdmContainsKey mediaKeysHandle keySessionId keyId =
     onMediaKeys (Some False) mediaKeysHandle (containsKey keySessionId keyId)"

definition cdmSetDrmHeader where
  "cdmSetDrmHeader mediaKeysHandle keySessionId requestData =
     onMediaKeys (Some MKE_FAIL) mediaKeysHandle (setDrmHeader keySessionId requestData)"

definition cdmDeleteDrmStore where
  "cdmDeleteDrmStore mediaKeysHandle = onMediaKeys (Some MKE_FAIL) mediaKeysHandle deleteDrmStore"

definition cdmDeleteKeyStore where
  "cdmDeleteKeyStore mediaKeysHandle = onMediaKeys (Some MKE_FAIL) mediaKeysHandle deleteKeyStore"

definition cdmGetDrmStoreHash where
  "cdmGetDrmStoreHash mediaKeysHandle = onMediaKeys (Some (MKE_FAIL, [])) mediaKeysHandle getDrmStoreHash"

definition cdmGetKeyStoreHash where
  "cdmGetKeyStoreHash mediaKeysHandle = onMediaKeys (Some (MKE_FAIL, [])) mediaKeysHandle getKeyStoreHash"

definition cdmGetLdlSessionsLimit where
  "cdmGetLdlSessionsLimit mediaKeysHandle = onMediaKeys (Some (MKE_FAIL, 0)) mediaKeysHandle getLdlSessionsLimit"

definition cdmGetLastDrmError where
  "cdmGetLastDrmError mediaKeysHandle keySessionId =
     onMediaKeys (Some (MKE_FAIL, 0)) mediaKeysHandle (getLastDrmError keySessionId)"

definition cdmGetDrmTime where
  "cdmGetDrmTime mediaKeysHandle = onMediaKeys (Some (MKE_FAIL, 0)) mediaKeysHandle getDrmTime"

section \<open>Calls by key session\<close>

text \<open>The decryptor knows only key session ids: the first media keys object, by handle, that has the session.\<close>

definition findKeySession :: "int \<Rightarrow> CdmService \<Rightarrow> int option" where
  "findKeySession keySessionId s = map_option fst (find (\<lambda>(h, m). hasSession keySessionId m) (cs_mediaKeys s))"

definition onKeySession :: "'r \<Rightarrow> int \<Rightarrow> (MediaKeysServer \<Rightarrow> 'r \<times> MediaKeysServer) \<Rightarrow> CdmService \<Rightarrow> 'r \<times> CdmService" where
  "onKeySession missing keySessionId call s =
     (case findKeySession keySessionId s of None \<Rightarrow> (missing, s) | Some h \<Rightarrow> onMediaKeys missing h call s)"

definition cdmDecrypt where
  "cdmDecrypt keySessionId subSampleCount initWithLast15 =
     onKeySession (Some MKE_FAIL) keySessionId (decrypt keySessionId subSampleCount initWithLast15)"

definition cdmIsNetflixKeySystem where
  "cdmIsNetflixKeySystem keySessionId =
     onKeySession (Some False) keySessionId (isNetflixKeySystem keySessionId)"

definition cdmSelectKeyId where
  "cdmSelectKeyId keySessionId keyId = onKeySession (Some MKE_FAIL) keySessionId (selectKeyId keySessionId keyId)"

definition cdmIncrementSessionIdUsageCounter where
  "cdmIncrementSessionIdUsageCounter keySessionId s =
     snd (onKeySession None keySessionId (incrementSessionIdUsageCounter keySessionId) s)"

definition cdmDecrementSessionIdUsageCounter where
  "cdmDecrementSessionIdUsageCounter keySessionId s =
     snd (onKeySession None keySessionId (decrementSessionIdUsageCounter keySessionId) s)"

text \<open>Capabilities are those of the OCDM installation, \<open>None\<close> when the capabilities object cannot be created.\<close>

definition getSupportedKeySystems :: "string list option \<Rightarrow> CdmService \<Rightarrow> string list" where
  "getSupportedKeySystems capabilities s =
     (if \<not> cs_isActive s then [] else case capabilities of None \<Rightarrow> [] | Some systems \<Rightarrow> systems)"

definition supportsKeySystem :: "(string \<Rightarrow> bool) option \<Rightarrow> string \<Rightarrow> CdmService \<Rightarrow> bool" where
  "supportsKeySystem capabilities keySystem s =
     (if \<not> cs_isActive s then False else case capabilities of None \<Rightarrow> False | Some supports \<Rightarrow> supports keySystem)"

definition getSupportedKeySystemVersion :: "(string \<Rightarrow> string option) option \<Rightarrow> string \<Rightarrow> CdmService \<Rightarrow> string option" where
  "getSupportedKeySystemVersion capabilities keySystem s =
     (if \<not> cs_isActive s then None else case capabilities of None \<Rightarrow> None | Some version \<Rightarrow> version keySystem)"

section \<open>Which sessions a call can create\<close>

abbreviation key_ids :: "MediaKeysServer \<Rightarrow> int set" where
  "key_ids m \<equiv> dom (map_of (k_mediaKeySessions m))"

definition keys_grow :: "MediaKeysServer \<Rightarrow> MediaKeysServer \<Rightarrow> bool" where
  "keys_grow m m' \<longleftrightarrow> k_keySessionId m \<le> k_keySessionId m' \<and> key_ids m' \<subseteq> key_ids m \<union> {k_keySessionId m..<k_keySessionId m'}"

lemma keys_grow_refl [simp]: "keys_grow m m"
  by (simp add: keys_grow_def)

lemma keys_grow_trans: "keys_grow m m' \<Longrightarrow> keys_grow m' m'' \<Longrightarrow> keys_grow m m''"
  by (fastforce simp: keys_grow_def)

lemma keys_grow_same: "k_keySessionId m' = k_keySessionId m \<Longrightarrow> key_ids m' \<subseteq> key_ids m \<Longrightarrow> keys_grow m m'"
  by (auto simp: keys_grow_def)

lemma effect_grow:
  assumes "session_effect ses m ses' m'" and "map_of (k_mediaKeySessions m) i = Some u"
  shows "keys_grow m (putSession i u ses' m')"
  using assms by (auto intro!: keys_grow_same simp: effect_defs putSession_def map_of_assign dom_def split: if_splits)

lemma keyTask_grow: "keys_grow m (keyTask t m)"
  using effect_grow [OF sessionTask_effect] by (auto simp: keyTask_def case_prod_beta split: option.split)

lemma loop_grow: "keys_grow m (mainThreadLoop keyTask n m)"
proof (rule keys.loop_invariant)
  fix x q and s :: MediaKeysServer
  assume "keys_grow m s"
  moreover have "keys_grow s (mainThreadStep keyTask x (s\<lparr>mt_taskQueue := q\<rparr>))"
    using keyTask_grow [of "s\<lparr>mt_taskQueue := q\<rparr>"]
    by (cases "snd x") (auto simp: mainThreadStep_def keys_grow_def)
  ultimately show "keys_grow m (mainThreadStep keyTask x (s\<lparr>mt_taskQueue := q\<rparr>))" by (rule keys_grow_trans)
qed simp

lemma onKeysThread_grow:
  assumes "\<And>m. keys_grow m (snd (task m))"
  shows "keys_grow m (snd (onKeysThread task m))"
  using keys_grow_trans [OF loop_grow assms] loop_grow
  by (simp add: onKeysThread_def enqueueTaskAndWait_def Let_def)

lemma withKeySession_grow:
  assumes "\<And>ses s. session_effect ses s (fst (snd (call ses s))) (snd (snd (call ses s)))"
  shows "keys_grow m (snd (withKeySession d i call m))"
  using effect_grow [OF assms] by (auto simp: withKeySession_def case_prod_beta split: option.split)

lemma closeAndErase_grow:
  assumes "map_of (k_mediaKeySessions m) i = Some u"
  shows "keys_grow m (snd (closeAndErase i u m))"
proof -
  obtain status ses m1 where c: "ks_closeKeySession (mu_mediaKeySession u) m = (status, ses, m1)" by (metis prod_cases3)
  then have e: "session_effect (mu_mediaKeySession u) m ses m1" using ks_closeKeySession_effect [of "mu_mediaKeySession u" m] by simp
  obtain ses' m' where d: "session_effect ses m1 ses' m'" "destroyMediaKeySession ses m1 = unregisterClient (ks_mainThreadClientId ses') m'"
    using destroyMediaKeySession_eq by blast
  have "k_mediaKeySessions m1 = k_mediaKeySessions m" "k_keySessionId m' = k_keySessionId m"
    using d(1) e by (simp_all add: effect_defs)
  then have "keys_grow m ((destroyMediaKeySession ses m1)\<lparr>k_mediaKeySessions := erase i (k_mediaKeySessions m1)\<rparr>)"
    by (auto simp: d(2) unregisterClient_def keys_grow_def split: if_splits)
  then show ?thesis using c effect_grow [OF e assms] by (simp add: closeAndErase_def)
qed

lemma usage_grow:
  "map_of (k_mediaKeySessions m) i = Some u \<Longrightarrow> keys_grow m (m\<lparr>k_mediaKeySessions := assign i u' (k_mediaKeySessions m)\<rparr>)"
  by (auto simp: keys_grow_def map_of_assign split: if_splits)

lemma keyRequest_grow: "keys_grow m (keyRequest r m)"
proof (cases r)
  case (CreateKeySession t client ldl)
  then show ?thesis
    by (auto simp: createKeySessionInternal_def generateSessionId_def newMediaKeySession_def registerClient_def enqueueTask_def
        ocdm_def keys_grow_def Let_def split: if_splits)
next
  case (CloseKeySession i)
  then show ?thesis
    using closeAndErase_grow [of m i] usage_grow by (auto simp: closeKeySessionInternal_def split: option.split)
next
  case (IncrementUsage i)
  then show ?thesis using usage_grow by (auto simp: incrementSessionIdUsageCounterInternal_def split: option.split)
next
  case (DecrementUsage i)
  show ?thesis
  proof (cases "map_of (k_mediaKeySessions m) i")
    case (Some u)
    define u' where "u' = (if mu_bufCounter u > 0 then u\<lparr>mu_bufCounter := mu_bufCounter u - 1\<rparr> else u)"
    let ?m = "m\<lparr>k_mediaKeySessions := assign i u' (k_mediaKeySessions m)\<rparr>"
    have m: "keys_grow m ?m" "map_of (k_mediaKeySessions ?m) i = Some u'"
      using usage_grow [OF Some] Some by (simp_all add: map_of_assign)
    show ?thesis
      using keys_grow_trans [OF m(1) closeAndErase_grow [OF m(2)]] m(1) Some
      by (simp add: DecrementUsage decrementSessionIdUsageCounterInternal_def u'_def [symmetric] Let_def)
  qed (simp add: DecrementUsage decrementSessionIdUsageCounterInternal_def)
qed (use ks_method_effects in
    \<open>simp_all add: withKeySession_grow generateRequestInternal_def loadSessionInternal_def ks_loadSession_def updateSessionInternal_def
      setDrmHeaderInternal_def ks_setDrmHeader_def removeKeySessionInternal_def ks_removeKeySession_def selectKeyIdInternal_def
      containsKeyInternal_def getLastDrmErrorInternal_def getCdmKeySessionIdInternal_def decryptInternal_def ks_decrypt_def
      deleteDrmStoreTask_def deleteKeyStoreTask_def getDrmStoreHashTask_def getKeyStoreHashTask_def getLdlSessionsLimitTask_def getDrmTimeTask_def
      keys_grow_same Let_def case_prod_beta\<close>)

section \<open>Key session ids are unique\<close>

definition cdm_inv :: "CdmService \<Rightarrow> bool" where
  "cdm_inv s \<longleftrightarrow> std_map (cs_mediaKeys s) \<and>
     (\<forall>h m. map_of (cs_mediaKeys s) h = Some m \<longrightarrow> (\<forall>i \<in> key_ids m. i < cs_keySessionId s)) \<and>
     (\<forall>h h' m m'. map_of (cs_mediaKeys s) h = Some m \<longrightarrow> map_of (cs_mediaKeys s) h' = Some m' \<longrightarrow> h \<noteq> h' \<longrightarrow>
        key_ids m \<inter> key_ids m' = {})"

lemma onMediaKeys_inv:
  assumes inv: "cdm_inv s" and grow: "\<And>m. keys_grow m (snd (call m))"
  shows "cdm_inv (snd (onMediaKeys d h call s))"
proof (cases "map_of (cs_mediaKeys s) h")
  case None
  with inv show ?thesis by (simp add: onMediaKeys_def)
next
  case (Some m)
  define m' where "m' = snd (call (m\<lparr>k_keySessionId := cs_keySessionId s\<rparr>))"
  have ids: "key_ids m' \<subseteq> key_ids m \<union> {cs_keySessionId s..<k_keySessionId m'}" "cs_keySessionId s \<le> k_keySessionId m'"
    using grow [of "m\<lparr>k_keySessionId := cs_keySessionId s\<rparr>"] by (simp_all add: keys_grow_def m'_def)
  have old: "i < cs_keySessionId s" if "map_of (cs_mediaKeys s) k = Some n" "i \<in> key_ids n" for k n i
    using inv that by (auto simp: cdm_inv_def)
  have low: "i < k_keySessionId m'" if "i \<in> key_ids m'" for i using ids old [OF Some, of i] that by fastforce
  have disj: "key_ids m' \<inter> key_ids n = {}" if "map_of (cs_mediaKeys s) k = Some n" "k \<noteq> h" for k n
  proof -
    have "key_ids m \<inter> key_ids n = {}" using inv Some that unfolding cdm_inv_def by blast
    then show ?thesis using ids(1) old [OF that(1)] by fastforce
  qed
  have s': "snd (onMediaKeys d h call s) = s\<lparr>cs_mediaKeys := assign h m' (cs_mediaKeys s), cs_keySessionId := k_keySessionId m'\<rparr>"
    using Some by (simp add: onMediaKeys_def m'_def case_prod_beta)
  have std: "std_map (cs_mediaKeys s)"
    and apart: "\<And>k k' n n'. map_of (cs_mediaKeys s) k = Some n \<Longrightarrow> map_of (cs_mediaKeys s) k' = Some n' \<Longrightarrow> k \<noteq> k' \<Longrightarrow> key_ids n \<inter> key_ids n' = {}"
    using inv unfolding cdm_inv_def by blast+
  show ?thesis
    unfolding s' cdm_inv_def
  proof (intro conjI allI impI)
    show "std_map (cs_mediaKeys (s\<lparr>cs_mediaKeys := assign h m' (cs_mediaKeys s), cs_keySessionId := k_keySessionId m'\<rparr>))"
      using std by (simp add: std_map_assign)
  next
    fix k n
    assume "map_of (cs_mediaKeys (s\<lparr>cs_mediaKeys := assign h m' (cs_mediaKeys s), cs_keySessionId := k_keySessionId m'\<rparr>)) k = Some n"
    then show "\<forall>i \<in> key_ids n. i < cs_keySessionId (s\<lparr>cs_mediaKeys := assign h m' (cs_mediaKeys s), cs_keySessionId := k_keySessionId m'\<rparr>)"
      using low old [of k n] ids(2) by (fastforce simp: map_of_assign split: if_splits)
  next
    fix k k' n n'
    assume "map_of (cs_mediaKeys (s\<lparr>cs_mediaKeys := assign h m' (cs_mediaKeys s), cs_keySessionId := k_keySessionId m'\<rparr>)) k = Some n"
      "map_of (cs_mediaKeys (s\<lparr>cs_mediaKeys := assign h m' (cs_mediaKeys s), cs_keySessionId := k_keySessionId m'\<rparr>)) k' = Some n'" "k \<noteq> k'"
    then show "key_ids n \<inter> key_ids n' = {}"
      using disj [of k' n'] disj [of k n] apart [of k n k' n'] by (auto simp: map_of_assign split: if_splits)
  qed
qed

text \<open>The session found for a key session id is the only one.\<close>

lemma findKeySession_iff:
  assumes inv: "cdm_inv s"
  shows "findKeySession i s = Some h \<longleftrightarrow> (\<exists>m. map_of (cs_mediaKeys s) h = Some m \<and> hasSession i m)"
proof
  assume "findKeySession i s = Some h"
  then obtain m where "find (\<lambda>(h, m). hasSession i m) (cs_mediaKeys s) = Some (h, m)" by (auto simp: findKeySession_def)
  then have "(h, m) \<in> set (cs_mediaKeys s)" "hasSession i m" by (auto simp: find_Some_iff in_set_conv_nth)
  then show "\<exists>m. map_of (cs_mediaKeys s) h = Some m \<and> hasSession i m"
    using inv map_of_is_SomeI by (fastforce simp: cdm_inv_def std_map_def)
next
  assume "\<exists>m. map_of (cs_mediaKeys s) h = Some m \<and> hasSession i m"
  then obtain m where m: "map_of (cs_mediaKeys s) h = Some m" "hasSession i m" by blast
  then have "find (\<lambda>(h, m). hasSession i m) (cs_mediaKeys s) \<noteq> None" by (auto simp: find_None_iff dest!: map_of_SomeD)
  then obtain k n where kn: "find (\<lambda>(h, m). hasSession i m) (cs_mediaKeys s) = Some (k, n)" by auto
  then have "(k, n) \<in> set (cs_mediaKeys s)" "hasSession i n" by (auto simp: find_Some_iff in_set_conv_nth)
  then have k: "map_of (cs_mediaKeys s) k = Some n" using inv map_of_is_SomeI by (fastforce simp: cdm_inv_def std_map_def)
  have "h = k"
  proof (rule ccontr)
    assume "h \<noteq> k"
    then have "key_ids m \<inter> key_ids n = {}" using inv m(1) k unfolding cdm_inv_def by blast
    then show False using m(2) \<open>hasSession i n\<close> by (auto simp: hasSession_def)
  qed
  then show "findKeySession i s = Some h" using kn by (simp add: findKeySession_def)
qed

section \<open>Every operation of the service\<close>

datatype CdmOp =
    CdmActivate | CdmDeactivate | CreateMediaKeysOp KeysEnv int string | DestroyMediaKeysOp int
  | CreateKeySessionOp int KeySessionType bool | RemoveKeySessionOp int int | GenerateRequestOp int int InitDataType "u8 list"
  | LoadSessionOp int int | UpdateSessionOp int int "u8 list" | CloseKeySessionOp int int | GetCdmKeySessionIdOp int int
  | ContainsKeyOp int int "u8 list" | SetDrmHeaderOp int int "u8 list" | DeleteDrmStoreOp int | DeleteKeyStoreOp int
  | GetDrmStoreHashOp int | GetKeyStoreHashOp int | GetLdlSessionsLimitOp int | GetLastDrmErrorOp int int | GetDrmTimeOp int
  | DecryptOp int u32 u32 | IsNetflixOp int | SelectKeyIdOp int "u8 list" | IncrementOp int | DecrementOp int

fun cdm_op :: "CdmOp \<Rightarrow> CdmService \<Rightarrow> CdmService" where
  "cdm_op CdmActivate s = snd (cdmToActive s)"
| "cdm_op CdmDeactivate s = cdmToInactive s"
| "cdm_op (CreateMediaKeysOp e h k) s = snd (createMediaKeys e h k s)"
| "cdm_op (DestroyMediaKeysOp h) s = snd (destroyMediaKeys h s)"
| "cdm_op (CreateKeySessionOp h t ldl) s = snd (cdmCreateKeySession h t ldl s)"
| "cdm_op (RemoveKeySessionOp h i) s = snd (cdmRemoveKeySession h i s)"
| "cdm_op (GenerateRequestOp h i t d) s = snd (cdmGenerateRequest h i t d s)"
| "cdm_op (LoadSessionOp h i) s = snd (cdmLoadSession h i s)"
| "cdm_op (UpdateSessionOp h i d) s = snd (cdmUpdateSession h i d s)"
| "cdm_op (CloseKeySessionOp h i) s = snd (cdmCloseKeySession h i s)"
| "cdm_op (GetCdmKeySessionIdOp h i) s = snd (cdmGetCdmKeySessionId h i s)"
| "cdm_op (ContainsKeyOp h i k) s = snd (cdmContainsKey h i k s)"
| "cdm_op (SetDrmHeaderOp h i d) s = snd (cdmSetDrmHeader h i d s)"
| "cdm_op (DeleteDrmStoreOp h) s = snd (cdmDeleteDrmStore h s)"
| "cdm_op (DeleteKeyStoreOp h) s = snd (cdmDeleteKeyStore h s)"
| "cdm_op (GetDrmStoreHashOp h) s = snd (cdmGetDrmStoreHash h s)"
| "cdm_op (GetKeyStoreHashOp h) s = snd (cdmGetKeyStoreHash h s)"
| "cdm_op (GetLdlSessionsLimitOp h) s = snd (cdmGetLdlSessionsLimit h s)"
| "cdm_op (GetLastDrmErrorOp h i) s = snd (cdmGetLastDrmError h i s)"
| "cdm_op (GetDrmTimeOp h) s = snd (cdmGetDrmTime h s)"
| "cdm_op (DecryptOp i n w) s = snd (cdmDecrypt i n w s)"
| "cdm_op (IsNetflixOp i) s = snd (cdmIsNetflixKeySystem i s)"
| "cdm_op (SelectKeyIdOp i k) s = snd (cdmSelectKeyId i k s)"
| "cdm_op (IncrementOp i) s = cdmIncrementSessionIdUsageCounter i s"
| "cdm_op (DecrementOp i) s = cdmDecrementSessionIdUsageCounter i s"

lemma internal_grow:
  "keys_grow m (snd (createKeySessionInternal t client ldl m))" "keys_grow m (snd (generateRequestInternal i it d m))"
  "keys_grow m (snd (loadSessionInternal i m))" "keys_grow m (snd (updateSessionInternal i d m))"
  "keys_grow m (snd (setDrmHeaderInternal i d m))" "keys_grow m (snd (closeKeySessionInternal i m))"
  "keys_grow m (snd (removeKeySessionInternal i m))" "keys_grow m (snd (selectKeyIdInternal i d m))"
  "keys_grow m (snd (containsKeyInternal i d m))" "keys_grow m (snd (getLastDrmErrorInternal i m))"
  "keys_grow m (snd (getCdmKeySessionIdInternal i m))" "keys_grow m (snd (decryptInternal i n w m))"
  "keys_grow m (incrementSessionIdUsageCounterInternal i m)" "keys_grow m (decrementSessionIdUsageCounterInternal i m)"
  "keys_grow m (snd (deleteDrmStoreTask m))" "keys_grow m (snd (deleteKeyStoreTask m))" "keys_grow m (snd (getDrmStoreHashTask m))"
  "keys_grow m (snd (getKeyStoreHashTask m))" "keys_grow m (snd (getLdlSessionsLimitTask m))" "keys_grow m (snd (getDrmTimeTask m))"
  using keyRequest_grow [of m "CreateKeySession t client ldl"] keyRequest_grow [of m "GenerateRequest i it d"]
    keyRequest_grow [of m "LoadSession i"] keyRequest_grow [of m "UpdateSession i d"] keyRequest_grow [of m "SetDrmHeader i d"]
    keyRequest_grow [of m "CloseKeySession i"] keyRequest_grow [of m "RemoveKeySession i"] keyRequest_grow [of m "SelectKeyId i d"]
    keyRequest_grow [of m "ContainsKey i d"] keyRequest_grow [of m "GetLastDrmError i"] keyRequest_grow [of m "GetCdmKeySessionId i"]
    keyRequest_grow [of m "Decrypt i n w"] keyRequest_grow [of m "IncrementUsage i"] keyRequest_grow [of m "DecrementUsage i"]
    keyRequest_grow [of m DeleteDrmStore] keyRequest_grow [of m DeleteKeyStore] keyRequest_grow [of m GetDrmStoreHash]
    keyRequest_grow [of m GetKeyStoreHash] keyRequest_grow [of m GetLdlSessionsLimit] keyRequest_grow [of m GetDrmTime]
  by simp_all

lemma thread_inv:
  assumes "cdm_inv s" and "\<And>m. keys_grow m (snd (task m))"
  shows "cdm_inv (snd (onMediaKeys d h (onKeysThread task) s))" and "cdm_inv (snd (onKeySession d i (onKeysThread task) s))"
  using onMediaKeys_inv [OF assms(1) onKeysThread_grow [OF assms(2)]] assms(1)
  by (auto simp: onKeySession_def split: option.split)

lemma cdm_inv_clients: "cdm_inv (s\<lparr>cs_mediaKeysClients := x\<rparr>) = cdm_inv s"
  by (simp add: cdm_inv_def)

lemma expireClient_grow: "keys_grow m (expireClient i m)"
  by (auto simp: expireClient_def putSession_def intro: usage_grow split: option.split)

lemma removeKeySession_cdm_inv: "cdm_inv s \<Longrightarrow> cdm_inv (snd (cdmRemoveKeySessionInternal h i s))"
  using thread_inv(1) [OF _ internal_grow(7)] onMediaKeys_inv [where call = "\<lambda>m. ((), expireClient i m)"] expireClient_grow
  by (simp add: cdmRemoveKeySessionInternal_def keys_api Let_def case_prod_beta cdm_inv_clients)

lemma createKeySession_cdm_inv: "cdm_inv s \<Longrightarrow> cdm_inv (snd (cdmCreateKeySession h t ldl s))"
  using thread_inv(1) [OF _ internal_grow(1)] removeKeySession_cdm_inv
  by (simp add: cdmCreateKeySession_def keys_api Let_def case_prod_beta cdm_inv_clients split: option.split MediaKeyErrorStatus.split prod.split)

lemma newKeys_ids: "createMediaKeysServerInternal e k c = Some m \<Longrightarrow> key_ids m = {}"
proof -
  define m0 where "m0 mt = (\<lparr>mt_isMainThreadRunning = mt_isMainThreadRunning mt, mt_taskQueue = mt_taskQueue mt @ [(mainThreadClientId, RegisterTask (mt_nextClientId mt))],
     mt_nextClientId = mt_nextClientId mt + 1, mt_registeredClients = mt_registeredClients mt,
     k_ocdmSystem = False, k_mediaKeySessions = [], k_keySystem = k, k_mainThreadClientId = mt_nextClientId mt,
     k_keySessionId = c, k_replies = kv_replies e, k_calls = 0, k_out = []\<rparr> :: MediaKeysServer)" for mt :: "KeyTask MainThread"
  assume m: "createMediaKeysServerInternal e k c = Some m"
  then obtain mt where "kv_mainThread e = Some mt"
    by (auto simp: createMediaKeysServerInternal_def newMediaKeysServerInternal_def split: option.splits)
  with m have "m = snd (onKeysThread (\<lambda>s. (kv_created e, s\<lparr>k_ocdmSystem := kv_created e\<rparr>)) (m0 mt))"
    by (auto simp: createMediaKeysServerInternal_def newMediaKeysServerInternal_def registerClient_def enqueueTask_def m0_def Let_def
        case_prod_beta split: if_splits)
  moreover have "key_ids (snd (onKeysThread (\<lambda>s. (kv_created e, s\<lparr>k_ocdmSystem := kv_created e\<rparr>)) (m0 mt))) = {}"
  proof -
    have e: "key_ids (mainThreadLoop keyTask n (m0 mt)) = {}" for n
    proof (rule keys.loop_invariant)
      fix x q and s :: MediaKeysServer
      assume "key_ids s = {}"
      then show "key_ids (mainThreadStep keyTask x (s\<lparr>mt_taskQueue := q\<rparr>)) = {}"
        by (cases "snd x") (auto simp: mainThreadStep_def keyTask_def)
    qed (simp add: m0_def)
    from e [of "length (mt_taskQueue (m0 mt))"] show ?thesis
      by (simp add: onKeysThread_def enqueueTaskAndWait_def Let_def)
  qed
  ultimately show ?thesis by simp
qed

lemma createMediaKeys_cdm_inv:
  assumes "cdm_inv s"
  shows "cdm_inv (snd (createMediaKeys e h k s))"
proof (cases "cs_isActive s \<and> map_of (cs_mediaKeys s) h = None \<and> createMediaKeysServerInternal e k (cs_keySessionId s) \<noteq> None")
  case True
  then obtain m where m: "createMediaKeysServerInternal e k (cs_keySessionId s) = Some m" by auto
  note ids = newKeys_ids [OF m]
  have "cdm_inv (s\<lparr>cs_mediaKeys := emplace h m (cs_mediaKeys s)\<rparr>)"
    using assms True ids unfolding cdm_inv_def by (auto simp: std_map_emplace split: if_splits)
  then show ?thesis using True m by (simp add: createMediaKeys_def)
next
  case False
  then show ?thesis using assms by (auto simp: createMediaKeys_def split: option.split)
qed

lemma cdm_op_inv:
  assumes "cdm_inv s"
  shows "cdm_inv (cdm_op x s)"
proof (cases x)
  case CdmActivate
  with assms show ?thesis by (simp add: cdmToActive_def cdm_inv_def)
next
  case CdmDeactivate
  then show ?thesis by (simp add: cdmToInactive_def cdm_inv_def)
next
  case (DestroyMediaKeysOp h)
  then show ?thesis
    using assms by (auto simp: destroyMediaKeys_def cdm_inv_def std_map_erase split: option.split if_splits)
qed (use assms in \<open>simp_all add: keys_api createMediaKeys_cdm_inv createKeySession_cdm_inv removeKeySession_cdm_inv thread_inv internal_grow
    cdmRemoveKeySession_def cdmGenerateRequest_def cdmLoadSession_def cdmUpdateSession_def cdmCloseKeySession_def
    cdmGetCdmKeySessionId_def cdmContainsKey_def cdmSetDrmHeader_def cdmDeleteDrmStore_def cdmDeleteKeyStore_def
    cdmGetDrmStoreHash_def cdmGetKeyStoreHash_def cdmGetLdlSessionsLimit_def cdmGetLastDrmError_def cdmGetDrmTime_def
    cdmDecrypt_def cdmIsNetflixKeySystem_def cdmSelectKeyId_def cdmIncrementSessionIdUsageCounter_def
    cdmDecrementSessionIdUsageCounter_def\<close>)

lemma cdm_run_inv: "cdm_inv s \<Longrightarrow> cdm_inv (fold cdm_op ops s)"
  by (induction ops arbitrary: s) (simp_all add: cdm_op_inv)

section \<open>Properties\<close>

text \<open>C16. The decryptor's calls by key session id reach the right media keys object: after any sequence of operations, the
  object found for an id is exactly the one that owns a session with this id, and there is at most one.\<close>

theorem key_session_routing:
  assumes "s = fold cdm_op ops newCdmService"
  shows "findKeySession i s = Some h \<longleftrightarrow> (\<exists>m. map_of (cs_mediaKeys s) h = Some m \<and> hasSession i m)"
proof -
  have "cdm_inv newCdmService" by (simp add: cdm_inv_def newCdmService_def)
  then show ?thesis using findKeySession_iff cdm_run_inv assms by blast
qed

section \<open>Witnesses\<close>

definition demo_kenv :: KeysEnv where
  "demo_kenv = \<lparr>kv_mainThread = Some newMainThread, kv_created = True, kv_replies = (\<lambda>_. ok_reply)\<rparr>"

definition demo_cdm :: CdmService where
  "demo_cdm = fold cdm_op [CdmActivate, CreateMediaKeysOp demo_kenv 4 kNetflixKeySystem, CreateKeySessionOp 4 KST_TEMPORARY False] newCdmService"

lemma demo_cdm_keys:
  "\<exists>m. map_of (cs_mediaKeys demo_cdm) 4 = Some m \<and> hasSession 0 m"
proof -
  have keys: "createMediaKeysServerInternal demo_kenv kNetflixKeySystem 0 = Some demo_keys"
    using demo_keys_new by (simp add: createMediaKeysServerInternal_def demo_kenv_def)
  have create: "onKeysThread (createKeySessionInternal KST_TEMPORARY True False) demo_keys =
      (Some (MKE_OK, Some 0), snd (onKeysThread (\<lambda>s. ((), keyRequest (CreateKeySession KST_TEMPORARY True False) s)) demo_keys))"
    by (simp add: demo_keys_def onKeysThread_def enqueueTaskAndWait_def createKeySessionInternal_def generateSessionId_def
        newMediaKeySession_def registerClient_def enqueueTask_def mainThreadClientId_def ocdm_def ok_reply_def)
  have same: "demo_keys\<lparr>k_keySessionId := 0\<rparr> = demo_keys" by (simp add: demo_keys_def)
  show ?thesis
    using keys create same demo_keys_created
    by (simp add: demo_cdm_def newCdmService_def cdmToActive_def createMediaKeys_def cdmCreateKeySession_def keys_api onMediaKeys_def emplace_def
        assign_def hasSession_def)
qed

theorem key_session_routing_witness: "findKeySession 0 demo_cdm = Some 4"
  using key_session_routing [of demo_cdm, OF demo_cdm_def, of 0 4] demo_cdm_keys by blast

end
