(* ===== verification/Logging_Levels.thy ===== *)
theory Logging_Levels
  imports Rialto_Prelude Std_Map "HOL-Library.List_Lexorder" "HOL-Library.Char_ord"
begin

unbundle bit_operations_syntax

text \<open>
  The logging library (\<open>logging/source\<close>): the environment variable that sets the levels, which is parsed when the
  library is loaded (\<open>EnvVariableParser.cpp\<close>), and the levels and messages of the components (\<open>RialtoLogging.cpp\<close>).
  Writing a message to the console or to syslog, and the formatting of \<open>printf\<close>, are outside the model.
\<close>

section \<open>Levels and components\<close>

datatype RIALTO_COMPONENT = RC_DEFAULT | RC_CLIENT | RC_SERVER | RC_IPC | RC_SERVER_MANAGER | RC_COMMON | RC_EXTERNAL | RC_LAST

type_synonym RIALTO_DEBUG_LEVEL = u32

definition LEVEL_FATAL :: RIALTO_DEBUG_LEVEL where "LEVEL_FATAL = push_bit 0 1"
definition LEVEL_ERROR :: RIALTO_DEBUG_LEVEL where "LEVEL_ERROR = push_bit 1 1"
definition LEVEL_WARNING :: RIALTO_DEBUG_LEVEL where "LEVEL_WARNING = push_bit 2 1"
definition LEVEL_MILESTONE :: RIALTO_DEBUG_LEVEL where "LEVEL_MILESTONE = push_bit 3 1"
definition LEVEL_INFO :: RIALTO_DEBUG_LEVEL where "LEVEL_INFO = push_bit 4 1"
definition LEVEL_DEBUG :: RIALTO_DEBUG_LEVEL where "LEVEL_DEBUG = push_bit 5 1"
definition LEVEL_EXTERNAL :: RIALTO_DEBUG_LEVEL where "LEVEL_EXTERNAL = push_bit 6 1"

definition LEVEL_DEFAULT :: RIALTO_DEBUG_LEVEL where
  "LEVEL_DEFAULT = LEVEL_FATAL OR LEVEL_ERROR OR LEVEL_WARNING OR LEVEL_MILESTONE"

lemmas level_defs = LEVEL_FATAL_def LEVEL_ERROR_def LEVEL_WARNING_def LEVEL_MILESTONE_def LEVEL_INFO_def LEVEL_DEBUG_def
  LEVEL_EXTERNAL_def LEVEL_DEFAULT_def

section \<open>Strings\<close>

text \<open>\<open>std::isdigit\<close>, and \<open>isNumber\<close>, which holds of the empty string.\<close>

definition is_digit :: "char \<Rightarrow> bool" where
  "is_digit c \<longleftrightarrow> (48 :: nat) \<le> of_char c \<and> of_char c \<le> (57 :: nat)"

definition isNumber :: "string \<Rightarrow> bool" where
  "isNumber text = (find (\<lambda>c. \<not> is_digit c) text = None)"

text \<open>\<open>std::stoi\<close> on strings of digits, the only ones it is called with.\<close>

datatype stoi_exception = Invalid_argument | Out_of_range

definition decimal :: "string \<Rightarrow> nat" where
  "decimal text = foldl (\<lambda>n c. n * 10 + (of_char c - 48)) 0 text"

definition stoi :: "string \<Rightarrow> stoi_exception + int" where
  "stoi text = (if text = [] then Inl Invalid_argument
                else if decimal text > 2147483647 then Inl Out_of_range else Inr (int (decimal text)))"

text \<open>\<open>std::string::find\<close>.\<close>

fun find_string :: "string \<Rightarrow> string \<Rightarrow> nat option" where
  "find_string d [] = (if d = [] then Some 0 else None)"
| "find_string d (c # s) = (if take (length d) (c # s) = d then Some 0 else map_option Suc (find_string d s))"

text \<open>The loop of \<open>split\<close>; \<open>None\<close> when it does not end.\<close>

partial_function (option) split_loop :: "string list \<Rightarrow> string \<Rightarrow> string \<Rightarrow> string list option" where
  "split_loop result s delimiter =
     (case find_string delimiter s of
        Some pos \<Rightarrow> split_loop (result @ [take pos s]) (drop (pos + length delimiter) s) delimiter
      | None \<Rightarrow> Some (result @ [s]))"

definition split :: "string \<Rightarrow> string \<Rightarrow> string list option" where
  "split s delimiter = split_loop [] s delimiter"

section \<open>The environment variable\<close>

text \<open>\<open>flagValues[k] = v\<close>.\<close>

definition put :: "'k::linorder \<Rightarrow> 'v \<Rightarrow> ('k \<times> 'v) list \<Rightarrow> ('k \<times> 'v) list" where
  "put k v m = (if map_of m k = None then emplace k v m else assign k v m)"

text \<open>How loading the library can fail: the loop does not end, or \<open>std::stoi\<close> throws.\<close>

datatype parse_failure = No_return | Thrown stoi_exception

fun parseItems :: "string list \<Rightarrow> (string \<times> int) list \<Rightarrow> parse_failure + (string \<times> int) list" where
  "parseItems [] flagValues = Inr flagValues"
| "parseItems (item # items) flagValues =
     (case split item '':'' of
        None \<Rightarrow> Inl No_return
      | Some componentWithLevel \<Rightarrow>
          if length componentWithLevel \<noteq> 2 \<or> \<not> isNumber (componentWithLevel ! 1) then parseItems items flagValues
          else (case stoi (componentWithLevel ! 1) of
                  Inl e \<Rightarrow> Inl (Thrown e)
                | Inr level \<Rightarrow> parseItems items (put (componentWithLevel ! 0) level flagValues)))"

definition parseEnvVar :: "string \<Rightarrow> parse_failure + (string \<times> int) list" where
  "parseEnvVar envVar =
     (case split envVar '';'' of None \<Rightarrow> Inl No_return | Some componentsWithLevels \<Rightarrow> parseItems componentsWithLevels [])"

definition levelFromNumber :: "int \<Rightarrow> RIALTO_DEBUG_LEVEL" where
  "levelFromNumber level =
     (if level = 0 then LEVEL_FATAL
      else if level = 1 then LEVEL_FATAL OR LEVEL_ERROR
      else if level = 2 then LEVEL_FATAL OR LEVEL_ERROR OR LEVEL_WARNING
      else if level = 3 then LEVEL_FATAL OR LEVEL_ERROR OR LEVEL_WARNING OR LEVEL_MILESTONE
      else if level = 4 then LEVEL_FATAL OR LEVEL_ERROR OR LEVEL_WARNING OR LEVEL_MILESTONE OR LEVEL_INFO
      else if level = 5 then LEVEL_FATAL OR LEVEL_ERROR OR LEVEL_WARNING OR LEVEL_MILESTONE OR LEVEL_INFO OR LEVEL_DEBUG
      else LEVEL_DEFAULT)"

definition componentFromStr :: "string \<Rightarrow> RIALTO_COMPONENT" where
  "componentFromStr component =
     (if component = ''client'' then RC_CLIENT
      else if component = ''sessionserver'' then RC_SERVER
      else if component = ''ipc'' then RC_IPC
      else if component = ''servermanager'' then RC_SERVER_MANAGER
      else if component = ''common'' then RC_COMMON
      else RC_LAST)"

record EnvVariableParser =
  ev_debugLevels :: "(RIALTO_COMPONENT \<times> RIALTO_DEBUG_LEVEL) list"
  ev_logToConsole :: bool

definition setAllLevels :: "RIALTO_DEBUG_LEVEL \<Rightarrow> EnvVariableParser \<Rightarrow> EnvVariableParser" where
  "setAllLevels level p = p\<lparr>ev_debugLevels := map (\<lambda>(c, _). (c, level)) (ev_debugLevels p)\<rparr>"

definition setFlagLevels :: "(string \<times> int) list \<Rightarrow> EnvVariableParser \<Rightarrow> EnvVariableParser" where
  "setFlagLevels flagValues p =
     fold (\<lambda>(k, v) p. p\<lparr>ev_debugLevels := assign (componentFromStr k) (levelFromNumber v) (ev_debugLevels p)\<rparr>) flagValues p"

definition configureRialtoDebug :: "string option \<Rightarrow> EnvVariableParser \<Rightarrow> parse_failure + EnvVariableParser" where
  "configureRialtoDebug env p =
     (let debugFlagEnvVar = (case env of Some v \<Rightarrow> v | None \<Rightarrow> []) in
      if debugFlagEnvVar = [] then Inr p
      else if isNumber debugFlagEnvVar then
        (case stoi debugFlagEnvVar of
           Inl e \<Rightarrow> Inl (Thrown e)
         | Inr level \<Rightarrow> Inr (setAllLevels (levelFromNumber level) p))
      else (case parseEnvVar debugFlagEnvVar of
           Inl e \<Rightarrow> Inl e
         | Inr flagValues \<Rightarrow>
             (case map_of flagValues ''*'' of
                Some level \<Rightarrow> Inr (setFlagLevels (erase ''*'' flagValues) (setAllLevels (levelFromNumber level) p))
              | None \<Rightarrow> Inr (setFlagLevels flagValues p))))"

definition configureRialtoConsoleLog :: "string option \<Rightarrow> EnvVariableParser \<Rightarrow> EnvVariableParser" where
  "configureRialtoConsoleLog env p =
     (let debugFlagEnvVar = (case env of Some v \<Rightarrow> v | None \<Rightarrow> []) in
      if debugFlagEnvVar = ''1'' then p\<lparr>ev_logToConsole := True\<rparr> else p)"

definition newEnvVariableParser :: "string option \<Rightarrow> string option \<Rightarrow> parse_failure + EnvVariableParser" where
  "newEnvVariableParser rialtoDebug rialtoConsoleLog =
     (let p = \<lparr>ev_debugLevels = [(RC_CLIENT, LEVEL_DEFAULT), (RC_SERVER, LEVEL_DEFAULT), (RC_IPC, LEVEL_DEFAULT),
                                 (RC_SERVER_MANAGER, LEVEL_DEFAULT), (RC_COMMON, LEVEL_DEFAULT)],
               ev_logToConsole = False\<rparr>
      in map_sum id (configureRialtoConsoleLog rialtoConsoleLog) (configureRialtoDebug rialtoDebug p))"

definition getLevel :: "EnvVariableParser \<Rightarrow> RIALTO_COMPONENT \<Rightarrow> RIALTO_DEBUG_LEVEL" where
  "getLevel p component =
     (if component = RC_EXTERNAL then LEVEL_EXTERNAL
      else case map_of (ev_debugLevels p) component of None \<Rightarrow> LEVEL_DEFAULT | Some level \<Rightarrow> level)"

section \<open>Levels of the components and messages\<close>

text \<open>The levels \<open>g_rialtoLogLevels\<close>, zero until they are set, and the handlers \<open>g_logHandler\<close>, of which the model keeps
  whether one is set.\<close>

record RialtoLogging =
  lg_levels :: "RIALTO_COMPONENT \<Rightarrow> RIALTO_DEBUG_LEVEL"
  lg_handler :: "RIALTO_COMPONENT \<Rightarrow> bool"

definition newRialtoLogging :: RialtoLogging where
  "newRialtoLogging = \<lparr>lg_levels = (\<lambda>_. 0), lg_handler = (\<lambda>_. False)\<rparr>"

definition setLogLevels :: "RIALTO_COMPONENT \<Rightarrow> RIALTO_DEBUG_LEVEL \<Rightarrow> RialtoLogging \<Rightarrow> bool \<times> RialtoLogging" where
  "setLogLevels component logLevels g =
     (if component \<noteq> RC_LAST then (True, g\<lparr>lg_levels := (lg_levels g)(component := logLevels)\<rparr>) else (False, g))"

definition initLogLevel :: "EnvVariableParser \<Rightarrow> RIALTO_COMPONENT \<Rightarrow> RialtoLogging \<Rightarrow> RialtoLogging" where
  "initLogLevel p component g =
     (if lg_levels g component = 0 then g\<lparr>lg_levels := (lg_levels g)(component := getLevel p component)\<rparr> else g)"

definition getLogLevels :: "EnvVariableParser \<Rightarrow> RIALTO_COMPONENT \<Rightarrow> RialtoLogging \<Rightarrow> RIALTO_DEBUG_LEVEL \<times> RialtoLogging" where
  "getLogLevels p component g =
     (if component \<noteq> RC_LAST then let g = initLogLevel p component g in (lg_levels g component, g) else (LEVEL_DEFAULT, g))"

definition setLogHandler :: "RIALTO_COMPONENT \<Rightarrow> bool \<Rightarrow> RialtoLogging \<Rightarrow> bool \<times> RialtoLogging" where
  "setLogHandler component handler g =
     (if component \<noteq> RC_LAST then (True, g\<lparr>lg_handler := (lg_handler g)(component := handler)\<rparr>) else (False, g))"

text \<open>\<open>rialtoLog\<close>: \<open>formatted\<close> is what \<open>vsnprintf\<close> would print without a limit, so its result is the length and the
  buffer holds the first 255 characters. The message goes to the handler that is set, the console or the journal.\<close>

datatype LogSink = CustomHandler | ConsoleHandler | JournaldHandler

definition strip_newline :: "string \<Rightarrow> string" where
  "strip_newline mbuf = (if last mbuf = CHR 0x0A then butlast mbuf else mbuf)"

definition append_text :: "string option \<Rightarrow> string \<Rightarrow> string" where
  "append_text app mbuf =
     (case app of
        Some a \<Rightarrow> if length mbuf < 255 then mbuf @ take (min (length a) (256 - length mbuf - 1)) a else mbuf
      | None \<Rightarrow> mbuf)"

definition message_text :: "string \<Rightarrow> string option \<Rightarrow> string option" where
  "message_text formatted app =
     (if length formatted < 1 then None else Some (append_text app (strip_newline (take 255 formatted))))"

definition file_name :: "string \<Rightarrow> string" where
  "file_name file = rev (takeWhile (\<lambda>c. c \<noteq> CHR 0x2F) (rev file))"

definition rialtoLog :: "EnvVariableParser \<Rightarrow> RIALTO_COMPONENT \<Rightarrow> RIALTO_DEBUG_LEVEL \<Rightarrow> string option \<Rightarrow> string \<Rightarrow> string option \<Rightarrow>
    RialtoLogging \<Rightarrow> (LogSink \<times> RIALTO_DEBUG_LEVEL \<times> string option \<times> string) option \<times> RialtoLogging" where
  "rialtoLog p component level file formatted app g =
     (if component = RC_LAST then (None, g)
      else
        let g = initLogLevel p component g in
        if level AND lg_levels g component = 0 then (None, g)
        else (case message_text formatted app of
             None \<Rightarrow> (None, g)
           | Some mbuf \<Rightarrow>
               (Some (if lg_handler g component then CustomHandler
                      else if ev_logToConsole p then ConsoleHandler else JournaldHandler,
                      level, map_option file_name file, mbuf), g)))"

section \<open>Splitting\<close>

fun join :: "string \<Rightarrow> string list \<Rightarrow> string" where
  "join d [] = []"
| "join d [p] = p"
| "join d (p # ps) = p @ d @ join d ps"

lemma join_Cons: "ps \<noteq> [] \<Longrightarrow> join d (p # ps) = p @ d @ join d ps"
  by (cases ps) auto

lemma find_string_Some:
  "find_string d s = Some i \<Longrightarrow> d \<noteq> [] \<Longrightarrow> s = take i s @ d @ drop (i + length d) s \<and> find_string d (take i s) = None"
proof (induction d s arbitrary: i rule: find_string.induct)
  case (2 d c s)
  show ?case
  proof (cases "take (length d) (c # s) = d")
    case True
    then show ?thesis using 2 append_take_drop_id [of "length d" "c # s"] by auto
  next
    case False
    then obtain j where j: "find_string d s = Some j" "i = Suc j" using 2 by auto
    from 2(1) [OF False j(1) 2(3)] have s: "s = take j s @ d @ drop (j + length d) s" "find_string d (take j s) = None" by auto
    have "take (length d) (c # take j s) \<noteq> d"
    proof
      assume eq: "take (length d) (c # take j s) = d"
      then have "length d \<le> Suc j"
        by (metis length_Cons length_take min.bounded_iff min.cobounded1 nle_le not_less_eq_eq)
      then have "take (length d) (c # take j s) = take (length d) (c # s)"
        by (metis min.absorb1 take_Suc_Cons take_take)
      with eq False show False by simp
    qed
    with s j show ?thesis by simp
  qed
qed (auto split: if_splits)

lemma find_string_append:
  "\<lbrakk>find_string [c] p = None\<rbrakk> \<Longrightarrow> find_string [c] (p @ [c] @ r) = Some (length p)"
  by (induction p) (auto split: if_splits)

lemma find_char_None: "find_string [c] p = None \<longleftrightarrow> c \<notin> set p"
  by (induction p) auto

lemma split_loop_result:
  assumes "d \<noteq> []"
  shows "\<exists>ps. ps \<noteq> [] \<and> split_loop result s d = Some (result @ ps) \<and> join d ps = s \<and> (\<forall>p \<in> set ps. find_string d p = None)"
proof (induction "length s" arbitrary: s result rule: less_induct)
  case less
  show ?case
  proof (cases "find_string d s")
    case None
    then show ?thesis by (intro exI [of _ "[s]"]) (simp add: split_loop.simps)
  next
    case (Some i)
    from find_string_Some [OF Some assms]
    have s: "s = take i s @ d @ drop (i + length d) s" and none: "find_string d (take i s) = None" by auto
    have "length (drop (i + length d) s) < length s"
      using s assms by (metis add_gr_0 drop_eq_Nil2 length_append length_drop length_greater_0_conv diff_less linorder_not_less append_is_Nil_conv)
    from less [OF this, of "result @ [take i s]"] obtain ps where ps: "ps \<noteq> []"
      "split_loop (result @ [take i s]) (drop (i + length d) s) d = Some ((result @ [take i s]) @ ps)"
      "join d ps = drop (i + length d) s" "\<forall>p \<in> set ps. find_string d p = None"
      by auto
    show ?thesis
      by (rule exI [of _ "take i s # ps"]) (use Some ps none s in \<open>simp add: split_loop.simps [of result s] join_Cons\<close>)
  qed
qed

lemma split_loop_joined:
  assumes "ps \<noteq> []" and "\<forall>p \<in> set ps. c \<notin> set p"
  shows "split_loop result (join [c] ps) [c] = Some (result @ ps)"
  using assms
proof (induction ps arbitrary: result)
  case (Cons p ps)
  show ?case
  proof (cases "ps = []")
    case True
    moreover have "find_string [c] p = None" using Cons by (simp add: find_char_None)
    ultimately show ?thesis by (simp add: split_loop.simps [of _ p])
  next
    case False
    then have "find_string [c] (join [c] (p # ps)) = Some (length p)"
      using Cons find_string_append [of c p "join [c] ps"] by (simp add: join_Cons find_char_None)
    then show ?thesis
      using False Cons by (subst split_loop.simps) (simp add: join_Cons)
  qed
qed simp

lemma split_joined: "ps \<noteq> [] \<Longrightarrow> \<forall>p \<in> set ps. c \<notin> set p \<Longrightarrow> split (join [c] ps) [c] = Some ps"
  by (simp add: split_def split_loop_joined)

section \<open>Reading the variable\<close>

text \<open>An entry \<open>component:level\<close> of the variable.\<close>

definition entry :: "string \<times> string \<Rightarrow> string" where
  "entry e = join '':'' [fst e, snd e]"

definition entry_ok :: "string \<times> string \<Rightarrow> bool" where
  "entry_ok e \<longleftrightarrow> CHR '':'' \<notin> set (fst e) \<and> CHR '';'' \<notin> set (fst e) \<and> isNumber (snd e)"

lemma isNumber_iff: "isNumber s \<longleftrightarrow> (\<forall>c \<in> set s. is_digit c)"
  by (auto simp: isNumber_def find_None_iff)

lemma separators_no_digits: "\<not> is_digit CHR '':''" "\<not> is_digit CHR '';''"
  by (simp_all add: is_digit_def of_char_def)

lemma split_entry: "entry_ok e \<Longrightarrow> split (entry e) '':'' = Some [fst e, snd e]"
  unfolding entry_def using separators_no_digits
  by (intro split_joined) (auto simp: entry_ok_def isNumber_iff)

lemma entry_no_semicolon: "entry_ok e \<Longrightarrow> CHR '';'' \<notin> set (entry e)"
  using separators_no_digits by (auto simp: entry_def entry_ok_def isNumber_iff)

lemma map_of_put [simp]: "map_of (put k v m) = (map_of m)(k \<mapsto> v)"
  by (auto simp: put_def fun_eq_iff map_of_assign)

lemma std_map_put: "std_map m \<Longrightarrow> std_map (put k v m)"
  by (simp add: put_def std_map_emplace std_map_assign)

definition entry_value :: "string \<times> string \<Rightarrow> string \<times> int" where
  "entry_value e = (fst e, int (decimal (snd e)))"

lemma parseItems_entries:
  assumes "\<forall>e \<in> set es. entry_ok e \<and> snd e \<noteq> [] \<and> decimal (snd e) \<le> 2147483647" and "std_map m"
  shows "\<exists>m'. parseItems (map entry es) m = Inr m' \<and> std_map m' \<and> map_of m' = map_of m ++ map_of (rev (map entry_value es))"
  using assms
proof (induction es arbitrary: m)
  case (Cons e es)
  have "parseItems (map entry (e # es)) m = parseItems (map entry es) (put (fst e) (int (decimal (snd e))) m)"
    using Cons.prems by (auto simp: split_entry stoi_def entry_ok_def)
  then show ?case
    using Cons.IH [of "put (fst e) (int (decimal (snd e))) m"] Cons.prems
    by (auto simp: std_map_put entry_value_def fun_eq_iff map_add_def split: option.split)
qed simp

text \<open>The names of the components in the variable.\<close>

definition component_names :: "(RIALTO_COMPONENT \<times> string) list" where
  "component_names = [(RC_CLIENT, ''client''), (RC_SERVER, ''sessionserver''), (RC_IPC, ''ipc''),
                      (RC_SERVER_MANAGER, ''servermanager''), (RC_COMMON, ''common'')]"

lemma componentFromStr_iff: "c \<noteq> RC_LAST \<Longrightarrow> componentFromStr k = c \<longleftrightarrow> map_of component_names c = Some k"
  by (cases c) (auto simp: componentFromStr_def component_names_def)

lemma setFlagLevels_lookup:
  assumes "distinct (map fst m)" and "map_of component_names c = Some n" and "map_of (ev_debugLevels p) c = Some l"
  shows "map_of (ev_debugLevels (setFlagLevels m p)) c = Some (case map_of m n of Some v \<Rightarrow> levelFromNumber v | None \<Rightarrow> l)"
  using assms(1,3)
proof (induction m arbitrary: p l)
  case (Cons kv m)
  obtain k v where kv: "kv = (k, v)" by (cases kv)
  have c: "c \<noteq> RC_LAST" using assms(2) by (auto simp: component_names_def split: if_splits)
  let ?p = "p\<lparr>ev_debugLevels := assign (componentFromStr k) (levelFromNumber v) (ev_debugLevels p)\<rparr>"
  have step: "map_of (ev_debugLevels ?p) c = Some (if k = n then levelFromNumber v else l)"
    using componentFromStr_iff [OF c, of k] Cons.prems(2) assms(2) by (auto simp: map_of_assign)
  have "setFlagLevels (kv # m) p = setFlagLevels m ?p" by (simp add: setFlagLevels_def kv)
  moreover have "map_of m k = None" using Cons.prems(1) kv by (simp add: map_of_eq_None_iff)
  ultimately show ?case using Cons.IH [OF _ step] Cons.prems(1) kv by (auto split: option.split)
qed (simp add: setFlagLevels_def)

lemma console_levels [simp]: "ev_debugLevels (configureRialtoConsoleLog con p) = ev_debugLevels p"
  by (simp add: configureRialtoConsoleLog_def Let_def)

lemma configure_entries:
  assumes "es \<noteq> []" and "\<forall>e \<in> set es. entry_ok e \<and> snd e \<noteq> [] \<and> decimal (snd e) \<le> 2147483647"
    and "map_of component_names c = Some n" and "map_of (ev_debugLevels p) c = Some l"
  shows "\<exists>p'. configureRialtoDebug (Some (join '';'' (map entry es))) p = Inr p' \<and>
    map_of (ev_debugLevels p') c = Some (case map_of (rev (map entry_value es)) n of
        Some v \<Rightarrow> levelFromNumber v
      | None \<Rightarrow> (case map_of (rev (map entry_value es)) ''*'' of Some v \<Rightarrow> levelFromNumber v | None \<Rightarrow> l))"
proof -
  let ?v = "join '';'' (map entry es)"
  obtain e es' where es: "es = e # es'" using assms(1) by (cases es) auto
  have "CHR '':'' \<in> set ?v" using es by (cases es') (auto simp: entry_def join_Cons)
  then have v: "?v \<noteq> []" "\<not> isNumber ?v" using separators_no_digits by (auto simp: isNumber_iff)
  have "split ?v '';'' = Some (map entry es)"
    using assms(1,2) by (intro split_joined) (auto simp: entry_no_semicolon)
  then obtain m where m: "parseEnvVar ?v = Inr m" "std_map m" "map_of m = map_of (rev (map entry_value es))"
    using parseItems_entries [OF assms(2), of "[]"] by (auto simp: parseEnvVar_def)
  have "n \<noteq> ''*''" using assms(3) by (auto simp: component_names_def split: if_splits)
  show ?thesis
  proof (cases "map_of m ''*''")
    case None
    then show ?thesis
      using v m setFlagLevels_lookup [OF _ assms(3,4), of m]
      by (auto simp: configureRialtoDebug_def Let_def std_map_def split: option.split)
  next
    case (Some a)
    have all: "map_of (ev_debugLevels (setAllLevels (levelFromNumber a) p)) c = Some (levelFromNumber a)"
      using assms(4) map_of_map [of "\<lambda>_. levelFromNumber a" "ev_debugLevels p"] by (simp add: setAllLevels_def)
    have "distinct (map fst (erase ''*'' m))" using std_map_erase [OF m(2)] by (simp add: std_map_def)
    then show ?thesis
      using v m Some setFlagLevels_lookup [OF _ assms(3) all, of "erase ''*'' m"] \<open>n \<noteq> ''*''\<close>
      by (auto simp: configureRialtoDebug_def Let_def split: option.split)
  qed
qed

section \<open>Properties\<close>

text \<open>C18. Splitting ends for every delimiter that is not empty, and loses nothing: the pieces joined with the delimiter are
  the string, and no piece contains the delimiter.\<close>

theorem split_terminates:
  assumes "delimiter \<noteq> []"
  shows "\<exists>ps. split s delimiter = Some ps \<and> join delimiter ps = s \<and> (\<forall>p \<in> set ps. find_string delimiter p = None)"
  using split_loop_result [OF assms, of "[]" s] by (auto simp: split_def)

theorem split_terminates_witness:
  "\<exists>ps. split ''client:5;ipc:1'' '';'' = Some ps \<and> join '';'' ps = ''client:5;ipc:1'' \<and> (\<forall>p \<in> set ps. find_string '';'' p = None)"
  by (rule split_terminates) simp

text \<open>The variable sets what it says: for a list of entries \<open>component:level\<close> each component gets the level of its last
  entry, otherwise that of the entry for all components, otherwise the default.\<close>

theorem debug_variable_levels:
  assumes "es \<noteq> []" and "\<forall>e \<in> set es. entry_ok e \<and> snd e \<noteq> [] \<and> decimal (snd e) \<le> 2147483647"
    and "map_of component_names c = Some n"
  shows "\<exists>p. newEnvVariableParser (Some (join '';'' (map entry es))) con = Inr p \<and>
    getLevel p c = (case map_of (rev (map entry_value es)) n of
        Some v \<Rightarrow> levelFromNumber v
      | None \<Rightarrow> (case map_of (rev (map entry_value es)) ''*'' of Some v \<Rightarrow> levelFromNumber v | None \<Rightarrow> LEVEL_DEFAULT))"
proof -
  let ?p = "\<lparr>ev_debugLevels = [(RC_CLIENT, LEVEL_DEFAULT), (RC_SERVER, LEVEL_DEFAULT), (RC_IPC, LEVEL_DEFAULT),
     (RC_SERVER_MANAGER, LEVEL_DEFAULT), (RC_COMMON, LEVEL_DEFAULT)], ev_logToConsole = False\<rparr>"
  have "map_of (ev_debugLevels ?p) c = Some LEVEL_DEFAULT" "c \<noteq> RC_EXTERNAL"
    using assms(3) by (auto simp: component_names_def split: if_splits)
  from configure_entries [OF assms this(1)] this(2) show ?thesis
    by (auto simp: newEnvVariableParser_def Let_def getLevel_def)
qed

theorem debug_variable_levels_witness:
  "\<exists>p. newEnvVariableParser (Some ''*:1;ipc:5'') None = Inr p \<and> getLevel p RC_IPC = levelFromNumber 5"
  using debug_variable_levels [of "[(''*'', ''1''), (''ipc'', ''5'')]" RC_IPC "''ipc''" None]
  by (simp add: entry_def entry_ok_def entry_value_def component_names_def isNumber_iff is_digit_def decimal_def of_char_def)

text \<open>A level that is left out is not ignored: the variable \<open>component:\<close> makes the constructor of the global parser
  throw, so the process that loads the library does not start.\<close>

theorem missing_level_throws:
  assumes "CHR '':'' \<notin> set k" and "CHR '';'' \<notin> set k"
  shows "newEnvVariableParser (Some (k @ '':'')) con = Inl (Thrown Invalid_argument)"
proof -
  have ok: "entry_ok (k, [])" using assms by (simp add: entry_ok_def isNumber_iff)
  have "split (k @ '':'') '';'' = Some [k @ '':'']"
    using assms split_joined [of "[k @ '':'']" "CHR '';''"] by simp
  moreover have "\<not> isNumber (k @ '':'')" using separators_no_digits by (simp add: isNumber_iff)
  ultimately show ?thesis
    using split_entry [OF ok] ok
    by (simp add: newEnvVariableParser_def configureRialtoDebug_def Let_def parseEnvVar_def entry_def stoi_def entry_ok_def)
qed

theorem missing_level_throws_witness: "newEnvVariableParser (Some ''client:'') None = Inl (Thrown Invalid_argument)"
  using missing_level_throws [of "''client''" None] by simp

section \<open>Messages\<close>

text \<open>Every message that reaches a handler fits in the buffer with its terminator.\<close>

lemma append_text_fits: "length b \<le> 255 \<Longrightarrow> length (append_text a b) \<le> 255"
  by (auto simp: append_text_def min_def split: option.split)

lemma message_text_fits: "message_text formatted a = Some m \<Longrightarrow> length m \<le> 255"
  by (auto simp: message_text_def strip_newline_def min_def intro!: append_text_fits split: if_splits)

lemma rialtoLog_fits: "rialtoLog p c l f formatted a g = (Some (sink, l', f', m), g') \<Longrightarrow> length m \<le> 255"
  using message_text_fits by (auto simp: rialtoLog_def Let_def split: if_splits option.splits)

lemma rialtoLog_filter:
  assumes "rialtoLog p c l f formatted a g = (Some x, g')"
  shows "c \<noteq> RC_LAST \<and> l AND fst (getLogLevels p c g) \<noteq> 0"
  using assms by (auto simp: rialtoLog_def getLogLevels_def Let_def split: if_splits)

end
