(* ===== verification/Session_Server_Manager.thy ===== *)
theory Session_Server_Manager
  imports Session_Services Cdm_Service Logging_Levels
begin

text \<open>
  The top of the session server: its state machine (\<open>media/server/service/source/SessionServerManager.cpp\<close>), the
  connection to the server manager (\<open>media/server/ipc/source/ApplicationManagementServer.cpp\<close>), which calls it through
  \<open>ServerManagerModuleService.cpp\<close>, and the part of the connection to the clients that the state machine uses
  (\<open>SessionManagementServer.cpp\<close>, \<open>SetLogLevelsService.cpp\<close>). The sockets of the IPC library are inputs: whether one can
  be added, and when the server manager disconnects.
\<close>

section \<open>States and messages\<close>

datatype SessionServerState = SSS_UNINITIALIZED | SSS_INACTIVE | SSS_ACTIVE | SSS_NOT_RUNNING | SSS_ERROR

text \<open>The enumeration of the protocol, and the conversions on both sides.\<close>

datatype PbSessionServerState = PB_UNINITIALIZED | PB_INACTIVE | PB_ACTIVE | PB_NOT_RUNNING | PB_ERROR

fun convertToPbState :: "SessionServerState \<Rightarrow> PbSessionServerState" where
  "convertToPbState SSS_UNINITIALIZED = PB_UNINITIALIZED"
| "convertToPbState SSS_INACTIVE = PB_INACTIVE"
| "convertToPbState SSS_ACTIVE = PB_ACTIVE"
| "convertToPbState SSS_NOT_RUNNING = PB_NOT_RUNNING"
| "convertToPbState SSS_ERROR = PB_ERROR"

fun convertFromPbState :: "PbSessionServerState \<Rightarrow> SessionServerState" where
  "convertFromPbState PB_UNINITIALIZED = SSS_UNINITIALIZED"
| "convertFromPbState PB_INACTIVE = SSS_INACTIVE"
| "convertFromPbState PB_ACTIVE = SSS_ACTIVE"
| "convertFromPbState PB_NOT_RUNNING = SSS_NOT_RUNNING"
| "convertFromPbState PB_ERROR = SSS_ERROR"

lemma convert_pb_state [simp]: "convertFromPbState (convertToPbState s) = s"
  by (cases s) simp_all

lemma convert_pb_state_inj [simp]: "convertToPbState s = convertToPbState t \<longleftrightarrow> s = t"
  by (metis convert_pb_state)

text \<open>The optional levels of a request; a getter returns zero for a field that is not set.\<close>

record LogLevels =
  ll_default :: "u32 option"
  ll_client :: "u32 option"
  ll_sessionServer :: "u32 option"
  ll_ipc :: "u32 option"
  ll_serverManager :: "u32 option"
  ll_common :: "u32 option"

definition field :: "u32 option \<Rightarrow> u32" where
  "field f = (case f of Some v \<Rightarrow> v | None \<Rightarrow> 0)"

section \<open>The connections\<close>

text \<open>\<open>am_ipcClient\<close> is \<open>None\<close> until a client is added; then it says whether the client is connected.\<close>

record ApplicationManagementServer =
  am_ipcServer :: bool
  am_ipcClient :: "bool option"
  am_events :: "PbSessionServerState list"

definition amInitialize :: "bool \<Rightarrow> ApplicationManagementServer \<Rightarrow> bool \<times> ApplicationManagementServer" where
  "amInitialize added a =
     (if \<not> am_ipcServer a then (False, a)
      else if \<not> added then (False, a\<lparr>am_ipcClient := None\<rparr>)
      else (True, a\<lparr>am_ipcClient := Some True\<rparr>))"

text \<open>Called only once there is a client: by \<open>initialize\<close> after adding it, and on requests that the client made.\<close>

definition sendStateChangedEvent :: "SessionServerState \<Rightarrow> ApplicationManagementServer \<Rightarrow> bool \<times> ApplicationManagementServer" where
  "sendStateChangedEvent state a =
     (if am_ipcClient a \<noteq> Some True then (False, a)
      else (True, a\<lparr>am_events := am_events a @ [convertToPbState state]\<rparr>))"

text \<open>The client disconnects, or \<open>stop\<close> disconnects it.\<close>

definition amStop :: "ApplicationManagementServer \<Rightarrow> ApplicationManagementServer" where
  "amStop a = (if am_ipcClient a = Some True then a\<lparr>am_ipcClient := Some False\<rparr> else a)"

record SetLogLevelsEvent =
  le_default :: u32
  le_client :: u32
  le_ipc :: u32
  le_common :: u32

record SessionManagementServer =
  sv_ipcServer :: bool
  sv_isRunning :: bool
  sv_connectedClients :: "int list"
  sv_logEvents :: "(int \<times> SetLogLevelsEvent) list"

definition svInitialize :: "bool \<Rightarrow> SessionManagementServer \<Rightarrow> bool" where
  "svInitialize added v = (if \<not> sv_ipcServer v then False else if \<not> added then False else True)"

definition svStart :: "SessionManagementServer \<Rightarrow> SessionManagementServer" where
  "svStart v = (if sv_isRunning v then v else v\<lparr>sv_isRunning := True\<rparr>)"

definition svStop :: "SessionManagementServer \<Rightarrow> SessionManagementServer" where
  "svStop v = v\<lparr>sv_isRunning := False\<rparr>"

definition logClientConnected :: "int \<Rightarrow> SessionManagementServer \<Rightarrow> SessionManagementServer" where
  "logClientConnected ipcClient v =
     v\<lparr>sv_connectedClients := (if ipcClient \<in> set (sv_connectedClients v) then sv_connectedClients v
                               else insort ipcClient (sv_connectedClients v))\<rparr>"

definition logClientDisconnected :: "int \<Rightarrow> SessionManagementServer \<Rightarrow> SessionManagementServer" where
  "logClientDisconnected ipcClient v = v\<lparr>sv_connectedClients := filter (\<lambda>c. c \<noteq> ipcClient) (sv_connectedClients v)\<rparr>"

definition svSetLogLevels :: "u32 \<Rightarrow> u32 \<Rightarrow> u32 \<Rightarrow> u32 \<Rightarrow> SessionManagementServer \<Rightarrow> SessionManagementServer" where
  "svSetLogLevels defaultLogLevels clientLogLevels ipcLogLevels commonLogLevels v =
     (let event = \<lparr>le_default = defaultLogLevels, le_client = clientLogLevels, le_ipc = ipcLogLevels, le_common = commonLogLevels\<rparr>
      in v\<lparr>sv_logEvents := sv_logEvents v @ map (\<lambda>client. (client, event)) (sv_connectedClients v)\<rparr>)"

section \<open>The state machine\<close>

record SessionServerManager =
  sm_playbackService :: Service
  sm_cdmService :: CdmService
  sm_applicationServer :: ApplicationManagementServer
  sm_sessionServer :: SessionManagementServer
  sm_isServiceRunning :: bool
  sm_currentState :: SessionServerState
  sm_logging :: RialtoLogging

definition newSessionServerManager :: "bool \<Rightarrow> bool \<Rightarrow> SessionServerManager" where
  "newSessionServerManager ipcServer1 ipcServer2 =
     \<lparr>sm_playbackService = newPlaybackService, sm_cdmService = newCdmService,
      sm_applicationServer = \<lparr>am_ipcServer = ipcServer1, am_ipcClient = None, am_events = []\<rparr>,
      sm_sessionServer = \<lparr>sv_ipcServer = ipcServer2, sv_isRunning = False, sv_connectedClients = [], sv_logEvents = []\<rparr>,
      sm_isServiceRunning = True, sm_currentState = SSS_UNINITIALIZED, sm_logging = newRialtoLogging\<rparr>"

text \<open>The services of the manager change, and a state is announced.\<close>

definition onServices :: "(Service \<Rightarrow> Service) \<Rightarrow> (CdmService \<Rightarrow> CdmService) \<Rightarrow> SessionServerManager \<Rightarrow> SessionServerManager" where
  "onServices f g s = s\<lparr>sm_playbackService := f (sm_playbackService s), sm_cdmService := g (sm_cdmService s)\<rparr>"

definition announce :: "SessionServerState \<Rightarrow> SessionServerManager \<Rightarrow> bool \<times> SessionServerManager" where
  "announce state s =
     (let (sent, a) = sendStateChangedEvent state (sm_applicationServer s) in (sent, s\<lparr>sm_applicationServer := a\<rparr>))"

abbreviation deactivate :: "Service \<Rightarrow> Service" where
  "deactivate \<equiv> playbackToInactive deleteMediaPipeline deleteWebAudioPlayer"

text \<open>The argument after the program name is a number that \<open>std::stoi\<close> accepts; an exception is caught.
  \<open>add\<close> says for which sockets a client can be added.\<close>

definition smInitialize :: "string list \<Rightarrow> (int \<Rightarrow> bool) \<Rightarrow> SessionServerManager \<Rightarrow> bool \<times> SessionServerManager" where
  "smInitialize argv add s =
     (if length argv \<noteq> 2 then (False, s)
      else if \<not> isNumber (argv ! 1) then (False, s)
      else case stoi (argv ! 1) of
          Inl e \<Rightarrow> (False, s)
        | Inr socket \<Rightarrow>
            let (ok, a) = amInitialize (add socket) (sm_applicationServer s);
                s = s\<lparr>sm_applicationServer := a\<rparr>
            in if \<not> ok then (False, s) else announce SSS_UNINITIALIZED s)"

definition switchToActive :: "ShmSyscalls \<Rightarrow> SessionServerManager \<Rightarrow> bool \<times> SessionServerManager" where
  "switchToActive sys s =
     (if sm_currentState s = SSS_ACTIVE then (True, s)
      else
        let (ok, p) = playbackToActive sys (sm_playbackService s);
            s = s\<lparr>sm_playbackService := p\<rparr>
        in if \<not> ok then (False, s)
           else
             let (ok, c) = cdmToActive (sm_cdmService s);
                 s = s\<lparr>sm_cdmService := c\<rparr>
             in if \<not> ok then (False, onServices deactivate id s)
                else
                  let (sent, s) = announce SSS_ACTIVE s
                  in if sent then (True, s\<lparr>sm_currentState := SSS_ACTIVE\<rparr>)
                     else (False, onServices deactivate cdmToInactive s))"

definition switchToInactive :: "ShmSyscalls \<Rightarrow> SessionServerManager \<Rightarrow> bool \<times> SessionServerManager" where
  "switchToInactive sys s =
     (if sm_currentState s = SSS_INACTIVE then (True, s)
      else
        let s = onServices deactivate cdmToInactive s;
            (sent, s) = announce SSS_INACTIVE s
        in if sent then (True, s\<lparr>sm_currentState := SSS_INACTIVE\<rparr>)
           else (False, onServices (\<lambda>p. snd (playbackToActive sys p)) (\<lambda>c. snd (cdmToActive c)) s))"

definition switchToNotRunning :: "SessionServerManager \<Rightarrow> bool \<times> SessionServerManager" where
  "switchToNotRunning s =
     (if sm_currentState s = SSS_NOT_RUNNING then (True, s)
      else
        let s = s\<lparr>sm_isServiceRunning := False\<rparr>;
            (sent, s) = announce SSS_NOT_RUNNING s
        in if sent then (True, s\<lparr>sm_currentState := SSS_NOT_RUNNING\<rparr>) else (False, s))"

definition setState :: "ShmSyscalls \<Rightarrow> SessionServerState \<Rightarrow> SessionServerManager \<Rightarrow> bool \<times> SessionServerManager" where
  "setState sys state s =
     (case state of
        SSS_ACTIVE \<Rightarrow> switchToActive sys s
      | SSS_INACTIVE \<Rightarrow> switchToInactive sys s
      | SSS_NOT_RUNNING \<Rightarrow> switchToNotRunning s
      | _ \<Rightarrow> (False, snd (announce SSS_ERROR s)))"

definition setConfiguration :: "bool \<Rightarrow> ShmSyscalls \<Rightarrow> SessionServerState \<Rightarrow> int \<Rightarrow> int \<Rightarrow> SessionServerManager \<Rightarrow> bool \<times> SessionServerManager" where
  "setConfiguration socketAdded sys state maxPlaybacks maxWebAudioPlayers s =
     (if \<not> svInitialize socketAdded (sm_sessionServer s) then (False, s)
      else
        let s = s\<lparr>sm_sessionServer := svStart (sm_sessionServer s)\<rparr>;
            s = s\<lparr>sm_playbackService := setMaxPlaybacks maxPlaybacks (sm_playbackService s)\<rparr>;
            s = s\<lparr>sm_playbackService := setMaxWebAudioPlayers maxWebAudioPlayers (sm_playbackService s)\<rparr>
        in setState sys state s)"

definition smSetLogLevels :: "u32 \<Rightarrow> u32 \<Rightarrow> u32 \<Rightarrow> u32 \<Rightarrow> u32 \<Rightarrow> u32 \<Rightarrow> SessionServerManager \<Rightarrow> SessionServerManager" where
  "smSetLogLevels defaultLevels client sessionServer ipc serverManager common s =
     (let g = snd (setLogLevels RC_DEFAULT defaultLevels (sm_logging s));
          g = snd (setLogLevels RC_CLIENT client g);
          g = snd (setLogLevels RC_SERVER sessionServer g);
          g = snd (setLogLevels RC_IPC ipc g);
          g = snd (setLogLevels RC_SERVER_MANAGER serverManager g);
          g = snd (setLogLevels RC_COMMON common g)
      in s\<lparr>sm_logging := g, sm_sessionServer := svSetLogLevels defaultLevels client ipc common (sm_sessionServer s)\<rparr>)"

section \<open>Requests of the server manager\<close>

text \<open>The handlers of \<open>ServerManagerModuleService\<close>; the result is whether the request is answered without an error.\<close>

definition logLevelsOfRequest :: "LogLevels \<Rightarrow> SessionServerManager \<Rightarrow> SessionServerManager" where
  "logLevelsOfRequest l = smSetLogLevels (field (ll_default l)) (field (ll_client l)) (field (ll_sessionServer l))
     (field (ll_ipc l)) (field (ll_serverManager l)) (field (ll_common l))"

definition rpcSetConfiguration :: "bool \<Rightarrow> ShmSyscalls \<Rightarrow> PbSessionServerState \<Rightarrow> int \<Rightarrow> int \<Rightarrow> LogLevels \<Rightarrow> SessionServerManager \<Rightarrow>
    bool \<times> SessionServerManager" where
  "rpcSetConfiguration socketAdded sys initialState maxPlaybacks maxWebAudioPlayers l s =
     (let (success, s) = setConfiguration socketAdded sys (convertFromPbState initialState) maxPlaybacks maxWebAudioPlayers s
      in (success, logLevelsOfRequest l s))"

definition rpcSetState :: "ShmSyscalls \<Rightarrow> PbSessionServerState \<Rightarrow> SessionServerManager \<Rightarrow> bool \<times> SessionServerManager" where
  "rpcSetState sys state s = setState sys (convertFromPbState state) s"

definition rpcSetLogLevels :: "LogLevels \<Rightarrow> SessionServerManager \<Rightarrow> bool \<times> SessionServerManager" where
  "rpcSetLogLevels l s = (True, logLevelsOfRequest l s)"

section \<open>What the services are in which state\<close>

text \<open>Everything that happens to a session server: it is initialised, the server manager configures it, changes its state
  and disconnects, and clients use the services, which they cannot switch on or off.\<close>

fun client_service_op :: "ServiceOp \<Rightarrow> bool" where
  "client_service_op (ActivateOp _) = False"
| "client_service_op DeactivateOp = False"
| "client_service_op _ = True"

fun client_cdm_op :: "CdmOp \<Rightarrow> bool" where
  "client_cdm_op CdmActivate = False"
| "client_cdm_op CdmDeactivate = False"
| "client_cdm_op _ = True"

inductive server_step :: "SessionServerManager \<Rightarrow> SessionServerManager \<Rightarrow> bool" where
  step_configure: "server_step s (snd (rpcSetConfiguration added sys st n k l s))"
| step_state: "server_step s (snd (rpcSetState sys st s))"
| step_levels: "server_step s (snd (rpcSetLogLevels l s))"
| step_disconnect: "server_step s (s\<lparr>sm_applicationServer := amStop (sm_applicationServer s)\<rparr>)"
| step_playback: "client_service_op x \<Longrightarrow> server_step s (onServices (service_op x) id s)"
| step_cdm: "client_cdm_op y \<Longrightarrow> server_step s (onServices id (cdm_op y) s)"

definition services_off :: "SessionServerManager \<Rightarrow> bool" where
  "services_off s \<longleftrightarrow> \<not> ps_isActive (sm_playbackService s) \<and> ps_shmBuffer (sm_playbackService s) = None \<and>
     ps_mediaPipelines (sm_playbackService s) = [] \<and> ps_webAudioPlayers (sm_playbackService s) = [] \<and>
     \<not> cs_isActive (sm_cdmService s) \<and> cs_mediaKeys (sm_cdmService s) = []"

definition services_on :: "SessionServerManager \<Rightarrow> bool" where
  "services_on s \<longleftrightarrow> ps_isActive (sm_playbackService s) \<and> ps_shmBuffer (sm_playbackService s) \<noteq> None \<and> cs_isActive (sm_cdmService s)"

definition manager_connected :: "SessionServerManager \<Rightarrow> bool" where
  "manager_connected s \<longleftrightarrow> am_ipcClient (sm_applicationServer s) = Some True"

definition last_report :: "SessionServerManager \<Rightarrow> SessionServerState option" where
  "last_report s = map_option convertFromPbState (find (\<lambda>e. e \<noteq> PB_ERROR) (rev (am_events (sm_applicationServer s))))"

definition server_inv :: "SessionServerManager \<Rightarrow> bool" where
  "server_inv s \<longleftrightarrow> (sm_currentState s = SSS_INACTIVE \<longrightarrow> services_off s) \<and>
     (manager_connected s \<and> sm_currentState s = SSS_UNINITIALIZED \<longrightarrow> services_off s) \<and>
     (manager_connected s \<and> sm_currentState s = SSS_ACTIVE \<longrightarrow> services_on s) \<and> last_report s = Some (sm_currentState s)"

lemmas server_defs = services_off_def services_on_def manager_connected_def last_report_def server_inv_def

text \<open>Client operations do not touch a service that is off, and do not switch a service on or off.\<close>

lemmas session_service_defs = createSession_def destroySession_def createWebAudioPlayer_def destroyWebAudioPlayer_def onSession_def
  onWebAudioPlayer_def forward_def mps_load_def mps_attachSource_def mps_removeSource_def mps_play_def mps_pause_def mps_stop_def
  mps_setPlaybackRate_def mps_setPosition_def mps_getPosition_def mps_setVideoWindow_def mps_haveData_def mps_renderFrame_def
  mps_setVolume_def mps_getVolume_def wap_play_def wap_pause_def wap_setEos_def wap_getBufferAvailable_def wap_getBufferDelay_def
  wap_writeBuffer_def wap_getDeviceInfo_def wap_setVolume_def wap_getVolume_def

lemmas cdm_service_defs = createMediaKeys_def destroyMediaKeys_def cdmCreateKeySession_def cdmRemoveKeySession_def
  cdmRemoveKeySessionInternal_def cdmGenerateRequest_def cdmLoadSession_def cdmUpdateSession_def cdmCloseKeySession_def
  cdmGetCdmKeySessionId_def cdmContainsKey_def cdmSetDrmHeader_def cdmDeleteDrmStore_def cdmDeleteKeyStore_def
  cdmGetDrmStoreHash_def cdmGetKeyStoreHash_def cdmGetLdlSessionsLimit_def cdmGetLastDrmError_def cdmGetDrmTime_def
  cdmDecrypt_def cdmIsNetflixKeySystem_def cdmSelectKeyId_def cdmIncrementSessionIdUsageCounter_def
  cdmDecrementSessionIdUsageCounter_def onKeySession_def findKeySession_def

lemma service_op_idle:
  assumes "client_service_op x" and "\<not> ps_isActive p" and "ps_mediaPipelines p = []" and "ps_webAudioPlayers p = []"
  shows "service_op x p = p"
  using assms by (cases x) (simp_all add: session_service_defs)

lemma service_op_active:
  assumes "client_service_op x"
  shows "ps_isActive (service_op x p) = ps_isActive p" and "ps_shmBuffer (service_op x p) = None \<longleftrightarrow> ps_shmBuffer p = None"
  using assms
  by (cases x; simp add: session_service_defs Let_def case_prod_beta split: option.split)+

lemma onMediaKeys_idle: "cs_mediaKeys c = [] \<Longrightarrow> onMediaKeys d h call c = (d, c)"
  by (simp add: onMediaKeys_def)

lemma onMediaKeys_active [simp]: "cs_isActive (snd (onMediaKeys d h call c)) = cs_isActive c"
  by (simp add: onMediaKeys_def case_prod_beta Let_def split: option.split)

lemma cdm_op_idle: "client_cdm_op y \<Longrightarrow> \<not> cs_isActive c \<Longrightarrow> cs_mediaKeys c = [] \<Longrightarrow> cdm_op y c = c"
  by (cases y) (simp_all add: cdm_service_defs onMediaKeys_idle)

lemma cdm_op_active: "client_cdm_op y \<Longrightarrow> cs_isActive (cdm_op y c) = cs_isActive c"
  by (cases y) (simp_all add: cdm_service_defs case_prod_beta Let_def split: option.split MediaKeyErrorStatus.split prod.split)

lemma announce_eq:
  "announce st s = (manager_connected s, if manager_connected s
     then s\<lparr>sm_applicationServer := sm_applicationServer s\<lparr>am_events := am_events (sm_applicationServer s) @ [convertToPbState st]\<rparr>\<rparr> else s)"
  by (simp add: announce_def sendStateChangedEvent_def manager_connected_def case_prod_beta Let_def)

lemma deactivated: "services_off (onServices deactivate cdmToInactive s)"
  by (simp add: services_off_def onServices_def playbackToInactive_def cdmToInactive_def clearMediaPipelines_def
      clearWebAudioPlayers_def Let_def)

lemma off_after_failed_activation: "services_off s \<Longrightarrow> \<not> fst (playbackToActive sys (sm_playbackService s)) \<Longrightarrow>
    services_off (s\<lparr>sm_playbackService := snd (playbackToActive sys (sm_playbackService s))\<rparr>)"
  by (auto simp: services_off_def playbackToActive_def split: option.splits)

lemma frame_simps [simp]:
  "sm_currentState (onServices f g s) = sm_currentState s" "sm_applicationServer (onServices f g s) = sm_applicationServer s"
  "manager_connected (onServices f g s) = manager_connected s" "last_report (onServices f g s) = last_report s"
  "manager_connected (s\<lparr>sm_playbackService := p\<rparr>) = manager_connected s" "last_report (s\<lparr>sm_playbackService := p\<rparr>) = last_report s"
  "manager_connected (s\<lparr>sm_cdmService := c\<rparr>) = manager_connected s" "last_report (s\<lparr>sm_cdmService := c\<rparr>) = last_report s"
  "services_off (s\<lparr>sm_applicationServer := a\<rparr>) = services_off s" "services_off (s\<lparr>sm_currentState := st\<rparr>) = services_off s"
  "services_on (s\<lparr>sm_applicationServer := a\<rparr>) = services_on s" "services_on (s\<lparr>sm_currentState := st\<rparr>) = services_on s"
  "services_off (s\<lparr>sm_isServiceRunning := r\<rparr>) = services_off s" "services_on (s\<lparr>sm_isServiceRunning := r\<rparr>) = services_on s"
  "manager_connected (s\<lparr>sm_currentState := st\<rparr>) = manager_connected s" "last_report (s\<lparr>sm_currentState := st\<rparr>) = last_report s"
  "manager_connected (s\<lparr>sm_isServiceRunning := r\<rparr>) = manager_connected s" "last_report (s\<lparr>sm_isServiceRunning := r\<rparr>) = last_report s"
  by (simp_all add: server_defs onServices_def)

lemma connected_announced [simp]:
  "manager_connected (s\<lparr>sm_applicationServer := a\<lparr>am_events := e\<rparr>\<rparr>) = (am_ipcClient a = Some True)"
  by (simp add: manager_connected_def)

lemma last_report_announced [simp]:
  "last_report (s\<lparr>sm_applicationServer := a\<lparr>am_events := e @ [x]\<rparr>\<rparr>) =
     (if x = PB_ERROR then last_report (s\<lparr>sm_applicationServer := a\<lparr>am_events := e\<rparr>\<rparr>) else Some (convertFromPbState x))"
  by (simp add: last_report_def)

lemma announce_error_report [simp]: "last_report (s\<lparr>sm_applicationServer := (sm_applicationServer s)\<lparr>am_events := am_events (sm_applicationServer s)\<rparr>\<rparr>) = last_report s"
  by (simp add: last_report_def)

lemma switchToActive_inv:
  assumes "server_inv s"
  shows "server_inv (snd (switchToActive sys s))"
proof (cases "sm_currentState s = SSS_ACTIVE")
  case False
  let ?p = "playbackToActive sys (sm_playbackService s)" and ?s = "s\<lparr>sm_playbackService := snd (playbackToActive sys (sm_playbackService s))\<rparr>"
  show ?thesis
  proof (cases "fst ?p")
    case True
    let ?t = "?s\<lparr>sm_cdmService := snd (cdmToActive (sm_cdmService s))\<rparr>"
    have on: "services_on ?t"
      using True by (auto simp: services_on_def playbackToActive_def cdmToActive_def split: option.splits)
    have eq: "switchToActive sys s = (if manager_connected s then (True, snd (announce SSS_ACTIVE ?t)\<lparr>sm_currentState := SSS_ACTIVE\<rparr>)
        else (False, onServices deactivate cdmToInactive ?t))"
      using False True by (simp add: switchToActive_def Let_def case_prod_beta announce_eq cdmToActive_def)
    show ?thesis
      using assms on deactivated [of ?t] unfolding eq by (auto simp: server_inv_def announce_eq manager_connected_def)
  next
    case fail: False
    then have "switchToActive sys s = (False, ?s)"
      using False by (simp add: switchToActive_def Let_def case_prod_beta)
    then show ?thesis
      using assms False off_after_failed_activation [OF _ fail] by (auto simp: server_inv_def)
  qed
qed (use assms in \<open>simp add: switchToActive_def\<close>)

lemma switchToInactive_inv:
  assumes "server_inv s"
  shows "server_inv (snd (switchToInactive sys s))"
  using assms deactivated [of s]
  by (auto simp: switchToInactive_def Let_def announce_eq server_inv_def manager_connected_def [of s])

lemma switchToNotRunning_inv: "server_inv s \<Longrightarrow> server_inv (snd (switchToNotRunning s))"
  by (auto simp: switchToNotRunning_def Let_def announce_eq server_inv_def manager_connected_def [of s])

lemma announce_error_inv: "server_inv s \<Longrightarrow> server_inv (snd (announce SSS_ERROR s))"
  by (auto simp: announce_eq server_inv_def manager_connected_def [of s])

lemma setState_inv: "server_inv s \<Longrightarrow> server_inv (snd (setState sys st s))"
  by (cases st) (simp_all add: setState_def switchToActive_inv switchToInactive_inv switchToNotRunning_inv announce_error_inv)

lemma setConfiguration_inv: "server_inv s \<Longrightarrow> server_inv (snd (setConfiguration added sys st n k s))"
proof -
  let ?s = "s\<lparr>sm_sessionServer := svStart (sm_sessionServer s),
      sm_playbackService := setMaxWebAudioPlayers k (setMaxPlaybacks n (sm_playbackService s))\<rparr>"
  assume "server_inv s"
  then have "server_inv ?s"
    by (auto simp: server_defs setMaxPlaybacks_def setMaxWebAudioPlayers_def)
  then show ?thesis
    using \<open>server_inv s\<close> setState_inv [of ?s sys st] by (simp add: setConfiguration_def Let_def)
qed

lemma logLevels_inv: "server_inv (logLevelsOfRequest l s) = server_inv s"
  by (simp add: logLevelsOfRequest_def smSetLogLevels_def Let_def server_defs)

lemma disconnect_inv: "server_inv s \<Longrightarrow> server_inv (s\<lparr>sm_applicationServer := amStop (sm_applicationServer s)\<rparr>)"
  by (auto simp: server_defs amStop_def)

lemma client_ops_inv:
  assumes "server_inv s"
  shows "client_service_op x \<Longrightarrow> server_inv (onServices (service_op x) id s)"
    and "client_cdm_op y \<Longrightarrow> server_inv (onServices id (cdm_op y) s)"
proof -
  have "services_off (onServices (service_op x) id s)" if "services_off s" "client_service_op x"
    using that service_op_idle [of x "sm_playbackService s"] by (simp add: services_off_def onServices_def)
  moreover have "services_off (onServices id (cdm_op y) s)" if "services_off s" "client_cdm_op y"
    using that cdm_op_idle [of y "sm_cdmService s"] by (simp add: services_off_def onServices_def)
  moreover have "services_on (onServices (service_op x) id s)" if "services_on s" "client_service_op x"
    using that service_op_active [of x "sm_playbackService s"] by (auto simp: services_on_def onServices_def)
  moreover have "services_on (onServices id (cdm_op y) s)" if "services_on s" "client_cdm_op y"
    using that cdm_op_active [of y "sm_cdmService s"] by (simp add: services_on_def onServices_def)
  ultimately show "client_service_op x \<Longrightarrow> server_inv (onServices (service_op x) id s)"
    and "client_cdm_op y \<Longrightarrow> server_inv (onServices id (cdm_op y) s)"
    using assms by (auto simp: server_inv_def)
qed

lemma server_step_inv: "server_step s s' \<Longrightarrow> server_inv s \<Longrightarrow> server_inv s'"
  by (induction rule: server_step.induct)
    (simp_all add: rpcSetConfiguration_def rpcSetState_def rpcSetLogLevels_def Let_def case_prod_beta logLevels_inv setState_inv
      setConfiguration_inv disconnect_inv client_ops_inv)

lemma server_steps_inv: "server_step\<^sup>*\<^sup>* s s' \<Longrightarrow> server_inv s \<Longrightarrow> server_inv s'"
  by (induction rule: rtranclp_induct) (auto intro: server_step_inv)

lemma initialized_inv:
  assumes "smInitialize argv add (newSessionServerManager b1 b2) = (True, s)"
  shows "server_inv s"
  using assms
  by (auto simp: smInitialize_def newSessionServerManager_def amInitialize_def announce_def sendStateChangedEvent_def server_defs
      newPlaybackService_def newCdmService_def Let_def split: if_splits sum.splits)

text \<open>What the last report means for the list of reports: the report of the state is followed by errors only.\<close>

lemma find_last: "find P (rev xs) = Some x \<Longrightarrow> \<exists>ys zs. xs = ys @ x # zs \<and> (\<forall>z \<in> set zs. \<not> P z)"
proof (induction xs rule: rev_induct)
  case (snoc y xs)
  show ?case
  proof (cases "P y")
    case True
    with snoc.prems show ?thesis by (intro exI [of _ xs] exI [of _ "[]"]) simp
  next
    case False
    with snoc obtain ys zs where "xs = ys @ x # zs" "\<forall>z \<in> set zs. \<not> P z" by auto
    with False show ?thesis by (intro exI [of _ ys] exI [of _ "zs @ [y]"]) auto
  qed
qed simp

lemma last_report_events:
  assumes "last_report s = Some st"
  shows "\<exists>earlier n. am_events (sm_applicationServer s) = earlier @ convertToPbState st # replicate n PB_ERROR"
proof -
  obtain e where e: "find (\<lambda>e. e \<noteq> PB_ERROR) (rev (am_events (sm_applicationServer s))) = Some e" "convertFromPbState e = st"
    using assms by (auto simp: last_report_def)
  obtain ys zs where z: "am_events (sm_applicationServer s) = ys @ e # zs" "\<forall>z \<in> set zs. \<not> z \<noteq> PB_ERROR"
    using find_last [OF e(1)] by blast
  then have "zs = replicate (length zs) PB_ERROR" by (intro replicate_length_same [symmetric]) auto
  moreover have "convertToPbState st = e" using e(2) by (cases e) auto
  ultimately show ?thesis using z(1) by metis
qed

section \<open>Properties\<close>

text \<open>C17. The state that is reported is the state there is, apart from reports of errors: in every state the session server
  reaches, the events sent to the server manager end with the current state followed by nothing but reports of \<open>ERROR\<close>,
  which a change of state that fails sends without changing the state; an inactive server has both services off, without
  sessions, keys or shared memory; and as long as the server manager is connected, an active server has both services on and
  one that is not configured has them off.\<close>

theorem server_state_agrees:
  assumes "smInitialize argv add (newSessionServerManager b1 b2) = (True, s0)" and "server_step\<^sup>*\<^sup>* s0 s"
  shows "(\<exists>earlier n. am_events (sm_applicationServer s) = earlier @ convertToPbState (sm_currentState s) # replicate n PB_ERROR) \<and>
    (sm_currentState s = SSS_INACTIVE \<longrightarrow> services_off s) \<and>
    (manager_connected s \<longrightarrow> (sm_currentState s = SSS_ACTIVE \<longrightarrow> services_on s) \<and> (sm_currentState s = SSS_UNINITIALIZED \<longrightarrow> services_off s))"
  using server_steps_inv [OF assms(2) initialized_inv [OF assms(1)]] last_report_events [of s] by (simp add: server_inv_def)

text \<open>A deactivation that cannot be reported is undone by activation, whatever state the server was in: a server that
  was never active ends with both services on and an empty shared memory buffer, although the request is refused and
  the state does not change.\<close>

theorem unreported_deactivation_activates:
  assumes "\<not> manager_connected s" and "sm_currentState s \<noteq> SSS_INACTIVE"
    and "newSharedMemoryBuffer sys (word_of_int (ps_maxPlaybacks (sm_playbackService s))) (word_of_int (ps_maxWebAudioPlayers (sm_playbackService s))) = Some b"
  shows "\<exists>s'. setState sys SSS_INACTIVE s = (False, s') \<and> services_on s' \<and> sm_currentState s' = sm_currentState s \<and>
    ps_shmBuffer (sm_playbackService s') = Some b \<and> ps_mediaPipelines (sm_playbackService s') = []"
proof -
  let ?s = "onServices (\<lambda>p. snd (playbackToActive sys p)) (\<lambda>c. snd (cdmToActive c)) (onServices deactivate cdmToInactive s)"
  have "setState sys SSS_INACTIVE s = (False, ?s)"
    using assms by (simp add: setState_def switchToInactive_def Let_def announce_eq)
  moreover have "services_on ?s \<and> ps_shmBuffer (sm_playbackService ?s) = Some b \<and> ps_mediaPipelines (sm_playbackService ?s) = []"
    using assms(3) by (simp add: services_on_def onServices_def playbackToInactive_def playbackToActive_def cdmToActive_def
        clearMediaPipelines_def clearWebAudioPlayers_def Let_def)
  ultimately show ?thesis by auto
qed

section \<open>Witnesses\<close>

definition demo_levels :: LogLevels where
  "demo_levels = \<lparr>ll_default = Some 15, ll_client = Some 15, ll_sessionServer = Some 15, ll_ipc = Some 15,
     ll_serverManager = Some 15, ll_common = Some 15\<rparr>"

definition demo_server :: SessionServerManager where
  "demo_server = snd (smInitialize [''RialtoServer'', ''5''] (\<lambda>_. True) (newSessionServerManager True True))"

definition demo_active_server :: SessionServerManager where
  "demo_active_server = snd (rpcSetConfiguration True demo_sys PB_ACTIVE 2 1 demo_levels demo_server)"

lemma demo_server_new: "smInitialize [''RialtoServer'', ''5''] (\<lambda>_. True) (newSessionServerManager True True) = (True, demo_server)"
  by (simp add: demo_server_def smInitialize_def newSessionServerManager_def isNumber_iff is_digit_def of_char_def stoi_def
      decimal_def amInitialize_def announce_def sendStateChangedEvent_def Let_def)

lemma demo_server_fields:
  "sm_currentState demo_server = SSS_UNINITIALIZED" "sm_playbackService demo_server = newPlaybackService" "manager_connected demo_server"
  "sv_ipcServer (sm_sessionServer demo_server)"
  by (simp_all add: demo_server_def smInitialize_def newSessionServerManager_def isNumber_iff is_digit_def of_char_def stoi_def
      decimal_def amInitialize_def announce_def sendStateChangedEvent_def Let_def manager_connected_def)

lemma demo_active_state: "sm_currentState demo_active_server = SSS_ACTIVE" "manager_connected demo_active_server"
  using demo_server_fields demo_new
  by (simp_all add: demo_active_server_def rpcSetConfiguration_def setConfiguration_def svInitialize_def setState_def switchToActive_def
      setMaxPlaybacks_def setMaxWebAudioPlayers_def playbackToActive_def newPlaybackService_def cdmToActive_def announce_def
      sendStateChangedEvent_def logLevelsOfRequest_def smSetLogLevels_def manager_connected_def Let_def case_prod_beta)

theorem server_state_agrees_witness:
  "server_step\<^sup>*\<^sup>* demo_server demo_active_server \<and> services_on demo_active_server \<and>
   (\<exists>earlier n. am_events (sm_applicationServer demo_active_server) = earlier @ PB_ACTIVE # replicate n PB_ERROR)"
proof -
  have "server_step\<^sup>*\<^sup>* demo_server demo_active_server"
    unfolding demo_active_server_def by (rule r_into_rtranclp, rule step_configure)
  then show ?thesis
    using server_state_agrees [OF demo_server_new, of demo_active_server] demo_active_state by simp
qed

definition demo_lost_server :: SessionServerManager where
  "demo_lost_server = demo_server\<lparr>sm_applicationServer := amStop (sm_applicationServer demo_server),
     sm_playbackService := setMaxWebAudioPlayers 1 (setMaxPlaybacks 2 newPlaybackService)\<rparr>"

theorem unreported_deactivation_activates_witness:
  "\<exists>s'. setState demo_sys SSS_INACTIVE demo_lost_server = (False, s') \<and> services_on s' \<and> sm_currentState s' = SSS_UNINITIALIZED"
proof -
  have "\<not> manager_connected demo_lost_server" "sm_currentState demo_lost_server = SSS_UNINITIALIZED"
    "newSharedMemoryBuffer demo_sys (word_of_int (ps_maxPlaybacks (sm_playbackService demo_lost_server)))
       (word_of_int (ps_maxWebAudioPlayers (sm_playbackService demo_lost_server))) = Some demo_shm"
    using demo_server_fields demo_new
    by (simp_all add: demo_lost_server_def amStop_def manager_connected_def setMaxPlaybacks_def setMaxWebAudioPlayers_def newPlaybackService_def)
  then show ?thesis using unreported_deactivation_activates [of demo_lost_server demo_sys demo_shm] by auto
qed

end
