(* ===== verification/Server_Manager.thy ===== *)
theory Server_Manager
  imports Session_Server_Manager "HOL-Library.Multiset"
begin

unbundle bit_operations_syntax

text \<open>
  The server manager (\<open>serverManager\<close>): a session server process for each application
  (\<open>common/source/SessionServerApp.cpp\<close>), the registry of the processes (\<open>common/source/SessionServerAppManager.cpp\<close>), whose
  state changes are handled on an event thread (\<open>common/source/EventThread.cpp\<close> of Rialto), and the connections to them
  (\<open>ipc/source/Controller.cpp\<close>, \<open>ipc/source/Client.cpp\<close>). What the operating system and the remote procedure calls answer
  are inputs; what is done to processes, sockets and the observer is recorded. A call holds the registry's mutex only for
  parts of its work; here it is one step. The static counter of socket names, an \<open>int\<close>, is a natural number: it would overflow
  after \<open>2 ^ 31\<close> applications.
\<close>

section \<open>State\<close>

datatype ManagerOut =
    MO_spawn int | MO_kill int | MO_waitpid int | MO_close int
  | MO_setState string PbSessionServerState | MO_setConfiguration string PbSessionServerState string int int LogLevels
  | MO_setLogLevels string LogLevels | MO_stateChanged string SessionServerState

text \<open>The members of \<open>SessionServerApp\<close>; \<open>sa_startupTimer\<close> says of a timer whether it is active.\<close>

record SessionServerApp =
  sa_appId :: string
  sa_initialState :: SessionServerState
  sa_sessionManagementSocketName :: string
  sa_socks :: "int \<times> int"
  sa_pid :: int
  sa_startupTimer :: "bool option"

record ManagerClient =
  cl_appId :: string
  cl_socket :: int
  cl_ipcLoop :: bool

text \<open>The members of \<open>SessionServerAppManager\<close> and \<open>Controller\<close>, the queue of the event thread, the counter of the socket
  names and the log levels of the process.\<close>

record SessionServerAppManager =
  mg_sessionServerApps :: "(string \<times> SessionServerApp) list"
  mg_clients :: "(string \<times> ManagerClient) list"
  mg_events :: "(string \<times> SessionServerState) list"
  mg_stateObserver :: bool
  mg_sessionNum :: nat
  mg_logging :: RialtoLogging
  mg_out :: "ManagerOut list"

definition newSessionServerAppManager :: "bool \<Rightarrow> SessionServerAppManager" where
  "newSessionServerAppManager stateObserver =
     \<lparr>mg_sessionServerApps = [], mg_clients = [], mg_events = [], mg_stateObserver = stateObserver, mg_sessionNum = 0,
      mg_logging = newRialtoLogging, mg_out = []\<rparr>"

definition tell :: "ManagerOut list \<Rightarrow> SessionServerAppManager \<Rightarrow> SessionServerAppManager" where
  "tell os s = s\<lparr>mg_out := mg_out s @ os\<rparr>"

section \<open>A session server process\<close>

fun to_string :: "nat \<Rightarrow> string" where
  "to_string n = (if n < 10 then [char_of (48 + n)] else to_string (n div 10) @ [char_of (48 + n mod 10)])"

declare to_string.simps [simp del]

definition maxPlaybackSessions :: int where "maxPlaybackSessions = 2"
definition maxWebAudioPlayers :: int where "maxWebAudioPlayers = 1"

definition sessionSocketName :: "nat \<Rightarrow> string" where
  "sessionSocketName sessionNum = ''/tmp/rialto-'' @ to_string sessionNum"

definition generateSessionManagementSocket :: "SessionServerAppManager \<Rightarrow> string \<times> SessionServerAppManager" where
  "generateSessionManagementSocket s =
     (sessionSocketName (mg_sessionNum s), s\<lparr>mg_sessionNum := mg_sessionNum s + 1\<rparr>)"

definition newSessionServerApp :: "string \<Rightarrow> SessionServerState \<Rightarrow> SessionServerAppManager \<Rightarrow> SessionServerApp \<times> SessionServerAppManager" where
  "newSessionServerApp appId initialState s =
     (let (name, s) = generateSessionManagementSocket s
      in (\<lparr>sa_appId = appId, sa_initialState = initialState, sa_sessionManagementSocketName = name, sa_socks = (-1, -1),
           sa_pid = -1, sa_startupTimer = None\<rparr>, s))"

definition cancelStartupTimer :: "SessionServerApp \<Rightarrow> SessionServerApp" where
  "cancelStartupTimer app = (if sa_startupTimer app = Some True then app\<lparr>sa_startupTimer := Some False\<rparr> else app)"

text \<open>The destructor waits for the process, however long that takes.\<close>

definition destroySessionServerApp :: "SessionServerApp \<Rightarrow> ManagerOut list" where
  "destroySessionServerApp app =
     (if sa_pid app \<noteq> -1 then [MO_waitpid (sa_pid app)] else []) @
     (if fst (sa_socks app) \<ge> 0 then [MO_close (fst (sa_socks app))] else [])"

definition kill :: "SessionServerApp \<Rightarrow> ManagerOut list" where
  "kill app = (if sa_pid app > 0 then [MO_kill (sa_pid app)] else [])"

text \<open>What the operating system answers when a server is launched: the socket pair, the startup timeout of the environment,
  the process id that \<open>vfork\<close> returns to the parent, and what \<open>dup\<close> returns to the child. The child of \<open>vfork\<close> writes to
  the memory of its parent: it closes its copy of the first socket and stores the duplicate in \<open>m_socks[0]\<close>.\<close>

record LaunchEnv =
  la_socketpair :: "(int \<times> int) option"
  la_timeout :: nat
  la_pid :: int
  la_dup :: int

definition initializeSockets :: "LaunchEnv \<Rightarrow> SessionServerApp \<Rightarrow> bool \<times> SessionServerApp" where
  "initializeSockets e app = (case la_socketpair e of None \<Rightarrow> (False, app) | Some socks \<Rightarrow> (True, app\<lparr>sa_socks := socks\<rparr>))"

definition setupStartupTimer :: "LaunchEnv \<Rightarrow> SessionServerApp \<Rightarrow> SessionServerApp" where
  "setupStartupTimer e app = (if 0 < la_timeout e then app\<lparr>sa_startupTimer := Some True\<rparr> else app)"

definition spawnSessionServer :: "LaunchEnv \<Rightarrow> SessionServerApp \<Rightarrow> bool \<times> SessionServerApp \<times> ManagerOut list" where
  "spawnSessionServer e app =
     (if la_pid e = -1 then (False, app\<lparr>sa_socks := (fst (sa_socks app), -1)\<rparr>, [MO_close (snd (sa_socks app))])
      else (True, app\<lparr>sa_socks := (la_dup e, snd (sa_socks app)), sa_pid := la_pid e\<rparr>, [MO_spawn (la_pid e)]))"

definition launch :: "LaunchEnv \<Rightarrow> SessionServerApp \<Rightarrow> bool \<times> SessionServerApp \<times> ManagerOut list" where
  "launch e app =
     (let (ok, app) = initializeSockets e app in
      if \<not> ok then (False, app, [])
      else
        let app = setupStartupTimer e app;
            (result, app, os) = spawnSessionServer e app
        in (result, app\<lparr>sa_socks := (-1, snd (sa_socks app))\<rparr>, os @ [MO_close (fst (sa_socks app))]))"

section \<open>The connections\<close>

text \<open>\<open>channel\<close> says whether the channel can be created, \<open>ok\<close> whether a remote call succeeds.\<close>

definition createClient :: "bool \<Rightarrow> string \<Rightarrow> int \<Rightarrow> SessionServerAppManager \<Rightarrow> bool \<times> SessionServerAppManager" where
  "createClient channel appId appMgmtSocket s =
     (if map_of (mg_clients s) appId = None then
        if channel
        then (True, s\<lparr>mg_clients := emplace appId \<lparr>cl_appId = appId, cl_socket = appMgmtSocket, cl_ipcLoop = True\<rparr> (mg_clients s)\<rparr>)
        else (False, s)
      else (False, s))"

definition removeClient :: "string \<Rightarrow> SessionServerAppManager \<Rightarrow> SessionServerAppManager" where
  "removeClient appId s = s\<lparr>mg_clients := erase appId (mg_clients s)\<rparr>"

definition clientSetState :: "bool \<Rightarrow> SessionServerState \<Rightarrow> ManagerClient \<Rightarrow> SessionServerAppManager \<Rightarrow> bool \<times> SessionServerAppManager" where
  "clientSetState ok state c s =
     (if \<not> cl_ipcLoop c then (False, s) else (ok, tell [MO_setState (cl_appId c) (convertToPbState state)] s))"

definition performSetState :: "bool \<Rightarrow> string \<Rightarrow> SessionServerState \<Rightarrow> SessionServerAppManager \<Rightarrow> bool \<times> SessionServerAppManager" where
  "performSetState ok appId state s =
     (case map_of (mg_clients s) appId of None \<Rightarrow> (False, s) | Some c \<Rightarrow> clientSetState ok state c s)"

definition getCurrentLogLevels :: "EnvVariableParser \<Rightarrow> RialtoLogging \<Rightarrow> LogLevels \<times> RialtoLogging" where
  "getCurrentLogLevels p g =
     (let (d, g) = getLogLevels p RC_DEFAULT g; (c, g) = getLogLevels p RC_CLIENT g; (v, g) = getLogLevels p RC_SERVER g;
          (i, g) = getLogLevels p RC_IPC g; (m, g) = getLogLevels p RC_SERVER_MANAGER g; (o', g) = getLogLevels p RC_COMMON g
      in (\<lparr>ll_default = Some d, ll_client = Some c, ll_sessionServer = Some v, ll_ipc = Some i, ll_serverManager = Some m,
           ll_common = Some o'\<rparr>, g))"

definition clientSetConfiguration :: "EnvVariableParser \<Rightarrow> bool \<Rightarrow> SessionServerState \<Rightarrow> string \<Rightarrow> int \<Rightarrow> int \<Rightarrow> ManagerClient \<Rightarrow>
    SessionServerAppManager \<Rightarrow> bool \<times> SessionServerAppManager" where
  "clientSetConfiguration p ok initialState socketName maxPlaybacks maxWebAudio c s =
     (if \<not> cl_ipcLoop c then (False, s)
      else
        let (levels, g) = getCurrentLogLevels p (mg_logging s)
        in (ok, tell [MO_setConfiguration (cl_appId c) (convertToPbState initialState) socketName maxPlaybacks maxWebAudio levels]
                  (s\<lparr>mg_logging := g\<rparr>)))"

definition performSetConfiguration :: "EnvVariableParser \<Rightarrow> bool \<Rightarrow> string \<Rightarrow> SessionServerState \<Rightarrow> string \<Rightarrow> int \<Rightarrow> int \<Rightarrow>
    SessionServerAppManager \<Rightarrow> bool \<times> SessionServerAppManager" where
  "performSetConfiguration p ok appId initialState socketName maxPlaybacks maxWebAudio s =
     (case map_of (mg_clients s) appId of
        None \<Rightarrow> (False, s)
      | Some c \<Rightarrow> clientSetConfiguration p ok initialState socketName maxPlaybacks maxWebAudio c s)"

section \<open>Log levels\<close>

datatype LoggingLevel = LL_FATAL | LL_ERROR | LL_WARNING | LL_MILESTONE | LL_INFO | LL_DEBUG | LL_DEFAULT | LL_UNCHANGED

record LoggingLevels =
  lv_default :: LoggingLevel
  lv_client :: LoggingLevel
  lv_sessionServer :: LoggingLevel
  lv_ipc :: LoggingLevel
  lv_serverManager :: LoggingLevel
  lv_common :: LoggingLevel

definition convertLoggingLevel :: "LoggingLevel \<Rightarrow> RIALTO_DEBUG_LEVEL" where
  "convertLoggingLevel loggingLevel =
     (case loggingLevel of
        LL_FATAL \<Rightarrow> LEVEL_FATAL
      | LL_ERROR \<Rightarrow> LEVEL_FATAL OR LEVEL_ERROR
      | LL_WARNING \<Rightarrow> LEVEL_FATAL OR LEVEL_ERROR OR LEVEL_WARNING
      | LL_MILESTONE \<Rightarrow> LEVEL_FATAL OR LEVEL_ERROR OR LEVEL_WARNING OR LEVEL_MILESTONE
      | LL_INFO \<Rightarrow> LEVEL_FATAL OR LEVEL_ERROR OR LEVEL_WARNING OR LEVEL_MILESTONE OR LEVEL_INFO
      | LL_DEBUG \<Rightarrow> LEVEL_FATAL OR LEVEL_ERROR OR LEVEL_WARNING OR LEVEL_MILESTONE OR LEVEL_INFO OR LEVEL_DEBUG
      | LL_DEFAULT \<Rightarrow> LEVEL_DEFAULT
      | LL_UNCHANGED \<Rightarrow> LEVEL_DEFAULT)"

definition setLocalLevel :: "RIALTO_COMPONENT \<Rightarrow> LoggingLevel \<Rightarrow> RialtoLogging \<Rightarrow> RialtoLogging" where
  "setLocalLevel component level g =
     (if level \<noteq> LL_UNCHANGED then snd (setLogLevels component (convertLoggingLevel level) g) else g)"

definition setLocalLogLevels :: "LoggingLevels \<Rightarrow> RialtoLogging \<Rightarrow> RialtoLogging" where
  "setLocalLogLevels l g =
     (let g = setLocalLevel RC_DEFAULT (lv_default l) g; g = setLocalLevel RC_CLIENT (lv_client l) g;
          g = setLocalLevel RC_SERVER (lv_sessionServer l) g; g = setLocalLevel RC_IPC (lv_ipc l) g;
          g = setLocalLevel RC_SERVER_MANAGER (lv_serverManager l) g
      in setLocalLevel RC_COMMON (lv_common l) g)"

definition optionalLevel :: "LoggingLevel \<Rightarrow> u32 option" where
  "optionalLevel level = (if LL_UNCHANGED \<noteq> level then Some (convertLoggingLevel level) else None)"

definition convertLoggingLevels :: "LoggingLevels \<Rightarrow> LogLevels" where
  "convertLoggingLevels l =
     \<lparr>ll_default = optionalLevel (lv_default l), ll_client = optionalLevel (lv_client l),
      ll_sessionServer = optionalLevel (lv_sessionServer l), ll_ipc = optionalLevel (lv_ipc l),
      ll_serverManager = optionalLevel (lv_serverManager l), ll_common = optionalLevel (lv_common l)\<rparr>"

definition clientSetLogLevels :: "bool \<Rightarrow> LoggingLevels \<Rightarrow> ManagerClient \<Rightarrow> SessionServerAppManager \<Rightarrow> bool \<times> SessionServerAppManager" where
  "clientSetLogLevels ok logLevels c s =
     (if \<not> cl_ipcLoop c then (False, s) else (ok, tell [MO_setLogLevels (cl_appId c) (convertLoggingLevels logLevels)] s))"

text \<open>\<open>std::all_of\<close> stops at the first client that fails.\<close>

fun allSetLogLevels :: "(string \<Rightarrow> bool) \<Rightarrow> LoggingLevels \<Rightarrow> (string \<times> ManagerClient) list \<Rightarrow> SessionServerAppManager \<Rightarrow>
    bool \<times> SessionServerAppManager" where
  "allSetLogLevels ok l [] s = (True, s)"
| "allSetLogLevels ok l ((a, c) # cs) s =
     (let (r, s) = clientSetLogLevels (ok a) l c s in if r then allSetLogLevels ok l cs s else (False, s))"

definition mgSetLogLevels :: "(string \<Rightarrow> bool) \<Rightarrow> LoggingLevels \<Rightarrow> SessionServerAppManager \<Rightarrow> bool \<times> SessionServerAppManager" where
  "mgSetLogLevels ok logLevels s =
     (let s = s\<lparr>mg_logging := setLocalLogLevels logLevels (mg_logging s)\<rparr>
      in allSetLogLevels ok logLevels (mg_clients s) s)"

section \<open>The registry\<close>

definition onSessionServerStateChanged :: "string \<Rightarrow> SessionServerState \<Rightarrow> SessionServerAppManager \<Rightarrow> SessionServerAppManager" where
  "onSessionServerStateChanged appId newState s = s\<lparr>mg_events := mg_events s @ [(appId, newState)]\<rparr>"

definition onDisconnected :: "ManagerClient \<Rightarrow> SessionServerAppManager \<Rightarrow> SessionServerAppManager" where
  "onDisconnected c s = onSessionServerStateChanged (cl_appId c) SSS_NOT_RUNNING s"

definition onStateChangedEvent :: "PbSessionServerState \<Rightarrow> ManagerClient \<Rightarrow> SessionServerAppManager \<Rightarrow> SessionServerAppManager" where
  "onStateChangedEvent event c s = onSessionServerStateChanged (cl_appId c) (convertFromPbState event) s"

definition startupTimerExpired :: "string \<Rightarrow> SessionServerAppManager \<Rightarrow> SessionServerAppManager" where
  "startupTimerExpired appId s =
     (case map_of (mg_sessionServerApps s) appId of
        None \<Rightarrow> s
      | Some app \<Rightarrow>
          if sa_startupTimer app = Some True
          then tell (kill app) (onSessionServerStateChanged appId SSS_ERROR
                 (s\<lparr>mg_sessionServerApps := assign appId (app\<lparr>sa_startupTimer := Some False\<rparr>) (mg_sessionServerApps s)\<rparr>))
          else s)"

definition getAppConnectionInfo :: "string \<Rightarrow> SessionServerAppManager \<Rightarrow> string" where
  "getAppConnectionInfo appId s =
     (case map_of (mg_sessionServerApps s) appId of Some app \<Rightarrow> sa_sessionManagementSocketName app | None \<Rightarrow> [])"

definition removeSessionServer :: "string \<Rightarrow> bool \<Rightarrow> SessionServerAppManager \<Rightarrow> SessionServerAppManager" where
  "removeSessionServer appId killApp s =
     (case map_of (mg_sessionServerApps s) appId of
        None \<Rightarrow> s
      | Some app \<Rightarrow> tell ((if killApp then kill app else []) @ destroySessionServerApp app)
                     (s\<lparr>mg_sessionServerApps := erase appId (mg_sessionServerApps s)\<rparr>))"

definition isSessionServerLaunched :: "string \<Rightarrow> SessionServerAppManager \<Rightarrow> bool" where
  "isSessionServerLaunched appId s \<longleftrightarrow> map_of (mg_sessionServerApps s) appId \<noteq> None"

definition cancelSessionServerStartupTimer :: "string \<Rightarrow> SessionServerAppManager \<Rightarrow> SessionServerAppManager" where
  "cancelSessionServerStartupTimer appId s =
     (case map_of (mg_sessionServerApps s) appId of
        None \<Rightarrow> s
      | Some app \<Rightarrow> s\<lparr>mg_sessionServerApps := assign appId (cancelStartupTimer app) (mg_sessionServerApps s)\<rparr>)"

text \<open>An application that cannot be launched is destroyed at once.\<close>

definition launchSessionServer :: "LaunchEnv \<Rightarrow> string \<Rightarrow> SessionServerState \<Rightarrow> SessionServerAppManager \<Rightarrow> bool \<times> SessionServerAppManager" where
  "launchSessionServer e appId initialState s =
     (let (app, s) = newSessionServerApp appId initialState s;
          (ok, app, os) = launch e app;
          s = tell os s
      in if ok then (True, s\<lparr>mg_sessionServerApps := emplace appId app (mg_sessionServerApps s)\<rparr>)
         else (False, tell (destroySessionServerApp app) s))"

definition configureSessionServer :: "EnvVariableParser \<Rightarrow> bool \<Rightarrow> string \<Rightarrow> SessionServerAppManager \<Rightarrow> bool \<times> SessionServerAppManager" where
  "configureSessionServer p ok appId s =
     (case map_of (mg_sessionServerApps s) appId of
        None \<Rightarrow> (False, s)
      | Some app \<Rightarrow> performSetConfiguration p ok appId (sa_initialState app) (sa_sessionManagementSocketName app)
                     maxPlaybackSessions maxWebAudioPlayers s)"

definition changeSessionServerState :: "bool \<Rightarrow> string \<Rightarrow> SessionServerState \<Rightarrow> SessionServerAppManager \<Rightarrow> bool \<times> SessionServerAppManager" where
  "changeSessionServerState ok appId newState s = performSetState ok appId newState s"

definition getAppManagementSocketName :: "string \<Rightarrow> SessionServerAppManager \<Rightarrow> int" where
  "getAppManagementSocketName appId s =
     (case map_of (mg_sessionServerApps s) appId of Some app \<Rightarrow> snd (sa_socks app) | None \<Rightarrow> -1)"

definition addSessionServer :: "LaunchEnv \<Rightarrow> bool \<Rightarrow> string \<Rightarrow> SessionServerState \<Rightarrow> SessionServerAppManager \<Rightarrow> bool \<times> SessionServerAppManager" where
  "addSessionServer e channel appId initialState s =
     (let (ok, s) = launchSessionServer e appId initialState s in
      if \<not> ok then (False, s)
      else
        let (ok, s) = createClient channel appId (getAppManagementSocketName appId s) s
        in if \<not> ok then (False, removeSessionServer appId True s) else (True, s))"

definition setSessionServerState :: "LaunchEnv \<Rightarrow> bool \<Rightarrow> bool \<Rightarrow> string \<Rightarrow> SessionServerState \<Rightarrow> SessionServerAppManager \<Rightarrow>
    bool \<times> SessionServerAppManager" where
  "setSessionServerState e channel ok appId newState s =
     (let isLaunched = isSessionServerLaunched appId s in
      if newState \<noteq> SSS_NOT_RUNNING \<and> \<not> isLaunched then addSessionServer e channel appId newState s
      else if isLaunched then changeSessionServerState ok appId newState s
      else (False, s))"

text \<open>\<open>handleSessionServerStateChange\<close> calls itself once, with a state other than \<open>UNINITIALIZED\<close>; \<open>handleOther\<close> is what it
  does for those.\<close>

definition handleOther :: "string \<Rightarrow> SessionServerState \<Rightarrow> SessionServerAppManager \<Rightarrow> SessionServerAppManager" where
  "handleOther appId newState s =
     (let s = (if newState = SSS_ERROR \<or> newState = SSS_NOT_RUNNING then removeSessionServer appId False (removeClient appId s) else s)
      in if mg_stateObserver s then tell [MO_stateChanged appId newState] s else s)"

definition handleSessionServerStateChange :: "EnvVariableParser \<Rightarrow> bool \<Rightarrow> string \<Rightarrow> SessionServerState \<Rightarrow> SessionServerAppManager \<Rightarrow>
    SessionServerAppManager" where
  "handleSessionServerStateChange p ok appId newState s =
     (if SSS_UNINITIALIZED = newState then
        let s = cancelSessionServerStartupTimer appId s;
            (configured, s) = configureSessionServer p ok appId s
        in if \<not> configured then handleOther appId SSS_ERROR s
           else if mg_stateObserver s then tell [MO_stateChanged appId newState] s else s
      else handleOther appId newState s)"

text \<open>The event thread takes the first event.\<close>

definition handleEvent :: "EnvVariableParser \<Rightarrow> bool \<Rightarrow> SessionServerAppManager \<Rightarrow> SessionServerAppManager" where
  "handleEvent p ok s =
     (case mg_events s of
        [] \<Rightarrow> s
      | (appId, newState) # events \<Rightarrow> handleSessionServerStateChange p ok appId newState (s\<lparr>mg_events := events\<rparr>))"

definition shutdownAllSessionServers :: "SessionServerAppManager \<Rightarrow> SessionServerAppManager" where
  "shutdownAllSessionServers s =
     tell (concat (map (kill \<circ> snd) (mg_sessionServerApps s)) @ concat (map (destroySessionServerApp \<circ> snd) (mg_sessionServerApps s)))
       (s\<lparr>mg_sessionServerApps := []\<rparr>)"

section \<open>What can happen\<close>

inductive manager_step :: "EnvVariableParser \<Rightarrow> SessionServerAppManager \<Rightarrow> SessionServerAppManager \<Rightarrow> bool" for p where
  request: "la_pid e = -1 \<or> 0 < la_pid e \<Longrightarrow> manager_step p s (snd (setSessionServerState e channel ok appId st s))"
| levels: "manager_step p s (snd (mgSetLogLevels oks l s))"
| timer: "manager_step p s (startupTimerExpired appId s)"
| event: "map_of (mg_clients s) appId = Some c \<Longrightarrow> manager_step p s (onStateChangedEvent ev c s)"
| disconnect: "map_of (mg_clients s) appId = Some c \<Longrightarrow> manager_step p s (onDisconnected c s)"
| handle: "manager_step p s (handleEvent p ok s)"

section \<open>Invariant\<close>

text \<open>Socket names are numbers after a prefix, so different numbers give different names.\<close>

lemma decimal_snoc: "decimal (xs @ [c]) = decimal xs * 10 + (of_char c - 48)"
  by (simp add: decimal_def)

lemma decimal_to_string: "decimal (to_string n) = n"
proof (induction n rule: to_string.induct)
  case (1 n)
  show ?case
  proof (cases "n < 10")
    case True
    then show ?thesis by (subst to_string.simps) (simp add: decimal_def)
  next
    case False
    then have "decimal (to_string n) = decimal (to_string (n div 10) @ [char_of (48 + n mod 10)])"
      by (subst to_string.simps) simp
    then show ?thesis using False 1 by (simp add: decimal_snoc)
  qed
qed

lemma to_string_inj [simp]: "to_string m = to_string n \<longleftrightarrow> m = n"
  by (metis decimal_to_string)

lemma sessionSocketName_inj [simp]: "sessionSocketName m = sessionSocketName n \<longleftrightarrow> m = n"
  by (simp add: sessionSocketName_def)

definition spawned :: "ManagerOut list \<Rightarrow> int list" where
  "spawned os = concat (map (\<lambda>x. case x of MO_spawn pid \<Rightarrow> [pid] | _ \<Rightarrow> []) os)"

definition reaped :: "ManagerOut list \<Rightarrow> int list" where
  "reaped os = concat (map (\<lambda>x. case x of MO_waitpid pid \<Rightarrow> [pid] | _ \<Rightarrow> []) os)"

lemmas process_defs = spawned_def reaped_def

definition pids :: "SessionServerAppManager \<Rightarrow> int multiset" where
  "pids s = mset (map (sa_pid \<circ> snd) (mg_sessionServerApps s))"

definition app_ok :: "nat \<Rightarrow> string \<Rightarrow> SessionServerApp \<Rightarrow> bool" where
  "app_ok n a app \<longleftrightarrow> sa_appId app = a \<and> fst (sa_socks app) = -1 \<and> 0 < sa_pid app \<and>
     (\<exists>k < n. sa_sessionManagementSocketName app = sessionSocketName k)"

lemma app_ok_Suc: "app_ok n a app \<Longrightarrow> app_ok (Suc n) a app"
  by (auto simp: app_ok_def dest: less_SucI)

definition registry_ok :: "SessionServerAppManager \<Rightarrow> bool" where
  "registry_ok s \<longleftrightarrow> std_map (mg_sessionServerApps s) \<and> std_map (mg_clients s) \<and>
     (\<forall>a app. map_of (mg_sessionServerApps s) a = Some app \<longrightarrow> app_ok (mg_sessionNum s) a app) \<and>
     (\<forall>a c. map_of (mg_clients s) a = Some c \<longrightarrow> cl_appId c = a \<and> cl_ipcLoop c) \<and>
     inj_on (\<lambda>a. sa_sessionManagementSocketName (the (map_of (mg_sessionServerApps s) a))) (dom (map_of (mg_sessionServerApps s)))"

lemma registry_app: "registry_ok s \<Longrightarrow> map_of (mg_sessionServerApps s) a = Some app \<Longrightarrow> app_ok (mg_sessionNum s) a app"
  by (simp add: registry_ok_def)

definition clients_agree :: "SessionServerAppManager \<Rightarrow> bool" where
  "clients_agree s \<longleftrightarrow> dom (map_of (mg_clients s)) = dom (map_of (mg_sessionServerApps s))"

definition processes_ok :: "SessionServerAppManager \<Rightarrow> bool" where
  "processes_ok s \<longleftrightarrow> mset (spawned (mg_out s)) = mset (reaped (mg_out s)) + pids s"

definition manager_inv :: "SessionServerAppManager \<Rightarrow> bool" where
  "manager_inv s \<longleftrightarrow> registry_ok s \<and> clients_agree s \<and> processes_ok s"

lemma mset_erase:
  "std_map xs \<Longrightarrow> map_of xs k = Some v \<Longrightarrow> mset (map (f \<circ> snd) xs) = add_mset (f v) (mset (map (f \<circ> snd) (erase k xs)))"
proof (induction xs)
  case (Cons x xs)
  have ok: "std_map xs" using Cons.prems(1) by (simp add: std_map_def)
  show ?case
  proof (cases "fst x = k")
    case True
    then have "erase k xs = xs" using Cons.prems(1) by (auto simp: std_map_def intro: erase_absent)
    then show ?thesis using True Cons.prems(2) by (cases x) (simp add: erase_def)
  next
    case False
    then have "map_of xs k = Some v" using Cons.prems(2) by (cases x) simp
    with Cons.IH [OF ok this] False show ?thesis by (simp add: erase_def)
  qed
qed simp

lemma map_assign_same:
  assumes "map_of xs k = Some v" and "std_map xs" and "f v' = f v"
  shows "map (f \<circ> snd) (assign k v' xs) = map (f \<circ> snd) xs"
proof -
  have "(f \<circ> snd) (if fst x = k then (k, v') else x) = (f \<circ> snd) x" if "x \<in> set xs" for x
  proof -
    have "map_of xs (fst x) = Some (snd x)" using that assms(2) by (simp add: std_map_def)
    then show ?thesis using assms(1,3) by auto
  qed
  then show ?thesis by (simp add: assign_def)
qed

lemma tell_simps [simp]:
  "mg_sessionServerApps (tell os s) = mg_sessionServerApps s" "mg_clients (tell os s) = mg_clients s" "mg_events (tell os s) = mg_events s"
  "mg_stateObserver (tell os s) = mg_stateObserver s" "mg_sessionNum (tell os s) = mg_sessionNum s" "mg_logging (tell os s) = mg_logging s"
  "mg_out (tell os s) = mg_out s @ os" "pids (tell os s) = pids s" "registry_ok (tell os s) = registry_ok s" "clients_agree (tell os s) = clients_agree s"
  "registry_ok (tell os s\<lparr>mg_sessionServerApps := x\<rparr>) = registry_ok (s\<lparr>mg_sessionServerApps := x\<rparr>)"
  by (simp_all add: tell_def pids_def registry_ok_def clients_agree_def)

lemma process_simps [simp]:
  "spawned (os @ os') = spawned os @ spawned os'" "reaped (os @ os') = reaped os @ reaped os'" "spawned [] = []" "reaped [] = []"
  "spawned (x # os) = (case x of MO_spawn pid \<Rightarrow> [pid] | _ \<Rightarrow> []) @ spawned os"
  "reaped (x # os) = (case x of MO_waitpid pid \<Rightarrow> [pid] | _ \<Rightarrow> []) @ reaped os"
  by (simp_all add: process_defs)

lemma app_outputs:
  "spawned (kill app) = []" "reaped (kill app) = []" "spawned (destroySessionServerApp app) = []"
  "reaped (destroySessionServerApp app) = (if sa_pid app \<noteq> -1 then [sa_pid app] else [])"
  by (simp_all add: kill_def destroySessionServerApp_def)

lemma manager_inv_tell: "manager_inv s \<Longrightarrow> spawned os = [] \<Longrightarrow> reaped os = [] \<Longrightarrow> manager_inv (tell os s)"
  by (simp add: manager_inv_def processes_ok_def)

lemma manager_inv_events [simp]: "manager_inv (s\<lparr>mg_events := q\<rparr>) = manager_inv s" "manager_inv (s\<lparr>mg_logging := g\<rparr>) = manager_inv s"
  by (simp_all add: manager_inv_def registry_ok_def clients_agree_def processes_ok_def pids_def)

text \<open>A change of an application that keeps its identity.\<close>

lemma manager_inv_assign:
  assumes "manager_inv s" and "map_of (mg_sessionServerApps s) a = Some app"
    and "sa_appId app' = sa_appId app" "sa_socks app' = sa_socks app" "sa_pid app' = sa_pid app"
      "sa_sessionManagementSocketName app' = sa_sessionManagementSocketName app"
  shows "manager_inv (s\<lparr>mg_sessionServerApps := assign a app' (mg_sessionServerApps s)\<rparr>)"
proof -
  have std: "std_map (mg_sessionServerApps s)" using assms(1) by (simp add: manager_inv_def registry_ok_def)
  have "pids (s\<lparr>mg_sessionServerApps := assign a app' (mg_sessionServerApps s)\<rparr>) = pids s"
    using map_assign_same [OF assms(2) std, of sa_pid app'] assms(5) by (simp add: pids_def)
  moreover have "dom (map_of (assign a app' (mg_sessionServerApps s))) = dom (map_of (mg_sessionServerApps s))"
    using assms(2) by (auto simp: map_of_assign dom_def)
  moreover have "inj_on (\<lambda>b. sa_sessionManagementSocketName (the (map_of (assign a app' (mg_sessionServerApps s)) b)))
      (dom (map_of (mg_sessionServerApps s)))"
    by (rule inj_on_cong [THEN iffD1, of _ "\<lambda>b. sa_sessionManagementSocketName (the (map_of (mg_sessionServerApps s) b))"])
      (use assms in \<open>auto simp: map_of_assign manager_inv_def registry_ok_def\<close>)
  ultimately show ?thesis
    using assms by (auto simp: manager_inv_def registry_ok_def clients_agree_def processes_ok_def std_map_assign map_of_assign app_ok_def)
qed

text \<open>Removing an application and its client reaps the process.\<close>

lemma manager_inv_remove:
  assumes "registry_ok s" and "processes_ok s" and "dom (map_of (mg_clients s)) - {a} = dom (map_of (mg_sessionServerApps s)) - {a}"
    and "map_of (mg_clients s) a = None"
  shows "manager_inv (removeSessionServer a killApp s)"
proof (cases "map_of (mg_sessionServerApps s) a")
  case None
  then show ?thesis using assms by (auto simp: removeSessionServer_def manager_inv_def clients_agree_def)
next
  case (Some app)
  have std: "std_map (mg_sessionServerApps s)" and ok: "0 < sa_pid app" using assms(1) Some by (auto simp: registry_ok_def app_ok_def)
  let ?s = "s\<lparr>mg_sessionServerApps := erase a (mg_sessionServerApps s)\<rparr>"
  have "pids s = add_mset (sa_pid app) (pids ?s)" using mset_erase [OF std Some, of sa_pid] by (simp add: pids_def)
  then have "processes_ok (removeSessionServer a killApp s)"
    using assms(2) Some ok by (auto simp: processes_ok_def removeSessionServer_def app_outputs pids_def)
  moreover have "registry_ok ?s"
    using assms(1) by (auto simp: registry_ok_def std_map_erase inj_on_def split: if_splits)
  ultimately show ?thesis
    using assms(3,4) Some by (auto simp: manager_inv_def removeSessionServer_def clients_agree_def dom_def)
qed

text \<open>Adding an application.\<close>

lemma launch_result:
  assumes "launch e app = (ok, app', os)" and "sa_pid app = -1" and "la_pid e = -1 \<or> 0 < la_pid e" and "fst (sa_socks app) = -1"
  shows "sa_appId app' = sa_appId app \<and> fst (sa_socks app') = -1 \<and> sa_pid app' = (if ok then la_pid e else -1) \<and> (ok \<longrightarrow> 0 < la_pid e) \<and>
    sa_sessionManagementSocketName app' = sa_sessionManagementSocketName app \<and> spawned os = (if ok then [la_pid e] else []) \<and> reaped os = []"
  using assms
  by (auto simp: launch_def initializeSockets_def setupStartupTimer_def spawnSessionServer_def Let_def case_prod_beta
      split: option.splits if_splits)

lemma add_app_registry:
  assumes "registry_ok s" and "map_of (mg_sessionServerApps s) a = None" and "app_ok (Suc (mg_sessionNum s)) a app"
    and "sa_sessionManagementSocketName app = sessionSocketName (mg_sessionNum s)"
  shows "registry_ok (s\<lparr>mg_sessionNum := Suc (mg_sessionNum s), mg_sessionServerApps := emplace a app (mg_sessionServerApps s)\<rparr>)"
proof -
  have fresh: "sa_sessionManagementSocketName x \<noteq> sa_sessionManagementSocketName app" if x: "map_of (mg_sessionServerApps s) b = Some x" for b x
  proof -
    obtain k where "k < mg_sessionNum s" "sa_sessionManagementSocketName x = sessionSocketName k"
      using registry_app [OF assms(1) x] by (auto simp: app_ok_def)
    then show ?thesis using assms(4) by simp
  qed
  have "inj_on (\<lambda>b. sa_sessionManagementSocketName (the (((map_of (mg_sessionServerApps s))(a \<mapsto> app)) b)))
      (insert a (dom (map_of (mg_sessionServerApps s))))"
    using assms(1,2) fresh unfolding registry_ok_def inj_on_def by (auto simp: dom_def) (metis option.sel)+
  then show ?thesis
    using assms by (simp add: registry_ok_def std_map_emplace app_ok_Suc del: inj_on_insert)
qed

lemma addSessionServer_inv:
  assumes "manager_inv s" and "\<not> isSessionServerLaunched a s" and "la_pid e = -1 \<or> 0 < la_pid e"
  shows "manager_inv (snd (addSessionServer e ch a st s))"
proof -
  have new: "map_of (mg_sessionServerApps s) a = None" "map_of (mg_clients s) a = None"
    using assms(1,2) by (auto simp: isSessionServerLaunched_def manager_inv_def clients_agree_def)
  let ?app = "\<lparr>sa_appId = a, sa_initialState = st, sa_sessionManagementSocketName = sessionSocketName (mg_sessionNum s),
      sa_socks = (-1, -1), sa_pid = -1, sa_startupTimer = None\<rparr>"
  obtain ok app os where l: "launch e ?app = (ok, app, os)" by (metis surj_pair)
  note app = launch_result [OF l _ assms(3)]
  let ?n = "s\<lparr>mg_sessionNum := Suc (mg_sessionNum s)\<rparr>"
  have num: "manager_inv ?n"
    using assms(1) app_ok_Suc unfolding manager_inv_def registry_ok_def clients_agree_def processes_ok_def pids_def by simp
  have launched: "launchSessionServer e a st s = (if ok then (True, tell os ?n\<lparr>mg_sessionServerApps := emplace a app (mg_sessionServerApps s)\<rparr>)
      else (False, tell (destroySessionServerApp app) (tell os ?n)))"
    using l by (simp add: launchSessionServer_def newSessionServerApp_def generateSessionManagementSocket_def tell_def Let_def)
  show ?thesis
  proof (cases ok)
    case False
    then have "snd (addSessionServer e ch a st s) = tell (destroySessionServerApp app) (tell os ?n)"
      by (simp add: addSessionServer_def launched)
    moreover have "manager_inv (tell (destroySessionServerApp app) (tell os ?n))"
      using num app False by (intro manager_inv_tell) (simp_all add: app_outputs)
    ultimately show ?thesis by simp
  next
    case True
    let ?t = "tell os ?n\<lparr>mg_sessionServerApps := emplace a app (mg_sessionServerApps s)\<rparr>"
    have reg: "registry_ok ?t"
    proof -
      have "app_ok (Suc (mg_sessionNum s)) a app" using app True by (auto simp: app_ok_def)
      from add_app_registry [OF _ new(1) this] show ?thesis using assms(1) app by (simp add: manager_inv_def)
    qed
    have "pids ?t = add_mset (la_pid e) (pids s)"
      using new(1) app True by (simp add: pids_def emplace_def)
    then have proc: "processes_ok ?t"
      using assms(1) app True by (simp add: processes_ok_def manager_inv_def)
    show ?thesis
    proof (cases ch)
      case ch: True
      let ?c = "\<lparr>cl_appId = a, cl_socket = getAppManagementSocketName a ?t, cl_ipcLoop = True\<rparr>"
      have eq: "snd (addSessionServer e ch a st s) = ?t\<lparr>mg_clients := emplace a ?c (mg_clients s)\<rparr>"
        using True ch new by (simp add: addSessionServer_def launched createClient_def)
      have "clients_agree (?t\<lparr>mg_clients := emplace a ?c (mg_clients s)\<rparr>)"
        using assms(1) new by (simp add: clients_agree_def manager_inv_def)
      moreover have "registry_ok (?t\<lparr>mg_clients := emplace a ?c (mg_clients s)\<rparr>)"
        using reg new by (auto simp: registry_ok_def std_map_emplace)
      ultimately show ?thesis unfolding eq using proc by (simp add: manager_inv_def processes_ok_def pids_def)
    next
      case False
      have eq: "snd (addSessionServer e ch a st s) = removeSessionServer a True ?t"
        using True False by (simp add: addSessionServer_def launched createClient_def)
      show ?thesis
        unfolding eq using reg proc assms(1) new by (intro manager_inv_remove) (auto simp: manager_inv_def clients_agree_def)
    qed
  qed
qed

lemma setSessionServerState_inv:
  assumes "manager_inv s" and "la_pid e = -1 \<or> 0 < la_pid e"
  shows "manager_inv (snd (setSessionServerState e ch ok a st s))"
  using assms addSessionServer_inv [OF assms(1) _ assms(2)]
  by (auto simp: setSessionServerState_def Let_def changeSessionServerState_def performSetState_def clientSetState_def
      intro!: manager_inv_tell split: option.split)

lemma handleOther_inv:
  assumes "manager_inv s"
  shows "manager_inv (handleOther a st s)"
proof -
  have "manager_inv (removeSessionServer a False (removeClient a s))"
    using assms
    by (intro manager_inv_remove)
      (auto simp: manager_inv_def registry_ok_def clients_agree_def processes_ok_def removeClient_def pids_def std_map_erase split: if_splits)
  then show ?thesis using assms by (auto simp: handleOther_def Let_def intro!: manager_inv_tell)
qed

lemma performSetConfiguration_inv: "manager_inv s \<Longrightarrow> manager_inv (snd (performSetConfiguration p ok a st n x y s))"
  by (auto simp: performSetConfiguration_def clientSetConfiguration_def Let_def case_prod_beta intro!: manager_inv_tell split: option.split)

lemma cancel_inv: "manager_inv s \<Longrightarrow> manager_inv (cancelSessionServerStartupTimer a s)"
  by (auto simp: cancelSessionServerStartupTimer_def cancelStartupTimer_def intro!: manager_inv_assign split: option.split)

lemma handle_inv: "manager_inv s \<Longrightarrow> manager_inv (handleSessionServerStateChange p ok a st s)"
  using handleOther_inv cancel_inv [of s a] performSetConfiguration_inv
  by (auto simp: handleSessionServerStateChange_def configureSessionServer_def Let_def case_prod_beta intro!: manager_inv_tell
      split: option.split)

lemma levels_inv: "manager_inv s \<Longrightarrow> manager_inv (snd (allSetLogLevels oks l cs s))"
proof (induction cs arbitrary: s)
  case (Cons x cs)
  have "manager_inv (snd (clientSetLogLevels ok l c s))" for ok c
    using Cons.prems by (simp add: clientSetLogLevels_def manager_inv_tell)
  then show ?case using Cons.IH by (cases x) (simp add: Let_def case_prod_beta)
qed simp

lemma timer_inv: "manager_inv s \<Longrightarrow> manager_inv (startupTimerExpired a s)"
  by (auto simp: startupTimerExpired_def onSessionServerStateChanged_def app_outputs
      intro!: manager_inv_tell manager_inv_assign split: option.split)

lemma manager_step_inv: "manager_step p s s' \<Longrightarrow> manager_inv s \<Longrightarrow> manager_inv s'"
  by (induction rule: manager_step.induct)
    (auto simp: setSessionServerState_inv mgSetLogLevels_def Let_def levels_inv timer_inv onStateChangedEvent_def onDisconnected_def
      onSessionServerStateChanged_def handleEvent_def intro!: handle_inv split: list.split)

lemma manager_steps_inv: "(manager_step p)\<^sup>*\<^sup>* s s' \<Longrightarrow> manager_inv s \<Longrightarrow> manager_inv s'"
  by (induction rule: rtranclp_induct) (auto intro: manager_step_inv)

lemma newManager_inv: "manager_inv (newSessionServerAppManager observer)"
  by (simp add: newSessionServerAppManager_def manager_inv_def registry_ok_def clients_agree_def processes_ok_def pids_def)

section \<open>Properties\<close>

text \<open>C19. The registry and the connections agree: in every state the server manager reaches, exactly the applications with a
  session server process have a connection to it, and no two session servers have the same socket for their clients.\<close>

theorem manager_registry:
  assumes "(manager_step p)\<^sup>*\<^sup>* (newSessionServerAppManager observer) s"
  shows "(map_of (mg_clients s) a \<noteq> None \<longleftrightarrow> isSessionServerLaunched a s) \<and>
    (isSessionServerLaunched a s \<and> isSessionServerLaunched b s \<and> a \<noteq> b \<longrightarrow> getAppConnectionInfo a s \<noteq> getAppConnectionInfo b s)"
proof -
  have "manager_inv s" by (rule manager_steps_inv [OF assms newManager_inv])
  then have "dom (map_of (mg_clients s)) = dom (map_of (mg_sessionServerApps s))"
    and inj: "inj_on (\<lambda>a. sa_sessionManagementSocketName (the (map_of (mg_sessionServerApps s) a))) (dom (map_of (mg_sessionServerApps s)))"
    by (simp_all add: manager_inv_def clients_agree_def registry_ok_def)
  then have "map_of (mg_clients s) a \<noteq> None \<longleftrightarrow> isSessionServerLaunched a s"
    unfolding isSessionServerLaunched_def by (metis domIff)
  moreover have "getAppConnectionInfo a s \<noteq> getAppConnectionInfo b s"
    if "isSessionServerLaunched a s" "isSessionServerLaunched b s" "a \<noteq> b"
    using that inj_onD [OF inj, of a b] by (auto simp: isSessionServerLaunched_def getAppConnectionInfo_def dom_def)
  ultimately show ?thesis by blast
qed

lemma shutdown_outputs:
  "spawned (concat (map (kill \<circ> snd) xs) @ concat (map (destroySessionServerApp \<circ> snd) xs)) = []"
  "reaped (concat (map (kill \<circ> snd) xs)) = []"
  "(\<And>x. x \<in> set xs \<Longrightarrow> sa_pid (snd x) \<noteq> -1) \<Longrightarrow> reaped (concat (map (destroySessionServerApp \<circ> snd) xs)) = map (sa_pid \<circ> snd) xs"
proof -
  show "reaped (concat (map (kill \<circ> snd) xs)) = []" by (induction xs) (simp_all add: app_outputs)
  have "spawned (concat (map (kill \<circ> snd) xs)) = []" "spawned (concat (map (destroySessionServerApp \<circ> snd) xs)) = []"
    by (induction xs) (simp_all add: app_outputs)
  then show "spawned (concat (map (kill \<circ> snd) xs) @ concat (map (destroySessionServerApp \<circ> snd) xs)) = []" by simp
  show "(\<And>x. x \<in> set xs \<Longrightarrow> sa_pid (snd x) \<noteq> -1) \<Longrightarrow> reaped (concat (map (destroySessionServerApp \<circ> snd) xs)) = map (sa_pid \<circ> snd) xs"
    by (induction xs) (simp_all add: app_outputs)
qed

text \<open>No process is left behind: when the server manager shuts down, every process it ever started has been waited for
  exactly as often as it was started, and those that were still registered have been killed first.\<close>

theorem children_reaped:
  assumes "(manager_step p)\<^sup>*\<^sup>* (newSessionServerAppManager observer) s" and "s' = shutdownAllSessionServers s"
  shows "mset (spawned (mg_out s')) = mset (reaped (mg_out s')) \<and>
    (\<forall>(a, app) \<in> set (mg_sessionServerApps s). MO_kill (sa_pid app) \<in> set (drop (length (mg_out s)) (mg_out s')))"
proof -
  let ?xs = "mg_sessionServerApps s"
  have inv: "manager_inv s" by (rule manager_steps_inv [OF assms(1) newManager_inv])
  have pid: "0 < sa_pid (snd x)" if "x \<in> set ?xs" for x
    using inv that by (cases x) (auto simp: manager_inv_def registry_ok_def app_ok_def std_map_def)
  then have "reaped (concat (map (destroySessionServerApp \<circ> snd) ?xs)) = map (sa_pid \<circ> snd) ?xs"
    by (intro shutdown_outputs(3)) fastforce
  then have "mset (spawned (mg_out s')) = mset (reaped (mg_out s'))"
    using inv shutdown_outputs(1) [of ?xs] shutdown_outputs(2) [of ?xs]
    by (simp add: assms(2) shutdownAllSessionServers_def manager_inv_def processes_ok_def pids_def)
  moreover have "MO_kill (sa_pid app) \<in> set (concat (map (kill \<circ> snd) ?xs))" if "(a, app) \<in> set ?xs" for a app
  proof -
    have "MO_kill (sa_pid app) \<in> set ((kill \<circ> snd) (a, app))" using pid [OF that] by (simp add: kill_def)
    with that show ?thesis unfolding set_concat set_map by blast
  qed
  ultimately show ?thesis by (fastforce simp: assms(2) shutdownAllSessionServers_def)
qed

text \<open>The startup protocol: when a launched session server reports that it waits for its configuration, the startup timer
  is stopped and the server is sent the initial state it was launched for, the socket for its clients and the limits; if
  that fails, the application is removed, its process waited for, and the observer told of an error.\<close>

theorem startup_protocol:
  assumes "(manager_step p)\<^sup>*\<^sup>* (newSessionServerAppManager observer) s" and "mg_events s = (a, SSS_UNINITIALIZED) # q"
    and "map_of (mg_sessionServerApps s) a = Some app" and "s' = handleEvent p ok s"
  shows "\<exists>levels. mg_out s' = mg_out s @ MO_setConfiguration a (convertToPbState (sa_initialState app)) (getAppConnectionInfo a s) 2 1 levels #
      (if ok then [] else [MO_waitpid (sa_pid app)]) @
      (if mg_stateObserver s then [MO_stateChanged a (if ok then SSS_UNINITIALIZED else SSS_ERROR)] else []) \<and>
    map_of (mg_sessionServerApps s') a = (if ok then Some (cancelStartupTimer app) else None)"
proof -
  have inv: "manager_inv s" by (rule manager_steps_inv [OF assms(1) newManager_inv])
  let ?s = "s\<lparr>mg_events := q, mg_sessionServerApps := assign a (cancelStartupTimer app) (mg_sessionServerApps s)\<rparr>"
  have app: "0 < sa_pid app" "fst (sa_socks app) = -1" using registry_app [OF _ assms(3)] inv by (auto simp: manager_inv_def app_ok_def)
  have app': "map_of (mg_sessionServerApps ?s) a = Some (cancelStartupTimer app)" using assms(3) by (simp add: map_of_assign)
  obtain c where c: "map_of (mg_clients s) a = Some c" "cl_appId c = a" "cl_ipcLoop c"
    using inv assms(3) by (fastforce simp: manager_inv_def clients_agree_def registry_ok_def)
  obtain levels g where l: "getCurrentLogLevels p (mg_logging s) = (levels, g)" by (metis surj_pair)
  let ?o = "MO_setConfiguration a (convertToPbState (sa_initialState app)) (getAppConnectionInfo a s) 2 1 levels"
  have fields: "sa_initialState (cancelStartupTimer app) = sa_initialState app" "sa_pid (cancelStartupTimer app) = sa_pid app"
    "sa_sessionManagementSocketName (cancelStartupTimer app) = getAppConnectionInfo a s" "sa_socks (cancelStartupTimer app) = sa_socks app"
    using assms(3) by (simp_all add: cancelStartupTimer_def getAppConnectionInfo_def)
  have conf: "configureSessionServer p ok a ?s = (ok, tell [?o] (?s\<lparr>mg_logging := g\<rparr>))"
    using c l fields app'
    by (simp add: configureSessionServer_def performSetConfiguration_def clientSetConfiguration_def maxPlaybackSessions_def
        maxWebAudioPlayers_def)
  have "s' = (if ok then (if mg_stateObserver s then tell [MO_stateChanged a SSS_UNINITIALIZED] else id) (tell [?o] (?s\<lparr>mg_logging := g\<rparr>))
      else handleOther a SSS_ERROR (tell [?o] (?s\<lparr>mg_logging := g\<rparr>)))"
    using assms(2-4) conf by (simp add: handleEvent_def handleSessionServerStateChange_def cancelSessionServerStartupTimer_def Let_def)
  then show ?thesis
    using app app' fields
    by (intro exI [of _ levels])
      (auto simp: handleOther_def removeClient_def removeSessionServer_def destroySessionServerApp_def Let_def)
qed

text \<open>An event that outlives its process hits the next one: when an application is launched again while an event that its
  last process ended is still queued, handling that event removes the new application and waits for its process, which
  has not been told to stop.\<close>

theorem stale_event_removes_new_server:
  assumes "(manager_step p)\<^sup>*\<^sup>* (newSessionServerAppManager observer) s" and "mg_events s = [(a, SSS_NOT_RUNNING)]"
    and "\<not> isSessionServerLaunched a s" and "st \<noteq> SSS_NOT_RUNNING" and "0 < la_pid e"
    and "setSessionServerState e True ok a st s = (True, s1)" and "s2 = handleEvent p ok' s1"
  shows "isSessionServerLaunched a s1 \<and> \<not> isSessionServerLaunched a s2 \<and>
    MO_waitpid (la_pid e) \<in> set (drop (length (mg_out s)) (mg_out s2)) \<and> MO_kill (la_pid e) \<notin> set (drop (length (mg_out s)) (mg_out s2))"
proof -
  have inv: "manager_inv s" by (rule manager_steps_inv [OF assms(1) newManager_inv])
  have new: "map_of (mg_sessionServerApps s) a = None" "map_of (mg_clients s) a = None"
    using assms(3) inv by (auto simp: isSessionServerLaunched_def manager_inv_def clients_agree_def)
  have add: "addSessionServer e True a st s = (True, s1)"
    using assms(3,4,6) by (simp add: setSessionServerState_def Let_def)
  let ?app = "\<lparr>sa_appId = a, sa_initialState = st, sa_sessionManagementSocketName = sessionSocketName (mg_sessionNum s),
      sa_socks = (-1, -1), sa_pid = -1, sa_startupTimer = None\<rparr>"
  obtain l app os where l: "launch e ?app = (l, app, os)" by (metis surj_pair)
  have kills: "MO_kill x \<notin> set os" for x
    using l by (auto simp: launch_def initializeSockets_def spawnSessionServer_def Let_def split: option.splits if_splits)
  have "l" using add l
    by (auto simp: addSessionServer_def launchSessionServer_def newSessionServerApp_def generateSessionManagementSocket_def Let_def split: if_splits)
  then have app: "sa_pid app = la_pid e" "fst (sa_socks app) = -1" using launch_result [OF l] assms(5) by auto
  have apps: "map_of (mg_sessionServerApps s1) a = Some app" "mg_out s1 = mg_out s @ os" "mg_events s1 = mg_events s"
    using add l \<open>l\<close> new
    by (auto simp: addSessionServer_def launchSessionServer_def newSessionServerApp_def generateSessionManagementSocket_def createClient_def
        Let_def split: if_splits)
  have "s2 = handleOther a SSS_NOT_RUNNING (s1\<lparr>mg_events := []\<rparr>)"
    using assms(2,7) apps(3) by (simp add: handleEvent_def handleSessionServerStateChange_def)
  then have "map_of (mg_sessionServerApps s2) a = None" "mg_out s2 = mg_out s1 @ MO_waitpid (la_pid e) #
      (if mg_stateObserver s1 then [MO_stateChanged a SSS_NOT_RUNNING] else [])"
    using apps app assms(5) by (auto simp: handleOther_def removeClient_def removeSessionServer_def destroySessionServerApp_def Let_def)
  then show ?thesis using apps kills by (auto simp: isSessionServerLaunched_def)
qed

text \<open>A level that is to stay as it is does not: the server manager leaves the level of its own process alone, but the
  session server that gets the request falls back to the level of its environment, whatever was set before.\<close>

theorem unchanged_level_is_reset:
  assumes "lv_sessionServer l = LL_UNCHANGED"
  shows "lg_levels (setLocalLogLevels l g) RC_SERVER = lg_levels g RC_SERVER \<and>
    fst (getLogLevels p RC_SERVER (sm_logging (snd (rpcSetLogLevels (convertLoggingLevels l) s)))) = getLevel p RC_SERVER"
  using assms
  by (simp add: setLocalLogLevels_def setLocalLevel_def setLogLevels_def Let_def rpcSetLogLevels_def logLevelsOfRequest_def
      smSetLogLevels_def convertLoggingLevels_def optionalLevel_def field_def getLogLevels_def initLogLevel_def)

section \<open>Witnesses\<close>

definition demo_launch :: "int \<Rightarrow> LaunchEnv" where
  "demo_launch pid = \<lparr>la_socketpair = Some (7, 8), la_timeout = 500, la_pid = pid, la_dup = 9\<rparr>"

definition demo_parser :: EnvVariableParser where
  "demo_parser = \<lparr>ev_debugLevels = [], ev_logToConsole = False\<rparr>"

definition demo_manager :: "SessionServerAppManager" where
  "demo_manager = snd (setSessionServerState (demo_launch 100) True True ''tv'' SSS_ACTIVE (newSessionServerAppManager True))"

lemma demo_manager_eq:
  "demo_manager = \<lparr>mg_sessionServerApps = [(''tv'', \<lparr>sa_appId = ''tv'', sa_initialState = SSS_ACTIVE,
       sa_sessionManagementSocketName = sessionSocketName 0, sa_socks = (-1, 8), sa_pid = 100, sa_startupTimer = Some True\<rparr>)],
     mg_clients = [(''tv'', \<lparr>cl_appId = ''tv'', cl_socket = 8, cl_ipcLoop = True\<rparr>)], mg_events = [], mg_stateObserver = True,
     mg_sessionNum = 1, mg_logging = newRialtoLogging, mg_out = [MO_spawn 100, MO_close 9]\<rparr>"
  by (simp add: demo_manager_def newSessionServerAppManager_def setSessionServerState_def isSessionServerLaunched_def addSessionServer_def
      launchSessionServer_def newSessionServerApp_def generateSessionManagementSocket_def launch_def initializeSockets_def
      setupStartupTimer_def spawnSessionServer_def demo_launch_def createClient_def getAppManagementSocketName_def tell_def emplace_def Let_def)

lemma demo_manager_run: "(manager_step demo_parser)\<^sup>*\<^sup>* (newSessionServerAppManager True) demo_manager"
  unfolding demo_manager_def by (rule r_into_rtranclp, rule request) (simp add: demo_launch_def)

theorem manager_registry_witness:
  "map_of (mg_clients demo_manager) ''tv'' \<noteq> None \<longleftrightarrow> isSessionServerLaunched ''tv'' demo_manager"
  using manager_registry [OF demo_manager_run, of "''tv''"] by blast

theorem children_reaped_witness:
  "MO_kill 100 \<in> set (drop 2 (mg_out (shutdownAllSessionServers demo_manager)))"
  using children_reaped [OF demo_manager_run refl] by (simp add: demo_manager_eq numeral_2_eq_2)

abbreviation demo_client :: ManagerClient where
  "demo_client \<equiv> \<lparr>cl_appId = ''tv'', cl_socket = 8, cl_ipcLoop = True\<rparr>"

theorem startup_protocol_witness:
  "\<exists>levels. MO_setConfiguration ''tv'' PB_ACTIVE (sessionSocketName 0) 2 1 levels \<in>
     set (mg_out (handleEvent demo_parser True (onStateChangedEvent PB_UNINITIALIZED demo_client demo_manager)))"
proof -
  let ?s = "onStateChangedEvent PB_UNINITIALIZED demo_client demo_manager"
  have "(manager_step demo_parser)\<^sup>*\<^sup>* (newSessionServerAppManager True) ?s"
    by (rule rtranclp.rtrancl_into_rtrancl [OF demo_manager_run], rule event [of _ "''tv''"]) (simp add: demo_manager_eq)
  from startup_protocol [OF this _ _ refl, of "''tv''" "[]" _ True] show ?thesis
    by (auto simp: demo_manager_eq onStateChangedEvent_def onSessionServerStateChanged_def getAppConnectionInfo_def)
qed

text \<open>A process reports that it ends and then disconnects; after the first of the two events is handled, the application is
  launched again.\<close>

definition demo_ended :: SessionServerAppManager where
  "demo_ended = handleEvent demo_parser True (onDisconnected demo_client (onStateChangedEvent PB_NOT_RUNNING demo_client demo_manager))"

lemma demo_ended_run: "(manager_step demo_parser)\<^sup>*\<^sup>* (newSessionServerAppManager True) demo_ended"
proof -
  let ?s1 = "onStateChangedEvent PB_NOT_RUNNING demo_client demo_manager"
  have "manager_step demo_parser demo_manager ?s1"
    by (rule event [of _ "''tv''"]) (simp add: demo_manager_eq)
  moreover have "manager_step demo_parser ?s1 (onDisconnected demo_client ?s1)"
    by (rule disconnect [of _ "''tv''"]) (simp add: demo_manager_eq onStateChangedEvent_def onSessionServerStateChanged_def)
  moreover have "manager_step demo_parser (onDisconnected demo_client ?s1) demo_ended"
    unfolding demo_ended_def by (rule handle)
  ultimately show ?thesis using demo_manager_run by (meson rtranclp.rtrancl_into_rtrancl)
qed

lemma demo_ended_eq:
  "mg_sessionServerApps demo_ended = []" "mg_clients demo_ended = []" "mg_events demo_ended = [(''tv'', SSS_NOT_RUNNING)]"
  by (simp_all add: demo_ended_def demo_manager_eq onStateChangedEvent_def onDisconnected_def onSessionServerStateChanged_def
      handleEvent_def handleSessionServerStateChange_def handleOther_def removeClient_def removeSessionServer_def
      erase_def tell_def Let_def)

theorem stale_event_removes_new_server_witness:
  "\<exists>s1. setSessionServerState (demo_launch 200) True True ''tv'' SSS_ACTIVE demo_ended = (True, s1) \<and>
    isSessionServerLaunched ''tv'' s1 \<and> \<not> isSessionServerLaunched ''tv'' (handleEvent demo_parser True s1)"
proof -
  have "fst (setSessionServerState (demo_launch 200) True True ''tv'' SSS_ACTIVE demo_ended)"
    by (simp add: setSessionServerState_def isSessionServerLaunched_def demo_ended_eq addSessionServer_def launchSessionServer_def
        newSessionServerApp_def generateSessionManagementSocket_def launch_def initializeSockets_def setupStartupTimer_def
        spawnSessionServer_def demo_launch_def createClient_def Let_def)
  then obtain s1 where s1: "setSessionServerState (demo_launch 200) True True ''tv'' SSS_ACTIVE demo_ended = (True, s1)"
    by (metis prod.collapse)
  then show ?thesis
    using stale_event_removes_new_server [OF demo_ended_run demo_ended_eq(3) _ _ _ s1 refl, of True]
    by (auto simp: isSessionServerLaunched_def demo_ended_eq demo_launch_def)
qed

theorem unchanged_level_is_reset_witness:
  "fst (getLogLevels demo_parser RC_SERVER (sm_logging (snd (rpcSetLogLevels (convertLoggingLevels
      \<lparr>lv_default = LL_UNCHANGED, lv_client = LL_DEBUG, lv_sessionServer = LL_UNCHANGED, lv_ipc = LL_UNCHANGED,
       lv_serverManager = LL_UNCHANGED, lv_common = LL_UNCHANGED\<rparr>) demo_active_server)))) = getLevel demo_parser RC_SERVER"
  using unchanged_level_is_reset by simp

end
