(* ===== verification/Ipc_Module.thy ===== *)
theory Ipc_Module
  imports Rialto_Prelude
begin

text \<open>
  What the remote ends of the client library share (\<open>media/client/ipc/source/IpcModule.cpp\<close>): each holds the channel
  of the process, subscribes to the events of its module, and reconnects before a call when the channel has been
  replaced. The channel's table of event handlers is \<open>ChannelImpl::subscribeImpl\<close> and \<open>unsubscribe\<close>
  (\<open>ipc/client/source/IpcChannelImpl.cpp\<close>); a handler captures the object that subscribed.
\<close>

section \<open>Channels and event handlers\<close>

record EventHandler =
  eh_channel :: nat
  eh_event :: string
  eh_tag :: int
  eh_owner :: nat

text \<open>
  The process as the modules see it: the channel \<open>RialtoControlIpc\<close> holds, which channels are connected, the
  handlers and the next tag of each channel, and the server behind the connection.
\<close>

record 's IpcWorld =
  iw_channel :: "nat option"
  iw_connected :: "nat \<Rightarrow> bool"
  iw_eventHandlers :: "EventHandler list"
  iw_eventTagCounter :: "nat \<Rightarrow> int"
  iw_peer :: 's

record IpcModule =
  im_ipcChannel :: "nat option"
  im_eventTags :: "int list"

definition subscribeImpl :: "nat \<Rightarrow> string \<Rightarrow> nat \<Rightarrow> 's IpcWorld \<Rightarrow> int \<times> 's IpcWorld" where
  "subscribeImpl ch eventName this w =
     (let tag = iw_eventTagCounter w ch in
      (tag, w\<lparr>iw_eventTagCounter := (iw_eventTagCounter w)(ch := tag + 1),
              iw_eventHandlers := iw_eventHandlers w @ [\<lparr>eh_channel = ch, eh_event = eventName, eh_tag = tag, eh_owner = this\<rparr>]\<rparr>))"

text \<open>The first handler with the tag goes.\<close>

fun eraseHandler :: "nat \<Rightarrow> int \<Rightarrow> EventHandler list \<Rightarrow> EventHandler list" where
  "eraseHandler ch tag [] = []"
| "eraseHandler ch tag (h # hs) = (if eh_channel h = ch \<and> eh_tag h = tag then hs else h # eraseHandler ch tag hs)"

definition unsubscribe :: "nat \<Rightarrow> int \<Rightarrow> 's IpcWorld \<Rightarrow> bool \<times> 's IpcWorld" where
  "unsubscribe ch tag w =
     (\<exists>h \<in> set (iw_eventHandlers w). eh_channel h = ch \<and> eh_tag h = tag,
      w\<lparr>iw_eventHandlers := eraseHandler ch tag (iw_eventHandlers w)\<rparr>)"

text \<open>The objects an event on a channel is passed to.\<close>

definition listeners :: "nat \<Rightarrow> string \<Rightarrow> 's IpcWorld \<Rightarrow> nat list" where
  "listeners ch eventName w =
     map eh_owner (filter (\<lambda>h. eh_channel h = ch \<and> eh_event h = eventName) (iw_eventHandlers w))"

section \<open>Attaching and detaching\<close>

text \<open>\<open>events\<close> are the events of the module, in the order its \<open>subscribeToEvents\<close> subscribes to them.\<close>

fun subscribeEvents :: "string list \<Rightarrow> nat \<Rightarrow> nat \<Rightarrow> ('m) IpcModule_scheme \<Rightarrow> 's IpcWorld \<Rightarrow>
    bool \<times> ('m) IpcModule_scheme \<times> 's IpcWorld" where
  "subscribeEvents [] ch this c w = (True, c, w)"
| "subscribeEvents (e # es) ch this c w =
     (let (eventTag, w) = subscribeImpl ch e this w in
      if eventTag < 0 then (False, c, w)
      else subscribeEvents es ch this (c\<lparr>im_eventTags := im_eventTags c @ [eventTag]\<rparr>) w)"

definition subscribeToEvents :: "string list \<Rightarrow> nat \<Rightarrow> ('m) IpcModule_scheme \<Rightarrow> 's IpcWorld \<Rightarrow>
    bool \<times> ('m) IpcModule_scheme \<times> 's IpcWorld" where
  "subscribeToEvents events this c w =
     (case im_ipcChannel c of None \<Rightarrow> (False, c, w) | Some ch \<Rightarrow> subscribeEvents events ch this c w)"

definition unsubscribeFromAllEvents :: "('m) IpcModule_scheme \<Rightarrow> 's IpcWorld \<Rightarrow>
    bool \<times> ('m) IpcModule_scheme \<times> 's IpcWorld" where
  "unsubscribeFromAllEvents c w =
     (case im_ipcChannel c of
        None \<Rightarrow> (False, c, w)
      | Some ch \<Rightarrow>
          let (result, w) = fold (\<lambda>tag (result, w). let (ok, w) = unsubscribe ch tag w in (result \<and> ok, w)) (im_eventTags c) (True, w)
          in (result, c\<lparr>im_eventTags := []\<rparr>, w))"

text \<open>The creation of the stubs cannot fail: \<open>make_unique\<close> never returns a null pointer.\<close>

definition attachChannel :: "string list \<Rightarrow> nat \<Rightarrow> ('m) IpcModule_scheme \<Rightarrow> 's IpcWorld \<Rightarrow>
    bool \<times> ('m) IpcModule_scheme \<times> 's IpcWorld" where
  "attachChannel events this c w =
     (let c = c\<lparr>im_ipcChannel := iw_channel w\<rparr> in
      case im_ipcChannel c of
        None \<Rightarrow> (False, c, w)
      | Some ch \<Rightarrow>
          if \<not> iw_connected w ch then (False, c\<lparr>im_ipcChannel := None\<rparr>, w)
          else let (ok, c, w) = subscribeToEvents events this c w in
            if ok then (True, c, w)
            else let (_, c, w) = unsubscribeFromAllEvents c w in (False, c\<lparr>im_ipcChannel := None\<rparr>, w))"

definition detachChannel :: "('m) IpcModule_scheme \<Rightarrow> 's IpcWorld \<Rightarrow> ('m) IpcModule_scheme \<times> 's IpcWorld" where
  "detachChannel c w = (let (_, c, w) = unsubscribeFromAllEvents c w in (c\<lparr>im_ipcChannel := None\<rparr>, w))"

definition reattachChannelIfRequired :: "string list \<Rightarrow> nat \<Rightarrow> ('m) IpcModule_scheme \<Rightarrow> 's IpcWorld \<Rightarrow>
    bool \<times> ('m) IpcModule_scheme \<times> 's IpcWorld" where
  "reattachChannelIfRequired events this c w =
     (if (case im_ipcChannel c of None \<Rightarrow> True | Some ch \<Rightarrow> \<not> iw_connected w ch) then
        let (c, w) = detachChannel c w in attachChannel events this c w
      else (True, c, w))"

text \<open>
  One remote call: reattach, send the request, wait for the answer. \<open>serve\<close> is the server's handler; \<open>None\<close> as
  answer is a controller that has failed. The result \<open>None\<close> covers the failed reattachment as well: both make
  the methods return false.
\<close>

definition remoteCall :: "string list \<Rightarrow> nat \<Rightarrow> ('req \<Rightarrow> 's \<Rightarrow> 'resp option \<times> 's) \<Rightarrow> 'req \<Rightarrow> ('m) IpcModule_scheme \<Rightarrow> 's IpcWorld \<Rightarrow>
    'resp option \<times> ('m) IpcModule_scheme \<times> 's IpcWorld" where
  "remoteCall events this serve request c w =
     (let (ok, c, w) = reattachChannelIfRequired events this c w in
      if \<not> ok then (None, c, w)
      else let (response, s) = serve request (iw_peer w) in (response, c, w\<lparr>iw_peer := s\<rparr>))"

section \<open>Handlers of an object\<close>

text \<open>The handlers an object owns are exactly its tags on its channel, and tags are fresh.\<close>

definition own_handlers :: "nat \<Rightarrow> 's IpcWorld \<Rightarrow> (nat \<times> int) list" where
  "own_handlers this w = map (\<lambda>h. (eh_channel h, eh_tag h)) (filter (\<lambda>h. eh_owner h = this) (iw_eventHandlers w))"

definition tags_fresh :: "'s IpcWorld \<Rightarrow> bool" where
  "tags_fresh w \<longleftrightarrow> (\<forall>h \<in> set (iw_eventHandlers w). 0 \<le> eh_tag h \<and> eh_tag h < iw_eventTagCounter w (eh_channel h)) \<and>
     (\<forall>ch. 0 \<le> iw_eventTagCounter w ch) \<and>
     distinct (map (\<lambda>h. (eh_channel h, eh_tag h)) (iw_eventHandlers w))"

definition module_inv :: "nat \<Rightarrow> ('m) IpcModule_scheme \<Rightarrow> 's IpcWorld \<Rightarrow> bool" where
  "module_inv this c w \<longleftrightarrow> tags_fresh w \<and>
     own_handlers this w = (case im_ipcChannel c of None \<Rightarrow> [] | Some ch \<Rightarrow> map (Pair ch) (im_eventTags c)) \<and>
     (im_ipcChannel c = None \<longrightarrow> im_eventTags c = [])"

lemma tags_fresh_peer [simp]: "tags_fresh (w\<lparr>iw_peer := s\<rparr>) = tags_fresh w"
  by (simp add: tags_fresh_def)

lemma own_handlers_peer [simp]: "own_handlers this (w\<lparr>iw_peer := s\<rparr>) = own_handlers this w"
  by (simp add: own_handlers_def)

lemma module_inv_peer [simp]: "module_inv this c (w\<lparr>iw_peer := s\<rparr>) = module_inv this c w"
  by (simp add: module_inv_def)

lemma subscribe_inv:
  assumes "tags_fresh w" and "subscribeImpl ch e this w = (tag, w')"
  shows "tags_fresh w' \<and> 0 \<le> tag \<and> own_handlers this w' = own_handlers this w @ [(ch, tag)] \<and>
    (\<forall>o'. o' \<noteq> this \<longrightarrow> own_handlers o' w' = own_handlers o' w)"
proof -
  have tag: "tag = iw_eventTagCounter w ch"
    and w': "iw_eventTagCounter w' = (iw_eventTagCounter w)(ch := tag + 1)"
      "iw_eventHandlers w' = iw_eventHandlers w @ [\<lparr>eh_channel = ch, eh_event = e, eh_tag = tag, eh_owner = this\<rparr>]"
    using assms(2) by (auto simp: subscribeImpl_def Let_def)
  have low: "0 \<le> eh_tag h" "eh_tag h < iw_eventTagCounter w (eh_channel h)" if "h \<in> set (iw_eventHandlers w)" for h
    using assms(1) that by (auto simp: tags_fresh_def)
  have "0 \<le> eh_tag h \<and> eh_tag h < iw_eventTagCounter w' (eh_channel h)" if "h \<in> set (iw_eventHandlers w')" for h
    using that low [of h] assms(1) by (auto simp: w' tag tags_fresh_def)
  moreover have "(ch, tag) \<notin> (\<lambda>h. (eh_channel h, eh_tag h)) ` set (iw_eventHandlers w)"
    using low(2) by (force simp: tag)
  ultimately have "tags_fresh w'" using assms(1) by (auto simp: tags_fresh_def w' tag)
  then show ?thesis using assms(1) by (auto simp: own_handlers_def w' tag tags_fresh_def)
qed

lemma subscribeEvents_inv:
  assumes "tags_fresh w" and "own_handlers this w = map (Pair ch) (im_eventTags c)" and "im_ipcChannel c = Some ch"
  shows "\<exists>c' w'. subscribeEvents es ch this c w = (True, c', w') \<and> tags_fresh w' \<and> im_ipcChannel c' = Some ch \<and>
    own_handlers this w' = map (Pair ch) (im_eventTags c') \<and> c' = c\<lparr>im_eventTags := im_eventTags c'\<rparr> \<and>
    iw_peer w' = iw_peer w \<and> iw_connected w' = iw_connected w \<and> iw_channel w' = iw_channel w"
  using assms
proof (induction es arbitrary: c w)
  case (Cons e es)
  obtain tag w1 where sub: "subscribeImpl ch e this w = (tag, w1)" by fastforce
  note one = subscribe_inv [OF Cons.prems(1) sub]
  let ?c = "c\<lparr>im_eventTags := im_eventTags c @ [tag]\<rparr>"
  obtain c' w' where rest: "subscribeEvents es ch this ?c w1 = (True, c', w')" "tags_fresh w'" "im_ipcChannel c' = Some ch"
      "own_handlers this w' = map (Pair ch) (im_eventTags c')" "c' = ?c\<lparr>im_eventTags := im_eventTags c'\<rparr>"
      "iw_peer w' = iw_peer w1" "iw_connected w' = iw_connected w1" "iw_channel w' = iw_channel w1"
    using Cons.IH [of w1 ?c] one Cons.prems by auto
  then show ?case using sub one by (auto simp: subscribeImpl_def Let_def)
qed auto

lemma eraseHandler_filter: "distinct (map (\<lambda>h. (eh_channel h, eh_tag h)) hs) \<Longrightarrow>
    eraseHandler ch tag hs = filter (\<lambda>h. (eh_channel h, eh_tag h) \<noteq> (ch, tag)) hs"
proof (induction hs)
  case (Cons h hs)
  show ?case
  proof (cases "eh_channel h = ch \<and> eh_tag h = tag")
    case True
    then have "(ch, tag) \<notin> (\<lambda>h. (eh_channel h, eh_tag h)) ` set hs" using Cons.prems by auto
    then have "filter (\<lambda>h. (eh_channel h, eh_tag h) \<noteq> (ch, tag)) hs = hs" by (auto simp: filter_id_conv)
    with True show ?thesis by simp
  qed (use Cons in auto)
qed simp

lemma unsubscribe_loop:
  assumes "distinct (map (\<lambda>h. (eh_channel h, eh_tag h)) (iw_eventHandlers w))"
  shows "snd (fold (\<lambda>tag (result, w). let (ok, w) = unsubscribe ch tag w in (result \<and> ok, w)) tags (r, w)) =
    w\<lparr>iw_eventHandlers := filter (\<lambda>h. \<not> (eh_channel h = ch \<and> eh_tag h \<in> set tags)) (iw_eventHandlers w)\<rparr>"
  using assms
proof (induction tags arbitrary: r w)
  case (Cons tag tags)
  let ?hs = "filter (\<lambda>h. (eh_channel h, eh_tag h) \<noteq> (ch, tag)) (iw_eventHandlers w)"
  obtain ok where step: "unsubscribe ch tag w = (ok, w\<lparr>iw_eventHandlers := ?hs\<rparr>)"
    using eraseHandler_filter [OF Cons.prems, of ch tag] by (auto simp: unsubscribe_def)
  have "distinct (map (\<lambda>h. (eh_channel h, eh_tag h)) ?hs)" using Cons.prems by (simp add: distinct_map_filter)
  from Cons.IH [of "w\<lparr>iw_eventHandlers := ?hs\<rparr>" "r \<and> ok"] this show ?case
    by (auto simp: step intro!: arg_cong [where f = "\<lambda>hs. w\<lparr>iw_eventHandlers := hs\<rparr>"] filter_cong)
qed (simp add: filter_id_conv)

text \<open>Detaching removes every handler of the object, and no other.\<close>

lemma detach_inv:
  assumes "module_inv this c w" and "detachChannel c w = (c', w')"
  shows "module_inv this c' w' \<and> own_handlers this w' = [] \<and> im_ipcChannel c' = None \<and>
    c' = c\<lparr>im_eventTags := [], im_ipcChannel := None\<rparr> \<and> w' = w\<lparr>iw_eventHandlers := iw_eventHandlers w'\<rparr>"
proof (cases "im_ipcChannel c")
  case None
  then have "w' = w" "c' = c\<lparr>im_ipcChannel := None\<rparr>" "own_handlers this w = []" "im_eventTags c = []"
    using assms by (auto simp: detachChannel_def unsubscribeFromAllEvents_def module_inv_def)
  with assms(1) None show ?thesis by (auto simp: module_inv_def intro!: IpcModule.equality)
next
  case (Some ch)
  let ?hs = "filter (\<lambda>h. \<not> (eh_channel h = ch \<and> eh_tag h \<in> set (im_eventTags c))) (iw_eventHandlers w)"
  have fresh: "tags_fresh w" and own: "own_handlers this w = map (Pair ch) (im_eventTags c)"
    using assms(1) Some by (simp_all add: module_inv_def)
  have w': "w' = w\<lparr>iw_eventHandlers := ?hs\<rparr>" and c': "c' = c\<lparr>im_eventTags := [], im_ipcChannel := None\<rparr>"
    using assms(2) Some unsubscribe_loop [of w ch "im_eventTags c" True] fresh
    by (auto simp: detachChannel_def unsubscribeFromAllEvents_def tags_fresh_def case_prod_beta Let_def)
  have "filter (\<lambda>h. eh_owner h = this) ?hs = []"
  proof (rule ccontr)
    assume "filter (\<lambda>h. eh_owner h = this) ?hs \<noteq> []"
    then obtain h where h: "h \<in> set (iw_eventHandlers w)" "eh_owner h = this"
      "\<not> (eh_channel h = ch \<and> eh_tag h \<in> set (im_eventTags c))"
      by (auto simp: filter_empty_conv)
    then have "(eh_channel h, eh_tag h) \<in> set (own_handlers this w)" by (auto simp: own_handlers_def)
    with own h(3) show False by auto
  qed
  then have none: "own_handlers this w' = []" by (simp add: own_handlers_def w')
  have "tags_fresh w'" using fresh by (auto simp: tags_fresh_def w' distinct_map_filter)
  with none c' w' show ?thesis by (simp add: module_inv_def)
qed

lemma attach_inv:
  assumes "tags_fresh w" and "own_handlers this w = []" and "im_eventTags c = []"
    and "attachChannel events this c w = (ok, c', w')"
  shows "module_inv this c' w' \<and> (ok \<longleftrightarrow> (\<exists>ch. iw_channel w = Some ch \<and> iw_connected w ch)) \<and>
    (ok \<longrightarrow> im_ipcChannel c' = iw_channel w) \<and> iw_peer w' = iw_peer w \<and> iw_connected w' = iw_connected w \<and>
    iw_channel w' = iw_channel w \<and> c' = c\<lparr>im_ipcChannel := im_ipcChannel c', im_eventTags := im_eventTags c'\<rparr>"
proof (cases "\<exists>ch. iw_channel w = Some ch \<and> iw_connected w ch")
  case True
  then obtain ch where ch: "iw_channel w = Some ch" "iw_connected w ch" by blast
  let ?c = "c\<lparr>im_ipcChannel := Some ch\<rparr>"
  obtain c2 w2 where sub: "subscribeEvents events ch this ?c w = (True, c2, w2)" "tags_fresh w2" "im_ipcChannel c2 = Some ch"
      "own_handlers this w2 = map (Pair ch) (im_eventTags c2)" "c2 = ?c\<lparr>im_eventTags := im_eventTags c2\<rparr>"
      "iw_peer w2 = iw_peer w" "iw_connected w2 = iw_connected w" "iw_channel w2 = iw_channel w"
    using subscribeEvents_inv [of w this ch ?c events] assms(1-3) by auto
  then have "c' = c2" "w' = w2" "ok"
    using assms(4) ch by (auto simp: attachChannel_def subscribeToEvents_def)
  with sub ch show ?thesis
    by (simp add: module_inv_def)
next
  case False
  then have "\<not> ok" "w' = w" "c' = c\<lparr>im_ipcChannel := None\<rparr>"
    using assms(4) by (cases "iw_channel w"; simp add: attachChannel_def)+
  with assms(1-3) False show ?thesis by (auto simp: module_inv_def intro!: IpcModule.equality)
qed

text \<open>A module keeps its invariant when it reattaches, and a call that succeeds was sent on a connected channel.\<close>

lemma reattach_inv:
  assumes "module_inv this c w" and "reattachChannelIfRequired events this c w = (ok, c', w')"
  shows "module_inv this c' w' \<and> iw_peer w' = iw_peer w \<and>
    (ok \<longrightarrow> (\<exists>ch. im_ipcChannel c' = Some ch \<and> iw_connected w' ch)) \<and>
    c' = c\<lparr>im_ipcChannel := im_ipcChannel c', im_eventTags := im_eventTags c'\<rparr>"
proof (cases "case im_ipcChannel c of None \<Rightarrow> True | Some ch \<Rightarrow> \<not> iw_connected w ch")
  case True
  obtain c1 w1 where d: "detachChannel c w = (c1, w1)" by fastforce
  note d1 = detach_inv [OF assms(1) d]
  have a: "attachChannel events this c1 w1 = (ok, c', w')"
    using assms(2) True d by (simp add: reattachChannelIfRequired_def)
  have peer: "iw_peer w1 = iw_peer w" using d1 by (metis IpcWorld.simps(5) IpcWorld.surjective IpcWorld.update_convs(3))
  have t: "tags_fresh w1" "own_handlers this w1 = []" "im_eventTags c1 = []" using d1 by (auto simp: module_inv_def)
  show ?thesis using attach_inv [OF t a] d1 peer by auto
next
  case False
  then show ?thesis using assms by (auto simp: reattachChannelIfRequired_def split: option.splits)
qed

lemma remoteCall_inv:
  assumes "module_inv this c w" and "remoteCall events this serve request c w = (response, c', w')"
  shows "module_inv this c' w' \<and> c' = c\<lparr>im_ipcChannel := im_ipcChannel c', im_eventTags := im_eventTags c'\<rparr>"
proof -
  obtain ok c1 w1 where r: "reattachChannelIfRequired events this c w = (ok, c1, w1)" by (metis prod_cases3)
  note inv = reattach_inv [OF assms(1) r]
  then show ?thesis using assms(2) r by (auto simp: remoteCall_def split: if_splits prod.splits)
qed

definition attached :: "('m) IpcModule_scheme \<Rightarrow> 's IpcWorld \<Rightarrow> bool" where
  "attached c w \<longleftrightarrow> (case im_ipcChannel c of None \<Rightarrow> False | Some ch \<Rightarrow> iw_connected w ch)"

lemma remoteCall_attached:
  "attached c w \<Longrightarrow> remoteCall events this serve request c w =
    (case serve request (iw_peer w) of (response, s) \<Rightarrow> (response, c, w\<lparr>iw_peer := s\<rparr>))"
  by (simp add: remoteCall_def reattachChannelIfRequired_def attached_def split: option.splits)

lemma subscribeEvents_listens:
  "subscribeEvents es ch this c w = (True, c', w') \<Longrightarrow>
    (\<forall>e. this \<in> set (listeners ch e w) \<or> e \<in> set es \<longrightarrow> this \<in> set (listeners ch e w'))"
proof (induction es arbitrary: c w)
  case (Cons e es)
  obtain tag w1 where sub: "subscribeImpl ch e this w = (tag, w1)" by fastforce
  have "listeners ch e' w1 = listeners ch e' w @ (if e' = e then [this] else [])" for e'
    using sub by (auto simp: subscribeImpl_def listeners_def Let_def)
  then show ?case using Cons.IH [of _ w1] Cons.prems sub by (auto split: if_splits)
qed simp

lemma attach_listens:
  assumes "tags_fresh w" and "own_handlers this w = []" and "im_eventTags c = []"
    and "iw_channel w = Some ch" and "iw_connected w ch"
    and "attachChannel events this c w = (ok, c', w')"
  shows "ok \<and> attached c' w' \<and> (\<forall>e \<in> set events. this \<in> set (listeners ch e w'))"
proof -
  have ok: "ok" "im_ipcChannel c' = Some ch" "iw_connected w' ch" using attach_inv [OF assms(1-3,6)] assms(4,5) by auto
  then have "subscribeEvents events ch this (c\<lparr>im_ipcChannel := Some ch\<rparr>) w = (True, c', w')"
    using assms(4-6) by (auto simp: attachChannel_def subscribeToEvents_def Let_def split: prod.splits if_splits)
  from subscribeEvents_listens [OF this] show ?thesis using ok by (simp add: attached_def)
qed

text \<open>The components of a call's result.\<close>

lemma remoteCall_module_inv:
  "module_inv this c w \<Longrightarrow>
    module_inv this (fst (snd (remoteCall events this serve request c w))) (snd (snd (remoteCall events this serve request c w)))"
  using remoteCall_inv [of this c w events serve request] by (metis prod.collapse)

lemma reattach_module_inv:
  "module_inv this c w \<Longrightarrow> module_inv this (fst (snd (reattachChannelIfRequired events this c w)))
    (snd (snd (reattachChannelIfRequired events this c w)))"
  using reattach_inv [of this c w events] by (metis prod.collapse)

end
