(* ===== verification/Module_Service.thy ===== *)
theory Module_Service
  imports Std_Map Rialto_Prelude
begin

text \<open>
  What the three module services of the session server share (\<open>MediaPipelineModuleService.cpp\<close>,
  \<open>WebAudioPlayerModuleService.cpp\<close>, \<open>MediaKeysModuleService.cpp\<close> in \<open>media/server/ipc/source\<close>): they hand out handles
  from a counter, remember which connected client owns which handles, and destroy what a client owns when it
  disconnects. The service behind them is a parameter; the locale states what they rely on.
\<close>

section \<open>Data and operations\<close>

text \<open>
  The map from connected clients to the set of their handles, in iteration order, the static counter of
  \<open>generateHandle\<close> (or \<open>generateSessionId\<close>), and the service. \<open>cm_crashed\<close> records that a handler used a null pointer.
\<close>

record 's ClientModule =
  cm_clientHandles :: "(nat \<times> int list) list"
  cm_nextHandle :: int
  cm_crashed :: bool
  cm_service :: 's

definition newClientModule :: "'s \<Rightarrow> 's ClientModule" where
  "newClientModule s = \<lparr>cm_clientHandles = [], cm_nextHandle = 0, cm_crashed = False, cm_service = s\<rparr>"

definition moduleConnected :: "nat \<Rightarrow> 's ClientModule \<Rightarrow> 's ClientModule" where
  "moduleConnected client m = m\<lparr>cm_clientHandles := emplace client [] (cm_clientHandles m)\<rparr>"

definition moduleDisconnected :: "(int \<Rightarrow> 's \<Rightarrow> bool \<times> 's) \<Rightarrow> nat \<Rightarrow> 's ClientModule \<Rightarrow> 's ClientModule" where
  "moduleDisconnected destroy client m =
     (case map_of (cm_clientHandles m) client of
        None \<Rightarrow> m
      | Some handles \<Rightarrow> m\<lparr>cm_clientHandles := erase client (cm_clientHandles m),
                          cm_service := fold (\<lambda>h s. snd (destroy h s)) handles (cm_service m)\<rparr>)"

text \<open>\<open>m_clientHandles[client].insert(handle)\<close>: the entry is created when it is missing.\<close>

definition insertHandle :: "nat \<Rightarrow> int \<Rightarrow> (nat \<times> int list) list \<Rightarrow> (nat \<times> int list) list" where
  "insertHandle client h xs =
     (case map_of xs client of
        None \<Rightarrow> emplace client [h] xs
      | Some handles \<Rightarrow> assign client (insort_insert h handles) xs)"

definition moduleCreate :: "(int \<Rightarrow> 's \<Rightarrow> bool \<times> 's) \<Rightarrow> nat \<Rightarrow> 's ClientModule \<Rightarrow> int option \<times> 's ClientModule" where
  "moduleCreate create client m =
     (let h = cm_nextHandle m; m = m\<lparr>cm_nextHandle := h + 1\<rparr>; (ok, s) = create h (cm_service m);
          m = m\<lparr>cm_service := s\<rparr>
      in if ok then (Some h, m\<lparr>cm_clientHandles := insertHandle client h (cm_clientHandles m)\<rparr>) else (None, m))"

definition moduleDestroy :: "(int \<Rightarrow> 's \<Rightarrow> bool \<times> 's) \<Rightarrow> nat \<Rightarrow> int \<Rightarrow> 's ClientModule \<Rightarrow> bool \<times> 's ClientModule" where
  "moduleDestroy destroy client h m =
     (let (ok, s) = destroy h (cm_service m); m = m\<lparr>cm_service := s\<rparr> in
      if \<not> ok then (False, m)
      else (True, case map_of (cm_clientHandles m) client of
                    None \<Rightarrow> m
                  | Some handles \<Rightarrow>
                      m\<lparr>cm_clientHandles := assign client (filter (\<lambda>i. i \<noteq> h) handles) (cm_clientHandles m)\<rparr>))"

section \<open>Ownership\<close>

definition owned :: "nat \<Rightarrow> 's ClientModule \<Rightarrow> int set" where
  "owned client m = (case map_of (cm_clientHandles m) client of None \<Rightarrow> {} | Some handles \<Rightarrow> set handles)"

text \<open>Whatever is alive in the service is owned by a client, no two clients own the same, and handles are fresh.\<close>

definition ownership_inv :: "('s \<Rightarrow> int set) \<Rightarrow> 's ClientModule \<Rightarrow> bool" where
  "ownership_inv alive m \<longleftrightarrow> alive (cm_service m) \<subseteq> (\<Union>c. owned c m) \<and>
     (\<forall>c. \<forall>h \<in> owned c m. h < cm_nextHandle m) \<and>
     (\<forall>c d. c \<noteq> d \<longrightarrow> owned c m \<inter> owned d m = {})"

lemma ownership_unique:
  assumes "ownership_inv alive m"
  shows "\<forall>h \<in> alive (cm_service m). \<exists>!client. h \<in> owned client m"
proof
  fix h
  assume "h \<in> alive (cm_service m)"
  then obtain c where c: "h \<in> owned c m" using assms by (auto simp: ownership_inv_def)
  then have "d = c" if "h \<in> owned d m" for d using that assms by (fastforce simp: ownership_inv_def)
  with c show "\<exists>!client. h \<in> owned client m" by blast
qed

lemma owned_connected: "owned c (moduleConnected client m) = owned c m"
  by (simp add: owned_def moduleConnected_def)

lemma owned_service [simp]: "owned c (m\<lparr>cm_service := s\<rparr>) = owned c m"
  by (simp add: owned_def)

lemma ownership_service:
  "ownership_inv alive m \<Longrightarrow> alive s \<subseteq> alive (cm_service m) \<Longrightarrow> ownership_inv alive (m\<lparr>cm_service := s\<rparr>)"
  by (auto simp: ownership_inv_def)

lemma ownership_crashed: "ownership_inv alive (m\<lparr>cm_crashed := b\<rparr>) = ownership_inv alive m"
  by (simp add: ownership_inv_def owned_def)

lemma owned_disconnected: "owned c (moduleDisconnected destroy client m) = (if c = client then {} else owned c m)"
  by (simp add: owned_def moduleDisconnected_def split: option.split)

lemma owned_insert: "owned c (m\<lparr>cm_clientHandles := insertHandle client h (cm_clientHandles m)\<rparr>) =
    (if c = client then insert h (owned c m) else owned c m)"
  by (auto simp: owned_def insertHandle_def map_of_assign set_insort_insert split: option.splits)

lemma owned_destroy: "moduleDestroy destroy client h m = (ok, m') \<Longrightarrow>
    owned c m' = (if ok \<and> c = client then owned c m - {h} else owned c m) \<and> cm_nextHandle m' = cm_nextHandle m \<and>
    cm_service m' = snd (destroy h (cm_service m)) \<and> ok = fst (destroy h (cm_service m))"
  by (auto simp: owned_def moduleDestroy_def map_of_assign Let_def split: prod.splits option.splits if_splits)

locale owned_service =
  fixes create :: "'e \<Rightarrow> int \<Rightarrow> 's \<Rightarrow> bool \<times> 's"
    and destroy :: "int \<Rightarrow> 's \<Rightarrow> bool \<times> 's"
    and alive :: "'s \<Rightarrow> int set"
  assumes created: "create e h s = (ok, s') \<Longrightarrow> alive s' = (if ok then insert h (alive s) else alive s)"
    and destroyed: "destroy h s = (ok, s') \<Longrightarrow> alive s' = alive s - {h}"
begin

lemma destroy_all: "alive (fold (\<lambda>h s. snd (destroy h s)) hs s) = alive s - set hs"
proof (induction hs arbitrary: s)
  case (Cons h hs)
  have "alive (snd (destroy h s)) = alive s - {h}" using destroyed [of h s] by (cases "destroy h s") simp
  then show ?case using Cons.IH [of "snd (destroy h s)"] by auto
qed simp

text \<open>A disconnected client leaves nothing behind, and nothing else changes.\<close>

lemma disconnect_alive:
  "alive (cm_service (moduleDisconnected destroy client m)) = alive (cm_service m) - owned client m"
  by (simp add: moduleDisconnected_def owned_def destroy_all split: option.split)

lemma client_gone_inv: "ownership_inv alive m \<Longrightarrow> ownership_inv alive (moduleDisconnected destroy client m)"
proof -
  assume inv: "ownership_inv alive m"
  have "cm_nextHandle (moduleDisconnected destroy client m) = cm_nextHandle m"
    by (simp add: moduleDisconnected_def split: option.split)
  moreover have "alive (cm_service m) - owned client m \<subseteq> (\<Union>c. if c = client then {} else owned c m)"
    using inv by (fastforce simp: ownership_inv_def)
  ultimately show ?thesis
    using inv by (auto simp: ownership_inv_def disconnect_alive owned_disconnected)
qed

lemma connect_inv: "ownership_inv alive m \<Longrightarrow> ownership_inv alive (moduleConnected client m)"
  by (simp add: ownership_inv_def owned_connected) (simp add: moduleConnected_def)

lemma create_inv:
  assumes inv: "ownership_inv alive m" and create: "moduleCreate (create e) client m = (r, m')"
  shows "ownership_inv alive m' \<and>
    (case r of None \<Rightarrow> alive (cm_service m') = alive (cm_service m)
     | Some h \<Rightarrow> alive (cm_service m') = insert h (alive (cm_service m)) \<and> h \<in> owned client m' \<and> (\<forall>c. h \<notin> owned c m))"
proof -
  let ?h = "cm_nextHandle m"
  obtain ok s where new: "create e ?h (cm_service m) = (ok, s)" by fastforce
  note alive = created [OF new]
  define m1 where "m1 = m\<lparr>cm_nextHandle := ?h + 1, cm_service := s\<rparr>"
  have m1: "owned c m1 = owned c m" for c by (simp add: m1_def owned_def)
  have fresh: "?h \<notin> owned c m" for c using inv by (fastforce simp: ownership_inv_def)
  show ?thesis
  proof (cases ok)
    case True
    then have m': "r = Some ?h" "m' = m1\<lparr>cm_clientHandles := insertHandle client ?h (cm_clientHandles m1)\<rparr>"
      using create new by (auto simp: moduleCreate_def Let_def m1_def)
    have "cm_service m' = s" "cm_nextHandle m' = ?h + 1"
      "owned c m' = (if c = client then insert ?h (owned c m) else owned c m)" for c
      unfolding m'(2) owned_insert m1 by (simp_all add: m1_def)
    note new_state = this
    have "ownership_inv alive m'"
      unfolding ownership_inv_def
    proof (intro conjI allI ballI impI)
      show "alive (cm_service m') \<subseteq> (\<Union>c. owned c m')"
      proof
        fix x
        assume "x \<in> alive (cm_service m')"
        then have "x = ?h \<or> x \<in> (\<Union>c. owned c m)" using inv alive True new_state(1) by (auto simp: ownership_inv_def)
        then show "x \<in> (\<Union>c. owned c m')" using new_state(3) by (metis UN_iff UNIV_I insertCI)
      qed
      show "x < cm_nextHandle m'" if "x \<in> owned c m'" for c x
        using that inv new_state by (fastforce simp: ownership_inv_def split: if_splits)
      show "owned c m' \<inter> owned d m' = {}" if "c \<noteq> d" for c d
        using that inv fresh unfolding new_state ownership_inv_def by (cases "c = client"; cases "d = client") auto
    qed
    then show ?thesis using alive True fresh m'(1) new_state by simp
  next
    case False
    then have "r = None" "m' = m1" using create new by (auto simp: moduleCreate_def Let_def m1_def)
    then show ?thesis using inv alive False m1 by (fastforce simp: ownership_inv_def m1_def)
  qed
qed

lemma destroy_inv:
  assumes inv: "ownership_inv alive m" and d: "moduleDestroy destroy client h m = (ok, m')"
  shows "ownership_inv alive m' \<and> alive (cm_service m') = alive (cm_service m) - {h}"
proof -
  note m' = owned_destroy [OF d]
  have gone: "alive (cm_service m') = alive (cm_service m) - {h}"
    using m' destroyed [of h "cm_service m"] by (cases "destroy h (cm_service m)") auto
  have sub: "owned c m' \<subseteq> owned c m" "owned c m \<subseteq> insert h (owned c m')" for c
    using owned_destroy [OF d, of c] by auto
  have "x \<in> (\<Union>c. owned c m')" if x: "x \<in> alive (cm_service m')" for x
  proof -
    have "x \<in> (\<Union>c. owned c m)" "x \<noteq> h" using x gone inv by (auto simp: ownership_inv_def)
    then obtain c where "x \<in> owned c m" by blast
    then have "x \<in> owned c m'" using sub(2) [of c] \<open>x \<noteq> h\<close> by blast
    then show ?thesis by blast
  qed
  then have "alive (cm_service m') \<subseteq> (\<Union>c. owned c m')" by (rule subsetI)
  moreover have "h' < cm_nextHandle m'" if "h' \<in> owned c m'" for h' c
  proof -
    have "h' \<in> owned c m" using that sub(1) by blast
    then show ?thesis using inv m' [THEN conjunct2, THEN conjunct1] by (simp add: ownership_inv_def)
  qed
  moreover have "owned c m' \<inter> owned d' m' = {}" if "c \<noteq> d'" for c d'
    using that sub(1) [of c] sub(1) [of d'] inv by (fastforce simp: ownership_inv_def)
  ultimately show ?thesis using gone by (simp add: ownership_inv_def)
qed

end

end
