(* ===== verification/Client_Control.thy ===== *)
theory Client_Control
  imports Media_Common Std_Map
begin

text \<open>
  The client library's access to the shared memory (\<open>media/client/main/source/RialtoControl.cpp\<close>): the
  application state, the mapping of the buffer received from the server, and the clients that are told before it
  is unmapped. The factory keeps only a weak pointer, so the control object lives as long as the application or
  one of its clients holds it. Operations are atomic: the mutexes of the class are not modelled.
\<close>

section \<open>Data\<close>

datatype ApplicationState = AS_UNKNOWN | AS_RUNNING | AS_INACTIVE

text \<open>
  The members of \<open>RialtoControl\<close> (\<open>rc_exists\<close> says whether the object is alive; \<open>nullptr\<close> is \<open>None\<close>) together
  with what surrounds it in the process: whether the application holds a pointer to it, the objects that hold
  one, by address, the open descriptors and the mapped ranges. \<open>rc_badCalls\<close> records the addresses at which
  a method was called although no object is there.
\<close>

record 'c ClientProcess =
  rc_exists :: bool
  rc_currentState :: ApplicationState
  rc_shmFd :: i32
  rc_shmBuffer :: "nat option"
  rc_shmBufferLen :: u32
  rc_clientVec :: "nat list"
  rc_appHolds :: bool
  rc_objects :: "(nat \<times> 'c) list"
  rc_openFds :: "i32 list"
  rc_mappings :: "(nat \<times> u32) list"
  rc_badCalls :: "nat list"

section \<open>Operations\<close>

text \<open>\<open>std::set\<close> of pointers, in its iteration order.\<close>

definition registerClientAt :: "nat option \<Rightarrow> ('c, 'm) ClientProcess_scheme \<Rightarrow> bool \<times> ('c, 'm) ClientProcess_scheme" where
  "registerClientAt client s =
     (case client of None \<Rightarrow> (False, s)
      | Some a \<Rightarrow> (True, s\<lparr>rc_clientVec := insort_insert a (rc_clientVec s)\<rparr>))"

definition unregisterClientAt :: "nat option \<Rightarrow> ('c, 'm) ClientProcess_scheme \<Rightarrow> bool \<times> ('c, 'm) ClientProcess_scheme" where
  "unregisterClientAt client s =
     (case client of None \<Rightarrow> (False, s)
      | Some a \<Rightarrow> (a \<in> set (rc_clientVec s), s\<lparr>rc_clientVec := filter (\<lambda>b. b \<noteq> a) (rc_clientVec s)\<rparr>))"

text \<open>
  \<open>reply\<close> is the answer of the server to \<open>getSharedMemory\<close>, \<open>None\<close> when the call fails, and \<open>mapped\<close> the
  result of \<open>mmap\<close>, \<open>None\<close> for \<open>MAP_FAILED\<close>. A received descriptor is open in this process.
\<close>

definition initSharedMemory :: "(i32 \<times> u32) option \<Rightarrow> nat option \<Rightarrow> ('c, 'm) ClientProcess_scheme \<Rightarrow>
    bool \<times> ('c, 'm) ClientProcess_scheme" where
  "initSharedMemory reply mapped s =
     (case reply of
        None \<Rightarrow> (False, s)
      | Some (fd, len) \<Rightarrow>
          let s = s\<lparr>rc_shmFd := fd, rc_shmBufferLen := len,
                    rc_openFds := (if fd = -1 then rc_openFds s else fd # rc_openFds s)\<rparr>
          in if -1 = rc_shmFd s \<or> 0 = rc_shmBufferLen s then (False, s)
             else case mapped of
                    None \<Rightarrow> (False, s\<lparr>rc_openFds := remove1 (rc_shmFd s) (rc_openFds s), rc_shmFd := -1,
                                      rc_shmBuffer := None, rc_shmBufferLen := 0\<rparr>)
                  | Some a \<Rightarrow> (True, s\<lparr>rc_shmBuffer := Some a, rc_mappings := (a, rc_shmBufferLen s) # rc_mappings s\<rparr>))"

text \<open>One turn of the loop over the registered clients: a virtual call through the stored pointer.\<close>

definition notifyClient :: "('c \<Rightarrow> 'c) \<Rightarrow> nat \<Rightarrow> ('c, 'm) ClientProcess_scheme \<Rightarrow> ('c, 'm) ClientProcess_scheme" where
  "notifyClient notifyBufferTerm a s =
     (case map_of (rc_objects s) a of
        None \<Rightarrow> s\<lparr>rc_badCalls := rc_badCalls s @ [a]\<rparr>
      | Some c \<Rightarrow> s\<lparr>rc_objects := assign a (notifyBufferTerm c) (rc_objects s)\<rparr>)"

text \<open>\<open>munmap\<close> fails for a length of zero and otherwise removes the range; the descriptor is closed in any case.\<close>

definition unmapBuffer :: "nat option \<Rightarrow> u32 \<Rightarrow> (nat \<times> u32) list \<Rightarrow> (nat \<times> u32) list" where
  "unmapBuffer buffer len maps =
     (case buffer of None \<Rightarrow> maps | Some a \<Rightarrow> if len = 0 then maps else remove1 (a, len) maps)"

definition termSharedMemory :: "('c \<Rightarrow> 'c) \<Rightarrow> ('c, 'm) ClientProcess_scheme \<Rightarrow> ('c, 'm) ClientProcess_scheme" where
  "termSharedMemory notifyBufferTerm s =
     (let shmBuffer = rc_shmBuffer s;
          s = s\<lparr>rc_shmBuffer := None\<rparr>;
          s = fold (notifyClient notifyBufferTerm) (rc_clientVec s) s
      in if -1 = rc_shmFd s then s
         else s\<lparr>rc_mappings := unmapBuffer shmBuffer (rc_shmBufferLen s) (rc_mappings s),
                rc_openFds := remove1 (rc_shmFd s) (rc_openFds s), rc_shmFd := -1, rc_shmBufferLen := 0\<rparr>)"

definition setApplicationState :: "('c \<Rightarrow> 'c) \<Rightarrow> ApplicationState \<Rightarrow> (i32 \<times> u32) option \<Rightarrow> nat option \<Rightarrow>
    ('c, 'm) ClientProcess_scheme \<Rightarrow> bool \<times> ('c, 'm) ClientProcess_scheme" where
  "setApplicationState notifyBufferTerm state reply mapped s =
     (if AS_UNKNOWN = rc_currentState s then (False, s)
      else if rc_currentState s = state then (True, s)
      else case state of
             AS_RUNNING \<Rightarrow> (case initSharedMemory reply mapped s of
                 (True, s) \<Rightarrow> (True, s\<lparr>rc_currentState := state\<rparr>)
               | (False, s) \<Rightarrow> (False, s))
           | AS_INACTIVE \<Rightarrow> (True, (termSharedMemory notifyBufferTerm s)\<lparr>rc_currentState := state\<rparr>)
           | AS_UNKNOWN \<Rightarrow> (False, s))"

definition newRialtoControl :: "('c, 'm) ClientProcess_scheme \<Rightarrow> ('c, 'm) ClientProcess_scheme" where
  "newRialtoControl s = s\<lparr>rc_exists := True, rc_currentState := AS_INACTIVE, rc_shmFd := -1, rc_shmBuffer := None,
     rc_shmBufferLen := 0, rc_clientVec := []\<rparr>"

definition termControl :: "('c \<Rightarrow> 'c) \<Rightarrow> ('c, 'm) ClientProcess_scheme \<Rightarrow> ('c, 'm) ClientProcess_scheme" where
  "termControl notifyBufferTerm s =
     (let s = (if AS_RUNNING = rc_currentState s then termSharedMemory notifyBufferTerm s else s)
      in s\<lparr>rc_currentState := AS_UNKNOWN\<rparr>)"

text \<open>
  \<open>getGeneric\<close> of the factory: the living object, or a new one; \<open>ipcOk\<close> says whether the constructor gets its
  IPC object. The result says whether a pointer is returned.
\<close>

definition getGeneric :: "bool \<Rightarrow> ('c, 'm) ClientProcess_scheme \<Rightarrow> bool \<times> ('c, 'm) ClientProcess_scheme" where
  "getGeneric ipcOk s =
     (if rc_exists s then (True, s) else if ipcOk then (True, newRialtoControl s) else (False, s))"

text \<open>The shared pointers: the object is destroyed, by \<open>~RialtoControl\<close>, when the last one goes.\<close>

definition releaseManager :: "('c \<Rightarrow> 'c) \<Rightarrow> ('c, 'm) ClientProcess_scheme \<Rightarrow> ('c, 'm) ClientProcess_scheme" where
  "releaseManager notifyBufferTerm s =
     (if rc_appHolds s \<or> rc_objects s \<noteq> [] \<or> \<not> rc_exists s then s
      else (termControl notifyBufferTerm s)\<lparr>rc_exists := False\<rparr>)"

definition getRialtoControl :: "bool \<Rightarrow> ('c, 'm) ClientProcess_scheme \<Rightarrow> bool \<times> ('c, 'm) ClientProcess_scheme" where
  "getRialtoControl ipcOk s = (let (ok, s) = getGeneric ipcOk s in (ok, if ok then s\<lparr>rc_appHolds := True\<rparr> else s))"

definition dropRialtoControl :: "('c \<Rightarrow> 'c) \<Rightarrow> ('c, 'm) ClientProcess_scheme \<Rightarrow> ('c, 'm) ClientProcess_scheme" where
  "dropRialtoControl notifyBufferTerm s = releaseManager notifyBufferTerm (s\<lparr>rc_appHolds := False\<rparr>)"

section \<open>Clients of the shared memory\<close>

text \<open>
  The construction of an object that uses the shared memory, common to the media pipeline and the web audio
  player: it gets the manager and registers its address; when its own IPC object cannot be created it takes
  the registration back and throws, which releases the pointer to the manager. The destructor unregisters.
\<close>

definition constructClient :: "('c \<Rightarrow> 'c) \<Rightarrow> bool \<Rightarrow> bool \<Rightarrow> nat \<Rightarrow> 'c \<Rightarrow> ('c, 'm) ClientProcess_scheme \<Rightarrow>
    bool \<times> ('c, 'm) ClientProcess_scheme" where
  "constructClient notifyBufferTerm controlOk ipcOk this obj s =
     (let (ok, s) = getGeneric controlOk s in
      if \<not> ok then (False, s)
      else let (ok, s) = registerClientAt (Some this) s in
        if \<not> ok then (False, releaseManager notifyBufferTerm s)
        else if \<not> ipcOk then (False, releaseManager notifyBufferTerm (snd (unregisterClientAt (Some this) s)))
        else (True, s\<lparr>rc_objects := emplace this obj (rc_objects s)\<rparr>))"

definition destroyClient :: "('c \<Rightarrow> 'c) \<Rightarrow> nat \<Rightarrow> ('c, 'm) ClientProcess_scheme \<Rightarrow> ('c, 'm) ClientProcess_scheme" where
  "destroyClient notifyBufferTerm this s =
     (let (ok, s) = unregisterClientAt (Some this) s
      in releaseManager notifyBufferTerm (s\<lparr>rc_objects := erase this (rc_objects s)\<rparr>))"

section \<open>The contract of a client\<close>

text \<open>
  What the control object relies on (\<open>ISharedMemoryManagerClient\<close>): after \<open>notifyBufferTerm\<close> a client uses no
  pointer into the buffer any more. \<open>pointers\<close> are the buffer addresses an object may still write through.
\<close>

definition control_inv :: "('c \<Rightarrow> nat set) \<Rightarrow> ('c, 'm) ClientProcess_scheme \<Rightarrow> bool" where
  "control_inv pointers s \<longleftrightarrow>
     (rc_exists s \<longleftrightarrow> rc_appHolds s \<or> rc_objects s \<noteq> []) \<and>
     std_map (rc_objects s) \<and> (rc_exists s \<longrightarrow> rc_clientVec s = map fst (rc_objects s)) \<and>
     (rc_currentState s = AS_UNKNOWN \<longleftrightarrow> \<not> rc_exists s) \<and>
     (rc_currentState s = AS_RUNNING \<longleftrightarrow> rc_shmBuffer s \<noteq> None) \<and>
     rc_mappings s = (case rc_shmBuffer s of None \<Rightarrow> [] | Some a \<Rightarrow> [(a, rc_shmBufferLen s)]) \<and>
     (rc_shmBuffer s \<noteq> None \<longrightarrow> rc_shmFd s \<noteq> -1 \<and> rc_shmFd s \<in> set (rc_openFds s) \<and> rc_shmBufferLen s \<noteq> 0) \<and>
     (\<forall>(a, c) \<in> set (rc_objects s). \<forall>p \<in> pointers c. rc_shmBuffer s = Some p) \<and>
     rc_badCalls s = []"

definition newClientProcess :: "'c ClientProcess" where
  "newClientProcess = \<lparr>rc_exists = False, rc_currentState = AS_UNKNOWN, rc_shmFd = -1, rc_shmBuffer = None,
     rc_shmBufferLen = 0, rc_clientVec = [], rc_appHolds = False, rc_objects = [], rc_openFds = [],
     rc_mappings = [], rc_badCalls = []\<rparr>"

lemmas control_simps = ClientProcess.simps

definition same_control :: "('c, 'm) ClientProcess_scheme \<Rightarrow> ('c, 'm) ClientProcess_scheme \<Rightarrow> bool" where
  "same_control s s' \<longleftrightarrow> s' = s\<lparr>rc_objects := rc_objects s'\<rparr>"

lemma keys_update_values: "map fst (map (\<lambda>(a, c). (a, f a c)) xs) = map fst xs"
  by (induction xs) auto

lemma std_map_update_values: "std_map (map (\<lambda>(a, c). (a, f a c)) xs) = std_map xs"
  unfolding std_map_def keys_update_values ..

text \<open>The loop over registered clients, when every registered pointer is an object.\<close>

lemma assign_eq_map: "std_map xs \<Longrightarrow> map_of xs a = Some c \<Longrightarrow>
    assign a (f c) xs = map (\<lambda>(b, d). (b, if b = a then f d else d)) xs"
  unfolding std_map_def assign_def by (rule map_cong) (auto dest: eq_key_imp_eq_value)

lemma notify_loop:
  assumes "std_map (rc_objects s)" and "set vec \<subseteq> fst ` set (rc_objects s)" and "distinct vec"
  shows "fold (notifyClient f) vec s =
    s\<lparr>rc_objects := map (\<lambda>(a, c). (a, if a \<in> set vec then f c else c)) (rc_objects s)\<rparr>"
  using assms
proof (induction vec arbitrary: s)
  case Nil
  have "map (\<lambda>(a, c). (a, c)) (rc_objects s) = rc_objects s" by (rule map_idI) auto
  then show ?case by simp
next
  case (Cons a vec)
  then obtain c where c: "map_of (rc_objects s) a = Some c"
    by (metis insert_subset list.simps(15) map_of_eq_None_iff option.exhaust)
  have step: "notifyClient f a s = s\<lparr>rc_objects := map (\<lambda>(b, d). (b, if b = a then f d else d)) (rc_objects s)\<rparr>"
    using assign_eq_map [OF Cons.prems(1) c] by (simp add: notifyClient_def c)
  have keyset: "fst ` set (map (\<lambda>(b, d). (b, if b = a then f d else d)) (rc_objects s)) = fst ` set (rc_objects s)"
    using keys_update_values [of "\<lambda>b d. if b = a then f d else d" "rc_objects s"] by (metis list.set_map)
  have "std_map (rc_objects (notifyClient f a s))" "set vec \<subseteq> fst ` set (rc_objects (notifyClient f a s))" "distinct vec"
    using Cons.prems keyset std_map_update_values [of "\<lambda>b d. if b = a then f d else d" "rc_objects s"]
    unfolding step by simp_all
  from Cons.IH [OF this] Cons.prems(3) show ?case
    by (auto simp: step intro!: ClientProcess.equality)
qed

lemma keys_emplace: "map fst (emplace k v xs) = insort_insert k (map fst xs)" if "k \<notin> fst ` set xs"
proof -
  have "map fst (insort_key fst (k, v) ys) = insort k (map fst ys)" for ys
    by (induction ys) auto
  with that show ?thesis by (simp add: emplace_def map_of_eq_None_iff insort_insert_insort)
qed

locale shared_memory_client =
  fixes notifyBufferTerm :: "'c \<Rightarrow> 'c"
    and pointers :: "'c \<Rightarrow> nat set"
  assumes no_pointers_after_term: "pointers (notifyBufferTerm c) = {}"
begin

lemma term_shared_memory:
  assumes "control_inv pointers s" and "rc_currentState s = AS_RUNNING"
  shows "termSharedMemory notifyBufferTerm s = s\<lparr>rc_shmBuffer := None,
    rc_objects := map (\<lambda>(a, c). (a, notifyBufferTerm c)) (rc_objects s), rc_mappings := [],
    rc_openFds := remove1 (rc_shmFd s) (rc_openFds s), rc_shmFd := -1, rc_shmBufferLen := 0\<rparr>"
proof -
  have vec: "rc_clientVec s = map fst (rc_objects s)" "std_map (rc_objects s)"
    using assms by (auto simp: control_inv_def)
  have "map (\<lambda>(a, c). (a, if a \<in> fst ` set (rc_objects s) then notifyBufferTerm c else c)) (rc_objects s) =
    map (\<lambda>(a, c). (a, notifyBufferTerm c)) (rc_objects s)" by (rule map_cong) force+
  then have loop: "fold (notifyClient notifyBufferTerm) (rc_clientVec s) (s\<lparr>rc_shmBuffer := None\<rparr>) =
    s\<lparr>rc_shmBuffer := None, rc_objects := map (\<lambda>(a, c). (a, notifyBufferTerm c)) (rc_objects s)\<rparr>"
    using vec notify_loop [of "s\<lparr>rc_shmBuffer := None\<rparr>" "map fst (rc_objects s)" notifyBufferTerm]
    by (simp add: std_map_def)
  obtain a where "rc_shmBuffer s = Some a" using assms by (auto simp: control_inv_def)
  then have "rc_mappings s = [(a, rc_shmBufferLen s)]" "rc_shmBufferLen s \<noteq> 0" "rc_shmFd s \<noteq> -1" "rc_shmBuffer s = Some a"
    using assms(1) by (auto simp: control_inv_def)
  with loop show ?thesis by (simp add: termSharedMemory_def Let_def unmapBuffer_def)
qed

lemma term_inv:
  assumes "control_inv pointers s" and "rc_currentState s = AS_RUNNING"
  shows "control_inv pointers ((termSharedMemory notifyBufferTerm s)\<lparr>rc_currentState := AS_INACTIVE\<rparr>)"
proof -
  have "std_map (map (\<lambda>(a, c). (a, notifyBufferTerm c)) (rc_objects s))"
    "map fst (map (\<lambda>(a, c). (a, notifyBufferTerm c)) (rc_objects s)) = map fst (rc_objects s)"
    using assms by (simp_all only: std_map_update_values keys_update_values control_inv_def)
  then show ?thesis
    using assms unfolding term_shared_memory [OF assms]
    by (auto simp: control_inv_def no_pointers_after_term simp del: map_map)
qed

lemma init_inv:
  assumes "control_inv pointers s" and "rc_currentState s = AS_INACTIVE"
  shows "case initSharedMemory reply mapped s of
      (True, s') \<Rightarrow> control_inv pointers (s'\<lparr>rc_currentState := AS_RUNNING\<rparr>) | (False, s') \<Rightarrow> control_inv pointers s'"
proof -
  have "rc_shmBuffer s = None" "rc_mappings s = []" using assms by (auto simp: control_inv_def)
  with assms show ?thesis
    by (auto simp: initSharedMemory_def Let_def control_inv_def split: option.splits if_splits)
qed

lemma application_state_inv:
  assumes "control_inv pointers s"
  shows "control_inv pointers (snd (setApplicationState notifyBufferTerm state reply mapped s))"
proof (cases state)
  case AS_RUNNING
  show ?thesis
  proof (cases "rc_currentState s = AS_INACTIVE")
    case True
    with init_inv [OF assms True, of reply mapped] AS_RUNNING show ?thesis
      by (auto simp: setApplicationState_def assms split: prod.splits bool.splits)
  next
    case False
    with AS_RUNNING assms show ?thesis by (cases "rc_currentState s") (auto simp: setApplicationState_def)
  qed
next
  case AS_INACTIVE
  with assms term_inv [OF assms] show ?thesis by (cases "rc_currentState s") (auto simp: setApplicationState_def)
next
  case AS_UNKNOWN
  with assms show ?thesis by (auto simp: setApplicationState_def)
qed

text \<open>
  Between two operations the state may lack its last holder; releasing it then ends the control object.
\<close>

lemma release_inv:
  assumes "control_inv pointers s \<or> (\<exists>s0. control_inv pointers s0 \<and> rc_exists s0 \<and> rc_objects s0 = [] \<and>
    s = s0\<lparr>rc_appHolds := False\<rparr>)"
  shows "control_inv pointers (releaseManager notifyBufferTerm s)"
proof (cases "control_inv pointers s")
  case True
  then have "releaseManager notifyBufferTerm s = s" by (auto simp: releaseManager_def control_inv_def)
  with True show ?thesis by simp
next
  case False
  with assms obtain s0 where s0: "control_inv pointers s0" "rc_exists s0" "rc_objects s0 = []" "s = s0\<lparr>rc_appHolds := False\<rparr>"
    by blast
  have vec: "rc_clientVec s0 = []" using s0 by (simp add: control_inv_def)
  show ?thesis
  proof (cases "rc_currentState s0 = AS_RUNNING")
    case True
    have "termSharedMemory notifyBufferTerm s = (termSharedMemory notifyBufferTerm s0)\<lparr>rc_appHolds := False\<rparr>"
      using vec by (simp add: s0(4) termSharedMemory_def Let_def)
    then have "releaseManager notifyBufferTerm s =
        (termSharedMemory notifyBufferTerm s0)\<lparr>rc_appHolds := False, rc_currentState := AS_UNKNOWN, rc_exists := False\<rparr>"
      using True s0(2-) by (simp add: releaseManager_def termControl_def)
    with s0(1,3) term_shared_memory [OF s0(1) True] show ?thesis
      by (simp add: control_inv_def)
  next
    case False
    with s0 show ?thesis by (simp add: releaseManager_def termControl_def control_inv_def)
  qed
qed

lemma drop_inv:
  assumes "control_inv pointers s"
  shows "control_inv pointers (dropRialtoControl notifyBufferTerm s)"
proof (cases "rc_exists s \<and> rc_objects s = []")
  case True
  with assms show ?thesis unfolding dropRialtoControl_def by (intro release_inv) blast
next
  case False
  with assms have "control_inv pointers (s\<lparr>rc_appHolds := False\<rparr>)" by (auto simp: control_inv_def)
  then show ?thesis unfolding dropRialtoControl_def by (intro release_inv) blast
qed

lemma get_inv:
  assumes "control_inv pointers s"
  shows "control_inv pointers (snd (getRialtoControl ipcOk s))"
  using assms by (auto simp: getRialtoControl_def getGeneric_def newRialtoControl_def control_inv_def)

lemma construct_inv:
  assumes "control_inv pointers s" and "this \<notin> fst ` set (rc_objects s)" and "pointers obj = {}"
  shows "control_inv pointers (snd (constructClient notifyBufferTerm controlOk ipcOk this obj s))"
proof (cases "fst (getGeneric controlOk s)")
  case False
  then have "snd (constructClient notifyBufferTerm controlOk ipcOk this obj s) = s"
    by (auto simp: constructClient_def getGeneric_def split: if_splits)
  with assms(1) show ?thesis by simp
next
  case True
  define s1 where "s1 = snd (getGeneric controlOk s)"
  have s1: "getGeneric controlOk s = (True, s1)" using True by (simp add: s1_def prod_eq_iff)
  have eq: "rc_objects s1 = rc_objects s" "rc_clientVec s1 = map fst (rc_objects s)" "rc_exists s1" "rc_appHolds s1 = rc_appHolds s"
    and live: "control_inv pointers (s1\<lparr>rc_appHolds := True\<rparr>)"
    and same: "rc_exists s \<Longrightarrow> s1 = s"
    using s1 assms(1) by (auto simp: getGeneric_def newRialtoControl_def control_inv_def split: if_splits)
  have new: "filter (\<lambda>b. b \<noteq> this) (insort_insert this (map fst (rc_objects s))) = map fst (rc_objects s)"
  proof -
    have "filter (\<lambda>b. b \<noteq> this) (insort this ks) = ks" if "this \<notin> set ks" for ks
      using that by (induction ks) (auto simp: filter_id_conv)
    then show ?thesis using assms(2) by (simp add: insort_insert_triv insort_insert_insort)
  qed
  show ?thesis
  proof (cases ipcOk)
    case False
    have keep: "s1\<lparr>rc_clientVec := map fst (rc_objects s)\<rparr> = s1"
      using eq(2) by (intro ClientProcess.equality) simp_all
    have "snd (constructClient notifyBufferTerm controlOk ipcOk this obj s) = releaseManager notifyBufferTerm (s1\<lparr>rc_clientVec := map fst (rc_objects s)\<rparr>)"
      using False s1 eq new by (simp add: constructClient_def registerClientAt_def unregisterClientAt_def)
    note this [unfolded keep]
    moreover have "control_inv pointers s1 \<or> (\<exists>s0. control_inv pointers s0 \<and> rc_exists s0 \<and> rc_objects s0 = [] \<and>
        s1 = s0\<lparr>rc_appHolds := False\<rparr>)"
    proof (cases "rc_exists s")
      case True
      with same assms(1) show ?thesis by simp
    next
      case False
      then have "\<not> rc_appHolds s" "rc_objects s = []" using assms(1) by (auto simp: control_inv_def)
      then show ?thesis using live eq by (intro disjI2 exI [of _ "s1\<lparr>rc_appHolds := True\<rparr>"]) simp
    qed
    ultimately show ?thesis using release_inv by simp
  next
    case True
    have keys: "map fst (emplace this obj (rc_objects s)) = insort_insert this (map fst (rc_objects s))"
      using assms(2) keys_emplace by simp
    have "snd (constructClient notifyBufferTerm controlOk ipcOk this obj s) =
        s1\<lparr>rc_clientVec := insort_insert this (map fst (rc_objects s)), rc_objects := emplace this obj (rc_objects s)\<rparr>"
      using True s1 eq by (simp add: constructClient_def registerClientAt_def)
    moreover have "set (emplace this obj (rc_objects s)) = insert (this, obj) (set (rc_objects s))"
      using assms(2) by (simp add: emplace_def map_of_eq_None_iff set_insort_key)
    ultimately show ?thesis
      using live eq keys assms(3) std_map_emplace [of "rc_objects s" this obj] by (auto simp: control_inv_def)
  qed
qed

lemma destroy_inv:
  assumes "control_inv pointers s" and "this \<in> fst ` set (rc_objects s)"
  shows "control_inv pointers (destroyClient notifyBufferTerm this s)"
proof -
  define s1 where "s1 = s\<lparr>rc_clientVec := map fst (erase this (rc_objects s)), rc_objects := erase this (rc_objects s)\<rparr>"
  have live: "rc_exists s" and vec: "rc_clientVec s = map fst (rc_objects s)"
    using assms by (auto simp: control_inv_def)
  have "filter (\<lambda>b. b \<noteq> this) (map fst (rc_objects s)) = map fst (erase this (rc_objects s))"
    by (simp add: erase_def filter_map comp_def)
  then have "destroyClient notifyBufferTerm this s = releaseManager notifyBufferTerm s1"
    by (simp add: destroyClient_def unregisterClientAt_def vec s1_def)
  moreover have "control_inv pointers (s1\<lparr>rc_appHolds := True\<rparr>)"
    using assms(1) live std_map_erase [of "rc_objects s" this] by (auto simp: s1_def control_inv_def erase_def)
  then have "control_inv pointers s1 \<or> (\<exists>s0. control_inv pointers s0 \<and> rc_exists s0 \<and> rc_objects s0 = [] \<and>
      s1 = s0\<lparr>rc_appHolds := False\<rparr>)"
    using live by (cases "rc_appHolds s \<or> erase this (rc_objects s) \<noteq> []")
      (auto simp: s1_def control_inv_def intro!: exI [of _ "s1\<lparr>rc_appHolds := True\<rparr>"])
  ultimately show ?thesis using release_inv by simp
qed

end

end
