(* ===== verification/Client_Library.thy ===== *)
theory Client_Library
  imports Client_Control Media_Pipeline_Server Web_Audio_Server Media_Keys
begin

text \<open>
  The client library an application links with (\<open>media/client/main/source\<close>): media pipelines, web audio players
  and media keys over the shared memory of \<open>RialtoControl\<close> and the process-wide map of selected keys. Remote
  calls are recorded in the order they are made, their results are arguments; events from the server are the
  \<open>notify\<close> operations. A frame writer remembers the address of the mapping it was created for.
\<close>

section \<open>Attached sources and selected keys\<close>

definition attachedAdd :: "u32 \<Rightarrow> MediaSourceType \<Rightarrow> (u32 \<times> MediaSourceType) list \<Rightarrow> (u32 \<times> MediaSourceType) list" where
  "attachedAdd i mediaSourceType m = emplace i mediaSourceType m"

definition attachedRemove :: "u32 \<Rightarrow> (u32 \<times> MediaSourceType) list \<Rightarrow> (u32 \<times> MediaSourceType) list" where
  "attachedRemove i m = erase i m"

definition attachedGet :: "u32 \<Rightarrow> (u32 \<times> MediaSourceType) list \<Rightarrow> MediaSourceType" where
  "attachedGet i m = (case map_of m i of None \<Rightarrow> MST_UNKNOWN | Some t \<Rightarrow> t)"

text \<open>The process-wide \<open>KeyIdMap\<close>: the key selected for each key session.\<close>

type_synonym KeyIdMap = "(int \<times> u8 list) list"

definition keyAddSession :: "int \<Rightarrow> KeyIdMap \<Rightarrow> KeyIdMap" where
  "keyAddSession keySessionId m = emplace keySessionId [] m"

definition keyUpdate :: "int \<Rightarrow> u8 list \<Rightarrow> KeyIdMap \<Rightarrow> bool \<times> KeyIdMap" where
  "keyUpdate keySessionId keyId m =
     (case map_of m keySessionId of None \<Rightarrow> (False, m) | Some _ \<Rightarrow> (True, assign keySessionId keyId m))"

definition keyGet :: "int \<Rightarrow> KeyIdMap \<Rightarrow> u8 list" where
  "keyGet keySessionId m = (case map_of m keySessionId of None \<Rightarrow> [] | Some k \<Rightarrow> k)"

definition keyErase :: "int \<Rightarrow> KeyIdMap \<Rightarrow> KeyIdMap" where
  "keyErase keySessionId m = erase keySessionId m"

section \<open>Media pipeline\<close>

datatype ClientState = CS_IDLE | CS_BUFFERING | CS_PLAYING | CS_SEEKING | CS_FAILURE | CS_END_OF_STREAM

record NeedDataRequest =
  nr_shmInfo :: MediaPlayerShmInfo
  nr_frameWriter :: "(nat \<times> FrameWriter) option"

datatype PipelineIpcCall =
    PI_load MediaType string string | PI_attachSource MediaSource | PI_removeSource i32
  | PI_play | PI_pause | PI_stop | PI_setPlaybackRate double | PI_setPosition i64 | PI_getPosition
  | PI_setVideoWindow u32 u32 u32 u32 | PI_haveData MediaSourceStatus u32 u32
  | PI_renderFrame | PI_setVolume double | PI_getVolume

text \<open>The calls of \<open>IMediaPipelineClient\<close>; the application gets no shared memory information with a request.\<close>

datatype AppNotice =
    AN_playbackState PlaybackState | AN_position i64 | AN_networkState NetworkState
  | AN_needMediaData i32 nat u32 | AN_qos i32 QosInfo

datatype PipelineClientEvent = ToServer PipelineIpcCall | ToApp AppNotice

text \<open>\<open>mp_client\<close> says whether the weak pointer to the application's client can be locked.\<close>

record ClientPipeline =
  mp_currentState :: ClientState
  mp_needDataRequestMap :: "(u32 \<times> NeedDataRequest) list"
  mp_attachedSources :: "(u32 \<times> MediaSourceType) list"
  mp_client :: bool
  mp_out :: "PipelineClientEvent list"

definition newClientPipeline :: "bool \<Rightarrow> ClientPipeline" where
  "newClientPipeline client = \<lparr>mp_currentState = CS_IDLE, mp_needDataRequestMap = [], mp_attachedSources = [],
     mp_client = client, mp_out = []\<rparr>"

definition ipc :: "PipelineIpcCall \<Rightarrow> ClientPipeline \<Rightarrow> ClientPipeline" where
  "ipc call p = p\<lparr>mp_out := mp_out p @ [ToServer call]\<rparr>"

definition tellApp :: "AppNotice \<Rightarrow> ClientPipeline \<Rightarrow> ClientPipeline" where
  "tellApp n p = (if mp_client p then p\<lparr>mp_out := mp_out p @ [ToApp n]\<rparr> else p)"

definition clLoad :: "MediaType \<Rightarrow> string \<Rightarrow> string \<Rightarrow> bool \<Rightarrow> ClientPipeline \<Rightarrow> bool \<times> ClientPipeline" where
  "clLoad type mimeType url reply p = (reply, ipc (PI_load type mimeType url) p)"

text \<open>\<open>reply\<close> is the source id the server assigned, \<open>None\<close> when the call fails.\<close>

definition clAttachSource :: "MediaSource \<Rightarrow> i32 option \<Rightarrow> ClientPipeline \<Rightarrow> (bool \<times> MediaSource) \<times> ClientPipeline" where
  "clAttachSource source reply p =
     (let p = ipc (PI_attachSource source) p in
      case reply of
        None \<Rightarrow> ((False, source), p)
      | Some sourceId \<Rightarrow> ((True, source\<lparr>ms_id := sourceId\<rparr>),
          p\<lparr>mp_attachedSources := attachedAdd sourceId (ms_type source) (mp_attachedSources p)\<rparr>))"

definition clRemoveSource :: "i32 \<Rightarrow> bool \<Rightarrow> ClientPipeline \<Rightarrow> bool \<times> ClientPipeline" where
  "clRemoveSource i reply p =
     (reply, ipc (PI_removeSource i) (p\<lparr>mp_attachedSources := attachedRemove i (mp_attachedSources p)\<rparr>))"

definition clPlay :: "bool \<Rightarrow> ClientPipeline \<Rightarrow> bool \<times> ClientPipeline" where
  "clPlay reply p = (reply, ipc PI_play p)"

definition clPause :: "bool \<Rightarrow> ClientPipeline \<Rightarrow> bool \<times> ClientPipeline" where
  "clPause reply p = (reply, ipc PI_pause p)"

definition clStop :: "bool \<Rightarrow> ClientPipeline \<Rightarrow> bool \<times> ClientPipeline" where
  "clStop reply p = (reply, ipc PI_stop (p\<lparr>mp_currentState := CS_IDLE\<rparr>))"

definition clSetPlaybackRate :: "double \<Rightarrow> bool \<Rightarrow> ClientPipeline \<Rightarrow> bool \<times> ClientPipeline" where
  "clSetPlaybackRate rate reply p = (reply, ipc (PI_setPlaybackRate rate) p)"

definition handleSetPosition :: "i64 \<Rightarrow> bool \<Rightarrow> ClientPipeline \<Rightarrow> bool \<times> ClientPipeline" where
  "handleSetPosition position reply p = (reply, ipc (PI_setPosition position) (p\<lparr>mp_needDataRequestMap := []\<rparr>))"

definition clSetPosition :: "i64 \<Rightarrow> bool \<Rightarrow> ClientPipeline \<Rightarrow> bool \<times> ClientPipeline" where
  "clSetPosition position reply p =
     (case mp_currentState p of
        CS_PLAYING \<Rightarrow> handleSetPosition position reply p
      | CS_BUFFERING \<Rightarrow> handleSetPosition position reply p
      | CS_SEEKING \<Rightarrow> handleSetPosition position reply p
      | CS_END_OF_STREAM \<Rightarrow> handleSetPosition position reply p
      | _ \<Rightarrow> (False, p))"

definition clGetPosition :: "i64 option \<Rightarrow> ClientPipeline \<Rightarrow> i64 option \<times> ClientPipeline" where
  "clGetPosition reply p = (reply, ipc PI_getPosition p)"

definition clSetVideoWindow :: "u32 \<Rightarrow> u32 \<Rightarrow> u32 \<Rightarrow> u32 \<Rightarrow> bool \<Rightarrow> ClientPipeline \<Rightarrow> bool \<times> ClientPipeline" where
  "clSetVideoWindow x y width height reply p = (reply, ipc (PI_setVideoWindow x y width height) p)"

definition handleHaveData :: "MediaSourceStatus \<Rightarrow> u32 \<Rightarrow> bool \<Rightarrow> ClientPipeline \<Rightarrow> bool \<times> ClientPipeline" where
  "handleHaveData status needDataRequestId reply p =
     (case map_of (mp_needDataRequestMap p) needDataRequestId of
        None \<Rightarrow> (False, p)
      | Some needDataRequest \<Rightarrow>
          let p = p\<lparr>mp_needDataRequestMap := erase needDataRequestId (mp_needDataRequestMap p)\<rparr>;
              numFrames = (case nr_frameWriter needDataRequest of Some (_, w) \<Rightarrow> getNumFrames w | None \<Rightarrow> 0)
          in (reply, ipc (PI_haveData status numFrames needDataRequestId) p))"

definition discardNeedDataRequest :: "u32 \<Rightarrow> ClientPipeline \<Rightarrow> ClientPipeline" where
  "discardNeedDataRequest needDataRequestId p =
     (case map_of (mp_needDataRequestMap p) needDataRequestId of
        None \<Rightarrow> p
      | Some _ \<Rightarrow> p\<lparr>mp_needDataRequestMap := erase needDataRequestId (mp_needDataRequestMap p)\<rparr>)"

definition clHaveData :: "MediaSourceStatus \<Rightarrow> u32 \<Rightarrow> bool \<Rightarrow> ClientPipeline \<Rightarrow> bool \<times> ClientPipeline" where
  "clHaveData status needDataRequestId reply p =
     (case mp_currentState p of
        CS_BUFFERING \<Rightarrow> handleHaveData status needDataRequestId reply p
      | CS_PLAYING \<Rightarrow> handleHaveData status needDataRequestId reply p
      | CS_SEEKING \<Rightarrow> (True, discardNeedDataRequest needDataRequestId p)
      | _ \<Rightarrow> (False, discardNeedDataRequest needDataRequestId p))"

text \<open>
  \<open>shmBuffer\<close> is what \<open>getSharedMemoryBuffer\<close> returns and \<open>m\<close> the memory behind it, \<open>version\<close> the frame format
  of the writer factory, \<open>codec\<close> the serialisation of the metadata. The segment is the application's; its key
  id is replaced in place.
\<close>

definition withSelectedKey :: "KeyIdMap \<Rightarrow> MediaSegment \<Rightarrow> MediaSegment" where
  "withSelectedKey keyIds seg =
     (if m_encrypted seg then
        let keyId = keyGet (sint (m_mediaKeySessionId seg)) keyIds
        in if keyId \<noteq> [] then seg\<lparr>m_keyId := keyId\<rparr> else seg
      else seg)"

definition writeWith :: "codec \<Rightarrow> u32 \<Rightarrow> nat \<Rightarrow> MediaSegment \<Rightarrow> NeedDataRequest \<Rightarrow> ClientPipeline \<Rightarrow> mem \<times> FrameWriter \<Rightarrow>
    AddSegmentStatus \<times> ClientPipeline \<times> mem" where
  "writeWith pb needDataRequestId buffer seg request p w =
     (let (status, m, w) = writeFrame pb seg w
      in (status, p\<lparr>mp_needDataRequestMap := assign needDataRequestId (request\<lparr>nr_frameWriter := Some (buffer, w)\<rparr>)
                      (mp_needDataRequestMap p)\<rparr>, m))"

definition clAddSegment :: "codec \<Rightarrow> int \<Rightarrow> KeyIdMap \<Rightarrow> nat option \<Rightarrow> u32 \<Rightarrow> MediaSegment option \<Rightarrow> ClientPipeline \<Rightarrow> mem \<Rightarrow>
    (AddSegmentStatus \<times> MediaSegment option) \<times> ClientPipeline \<times> mem" where
  "clAddSegment pb version keyIds shmBuffer needDataRequestId mediaSegment p m =
     (case mediaSegment of
        None \<Rightarrow> ((ASS_ERROR, None), p, m)
      | Some seg \<Rightarrow>
        if m_data seg = None then ((ASS_ERROR, Some seg), p, m)
        else case map_of (mp_needDataRequestMap p) needDataRequestId of
          None \<Rightarrow> ((ASS_ERROR, Some seg), p, m)
        | Some request \<Rightarrow>
          case shmBuffer of
            None \<Rightarrow> ((ASS_ERROR, Some seg), p, m)
          | Some buffer \<Rightarrow>
            let seg = withSelectedKey keyIds seg in
            case nr_frameWriter request of
              Some (base, w) \<Rightarrow>
                let (status, p, m) = writeWith pb needDataRequestId base seg request p (m, w) in ((status, Some seg), p, m)
            | None \<Rightarrow>
                if MST_UNKNOWN \<noteq> m_type seg then
                  let (status, p, m) = writeWith pb needDataRequestId buffer seg request p
                                         (createFrameWriter version (nr_shmInfo request) m)
                  in ((status, Some seg), p, m)
                else ((ASS_ERROR, Some seg), p, m))"

definition clRenderFrame :: "bool \<Rightarrow> ClientPipeline \<Rightarrow> bool \<times> ClientPipeline" where
  "clRenderFrame reply p = (reply, ipc PI_renderFrame p)"

definition clSetVolume :: "double \<Rightarrow> bool \<Rightarrow> ClientPipeline \<Rightarrow> bool \<times> ClientPipeline" where
  "clSetVolume volume reply p = (reply, ipc (PI_setVolume volume) p)"

definition clGetVolume :: "double option \<Rightarrow> ClientPipeline \<Rightarrow> double option \<times> ClientPipeline" where
  "clGetVolume reply p = (reply, ipc PI_getVolume p)"

subsection \<open>Events from the server\<close>

definition updateNetworkState :: "NetworkState \<Rightarrow> ClientPipeline \<Rightarrow> ClientPipeline" where
  "updateNetworkState state p =
     (case state of
        NS_BUFFERING \<Rightarrow> p\<lparr>mp_currentState := CS_BUFFERING\<rparr>
      | NS_BUFFERING_PROGRESS \<Rightarrow> p\<lparr>mp_currentState := CS_BUFFERING\<rparr>
      | NS_STALLED \<Rightarrow> p\<lparr>mp_currentState := CS_BUFFERING\<rparr>
      | NS_FORMAT_ERROR \<Rightarrow> p\<lparr>mp_currentState := CS_FAILURE\<rparr>
      | NS_NETWORK_ERROR \<Rightarrow> p\<lparr>mp_currentState := CS_FAILURE\<rparr>
      | NS_DECODE_ERROR \<Rightarrow> p\<lparr>mp_currentState := CS_FAILURE\<rparr>
      | _ \<Rightarrow> p)"

definition updatePlaybackState :: "PlaybackState \<Rightarrow> ClientPipeline \<Rightarrow> ClientPipeline" where
  "updatePlaybackState state p =
     (case state of
        PS_PLAYING \<Rightarrow> p\<lparr>mp_currentState := CS_PLAYING\<rparr>
      | PS_PAUSED \<Rightarrow> p\<lparr>mp_currentState := CS_PLAYING\<rparr>
      | PS_SEEKING \<Rightarrow> p\<lparr>mp_currentState := CS_SEEKING\<rparr>
      | PS_STOPPED \<Rightarrow> p\<lparr>mp_currentState := CS_IDLE\<rparr>
      | PS_FLUSHED \<Rightarrow> p\<lparr>mp_currentState := CS_BUFFERING\<rparr>
      | PS_END_OF_STREAM \<Rightarrow> p\<lparr>mp_currentState := CS_END_OF_STREAM\<rparr>
      | PS_FAILURE \<Rightarrow> p\<lparr>mp_currentState := CS_FAILURE\<rparr>
      | _ \<Rightarrow> p)"

definition clNotifyPlaybackState :: "PlaybackState \<Rightarrow> ClientPipeline \<Rightarrow> ClientPipeline" where
  "clNotifyPlaybackState state p = tellApp (AN_playbackState state) (updatePlaybackState state p)"

definition clNotifyPosition :: "i64 \<Rightarrow> ClientPipeline \<Rightarrow> ClientPipeline" where
  "clNotifyPosition position p = tellApp (AN_position position) p"

definition clNotifyNetworkState :: "NetworkState \<Rightarrow> ClientPipeline \<Rightarrow> ClientPipeline" where
  "clNotifyNetworkState state p = tellApp (AN_networkState state) (updateNetworkState state p)"

text \<open>\<open>m_needDataRequestMap[requestId] = needDataRequest\<close> replaces an entry with the same id.\<close>

definition storeRequest :: "u32 \<Rightarrow> NeedDataRequest \<Rightarrow> (u32 \<times> NeedDataRequest) list \<Rightarrow> (u32 \<times> NeedDataRequest) list" where
  "storeRequest requestId r m = assign requestId r (emplace requestId r m)"

definition clNotifyNeedMediaData :: "i32 \<Rightarrow> nat \<Rightarrow> u32 \<Rightarrow> MediaPlayerShmInfo \<Rightarrow> ClientPipeline \<Rightarrow> ClientPipeline" where
  "clNotifyNeedMediaData sourceId frameCount requestId shmInfo p =
     (if MST_UNKNOWN = attachedGet sourceId (mp_attachedSources p) then p
      else if mp_currentState p \<in> {CS_BUFFERING, CS_PLAYING} then
        tellApp (AN_needMediaData sourceId frameCount requestId)
          (p\<lparr>mp_needDataRequestMap := storeRequest requestId \<lparr>nr_shmInfo = shmInfo, nr_frameWriter = None\<rparr>
               (mp_needDataRequestMap p)\<rparr>)
      else p)"

definition clNotifyBufferTerm :: "ClientPipeline \<Rightarrow> ClientPipeline" where
  "clNotifyBufferTerm p = p\<lparr>mp_needDataRequestMap := []\<rparr>"

definition clNotifyQos :: "i32 \<Rightarrow> QosInfo \<Rightarrow> ClientPipeline \<Rightarrow> ClientPipeline" where
  "clNotifyQos sourceId qosInfo p = tellApp (AN_qos sourceId qosInfo) p"

section \<open>Web audio player\<close>

datatype WebAudioIpcCall =
    WI_play | WI_pause | WI_setEos | WI_getBufferAvailable | WI_getBufferDelay | WI_writeBuffer u32
  | WI_getDeviceInfo | WI_setVolume double | WI_getVolume

datatype WebAudioClientEvent = ToAudioServer WebAudioIpcCall | ToAudioApp WebAudioPlayerState

record ClientWebAudio =
  wp_bytesPerFrame :: u32
  wp_webAudioShmInfo :: "WebAudioShmInfo option"
  wp_client :: bool
  wp_out :: "WebAudioClientEvent list"

text \<open>
  The part of the constructor before the shared memory manager is fetched; \<open>None\<close> is an exception. A
  \<open>CHAR_BIT\<close> is 8.
\<close>

definition newClientWebAudio :: "bool \<Rightarrow> string \<Rightarrow> WebAudioPcmConfig option \<Rightarrow> ClientWebAudio option" where
  "newClientWebAudio client audioMimeType config =
     (let w = \<lparr>wp_bytesPerFrame = 0, wp_webAudioShmInfo = None, wp_client = client, wp_out = []\<rparr> in
      if audioMimeType = ''audio/x-raw'' then
        case config of
          None \<Rightarrow> None
        | Some pcm \<Rightarrow>
            let w = w\<lparr>wp_bytesPerFrame := pcm_channels pcm * (pcm_sampleSize pcm div 8)\<rparr>
            in if wp_bytesPerFrame w = 0 then None else Some w
      else Some w)"

definition audioIpc :: "WebAudioIpcCall \<Rightarrow> ClientWebAudio \<Rightarrow> ClientWebAudio" where
  "audioIpc call w = w\<lparr>wp_out := wp_out w @ [ToAudioServer call]\<rparr>"

definition waPlay :: "bool \<Rightarrow> ClientWebAudio \<Rightarrow> bool \<times> ClientWebAudio" where
  "waPlay reply w = (reply, audioIpc WI_play w)"

definition waPause :: "bool \<Rightarrow> ClientWebAudio \<Rightarrow> bool \<times> ClientWebAudio" where
  "waPause reply w = (reply, audioIpc WI_pause w)"

definition waSetEos :: "bool \<Rightarrow> ClientWebAudio \<Rightarrow> bool \<times> ClientWebAudio" where
  "waSetEos reply w = (reply, audioIpc WI_setEos w)"

text \<open>The remote call fills the structure only when it succeeds; a new structure is zero.\<close>

definition waGetBufferAvailable :: "(u32 \<times> WebAudioShmInfo) option \<Rightarrow> ClientWebAudio \<Rightarrow> u32 option \<times> ClientWebAudio" where
  "waGetBufferAvailable reply w =
     (let w = (if wp_webAudioShmInfo w = None
               then w\<lparr>wp_webAudioShmInfo := Some \<lparr>offsetMain = 0, lengthMain = 0, offsetWrap = 0, lengthWrap = 0\<rparr>\<rparr> else w);
          w = audioIpc WI_getBufferAvailable w
      in case reply of None \<Rightarrow> (None, w) | Some (availableFrames, info) \<Rightarrow>
           (Some availableFrames, w\<lparr>wp_webAudioShmInfo := Some info\<rparr>))"

definition waGetBufferDelay :: "u32 option \<Rightarrow> ClientWebAudio \<Rightarrow> u32 option \<times> ClientWebAudio" where
  "waGetBufferDelay reply w = (reply, audioIpc WI_getBufferDelay w)"

definition waWriteBuffer :: "nat option \<Rightarrow> u32 \<Rightarrow> mem \<Rightarrow> bool \<Rightarrow> ClientWebAudio \<Rightarrow> mem \<Rightarrow> bool \<times> ClientWebAudio \<times> mem" where
  "waWriteBuffer shmBuffer numberOfFrames data reply w m =
     (case clientWriteBuffer (wp_bytesPerFrame w) (wp_webAudioShmInfo w) (shmBuffer \<noteq> None) numberOfFrames data m of
        None \<Rightarrow> (False, w, m)
      | Some m \<Rightarrow> (reply, audioIpc (WI_writeBuffer numberOfFrames) w, m))"

definition waGetDeviceInfo :: "(u32 \<times> u32 \<times> bool) option \<Rightarrow> ClientWebAudio \<Rightarrow> (u32 \<times> u32 \<times> bool) option \<times> ClientWebAudio" where
  "waGetDeviceInfo reply w = (reply, audioIpc WI_getDeviceInfo w)"

definition waSetVolume :: "double \<Rightarrow> bool \<Rightarrow> ClientWebAudio \<Rightarrow> bool \<times> ClientWebAudio" where
  "waSetVolume volume reply w = (reply, audioIpc (WI_setVolume volume) w)"

definition waGetVolume :: "double option \<Rightarrow> ClientWebAudio \<Rightarrow> double option \<times> ClientWebAudio" where
  "waGetVolume reply w = (reply, audioIpc WI_getVolume w)"

definition waNotifyState :: "WebAudioPlayerState \<Rightarrow> ClientWebAudio \<Rightarrow> ClientWebAudio" where
  "waNotifyState state w = (if wp_client w then w\<lparr>wp_out := wp_out w @ [ToAudioApp state]\<rparr> else w)"

definition waNotifyBufferTerm :: "ClientWebAudio \<Rightarrow> ClientWebAudio" where
  "waNotifyBufferTerm w = w"

section \<open>The process\<close>

text \<open>
  The clients of the shared memory manager, and \<open>notifyBufferTerm\<close> as the virtual call on one of them.
\<close>

datatype ClientObject = PipelineObject ClientPipeline | AudioObject ClientWebAudio

fun notifyBufferTermOf :: "ClientObject \<Rightarrow> ClientObject" where
  "notifyBufferTermOf (PipelineObject p) = PipelineObject (clNotifyBufferTerm p)"
| "notifyBufferTermOf (AudioObject w) = AudioObject (waNotifyBufferTerm w)"

text \<open>The mappings a pipeline's frame writers point into; a web audio player asks for the buffer on each write.\<close>

definition request_pointers :: "(u32 \<times> NeedDataRequest) list \<Rightarrow> nat set" where
  "request_pointers m = {a. \<exists>(r, q) \<in> set m. \<exists>w. nr_frameWriter q = Some (a, w)}"

fun buffer_pointers :: "ClientObject \<Rightarrow> nat set" where
  "buffer_pointers (PipelineObject p) = request_pointers (mp_needDataRequestMap p)"
| "buffer_pointers (AudioObject w) = {}"

interpretation client: shared_memory_client notifyBufferTermOf buffer_pointers
proof
  fix c
  show "buffer_pointers (notifyBufferTermOf c) = {}"
    by (cases c) (simp_all add: clNotifyBufferTerm_def request_pointers_def)
qed

text \<open>
  \<open>ap_mem\<close> is the content of the mapped buffer, \<open>ap_version\<close> the frame format of the writer factory, \<open>ap_keyIds\<close> the \<open>KeyIdMap\<close>.
\<close>

record ClientApp = "ClientObject ClientProcess" +
  ap_keyIds :: KeyIdMap
  ap_mem :: mem
  ap_version :: int

definition newClientApp :: "int \<Rightarrow> mem \<Rightarrow> ClientApp" where
  "newClientApp version m = ClientProcess.extend newClientProcess \<lparr>ap_keyIds = [], ap_mem = m, ap_version = version\<rparr>"

definition clCreateMediaPipeline :: "bool \<Rightarrow> bool \<Rightarrow> bool \<Rightarrow> nat \<Rightarrow> ClientApp \<Rightarrow> bool \<times> ClientApp" where
  "clCreateMediaPipeline client controlOk ipcOk this s =
     constructClient notifyBufferTermOf controlOk ipcOk this (PipelineObject (newClientPipeline client)) s"

text \<open>
  Unlike the pipeline, the web audio player checks its IPC factory after it has registered itself, and throws
  without taking the registration back.
\<close>

definition clCreateWebAudioPlayer :: "bool \<Rightarrow> string \<Rightarrow> WebAudioPcmConfig option \<Rightarrow> bool \<Rightarrow> bool \<Rightarrow> bool \<Rightarrow> nat \<Rightarrow> ClientApp \<Rightarrow>
    bool \<times> ClientApp" where
  "clCreateWebAudioPlayer client audioMimeType config controlOk factoryOk ipcOk this s =
     (case newClientWebAudio client audioMimeType config of
        None \<Rightarrow> (False, s)
      | Some w \<Rightarrow>
          if factoryOk then constructClient notifyBufferTermOf controlOk ipcOk this (AudioObject w) s
          else let (ok, s) = getGeneric controlOk s in
            if \<not> ok then (False, s)
            else (False, releaseManager notifyBufferTermOf (snd (registerClientAt (Some this) s))))"

section \<open>Media keys\<close>

text \<open>The methods of \<open>MediaKeysIpc\<close>. \<open>selectKeyId\<close> is one of them that the library does not call: it keeps the key itself.\<close>

datatype KeysIpcCall =
    KI_containsKey int "u8 list" | KI_createKeySession KeySessionType bool
  | KI_generateRequest int InitDataType "u8 list" | KI_loadSession int | KI_updateSession int "u8 list"
  | KI_setDrmHeader int "u8 list" | KI_closeKeySession int | KI_removeKeySession int
  | KI_deleteDrmStore | KI_deleteKeyStore | KI_getDrmStoreHash | KI_getKeyStoreHash
  | KI_getLdlSessionsLimit | KI_getLastDrmError int | KI_getDrmTime | KI_getCdmKeySessionId int
  | KI_selectKeyId int "u8 list"

record ClientMediaKeys =
  mk_keySystem :: string
  mk_out :: "KeysIpcCall list"

definition newClientMediaKeys :: "string \<Rightarrow> bool \<Rightarrow> ClientMediaKeys option" where
  "newClientMediaKeys keySystem ipcOk = (if ipcOk then Some \<lparr>mk_keySystem = keySystem, mk_out = []\<rparr> else None)"

definition keysIpc :: "KeysIpcCall \<Rightarrow> ClientMediaKeys \<Rightarrow> ClientMediaKeys" where
  "keysIpc call k = k\<lparr>mk_out := mk_out k @ [call]\<rparr>"

definition clSelectKeyId :: "int \<Rightarrow> u8 list \<Rightarrow> ClientMediaKeys \<Rightarrow> KeyIdMap \<Rightarrow> MediaKeyErrorStatus \<times> ClientMediaKeys \<times> KeyIdMap" where
  "clSelectKeyId keySessionId keyId k m =
     (let (ok, m) = keyUpdate keySessionId keyId m in (if ok then MKE_OK else MKE_FAIL, k, m))"

text \<open>\<open>reply\<close> is the status and the key session id the server answers with.\<close>

definition clCreateKeySession :: "KeySessionType \<Rightarrow> bool \<Rightarrow> MediaKeyErrorStatus \<times> int \<Rightarrow> ClientMediaKeys \<Rightarrow> KeyIdMap \<Rightarrow>
    MediaKeyErrorStatus \<times> ClientMediaKeys \<times> KeyIdMap" where
  "clCreateKeySession sessionType isLDL reply k m =
     (let (result, keySessionId) = reply; k = keysIpc (KI_createKeySession sessionType isLDL) k
      in (result, k, if kNetflixKeySystem = mk_keySystem k \<and> MKE_OK = result then keyAddSession keySessionId m else m))"

definition clCloseKeySession :: "int \<Rightarrow> MediaKeyErrorStatus \<Rightarrow> ClientMediaKeys \<Rightarrow> KeyIdMap \<Rightarrow>
    MediaKeyErrorStatus \<times> ClientMediaKeys \<times> KeyIdMap" where
  "clCloseKeySession keySessionId reply k m =
     (reply, keysIpc (KI_closeKeySession keySessionId) k,
      if kNetflixKeySystem = mk_keySystem k then keyErase keySessionId m else m)"

definition clContainsKey :: "int \<Rightarrow> u8 list \<Rightarrow> bool \<Rightarrow> ClientMediaKeys \<Rightarrow> bool \<times> ClientMediaKeys" where
  "clContainsKey keySessionId keyId reply k = (reply, keysIpc (KI_containsKey keySessionId keyId) k)"

definition clGenerateRequest :: "int \<Rightarrow> InitDataType \<Rightarrow> u8 list \<Rightarrow> MediaKeyErrorStatus \<Rightarrow> ClientMediaKeys \<Rightarrow>
    MediaKeyErrorStatus \<times> ClientMediaKeys" where
  "clGenerateRequest keySessionId initDataType initData reply k =
     (reply, keysIpc (KI_generateRequest keySessionId initDataType initData) k)"

definition clLoadSession :: "int \<Rightarrow> MediaKeyErrorStatus \<Rightarrow> ClientMediaKeys \<Rightarrow> MediaKeyErrorStatus \<times> ClientMediaKeys" where
  "clLoadSession keySessionId reply k = (reply, keysIpc (KI_loadSession keySessionId) k)"

definition clUpdateSession :: "int \<Rightarrow> u8 list \<Rightarrow> MediaKeyErrorStatus \<Rightarrow> ClientMediaKeys \<Rightarrow> MediaKeyErrorStatus \<times> ClientMediaKeys" where
  "clUpdateSession keySessionId responseData reply k = (reply, keysIpc (KI_updateSession keySessionId responseData) k)"

definition clSetDrmHeader :: "int \<Rightarrow> u8 list \<Rightarrow> MediaKeyErrorStatus \<Rightarrow> ClientMediaKeys \<Rightarrow> MediaKeyErrorStatus \<times> ClientMediaKeys" where
  "clSetDrmHeader keySessionId requestData reply k = (reply, keysIpc (KI_setDrmHeader keySessionId requestData) k)"

definition clRemoveKeySession :: "int \<Rightarrow> MediaKeyErrorStatus \<Rightarrow> ClientMediaKeys \<Rightarrow> MediaKeyErrorStatus \<times> ClientMediaKeys" where
  "clRemoveKeySession keySessionId reply k = (reply, keysIpc (KI_removeKeySession keySessionId) k)"

definition clDeleteDrmStore :: "MediaKeyErrorStatus \<Rightarrow> ClientMediaKeys \<Rightarrow> MediaKeyErrorStatus \<times> ClientMediaKeys" where
  "clDeleteDrmStore reply k = (reply, keysIpc KI_deleteDrmStore k)"

definition clDeleteKeyStore :: "MediaKeyErrorStatus \<Rightarrow> ClientMediaKeys \<Rightarrow> MediaKeyErrorStatus \<times> ClientMediaKeys" where
  "clDeleteKeyStore reply k = (reply, keysIpc KI_deleteKeyStore k)"

definition clGetDrmStoreHash :: "MediaKeyErrorStatus \<times> u8 list \<Rightarrow> ClientMediaKeys \<Rightarrow> (MediaKeyErrorStatus \<times> u8 list) \<times> ClientMediaKeys" where
  "clGetDrmStoreHash reply k = (reply, keysIpc KI_getDrmStoreHash k)"

definition clGetKeyStoreHash :: "MediaKeyErrorStatus \<times> u8 list \<Rightarrow> ClientMediaKeys \<Rightarrow> (MediaKeyErrorStatus \<times> u8 list) \<times> ClientMediaKeys" where
  "clGetKeyStoreHash reply k = (reply, keysIpc KI_getKeyStoreHash k)"

definition clGetLdlSessionsLimit :: "MediaKeyErrorStatus \<times> u32 \<Rightarrow> ClientMediaKeys \<Rightarrow> (MediaKeyErrorStatus \<times> u32) \<times> ClientMediaKeys" where
  "clGetLdlSessionsLimit reply k = (reply, keysIpc KI_getLdlSessionsLimit k)"

definition clGetLastDrmError :: "int \<Rightarrow> MediaKeyErrorStatus \<times> u32 \<Rightarrow> ClientMediaKeys \<Rightarrow> (MediaKeyErrorStatus \<times> u32) \<times> ClientMediaKeys" where
  "clGetLastDrmError keySessionId reply k = (reply, keysIpc (KI_getLastDrmError keySessionId) k)"

definition clGetDrmTime :: "MediaKeyErrorStatus \<times> u64 \<Rightarrow> ClientMediaKeys \<Rightarrow> (MediaKeyErrorStatus \<times> u64) \<times> ClientMediaKeys" where
  "clGetDrmTime reply k = (reply, keysIpc KI_getDrmTime k)"

definition clGetCdmKeySessionId :: "int \<Rightarrow> MediaKeyErrorStatus \<times> string \<Rightarrow> ClientMediaKeys \<Rightarrow>
    (MediaKeyErrorStatus \<times> string) \<times> ClientMediaKeys" where
  "clGetCdmKeySessionId keySessionId reply k = (reply, keysIpc (KI_getCdmKeySessionId keySessionId) k)"

end
