(* ===== verification/Client_Proofs.thy ===== *)
theory Client_Proofs
  imports Client_Library
begin

text \<open>
  What the client library guarantees: no frame writer outlives the mapping it writes to, whatever the application
  and the server do, and every need-data request is answered at most once.
\<close>

section \<open>Operations and steps\<close>

text \<open>The methods of a pipeline and the events it gets, with the results of the remote calls.\<close>

datatype PipelineOp =
    OpLoad MediaType string string bool | OpAttachSource MediaSource "i32 option" | OpRemoveSource i32 bool
  | OpPlay bool | OpPause bool | OpStop bool | OpSetPlaybackRate double bool | OpSetPosition i64 bool
  | OpGetPosition "i64 option" | OpSetVideoWindow u32 u32 u32 u32 bool | OpHaveData MediaSourceStatus u32 bool
  | OpAddSegment u32 "MediaSegment option" | OpRenderFrame bool | OpSetVolume double bool | OpGetVolume "double option"
  | OpPlaybackState PlaybackState | OpPosition i64 | OpNetworkState NetworkState
  | OpNeedMediaData i32 nat u32 MediaPlayerShmInfo | OpQos i32 QosInfo | OpBufferTerm

text \<open>What a pipeline sees of its process: the frame format, the selected keys and the mapped buffer.\<close>

type_synonym client_env = "int \<times> KeyIdMap \<times> nat option"

fun pipelineOp :: "codec \<Rightarrow> client_env \<Rightarrow> PipelineOp \<Rightarrow> ClientPipeline \<times> mem \<Rightarrow> ClientPipeline \<times> mem" where
  "pipelineOp pb env (OpLoad type mime url reply) (p, m) = (snd (clLoad type mime url reply p), m)"
| "pipelineOp pb env (OpAttachSource source reply) (p, m) = (snd (clAttachSource source reply p), m)"
| "pipelineOp pb env (OpRemoveSource i reply) (p, m) = (snd (clRemoveSource i reply p), m)"
| "pipelineOp pb env (OpPlay reply) (p, m) = (snd (clPlay reply p), m)"
| "pipelineOp pb env (OpPause reply) (p, m) = (snd (clPause reply p), m)"
| "pipelineOp pb env (OpStop reply) (p, m) = (snd (clStop reply p), m)"
| "pipelineOp pb env (OpSetPlaybackRate rate reply) (p, m) = (snd (clSetPlaybackRate rate reply p), m)"
| "pipelineOp pb env (OpSetPosition position reply) (p, m) = (snd (clSetPosition position reply p), m)"
| "pipelineOp pb env (OpGetPosition reply) (p, m) = (snd (clGetPosition reply p), m)"
| "pipelineOp pb env (OpSetVideoWindow x y width height reply) (p, m) = (snd (clSetVideoWindow x y width height reply p), m)"
| "pipelineOp pb env (OpHaveData status r reply) (p, m) = (snd (clHaveData status r reply p), m)"
| "pipelineOp pb env (OpAddSegment r seg) (p, m) =
     (case env of (version, keyIds, shmBuffer) \<Rightarrow> snd (clAddSegment pb version keyIds shmBuffer r seg p m))"
| "pipelineOp pb env (OpRenderFrame reply) (p, m) = (snd (clRenderFrame reply p), m)"
| "pipelineOp pb env (OpSetVolume volume reply) (p, m) = (snd (clSetVolume volume reply p), m)"
| "pipelineOp pb env (OpGetVolume reply) (p, m) = (snd (clGetVolume reply p), m)"
| "pipelineOp pb env (OpPlaybackState state) (p, m) = (clNotifyPlaybackState state p, m)"
| "pipelineOp pb env (OpPosition position) (p, m) = (clNotifyPosition position p, m)"
| "pipelineOp pb env (OpNetworkState state) (p, m) = (clNotifyNetworkState state p, m)"
| "pipelineOp pb env (OpNeedMediaData i n r info) (p, m) = (clNotifyNeedMediaData i n r info p, m)"
| "pipelineOp pb env (OpQos i qos) (p, m) = (clNotifyQos i qos p, m)"
| "pipelineOp pb env OpBufferTerm (p, m) = (clNotifyBufferTerm p, m)"

datatype AudioOp =
    OpAudioPlay bool | OpAudioPause bool | OpAudioSetEos bool | OpGetBufferAvailable "(u32 \<times> WebAudioShmInfo) option"
  | OpGetBufferDelay "u32 option" | OpGetDeviceInfo "(u32 \<times> u32 \<times> bool) option" | OpAudioSetVolume double bool
  | OpAudioGetVolume "double option" | OpAudioState WebAudioPlayerState

fun audioOp :: "AudioOp \<Rightarrow> ClientWebAudio \<Rightarrow> ClientWebAudio" where
  "audioOp (OpAudioPlay reply) w = snd (waPlay reply w)"
| "audioOp (OpAudioPause reply) w = snd (waPause reply w)"
| "audioOp (OpAudioSetEos reply) w = snd (waSetEos reply w)"
| "audioOp (OpGetBufferAvailable reply) w = snd (waGetBufferAvailable reply w)"
| "audioOp (OpGetBufferDelay reply) w = snd (waGetBufferDelay reply w)"
| "audioOp (OpGetDeviceInfo reply) w = snd (waGetDeviceInfo reply w)"
| "audioOp (OpAudioSetVolume volume reply) w = snd (waSetVolume volume reply w)"
| "audioOp (OpAudioGetVolume reply) w = snd (waGetVolume reply w)"
| "audioOp (OpAudioState state) w = waNotifyState state w"

text \<open>
  What can happen in the process. An object is created at an address that is not in use, and the application
  changes the state through the pointer it holds.
\<close>

datatype AppStep =
    GetControl bool | DropControl | SetApplicationState ApplicationState "(i32 \<times> u32) option" "nat option"
  | CreatePipeline bool bool bool nat
  | CreateAudio bool string "WebAudioPcmConfig option" bool bool bool nat
  | DestroyObject nat | PipelineStep nat PipelineOp | AudioStep nat AudioOp | WriteBuffer nat u32 mem bool
  | AddKeySession int | SelectKey int "u8 list" | EraseKeySession int

fun app_step :: "codec \<Rightarrow> AppStep \<Rightarrow> ClientApp \<Rightarrow> ClientApp" where
  "app_step pb (GetControl ipcOk) s = snd (getRialtoControl ipcOk s)"
| "app_step pb DropControl s = (if rc_appHolds s then dropRialtoControl notifyBufferTermOf s else s)"
| "app_step pb (SetApplicationState state reply mapped) s =
     (if rc_appHolds s then snd (setApplicationState notifyBufferTermOf state reply mapped s) else s)"
| "app_step pb (CreatePipeline client controlOk ipcOk this) s =
     (if this \<in> fst ` set (rc_objects s) then s else snd (clCreateMediaPipeline client controlOk ipcOk this s))"
| "app_step pb (CreateAudio client mime config controlOk factoryOk ipcOk this) s =
     (if this \<in> fst ` set (rc_objects s) then s
      else snd (clCreateWebAudioPlayer client mime config controlOk factoryOk ipcOk this s))"
| "app_step pb (DestroyObject this) s =
     (if this \<in> fst ` set (rc_objects s) then destroyClient notifyBufferTermOf this s else s)"
| "app_step pb (PipelineStep a op) s =
     (case map_of (rc_objects s) a of
        Some (PipelineObject p) \<Rightarrow>
          let (p, m) = pipelineOp pb (ap_version s, ap_keyIds s, rc_shmBuffer s) op (p, ap_mem s)
          in s\<lparr>rc_objects := assign a (PipelineObject p) (rc_objects s), ap_mem := m\<rparr>
      | _ \<Rightarrow> s)"
| "app_step pb (AudioStep a op) s =
     (case map_of (rc_objects s) a of
        Some (AudioObject w) \<Rightarrow> s\<lparr>rc_objects := assign a (AudioObject (audioOp op w)) (rc_objects s)\<rparr>
      | _ \<Rightarrow> s)"
| "app_step pb (WriteBuffer a numberOfFrames data reply) s =
     (case map_of (rc_objects s) a of
        Some (AudioObject w) \<Rightarrow>
          let (r, w, m) = waWriteBuffer (rc_shmBuffer s) numberOfFrames data reply w (ap_mem s)
          in s\<lparr>rc_objects := assign a (AudioObject w) (rc_objects s), ap_mem := m\<rparr>
      | _ \<Rightarrow> s)"
| "app_step pb (AddKeySession i) s = s\<lparr>ap_keyIds := keyAddSession i (ap_keyIds s)\<rparr>"
| "app_step pb (SelectKey i key) s = s\<lparr>ap_keyIds := snd (keyUpdate i key (ap_keyIds s))\<rparr>"
| "app_step pb (EraseKeySession i) s = s\<lparr>ap_keyIds := keyErase i (ap_keyIds s)\<rparr>"

text \<open>The factory of the web audio IPC objects is there.\<close>

fun factories_ok :: "AppStep \<Rightarrow> bool" where
  "factories_ok (CreateAudio client mime config controlOk factoryOk ipcOk this) \<longleftrightarrow> factoryOk"
| "factories_ok _ \<longleftrightarrow> True"

section \<open>Pointers into the buffer\<close>

named_theorems client_defs \<open>operations of a client pipeline\<close>

lemmas [client_defs] = ipc_def tellApp_def clLoad_def clAttachSource_def clRemoveSource_def clPlay_def clPause_def
  clStop_def clSetPlaybackRate_def clSetPosition_def handleSetPosition_def clGetPosition_def clSetVideoWindow_def
  clRenderFrame_def clSetVolume_def clGetVolume_def clNotifyPlaybackState_def clNotifyPosition_def
  clNotifyNetworkState_def clNotifyQos_def clNotifyBufferTerm_def updateNetworkState_def updatePlaybackState_def

lemma request_pointers_Nil [simp]: "request_pointers [] = {}"
  by (simp add: request_pointers_def)

lemma request_pointers_erase: "request_pointers (erase r q) \<subseteq> request_pointers q"
  by (auto simp: request_pointers_def erase_def)

lemma set_assign: "set (assign k v xs) \<subseteq> insert (k, v) (set xs)"
  by (auto simp: assign_def)

lemma request_pointers_assign:
  "request_pointers (assign r q m) \<subseteq> request_pointers m \<union> (case nr_frameWriter q of None \<Rightarrow> {} | Some (a, w) \<Rightarrow> {a})"
  using set_assign [of r q m] by (fastforce simp: request_pointers_def split: option.splits)

lemma request_pointers_store:
  "nr_frameWriter q = None \<Longrightarrow> request_pointers (storeRequest r q m) \<subseteq> request_pointers m"
  using set_assign [of r q "emplace r q m"]
  by (fastforce simp: request_pointers_def storeRequest_def emplace_def set_insort_key split: if_splits)

lemma request_pointers_find:
  "map_of m r = Some q \<Longrightarrow> nr_frameWriter q = Some (a, w) \<Longrightarrow> a \<in> request_pointers m"
  by (force simp: request_pointers_def dest: map_of_SomeD)

text \<open>Adding a segment writes only through the mapping of the request's writer or the current one.\<close>

lemma addSegment_pointers:
  "clAddSegment pb v keyIds buffer r seg p m = (res, p', m') \<Longrightarrow>
    request_pointers (mp_needDataRequestMap p') \<subseteq> request_pointers (mp_needDataRequestMap p) \<union> set_option buffer"
  using request_pointers_assign [of r _ "mp_needDataRequestMap p"]
  by (fastforce simp: clAddSegment_def writeWith_def Let_def request_pointers_find
      split: option.splits if_splits prod.splits)

lemma addSegment_unmapped: "clAddSegment pb v keyIds None r seg p m = (res, p', m') \<Longrightarrow> p' = p \<and> m' = m"
  by (auto simp: clAddSegment_def split: option.splits if_splits)

lemma haveData_requests: "clHaveData status r reply p = (res, p') \<Longrightarrow>
    request_pointers (mp_needDataRequestMap p') \<subseteq> request_pointers (mp_needDataRequestMap p)"
  using request_pointers_erase [of r "mp_needDataRequestMap p"]
  by (auto simp: clHaveData_def handleHaveData_def discardNeedDataRequest_def Let_def ipc_def
      split: ClientState.splits option.splits)

lemma pipelineOp_pointers:
  "pipelineOp pb (v, keyIds, buffer) op (p, m) = (p', m') \<Longrightarrow>
    request_pointers (mp_needDataRequestMap p') \<subseteq> request_pointers (mp_needDataRequestMap p) \<union> set_option buffer"
proof (cases op)
  case (OpHaveData status r reply)
  then show "pipelineOp pb (v, keyIds, buffer) op (p, m) = (p', m') \<Longrightarrow> ?thesis"
    using haveData_requests [of status r reply p] by (cases "clHaveData status r reply p") auto
next
  case (OpAddSegment r seg)
  then show "pipelineOp pb (v, keyIds, buffer) op (p, m) = (p', m') \<Longrightarrow> ?thesis"
    using addSegment_pointers [of pb v keyIds buffer r seg p m]
    by (cases "clAddSegment pb v keyIds buffer r seg p m") auto
next
  case (OpNeedMediaData i n r info)
  then show "pipelineOp pb (v, keyIds, buffer) op (p, m) = (p', m') \<Longrightarrow> ?thesis"
    using request_pointers_store [of "\<lparr>nr_shmInfo = info, nr_frameWriter = None\<rparr>" r "mp_needDataRequestMap p"]
    by (auto simp: clNotifyNeedMediaData_def tellApp_def split: if_splits)
qed (auto simp: client_defs Let_def split: option.splits ClientState.splits NetworkState.splits PlaybackState.splits if_splits)

lemma replace_object_inv:
  assumes "control_inv buffer_pointers s" and "map_of (rc_objects s) a = Some c"
    and "buffer_pointers c' \<subseteq> buffer_pointers c \<union> set_option (rc_shmBuffer s)"
  shows "control_inv buffer_pointers (s\<lparr>rc_objects := assign a c' (rc_objects s)\<rparr>)"
proof -
  have "\<forall>p \<in> buffer_pointers c. rc_shmBuffer s = Some p"
    using assms(1) map_of_SomeD [OF assms(2)] by (auto simp: control_inv_def)
  then have "\<forall>p \<in> buffer_pointers c'. rc_shmBuffer s = Some p" using assms(3) by (cases "rc_shmBuffer s") auto
  then have "\<forall>(b, d) \<in> set (assign a c' (rc_objects s)). \<forall>p \<in> buffer_pointers d. rc_shmBuffer s = Some p"
    using assms(1) set_assign [of a c' "rc_objects s"] by (fastforce simp: control_inv_def)
  moreover have "assign a c' (rc_objects s) = [] \<longleftrightarrow> rc_objects s = []" by (simp add: assign_def)
  ultimately show ?thesis using assms(1) by (simp add: control_inv_def std_map_assign cong: option.case_cong)
qed

lemma control_inv_app [simp]:
  "control_inv ptrs (s\<lparr>ap_mem := m\<rparr>) = control_inv ptrs s" "control_inv ptrs (s\<lparr>ap_keyIds := k\<rparr>) = control_inv ptrs s"
  by (simp_all add: control_inv_def cong: option.case_cong)

lemma app_step_inv:
  assumes "control_inv buffer_pointers s" and "factories_ok step"
  shows "control_inv buffer_pointers (app_step pb step s)"
proof (cases step)
  case (CreatePipeline client controlOk ipcOk this)
  then show ?thesis
    using client.construct_inv [OF assms(1), of this "PipelineObject (newClientPipeline client)"] assms(1)
    by (auto simp: clCreateMediaPipeline_def newClientPipeline_def)
next
  case (CreateAudio client mime config controlOk factoryOk ipcOk this)
  then show ?thesis
    using client.construct_inv [OF assms(1), of this] assms
    by (auto simp: clCreateWebAudioPlayer_def split: option.splits)
next
  case (PipelineStep a op)
  show ?thesis
  proof (cases "\<exists>p. map_of (rc_objects s) a = Some (PipelineObject p)")
    case True
    then obtain p where p: "map_of (rc_objects s) a = Some (PipelineObject p)" by blast
    obtain p' m' where op: "pipelineOp pb (ap_version s, ap_keyIds s, rc_shmBuffer s) op (p, ap_mem s) = (p', m')"
      by fastforce
    from PipelineStep p op show ?thesis
      using replace_object_inv [OF assms(1) p, of "PipelineObject p'"] pipelineOp_pointers [OF op] by simp
  qed (use PipelineStep assms(1) in \<open>auto split: option.splits ClientObject.splits\<close>)
next
  case (AudioStep a op)
  then show ?thesis
    using assms(1) replace_object_inv [OF assms(1), of a _ "AudioObject _"]
    by (auto split: option.splits ClientObject.splits)
next
  case (WriteBuffer a numberOfFrames data reply)
  then show ?thesis
    using assms(1) replace_object_inv [OF assms(1), of a _ "AudioObject _"]
    by (auto split: option.splits ClientObject.splits prod.splits)
next
  case (DestroyObject this)
  then show ?thesis using assms client.destroy_inv [OF assms(1), of this] by simp
qed (use assms client.get_inv client.drop_inv client.application_state_inv in auto)

lemma app_steps_inv:
  "control_inv buffer_pointers s \<Longrightarrow> \<forall>step \<in> set steps. factories_ok step \<Longrightarrow>
    control_inv buffer_pointers (fold (app_step pb) steps s)"
  by (induction steps arbitrary: s) (simp_all add: app_step_inv)

lemma newClientApp_inv: "control_inv buffer_pointers (newClientApp v m)"
  by (simp add: newClientApp_def newClientProcess_def control_inv_def ClientProcess.defs)

text \<open>
  The same without the factory. An object whose constructor has thrown stays registered, and otherwise the process does
  what it does when the factory is there and refuses: \<open>drift s t\<close> says that \<open>s\<close> is \<open>t\<close> but for addresses that are still
  registered, of which the control object may have called some.
\<close>

definition drift :: "ClientApp \<Rightarrow> ClientApp \<Rightarrow> bool" where
  "drift s t \<longleftrightarrow> rc_exists s = rc_exists t \<and> rc_currentState s = rc_currentState t \<and> rc_shmFd s = rc_shmFd t \<and>
     rc_shmBuffer s = rc_shmBuffer t \<and> rc_shmBufferLen s = rc_shmBufferLen t \<and> rc_appHolds s = rc_appHolds t \<and>
     rc_objects s = rc_objects t \<and> rc_openFds s = rc_openFds t \<and> rc_mappings s = rc_mappings t \<and>
     ap_keyIds s = ap_keyIds t \<and> ap_mem s = ap_mem t \<and> ap_version s = ap_version t \<and>
     (rc_exists t \<longrightarrow> distinct (rc_clientVec s) \<and> fst ` set (rc_objects t) \<subseteq> set (rc_clientVec s))"

fun refusing :: "AppStep \<Rightarrow> AppStep" where
  "refusing (CreateAudio client mime config controlOk factoryOk ipcOk this) =
     CreateAudio client mime config controlOk True (factoryOk \<and> ipcOk) this"
| "refusing step = step"

lemma refusing_ok: "factories_ok (refusing step)"
  by (cases step) simp_all

lemma notify_all:
  assumes "std_map (rc_objects s)" and "distinct vec"
  shows "\<exists>bad. fold (notifyClient f) vec s =
    s\<lparr>rc_objects := map (\<lambda>(a, c). (a, if a \<in> set vec then f c else c)) (rc_objects s), rc_badCalls := bad\<rparr>"
  using assms
proof (induction vec arbitrary: s)
  case Nil
  have "map (\<lambda>(a, c). (a, c)) (rc_objects s) = rc_objects s" by (rule map_idI) auto
  then show ?case by (intro exI [of _ "rc_badCalls s"]) simp
next
  case (Cons a vec)
  let ?obj = "map (\<lambda>(b, d). (b, if b = a then f d else d)) (rc_objects s)"
  have "\<exists>bad. notifyClient f a s = s\<lparr>rc_objects := ?obj, rc_badCalls := bad\<rparr>"
  proof (cases "map_of (rc_objects s) a")
    case None
    then have "?obj = rc_objects s" by (intro map_idI) (auto simp: map_of_eq_None_iff image_iff)
    with None show ?thesis by (intro exI [of _ "rc_badCalls s @ [a]"]) (simp add: notifyClient_def)
  next
    case (Some c)
    then show ?thesis using assign_eq_map [OF Cons.prems(1) Some]
      by (intro exI [of _ "rc_badCalls s"]) (simp add: notifyClient_def)
  qed
  then obtain bad where step: "notifyClient f a s = s\<lparr>rc_objects := ?obj, rc_badCalls := bad\<rparr>" ..
  have "std_map (rc_objects (notifyClient f a s))"
    using Cons.prems(1) std_map_update_values [of "\<lambda>b d. if b = a then f d else d" "rc_objects s"] by (simp add: step)
  from Cons.IH [OF this] Cons.prems(2) obtain bad' where
    "fold (notifyClient f) vec (notifyClient f a s) = (notifyClient f a s)\<lparr>rc_objects :=
      map (\<lambda>(b, c). (b, if b \<in> set vec then f c else c)) (rc_objects (notifyClient f a s)), rc_badCalls := bad'\<rparr>" by auto
  then show ?case using Cons.prems(2)
    by (intro exI [of _ bad']) (auto simp: step comp_def split_beta intro!: arg_cong [where f = "\<lambda>x. s\<lparr>rc_objects := x, rc_badCalls := bad'\<rparr>"])
qed

lemma notify_registered:
  assumes "std_map (rc_objects s)" and "distinct vec" and "fst ` set (rc_objects s) \<subseteq> set vec"
  shows "\<exists>bad. fold (notifyClient f) vec s = s\<lparr>rc_objects := map (\<lambda>(a, c). (a, f c)) (rc_objects s), rc_badCalls := bad\<rparr>"
proof -
  have "map (\<lambda>(a, c). (a, if a \<in> set vec then f c else c)) (rc_objects s) = map (\<lambda>(a, c). (a, f c)) (rc_objects s)"
    using assms(3) by (intro map_cong) force+
  with notify_all [OF assms(1,2), of f] show ?thesis by simp
qed

definition tracked :: "ClientApp \<Rightarrow> bool" where
  "tracked t \<longleftrightarrow> std_map (rc_objects t) \<and> rc_clientVec t = map fst (rc_objects t)"

lemma term_drift:
  assumes "drift s t" and "rc_exists t" and "tracked t"
  shows "drift (termSharedMemory f s) (termSharedMemory f t)"
proof -
  let ?obj = "map (\<lambda>(a, c). (a, f c)) (rc_objects t)"
  have v: "distinct (rc_clientVec s)" "fst ` set (rc_objects t) \<subseteq> set (rc_clientVec s)" "rc_objects s = rc_objects t"
    using assms(1,2) by (auto simp: drift_def)
  have k: "std_map (rc_objects t)" "rc_clientVec t = map fst (rc_objects t)" "distinct (map fst (rc_objects t))"
    using assms(3) by (auto simp: tracked_def std_map_def)
  obtain b where s': "fold (notifyClient f) (rc_clientVec s) (s\<lparr>rc_shmBuffer := None\<rparr>) =
      s\<lparr>rc_shmBuffer := None, rc_objects := ?obj, rc_badCalls := b\<rparr>"
    using notify_registered [of "s\<lparr>rc_shmBuffer := None\<rparr>" "rc_clientVec s" f] k(1) v by auto
  obtain c where t': "fold (notifyClient f) (rc_clientVec t) (t\<lparr>rc_shmBuffer := None\<rparr>) =
      t\<lparr>rc_shmBuffer := None, rc_objects := ?obj, rc_badCalls := c\<rparr>"
    using notify_registered [of "t\<lparr>rc_shmBuffer := None\<rparr>" "map fst (rc_objects t)" f] k by auto
  have keys: "fst ` set ?obj = fst ` set (rc_objects t)" by force
  show ?thesis
    using assms(1) v keys by (auto simp: termSharedMemory_def Let_def s' t' drift_def)
qed

lemma release_drift:
  assumes "drift s t" and "tracked t"
  shows "drift (releaseManager f s) (releaseManager f t)"
proof (cases "rc_appHolds t \<or> rc_objects t \<noteq> [] \<or> \<not> rc_exists t")
  case True
  then show ?thesis using assms(1) by (auto simp: releaseManager_def drift_def)
next
  case False
  then have "drift (termSharedMemory f s) (termSharedMemory f t)" using assms by (intro term_drift) auto
  with False assms(1) show ?thesis by (auto simp: releaseManager_def termControl_def Let_def drift_def)
qed

lemma get_drift:
  assumes "drift s t" and "control_inv buffer_pointers t"
  shows "fst (getGeneric ok s) = fst (getGeneric ok t)" and "drift (snd (getGeneric ok s)) (snd (getGeneric ok t))"
    and "fst (getGeneric ok t) \<Longrightarrow> tracked (snd (getGeneric ok t))" and "rc_objects (snd (getGeneric ok t)) = rc_objects t"
  using assms by (auto simp: getGeneric_def newRialtoControl_def drift_def tracked_def control_inv_def)

lemma register_drift:
  assumes "drift s t" and "this \<notin> fst ` set (rc_objects t)"
  shows "drift (s\<lparr>rc_clientVec := insort_insert this (rc_clientVec s)\<rparr>) t"
    and "drift (s\<lparr>rc_clientVec := filter (\<lambda>b. b \<noteq> this) (insort_insert this (rc_clientVec s))\<rparr>) t"
  using assms by (auto simp: drift_def set_insort_insert distinct_insort_insert)

lemma missing_key: "tracked t \<Longrightarrow> this \<notin> fst ` set (rc_objects t) \<Longrightarrow>
    filter (\<lambda>b. b \<noteq> this) (insort_insert this (rc_clientVec t)) = rc_clientVec t"
proof -
  have "filter (\<lambda>b. b \<noteq> this) (insort this ks) = ks" if "this \<notin> set ks" for ks
    using that by (induction ks) (auto simp: filter_id_conv)
  then show "tracked t \<Longrightarrow> this \<notin> fst ` set (rc_objects t) \<Longrightarrow> ?thesis" by (auto simp: tracked_def insort_insert_insort)
qed

lemma create_drift:
  assumes "drift s t" and "control_inv buffer_pointers t" and "this \<notin> fst ` set (rc_objects t)"
  shows "drift (snd (constructClient f controlOk ipcOk this obj s)) (snd (constructClient f controlOk ipcOk this obj t))"
    and "drift (snd (let (ok, s) = getGeneric controlOk s in
      if \<not> ok then (False, s) else (False, releaseManager f (snd (registerClientAt (Some this) s)))))
      (snd (constructClient f controlOk False this obj t))"
proof -
  obtain ok s1 t1 where g: "getGeneric controlOk s = (ok, s1)" "getGeneric controlOk t = (ok, t1)"
    using get_drift(1) [OF assms(1,2), of controlOk] by (cases "getGeneric controlOk s", cases "getGeneric controlOk t") auto
  have d: "drift s1 t1" "rc_objects t1 = rc_objects t" "rc_objects s1 = rc_objects t" and tr: "ok \<Longrightarrow> tracked t1"
    using get_drift(2-) [OF assms(1,2), of controlOk] by (auto simp: g drift_def)
  have keep: "t1\<lparr>rc_clientVec := filter (\<lambda>b. b \<noteq> this) (insort_insert this (rc_clientVec t1))\<rparr> = t1" if ok
    using missing_key [of t1 this] tr [OF that] d(2) assms(3) by (intro ClientProcess.equality) simp_all
  have new: "this \<notin> fst ` set (rc_objects t1)" using assms(3) d(2) by simp
  note reg = register_drift [OF d(1) new]
  have released: "drift (releaseManager f (s1\<lparr>rc_clientVec := insort_insert this (rc_clientVec s1)\<rparr>)) (releaseManager f t1)"
    "drift (releaseManager f (s1\<lparr>rc_clientVec := filter (\<lambda>b. b \<noteq> this) (insort_insert this (rc_clientVec s1))\<rparr>)) (releaseManager f t1)"
    if ok
    using release_drift [OF reg(1) tr [OF that], of f] release_drift [OF reg(2) tr [OF that], of f] by simp_all
  show "drift (snd (let (ok, s) = getGeneric controlOk s in
      if \<not> ok then (False, s) else (False, releaseManager f (snd (registerClientAt (Some this) s)))))
      (snd (constructClient f controlOk False this obj t))"
    using d released(1) keep
    by (cases ok) (simp_all add: constructClient_def g registerClientAt_def unregisterClientAt_def)
  have "fst ` set (emplace this obj (rc_objects t)) = insert this (fst ` set (rc_objects t))"
    using assms(3) by (simp add: emplace_def map_of_eq_None_iff set_insort_key)
  then have "drift (s1\<lparr>rc_clientVec := insort_insert this (rc_clientVec s1), rc_objects := emplace this obj (rc_objects t)\<rparr>)
      (t1\<lparr>rc_clientVec := v, rc_objects := emplace this obj (rc_objects t)\<rparr>)" for v
    using reg(1) d(2) by (auto simp: drift_def set_insort_insert)
  then show "drift (snd (constructClient f controlOk ipcOk this obj s)) (snd (constructClient f controlOk ipcOk this obj t))"
    using d released(2) keep
    by (cases ok) (simp_all add: constructClient_def g registerClientAt_def unregisterClientAt_def)
qed

lemma destroy_drift:
  assumes "drift s t" and "control_inv buffer_pointers t" and "this \<in> fst ` set (rc_objects t)"
  shows "drift (destroyClient f this s) (destroyClient f this t)"
proof -
  have "filter (\<lambda>b. b \<noteq> this) (map fst (rc_objects t)) = map fst (erase this (rc_objects t))"
    by (simp add: erase_def filter_map comp_def)
  then have "tracked (t\<lparr>rc_clientVec := filter (\<lambda>b. b \<noteq> this) (rc_clientVec t), rc_objects := erase this (rc_objects t)\<rparr>)"
    using assms(2,3) std_map_erase [of "rc_objects t" this] by (auto simp: tracked_def control_inv_def)
  moreover have "drift (s\<lparr>rc_clientVec := filter (\<lambda>b. b \<noteq> this) (rc_clientVec s), rc_objects := erase this (rc_objects s)\<rparr>)
      (t\<lparr>rc_clientVec := filter (\<lambda>b. b \<noteq> this) (rc_clientVec t), rc_objects := erase this (rc_objects t)\<rparr>)"
    using assms(1) by (auto simp: drift_def erase_def)
  ultimately show ?thesis
    by (auto simp: destroyClient_def unregisterClientAt_def intro!: release_drift)
qed

lemma init_drift:
  assumes "drift s t"
  shows "fst (initSharedMemory reply mapped s) = fst (initSharedMemory reply mapped t)"
    and "drift (snd (initSharedMemory reply mapped s)) (snd (initSharedMemory reply mapped t))"
  using assms by (cases reply; cases mapped; simp add: initSharedMemory_def Let_def drift_def split_beta)+

lemma state_drift:
  assumes "drift s t" and "control_inv buffer_pointers t"
  shows "drift (snd (setApplicationState f state reply mapped s)) (snd (setApplicationState f state reply mapped t))"
proof (cases "state = AS_INACTIVE \<and> rc_currentState t = AS_RUNNING")
  case True
  with assms(2) have "drift (termSharedMemory f s) (termSharedMemory f t)"
    by (intro term_drift [OF assms(1)]) (auto simp: control_inv_def tracked_def)
  with True assms(1) show ?thesis by (auto simp: setApplicationState_def drift_def)
next
  case False
  have "rc_currentState s = rc_currentState t" using assms(1) by (simp add: drift_def)
  moreover obtain ok s1 t1 where "initSharedMemory reply mapped s = (ok, s1)" "initSharedMemory reply mapped t = (ok, t1)" "drift s1 t1"
    using init_drift [OF assms(1), of reply mapped]
    by (cases "initSharedMemory reply mapped s", cases "initSharedMemory reply mapped t") auto
  ultimately show ?thesis
    using False assms(1) by (cases state; cases "rc_currentState t"; cases ok) (simp_all add: setApplicationState_def drift_def)
qed

lemma keyset_assign: "fst ` set (assign a c xs) = fst ` set xs"
  by (induction xs) (auto simp: assign_def)

lemma app_step_drift:
  assumes "drift s t" and "control_inv buffer_pointers t"
  shows "drift (app_step pb step s) (app_step pb (refusing step) t)"
proof (cases step)
  case (GetControl ok)
  then show ?thesis using get_drift [OF assms, of ok] by (auto simp: getRialtoControl_def case_prod_beta Let_def drift_def)
next
  case DropControl
  have "tracked (t\<lparr>rc_appHolds := False\<rparr>) \<or> \<not> rc_appHolds t" using assms(2) by (auto simp: control_inv_def tracked_def)
  moreover have "drift (s\<lparr>rc_appHolds := False\<rparr>) (t\<lparr>rc_appHolds := False\<rparr>)" "rc_appHolds s = rc_appHolds t"
    using assms(1) by (auto simp: drift_def)
  ultimately show ?thesis using DropControl assms(1) by (auto simp: dropRialtoControl_def intro: release_drift)
next
  case (CreatePipeline client controlOk ipcOk this)
  then show ?thesis using create_drift(1) [OF assms] assms(1) by (auto simp: clCreateMediaPipeline_def drift_def [of s t])
next
  case (CreateAudio client mime config controlOk factoryOk ipcOk this)
  have "rc_objects s = rc_objects t" using assms(1) by (simp add: drift_def)
  with CreateAudio show ?thesis
    using create_drift [OF assms, of this] assms(1)
    by (auto simp: clCreateWebAudioPlayer_def split: option.splits)
next
  case (SetApplicationState state reply mapped)
  then show ?thesis using state_drift [OF assms] assms(1) by (auto simp: drift_def [of s t])
next
  case (DestroyObject this)
  then show ?thesis using destroy_drift [OF assms] assms(1) by (auto simp: drift_def [of s t])
qed (use assms(1) in \<open>simp_all add: drift_def keyset_assign case_prod_beta Let_def split: option.split ClientObject.split\<close>)

lemma app_steps_drift:
  "drift s t \<Longrightarrow> control_inv buffer_pointers t \<Longrightarrow>
    \<exists>t'. drift (fold (app_step pb) steps s) t' \<and> control_inv buffer_pointers t'"
proof (induction steps arbitrary: s t)
  case (Cons step steps)
  from Cons.IH [OF app_step_drift [OF Cons.prems, of pb step] app_step_inv [OF Cons.prems(2) refusing_ok]] show ?case by simp
qed auto

lemma notify_loop_bad: "a \<in> set (rc_badCalls s) \<or> a \<in> set vec \<and> map_of (rc_objects s) a = None \<Longrightarrow>
    a \<in> set (rc_badCalls (fold (notifyClient f) vec s))"
proof (induction vec arbitrary: s)
  case (Cons b vec)
  have "a \<in> set (rc_badCalls (notifyClient f b s)) \<or> a \<in> set vec \<and> map_of (rc_objects (notifyClient f b s)) a = None"
    using Cons.prems by (cases "map_of (rc_objects s) b") (auto simp: notifyClient_def map_of_assign)
  from Cons.IH [OF this] show ?case by simp
qed simp

section \<open>Answers\<close>

definition answers :: "u32 \<Rightarrow> ClientPipeline \<Rightarrow> nat" where
  "answers r p = length (filter (\<lambda>e. case e of ToServer (PI_haveData _ _ i) \<Rightarrow> i = r | _ \<Rightarrow> False) (mp_out p))"

definition open_request :: "u32 \<Rightarrow> ClientPipeline \<Rightarrow> nat" where
  "open_request r p = (if map_of (mp_needDataRequestMap p) r = None then 0 else 1)"

definition asks :: "u32 \<Rightarrow> PipelineOp \<Rightarrow> bool" where
  "asks r op \<longleftrightarrow> (\<exists>i n info. op = OpNeedMediaData i n r info)"

lemmas answer_simps = answers_def open_request_def

lemma haveData_answers: "clHaveData status i reply p = (res, p') \<Longrightarrow>
    answers r p' + open_request r p' \<le> answers r p + open_request r p"
  by (cases "r = i") (auto simp: answer_simps clHaveData_def handleHaveData_def discardNeedDataRequest_def Let_def ipc_def
      split: ClientState.splits option.splits)

lemma addSegment_answers: "clAddSegment pb v keyIds buffer i seg p m = (res, p', m') \<Longrightarrow>
    answers r p' + open_request r p' \<le> answers r p + open_request r p"
  by (auto simp: answer_simps clAddSegment_def writeWith_def Let_def map_of_assign
      split: option.splits if_splits prod.splits)

lemma pipelineOp_answers:
  assumes "pipelineOp pb env op (p, m) = (p', m')" and "\<not> asks r op"
  shows "answers r p' + open_request r p' \<le> answers r p + open_request r p"
proof (cases op)
  case (OpHaveData status i reply)
  then show ?thesis
    using assms(1) haveData_answers [of status i reply p] by (cases "clHaveData status i reply p") auto
next
  case (OpAddSegment i seg)
  obtain v keyIds buffer where "env = (v, keyIds, buffer)" by (cases env)
  then show ?thesis
    using assms(1) OpAddSegment addSegment_answers [of pb v keyIds buffer i seg p m]
    by (cases "clAddSegment pb v keyIds buffer i seg p m") auto
next
  case (OpNeedMediaData i n q info)
  then show ?thesis
    using assms by (auto simp: answer_simps asks_def clNotifyNeedMediaData_def tellApp_def storeRequest_def map_of_assign
        split: if_splits)
qed (use assms in \<open>auto simp: answer_simps client_defs Let_def
      split: option.splits ClientState.splits NetworkState.splits PlaybackState.splits if_splits\<close>)

lemma pipelineOps_answers:
  assumes "fold (\<lambda>(env, op). pipelineOp pb env op) ops (p, m) = (p', m')" and "\<forall>(env, op) \<in> set ops. \<not> asks r op"
  shows "answers r p' + open_request r p' \<le> answers r p + open_request r p"
  using assms
proof (induction ops arbitrary: p m)
  case (Cons x ops)
  obtain env op where x: "x = (env, op)" by (cases x)
  obtain p1 m1 where one: "pipelineOp pb env op (p, m) = (p1, m1)" by fastforce
  then have "answers r p' + open_request r p' \<le> answers r p1 + open_request r p1"
    using Cons x by auto
  moreover have "answers r p1 + open_request r p1 \<le> answers r p + open_request r p"
    using pipelineOp_answers [OF one] Cons.prems(2) x by simp
  ultimately show ?case by linarith
qed simp

section \<open>Writing the frames of a request\<close>

text \<open>One call of \<open>addSegment\<close>, reporting whether it was accepted.\<close>

definition addSegmentTo :: "codec \<Rightarrow> client_env \<Rightarrow> u32 \<Rightarrow> MediaSegment \<Rightarrow> ClientPipeline \<times> mem \<Rightarrow> bool \<times> ClientPipeline \<times> mem" where
  "addSegmentTo pb env r seg st =
     (case env of (version, keyIds, buffer) \<Rightarrow>
        let ((status, _), st') = clAddSegment pb version keyIds buffer r (Some seg) (fst st) (snd st) in (status = ASS_OK, st'))"

lemma withSelectedKey_type [simp]: "m_type (withSelectedKey keyIds seg) = m_type seg"
  by (simp add: withSelectedKey_def Let_def)

lemma addSegmentTo_writer:
  assumes "map_of (mp_needDataRequestMap p) r = Some q" and "m_data seg \<noteq> None"
    and "(nr_frameWriter q = Some (b, w) \<and> st = (m, w)) \<or>
      (nr_frameWriter q = None \<and> b = a \<and> m_type seg \<noteq> MST_UNKNOWN \<and> st = createFrameWriter v (nr_shmInfo q) m)"
    and "add_frame pb (withSelectedKey keyIds seg) st = (True, m', w')"
  shows "addSegmentTo pb (v, keyIds, Some a) r seg (p, m) =
    (True, p\<lparr>mp_needDataRequestMap := assign r (q\<lparr>nr_frameWriter := Some (b, w')\<rparr>) (mp_needDataRequestMap p)\<rparr>, m')"
  using assms
  by (auto simp: addSegmentTo_def clAddSegment_def writeWith_def Let_def add_frame_def split: prod.splits)

lemma addSegments_writer:
  assumes "map_of (mp_needDataRequestMap p) r = Some q" and "\<forall>seg \<in> set segs. m_data seg \<noteq> None"
    and "nr_frameWriter q = Some (b, w)" and "run_all (add_frame pb) (map (withSelectedKey keyIds) segs) (m, w) = (True, m', w')"
  shows "\<exists>p'. run_all (addSegmentTo pb (v, keyIds, Some a) r) segs (p, m) = (True, p', m') \<and>
    map_of (mp_needDataRequestMap p') r = Some (q\<lparr>nr_frameWriter := Some (b, w')\<rparr>) \<and> mp_currentState p' = mp_currentState p"
  using assms
proof (induction segs arbitrary: p q m w)
  case Nil
  then have "q\<lparr>nr_frameWriter := Some (b, w')\<rparr> = q" by (intro NeedDataRequest.equality) simp_all
  with Nil show ?case by simp
next
  case (Cons seg segs)
  obtain m1 w1 where one: "add_frame pb (withSelectedKey keyIds seg) (m, w) = (True, m1, w1)"
    and rest: "run_all (add_frame pb) (map (withSelectedKey keyIds) segs) (m1, w1) = (True, m', w')"
    using Cons.prems(4) by (auto split: prod.splits if_splits)
  let ?p = "p\<lparr>mp_needDataRequestMap := assign r (q\<lparr>nr_frameWriter := Some (b, w1)\<rparr>) (mp_needDataRequestMap p)\<rparr>"
  have step: "addSegmentTo pb (v, keyIds, Some a) r seg (p, m) = (True, ?p, m1)"
    using addSegmentTo_writer [OF Cons.prems(1) _ _ one, where m = m and b = b and a = a and v = v] Cons.prems(2,3) by simp
  have "map_of (mp_needDataRequestMap ?p) r = Some (q\<lparr>nr_frameWriter := Some (b, w1)\<rparr>)"
    using Cons.prems(1) by (simp add: map_of_assign)
  from Cons.IH [OF this _ _ rest] Cons.prems(2) step show ?case by auto
qed

lemma addSegments_new:
  assumes "map_of (mp_needDataRequestMap p) r = Some q" and "\<forall>seg \<in> set segs. m_data seg \<noteq> None \<and> m_type seg \<noteq> MST_UNKNOWN"
    and "nr_frameWriter q = None" and "segs \<noteq> []"
    and "run_all (add_frame pb) (map (withSelectedKey keyIds) segs) (createFrameWriter v (nr_shmInfo q) m) = (True, m', w')"
  shows "\<exists>p'. run_all (addSegmentTo pb (v, keyIds, Some a) r) segs (p, m) = (True, p', m') \<and>
    map_of (mp_needDataRequestMap p') r = Some (q\<lparr>nr_frameWriter := Some (a, w')\<rparr>) \<and> mp_currentState p' = mp_currentState p"
proof -
  obtain seg rest where segs: "segs = seg # rest" using assms(4) by (cases segs) auto
  obtain m1 w1 where one: "add_frame pb (withSelectedKey keyIds seg) (createFrameWriter v (nr_shmInfo q) m) = (True, m1, w1)"
    and more: "run_all (add_frame pb) (map (withSelectedKey keyIds) rest) (m1, w1) = (True, m', w')"
    using assms(5) segs by (auto split: prod.splits if_splits)
  let ?p = "p\<lparr>mp_needDataRequestMap := assign r (q\<lparr>nr_frameWriter := Some (a, w1)\<rparr>) (mp_needDataRequestMap p)\<rparr>"
  have step: "addSegmentTo pb (v, keyIds, Some a) r seg (p, m) = (True, ?p, m1)"
    using addSegmentTo_writer [OF assms(1) _ _ one, where b = a and a = a and v = v and m = m] assms(2,3) segs by simp
  have "map_of (mp_needDataRequestMap ?p) r = Some (q\<lparr>nr_frameWriter := Some (a, w1)\<rparr>)"
    using assms(1) by (simp add: map_of_assign)
  from addSegments_writer [OF this _ _ more, where b = a and v = v and a = a] assms(2) segs step show ?thesis by auto
qed

text \<open>
  The client's part of a request from its arrival to the answer: what the server is told is the number of frames
  the writer has counted.
\<close>

lemma client_fills_request:
  assumes "attachedGet i (mp_attachedSources p) \<noteq> MST_UNKNOWN" and "mp_currentState p \<in> {CS_BUFFERING, CS_PLAYING}"
    and "segs \<noteq> []" and "\<forall>seg \<in> set segs. m_data seg \<noteq> None \<and> m_type seg \<noteq> MST_UNKNOWN"
    and "run_all (add_frame pb) (map (withSelectedKey keyIds) segs) (createFrameWriter v info m) = (True, m', w)"
  shows "\<exists>p2. run_all (addSegmentTo pb (v, keyIds, Some a) r) segs (clNotifyNeedMediaData i n r info p, m) = (True, p2, m') \<and>
    mp_out (snd (clHaveData status r reply p2)) = mp_out p2 @ [ToServer (PI_haveData status (getNumFrames w) r)]"
proof -
  let ?q = "\<lparr>nr_shmInfo = info, nr_frameWriter = None\<rparr>"
  let ?p = "clNotifyNeedMediaData i n r info p"
  have "map_of (mp_needDataRequestMap ?p) r = Some ?q" "mp_currentState ?p = mp_currentState p"
    using assms(1,2) by (auto simp: clNotifyNeedMediaData_def tellApp_def storeRequest_def map_of_assign)
  then obtain p2 where p2: "run_all (addSegmentTo pb (v, keyIds, Some a) r) segs (?p, m) = (True, p2, m')"
      "map_of (mp_needDataRequestMap p2) r = Some (?q\<lparr>nr_frameWriter := Some (a, w)\<rparr>)" "mp_currentState p2 = mp_currentState p"
    using addSegments_new [of ?p r ?q segs pb keyIds v m m' w a] assms(3-) by auto
  then have "mp_out (snd (clHaveData status r reply p2)) = mp_out p2 @ [ToServer (PI_haveData status (getNumFrames w) r)]"
    using assms(2) by (auto simp: clHaveData_def handleHaveData_def ipc_def)
  with p2(1) show ?thesis by blast
qed

section \<open>Properties\<close>

text \<open>C20. Whatever the application and the server do, the buffer is mapped exactly while the application is running and every
  frame writer a pipeline still holds writes into the mapping that exists now. No object is notified after its destruction,
  provided that the factory of the IPC objects was there whenever a web audio player was created; without it the constructor
  throws and leaves the address of the object registered.\<close>

theorem no_writer_outlives_mapping:
  assumes "s = fold (app_step pb) steps (newClientApp version m)"
  shows "rc_mappings s = (case rc_shmBuffer s of None \<Rightarrow> [] | Some a \<Rightarrow> [(a, rc_shmBufferLen s)]) \<and>
    (rc_shmBuffer s \<noteq> None \<longleftrightarrow> rc_currentState s = AS_RUNNING) \<and>
    (\<forall>(a, c) \<in> set (rc_objects s). \<forall>p \<in> buffer_pointers c. rc_shmBuffer s = Some p) \<and>
    ((\<forall>step \<in> set steps. factories_ok step) \<longrightarrow> rc_badCalls s = [])"
proof -
  have "drift (newClientApp version m) (newClientApp version m)"
    by (simp add: drift_def newClientApp_def newClientProcess_def ClientProcess.defs)
  from app_steps_drift [OF this newClientApp_inv, of pb steps] obtain t where t: "drift s t" "control_inv buffer_pointers t"
    unfolding assms by blast
  have "rc_badCalls s = []" if "\<forall>step \<in> set steps. factories_ok step"
    using app_steps_inv [OF newClientApp_inv that, of pb version m] by (simp add: assms control_inv_def)
  with t show ?thesis by (auto simp: drift_def control_inv_def)
qed

text \<open>C21. Between two deliveries of a need-data request the server gets at most one answer to it, and none when
  the client does not have the request.\<close>

theorem client_answers_once:
  assumes "fold (\<lambda>(env, op). pipelineOp pb env op) ops (p, m) = (p', m')" and "\<forall>(env, op) \<in> set ops. \<not> asks r op"
  shows "answers r p' \<le> answers r p + (if map_of (mp_needDataRequestMap p) r = None then 0 else 1)"
  using pipelineOps_answers [OF assms] by (simp add: open_request_def)

text \<open>A web audio player whose IPC factory is missing stays registered after its constructor has thrown; the
  next change to the inactive state calls it at an address where there is no object.\<close>

theorem failed_audio_player_is_called:
  assumes "control_inv buffer_pointers s" and "rc_currentState s = AS_RUNNING" and "rc_appHolds s"
    and "this \<notin> fst ` set (rc_objects s)" and "newClientWebAudio client mime config \<noteq> None"
    and "clCreateWebAudioPlayer client mime config True False ipcOk this s = (ok, s1)"
    and "setApplicationState notifyBufferTermOf AS_INACTIVE reply mapped s1 = (ok', s2)"
  shows "\<not> ok \<and> this \<in> set (rc_badCalls s2)"
proof -
  let ?vec = "insort_insert this (rc_clientVec s)"
  have "rc_exists s" using assms(1,3) by (simp add: control_inv_def)
  then have s1: "\<not> ok" "s1 = s\<lparr>rc_clientVec := ?vec\<rparr>"
    using assms(3,5,6)
    by (auto simp: clCreateWebAudioPlayer_def getGeneric_def registerClientAt_def releaseManager_def)
  have "this \<in> set (rc_badCalls (fold (notifyClient notifyBufferTermOf) ?vec (s1\<lparr>rc_shmBuffer := None\<rparr>)))"
    using assms(4) by (intro notify_loop_bad) (simp add: s1(2) set_insort_insert map_of_eq_None_iff)
  then have "this \<in> set (rc_badCalls (termSharedMemory notifyBufferTermOf s1))"
    by (simp add: termSharedMemory_def Let_def s1(2))
  with s1 assms(2,7) show ?thesis by (auto simp: setApplicationState_def)
qed

section \<open>Examples\<close>

definition demo_client_steps :: "AppStep list" where
  "demo_client_steps = [GetControl True, CreatePipeline True True True 8,
     SetApplicationState AS_RUNNING (Some (7, 4096)) (Some 65536),
     PipelineStep 8 (OpAttachSource (newMediaSourceVideo 0 ''video/h264'' SA_NAL SF_AVC []) (Some 1)),
     PipelineStep 8 (OpPlaybackState PS_PLAYING), PipelineStep 8 (OpNeedMediaData 1 1 5 demo_info)]"

definition demo_client :: ClientApp where
  "demo_client = fold (app_step demo_codec) demo_client_steps (newClientApp 2 (\<lambda>_. 0))"

lemma demo_client_inv: "control_inv buffer_pointers demo_client"
  unfolding demo_client_def by (rule app_steps_inv [OF newClientApp_inv]) (simp add: demo_client_steps_def)

lemmas demo_run_defs = demo_client_def demo_client_steps_def newClientApp_def newClientProcess_def ClientProcess.defs
  getRialtoControl_def getGeneric_def newRialtoControl_def clCreateMediaPipeline_def constructClient_def
  registerClientAt_def setApplicationState_def initSharedMemory_def Let_def

lemma demo_client_fields:
  "rc_shmBuffer demo_client = Some 65536" "rc_shmBufferLen demo_client = 4096" "rc_currentState demo_client = AS_RUNNING"
  "rc_appHolds demo_client" "fst ` set (rc_objects demo_client) = {8}"
  by (simp_all add: demo_run_defs emplace_def assign_def)

theorem no_writer_outlives_mapping_witness:
  "rc_mappings demo_client = [(65536, 4096)] \<and> rc_badCalls demo_client = []"
proof -
  have "\<forall>step \<in> set demo_client_steps. factories_ok step" by (simp add: demo_client_steps_def)
  with no_writer_outlives_mapping [OF demo_client_def] show ?thesis by (simp add: demo_client_fields)
qed

definition demo_waiting_client :: ClientPipeline where
  "demo_waiting_client = (newClientPipeline True)\<lparr>mp_currentState := CS_PLAYING,
     mp_needDataRequestMap := [(5, \<lparr>nr_shmInfo = demo_info, nr_frameWriter = None\<rparr>)]\<rparr>"

theorem client_answers_once_witness: "\<exists>p' m'. fold (\<lambda>(env, op). pipelineOp demo_codec env op)
    (replicate 2 ((2, [], None), OpHaveData MSS_OK 5 True)) (demo_waiting_client, \<lambda>_. 0) = (p', m') \<and>
    0 < answers 5 p' \<and> answers 5 p' \<le> 1"
proof -
  let ?ops = "replicate 2 ((2, [], None), OpHaveData MSS_OK 5 True)"
  obtain p' m' where run: "fold (\<lambda>(env, op). pipelineOp demo_codec env op) ?ops (demo_waiting_client, \<lambda>_. 0) = (p', m')"
    by fastforce
  have none: "\<forall>(env, op) \<in> set ?ops. \<not> asks 5 op" by (simp add: asks_def)
  have "answers 5 p' \<le> 1"
    using client_answers_once [OF run none] by (simp add: demo_waiting_client_def newClientPipeline_def answers_def)
  moreover have "0 < answers 5 p'"
    using run by (auto simp: demo_waiting_client_def newClientPipeline_def answers_def numeral_2_eq_2 clHaveData_def
        handleHaveData_def ipc_def erase_def)
  ultimately show ?thesis using run by blast
qed

theorem failed_audio_player_is_called_witness:
  "\<exists>s1 s2. clCreateWebAudioPlayer True ''audio/x-raw''
      (Some \<lparr>pcm_rate = 48000, pcm_channels = 2, pcm_sampleSize = 16, pcm_isBigEndian = False, pcm_isSigned = True,
             pcm_isFloat = False\<rparr>) True False True 16 demo_client = (False, s1) \<and>
    setApplicationState notifyBufferTermOf AS_INACTIVE None None s1 = (True, s2) \<and> 16 \<in> set (rc_badCalls s2)"
proof -
  let ?pcm = "\<lparr>pcm_rate = 48000, pcm_channels = 2, pcm_sampleSize = 16, pcm_isBigEndian = False, pcm_isSigned = True,
             pcm_isFloat = False\<rparr> :: WebAudioPcmConfig"
  obtain ok s1 where s1: "clCreateWebAudioPlayer True ''audio/x-raw'' (Some ?pcm) True False True 16 demo_client = (ok, s1)"
    by fastforce
  obtain ok' s2 where s2: "setApplicationState notifyBufferTermOf AS_INACTIVE None None s1 = (ok', s2)" by fastforce
  have pcm: "newClientWebAudio True ''audio/x-raw'' (Some ?pcm) \<noteq> None" by (simp add: newClientWebAudio_def)
  have bad: "\<not> ok \<and> 16 \<in> set (rc_badCalls s2)"
    using failed_audio_player_is_called [OF demo_client_inv _ _ _ pcm s1 s2] demo_client_fields by simp
  have "rc_exists demo_client" using demo_client_inv demo_client_fields by (simp add: control_inv_def)
  then have "rc_currentState s1 = AS_RUNNING"
    using s1 demo_client_fields
    by (auto simp: clCreateWebAudioPlayer_def getGeneric_def registerClientAt_def releaseManager_def newRialtoControl_def
        split: option.splits if_splits)
  with s2 have "ok'" by (simp add: setApplicationState_def)
  with s1 s2 bad show ?thesis by auto
qed

end
