(* ===== verification/Pipeline_Rpc.thy ===== *)
theory Pipeline_Rpc
  imports Ipc_Module Module_Service Session_Services Client_Proofs
begin

text \<open>
  The two ends of the remote procedure calls of a media pipeline: \<open>MediaPipelineIpc\<close> in the client
  (\<open>media/client/ipc/source/MediaPipelineIpc.cpp\<close>) builds a request, \<open>MediaPipelineModuleService\<close> in the server
  (\<open>media/server/ipc/source/MediaPipelineModuleService.cpp\<close>) turns it into a call of the media pipeline service; in
  the other direction \<open>MediaPipelineClient\<close> sends events. The messages are those of
  \<open>proto/mediapipelinemodule.proto\<close>; the socket in between delivers them unchanged.
\<close>

section \<open>Messages\<close>

datatype PbMediaType = PB_MEDIA_UNKNOWN | PB_MEDIA_MSE

datatype PbMediaSourceStatus = PB_STATUS_UNKNOWN | PB_STATUS_OK | PB_STATUS_EOS | PB_STATUS_ERROR
  | PB_STATUS_CODEC_CHANGED | PB_STATUS_NO_AVAILABLE_SAMPLES

datatype PbConfigType = PB_CONFIG_UNKNOWN | PB_CONFIG_AUDIO | PB_CONFIG_VIDEO | PB_CONFIG_VIDEO_DOLBY_VISION

datatype PbSourceAlignment = PB_ALIGNMENT_UNDEFINED | PB_ALIGNMENT_NAL | PB_ALIGNMENT_AU

datatype PbStreamFormat = PB_FORMAT_UNDEFINED | PB_FORMAT_RAW | PB_FORMAT_AVC | PB_FORMAT_BYTE_STREAM

datatype PbPlaybackState = PB_PS_UNKNOWN | PB_PS_IDLE | PB_PS_PLAYING | PB_PS_PAUSED | PB_PS_SEEKING | PB_PS_FLUSHED
  | PB_PS_STOPPED | PB_PS_END_OF_STREAM | PB_PS_FAILURE

datatype PbNetworkState = PB_NS_UNKNOWN | PB_NS_IDLE | PB_NS_BUFFERING | PB_NS_BUFFERING_PROGRESS | PB_NS_BUFFERED
  | PB_NS_STALLED | PB_NS_FORMAT_ERROR | PB_NS_NETWORK_ERROR | PB_NS_DECODE_ERROR

record PbAudioConfig =
  pba_number_of_channels :: u32
  pba_sample_rate :: u32
  pba_codec_specific_config :: "u8 list option"

record AttachSourceRequest =
  asr_session_id :: int
  asr_config_type :: PbConfigType
  asr_mime_type :: string
  asr_segment_alignment :: PbSourceAlignment
  asr_audio_config :: "PbAudioConfig option"
  asr_codec_data :: "u8 list"
  asr_stream_format :: PbStreamFormat
  asr_dolby_vision_profile :: "u32 option"

datatype PipelineRpcRequest =
    CreateSessionRequest u32 u32 | DestroySessionRequest int | LoadRequest int PbMediaType string string
  | AttachSourceReqMsg AttachSourceRequest | RemoveSourceRequest int i32 | SetVideoWindowRequest int u32 u32 u32 u32
  | PlayRequest int | PauseRequest int | StopRequest int | SetPositionRequest int i64 | GetPositionRequest int
  | SetPlaybackRateRequest int double | HaveDataRequest int PbMediaSourceStatus u32 u32
  | RenderFrameRequest int | SetVolumeRequest int double | GetVolumeRequest int

datatype PipelineRpcResponse =
    EmptyResponse | CreateSessionResponse int | AttachSourceResponse i32 | GetPositionResponse i64 | GetVolumeResponse double

text \<open>The source id of an event is a \<open>uint64\<close>.\<close>

datatype PipelineEvent =
    PlaybackStateChangeEvent int PbPlaybackState | NetworkStateChangeEvent int PbNetworkState
  | PositionChangeEvent int i64 | NeedMediaDataEvent int u64 u32 u32 "MediaPlayerShmInfo option" | QosEvent int u64 QosInfo

section \<open>The client's end\<close>

record MediaPipelineIpc = IpcModule +
  pi_sessionId :: int

definition pipelineEvents :: "string list" where
  "pipelineEvents = [''PlaybackStateChangeEvent'', ''PositionChangeEvent'', ''NetworkStateChangeEvent'',
     ''NeedMediaDataEvent'', ''QosEvent'']"

fun convertLoadRequestMediaType :: "MediaType \<Rightarrow> PbMediaType" where
  "convertLoadRequestMediaType MSE = PB_MEDIA_MSE"
| "convertLoadRequestMediaType MT_UNKNOWN = PB_MEDIA_UNKNOWN"

fun convertHaveDataRequestMediaSourceStatus :: "MediaSourceStatus \<Rightarrow> PbMediaSourceStatus" where
  "convertHaveDataRequestMediaSourceStatus MSS_OK = PB_STATUS_OK"
| "convertHaveDataRequestMediaSourceStatus MSS_EOS = PB_STATUS_EOS"
| "convertHaveDataRequestMediaSourceStatus MSS_ERROR = PB_STATUS_ERROR"
| "convertHaveDataRequestMediaSourceStatus MSS_CODEC_CHANGED = PB_STATUS_CODEC_CHANGED"
| "convertHaveDataRequestMediaSourceStatus MSS_NO_AVAILABLE_SAMPLES = PB_STATUS_NO_AVAILABLE_SAMPLES"

fun convertConfigTypeToPb :: "SourceConfigType \<Rightarrow> PbConfigType" where
  "convertConfigTypeToPb SCT_UNKNOWN = PB_CONFIG_UNKNOWN"
| "convertConfigTypeToPb SCT_AUDIO = PB_CONFIG_AUDIO"
| "convertConfigTypeToPb SCT_VIDEO = PB_CONFIG_VIDEO"
| "convertConfigTypeToPb SCT_VIDEO_DOLBY_VISION = PB_CONFIG_VIDEO_DOLBY_VISION"

fun convertSourceAlignmentToPb :: "SegmentAlignment \<Rightarrow> PbSourceAlignment" where
  "convertSourceAlignmentToPb SA_UNDEFINED = PB_ALIGNMENT_UNDEFINED"
| "convertSourceAlignmentToPb SA_NAL = PB_ALIGNMENT_NAL"
| "convertSourceAlignmentToPb SA_AU = PB_ALIGNMENT_AU"

fun convertStreamFormatToPb :: "StreamFormat \<Rightarrow> PbStreamFormat" where
  "convertStreamFormatToPb SF_UNDEFINED = PB_FORMAT_UNDEFINED"
| "convertStreamFormatToPb SF_RAW = PB_FORMAT_RAW"
| "convertStreamFormatToPb SF_AVC = PB_FORMAT_AVC"
| "convertStreamFormatToPb SF_BYTE_STREAM = PB_FORMAT_BYTE_STREAM"

text \<open>
  The request of \<open>attachSource\<close>; \<open>None\<close> is the \<open>std::bad_cast\<close> of a source whose class is not the one of its config
  type. An empty codec specific configuration is not set.
\<close>

definition attachSourceRequest :: "int \<Rightarrow> MediaSource \<Rightarrow> AttachSourceRequest option" where
  "attachSourceRequest sessionId source =
     (let request = \<lparr>asr_session_id = sessionId, asr_config_type = convertConfigTypeToPb (ms_configType source),
            asr_mime_type = ms_mimeType source, asr_segment_alignment = convertSourceAlignmentToPb (ms_alignment source),
            asr_audio_config = None, asr_codec_data = ms_codecData source,
            asr_stream_format = convertStreamFormatToPb (ms_streamFormat source), asr_dolby_vision_profile = None\<rparr>
      in if ms_configType source = SCT_VIDEO_DOLBY_VISION then
           case ms_class source of
             DolbyVisionSource profile \<Rightarrow> Some (request\<lparr>asr_dolby_vision_profile := Some profile\<rparr>)
           | _ \<Rightarrow> None
         else if ms_configType source = SCT_AUDIO then
           case ms_class source of
             AudioSource config \<Rightarrow>
               Some (request\<lparr>asr_audio_config := Some \<lparr>pba_number_of_channels = ac_numberOfChannels config,
                 pba_sample_rate = ac_sampleRate config,
                 pba_codec_specific_config = (if ac_codecSpecificConfig config \<noteq> [] then Some (ac_codecSpecificConfig config) else None)\<rparr>\<rparr>)
           | _ \<Rightarrow> None
         else Some request)"

text \<open>
  Every method reattaches the channel, sends its request and returns whether the controller has not failed. \<open>serve\<close>
  is the server.
\<close>

type_synonym ('req, 'resp, 's) rpc_server = "'req \<Rightarrow> 's \<Rightarrow> 'resp option \<times> 's"
type_synonym 's pipeline_peer = "(PipelineRpcRequest, PipelineRpcResponse, 's) rpc_server"

definition callOk :: "'resp option \<times> 'c \<times> 'w \<Rightarrow> bool \<times> 'c \<times> 'w" where
  "callOk r = (case r of (response, c, w) \<Rightarrow> (response \<noteq> None, c, w))"

definition mpiLoad :: "'s pipeline_peer \<Rightarrow> nat \<Rightarrow> MediaType \<Rightarrow> string \<Rightarrow> string \<Rightarrow> MediaPipelineIpc \<Rightarrow> 's IpcWorld \<Rightarrow>
    bool \<times> MediaPipelineIpc \<times> 's IpcWorld" where
  "mpiLoad serve this type mimeType url c w =
     callOk (remoteCall pipelineEvents this serve (LoadRequest (pi_sessionId c) (convertLoadRequestMediaType type) mimeType url) c w)"

text \<open>The outer option is the exception.\<close>

definition mpiAttachSource :: "'s pipeline_peer \<Rightarrow> nat \<Rightarrow> MediaSource \<Rightarrow> MediaPipelineIpc \<Rightarrow> 's IpcWorld \<Rightarrow>
    i32 option option \<times> MediaPipelineIpc \<times> 's IpcWorld" where
  "mpiAttachSource serve this source c w =
     (case attachSourceRequest (pi_sessionId c) source of
        None \<Rightarrow> (let (ok, c, w) = reattachChannelIfRequired pipelineEvents this c w in (if ok then None else Some None, c, w))
      | Some request \<Rightarrow>
          let (response, c, w) = remoteCall pipelineEvents this serve (AttachSourceReqMsg request) c w
          in (Some (case response of Some (AttachSourceResponse sourceId) \<Rightarrow> Some sourceId | _ \<Rightarrow> None), c, w))"

definition mpiRemoveSource :: "'s pipeline_peer \<Rightarrow> nat \<Rightarrow> i32 \<Rightarrow> MediaPipelineIpc \<Rightarrow> 's IpcWorld \<Rightarrow>
    bool \<times> MediaPipelineIpc \<times> 's IpcWorld" where
  "mpiRemoveSource serve this sourceId c w =
     callOk (remoteCall pipelineEvents this serve (RemoveSourceRequest (pi_sessionId c) sourceId) c w)"

definition mpiSetVideoWindow :: "'s pipeline_peer \<Rightarrow> nat \<Rightarrow> u32 \<Rightarrow> u32 \<Rightarrow> u32 \<Rightarrow> u32 \<Rightarrow> MediaPipelineIpc \<Rightarrow> 's IpcWorld \<Rightarrow>
    bool \<times> MediaPipelineIpc \<times> 's IpcWorld" where
  "mpiSetVideoWindow serve this x y width height c w =
     callOk (remoteCall pipelineEvents this serve (SetVideoWindowRequest (pi_sessionId c) x y width height) c w)"

definition mpiPlay :: "'s pipeline_peer \<Rightarrow> nat \<Rightarrow> MediaPipelineIpc \<Rightarrow> 's IpcWorld \<Rightarrow> bool \<times> MediaPipelineIpc \<times> 's IpcWorld" where
  "mpiPlay serve this c w = callOk (remoteCall pipelineEvents this serve (PlayRequest (pi_sessionId c)) c w)"

definition mpiPause :: "'s pipeline_peer \<Rightarrow> nat \<Rightarrow> MediaPipelineIpc \<Rightarrow> 's IpcWorld \<Rightarrow> bool \<times> MediaPipelineIpc \<times> 's IpcWorld" where
  "mpiPause serve this c w = callOk (remoteCall pipelineEvents this serve (PauseRequest (pi_sessionId c)) c w)"

definition mpiStop :: "'s pipeline_peer \<Rightarrow> nat \<Rightarrow> MediaPipelineIpc \<Rightarrow> 's IpcWorld \<Rightarrow> bool \<times> MediaPipelineIpc \<times> 's IpcWorld" where
  "mpiStop serve this c w = callOk (remoteCall pipelineEvents this serve (StopRequest (pi_sessionId c)) c w)"

definition mpiHaveData :: "'s pipeline_peer \<Rightarrow> nat \<Rightarrow> MediaSourceStatus \<Rightarrow> u32 \<Rightarrow> u32 \<Rightarrow> MediaPipelineIpc \<Rightarrow> 's IpcWorld \<Rightarrow>
    bool \<times> MediaPipelineIpc \<times> 's IpcWorld" where
  "mpiHaveData serve this status numFrames requestId c w =
     callOk (remoteCall pipelineEvents this serve
       (HaveDataRequest (pi_sessionId c) (convertHaveDataRequestMediaSourceStatus status) numFrames requestId) c w)"

definition mpiSetPosition :: "'s pipeline_peer \<Rightarrow> nat \<Rightarrow> i64 \<Rightarrow> MediaPipelineIpc \<Rightarrow> 's IpcWorld \<Rightarrow>
    bool \<times> MediaPipelineIpc \<times> 's IpcWorld" where
  "mpiSetPosition serve this position c w =
     callOk (remoteCall pipelineEvents this serve (SetPositionRequest (pi_sessionId c) position) c w)"

definition mpiGetPosition :: "'s pipeline_peer \<Rightarrow> nat \<Rightarrow> MediaPipelineIpc \<Rightarrow> 's IpcWorld \<Rightarrow>
    i64 option \<times> MediaPipelineIpc \<times> 's IpcWorld" where
  "mpiGetPosition serve this c w =
     (let (response, c, w) = remoteCall pipelineEvents this serve (GetPositionRequest (pi_sessionId c)) c w
      in (case response of Some (GetPositionResponse position) \<Rightarrow> Some position | _ \<Rightarrow> None, c, w))"

definition mpiSetPlaybackRate :: "'s pipeline_peer \<Rightarrow> nat \<Rightarrow> double \<Rightarrow> MediaPipelineIpc \<Rightarrow> 's IpcWorld \<Rightarrow>
    bool \<times> MediaPipelineIpc \<times> 's IpcWorld" where
  "mpiSetPlaybackRate serve this rate c w =
     callOk (remoteCall pipelineEvents this serve (SetPlaybackRateRequest (pi_sessionId c) rate) c w)"

definition mpiRenderFrame :: "'s pipeline_peer \<Rightarrow> nat \<Rightarrow> MediaPipelineIpc \<Rightarrow> 's IpcWorld \<Rightarrow> bool \<times> MediaPipelineIpc \<times> 's IpcWorld" where
  "mpiRenderFrame serve this c w = callOk (remoteCall pipelineEvents this serve (RenderFrameRequest (pi_sessionId c)) c w)"

definition mpiSetVolume :: "'s pipeline_peer \<Rightarrow> nat \<Rightarrow> double \<Rightarrow> MediaPipelineIpc \<Rightarrow> 's IpcWorld \<Rightarrow>
    bool \<times> MediaPipelineIpc \<times> 's IpcWorld" where
  "mpiSetVolume serve this volume c w =
     callOk (remoteCall pipelineEvents this serve (SetVolumeRequest (pi_sessionId c) volume) c w)"

definition mpiGetVolume :: "'s pipeline_peer \<Rightarrow> nat \<Rightarrow> MediaPipelineIpc \<Rightarrow> 's IpcWorld \<Rightarrow>
    double option \<times> MediaPipelineIpc \<times> 's IpcWorld" where
  "mpiGetVolume serve this c w =
     (let (response, c, w) = remoteCall pipelineEvents this serve (GetVolumeRequest (pi_sessionId c)) c w
      in (case response of Some (GetVolumeResponse volume) \<Rightarrow> Some volume | _ \<Rightarrow> None, c, w))"

definition mpiCreateSession :: "'s pipeline_peer \<Rightarrow> nat \<Rightarrow> u32 \<Rightarrow> u32 \<Rightarrow> MediaPipelineIpc \<Rightarrow> 's IpcWorld \<Rightarrow>
    bool \<times> MediaPipelineIpc \<times> 's IpcWorld" where
  "mpiCreateSession serve this maxWidth maxHeight c w =
     (let (response, c, w) = remoteCall pipelineEvents this serve (CreateSessionRequest maxWidth maxHeight) c w
      in case response of Some (CreateSessionResponse sessionId) \<Rightarrow> (True, c\<lparr>pi_sessionId := sessionId\<rparr>, w) | _ \<Rightarrow> (False, c, w))"

definition mpiDestroySession :: "'s pipeline_peer \<Rightarrow> nat \<Rightarrow> MediaPipelineIpc \<Rightarrow> 's IpcWorld \<Rightarrow> MediaPipelineIpc \<times> 's IpcWorld" where
  "mpiDestroySession serve this c w =
     snd (remoteCall pipelineEvents this serve (DestroySessionRequest (pi_sessionId c)) c w)"

text \<open>
  The constructor; \<open>garbage\<close> is the session id before it is set. When the session cannot be created it throws, and
  the destructor of the class does not run: the base class releases the channel without unsubscribing.
\<close>

definition newMediaPipelineIpc :: "'s pipeline_peer \<Rightarrow> nat \<Rightarrow> u32 \<Rightarrow> u32 \<Rightarrow> int \<Rightarrow> 's IpcWorld \<Rightarrow>
    MediaPipelineIpc option \<times> 's IpcWorld" where
  "newMediaPipelineIpc serve this maxWidth maxHeight garbage w =
     (let c = \<lparr>im_ipcChannel = None, im_eventTags = [], pi_sessionId = garbage\<rparr>;
          (ok, c, w) = attachChannel pipelineEvents this c w
      in if \<not> ok then (None, w)
         else let (ok, c, w) = mpiCreateSession serve this maxWidth maxHeight c w
              in if ok then (Some c, w) else (None, w))"

definition destroyMediaPipelineIpc :: "'s pipeline_peer \<Rightarrow> nat \<Rightarrow> MediaPipelineIpc \<Rightarrow> 's IpcWorld \<Rightarrow> 's IpcWorld" where
  "destroyMediaPipelineIpc serve this c w =
     (let (c, w) = mpiDestroySession serve this c w in snd (detachChannel c w))"

subsection \<open>Events\<close>

text \<open>Events of other sessions are ignored: the result is \<open>None\<close>. \<open>DECODE_ERROR\<close> falls under the default.\<close>

fun convertEventPlaybackState :: "PbPlaybackState \<Rightarrow> PlaybackState" where
  "convertEventPlaybackState PB_PS_IDLE = PS_IDLE"
| "convertEventPlaybackState PB_PS_PLAYING = PS_PLAYING"
| "convertEventPlaybackState PB_PS_PAUSED = PS_PAUSED"
| "convertEventPlaybackState PB_PS_SEEKING = PS_SEEKING"
| "convertEventPlaybackState PB_PS_FLUSHED = PS_FLUSHED"
| "convertEventPlaybackState PB_PS_STOPPED = PS_STOPPED"
| "convertEventPlaybackState PB_PS_END_OF_STREAM = PS_END_OF_STREAM"
| "convertEventPlaybackState PB_PS_FAILURE = PS_FAILURE"
| "convertEventPlaybackState _ = PS_UNKNOWN"

fun convertEventNetworkState :: "PbNetworkState \<Rightarrow> NetworkState" where
  "convertEventNetworkState PB_NS_IDLE = NS_IDLE"
| "convertEventNetworkState PB_NS_BUFFERING = NS_BUFFERING"
| "convertEventNetworkState PB_NS_BUFFERING_PROGRESS = NS_BUFFERING_PROGRESS"
| "convertEventNetworkState PB_NS_BUFFERED = NS_BUFFERED"
| "convertEventNetworkState PB_NS_STALLED = NS_STALLED"
| "convertEventNetworkState PB_NS_FORMAT_ERROR = NS_FORMAT_ERROR"
| "convertEventNetworkState PB_NS_NETWORK_ERROR = NS_NETWORK_ERROR"
| "convertEventNetworkState _ = NS_UNKNOWN"

definition onPlaybackStateUpdated :: "int \<Rightarrow> PbPlaybackState \<Rightarrow> MediaPipelineIpc \<Rightarrow> ClientPipeline \<Rightarrow> ClientPipeline" where
  "onPlaybackStateUpdated sessionId state c p =
     (if sessionId = pi_sessionId c then clNotifyPlaybackState (convertEventPlaybackState state) p else p)"

definition onPositionUpdated :: "int \<Rightarrow> i64 \<Rightarrow> MediaPipelineIpc \<Rightarrow> ClientPipeline \<Rightarrow> ClientPipeline" where
  "onPositionUpdated sessionId position c p = (if sessionId = pi_sessionId c then clNotifyPosition position p else p)"

definition onNetworkStateUpdated :: "int \<Rightarrow> PbNetworkState \<Rightarrow> MediaPipelineIpc \<Rightarrow> ClientPipeline \<Rightarrow> ClientPipeline" where
  "onNetworkStateUpdated sessionId state c p =
     (if sessionId = pi_sessionId c then clNotifyNetworkState (convertEventNetworkState state) p else p)"

text \<open>
  An event without shared memory information would store a null pointer that the first \<open>addSegment\<close> dereferences.
  \<open>MediaPipelineClient\<close> always sends it; the other case is outside the domain of the client's record and leaves it alone.
\<close>

definition onNeedMediaData :: "int \<Rightarrow> u64 \<Rightarrow> u32 \<Rightarrow> u32 \<Rightarrow> MediaPlayerShmInfo option \<Rightarrow> MediaPipelineIpc \<Rightarrow> ClientPipeline \<Rightarrow> ClientPipeline" where
  "onNeedMediaData sessionId sourceId requestId frameCount shmInfo c p =
     (if sessionId = pi_sessionId c then
        case shmInfo of
          None \<Rightarrow> p
        | Some info \<Rightarrow> clNotifyNeedMediaData (ucast sourceId) (unat frameCount) requestId info p
      else p)"

definition onQos :: "int \<Rightarrow> u64 \<Rightarrow> QosInfo \<Rightarrow> MediaPipelineIpc \<Rightarrow> ClientPipeline \<Rightarrow> ClientPipeline" where
  "onQos sessionId sourceId qosInfo c p =
     (if sessionId = pi_sessionId c then clNotifyQos (ucast sourceId) qosInfo p else p)"

fun onPipelineEvent :: "PipelineEvent \<Rightarrow> MediaPipelineIpc \<Rightarrow> ClientPipeline \<Rightarrow> ClientPipeline" where
  "onPipelineEvent (PlaybackStateChangeEvent i state) c p = onPlaybackStateUpdated i state c p"
| "onPipelineEvent (NetworkStateChangeEvent i state) c p = onNetworkStateUpdated i state c p"
| "onPipelineEvent (PositionChangeEvent i position) c p = onPositionUpdated i position c p"
| "onPipelineEvent (NeedMediaDataEvent i sourceId requestId frameCount info) c p = onNeedMediaData i sourceId requestId frameCount info c p"
| "onPipelineEvent (QosEvent i sourceId qosInfo) c p = onQos i sourceId qosInfo c p"

section \<open>The server's end\<close>

type_synonym PipelineModule = "Service ClientModule"

text \<open>
  What a handler finds besides its request: the environment of a new pipeline, whether the player can be created, the
  position and volume the player reports, and the value of an uninitialised local, which a method of the pipeline
  returns when its task is not run.
\<close>

record PipelineRpcEnv =
  re_pipeline :: PipelineEnv
  re_created :: bool
  re_position :: "i64 option"
  re_volume :: "double option"
  re_garbage :: bool

fun convertMediaType :: "PbMediaType \<Rightarrow> MediaType" where
  "convertMediaType PB_MEDIA_UNKNOWN = MT_UNKNOWN"
| "convertMediaType PB_MEDIA_MSE = MSE"

fun convertMediaSourceStatus :: "PbMediaSourceStatus \<Rightarrow> MediaSourceStatus" where
  "convertMediaSourceStatus PB_STATUS_UNKNOWN = MSS_ERROR"
| "convertMediaSourceStatus PB_STATUS_OK = MSS_OK"
| "convertMediaSourceStatus PB_STATUS_EOS = MSS_EOS"
| "convertMediaSourceStatus PB_STATUS_ERROR = MSS_ERROR"
| "convertMediaSourceStatus PB_STATUS_CODEC_CHANGED = MSS_CODEC_CHANGED"
| "convertMediaSourceStatus PB_STATUS_NO_AVAILABLE_SAMPLES = MSS_NO_AVAILABLE_SAMPLES"

fun convertConfigTypeFromPb :: "PbConfigType \<Rightarrow> SourceConfigType" where
  "convertConfigTypeFromPb PB_CONFIG_UNKNOWN = SCT_UNKNOWN"
| "convertConfigTypeFromPb PB_CONFIG_AUDIO = SCT_AUDIO"
| "convertConfigTypeFromPb PB_CONFIG_VIDEO = SCT_VIDEO"
| "convertConfigTypeFromPb PB_CONFIG_VIDEO_DOLBY_VISION = SCT_VIDEO_DOLBY_VISION"

fun convertSourceAlignmentFromPb :: "PbSourceAlignment \<Rightarrow> SegmentAlignment" where
  "convertSourceAlignmentFromPb PB_ALIGNMENT_UNDEFINED = SA_UNDEFINED"
| "convertSourceAlignmentFromPb PB_ALIGNMENT_NAL = SA_NAL"
| "convertSourceAlignmentFromPb PB_ALIGNMENT_AU = SA_AU"

fun convertStreamFormatFromPb :: "PbStreamFormat \<Rightarrow> StreamFormat" where
  "convertStreamFormatFromPb PB_FORMAT_RAW = SF_RAW"
| "convertStreamFormatFromPb PB_FORMAT_AVC = SF_AVC"
| "convertStreamFormatFromPb PB_FORMAT_BYTE_STREAM = SF_BYTE_STREAM"
| "convertStreamFormatFromPb PB_FORMAT_UNDEFINED = SF_UNDEFINED"

text \<open>A method of the service on a session, and the reply of a handler that only reports success.\<close>

definition ranOr :: "'r \<Rightarrow> 'r option \<Rightarrow> 'r" where
  "ranOr garbage r = (case r of None \<Rightarrow> garbage | Some v \<Rightarrow> v)"

definition onService :: "PipelineRpcEnv \<Rightarrow> (Service \<Rightarrow> bool option \<times> Service) \<Rightarrow> PipelineModule \<Rightarrow>
    PipelineRpcResponse option \<times> PipelineModule" where
  "onService env call m =
     (let (r, s) = call (cm_service m)
      in (if ranOr (re_garbage env) r then Some EmptyResponse else None, m\<lparr>cm_service := s\<rparr>))"

definition pmsCreateSession :: "PipelineRpcEnv \<Rightarrow> nat \<Rightarrow> u32 \<Rightarrow> u32 \<Rightarrow> PipelineModule \<Rightarrow> PipelineRpcResponse option \<times> PipelineModule" where
  "pmsCreateSession env client maxWidth maxHeight m =
     (let (r, m) = moduleCreate (createSession (createMediaPipelineServerInternal (re_pipeline env))) client m
      in (map_option CreateSessionResponse r, m))"

definition pmsDestroySession :: "nat \<Rightarrow> int \<Rightarrow> PipelineModule \<Rightarrow> PipelineRpcResponse option \<times> PipelineModule" where
  "pmsDestroySession client sessionId m =
     (let (ok, m) = moduleDestroy (destroySession deleteMediaPipeline) client sessionId m
      in (if ok then Some EmptyResponse else None, m))"

definition pmsClientConnected :: "nat \<Rightarrow> PipelineModule \<Rightarrow> PipelineModule" where
  "pmsClientConnected client m = moduleConnected client m"

definition pmsClientDisconnected :: "nat \<Rightarrow> PipelineModule \<Rightarrow> PipelineModule" where
  "pmsClientDisconnected client m = moduleDisconnected (destroySession deleteMediaPipeline) client m"

definition pmsLoad :: "PipelineRpcEnv \<Rightarrow> int \<Rightarrow> PbMediaType \<Rightarrow> string \<Rightarrow> string \<Rightarrow> PipelineModule \<Rightarrow>
    PipelineRpcResponse option \<times> PipelineModule" where
  "pmsLoad env sessionId type mimeType url m = onService env (mps_load sessionId (re_created env) (convertMediaType type)) m"

definition pmsSetVideoWindow :: "PipelineRpcEnv \<Rightarrow> int \<Rightarrow> u32 \<Rightarrow> u32 \<Rightarrow> u32 \<Rightarrow> u32 \<Rightarrow> PipelineModule \<Rightarrow>
    PipelineRpcResponse option \<times> PipelineModule" where
  "pmsSetVideoWindow env sessionId x y width height m = onService env (mps_setVideoWindow sessionId x y width height) m"

text \<open>
  The source the handler of \<open>attachSource\<close> constructs; \<open>None\<close> is the null pointer. The mime type of a video source passes
  through \<open>c_str\<close> and ends at its first null character.
\<close>

definition c_str :: "string \<Rightarrow> string" where
  "c_str s = takeWhile (\<lambda>ch. ch \<noteq> CHR 0x00) s"

definition requestedSource :: "AttachSourceRequest \<Rightarrow> MediaSource option" where
  "requestedSource request =
     (case convertConfigTypeFromPb (asr_config_type request) of
        SCT_AUDIO \<Rightarrow>
          let config = (case asr_audio_config request of
                          Some config \<Rightarrow> config
                        | None \<Rightarrow> \<lparr>pba_number_of_channels = 0, pba_sample_rate = 0, pba_codec_specific_config = None\<rparr>)
          in Some (newMediaSourceAudio 0 (asr_mime_type request)
               \<lparr>ac_numberOfChannels = pba_number_of_channels config, ac_sampleRate = pba_sample_rate config,
                ac_codecSpecificConfig = (case pba_codec_specific_config config of None \<Rightarrow> [] | Some bytes \<Rightarrow> bytes)\<rparr>
               (convertSourceAlignmentFromPb (asr_segment_alignment request)) (convertStreamFormatFromPb (asr_stream_format request))
               (asr_codec_data request))
      | SCT_VIDEO \<Rightarrow>
          Some (newMediaSourceVideo 0 (c_str (asr_mime_type request)) (convertSourceAlignmentFromPb (asr_segment_alignment request))
            (convertStreamFormatFromPb (asr_stream_format request)) (asr_codec_data request))
      | SCT_VIDEO_DOLBY_VISION \<Rightarrow>
          Some (newMediaSourceVideoDolbyVision 0 (c_str (asr_mime_type request))
            (case asr_dolby_vision_profile request of None \<Rightarrow> 0 | Some profile \<Rightarrow> profile)
            (convertSourceAlignmentFromPb (asr_segment_alignment request)) (convertStreamFormatFromPb (asr_stream_format request))
            (asr_codec_data request))
      | SCT_UNKNOWN \<Rightarrow> None)"

text \<open>The handler dereferences the source for its response; a null pointer ends the process.\<close>

definition pmsAttachSource :: "PipelineRpcEnv \<Rightarrow> AttachSourceRequest \<Rightarrow> PipelineModule \<Rightarrow> PipelineRpcResponse option \<times> PipelineModule" where
  "pmsAttachSource env request m =
     (case requestedSource request of
        None \<Rightarrow> (None, m\<lparr>cm_crashed := True\<rparr>)
      | Some source \<Rightarrow>
          let (r, s) = mps_attachSource (asr_session_id request) source (cm_service m);
              (ok, source) = ranOr (re_garbage env, source) r
          in (if ok then Some (AttachSourceResponse (ms_id source)) else None, m\<lparr>cm_service := s\<rparr>))"

definition pmsRemoveSource :: "PipelineRpcEnv \<Rightarrow> int \<Rightarrow> i32 \<Rightarrow> PipelineModule \<Rightarrow> PipelineRpcResponse option \<times> PipelineModule" where
  "pmsRemoveSource env sessionId sourceId m = onService env (mps_removeSource sessionId sourceId) m"

definition pmsPlay :: "PipelineRpcEnv \<Rightarrow> int \<Rightarrow> PipelineModule \<Rightarrow> PipelineRpcResponse option \<times> PipelineModule" where
  "pmsPlay env sessionId m = onService env (mps_play sessionId) m"

definition pmsPause :: "PipelineRpcEnv \<Rightarrow> int \<Rightarrow> PipelineModule \<Rightarrow> PipelineRpcResponse option \<times> PipelineModule" where
  "pmsPause env sessionId m = onService env (mps_pause sessionId) m"

definition pmsStop :: "PipelineRpcEnv \<Rightarrow> int \<Rightarrow> PipelineModule \<Rightarrow> PipelineRpcResponse option \<times> PipelineModule" where
  "pmsStop env sessionId m = onService env (mps_stop sessionId) m"

definition pmsSetPosition :: "PipelineRpcEnv \<Rightarrow> int \<Rightarrow> i64 \<Rightarrow> PipelineModule \<Rightarrow> PipelineRpcResponse option \<times> PipelineModule" where
  "pmsSetPosition env sessionId position m = onService env (mps_setPosition sessionId position) m"

definition pmsHaveData :: "PipelineRpcEnv \<Rightarrow> int \<Rightarrow> PbMediaSourceStatus \<Rightarrow> u32 \<Rightarrow> u32 \<Rightarrow> PipelineModule \<Rightarrow>
    PipelineRpcResponse option \<times> PipelineModule" where
  "pmsHaveData env sessionId status numFrames requestId m =
     onService env (mps_haveData sessionId (convertMediaSourceStatus status) numFrames requestId) m"

definition pmsSetPlaybackRate :: "PipelineRpcEnv \<Rightarrow> int \<Rightarrow> double \<Rightarrow> PipelineModule \<Rightarrow> PipelineRpcResponse option \<times> PipelineModule" where
  "pmsSetPlaybackRate env sessionId rate m = onService env (mps_setPlaybackRate sessionId rate) m"

text \<open>A query whose task is not run leaves the zero the handler initialised its variable with.\<close>

definition pmsGetPosition :: "PipelineRpcEnv \<Rightarrow> int \<Rightarrow> PipelineModule \<Rightarrow> PipelineRpcResponse option \<times> PipelineModule" where
  "pmsGetPosition env sessionId m =
     (let (r, s) = mps_getPosition sessionId (re_position env) (cm_service m)
      in (map_option GetPositionResponse (ranOr (if re_garbage env then Some 0 else None) r), m\<lparr>cm_service := s\<rparr>))"

definition pmsRenderFrame :: "PipelineRpcEnv \<Rightarrow> int \<Rightarrow> PipelineModule \<Rightarrow> PipelineRpcResponse option \<times> PipelineModule" where
  "pmsRenderFrame env sessionId m = onService env (mps_renderFrame sessionId) m"

definition pmsSetVolume :: "PipelineRpcEnv \<Rightarrow> int \<Rightarrow> double \<Rightarrow> PipelineModule \<Rightarrow> PipelineRpcResponse option \<times> PipelineModule" where
  "pmsSetVolume env sessionId volume m = onService env (mps_setVolume sessionId volume) m"

definition pmsGetVolume :: "PipelineRpcEnv \<Rightarrow> int \<Rightarrow> PipelineModule \<Rightarrow> PipelineRpcResponse option \<times> PipelineModule" where
  "pmsGetVolume env sessionId m =
     (let (r, s) = mps_getVolume sessionId (re_volume env) (cm_service m)
      in (map_option GetVolumeResponse (ranOr (if re_garbage env then Some 0 else None) r), m\<lparr>cm_service := s\<rparr>))"

fun servePipeline :: "PipelineRpcEnv \<Rightarrow> nat \<Rightarrow> PipelineModule pipeline_peer" where
  "servePipeline env client (CreateSessionRequest maxWidth maxHeight) m = pmsCreateSession env client maxWidth maxHeight m"
| "servePipeline env client (DestroySessionRequest i) m = pmsDestroySession client i m"
| "servePipeline env client (LoadRequest i type mimeType url) m = pmsLoad env i type mimeType url m"
| "servePipeline env client (AttachSourceReqMsg request) m = pmsAttachSource env request m"
| "servePipeline env client (RemoveSourceRequest i sourceId) m = pmsRemoveSource env i sourceId m"
| "servePipeline env client (SetVideoWindowRequest i x y width height) m = pmsSetVideoWindow env i x y width height m"
| "servePipeline env client (PlayRequest i) m = pmsPlay env i m"
| "servePipeline env client (PauseRequest i) m = pmsPause env i m"
| "servePipeline env client (StopRequest i) m = pmsStop env i m"
| "servePipeline env client (SetPositionRequest i position) m = pmsSetPosition env i position m"
| "servePipeline env client (GetPositionRequest i) m = pmsGetPosition env i m"
| "servePipeline env client (SetPlaybackRateRequest i rate) m = pmsSetPlaybackRate env i rate m"
| "servePipeline env client (HaveDataRequest i status numFrames requestId) m = pmsHaveData env i status numFrames requestId m"
| "servePipeline env client (RenderFrameRequest i) m = pmsRenderFrame env i m"
| "servePipeline env client (SetVolumeRequest i volume) m = pmsSetVolume env i volume m"
| "servePipeline env client (GetVolumeRequest i) m = pmsGetVolume env i m"

subsection \<open>Events\<close>

fun convertPlaybackState :: "PlaybackState \<Rightarrow> PbPlaybackState" where
  "convertPlaybackState PS_UNKNOWN = PB_PS_UNKNOWN"
| "convertPlaybackState PS_IDLE = PB_PS_IDLE"
| "convertPlaybackState PS_PLAYING = PB_PS_PLAYING"
| "convertPlaybackState PS_PAUSED = PB_PS_PAUSED"
| "convertPlaybackState PS_SEEKING = PB_PS_SEEKING"
| "convertPlaybackState PS_FLUSHED = PB_PS_FLUSHED"
| "convertPlaybackState PS_STOPPED = PB_PS_STOPPED"
| "convertPlaybackState PS_END_OF_STREAM = PB_PS_END_OF_STREAM"
| "convertPlaybackState PS_FAILURE = PB_PS_FAILURE"

fun convertNetworkState :: "NetworkState \<Rightarrow> PbNetworkState" where
  "convertNetworkState NS_UNKNOWN = PB_NS_UNKNOWN"
| "convertNetworkState NS_IDLE = PB_NS_IDLE"
| "convertNetworkState NS_BUFFERING = PB_NS_BUFFERING"
| "convertNetworkState NS_BUFFERING_PROGRESS = PB_NS_BUFFERING_PROGRESS"
| "convertNetworkState NS_BUFFERED = PB_NS_BUFFERED"
| "convertNetworkState NS_STALLED = PB_NS_STALLED"
| "convertNetworkState NS_FORMAT_ERROR = PB_NS_FORMAT_ERROR"
| "convertNetworkState NS_NETWORK_ERROR = PB_NS_NETWORK_ERROR"
| "convertNetworkState NS_DECODE_ERROR = PB_NS_DECODE_ERROR"

text \<open>A negative source id is extended with its sign.\<close>

definition mpcNotifyPosition :: "int \<Rightarrow> i64 \<Rightarrow> PipelineEvent" where
  "mpcNotifyPosition sessionId position = PositionChangeEvent sessionId position"

definition mpcNotifyNetworkState :: "int \<Rightarrow> NetworkState \<Rightarrow> PipelineEvent" where
  "mpcNotifyNetworkState sessionId state = NetworkStateChangeEvent sessionId (convertNetworkState state)"

definition mpcNotifyPlaybackState :: "int \<Rightarrow> PlaybackState \<Rightarrow> PipelineEvent" where
  "mpcNotifyPlaybackState sessionId state = PlaybackStateChangeEvent sessionId (convertPlaybackState state)"

definition mpcNotifyNeedMediaData :: "int \<Rightarrow> i32 \<Rightarrow> u32 \<Rightarrow> u32 \<Rightarrow> MediaPlayerShmInfo \<Rightarrow> PipelineEvent" where
  "mpcNotifyNeedMediaData sessionId sourceId frameCount needDataRequestId shmInfo =
     NeedMediaDataEvent sessionId (scast sourceId) needDataRequestId frameCount (Some shmInfo)"

definition mpcNotifyQos :: "int \<Rightarrow> i32 \<Rightarrow> QosInfo \<Rightarrow> PipelineEvent" where
  "mpcNotifyQos sessionId sourceId qosInfo = QosEvent sessionId (scast sourceId) qosInfo"

fun sendPipelineEvent :: "int \<Rightarrow> ClientEvent \<Rightarrow> PipelineEvent" where
  "sendPipelineEvent i (CE_playbackState state) = mpcNotifyPlaybackState i state"
| "sendPipelineEvent i (CE_needMediaData sourceId frameCount requestId info) = mpcNotifyNeedMediaData i sourceId frameCount requestId info"
| "sendPipelineEvent i (CE_position position) = mpcNotifyPosition i position"
| "sendPipelineEvent i (CE_networkState state) = mpcNotifyNetworkState i state"
| "sendPipelineEvent i (CE_qos sourceId qosInfo) = mpcNotifyQos i sourceId qosInfo"

end
