(* ===== verification/Pipeline_Rpc_Proofs.thy ===== *)
theory Pipeline_Rpc_Proofs
  imports Pipeline_Rpc
begin

text \<open>
  What the two ends of the pipeline's remote calls achieve together: a remote call does to the service what a direct
  call would do, events reach the pipeline of their session, sessions belong to the client that created them and go
  with it, and what happens to the event handlers of the client's end.
\<close>

section \<open>Conversions\<close>

text \<open>A value that is converted for the wire and back arrives as it was; different values stay different.\<close>

locale wire_conversion =
  fixes to_pb :: "'a \<Rightarrow> 'b" and from_pb :: "'b \<Rightarrow> 'a"
  assumes from_to [simp]: "from_pb (to_pb x) = x"
begin

lemma to_pb_inj: "to_pb x = to_pb y \<longleftrightarrow> x = y"
  using from_to by metis

end

interpretation media_type: wire_conversion convertLoadRequestMediaType convertMediaType
  by unfold_locales (metis MediaType.exhaust convertLoadRequestMediaType.simps convertMediaType.simps)

interpretation source_status: wire_conversion convertHaveDataRequestMediaSourceStatus convertMediaSourceStatus
proof
  show "convertMediaSourceStatus (convertHaveDataRequestMediaSourceStatus x) = x" for x by (cases x) simp_all
qed

interpretation config_type: wire_conversion convertConfigTypeToPb convertConfigTypeFromPb
proof
  show "convertConfigTypeFromPb (convertConfigTypeToPb x) = x" for x by (cases x) simp_all
qed

interpretation source_alignment: wire_conversion convertSourceAlignmentToPb convertSourceAlignmentFromPb
proof
  show "convertSourceAlignmentFromPb (convertSourceAlignmentToPb x) = x" for x by (cases x) simp_all
qed

interpretation stream_format: wire_conversion convertStreamFormatToPb convertStreamFormatFromPb
proof
  show "convertStreamFormatFromPb (convertStreamFormatToPb x) = x" for x by (cases x) simp_all
qed

interpretation playback_state: wire_conversion convertPlaybackState convertEventPlaybackState
proof
  show "convertEventPlaybackState (convertPlaybackState x) = x" for x by (cases x) simp_all
qed

lemma network_state_roundtrip: "x \<noteq> NS_DECODE_ERROR \<Longrightarrow> convertEventNetworkState (convertNetworkState x) = x"
  by (cases x) simp_all

lemma source_id_roundtrip: "ucast (scast (i :: 32 word) :: 64 word) = i"
  by (rule bit_word_eqI) (simp add: bit_simps)

text \<open>The sources the public constructors make, with a mime type that is a C string.\<close>

definition source_ok :: "MediaSource \<Rightarrow> bool" where
  "source_ok source \<longleftrightarrow> (case ms_class source of
      PlainSource \<Rightarrow> False
    | AudioSource config \<Rightarrow> ms_configType source = SCT_AUDIO \<and> ms_type source = AUDIO
    | VideoSource \<Rightarrow> ms_configType source = SCT_VIDEO \<and> ms_type source = VIDEO \<and> CHR 0x00 \<notin> set (ms_mimeType source)
    | DolbyVisionSource profile \<Rightarrow> ms_configType source = SCT_VIDEO_DOLBY_VISION \<and> ms_type source = VIDEO \<and>
        CHR 0x00 \<notin> set (ms_mimeType source))"

lemma c_str_id [simp]: "CHR 0x00 \<notin> set s \<Longrightarrow> c_str s = s"
  by (auto simp: c_str_def takeWhile_eq_all_conv)

lemma source_roundtrip:
  assumes "source_ok source"
  shows "\<exists>request. attachSourceRequest i source = Some request \<and> asr_session_id request = i \<and>
    requestedSource request = Some (source\<lparr>ms_id := 0\<rparr>)"
proof (cases "ms_class source")
  case (AudioSource config)
  then show ?thesis
    using assms
    by (auto simp: source_ok_def attachSourceRequest_def requestedSource_def source_constructor_defs Let_def
        intro!: MediaSource.equality AudioConfig.equality)
qed (use assms in \<open>auto simp: source_ok_def attachSourceRequest_def requestedSource_def source_constructor_defs Let_def
        intro!: MediaSource.equality\<close>)

section \<open>Remote and direct calls\<close>

datatype PipelineResult =
    BoolResult bool | SourceResult "i32 option" | PositionResult "i64 option" | VolumeResult "double option"

text \<open>The calls of the client library through \<open>MediaPipelineIpc\<close>; \<open>None\<close> is an exception.\<close>

fun ipcCall :: "'s pipeline_peer \<Rightarrow> nat \<Rightarrow> PipelineIpcCall \<Rightarrow> MediaPipelineIpc \<Rightarrow> 's IpcWorld \<Rightarrow>
    PipelineResult option \<times> MediaPipelineIpc \<times> 's IpcWorld" where
  "ipcCall serve this (PI_load type mime url) c w = map_prod (Some \<circ> BoolResult) id (mpiLoad serve this type mime url c w)"
| "ipcCall serve this (PI_attachSource source) c w = map_prod (map_option SourceResult) id (mpiAttachSource serve this source c w)"
| "ipcCall serve this (PI_removeSource i) c w = map_prod (Some \<circ> BoolResult) id (mpiRemoveSource serve this i c w)"
| "ipcCall serve this PI_play c w = map_prod (Some \<circ> BoolResult) id (mpiPlay serve this c w)"
| "ipcCall serve this PI_pause c w = map_prod (Some \<circ> BoolResult) id (mpiPause serve this c w)"
| "ipcCall serve this PI_stop c w = map_prod (Some \<circ> BoolResult) id (mpiStop serve this c w)"
| "ipcCall serve this (PI_setPlaybackRate rate) c w = map_prod (Some \<circ> BoolResult) id (mpiSetPlaybackRate serve this rate c w)"
| "ipcCall serve this (PI_setPosition position) c w = map_prod (Some \<circ> BoolResult) id (mpiSetPosition serve this position c w)"
| "ipcCall serve this PI_getPosition c w = map_prod (Some \<circ> PositionResult) id (mpiGetPosition serve this c w)"
| "ipcCall serve this (PI_setVideoWindow x y width height) c w =
     map_prod (Some \<circ> BoolResult) id (mpiSetVideoWindow serve this x y width height c w)"
| "ipcCall serve this (PI_haveData status n r) c w = map_prod (Some \<circ> BoolResult) id (mpiHaveData serve this status n r c w)"
| "ipcCall serve this PI_renderFrame c w = map_prod (Some \<circ> BoolResult) id (mpiRenderFrame serve this c w)"
| "ipcCall serve this (PI_setVolume volume) c w = map_prod (Some \<circ> BoolResult) id (mpiSetVolume serve this volume c w)"
| "ipcCall serve this PI_getVolume c w = map_prod (Some \<circ> VolumeResult) id (mpiGetVolume serve this c w)"

text \<open>The same calls made on the media pipeline service itself. A source arrives with the id zero.\<close>

fun directCall :: "PipelineRpcEnv \<Rightarrow> int \<Rightarrow> PipelineIpcCall \<Rightarrow> Service \<Rightarrow> PipelineResult \<times> Service" where
  "directCall env i (PI_load type mime url) s = map_prod (BoolResult \<circ> ranOr (re_garbage env)) id (mps_load i (re_created env) type s)"
| "directCall env i (PI_attachSource source) s =
     map_prod (\<lambda>r. case ranOr (re_garbage env, source\<lparr>ms_id := 0\<rparr>) r of
         (ok, source) \<Rightarrow> SourceResult (if ok then Some (ms_id source) else None)) id (mps_attachSource i (source\<lparr>ms_id := 0\<rparr>) s)"
| "directCall env i (PI_removeSource sourceId) s = map_prod (BoolResult \<circ> ranOr (re_garbage env)) id (mps_removeSource i sourceId s)"
| "directCall env i PI_play s = map_prod (BoolResult \<circ> ranOr (re_garbage env)) id (mps_play i s)"
| "directCall env i PI_pause s = map_prod (BoolResult \<circ> ranOr (re_garbage env)) id (mps_pause i s)"
| "directCall env i PI_stop s = map_prod (BoolResult \<circ> ranOr (re_garbage env)) id (mps_stop i s)"
| "directCall env i (PI_setPlaybackRate rate) s = map_prod (BoolResult \<circ> ranOr (re_garbage env)) id (mps_setPlaybackRate i rate s)"
| "directCall env i (PI_setPosition position) s = map_prod (BoolResult \<circ> ranOr (re_garbage env)) id (mps_setPosition i position s)"
| "directCall env i PI_getPosition s =
     map_prod (PositionResult \<circ> ranOr (if re_garbage env then Some 0 else None)) id (mps_getPosition i (re_position env) s)"
| "directCall env i (PI_setVideoWindow x y width height) s =
     map_prod (BoolResult \<circ> ranOr (re_garbage env)) id (mps_setVideoWindow i x y width height s)"
| "directCall env i (PI_haveData status n r) s = map_prod (BoolResult \<circ> ranOr (re_garbage env)) id (mps_haveData i status n r s)"
| "directCall env i PI_renderFrame s = map_prod (BoolResult \<circ> ranOr (re_garbage env)) id (mps_renderFrame i s)"
| "directCall env i (PI_setVolume volume) s = map_prod (BoolResult \<circ> ranOr (re_garbage env)) id (mps_setVolume i volume s)"
| "directCall env i PI_getVolume s =
     map_prod (VolumeResult \<circ> ranOr (if re_garbage env then Some 0 else None)) id (mps_getVolume i (re_volume env) s)"

lemmas mpi_defs = mpiLoad_def mpiRemoveSource_def mpiPlay_def mpiPause_def mpiStop_def mpiSetPlaybackRate_def
  mpiSetPosition_def mpiGetPosition_def mpiSetVideoWindow_def mpiHaveData_def mpiRenderFrame_def mpiSetVolume_def
  mpiGetVolume_def callOk_def
lemmas pms_defs = pmsLoad_def pmsRemoveSource_def pmsPlay_def pmsPause_def pmsStop_def pmsSetPlaybackRate_def
  pmsSetPosition_def pmsGetPosition_def pmsSetVideoWindow_def pmsHaveData_def pmsRenderFrame_def pmsSetVolume_def
  pmsGetVolume_def onService_def

lemma attach_call:
  assumes "attached c w" and "source_ok source"
  shows "ipcCall (servePipeline env client) this (PI_attachSource source) c w =
    (let (r, s) = directCall env (pi_sessionId c) (PI_attachSource source) (cm_service (iw_peer w))
     in (Some r, c, w\<lparr>iw_peer := (iw_peer w)\<lparr>cm_service := s\<rparr>\<rparr>))"
proof -
  obtain request where req: "attachSourceRequest (pi_sessionId c) source = Some request" "asr_session_id request = pi_sessionId c"
      "requestedSource request = Some (source\<lparr>ms_id := 0\<rparr>)"
    using source_roundtrip [OF assms(2)] by blast
  then show ?thesis
    by (auto simp: mpiAttachSource_def remoteCall_attached [OF assms(1)] pmsAttachSource_def Let_def
        split: prod.splits)
qed

section \<open>Properties of calls and events\<close>

text \<open>C22. A remote call on an attached channel is the direct call on the media pipeline service, for every method and
  every argument an application can pass: same result, same effect on the service, nothing else changed.\<close>

theorem remote_call_is_direct_call:
  assumes "attached c w" and "\<forall>source. call = PI_attachSource source \<longrightarrow> source_ok source"
  shows "ipcCall (servePipeline env client) this call c w =
    (let (r, s) = directCall env (pi_sessionId c) call (cm_service (iw_peer w))
     in (Some r, c, w\<lparr>iw_peer := (iw_peer w)\<lparr>cm_service := s\<rparr>\<rparr>))"
proof (cases call)
  case (PI_attachSource source)
  then show ?thesis using attach_call [OF assms(1)] assms(2) by simp
qed (auto simp: mpi_defs pms_defs remoteCall_attached [OF assms(1)] Let_def split: prod.splits option.splits)

fun deliverEvent :: "ClientEvent \<Rightarrow> ClientPipeline \<Rightarrow> ClientPipeline" where
  "deliverEvent (CE_playbackState state) p = clNotifyPlaybackState state p"
| "deliverEvent (CE_needMediaData sourceId frameCount requestId info) p = clNotifyNeedMediaData sourceId (unat frameCount) requestId info p"
| "deliverEvent (CE_position position) p = clNotifyPosition position p"
| "deliverEvent (CE_networkState state) p = clNotifyNetworkState state p"
| "deliverEvent (CE_qos sourceId qosInfo) p = clNotifyQos sourceId qosInfo p"

text \<open>C25. An event the server sends for a session reaches the pipeline of this session as the notification it was, and
  no other; the one exception is the network state of a decoding error.\<close>

theorem events_reach_their_session:
  assumes "ev \<noteq> CE_networkState NS_DECODE_ERROR"
  shows "onPipelineEvent (sendPipelineEvent i ev) c p = (if i = pi_sessionId c then deliverEvent ev p else p)"
  using assms
  by (cases ev) (auto simp: mpcNotifyPlaybackState_def mpcNotifyNeedMediaData_def mpcNotifyPosition_def mpcNotifyNetworkState_def
      mpcNotifyQos_def onPlaybackStateUpdated_def onNeedMediaData_def onPositionUpdated_def onNetworkStateUpdated_def onQos_def
      source_id_roundtrip network_state_roundtrip)

text \<open>A decoding error the server reports does not put the client's pipeline into its failure state: the client
  turns it into an unknown network state and stays as it is.\<close>

theorem decode_error_lost:
  "mp_currentState (onPipelineEvent (sendPipelineEvent (pi_sessionId c) (CE_networkState NS_DECODE_ERROR)) c p) = mp_currentState p \<and>
    mp_currentState (clNotifyNetworkState NS_DECODE_ERROR p) = CS_FAILURE"
  by (simp add: mpcNotifyNetworkState_def onNetworkStateUpdated_def clNotifyNetworkState_def updateNetworkState_def tellApp_def)


section \<open>Sessions and their clients\<close>

text \<open>Sessions of the playback service, by the two module services that create and destroy them.\<close>

definition livePipelines :: "Service \<Rightarrow> int set" where
  "livePipelines s = dom (map_of (ps_mediaPipelines s))"

interpretation pipeline_owner: owned_service "\<lambda>e. createSession (createMediaPipelineServerInternal e)"
  "destroySession deleteMediaPipeline" livePipelines
proof
  fix e h ok and s s' :: Service
  assume "createSession (createMediaPipelineServerInternal e) h s = (ok, s')"
  then show "livePipelines s' = (if ok then insert h (livePipelines s) else livePipelines s)"
    by (auto simp: createSession_def livePipelines_def Let_def split: if_splits option.splits prod.splits)
next
  fix h ok and s s' :: Service
  assume "destroySession deleteMediaPipeline h s = (ok, s')"
  then show "livePipelines s' = livePipelines s - {h}"
    by (auto simp: destroySession_def livePipelines_def split: option.splits if_splits)
qed

lemma onSession_live [simp]: "livePipelines (snd (onSession missing i call s)) = livePipelines s"
  by (auto simp: onSession_def livePipelines_def map_of_assign split: option.splits prod.splits if_splits)

lemmas wap_defs = wap_play_def wap_pause_def wap_setEos_def wap_getBufferAvailable_def wap_getBufferDelay_def
  wap_writeBuffer_def wap_getDeviceInfo_def wap_setVolume_def wap_getVolume_def

lemma service_live:
  "livePipelines (snd (playbackToActive sys s)) = livePipelines s"
  "livePipelines (playbackToInactive del delW s) = {}"
  "livePipelines (snd (createWebAudioPlayer new i s)) = livePipelines s"
  "livePipelines (snd (destroyWebAudioPlayer delW i s)) = livePipelines s"
  "livePipelines (snd (onWebAudioPlayer missing i call s)) = livePipelines s"
  by (auto simp: livePipelines_def playbackToActive_def playbackToInactive_def createWebAudioPlayer_def destroyWebAudioPlayer_def
      onWebAudioPlayer_def clearMediaPipelines_def clearWebAudioPlayers_def Let_def split: option.split prod.split)

text \<open>No operation of the service other than \<open>createSession\<close> brings a pipeline to life.\<close>

lemma service_op_live:
  assumes "\<forall>e i. op \<noteq> CreateSessionOp e i"
  shows "livePipelines (service_op op s) \<subseteq> livePipelines s"
proof (cases op)
  case (DestroySessionOp i)
  then show ?thesis
    using pipeline_owner.destroyed [of i s] by (cases "destroySession deleteMediaPipeline i s") auto
qed (use assms in \<open>auto simp: mps_defs wap_defs service_live\<close>)

lemma request_inv:
  assumes "ownership_inv livePipelines m"
  shows "ownership_inv livePipelines (snd (servePipeline env client request m))"
proof (cases request)
  case (CreateSessionRequest w h)
  then show ?thesis
    using pipeline_owner.create_inv [OF assms, of "re_pipeline env" client]
    by (auto simp: pmsCreateSession_def Let_def split: prod.splits)
next
  case (DestroySessionRequest i)
  then show ?thesis
    using pipeline_owner.destroy_inv [OF assms, of client i] by (auto simp: pmsDestroySession_def Let_def split: prod.splits)
qed (use assms in \<open>auto simp: pms_defs pmsAttachSource_def mps_defs Let_def case_prod_beta ownership_crashed
    intro!: ownership_service split: option.split\<close>)

text \<open>
  What happens to the module service of the media pipelines: clients come and go and send requests, and the session
  server does what else it does with the playback service, creating sessions excepted.
\<close>

inductive pipeline_module_reachable :: "PipelineModule \<Rightarrow> bool" where
  started: "ps_mediaPipelines s = [] \<Longrightarrow> pipeline_module_reachable (newClientModule s)"
| connected: "pipeline_module_reachable m \<Longrightarrow> pipeline_module_reachable (pmsClientConnected client m)"
| disconnected: "pipeline_module_reachable m \<Longrightarrow> pipeline_module_reachable (pmsClientDisconnected client m)"
| requested: "pipeline_module_reachable m \<Longrightarrow> pipeline_module_reachable (snd (servePipeline env client request m))"
| other: "pipeline_module_reachable m \<Longrightarrow> \<forall>e i. op \<noteq> CreateSessionOp e i \<Longrightarrow>
    pipeline_module_reachable (m\<lparr>cm_service := service_op op (cm_service m)\<rparr>)"

lemma reachable_ownership: "pipeline_module_reachable m \<Longrightarrow> ownership_inv livePipelines m"
proof (induction rule: pipeline_module_reachable.induct)
  case (started s)
  then show ?case by (simp add: ownership_inv_def newClientModule_def livePipelines_def owned_def)
next
  case (connected m client)
  then show ?case unfolding pmsClientConnected_def by (intro pipeline_owner.connect_inv)
next
  case (disconnected m client)
  then show ?case unfolding pmsClientDisconnected_def by (intro pipeline_owner.client_gone_inv)
next
  case (requested m env client request)
  then show ?case by (intro request_inv)
next
  case (other m op)
  then show ?case using service_op_live [of op "cm_service m"] by (auto simp: ownership_inv_def)
qed

text \<open>C23. Every media pipeline of the server belongs to exactly one connected client, whatever clients have done; when a
  client disconnects, exactly its pipelines are destroyed.\<close>

theorem pipelines_go_with_their_client:
  assumes "pipeline_module_reachable m"
  shows "(\<forall>i \<in> livePipelines (cm_service m). \<exists>!client. i \<in> owned client m) \<and>
    livePipelines (cm_service (pmsClientDisconnected client m)) = livePipelines (cm_service m) - owned client m"
  using ownership_unique [OF reachable_ownership [OF assms]]
  by (simp add: pmsClientDisconnected_def pipeline_owner.disconnect_alive)

section \<open>The event handlers of the client's end\<close>

text \<open>
  The life of a \<open>MediaPipelineIpc\<close> between its construction and its destruction: calls, and changes of the channel made
  by \<open>RialtoControlIpc\<close> or by the server going away.
\<close>

datatype PipelineIpcStep = CallStep PipelineIpcCall | ChannelStep "nat option" "nat \<Rightarrow> bool"

fun pipelineIpcStep :: "'s pipeline_peer \<Rightarrow> nat \<Rightarrow> PipelineIpcStep \<Rightarrow> MediaPipelineIpc \<times> 's IpcWorld \<Rightarrow> MediaPipelineIpc \<times> 's IpcWorld" where
  "pipelineIpcStep serve this (CallStep call) (c, w) = snd (ipcCall serve this call c w)"
| "pipelineIpcStep serve this (ChannelStep ch conn) (c, w) = (c, w\<lparr>iw_channel := ch, iw_connected := conn\<rparr>)"

lemma remoteCall_keeps:
  assumes "module_inv this c w"
  shows "module_inv this (fst (snd (remoteCall events this serve request c w))) (snd (snd (remoteCall events this serve request c w)))"
    and "pi_sessionId (fst (snd (remoteCall events this serve request c w))) = pi_sessionId c"
proof -
  obtain r c' w' where call: "remoteCall events this serve request c w = (r, c', w')" by (metis prod_cases3)
  note inv = remoteCall_inv [OF assms call]
  have "pi_sessionId c' = pi_sessionId c" using inv [THEN conjunct2, THEN arg_cong, of pi_sessionId] by simp
  with inv call show "module_inv this (fst (snd (remoteCall events this serve request c w))) (snd (snd (remoteCall events this serve request c w)))"
    and "pi_sessionId (fst (snd (remoteCall events this serve request c w))) = pi_sessionId c" by simp_all
qed

lemma reattach_keeps:
  assumes "module_inv this c w"
  shows "module_inv this (fst (snd (reattachChannelIfRequired events this c w))) (snd (snd (reattachChannelIfRequired events this c w)))"
    and "pi_sessionId (fst (snd (reattachChannelIfRequired events this c w))) = pi_sessionId c"
  using remoteCall_keeps [OF assms, of events "\<lambda>u. Pair None" "()"]
  by (simp_all add: remoteCall_def case_prod_beta split: if_splits)

lemma ipcCall_keeps:
  assumes "module_inv this c w"
  shows "module_inv this (fst (snd (ipcCall serve this call c w))) (snd (snd (ipcCall serve this call c w))) \<and>
    pi_sessionId (fst (snd (ipcCall serve this call c w))) = pi_sessionId c"
  by (cases call) (simp_all add: mpi_defs mpiAttachSource_def case_prod_beta Let_def
      remoteCall_keeps [OF assms] reattach_keeps [OF assms] split: option.split)

lemma pipelineIpcStep_keeps:
  assumes "module_inv this (fst cw) (snd cw)"
  shows "module_inv this (fst (pipelineIpcStep serve this st cw)) (snd (pipelineIpcStep serve this st cw)) \<and>
    pi_sessionId (fst (pipelineIpcStep serve this st cw)) = pi_sessionId (fst cw)"
proof (cases st)
  case (CallStep call)
  then show ?thesis using ipcCall_keeps [OF assms, of serve call] by (cases cw) simp
next
  case (ChannelStep ch conn)
  then show ?thesis using assms by (cases cw) (simp add: module_inv_def tags_fresh_def own_handlers_def)
qed

lemma pipelineIpcSteps_keep:
  "module_inv this (fst cw) (snd cw) \<Longrightarrow>
    module_inv this (fst (fold (pipelineIpcStep serve this) steps cw)) (snd (fold (pipelineIpcStep serve this) steps cw)) \<and>
    pi_sessionId (fst (fold (pipelineIpcStep serve this) steps cw)) = pi_sessionId (fst cw)"
proof (induction steps arbitrary: cw)
  case (Cons st steps)
  then show ?case using pipelineIpcStep_keeps [OF Cons.prems, of serve st] by simp
qed simp

lemma module_inv_session: "module_inv this (c\<lparr>pi_sessionId := i\<rparr>) w = module_inv this c w"
  by (auto simp: module_inv_def split: option.split)

lemma new_pipeline_ipc:
  assumes "tags_fresh w" and "own_handlers this w = []"
    and "newMediaPipelineIpc serve this maxWidth maxHeight garbage w = (Some c, w')"
  shows "module_inv this c w'"
proof -
  let ?c = "\<lparr>im_ipcChannel = None, im_eventTags = [], pi_sessionId = garbage\<rparr>"
  obtain ok c1 w1 where a: "attachChannel pipelineEvents this ?c w = (ok, c1, w1)" by (metis prod_cases3)
  have inv: "module_inv this c1 w1" using attach_inv [OF assms(1,2) _ a] by simp
  note keeps = remoteCall_keeps [OF inv, of pipelineEvents serve "CreateSessionRequest maxWidth maxHeight"]
  have "\<exists>i. c = (fst (snd (remoteCall pipelineEvents this serve (CreateSessionRequest maxWidth maxHeight) c1 w1)))\<lparr>pi_sessionId := i\<rparr> \<and>
    w' = snd (snd (remoteCall pipelineEvents this serve (CreateSessionRequest maxWidth maxHeight) c1 w1))"
    using assms(3) a
    by (auto simp: newMediaPipelineIpc_def mpiCreateSession_def Let_def case_prod_beta split: if_splits option.splits PipelineRpcResponse.splits)
  then show ?thesis using keeps(1) by (auto simp: module_inv_session)
qed

text \<open>C24. Once a \<open>MediaPipelineIpc\<close> is destroyed no handler of any channel refers to it, whatever calls it made and however
  often the channel was lost and replaced; it names the same session all along.\<close>

theorem destroyed_ipc_has_no_handlers:
  assumes "tags_fresh w" and "own_handlers this w = []"
    and "newMediaPipelineIpc serve this maxWidth maxHeight garbage w = (Some c, w1)"
    and "fold (pipelineIpcStep serve this) steps (c, w1) = (c2, w2)"
  shows "own_handlers this (destroyMediaPipelineIpc serve this c2 w2) = [] \<and> pi_sessionId c2 = pi_sessionId c"
proof -
  have inv: "module_inv this c2 w2" "pi_sessionId c2 = pi_sessionId c"
    using pipelineIpcSteps_keep [of this "(c, w1)" serve steps] new_pipeline_ipc [OF assms(1-3)] assms(4) by simp_all
  let ?r = "remoteCall pipelineEvents this serve (DestroySessionRequest (pi_sessionId c2)) c2 w2"
  have "module_inv this (fst (snd ?r)) (snd (snd ?r))" by (rule remoteCall_keeps [OF inv(1)])
  then show ?thesis
    using inv(2) detach_inv [of this "fst (snd ?r)" "snd (snd ?r)"]
    by (simp add: destroyMediaPipelineIpc_def mpiDestroySession_def case_prod_beta Let_def prod_eq_iff)
qed

text \<open>When the server refuses the session, the constructor throws although its handlers are subscribed: the channel
  keeps passing every event of the pipeline to an object that does not exist.\<close>

theorem failed_construction_leaves_handlers:
  assumes "tags_fresh w" and "own_handlers this w = []"
    and "iw_channel w = Some ch" and "iw_connected w ch"
    and "newMediaPipelineIpc serve this maxWidth maxHeight garbage w = (None, w')"
  shows "\<forall>e \<in> set pipelineEvents. this \<in> set (listeners ch e w')"
proof -
  obtain ok c1 w1 where a: "attachChannel pipelineEvents this \<lparr>im_ipcChannel = None, im_eventTags = [], pi_sessionId = garbage\<rparr> w = (ok, c1, w1)"
    by (metis prod_cases3)
  note listening = attach_listens [OF assms(1,2) _ assms(3,4) a, simplified]
  then have "iw_eventHandlers w' = iw_eventHandlers w1"
    using assms(5) a
    by (auto simp: newMediaPipelineIpc_def mpiCreateSession_def remoteCall_attached Let_def
        split: prod.splits if_splits option.splits PipelineRpcResponse.splits)
  then show ?thesis using listening by (simp add: listeners_def)
qed

section \<open>Witnesses\<close>

definition demo_rpc_env :: PipelineRpcEnv where
  "demo_rpc_env = \<lparr>re_pipeline = demo_penv, re_created = True, re_position = Some 5, re_volume = None, re_garbage = False\<rparr>"

definition demo_world :: "'s \<Rightarrow> 's IpcWorld" where
  "demo_world s = \<lparr>iw_channel = Some 0, iw_connected = (\<lambda>ch. ch = 0), iw_eventHandlers = [], iw_eventTagCounter = (\<lambda>_. 0), iw_peer = s\<rparr>"

definition demo_ipc :: MediaPipelineIpc where
  "demo_ipc = \<lparr>im_ipcChannel = Some 0, im_eventTags = [], pi_sessionId = 7\<rparr>"

definition demo_module :: PipelineModule where
  "demo_module = (newClientModule demo_service)\<lparr>cm_service := demo_service\<lparr>ps_mediaPipelines := [(7, demo_pipeline)]\<rparr>\<rparr>"

lemma demo_world_fresh: "tags_fresh (demo_world s)" "own_handlers this (demo_world s) = []"
  by (simp_all add: demo_world_def tags_fresh_def own_handlers_def)

theorem remote_call_is_direct_call_witness:
  "ipcCall (servePipeline demo_rpc_env 1) 4 (PI_attachSource demo_source) demo_ipc (demo_world demo_module) =
    (let (r, s) = directCall demo_rpc_env 7 (PI_attachSource demo_source) (cm_service demo_module)
     in (Some r, demo_ipc, (demo_world demo_module)\<lparr>iw_peer := demo_module\<lparr>cm_service := s\<rparr>\<rparr>))"
proof -
  have "attached demo_ipc (demo_world demo_module)" by (simp add: attached_def demo_ipc_def demo_world_def)
  moreover have "source_ok demo_source" by (simp add: source_ok_def demo_source_def source_constructor_defs)
  ultimately show ?thesis
    using remote_call_is_direct_call [of demo_ipc "demo_world demo_module" "PI_attachSource demo_source" demo_rpc_env 1 4]
    by (simp add: demo_ipc_def demo_world_def)
qed

theorem events_reach_their_session_witness:
  "onPipelineEvent (sendPipelineEvent 7 (CE_networkState NS_BUFFERED)) demo_ipc (newClientPipeline True) =
    clNotifyNetworkState NS_BUFFERED (newClientPipeline True)"
  using events_reach_their_session [of "CE_networkState NS_BUFFERED" 7 demo_ipc "newClientPipeline True"]
  by (simp add: demo_ipc_def)

lemma demo_created: "fst (createSession (createMediaPipelineServerInternal demo_penv) 0 demo_service)"
  using services.createSession_ok(1) [OF demo_service_inv demo_envs(1), of 0] by (simp add: demo_service_eq NO_ID_ASSIGNED_def)

definition demo_requested :: PipelineModule where
  "demo_requested = snd (servePipeline demo_rpc_env 3 (CreateSessionRequest 1920 1080) (newClientModule demo_service))"

theorem pipelines_go_with_their_client_witness:
  "livePipelines (cm_service demo_requested) = {0} \<and> livePipelines (cm_service (pmsClientDisconnected 3 demo_requested)) = {}"
proof -
  obtain s where s: "createSession (createMediaPipelineServerInternal demo_penv) 0 demo_service = (True, s)"
    using demo_created by (metis prod.collapse)
  have m: "demo_requested = (newClientModule demo_service)\<lparr>cm_nextHandle := 1, cm_service := s, cm_clientHandles := [(3, [0])]\<rparr>"
    using s by (simp add: demo_requested_def pmsCreateSession_def demo_rpc_env_def moduleCreate_def newClientModule_def insertHandle_def emplace_def)
  have "owned 3 demo_requested = {0}" "cm_service demo_requested = s" unfolding m by (simp_all add: owned_def)
  moreover have "livePipelines s = {0}"
    using pipeline_owner.created [OF s] by (simp add: livePipelines_def demo_service_eq)
  moreover have "pipeline_module_reachable demo_requested"
    unfolding demo_requested_def by (intro requested started) (simp add: demo_service_eq)
  ultimately show ?thesis using pipelines_go_with_their_client [of demo_requested 3] by simp
qed

theorem destroyed_ipc_has_no_handlers_witness:
  "\<exists>c w1 c2 w2. newMediaPipelineIpc (\<lambda>request. Pair (Some (CreateSessionResponse 3))) 4 0 0 9 (demo_world ()) = (Some c, w1) \<and>
    own_handlers 4 w1 \<noteq> [] \<and>
    fold (pipelineIpcStep (\<lambda>request. Pair (Some (CreateSessionResponse 3))) 4)
      [CallStep PI_play, ChannelStep (Some 1) (\<lambda>ch. ch = 1), CallStep PI_pause] (c, w1) = (c2, w2) \<and> im_ipcChannel c2 = Some 1 \<and>
    own_handlers 4 (destroyMediaPipelineIpc (\<lambda>request. Pair (Some (CreateSessionResponse 3))) 4 c2 w2) = [] \<and>
    pi_sessionId c2 = 3"
proof -
  let ?serve = "\<lambda>request :: PipelineRpcRequest. Pair (Some (CreateSessionResponse 3)) :: unit \<Rightarrow> _"
  let ?steps = "[CallStep PI_play, ChannelStep (Some 1) (\<lambda>ch. ch = 1), CallStep PI_pause]"
  let ?new = "newMediaPipelineIpc ?serve 4 0 0 9 (demo_world ())"
  obtain c w1 where new: "?new = (Some c, w1)" "own_handlers 4 w1 \<noteq> []" "pi_sessionId c = 3"
    "im_ipcChannel (fst (fold (pipelineIpcStep ?serve 4) ?steps (c, w1))) = Some 1"
    by (simp add: newMediaPipelineIpc_def attachChannel_def demo_world_def subscribeToEvents_def pipelineEvents_def subscribeImpl_def
        mpiCreateSession_def remoteCall_def reattachChannelIfRequired_def own_handlers_def mpi_defs detachChannel_def
        unsubscribeFromAllEvents_def unsubscribe_def)
  obtain c2 w2 where run: "fold (pipelineIpcStep ?serve 4) ?steps (c, w1) = (c2, w2)" by fastforce
  show ?thesis
    using destroyed_ipc_has_no_handlers [OF demo_world_fresh new(1) run] new run by fastforce
qed

theorem failed_construction_leaves_handlers_witness:
  "\<exists>w'. newMediaPipelineIpc (\<lambda>request. Pair None) 4 0 0 9 (demo_world ()) = (None, w') \<and>
    4 \<in> set (listeners 0 ''QosEvent'' w')"
proof -
  obtain w' where new: "newMediaPipelineIpc (\<lambda>request. Pair None) 4 0 0 9 (demo_world ()) = (None, w')"
    by (simp add: newMediaPipelineIpc_def attachChannel_def demo_world_def subscribeToEvents_def pipelineEvents_def subscribeImpl_def
        mpiCreateSession_def remoteCall_def reattachChannelIfRequired_def)
  show ?thesis
    using failed_construction_leaves_handlers [OF demo_world_fresh _ _ new, of 0] new by (simp add: demo_world_def pipelineEvents_def)
qed

end
