(* ===== verification/Audio_Rpc.thy ===== *)
theory Audio_Rpc
  imports Pipeline_Rpc_Proofs
begin

text \<open>
  The remote calls of a web audio player: \<open>WebAudioPlayerIpc\<close> in the client
  (\<open>media/client/ipc/source/WebAudioPlayerIpc.cpp\<close>), \<open>WebAudioPlayerModuleService\<close> and \<open>WebAudioPlayerClient\<close> in the
  server (\<open>media/server/ipc/source\<close>), with the messages of \<open>proto/webaudioplayermodule.proto\<close>; then the same
  properties as for the media pipeline.
\<close>

section \<open>Messages\<close>

datatype PbAudioState = PB_AS_UNKNOWN | PB_AS_IDLE | PB_AS_PLAYING | PB_AS_PAUSED | PB_AS_END_OF_STREAM | PB_AS_FAILURE

datatype AudioRequest =
    CreateAudioRequest string u32 "WebAudioPcmConfig option" | DestroyAudioRequest int
  | AudioPlayRequest int | AudioPauseRequest int | AudioSetEosRequest int | AudioGetBufferAvailableRequest int
  | AudioGetBufferDelayRequest int | AudioWriteBufferRequest int u32 | AudioGetDeviceInfoRequest int
  | AudioSetVolumeRequest int double | AudioGetVolumeRequest int

text \<open>\<open>support_deferred_play\<close> is a \<open>uint32\<close> in the message.\<close>

datatype AudioResponse =
    AudioEmptyResponse | CreateAudioResponse int | AudioBufferAvailableResponse u32 WebAudioShmInfo
  | AudioBufferDelayResponse u32 | AudioDeviceInfoResponse u32 u32 u32 | AudioVolumeResponse double

datatype AudioEvent = WebAudioPlayerStateEvent int PbAudioState

type_synonym 's audio_peer = "(AudioRequest, AudioResponse, 's) rpc_server"

section \<open>The client's end\<close>

record WebAudioPlayerIpc = IpcModule +
  wi_handle :: int

definition audioEvents :: "string list" where
  "audioEvents = [''WebAudioPlayerStateEvent'']"

fun convertEventAudioState :: "PbAudioState \<Rightarrow> WebAudioPlayerState" where
  "convertEventAudioState PB_AS_UNKNOWN = WAS_UNKNOWN"
| "convertEventAudioState PB_AS_IDLE = WAS_IDLE"
| "convertEventAudioState PB_AS_PLAYING = WAS_PLAYING"
| "convertEventAudioState PB_AS_PAUSED = WAS_PAUSED"
| "convertEventAudioState PB_AS_END_OF_STREAM = WAS_END_OF_STREAM"
| "convertEventAudioState PB_AS_FAILURE = WAS_FAILURE"

fun onAudioStateUpdated :: "AudioEvent \<Rightarrow> WebAudioPlayerIpc \<Rightarrow> ClientWebAudio \<Rightarrow> ClientWebAudio" where
  "onAudioStateUpdated (WebAudioPlayerStateEvent handle state) c p =
     (if handle = wi_handle c then waNotifyState (convertEventAudioState state) p else p)"

definition waiPlay :: "'s audio_peer \<Rightarrow> nat \<Rightarrow> WebAudioPlayerIpc \<Rightarrow> 's IpcWorld \<Rightarrow> bool \<times> WebAudioPlayerIpc \<times> 's IpcWorld" where
  "waiPlay serve this c w = callOk (remoteCall audioEvents this serve (AudioPlayRequest (wi_handle c)) c w)"

definition waiPause :: "'s audio_peer \<Rightarrow> nat \<Rightarrow> WebAudioPlayerIpc \<Rightarrow> 's IpcWorld \<Rightarrow> bool \<times> WebAudioPlayerIpc \<times> 's IpcWorld" where
  "waiPause serve this c w = callOk (remoteCall audioEvents this serve (AudioPauseRequest (wi_handle c)) c w)"

definition waiSetEos :: "'s audio_peer \<Rightarrow> nat \<Rightarrow> WebAudioPlayerIpc \<Rightarrow> 's IpcWorld \<Rightarrow> bool \<times> WebAudioPlayerIpc \<times> 's IpcWorld" where
  "waiSetEos serve this c w = callOk (remoteCall audioEvents this serve (AudioSetEosRequest (wi_handle c)) c w)"

text \<open>The argument tells whether the caller passes a structure for the result.\<close>

definition waiGetBufferAvailable :: "'s audio_peer \<Rightarrow> nat \<Rightarrow> bool \<Rightarrow> WebAudioPlayerIpc \<Rightarrow> 's IpcWorld \<Rightarrow>
    (u32 \<times> WebAudioShmInfo) option \<times> WebAudioPlayerIpc \<times> 's IpcWorld" where
  "waiGetBufferAvailable serve this webAudioShmInfo c w =
     (if \<not> webAudioShmInfo then (None, c, w)
      else let (response, c, w) = remoteCall audioEvents this serve (AudioGetBufferAvailableRequest (wi_handle c)) c w
        in (case response of Some (AudioBufferAvailableResponse frames info) \<Rightarrow> Some (frames, info) | _ \<Rightarrow> None, c, w))"

definition waiGetBufferDelay :: "'s audio_peer \<Rightarrow> nat \<Rightarrow> WebAudioPlayerIpc \<Rightarrow> 's IpcWorld \<Rightarrow>
    u32 option \<times> WebAudioPlayerIpc \<times> 's IpcWorld" where
  "waiGetBufferDelay serve this c w =
     (let (response, c, w) = remoteCall audioEvents this serve (AudioGetBufferDelayRequest (wi_handle c)) c w
      in (case response of Some (AudioBufferDelayResponse frames) \<Rightarrow> Some frames | _ \<Rightarrow> None, c, w))"

definition waiWriteBuffer :: "'s audio_peer \<Rightarrow> nat \<Rightarrow> u32 \<Rightarrow> WebAudioPlayerIpc \<Rightarrow> 's IpcWorld \<Rightarrow>
    bool \<times> WebAudioPlayerIpc \<times> 's IpcWorld" where
  "waiWriteBuffer serve this numberOfFrames c w =
     callOk (remoteCall audioEvents this serve (AudioWriteBufferRequest (wi_handle c) numberOfFrames) c w)"

definition waiGetDeviceInfo :: "'s audio_peer \<Rightarrow> nat \<Rightarrow> WebAudioPlayerIpc \<Rightarrow> 's IpcWorld \<Rightarrow>
    (u32 \<times> u32 \<times> bool) option \<times> WebAudioPlayerIpc \<times> 's IpcWorld" where
  "waiGetDeviceInfo serve this c w =
     (let (response, c, w) = remoteCall audioEvents this serve (AudioGetDeviceInfoRequest (wi_handle c)) c w
      in (case response of
            Some (AudioDeviceInfoResponse preferred maximum deferred) \<Rightarrow> Some (preferred, maximum, deferred \<noteq> 0)
          | _ \<Rightarrow> None, c, w))"

definition waiSetVolume :: "'s audio_peer \<Rightarrow> nat \<Rightarrow> double \<Rightarrow> WebAudioPlayerIpc \<Rightarrow> 's IpcWorld \<Rightarrow>
    bool \<times> WebAudioPlayerIpc \<times> 's IpcWorld" where
  "waiSetVolume serve this volume c w =
     callOk (remoteCall audioEvents this serve (AudioSetVolumeRequest (wi_handle c) volume) c w)"

definition waiGetVolume :: "'s audio_peer \<Rightarrow> nat \<Rightarrow> WebAudioPlayerIpc \<Rightarrow> 's IpcWorld \<Rightarrow>
    double option \<times> WebAudioPlayerIpc \<times> 's IpcWorld" where
  "waiGetVolume serve this c w =
     (let (response, c, w) = remoteCall audioEvents this serve (AudioGetVolumeRequest (wi_handle c)) c w
      in (case response of Some (AudioVolumeResponse volume) \<Rightarrow> Some volume | _ \<Rightarrow> None, c, w))"

definition waiCreateWebAudioPlayer :: "'s audio_peer \<Rightarrow> nat \<Rightarrow> string \<Rightarrow> u32 \<Rightarrow> WebAudioPcmConfig option \<Rightarrow> WebAudioPlayerIpc \<Rightarrow>
    's IpcWorld \<Rightarrow> bool \<times> WebAudioPlayerIpc \<times> 's IpcWorld" where
  "waiCreateWebAudioPlayer serve this audioMimeType priority config c w =
     (let (response, c, w) = remoteCall audioEvents this serve (CreateAudioRequest audioMimeType priority config) c w
      in case response of Some (CreateAudioResponse handle) \<Rightarrow> (True, c\<lparr>wi_handle := handle\<rparr>, w) | _ \<Rightarrow> (False, c, w))"

definition waiDestroyWebAudioPlayer :: "'s audio_peer \<Rightarrow> nat \<Rightarrow> WebAudioPlayerIpc \<Rightarrow> 's IpcWorld \<Rightarrow>
    WebAudioPlayerIpc \<times> 's IpcWorld" where
  "waiDestroyWebAudioPlayer serve this c w =
     snd (remoteCall audioEvents this serve (DestroyAudioRequest (wi_handle c)) c w)"

definition newWebAudioPlayerIpc :: "'s audio_peer \<Rightarrow> nat \<Rightarrow> string \<Rightarrow> u32 \<Rightarrow> WebAudioPcmConfig option \<Rightarrow> 's IpcWorld \<Rightarrow>
    WebAudioPlayerIpc option \<times> 's IpcWorld" where
  "newWebAudioPlayerIpc serve this audioMimeType priority config w =
     (let c = \<lparr>im_ipcChannel = None, im_eventTags = [], wi_handle = -1\<rparr>;
          (ok, c, w) = attachChannel audioEvents this c w
      in if \<not> ok then (None, w)
         else let (ok, c, w) = waiCreateWebAudioPlayer serve this audioMimeType priority config c w
              in if ok then (Some c, w) else (None, w))"

definition destroyWebAudioPlayerIpc :: "'s audio_peer \<Rightarrow> nat \<Rightarrow> WebAudioPlayerIpc \<Rightarrow> 's IpcWorld \<Rightarrow> 's IpcWorld" where
  "destroyWebAudioPlayerIpc serve this c w =
     (let (c, w) = waiDestroyWebAudioPlayer serve this c w in snd (detachChannel c w))"

section \<open>The server's end\<close>

type_synonym AudioModule = "Service ClientModule"

text \<open>
  What a handler finds: the main thread, memory and the platform's answers for a new player, a \<open>WebAudioConfig\<close> nobody
  initialised, the bytes queued in GStreamer, the volume it reports, and the uninitialised result of a method
  whose task is not run.
\<close>

record AudioRpcEnv =
  ae_player :: WebAudioEnv
  ae_config :: WebAudioPcmConfig
  ae_queuedBytes :: u64
  ae_volume :: "double option"
  ae_garbage :: bool

text \<open>The handler passes the address of its local configuration whether or not the request had one.\<close>

definition requestedPlayer :: "AudioRpcEnv \<Rightarrow> string \<Rightarrow> u32 \<Rightarrow> WebAudioPcmConfig option \<Rightarrow> WebAudioEnv" where
  "requestedPlayer env audioMimeType priority config =
     (ae_player env)\<lparr>we_client := True, we_mimeType := audioMimeType, we_priority := priority,
        we_config := Some (case config of None \<Rightarrow> ae_config env | Some pcm \<Rightarrow> pcm)\<rparr>"

definition wmsCreateWebAudioPlayer :: "AudioRpcEnv \<Rightarrow> nat \<Rightarrow> string \<Rightarrow> u32 \<Rightarrow> WebAudioPcmConfig option \<Rightarrow> AudioModule \<Rightarrow>
    AudioResponse option \<times> AudioModule" where
  "wmsCreateWebAudioPlayer env client audioMimeType priority config m =
     (let (r, m) = moduleCreate (createWebAudioPlayer
            (createWebAudioPlayerServerInternal (requestedPlayer env audioMimeType priority config))) client m
      in (map_option CreateAudioResponse r, m))"

definition wmsDestroyWebAudioPlayer :: "nat \<Rightarrow> int \<Rightarrow> AudioModule \<Rightarrow> AudioResponse option \<times> AudioModule" where
  "wmsDestroyWebAudioPlayer client handle m =
     (let (ok, m) = moduleDestroy (destroyWebAudioPlayer deleteWebAudioPlayer) client handle m
      in (if ok then Some AudioEmptyResponse else None, m))"

definition wmsClientConnected :: "nat \<Rightarrow> AudioModule \<Rightarrow> AudioModule" where
  "wmsClientConnected client m = moduleConnected client m"

definition wmsClientDisconnected :: "nat \<Rightarrow> AudioModule \<Rightarrow> AudioModule" where
  "wmsClientDisconnected client m = moduleDisconnected (destroyWebAudioPlayer deleteWebAudioPlayer) client m"

definition onAudioService :: "(Service \<Rightarrow> 'r \<times> Service) \<Rightarrow> ('r \<Rightarrow> AudioResponse option) \<Rightarrow> AudioModule \<Rightarrow>
    AudioResponse option \<times> AudioModule" where
  "onAudioService call reply m = (let (r, s) = call (cm_service m) in (reply r, m\<lparr>cm_service := s\<rparr>))"

definition audioDone :: "bool \<Rightarrow> AudioResponse option" where
  "audioDone ok = (if ok then Some AudioEmptyResponse else None)"

definition wmsPlay :: "int \<Rightarrow> AudioModule \<Rightarrow> AudioResponse option \<times> AudioModule" where
  "wmsPlay handle m = onAudioService (wap_play handle) audioDone m"

definition wmsPause :: "int \<Rightarrow> AudioModule \<Rightarrow> AudioResponse option \<times> AudioModule" where
  "wmsPause handle m = onAudioService (wap_pause handle) audioDone m"

definition wmsSetEos :: "int \<Rightarrow> AudioModule \<Rightarrow> AudioResponse option \<times> AudioModule" where
  "wmsSetEos handle m = onAudioService (wap_setEos handle) audioDone m"

definition wmsGetBufferAvailable :: "int \<Rightarrow> AudioModule \<Rightarrow> AudioResponse option \<times> AudioModule" where
  "wmsGetBufferAvailable handle m =
     onAudioService (wap_getBufferAvailable handle True) (map_option (\<lambda>(frames, info). AudioBufferAvailableResponse frames info)) m"

definition wmsGetBufferDelay :: "AudioRpcEnv \<Rightarrow> int \<Rightarrow> AudioModule \<Rightarrow> AudioResponse option \<times> AudioModule" where
  "wmsGetBufferDelay env handle m =
     onAudioService (wap_getBufferDelay handle (ae_queuedBytes env))
       (\<lambda>r. map_option AudioBufferDelayResponse (ranOr (if ae_garbage env then Some 0 else None) r)) m"

definition wmsWriteBuffer :: "AudioRpcEnv \<Rightarrow> int \<Rightarrow> u32 \<Rightarrow> AudioModule \<Rightarrow> AudioResponse option \<times> AudioModule" where
  "wmsWriteBuffer env handle numberOfFrames m =
     onAudioService (wap_writeBuffer handle numberOfFrames) (\<lambda>r. audioDone (ranOr (ae_garbage env) r)) m"

definition wmsGetDeviceInfo :: "int \<Rightarrow> AudioModule \<Rightarrow> AudioResponse option \<times> AudioModule" where
  "wmsGetDeviceInfo handle m =
     onAudioService (wap_getDeviceInfo handle)
       (map_option (\<lambda>(preferred, maximum, deferred). AudioDeviceInfoResponse preferred maximum (of_bool deferred))) m"

definition wmsSetVolume :: "int \<Rightarrow> double \<Rightarrow> AudioModule \<Rightarrow> AudioResponse option \<times> AudioModule" where
  "wmsSetVolume handle volume m = onAudioService (wap_setVolume handle volume) audioDone m"

definition wmsGetVolume :: "AudioRpcEnv \<Rightarrow> int \<Rightarrow> AudioModule \<Rightarrow> AudioResponse option \<times> AudioModule" where
  "wmsGetVolume env handle m =
     onAudioService (wap_getVolume handle (ae_volume env))
       (\<lambda>r. map_option AudioVolumeResponse (ranOr (if ae_garbage env then Some 0 else None) r)) m"

fun serveAudio :: "AudioRpcEnv \<Rightarrow> nat \<Rightarrow> AudioModule audio_peer" where
  "serveAudio env client (CreateAudioRequest mime priority config) m = wmsCreateWebAudioPlayer env client mime priority config m"
| "serveAudio env client (DestroyAudioRequest i) m = wmsDestroyWebAudioPlayer client i m"
| "serveAudio env client (AudioPlayRequest i) m = wmsPlay i m"
| "serveAudio env client (AudioPauseRequest i) m = wmsPause i m"
| "serveAudio env client (AudioSetEosRequest i) m = wmsSetEos i m"
| "serveAudio env client (AudioGetBufferAvailableRequest i) m = wmsGetBufferAvailable i m"
| "serveAudio env client (AudioGetBufferDelayRequest i) m = wmsGetBufferDelay env i m"
| "serveAudio env client (AudioWriteBufferRequest i n) m = wmsWriteBuffer env i n m"
| "serveAudio env client (AudioGetDeviceInfoRequest i) m = wmsGetDeviceInfo i m"
| "serveAudio env client (AudioSetVolumeRequest i volume) m = wmsSetVolume i volume m"
| "serveAudio env client (AudioGetVolumeRequest i) m = wmsGetVolume env i m"

fun convertWebAudioPlayerState :: "WebAudioPlayerState \<Rightarrow> PbAudioState" where
  "convertWebAudioPlayerState WAS_UNKNOWN = PB_AS_UNKNOWN"
| "convertWebAudioPlayerState WAS_IDLE = PB_AS_IDLE"
| "convertWebAudioPlayerState WAS_PLAYING = PB_AS_PLAYING"
| "convertWebAudioPlayerState WAS_PAUSED = PB_AS_PAUSED"
| "convertWebAudioPlayerState WAS_END_OF_STREAM = PB_AS_END_OF_STREAM"
| "convertWebAudioPlayerState WAS_FAILURE = PB_AS_FAILURE"

definition wpcNotifyState :: "int \<Rightarrow> WebAudioPlayerState \<Rightarrow> AudioEvent" where
  "wpcNotifyState handle state = WebAudioPlayerStateEvent handle (convertWebAudioPlayerState state)"

end
