(* ===== verification/Audio_Rpc_Proofs.thy ===== *)
theory Audio_Rpc_Proofs
  imports Audio_Rpc
begin

text \<open>
  What the two ends of a web audio player's remote calls achieve together: remote calls are direct calls on the web
  audio player service, state changes reach the player they belong to, players go with their client, and handlers
  go with their object.
\<close>

section \<open>Calls and events\<close>

interpretation audio_state: wire_conversion convertWebAudioPlayerState convertEventAudioState
proof
  show "convertEventAudioState (convertWebAudioPlayerState x) = x" for x by (cases x) simp_all
qed

lemma audio_state_reaches_player:
  "onAudioStateUpdated (wpcNotifyState handle state) c p = (if handle = wi_handle c then waNotifyState state p else p)"
  by (simp add: wpcNotifyState_def)

datatype AudioResult =
    AudioBool bool | AudioAvailable "(u32 \<times> WebAudioShmInfo) option" | AudioDelay "u32 option"
  | AudioDevice "(u32 \<times> u32 \<times> bool) option" | AudioVolume "double option"

text \<open>The calls of the client library through \<open>WebAudioPlayerIpc\<close>, and on the service itself.\<close>

fun audioIpcCall :: "'s audio_peer \<Rightarrow> nat \<Rightarrow> WebAudioIpcCall \<Rightarrow> WebAudioPlayerIpc \<Rightarrow> 's IpcWorld \<Rightarrow>
    AudioResult \<times> WebAudioPlayerIpc \<times> 's IpcWorld" where
  "audioIpcCall serve this WI_play c w = map_prod AudioBool id (waiPlay serve this c w)"
| "audioIpcCall serve this WI_pause c w = map_prod AudioBool id (waiPause serve this c w)"
| "audioIpcCall serve this WI_setEos c w = map_prod AudioBool id (waiSetEos serve this c w)"
| "audioIpcCall serve this WI_getBufferAvailable c w = map_prod AudioAvailable id (waiGetBufferAvailable serve this True c w)"
| "audioIpcCall serve this WI_getBufferDelay c w = map_prod AudioDelay id (waiGetBufferDelay serve this c w)"
| "audioIpcCall serve this (WI_writeBuffer n) c w = map_prod AudioBool id (waiWriteBuffer serve this n c w)"
| "audioIpcCall serve this WI_getDeviceInfo c w = map_prod AudioDevice id (waiGetDeviceInfo serve this c w)"
| "audioIpcCall serve this (WI_setVolume volume) c w = map_prod AudioBool id (waiSetVolume serve this volume c w)"
| "audioIpcCall serve this WI_getVolume c w = map_prod AudioVolume id (waiGetVolume serve this c w)"

fun directAudioCall :: "AudioRpcEnv \<Rightarrow> int \<Rightarrow> WebAudioIpcCall \<Rightarrow> Service \<Rightarrow> AudioResult \<times> Service" where
  "directAudioCall env i WI_play s = map_prod AudioBool id (wap_play i s)"
| "directAudioCall env i WI_pause s = map_prod AudioBool id (wap_pause i s)"
| "directAudioCall env i WI_setEos s = map_prod AudioBool id (wap_setEos i s)"
| "directAudioCall env i WI_getBufferAvailable s = map_prod AudioAvailable id (wap_getBufferAvailable i True s)"
| "directAudioCall env i WI_getBufferDelay s =
     map_prod (AudioDelay \<circ> ranOr (if ae_garbage env then Some 0 else None)) id (wap_getBufferDelay i (ae_queuedBytes env) s)"
| "directAudioCall env i (WI_writeBuffer n) s = map_prod (AudioBool \<circ> ranOr (ae_garbage env)) id (wap_writeBuffer i n s)"
| "directAudioCall env i WI_getDeviceInfo s = map_prod AudioDevice id (wap_getDeviceInfo i s)"
| "directAudioCall env i (WI_setVolume volume) s = map_prod AudioBool id (wap_setVolume i volume s)"
| "directAudioCall env i WI_getVolume s =
     map_prod (AudioVolume \<circ> ranOr (if ae_garbage env then Some 0 else None)) id (wap_getVolume i (ae_volume env) s)"

lemmas wai_defs = waiPlay_def waiPause_def waiSetEos_def waiGetBufferAvailable_def waiGetBufferDelay_def waiWriteBuffer_def
  waiGetDeviceInfo_def waiSetVolume_def waiGetVolume_def callOk_def
lemmas wms_defs = wmsPlay_def wmsPause_def wmsSetEos_def wmsGetBufferAvailable_def wmsGetBufferDelay_def wmsWriteBuffer_def
  wmsGetDeviceInfo_def wmsSetVolume_def wmsGetVolume_def onAudioService_def audioDone_def

text \<open>A remote call of a web audio player on an attached channel is the direct call on the web audio player service, for
  every method: same result, same effect, nothing else changed.\<close>

theorem remote_audio_call_is_direct_call:
  assumes "attached c w"
  shows "audioIpcCall (serveAudio env client) this call c w =
    (let (r, s) = directAudioCall env (wi_handle c) call (cm_service (iw_peer w))
     in (r, c, w\<lparr>iw_peer := (iw_peer w)\<lparr>cm_service := s\<rparr>\<rparr>))"
  by (cases call)
    (auto simp: wai_defs wms_defs remoteCall_attached [OF assms] Let_def split: prod.splits option.splits)

section \<open>Players and their clients\<close>

definition livePlayers :: "Service \<Rightarrow> int set" where
  "livePlayers s = dom (map_of (ps_webAudioPlayers s))"

interpretation player_owner: owned_service "\<lambda>e. createWebAudioPlayer (createWebAudioPlayerServerInternal e)"
  "destroyWebAudioPlayer deleteWebAudioPlayer" livePlayers
proof
  fix e h ok and s s' :: Service
  assume "createWebAudioPlayer (createWebAudioPlayerServerInternal e) h s = (ok, s')"
  then show "livePlayers s' = (if ok then insert h (livePlayers s) else livePlayers s)"
    by (auto simp: createWebAudioPlayer_def livePlayers_def Let_def split: if_splits option.splits prod.splits)
next
  fix h ok and s s' :: Service
  assume "destroyWebAudioPlayer deleteWebAudioPlayer h s = (ok, s')"
  then show "livePlayers s' = livePlayers s - {h}"
    by (auto simp: destroyWebAudioPlayer_def livePlayers_def split: option.splits if_splits)
qed

lemma service_live_players:
  "livePlayers (snd (playbackToActive sys s)) = livePlayers s"
  "livePlayers (playbackToInactive del delW s) = {}"
  "livePlayers (snd (createSession new i s)) = livePlayers s"
  "livePlayers (snd (destroySession del i s)) = livePlayers s"
  "livePlayers (snd (onSession missing i call s)) = livePlayers s"
  by (auto simp: livePlayers_def playbackToActive_def playbackToInactive_def createSession_def destroySession_def
      onSession_def clearMediaPipelines_def clearWebAudioPlayers_def Let_def split: option.split prod.split)

lemma onWebAudioPlayer_live [simp]: "livePlayers (snd (onWebAudioPlayer missing i call s)) = livePlayers s"
  by (auto simp: onWebAudioPlayer_def livePlayers_def map_of_assign split: option.splits prod.splits if_splits)

lemma service_op_live_players:
  assumes "\<forall>e i. op \<noteq> CreatePlayerOp e i"
  shows "livePlayers (service_op op s) \<subseteq> livePlayers s"
proof (cases op)
  case (DestroyPlayerOp i)
  then show ?thesis
    using player_owner.destroyed [of i s] by (cases "destroyWebAudioPlayer deleteWebAudioPlayer i s") auto
qed (use assms in \<open>auto simp: mps_defs wap_defs service_live_players\<close>)

lemma audio_request_inv:
  assumes "ownership_inv livePlayers m"
  shows "ownership_inv livePlayers (snd (serveAudio env client request m))"
proof (cases request)
  case (CreateAudioRequest mime priority config)
  then show ?thesis
    using player_owner.create_inv [OF assms, of "requestedPlayer env mime priority config" client]
    by (auto simp: wmsCreateWebAudioPlayer_def Let_def split: prod.splits)
next
  case (DestroyAudioRequest i)
  then show ?thesis
    using player_owner.destroy_inv [OF assms, of client i] by (auto simp: wmsDestroyWebAudioPlayer_def Let_def split: prod.splits)
qed (use assms in \<open>auto simp: wms_defs wap_defs Let_def case_prod_beta intro!: ownership_service\<close>)

inductive audio_module_reachable :: "AudioModule \<Rightarrow> bool" where
  audio_started: "ps_webAudioPlayers s = [] \<Longrightarrow> audio_module_reachable (newClientModule s)"
| audio_connected: "audio_module_reachable m \<Longrightarrow> audio_module_reachable (wmsClientConnected client m)"
| audio_disconnected: "audio_module_reachable m \<Longrightarrow> audio_module_reachable (wmsClientDisconnected client m)"
| audio_requested: "audio_module_reachable m \<Longrightarrow> audio_module_reachable (snd (serveAudio env client request m))"
| audio_other: "audio_module_reachable m \<Longrightarrow> \<forall>e i. op \<noteq> CreatePlayerOp e i \<Longrightarrow>
    audio_module_reachable (m\<lparr>cm_service := service_op op (cm_service m)\<rparr>)"

lemma audio_reachable_ownership: "audio_module_reachable m \<Longrightarrow> ownership_inv livePlayers m"
proof (induction rule: audio_module_reachable.induct)
  case (audio_started s)
  then show ?case by (simp add: ownership_inv_def newClientModule_def livePlayers_def owned_def)
next
  case (audio_connected m client)
  then show ?case unfolding wmsClientConnected_def by (intro player_owner.connect_inv)
next
  case (audio_disconnected m client)
  then show ?case unfolding wmsClientDisconnected_def by (intro player_owner.client_gone_inv)
next
  case (audio_requested m env client request)
  then show ?case by (intro audio_request_inv)
next
  case (audio_other m op)
  then show ?case using service_op_live_players [of op "cm_service m"] by (intro ownership_service)
qed

text \<open>Every web audio player of the server belongs to exactly one client, and when a client disconnects exactly its
  players are destroyed.\<close>

theorem players_go_with_their_client:
  assumes "audio_module_reachable m"
  shows "(\<forall>i \<in> livePlayers (cm_service m). \<exists>!client. i \<in> owned client m) \<and>
    livePlayers (cm_service (wmsClientDisconnected client m)) = livePlayers (cm_service m) - owned client m"
  using ownership_unique [OF audio_reachable_ownership [OF assms]]
  by (simp add: wmsClientDisconnected_def player_owner.disconnect_alive)

section \<open>Handlers\<close>

lemma wai_keeps:
  assumes "module_inv this c w"
  shows "module_inv this (fst (snd (audioIpcCall serve this call c w))) (snd (snd (audioIpcCall serve this call c w)))"
  by (cases call) (simp_all add: wai_defs case_prod_beta Let_def remoteCall_module_inv [OF assms])

lemma destroyed_audio_ipc_has_no_handlers:
  assumes "module_inv this c w"
  shows "own_handlers this (destroyWebAudioPlayerIpc serve this c w) = []"
  using detach_inv [OF remoteCall_module_inv [OF assms, of audioEvents serve "DestroyAudioRequest (wi_handle c)"]]
  by (simp add: destroyWebAudioPlayerIpc_def waiDestroyWebAudioPlayer_def case_prod_beta Let_def prod_eq_iff)

lemma failed_audio_construction_leaves_handlers:
  assumes "tags_fresh w" and "own_handlers this w = []" and "iw_channel w = Some ch" and "iw_connected w ch"
    and "newWebAudioPlayerIpc serve this mime priority config w = (None, w')"
  shows "this \<in> set (listeners ch ''WebAudioPlayerStateEvent'' w')"
proof -
  obtain ok c1 w1 where a: "attachChannel audioEvents this \<lparr>im_ipcChannel = None, im_eventTags = [], wi_handle = -1\<rparr> w = (ok, c1, w1)"
    by (metis prod_cases3)
  note listening = attach_listens [OF assms(1,2) _ assms(3,4) a, simplified]
  then have "iw_eventHandlers w' = iw_eventHandlers w1"
    using assms(5) a
    by (auto simp: newWebAudioPlayerIpc_def waiCreateWebAudioPlayer_def remoteCall_attached Let_def
        split: prod.splits if_splits option.splits AudioResponse.splits)
  then show ?thesis using listening by (simp add: listeners_def audioEvents_def)
qed

text \<open>A player without a configuration is refused when the service is asked directly. The module service passes the
  address of an uninitialised structure instead of the null pointer, so the refusal cannot happen and what the player
  is created with is whatever the stack held.\<close>

theorem missing_config_is_uninitialised:
  "\<not> fst (createWebAudioPlayer (createWebAudioPlayerServerInternal (e\<lparr>we_mimeType := ''audio/x-raw'', we_config := None\<rparr>)) i s) \<and>
    wmsCreateWebAudioPlayer env client ''audio/x-raw'' priority None =
      wmsCreateWebAudioPlayer env client ''audio/x-raw'' priority (Some (ae_config env))"
proof
  show "\<not> fst (createWebAudioPlayer (createWebAudioPlayerServerInternal (e\<lparr>we_mimeType := ''audio/x-raw'', we_config := None\<rparr>)) i s)"
    by (auto simp: createWebAudioPlayer_def createWebAudioPlayerServerInternal_def newWebAudioPlayerServerInternal_def Let_def
        split: option.split)
  show "wmsCreateWebAudioPlayer env client ''audio/x-raw'' priority None =
      wmsCreateWebAudioPlayer env client ''audio/x-raw'' priority (Some (ae_config env))"
    by (simp add: fun_eq_iff wmsCreateWebAudioPlayer_def requestedPlayer_def)
qed

section \<open>Witnesses\<close>

definition demo_audio_ipc :: WebAudioPlayerIpc where
  "demo_audio_ipc = \<lparr>im_ipcChannel = Some 0, im_eventTags = [], wi_handle = 5\<rparr>"

definition demo_audio_env :: AudioRpcEnv where
  "demo_audio_env = \<lparr>ae_player = demo_aenv True, ae_config = the (we_config (demo_aenv True)), ae_queuedBytes = 0, ae_volume = None,
     ae_garbage = False\<rparr>"

definition demo_audio_module :: AudioModule where
  "demo_audio_module = (newClientModule demo_service)\<lparr>cm_service := demo_service\<lparr>ps_webAudioPlayers := [(5, demo_audio)]\<rparr>\<rparr>"

theorem remote_audio_call_is_direct_call_witness:
  "audioIpcCall (serveAudio demo_audio_env 1) 4 WI_getDeviceInfo demo_audio_ipc (demo_world demo_audio_module) =
    (AudioDevice (Some (getDeviceInfo demo_audio)), demo_audio_ipc, demo_world demo_audio_module)"
proof -
  have "attached demo_audio_ipc (demo_world demo_audio_module)" by (simp add: attached_def demo_audio_ipc_def demo_world_def)
  from remote_audio_call_is_direct_call [OF this, of demo_audio_env 1 4 WI_getDeviceInfo] show ?thesis
    by (simp add: demo_audio_ipc_def demo_world_def demo_audio_module_def wap_getDeviceInfo_def onWebAudioPlayer_def assign_def newClientModule_def)
qed

definition demo_audio_requested :: AudioModule where
  "demo_audio_requested = snd (serveAudio demo_audio_env 3 (CreateAudioRequest ''audio/x-raw'' 1 None) (newClientModule demo_service))"

theorem players_go_with_their_client_witness:
  "livePlayers (cm_service demo_audio_requested) = {0} \<and> livePlayers (cm_service (wmsClientDisconnected 3 demo_audio_requested)) = {}"
proof -
  let ?e = "requestedPlayer demo_audio_env ''audio/x-raw'' 1 None"
  have "?e = demo_aenv True" by (simp add: requestedPlayer_def demo_audio_env_def demo_aenv_def)
  then have "fst (createWebAudioPlayer (createWebAudioPlayerServerInternal ?e) 0 demo_service)"
    using services.createWebAudioPlayer_ok(1) [OF demo_service_inv demo_envs(3), of 0] by (simp add: demo_service_eq NO_ID_ASSIGNED_def)
  then obtain s where s: "createWebAudioPlayer (createWebAudioPlayerServerInternal ?e) 0 demo_service = (True, s)"
    by (metis prod.collapse)
  have m: "demo_audio_requested = (newClientModule demo_service)\<lparr>cm_nextHandle := 1, cm_service := s, cm_clientHandles := [(3, [0])]\<rparr>"
    using s by (simp add: demo_audio_requested_def wmsCreateWebAudioPlayer_def moduleCreate_def newClientModule_def insertHandle_def emplace_def)
  have "owned 3 demo_audio_requested = {0}" "cm_service demo_audio_requested = s" unfolding m by (simp_all add: owned_def)
  moreover have "livePlayers s = {0}" using player_owner.created [OF s] by (simp add: livePlayers_def demo_service_eq)
  moreover have "audio_module_reachable demo_audio_requested"
    unfolding demo_audio_requested_def by (intro audio_requested audio_started) (simp add: demo_service_eq)
  ultimately show ?thesis using players_go_with_their_client [of demo_audio_requested 3] by simp
qed

end
