(* ===== verification/Keys_Rpc.thy ===== *)
theory Keys_Rpc
  imports Pipeline_Rpc Cdm_Service
begin

text \<open>
  The remote calls of media keys: \<open>MediaKeysIpc\<close> in the client (\<open>media/client/ipc/source/MediaKeysIpc.cpp\<close>),
  \<open>MediaKeysModuleService\<close> and \<open>MediaKeysClient\<close> in the server (\<open>media/server/ipc/source\<close>), with the messages of
  \<open>proto/mediakeysmodule.proto\<close>. Byte strings travel as lists of \<open>uint32\<close>.
\<close>

section \<open>Messages\<close>

datatype PbKeyErrorStatus = PB_KE_OK | PB_KE_FAIL | PB_KE_BAD_SESSION_ID | PB_KE_NOT_SUPPORTED | PB_KE_INVALID_STATE

datatype PbKeyStatus = PB_KS_USABLE | PB_KS_EXPIRED | PB_KS_OUTPUT_RESTRICTED | PB_KS_PENDING | PB_KS_INTERNAL_ERROR | PB_KS_RELEASED

datatype PbKeySessionType = PB_ST_UNKNOWN | PB_ST_TEMPORARY | PB_ST_PERSISTENT_LICENCE | PB_ST_PERSISTENT_RELEASE_MESSAGE

datatype PbInitDataType = PB_ID_UNKNOWN | PB_ID_CENC | PB_ID_KEY_IDS | PB_ID_WEBM | PB_ID_DRMHEADER

text \<open>The first number of a request is the media keys handle, the second the key session.\<close>

datatype KeysRequest =
    CreateMediaKeysRequest string | DestroyMediaKeysRequest int | SelectKeyIdRequest int int "u32 list"
  | ContainsKeyRequest int int "u32 list" | CreateKeySessionRequest int PbKeySessionType bool
  | GenerateRequestRequest int int PbInitDataType "u32 list" | LoadSessionRequest int int
  | UpdateSessionRequest int int "u32 list" | SetDrmHeaderRequest int int "u32 list" | CloseKeySessionRequest int int
  | RemoveKeySessionRequest int int | DeleteDrmStoreRequest int | DeleteKeyStoreRequest int | GetDrmStoreHashRequest int
  | GetKeyStoreHashRequest int | GetLdlSessionsLimitRequest int | GetLastDrmErrorRequest int int | GetDrmTimeRequest int
  | GetCdmKeySessionIdRequest int int

text \<open>\<open>None\<close> as key session id is a required field that has not been set.\<close>

datatype KeysResponse =
    KeysEmptyResponse | CreateMediaKeysResponse int | ContainsKeyResponse bool | KeyStatusResponse PbKeyErrorStatus
  | CreateKeySessionResponse PbKeyErrorStatus "int option" | KeyHashResponse PbKeyErrorStatus "u32 list"
  | KeyNumberResponse PbKeyErrorStatus u32 | KeyTimeResponse PbKeyErrorStatus u64 | KeyTextResponse PbKeyErrorStatus "u8 list"

datatype KeysEvent =
    LicenseRequestEvent int int "u32 list" string | LicenseRenewalEvent int int "u32 list"
  | KeyStatusesChangedEvent int int "(u32 list \<times> PbKeyStatus) list"

type_synonym 's keys_peer = "(KeysRequest, KeysResponse, 's) rpc_server"

definition bytesToPb :: "u8 list \<Rightarrow> u32 list" where
  "bytesToPb bytes = map ucast bytes"

definition bytesFromPb :: "u32 list \<Rightarrow> u8 list" where
  "bytesFromPb ws = map ucast ws"

section \<open>The client's end\<close>

text \<open>\<open>ki_client\<close> is the client object the weak pointer \<open>m_mediaKeysIpcClient\<close> refers to.\<close>

record MediaKeysIpc = IpcModule +
  ki_mediaKeysHandle :: int
  ki_client :: "nat option"

definition keysEvents :: "string list" where
  "keysEvents = [''LicenseRequestEvent'', ''LicenseRenewalEvent'', ''KeyStatusesChangedEvent'']"

fun convertKeyErrorStatusFromPb :: "PbKeyErrorStatus \<Rightarrow> MediaKeyErrorStatus" where
  "convertKeyErrorStatusFromPb PB_KE_OK = MKE_OK"
| "convertKeyErrorStatusFromPb PB_KE_BAD_SESSION_ID = MKE_BAD_SESSION_ID"
| "convertKeyErrorStatusFromPb PB_KE_NOT_SUPPORTED = MKE_NOT_SUPPORTED"
| "convertKeyErrorStatusFromPb PB_KE_INVALID_STATE = MKE_INVALID_STATE"
| "convertKeyErrorStatusFromPb PB_KE_FAIL = MKE_FAIL"

fun convertKeyStatusFromPb :: "PbKeyStatus \<Rightarrow> KeyStatus" where
  "convertKeyStatusFromPb PB_KS_USABLE = KS_USABLE"
| "convertKeyStatusFromPb PB_KS_EXPIRED = KS_EXPIRED"
| "convertKeyStatusFromPb PB_KS_OUTPUT_RESTRICTED = KS_OUTPUT_RESTRICTED"
| "convertKeyStatusFromPb PB_KS_PENDING = KS_PENDING"
| "convertKeyStatusFromPb PB_KS_INTERNAL_ERROR = KS_INTERNAL_ERROR"
| "convertKeyStatusFromPb PB_KS_RELEASED = KS_RELEASED"

fun convertKeySessionTypeToPb :: "KeySessionType \<Rightarrow> PbKeySessionType" where
  "convertKeySessionTypeToPb KST_TEMPORARY = PB_ST_TEMPORARY"
| "convertKeySessionTypeToPb KST_PERSISTENT_LICENCE = PB_ST_PERSISTENT_LICENCE"
| "convertKeySessionTypeToPb KST_PERSISTENT_RELEASE_MESSAGE = PB_ST_PERSISTENT_RELEASE_MESSAGE"
| "convertKeySessionTypeToPb KST_UNKNOWN = PB_ST_UNKNOWN"

fun convertInitDataTypeToPb :: "InitDataType \<Rightarrow> PbInitDataType" where
  "convertInitDataTypeToPb IDT_CENC = PB_ID_CENC"
| "convertInitDataTypeToPb IDT_KEY_IDS = PB_ID_KEY_IDS"
| "convertInitDataTypeToPb IDT_WEBM = PB_ID_WEBM"
| "convertInitDataTypeToPb IDT_DRMHEADER = PB_ID_DRMHEADER"
| "convertInitDataTypeToPb IDT_UNKNOWN = PB_ID_UNKNOWN"

text \<open>The status of a response; a failed controller, or no channel, is \<open>FAIL\<close>.\<close>

fun responseStatus :: "KeysResponse option \<Rightarrow> PbKeyErrorStatus option" where
  "responseStatus (Some (KeyStatusResponse status)) = Some status"
| "responseStatus (Some (CreateKeySessionResponse status i)) = Some status"
| "responseStatus (Some (KeyHashResponse status bytes)) = Some status"
| "responseStatus (Some (KeyNumberResponse status n)) = Some status"
| "responseStatus (Some (KeyTimeResponse status t)) = Some status"
| "responseStatus (Some (KeyTextResponse status s)) = Some status"
| "responseStatus _ = None"

definition getMediaKeyErrorStatusFromResponse :: "KeysResponse option \<Rightarrow> MediaKeyErrorStatus" where
  "getMediaKeyErrorStatusFromResponse response =
     (case responseStatus response of None \<Rightarrow> MKE_FAIL | Some status \<Rightarrow> convertKeyErrorStatusFromPb status)"

definition mkiCreateMediaKeys :: "'s keys_peer \<Rightarrow> nat \<Rightarrow> string \<Rightarrow> MediaKeysIpc \<Rightarrow> 's IpcWorld \<Rightarrow> bool \<times> MediaKeysIpc \<times> 's IpcWorld" where
  "mkiCreateMediaKeys serve this keySystem c w =
     (let (response, c, w) = remoteCall keysEvents this serve (CreateMediaKeysRequest keySystem) c w
      in case response of
           Some (CreateMediaKeysResponse handle) \<Rightarrow> (True, c\<lparr>ki_mediaKeysHandle := handle\<rparr>, w)
         | _ \<Rightarrow> (False, c, w))"

definition mkiDestroyMediaKeys :: "'s keys_peer \<Rightarrow> nat \<Rightarrow> MediaKeysIpc \<Rightarrow> 's IpcWorld \<Rightarrow> MediaKeysIpc \<times> 's IpcWorld" where
  "mkiDestroyMediaKeys serve this c w =
     snd (remoteCall keysEvents this serve (DestroyMediaKeysRequest (ki_mediaKeysHandle c)) c w)"

definition newMediaKeysIpc :: "'s keys_peer \<Rightarrow> nat \<Rightarrow> string \<Rightarrow> int \<Rightarrow> 's IpcWorld \<Rightarrow> MediaKeysIpc option \<times> 's IpcWorld" where
  "newMediaKeysIpc serve this keySystem garbage w =
     (let c = \<lparr>im_ipcChannel = None, im_eventTags = [], ki_mediaKeysHandle = garbage, ki_client = None\<rparr>;
          (ok, c, w) = attachChannel keysEvents this c w
      in if \<not> ok then (None, w)
         else let (ok, c, w) = mkiCreateMediaKeys serve this keySystem c w in if ok then (Some c, w) else (None, w))"

definition destroyMediaKeysIpc :: "'s keys_peer \<Rightarrow> nat \<Rightarrow> MediaKeysIpc \<Rightarrow> 's IpcWorld \<Rightarrow> 's IpcWorld" where
  "destroyMediaKeysIpc serve this c w =
     (let (c, w) = mkiDestroyMediaKeys serve this c w in snd (detachChannel c w))"

definition mkiSelectKeyId :: "int \<Rightarrow> u8 list \<Rightarrow> MediaKeysIpc \<Rightarrow> 's IpcWorld \<Rightarrow> MediaKeyErrorStatus \<times> MediaKeysIpc \<times> 's IpcWorld" where
  "mkiSelectKeyId keySessionId keyId c w = (MKE_FAIL, c, w)"

definition mkiContainsKey :: "'s keys_peer \<Rightarrow> nat \<Rightarrow> int \<Rightarrow> u8 list \<Rightarrow> MediaKeysIpc \<Rightarrow> 's IpcWorld \<Rightarrow> bool \<times> MediaKeysIpc \<times> 's IpcWorld" where
  "mkiContainsKey serve this keySessionId keyId c w =
     (let (response, c, w) = remoteCall keysEvents this serve
            (ContainsKeyRequest (ki_mediaKeysHandle c) keySessionId (bytesToPb keyId)) c w
      in (case response of Some (ContainsKeyResponse b) \<Rightarrow> b | _ \<Rightarrow> False, c, w))"

definition mkiCreateKeySession :: "'s keys_peer \<Rightarrow> nat \<Rightarrow> KeySessionType \<Rightarrow> nat \<Rightarrow> bool \<Rightarrow> MediaKeysIpc \<Rightarrow> 's IpcWorld \<Rightarrow>
    (MediaKeyErrorStatus \<times> int option) \<times> MediaKeysIpc \<times> 's IpcWorld" where
  "mkiCreateKeySession serve this sessionType client isLDL c w =
     (let (response, c, w) = remoteCall keysEvents this serve
            (CreateKeySessionRequest (ki_mediaKeysHandle c) (convertKeySessionTypeToPb sessionType) isLDL) c w;
          status = getMediaKeyErrorStatusFromResponse response
      in if MKE_OK = status
         then ((status, case response of Some (CreateKeySessionResponse s i) \<Rightarrow> i | _ \<Rightarrow> None), c\<lparr>ki_client := Some client\<rparr>, w)
         else ((status, None), c, w))"

text \<open>The calls that report a status only.\<close>

definition keysStatusCall :: "'s keys_peer \<Rightarrow> nat \<Rightarrow> KeysRequest \<Rightarrow> MediaKeysIpc \<Rightarrow> 's IpcWorld \<Rightarrow>
    MediaKeyErrorStatus \<times> MediaKeysIpc \<times> 's IpcWorld" where
  "keysStatusCall serve this request c w =
     (let (response, c, w) = remoteCall keysEvents this serve request c w
      in (getMediaKeyErrorStatusFromResponse response, c, w))"

definition mkiGenerateRequest where
  "mkiGenerateRequest serve this keySessionId initDataType initData c w =
     keysStatusCall serve this (GenerateRequestRequest (ki_mediaKeysHandle c) keySessionId (convertInitDataTypeToPb initDataType)
       (bytesToPb initData)) c w"

definition mkiLoadSession where
  "mkiLoadSession serve this keySessionId c w = keysStatusCall serve this (LoadSessionRequest (ki_mediaKeysHandle c) keySessionId) c w"

definition mkiUpdateSession where
  "mkiUpdateSession serve this keySessionId responseData c w =
     keysStatusCall serve this (UpdateSessionRequest (ki_mediaKeysHandle c) keySessionId (bytesToPb responseData)) c w"

definition mkiSetDrmHeader where
  "mkiSetDrmHeader serve this keySessionId requestData c w =
     keysStatusCall serve this (SetDrmHeaderRequest (ki_mediaKeysHandle c) keySessionId (bytesToPb requestData)) c w"

text \<open>The client is forgotten once the channel is attached, before the request is sent.\<close>

definition mkiCloseKeySession :: "'s keys_peer \<Rightarrow> nat \<Rightarrow> int \<Rightarrow> MediaKeysIpc \<Rightarrow> 's IpcWorld \<Rightarrow>
    MediaKeyErrorStatus \<times> MediaKeysIpc \<times> 's IpcWorld" where
  "mkiCloseKeySession serve this keySessionId c w =
     (let (ok, c, w) = reattachChannelIfRequired keysEvents this c w in
      if \<not> ok then (MKE_FAIL, c, w)
      else let c = c\<lparr>ki_client := None\<rparr>;
               (response, s) = serve (CloseKeySessionRequest (ki_mediaKeysHandle c) keySessionId) (iw_peer w)
        in (getMediaKeyErrorStatusFromResponse response, c, w\<lparr>iw_peer := s\<rparr>))"

definition mkiRemoveKeySession where
  "mkiRemoveKeySession serve this keySessionId c w =
     keysStatusCall serve this (RemoveKeySessionRequest (ki_mediaKeysHandle c) keySessionId) c w"

definition mkiDeleteDrmStore where
  "mkiDeleteDrmStore serve this c w = keysStatusCall serve this (DeleteDrmStoreRequest (ki_mediaKeysHandle c)) c w"

definition mkiDeleteKeyStore where
  "mkiDeleteKeyStore serve this c w = keysStatusCall serve this (DeleteKeyStoreRequest (ki_mediaKeysHandle c)) c w"

text \<open>
  The queries assign their result only when the status of the response is \<open>OK\<close>: \<open>None\<close> leaves the variable of the
  caller alone.
\<close>

definition keysQuery :: "'s keys_peer \<Rightarrow> nat \<Rightarrow> (KeysResponse \<Rightarrow> 'r option) \<Rightarrow> KeysRequest \<Rightarrow> MediaKeysIpc \<Rightarrow> 's IpcWorld \<Rightarrow>
    (MediaKeyErrorStatus \<times> 'r option) \<times> MediaKeysIpc \<times> 's IpcWorld" where
  "keysQuery serve this get request c w =
     (let (response, c, w) = remoteCall keysEvents this serve request c w
      in ((getMediaKeyErrorStatusFromResponse response,
           if responseStatus response = Some PB_KE_OK then Option.bind response get else None), c, w))"

fun hashOf :: "KeysResponse \<Rightarrow> u8 list option" where
  "hashOf (KeyHashResponse s bytes) = Some (bytesFromPb bytes)"
| "hashOf _ = None"

fun numberOf :: "KeysResponse \<Rightarrow> u32 option" where
  "numberOf (KeyNumberResponse s n) = Some n"
| "numberOf _ = None"

fun timeOf :: "KeysResponse \<Rightarrow> u64 option" where
  "timeOf (KeyTimeResponse s t) = Some t"
| "timeOf _ = None"

definition mkiGetDrmStoreHash where
  "mkiGetDrmStoreHash serve this c w = keysQuery serve this hashOf (GetDrmStoreHashRequest (ki_mediaKeysHandle c)) c w"

definition mkiGetKeyStoreHash where
  "mkiGetKeyStoreHash serve this c w = keysQuery serve this hashOf (GetKeyStoreHashRequest (ki_mediaKeysHandle c)) c w"

definition mkiGetLdlSessionsLimit where
  "mkiGetLdlSessionsLimit serve this c w = keysQuery serve this numberOf (GetLdlSessionsLimitRequest (ki_mediaKeysHandle c)) c w"

definition mkiGetLastDrmError where
  "mkiGetLastDrmError serve this keySessionId c w =
     keysQuery serve this numberOf (GetLastDrmErrorRequest (ki_mediaKeysHandle c) keySessionId) c w"

definition mkiGetDrmTime where
  "mkiGetDrmTime serve this c w = keysQuery serve this timeOf (GetDrmTimeRequest (ki_mediaKeysHandle c)) c w"

text \<open>The id, a string as bytes, is assigned whatever the status, and empty when the call failed.\<close>

definition mkiGetCdmKeySessionId :: "'s keys_peer \<Rightarrow> nat \<Rightarrow> int \<Rightarrow> MediaKeysIpc \<Rightarrow> 's IpcWorld \<Rightarrow>
    (MediaKeyErrorStatus \<times> u8 list option) \<times> MediaKeysIpc \<times> 's IpcWorld" where
  "mkiGetCdmKeySessionId serve this keySessionId c w =
     (let (ok, c, w) = reattachChannelIfRequired keysEvents this c w in
      if \<not> ok then ((MKE_FAIL, None), c, w)
      else let (response, s) = serve (GetCdmKeySessionIdRequest (ki_mediaKeysHandle c) keySessionId) (iw_peer w)
        in ((getMediaKeyErrorStatusFromResponse response, Some (case response of Some (KeyTextResponse st i) \<Rightarrow> i | _ \<Rightarrow> [])),
            c, w\<lparr>iw_peer := s\<rparr>))"

subsection \<open>Events\<close>

text \<open>What reaches a client of the application: the client object and the notification. \<open>alive\<close> tells which weak
  pointers can be locked.\<close>

definition lockClient :: "(nat \<Rightarrow> bool) \<Rightarrow> MediaKeysIpc \<Rightarrow> nat option" where
  "lockClient alive c = (case ki_client c of None \<Rightarrow> None | Some client \<Rightarrow> if alive client then Some client else None)"

fun eventHandle :: "KeysEvent \<Rightarrow> int" where
  "eventHandle (LicenseRequestEvent handle i message url) = handle"
| "eventHandle (LicenseRenewalEvent handle i message) = handle"
| "eventHandle (KeyStatusesChangedEvent handle i statuses) = handle"

fun keyNotification :: "KeysEvent \<Rightarrow> KeyEvent" where
  "keyNotification (LicenseRequestEvent handle i message url) = KE_licenseRequest i (bytesFromPb message) url"
| "keyNotification (LicenseRenewalEvent handle i message) = KE_licenseRenewal i (bytesFromPb message)"
| "keyNotification (KeyStatusesChangedEvent handle i statuses) =
     KE_keyStatusesChanged i (map (\<lambda>(keyId, status). (bytesFromPb keyId, convertKeyStatusFromPb status)) statuses)"

definition onKeysEvent :: "(nat \<Rightarrow> bool) \<Rightarrow> KeysEvent \<Rightarrow> MediaKeysIpc \<Rightarrow> (nat \<times> KeyEvent) option" where
  "onKeysEvent alive event c =
     (if eventHandle event = ki_mediaKeysHandle c
      then map_option (\<lambda>client. (client, keyNotification event)) (lockClient alive c) else None)"

section \<open>The server's end\<close>

type_synonym KeysModule = "CdmService ClientModule"

text \<open>The environment of new media keys, and the uninitialised locals that a method returns when its task is not run.\<close>

record KeysRpcEnv =
  ke_env :: KeysEnv
  ke_status :: MediaKeyErrorStatus
  ke_keySessionId :: int
  ke_flag :: bool

fun convertMediaKeyErrorStatus :: "MediaKeyErrorStatus \<Rightarrow> PbKeyErrorStatus" where
  "convertMediaKeyErrorStatus MKE_OK = PB_KE_OK"
| "convertMediaKeyErrorStatus MKE_BAD_SESSION_ID = PB_KE_BAD_SESSION_ID"
| "convertMediaKeyErrorStatus MKE_NOT_SUPPORTED = PB_KE_NOT_SUPPORTED"
| "convertMediaKeyErrorStatus MKE_INVALID_STATE = PB_KE_INVALID_STATE"
| "convertMediaKeyErrorStatus MKE_FAIL = PB_KE_FAIL"

fun convertKeySessionType :: "PbKeySessionType \<Rightarrow> KeySessionType" where
  "convertKeySessionType PB_ST_TEMPORARY = KST_TEMPORARY"
| "convertKeySessionType PB_ST_PERSISTENT_LICENCE = KST_PERSISTENT_LICENCE"
| "convertKeySessionType PB_ST_PERSISTENT_RELEASE_MESSAGE = KST_PERSISTENT_RELEASE_MESSAGE"
| "convertKeySessionType PB_ST_UNKNOWN = KST_UNKNOWN"

fun covertInitDataType :: "PbInitDataType \<Rightarrow> InitDataType" where
  "covertInitDataType PB_ID_CENC = IDT_CENC"
| "covertInitDataType PB_ID_KEY_IDS = IDT_KEY_IDS"
| "covertInitDataType PB_ID_WEBM = IDT_WEBM"
| "covertInitDataType PB_ID_DRMHEADER = IDT_DRMHEADER"
| "covertInitDataType PB_ID_UNKNOWN = IDT_UNKNOWN"

definition kmsCreateMediaKeys :: "KeysRpcEnv \<Rightarrow> nat \<Rightarrow> string \<Rightarrow> KeysModule \<Rightarrow> KeysResponse option \<times> KeysModule" where
  "kmsCreateMediaKeys env client keySystem m =
     (let (r, m) = moduleCreate (\<lambda>h. createMediaKeys (ke_env env) h keySystem) client m
      in (map_option CreateMediaKeysResponse r, m))"

definition kmsDestroyMediaKeys :: "nat \<Rightarrow> int \<Rightarrow> KeysModule \<Rightarrow> KeysResponse option \<times> KeysModule" where
  "kmsDestroyMediaKeys client handle m =
     (let (ok, m) = moduleDestroy destroyMediaKeys client handle m in (if ok then Some KeysEmptyResponse else None, m))"

definition kmsClientConnected :: "nat \<Rightarrow> KeysModule \<Rightarrow> KeysModule" where
  "kmsClientConnected client m = moduleConnected client m"

definition kmsClientDisconnected :: "nat \<Rightarrow> KeysModule \<Rightarrow> KeysModule" where
  "kmsClientDisconnected client m = moduleDisconnected destroyMediaKeys client m"

definition onCdmService :: "(CdmService \<Rightarrow> 'r option \<times> CdmService) \<Rightarrow> 'r \<Rightarrow> ('r \<Rightarrow> KeysResponse) \<Rightarrow> KeysModule \<Rightarrow>
    KeysResponse option \<times> KeysModule" where
  "onCdmService call garbage reply m =
     (let (r, s) = call (cm_service m) in (Some (reply (ranOr garbage r)), m\<lparr>cm_service := s\<rparr>))"

definition kmsSelectKeyId :: "int \<Rightarrow> int \<Rightarrow> u32 list \<Rightarrow> KeysModule \<Rightarrow> KeysResponse option \<times> KeysModule" where
  "kmsSelectKeyId handle keySessionId keyId m = (None, m)"

definition kmsContainsKey where
  "kmsContainsKey env handle keySessionId keyId m =
     onCdmService (cdmContainsKey handle keySessionId (bytesFromPb keyId)) (ke_flag env) ContainsKeyResponse m"

text \<open>The key session id is set only when the session exists.\<close>

definition kmsCreateKeySession :: "KeysRpcEnv \<Rightarrow> int \<Rightarrow> PbKeySessionType \<Rightarrow> bool \<Rightarrow> KeysModule \<Rightarrow> KeysResponse option \<times> KeysModule" where
  "kmsCreateKeySession env handle sessionType isLDL m =
     onCdmService (cdmCreateKeySession handle (convertKeySessionType sessionType) isLDL) (ke_status env, None)
       (\<lambda>(status, i). CreateKeySessionResponse (convertMediaKeyErrorStatus status)
          (if MKE_OK = status then Some (case i of None \<Rightarrow> ke_keySessionId env | Some i \<Rightarrow> i) else None)) m"

definition keyStatusReply :: "MediaKeyErrorStatus \<Rightarrow> KeysResponse" where
  "keyStatusReply status = KeyStatusResponse (convertMediaKeyErrorStatus status)"

definition kmsGenerateRequest where
  "kmsGenerateRequest env handle keySessionId initDataType initData m =
     onCdmService (cdmGenerateRequest handle keySessionId (covertInitDataType initDataType) (bytesFromPb initData)) (ke_status env)
       keyStatusReply m"

definition kmsLoadSession where
  "kmsLoadSession env handle keySessionId m = onCdmService (cdmLoadSession handle keySessionId) (ke_status env) keyStatusReply m"

definition kmsUpdateSession where
  "kmsUpdateSession env handle keySessionId responseData m =
     onCdmService (cdmUpdateSession handle keySessionId (bytesFromPb responseData)) (ke_status env) keyStatusReply m"

definition kmsSetDrmHeader where
  "kmsSetDrmHeader env handle keySessionId requestData m =
     onCdmService (cdmSetDrmHeader handle keySessionId (bytesFromPb requestData)) (ke_status env) keyStatusReply m"

definition kmsCloseKeySession where
  "kmsCloseKeySession env handle keySessionId m =
     onCdmService (cdmCloseKeySession handle keySessionId) (ke_status env) keyStatusReply m"

definition kmsRemoveKeySession where
  "kmsRemoveKeySession env handle keySessionId m =
     onCdmService (cdmRemoveKeySession handle keySessionId) (ke_status env) keyStatusReply m"

definition kmsDeleteDrmStore where
  "kmsDeleteDrmStore env handle m = onCdmService (cdmDeleteDrmStore handle) (ke_status env) keyStatusReply m"

definition kmsDeleteKeyStore where
  "kmsDeleteKeyStore env handle m = onCdmService (cdmDeleteKeyStore handle) (ke_status env) keyStatusReply m"

definition keyHashReply :: "MediaKeyErrorStatus \<times> u8 list \<Rightarrow> KeysResponse" where
  "keyHashReply r = KeyHashResponse (convertMediaKeyErrorStatus (fst r)) (bytesToPb (snd r))"

definition kmsGetDrmStoreHash where
  "kmsGetDrmStoreHash env handle m = onCdmService (cdmGetDrmStoreHash handle) (ke_status env, []) keyHashReply m"

definition kmsGetKeyStoreHash where
  "kmsGetKeyStoreHash env handle m = onCdmService (cdmGetKeyStoreHash handle) (ke_status env, []) keyHashReply m"

definition keyNumberReply :: "MediaKeyErrorStatus \<times> u32 \<Rightarrow> KeysResponse" where
  "keyNumberReply r = KeyNumberResponse (convertMediaKeyErrorStatus (fst r)) (snd r)"

definition kmsGetLdlSessionsLimit where
  "kmsGetLdlSessionsLimit env handle m = onCdmService (cdmGetLdlSessionsLimit handle) (ke_status env, 0) keyNumberReply m"

definition kmsGetLastDrmError where
  "kmsGetLastDrmError env handle keySessionId m =
     onCdmService (cdmGetLastDrmError handle keySessionId) (ke_status env, 0) keyNumberReply m"

definition kmsGetDrmTime where
  "kmsGetDrmTime env handle m =
     onCdmService (cdmGetDrmTime handle) (ke_status env, 0) (\<lambda>r. KeyTimeResponse (convertMediaKeyErrorStatus (fst r)) (snd r)) m"

definition kmsGetCdmKeySessionId where
  "kmsGetCdmKeySessionId env handle keySessionId m =
     onCdmService (cdmGetCdmKeySessionId handle keySessionId) (ke_status env, [])
       (\<lambda>r. KeyTextResponse (convertMediaKeyErrorStatus (fst r)) (snd r)) m"

fun serveKeys :: "KeysRpcEnv \<Rightarrow> nat \<Rightarrow> KeysModule keys_peer" where
  "serveKeys env client (CreateMediaKeysRequest keySystem) m = kmsCreateMediaKeys env client keySystem m"
| "serveKeys env client (DestroyMediaKeysRequest h) m = kmsDestroyMediaKeys client h m"
| "serveKeys env client (SelectKeyIdRequest h i keyId) m = kmsSelectKeyId h i keyId m"
| "serveKeys env client (ContainsKeyRequest h i keyId) m = kmsContainsKey env h i keyId m"
| "serveKeys env client (CreateKeySessionRequest h t isLDL) m = kmsCreateKeySession env h t isLDL m"
| "serveKeys env client (GenerateRequestRequest h i t d) m = kmsGenerateRequest env h i t d m"
| "serveKeys env client (LoadSessionRequest h i) m = kmsLoadSession env h i m"
| "serveKeys env client (UpdateSessionRequest h i d) m = kmsUpdateSession env h i d m"
| "serveKeys env client (SetDrmHeaderRequest h i d) m = kmsSetDrmHeader env h i d m"
| "serveKeys env client (CloseKeySessionRequest h i) m = kmsCloseKeySession env h i m"
| "serveKeys env client (RemoveKeySessionRequest h i) m = kmsRemoveKeySession env h i m"
| "serveKeys env client (DeleteDrmStoreRequest h) m = kmsDeleteDrmStore env h m"
| "serveKeys env client (DeleteKeyStoreRequest h) m = kmsDeleteKeyStore env h m"
| "serveKeys env client (GetDrmStoreHashRequest h) m = kmsGetDrmStoreHash env h m"
| "serveKeys env client (GetKeyStoreHashRequest h) m = kmsGetKeyStoreHash env h m"
| "serveKeys env client (GetLdlSessionsLimitRequest h) m = kmsGetLdlSessionsLimit env h m"
| "serveKeys env client (GetLastDrmErrorRequest h i) m = kmsGetLastDrmError env h i m"
| "serveKeys env client (GetDrmTimeRequest h) m = kmsGetDrmTime env h m"
| "serveKeys env client (GetCdmKeySessionIdRequest h i) m = kmsGetCdmKeySessionId env h i m"

text \<open>
  The client's channel parses the reply; a message that lacks a required field does not parse, and the call completes
  with an error.
\<close>

fun parseReply :: "KeysResponse \<Rightarrow> KeysResponse option" where
  "parseReply (CreateKeySessionResponse status None) = None"
| "parseReply response = Some response"

definition keysServer :: "KeysRpcEnv \<Rightarrow> nat \<Rightarrow> KeysModule keys_peer" where
  "keysServer env client request m = (let (response, m) = serveKeys env client request m in (Option.bind response parseReply, m))"

subsection \<open>Events\<close>

fun convertKeyStatus :: "KeyStatus \<Rightarrow> PbKeyStatus" where
  "convertKeyStatus KS_USABLE = PB_KS_USABLE"
| "convertKeyStatus KS_EXPIRED = PB_KS_EXPIRED"
| "convertKeyStatus KS_OUTPUT_RESTRICTED = PB_KS_OUTPUT_RESTRICTED"
| "convertKeyStatus KS_PENDING = PB_KS_PENDING"
| "convertKeyStatus KS_INTERNAL_ERROR = PB_KS_INTERNAL_ERROR"
| "convertKeyStatus KS_RELEASED = PB_KS_RELEASED"

definition kmcOnLicenseRequest :: "int \<Rightarrow> int \<Rightarrow> u8 list \<Rightarrow> string \<Rightarrow> KeysEvent" where
  "kmcOnLicenseRequest handle keySessionId licenseRequestMessage url =
     LicenseRequestEvent handle keySessionId (bytesToPb licenseRequestMessage) url"

definition kmcOnLicenseRenewal :: "int \<Rightarrow> int \<Rightarrow> u8 list \<Rightarrow> KeysEvent" where
  "kmcOnLicenseRenewal handle keySessionId licenseRenewalMessage =
     LicenseRenewalEvent handle keySessionId (bytesToPb licenseRenewalMessage)"

definition kmcOnKeyStatusesChanged :: "int \<Rightarrow> int \<Rightarrow> KeyStatusVector \<Rightarrow> KeysEvent" where
  "kmcOnKeyStatusesChanged handle keySessionId keyStatuses =
     KeyStatusesChangedEvent handle keySessionId (map (\<lambda>(keyId, status). (bytesToPb keyId, convertKeyStatus status)) keyStatuses)"

text \<open>What a key session tells its client becomes an event; calls on the OCDM do not.\<close>

fun sendKeysEvent :: "int \<Rightarrow> KeyEvent \<Rightarrow> KeysEvent option" where
  "sendKeysEvent handle (KE_licenseRequest i message url) = Some (kmcOnLicenseRequest handle i message url)"
| "sendKeysEvent handle (KE_licenseRenewal i message) = Some (kmcOnLicenseRenewal handle i message)"
| "sendKeysEvent handle (KE_keyStatusesChanged i statuses) = Some (kmcOnKeyStatusesChanged handle i statuses)"
| "sendKeysEvent handle (KE_ocdm i call) = None"

end
