(* ===== verification/Keys_Rpc_Proofs.thy ===== *)
theory Keys_Rpc_Proofs
  imports Keys_Rpc Pipeline_Rpc_Proofs
begin

text \<open>
  What the two ends of the remote calls of media keys achieve together, and what they do not: remote calls are direct
  calls on the CDM service; media keys go with their client;
  notifications arrive as they were, but at the client of the session created last.
\<close>

section \<open>Conversions\<close>

interpretation key_error: wire_conversion convertMediaKeyErrorStatus convertKeyErrorStatusFromPb
proof
  show "convertKeyErrorStatusFromPb (convertMediaKeyErrorStatus x) = x" for x by (cases x) simp_all
qed

interpretation key_status: wire_conversion convertKeyStatus convertKeyStatusFromPb
proof
  show "convertKeyStatusFromPb (convertKeyStatus x) = x" for x by (cases x) simp_all
qed

interpretation session_type: wire_conversion convertKeySessionTypeToPb convertKeySessionType
proof
  show "convertKeySessionType (convertKeySessionTypeToPb x) = x" for x by (cases x) simp_all
qed

interpretation init_data_type: wire_conversion convertInitDataTypeToPb covertInitDataType
proof
  show "covertInitDataType (convertInitDataTypeToPb x) = x" for x by (cases x) simp_all
qed

lemma byte_roundtrip: "ucast (ucast (b :: 8 word) :: 32 word) = b"
  by (rule bit_word_eqI) (simp add: bit_simps)

interpretation bytes: wire_conversion bytesToPb bytesFromPb
proof
  show "bytesFromPb (bytesToPb x) = x" for x by (induction x) (simp_all add: bytesToPb_def bytesFromPb_def byte_roundtrip)
qed

lemma status_ok_iff: "convertMediaKeyErrorStatus s = PB_KE_OK \<longleftrightarrow> s = MKE_OK"
  by (cases s) simp_all

section \<open>Calls\<close>

datatype KeysResult =
    KeysBool bool | KeysStatus MediaKeyErrorStatus | KeysSession MediaKeyErrorStatus "int option"
  | KeysBytes MediaKeyErrorStatus "u8 list option" | KeysNumber MediaKeyErrorStatus "u32 option"
  | KeysTime MediaKeyErrorStatus "u64 option"

text \<open>The calls of the client library through \<open>MediaKeysIpc\<close>; \<open>client\<close> is the client object of a new key session.\<close>

fun keysIpcCall :: "'s keys_peer \<Rightarrow> nat \<Rightarrow> nat \<Rightarrow> KeysIpcCall \<Rightarrow> MediaKeysIpc \<Rightarrow> 's IpcWorld \<Rightarrow> KeysResult \<times> MediaKeysIpc \<times> 's IpcWorld" where
  "keysIpcCall serve this client (KI_containsKey i k) c w = map_prod KeysBool id (mkiContainsKey serve this i k c w)"
| "keysIpcCall serve this client (KI_createKeySession t ldl) c w =
     map_prod (\<lambda>(s, i). KeysSession s i) id (mkiCreateKeySession serve this t client ldl c w)"
| "keysIpcCall serve this client (KI_generateRequest i t d) c w = map_prod KeysStatus id (mkiGenerateRequest serve this i t d c w)"
| "keysIpcCall serve this client (KI_loadSession i) c w = map_prod KeysStatus id (mkiLoadSession serve this i c w)"
| "keysIpcCall serve this client (KI_updateSession i d) c w = map_prod KeysStatus id (mkiUpdateSession serve this i d c w)"
| "keysIpcCall serve this client (KI_setDrmHeader i d) c w = map_prod KeysStatus id (mkiSetDrmHeader serve this i d c w)"
| "keysIpcCall serve this client (KI_closeKeySession i) c w = map_prod KeysStatus id (mkiCloseKeySession serve this i c w)"
| "keysIpcCall serve this client (KI_removeKeySession i) c w = map_prod KeysStatus id (mkiRemoveKeySession serve this i c w)"
| "keysIpcCall serve this client KI_deleteDrmStore c w = map_prod KeysStatus id (mkiDeleteDrmStore serve this c w)"
| "keysIpcCall serve this client KI_deleteKeyStore c w = map_prod KeysStatus id (mkiDeleteKeyStore serve this c w)"
| "keysIpcCall serve this client KI_getDrmStoreHash c w = map_prod (\<lambda>(s, r). KeysBytes s r) id (mkiGetDrmStoreHash serve this c w)"
| "keysIpcCall serve this client KI_getKeyStoreHash c w = map_prod (\<lambda>(s, r). KeysBytes s r) id (mkiGetKeyStoreHash serve this c w)"
| "keysIpcCall serve this client KI_getLdlSessionsLimit c w = map_prod (\<lambda>(s, r). KeysNumber s r) id (mkiGetLdlSessionsLimit serve this c w)"
| "keysIpcCall serve this client (KI_getLastDrmError i) c w = map_prod (\<lambda>(s, r). KeysNumber s r) id (mkiGetLastDrmError serve this i c w)"
| "keysIpcCall serve this client KI_getDrmTime c w = map_prod (\<lambda>(s, r). KeysTime s r) id (mkiGetDrmTime serve this c w)"
| "keysIpcCall serve this client (KI_getCdmKeySessionId i) c w = map_prod (\<lambda>(s, r). KeysBytes s r) id (mkiGetCdmKeySessionId serve this i c w)"
| "keysIpcCall serve this client (KI_selectKeyId i k) c w = map_prod KeysStatus id (mkiSelectKeyId i k c w)"

text \<open>The same calls on the CDM service, with their results as the service returns them.\<close>

fun directKeysCall :: "KeysRpcEnv \<Rightarrow> int \<Rightarrow> KeysIpcCall \<Rightarrow> CdmService \<Rightarrow> KeysResult \<times> CdmService" where
  "directKeysCall env h (KI_containsKey i k) s = map_prod (KeysBool \<circ> ranOr (ke_flag env)) id (cdmContainsKey h i k s)"
| "directKeysCall env h (KI_createKeySession t ldl) s =
     map_prod (case_prod KeysSession \<circ> ranOr (ke_status env, None)) id (cdmCreateKeySession h t ldl s)"
| "directKeysCall env h (KI_generateRequest i t d) s = map_prod (KeysStatus \<circ> ranOr (ke_status env)) id (cdmGenerateRequest h i t d s)"
| "directKeysCall env h (KI_loadSession i) s = map_prod (KeysStatus \<circ> ranOr (ke_status env)) id (cdmLoadSession h i s)"
| "directKeysCall env h (KI_updateSession i d) s = map_prod (KeysStatus \<circ> ranOr (ke_status env)) id (cdmUpdateSession h i d s)"
| "directKeysCall env h (KI_setDrmHeader i d) s = map_prod (KeysStatus \<circ> ranOr (ke_status env)) id (cdmSetDrmHeader h i d s)"
| "directKeysCall env h (KI_closeKeySession i) s = map_prod (KeysStatus \<circ> ranOr (ke_status env)) id (cdmCloseKeySession h i s)"
| "directKeysCall env h (KI_removeKeySession i) s = map_prod (KeysStatus \<circ> ranOr (ke_status env)) id (cdmRemoveKeySession h i s)"
| "directKeysCall env h KI_deleteDrmStore s = map_prod (KeysStatus \<circ> ranOr (ke_status env)) id (cdmDeleteDrmStore h s)"
| "directKeysCall env h KI_deleteKeyStore s = map_prod (KeysStatus \<circ> ranOr (ke_status env)) id (cdmDeleteKeyStore h s)"
| "directKeysCall env h KI_getDrmStoreHash s =
     map_prod ((\<lambda>(status, r). KeysBytes status (Some r)) \<circ> ranOr (ke_status env, [])) id (cdmGetDrmStoreHash h s)"
| "directKeysCall env h KI_getKeyStoreHash s =
     map_prod ((\<lambda>(status, r). KeysBytes status (Some r)) \<circ> ranOr (ke_status env, [])) id (cdmGetKeyStoreHash h s)"
| "directKeysCall env h KI_getLdlSessionsLimit s =
     map_prod ((\<lambda>(status, r). KeysNumber status (Some r)) \<circ> ranOr (ke_status env, 0)) id (cdmGetLdlSessionsLimit h s)"
| "directKeysCall env h (KI_getLastDrmError i) s =
     map_prod ((\<lambda>(status, r). KeysNumber status (Some r)) \<circ> ranOr (ke_status env, 0)) id (cdmGetLastDrmError h i s)"
| "directKeysCall env h KI_getDrmTime s =
     map_prod ((\<lambda>(status, r). KeysTime status (Some r)) \<circ> ranOr (ke_status env, 0)) id (cdmGetDrmTime h s)"
| "directKeysCall env h (KI_getCdmKeySessionId i) s =
     map_prod ((\<lambda>(status, r). KeysBytes status (Some r)) \<circ> ranOr (ke_status env, [])) id (cdmGetCdmKeySessionId h i s)"
| "directKeysCall env h (KI_selectKeyId i k) s = map_prod (KeysStatus \<circ> ranOr (ke_status env)) id (cdmSelectKeyId i k s)"

text \<open>
  What a client sees of a result. A value is delivered only with the status \<open>OK\<close>, apart from the CDM's session id. The
  reply to a failed \<open>createKeySession\<close> lacks a field and does not parse, which reads \<open>FAIL\<close>; a session id that the server
  has not assigned is the variable of its handler, which is not initialised.
\<close>

definition whenOk :: "MediaKeyErrorStatus \<Rightarrow> 'r option \<Rightarrow> 'r option" where
  "whenOk status r = (if status = MKE_OK then r else None)"

fun asSeen :: "KeysRpcEnv \<Rightarrow> KeysIpcCall \<Rightarrow> KeysResult \<Rightarrow> KeysResult" where
  "asSeen env call (KeysSession status i) =
     (if status = MKE_OK then KeysSession MKE_OK (Some (case i of None \<Rightarrow> ke_keySessionId env | Some i \<Rightarrow> i))
      else KeysSession MKE_FAIL None)"
| "asSeen env (KI_getCdmKeySessionId i) (KeysBytes status r) = KeysBytes status r"
| "asSeen env call (KeysBytes status r) = KeysBytes status (whenOk status r)"
| "asSeen env call (KeysNumber status r) = KeysNumber status (whenOk status r)"
| "asSeen env call (KeysTime status r) = KeysTime status (whenOk status r)"
| "asSeen env call r = r"

lemmas mki_defs = mkiContainsKey_def mkiCreateKeySession_def mkiGenerateRequest_def mkiLoadSession_def mkiUpdateSession_def
  mkiSetDrmHeader_def mkiCloseKeySession_def mkiRemoveKeySession_def mkiDeleteDrmStore_def mkiDeleteKeyStore_def
  mkiGetDrmStoreHash_def mkiGetKeyStoreHash_def mkiGetLdlSessionsLimit_def mkiGetLastDrmError_def mkiGetDrmTime_def
  mkiGetCdmKeySessionId_def mkiSelectKeyId_def keysStatusCall_def keysQuery_def
lemmas kms_defs = kmsContainsKey_def kmsCreateKeySession_def kmsGenerateRequest_def kmsLoadSession_def kmsUpdateSession_def
  kmsSetDrmHeader_def kmsCloseKeySession_def kmsRemoveKeySession_def kmsDeleteDrmStore_def kmsDeleteKeyStore_def
  kmsGetDrmStoreHash_def kmsGetKeyStoreHash_def kmsGetLdlSessionsLimit_def kmsGetLastDrmError_def kmsGetDrmTime_def
  kmsGetCdmKeySessionId_def onCdmService_def keyStatusReply_def keyHashReply_def keyNumberReply_def

lemma reattach_attached: "attached c w \<Longrightarrow> reattachChannelIfRequired events this c w = (True, c, w)"
  by (simp add: reattachChannelIfRequired_def attached_def split: option.splits)

text \<open>The client object the remote end remembers after a call.\<close>

fun rememberedClient :: "nat \<Rightarrow> KeysIpcCall \<Rightarrow> KeysResult \<Rightarrow> nat option \<Rightarrow> nat option" where
  "rememberedClient client (KI_createKeySession t ldl) r old = (case r of KeysSession MKE_OK i \<Rightarrow> Some client | _ \<Rightarrow> old)"
| "rememberedClient client (KI_closeKeySession i) r old = None"
| "rememberedClient client call r old = old"

lemma keys_ipc_call_eq:
  assumes "attached c w" and "\<forall>i k. call \<noteq> KI_selectKeyId i k"
  shows "keysIpcCall (keysServer env conn) this client call c w =
    (let (r, s) = directKeysCall env (ki_mediaKeysHandle c) call (cm_service (iw_peer w)); r = asSeen env call r
     in (r, c\<lparr>ki_client := rememberedClient client call r (ki_client c)\<rparr>, w\<lparr>iw_peer := (iw_peer w)\<lparr>cm_service := s\<rparr>\<rparr>))"
  using assms(2)
  by (cases call)
    (auto simp: mki_defs kms_defs keysServer_def remoteCall_attached [OF assms(1)] reattach_attached [OF assms(1)] Let_def
      getMediaKeyErrorStatusFromResponse_def whenOk_def status_ok_iff split: prod.splits option.splits if_splits)

text \<open>C26. A remote call of media keys on an attached channel has the effect of the direct call on the CDM service and shows its
  result, for every method but one and for every argument: byte strings, enumerations and statuses arrive as they were sent.
  Of the result, values other than the CDM's session id are shown with the status \<open>OK\<close> only, and a failed
  \<open>createKeySession\<close> reads \<open>FAIL\<close>. The exception is \<open>selectKeyId\<close>, which fails without a call to the server.\<close>

theorem remote_keys_call_is_direct_call:
  assumes "attached c w"
  shows "keysIpcCall (keysServer env conn) this client call c w =
    (case call of
       KI_selectKeyId i k \<Rightarrow> (KeysStatus MKE_FAIL, c, w)
     | _ \<Rightarrow> let (r, s) = directKeysCall env (ki_mediaKeysHandle c) call (cm_service (iw_peer w)); r = asSeen env call r
         in (r, c\<lparr>ki_client := rememberedClient client call r (ki_client c)\<rparr>, w\<lparr>iw_peer := (iw_peer w)\<lparr>cm_service := s\<rparr>\<rparr>))"
proof (cases "\<exists>i k. call = KI_selectKeyId i k")
  case True
  then show ?thesis by (auto simp: mkiSelectKeyId_def)
next
  case False
  then show ?thesis using keys_ipc_call_eq [OF assms, of call env conn this client] by (cases call) simp_all
qed

text \<open>The CDM reports no error of \<open>createKeySession\<close> other than \<open>FAIL\<close>, so nothing is lost there.\<close>

lemma create_key_session_status:
  "fst (cdmCreateKeySession h t ldl s) = Some (status, i) \<Longrightarrow> status = MKE_OK \<or> status = MKE_FAIL"
  by (auto simp: cdmCreateKeySession_def onMediaKeys_def createKeySession_def onKeysThread_def enqueueTaskAndWait_def
      createKeySessionInternal_def Let_def split: option.splits prod.splits if_splits MediaKeyErrorStatus.splits)

section \<open>Media keys and their clients\<close>

definition liveKeys :: "CdmService \<Rightarrow> int set" where
  "liveKeys s = dom (map_of (cs_mediaKeys s))"

interpretation keys_owner: owned_service "\<lambda>(e, keySystem) h. createMediaKeys e h keySystem" destroyMediaKeys liveKeys
proof
  fix e :: "KeysEnv \<times> string" and h s ok s'
  assume "(case e of (e, keySystem) \<Rightarrow> \<lambda>h. createMediaKeys e h keySystem) h s = (ok, s')"
  then show "liveKeys s' = (if ok then insert h (liveKeys s) else liveKeys s)"
    by (cases e) (auto simp: createMediaKeys_def liveKeys_def split: if_splits option.splits)
next
  fix h s ok s'
  assume "destroyMediaKeys h s = (ok, s')"
  then show "liveKeys s' = liveKeys s - {h}"
    by (auto simp: destroyMediaKeys_def liveKeys_def split: option.splits if_splits)
qed

lemma onMediaKeys_live [simp]: "liveKeys (snd (onMediaKeys missing h call s)) = liveKeys s"
  by (auto simp: onMediaKeys_def liveKeys_def map_of_assign split: option.splits prod.splits if_splits)

lemma onKeySession_live [simp]: "liveKeys (snd (onKeySession missing i call s)) = liveKeys s"
  by (simp add: onKeySession_def split: option.split)

lemma liveKeys_clients [simp]: "liveKeys (s\<lparr>cs_mediaKeysClients := x\<rparr>) = liveKeys s"
  by (simp add: liveKeys_def)

lemma removeSession_live [simp]: "liveKeys (snd (cdmRemoveKeySessionInternal h i s)) = liveKeys s"
  by (simp add: cdmRemoveKeySessionInternal_def Let_def case_prod_beta)

lemma createSession_live [simp]: "liveKeys (snd (cdmCreateKeySession h t ldl s)) = liveKeys s"
  by (simp add: cdmCreateKeySession_def Let_def case_prod_beta split: option.split prod.split MediaKeyErrorStatus.split)

lemmas cdm_forward_defs = cdmRemoveKeySession_def cdmGenerateRequest_def cdmLoadSession_def cdmUpdateSession_def
  cdmCloseKeySession_def cdmGetCdmKeySessionId_def cdmContainsKey_def cdmSetDrmHeader_def cdmDeleteDrmStore_def
  cdmDeleteKeyStore_def cdmGetDrmStoreHash_def cdmGetKeyStoreHash_def cdmGetLdlSessionsLimit_def cdmGetLastDrmError_def
  cdmGetDrmTime_def cdmDecrypt_def cdmIsNetflixKeySystem_def cdmSelectKeyId_def cdmIncrementSessionIdUsageCounter_def
  cdmDecrementSessionIdUsageCounter_def

lemma cdm_op_live:
  assumes "\<forall>e h k. op \<noteq> CreateMediaKeysOp e h k"
  shows "liveKeys (cdm_op op s) \<subseteq> liveKeys s"
proof (cases op)
  case (DestroyMediaKeysOp h)
  then show ?thesis using keys_owner.destroyed [of h s] by (cases "destroyMediaKeys h s") auto
next
  case CdmActivate
  then show ?thesis by (simp add: cdmToActive_def liveKeys_def)
next
  case CdmDeactivate
  then show ?thesis by (simp add: cdmToInactive_def liveKeys_def)
qed (use assms in \<open>auto simp: cdm_forward_defs\<close>)

lemma keys_request_inv:
  assumes "ownership_inv liveKeys m"
  shows "ownership_inv liveKeys (snd (serveKeys env client request m))"
proof (cases request)
  case (CreateMediaKeysRequest keySystem)
  then show ?thesis
    using keys_owner.create_inv [OF assms, of "(ke_env env, keySystem)" client]
    by (auto simp: kmsCreateMediaKeys_def Let_def split: prod.splits)
next
  case (DestroyMediaKeysRequest h)
  then show ?thesis
    using keys_owner.destroy_inv [OF assms, of client h] by (auto simp: kmsDestroyMediaKeys_def Let_def split: prod.splits)
qed (use assms in \<open>auto simp: kms_defs kmsSelectKeyId_def cdm_forward_defs Let_def case_prod_beta intro!: ownership_service\<close>)

inductive keys_module_reachable :: "KeysModule \<Rightarrow> bool" where
  keys_started: "cs_mediaKeys s = [] \<Longrightarrow> keys_module_reachable (newClientModule s)"
| keys_connected: "keys_module_reachable m \<Longrightarrow> keys_module_reachable (kmsClientConnected client m)"
| keys_disconnected: "keys_module_reachable m \<Longrightarrow> keys_module_reachable (kmsClientDisconnected client m)"
| keys_requested: "keys_module_reachable m \<Longrightarrow> keys_module_reachable (snd (serveKeys env client request m))"
| keys_other: "keys_module_reachable m \<Longrightarrow> \<forall>e h k. op \<noteq> CreateMediaKeysOp e h k \<Longrightarrow>
    keys_module_reachable (m\<lparr>cm_service := cdm_op op (cm_service m)\<rparr>)"

lemma keys_reachable_ownership: "keys_module_reachable m \<Longrightarrow> ownership_inv liveKeys m"
proof (induction rule: keys_module_reachable.induct)
  case (keys_started s)
  then show ?case by (simp add: ownership_inv_def newClientModule_def liveKeys_def owned_def)
next
  case (keys_connected m client)
  then show ?case unfolding kmsClientConnected_def by (intro keys_owner.connect_inv)
next
  case (keys_disconnected m client)
  then show ?case unfolding kmsClientDisconnected_def by (intro keys_owner.client_gone_inv)
next
  case (keys_requested m env client request)
  then show ?case by (intro keys_request_inv)
next
  case (keys_other m op)
  then show ?case using cdm_op_live [of op "cm_service m"] by (intro ownership_service)
qed

lemma media_keys_go_with_their_client:
  assumes "keys_module_reachable m"
  shows "(\<forall>h \<in> liveKeys (cm_service m). \<exists>!client. h \<in> owned client m) \<and>
    liveKeys (cm_service (kmsClientDisconnected client m)) = liveKeys (cm_service m) - owned client m"
  using ownership_unique [OF keys_reachable_ownership [OF assms]]
  by (simp add: kmsClientDisconnected_def keys_owner.disconnect_alive)

section \<open>Notifications\<close>

lemma key_notification_roundtrip:
  "sendKeysEvent h ev = Some msg \<Longrightarrow> eventHandle msg = h \<and> keyNotification msg = ev"
  by (cases ev) (auto simp: kmcOnLicenseRequest_def kmcOnLicenseRenewal_def kmcOnKeyStatusesChanged_def comp_def case_prod_beta)

lemma create_key_session_client:
  assumes "attached c w" and "mkiCreateKeySession serve this t client ldl c w = ((MKE_OK, i), c', w')"
  shows "attached c' w' \<and> c' = c\<lparr>ki_client := Some client\<rparr>"
  using assms
  by (auto simp: mkiCreateKeySession_def remoteCall_attached Let_def attached_def split: prod.splits option.splits if_splits)

lemma close_key_session_client:
  assumes "attached c w" and "mkiCloseKeySession serve this i c w = (r, c', w')"
  shows "c' = c\<lparr>ki_client := None\<rparr>"
  using assms by (auto simp: mkiCloseKeySession_def reattach_attached split: prod.splits)

text \<open>All key sessions of a media keys object share one client: after a second session is created, a notification of
  the first one goes to the second one's client, and after the first one is closed, notifications of the second one
  are dropped.\<close>

theorem key_sessions_share_one_client:
  assumes "attached c w"
    and "mkiCreateKeySession serve this t1 client1 ldl1 c w = ((MKE_OK, i1), c1, w1)"
    and "mkiCreateKeySession serve this t2 client2 ldl2 c1 w1 = ((MKE_OK, i2), c2, w2)"
    and "mkiCloseKeySession serve this i c2 w2 = (r, c3, w3)"
    and "sendKeysEvent (ki_mediaKeysHandle c) ev = Some msg" and "alive client2"
  shows "onKeysEvent alive msg c2 = Some (client2, ev) \<and> onKeysEvent alive msg c3 = None"
proof -
  note c1 = create_key_session_client [OF assms(1,2)]
  note c2 = create_key_session_client [OF c1 [THEN conjunct1] assms(3)]
  note c3 = close_key_session_client [OF c2 [THEN conjunct1] assms(4)]
  show ?thesis
    using key_notification_roundtrip [OF assms(5)] c1 c2 c3 assms(6) by (simp add: onKeysEvent_def lockClient_def)
qed

section \<open>Handlers\<close>

lemma keys_close_keeps:
  assumes "module_inv this c w"
  shows "module_inv this (fst (snd (mkiCloseKeySession serve this i c w))) (snd (snd (mkiCloseKeySession serve this i c w)))"
  using reattach_module_inv [OF assms, of keysEvents]
  by (auto simp: mkiCloseKeySession_def case_prod_beta Let_def module_inv_def split: option.splits)

lemma destroyed_keys_ipc_has_no_handlers:
  assumes "module_inv this c w"
  shows "own_handlers this (destroyMediaKeysIpc serve this c w) = []"
  using detach_inv [OF remoteCall_module_inv [OF assms, of keysEvents serve "DestroyMediaKeysRequest (ki_mediaKeysHandle c)"]]
  by (simp add: destroyMediaKeysIpc_def mkiDestroyMediaKeys_def case_prod_beta Let_def prod_eq_iff)

section \<open>Witnesses\<close>

definition demo_keys_ipc :: MediaKeysIpc where
  "demo_keys_ipc = \<lparr>im_ipcChannel = Some 0, im_eventTags = [], ki_mediaKeysHandle = 4, ki_client = None\<rparr>"

definition demo_keys_env :: KeysRpcEnv where
  "demo_keys_env = \<lparr>ke_env = demo_kenv, ke_status = MKE_FAIL, ke_keySessionId = 0, ke_flag = False\<rparr>"

definition demo_keys_module :: KeysModule where
  "demo_keys_module = newClientModule newCdmService"

lemma demo_keys_attached: "attached demo_keys_ipc (demo_world s)"
  by (simp add: attached_def demo_keys_ipc_def demo_world_def)

theorem remote_keys_call_is_direct_call_witness:
  "keysIpcCall (keysServer demo_keys_env 1) 7 2 KI_getDrmTime demo_keys_ipc (demo_world (newClientModule demo_cdm)) =
    (let (r, s) = directKeysCall demo_keys_env 4 KI_getDrmTime demo_cdm
     in (asSeen demo_keys_env KI_getDrmTime r, demo_keys_ipc, (demo_world (newClientModule demo_cdm))\<lparr>iw_peer := (newClientModule demo_cdm)\<lparr>cm_service := s\<rparr>\<rparr>))"
  using remote_keys_call_is_direct_call [OF demo_keys_attached, of demo_keys_env 1 7 2 KI_getDrmTime "newClientModule demo_cdm"]
  by (simp add: demo_keys_ipc_def demo_world_def newClientModule_def)

fun demo_serve :: "int keys_peer" where
  "demo_serve (CreateKeySessionRequest h t ldl) n = (Some (CreateKeySessionResponse PB_KE_OK (Some n)), n + 1)"
| "demo_serve request n = (Some (KeyStatusResponse PB_KE_OK), n)"

theorem key_sessions_share_one_client_witness:
  "\<exists>c1 w1 c2 w2 c3 w3. mkiCreateKeySession demo_serve 7 KST_TEMPORARY 10 False demo_keys_ipc (demo_world 5) = ((MKE_OK, Some 5), c1, w1) \<and>
    mkiCreateKeySession demo_serve 7 KST_TEMPORARY 20 False c1 w1 = ((MKE_OK, Some 6), c2, w2) \<and>
    mkiCloseKeySession demo_serve 7 5 c2 w2 = (MKE_OK, c3, w3) \<and>
    onKeysEvent (\<lambda>_. True) (LicenseRenewalEvent 4 5 []) c2 = Some (20, KE_licenseRenewal 5 []) \<and>
    onKeysEvent (\<lambda>_. True) (LicenseRenewalEvent 4 6 []) c3 = None"
proof -
  obtain c1 w1 c2 w2 c3 w3 where run:
    "mkiCreateKeySession demo_serve 7 KST_TEMPORARY 10 False demo_keys_ipc (demo_world 5) = ((MKE_OK, Some 5), c1, w1)"
    "mkiCreateKeySession demo_serve 7 KST_TEMPORARY 20 False c1 w1 = ((MKE_OK, Some 6), c2, w2)"
    "mkiCloseKeySession demo_serve 7 5 c2 w2 = (MKE_OK, c3, w3)"
    by (simp add: mkiCreateKeySession_def mkiCloseKeySession_def remoteCall_def reattachChannelIfRequired_def
        getMediaKeyErrorStatusFromResponse_def demo_keys_ipc_def demo_world_def)
  have sent: "sendKeysEvent (ki_mediaKeysHandle demo_keys_ipc) (KE_licenseRenewal i []) = Some (LicenseRenewalEvent 4 i [])" for i
    by (simp add: demo_keys_ipc_def kmcOnLicenseRenewal_def bytesToPb_def)
  show ?thesis
    using key_sessions_share_one_client [OF demo_keys_attached run(1,2,3) sent, of "\<lambda>_. True" 5]
      key_sessions_share_one_client [OF demo_keys_attached run(1,2,3) sent, of "\<lambda>_. True" 6] run
    by simp
qed

end
