(* ===== verification/Ipc_Transport.thy ===== *)
theory Ipc_Transport
  imports Rialto_Prelude
begin

text \<open>
  What the two ends of the IPC transport share: the messages of \<open>ipc/common/proto/rialtoipc-transport.proto\<close>, the
  datagrams of the socket with the file descriptors that travel beside the data, and the four places that move
  descriptors between a message and a datagram (\<open>ipc/client/source/IpcChannelImpl.cpp\<close>,
  \<open>ipc/server/source/IpcServerImpl.cpp\<close>).
\<close>

section \<open>Protocol buffers\<close>

text \<open>
  A message as the transport sees it through reflection: its type, the fields marked \<open>field_is_fd\<close> in the order
  the type declares them, each with its type and its value if it is set, and everything else.
\<close>

record FdField =
  ff_isInt32 :: bool
  ff_value :: "int option"

record 'b PbMessage =
  pb_type :: string
  pb_body :: 'b
  pb_fdFields :: "FdField list"

record MethodDescriptor =
  md_service :: string
  md_name :: string
  md_input :: string
  md_output :: string
  md_noReply :: "bool option"

text \<open>\<open>HasExtension(no_reply) && GetExtension(no_reply)\<close>\<close>

definition noReplyExpected :: "MethodDescriptor \<Rightarrow> bool" where
  "noReplyExpected method \<longleftrightarrow> md_noReply method = Some True"

record 'w TransportCall =
  tc_serialId :: u64
  tc_serviceName :: string
  tc_methodName :: string
  tc_requestMessage :: 'w

text \<open>The \<open>oneof\<close> of each direction; the last constructor is a message with none of them set.\<close>

datatype 'w MessageToServer = ToCall "'w TransportCall" | ToMonitor | ToNone

datatype 'w MessageFromServer = FromReply u64 'w | FromError u64 string | FromEvent string 'w | FromNone

text \<open>
  The protobuf library: the encoding of messages of the modules, which a receiver decodes as the type it expects, and
  of the messages of the transport. \<open>None\<close> is a parse that fails, which a missing required field causes as well.
\<close>

record ('b, 'w, 'd) Protobuf =
  SerializeAsString :: "'b PbMessage \<Rightarrow> 'w"
  ParseFromString :: "string \<Rightarrow> 'w \<Rightarrow> 'b PbMessage option"
  IsInitialized :: "'b PbMessage \<Rightarrow> bool"
  SerializeToServer :: "'w MessageToServer \<Rightarrow> 'd"
  ParseToServer :: "'d \<Rightarrow> 'w MessageToServer option"
  SerializeFromServer :: "'w MessageFromServer \<Rightarrow> 'd"
  ParseFromServer :: "'d \<Rightarrow> 'w MessageFromServer option"
  ByteSizeLong :: "'d \<Rightarrow> nat"

text \<open>What the library documents: decoding gives back the message that was encoded, and fails
  if a field it requires is not set.\<close>

definition lossless :: "('b, 'w, 'd) Protobuf \<Rightarrow> bool" where
  "lossless pb \<longleftrightarrow>
     (\<forall>m. ParseFromString pb (pb_type m) (SerializeAsString pb m) = (if IsInitialized pb m then Some m else None)) \<and>
     (\<forall>t. ParseToServer pb (SerializeToServer pb t) = Some t) \<and>
     (\<forall>t. ParseFromServer pb (SerializeFromServer pb t) = Some t)"

section \<open>Datagrams\<close>

text \<open>
  A control message that passes descriptors, with the length of its data in bytes and its descriptors, or one of
  another kind. A descriptor stands for the open file it refers to; \<open>None\<close> is one that cannot be duplicated.
\<close>

datatype Cmsg = ScmRights nat "int option list" | OtherCmsg

record 'd Datagram =
  dg_data :: 'd
  dg_control :: "Cmsg list"
  dg_truncated :: bool

text \<open>The outcomes of \<open>recvmsg\<close> other than \<open>EWOULDBLOCK\<close>, each at the time of the clock when it is processed.\<close>

datatype 'd Received = RecvMsg int "'d Datagram" | RecvClosed | RecvError

definition SCM_MAX_FD :: nat where "SCM_MAX_FD = 255"

definition m_kMaxMessageSize :: nat where "m_kMaxMessageSize = 128 * 1024"

text \<open>The size of an \<open>int\<close> is four bytes. \<open>rightsOf\<close> is the control message a sender builds from its descriptors.\<close>

definition rightsOf :: "int list \<Rightarrow> Cmsg list" where
  "rightsOf fds = (if fds = [] then [] else [ScmRights (4 * length fds) (map Some fds)])"

section \<open>Reading descriptors from a datagram\<close>

text \<open>
  One received descriptor: beyond the limit it is dropped, as is one that cannot be duplicated. The original is closed
  either way, and the duplicates that stay in the vector are closed with it unless they are released.
\<close>

fun takeFds :: "nat \<Rightarrow> int option list \<Rightarrow> int list \<Rightarrow> int list" where
  "takeFds limit [] fds = fds"
| "takeFds limit (x # xs) fds =
     takeFds limit xs (if length fds \<ge> limit then fds else case x of None \<Rightarrow> fds | Some fd \<Rightarrow> fds @ [fd])"

fun readMessageFds :: "Cmsg list \<Rightarrow> nat \<Rightarrow> int list \<Rightarrow> int list" where
  "readMessageFds [] limit fds = fds"
| "readMessageFds (OtherCmsg # cs) limit fds = readMessageFds cs limit fds"
| "readMessageFds (ScmRights fdsLength fdArray # cs) limit fds =
     (if fdsLength < 4 \<or> fdsLength mod 4 \<noteq> 0 then readMessageFds cs limit fds
      else let n = fdsLength div 4 in readMessageFds cs limit (takeFds limit (take n fdArray) fds))"

text \<open>The server has its own copy of the function.\<close>

fun readMessageFds_server :: "Cmsg list \<Rightarrow> nat \<Rightarrow> int list \<Rightarrow> int list" where
  "readMessageFds_server [] limit fds = fds"
| "readMessageFds_server (cmsg # cs) limit fds =
     readMessageFds_server cs limit
       (case cmsg of
          OtherCmsg \<Rightarrow> fds
        | ScmRights fdsLength fdArray \<Rightarrow>
            if fdsLength < 4 \<or> fdsLength mod 4 \<noteq> 0 then fds else takeFds limit (take (fdsLength div 4) fdArray) fds)"

section \<open>Descriptors of a message\<close>

text \<open>
  Placing received descriptors into a message: each field that is set takes the next one. \<open>None\<close> is the function
  returning false: a field of another type, too few descriptors, or some left over.
\<close>

fun placeFds :: "FdField list \<Rightarrow> int list \<Rightarrow> FdField list option" where
  "placeFds [] fds = (if fds = [] then Some [] else None)"
| "placeFds (f # fs) fds =
     (if \<not> ff_isInt32 f then None
      else case ff_value f of
        None \<Rightarrow> (case placeFds fs fds of None \<Rightarrow> None | Some fs' \<Rightarrow> Some (f # fs'))
      | Some _ \<Rightarrow> (case fds of
          [] \<Rightarrow> None
        | fd # fds' \<Rightarrow> (case placeFds fs fds' of None \<Rightarrow> None | Some fs' \<Rightarrow> Some (f\<lparr>ff_value := Some fd\<rparr> # fs'))))"

definition addReplyFileDescriptors :: "'b PbMessage \<Rightarrow> int list \<Rightarrow> 'b PbMessage option" where
  "addReplyFileDescriptors reply fds = map_option (\<lambda>fs. reply\<lparr>pb_fdFields := fs\<rparr>) (placeFds (pb_fdFields reply) fds)"

definition addRequestFileDescriptors :: "'b PbMessage \<Rightarrow> int list \<Rightarrow> 'b PbMessage option" where
  "addRequestFileDescriptors request requestFds =
     (case placeFds (pb_fdFields request) requestFds of None \<Rightarrow> None | Some fs \<Rightarrow> Some (request\<lparr>pb_fdFields := fs\<rparr>))"

text \<open>
  Taking them out of one. The client skips a field of another type, and reads a field that is not set as its default,
  zero.
\<close>

definition getMessageFds :: "'b PbMessage \<Rightarrow> int list" where
  "getMessageFds message =
     map (\<lambda>f. case ff_value f of None \<Rightarrow> 0 | Some fd \<Rightarrow> fd) (filter ff_isInt32 (pb_fdFields message))"

text \<open>The server gives up at a field of another type, leaves out fields that are not set, and writes -1 into the others.\<close>

fun takeResponseFds :: "FdField list \<Rightarrow> int list \<times> FdField list \<times> bool" where
  "takeResponseFds [] = ([], [], True)"
| "takeResponseFds (f # fs) =
     (if \<not> ff_isInt32 f then ([], f # fs, False)
      else let (fds, fs', ok) = takeResponseFds fs in
        case ff_value f of
          None \<Rightarrow> (fds, f # fs', ok)
        | Some fd \<Rightarrow> (fd # fds, f\<lparr>ff_value := Some (-1)\<rparr> # fs', ok))"

definition getResponseFileDescriptors :: "'b PbMessage \<Rightarrow> int list \<times> 'b PbMessage" where
  "getResponseFileDescriptors response =
     (case takeResponseFds (pb_fdFields response) of (fds, fs, ok) \<Rightarrow>
        (if ok then fds else [], response\<lparr>pb_fdFields := fs\<rparr>))"

section \<open>Lemmas\<close>

definition fd_message :: "'b PbMessage \<Rightarrow> bool" where
  "fd_message m \<longleftrightarrow> (\<forall>f \<in> set (pb_fdFields m). ff_isInt32 f)"

primrec set_fds :: "FdField list \<Rightarrow> int list" where
  "set_fds [] = []"
| "set_fds (f # fs) = (case ff_value f of None \<Rightarrow> set_fds fs | Some fd \<Rightarrow> fd # set_fds fs)"

lemma takeFds_all: "length fds + length xs \<le> limit \<Longrightarrow> takeFds limit (map Some xs) fds = fds @ xs"
  by (induction xs arbitrary: fds) auto

lemma takeFds_limit: "length fds \<le> limit \<Longrightarrow> length (takeFds limit xs fds) \<le> limit"
  by (induction xs arbitrary: fds) (auto split: option.splits)

lemma readMessageFds_server_eq: "readMessageFds_server cs limit fds = readMessageFds cs limit fds"
  by (induction cs limit fds rule: readMessageFds.induct) (auto simp: Let_def)

lemma readMessageFds_limit: "length fds \<le> limit \<Longrightarrow> length (readMessageFds cs limit fds) \<le> limit"
  by (induction cs limit fds rule: readMessageFds.induct) (auto simp: Let_def takeFds_limit)

lemma readMessageFds_rights: "length fds \<le> limit \<Longrightarrow> readMessageFds (rightsOf fds) limit [] = fds"
  by (cases fds) (auto simp: rightsOf_def Let_def takeFds_all [of "[]", simplified] simp del: takeFds.simps list.map)

lemma addRequest_eq_addReply: "addRequestFileDescriptors m fds = addReplyFileDescriptors m fds"
  by (simp add: addRequestFileDescriptors_def addReplyFileDescriptors_def split: option.splits)

text \<open>Whatever values the fields of the received message hold, the descriptors of the sender take their place.\<close>

lemma place_own: "\<forall>f \<in> set fs. ff_isInt32 f \<Longrightarrow> placeFds fs (set_fds fs) = Some fs"
  by (induction fs) (auto split: option.splits)

lemma takeResponse_fst: "\<forall>f \<in> set fs. ff_isInt32 f \<Longrightarrow> \<exists>fs'. takeResponseFds fs = (set_fds fs, fs', True) \<and>
    placeFds fs' (set_fds fs) = Some fs"
  by (induction fs) (auto split: option.splits)

lemma response_fds: "fd_message m \<Longrightarrow> fst (getResponseFileDescriptors m) = set_fds (pb_fdFields m)"
  using takeResponse_fst [of "pb_fdFields m"] by (auto simp: getResponseFileDescriptors_def fd_message_def)

lemma add_own_fds: "fd_message m \<Longrightarrow> addReplyFileDescriptors m (set_fds (pb_fdFields m)) = Some m"
  by (simp add: addReplyFileDescriptors_def place_own fd_message_def)

lemma add_response_fds:
  "fd_message m \<Longrightarrow> addReplyFileDescriptors (snd (getResponseFileDescriptors m)) (fst (getResponseFileDescriptors m)) = Some m"
  using takeResponse_fst [of "pb_fdFields m"]
  by (auto simp: getResponseFileDescriptors_def fd_message_def addReplyFileDescriptors_def)

lemma request_fds:
  "fd_message m \<Longrightarrow> \<forall>f \<in> set (pb_fdFields m). ff_value f \<noteq> None \<Longrightarrow> getMessageFds m = set_fds (pb_fdFields m)"
proof -
  have "map (\<lambda>f. case ff_value f of None \<Rightarrow> 0 | Some fd \<Rightarrow> fd) (filter ff_isInt32 fs) = set_fds fs"
    if "\<forall>f \<in> set fs. ff_isInt32 f" "\<forall>f \<in> set fs. ff_value f \<noteq> None" for fs
    using that by (induction fs) auto
  then show "fd_message m \<Longrightarrow> \<forall>f \<in> set (pb_fdFields m). ff_value f \<noteq> None \<Longrightarrow> ?thesis"
    by (simp add: getMessageFds_def fd_message_def)
qed

text \<open>
  A request with a descriptor field that is not set is never accepted: the client sends descriptor zero for it, and
  the server finds a descriptor too many.
\<close>

lemma place_length: "placeFds fs fds = Some fs' \<Longrightarrow> length fds = length (set_fds fs)"
  by (induction fs arbitrary: fds fs') (auto split: option.splits list.splits if_splits)

theorem unset_fd_field_refused:
  assumes "fd_message m" and "f \<in> set (pb_fdFields m)" and "ff_value f = None"
  shows "addRequestFileDescriptors m (getMessageFds m) = None"
proof -
  have "length (set_fds fs) < length fs" if "f \<in> set fs" for fs
  proof -
    have "length (set_fds fs) \<le> length fs" for fs by (induction fs) (auto split: option.splits)
    then show ?thesis using that assms(3) by (induction fs) (auto split: option.splits simp: le_imp_less_Suc less_SucI)
  qed
  moreover have "length (getMessageFds m) = length (pb_fdFields m)"
    using assms(1) by (simp add: getMessageFds_def fd_message_def)
  ultimately have "placeFds (pb_fdFields m) (getMessageFds m) = None"
    using place_length [of "pb_fdFields m" "getMessageFds m"] assms(2) by (cases "placeFds (pb_fdFields m) (getMessageFds m)") force+
  then show ?thesis by (simp add: addRequestFileDescriptors_def)
qed

section \<open>A codec\<close>

text \<open>The simplest library with these laws: messages travel as they are, and count as a hundred bytes.\<close>

definition directPb :: "(nat, nat PbMessage, nat PbMessage MessageToServer + nat PbMessage MessageFromServer) Protobuf" where
  "directPb =
     \<lparr>SerializeAsString = (\<lambda>m. m), ParseFromString = (\<lambda>t m. if pb_type m = t then Some m else None),
      IsInitialized = (\<lambda>_. True), SerializeToServer = Inl,
      ParseToServer = (\<lambda>d. case d of Inl t \<Rightarrow> Some t | Inr _ \<Rightarrow> None), SerializeFromServer = Inr,
      ParseFromServer = (\<lambda>d. case d of Inl _ \<Rightarrow> None | Inr t \<Rightarrow> Some t), ByteSizeLong = (\<lambda>_. 100)\<rparr>"

lemma lossless_directPb: "lossless directPb"
  by (simp add: lossless_def directPb_def)

definition sampleMethod :: MethodDescriptor where
  "sampleMethod = \<lparr>md_service = ''S'', md_name = ''m'', md_input = ''Req'', md_output = ''Resp'', md_noReply = None\<rparr>"

definition sampleMessage :: "string \<Rightarrow> nat \<Rightarrow> nat PbMessage" where
  "sampleMessage t n = \<lparr>pb_type = t, pb_body = n, pb_fdFields = []\<rparr>"

end
