(* ===== verification/Ipc_Channel.thy ===== *)
theory Ipc_Channel
  imports Ipc_Transport Std_Map
begin

text \<open>
  The client end of the transport (\<open>ipc/client/source/IpcChannelImpl.cpp\<close>, with \<open>BlockingClosure.cpp\<close> and
  \<open>IpcClientControllerImpl.cpp\<close>): method calls wait in a table, keyed by serial number, for their reply, and one
  timer watches over all of them. Controllers, responses, closures and event handlers are objects of the caller, named
  by numbers; what the channel does to them is logged in order in \<open>ch_effects\<close>. The clock counts nanoseconds. What
  the system calls answer is an argument of the operations.
\<close>

section \<open>State\<close>

datatype 'b Effect =
    SetMethodCallFailed nat string
  | ClosureRun nat
  | ResponseParsed nat "'b PbMessage"
  | HandlerCalled nat "'b PbMessage"

record ChannelCall =
  mc_timeoutDeadline :: int
  mc_controller :: "nat option"
  mc_response :: nat
  mc_responseType :: string
  mc_closure :: "nat option"

record ChannelEvent =
  ev_id :: int
  ev_descriptor :: string
  ev_handler :: nat

text \<open>
  An open descriptor is \<open>True\<close>. The timer holds the time at which it expires, \<open>None\<close> when it is disarmed;
  \<open>ch_sent\<close> is what went into the socket.
\<close>

record ('b, 'd) ChannelImpl =
  ch_sock :: bool
  ch_epollFd :: bool
  ch_timerFd :: bool
  ch_eventFd :: bool
  ch_serialCounter :: u64
  ch_defaultTimeout :: int
  ch_methodCalls :: "(u64 \<times> ChannelCall) list"
  ch_timer :: "int option"
  ch_wakeEvents :: nat
  ch_eventTagCounter :: int
  ch_eventHandlers :: "(string \<times> ChannelEvent) list"
  ch_effects :: "'b Effect list"
  ch_sent :: "'d Datagram list"

definition initialChannel :: "('b, 'd) ChannelImpl" where
  "initialChannel =
     \<lparr>ch_sock = False, ch_epollFd = False, ch_timerFd = False, ch_eventFd = False, ch_serialCounter = 1,
      ch_defaultTimeout = 3000, ch_methodCalls = [], ch_timer = None, ch_wakeEvents = 0, ch_eventTagCounter = 1,
      ch_eventHandlers = [], ch_effects = [], ch_sent = []\<rparr>"

definition logEffects :: "'b Effect list \<Rightarrow> ('b, 'd) ChannelImpl \<Rightarrow> ('b, 'd) ChannelImpl" where
  "logEffects es ch = ch\<lparr>ch_effects := ch_effects ch @ es\<rparr>"

section \<open>Completing a call\<close>

definition completeCall :: "ChannelCall \<Rightarrow> ('b, 'd) ChannelImpl \<Rightarrow> ('b, 'd) ChannelImpl" where
  "completeCall call ch = (case mc_closure call of None \<Rightarrow> ch | Some closure \<Rightarrow> logEffects [ClosureRun closure] ch)"

definition completeWithError :: "ChannelCall \<Rightarrow> string \<Rightarrow> ('b, 'd) ChannelImpl \<Rightarrow> ('b, 'd) ChannelImpl" where
  "completeWithError call reason ch =
     completeCall call
       (case mc_controller call of None \<Rightarrow> ch | Some controller \<Rightarrow> logEffects [SetMethodCallFailed controller reason] ch)"

text \<open>The controller of a caller, as \<open>setMethodCallFailed\<close> leaves it.\<close>

record ClientControllerImpl =
  cc_failed :: bool
  cc_reason :: string

definition newClientController :: ClientControllerImpl where
  "newClientController = \<lparr>cc_failed = False, cc_reason = []\<rparr>"

definition Reset_controller :: "ClientControllerImpl \<Rightarrow> ClientControllerImpl" where
  "Reset_controller c = c\<lparr>cc_failed := False, cc_reason := []\<rparr>"

definition setMethodCallFailed :: "string \<Rightarrow> ClientControllerImpl \<Rightarrow> ClientControllerImpl" where
  "setMethodCallFailed reason c = c\<lparr>cc_failed := True, cc_reason := reason\<rparr>"

fun controllerAfter :: "nat \<Rightarrow> 'b Effect list \<Rightarrow> ClientControllerImpl \<Rightarrow> ClientControllerImpl" where
  "controllerAfter i [] c = c"
| "controllerAfter i (SetMethodCallFailed j reason # es) c =
     controllerAfter i es (if i = j then setMethodCallFailed reason c else c)"
| "controllerAfter i (e # es) c = controllerAfter i es c"

section \<open>The timeout timer\<close>

text \<open>\<open>duration_cast\<close> truncates towards zero.\<close>

definition toMicroseconds :: "int \<Rightarrow> int" where
  "toMicroseconds ns = (if ns \<ge> 0 then ns div 1000 else - ((- ns) div 1000))"

text \<open>
  The value the timer is set to, in seconds and nanoseconds. The remainder of the division by 1000 of a number of
  microseconds is what is left of a millisecond, not of a second.
\<close>

definition timeoutSpec :: "int \<Rightarrow> int \<times> int" where
  "timeoutSpec duration =
     (if duration \<le> 0 then (0, 1000) else (duration div 1000000, (duration mod 1000) * 1000))"

fun soonest :: "(u64 \<times> ChannelCall) list \<Rightarrow> int option" where
  "soonest [] = None"
| "soonest (x # xs) =
     Some (case soonest xs of None \<Rightarrow> mc_timeoutDeadline (snd x) | Some t \<Rightarrow> min (mc_timeoutDeadline (snd x)) t)"

text \<open>A value of zero disarms the timer.\<close>

definition settime :: "int \<Rightarrow> int \<times> int \<Rightarrow> int option" where
  "settime now ts = (if ts = (0, 0) then None else Some (now + fst ts * 1000000000 + snd ts))"

definition updateTimeoutTimer :: "int \<Rightarrow> ('b, 'd) ChannelImpl \<Rightarrow> ('b, 'd) ChannelImpl" where
  "updateTimeoutTimer now ch =
     (case soonest (ch_methodCalls ch) of
        None \<Rightarrow> ch\<lparr>ch_timer := settime now (0, 0)\<rparr>
      | Some nextTimeout \<Rightarrow> ch\<lparr>ch_timer := settime now (timeoutSpec (toMicroseconds (nextTimeout - now)))\<rparr>)"

text \<open>
  The timer has expired: its expirations are read, which leaves it disarmed, and the calls whose deadline has passed
  are completed. \<open>now\<close> and \<open>later\<close> are the two readings of the clock.
\<close>

definition processTimeoutEvent :: "int \<Rightarrow> int \<Rightarrow> ('b, 'd) ChannelImpl \<Rightarrow> ('b, 'd) ChannelImpl" where
  "processTimeoutEvent now later ch =
     (let ch = ch\<lparr>ch_timer := None\<rparr>;
          timedOuts = filter (\<lambda>entry. now \<ge> mc_timeoutDeadline (snd entry)) (ch_methodCalls ch);
          ch = ch\<lparr>ch_methodCalls := filter (\<lambda>entry. \<not> now \<ge> mc_timeoutDeadline (snd entry)) (ch_methodCalls ch)\<rparr>;
          ch = (if timedOuts \<noteq> [] then updateTimeoutTimer later ch else ch)
      in fold (\<lambda>entry. completeWithError (snd entry) ''Timed out'') timedOuts ch)"

section \<open>Opening and closing\<close>

definition disconnectNoLock :: "('b, 'd) ChannelImpl \<Rightarrow> ('b, 'd) ChannelImpl" where
  "disconnectNoLock ch = (if \<not> ch_sock ch then ch else ch\<lparr>ch_sock := False\<rparr>)"

definition disconnectChannel :: "('b, 'd) ChannelImpl \<Rightarrow> ('b, 'd) ChannelImpl" where
  "disconnectChannel ch =
     (if \<not> ch_sock ch then ch
      else let ch = disconnectNoLock ch in
        if ch_eventFd ch then ch\<lparr>ch_wakeEvents := ch_wakeEvents ch + 1\<rparr> else ch)"

definition isConnected_channel :: "('b, 'd) ChannelImpl \<Rightarrow> bool" where
  "isConnected_channel ch = ch_sock ch"

definition termChannel :: "('b, 'd) ChannelImpl \<Rightarrow> ('b, 'd) ChannelImpl" where
  "termChannel ch =
     (let ch = (if ch_sock ch then disconnectNoLock ch else ch);
          ch = ch\<lparr>ch_epollFd := False, ch_timerFd := False, ch_eventFd := False\<rparr>;
          ch = fold (\<lambda>entry. completeWithError (snd entry) ''Channel destructed'') (ch_methodCalls ch) ch
      in ch\<lparr>ch_methodCalls := []\<rparr>)"

text \<open>
  The system calls of the constructors: \<open>createConnectedSocket\<close> closes the socket again when it does not connect;
  \<open>attachSocket\<close> checks the socket it is given and takes it over. The first call that fails ends each function.
\<close>

definition createConnectedSocket :: "bool \<Rightarrow> bool \<Rightarrow> ('b, 'd) ChannelImpl \<Rightarrow> bool \<times> ('b, 'd) ChannelImpl" where
  "createConnectedSocket socketOk connectOk ch =
     (if \<not> socketOk then (False, ch) else if \<not> connectOk then (False, ch) else (True, ch\<lparr>ch_sock := True\<rparr>))"

record SocketFacts =
  sf_hasName :: bool
  sf_isUnix :: bool
  sf_hasType :: bool
  sf_isSeqpacket :: bool
  sf_nonBlockOk :: bool

definition attachSocket :: "SocketFacts \<Rightarrow> ('b, 'd) ChannelImpl \<Rightarrow> bool \<times> ('b, 'd) ChannelImpl" where
  "attachSocket sock ch =
     (if \<not> sf_hasName sock then (False, ch)
      else if \<not> sf_isUnix sock then (False, ch)
      else if \<not> sf_hasType sock then (False, ch)
      else if \<not> sf_isSeqpacket sock then (False, ch)
      else if \<not> sf_nonBlockOk sock then (False, ch)
      else (True, ch\<lparr>ch_sock := True\<rparr>))"

record InitCalls =
  ic_epoll :: bool
  ic_addSocket :: bool
  ic_timer :: bool
  ic_addTimer :: bool
  ic_event :: bool
  ic_addEvent :: bool

definition initChannel :: "InitCalls \<Rightarrow> ('b, 'd) ChannelImpl \<Rightarrow> bool \<times> ('b, 'd) ChannelImpl" where
  "initChannel c ch =
     (if \<not> ic_epoll c then (False, ch)
      else let ch = ch\<lparr>ch_epollFd := True\<rparr> in
      if \<not> ic_addSocket c then (False, ch)
      else if \<not> ic_timer c then (False, ch)
      else let ch = ch\<lparr>ch_timerFd := True\<rparr> in
      if \<not> ic_addTimer c then (False, ch)
      else if \<not> ic_event c then (False, ch)
      else let ch = ch\<lparr>ch_eventFd := True\<rparr> in
      if \<not> ic_addEvent c then (False, ch)
      else (True, ch))"

text \<open>The rest of both constructors: \<open>Inl\<close> is the exception, with the object as it is when it is thrown.\<close>

definition finishChannel :: "InitCalls \<Rightarrow> bool \<times> ('b, 'd) ChannelImpl \<Rightarrow>
    (string \<times> ('b, 'd) ChannelImpl) + ('b, 'd) ChannelImpl" where
  "finishChannel c opened =
     (let (ok, ch) = initChannel c (snd opened) in
      if \<not> ok then Inl (''Failed to initalise the channel'', termChannel ch)
      else if \<not> isConnected_channel ch then Inl (''Channel not connected'', termChannel ch)
      else Inr ch)"

definition newChannelFromFd :: "SocketFacts \<Rightarrow> InitCalls \<Rightarrow> (string \<times> ('b, 'd) ChannelImpl) + ('b, 'd) ChannelImpl" where
  "newChannelFromFd sock c =
     (let opened = attachSocket sock initialChannel in
      if \<not> fst opened then Inl (''Failed attach the socket'', snd opened) else finishChannel c opened)"

definition newChannelFromPath :: "bool \<Rightarrow> bool \<Rightarrow> InitCalls \<Rightarrow> (string \<times> ('b, 'd) ChannelImpl) + ('b, 'd) ChannelImpl" where
  "newChannelFromPath socketOk connectOk c =
     (let opened = createConnectedSocket socketOk connectOk initialChannel in
      if \<not> fst opened then Inl (''Failed connect socket'', snd opened) else finishChannel c opened)"

text \<open>\<open>createChannel\<close> of the factory turns the exception into a null pointer.\<close>

definition createChannel :: "(string \<times> ('b, 'd) ChannelImpl) + ('b, 'd) ChannelImpl \<Rightarrow> ('b, 'd) ChannelImpl option" where
  "createChannel constructed = (case constructed of Inl _ \<Rightarrow> None | Inr ch \<Rightarrow> Some ch)"

section \<open>Calling a method\<close>

text \<open>
  \<open>now\<close> is the clock at the start of the call and \<open>later\<close> when the timer is set; \<open>sendOk\<close> tells
  whether \<open>sendmsg\<close> takes the whole message. The space for the control data always holds its header.
\<close>

definition CallMethod :: "('b, 'w, 'd) Protobuf \<Rightarrow> MethodDescriptor \<Rightarrow> nat option \<Rightarrow> 'b PbMessage \<Rightarrow> nat \<Rightarrow> nat option \<Rightarrow>
    int \<Rightarrow> int \<Rightarrow> bool \<Rightarrow> ('b, 'd) ChannelImpl \<Rightarrow> ('b, 'd) ChannelImpl" where
  "CallMethod pb method controller request response done now later sendOk ch =
     (let methodCall = \<lparr>mc_timeoutDeadline = now + ch_defaultTimeout ch * 1000000, mc_controller = controller,
            mc_response = response, mc_responseType = md_output method, mc_closure = done\<rparr>;
          serialId = ch_serialCounter ch;
          ch = ch\<lparr>ch_serialCounter := serialId + 1\<rparr>;
          call = \<lparr>tc_serialId = serialId, tc_serviceName = md_service method, tc_methodName = md_name method,
            tc_requestMessage = SerializeAsString pb request\<rparr>;
          message = SerializeToServer pb (ToCall call)
      in if ByteSizeLong pb message > m_kMaxMessageSize then completeWithError methodCall ''Method call to big'' ch
         else let fds = getMessageFds request in
           if \<not> ch_sock ch then completeWithError methodCall ''Not connected'' ch
           else if \<not> sendOk then completeWithError methodCall ''Failed to send message'' ch
           else let ch = ch\<lparr>ch_sent := ch_sent ch @ [\<lparr>dg_data = message, dg_control = rightsOf fds, dg_truncated = False\<rparr>]\<rparr> in
             if noReplyExpected method then
               (case done of None \<Rightarrow> ch | Some closure \<Rightarrow> logEffects [ClosureRun closure] ch)
             else
               let ch = ch\<lparr>ch_methodCalls := emplace serialId methodCall (ch_methodCalls ch)\<rparr> in
               updateTimeoutTimer later ch)"

section \<open>Events\<close>

text \<open>
  The multimap of handlers, in the order of their subscription: only the order among equal keys is seen, and
  \<open>unsubscribe\<close> looks for a tag, which is given once.
\<close>

definition subscribe_channel :: "string \<Rightarrow> string \<Rightarrow> nat \<Rightarrow> ('b, 'd) ChannelImpl \<Rightarrow> int \<times> ('b, 'd) ChannelImpl" where
  "subscribe_channel eventName descriptor handler ch =
     (let tag = ch_eventTagCounter ch in
      (tag, ch\<lparr>ch_eventTagCounter := tag + 1, ch_eventHandlers := ch_eventHandlers ch @
         [(eventName, \<lparr>ev_id = tag, ev_descriptor = descriptor, ev_handler = handler\<rparr>)]\<rparr>))"

fun eraseTag :: "int \<Rightarrow> (string \<times> ChannelEvent) list \<Rightarrow> bool \<times> (string \<times> ChannelEvent) list" where
  "eraseTag tag [] = (False, [])"
| "eraseTag tag (x # xs) =
     (if ev_id (snd x) = tag then (True, xs) else let (success, xs') = eraseTag tag xs in (success, x # xs'))"

definition unsubscribe_channel :: "int \<Rightarrow> ('b, 'd) ChannelImpl \<Rightarrow> bool \<times> ('b, 'd) ChannelImpl" where
  "unsubscribe_channel eventTag ch =
     (let (success, hs) = eraseTag eventTag (ch_eventHandlers ch) in (success, ch\<lparr>ch_eventHandlers := hs\<rparr>))"

section \<open>Messages from the server\<close>

text \<open>A response that a failed parse or a mismatch of descriptors has filled in part is not recorded: its call completes with an error.\<close>

definition processReplyFromServer :: "('b, 'w, 'd) Protobuf \<Rightarrow> u64 \<Rightarrow> 'w \<Rightarrow> int list \<Rightarrow> int \<Rightarrow> ('b, 'd) ChannelImpl \<Rightarrow>
    ('b, 'd) ChannelImpl" where
  "processReplyFromServer pb serialId reply_message fds now ch =
     (case map_of (ch_methodCalls ch) serialId of
        None \<Rightarrow> ch
      | Some methodCall \<Rightarrow>
          let ch = updateTimeoutTimer now (ch\<lparr>ch_methodCalls := erase serialId (ch_methodCalls ch)\<rparr>) in
          case ParseFromString pb (mc_responseType methodCall) reply_message of
            None \<Rightarrow> completeWithError methodCall ''Failed to parse reply message'' ch
          | Some response \<Rightarrow>
              (case addReplyFileDescriptors response fds of
                 None \<Rightarrow> completeWithError methodCall ''Mismatched file descriptors in message'' ch
               | Some response \<Rightarrow> completeCall methodCall (logEffects [ResponseParsed (mc_response methodCall) response] ch)))"

definition processErrorFromServer :: "u64 \<Rightarrow> string \<Rightarrow> int \<Rightarrow> ('b, 'd) ChannelImpl \<Rightarrow> ('b, 'd) ChannelImpl" where
  "processErrorFromServer serialId error_reason now ch =
     (case map_of (ch_methodCalls ch) serialId of
        None \<Rightarrow> ch
      | Some methodCall \<Rightarrow>
          let ch = updateTimeoutTimer now (ch\<lparr>ch_methodCalls := erase serialId (ch_methodCalls ch)\<rparr>) in
          completeWithError methodCall error_reason ch)"

text \<open>Every handler gets the message, which is decoded as the type of the first one. A subscribed type has a prototype.\<close>

definition processEventFromServer :: "('b, 'w, 'd) Protobuf \<Rightarrow> string \<Rightarrow> 'w \<Rightarrow> int list \<Rightarrow> ('b, 'd) ChannelImpl \<Rightarrow>
    ('b, 'd) ChannelImpl" where
  "processEventFromServer pb eventName event fds ch =
     (let handlers = map snd (filter (\<lambda>h. fst h = eventName) (ch_eventHandlers ch)) in
      case handlers of
        [] \<Rightarrow> ch
      | first # _ \<Rightarrow>
          (case ParseFromString pb (ev_descriptor first) event of
             None \<Rightarrow> ch
           | Some message \<Rightarrow>
               (case addReplyFileDescriptors message fds of
                  None \<Rightarrow> ch
                | Some message \<Rightarrow> logEffects (map (\<lambda>h. HandlerCalled (ev_handler h) message) handlers) ch)))"

definition processServerMessage :: "('b, 'w, 'd) Protobuf \<Rightarrow> 'd \<Rightarrow> int list \<Rightarrow> int \<Rightarrow> ('b, 'd) ChannelImpl \<Rightarrow>
    ('b, 'd) ChannelImpl" where
  "processServerMessage pb data fds now ch =
     (case ParseFromServer pb data of
        None \<Rightarrow> ch
      | Some (FromReply serialId reply) \<Rightarrow> processReplyFromServer pb serialId reply fds now ch
      | Some (FromError serialId reason) \<Rightarrow> processErrorFromServer serialId reason now ch
      | Some (FromEvent eventName event) \<Rightarrow> processEventFromServer pb eventName event fds ch
      | Some FromNone \<Rightarrow> ch)"

text \<open>The loop reads until the socket has no more to give, which is the end of the list.\<close>

fun processSocketEvent :: "('b, 'w, 'd) Protobuf \<Rightarrow> 'd Received list \<Rightarrow> ('b, 'd) ChannelImpl \<Rightarrow> bool \<times> ('b, 'd) ChannelImpl" where
  "processSocketEvent pb [] ch = (True, ch)"
| "processSocketEvent pb (RecvError # rs) ch = (False, disconnectNoLock ch)"
| "processSocketEvent pb (RecvClosed # rs) ch = (False, disconnectNoLock ch)"
| "processSocketEvent pb (RecvMsg now dg # rs) ch =
     (if dg_truncated dg then processSocketEvent pb rs ch
      else let fds = (if dg_control dg \<noteq> [] then readMessageFds (dg_control dg) 32 [] else []) in
        processSocketEvent pb rs (processServerMessage pb (dg_data dg) fds now ch))"

definition processWakeEvent :: "('b, 'd) ChannelImpl \<Rightarrow> ('b, 'd) ChannelImpl" where
  "processWakeEvent ch = ch\<lparr>ch_wakeEvents := 0\<rparr>"

section \<open>The event loop\<close>

text \<open>What \<open>epoll_wait\<close> reports: the call fails, or which of the three descriptors have events.\<close>

record 'd EpollEvents =
  ep_failed :: bool
  ep_socket :: "'d Received list option"
  ep_timeout :: "(int \<times> int) option"
  ep_wake :: bool

definition processChannel :: "('b, 'w, 'd) Protobuf \<Rightarrow> 'd EpollEvents \<Rightarrow> ('b, 'd) ChannelImpl \<Rightarrow> bool \<times> ('b, 'd) ChannelImpl" where
  "processChannel pb events ch =
     (if \<not> isConnected_channel ch then (False, ch)
      else if ep_failed events then (False, ch)
      else let (ok, ch) = (case ep_socket events of None \<Rightarrow> (True, ch) | Some rs \<Rightarrow> processSocketEvent pb rs ch) in
        if \<not> ok then (False, ch)
        else let ch = (case ep_timeout events of None \<Rightarrow> ch | Some (now, later) \<Rightarrow> processTimeoutEvent now later ch);
                 ch = (if ep_wake events then processWakeEvent ch else ch)
             in (isConnected_channel ch, ch))"

definition wait_channel :: "bool \<Rightarrow> ('b, 'd) ChannelImpl \<Rightarrow> bool" where
  "wait_channel pollOk ch =
     (if \<not> ch_epollFd ch \<or> \<not> isConnected_channel ch then False else if \<not> pollOk then False else isConnected_channel ch)"

text \<open>
  \<open>BlockingClosurePoll::wait\<close>: the events of each pass are an element of the list; \<open>None\<close> is a caller that
  is still waiting when there are no more.
\<close>

definition closureDone :: "nat \<Rightarrow> ('b, 'd) ChannelImpl \<Rightarrow> bool" where
  "closureDone closure ch \<longleftrightarrow> ClosureRun closure \<in> set (ch_effects ch)"

fun wait_poll :: "('b, 'w, 'd) Protobuf \<Rightarrow> nat \<Rightarrow> 'd EpollEvents list \<Rightarrow> ('b, 'd) ChannelImpl \<Rightarrow> ('b, 'd) ChannelImpl option" where
  "wait_poll pb closure [] ch = None"
| "wait_poll pb closure (events # rest) ch =
     (let (ok, ch) = processChannel pb events ch in
      if ok \<and> \<not> closureDone closure ch then wait_poll pb closure rest ch else Some ch)"

text \<open>\<open>BlockingClosureSemaphore::wait\<close> returns once the closure has run; \<open>None\<close> is a caller that is blocked.\<close>

definition wait_semaphore :: "nat \<Rightarrow> ('b, 'd) ChannelImpl \<Rightarrow> unit option" where
  "wait_semaphore closure ch = (if closureDone closure ch then Some () else None)"

text \<open>The thread of \<open>RialtoControlIpc\<close> that pumps the channel: it ends when \<open>process\<close> returns false.\<close>

fun ipcThread :: "('b, 'w, 'd) Protobuf \<Rightarrow> 'd EpollEvents list \<Rightarrow> ('b, 'd) ChannelImpl \<Rightarrow> ('b, 'd) ChannelImpl" where
  "ipcThread pb [] ch = ch"
| "ipcThread pb (events # rest) ch =
     (let (ok, ch) = processChannel pb events ch in if ok then ipcThread pb rest ch else ch)"

end
