(* ===== verification/Ipc_Channel_Proofs.thy ===== *)
theory Ipc_Channel_Proofs
  imports Ipc_Channel
begin

text \<open>
  What the channel promises to its callers: no closure is run twice and none is forgotten while the channel lives.
  What it does not keep: a call that is not answered in time, or whose connection is lost, may never end.
\<close>

section \<open>Frame lemmas\<close>

lemma logEffects_frame [simp]:
  "ch_methodCalls (logEffects es ch) = ch_methodCalls ch" "ch_effects (logEffects es ch) = ch_effects ch @ es"
  "ch_serialCounter (logEffects es ch) = ch_serialCounter ch" "ch_sock (logEffects es ch) = ch_sock ch"
  "ch_timer (logEffects es ch) = ch_timer ch" "ch_sent (logEffects es ch) = ch_sent ch"
  "ch_eventHandlers (logEffects es ch) = ch_eventHandlers ch" "ch_defaultTimeout (logEffects es ch) = ch_defaultTimeout ch"
  by (simp_all add: logEffects_def)

definition runsOf :: "ChannelCall \<Rightarrow> 'b Effect list" where
  "runsOf call = (case mc_closure call of None \<Rightarrow> [] | Some closure \<Rightarrow> [ClosureRun closure])"

definition failuresOf :: "ChannelCall \<Rightarrow> string \<Rightarrow> 'b Effect list" where
  "failuresOf call reason = (case mc_controller call of None \<Rightarrow> [] | Some c \<Rightarrow> [SetMethodCallFailed c reason]) @ runsOf call"

lemma logEffects_Nil [simp]: "logEffects [] ch = ch"
  by (simp add: logEffects_def)

lemma logEffects_twice [simp]: "logEffects fs (logEffects es ch) = logEffects (es @ fs) ch"
  by (simp add: logEffects_def)

lemma completeCall_log: "completeCall call ch = logEffects (runsOf call) ch"
  by (simp add: completeCall_def runsOf_def split: option.splits)

lemma completeWithError_log: "completeWithError call reason ch = logEffects (failuresOf call reason) ch"
  by (simp add: completeWithError_def completeCall_log failuresOf_def split: option.splits)

lemma fold_completeWithError:
  "fold (\<lambda>entry. completeWithError (snd entry) reason) xs ch = logEffects (concat (map (\<lambda>x. failuresOf (snd x) reason) xs)) ch"
  by (induction xs arbitrary: ch) (simp_all add: completeWithError_log)

lemma updateTimeoutTimer_frame [simp]:
  "ch_methodCalls (updateTimeoutTimer now ch) = ch_methodCalls ch" "ch_effects (updateTimeoutTimer now ch) = ch_effects ch"
  "ch_serialCounter (updateTimeoutTimer now ch) = ch_serialCounter ch" "ch_sock (updateTimeoutTimer now ch) = ch_sock ch"
  "ch_sent (updateTimeoutTimer now ch) = ch_sent ch" "ch_eventHandlers (updateTimeoutTimer now ch) = ch_eventHandlers ch"
  by (simp_all add: updateTimeoutTimer_def split: option.splits)

lemmas completion_log = completeCall_log completeWithError_log fold_completeWithError

section \<open>No closure runs twice\<close>

text \<open>The steps of a channel's life.\<close>

datatype ('b, 'd) ChannelStep =
    CallStep MethodDescriptor "nat option" "'b PbMessage" nat "nat option" int int bool
  | ProcessStep "'d EpollEvents"
  | DisconnectStep
  | TermStep

fun channelStep :: "('b, 'w, 'd) Protobuf \<Rightarrow> ('b, 'd) ChannelStep \<Rightarrow> ('b, 'd) ChannelImpl \<Rightarrow> ('b, 'd) ChannelImpl" where
  "channelStep pb (CallStep method controller request response done now later sendOk) ch =
     CallMethod pb method controller request response done now later sendOk ch"
| "channelStep pb (ProcessStep events) ch = snd (processChannel pb events ch)"
| "channelStep pb DisconnectStep ch = disconnectChannel ch"
| "channelStep pb TermStep ch = termChannel ch"

fun callsWith :: "nat \<Rightarrow> ('b, 'd) ChannelStep list \<Rightarrow> nat" where
  "callsWith closure [] = 0"
| "callsWith closure (CallStep _ _ _ _ done _ _ _ # steps) = (if done = Some closure then 1 else 0) + callsWith closure steps"
| "callsWith closure (_ # steps) = callsWith closure steps"

fun isCall :: "('b, 'd) ChannelStep \<Rightarrow> bool" where
  "isCall (CallStep _ _ _ _ _ _ _ _) = True"
| "isCall _ = False"

definition runCount :: "nat \<Rightarrow> 'b Effect list \<Rightarrow> nat" where
  "runCount closure es = count_list es (ClosureRun closure)"

definition waitingFor :: "nat \<Rightarrow> (u64 \<times> ChannelCall) list \<Rightarrow> nat" where
  "waitingFor closure calls = length (filter (\<lambda>x. mc_closure (snd x) = Some closure) calls)"

lemma runCount_simps [simp]:
  "runCount c [] = 0" "runCount c (es @ fs) = runCount c es + runCount c fs"
  "runCount c (runsOf call) = (if mc_closure call = Some c then 1 else 0)"
  "runCount c (failuresOf call reason) = (if mc_closure call = Some c then 1 else 0)"
  "runCount c (ResponseParsed p m # es) = runCount c es"
  "runCount c (HandlerCalled h m # es) = runCount c es" "runCount c (map (\<lambda>h. HandlerCalled (f h) m) hs) = 0"
  "runCount c [ClosureRun d] = (if d = c then 1 else 0)"
  by (auto simp: runCount_def runsOf_def failuresOf_def split: option.splits) (induction hs; simp)

lemma runCount_failures:
  "runCount c (concat (map (\<lambda>x. failuresOf (snd x) reason) xs)) = waitingFor c xs"
  by (induction xs) (auto simp: waitingFor_def)

lemma waitingFor_filter: "waitingFor c (filter P xs) + waitingFor c (filter (\<lambda>x. \<not> P x) xs) = waitingFor c xs"
  by (induction xs) (auto simp: waitingFor_def)

lemma waitingFor_erase:
  assumes "std_map xs" and "map_of xs k = Some call"
  shows "waitingFor c (erase k xs) + (if mc_closure call = Some c then 1 else 0) = waitingFor c xs"
  using assms
proof (induction xs)
  case (Cons x xs)
  show ?case
  proof (cases "fst x = k")
    case True
    then have "erase k xs = xs" "call = snd x" using Cons.prems by (auto simp: std_map_def intro!: erase_absent)
    with True show ?thesis by (simp add: erase_def waitingFor_def)
  next
    case False
    with Cons have "waitingFor c (erase k xs) + (if mc_closure call = Some c then 1 else 0) = waitingFor c xs"
      by (cases x) (auto simp: std_map_def)
    with False show ?thesis by (auto simp: erase_def waitingFor_def)
  qed
qed simp

lemma waitingFor_emplace:
  "map_of xs k = None \<Longrightarrow> waitingFor c (emplace k call xs) = waitingFor c xs + (if mc_closure call = Some c then 1 else 0)"
proof -
  have "waitingFor c (insort_key fst (k, call) xs) = waitingFor c xs + (if mc_closure call = Some c then 1 else 0)"
    by (induction xs) (auto simp: waitingFor_def)
  then show "map_of xs k = None \<Longrightarrow> ?thesis" by (simp add: emplace_def)
qed

text \<open>
  What is kept: the serial numbers in the table are those of calls that were made, and the runs of a closure and the
  calls that wait for it add up to the calls that were made with it.
\<close>

definition channel_inv :: "nat \<Rightarrow> ('b, 'd) ChannelImpl \<Rightarrow> bool" where
  "channel_inv n ch \<longleftrightarrow> std_map (ch_methodCalls ch) \<and> ch_serialCounter ch = of_nat (n + 1) \<and>
     (\<forall>k \<in> fst ` set (ch_methodCalls ch). unat k \<le> n)"

definition owed :: "nat \<Rightarrow> ('b, 'd) ChannelImpl \<Rightarrow> nat" where
  "owed closure ch = runCount closure (ch_effects ch) + waitingFor closure (ch_methodCalls ch)"

lemma unat_of_nat_u64: "n < 2 ^ 64 \<Longrightarrow> unat (of_nat n :: u64) = n"
  by (simp add: unat_of_nat)

lemma serial_fresh:
  assumes "channel_inv n ch" and "n + 1 < 2 ^ 64"
  shows "map_of (ch_methodCalls ch) (ch_serialCounter ch) = None"
proof -
  have c: "ch_serialCounter ch = of_nat (n + 1)" and le: "\<forall>k \<in> fst ` set (ch_methodCalls ch). unat k \<le> n"
    using assms(1) by (auto simp: channel_inv_def)
  have "unat (of_nat (n + 1) :: u64) = n + 1" using assms(2) by (rule unat_of_nat_u64)
  then have "ch_serialCounter ch \<notin> fst ` set (ch_methodCalls ch)" using le c by force
  then show ?thesis by (simp add: map_of_eq_None_iff)
qed

lemma set_emplace: "map_of xs k = None \<Longrightarrow> set (emplace k v xs) = insert (k, v) (set xs)"
  by (simp add: emplace_def set_insort_key)

lemma CallMethod_owed:
  assumes "channel_inv n ch" and "n + 1 < 2 ^ 64"
  shows "channel_inv (Suc n) (CallMethod pb method controller request response done now later sendOk ch) \<and>
    owed c (CallMethod pb method controller request response done now later sendOk ch) =
      owed c ch + (if done = Some c then 1 else 0)"
proof -
  have key: "unat (of_nat (n + 1) :: u64) = n + 1" using assms(2) by (rule unat_of_nat_u64)
  have fresh: "map_of (ch_methodCalls ch) (of_nat (n + 1)) = None"
    using serial_fresh [OF assms] assms(1) by (simp add: channel_inv_def)
  have grow: "channel_inv (Suc n) (ch\<lparr>ch_serialCounter := ch_serialCounter ch + 1\<rparr>)"
    using assms(1) by (auto simp: channel_inv_def)
  show ?thesis
    using assms(1) grow fresh key
    by (auto simp: CallMethod_def Let_def completion_log owed_def channel_inv_def waitingFor_emplace std_map_emplace set_emplace
        split: option.splits)
qed

lemma keys_erase: "fst ` set (erase k xs) \<subseteq> fst ` set xs"
  by (auto simp: erase_def)

lemma channel_inv_filter:
  "channel_inv n ch \<Longrightarrow> channel_inv n (ch\<lparr>ch_methodCalls := filter P (ch_methodCalls ch)\<rparr>)"
  by (auto simp: channel_inv_def std_map_def sorted_filter distinct_map_filter)

lemma channel_inv_cong:
  "ch_methodCalls ch' = ch_methodCalls ch \<Longrightarrow> ch_serialCounter ch' = ch_serialCounter ch \<Longrightarrow> channel_inv n ch' = channel_inv n ch"
  by (simp add: channel_inv_def)

lemma channel_inv_erase:
  "channel_inv n ch \<Longrightarrow> channel_inv n (ch\<lparr>ch_methodCalls := erase k (ch_methodCalls ch)\<rparr>)"
  using channel_inv_filter [of n ch] by (simp add: erase_def)

lemma serverMessage_owed:
  assumes "channel_inv n ch"
  shows "channel_inv n (processServerMessage pb data fds now ch) \<and> owed c (processServerMessage pb data fds now ch) = owed c ch"
proof -
  have fin: "channel_inv n (logEffects es (updateTimeoutTimer now (ch\<lparr>ch_methodCalls := erase k (ch_methodCalls ch)\<rparr>))) \<and>
      owed c (logEffects es (updateTimeoutTimer now (ch\<lparr>ch_methodCalls := erase k (ch_methodCalls ch)\<rparr>))) = owed c ch"
    if "map_of (ch_methodCalls ch) k = Some call" "runCount c es = (if mc_closure call = Some c then 1 else 0)" for k call es
    using waitingFor_erase [OF _ that(1), of c] assms that(2) channel_inv_erase [OF assms, of k]
      channel_inv_cong [of "logEffects es (updateTimeoutTimer now (ch\<lparr>ch_methodCalls := erase k (ch_methodCalls ch)\<rparr>))"
        "ch\<lparr>ch_methodCalls := erase k (ch_methodCalls ch)\<rparr>" n]
    by (simp add: owed_def channel_inv_def [of n ch])
  have log: "channel_inv n (logEffects es ch) \<and> owed c (logEffects es ch) = owed c ch" if "runCount c es = 0" for es
    using assms that channel_inv_cong [of "logEffects es ch" ch n] by (simp add: owed_def)
  show ?thesis
  proof (cases "ParseFromServer pb data")
    case (Some m)
    then show ?thesis using assms
    proof (cases m)
      case (FromReply k reply)
      with Some show ?thesis using assms fin [of k]
        by (auto simp: processServerMessage_def processReplyFromServer_def completion_log Let_def split: option.splits)
    next
      case (FromError k reason)
      with Some show ?thesis using assms fin [of k]
        by (auto simp: processServerMessage_def processErrorFromServer_def completion_log Let_def split: option.splits)
    next
      case (FromEvent e w)
      with Some show ?thesis using assms log
        by (auto simp: processServerMessage_def processEventFromServer_def Let_def comp_def split: option.splits list.splits)
    qed (simp add: processServerMessage_def)
  qed (use assms in \<open>simp add: processServerMessage_def\<close>)
qed

lemma owed_sock [simp]: "owed c (ch\<lparr>ch_sock := b\<rparr>) = owed c ch" "channel_inv n (ch\<lparr>ch_sock := b\<rparr>) = channel_inv n ch"
  by (simp_all add: owed_def channel_inv_def)

lemma socketEvent_owed:
  "channel_inv n ch \<Longrightarrow> channel_inv n (snd (processSocketEvent pb rs ch)) \<and> owed c (snd (processSocketEvent pb rs ch)) = owed c ch"
proof (induction rs arbitrary: ch)
  case (Cons r rs)
  then show ?case using serverMessage_owed [OF Cons.prems, of pb _ _ _ c]
    by (cases r) (auto simp: disconnectNoLock_def Let_def)
qed simp

lemma timeoutEvent_fields:
  "ch_methodCalls (processTimeoutEvent now later ch) = filter (\<lambda>x. \<not> now \<ge> mc_timeoutDeadline (snd x)) (ch_methodCalls ch)"
  "ch_effects (processTimeoutEvent now later ch) = ch_effects ch @
     concat (map (\<lambda>x. failuresOf (snd x) ''Timed out'') (filter (\<lambda>x. now \<ge> mc_timeoutDeadline (snd x)) (ch_methodCalls ch)))"
  "ch_serialCounter (processTimeoutEvent now later ch) = ch_serialCounter ch"
  "ch_sock (processTimeoutEvent now later ch) = ch_sock ch" "ch_sent (processTimeoutEvent now later ch) = ch_sent ch"
  by (simp_all add: processTimeoutEvent_def Let_def completion_log)

lemma timeoutEvent_owed:
  assumes "channel_inv n ch"
  shows "channel_inv n (processTimeoutEvent now later ch) \<and> owed c (processTimeoutEvent now later ch) = owed c ch"
proof -
  let ?P = "\<lambda>entry. now \<ge> mc_timeoutDeadline (snd entry)"
  have "channel_inv n (processTimeoutEvent now later ch) =
      channel_inv n (ch\<lparr>ch_methodCalls := filter (\<lambda>x. \<not> ?P x) (ch_methodCalls ch)\<rparr>)"
    by (rule channel_inv_cong) (simp_all add: timeoutEvent_fields)
  then show ?thesis using channel_inv_filter [OF assms, of "\<lambda>x. \<not> ?P x"] waitingFor_filter [of c ?P "ch_methodCalls ch"]
    by (simp add: timeoutEvent_fields owed_def runCount_failures)
qed

lemma wakeEvent_owed [simp]:
  "channel_inv n (processWakeEvent ch) = channel_inv n ch" "owed c (processWakeEvent ch) = owed c ch"
  by (simp_all add: processWakeEvent_def channel_inv_def owed_def)

lemma processChannel_owed:
  assumes "channel_inv n ch"
  shows "channel_inv n (snd (processChannel pb events ch)) \<and> owed c (snd (processChannel pb events ch)) = owed c ch"
proof -
  obtain ok ch1 where sock: "(case ep_socket events of None \<Rightarrow> (True, ch) | Some rs \<Rightarrow> processSocketEvent pb rs ch) = (ok, ch1)"
    by fastforce
  then have one: "channel_inv n ch1" "owed c ch1 = owed c ch"
    using assms socketEvent_owed [OF assms, of pb _ c] by (auto split: option.splits) (metis prod.sel(2))+
  show ?thesis
    using assms sock one timeoutEvent_owed [OF one(1), of _ _ c]
    by (cases "ep_timeout events") (auto simp: processChannel_def Let_def split: prod.splits)
qed

lemma termChannel_owed:
  assumes "channel_inv n ch"
  shows "channel_inv n (termChannel ch) \<and> owed c (termChannel ch) = owed c ch \<and> ch_methodCalls (termChannel ch) = []"
  using assms by (auto simp: termChannel_def Let_def disconnectNoLock_def completion_log owed_def channel_inv_def
      runCount_failures waitingFor_def)

lemma steps_owed:
  "channel_inv n ch \<Longrightarrow> n + length (filter isCall steps) < 2 ^ 64 \<Longrightarrow>
    channel_inv (n + length (filter isCall steps)) (fold (channelStep pb) steps ch) \<and>
    owed c (fold (channelStep pb) steps ch) = owed c ch + callsWith c steps"
proof (induction steps arbitrary: n ch)
  case (Cons s steps)
  show ?case
  proof (cases s)
    case (CallStep mth controller request response closure now later sendOk)
    note one = CallMethod_owed [OF Cons.prems(1), of pb mth controller request response closure now later sendOk c]
    show ?thesis using Cons.IH [of "Suc n" "channelStep pb s ch"] one Cons.prems(2) CallStep by simp
  next
    case (ProcessStep events)
    then show ?thesis
      using Cons.IH [of n "channelStep pb s ch"] Cons.prems(2) processChannel_owed [OF Cons.prems(1), of pb events c] by simp
  next
    case DisconnectStep
    moreover have "channel_inv n (disconnectChannel ch) \<and> owed c (disconnectChannel ch) = owed c ch"
      using Cons.prems(1) by (simp add: disconnectChannel_def disconnectNoLock_def channel_inv_def owed_def Let_def)
    ultimately show ?thesis using Cons.IH [of n "channelStep pb s ch"] Cons.prems(2) by simp
  next
    case TermStep
    then show ?thesis
      using Cons.IH [of n "channelStep pb s ch"] Cons.prems(2) termChannel_owed [OF Cons.prems(1), of c] by simp
  qed
qed simp

lemma channel_inv_initial: "channel_inv 0 (initialChannel\<lparr>ch_sock := b, ch_epollFd := e, ch_timerFd := t, ch_eventFd := v\<rparr>)"
  by (simp add: channel_inv_def initialChannel_def)

text \<open>C29. Over the whole life of a channel - calls, replies, errors, timeouts, malformed and repeated messages of the
  server, loss of the connection and destruction, in any order - the closure of every call is run exactly once or the
  call still waits in the table: for each closure, its runs and the calls waiting for it add up to the calls made with
  it. Serial numbers have 64 bits.
\<close>

theorem calls_complete_once:
  assumes "length (filter isCall steps) < 2 ^ 64"
  shows "runCount closure (ch_effects (fold (channelStep pb) steps (initialChannel\<lparr>ch_sock := True\<rparr>))) +
     waitingFor closure (ch_methodCalls (fold (channelStep pb) steps (initialChannel\<lparr>ch_sock := True\<rparr>))) =
     callsWith closure steps"
proof -
  have "channel_inv 0 (initialChannel\<lparr>ch_sock := True\<rparr>)" by (simp add: channel_inv_def initialChannel_def)
  from steps_owed [OF this, of steps pb closure] assms show ?thesis
    by (simp add: owed_def initialChannel_def waitingFor_def)
qed

theorem calls_complete_once_witness:
  "runCount 7 (ch_effects (fold (channelStep directPb)
       [CallStep sampleMethod None (sampleMessage ''Req'' 5) 0 (Some 7) 0 0 True, TermStep] (initialChannel\<lparr>ch_sock := True\<rparr>))) +
     waitingFor 7 (ch_methodCalls (fold (channelStep directPb)
       [CallStep sampleMethod None (sampleMessage ''Req'' 5) 0 (Some 7) 0 0 True, TermStep] (initialChannel\<lparr>ch_sock := True\<rparr>))) = 1"
  using calls_complete_once [of "[CallStep sampleMethod None (sampleMessage ''Req'' 5) 0 (Some 7) 0 0 True, TermStep]" 7 directPb]
  by simp

text \<open>
  While the channel lives its table never holds two calls with one serial number, and a destroyed channel holds none:
  every call has been completed, the outstanding ones with an error.
\<close>

lemma term_completes_all:
  assumes "channel_inv n ch"
  shows "runCount c (ch_effects (termChannel ch)) = runCount c (ch_effects ch) + waitingFor c (ch_methodCalls ch)"
  using termChannel_owed [OF assms, of c] by (auto simp: owed_def waitingFor_def)

section \<open>The timeout\<close>

text \<open>A timer event completes exactly the calls whose deadline has passed, and leaves the others in the table.\<close>

lemma timeout_exact:
  "set (ch_methodCalls (processTimeoutEvent now later ch)) = {x \<in> set (ch_methodCalls ch). now < mc_timeoutDeadline (snd x)}"
  by (auto simp: timeoutEvent_fields)

lemma lone_timer:
  assumes "ch_methodCalls ch = [(k, call)]" and "2000000 < d" and "d < 3000000"
    and "d = (mc_timeoutDeadline call - now) div 1000"
  shows "ch_timer (updateTimeoutTimer now ch) = Some (now + 2000000000 + (d mod 1000) * 1000)"
proof -
  have "0 \<le> mc_timeoutDeadline call - now" using assms(2,4) by linarith
  then have "toMicroseconds (mc_timeoutDeadline call - now) = d" using assms(4) by (simp add: toMicroseconds_def)
  moreover have "d div 1000000 = 2" using assms(2,3) by linarith
  ultimately show ?thesis using assms(1,2) by (simp add: updateTimeoutTimer_def timeoutSpec_def settime_def)
qed

text \<open>C30. A call that the server does not answer does not time out after the three seconds. As soon as a microsecond
  passes between the two readings of the clock in \<open>CallMethod\<close>, the timer of a lone call is set to little more
  than two seconds, because the fraction of the second is reduced to that of a millisecond; when it expires no deadline
  has passed, nothing is completed and the timer is not set again. The call stays in the table with no timer running.
\<close>

theorem lone_call_never_times_out:
  assumes "ch_sock ch" and "ch_methodCalls ch = []" and "ch_defaultTimeout ch = 3000" and "\<not> noReplyExpected method"
    and "ByteSizeLong pb (SerializeToServer pb (ToCall \<lparr>tc_serialId = ch_serialCounter ch, tc_serviceName = md_service method,
      tc_methodName = md_name method, tc_requestMessage = SerializeAsString pb request\<rparr>)) \<le> 128 * 1024"
    and "now + 1000 \<le> later" and "later < now + 900000000"
    and "ch' = CallMethod pb method controller request response closure now later True ch"
  shows "\<exists>t call. ch_timer ch' = Some t \<and> t < now + 2901000000 \<and> ch_methodCalls ch' = [(ch_serialCounter ch, call)] \<and>
    (\<forall>expired l. t \<le> expired \<longrightarrow> expired < now + 3000000000 \<longrightarrow>
       ch_methodCalls (processTimeoutEvent expired l ch') = [(ch_serialCounter ch, call)] \<and>
       ch_effects (processTimeoutEvent expired l ch') = ch_effects ch \<and>
       ch_timer (processTimeoutEvent expired l ch') = None)"
proof -
  define call where "call = \<lparr>mc_timeoutDeadline = now + 3000000000, mc_controller = controller, mc_response = response,
    mc_responseType = md_output method, mc_closure = closure\<rparr>"
  define d where "d = (mc_timeoutDeadline call - later) div 1000"
  have d: "2000000 < d" "d < 3000000" "d * 1000 \<le> now + 3000000000 - later" using assms(6,7) by (auto simp: d_def call_def)
  have calls: "ch_methodCalls ch' = [(ch_serialCounter ch, call)]" "ch_effects ch' = ch_effects ch"
    using assms by (simp_all add: CallMethod_def Let_def m_kMaxMessageSize_def emplace_def call_def)
  have "ch' = updateTimeoutTimer later ch'"
    using assms by (simp add: CallMethod_def Let_def m_kMaxMessageSize_def updateTimeoutTimer_def split: option.splits)
  then have "ch_timer ch' = Some (later + 2000000000 + (d mod 1000) * 1000)"
    using lone_timer [OF calls(1) d(1,2) d_def] by simp
  moreover have "d mod 1000 < 1000" by simp
  then have "later + 2000000000 + (d mod 1000) * 1000 < now + 2901000000" using assms(7) by linarith
  moreover have "ch_timer (processTimeoutEvent expired l ch') = None" if "expired < now + 3000000000" for expired l
    using that calls(1) by (simp add: processTimeoutEvent_def Let_def completion_log call_def)
  ultimately show ?thesis using calls by (auto simp: timeoutEvent_fields call_def)
qed

theorem lone_call_never_times_out_witness:
  "\<exists>t call. ch_timer (CallMethod directPb sampleMethod None (sampleMessage ''Req'' 5) 0 (Some 7) 0 1000 True
      (initialChannel\<lparr>ch_sock := True\<rparr>)) = Some t \<and> t < 2901000000 \<and>
    ch_methodCalls (processTimeoutEvent 2950000000 2950000000 (CallMethod directPb sampleMethod None (sampleMessage ''Req'' 5) 0 (Some 7) 0 1000 True
      (initialChannel\<lparr>ch_sock := True\<rparr>))) = [(1, call)]"
proof -
  have "\<not> noReplyExpected sampleMethod" by (simp add: noReplyExpected_def sampleMethod_def)
  from lone_call_never_times_out [OF _ _ _ this, of "initialChannel\<lparr>ch_sock := True\<rparr>" directPb "sampleMessage ''Req'' 5" 0 1000
      _ None 0 "Some 7", OF _ _ _ _ _ _ refl]
  show ?thesis by (auto simp: initialChannel_def directPb_def)
qed

section \<open>Loss of the connection\<close>

lemma disconnected_process: "\<not> ch_sock ch \<Longrightarrow> processChannel pb events ch = (False, ch)"
  by (simp add: processChannel_def isConnected_channel_def)

lemma disconnected_thread: "\<not> ch_sock ch \<Longrightarrow> ipcThread pb rounds ch = ch"
  by (cases rounds) (simp_all add: disconnected_process)

text \<open>C31. When the server closes the connection, the calls that wait for a reply are not completed: the thread that
  pumps the channel ends, and a caller that waits on the semaphore is blocked until the channel is destroyed, whatever
  happens on the channel; a caller that waits by polling returns with a controller that has not failed, as if its
  response had arrived.
\<close>

theorem lost_connection_is_not_reported:
  assumes "ch_sock ch" and "(k, call) \<in> set (ch_methodCalls ch)" and "\<not> closureDone closure ch"
    and "ep_socket events = Some [RecvClosed]" and "\<not> ep_failed events"
    and "\<not> cc_failed (controllerAfter c (ch_effects ch) newClientController)"
  shows "wait_semaphore closure (ipcThread pb (events # rounds) ch) = None \<and>
    (k, call) \<in> set (ch_methodCalls (ipcThread pb (events # rounds) ch)) \<and>
    (\<exists>ch'. wait_poll pb closure (events # rounds) ch = Some ch' \<and> \<not> closureDone closure ch' \<and>
       \<not> cc_failed (controllerAfter c (ch_effects ch') newClientController))"
  using assms by (simp add: processChannel_def isConnected_channel_def disconnectNoLock_def wait_semaphore_def closureDone_def)

theorem lost_connection_is_not_reported_witness:
  "wait_semaphore 7 (ipcThread directPb [\<lparr>ep_failed = False, ep_socket = Some [RecvClosed], ep_timeout = None, ep_wake = False\<rparr>]
     (initialChannel\<lparr>ch_sock := True, ch_methodCalls := [(1, \<lparr>mc_timeoutDeadline = 3, mc_controller = Some 4, mc_response = 0,
       mc_responseType = ''Resp'', mc_closure = Some 7\<rparr>)]\<rparr>)) = None"
  using lost_connection_is_not_reported [of "initialChannel\<lparr>ch_sock := True, ch_methodCalls := [(1, \<lparr>mc_timeoutDeadline = 3,
       mc_controller = Some 4, mc_response = 0, mc_responseType = ''Resp'', mc_closure = Some 7\<rparr>)]\<rparr>" 1
     "\<lparr>mc_timeoutDeadline = 3, mc_controller = Some 4, mc_response = 0, mc_responseType = ''Resp'', mc_closure = Some 7\<rparr>" 7
     "\<lparr>ep_failed = False, ep_socket = Some [RecvClosed], ep_timeout = None, ep_wake = False\<rparr>" 4 directPb "[]"]
  by (simp add: initialChannel_def closureDone_def newClientController_def)

end
