(* ===== verification/Ipc_Server.thy ===== *)
theory Ipc_Server
  imports Ipc_Transport Std_Map
begin

text \<open>
  The server end of the transport (\<open>ipc/server/source/IpcServerImpl.cpp\<close>, \<open>IpcClientImpl.cpp\<close>,
  \<open>IpcServerControllerImpl.cpp\<close>): listening sockets with their lock files, the connected clients with the services
  exported to each, method calls handed to the services and replies sent when the services complete them, events, and
  clients condemned to be closed by the next pass of the event loop. Callbacks and services are named by numbers and
  strings; what the system calls answer is an argument of the operations.
\<close>

section \<open>Listening sockets\<close>

text \<open>The files of the listening sockets: which exist, which are writable, and which lock files are locked.\<close>

record FileSystem =
  fs_sockets :: "string set"
  fs_writable :: "string \<Rightarrow> bool"
  fs_lockFiles :: "string set"
  fs_locked :: "string set"

record ServerSocket =
  so_sockFd :: bool
  so_lockFd :: bool
  so_sockPath :: string
  so_lockPath :: string
  so_connectedCb :: "nat option"
  so_disconnectedCb :: "nat option"

text \<open>
  \<open>openOk\<close> and \<open>statOk\<close>: the lock file can be opened; \<open>stat\<close> of an absent socket reports \<open>ENOENT\<close>. The
  lock is one of the open file, so that it excludes other servers in this process as well.
\<close>

definition getSocketLock :: "bool \<Rightarrow> bool \<Rightarrow> ServerSocket \<Rightarrow> FileSystem \<Rightarrow> bool \<times> ServerSocket \<times> FileSystem" where
  "getSocketLock openOk statOk socket fs =
     (let lockPath = so_sockPath socket @ ''.lock'' in
      if \<not> openOk then (False, socket, fs)
      else let fs = fs\<lparr>fs_lockFiles := insert lockPath (fs_lockFiles fs)\<rparr> in
      if lockPath \<in> fs_locked fs then (False, socket, fs)
      else if so_sockPath socket \<notin> fs_sockets fs \<and> \<not> statOk then (False, socket, fs)
      else
        let fs = (if so_sockPath socket \<in> fs_sockets fs \<and> fs_writable fs (so_sockPath socket)
                  then fs\<lparr>fs_sockets := fs_sockets fs - {so_sockPath socket}\<rparr> else fs);
            fs = fs\<lparr>fs_locked := insert lockPath (fs_locked fs)\<rparr>
        in (True, socket\<lparr>so_lockFd := True, so_lockPath := lockPath\<rparr>, fs))"

definition closeListeningSocket :: "ServerSocket \<Rightarrow> FileSystem \<Rightarrow> ServerSocket \<times> FileSystem" where
  "closeListeningSocket socket fs =
     (let fs = (if so_sockPath socket \<noteq> [] then fs\<lparr>fs_sockets := fs_sockets fs - {so_sockPath socket}\<rparr> else fs);
          fs = (if so_lockPath socket \<noteq> [] then fs\<lparr>fs_lockFiles := fs_lockFiles fs - {so_lockPath socket}\<rparr> else fs);
          fs = (if so_lockFd socket then fs\<lparr>fs_locked := fs_locked fs - {so_lockPath socket}\<rparr> else fs)
      in (socket\<lparr>so_sockFd := False, so_sockPath := [], so_lockFd := False, so_lockPath := []\<rparr>, fs))"

section \<open>State\<close>

text \<open>A service exported to a client: its full name, the methods its descriptor lists, and the object.\<close>

record ExportedService =
  se_fullName :: string
  se_methods :: "MethodDescriptor list"
  se_object :: nat

record ClientImpl =
  cl_clientId :: u64
  cl_pid :: int
  cl_uid :: int
  cl_gid :: int
  cl_services :: "(string \<times> ExportedService) list"

record ClientDetails =
  cd_sock :: bool
  cd_client :: ClientImpl
  cd_disconnectedCb :: "nat option"

text \<open>A call as it is handed to a service: the controller holds the client and the serial number.\<close>

record 'b ServerCall =
  sc_client :: u64
  sc_serialId :: u64
  sc_service :: nat
  sc_method :: MethodDescriptor
  sc_request :: "'b PbMessage"
  sc_noReply :: bool

datatype 'w MonitorEvent =
    MonConnected string u64
  | MonDisconnected u64
  | MonCall u64 "'w TransportCall" bool
  | MonReply u64 u64 'w
  | MonError u64 u64 string
  | MonEvent u64 string 'w
  | MonSocketAdded int

datatype ServerCallback = ClientConnected nat u64 | ClientDisconnected nat u64

record ('b, 'w, 'd) ServerImpl =
  sv_pollFd :: bool
  sv_wakeEventFd :: bool
  sv_monitor :: bool
  sv_socketIdCounter :: u64
  sv_clientIdCounter :: u64
  sv_sockets :: "(u64 \<times> ServerSocket) list"
  sv_clients :: "(u64 \<times> ClientDetails) list"
  sv_condemnedClients :: "u64 list"
  sv_wakeEvents :: nat
  sv_handed :: "'b ServerCall list"
  sv_sent :: "u64 \<Rightarrow> 'd Datagram list"
  sv_callbacks :: "ServerCallback list"
  sv_monitored :: "'w MonitorEvent list"

definition FIRST_LISTENING_SOCKET_ID :: u64 where "FIRST_LISTENING_SOCKET_ID = 1"
definition FIRST_CLIENT_ID :: u64 where "FIRST_CLIENT_ID = 10000"
definition m_kMaxMessageLen :: nat where "m_kMaxMessageLen = 128 * 1024"

definition newServer :: "bool \<Rightarrow> bool \<Rightarrow> bool \<Rightarrow> ('b, 'w, 'd) ServerImpl" where
  "newServer allowMonitoring eventFdOk epollOk =
     \<lparr>sv_pollFd = eventFdOk \<and> epollOk, sv_wakeEventFd = eventFdOk, sv_monitor = allowMonitoring,
      sv_socketIdCounter = FIRST_LISTENING_SOCKET_ID, sv_clientIdCounter = FIRST_CLIENT_ID, sv_sockets = [], sv_clients = [],
      sv_condemnedClients = [], sv_wakeEvents = 0, sv_handed = [], sv_sent = (\<lambda>_. []), sv_callbacks = [], sv_monitored = []\<rparr>"

definition monitor :: "'w MonitorEvent \<Rightarrow> ('b, 'w, 'd) ServerImpl \<Rightarrow> ('b, 'w, 'd) ServerImpl" where
  "monitor e s = (if sv_monitor s then s\<lparr>sv_monitored := sv_monitored s @ [e]\<rparr> else s)"

text \<open>The destructor: every listening socket is unlinked and closed with its lock.\<close>

definition destroyServer :: "('b, 'w, 'd) ServerImpl \<Rightarrow> FileSystem \<Rightarrow> FileSystem" where
  "destroyServer s fs =
     fold (\<lambda>entry fs. fs\<lparr>fs_sockets := fs_sockets fs - {so_sockPath (snd entry)},
                         fs_lockFiles := fs_lockFiles fs - {so_lockPath (snd entry)},
                         fs_locked := fs_locked fs - {so_lockPath (snd entry)}\<rparr>) (sv_sockets s) fs"

section \<open>Adding sockets and clients\<close>

record AddSocketCalls =
  as_socket :: bool
  as_open :: bool
  as_stat :: bool
  as_bind :: bool
  as_listen :: bool
  as_epoll :: bool

text \<open>\<open>bind\<close> creates the file, and fails if there is one.\<close>

definition addSocket :: "AddSocketCalls \<Rightarrow> string \<Rightarrow> nat option \<Rightarrow> nat option \<Rightarrow> ('b, 'w, 'd) ServerImpl \<Rightarrow> FileSystem \<Rightarrow>
    bool \<times> ('b, 'w, 'd) ServerImpl \<times> FileSystem" where
  "addSocket c socketPath clientConnectedCb clientDisconnectedCb s fs =
     (let socket = \<lparr>so_sockFd = False, so_lockFd = False, so_sockPath = socketPath, so_lockPath = [],
            so_connectedCb = None, so_disconnectedCb = None\<rparr> in
      if \<not> as_socket c then (False, s, fs)
      else let socket = socket\<lparr>so_sockFd := True\<rparr>;
               (locked, socket, fs) = getSocketLock (as_open c) (as_stat c) socket fs in
      if \<not> locked then (False, s, snd (closeListeningSocket socket fs))
      else if \<not> as_bind c \<or> socketPath \<in> fs_sockets fs then (False, s, snd (closeListeningSocket socket fs))
      else let fs = fs\<lparr>fs_sockets := insert socketPath (fs_sockets fs)\<rparr> in
      if \<not> as_listen c then (False, s, snd (closeListeningSocket socket fs))
      else let socketId = sv_socketIdCounter s;
               s = s\<lparr>sv_socketIdCounter := socketId + 1\<rparr> in
      if socketId \<ge> FIRST_CLIENT_ID then (False, s, snd (closeListeningSocket socket fs))
      else if \<not> as_epoll c then (False, s, snd (closeListeningSocket socket fs))
      else let socket = socket\<lparr>so_connectedCb := clientConnectedCb, so_disconnectedCb := clientDisconnectedCb\<rparr> in
        (True, s\<lparr>sv_sockets := emplace socketId socket (sv_sockets s)\<rparr>, fs))"

record AddClientCalls =
  ac_peerCred :: "(int \<times> int \<times> int) option"
  ac_epoll :: bool

definition addClientSocket :: "AddClientCalls \<Rightarrow> string \<Rightarrow> nat option \<Rightarrow> ('b, 'w, 'd) ServerImpl \<Rightarrow>
    ClientImpl option \<times> ('b, 'w, 'd) ServerImpl" where
  "addClientSocket c listeningSocketPath disconnectedCb s =
     (case ac_peerCred c of
        None \<Rightarrow> (None, s)
      | Some (pid, uid, gid) \<Rightarrow>
          let clientId = sv_clientIdCounter s;
              s = s\<lparr>sv_clientIdCounter := clientId + 1\<rparr> in
          if \<not> ac_epoll c then (None, s)
          else let client = \<lparr>cl_clientId = clientId, cl_pid = pid, cl_uid = uid, cl_gid = gid, cl_services = []\<rparr>;
                   details = \<lparr>cd_sock = True, cd_client = client, cd_disconnectedCb = disconnectedCb\<rparr>;
                   s = s\<lparr>sv_clients := emplace clientId details (sv_clients s)\<rparr>
               in (Some client, monitor (MonConnected listeningSocketPath clientId) s))"

text \<open>The checks of a socket handed in, then the duplication and its flags.\<close>

record GivenSocket =
  gs_hasName :: bool
  gs_isUnix :: bool
  gs_hasType :: bool
  gs_isSeqpacket :: bool
  gs_dupOk :: bool
  gs_nonBlockOk :: bool

definition addClient :: "GivenSocket \<Rightarrow> AddClientCalls \<Rightarrow> nat option \<Rightarrow> ('b, 'w, 'd) ServerImpl \<Rightarrow>
    ClientImpl option \<times> ('b, 'w, 'd) ServerImpl" where
  "addClient g c clientDisconnectedCb s =
     (if \<not> gs_hasName g then (None, s)
      else if \<not> gs_isUnix g then (None, s)
      else if \<not> gs_hasType g then (None, s)
      else if \<not> gs_isSeqpacket g then (None, s)
      else if \<not> gs_dupOk g then (None, s)
      else if \<not> gs_nonBlockOk g then (None, s)
      else addClientSocket c [] clientDisconnectedCb s)"

definition processNewConnection :: "bool \<Rightarrow> AddClientCalls \<Rightarrow> u64 \<Rightarrow> ('b, 'w, 'd) ServerImpl \<Rightarrow> ('b, 'w, 'd) ServerImpl" where
  "processNewConnection acceptOk c socketId s =
     (case map_of (sv_sockets s) socketId of
        None \<Rightarrow> s
      | Some socket \<Rightarrow>
          if \<not> acceptOk then s
          else case addClientSocket c (so_sockPath socket) (so_disconnectedCb socket) s of
            (None, s) \<Rightarrow> s
          | (Some client, s) \<Rightarrow>
              (case so_connectedCb socket of
                 None \<Rightarrow> s
               | Some cb \<Rightarrow> s\<lparr>sv_callbacks := sv_callbacks s @ [ClientConnected cb (cl_clientId client)]\<rparr>))"

section \<open>Clients\<close>

definition wakeEventLoop :: "('b, 'w, 'd) ServerImpl \<Rightarrow> ('b, 'w, 'd) ServerImpl" where
  "wakeEventLoop s = (if \<not> sv_wakeEventFd s then s else s\<lparr>sv_wakeEvents := sv_wakeEvents s + 1\<rparr>)"

definition disconnectClient :: "u64 \<Rightarrow> ('b, 'w, 'd) ServerImpl \<Rightarrow> ('b, 'w, 'd) ServerImpl" where
  "disconnectClient clientId s = wakeEventLoop (s\<lparr>sv_condemnedClients := insort_insert clientId (sv_condemnedClients s)\<rparr>)"

definition isClientConnected :: "u64 \<Rightarrow> ('b, 'w, 'd) ServerImpl \<Rightarrow> bool" where
  "isClientConnected clientId s \<longleftrightarrow> map_of (sv_clients s) clientId \<noteq> None"

text \<open>\<open>emplace\<close> keeps a service that is exported already under the name; the order of the map is never seen.\<close>

definition addService :: "string \<Rightarrow> ExportedService \<Rightarrow> (string \<times> ExportedService) list \<Rightarrow> (string \<times> ExportedService) list" where
  "addService name service services = (if map_of services name = None then (name, service) # services else services)"

definition exportService :: "u64 \<Rightarrow> ExportedService \<Rightarrow> ('b, 'w, 'd) ServerImpl \<Rightarrow> ('b, 'w, 'd) ServerImpl" where
  "exportService clientId service s =
     (case map_of (sv_clients s) clientId of
        None \<Rightarrow> s
      | Some d \<Rightarrow> s\<lparr>sv_clients := assign clientId (d\<lparr>cd_client := (cd_client d)\<lparr>cl_services :=
          addService (se_fullName service) service (cl_services (cd_client d))\<rparr>\<rparr>) (sv_clients s)\<rparr>)"

section \<open>Sending\<close>

definition pushSent :: "u64 \<Rightarrow> 'd Datagram \<Rightarrow> ('b, 'w, 'd) ServerImpl \<Rightarrow> ('b, 'w, 'd) ServerImpl" where
  "pushSent clientId msg s = s\<lparr>sv_sent := (sv_sent s)(clientId := sv_sent s clientId @ [msg])\<rparr>"

definition sendReply :: "bool \<Rightarrow> u64 \<Rightarrow> 'd Datagram option \<Rightarrow> ('b, 'w, 'd) ServerImpl \<Rightarrow> ('b, 'w, 'd) ServerImpl" where
  "sendReply sendOk clientId msg s =
     (case map_of (sv_clients s) clientId of
        None \<Rightarrow> s
      | Some details \<Rightarrow>
          if \<not> cd_sock details then s
          else case msg of
            None \<Rightarrow> s
          | Some m \<Rightarrow> if \<not> sendOk then s else pushSent clientId m s)"

definition populateErrorReply :: "('b, 'w, 'd) Protobuf \<Rightarrow> u64 \<Rightarrow> u64 \<Rightarrow> string \<Rightarrow> ('b, 'w, 'd) ServerImpl \<Rightarrow>
    'd Datagram option \<times> ('b, 'w, 'd) ServerImpl" where
  "populateErrorReply pb clientId serialId reason s =
     (let error_reason = (if ByteSizeLong pb (SerializeFromServer pb (FromError serialId reason)) > m_kMaxMessageLen
            then ''Error message truncated'' else reason);
          s = monitor (MonError clientId serialId error_reason) s
      in (Some \<lparr>dg_data = SerializeFromServer pb (FromError serialId error_reason), dg_control = [], dg_truncated = False\<rparr>, s))"

text \<open>The response is encoded before its descriptors are taken out and replaced by -1.\<close>

definition populateReply :: "('b, 'w, 'd) Protobuf \<Rightarrow> u64 \<Rightarrow> u64 \<Rightarrow> 'b PbMessage \<Rightarrow> ('b, 'w, 'd) ServerImpl \<Rightarrow>
    'd Datagram option \<times> ('b, 'w, 'd) ServerImpl" where
  "populateReply pb clientId serialId response s =
     (let respString = SerializeAsString pb response;
          message = SerializeFromServer pb (FromReply serialId respString);
          (fds, _) = getResponseFileDescriptors response
      in if ByteSizeLong pb message > m_kMaxMessageLen then
           populateErrorReply pb clientId serialId ''Internal error - reply message to large'' s
         else let s = monitor (MonReply clientId serialId respString) s in
           (Some \<lparr>dg_data = message, dg_control = rightsOf fds, dg_truncated = False\<rparr>, s))"

text \<open>\<open>vsnprintf\<close> into 512 bytes keeps 511 characters.\<close>

definition sendErrorReply :: "('b, 'w, 'd) Protobuf \<Rightarrow> bool \<Rightarrow> u64 \<Rightarrow> u64 \<Rightarrow> string \<Rightarrow> ('b, 'w, 'd) ServerImpl \<Rightarrow>
    ('b, 'w, 'd) ServerImpl" where
  "sendErrorReply pb sendOk clientId serialId text s =
     (let reason = take 511 text;
          (msg, s) = populateErrorReply pb clientId serialId reason s
      in sendReply sendOk clientId msg s)"

text \<open>
  The controller of a call and what the service does to it (\<open>IpcServerControllerImpl.cpp\<close>).
\<close>

record ServerControllerImpl =
  ct_clientId :: u64
  ct_serialId :: u64
  ct_failed :: bool
  ct_failureReason :: string

definition newServerController :: "u64 \<Rightarrow> u64 \<Rightarrow> ServerControllerImpl" where
  "newServerController clientId serialId =
     \<lparr>ct_clientId = clientId, ct_serialId = serialId, ct_failed = False, ct_failureReason = []\<rparr>"

definition SetFailed :: "string \<Rightarrow> ServerControllerImpl \<Rightarrow> ServerControllerImpl" where
  "SetFailed reason c = c\<lparr>ct_failed := True, ct_failureReason := reason\<rparr>"

definition handleResponse :: "('b, 'w, 'd) Protobuf \<Rightarrow> bool \<Rightarrow> ServerControllerImpl \<Rightarrow> 'b PbMessage \<Rightarrow> ('b, 'w, 'd) ServerImpl \<Rightarrow>
    ('b, 'w, 'd) ServerImpl" where
  "handleResponse pb sendOk controller response s =
     (let clientId = ct_clientId controller;
          (message, s) =
            (if \<not> ct_failed controller then populateReply pb clientId (ct_serialId controller) response s
             else populateErrorReply pb clientId (ct_serialId controller) (ct_failureReason controller) s)
      in sendReply sendOk clientId message s)"

text \<open>
  \<open>None\<close> is the dereference of the end iterator when the client is not in the map. Here the descriptors are taken
  out before the event is encoded.
\<close>

definition sendEvent_server :: "('b, 'w, 'd) Protobuf \<Rightarrow> bool \<Rightarrow> u64 \<Rightarrow> 'b PbMessage \<Rightarrow> ('b, 'w, 'd) ServerImpl \<Rightarrow>
    (bool \<times> ('b, 'w, 'd) ServerImpl) option" where
  "sendEvent_server pb sendOk clientId eventMessage s =
     (let (fds, eventMessage) = getResponseFileDescriptors eventMessage;
          respString = SerializeAsString pb eventMessage;
          message = SerializeFromServer pb (FromEvent (pb_type eventMessage) respString)
      in if ByteSizeLong pb message > m_kMaxMessageLen then Some (False, s)
         else case map_of (sv_clients s) clientId of
           None \<Rightarrow> None
         | Some details \<Rightarrow>
             if \<not> cd_sock details then Some (False, s)
             else if \<not> sendOk then Some (False, s)
             else let s = pushSent clientId \<lparr>dg_data = message, dg_control = rightsOf fds, dg_truncated = False\<rparr> s in
               Some (True, monitor (MonEvent clientId (pb_type eventMessage) respString) s))"

section \<open>Messages from a client\<close>

definition FindMethodByName :: "string \<Rightarrow> MethodDescriptor list \<Rightarrow> MethodDescriptor option" where
  "FindMethodByName name methods = find (\<lambda>m. md_name m = name) methods"

text \<open>
  \<open>sendOk\<close> is for the error replies. The call that reaches a service is logged in \<open>sv_handed\<close>; the service may
  complete it there and then or later, from any thread, by \<open>handleResponse\<close>.
\<close>

definition processMethodCall :: "('b, 'w, 'd) Protobuf \<Rightarrow> bool \<Rightarrow> ClientImpl \<Rightarrow> 'w TransportCall \<Rightarrow> int list \<Rightarrow>
    ('b, 'w, 'd) ServerImpl \<Rightarrow> ('b, 'w, 'd) ServerImpl" where
  "processMethodCall pb sendOk client call fds s =
     (case map_of (cl_services client) (tc_serviceName call) of
        None \<Rightarrow> sendErrorReply pb sendOk (cl_clientId client) (tc_serialId call) (''Unknown service '' @ [CHR 0x27] @ tc_serviceName call @ [CHR 0x27]) s
      | Some service \<Rightarrow>
          (case FindMethodByName (tc_methodName call) (se_methods service) of
             None \<Rightarrow> sendErrorReply pb sendOk (cl_clientId client) (tc_serialId call) (''Unknown method '' @ [CHR 0x27] @ tc_methodName call @ [CHR 0x27]) s
           | Some method \<Rightarrow>
               let noReply = noReplyExpected method in
               case ParseFromString pb (md_input method) (tc_requestMessage call) of
                 None \<Rightarrow> s
               | Some requestMessage \<Rightarrow>
                   (case addRequestFileDescriptors requestMessage fds of
                      None \<Rightarrow> s
                    | Some requestMessage \<Rightarrow>
                        let s = monitor (MonCall (cl_clientId client) call noReply) s in
                        s\<lparr>sv_handed := sv_handed s @ [\<lparr>sc_client = cl_clientId client, sc_serialId = tc_serialId call,
                          sc_service = se_object service, sc_method = method, sc_request = requestMessage, sc_noReply = noReply\<rparr>]\<rparr>)))"

definition processMonitorRequest :: "ClientImpl \<Rightarrow> int list \<Rightarrow> ('b, 'w, 'd) ServerImpl \<Rightarrow> ('b, 'w, 'd) ServerImpl" where
  "processMonitorRequest client fds s =
     (if \<not> sv_monitor s then s
      else if cl_uid client \<noteq> 0 then s
      else case fds of [fd] \<Rightarrow> s\<lparr>sv_monitored := sv_monitored s @ [MonSocketAdded fd]\<rparr> | _ \<Rightarrow> s)"

definition processClientMessage :: "('b, 'w, 'd) Protobuf \<Rightarrow> bool \<Rightarrow> ClientImpl \<Rightarrow> 'd \<Rightarrow> int list \<Rightarrow> ('b, 'w, 'd) ServerImpl \<Rightarrow>
    ('b, 'w, 'd) ServerImpl" where
  "processClientMessage pb sendOk client data fds s =
     (case ParseToServer pb data of
        None \<Rightarrow> s
      | Some (ToCall call) \<Rightarrow> processMethodCall pb sendOk client call fds s
      | Some ToMonitor \<Rightarrow> processMonitorRequest client fds s
      | Some ToNone \<Rightarrow> s)"

fun readClientSocket :: "('b, 'w, 'd) Protobuf \<Rightarrow> bool \<Rightarrow> u64 \<Rightarrow> ClientImpl \<Rightarrow> 'd Received list \<Rightarrow> ('b, 'w, 'd) ServerImpl \<Rightarrow>
    ('b, 'w, 'd) ServerImpl" where
  "readClientSocket pb sendOk clientId client [] s = s"
| "readClientSocket pb sendOk clientId client (RecvError # rs) s = disconnectClient clientId s"
| "readClientSocket pb sendOk clientId client (RecvClosed # rs) s = disconnectClient clientId s"
| "readClientSocket pb sendOk clientId client (RecvMsg _ dg # rs) s =
     readClientSocket pb sendOk clientId client rs
       (if dg_truncated dg then s
        else if dg_control dg \<noteq> [] then processClientMessage pb sendOk client (dg_data dg) (readMessageFds_server (dg_control dg) 16 []) s
        else processClientMessage pb sendOk client (dg_data dg) [] s)"

text \<open>The events of a client's socket: an error, and what can be read if there is input.\<close>

definition processClientSocket :: "('b, 'w, 'd) Protobuf \<Rightarrow> bool \<Rightarrow> u64 \<Rightarrow> bool \<times> 'd Received list option \<Rightarrow> ('b, 'w, 'd) ServerImpl \<Rightarrow>
    ('b, 'w, 'd) ServerImpl" where
  "processClientSocket pb sendOk clientId events s =
     (case map_of (sv_clients s) clientId of
        None \<Rightarrow> s
      | Some details \<Rightarrow>
          if clientId \<in> set (sv_condemnedClients s) then s
          else if fst events then disconnectClient clientId s
          else case snd events of
            None \<Rightarrow> s
          | Some rs \<Rightarrow> readClientSocket pb sendOk clientId (cd_client details) rs s)"

section \<open>The event loop\<close>

definition closeCondemned :: "u64 \<Rightarrow> ('b, 'w, 'd) ServerImpl \<Rightarrow> ('b, 'w, 'd) ServerImpl" where
  "closeCondemned clientId s =
     (case map_of (sv_clients s) clientId of
        None \<Rightarrow> s
      | Some details \<Rightarrow>
          let s = s\<lparr>sv_clients := erase clientId (sv_clients s)\<rparr>;
              s = (case cd_disconnectedCb details of
                     None \<Rightarrow> s
                   | Some cb \<Rightarrow> s\<lparr>sv_callbacks := sv_callbacks s @ [ClientDisconnected cb clientId]\<rparr>)
          in monitor (MonDisconnected clientId) s)"

text \<open>
  One of the events of a pass: the identifier it was registered with, its flags, the outcome of \<open>accept\<close> and of
  adding the client for a listening socket, and what can be read from a client's socket.
\<close>

record 'd ServerEvent =
  pe_id :: u64
  pe_in :: bool
  pe_err :: bool
  pe_accept :: "bool \<times> AddClientCalls"
  pe_received :: "'d Received list"

definition WAKE_EVENT_ID :: u64 where "WAKE_EVENT_ID = 0"

definition processServerEvent :: "('b, 'w, 'd) Protobuf \<Rightarrow> bool \<Rightarrow> 'd ServerEvent \<Rightarrow> ('b, 'w, 'd) ServerImpl \<Rightarrow> ('b, 'w, 'd) ServerImpl" where
  "processServerEvent pb sendOk event s =
     (if pe_id event = WAKE_EVENT_ID then s\<lparr>sv_wakeEvents := 0\<rparr>
      else if pe_id event < FIRST_CLIENT_ID then
        (if pe_in event then processNewConnection (fst (pe_accept event)) (snd (pe_accept event)) (pe_id event) s else s)
      else processClientSocket pb sendOk (pe_id event)
        (pe_err event, if pe_in event then Some (pe_received event) else None) s)"

definition processServer :: "('b, 'w, 'd) Protobuf \<Rightarrow> bool \<Rightarrow> 'd ServerEvent list option \<Rightarrow> ('b, 'w, 'd) ServerImpl \<Rightarrow>
    bool \<times> ('b, 'w, 'd) ServerImpl" where
  "processServer pb sendOk events s =
     (if \<not> sv_pollFd s then (False, s)
      else case events of
        None \<Rightarrow> (False, s)
      | Some es \<Rightarrow>
          let s = fold (processServerEvent pb sendOk) (take 32 es) s;
              theCondemned = sv_condemnedClients s;
              s = s\<lparr>sv_condemnedClients := []\<rparr>
          in (True, fold closeCondemned theCondemned s))"

definition wait_server :: "bool \<Rightarrow> ('b, 'w, 'd) ServerImpl \<Rightarrow> bool" where
  "wait_server pollOk s = (if \<not> sv_pollFd s then False else pollOk)"

end
