(* ===== verification/Ipc_Connection.thy ===== *)
theory Ipc_Connection
  imports Ipc_Channel_Proofs Ipc_Server
begin

text \<open>
  Both ends of the transport together: a call of a method is carried to the service of the server and its response
  back to the object the caller gave, however the calls, the answers and the messages of many clients interleave.
\<close>

section \<open>What a message takes with it\<close>

lemma take_takeFds: "takeFds limit (map Some xs) fds = fds @ take (limit - length fds) xs"
  by (induction xs arbitrary: fds) (auto simp: take_Cons' not_le)

lemma readMessageFds_take: "readMessageFds (rightsOf fds) limit [] = take limit fds"
  using take_takeFds [of limit fds "[]"]
  by (cases fds) (auto simp: rightsOf_def Let_def simp del: takeFds.simps list.map)

lemma received_fds: "(if rightsOf fds \<noteq> [] then readMessageFds (rightsOf fds) limit [] else []) = take limit fds"
  using readMessageFds_take [of fds limit] by (auto simp: rightsOf_def)

text \<open>A message that is accepted is the one that was sent, with its descriptors.\<close>

lemma placed_is_sent:
  assumes "fd_message m" and "addReplyFileDescriptors m (take limit (set_fds (pb_fdFields m))) = Some m'"
  shows "m' = m"
proof -
  have "length (take limit (set_fds (pb_fdFields m))) = length (set_fds (pb_fdFields m))"
    using assms(2) place_length by (force simp: addReplyFileDescriptors_def)
  then have "take limit (set_fds (pb_fdFields m)) = set_fds (pb_fdFields m)" by simp
  with assms add_own_fds [OF assms(1)] show ?thesis by simp
qed

lemma placed_request_is_sent:
  assumes "fd_message m" and "length (pb_fdFields m) \<le> limit"
    and "addRequestFileDescriptors m (take limit (getMessageFds m)) = Some m'"
  shows "m' = m"
proof (cases "\<exists>f \<in> set (pb_fdFields m). ff_value f = None")
  case True
  moreover have "take limit (getMessageFds m) = getMessageFds m"
    using assms(1,2) by (simp add: getMessageFds_def fd_message_def)
  ultimately have False using unset_fd_field_refused [OF assms(1)] assms(3) by auto
  then show ?thesis ..
next
  case False
  then have "getMessageFds m = set_fds (pb_fdFields m)" using request_fds [OF assms(1)] by auto
  then show ?thesis using assms(3) placed_is_sent [OF assms(1)] by (simp add: addRequest_eq_addReply)
qed

section \<open>The system\<close>

text \<open>
  One server and the channel of each client, by the client's identifier; how many of the datagrams of each client the
  server has read, and how many of those to it the client has read; the calls that were made - client, serial number,
  method, request and response object - and the answers services gave to the calls handed to them.
\<close>

record ('b, 'w, 'd) IpcState =
  is_server :: "('b, 'w, 'd) ServerImpl"
  is_channels :: "u64 \<Rightarrow> ('b, 'd) ChannelImpl"
  is_read :: "u64 \<Rightarrow> nat"
  is_delivered :: "u64 \<Rightarrow> nat"
  is_calls :: "(u64 \<times> u64 \<times> MethodDescriptor \<times> 'b PbMessage \<times> nat) list"
  is_answers :: "('b ServerCall \<times> 'b PbMessage) list"

definition initialIpc :: "bool \<Rightarrow> ('b, 'w, 'd) IpcState" where
  "initialIpc monitoring =
     \<lparr>is_server = newServer monitoring True True, is_channels = (\<lambda>_. initialChannel\<lparr>ch_sock := True\<rparr>),
      is_read = (\<lambda>_. 0), is_delivered = (\<lambda>_. 0), is_calls = [], is_answers = []\<rparr>"

definition socketInput :: "int \<Rightarrow> 'd Datagram \<Rightarrow> 'd EpollEvents" where
  "socketInput now dg = \<lparr>ep_failed = False, ep_socket = Some [RecvMsg now dg], ep_timeout = None, ep_wake = False\<rparr>"

text \<open>
  \<open>methods\<close> are the methods of the interface both ends are built from. A client calls with requests of the type the
  method declares, and has no method that passes more than sixteen descriptors; serial numbers do not start over.
  Services answer with the response type of their method, at any time, even more than once.
\<close>

inductive ipc_step :: "('b, 'w, 'd) Protobuf \<Rightarrow> MethodDescriptor list \<Rightarrow> ('b, 'w, 'd) IpcState \<Rightarrow> ('b, 'w, 'd) IpcState \<Rightarrow> bool"
  for pb methods w where
  call: "method \<in> set methods \<Longrightarrow> pb_type request = md_input method \<Longrightarrow> fd_message request \<Longrightarrow>
    length (pb_fdFields request) \<le> 16 \<Longrightarrow> ch_serialCounter (is_channels w i) \<noteq> 0 \<Longrightarrow>
    ipc_step pb methods w (w\<lparr>
      is_channels := (is_channels w)(i := CallMethod pb method controller request response closure now later sendOk (is_channels w i)),
      is_calls := is_calls w @ [(i, ch_serialCounter (is_channels w i), method, request, response)]\<rparr>)"
| serve: "is_read w i < length (ch_sent (is_channels w i)) \<Longrightarrow>
    ipc_step pb methods w (w\<lparr>
      is_server := processClientSocket pb sendOk i (False, Some [RecvMsg now (ch_sent (is_channels w i) ! is_read w i)]) (is_server w),
      is_read := (is_read w)(i := is_read w i + 1)\<rparr>)"
| answer: "c \<in> set (sv_handed (is_server w)) \<Longrightarrow> \<not> sc_noReply c \<Longrightarrow> pb_type response = md_output (sc_method c) \<Longrightarrow>
    fd_message response \<Longrightarrow>
    ipc_step pb methods w (w\<lparr>
      is_server := handleResponse pb sendOk (newServerController (sc_client c) (sc_serialId c)) response (is_server w),
      is_answers := is_answers w @ [(c, response)]\<rparr>)"
| fail: "c \<in> set (sv_handed (is_server w)) \<Longrightarrow>
    ipc_step pb methods w (w\<lparr>
      is_server := handleResponse pb sendOk (SetFailed reason (newServerController (sc_client c) (sc_serialId c))) response (is_server w)\<rparr>)"
| deliver: "is_delivered w i < length (sv_sent (is_server w) i) \<Longrightarrow>
    ipc_step pb methods w (w\<lparr>
      is_channels := (is_channels w)(i :=
        snd (processChannel pb (socketInput now (sv_sent (is_server w) i ! is_delivered w i)) (is_channels w i))),
      is_delivered := (is_delivered w)(i := is_delivered w i + 1)\<rparr>)"
| client: "st = DisconnectStep \<or> st = TermStep \<or>
      (\<exists>events. st = ProcessStep events \<and> ep_socket events \<in> {None, Some [RecvClosed], Some [RecvError]}) \<Longrightarrow>
    ipc_step pb methods w (w\<lparr>is_channels := (is_channels w)(i := channelStep pb st (is_channels w i))\<rparr>)"
| connect: "ipc_step pb methods w (w\<lparr>is_server := snd (addClientSocket c path cb (is_server w))\<rparr>)"
| export: "\<forall>m \<in> set (se_methods service). m \<in> set methods \<and> md_service m = se_fullName service \<Longrightarrow>
    ipc_step pb methods w (w\<lparr>is_server := exportService i service (is_server w)\<rparr>)"
| event: "sendEvent_server pb sendOk i message (is_server w) = Some (ok, s) \<Longrightarrow> ipc_step pb methods w (w\<lparr>is_server := s\<rparr>)"
| condemn: "ipc_step pb methods w (w\<lparr>is_server := disconnectClient i (is_server w)\<rparr>)"
| close: "ipc_step pb methods w (w\<lparr>is_server := snd (processServer pb sendOk (Some []) (is_server w))\<rparr>)"

definition ipc_reach :: "('b, 'w, 'd) Protobuf \<Rightarrow> MethodDescriptor list \<Rightarrow> ('b, 'w, 'd) IpcState \<Rightarrow> bool" where
  "ipc_reach pb methods w \<longleftrightarrow> (\<exists>monitoring. (ipc_step pb methods)\<^sup>*\<^sup>* (initialIpc monitoring) w)"

section \<open>The invariant\<close>

type_synonym 'b CallLog = "(u64 \<times> u64 \<times> MethodDescriptor \<times> 'b PbMessage \<times> nat) list"
type_synonym 'b AnswerLog = "('b ServerCall \<times> 'b PbMessage) list"

text \<open>A serial number of a client belongs to one call.\<close>

definition calls_inv :: "MethodDescriptor list \<Rightarrow> 'b CallLog \<Rightarrow> (u64 \<Rightarrow> u64) \<Rightarrow> bool" where
  "calls_inv methods calls counter \<longleftrightarrow>
     (\<forall>i k method request p. (i, k, method, request, p) \<in> set calls \<longrightarrow> (counter i = 0 \<or> k < counter i) \<and>
        method \<in> set methods \<and> pb_type request = md_input method \<and> fd_message request \<and> length (pb_fdFields request) \<le> 16) \<and>
     (\<forall>i k m q p m' q' p'. (i, k, m, q, p) \<in> set calls \<longrightarrow> (i, k, m', q', p') \<in> set calls \<longrightarrow> (m, q, p) = (m', q', p'))"

text \<open>What a channel has sent, waits for and has been given.\<close>

definition request_of :: "('b, 'w, 'd) Protobuf \<Rightarrow> u64 \<Rightarrow> MethodDescriptor \<Rightarrow> 'b PbMessage \<Rightarrow> 'd Datagram" where
  "request_of pb k method request =
     \<lparr>dg_data = SerializeToServer pb (ToCall \<lparr>tc_serialId = k, tc_serviceName = md_service method, tc_methodName = md_name method,
        tc_requestMessage = SerializeAsString pb request\<rparr>),
      dg_control = rightsOf (getMessageFds request), dg_truncated = False\<rparr>"

definition client_inv :: "('b, 'w, 'd) Protobuf \<Rightarrow> 'b CallLog \<Rightarrow> 'b AnswerLog \<Rightarrow> u64 \<Rightarrow> ('b, 'd) ChannelImpl \<Rightarrow> bool" where
  "client_inv pb calls answers i ch \<longleftrightarrow>
     (\<forall>dg \<in> set (ch_sent ch). \<exists>k method request p. (i, k, method, request, p) \<in> set calls \<and> dg = request_of pb k method request) \<and>
     (\<forall>k c. (k, c) \<in> set (ch_methodCalls ch) \<longrightarrow> (\<exists>method request. (i, k, method, request, mc_response c) \<in> set calls \<and>
        mc_responseType c = md_output method)) \<and>
     (\<forall>p m. ResponseParsed p m \<in> set (ch_effects ch) \<longrightarrow> (\<exists>c. (c, m) \<in> set answers \<and> sc_client c = i \<and>
        (i, sc_serialId c, sc_method c, sc_request c, p) \<in> set calls))"

text \<open>What the server has handed to services and sent to clients.\<close>

definition reply_of :: "('b, 'w, 'd) Protobuf \<Rightarrow> u64 \<Rightarrow> 'b PbMessage \<Rightarrow> 'd Datagram" where
  "reply_of pb k m =
     \<lparr>dg_data = SerializeFromServer pb (FromReply k (SerializeAsString pb m)), dg_control = rightsOf (set_fds (pb_fdFields m)),
      dg_truncated = False\<rparr>"

definition other_message :: "('b, 'w, 'd) Protobuf \<Rightarrow> 'd Datagram \<Rightarrow> bool" where
  "other_message pb dg \<longleftrightarrow> (\<exists>k r. dg_data dg = SerializeFromServer pb (FromError k r)) \<or>
     (\<exists>e x. dg_data dg = SerializeFromServer pb (FromEvent e x))"

definition handed_inv :: "'b CallLog \<Rightarrow> 'b ServerCall list \<Rightarrow> bool" where
  "handed_inv calls handed \<longleftrightarrow>
     (\<forall>c \<in> set handed. \<exists>p. (sc_client c, sc_serialId c, sc_method c, sc_request c, p) \<in> set calls)"

definition sent_inv :: "('b, 'w, 'd) Protobuf \<Rightarrow> 'b AnswerLog \<Rightarrow> (u64 \<Rightarrow> 'd Datagram list) \<Rightarrow> bool" where
  "sent_inv pb answers sent \<longleftrightarrow>
     (\<forall>i. \<forall>dg \<in> set (sent i). other_message pb dg \<or>
        (\<exists>c m. (c, m) \<in> set answers \<and> sc_client c = i \<and> dg = reply_of pb (sc_serialId c) m))"

definition answers_inv :: "'b ServerCall list \<Rightarrow> 'b AnswerLog \<Rightarrow> bool" where
  "answers_inv handed answers \<longleftrightarrow>
     (\<forall>c m. (c, m) \<in> set answers \<longrightarrow> c \<in> set handed \<and> pb_type m = md_output (sc_method c) \<and> fd_message m)"

definition client_ok :: "MethodDescriptor list \<Rightarrow> u64 \<Rightarrow> ClientDetails \<Rightarrow> bool" where
  "client_ok methods i d \<longleftrightarrow> cl_clientId (cd_client d) = i \<and>
     (\<forall>name service. (name, service) \<in> set (cl_services (cd_client d)) \<longrightarrow>
        (\<forall>m \<in> set (se_methods service). m \<in> set methods \<and> md_service m = name))"

definition clients_inv :: "MethodDescriptor list \<Rightarrow> (u64 \<times> ClientDetails) list \<Rightarrow> bool" where
  "clients_inv methods clients \<longleftrightarrow> (\<forall>i d. (i, d) \<in> set clients \<longrightarrow> client_ok methods i d)"

definition ipc_inv :: "('b, 'w, 'd) Protobuf \<Rightarrow> MethodDescriptor list \<Rightarrow> ('b, 'w, 'd) IpcState \<Rightarrow> bool" where
  "ipc_inv pb methods w \<longleftrightarrow>
     calls_inv methods (is_calls w) (\<lambda>i. ch_serialCounter (is_channels w i)) \<and>
     (\<forall>i. client_inv pb (is_calls w) (is_answers w) i (is_channels w i)) \<and>
     handed_inv (is_calls w) (sv_handed (is_server w)) \<and>
     sent_inv pb (is_answers w) (sv_sent (is_server w)) \<and>
     answers_inv (sv_handed (is_server w)) (is_answers w) \<and>
     clients_inv methods (sv_clients (is_server w))"

section \<open>The steps of a channel\<close>

text \<open>A step that makes no call and hands over no response.\<close>

definition quiet :: "('b, 'd) ChannelImpl \<Rightarrow> ('b, 'd) ChannelImpl \<Rightarrow> bool" where
  "quiet ch ch' \<longleftrightarrow> ch_sent ch' = ch_sent ch \<and> ch_serialCounter ch' = ch_serialCounter ch \<and>
     set (ch_methodCalls ch') \<subseteq> set (ch_methodCalls ch) \<and>
     (\<forall>p m. ResponseParsed p m \<in> set (ch_effects ch') \<longrightarrow> ResponseParsed p m \<in> set (ch_effects ch))"

lemma quiet_refl [simp]: "quiet ch ch"
  by (simp add: quiet_def)

lemma quiet_trans: "quiet a b \<Longrightarrow> quiet b c \<Longrightarrow> quiet a c"
  by (auto simp: quiet_def)

lemma quiet_inv: "quiet ch ch' \<Longrightarrow> client_inv pb calls answers i ch \<Longrightarrow> client_inv pb calls answers i ch'"
  unfolding quiet_def client_inv_def by (simp only: subset_iff split_paired_All) blast

lemma no_response_failures [simp]: "ResponseParsed p m \<notin> set (failuresOf call reason)" "ResponseParsed p m \<notin> set (runsOf call)"
  by (auto simp: failuresOf_def runsOf_def split: option.splits)

lemma quiet_fail: "quiet ch (logEffects (failuresOf call reason) (updateTimeoutTimer now (ch\<lparr>ch_methodCalls := erase k (ch_methodCalls ch)\<rparr>)))"
  by (auto simp: quiet_def erase_def)

lemma quiet_timeout: "quiet ch (processTimeoutEvent now later ch)"
  by (auto simp: quiet_def timeoutEvent_fields)

lemma quiet_disconnectNoLock: "quiet ch (disconnectNoLock ch)"
  by (simp add: quiet_def disconnectNoLock_def)

lemma quiet_disconnect: "quiet ch (disconnectChannel ch)"
  by (simp add: quiet_def disconnectChannel_def disconnectNoLock_def Let_def)

lemma quiet_wake: "quiet ch (processWakeEvent ch)"
  by (simp add: quiet_def processWakeEvent_def)

lemma quiet_term: "quiet ch (termChannel ch)"
  by (auto simp: quiet_def termChannel_def disconnectNoLock_def Let_def completion_log)

lemma processChannel_quiet:
  assumes "\<And>rs. ep_socket events = Some rs \<Longrightarrow> quiet ch (snd (processSocketEvent pb rs ch))"
  shows "quiet ch (snd (processChannel pb events ch))"
proof -
  obtain ok ch1 where sock: "(case ep_socket events of None \<Rightarrow> (True, ch) | Some rs \<Rightarrow> processSocketEvent pb rs ch) = (ok, ch1)"
    by fastforce
  then have one: "quiet ch ch1" using assms by (force split: option.splits)
  let ?ch2 = "case ep_timeout events of None \<Rightarrow> ch1 | Some (now, later) \<Rightarrow> processTimeoutEvent now later ch1"
  have two: "quiet ch ?ch2" using one quiet_trans [OF one quiet_timeout] by (auto split: option.splits)
  then have "quiet ch (processWakeEvent ?ch2)" using quiet_trans quiet_wake by blast
  with one two sock show ?thesis by (simp add: processChannel_def Let_def)
qed

lemma client_step_quiet:
  assumes "st = DisconnectStep \<or> st = TermStep \<or>
      (\<exists>events. st = ProcessStep events \<and> ep_socket events \<in> {None, Some [RecvClosed], Some [RecvError]})"
  shows "quiet ch (channelStep pb st ch)"
proof -
  consider "st = DisconnectStep" | "st = TermStep"
    | events where "st = ProcessStep events" "ep_socket events \<in> {None, Some [RecvClosed], Some [RecvError]}" using assms by blast
  then show ?thesis
  proof cases
    case 3
    then show ?thesis using quiet_disconnectNoLock by (auto intro!: processChannel_quiet)
  qed (simp_all add: quiet_disconnect quiet_term)
qed

lemma CallMethod_shape:
  assumes "ch' = CallMethod pb method controller request response closure now later sendOk ch"
  shows "ch_serialCounter ch' = ch_serialCounter ch + 1"
    and "ch_sent ch' \<in> {ch_sent ch, ch_sent ch @ [request_of pb (ch_serialCounter ch) method request]}"
    and "\<exists>c. mc_response c = response \<and> mc_responseType c = md_output method \<and>
      set (ch_methodCalls ch') \<subseteq> insert (ch_serialCounter ch, c) (set (ch_methodCalls ch))"
    and "ResponseParsed p m \<in> set (ch_effects ch') \<Longrightarrow> ResponseParsed p m \<in> set (ch_effects ch)"
proof -
  show "ch_serialCounter ch' = ch_serialCounter ch + 1"
    by (simp add: assms CallMethod_def Let_def completion_log split: option.splits)
  show "ch_sent ch' \<in> {ch_sent ch, ch_sent ch @ [request_of pb (ch_serialCounter ch) method request]}"
    by (simp add: assms CallMethod_def Let_def completion_log request_of_def split: option.splits)
  show "ResponseParsed p m \<in> set (ch_effects ch') \<Longrightarrow> ResponseParsed p m \<in> set (ch_effects ch)"
    by (auto simp: assms CallMethod_def Let_def completion_log split: option.splits if_splits)
  let ?c = "\<lparr>mc_timeoutDeadline = now + ch_defaultTimeout ch * 1000000, mc_controller = controller,
    mc_response = response, mc_responseType = md_output method, mc_closure = closure\<rparr>"
  have "set (emplace k v xs) \<subseteq> insert (k, v) (set xs)" for k :: u64 and v :: ChannelCall and xs
    by (auto simp: emplace_def set_insort_key split: if_splits)
  then have "set (ch_methodCalls ch') \<subseteq> insert (ch_serialCounter ch, ?c) (set (ch_methodCalls ch))"
    by (auto simp: assms CallMethod_def Let_def completion_log split: option.splits)
  then show "\<exists>c. mc_response c = response \<and> mc_responseType c = md_output method \<and>
      set (ch_methodCalls ch') \<subseteq> insert (ch_serialCounter ch, c) (set (ch_methodCalls ch))"
    by (intro exI [of _ ?c]) auto
qed

lemma client_inv_more:
  "client_inv pb calls answers i ch \<Longrightarrow> set calls \<subseteq> set calls' \<Longrightarrow> set answers \<subseteq> set answers' \<Longrightarrow>
    client_inv pb calls' answers' i ch"
  unfolding client_inv_def by (fast dest: subsetD)

lemma client_inv_call:
  assumes "client_inv pb calls answers i ch"
    and "ch' = CallMethod pb method controller request response closure now later sendOk ch"
  shows "client_inv pb (calls @ [(i, ch_serialCounter ch, method, request, response)]) answers i ch'"
proof -
  let ?new = "(i, ch_serialCounter ch, method, request, response)"
  have old: "client_inv pb (calls @ [?new]) answers i ch" by (rule client_inv_more [OF assms(1)]) auto
  note shape = CallMethod_shape [OF assms(2)]
  have "\<exists>k method request p. (i, k, method, request, p) \<in> set (calls @ [?new]) \<and> dg = request_of pb k method request"
    if "dg \<in> set (ch_sent ch')" for dg
  proof (cases "dg \<in> set (ch_sent ch)")
    case True
    then show ?thesis using old unfolding client_inv_def by blast
  next
    case False
    then have "dg = request_of pb (ch_serialCounter ch) method request" using shape(2) that by auto
    then show ?thesis by fastforce
  qed
  moreover obtain c0 where c0: "mc_response c0 = response" "mc_responseType c0 = md_output method"
      "set (ch_methodCalls ch') \<subseteq> insert (ch_serialCounter ch, c0) (set (ch_methodCalls ch))" using shape(3) by blast
  have "\<exists>method request. (i, k, method, request, mc_response c) \<in> set (calls @ [?new]) \<and> mc_responseType c = md_output method"
    if "(k, c) \<in> set (ch_methodCalls ch')" for k c
  proof (cases "(k, c) = (ch_serialCounter ch, c0)")
    case True
    then show ?thesis using c0 by auto
  next
    case False
    then show ?thesis using old c0(3) that unfolding client_inv_def by blast
  qed
  moreover have "\<exists>c. (c, m) \<in> set answers \<and> sc_client c = i \<and> (i, sc_serialId c, sc_method c, sc_request c, p) \<in> set (calls @ [?new])"
    if "ResponseParsed p m \<in> set (ch_effects ch')" for p m
    using old shape(4) [OF that] unfolding client_inv_def by blast
  ultimately show ?thesis unfolding client_inv_def by blast
qed

lemma calls_inv_call:
  assumes "calls_inv methods calls counter" and "counter i \<noteq> 0" and "method \<in> set methods"
    and "pb_type request = md_input method" and "fd_message request" and "length (pb_fdFields request) \<le> 16"
  shows "calls_inv methods (calls @ [(i, counter i, method, request, response)]) (counter(i := counter i + 1))"
proof -
  have lt: "counter i + 1 = 0 \<or> k < counter i + 1" if "k \<le> counter i" for k
    using that unatSuc [of "counter i"] by (cases "counter i + 1 = 0") (auto simp: word_less_nat_alt word_le_nat_alt add.commute)
  have "(i, counter i, m, q, p) \<notin> set calls" for m q p
    using assms(1,2) by (fastforce simp: calls_inv_def)
  moreover have "counter i + 1 = 0 \<or> k < counter i + 1" if "(i, k, m, q, p) \<in> set calls" for k m q p
    using assms(1,2) that lt [of k] by (fastforce simp: calls_inv_def)
  ultimately show ?thesis using assms lt [of "counter i"] unfolding calls_inv_def by (auto; fast?)
qed

section \<open>The steps of the server\<close>

lemma monitor_frame [simp]:
  "sv_clients (monitor e s) = sv_clients s" "sv_sent (monitor e s) = sv_sent s" "sv_handed (monitor e s) = sv_handed s"
  "sv_condemnedClients (monitor e s) = sv_condemnedClients s" "sv_callbacks (monitor e s) = sv_callbacks s"
  "sv_clientIdCounter (monitor e s) = sv_clientIdCounter s"
  by (simp_all add: monitor_def)

lemma pushSent_frame [simp]:
  "sv_clients (pushSent i m s) = sv_clients s" "sv_handed (pushSent i m s) = sv_handed s"
  "sv_sent (pushSent i m s) = (sv_sent s)(i := sv_sent s i @ [m])"
  "sv_condemnedClients (pushSent i m s) = sv_condemnedClients s"
  by (simp_all add: pushSent_def)

lemma sendReply_frame [simp]:
  "sv_clients (sendReply ok i msg s) = sv_clients s" "sv_handed (sendReply ok i msg s) = sv_handed s"
  "sv_condemnedClients (sendReply ok i msg s) = sv_condemnedClients s"
  by (simp_all add: sendReply_def split: option.splits)

lemma sent_inv_push:
  assumes "sent_inv pb answers sent"
    and "other_message pb m \<or> (\<exists>c x. (c, x) \<in> set answers \<and> sc_client c = i \<and> m = reply_of pb (sc_serialId c) x)"
  shows "sent_inv pb answers (sent(i := sent i @ [m]))"
  using assms by (auto simp: sent_inv_def)

lemma sent_inv_sendReply:
  assumes "sent_inv pb answers (sv_sent s)"
    and "\<And>m. msg = Some m \<Longrightarrow> other_message pb m \<or> (\<exists>c x. (c, x) \<in> set answers \<and> sc_client c = i \<and> m = reply_of pb (sc_serialId c) x)"
  shows "sent_inv pb answers (sv_sent (sendReply ok i msg s))"
  using assms sent_inv_push [of pb answers "sv_sent s" _ i] by (auto simp: sendReply_def split: option.splits)

lemma other_message_I [simp]:
  "other_message pb \<lparr>dg_data = SerializeFromServer pb (FromError k r), dg_control = cs, dg_truncated = b\<rparr>"
  "other_message pb \<lparr>dg_data = SerializeFromServer pb (FromEvent e x), dg_control = cs, dg_truncated = b\<rparr>"
  by (auto simp: other_message_def)

lemma populateErrorReply_result:
  assumes "populateErrorReply pb i k reason s = (msg, s')"
  shows "\<exists>m. msg = Some m \<and> other_message pb m \<and> sv_clients s' = sv_clients s \<and> sv_sent s' = sv_sent s \<and> sv_handed s' = sv_handed s \<and>
    sv_condemnedClients s' = sv_condemnedClients s"
  using assms by (auto simp: populateErrorReply_def Let_def)

lemma populateReply_result:
  assumes "populateReply pb i k response s = (msg, s')" and "fd_message response"
  shows "\<exists>m. msg = Some m \<and> (other_message pb m \<or> m = reply_of pb k response) \<and> sv_clients s' = sv_clients s \<and>
    sv_sent s' = sv_sent s \<and> sv_handed s' = sv_handed s \<and> sv_condemnedClients s' = sv_condemnedClients s"
proof (cases "ByteSizeLong pb (SerializeFromServer pb (FromReply k (SerializeAsString pb response))) > m_kMaxMessageLen")
  case True
  then have "populateErrorReply pb i k ''Internal error - reply message to large'' s = (msg, s')"
    using assms(1) by (simp add: populateReply_def Let_def split: prod.splits)
  from populateErrorReply_result [OF this] show ?thesis by blast
next
  case False
  obtain fds r where fds: "getResponseFileDescriptors response = (fds, r)" by fastforce
  then have "fds = set_fds (pb_fdFields response)" using response_fds [OF assms(2)] by simp
  with False fds assms(1) have "msg = Some (reply_of pb k response)" "s' = monitor (MonReply i k (SerializeAsString pb response)) s"
    by (simp_all add: populateReply_def reply_of_def Let_def)
  then show ?thesis by simp
qed

lemma sendErrorReply_frame [simp]:
  "sv_clients (sendErrorReply pb ok i k text s) = sv_clients s" "sv_handed (sendErrorReply pb ok i k text s) = sv_handed s"
  by (simp_all add: sendErrorReply_def populateErrorReply_def Let_def)

lemma sendErrorReply_sent: "sent_inv pb answers (sv_sent s) \<Longrightarrow> sent_inv pb answers (sv_sent (sendErrorReply pb ok i k text s))"
  by (auto simp: sendErrorReply_def populateErrorReply_def Let_def intro!: sent_inv_sendReply)

lemma handleResponse_result:
  assumes "sent_inv pb answers (sv_sent s)"
    and "ct_failed controller \<or> (fd_message response \<and>
      (\<exists>c. (c, response) \<in> set answers \<and> sc_client c = ct_clientId controller \<and> sc_serialId c = ct_serialId controller))"
  shows "sent_inv pb answers (sv_sent (handleResponse pb ok controller response s)) \<and>
    sv_clients (handleResponse pb ok controller response s) = sv_clients s \<and>
    sv_handed (handleResponse pb ok controller response s) = sv_handed s"
proof (cases "ct_failed controller")
  case True
  obtain msg s' where p: "populateErrorReply pb (ct_clientId controller) (ct_serialId controller) (ct_failureReason controller) s = (msg, s')"
    by fastforce
  from populateErrorReply_result [OF p] assms(1) True show ?thesis
    by (auto simp: handleResponse_def p intro!: sent_inv_sendReply)
next
  case False
  obtain msg s' where p: "populateReply pb (ct_clientId controller) (ct_serialId controller) response s = (msg, s')" by fastforce
  have fd: "fd_message response" using False assms(2) by simp
  from populateReply_result [OF p fd] obtain m where m: "msg = Some m" "other_message pb m \<or> m = reply_of pb (ct_serialId controller) response"
      "sv_clients s' = sv_clients s" "sv_sent s' = sv_sent s" "sv_handed s' = sv_handed s" by blast
  obtain c where "(c, response) \<in> set answers" "sc_client c = ct_clientId controller" "sc_serialId c = ct_serialId controller"
    using False assms(2) by blast
  then have "other_message pb m \<or> (\<exists>c x. (c, x) \<in> set answers \<and> sc_client c = ct_clientId controller \<and> m = reply_of pb (sc_serialId c) x)"
    using m(2) by metis
  then have "sent_inv pb answers (sv_sent (sendReply ok (ct_clientId controller) msg s'))"
    using assms(1) m by (intro sent_inv_sendReply) auto
  with m False show ?thesis by (simp add: handleResponse_def p)
qed

lemma disconnectClient_frame [simp]:
  "sv_clients (disconnectClient i s) = sv_clients s" "sv_sent (disconnectClient i s) = sv_sent s"
  "sv_handed (disconnectClient i s) = sv_handed s" "sv_callbacks (disconnectClient i s) = sv_callbacks s"
  by (simp_all add: disconnectClient_def wakeEventLoop_def)

lemma closeCondemned_frame [simp]:
  "sv_sent (closeCondemned i s) = sv_sent s" "sv_handed (closeCondemned i s) = sv_handed s"
  by (simp_all add: closeCondemned_def Let_def split: option.splits)

lemma closeCondemned_clients: "set (sv_clients (closeCondemned i s)) \<subseteq> set (sv_clients s)"
  by (auto simp: closeCondemned_def Let_def erase_def split: option.splits)

lemma clients_inv_subset: "clients_inv methods cs \<Longrightarrow> set ds \<subseteq> set cs \<Longrightarrow> clients_inv methods ds"
  by (auto simp: clients_inv_def)

lemma close_result:
  assumes "clients_inv methods (sv_clients s)"
  shows "clients_inv methods (sv_clients (fold closeCondemned is s)) \<and> sv_sent (fold closeCondemned is s) = sv_sent s \<and>
    sv_handed (fold closeCondemned is s) = sv_handed s"
  using assms
proof (induction "is" arbitrary: s)
  case (Cons i "is")
  then show ?case using clients_inv_subset [OF Cons.prems closeCondemned_clients] by simp
qed simp

lemma clients_inv_emplace:
  "clients_inv methods cs \<Longrightarrow> client_ok methods k d \<Longrightarrow> clients_inv methods (emplace k d cs)"
  by (auto simp: clients_inv_def emplace_def set_insort_key)

lemma clients_inv_connect:
  assumes "clients_inv methods (sv_clients s)"
  shows "clients_inv methods (sv_clients (snd (addClientSocket c path cb s))) \<and> sv_sent (snd (addClientSocket c path cb s)) = sv_sent s \<and>
    sv_handed (snd (addClientSocket c path cb s)) = sv_handed s"
  using assms
  by (auto simp: addClientSocket_def Let_def client_ok_def intro!: clients_inv_emplace split: option.splits)

lemma clients_inv_export:
  assumes "clients_inv methods (sv_clients s)" and "\<forall>m \<in> set (se_methods service). m \<in> set methods \<and> md_service m = se_fullName service"
  shows "clients_inv methods (sv_clients (exportService i service s))"
proof (cases "map_of (sv_clients s) i")
  case None
  then show ?thesis using assms(1) by (simp add: exportService_def)
next
  case (Some d)
  let ?d = "d\<lparr>cd_client := (cd_client d)\<lparr>cl_services := addService (se_fullName service) service (cl_services (cd_client d))\<rparr>\<rparr>"
  have "(j, e) = (i, ?d) \<or> (j, e) \<in> set (sv_clients s)" if "(j, e) \<in> set (assign i ?d (sv_clients s))" for j e
    using that by (auto simp: assign_def)
  moreover have "(i, d) \<in> set (sv_clients s)" using map_of_SomeD [OF Some] .
  then have "client_ok methods i ?d" using assms by (auto simp: clients_inv_def client_ok_def addService_def split: if_splits)
  ultimately have "client_ok methods j e" if "(j, e) \<in> set (assign i ?d (sv_clients s))" for j e
    using assms(1) that unfolding clients_inv_def by blast
  then show ?thesis using Some by (simp add: exportService_def clients_inv_def)
qed

lemma exportService_frame [simp]:
  "sv_sent (exportService i service s) = sv_sent s" "sv_handed (exportService i service s) = sv_handed s"
  by (simp_all add: exportService_def split: option.splits)

lemma sendEvent_result:
  assumes "sendEvent_server pb ok i message s = Some (b, s')" and "sent_inv pb answers (sv_sent s)"
  shows "sent_inv pb answers (sv_sent s') \<and> sv_clients s' = sv_clients s \<and> sv_handed s' = sv_handed s"
  using assms by (auto simp: sendEvent_server_def Let_def intro!: sent_inv_push split: prod.splits if_splits option.splits)

text \<open>Of a request that reaches a service, the service sees what the client called with.\<close>

definition unique_methods :: "MethodDescriptor list \<Rightarrow> bool" where
  "unique_methods methods \<longleftrightarrow> (\<forall>m \<in> set methods. \<forall>m' \<in> set methods. md_service m = md_service m' \<longrightarrow> md_name m = md_name m' \<longrightarrow> m = m')"

lemma lossless_request: "lossless pb \<Longrightarrow> ParseFromString pb (pb_type m) (SerializeAsString pb m) = Some m' \<Longrightarrow> m' = m \<and> IsInitialized pb m"
  by (auto simp: lossless_def split: if_splits)

lemma lossless_transport [simp]:
  "lossless pb \<Longrightarrow> ParseToServer pb (SerializeToServer pb t) = Some t"
  "lossless pb \<Longrightarrow> ParseFromServer pb (SerializeFromServer pb u) = Some u"
  by (simp_all add: lossless_def)

lemma find_method:
  assumes "FindMethodByName name ms = Some m"
  shows "m \<in> set ms \<and> md_name m = name"
  using find_SomeE [of _ ms m] assms by (auto simp: FindMethodByName_def)

lemma processMethodCall_result:
  assumes "lossless pb" and "unique_methods methods" and "client_ok methods i d" and "method \<in> set methods"
    and "pb_type request = md_input method" and "fd_message request" and "length (pb_fdFields request) \<le> 16"
    and "call = \<lparr>tc_serialId = k, tc_serviceName = md_service method, tc_methodName = md_name method,
      tc_requestMessage = SerializeAsString pb request\<rparr>"
    and "s' = processMethodCall pb ok (cd_client d) call (take 16 (getMessageFds request)) s"
  shows "sv_clients s' = sv_clients s \<and> (sent_inv pb answers (sv_sent s) \<longrightarrow> sent_inv pb answers (sv_sent s')) \<and>
    (sv_handed s' = sv_handed s \<or> (\<exists>c. sv_handed s' = sv_handed s @ [c] \<and> sc_client c = i \<and> sc_serialId c = k \<and>
       sc_method c = method \<and> sc_request c = request))"
proof (cases "map_of (cl_services (cd_client d)) (md_service method)")
  case None
  then show ?thesis using assms(8,9) by (simp add: processMethodCall_def sendErrorReply_sent)
next
  case (Some service)
  show ?thesis
  proof (cases "FindMethodByName (md_name method) (se_methods service)")
    case None
    then show ?thesis using Some assms(8,9) by (simp add: processMethodCall_def sendErrorReply_sent)
  next
    case (Some m)
    have "m \<in> set methods \<and> md_service m = md_service method"
      using find_method [OF Some] assms(3) map_of_SomeD [OF \<open>map_of _ _ = Some service\<close>] unfolding client_ok_def by blast
    then have m: "m = method" using find_method [OF Some] assms(2,4) unfolding unique_methods_def by blast
    have id: "cl_clientId (cd_client d) = i" using assms(3) by (simp add: client_ok_def)
    show ?thesis
    proof (cases "ParseFromString pb (md_input method) (SerializeAsString pb request)")
      case None
      then show ?thesis using Some m assms(8,9) \<open>map_of _ _ = Some service\<close> by (simp add: processMethodCall_def Let_def)
    next
      case (Some r)
      then have r: "r = request" using lossless_request [OF assms(1)] assms(5) by metis
      show ?thesis
      proof (cases "addRequestFileDescriptors request (take 16 (getMessageFds request))")
        case None
        then show ?thesis using Some r m assms(8,9) \<open>map_of _ _ = Some service\<close> \<open>FindMethodByName _ _ = Some m\<close>
          by (simp add: processMethodCall_def Let_def)
      next
        case (Some q)
        then have "q = request" using placed_request_is_sent [OF assms(6,7)] by blast
        then show ?thesis using Some r m id assms(8,9) \<open>map_of _ _ = Some service\<close> \<open>FindMethodByName _ _ = Some m\<close>
            \<open>ParseFromString _ _ _ = Some r\<close>
          by (simp add: processMethodCall_def Let_def)
      qed
    qed
  qed
qed

lemma serve_result:
  assumes "lossless pb" and "unique_methods methods" and "clients_inv methods (sv_clients s)" and "method \<in> set methods"
    and "pb_type request = md_input method" and "fd_message request" and "length (pb_fdFields request) \<le> 16"
    and "s' = processClientSocket pb ok i (False, Some [RecvMsg now (request_of pb k method request)]) s"
  shows "sv_clients s' = sv_clients s \<and> (sent_inv pb answers (sv_sent s) \<longrightarrow> sent_inv pb answers (sv_sent s')) \<and>
    (sv_handed s' = sv_handed s \<or> (\<exists>c. sv_handed s' = sv_handed s @ [c] \<and> sc_client c = i \<and> sc_serialId c = k \<and>
       sc_method c = method \<and> sc_request c = request))"
proof (cases "map_of (sv_clients s) i")
  case None
  then show ?thesis using assms(8) by (simp add: processClientSocket_def)
next
  case (Some d)
  have ok: "client_ok methods i d" using assms(3) map_of_SomeD [OF Some] by (simp add: clients_inv_def)
  show ?thesis
  proof (cases "i \<in> set (sv_condemnedClients s)")
    case True
    then show ?thesis using Some assms(8) by (simp add: processClientSocket_def)
  next
    case False
    have fds: "(if rightsOf (getMessageFds request) \<noteq> [] then readMessageFds_server (rightsOf (getMessageFds request)) 16 [] else []) =
        take 16 (getMessageFds request)"
      by (simp only: readMessageFds_server_eq received_fds)
    have "s' = processMethodCall pb ok (cd_client d) \<lparr>tc_serialId = k, tc_serviceName = md_service method, tc_methodName = md_name method,
      tc_requestMessage = SerializeAsString pb request\<rparr> (take 16 (getMessageFds request)) s"
      using assms(1,8) Some False fds
      by (cases "rightsOf (getMessageFds request) = []")
        (simp_all add: processClientSocket_def request_of_def processClientMessage_def)
    from processMethodCall_result [OF assms(1,2) ok assms(4-7) refl this] show ?thesis .
  qed
qed

text \<open>A reply that is delivered completes the call it answers, with the response of the service.\<close>

lemma deliver_reply:
  assumes "lossless pb" and "client_inv pb calls answers i ch" and "calls_inv methods calls counter"
    and "handed_inv calls handed" and "answers_inv handed answers"
    and "(c, m) \<in> set answers" and "sc_client c = i"
  shows "client_inv pb calls answers i (processServerMessage pb (dg_data (reply_of pb (sc_serialId c) m))
    (take 32 (set_fds (pb_fdFields m))) now ch)"
proof (cases "map_of (ch_methodCalls ch) (sc_serialId c)")
  case None
  then show ?thesis using assms(1,2) by (simp add: processServerMessage_def reply_of_def processReplyFromServer_def)
next
  case (Some call)
  let ?ch = "updateTimeoutTimer now (ch\<lparr>ch_methodCalls := erase (sc_serialId c) (ch_methodCalls ch)\<rparr>)"
  have handed: "c \<in> set handed" "pb_type m = md_output (sc_method c)" "fd_message m"
    using assms(5,6) by (auto simp: answers_inv_def)
  obtain mth request where made: "(i, sc_serialId c, mth, request, mc_response call) \<in> set calls"
    "mc_responseType call = md_output mth"
    using assms(2) map_of_SomeD [OF Some] unfolding client_inv_def by blast
  obtain p where "(i, sc_serialId c, sc_method c, sc_request c, p) \<in> set calls"
    using assms(4,7) handed(1) unfolding handed_inv_def by blast
  with made assms(3) have same: "mth = sc_method c" "request = sc_request c" "p = mc_response call"
    unfolding calls_inv_def by blast+
  show ?thesis
  proof (cases "\<exists>r r'. ParseFromString pb (mc_responseType call) (SerializeAsString pb m) = Some r \<and>
      addReplyFileDescriptors r (take 32 (set_fds (pb_fdFields m))) = Some r'")
    case True
    then obtain r r' where r: "ParseFromString pb (mc_responseType call) (SerializeAsString pb m) = Some r"
        "addReplyFileDescriptors r (take 32 (set_fds (pb_fdFields m))) = Some r'" by blast
    have "r = m" using lossless_request [OF assms(1), of m r] r(1) made(2) same(1) handed(2) by simp
    then have "r' = m" using r(2) placed_is_sent [OF handed(3)] by blast
    then have eq: "processServerMessage pb (dg_data (reply_of pb (sc_serialId c) m)) (take 32 (set_fds (pb_fdFields m))) now ch =
        logEffects (ResponseParsed (mc_response call) m # runsOf call) ?ch"
      using assms(1) Some r by (simp add: processServerMessage_def reply_of_def processReplyFromServer_def completion_log Let_def)
    have "client_inv pb calls answers i ?ch" by (rule quiet_inv [OF _ assms(2)]) (auto simp: quiet_def erase_def)
    moreover have "(i, sc_serialId c, sc_method c, sc_request c, mc_response call) \<in> set calls" using made same by simp
    ultimately show ?thesis unfolding eq client_inv_def using assms(6,7) by auto
  next
    case False
    then have "\<exists>reason. processServerMessage pb (dg_data (reply_of pb (sc_serialId c) m)) (take 32 (set_fds (pb_fdFields m))) now ch =
        logEffects (failuresOf call reason) ?ch"
      using assms(1) Some by (auto simp: processServerMessage_def reply_of_def processReplyFromServer_def completion_log Let_def split: option.splits)
    then show ?thesis using quiet_inv [OF quiet_fail assms(2)] by auto
  qed
qed

lemma deliver_other:
  assumes "lossless pb" and "other_message pb dg"
  shows "quiet ch (processServerMessage pb (dg_data dg) fds now ch)"
proof -
  consider k r where "dg_data dg = SerializeFromServer pb (FromError k r)" | e x where "dg_data dg = SerializeFromServer pb (FromEvent e x)"
    using assms(2) by (auto simp: other_message_def)
  then show ?thesis
  proof cases
    case 1
    then show ?thesis using assms(1) quiet_fail
      by (auto simp: processServerMessage_def processErrorFromServer_def completion_log Let_def split: option.splits)
  next
    case 2
    then show ?thesis using assms(1)
      by (auto simp: processServerMessage_def processEventFromServer_def quiet_def Let_def split: option.splits list.splits)
  qed
qed

lemma deliver_client_inv:
  assumes "lossless pb" and "client_inv pb calls answers i ch" and "calls_inv methods calls counter"
    and "handed_inv calls handed" and "answers_inv handed answers" and "sent_inv pb answers sent" and "dg \<in> set (sent i)"
  shows "client_inv pb calls answers i (snd (processChannel pb (socketInput now dg) ch))"
proof -
  let ?fds = "if dg_control dg \<noteq> [] then readMessageFds (dg_control dg) 32 [] else []"
  have "client_inv pb calls answers i (processServerMessage pb (dg_data dg) ?fds now ch)"
  proof (cases "other_message pb dg")
    case True
    then show ?thesis using quiet_inv [OF deliver_other assms(2)] assms(1) by blast
  next
    case False
    then obtain c m where c: "(c, m) \<in> set answers" "sc_client c = i" "dg = reply_of pb (sc_serialId c) m"
      using assms(6,7) unfolding sent_inv_def by blast
    have "?fds = take 32 (set_fds (pb_fdFields m))" by (simp only: c(3) reply_of_def Datagram.simps received_fds)
    then show ?thesis using deliver_reply [OF assms(1-5) c(1,2), of now] c(3) by simp
  qed
  moreover have "client_inv pb calls answers i ch" by (rule assms(2))
  ultimately show ?thesis by (auto simp: processChannel_def socketInput_def Let_def)
qed

lemma handed_inv_more: "handed_inv calls handed \<Longrightarrow> set calls \<subseteq> set calls' \<Longrightarrow> handed_inv calls' handed"
  unfolding handed_inv_def by blast

lemma sent_inv_more: "sent_inv pb answers sent \<Longrightarrow> set answers \<subseteq> set answers' \<Longrightarrow> sent_inv pb answers' sent"
  unfolding sent_inv_def by blast

lemma quiet_counter: "quiet ch ch' \<Longrightarrow> ch_serialCounter ch' = ch_serialCounter ch"
  by (simp add: quiet_def)

lemma deliver_counter: "lossless pb \<Longrightarrow> ch_serialCounter (snd (processChannel pb (socketInput now dg) ch)) = ch_serialCounter ch"
proof -
  have "ch_serialCounter (processServerMessage pb d fds now ch) = ch_serialCounter ch" for d fds now
    by (auto simp: processServerMessage_def processReplyFromServer_def processErrorFromServer_def processEventFromServer_def
        completion_log Let_def split: option.splits MessageFromServer.splits list.splits)
  then show ?thesis by (simp add: processChannel_def socketInput_def Let_def)
qed

lemma counter_upd:
  "ch_serialCounter ch' = ch_serialCounter (f i) \<Longrightarrow> (\<lambda>j. ch_serialCounter ((f(i := ch')) j)) = (\<lambda>j. ch_serialCounter (f j))"
  by auto

lemma ipc_step_inv:
  assumes "lossless pb" and "unique_methods methods" and "ipc_inv pb methods w" and "ipc_step pb methods w w'"
  shows "ipc_inv pb methods w'"
  using assms(4)
proof cases
  note inv = assms(3) [unfolded ipc_inv_def]
  case (call mth request i response controller closure now later sendOk)
  let ?new = "(i, ch_serialCounter (is_channels w i), mth, request, response)"
  let ?ch = "CallMethod pb mth controller request response closure now later sendOk (is_channels w i)"
  have "calls_inv methods (is_calls w @ [?new]) ((\<lambda>i. ch_serialCounter (is_channels w i))(i := ch_serialCounter (is_channels w i) + 1))"
    using calls_inv_call [of methods "is_calls w" "\<lambda>i. ch_serialCounter (is_channels w i)" i mth request response] inv call by blast
  moreover have "ch_serialCounter ?ch = ch_serialCounter (is_channels w i) + 1" by (rule CallMethod_shape(1)) simp
  ultimately have "calls_inv methods (is_calls w') (\<lambda>i. ch_serialCounter (is_channels w' i))"
    by (simp add: call(1) fun_upd_def if_distrib cong: if_cong)
  moreover have "client_inv pb (is_calls w') (is_answers w') j (is_channels w' j)" for j
  proof (cases "j = i")
    case True
    then show ?thesis using client_inv_call [of pb "is_calls w" "is_answers w" i] inv by (simp add: call(1))
  next
    case False
    then show ?thesis using client_inv_more [of pb "is_calls w" "is_answers w" j "is_channels w j"] inv by (simp add: call(1) subset_insertI)
  qed
  ultimately show ?thesis using inv handed_inv_more [of "is_calls w" _ "is_calls w @ [?new]"] by (simp add: ipc_inv_def call(1) subset_insertI)
next
  note inv = assms(3) [unfolded ipc_inv_def]
  case (serve i sendOk now)
  let ?dg = "ch_sent (is_channels w i) ! is_read w i"
  have "?dg \<in> set (ch_sent (is_channels w i))" using serve(2) by simp
  then obtain k mth request p where q: "(i, k, mth, request, p) \<in> set (is_calls w)" "?dg = request_of pb k mth request"
    using inv unfolding client_inv_def by blast
  then have ok: "mth \<in> set methods" "pb_type request = md_input mth" "fd_message request" "length (pb_fdFields request) \<le> 16"
    using inv unfolding calls_inv_def by blast+
  have c: "clients_inv methods (sv_clients (is_server w))" using inv by blast
  from serve_result [OF assms(1,2) c ok refl, of sendOk i now k "is_answers w"] inv q
  show ?thesis unfolding ipc_inv_def serve(1)
    by (auto simp: handed_inv_def answers_inv_def)
next
  note inv = assms(3) [unfolded ipc_inv_def]
  case (answer c response sendOk)
  let ?answers = "is_answers w @ [(c, response)]"
  have "sent_inv pb ?answers (sv_sent (is_server w))" using inv sent_inv_more [of pb "is_answers w" _ ?answers] by auto
  from handleResponse_result [OF this, of "newServerController (sc_client c) (sc_serialId c)" response sendOk] answer
  have r: "sent_inv pb ?answers (sv_sent (is_server w'))" "sv_clients (is_server w') = sv_clients (is_server w)"
    "sv_handed (is_server w') = sv_handed (is_server w)" by (auto simp: newServerController_def)
  have "client_inv pb (is_calls w) ?answers i (is_channels w i)" for i
    using inv client_inv_more [of pb "is_calls w" "is_answers w" i "is_channels w i" "is_calls w" ?answers] by auto
  with r inv answer show ?thesis unfolding ipc_inv_def by (auto simp: answers_inv_def)
next
  note inv = assms(3) [unfolded ipc_inv_def]
  case (fail c sendOk reason response)
  then show ?thesis using inv handleResponse_result [of pb "is_answers w" "is_server w"
      "SetFailed reason (newServerController (sc_client c) (sc_serialId c))" response sendOk]
    unfolding ipc_inv_def by (simp add: SetFailed_def)
next
  note inv = assms(3) [unfolded ipc_inv_def]
  case (deliver i now)
  have "sv_sent (is_server w) i ! is_delivered w i \<in> set (sv_sent (is_server w) i)" using deliver(2) by simp
  then show ?thesis using inv deliver_client_inv [OF assms(1), of "is_calls w" "is_answers w" i "is_channels w i" methods
        "\<lambda>i. ch_serialCounter (is_channels w i)" "sv_handed (is_server w)" "sv_sent (is_server w)"]
    unfolding ipc_inv_def deliver(1) by (simp add: counter_upd [OF deliver_counter [OF assms(1)]] del: fun_upd_apply) (simp add: fun_upd_def)
next
  note inv = assms(3) [unfolded ipc_inv_def]
  case (client st i)
  have q: "quiet (is_channels w i) (channelStep pb st (is_channels w i))" using client_step_quiet client(2) by blast
  then show ?thesis using inv quiet_inv [OF q, of pb "is_calls w" "is_answers w" i] quiet_counter [OF q]
    unfolding ipc_inv_def client(1) by (simp add: counter_upd del: fun_upd_apply) (simp add: fun_upd_def)
next
  case (connect c path cb)
  then show ?thesis using assms(3) clients_inv_connect [of methods "is_server w" c path cb] by (simp add: ipc_inv_def)
next
  case (export service i)
  then show ?thesis using assms(3) clients_inv_export [of methods "is_server w" service i] by (simp add: ipc_inv_def)
next
  case (event sendOk i message ok s)
  then show ?thesis using assms(3) sendEvent_result [OF event(2), of "is_answers w"] by (simp add: ipc_inv_def)
next
  case (condemn i)
  then show ?thesis using assms(3) by (simp add: ipc_inv_def)
next
  case (close sendOk)
  then show ?thesis using assms(3) close_result [of methods "(is_server w)\<lparr>sv_condemnedClients := []\<rparr>" "sv_condemnedClients (is_server w)"]
    by (simp add: ipc_inv_def processServer_def Let_def)
qed

lemma ipc_reach_inv:
  assumes "lossless pb" and "unique_methods methods" and "ipc_reach pb methods w"
  shows "ipc_inv pb methods w"
proof -
  obtain monitoring where "(ipc_step pb methods)\<^sup>*\<^sup>* (initialIpc monitoring) w" using assms(3) by (auto simp: ipc_reach_def)
  then show ?thesis
  proof (induction rule: rtranclp_induct)
    case base
    show ?case by (simp add: ipc_inv_def initialIpc_def newServer_def initialChannel_def calls_inv_def client_inv_def handed_inv_def
          sent_inv_def answers_inv_def clients_inv_def)
  qed (rule ipc_step_inv [OF assms(1,2)])
qed

text \<open>C27. However many clients call the server and however calls, answers, deliveries, events, timeouts and disconnections
  interleave, a response object is only ever filled with the answer a service gave to the call that object was passed
  with: the same client, serial number, method and request, with the descriptors the service put into it.
\<close>

theorem replies_answer_their_calls:
  assumes "lossless pb" and "unique_methods methods" and "ipc_reach pb methods w"
    and "ResponseParsed p m \<in> set (ch_effects (is_channels w i))"
  shows "\<exists>c. (c, m) \<in> set (is_answers w) \<and> c \<in> set (sv_handed (is_server w)) \<and> sc_client c = i \<and>
    (i, sc_serialId c, sc_method c, sc_request c, p) \<in> set (is_calls w)"
  using ipc_reach_inv [OF assms(1-3)] assms(4) unfolding ipc_inv_def client_inv_def answers_inv_def by blast

text \<open>A run: a client connects, gets a service, calls its method, and the answer is delivered.\<close>

definition sampleService :: ExportedService where
  "sampleService = \<lparr>se_fullName = ''S'', se_methods = [sampleMethod], se_object = 3\<rparr>"

definition sampleServer :: "(nat, nat PbMessage, nat PbMessage MessageToServer + nat PbMessage MessageFromServer) ServerImpl" where
  "sampleServer = exportService 10000 sampleService
     (snd (addClientSocket \<lparr>ac_peerCred = Some (1, 2, 3), ac_epoll = True\<rparr> [] None (newServer False True True)))"

definition sampleCall :: "nat ServerCall" where
  "sampleCall = \<lparr>sc_client = 10000, sc_serialId = 1, sc_service = 3, sc_method = sampleMethod,
     sc_request = sampleMessage ''Req'' 5, sc_noReply = False\<rparr>"

lemma sampleServer_fields:
  "sv_clients sampleServer = [(10000, \<lparr>cd_sock = True, cd_client = \<lparr>cl_clientId = 10000, cl_pid = 1, cl_uid = 2, cl_gid = 3,
     cl_services = [(''S'', sampleService)]\<rparr>, cd_disconnectedCb = None\<rparr>)]"
  "sv_condemnedClients sampleServer = []" "sv_handed sampleServer = []" "sv_sent sampleServer = (\<lambda>_. [])" "sv_monitor sampleServer = False"
  by (simp_all add: sampleServer_def exportService_def addClientSocket_def newServer_def FIRST_CLIENT_ID_def monitor_def emplace_def
      addService_def assign_def sampleService_def Let_def)

definition sampleChannel :: "(nat, nat PbMessage MessageToServer + nat PbMessage MessageFromServer) ChannelImpl" where
  "sampleChannel = initialChannel\<lparr>ch_sock := True\<rparr>"

definition sampleSent :: "(nat, nat PbMessage MessageToServer + nat PbMessage MessageFromServer) ChannelImpl" where
  "sampleSent = CallMethod directPb sampleMethod (Some 4) (sampleMessage ''Req'' 5) 6 (Some 7) 0 1000 True sampleChannel"

lemma sampleSent_fields:
  "ch_sent sampleSent = [request_of directPb 1 sampleMethod (sampleMessage ''Req'' 5)]" "ch_effects sampleSent = []" "ch_sock sampleSent"
  "ch_methodCalls sampleSent = [(1, \<lparr>mc_timeoutDeadline = 3000000000, mc_controller = Some 4, mc_response = 6,
     mc_responseType = ''Resp'', mc_closure = Some 7\<rparr>)]"
  by (simp_all add: sampleSent_def CallMethod_def sampleChannel_def initialChannel_def directPb_def sampleMethod_def noReplyExpected_def m_kMaxMessageSize_def
      emplace_def request_of_def Let_def)

section \<open>One call from end to end\<close>

text \<open>A message that can be sent: it is complete, its descriptors are set and few enough, and its encoding fits.\<close>

definition sendable :: "('b, 'w, 'd) Protobuf \<Rightarrow> string \<Rightarrow> nat \<Rightarrow> 'b PbMessage \<Rightarrow> bool" where
  "sendable pb type limit m \<longleftrightarrow> pb_type m = type \<and> IsInitialized pb m \<and> fd_message m \<and>
     (\<forall>f \<in> set (pb_fdFields m). ff_value f \<noteq> None) \<and> length (pb_fdFields m) \<le> limit"

definition serves :: "('b, 'w, 'd) ServerImpl \<Rightarrow> u64 \<Rightarrow> MethodDescriptor \<Rightarrow> nat \<Rightarrow> bool" where
  "serves s i method object \<longleftrightarrow> i \<notin> set (sv_condemnedClients s) \<and>
     (\<exists>d service. map_of (sv_clients s) i = Some d \<and> cd_sock d \<and> cl_clientId (cd_client d) = i \<and>
        map_of (cl_services (cd_client d)) (md_service method) = Some service \<and> se_object service = object \<and>
        FindMethodByName (md_name method) (se_methods service) = Some method)"

lemma set_fds_length: "\<forall>f \<in> set fs. ff_value f \<noteq> None \<Longrightarrow> length (set_fds fs) = length fs"
  by (induction fs) auto

lemma sendable_fds:
  assumes "sendable pb type limit m"
  shows "getMessageFds m = set_fds (pb_fdFields m)" "take limit (set_fds (pb_fdFields m)) = set_fds (pb_fdFields m)"
    "addReplyFileDescriptors m (set_fds (pb_fdFields m)) = Some m" "addRequestFileDescriptors m (set_fds (pb_fdFields m)) = Some m"
proof -
  have m: "fd_message m" "\<forall>f \<in> set (pb_fdFields m). ff_value f \<noteq> None" "length (pb_fdFields m) \<le> limit"
    using assms by (simp_all add: sendable_def)
  show "getMessageFds m = set_fds (pb_fdFields m)" by (rule request_fds [OF m(1,2)])
  show "take limit (set_fds (pb_fdFields m)) = set_fds (pb_fdFields m)" using set_fds_length [OF m(2)] m(3) by simp
  show own: "addReplyFileDescriptors m (set_fds (pb_fdFields m)) = Some m" by (rule add_own_fds [OF m(1)])
  then show "addRequestFileDescriptors m (set_fds (pb_fdFields m)) = Some m" by (simp add: addRequest_eq_addReply)
qed

lemma sendable_parse: "lossless pb \<Longrightarrow> sendable pb type limit m \<Longrightarrow> ParseFromString pb type (SerializeAsString pb m) = Some m"
  by (metis lossless_def sendable_def)

lemma serve_call:
  assumes "lossless pb" and "serves s i method object" and "sendable pb (md_input method) 16 request" and "\<not> noReplyExpected method"
  shows "\<exists>s'. processClientSocket pb ok i (False, Some [RecvMsg now (request_of pb k method request)]) s = s' \<and>
    sv_handed s' = sv_handed s @ [\<lparr>sc_client = i, sc_serialId = k, sc_service = object, sc_method = method, sc_request = request,
      sc_noReply = False\<rparr>] \<and> sv_sent s' = sv_sent s \<and> sv_clients s' = sv_clients s"
proof -
  obtain d service where d: "i \<notin> set (sv_condemnedClients s)" "map_of (sv_clients s) i = Some d" "cl_clientId (cd_client d) = i"
      "map_of (cl_services (cd_client d)) (md_service method) = Some service" "se_object service = object"
      "FindMethodByName (md_name method) (se_methods service) = Some method"
    using assms(2) by (auto simp: serves_def)
  note q = sendable_fds [OF assms(3)] sendable_parse [OF assms(1,3)]
  have fds: "(if rightsOf (getMessageFds request) \<noteq> [] then readMessageFds_server (rightsOf (getMessageFds request)) 16 [] else []) =
      set_fds (pb_fdFields request)"
    using q(1,2) by (simp only: readMessageFds_server_eq received_fds)
  have "processClientSocket pb ok i (False, Some [RecvMsg now (request_of pb k method request)]) s =
      processMethodCall pb ok (cd_client d) \<lparr>tc_serialId = k, tc_serviceName = md_service method, tc_methodName = md_name method,
        tc_requestMessage = SerializeAsString pb request\<rparr> (set_fds (pb_fdFields request)) s"
    using assms(1) d fds by (cases "rightsOf (getMessageFds request) = []")
      (simp_all add: processClientSocket_def request_of_def processClientMessage_def)
  then show ?thesis using d q assms(4) by (simp add: processMethodCall_def Let_def)
qed

lemma handleResponse_sends:
  assumes "map_of (sv_clients s) i = Some d" and "cd_sock d" and "fd_message response"
    and "ByteSizeLong pb (SerializeFromServer pb (FromReply k (SerializeAsString pb response))) \<le> 128 * 1024"
  shows "sv_sent (handleResponse pb True (newServerController i k) response s) i = sv_sent s i @ [reply_of pb k response]"
  using assms response_fds [OF assms(3)]
  by (cases "getResponseFileDescriptors response")
    (simp add: handleResponse_def newServerController_def populateReply_def sendReply_def Let_def m_kMaxMessageLen_def reply_of_def)

text \<open>C28. A call on a connected channel to a method its client was given a service for, with a request and a response
  that fit, goes through: the service is handed the request under the client's identifier and the call's serial number,
  and when it answers and the channel reads the reply, the response object holds the response, the closure is run,
  and the other calls in the table are as they were.
\<close>

theorem rpc_round_trip:
  assumes "lossless pb" and "channel_inv n ch" and "n + 1 < 2 ^ 64" and "ch_sock ch"
    and "serves s i method object" and "\<not> noReplyExpected method"
    and "sendable pb (md_input method) 16 request" and "sendable pb (md_output method) 32 response"
    and "ByteSizeLong pb (dg_data (request_of pb (ch_serialCounter ch) method request)) \<le> 128 * 1024"
    and "ByteSizeLong pb (dg_data (reply_of pb (ch_serialCounter ch) response)) \<le> 128 * 1024"
    and "ch1 = CallMethod pb method controller request p (Some closure) now later True ch"
    and "s1 = processClientSocket pb True i (False, Some [RecvMsg tServer (last (ch_sent ch1))]) s"
    and "s2 = handleResponse pb True (newServerController i (ch_serialCounter ch)) response s1"
    and "ch2 = snd (processChannel pb (socketInput tClient (last (sv_sent s2 i))) ch1)"
  shows "sv_handed s1 = sv_handed s @ [\<lparr>sc_client = i, sc_serialId = ch_serialCounter ch, sc_service = object, sc_method = method,
      sc_request = request, sc_noReply = False\<rparr>] \<and>
    ch_effects ch2 = ch_effects ch @ [ResponseParsed p response, ClosureRun closure] \<and> ch_methodCalls ch2 = ch_methodCalls ch"
proof -
  define c where "c = \<lparr>mc_timeoutDeadline = now + ch_defaultTimeout ch * 1000000, mc_controller = controller,
    mc_response = p, mc_responseType = md_output method, mc_closure = Some closure\<rparr>"
  let ?k = "ch_serialCounter ch"
  have ch1: "ch_sent ch1 = ch_sent ch @ [request_of pb ?k method request]" "ch_methodCalls ch1 = emplace ?k c (ch_methodCalls ch)"
      "ch_effects ch1 = ch_effects ch" "ch_sock ch1"
    using assms(4,6,9) by (simp_all add: assms(11) CallMethod_def Let_def request_of_def m_kMaxMessageSize_def c_def)
  from serve_call [OF assms(1,5,7,6), of True tServer ?k]
  have s1: "sv_handed s1 = sv_handed s @ [\<lparr>sc_client = i, sc_serialId = ?k, sc_service = object, sc_method = method,
      sc_request = request, sc_noReply = False\<rparr>]" "sv_clients s1 = sv_clients s"
    by (auto simp: assms(12) ch1(1))
  obtain d where d: "map_of (sv_clients s1) i = Some d" "cd_sock d" using assms(5) s1(2) by (auto simp: serves_def)
  have reply: "last (sv_sent s2 i) = reply_of pb ?k response"
    using handleResponse_sends [OF d, of response pb ?k] assms(8,10) by (simp add: assms(13) sendable_def reply_of_def)
  have fresh: "map_of (ch_methodCalls ch) ?k = None" using serial_fresh [OF assms(2,3)] .
  have std: "std_map (ch_methodCalls ch)" using assms(2) by (simp add: channel_inv_def)
  have parse: "ParseFromString pb (mc_responseType c) (SerializeAsString pb response) = Some response"
    using sendable_parse [OF assms(1,8)] by (simp add: c_def)
  have fds: "(if rightsOf (set_fds (pb_fdFields response)) \<noteq> [] then readMessageFds (rightsOf (set_fds (pb_fdFields response))) 32 [] else []) =
      set_fds (pb_fdFields response)"
    using sendable_fds(2) [OF assms(8)] by (simp only: received_fds)
  have step: "processServerMessage pb (dg_data (reply_of pb ?k response)) (set_fds (pb_fdFields response)) tClient ch1 =
      logEffects [ResponseParsed p response, ClosureRun closure] (updateTimeoutTimer tClient (ch1\<lparr>ch_methodCalls := ch_methodCalls ch\<rparr>))"
    using assms(1) ch1 fresh parse sendable_fds(3) [OF assms(8)] erase_emplace [OF std fresh, of c]
    by (simp add: processServerMessage_def reply_of_def processReplyFromServer_def completion_log runsOf_def Let_def c_def)
  have "ch2 = logEffects [ResponseParsed p response, ClosureRun closure] (updateTimeoutTimer tClient (ch1\<lparr>ch_methodCalls := ch_methodCalls ch\<rparr>))"
    using fds step ch1(4) unfolding assms(14) reply
    by (cases "rightsOf (set_fds (pb_fdFields response)) = []")
      (simp_all add: processChannel_def isConnected_channel_def socketInput_def reply_of_def Let_def)
  then show ?thesis using s1 ch1 by simp
qed

lemma sample_premises:
  "channel_inv 0 sampleChannel" "serves sampleServer 10000 sampleMethod 3" "\<not> noReplyExpected sampleMethod"
  "sendable directPb (md_input sampleMethod) 16 (sampleMessage ''Req'' 5)"
  "sendable directPb (md_output sampleMethod) 32 (sampleMessage ''Resp'' 9)" "ByteSizeLong directPb d \<le> 128 * 1024" "ch_sock sampleChannel"
  "ch_serialCounter sampleChannel = 1"
  by (simp_all add: channel_inv_def sampleChannel_def initialChannel_def serves_def sampleServer_fields sampleMethod_def sampleService_def
      FindMethodByName_def noReplyExpected_def sendable_def directPb_def sampleMessage_def fd_message_def)

theorem rpc_round_trip_witness:
  "\<exists>s1 s2 ch2. s1 = processClientSocket directPb True 10000 (False, Some [RecvMsg 0 (last (ch_sent sampleSent))]) sampleServer \<and>
    s2 = handleResponse directPb True (newServerController 10000 1) (sampleMessage ''Resp'' 9) s1 \<and>
    ch2 = snd (processChannel directPb (socketInput 0 (last (sv_sent s2 10000))) sampleSent) \<and>
    sv_handed s1 = [sampleCall] \<and> ch_effects ch2 = [ResponseParsed 6 (sampleMessage ''Resp'' 9), ClosureRun 7]"
proof -
  let ?resp = "sampleMessage ''Resp'' 9"
  define s1 where "s1 = processClientSocket directPb True 10000 (False, Some [RecvMsg 0 (last (ch_sent sampleSent))]) sampleServer"
  define s2 where "s2 = handleResponse directPb True (newServerController 10000 (ch_serialCounter sampleChannel)) ?resp s1"
  define ch2 where "ch2 = snd (processChannel directPb (socketInput 0 (last (sv_sent s2 10000))) sampleSent)"
  have n: "0 + 1 < (2 :: nat) ^ 64" by simp
  from rpc_round_trip [OF lossless_directPb sample_premises(1) n sample_premises(7,2-6,6) sampleSent_def s1_def s2_def ch2_def]
  have "sv_handed s1 = [sampleCall]" "ch_effects ch2 = [ResponseParsed 6 ?resp, ClosureRun 7]"
    by (simp_all add: sampleServer_fields sampleCall_def sample_premises(8)) (simp add: sampleChannel_def initialChannel_def)
  then show ?thesis using s1_def s2_def ch2_def sample_premises(8) by metis
qed

theorem replies_answer_their_calls_witness:
  "\<exists>w c. ipc_reach directPb [sampleMethod] w \<and> ResponseParsed 6 (sampleMessage ''Resp'' 9) \<in> set (ch_effects (is_channels w 10000)) \<and>
    (c, sampleMessage ''Resp'' 9) \<in> set (is_answers w) \<and> sc_request c = sampleMessage ''Req'' 5"
proof -
  let ?i = "10000 :: u64" and ?resp = "sampleMessage ''Resp'' 9"
  let ?step = "ipc_step directPb [sampleMethod]"
  define w0 where "w0 = (initialIpc False :: (nat, nat PbMessage, nat PbMessage MessageToServer + nat PbMessage MessageFromServer) IpcState)"
  define w1 where "w1 = w0\<lparr>is_server := snd (addClientSocket \<lparr>ac_peerCred = Some (1, 2, 3), ac_epoll = True\<rparr> [] None (is_server w0))\<rparr>"
  define w2 where "w2 = w1\<lparr>is_server := exportService ?i sampleService (is_server w1)\<rparr>"
  define w3 where "w3 = w2\<lparr>is_channels := (is_channels w2)(?i := CallMethod directPb sampleMethod (Some 4) (sampleMessage ''Req'' 5) 6 (Some 7) 0 1000 True (is_channels w2 ?i)),
      is_calls := is_calls w2 @ [(?i, ch_serialCounter (is_channels w2 ?i), sampleMethod, sampleMessage ''Req'' 5, 6)]\<rparr>"
  define w4 where "w4 = w3\<lparr>is_server := processClientSocket directPb True ?i (False, Some [RecvMsg 0 (ch_sent (is_channels w3 ?i) ! is_read w3 ?i)]) (is_server w3),
      is_read := (is_read w3)(?i := is_read w3 ?i + 1)\<rparr>"
  define w5 where "w5 = w4\<lparr>is_server := handleResponse directPb True (newServerController (sc_client sampleCall) (sc_serialId sampleCall)) ?resp (is_server w4),
      is_answers := is_answers w4 @ [(sampleCall, ?resp)]\<rparr>"
  define w6 where "w6 = w5\<lparr>is_channels := (is_channels w5)(?i := snd (processChannel directPb (socketInput 0 (sv_sent (is_server w5) ?i ! is_delivered w5 ?i)) (is_channels w5 ?i))),
      is_delivered := (is_delivered w5)(?i := is_delivered w5 ?i + 1)\<rparr>"
  have s2: "is_server w2 = sampleServer" "is_channels w2 = (\<lambda>_. sampleChannel)" "is_calls w2 = []" "is_read w2 = (\<lambda>_. 0)" "is_delivered w2 = (\<lambda>_. 0)" "is_answers w2 = []"
    by (simp_all add: w2_def w1_def w0_def initialIpc_def sampleServer_def sampleChannel_def)
  have s3: "is_channels w3 ?i = sampleSent" by (simp add: w3_def s2 sampleSent_def)
  have s4: "is_server w4 = processClientSocket directPb True ?i (False, Some [RecvMsg 0 (last (ch_sent sampleSent))]) sampleServer"
    by (simp add: w4_def s3 sampleSent_fields) (simp add: w3_def s2)
  have rt: "sv_handed (is_server w4) = [sampleCall]"
    "sv_sent (is_server w5) ?i = sv_sent (is_server w4) ?i @ [reply_of directPb 1 ?resp]" "sv_sent (is_server w4) ?i = []"
  proof -
    from serve_call [OF lossless_directPb sample_premises(2,4,3), of True 0 1]
    show h: "sv_handed (is_server w4) = [sampleCall]" "sv_sent (is_server w4) ?i = []"
      by (simp_all add: s4 sampleSent_fields sampleServer_fields sampleCall_def)
    have "sv_clients (is_server w4) = sv_clients sampleServer"
      using serve_call [OF lossless_directPb sample_premises(2,4,3), of True 0 1] by (simp add: s4 sampleSent_fields)
    then show "sv_sent (is_server w5) ?i = sv_sent (is_server w4) ?i @ [reply_of directPb 1 ?resp]"
      using handleResponse_sends [of "is_server w4" ?i _ ?resp directPb 1] sample_premises(6)
      by (simp add: w5_def sampleCall_def sampleServer_fields fd_message_def sampleMessage_def)
  qed
  have st: "?step w0 w1" "?step w1 w2" "?step w2 w3" "?step w3 w4" "?step w4 w5" "?step w5 w6"
    subgoal by (simp only: w1_def) (rule ipc_step.connect)
    subgoal by (simp only: w2_def) (rule ipc_step.export, simp add: sampleService_def sampleMethod_def)
    subgoal by (simp only: w3_def) (rule ipc_step.call, simp_all add: s2 sampleMessage_def sampleMethod_def fd_message_def sample_premises(8))
    subgoal by (simp only: w4_def) (rule ipc_step.serve, simp add: s3 sampleSent_fields, simp add: w3_def s2)
    subgoal by (simp only: w5_def) (rule ipc_step.answer, simp_all add: rt sampleCall_def sampleMessage_def sampleMethod_def fd_message_def)
    subgoal by (simp only: w6_def) (rule ipc_step.deliver, simp add: rt, simp add: w5_def w4_def w3_def s2)
    done
  have "?step\<^sup>*\<^sup>* w0 w6" using st by (meson r_into_rtranclp rtranclp_trans)
  then have reach: "ipc_reach directPb [sampleMethod] w6" unfolding ipc_reach_def w0_def by blast
  have "is_channels w5 ?i = sampleSent" "is_delivered w5 ?i = 0" using s3 by (simp_all add: w5_def w4_def) (simp add: w3_def s2)
  then have ch6: "is_channels w6 ?i = snd (processChannel directPb (socketInput 0 (reply_of directPb 1 ?resp)) sampleSent)"
    by (simp add: w6_def rt)
  have got: "ResponseParsed 6 ?resp \<in> set (ch_effects (is_channels w6 ?i))"
    unfolding ch6 using sampleSent_fields
    by (simp add: processChannel_def isConnected_channel_def socketInput_def reply_of_def Let_def processServerMessage_def directPb_def
        processReplyFromServer_def sampleMessage_def rightsOf_def addReplyFileDescriptors_def completion_log)
  have "unique_methods [sampleMethod]" by (simp add: unique_methods_def)
  from replies_answer_their_calls [OF lossless_directPb this reach got] obtain c where c: "(c, ?resp) \<in> set (is_answers w6)" by blast
  moreover have "is_answers w6 = [(sampleCall, ?resp)]" by (simp add: w6_def w5_def w4_def w3_def s2)
  ultimately have "sc_request c = sampleMessage ''Req'' 5" by (simp add: sampleCall_def)
  with c got reach show ?thesis by blast
qed

end
