(* ===== verification/Ipc_Server_Proofs.thy ===== *)
theory Ipc_Server_Proofs
  imports Ipc_Connection
begin

text \<open>
  The server end on its own: a client is reported as gone exactly once and never comes back under its identifier; and
  the lock on a listening socket does not protect the socket of the server that holds it.
\<close>

section \<open>Clients come and go\<close>

datatype ('b, 'd) ServerStep =
    PassStep bool "'d ServerEvent list option"
  | AddClientStep GivenSocket AddClientCalls "nat option"
  | DisconnectClientStep u64
  | ExportStep u64 ExportedService
  | RespondStep bool ServerControllerImpl "'b PbMessage"

fun serverStep :: "('b, 'w, 'd) Protobuf \<Rightarrow> ('b, 'd) ServerStep \<Rightarrow> ('b, 'w, 'd) ServerImpl \<Rightarrow> ('b, 'w, 'd) ServerImpl" where
  "serverStep pb (PassStep ok events) s = snd (processServer pb ok events s)"
| "serverStep pb (AddClientStep g c cb) s = snd (addClient g c cb s)"
| "serverStep pb (DisconnectClientStep i) s = disconnectClient i s"
| "serverStep pb (ExportStep i service) s = exportService i service s"
| "serverStep pb (RespondStep ok controller response) s = handleResponse pb ok controller response s"

text \<open>The clients whose disconnection was reported, in order, and the bookkeeping that makes it happen once.\<close>

fun reported :: "ServerCallback list \<Rightarrow> u64 list" where
  "reported [] = []"
| "reported (ClientDisconnected cb i # cs) = i # reported cs"
| "reported (ClientConnected cb i # cs) = reported cs"

definition clients_kept :: "('b, 'w, 'd) ServerImpl \<Rightarrow> bool" where
  "clients_kept s \<longleftrightarrow> std_map (sv_clients s) \<and> distinct (reported (sv_callbacks s)) \<and>
     (\<forall>i \<in> set (reported (sv_callbacks s)). map_of (sv_clients s) i = None) \<and>
     (\<forall>i. map_of (sv_clients s) i \<noteq> None \<or> i \<in> set (reported (sv_callbacks s)) \<longrightarrow> i < sv_clientIdCounter s)"

text \<open>There are identifiers left for that many more clients.\<close>

definition ids_left :: "nat \<Rightarrow> ('b, 'w, 'd) ServerImpl \<Rightarrow> bool" where
  "ids_left n s \<longleftrightarrow> unat (sv_clientIdCounter s) + n < 2 ^ 64"

lemma reported_append [simp]: "reported (cs @ ds) = reported cs @ reported ds"
  by (induction cs rule: reported.induct) auto

text \<open>Steps that leave clients, callbacks and counter alone.\<close>

definition same_clients :: "('b, 'w, 'd) ServerImpl \<Rightarrow> ('b, 'w, 'd) ServerImpl \<Rightarrow> bool" where
  "same_clients s s' \<longleftrightarrow> sv_clients s' = sv_clients s \<and> sv_callbacks s' = sv_callbacks s \<and> sv_clientIdCounter s' = sv_clientIdCounter s \<and>
     set (sv_condemnedClients s) \<subseteq> set (sv_condemnedClients s')"

lemma same_inv: "same_clients s s' \<Longrightarrow> clients_kept s' = clients_kept s"
  by (simp add: same_clients_def clients_kept_def)

lemma same_refl [simp]: "same_clients s s"
  by (simp add: same_clients_def)

lemma same_trans: "same_clients s s' \<Longrightarrow> same_clients s' s'' \<Longrightarrow> same_clients s s''"
  by (auto simp: same_clients_def)

lemma same_monitor: "same_clients s (monitor e s)"
  by (simp add: same_clients_def monitor_def)

lemma same_sendReply: "same_clients s (sendReply ok i m s)"
  by (simp add: same_clients_def sendReply_def pushSent_def split: option.splits)

lemmas same_reply = same_trans [OF same_monitor same_sendReply]

lemma same_errorReply: "same_clients s (sendErrorReply pb ok i k text s)"
  by (simp add: sendErrorReply_def populateErrorReply_def Let_def same_reply)

lemma same_handleResponse: "same_clients s (handleResponse pb ok controller response s)"
  by (auto simp: handleResponse_def populateErrorReply_def populateReply_def Let_def same_reply split: prod.splits)

lemma same_clientMessage: "same_clients s (processClientMessage pb ok client data fds s)"
  using same_errorReply [of s pb ok "cl_clientId client"] same_monitor [of s]
  by (auto simp: processClientMessage_def processMethodCall_def processMonitorRequest_def Let_def same_clients_def
      split: option.splits MessageToServer.splits list.splits)

lemma same_disconnectClient: "same_clients s (disconnectClient i s) \<and> i \<in> set (sv_condemnedClients (disconnectClient i s))"
  by (auto simp: same_clients_def disconnectClient_def wakeEventLoop_def set_insort_insert)

lemma same_readClientSocket: "same_clients s (readClientSocket pb ok i client rs s)"
proof (induction rs arbitrary: s)
  case (Cons r rs)
  show ?case
  proof (cases r)
    case (RecvMsg now dg)
    then show ?thesis using same_trans [OF same_clientMessage Cons.IH] Cons.IH by simp
  qed (simp_all add: same_disconnectClient)
qed simp

lemma same_clientSocket: "same_clients s (processClientSocket pb ok i events s)"
  by (auto simp: processClientSocket_def same_disconnectClient same_readClientSocket split: option.splits)

section \<open>Steps that change them\<close>

lemma unat_next:
  assumes "ids_left (Suc n) s"
  shows "unat (sv_clientIdCounter s + 1) = unat (sv_clientIdCounter s) + 1"
proof -
  have "unat (sv_clientIdCounter s) + 1 < 2 ^ 64" using assms by (simp add: ids_left_def)
  then show ?thesis by (simp add: unat_word_ariths)
qed

text \<open>A step that may accept one client.\<close>

definition accepts :: "nat \<Rightarrow> ('b, 'w, 'd) ServerImpl \<Rightarrow> ('b, 'w, 'd) ServerImpl \<Rightarrow> bool" where
  "accepts n s s' \<longleftrightarrow> (clients_kept s \<longrightarrow> ids_left n s \<longrightarrow> clients_kept s' \<and> unat (sv_clientIdCounter s') \<le> unat (sv_clientIdCounter s) + n \<and>
     set (reported (sv_callbacks s')) = set (reported (sv_callbacks s)) \<and>
     set (sv_condemnedClients s) \<subseteq> set (sv_condemnedClients s') \<and>
     (\<forall>i. map_of (sv_clients s) i \<noteq> None \<longrightarrow> map_of (sv_clients s') i = map_of (sv_clients s) i))"

lemma same_accepts: "same_clients s s' \<Longrightarrow> accepts n s s'"
  using same_inv [of s s'] by (auto simp: accepts_def same_clients_def)

lemma accepts_trans: "accepts n s s' \<Longrightarrow> accepts m s' s'' \<Longrightarrow> accepts (n + m) s s''"
  unfolding accepts_def ids_left_def by (auto; metis (no_types, lifting) add.assoc add_le_cancel_right le_trans order_le_less_trans subset_iff add_mono_thms_linordered_semiring(3) nat_le_linear)

lemma addClientSocket_accepts: "accepts 1 s (snd (addClientSocket c path cb s))"
  unfolding accepts_def
proof (intro impI)
  assume inv: "clients_kept s" and left: "ids_left 1 s"
  show "clients_kept (snd (addClientSocket c path cb s)) \<and>
    unat (sv_clientIdCounter (snd (addClientSocket c path cb s))) \<le> unat (sv_clientIdCounter s) + 1 \<and>
    set (reported (sv_callbacks (snd (addClientSocket c path cb s)))) = set (reported (sv_callbacks s)) \<and>
    set (sv_condemnedClients s) \<subseteq> set (sv_condemnedClients (snd (addClientSocket c path cb s))) \<and>
    (\<forall>i. map_of (sv_clients s) i \<noteq> None \<longrightarrow> map_of (sv_clients (snd (addClientSocket c path cb s))) i = map_of (sv_clients s) i)"
  proof (cases "ac_peerCred c")
    case None
    then show ?thesis using inv by (simp add: addClientSocket_def)
  next
    case (Some cred)
    obtain pid uid gid where cred: "cred = (pid, uid, gid)" by (metis prod_cases3)
    let ?n = "sv_clientIdCounter s"
    have fresh: "map_of (sv_clients s) ?n = None" "?n \<notin> set (reported (sv_callbacks s))"
      using inv by (auto simp: clients_kept_def)
    have step: "unat (?n + 1) = unat ?n + 1" using unat_next [of 0 s] left by simp
    then have nxt: "\<And>i. i < ?n \<Longrightarrow> i < ?n + 1" "?n < ?n + 1" by (auto simp: word_less_nat_alt)
    show ?thesis using inv fresh nxt step Some cred
      by (auto simp: addClientSocket_def Let_def clients_kept_def std_map_emplace)
  qed
qed

text \<open>What a pass does to the condemned: each is gone afterwards and reported if it has a callback.\<close>

lemma closeCondemned_inv:
  assumes "clients_kept s"
  shows "clients_kept (closeCondemned i s) \<and> sv_clientIdCounter (closeCondemned i s) = sv_clientIdCounter s \<and>
    map_of (sv_clients (closeCondemned i s)) = (map_of (sv_clients s))(i := None) \<and>
    set (reported (sv_callbacks s)) \<subseteq> set (reported (sv_callbacks (closeCondemned i s))) \<and>
    (\<forall>d cb. map_of (sv_clients s) i = Some d \<longrightarrow> cd_disconnectedCb d = Some cb \<longrightarrow> ClientDisconnected cb i \<in> set (sv_callbacks (closeCondemned i s)))"
proof (cases "map_of (sv_clients s) i")
  case None
  then show ?thesis using assms by (auto simp: closeCondemned_def)
next
  case (Some d)
  then have "i \<notin> set (reported (sv_callbacks s))" "i < sv_clientIdCounter s" using assms by (auto simp: clients_kept_def)
  then show ?thesis using assms Some
    by (auto simp: closeCondemned_def Let_def clients_kept_def std_map_erase split: option.splits)
qed

lemma closeAll_inv:
  assumes "clients_kept s"
  shows "clients_kept (fold closeCondemned is s) \<and> sv_clientIdCounter (fold closeCondemned is s) = sv_clientIdCounter s \<and>
    (\<forall>i \<in> set is. map_of (sv_clients (fold closeCondemned is s)) i = None) \<and>
    (\<forall>i. map_of (sv_clients s) i = None \<longrightarrow> map_of (sv_clients (fold closeCondemned is s)) i = None) \<and>
    set (sv_callbacks s) \<subseteq> set (sv_callbacks (fold closeCondemned is s)) \<and>
    (\<forall>i d cb. i \<in> set is \<longrightarrow> map_of (sv_clients s) i = Some d \<longrightarrow> cd_disconnectedCb d = Some cb \<longrightarrow>
       ClientDisconnected cb i \<in> set (sv_callbacks (fold closeCondemned is s)))"
  using assms
proof (induction "is" arbitrary: s)
  case (Cons j "is")
  note one = closeCondemned_inv [OF Cons.prems, of j]
  have mono: "set (sv_callbacks s) \<subseteq> set (sv_callbacks (closeCondemned j s))"
    by (auto simp: closeCondemned_def Let_def split: option.splits)
  note rest = Cons.IH [OF conjunct1 [OF one]]
  have "ClientDisconnected cb i \<in> set (sv_callbacks (fold closeCondemned is (closeCondemned j s)))"
    if "i \<in> set (j # is)" "map_of (sv_clients s) i = Some d" "cd_disconnectedCb d = Some cb" for i d cb
  proof (cases "i = j")
    case True
    then have "ClientDisconnected cb i \<in> set (sv_callbacks (closeCondemned j s))" using one that by blast
    then show ?thesis using rest by blast
  next
    case False
    then have "i \<in> set is" "map_of (sv_clients (closeCondemned j s)) i = Some d" using that one by auto
    then show ?thesis using rest that(3) by blast
  qed
  moreover have "map_of (sv_clients (fold closeCondemned is (closeCondemned j s))) i = None" if "i \<in> set (j # is)" for i
    using that one rest by (cases "i = j") auto
  moreover have "map_of (sv_clients (fold closeCondemned is (closeCondemned j s))) i = None" if "map_of (sv_clients s) i = None" for i
    using that one rest by (metis fun_upd_apply)
  ultimately show ?case using rest one mono by auto
qed simp

lemma newConnection_accepts: "accepts 1 s (processNewConnection ok c socketId s)"
proof (cases "map_of (sv_sockets s) socketId")
  case None
  then show ?thesis by (simp add: processNewConnection_def same_accepts)
next
  case (Some socket)
  obtain client s' where add: "addClientSocket c (so_sockPath socket) (so_disconnectedCb socket) s = (client, s')" by fastforce
  have one: "accepts 1 s s'" using addClientSocket_accepts [of s c "so_sockPath socket" "so_disconnectedCb socket"] add by simp
  have cb: "accepts 1 s (s'\<lparr>sv_callbacks := sv_callbacks s' @ [ClientConnected cb i]\<rparr>)" for cb i
    using one by (simp add: accepts_def clients_kept_def)
  show ?thesis using Some add one cb by (auto simp: processNewConnection_def same_accepts split: option.splits)
qed

lemma serverEvent_accepts: "accepts 1 s (processServerEvent pb ok e s)"
  using newConnection_accepts [of s] same_accepts [OF same_clientSocket [of s pb ok]]
  by (auto simp: processServerEvent_def same_clients_def intro!: same_accepts)

lemma serverEvents_accept: "accepts (length es) s (fold (processServerEvent pb ok) es s)"
proof (induction es arbitrary: s)
  case (Cons e es)
  then show ?case using accepts_trans [OF serverEvent_accepts [of s pb ok e] Cons.IH [of "processServerEvent pb ok e s"]] by simp
qed (simp add: same_accepts)

lemma pass_inv:
  assumes "clients_kept s" and "ids_left 32 s" and "processServer pb ok events s = (b, s')"
  shows "clients_kept s' \<and> unat (sv_clientIdCounter s') \<le> unat (sv_clientIdCounter s) + 32 \<and>
    set (reported (sv_callbacks s)) \<subseteq> set (reported (sv_callbacks s'))"
proof (cases "sv_pollFd s \<and> events \<noteq> None")
  case False
  then have "s' = s" using assms(3) by (auto simp: processServer_def split: if_splits)
  then show ?thesis using assms by simp
next
  case True
  then obtain es where es: "events = Some es" by blast
  let ?s = "fold (processServerEvent pb ok) (take 32 es) s"
  have "ids_left (length (take 32 es)) s" using assms(2) by (auto simp: ids_left_def)
  then have one: "clients_kept ?s" "unat (sv_clientIdCounter ?s) \<le> unat (sv_clientIdCounter s) + 32"
      "set (reported (sv_callbacks ?s)) = set (reported (sv_callbacks s))"
    using serverEvents_accept [of "take 32 es" s pb ok] assms(1) unfolding accepts_def by (auto intro: order_trans)
  have s': "s' = fold closeCondemned (sv_condemnedClients ?s) (?s\<lparr>sv_condemnedClients := []\<rparr>)"
    using assms(3) True es by (simp add: processServer_def Let_def)
  have "clients_kept (?s\<lparr>sv_condemnedClients := []\<rparr>)" using one(1) by (simp add: clients_kept_def)
  note two = closeAll_inv [OF this, of "sv_condemnedClients ?s"]
  have mono: "set (reported cs) \<subseteq> set (reported ds)" if "set cs \<subseteq> set ds" for cs ds
  proof -
    have mem: "i \<in> set (reported es) \<longleftrightarrow> (\<exists>cb. ClientDisconnected cb i \<in> set es)" for i es by (induction es rule: reported.induct) auto
    show ?thesis using that unfolding subset_iff mem by blast
  qed
  have "set (sv_callbacks ?s) \<subseteq> set (sv_callbacks s')" using two unfolding s' by simp
  from mono [OF this] one(3) have "set (reported (sv_callbacks s)) \<subseteq> set (reported (sv_callbacks s'))" by simp
  moreover have "clients_kept s'" "sv_clientIdCounter s' = sv_clientIdCounter ?s" using two unfolding s' by simp_all
  ultimately show ?thesis using one(2) by simp
qed

lemma step_inv:
  assumes "clients_kept s" and "ids_left 32 s"
  shows "clients_kept (serverStep pb st s) \<and> unat (sv_clientIdCounter (serverStep pb st s)) \<le> unat (sv_clientIdCounter s) + 32"
proof (cases st)
  case (PassStep ok events)
  then show ?thesis using pass_inv [OF assms, of pb ok events] by (cases "processServer pb ok events s") auto
next
  case (AddClientStep g c cb)
  have "ids_left 1 s" using assms(2) by (simp add: ids_left_def)
  then show ?thesis using addClientSocket_accepts [of s c "[]" cb] assms(1) AddClientStep
    by (auto simp: accepts_def addClient_def)
next
  case (DisconnectClientStep i)
  then show ?thesis using same_inv [OF conjunct1 [OF same_disconnectClient [of s i]]] same_disconnectClient [of s i] assms(1)
    by (simp add: same_clients_def)
next
  case (ExportStep i service)
  have "clients_kept (exportService i service s)"
  proof (cases "map_of (sv_clients s) i")
    case (Some d)
    then show ?thesis using assms(1) by (auto simp: exportService_def clients_kept_def std_map_assign map_of_assign split: if_splits)
  qed (simp add: exportService_def assms(1))
  then show ?thesis using ExportStep by (simp add: exportService_def split: option.splits)
next
  case (RespondStep ok controller response)
  then show ?thesis using same_handleResponse [of s pb ok controller response] same_inv assms(1) by (auto simp: same_clients_def)
qed

lemma steps_inv:
  "clients_kept s \<Longrightarrow> ids_left (32 * length steps) s \<Longrightarrow> clients_kept (fold (serverStep pb) steps s)"
proof (induction steps arbitrary: s)
  case (Cons st steps)
  have "ids_left 32 s" using Cons.prems(2) by (simp add: ids_left_def)
  note one = step_inv [OF Cons.prems(1) this, of pb st]
  then have "ids_left (32 * length steps) (serverStep pb st s)" using Cons.prems(2) by (auto simp: ids_left_def)
  then show ?case using Cons.IH one by simp
qed simp

lemma new_clients_kept: "clients_kept (newServer monitoring eventFdOk epollOk)"
  by (simp add: clients_kept_def newServer_def)

text \<open>Whatever passes of the event loop, new clients, disconnections and answers a server goes through, no client is
  reported as disconnected twice, and none that was reported is still among the clients: an identifier is never given
  to a second client. Each step accepts at most 32 clients.
\<close>

theorem disconnection_reported_once:
  assumes "32 * length steps + 10000 < 2 ^ 64"
    and "s = fold (serverStep pb) steps (newServer monitoring eventFdOk epollOk)"
  shows "distinct (reported (sv_callbacks s)) \<and> (\<forall>i \<in> set (reported (sv_callbacks s)). \<not> isClientConnected i s)"
proof -
  have "ids_left (32 * length steps) (newServer monitoring eventFdOk epollOk)"
    using assms(1) by (simp add: ids_left_def newServer_def FIRST_CLIENT_ID_def)
  from steps_inv [OF new_clients_kept this, of pb] show ?thesis by (simp add: assms(2) clients_kept_def isClientConnected_def)
qed

text \<open>A client that is condemned, by its own end of the connection or by the server, is closed by the next pass of the
  event loop: it is no longer connected, and its disconnection is reported to the callback it was added with.
\<close>

theorem condemned_client_is_closed:
  assumes "clients_kept s" and "ids_left 32 s" and "sv_pollFd s" and "map_of (sv_clients s) i = Some d"
    and "cd_disconnectedCb d = Some cb"
    and "s' = snd (processServer pb ok (Some events) (disconnectClient i s))"
  shows "\<not> isClientConnected i s' \<and> ClientDisconnected cb i \<in> set (sv_callbacks s')"
proof -
  let ?start = "disconnectClient i s"
  let ?s = "fold (processServerEvent pb ok) (take 32 events) ?start"
  have same: "same_clients s ?start" "i \<in> set (sv_condemnedClients ?start)" using same_disconnectClient by auto
  have "clients_kept ?start" "ids_left (length (take 32 events)) ?start"
    using same_inv [OF same(1)] assms(1,2) same(1) by (auto simp: ids_left_def same_clients_def)
  then have one: "clients_kept ?s" "i \<in> set (sv_condemnedClients ?s)" "map_of (sv_clients ?s) i = Some d"
    using serverEvents_accept [of "take 32 events" ?start pb ok] same assms(4) unfolding accepts_def same_clients_def by auto
  have poll: "sv_pollFd ?start" using assms(3) by (simp add: disconnectClient_def wakeEventLoop_def)
  have s': "s' = fold closeCondemned (sv_condemnedClients ?s) (?s\<lparr>sv_condemnedClients := []\<rparr>)"
    using poll by (simp add: assms(6) processServer_def Let_def)
  have "clients_kept (?s\<lparr>sv_condemnedClients := []\<rparr>)" using one(1) by (simp add: clients_kept_def)
  from closeAll_inv [OF this, of "sv_condemnedClients ?s"] one assms(5) show ?thesis
    unfolding s' isClientConnected_def by auto
qed

theorem disconnection_reported_once_witness:
  "distinct (reported (sv_callbacks (fold (serverStep directPb)
     [AddClientStep \<lparr>gs_hasName = True, gs_isUnix = True, gs_hasType = True, gs_isSeqpacket = True, gs_dupOk = True, gs_nonBlockOk = True\<rparr>
        \<lparr>ac_peerCred = Some (1, 2, 3), ac_epoll = True\<rparr> (Some 5), DisconnectClientStep 10000, DisconnectClientStep 10000,
      PassStep True (Some [])] (newServer False True True))))"
  using disconnection_reported_once [OF _ refl, of "[AddClientStep \<lparr>gs_hasName = True, gs_isUnix = True, gs_hasType = True, gs_isSeqpacket = True,
     gs_dupOk = True, gs_nonBlockOk = True\<rparr> \<lparr>ac_peerCred = Some (1, 2, 3), ac_epoll = True\<rparr> (Some 5), DisconnectClientStep 10000,
     DisconnectClientStep 10000, PassStep True (Some [])]" directPb False True True] by (simp del: fold_simps)

theorem condemned_client_is_closed_witness:
  "\<exists>s' :: (nat, nat PbMessage, nat PbMessage MessageToServer + nat PbMessage MessageFromServer) ServerImpl.
     \<not> isClientConnected 10000 s' \<and> ClientDisconnected 5 10000 \<in> set (sv_callbacks s')"
proof -
  define s where "s = snd (addClientSocket \<lparr>ac_peerCred = Some (1, 2, 3), ac_epoll = True\<rparr> [] (Some 5)
    (newServer False True True :: (nat, nat PbMessage, nat PbMessage MessageToServer + nat PbMessage MessageFromServer) ServerImpl))"
  have left: "ids_left 1 (newServer False True True :: (nat, nat PbMessage, nat PbMessage MessageToServer + nat PbMessage MessageFromServer) ServerImpl)"
    by (simp add: ids_left_def newServer_def FIRST_CLIENT_ID_def)
  have inv: "clients_kept s" using addClientSocket_accepts [of "newServer False True True"] new_clients_kept left
    unfolding s_def accepts_def by blast
  have f: "ids_left 32 s" "sv_pollFd s" "\<exists>d. map_of (sv_clients s) 10000 = Some d \<and> cd_disconnectedCb d = Some 5"
    by (simp_all add: s_def addClientSocket_def newServer_def FIRST_CLIENT_ID_def monitor_def Let_def ids_left_def)
  then obtain d where "map_of (sv_clients s) 10000 = Some d" "cd_disconnectedCb d = Some 5" by blast
  from condemned_client_is_closed [OF inv f(1,2) this refl, of directPb True "[]"] show ?thesis by blast
qed

section \<open>Listening sockets and their locks\<close>

text \<open>A second server that is started on a path whose lock is held by a running server fails, as it should, but on its
  way out it removes the socket file of the running server: from then on no client finds it.
\<close>

theorem second_server_removes_socket:
  assumes "path \<noteq> []" and "path \<in> fs_sockets fs" and "path @ ''.lock'' \<in> fs_locked fs" and "as_socket c"
    and "addSocket c path connected disconnected s fs = (ok, s', fs')"
  shows "\<not> ok \<and> s' = s \<and> path \<notin> fs_sockets fs' \<and> path @ ''.lock'' \<in> fs_locked fs'"
  using assms by (auto simp: addSocket_def getSocketLock_def closeListeningSocket_def Let_def split: if_splits)

theorem second_server_removes_socket_witness:
  "\<exists>fs' s'. addSocket \<lparr>as_socket = True, as_open = True, as_stat = True, as_bind = True, as_listen = True, as_epoll = True\<rparr> ''/tmp/r'' None None
     sampleServer \<lparr>fs_sockets = {''/tmp/r''}, fs_writable = (\<lambda>_. True), fs_lockFiles = {''/tmp/r.lock''}, fs_locked = {''/tmp/r.lock''}\<rparr> =
     (False, s', fs') \<and> ''/tmp/r'' \<notin> fs_sockets fs'"
proof -
  let ?c = "\<lparr>as_socket = True, as_open = True, as_stat = True, as_bind = True, as_listen = True, as_epoll = True\<rparr>"
  let ?fs = "\<lparr>fs_sockets = {''/tmp/r''}, fs_writable = (\<lambda>_. True), fs_lockFiles = {''/tmp/r.lock''}, fs_locked = {''/tmp/r.lock''}\<rparr>"
  obtain ok s' fs' where r: "addSocket ?c ''/tmp/r'' None None sampleServer ?fs = (ok, s', fs')" by (metis prod_cases3)
  have "\<not> ok \<and> ''/tmp/r'' \<notin> fs_sockets fs'" using second_server_removes_socket [OF _ _ _ _ r] by simp
  with r show ?thesis by auto
qed

text \<open>A socket that is added is locked and listed, and the destructor takes away what was added.\<close>

lemma added_socket_is_locked:
  assumes "addSocket c path connected disconnected s fs = (True, s', fs')" and "path @ ''.lock'' \<notin> fs_locked fs"
  shows "path \<in> fs_sockets fs' \<and> path @ ''.lock'' \<in> fs_locked fs'"
  using assms by (auto simp: addSocket_def getSocketLock_def Let_def split: if_splits)

text \<open>Sending an event to a client that has left reads past the end of the map of clients.\<close>

lemma event_to_departed_client:
  assumes "\<not> isClientConnected i s" and "\<And>d. ByteSizeLong pb d \<le> 128 * 1024"
  shows "sendEvent_server pb ok i message s = None"
  using assms by (simp add: sendEvent_server_def isClientConnected_def m_kMaxMessageLen_def Let_def not_less [symmetric] split: prod.splits)

text \<open>A request that does not parse, or whose descriptors do not match, is dropped without a reply.\<close>

lemma malformed_request_is_dropped:
  assumes "map_of (cl_services client) (tc_serviceName call) = Some service"
    and "FindMethodByName (tc_methodName call) (se_methods service) = Some method"
    and "ParseFromString pb (md_input method) (tc_requestMessage call) = None"
  shows "processMethodCall pb ok client call fds s = s"
  using assms by (simp add: processMethodCall_def)

end
