(* ===== verification/Buffer_Pool.thy ===== *)
theory Buffer_Pool
  imports Rialto_Prelude Std_Map
begin

text \<open>
  The buffer pool the two ends of the IPC transport take their send buffers from
  (\<open>ipc/common/source/SimpleBufferPool.cpp\<close>): 64 kilobytes, cut once into buffers of five sizes, with
  \<open>malloc\<close> behind them. Addresses are naturals. The address \<open>malloc\<close> answers with is an argument of
  \<open>allocateImpl\<close>; what the C library promises of it is a premise of the step that allocates.
\<close>

section \<open>The pool\<close>

record BufInfo =
  bi_size :: nat
  bi_free :: bool

record SimpleBufferPool =
  bp_staticBuf :: nat
  bp_staticBufSize :: nat
  bp_staticBufMetaData :: "(nat \<times> BufInfo) list"

text \<open>One of the loops of the constructor: \<open>n\<close> buffers of \<open>len\<close> bytes from \<open>p\<close> on.\<close>

primrec emplaceBuffers :: "nat \<Rightarrow> nat \<Rightarrow> nat \<times> (nat \<times> BufInfo) list \<Rightarrow> nat \<times> (nat \<times> BufInfo) list" where
  "emplaceBuffers len 0 s = s"
| "emplaceBuffers len (Suc n) s =
     (let (p, m) = s in emplaceBuffers len n (p + len, emplace p \<lparr>bi_size = len, bi_free = True\<rparr> m))"

definition newSimpleBufferPool :: "nat \<Rightarrow> SimpleBufferPool" where
  "newSimpleBufferPool buf =
     \<lparr>bp_staticBuf = buf, bp_staticBufSize = 64 * 1024,
      bp_staticBufMetaData =
        snd (emplaceBuffers 32768 1 (emplaceBuffers 16384 1 (emplaceBuffers 4096 2
          (emplaceBuffers 1024 6 (emplaceBuffers 256 8 (buf, []))))))\<rparr>"

definition allocateImpl :: "nat \<Rightarrow> nat \<Rightarrow> SimpleBufferPool \<Rightarrow> nat \<times> SimpleBufferPool" where
  "allocateImpl malloc bytes pool =
     (case find (\<lambda>metadata. bi_free (snd metadata) \<and> bi_size (snd metadata) \<ge> bytes) (bp_staticBufMetaData pool) of
        Some entry \<Rightarrow> (fst entry, pool\<lparr>bp_staticBufMetaData :=
          assign (fst entry) ((snd entry)\<lparr>bi_free := False\<rparr>) (bp_staticBufMetaData pool)\<rparr>)
      | None \<Rightarrow> (malloc, pool))"

text \<open>What \<open>deallocate\<close> does with the address: hand it to \<open>free\<close>, mark its buffer, or log a fatal error.\<close>

datatype Deallocation = HeapFree | StaticFree | UnknownBuffer

definition deallocate :: "nat \<Rightarrow> SimpleBufferPool \<Rightarrow> Deallocation \<times> SimpleBufferPool" where
  "deallocate p pool =
     (if p < bp_staticBuf pool \<or> p > bp_staticBuf pool + bp_staticBufSize pool then (HeapFree, pool)
      else case map_of (bp_staticBufMetaData pool) p of
        None \<Rightarrow> (UnknownBuffer, pool)
      | Some info \<Rightarrow> (StaticFree, pool\<lparr>bp_staticBufMetaData := assign p (info\<lparr>bi_free := True\<rparr>) (bp_staticBufMetaData pool)\<rparr>))"

section \<open>The layout\<close>

text \<open>Consecutive buffers that fill the area, and their sizes.\<close>

fun tiled :: "nat \<Rightarrow> (nat \<times> BufInfo) list \<Rightarrow> nat \<Rightarrow> bool" where
  "tiled p [] e \<longleftrightarrow> p = e"
| "tiled p (x # xs) e \<longleftrightarrow> fst x = p \<and> 0 < bi_size (snd x) \<and> tiled (p + bi_size (snd x)) xs e"

definition pool_layout :: "SimpleBufferPool \<Rightarrow> bool" where
  "pool_layout pool \<longleftrightarrow>
     tiled (bp_staticBuf pool) (bp_staticBufMetaData pool) (bp_staticBuf pool + bp_staticBufSize pool) \<and>
     sorted (map (\<lambda>x. bi_size (snd x)) (bp_staticBufMetaData pool))"

lemma tiled_append: "tiled p (xs @ ys) e \<longleftrightarrow> (\<exists>m. tiled p xs m \<and> tiled m ys e)"
  by (induction xs arbitrary: p) auto

lemma tiled_bounds: "tiled p xs e \<Longrightarrow> p \<le> e"
  by (induction xs arbitrary: p) force+

lemma tiled_in: "tiled p xs e \<Longrightarrow> (a, i) \<in> set xs \<Longrightarrow> p \<le> a \<and> a + bi_size i \<le> e \<and> 0 < bi_size i"
proof (induction xs arbitrary: p)
  case (Cons x xs)
  then show ?case using tiled_bounds [of "p + bi_size (snd x)" xs e] by force
qed simp

lemma tiled_disjoint: "tiled p xs e \<Longrightarrow> (a, i) \<in> set xs \<Longrightarrow> (b, j) \<in> set xs \<Longrightarrow> a \<noteq> b \<Longrightarrow>
    ranges_disjoint a (bi_size i) b (bi_size j)"
proof (induction xs arbitrary: p)
  case (Cons x xs)
  then show ?case using tiled_in [of "p + bi_size (snd x)" xs e] by (force simp: ranges_disjoint_def)
qed simp

lemma tiled_distinct: "tiled p xs e \<Longrightarrow> distinct (map fst xs)"
proof (induction xs arbitrary: p)
  case (Cons x xs)
  then show ?case using tiled_in [of "p + bi_size (snd x)" xs e] by force
qed simp

lemma tiled_assign:
  "tiled p xs e \<Longrightarrow> map_of xs a = Some i \<Longrightarrow> tiled p (assign a (i\<lparr>bi_free := f\<rparr>) xs) e"
proof (induction xs arbitrary: p)
  case (Cons x xs)
  show ?case
  proof (cases "fst x = a")
    case True
    then have "a \<notin> fst ` set xs" using tiled_distinct [OF Cons.prems(1)] by auto
    then have "assign a (i\<lparr>bi_free := f\<rparr>) xs = xs" unfolding assign_def by (intro map_idI) auto
    with True Cons.prems show ?thesis by (auto simp: assign_def)
  next
    case False
    with Cons show ?thesis by (cases x) (auto simp: assign_def)
  qed
qed simp

lemma assign_sizes:
  "distinct (map fst xs) \<Longrightarrow> map_of xs a = Some i \<Longrightarrow>
    map (\<lambda>x. bi_size (snd x)) (assign a (i\<lparr>bi_free := f\<rparr>) xs) = map (\<lambda>x. bi_size (snd x)) xs"
  by (auto simp: assign_def dest: eq_key_imp_eq_value)

lemma layout_assign:
  "pool_layout pool \<Longrightarrow> map_of (bp_staticBufMetaData pool) a = Some i \<Longrightarrow>
    pool_layout (pool\<lparr>bp_staticBufMetaData := assign a (i\<lparr>bi_free := f\<rparr>) (bp_staticBufMetaData pool)\<rparr>)"
  using assign_sizes [of "bp_staticBufMetaData pool" a i f]
  by (auto simp: pool_layout_def tiled_assign dest: tiled_distinct)

lemma emplaceBuffers_numeral [simp]:
  "emplaceBuffers len (numeral k) (p, m) =
     emplaceBuffers len (pred_numeral k) (p + len, emplace p \<lparr>bi_size = len, bi_free = True\<rparr> m)"
  by (simp add: numeral_eq_Suc)

lemma emplace_last:
  "\<forall>x \<in> set m. fst x < p \<Longrightarrow> emplace p v m = m @ [(p, v)]"
proof -
  assume last: "\<forall>x \<in> set m. fst x < p"
  then have "map_of m p = None" by (auto simp: map_of_eq_None_iff)
  moreover have "insort_key fst (p, v) m = m @ [(p, v)]" using last by (induction m) auto
  ultimately show ?thesis by (simp add: emplace_def)
qed

text \<open>The buffers of the constructor fill the 64 kilobytes, smaller ones first.\<close>

lemma new_pool_data:
  "bp_staticBufMetaData (newSimpleBufferPool buf) =
     map (\<lambda>(off, len). (buf + off, \<lparr>bi_size = len, bi_free = True\<rparr>))
       ([(0, 256), (256, 256), (512, 256), (768, 256), (1024, 256), (1280, 256), (1536, 256), (1792, 256),
         (2048, 1024), (3072, 1024), (4096, 1024), (5120, 1024), (6144, 1024), (7168, 1024),
         (8192, 4096), (12288, 4096), (16384, 16384), (32768, 32768)])"
  by (simp add: newSimpleBufferPool_def emplace_last)

lemma new_pool_fields [simp]:
  "bp_staticBuf (newSimpleBufferPool buf) = buf" "bp_staticBufSize (newSimpleBufferPool buf) = 65536"
  by (simp_all add: newSimpleBufferPool_def)

lemma new_pool_layout: "pool_layout (newSimpleBufferPool buf)"
  unfolding pool_layout_def new_pool_data new_pool_fields by simp

section \<open>Blocks in use\<close>

text \<open>
  A pool and the blocks that were allocated from it and not given back, each with the number of bytes that was asked
  for. \<open>malloc\<close> answers with a block of that many bytes which meets neither the area of the pool, itself a live
  allocation, nor another block in use.
\<close>

record PoolState =
  ps_pool :: SimpleBufferPool
  ps_live :: "(nat \<times> nat) list"

inductive pool_reach :: "nat \<Rightarrow> PoolState \<Rightarrow> bool" for buf where
  start: "pool_reach buf \<lparr>ps_pool = newSimpleBufferPool buf, ps_live = []\<rparr>"
| alloc: "pool_reach buf s \<Longrightarrow> ranges_disjoint malloc bytes buf (64 * 1024) \<Longrightarrow>
    (\<forall>(q, n) \<in> set (ps_live s). ranges_disjoint malloc bytes q n) \<Longrightarrow> 0 < bytes \<Longrightarrow>
    allocateImpl malloc bytes (ps_pool s) = (p, pool) \<Longrightarrow>
    pool_reach buf \<lparr>ps_pool = pool, ps_live = (p, bytes) # ps_live s\<rparr>"
| free: "pool_reach buf s \<Longrightarrow> (p, n) \<in> set (ps_live s) \<Longrightarrow> deallocate p (ps_pool s) = (how, pool) \<Longrightarrow>
    pool_reach buf \<lparr>ps_pool = pool, ps_live = remove1 (p, n) (ps_live s)\<rparr>"

text \<open>
  A block in use is a buffer of the pool that is not free and large enough, or lies outside the area; every buffer
  that is not free is in use.
\<close>

definition in_pool :: "(nat \<times> BufInfo) list \<Rightarrow> nat \<times> nat \<Rightarrow> bool" where
  "in_pool meta b \<longleftrightarrow> (case map_of meta (fst b) of None \<Rightarrow> False | Some i \<Rightarrow> \<not> bi_free i \<and> snd b \<le> bi_size i)"

fun apart :: "(nat \<times> nat) list \<Rightarrow> bool" where
  "apart [] \<longleftrightarrow> True"
| "apart (b # bs) \<longleftrightarrow> (\<forall>c \<in> set bs. ranges_disjoint (fst b) (snd b) (fst c) (snd c)) \<and> apart bs"

definition pool_inv :: "nat \<Rightarrow> PoolState \<Rightarrow> bool" where
  "pool_inv buf s \<longleftrightarrow> pool_layout (ps_pool s) \<and> bp_staticBuf (ps_pool s) = buf \<and> bp_staticBufSize (ps_pool s) = 64 * 1024 \<and>
     apart (ps_live s) \<and>
     (\<forall>b \<in> set (ps_live s). 0 < snd b \<and>
        (in_pool (bp_staticBufMetaData (ps_pool s)) b \<or> ranges_disjoint (fst b) (snd b) buf (64 * 1024))) \<and>
     (\<forall>p i. map_of (bp_staticBufMetaData (ps_pool s)) p = Some i \<longrightarrow> \<not> bi_free i \<longrightarrow> (\<exists>n. (p, n) \<in> set (ps_live s)))"

lemma apart_remove1: "apart bs \<Longrightarrow> apart (remove1 b bs)"
  by (induction bs) (auto dest: notin_set_remove1)

lemma apart_others:
  "apart bs \<Longrightarrow> \<forall>b \<in> set bs. 0 < snd b \<Longrightarrow> b \<in> set bs \<Longrightarrow> c \<in> set (remove1 b bs) \<Longrightarrow> fst c \<noteq> fst b"
proof (induction bs)
  case (Cons d bs)
  then show ?case
  proof (cases "d = b")
    case True
    with Cons.prems have "ranges_disjoint (fst b) (snd b) (fst c) (snd c)" "0 < snd b" "0 < snd c" by auto
    then show ?thesis by (auto simp: ranges_disjoint_def)
  next
    case False
    then have b: "b \<in> set bs" using Cons.prems by auto
    show ?thesis
    proof (cases "c = d")
      case True
      with Cons.prems b have "ranges_disjoint (fst c) (snd c) (fst b) (snd b)" "0 < snd b" "0 < snd c" by auto
      then show ?thesis by (auto simp: ranges_disjoint_def)
    qed (use Cons False b in auto)
  qed
qed simp

lemma layout_block:
  assumes "pool_layout pool" and "map_of (bp_staticBufMetaData pool) p = Some i"
  shows "bp_staticBuf pool \<le> p \<and> p + bi_size i \<le> bp_staticBuf pool + bp_staticBufSize pool \<and> 0 < bi_size i"
  using assms tiled_in [OF _ map_of_SomeD [OF assms(2)]] by (auto simp: pool_layout_def)

lemma layout_apart:
  assumes "pool_layout pool" and "map_of (bp_staticBufMetaData pool) p = Some i"
    and "map_of (bp_staticBufMetaData pool) q = Some j" and "p \<noteq> q"
  shows "ranges_disjoint p (bi_size i) q (bi_size j)"
  using assms tiled_disjoint [OF _ map_of_SomeD [OF assms(2)] map_of_SomeD [OF assms(3)]] by (auto simp: pool_layout_def)

lemma layout_find:
  assumes "pool_layout pool" and "find P (bp_staticBufMetaData pool) = Some entry"
  shows "map_of (bp_staticBufMetaData pool) (fst entry) = Some (snd entry) \<and> P entry"
  using assms find_SomeE [OF assms(2)] by (auto simp: pool_layout_def intro!: map_of_is_SomeI dest: tiled_distinct)

lemma alloc_inv:
  assumes "pool_inv buf s" and "ranges_disjoint malloc bytes buf (64 * 1024)"
    and "\<forall>(q, n) \<in> set (ps_live s). ranges_disjoint malloc bytes q n" and "0 < bytes"
    and "allocateImpl malloc bytes (ps_pool s) = (p, pool)"
  shows "pool_inv buf \<lparr>ps_pool = pool, ps_live = (p, bytes) # ps_live s\<rparr>"
proof (cases "find (\<lambda>metadata. bi_free (snd metadata) \<and> bi_size (snd metadata) \<ge> bytes) (bp_staticBufMetaData (ps_pool s))")
  case None
  then show ?thesis using assms by (auto simp: allocateImpl_def pool_inv_def) blast
next
  case (Some entry)
  let ?meta = "bp_staticBufMetaData (ps_pool s)"
  have inv: "pool_layout (ps_pool s)" "bp_staticBuf (ps_pool s) = buf" "bp_staticBufSize (ps_pool s) = 64 * 1024" "apart (ps_live s)"
    and blocks: "\<And>b. b \<in> set (ps_live s) \<Longrightarrow> 0 < snd b \<and> (in_pool ?meta b \<or> ranges_disjoint (fst b) (snd b) buf (64 * 1024))"
    and used: "\<And>p i. map_of ?meta p = Some i \<Longrightarrow> \<not> bi_free i \<Longrightarrow> \<exists>n. (p, n) \<in> set (ps_live s)"
    using assms(1) by (auto simp: pool_inv_def)
  obtain i where i: "map_of ?meta p = Some i" "bi_free i" "bytes \<le> bi_size i" "p = fst entry" "i = snd entry"
    and pool: "pool = (ps_pool s)\<lparr>bp_staticBufMetaData := assign p (i\<lparr>bi_free := False\<rparr>) ?meta\<rparr>"
    using layout_find [OF inv(1) Some] Some assms(5) by (auto simp: allocateImpl_def)
  have in_area: "buf \<le> p" "p + bi_size i \<le> buf + 64 * 1024" using layout_block [OF inv(1) i(1)] inv by auto
  have "ranges_disjoint p bytes (fst b) (snd b)" if "b \<in> set (ps_live s)" for b
  proof -
    from blocks [OF that] consider j where "map_of ?meta (fst b) = Some j" "\<not> bi_free j" "snd b \<le> bi_size j"
      | "ranges_disjoint (fst b) (snd b) buf (64 * 1024)"
      by (auto simp: in_pool_def split: option.splits)
    then show ?thesis
    proof cases
      case 1
      then have "p \<noteq> fst b" using i by auto
      from layout_apart [OF inv(1) i(1) 1(1) this] i(3) 1(3) show ?thesis by (auto simp: ranges_disjoint_def)
    next
      case 2
      then show ?thesis using in_area i(3) by (auto simp: ranges_disjoint_def)
    qed
  qed
  moreover have "in_pool (bp_staticBufMetaData pool) (p, bytes)" using i by (simp add: in_pool_def pool map_of_assign)
  moreover have "in_pool (bp_staticBufMetaData pool) b" if "in_pool ?meta b" for b
    using that i by (auto simp: in_pool_def pool map_of_assign split: option.splits)
  moreover have "\<exists>n. (q, n) \<in> set ((p, bytes) # ps_live s)"
    if "map_of (bp_staticBufMetaData pool) q = Some j" "\<not> bi_free j" for q j
    using that used [of q j] i by (auto simp: pool map_of_assign split: if_splits)
  moreover have "pool_layout pool" unfolding pool by (rule layout_assign [OF inv(1) i(1)])
  ultimately show ?thesis using inv blocks assms(4) by (fastforce simp: pool_inv_def pool)
qed

lemma free_inv:
  assumes "pool_inv buf s" and "(p, n) \<in> set (ps_live s)" and "deallocate p (ps_pool s) = (how, pool)"
  shows "pool_inv buf \<lparr>ps_pool = pool, ps_live = remove1 (p, n) (ps_live s)\<rparr>"
proof -
  let ?meta = "bp_staticBufMetaData (ps_pool s)"
  have inv: "pool_layout (ps_pool s)" "bp_staticBuf (ps_pool s) = buf" "bp_staticBufSize (ps_pool s) = 64 * 1024" "apart (ps_live s)"
    and blocks: "\<And>b. b \<in> set (ps_live s) \<Longrightarrow> 0 < snd b \<and> (in_pool ?meta b \<or> ranges_disjoint (fst b) (snd b) buf (64 * 1024))"
    and used: "\<And>p i. map_of ?meta p = Some i \<Longrightarrow> \<not> bi_free i \<Longrightarrow> \<exists>n. (p, n) \<in> set (ps_live s)"
    using assms(1) by (auto simp: pool_inv_def)
  have others: "fst b \<noteq> p" if "b \<in> set (remove1 (p, n) (ps_live s))" for b
    using apart_others [OF inv(4) _ assms(2) that] blocks by simp
  have live: "b \<in> set (remove1 (p, n) (ps_live s)) \<or> b = (p, n)" if "b \<in> set (ps_live s)" for b
    using that by (cases "b = (p, n)") auto
  from blocks [OF assms(2)] consider i where "map_of ?meta p = Some i" "n \<le> bi_size i" "\<not> bi_free i"
    | "map_of ?meta p = None" | "ranges_disjoint p n buf (64 * 1024)" "map_of ?meta p \<noteq> None"
    by (cases "map_of ?meta p") (auto simp: in_pool_def)
  then show ?thesis
  proof cases
    case 1
    then have pool: "pool = (ps_pool s)\<lparr>bp_staticBufMetaData := assign p (i\<lparr>bi_free := True\<rparr>) ?meta\<rparr>"
      using assms(3) layout_block [OF inv(1) 1(1)] by (auto simp: deallocate_def split: if_splits)
    have "pool_layout pool" unfolding pool by (rule layout_assign [OF inv(1) 1(1)])
    moreover have "0 < snd b \<and> (in_pool (bp_staticBufMetaData pool) b \<or> ranges_disjoint (fst b) (snd b) buf (64 * 1024))"
      if "b \<in> set (remove1 (p, n) (ps_live s))" for b
    proof -
      have "b \<in> set (ps_live s)" using that set_remove1_subset by fastforce
      from blocks [OF this] others [OF that] show ?thesis by (auto simp: in_pool_def pool map_of_assign)
    qed
    moreover have "\<exists>k. (q, k) \<in> set (remove1 (p, n) (ps_live s))"
      if "map_of (bp_staticBufMetaData pool) q = Some j" "\<not> bi_free j" for q j
    proof -
      have q: "q \<noteq> p" "map_of ?meta q = Some j" "\<not> bi_free j" using that 1(1) by (auto simp: pool map_of_assign split: if_splits)
      then obtain k where "(q, k) \<in> set (ps_live s)" using used by blast
      from live [OF this] q show ?thesis by auto
    qed
    moreover have "bp_staticBuf pool = buf" "bp_staticBufSize pool = 64 * 1024" using inv by (simp_all add: pool)
    ultimately show ?thesis using apart_remove1 [OF inv(4)] unfolding pool_inv_def PoolState.simps by blast
  next
    case 2
    then have "pool = ps_pool s" using assms(3) by (auto simp: deallocate_def split: if_splits)
    moreover have "\<exists>k. (q, k) \<in> set (remove1 (p, n) (ps_live s))" if "map_of ?meta q = Some j" "\<not> bi_free j" for q j
    proof -
      from used [OF that] obtain k where k: "(q, k) \<in> set (ps_live s)" by blast
      moreover have "q \<noteq> p" using that(1) 2 by auto
      ultimately show ?thesis using live [OF k] by auto
    qed
    moreover have "0 < snd b \<and> (in_pool ?meta b \<or> ranges_disjoint (fst b) (snd b) buf (64 * 1024))"
      if "b \<in> set (remove1 (p, n) (ps_live s))" for b
      using that set_remove1_subset [of "(p, n)" "ps_live s"] by (intro blocks) auto
    ultimately show ?thesis using inv(1-3) apart_remove1 [OF inv(4)] unfolding pool_inv_def PoolState.simps by blast
  next
    case 3
    then obtain j where "map_of ?meta p = Some j" by blast
    from layout_block [OF inv(1) this] 3(1) blocks [OF assms(2)] inv(2,3) show ?thesis by (simp add: ranges_disjoint_def)
  qed
qed

lemma pool_reach_inv: "pool_reach buf s \<Longrightarrow> pool_inv buf s"
proof (induction rule: pool_reach.induct)
  case start
  have "bi_free i" if "map_of (bp_staticBufMetaData (newSimpleBufferPool buf)) p = Some i" for p i
    using map_of_SomeD [OF that] by (auto simp: new_pool_data)
  then show ?case using new_pool_layout [of buf] by (auto simp: pool_inv_def)
next
  case (alloc s malloc bytes p pool)
  then show ?case by (intro alloc_inv)
next
  case (free s p n how pool)
  then show ?case by (intro free_inv)
qed

text \<open>Whatever blocks are allocated and given back, in any order, the blocks in use never overlap, and none that was
  taken from the pool reaches beyond its 64 kilobytes.
\<close>

theorem pool_blocks_apart:
  assumes "pool_reach buf s"
  shows "apart (ps_live s) \<and>
    (\<forall>b \<in> set (ps_live s). map_of (bp_staticBufMetaData (ps_pool s)) (fst b) \<noteq> None \<longrightarrow> fst b + snd b \<le> buf + 64 * 1024)"
proof -
  have inv: "pool_inv buf s" using pool_reach_inv [OF assms] .
  have "fst b + snd b \<le> buf + 64 * 1024"
    if "b \<in> set (ps_live s)" "map_of (bp_staticBufMetaData (ps_pool s)) (fst b) = Some i" for b i
  proof -
    have area: "buf \<le> fst b" "fst b + bi_size i \<le> buf + 64 * 1024" "0 < bi_size i"
      using layout_block [OF _ that(2)] inv by (auto simp: pool_inv_def)
    have "in_pool (bp_staticBufMetaData (ps_pool s)) b \<or> ranges_disjoint (fst b) (snd b) buf (64 * 1024)" "0 < snd b"
      using inv that(1) by (auto simp: pool_inv_def)
    with area that(2) show ?thesis by (auto simp: in_pool_def ranges_disjoint_def)
  qed
  then show ?thesis using inv by (auto simp: pool_inv_def)
qed

theorem pool_blocks_apart_witness:
  "apart [(100000, 40000), (2048, 300)] \<and> 2048 + 300 \<le> (0 :: nat) + 64 * 1024"
proof -
  let ?pool = "snd (allocateImpl 70000 300 (newSimpleBufferPool 0))"
  have one: "allocateImpl 70000 300 (newSimpleBufferPool 0) = (2048, ?pool)"
    by (simp add: prod_eq_iff) (simp add: allocateImpl_def new_pool_data)
  have two: "allocateImpl 100000 40000 ?pool = (100000, ?pool)"
    by (simp add: allocateImpl_def new_pool_data assign_def)
  have "pool_reach 0 \<lparr>ps_pool = ?pool, ps_live = [(2048, 300)]\<rparr>"
    using pool_reach.alloc [OF pool_reach.start, of 70000 300 0 2048 ?pool] one by (simp add: ranges_disjoint_def)
  then have "pool_reach 0 \<lparr>ps_pool = ?pool, ps_live = [(100000, 40000), (2048, 300)]\<rparr>"
    using pool_reach.alloc [of 0 "\<lparr>ps_pool = ?pool, ps_live = [(2048, 300)]\<rparr>" 100000 40000 100000 ?pool] two
    by (simp add: ranges_disjoint_def)
  from pool_blocks_apart [OF this] show ?thesis by simp
qed

text \<open>Giving a buffer back leaves the pool as it was before it was taken.\<close>

theorem allocate_deallocate:
  assumes "pool_layout pool" and "allocateImpl malloc bytes pool = (p, pool')" and "pool' \<noteq> pool"
  shows "deallocate p pool' = (StaticFree, pool)"
proof -
  let ?meta = "bp_staticBufMetaData pool"
  obtain i where i: "map_of ?meta p = Some i" "bi_free i"
    and pool': "pool' = pool\<lparr>bp_staticBufMetaData := assign p (i\<lparr>bi_free := False\<rparr>) ?meta\<rparr>"
    using assms layout_find [OF assms(1)] by (fastforce simp: allocateImpl_def split: option.splits)
  have "assign p i (assign p (i\<lparr>bi_free := False\<rparr>) ?meta) = ?meta"
  proof -
    have "distinct (map fst ?meta)" using assms(1) tiled_distinct by (auto simp: pool_layout_def)
    then show ?thesis unfolding assign_def using map_of_SomeD [OF i(1)] by (auto intro!: map_idI dest: eq_key_imp_eq_value)
  qed
  moreover have "i\<lparr>bi_free := True\<rparr> = i" using i(2) by (cases i) simp
  ultimately have "assign p (i\<lparr>bi_free := True\<rparr>) (assign p (i\<lparr>bi_free := False\<rparr>) ?meta) = ?meta" by (simp only:)
  then show ?thesis using layout_block [OF assms(1) i(1)] i by (simp add: deallocate_def pool' map_of_assign)
qed

text \<open>In a new pool a request takes a buffer of the smallest size that holds it; larger ones go to the heap.\<close>

theorem new_pool_best_fit:
  "fst (allocateImpl malloc bytes (newSimpleBufferPool buf)) =
     (if bytes \<le> 256 then buf else if bytes \<le> 1024 then buf + 2048 else if bytes \<le> 4096 then buf + 8192
      else if bytes \<le> 16384 then buf + 16384 else if bytes \<le> 32768 then buf + 32768 else malloc)"
  unfolding allocateImpl_def new_pool_data by simp

text \<open>
  The comparison with the end of the area is off by one: a block of the heap that begins where the area ends is taken
  for a buffer of the pool, is not found and is never freed.
\<close>

theorem block_after_pool_leaks:
  "deallocate (buf + 64 * 1024) (newSimpleBufferPool buf) = (UnknownBuffer, newSimpleBufferPool buf)"
proof -
  have "map_of (bp_staticBufMetaData (newSimpleBufferPool buf)) (buf + 64 * 1024) = None"
    unfolding new_pool_data by simp
  then show ?thesis by (simp add: deallocate_def)
qed

end
