(* ===== verification/Gst_Player.thy ===== *)
theory Gst_Player
  imports Media_Pipeline_Server
begin

text \<open>
  The GStreamer player of a session (\<open>media/server/gstplayer\<close>): the members of \<open>GstGenericPlayer\<close> and its
  \<open>GenericPlayerContext\<close>, and the operations of \<open>GstGenericPlayer.cpp\<close> that the tasks of the worker thread
  call. GStreamer, glib, the key system and the client of the player are outside: every call that changes something
  there is recorded, in order, in \<open>gp_log\<close>, and every answer they give is a function of \<open>GstWorld\<close>, which may depend on
  everything that was recorded before.
\<close>

section \<open>Data\<close>

text \<open>Pointers to elements and other GStreamer objects; \<open>0\<close> is \<open>nullptr\<close>.\<close>

type_synonym GstPtr = nat

datatype GstState = ST_VOID_PENDING | ST_NULL | ST_READY | ST_PAUSED | ST_PLAYING

fun gstStateRank :: "GstState \<Rightarrow> nat" where
  "gstStateRank ST_VOID_PENDING = 0"
| "gstStateRank ST_NULL = 1"
| "gstStateRank ST_READY = 2"
| "gstStateRank ST_PAUSED = 3"
| "gstStateRank ST_PLAYING = 4"

datatype CapsValue =
    CapsInt "32 word" | CapsUint u32 | CapsString string | CapsBool bool | CapsBuffer "u8 list"

text \<open>
  Caps, as the calls that made them: from nothing, from a media type, from an Opus header, and with a field set.
\<close>

datatype GstCaps =
    CapsNewEmpty | CapsNewEmptySimple string | CapsFromOpusHeader "u8 list" | CapsSetSimple GstCaps string CapsValue

record Rectangle =
  rect_x :: "32 word"
  rect_y :: "32 word"
  rect_width :: "32 word"
  rect_height :: "32 word"

definition rectangleEmpty :: "Rectangle \<Rightarrow> bool" where
  "rectangleEmpty r \<longleftrightarrow> rect_width r = 0 \<or> rect_height r = 0"

definition noRectangle :: Rectangle where
  "noRectangle = \<lparr>rect_x = 0, rect_y = 0, rect_width = 0, rect_height = 0\<rparr>"

text \<open>
  The protection data of an encrypted sample, with the contents of its buffers, and a sample buffer. \<open>gb_id\<close> tells
  apart the buffers a player creates.
\<close>

record GstRialtoProtectionData =
  pd_keySessionId :: i32
  pd_subsampleCount :: u32
  pd_initWithLast15 :: u32
  pd_key :: "u8 list"
  pd_iv :: "u8 list"
  pd_subsamples :: "u8 list"

record GstBuffer =
  gb_id :: nat
  gb_data :: "u8 list"
  gb_timestamp :: u64
  gb_duration :: u64
  gb_protection :: "GstRialtoProtectionData option"

datatype GstEvent =
    EvFlushStart | EvFlushStop bool | EvCustomRate double | EvSegmentRate double | EvStep

datatype PropertyValue = PropInt int | PropRectangle Rectangle | PropString string

record PlaybackGroupPrivate =
  pg_gstPipeline :: GstPtr
  pg_curAudioPlaysinkBin :: GstPtr
  pg_curAudioDecodeBin :: GstPtr
  pg_curAudioDecoder :: GstPtr
  pg_curAudioParse :: GstPtr
  pg_curAudioTypefind :: GstPtr
  pg_linkTypefindParser :: bool
  pg_isAudioAAC :: bool

definition noPlaybackGroup :: PlaybackGroupPrivate where
  "noPlaybackGroup = \<lparr>pg_gstPipeline = 0, pg_curAudioPlaysinkBin = 0, pg_curAudioDecodeBin = 0, pg_curAudioDecoder = 0,
     pg_curAudioParse = 0, pg_curAudioTypefind = 0, pg_linkTypefindParser = False, pg_isAudioAAC = False\<rparr>"

record AudioAttributesPrivate =
  aa_codecParam :: string
  aa_numberOfChannels :: u32
  aa_samplesPerSecond :: u32
  aa_bitrate :: u32
  aa_blockAlignment :: u32
  aa_codecSpecificData :: "u8 list"

section \<open>What the player does and what it is told\<close>

datatype GstEffect =
    FxPushBuffer MediaSourceType GstPtr GstBuffer | FxBufferUnref GstBuffer
  | FxSelectKeyId i32 "u8 list" | FxUsageIncremented i32 | FxUsageDecremented i32
  | FxMakeElement string string | FxSetCaps GstPtr "GstCaps option" | FxEndOfStream GstPtr
  | FxSetState GstState | FxSeek double i64 | FxSendEvent GstPtr GstEvent | FxPadSendEvent GstPtr GstEvent
  | FxSetProperty GstPtr string PropertyValue | FxStreamVolume double
  | FxSignalConnect GstPtr string | FxSignalDisconnect GstPtr nat
  | FxObjectRef GstPtr | FxObjectUnref GstPtr | FxMessageUnref
  | FxSetupAppSrc GstPtr GstPtr MediaSourceType | FxAllAppSrcsAdded GstPtr
  | FxSwitchAudioTrack PlaybackGroupPrivate AudioAttributesPrivate "GstCaps option" bool GstPtr
  | FxNeedMediaData MediaSourceType bool | FxPlaybackState PlaybackState | FxNetworkState NetworkState
  | FxPosition i64 | FxQos MediaSourceType QosInfo | FxClearActiveRequests | FxInvalidateActiveRequests MediaSourceType
  | FxTerminate

text \<open>
  The type of an element and of its ancestors, as far as the code tells them apart, with the names of the signals each
  defines.
\<close>

datatype GTypeKind = GT_ELEMENT | GT_OBJECT | GT_BIN | GT_OTHER nat

record GstWorld =
  gw_notifyNeedMediaData :: "GstEffect list \<Rightarrow> MediaSourceType \<Rightarrow> bool"
  gw_setStateFails :: "GstEffect list \<Rightarrow> GstState \<Rightarrow> bool"
  gw_state :: "GstEffect list \<Rightarrow> GstState"
  gw_pendingState :: "GstEffect list \<Rightarrow> GstState"
  gw_position :: "GstEffect list \<Rightarrow> i64 option"
  gw_seek :: "GstEffect list \<Rightarrow> bool"
  gw_sendEvent :: "GstEffect list \<Rightarrow> bool"
  gw_makeElement :: "GstEffect list \<Rightarrow> GstPtr"
  gw_appSrcCaps :: "GstEffect list \<Rightarrow> GstPtr \<Rightarrow> GstCaps option"
  gw_opusHeaderValid :: "u8 list \<Rightarrow> bool"
  gw_capsIsEqual :: "GstCaps \<Rightarrow> GstCaps option \<Rightarrow> bool"
  gw_capsString :: "GstCaps option \<Rightarrow> string"
  gw_sink :: "GstEffect list \<Rightarrow> string \<Rightarrow> GstPtr"
  gw_hasProperty :: "GstPtr \<Rightarrow> string \<Rightarrow> bool"
  gw_name :: "GstPtr \<Rightarrow> string option"
  gw_klass :: "GstPtr \<Rightarrow> string"
  gw_parent :: "GstPtr \<Rightarrow> GstPtr"
  gw_factoryTypes :: "GstPtr \<Rightarrow> (bool \<times> bool \<times> bool) option"
  gw_typeChain :: "GstPtr \<Rightarrow> (GTypeKind \<times> string list) list"
  gw_signalId :: "GstEffect list \<Rightarrow> nat"
  gw_isNetflix :: "i32 \<Rightarrow> bool"
  gw_addMeta :: "GstEffect list \<Rightarrow> bool"
  gw_switchAudioTrack :: "GstEffect list \<Rightarrow> PlaybackGroupPrivate \<Rightarrow> i64 \<Rightarrow> PlaybackGroupPrivate \<times> i64"
  gw_uninitialised :: i64
  gw_playFlag :: "string \<Rightarrow> u32"
  gw_playsink :: "GstEffect list \<Rightarrow> GstPtr"
  gw_segments :: "DataReader \<Rightarrow> MediaSegment list"

text \<open>
  A sample with what \<open>AttachSamples\<close> keeps of it, and the tasks of the worker thread with what their constructors keep.
  \<open>Underflow\<close> keeps a reference to the flag of the audio or of the video stream.
\<close>

record AudioData =
  ad_buffer :: GstBuffer
  ad_rate :: i32
  ad_channels :: i32

record VideoData =
  vd_buffer :: GstBuffer
  vd_width :: i32
  vd_height :: i32

datatype BusMessage =
    BusStateChanged GstPtr GstState GstState GstState
  | BusEos GstPtr
  | BusQos GstPtr bool u64 u64
  | BusError GstPtr
  | BusOther GstPtr

datatype PlayerTask =
    AttachSamplesTask "AudioData list" "VideoData list" | ReadShmDataAndAttachSamplesTask DataReader
  | AttachSourceTask MediaSource | RemoveSourceTask MediaSourceType
  | NeedDataTask GstPtr | EnoughDataTask GstPtr | EosTask MediaSourceType
  | UnderflowTask MediaSourceType bool | CheckAudioUnderflowTask
  | SetupSourceTask GstPtr | FinishSetupSourceTask | SetupElementTask GstPtr
  | DeepElementAddedTask GstPtr GstPtr GstPtr "string option" "nat option" | UpdatePlaybackGroupTask GstPtr "GstCaps option"
  | HandleBusMessageTask BusMessage | PlayTask | PauseTask | StopTask | GstShutdownTask
  | SetPositionTask i64 | SetPlaybackRateTask double | SetVideoGeometryTask Rectangle | SetVolumeTask double
  | RenderFrameTask | ReportPositionTask

section \<open>The player\<close>

text \<open>
  \<open>gp_client\<close> says whether \<open>m_gstPlayerClient\<close> is set, \<open>gp_workerThread\<close> whether \<open>m_workerThread\<close> is; \<open>gp_tasks\<close> and
  \<open>gp_taskThreadActive\<close> are the queue of the worker thread and its \<open>m_isTaskThreadActive\<close>, \<open>gp_dispatcherActive\<close> is
  \<open>m_isGstreamerDispatcherActive\<close> of the thread that waits for the messages of the pipeline. A timer is the pointer to it with
  its \<open>isActive()\<close>. The rest are the members of \<open>GenericPlayerContext\<close>.
\<close>

record GstGenericPlayer =
  gp_client :: bool
  gp_workerThread :: bool
  gp_taskThreadActive :: bool
  gp_tasks :: "PlayerTask list"
  gp_dispatcherActive :: bool
  gp_finishSourceSetupTimer :: "bool option"
  gp_positionTimer :: "bool option"
  gp_audioAppSrc :: GstPtr
  gp_videoAppSrc :: GstPtr
  gp_pipeline :: GstPtr
  gp_source :: GstPtr
  gp_streamInfo :: "MediaSourceType \<rightharpoonup> GstPtr"
  gp_audioNeedData :: bool
  gp_videoNeedData :: bool
  gp_audioNeedDataPending :: bool
  gp_videoNeedDataPending :: bool
  gp_audioDataPushed :: bool
  gp_videoDataPushed :: bool
  gp_bufferedNotificationSent :: bool
  gp_audioBuffers :: "GstBuffer list"
  gp_videoBuffers :: "GstBuffer list"
  gp_audioUnderflowOccured :: bool
  gp_videoUnderflowOccured :: bool
  gp_audioUnderflowEnabled :: bool
  gp_pendingGeometry :: Rectangle
  gp_playbackRate :: double
  gp_pendingPlaybackRate :: double
  gp_lastAudioSampleTimestamps :: i64
  gp_isSecondaryVideo :: bool
  gp_audioSourceRemoved :: bool
  gp_playbackGroup :: PlaybackGroupPrivate
  gp_connectedSignals :: "(GstPtr \<times> nat) list"
  gp_nextBuffer :: nat
  gp_log :: "GstEffect list"

definition kNoPendingPlaybackRate :: double where "kNoPendingPlaybackRate = 0"

definition effect :: "GstEffect \<Rightarrow> GstGenericPlayer \<Rightarrow> GstGenericPlayer" where
  "effect e s = s\<lparr>gp_log := gp_log s @ [e]\<rparr>"

text \<open>An exception nobody catches, or a call on a null pointer, ends the process.\<close>

definition terminate :: "GstGenericPlayer \<Rightarrow> GstGenericPlayer" where
  "terminate s = (effect FxTerminate s)\<lparr>gp_taskThreadActive := False\<rparr>"

text \<open>\<open>enqueueTask\<close> of the worker thread, behind the check of \<open>m_workerThread\<close> that every caller but two makes.\<close>

definition enqueueGstTask :: "PlayerTask \<Rightarrow> GstGenericPlayer \<Rightarrow> GstGenericPlayer" where
  "enqueueGstTask t s = (if gp_workerThread s then s\<lparr>gp_tasks := gp_tasks s @ [t]\<rparr> else s)"

text \<open>Freeing a buffer frees its protection data, which gives up its use of the key session.\<close>

definition bufferUnref :: "GstBuffer \<Rightarrow> GstGenericPlayer \<Rightarrow> GstGenericPlayer" where
  "bufferUnref b s =
     (case gb_protection b of
        None \<Rightarrow> effect (FxBufferUnref b) s
      | Some pd \<Rightarrow> effect (FxUsageDecremented (pd_keySessionId pd)) (effect (FxBufferUnref b) s))"

section \<open>Sample buffers\<close>

definition putUint16Be :: "u16 \<Rightarrow> u8 list" where
  "putUint16Be v = [ucast (drop_bit 8 v), ucast v]"

definition putUint32Be :: "u32 \<Rightarrow> u8 list" where
  "putUint32Be v = [ucast (drop_bit 24 v), ucast (drop_bit 16 v), ucast (drop_bit 8 v), ucast v]"

definition subsamplesRaw :: "SubSamplePair list \<Rightarrow> u8 list" where
  "subsamplesRaw subSamples =
     concat (map (\<lambda>p. putUint16Be (ucast (numClearBytes p)) @ putUint32Be (ucast (numEncryptedBytes p))) subSamples)"

text \<open>
  \<open>addProtectionMetadata\<close> attaches the data and counts the use of the key session; when it fails, the buffers of the data
  are freed and the sample goes on without any.
\<close>

definition createBuffer :: "GstWorld \<Rightarrow> MediaSegment \<Rightarrow> GstGenericPlayer \<Rightarrow> GstBuffer \<times> GstGenericPlayer" where
  "createBuffer w seg s =
     (let b = \<lparr>gb_id = gp_nextBuffer s, gb_data = take (unat (m_dataLength seg)) (payload seg),
               gb_timestamp = m_timeStamp seg, gb_duration = m_duration seg, gb_protection = None\<rparr>;
          s = s\<lparr>gp_nextBuffer := Suc (gp_nextBuffer s)\<rparr>
      in if \<not> m_encrypted seg then (b, s)
         else
           let netflix = gw_isNetflix w (m_mediaKeySessionId seg);
               s = (if netflix then effect (FxSelectKeyId (m_mediaKeySessionId seg) (m_keyId seg)) s else s);
               pd = \<lparr>pd_keySessionId = m_mediaKeySessionId seg, pd_subsampleCount = of_nat (length (m_subSamples seg)),
                     pd_initWithLast15 = m_initWithLast15 seg, pd_key = (if netflix then [] else m_keyId seg),
                     pd_iv = m_initVector seg, pd_subsamples = subsamplesRaw (m_subSamples seg)\<rparr>
           in if gw_addMeta w (gp_log s)
              then (b\<lparr>gb_protection := Some pd\<rparr>, effect (FxUsageIncremented (m_mediaKeySessionId seg)) s)
              else (b, s))"

section \<open>Asking the client for data\<close>

text \<open>\<open>m_gstPlayerClient->notifyNeedMediaData\<close>, with the answer of the client.\<close>

definition askForData :: "GstWorld \<Rightarrow> MediaSourceType \<Rightarrow> GstGenericPlayer \<Rightarrow> bool \<times> GstGenericPlayer" where
  "askForData w type s =
     (let r = gw_notifyNeedMediaData w (gp_log s) type in (r, effect (FxNeedMediaData type r) s))"

definition askForAudio :: "GstWorld \<Rightarrow> GstGenericPlayer \<Rightarrow> GstGenericPlayer" where
  "askForAudio w s = (let (r, s) = askForData w AUDIO s in s\<lparr>gp_audioNeedDataPending := r\<rparr>)"

definition askForVideo :: "GstWorld \<Rightarrow> GstGenericPlayer \<Rightarrow> GstGenericPlayer" where
  "askForVideo w s = (let (r, s) = askForData w VIDEO s in s\<lparr>gp_videoNeedDataPending := r\<rparr>)"

definition gstNotifyNeedMediaData :: "GstWorld \<Rightarrow> bool \<Rightarrow> bool \<Rightarrow> GstGenericPlayer \<Rightarrow> GstGenericPlayer" where
  "gstNotifyNeedMediaData w audioNotificationNeeded videoNotificationNeeded s =
     (if audioNotificationNeeded then
        let s = s\<lparr>gp_audioNeedDataPending := False\<rparr>
        in if gp_client s \<and> gp_audioNeedData s then askForAudio w s else s
      else if videoNotificationNeeded then
        let s = s\<lparr>gp_videoNeedDataPending := False\<rparr>
        in if gp_client s \<and> gp_videoNeedData s then askForVideo w s else s
      else s)"

section \<open>The state of the pipeline\<close>

definition changePipelineState :: "GstWorld \<Rightarrow> GstState \<Rightarrow> GstGenericPlayer \<Rightarrow> bool \<times> GstGenericPlayer" where
  "changePipelineState w newState s =
     (if gp_pipeline s = 0 then
        (False, if gp_client s then effect (FxPlaybackState PS_FAILURE) s else s)
      else
        let fails = gw_setStateFails w (gp_log s) newState; s = effect (FxSetState newState) s
        in if fails then (False, if gp_client s then effect (FxPlaybackState PS_FAILURE) s else s)
           else (True, s))"

definition startPositionTimer :: "GstGenericPlayer \<Rightarrow> GstGenericPlayer" where
  "startPositionTimer s = (if gp_positionTimer s = Some True then s else s\<lparr>gp_positionTimer := Some True\<rparr>)"

definition stopPositionTimer :: "GstGenericPlayer \<Rightarrow> GstGenericPlayer" where
  "stopPositionTimer s = (if gp_positionTimer s = Some True then s\<lparr>gp_positionTimer := None\<rparr> else s)"

definition executePlay :: "GstWorld \<Rightarrow> GstGenericPlayer \<Rightarrow> GstGenericPlayer" where
  "executePlay w s = snd (changePipelineState w ST_PLAYING s)"

definition executePause :: "GstWorld \<Rightarrow> GstGenericPlayer \<Rightarrow> GstGenericPlayer" where
  "executePause w s = snd (changePipelineState w ST_PAUSED (stopPositionTimer s))"

text \<open>
  The flag is a reference in the code; here the caller names the stream whose flag it is.
\<close>

definition underflowFlag :: "MediaSourceType \<Rightarrow> GstGenericPlayer \<Rightarrow> bool" where
  "underflowFlag type s = (if type = AUDIO then gp_audioUnderflowOccured s else gp_videoUnderflowOccured s)"

definition setUnderflowFlag :: "MediaSourceType \<Rightarrow> bool \<Rightarrow> GstGenericPlayer \<Rightarrow> GstGenericPlayer" where
  "setUnderflowFlag type v s =
     (if type = AUDIO then s\<lparr>gp_audioUnderflowOccured := v\<rparr> else s\<lparr>gp_videoUnderflowOccured := v\<rparr>)"

text \<open>\<open>m_gstPlayerClient\<close> is not checked here.\<close>

definition cancelUnderflow :: "GstWorld \<Rightarrow> MediaSourceType \<Rightarrow> GstGenericPlayer \<Rightarrow> GstGenericPlayer" where
  "cancelUnderflow w type s =
     (if \<not> underflowFlag type s then s
      else
        let s = setUnderflowFlag type False s
        in if \<not> gp_audioUnderflowOccured s \<and> \<not> gp_videoUnderflowOccured s
           then
             let s = executePlay w s
             in if gp_client s then effect (FxNetworkState NS_BUFFERED) s else terminate s
           else s)"

section \<open>Handing samples over\<close>

definition findAudioAppSrc :: "GstGenericPlayer \<Rightarrow> GstGenericPlayer" where
  "findAudioAppSrc s =
     (if gp_audioAppSrc s = 0 then
        (case gp_streamInfo s AUDIO of None \<Rightarrow> s | Some elem \<Rightarrow> s\<lparr>gp_audioAppSrc := elem\<rparr>)
      else s)"

definition findVideoAppSrc :: "GstGenericPlayer \<Rightarrow> GstGenericPlayer" where
  "findVideoAppSrc s =
     (if gp_videoAppSrc s = 0 then
        (case gp_streamInfo s VIDEO of None \<Rightarrow> s | Some elem \<Rightarrow> s\<lparr>gp_videoAppSrc := elem\<rparr>)
      else s)"

text \<open>A push is recorded with the stream it is for.\<close>

definition pushBuffers :: "MediaSourceType \<Rightarrow> GstPtr \<Rightarrow> GstBuffer list \<Rightarrow> GstGenericPlayer \<Rightarrow> GstGenericPlayer" where
  "pushBuffers type appSrc buffers s = fold (\<lambda>b. effect (FxPushBuffer type appSrc b)) buffers s"

definition notifyBuffered :: "bool \<Rightarrow> GstGenericPlayer \<Rightarrow> GstGenericPlayer" where
  "notifyBuffered otherPushed s =
     (if \<not> gp_bufferedNotificationSent s \<and> otherPushed \<and> gp_client s
      then effect (FxNetworkState NS_BUFFERED) (s\<lparr>gp_bufferedNotificationSent := True\<rparr>)
      else s)"

definition attachAudioData :: "GstWorld \<Rightarrow> GstGenericPlayer \<Rightarrow> GstGenericPlayer" where
  "attachAudioData w s =
     (if gp_audioBuffers s = [] \<or> \<not> gp_audioNeedData s then s
      else
        let s = findAudioAppSrc s
        in if gp_audioAppSrc s = 0 then s
           else
             let s = pushBuffers AUDIO (gp_audioAppSrc s) (gp_audioBuffers s) s;
                 s = s\<lparr>gp_lastAudioSampleTimestamps := gb_timestamp (last (gp_audioBuffers s))\<rparr>;
                 s = s\<lparr>gp_audioBuffers := [], gp_audioDataPushed := True\<rparr>;
                 s = notifyBuffered (gp_videoDataPushed s) s
             in cancelUnderflow w AUDIO s)"

definition attachVideoData :: "GstWorld \<Rightarrow> GstGenericPlayer \<Rightarrow> GstGenericPlayer" where
  "attachVideoData w s =
     (if gp_videoBuffers s = [] \<or> \<not> gp_videoNeedData s then s
      else
        let s = findVideoAppSrc s
        in if gp_videoAppSrc s = 0 then s
           else
             let s = pushBuffers VIDEO (gp_videoAppSrc s) (gp_videoBuffers s) s;
                 s = s\<lparr>gp_videoBuffers := [], gp_videoDataPushed := True\<rparr>;
                 s = notifyBuffered (gp_audioDataPushed s) s
             in cancelUnderflow w VIDEO s)"

text \<open>The caps of an \<open>appsrc\<close> are copied and the copy is changed.\<close>

definition capsSetSimple :: "string \<Rightarrow> CapsValue \<Rightarrow> GstCaps option \<Rightarrow> GstCaps option" where
  "capsSetSimple field v caps = map_option (\<lambda>c. CapsSetSimple c field v) caps"

definition updateAudioCaps :: "GstWorld \<Rightarrow> i32 \<Rightarrow> i32 \<Rightarrow> GstGenericPlayer \<Rightarrow> GstGenericPlayer" where
  "updateAudioCaps w rate channels s =
     (let s = findAudioAppSrc s
      in if gp_audioAppSrc s = 0 then s
         else
           let caps = gw_appSrcCaps w (gp_log s) (gp_audioAppSrc s);
               caps = (if rate \<noteq> 0 then capsSetSimple ''rate'' (CapsInt rate) caps else caps);
               caps = (if channels \<noteq> 0 then capsSetSimple ''channels'' (CapsInt channels) caps else caps)
           in if rate \<noteq> 0 \<or> channels \<noteq> 0 then effect (FxSetCaps (gp_audioAppSrc s) caps) s else s)"

definition updateVideoCaps :: "GstWorld \<Rightarrow> i32 \<Rightarrow> i32 \<Rightarrow> GstGenericPlayer \<Rightarrow> GstGenericPlayer" where
  "updateVideoCaps w width height s =
     (let s = findVideoAppSrc s
      in if gp_videoAppSrc s = 0 then s
         else
           effect (FxSetCaps (gp_videoAppSrc s)
             (capsSetSimple ''height'' (CapsInt height) (capsSetSimple ''width'' (CapsInt width)
               (gw_appSrcCaps w (gp_log s) (gp_videoAppSrc s))))) s)"

section \<open>The video sink\<close>

text \<open>The property \<open>rectangle\<close> is the text \<open>x,y,width,height\<close>.\<close>

definition setWesterossinkRectangle :: "GstWorld \<Rightarrow> GstGenericPlayer \<Rightarrow> bool \<times> GstGenericPlayer" where
  "setWesterossinkRectangle w s =
     (let videoSink = gw_sink w (gp_log s) ''video-sink'';
          result = (videoSink \<noteq> 0 \<and> gw_hasProperty w videoSink ''rectangle'');
          s = (if result then
                 (effect (FxSetProperty videoSink ''rectangle'' (PropRectangle (gp_pendingGeometry s))) s)
                   \<lparr>gp_pendingGeometry := noRectangle\<rparr>
               else s)
      in (result, if videoSink \<noteq> 0 then effect (FxObjectUnref videoSink) s else s))"

definition setWesterossinkSecondaryVideo :: "GstWorld \<Rightarrow> GstGenericPlayer \<Rightarrow> bool \<times> GstGenericPlayer" where
  "setWesterossinkSecondaryVideo w s =
     (let videoSink = gw_sink w (gp_log s) ''video-sink'';
          result = (videoSink \<noteq> 0 \<and> gw_hasProperty w videoSink ''res-usage'');
          s = (if result then effect (FxSetProperty videoSink ''res-usage'' (PropInt 0)) s else s)
      in (result, if videoSink \<noteq> 0 then effect (FxObjectUnref videoSink) s else s))"

section \<open>Reading the position and the volume\<close>

text \<open>On the main thread.\<close>

definition gstGetPosition :: "GstWorld \<Rightarrow> GstGenericPlayer \<Rightarrow> i64 option" where
  "gstGetPosition w s =
     (if gp_pipeline s = 0 \<or> gstStateRank (gw_state w (gp_log s)) < gstStateRank ST_PAUSED then None
      else gw_position w (gp_log s))"

definition gstGetVolume :: "double \<Rightarrow> GstGenericPlayer \<Rightarrow> double option" where
  "gstGetVolume volume s = (if gp_pipeline s = 0 then None else Some volume)"

end
