(* ===== verification/Gst_Tasks.thy ===== *)
theory Gst_Tasks
  imports Gst_Player
begin

text \<open>
  The tasks of the player's worker thread (\<open>media/server/gstplayer/source/tasks/generic\<close>), the worker thread itself
  (\<open>WorkerThread.cpp\<close>), the thread that hands on the messages of the pipeline (\<open>GstDispatcherThread.cpp\<close>), and what the
  main thread and GStreamer's own threads ask of the player: all of it is put into the queue of the worker thread.
\<close>

section \<open>Strings\<close>

definition hasPrefix :: "string \<Rightarrow> string \<Rightarrow> bool" where
  "hasPrefix text p \<longleftrightarrow> take (length p) text = p"

fun hasSubstring :: "string \<Rightarrow> string \<Rightarrow> bool" where
  "hasSubstring [] needle \<longleftrightarrow> needle = []"
| "hasSubstring (c # text) needle \<longleftrightarrow> hasPrefix (c # text) needle \<or> hasSubstring text needle"

fun toDecimal :: "nat \<Rightarrow> string" where
  "toDecimal n = (if n < 10 then [char_of (48 + n)] else toDecimal (n div 10) @ [char_of (48 + n mod 10)])"

declare toDecimal.simps [simp del]

section \<open>Caps of a source\<close>

definition mimeToMediaType :: "(string \<times> string) list" where
  "mimeToMediaType =
     [(''video/h264'', ''video/x-h264''), (''video/h265'', ''video/x-h265''), (''video/x-av1'', ''video/x-av1''),
      (''video/x-vp9'', ''video/x-vp9''), (''audio/mp4'', ''audio/mpeg''), (''audio/aac'', ''audio/mpeg''),
      (''audio/x-eac3'', ''audio/x-eac3''), (''audio/x-opus'', ''audio/x-opus'')]"

definition createSimpleCapsFromMimeType :: "string \<Rightarrow> GstCaps" where
  "createSimpleCapsFromMimeType mimeType =
     (case map_of mimeToMediaType mimeType of Some t \<Rightarrow> CapsNewEmptySimple t | None \<Rightarrow> CapsNewEmpty)"

fun addAlignmentToCaps :: "SegmentAlignment \<Rightarrow> GstCaps \<Rightarrow> GstCaps" where
  "addAlignmentToCaps SA_AU caps = CapsSetSimple caps ''alignment'' (CapsString ''au'')"
| "addAlignmentToCaps SA_NAL caps = CapsSetSimple caps ''alignment'' (CapsString ''nal'')"
| "addAlignmentToCaps SA_UNDEFINED caps = caps"

definition addCodecDataToCaps :: "u8 list \<Rightarrow> GstCaps \<Rightarrow> GstCaps" where
  "addCodecDataToCaps codecData caps =
     (if codecData \<noteq> [] then CapsSetSimple caps ''codec_data'' (CapsBuffer codecData) else caps)"

fun addStreamFormatToCaps :: "StreamFormat \<Rightarrow> GstCaps \<Rightarrow> GstCaps" where
  "addStreamFormatToCaps SF_RAW caps = CapsSetSimple caps ''stream-format'' (CapsString ''raw'')"
| "addStreamFormatToCaps SF_AVC caps = CapsSetSimple caps ''stream-format'' (CapsString ''avc'')"
| "addStreamFormatToCaps SF_BYTE_STREAM caps = CapsSetSimple caps ''stream-format'' (CapsString ''byte-stream'')"
| "addStreamFormatToCaps SF_UNDEFINED caps = caps"

definition buildCommonCaps :: "MediaSource \<Rightarrow> GstCaps" where
  "buildCommonCaps source =
     addStreamFormatToCaps (ms_streamFormat source) (addCodecDataToCaps (ms_codecData source)
       (addAlignmentToCaps (ms_alignment source) (createSimpleCapsFromMimeType (ms_mimeType source))))"

definition addSampleRateAndChannelsToCaps :: "AudioConfig \<Rightarrow> GstCaps \<Rightarrow> GstCaps" where
  "addSampleRateAndChannelsToCaps cfg caps =
     (let caps = (if ac_numberOfChannels cfg \<noteq> 0
                  then CapsSetSimple caps ''channels'' (CapsInt (ac_numberOfChannels cfg)) else caps)
      in if ac_sampleRate cfg \<noteq> 0 then CapsSetSimple caps ''rate'' (CapsInt (ac_sampleRate cfg)) else caps)"

definition addMpegVersionToCaps :: "GstCaps \<Rightarrow> GstCaps" where
  "addMpegVersionToCaps caps = CapsSetSimple caps ''mpegversion'' (CapsInt 4)"

definition getAudioSpecificConfiguration :: "GstWorld \<Rightarrow> AudioConfig \<Rightarrow> GstCaps option" where
  "getAudioSpecificConfiguration w cfg =
     (if ac_codecSpecificConfig cfg \<noteq> [] \<and> gw_opusHeaderValid w (ac_codecSpecificConfig cfg)
      then Some (CapsFromOpusHeader (ac_codecSpecificConfig cfg)) else None)"

definition createOpusCaps :: "GstWorld \<Rightarrow> AudioConfig \<Rightarrow> GstCaps" where
  "createOpusCaps w cfg =
     (case getAudioSpecificConfiguration w cfg of
        Some caps \<Rightarrow> caps
      | None \<Rightarrow> addSampleRateAndChannelsToCaps cfg
                  (CapsSetSimple (CapsNewEmptySimple ''audio/x-opus'') ''channel-mapping-family'' (CapsInt 0)))"

definition buildAudioCaps :: "GstWorld \<Rightarrow> MediaSource \<Rightarrow> AudioConfig \<Rightarrow> GstCaps" where
  "buildAudioCaps w source cfg =
     (if ms_mimeType source = ''audio/x-opus'' then createOpusCaps w cfg
      else
        let caps = buildCommonCaps source;
            caps = (if ms_mimeType source = ''audio/mp4'' \<or> ms_mimeType source = ''audio/aac''
                    then addMpegVersionToCaps caps else caps)
        in addSampleRateAndChannelsToCaps cfg caps)"

definition buildDolbyVisionCaps :: "MediaSource \<Rightarrow> u32 \<Rightarrow> GstCaps" where
  "buildDolbyVisionCaps source profile =
     CapsSetSimple (CapsSetSimple (buildCommonCaps source) ''dovi-stream'' (CapsBool True)) ''dv_profile'' (CapsUint profile)"

text \<open>\<open>Inl ()\<close> is the \<open>std::bad_cast\<close> of a source that is not of the class its configuration type says, \<open>Inr None\<close> the
  null pointer of an invalid configuration type.\<close>

definition createCapsFromMediaSource :: "GstWorld \<Rightarrow> MediaSource \<Rightarrow> unit + GstCaps option" where
  "createCapsFromMediaSource w source =
     (case ms_configType source of
        SCT_AUDIO \<Rightarrow> (case ms_class source of AudioSource cfg \<Rightarrow> Inr (Some (buildAudioCaps w source cfg)) | _ \<Rightarrow> Inl ())
      | SCT_VIDEO \<Rightarrow> Inr (Some (buildCommonCaps source))
      | SCT_VIDEO_DOLBY_VISION \<Rightarrow>
          (case ms_class source of DolbyVisionSource profile \<Rightarrow> Inr (Some (buildDolbyVisionCaps source profile)) | _ \<Rightarrow> Inl ())
      | SCT_UNKNOWN \<Rightarrow> Inr None)"

section \<open>Attaching a source\<close>

definition createAudioAttributes :: "MediaSource \<Rightarrow> AudioConfig \<Rightarrow> AudioAttributesPrivate" where
  "createAudioAttributes source cfg =
     (let attributes = \<lparr>aa_codecParam = '''', aa_numberOfChannels = ac_numberOfChannels cfg,
                        aa_samplesPerSecond = ac_sampleRate cfg, aa_bitrate = 0, aa_blockAlignment = 0,
                        aa_codecSpecificData = ac_codecSpecificConfig cfg\<rparr>
      in if ms_mimeType source = ''audio/mp4'' \<or> ms_mimeType source = ''audio/aac''
         then attributes\<lparr>aa_codecParam := ''mp4a.40.2, mp4a.40.5''\<rparr>
         else if ms_mimeType source = ''audio/x-eac3''
         then attributes\<lparr>aa_codecParam := ''ec-3.A'' @ toDecimal (unat (ac_numberOfChannels cfg))\<rparr>
         else attributes)"

definition addSource :: "GstWorld \<Rightarrow> MediaSource \<Rightarrow> GstCaps option \<Rightarrow> GstGenericPlayer \<Rightarrow> GstGenericPlayer" where
  "addSource w source caps s =
     (let appSrc = gw_makeElement w (gp_log s);
          s = effect (FxMakeElement ''appsrc'' (if ms_type source = AUDIO then ''audsrc'' else ''vidsrc'')) s;
          s = effect (FxSetCaps appSrc caps) s
      in s\<lparr>gp_streamInfo := (gp_streamInfo s)(ms_type source \<mapsto> appSrc)\<rparr>)"

definition updateSource :: "GstWorld \<Rightarrow> GstPtr \<Rightarrow> GstCaps option \<Rightarrow> GstGenericPlayer \<Rightarrow> GstGenericPlayer" where
  "updateSource w appSrc caps s =
     (case gw_appSrcCaps w (gp_log s) appSrc of
        None \<Rightarrow> effect (FxSetCaps appSrc caps) s
      | Some old \<Rightarrow> if \<not> gw_capsIsEqual w old caps then effect (FxSetCaps appSrc caps) s else s)"

text \<open>The position is left uninitialised when the query for it fails.\<close>

definition switchAudioSource :: "GstWorld \<Rightarrow> MediaSource \<Rightarrow> GstPtr \<Rightarrow> GstCaps option \<Rightarrow> GstGenericPlayer \<Rightarrow> GstGenericPlayer" where
  "switchAudioSource w source appSrc caps s =
     (if ms_mimeType source = [] then s
      else
        case ms_class source of
          AudioSource cfg \<Rightarrow>
            let oldCapsStr = (case gw_appSrcCaps w (gp_log s) appSrc of None \<Rightarrow> [] | Some old \<Rightarrow> gw_capsString w (Some old));
                currentDispPts = (case gw_position w (gp_log s) of Some p \<Rightarrow> p | None \<Rightarrow> gw_uninitialised w);
                audioAac = hasSubstring oldCapsStr ''audio/mpeg'';
                (group, currentDispPts) = gw_switchAudioTrack w (gp_log s) (gp_playbackGroup s) currentDispPts;
                s = effect (FxSwitchAudioTrack (gp_playbackGroup s) (createAudioAttributes source cfg) caps audioAac appSrc) s;
                s = s\<lparr>gp_playbackGroup := group, gp_audioNeedData := True, gp_audioUnderflowEnabled := True,
                       gp_audioSourceRemoved := False, gp_lastAudioSampleTimestamps := currentDispPts\<rparr>
            in gstNotifyNeedMediaData w True False s
        | _ \<Rightarrow> terminate s)"

definition executeAttachSource :: "GstWorld \<Rightarrow> MediaSource \<Rightarrow> GstGenericPlayer \<Rightarrow> GstGenericPlayer" where
  "executeAttachSource w source s =
     (if ms_type source = MST_UNKNOWN then s
      else
        case createCapsFromMediaSource w source of
          Inl _ \<Rightarrow> terminate s
        | Inr caps \<Rightarrow>
            (case gp_streamInfo s (ms_type source) of
               None \<Rightarrow> addSource w source caps s
             | Some appSrc \<Rightarrow>
                 if ms_type source = AUDIO \<and> gp_audioSourceRemoved s then switchAudioSource w source appSrc caps s
                 else updateSource w appSrc caps s))"

section \<open>Attaching samples\<close>

text \<open>The constructor of \<open>AttachSamples\<close> makes the buffers, on the thread of the caller.\<close>

definition keepSegment ::
  "GstWorld \<Rightarrow> MediaSegment \<Rightarrow> AudioData list \<times> VideoData list \<times> GstGenericPlayer \<Rightarrow>
     AudioData list \<times> VideoData list \<times> GstGenericPlayer" where
  "keepSegment w seg = (\<lambda>(as, vs, s).
     let (b, s) = createBuffer w seg s
     in if m_type seg = VIDEO then
          (case m_class seg of
             VideoSegment width height \<Rightarrow> (as, vs @ [\<lparr>vd_buffer = b, vd_width = width, vd_height = height\<rparr>], s)
           | _ \<Rightarrow> (as, vs, s))
        else if m_type seg = AUDIO then
          (case m_class seg of
             AudioSegment rate channels \<Rightarrow> (as @ [\<lparr>ad_buffer = b, ad_rate = rate, ad_channels = channels\<rparr>], vs, s)
           | _ \<Rightarrow> (as, vs, s))
        else (as, vs, s))"

definition newAttachSamples :: "GstWorld \<Rightarrow> MediaSegment list \<Rightarrow> GstGenericPlayer \<Rightarrow> PlayerTask \<times> GstGenericPlayer" where
  "newAttachSamples w segs s =
     (let (as, vs, s) = fold (keepSegment w) segs ([], [], s) in (AttachSamplesTask as vs, s))"

definition attachAudioSample :: "GstWorld \<Rightarrow> AudioData \<Rightarrow> GstGenericPlayer \<Rightarrow> GstGenericPlayer" where
  "attachAudioSample w d s =
     (let s = updateAudioCaps w (ad_rate d) (ad_channels d) s
      in attachAudioData w (s\<lparr>gp_audioBuffers := gp_audioBuffers s @ [ad_buffer d]\<rparr>))"

definition attachVideoSample :: "GstWorld \<Rightarrow> VideoData \<Rightarrow> GstGenericPlayer \<Rightarrow> GstGenericPlayer" where
  "attachVideoSample w d s =
     (let s = updateVideoCaps w (vd_width d) (vd_height d) s
      in attachVideoData w (s\<lparr>gp_videoBuffers := gp_videoBuffers s @ [vd_buffer d]\<rparr>))"

definition executeAttachSamples :: "GstWorld \<Rightarrow> AudioData list \<Rightarrow> VideoData list \<Rightarrow> GstGenericPlayer \<Rightarrow> GstGenericPlayer" where
  "executeAttachSamples w audioData videoData s =
     gstNotifyNeedMediaData w (audioData \<noteq> []) (videoData \<noteq> [])
       (fold (attachVideoSample w) videoData (fold (attachAudioSample w) audioData s))"

definition attachReadSegment :: "GstWorld \<Rightarrow> MediaSegment \<Rightarrow> GstGenericPlayer \<Rightarrow> GstGenericPlayer" where
  "attachReadSegment w seg s =
     (let (b, s) = createBuffer w seg s
      in if m_type seg = VIDEO then
           let s = (case m_class seg of VideoSegment width height \<Rightarrow> updateVideoCaps w width height s | _ \<Rightarrow> s)
           in attachVideoData w (s\<lparr>gp_videoBuffers := gp_videoBuffers s @ [b]\<rparr>)
         else if m_type seg = AUDIO then
           let s = (case m_class seg of AudioSegment rate channels \<Rightarrow> updateAudioCaps w rate channels s | _ \<Rightarrow> s)
           in attachAudioData w (s\<lparr>gp_audioBuffers := gp_audioBuffers s @ [b]\<rparr>)
         else s)"

definition executeReadShmDataAndAttachSamples :: "GstWorld \<Rightarrow> DataReader \<Rightarrow> GstGenericPlayer \<Rightarrow> GstGenericPlayer" where
  "executeReadShmDataAndAttachSamples w reader s =
     (let segs = gw_segments w reader
      in gstNotifyNeedMediaData w (segs \<noteq> [] \<and> m_type (hd segs) = AUDIO) (segs \<noteq> [] \<and> m_type (hd segs) = VIDEO)
           (fold (attachReadSegment w) segs s))"

section \<open>The flow of data\<close>

definition executeNeedData :: "GstWorld \<Rightarrow> GstPtr \<Rightarrow> GstGenericPlayer \<Rightarrow> GstGenericPlayer" where
  "executeNeedData w src s =
     (let s = (if gp_streamInfo s AUDIO = Some src then
                 let s = s\<lparr>gp_audioNeedData := True\<rparr>
                 in if gp_client s \<and> \<not> gp_audioNeedDataPending s \<and> \<not> gp_audioSourceRemoved s then askForAudio w s else s
               else s)
      in if gp_streamInfo s VIDEO = Some src then
           let s = s\<lparr>gp_videoNeedData := True\<rparr>
           in if gp_client s \<and> \<not> gp_videoNeedDataPending s then askForVideo w s else s
         else s)"

definition executeEnoughData :: "GstPtr \<Rightarrow> GstGenericPlayer \<Rightarrow> GstGenericPlayer" where
  "executeEnoughData src s =
     (let s = (if gp_streamInfo s AUDIO = Some src then s\<lparr>gp_audioNeedData := False\<rparr> else s)
      in if gp_streamInfo s VIDEO = Some src then s\<lparr>gp_videoNeedData := False\<rparr> else s)"

definition executeEos :: "GstWorld \<Rightarrow> MediaSourceType \<Rightarrow> GstGenericPlayer \<Rightarrow> GstGenericPlayer" where
  "executeEos w type s =
     (let s = (if type = AUDIO \<and> gp_audioUnderflowOccured s then cancelUnderflow w AUDIO s
               else if type = VIDEO \<and> gp_videoUnderflowOccured s then cancelUnderflow w VIDEO s
               else s)
      in case gp_streamInfo s type of None \<Rightarrow> s | Some elem \<Rightarrow> effect (FxEndOfStream elem) s)"

definition executeUnderflow :: "GstWorld \<Rightarrow> MediaSourceType \<Rightarrow> bool \<Rightarrow> GstGenericPlayer \<Rightarrow> GstGenericPlayer" where
  "executeUnderflow w type underflowEnabled s =
     (if \<not> underflowEnabled \<or> underflowFlag type s then s
      else
        let s = executePause w (setUnderflowFlag type True s)
        in if gp_client s then effect (FxNetworkState NS_STALLED) s else s)"

definition kAudioUnderflowMarginNs :: int where "kAudioUnderflowMarginNs = 350 * 1000000"

definition executeCheckAudioUnderflow :: "GstWorld \<Rightarrow> GstGenericPlayer \<Rightarrow> GstGenericPlayer" where
  "executeCheckAudioUnderflow w s =
     (if gp_audioAppSrc s = 0 then s
      else
        let position = (case gw_position w (gp_log s) of Some p \<Rightarrow> sint p | None \<Rightarrow> - 1)
        in if position > sint (gp_lastAudioSampleTimestamps s) + kAudioUnderflowMarginNs \<and>
              gw_state w (gp_log s) = ST_PLAYING \<and> gw_pendingState w (gp_log s) \<noteq> ST_PAUSED
           then executeUnderflow w AUDIO (gp_audioUnderflowEnabled s) s
           else s)"

text \<open>The buffers are dropped without being unreferenced.\<close>

definition executeRemoveSource :: "GstWorld \<Rightarrow> MediaSourceType \<Rightarrow> GstGenericPlayer \<Rightarrow> GstGenericPlayer" where
  "executeRemoveSource w type s =
     (if type \<noteq> AUDIO then s
      else
        let s = s\<lparr>gp_audioBuffers := [], gp_audioNeedData := False, gp_audioNeedDataPending := False,
                  gp_audioUnderflowEnabled := False, gp_audioSourceRemoved := True\<rparr>
        in if \<not> gp_client s then terminate s
           else
             let s = effect (FxInvalidateActiveRequests type) s;
                 source = (case gp_streamInfo s type of None \<Rightarrow> 0 | Some e \<Rightarrow> e)
             in if source = 0 then s
                else effect (FxSendEvent source (EvFlushStop False)) (effect (FxSendEvent source EvFlushStart) s))"

definition executeSetPosition :: "GstWorld \<Rightarrow> i64 \<Rightarrow> GstGenericPlayer \<Rightarrow> GstGenericPlayer" where
  "executeSetPosition w position s =
     (if \<not> gp_client s then s
      else
        let s = effect (FxPlaybackState PS_SEEKING) s;
            s = s\<lparr>gp_audioNeedData := False, gp_videoNeedData := False,
                  gp_audioNeedDataPending := False, gp_videoNeedDataPending := False\<rparr>;
            s = effect FxClearActiveRequests s;
            s = fold bufferUnref (gp_audioBuffers s) s;
            s = s\<lparr>gp_audioBuffers := []\<rparr>;
            s = fold bufferUnref (gp_videoBuffers s) s;
            s = s\<lparr>gp_videoBuffers := [], gp_lastAudioSampleTimestamps := position\<rparr>
        in if gp_pipeline s = 0 then effect (FxPlaybackState PS_FAILURE) s
           else
             let seeks = gw_seek w (gp_log s); s = effect (FxSeek (gp_playbackRate s) position) s
             in if \<not> seeks then effect (FxPlaybackState PS_FAILURE) s
                else
                  fold (\<lambda>type s. case gp_streamInfo s type of
                                   Some src \<Rightarrow> if src \<noteq> 0 then executeNeedData w src s else s
                                 | None \<Rightarrow> s)
                    [MST_UNKNOWN, AUDIO, VIDEO] (effect (FxPlaybackState PS_FLUSHED) s))"

definition executeSetPlaybackRate :: "GstWorld \<Rightarrow> double \<Rightarrow> GstGenericPlayer \<Rightarrow> GstGenericPlayer" where
  "executeSetPlaybackRate w rate s =
     (if gp_playbackRate s = rate then s
      else if gp_pipeline s = 0 \<or> gstStateRank (gw_state w (gp_log s)) < gstStateRank ST_PLAYING
      then s\<lparr>gp_pendingPlaybackRate := rate\<rparr>
      else
        let s = s\<lparr>gp_pendingPlaybackRate := kNoPendingPlaybackRate\<rparr>;
            audioSink = gw_sink w (gp_log s) ''audio-sink'';
            success = gw_sendEvent w (gp_log s);
            s = (if audioSink \<noteq> 0 \<and> hasPrefix (case gw_name w audioSink of Some n \<Rightarrow> n | None \<Rightarrow> []) ''amlhalasink''
                 then effect (FxPadSendEvent audioSink (EvSegmentRate rate)) s
                 else effect (FxSendEvent (gp_pipeline s) (EvCustomRate rate)) s);
            s = (if success then s\<lparr>gp_playbackRate := rate\<rparr> else s)
        in if audioSink \<noteq> 0 then effect (FxObjectUnref audioSink) s else s)"

section \<open>Setting the pipeline up\<close>

definition scheduleSourceSetupFinish :: "GstGenericPlayer \<Rightarrow> GstGenericPlayer" where
  "scheduleSourceSetupFinish s = s\<lparr>gp_finishSourceSetupTimer := Some True\<rparr>"

definition executeSetupSource :: "GstPtr \<Rightarrow> GstGenericPlayer \<Rightarrow> GstGenericPlayer" where
  "executeSetupSource source s = scheduleSourceSetupFinish (s\<lparr>gp_source := source\<rparr>)"

definition executeFinishSetupSource :: "GstWorld \<Rightarrow> GstGenericPlayer \<Rightarrow> GstGenericPlayer" where
  "executeFinishSetupSource w s =
     (let s = (case gp_streamInfo s AUDIO of
                 Some elem \<Rightarrow> gstNotifyNeedMediaData w True False (effect (FxSetupAppSrc (gp_source s) elem AUDIO) s)
               | None \<Rightarrow> s);
          s = (case gp_streamInfo s VIDEO of
                 Some elem \<Rightarrow> gstNotifyNeedMediaData w False True (effect (FxSetupAppSrc (gp_source s) elem VIDEO) s)
               | None \<Rightarrow> s);
          s = effect (FxAllAppSrcsAdded (gp_source s)) s
      in if gp_client s then effect (FxPlaybackState PS_IDLE) s else s)"

definition isVideoDecoder :: "GstWorld \<Rightarrow> GstPtr \<Rightarrow> bool" where
  "isVideoDecoder w element \<longleftrightarrow>
     element \<noteq> 0 \<and> (case gw_factoryTypes w element of None \<Rightarrow> False | Some (decoder, video, audio) \<Rightarrow> decoder \<and> video)"

definition isAudioDecoder :: "GstWorld \<Rightarrow> GstPtr \<Rightarrow> bool" where
  "isAudioDecoder w element \<longleftrightarrow>
     element \<noteq> 0 \<and> (case gw_factoryTypes w element of None \<Rightarrow> False | Some (decoder, video, audio) \<Rightarrow> decoder \<and> audio)"

definition underflowSignals :: "string list" where
  "underflowSignals = [''buffer-underflow-callback'', ''vidsink-underflow-callback'']"

fun findUnderflowSignal :: "bool \<Rightarrow> (GTypeKind \<times> string list) list \<Rightarrow> string" where
  "findUnderflowSignal isBin [] = []"
| "findUnderflowSignal isBin ((type, signals) # parents) =
     (if type = GT_ELEMENT \<or> type = GT_OBJECT then []
      else if type = GT_BIN \<and> \<not> isBin then findUnderflowSignal isBin parents
      else case find (\<lambda>n. n \<in> set underflowSignals) signals of
             Some signalName \<Rightarrow> signalName
           | None \<Rightarrow> findUnderflowSignal isBin parents)"

definition getUnderflowSignalName :: "GstWorld \<Rightarrow> GstPtr \<Rightarrow> string" where
  "getUnderflowSignalName w element =
     (let chain = gw_typeChain w element in findUnderflowSignal (chain \<noteq> [] \<and> fst (hd chain) = GT_BIN) chain)"

definition executeSetupElement :: "GstWorld \<Rightarrow> GstPtr \<Rightarrow> GstGenericPlayer \<Rightarrow> GstGenericPlayer" where
  "executeSetupElement w element s =
     (let s = (if hasPrefix (case gw_name w element of Some n \<Rightarrow> n | None \<Rightarrow> []) ''westerossink'' then
                 let s = (if gp_isSecondaryVideo s then snd (setWesterossinkSecondaryVideo w s) else s)
                 in if \<not> rectangleEmpty (gp_pendingGeometry s) then snd (setWesterossinkRectangle w s) else s
               else s);
          signal = getUnderflowSignalName w element;
          s = (if isVideoDecoder w element then
                 if signal \<noteq> [] then effect (FxSignalConnect element signal) s else s
               else if isAudioDecoder w element then
                 if signal \<noteq> [] then effect (FxSignalConnect element signal) (s\<lparr>gp_audioUnderflowEnabled := True\<rparr>) else s
               else s)
      in effect (FxObjectUnref element) s)"

text \<open>The constructor of \<open>DeepElementAdded\<close> connects the signal, on GStreamer's thread.\<close>

definition newDeepElementAdded ::
  "GstWorld \<Rightarrow> GstPtr \<Rightarrow> GstPtr \<Rightarrow> GstPtr \<Rightarrow> GstGenericPlayer \<Rightarrow> PlayerTask \<times> GstGenericPlayer" where
  "newDeepElementAdded w pipeline bin element s =
     (if gw_parent w element = bin then
        case gw_name w element of
          None \<Rightarrow> (DeepElementAddedTask pipeline bin element None None, s)
        | Some name \<Rightarrow>
            if hasSubstring name ''typefind'' then
              (DeepElementAddedTask pipeline bin element (Some name) (Some (gw_signalId w (gp_log s))),
               effect (FxSignalConnect element ''have-type'') s)
            else (DeepElementAddedTask pipeline bin element (Some name) None, s)
      else (DeepElementAddedTask pipeline bin element None None, s))"

definition executeDeepElementAdded ::
  "GstWorld \<Rightarrow> GstPtr \<Rightarrow> GstPtr \<Rightarrow> GstPtr \<Rightarrow> string option \<Rightarrow> nat option \<Rightarrow> GstGenericPlayer \<Rightarrow> GstGenericPlayer" where
  "executeDeepElementAdded w pipeline bin element elementName signalId s =
     (let s = s\<lparr>gp_playbackGroup := (gp_playbackGroup s)\<lparr>pg_gstPipeline := pipeline\<rparr>\<rparr>;
          s = (case signalId of
                 Some i \<Rightarrow> s\<lparr>gp_playbackGroup := (gp_playbackGroup s)\<lparr>pg_curAudioTypefind := element\<rparr>,
                             gp_connectedSignals := (element, i) # filter (\<lambda>p. fst p \<noteq> element) (gp_connectedSignals s)\<rparr>
               | None \<Rightarrow> s)
      in case elementName of
           None \<Rightarrow> s
         | Some name \<Rightarrow>
             if bin = pg_curAudioDecodeBin (gp_playbackGroup s) then
               if hasSubstring name ''parse'' then s\<lparr>gp_playbackGroup := (gp_playbackGroup s)\<lparr>pg_curAudioParse := element\<rparr>\<rparr>
               else if hasSubstring name ''dec'' then s\<lparr>gp_playbackGroup := (gp_playbackGroup s)\<lparr>pg_curAudioDecoder := element\<rparr>\<rparr>
               else s
             else if hasSubstring name ''audiosink'' then
               let parent = gw_parent w element
               in if parent \<noteq> 0 \<and> (case gw_name w parent of Some n \<Rightarrow> hasSubstring n ''bin'' | None \<Rightarrow> False)
                  then s\<lparr>gp_playbackGroup := (gp_playbackGroup s)\<lparr>pg_curAudioPlaysinkBin := parent\<rparr>\<rparr> else s
             else s)"

definition executeUpdatePlaybackGroup :: "GstWorld \<Rightarrow> GstPtr \<Rightarrow> GstCaps option \<Rightarrow> GstGenericPlayer \<Rightarrow> GstGenericPlayer" where
  "executeUpdatePlaybackGroup w typefind caps s =
     (case caps of
        None \<Rightarrow> s
      | Some _ \<Rightarrow>
          if hasSubstring (gw_capsString w caps) ''audio/'' then
            let parent = gw_parent w typefind
            in if parent \<noteq> 0 \<and> (case gw_name w parent of Some n \<Rightarrow> hasSubstring n ''decodebin'' | None \<Rightarrow> False)
               then s\<lparr>gp_playbackGroup := (gp_playbackGroup s)\<lparr>pg_curAudioDecodeBin := parent, pg_curAudioTypefind := typefind\<rparr>\<rparr>
               else s
          else s)"

section \<open>Messages of the pipeline and playback control\<close>

definition gstSetPlaybackRate :: "double \<Rightarrow> GstGenericPlayer \<Rightarrow> GstGenericPlayer" where
  "gstSetPlaybackRate rate s = enqueueGstTask (SetPlaybackRateTask rate) s"

definition handleStateChanged :: "GstState \<Rightarrow> GstState \<Rightarrow> GstGenericPlayer \<Rightarrow> GstGenericPlayer" where
  "handleStateChanged newState pending s =
     (case newState of
        ST_NULL \<Rightarrow> effect (FxPlaybackState PS_STOPPED) s
      | ST_PAUSED \<Rightarrow> if pending \<noteq> ST_PAUSED then effect (FxPlaybackState PS_PAUSED) s else s
      | ST_PLAYING \<Rightarrow>
          let s = effect (FxPlaybackState PS_PLAYING) s;
              s = (if gp_pendingPlaybackRate s \<noteq> kNoPendingPlaybackRate
                   then gstSetPlaybackRate (gp_pendingPlaybackRate s) s else s)
          in startPositionTimer s
      | ST_VOID_PENDING \<Rightarrow> s
      | ST_READY \<Rightarrow> s)"

fun handleBusMessage :: "GstWorld \<Rightarrow> BusMessage \<Rightarrow> GstGenericPlayer \<Rightarrow> GstGenericPlayer" where
  "handleBusMessage w (BusStateChanged src oldState newState pending) s =
     (if gp_pipeline s \<noteq> 0 \<and> src = gp_pipeline s \<and> gp_client s then handleStateChanged newState pending s else s)"
| "handleBusMessage w (BusEos src) s =
     (if gp_pipeline s \<noteq> 0 \<and> src = gp_pipeline s \<and> gp_client s then effect (FxPlaybackState PS_END_OF_STREAM) s else s)"
| "handleBusMessage w (BusQos src buffersOrDefault processed dropped) s =
     (if buffersOrDefault \<and> gp_client s then
        let qos = \<lparr>qos_processed = processed, qos_dropped = dropped\<rparr>
        in if hasSubstring (gw_klass w src) ''Video'' then effect (FxQos VIDEO qos) s
           else if hasSubstring (gw_klass w src) ''Audio'' then effect (FxQos AUDIO qos) s
           else s
      else s)"
| "handleBusMessage w (BusError src) s = s"
| "handleBusMessage w (BusOther src) s = s"

definition executeHandleBusMessage :: "GstWorld \<Rightarrow> BusMessage \<Rightarrow> GstGenericPlayer \<Rightarrow> GstGenericPlayer" where
  "executeHandleBusMessage w m s = effect FxMessageUnref (handleBusMessage w m s)"

definition executeStop :: "GstWorld \<Rightarrow> GstGenericPlayer \<Rightarrow> GstGenericPlayer" where
  "executeStop w s =
     (snd (changePipelineState w ST_NULL (stopPositionTimer s)))\<lparr>gp_videoNeedData := False, gp_audioNeedData := False\<rparr>"

definition executeShutdown :: "GstGenericPlayer \<Rightarrow> GstGenericPlayer" where
  "executeShutdown s = (if gp_workerThread s then s\<lparr>gp_taskThreadActive := False\<rparr> else s)"

definition executeSetVideoGeometry :: "GstWorld \<Rightarrow> Rectangle \<Rightarrow> GstGenericPlayer \<Rightarrow> GstGenericPlayer" where
  "executeSetVideoGeometry w rectangle s =
     (let s = s\<lparr>gp_pendingGeometry := rectangle\<rparr>
      in if gp_pipeline s \<noteq> 0 then snd (setWesterossinkRectangle w s) else s)"

definition executeSetVolume :: "double \<Rightarrow> GstGenericPlayer \<Rightarrow> GstGenericPlayer" where
  "executeSetVolume volume s = (if gp_pipeline s = 0 then s else effect (FxStreamVolume volume) s)"

definition executeRenderFrame :: "GstWorld \<Rightarrow> GstGenericPlayer \<Rightarrow> GstGenericPlayer" where
  "executeRenderFrame w s =
     (let videoSink = gw_sink w (gp_log s) ''video-sink''
      in if videoSink = 0 then s
         else
           let s = (if gw_hasProperty w videoSink ''frame-step-on-preroll'' then
                      effect (FxSetProperty videoSink ''frame-step-on-preroll'' (PropInt 0))
                        (effect (FxSendEvent videoSink EvStep)
                          (effect (FxSetProperty videoSink ''frame-step-on-preroll'' (PropInt 1)) s))
                    else s)
           in effect (FxObjectUnref videoSink) s)"

definition executeReportPosition :: "GstWorld \<Rightarrow> GstGenericPlayer \<Rightarrow> GstGenericPlayer" where
  "executeReportPosition w s =
     (case gw_position w (gp_log s) of
        None \<Rightarrow> s
      | Some position \<Rightarrow> if sint position \<ge> 0 \<and> gp_client s then effect (FxPosition position) s else s)"

section \<open>The worker thread\<close>

fun executeTask :: "GstWorld \<Rightarrow> PlayerTask \<Rightarrow> GstGenericPlayer \<Rightarrow> GstGenericPlayer" where
  "executeTask w (AttachSamplesTask as vs) s = executeAttachSamples w as vs s"
| "executeTask w (ReadShmDataAndAttachSamplesTask reader) s = executeReadShmDataAndAttachSamples w reader s"
| "executeTask w (AttachSourceTask source) s = executeAttachSource w source s"
| "executeTask w (RemoveSourceTask type) s = executeRemoveSource w type s"
| "executeTask w (NeedDataTask src) s = executeNeedData w src s"
| "executeTask w (EnoughDataTask src) s = executeEnoughData src s"
| "executeTask w (EosTask type) s = executeEos w type s"
| "executeTask w (UnderflowTask type enabled) s = executeUnderflow w type enabled s"
| "executeTask w CheckAudioUnderflowTask s = executeCheckAudioUnderflow w s"
| "executeTask w (SetupSourceTask source) s = executeSetupSource source s"
| "executeTask w FinishSetupSourceTask s = executeFinishSetupSource w s"
| "executeTask w (SetupElementTask element) s = executeSetupElement w element s"
| "executeTask w (DeepElementAddedTask pipeline bin element name i) s = executeDeepElementAdded w pipeline bin element name i s"
| "executeTask w (UpdatePlaybackGroupTask typefind caps) s = executeUpdatePlaybackGroup w typefind caps s"
| "executeTask w (HandleBusMessageTask m) s = executeHandleBusMessage w m s"
| "executeTask w PlayTask s = executePlay w s"
| "executeTask w PauseTask s = executePause w s"
| "executeTask w StopTask s = executeStop w s"
| "executeTask w GstShutdownTask s = executeShutdown s"
| "executeTask w (SetPositionTask position) s = executeSetPosition w position s"
| "executeTask w (SetPlaybackRateTask rate) s = executeSetPlaybackRate w rate s"
| "executeTask w (SetVideoGeometryTask r) s = executeSetVideoGeometry w r s"
| "executeTask w (SetVolumeTask volume) s = executeSetVolume volume s"
| "executeTask w RenderFrameTask s = executeRenderFrame w s"
| "executeTask w ReportPositionTask s = executeReportPosition w s"

text \<open>One round of \<open>taskHandler\<close>; with an empty queue the thread waits.\<close>

definition workerStep :: "GstWorld \<Rightarrow> GstGenericPlayer \<Rightarrow> GstGenericPlayer" where
  "workerStep w s =
     (if gp_taskThreadActive s then
        case gp_tasks s of [] \<Rightarrow> s | t # ts \<Rightarrow> executeTask w t (s\<lparr>gp_tasks := ts\<rparr>)
      else s)"

end
