(* ===== verification/Gst_Lifecycle.thy ===== *)
theory Gst_Lifecycle
  imports Gst_Tasks
begin

text \<open>
  The life of a GStreamer player: its constructor and destructor (\<open>GstGenericPlayer.cpp\<close>), the requests of the main
  thread, the signals of GStreamer, the timers and the thread that hands on the messages of the pipeline
  (\<open>GstDispatcherThread.cpp\<close>). Everything that happens to a player is an event; a run is a list of events.
\<close>

section \<open>Waiting for the worker thread\<close>

text \<open>
  \<open>join\<close> waits until the worker thread has stopped. A task that asks the client for data waits for the main thread
  (\<open>MediaPipelineServerInternal::notifyNeedMediaData\<close>); when it is the main thread that joins, neither goes on. \<open>None\<close>:
  the join does not return. Every round takes one task from the queue, so the length of the queue is fuel enough for the
  task that stops the thread to be reached.
\<close>

definition isRequest :: "GstEffect \<Rightarrow> bool" where
  "isRequest e = (case e of FxNeedMediaData _ _ \<Rightarrow> True | _ \<Rightarrow> False)"

definition asksClient :: "GstGenericPlayer \<Rightarrow> GstGenericPlayer \<Rightarrow> bool" where
  "asksClient s s' \<longleftrightarrow> list_ex isRequest (drop (length (gp_log s)) (gp_log s'))"

fun joinRounds :: "GstWorld \<Rightarrow> bool \<Rightarrow> nat \<Rightarrow> GstGenericPlayer \<Rightarrow> GstGenericPlayer option" where
  "joinRounds w byMainThread 0 s = (if gp_taskThreadActive s then None else Some s)"
| "joinRounds w byMainThread (Suc n) s =
     (if \<not> gp_taskThreadActive s then Some s
      else if gp_tasks s = [] then None
      else if byMainThread \<and> asksClient s (workerStep w s) then None
      else joinRounds w byMainThread n (workerStep w s))"

definition joinWorkerThread :: "GstWorld \<Rightarrow> bool \<Rightarrow> GstGenericPlayer \<Rightarrow> GstGenericPlayer option" where
  "joinWorkerThread w byMainThread s = joinRounds w byMainThread (length (gp_tasks s)) s"

section \<open>Construction\<close>

definition kMinPrimaryVideoWidth :: u32 where "kMinPrimaryVideoWidth = 1920"

definition kMinPrimaryVideoHeight :: u32 where "kMinPrimaryVideoHeight = 1080"

definition newGstContext :: "bool \<Rightarrow> u32 \<Rightarrow> u32 \<Rightarrow> GstGenericPlayer" where
  "newGstContext client maxWidth maxHeight =
     \<lparr>gp_client = client, gp_workerThread = False, gp_taskThreadActive = False, gp_tasks = [], gp_dispatcherActive = False,
      gp_finishSourceSetupTimer = None, gp_positionTimer = None, gp_audioAppSrc = 0, gp_videoAppSrc = 0, gp_pipeline = 0,
      gp_source = 0, gp_streamInfo = Map.empty, gp_audioNeedData = False, gp_videoNeedData = False,
      gp_audioNeedDataPending = False, gp_videoNeedDataPending = False, gp_audioDataPushed = False,
      gp_videoDataPushed = False, gp_bufferedNotificationSent = False, gp_audioBuffers = [], gp_videoBuffers = [],
      gp_audioUnderflowOccured = False, gp_videoUnderflowOccured = False, gp_audioUnderflowEnabled = False,
      gp_pendingGeometry = noRectangle, gp_playbackRate = 1, gp_pendingPlaybackRate = kNoPendingPlaybackRate,
      gp_lastAudioSampleTimestamps = 0,
      gp_isSecondaryVideo = (kMinPrimaryVideoWidth > maxWidth \<or> kMinPrimaryVideoHeight > maxHeight),
      gp_audioSourceRemoved = False, gp_playbackGroup = noPlaybackGroup, gp_connectedSignals = [], gp_nextBuffer = 0,
      gp_log = []\<rparr>"

definition initMsePipeline :: "GstWorld \<Rightarrow> GstGenericPlayer \<Rightarrow> GstGenericPlayer" where
  "initMsePipeline w s =
     (let pipeline = gw_makeElement w (gp_log s);
          s = (effect (FxMakeElement ''playbin'' ''media_pipeline'') s)\<lparr>gp_pipeline := pipeline\<rparr>;
          flags = or (or (gw_playFlag w ''audio'') (gw_playFlag w ''video'')) (gw_playFlag w ''native-video'');
          s = effect (FxSetProperty pipeline ''flags'' (PropInt (uint flags))) s;
          s = effect (FxSignalConnect pipeline ''source-setup'') s;
          s = effect (FxSignalConnect pipeline ''element-setup'') s;
          s = effect (FxSignalConnect pipeline ''deep-element-added'') s;
          s = effect (FxSetProperty pipeline ''uri'' (PropString ''rialto://'')) s;
          playsink = gw_playsink w (gp_log s)
      in if playsink \<noteq> 0
         then effect (FxObjectUnref playsink) (effect (FxSetProperty playsink ''send-event-mode'' (PropInt 0)) s)
         else s)"

text \<open>
  What the constructor does when the factories give it what it asks for (\<open>gstSrc\<close>, \<open>timers\<close>, \<open>protection\<close>, \<open>worker\<close>): it
  throws, or makes a player, or never returns. The worker thread runs from the moment it is created, and the destructor of
  \<open>WorkerThread\<close> joins it without stopping it; an exception thrown while the thread waits for a task leads there.
\<close>

datatype GstConstruction = GstConstructed GstGenericPlayer | GstThrown | GstNeverReturns

definition newGstGenericPlayer ::
  "GstWorld \<Rightarrow> bool \<Rightarrow> MediaType \<Rightarrow> u32 \<Rightarrow> u32 \<Rightarrow> bool \<Rightarrow> bool \<Rightarrow> bool \<Rightarrow> bool \<Rightarrow> GstConstruction" where
  "newGstGenericPlayer w client type maxWidth maxHeight gstSrc timers protection worker =
     (let s = newGstContext client maxWidth maxHeight
      in if \<not> gstSrc then GstThrown
         else if \<not> timers then GstThrown
         else if \<not> protection then GstThrown
         else if \<not> worker then GstThrown
         else
           let s = s\<lparr>gp_workerThread := True, gp_taskThreadActive := True\<rparr>
           in case type of
                MSE \<Rightarrow> GstConstructed ((initMsePipeline w s)\<lparr>gp_dispatcherActive := True\<rparr>)
              | MT_UNKNOWN \<Rightarrow>
                  (case joinWorkerThread w False s of None \<Rightarrow> GstNeverReturns | Some _ \<Rightarrow> GstThrown))"

text \<open>
  The factory: it throws itself when a wrapper is missing, and turns every exception into a null pointer (\<open>Some None\<close>).
  \<open>None\<close>: it does not return.
\<close>

definition createGstGenericPlayer ::
  "GstWorld \<Rightarrow> bool \<Rightarrow> MediaType \<Rightarrow> u32 \<Rightarrow> u32 \<Rightarrow> bool \<Rightarrow> bool \<Rightarrow> bool \<Rightarrow> bool \<Rightarrow> bool \<Rightarrow> bool \<Rightarrow> bool \<Rightarrow>
     GstGenericPlayer option option" where
  "createGstGenericPlayer w client type maxWidth maxHeight gstWrapper glibWrapper rdkWrapper gstSrc timers protection worker =
     (if \<not> gstWrapper \<or> \<not> glibWrapper \<or> \<not> rdkWrapper then Some None
      else case newGstGenericPlayer w client type maxWidth maxHeight gstSrc timers protection worker of
             GstConstructed s \<Rightarrow> Some (Some s)
           | GstThrown \<Rightarrow> Some None
           | GstNeverReturns \<Rightarrow> None)"

section \<open>Events\<close>

text \<open>
  The calls of the main thread, the signals of GStreamer, the arrival of a message at the bus, a timer that expires, and
  the worker thread doing its next task.
\<close>

datatype PlayerEvent =
    CallAttachSource MediaSource | CallRemoveSource MediaSourceType
  | CallAttachSegments "MediaSegment list" | CallAttachReader DataReader
  | CallPlay | CallPause | CallStop | CallSetPosition i64 | CallSetPlaybackRate double
  | CallSetVideoGeometry i32 i32 i32 i32 | CallSetEos MediaSourceType | CallRenderFrame | CallSetVolume double
  | SignalSourceSetup GstPtr | SignalElementSetup GstPtr | SignalDeepElementAdded GstPtr GstPtr GstPtr
  | SignalNeedData GstPtr | SignalEnoughData GstPtr | SignalSeekData GstPtr
  | SignalAudioUnderflow | SignalVideoUnderflow | SignalHaveType GstPtr "GstCaps option"
  | BusMessageArrives BusMessage | FinishSetupTimerExpires | PositionTimerExpires | WorkerRuns

definition enqueueNew :: "(GstGenericPlayer \<Rightarrow> PlayerTask \<times> GstGenericPlayer) \<Rightarrow> GstGenericPlayer \<Rightarrow> GstGenericPlayer" where
  "enqueueNew newTask s = (if gp_workerThread s then (let (t, s) = newTask s in enqueueGstTask t s) else s)"

text \<open>The requests of the main thread.\<close>

definition gstAttachSource :: "MediaSource \<Rightarrow> GstGenericPlayer \<Rightarrow> GstGenericPlayer" where
  "gstAttachSource source s = enqueueGstTask (AttachSourceTask source) s"

definition gstRemoveSource :: "MediaSourceType \<Rightarrow> GstGenericPlayer \<Rightarrow> GstGenericPlayer" where
  "gstRemoveSource type s = enqueueGstTask (RemoveSourceTask type) s"

definition gstAttachSegments :: "GstWorld \<Rightarrow> MediaSegment list \<Rightarrow> GstGenericPlayer \<Rightarrow> GstGenericPlayer" where
  "gstAttachSegments w segs s = enqueueNew (newAttachSamples w segs) s"

definition gstAttachReader :: "DataReader \<Rightarrow> GstGenericPlayer \<Rightarrow> GstGenericPlayer" where
  "gstAttachReader reader s = enqueueGstTask (ReadShmDataAndAttachSamplesTask reader) s"

definition gstPlay :: "GstGenericPlayer \<Rightarrow> GstGenericPlayer" where
  "gstPlay s = enqueueGstTask PlayTask s"

definition gstPause :: "GstGenericPlayer \<Rightarrow> GstGenericPlayer" where
  "gstPause s = enqueueGstTask PauseTask s"

definition gstStop :: "GstGenericPlayer \<Rightarrow> GstGenericPlayer" where
  "gstStop s = enqueueGstTask StopTask s"

definition gstSetPosition :: "i64 \<Rightarrow> GstGenericPlayer \<Rightarrow> GstGenericPlayer" where
  "gstSetPosition position s = enqueueGstTask (SetPositionTask position) s"

definition gstSetVideoGeometry :: "i32 \<Rightarrow> i32 \<Rightarrow> i32 \<Rightarrow> i32 \<Rightarrow> GstGenericPlayer \<Rightarrow> GstGenericPlayer" where
  "gstSetVideoGeometry x y width height s =
     enqueueGstTask (SetVideoGeometryTask \<lparr>rect_x = x, rect_y = y, rect_width = width, rect_height = height\<rparr>) s"

definition gstSetEos :: "MediaSourceType \<Rightarrow> GstGenericPlayer \<Rightarrow> GstGenericPlayer" where
  "gstSetEos type s = enqueueGstTask (EosTask type) s"

definition gstRenderFrame :: "GstGenericPlayer \<Rightarrow> GstGenericPlayer" where
  "gstRenderFrame s = enqueueGstTask RenderFrameTask s"

definition gstSetVolume :: "double \<Rightarrow> GstGenericPlayer \<Rightarrow> GstGenericPlayer" where
  "gstSetVolume volume s = enqueueGstTask (SetVolumeTask volume) s"

text \<open>The callbacks of GStreamer.\<close>

definition setupSource :: "GstPtr \<Rightarrow> GstGenericPlayer \<Rightarrow> GstGenericPlayer" where
  "setupSource source s = enqueueGstTask (SetupSourceTask source) (effect (FxObjectRef source) s)"

definition setupElement :: "GstPtr \<Rightarrow> GstGenericPlayer \<Rightarrow> GstGenericPlayer" where
  "setupElement element s = enqueueGstTask (SetupElementTask element) (effect (FxObjectRef element) s)"

definition deepElementAdded :: "GstWorld \<Rightarrow> GstPtr \<Rightarrow> GstPtr \<Rightarrow> GstPtr \<Rightarrow> GstGenericPlayer \<Rightarrow> GstGenericPlayer" where
  "deepElementAdded w pipeline bin element s = enqueueNew (newDeepElementAdded w pipeline bin element) s"

definition scheduleNeedMediaData :: "GstPtr \<Rightarrow> GstGenericPlayer \<Rightarrow> GstGenericPlayer" where
  "scheduleNeedMediaData src s = enqueueGstTask (NeedDataTask src) s"

definition scheduleEnoughData :: "GstPtr \<Rightarrow> GstGenericPlayer \<Rightarrow> GstGenericPlayer" where
  "scheduleEnoughData src s = enqueueGstTask (EnoughDataTask src) s"

definition appSrcSeekData :: "GstPtr \<Rightarrow> GstGenericPlayer \<Rightarrow> GstGenericPlayer" where
  "appSrcSeekData src s = scheduleEnoughData src s"

definition scheduleAudioUnderflow :: "GstGenericPlayer \<Rightarrow> GstGenericPlayer" where
  "scheduleAudioUnderflow s = enqueueGstTask (UnderflowTask AUDIO (gp_audioUnderflowEnabled s)) s"

definition scheduleVideoUnderflow :: "GstGenericPlayer \<Rightarrow> GstGenericPlayer" where
  "scheduleVideoUnderflow s = enqueueGstTask (UnderflowTask VIDEO True) s"

text \<open>These two do not check that there is a worker thread.\<close>

definition gstHandleBusMessage :: "BusMessage \<Rightarrow> GstGenericPlayer \<Rightarrow> GstGenericPlayer" where
  "gstHandleBusMessage m s = s\<lparr>gp_tasks := gp_tasks s @ [HandleBusMessageTask m]\<rparr>"

definition updatePlaybackGroup :: "GstPtr \<Rightarrow> GstCaps option \<Rightarrow> GstGenericPlayer \<Rightarrow> GstGenericPlayer" where
  "updatePlaybackGroup typefind caps s = s\<lparr>gp_tasks := gp_tasks s @ [UpdatePlaybackGroupTask typefind caps]\<rparr>"

text \<open>The timers: one that fires once, and a periodic one.\<close>

definition finishSetupTimerExpires :: "GstGenericPlayer \<Rightarrow> GstGenericPlayer" where
  "finishSetupTimerExpires s =
     (if gp_finishSourceSetupTimer s = Some True
      then enqueueGstTask FinishSetupSourceTask (s\<lparr>gp_finishSourceSetupTimer := Some False\<rparr>) else s)"

definition positionTimerExpires :: "GstGenericPlayer \<Rightarrow> GstGenericPlayer" where
  "positionTimerExpires s =
     (if gp_positionTimer s = Some True
      then enqueueGstTask CheckAudioUnderflowTask (enqueueGstTask ReportPositionTask s) else s)"

lemmas gst_request_defs =
  gstAttachSource_def gstRemoveSource_def gstAttachSegments_def gstAttachReader_def gstPlay_def gstPause_def gstStop_def
  gstSetPosition_def gstSetPlaybackRate_def gstSetVideoGeometry_def gstSetEos_def gstRenderFrame_def gstSetVolume_def
  setupSource_def setupElement_def deepElementAdded_def scheduleNeedMediaData_def scheduleEnoughData_def appSrcSeekData_def
  scheduleAudioUnderflow_def scheduleVideoUnderflow_def gstHandleBusMessage_def updatePlaybackGroup_def
  finishSetupTimerExpires_def positionTimerExpires_def enqueueNew_def newAttachSamples_def newDeepElementAdded_def

text \<open>
  A message that arrives while the dispatcher thread runs is handed to the worker thread. The state \<open>NULL\<close> of the pipeline
  and an error of the pipeline end the dispatcher thread.
\<close>

definition busMessageSource :: "BusMessage \<Rightarrow> GstPtr" where
  "busMessageSource m =
     (case m of BusStateChanged src _ _ _ \<Rightarrow> src | BusEos src \<Rightarrow> src | BusQos src _ _ _ \<Rightarrow> src | BusError src \<Rightarrow> src | BusOther src \<Rightarrow> src)"

definition endsDispatcher :: "BusMessage \<Rightarrow> bool" where
  "endsDispatcher m =
     (case m of BusStateChanged _ _ newState _ \<Rightarrow> newState = ST_NULL | BusError _ \<Rightarrow> True | _ \<Rightarrow> False)"

definition dispatcherFilter :: "BusMessage \<Rightarrow> bool" where
  "dispatcherFilter m = (case m of BusOther _ \<Rightarrow> False | _ \<Rightarrow> True)"

definition gstBusEvent :: "BusMessage \<Rightarrow> GstGenericPlayer \<Rightarrow> GstGenericPlayer" where
  "gstBusEvent m s =
     (if gp_dispatcherActive s \<and> dispatcherFilter m then
        let s = (if busMessageSource m = gp_pipeline s \<and> endsDispatcher m then s\<lparr>gp_dispatcherActive := False\<rparr> else s)
        in gstHandleBusMessage m s
      else s)"

fun playerEvent :: "GstWorld \<Rightarrow> PlayerEvent \<Rightarrow> GstGenericPlayer \<Rightarrow> GstGenericPlayer" where
  "playerEvent w (CallAttachSource source) s = gstAttachSource source s"
| "playerEvent w (CallRemoveSource type) s = gstRemoveSource type s"
| "playerEvent w (CallAttachSegments segs) s = gstAttachSegments w segs s"
| "playerEvent w (CallAttachReader reader) s = gstAttachReader reader s"
| "playerEvent w CallPlay s = gstPlay s"
| "playerEvent w CallPause s = gstPause s"
| "playerEvent w CallStop s = gstStop s"
| "playerEvent w (CallSetPosition position) s = gstSetPosition position s"
| "playerEvent w (CallSetPlaybackRate rate) s = gstSetPlaybackRate rate s"
| "playerEvent w (CallSetVideoGeometry x y width height) s = gstSetVideoGeometry x y width height s"
| "playerEvent w (CallSetEos type) s = gstSetEos type s"
| "playerEvent w CallRenderFrame s = gstRenderFrame s"
| "playerEvent w (CallSetVolume volume) s = gstSetVolume volume s"
| "playerEvent w (SignalSourceSetup source) s = setupSource source s"
| "playerEvent w (SignalElementSetup element) s = setupElement element s"
| "playerEvent w (SignalDeepElementAdded pipeline bin element) s = deepElementAdded w pipeline bin element s"
| "playerEvent w (SignalNeedData src) s = scheduleNeedMediaData src s"
| "playerEvent w (SignalEnoughData src) s = scheduleEnoughData src s"
| "playerEvent w (SignalSeekData src) s = appSrcSeekData src s"
| "playerEvent w SignalAudioUnderflow s = scheduleAudioUnderflow s"
| "playerEvent w SignalVideoUnderflow s = scheduleVideoUnderflow s"
| "playerEvent w (SignalHaveType typefind caps) s = updatePlaybackGroup typefind caps s"
| "playerEvent w (BusMessageArrives m) s = gstBusEvent m s"
| "playerEvent w FinishSetupTimerExpires s = finishSetupTimerExpires s"
| "playerEvent w PositionTimerExpires s = positionTimerExpires s"
| "playerEvent w WorkerRuns s = workerStep w s"

definition playerRun :: "GstWorld \<Rightarrow> PlayerEvent list \<Rightarrow> GstGenericPlayer \<Rightarrow> GstGenericPlayer" where
  "playerRun w events s = fold (playerEvent w) events s"

section \<open>Destruction\<close>

definition disconnectSignals :: "GstGenericPlayer \<Rightarrow> GstGenericPlayer" where
  "disconnectSignals s =
     (fold (\<lambda>(element, i). effect (FxSignalDisconnect element i)) (gp_connectedSignals s) s)\<lparr>gp_connectedSignals := []\<rparr>"

definition releasePipeline :: "GstWorld \<Rightarrow> GstGenericPlayer \<Rightarrow> GstGenericPlayer" where
  "releasePipeline w s =
     (let s = s\<lparr>gp_workerThread := False, gp_tasks := [], gp_finishSourceSetupTimer := None\<rparr>;
          s = (fold bufferUnref (gp_audioBuffers s) s)\<lparr>gp_audioBuffers := []\<rparr>;
          s = (fold bufferUnref (gp_videoBuffers s) s)\<lparr>gp_videoBuffers := []\<rparr>;
          s = executeStop w s;
          s = (if gp_source s \<noteq> 0 then effect (FxObjectUnref (gp_source s)) s else s)
      in effect (FxObjectUnref (gp_pipeline s)) s)"

text \<open>The dispatcher thread has ended, the signals are disconnected and the task that stops the worker thread is queued.\<close>

definition prepareShutdown :: "GstGenericPlayer \<Rightarrow> GstGenericPlayer" where
  "prepareShutdown s =
     (let s = disconnectSignals (s\<lparr>gp_dispatcherActive := False\<rparr>) in s\<lparr>gp_tasks := gp_tasks s @ [GstShutdownTask]\<rparr>)"

definition destroyGstGenericPlayer :: "GstWorld \<Rightarrow> bool \<Rightarrow> GstGenericPlayer \<Rightarrow> GstGenericPlayer option" where
  "destroyGstGenericPlayer w byMainThread s =
     map_option (releasePipeline w) (joinWorkerThread w byMainThread (prepareShutdown s))"

section \<open>The decryptor\<close>

text \<open>
  The element between an \<open>appsrc\<close> and the decoder (\<open>GstRialtoDecryptorPrivate::decrypt\<close>): a sample with protection data is
  decrypted in place when there is a decryption service, and loses the data; every sample is passed on, decrypted or not.
\<close>

definition decryptSample :: "(GstRialtoProtectionData \<Rightarrow> u8 list \<Rightarrow> MediaKeyErrorStatus \<times> u8 list) option \<Rightarrow> GstBuffer \<Rightarrow> GstBuffer" where
  "decryptSample service b =
     (case gb_protection b of
        None \<Rightarrow> b
      | Some pd \<Rightarrow>
          let b = (case service of None \<Rightarrow> b | Some decrypt \<Rightarrow> b\<lparr>gb_data := snd (decrypt pd (gb_data b))\<rparr>)
          in b\<lparr>gb_protection := None\<rparr>)"

end
