(* ===== verification/Gst_Views.thy ===== *)
theory Gst_Views
  imports Gst_Lifecycle
begin

text \<open>
  The tools of the proofs about the GStreamer player. A view is a part of the player's state; most of what a player does
  leaves a given view as it is. The interface below says which updates a view must not see; the operations and tasks that
  make no other updates are shown once, for all views, to keep it.
\<close>

section \<open>Recording an effect\<close>

lemma effect_fields [simp]:
  "gp_client (effect e s) = gp_client s"
  "gp_workerThread (effect e s) = gp_workerThread s"
  "gp_taskThreadActive (effect e s) = gp_taskThreadActive s"
  "gp_tasks (effect e s) = gp_tasks s"
  "gp_dispatcherActive (effect e s) = gp_dispatcherActive s"
  "gp_finishSourceSetupTimer (effect e s) = gp_finishSourceSetupTimer s"
  "gp_positionTimer (effect e s) = gp_positionTimer s"
  "gp_audioAppSrc (effect e s) = gp_audioAppSrc s"
  "gp_videoAppSrc (effect e s) = gp_videoAppSrc s"
  "gp_pipeline (effect e s) = gp_pipeline s"
  "gp_source (effect e s) = gp_source s"
  "gp_streamInfo (effect e s) = gp_streamInfo s"
  "gp_audioNeedData (effect e s) = gp_audioNeedData s"
  "gp_videoNeedData (effect e s) = gp_videoNeedData s"
  "gp_audioNeedDataPending (effect e s) = gp_audioNeedDataPending s"
  "gp_videoNeedDataPending (effect e s) = gp_videoNeedDataPending s"
  "gp_audioDataPushed (effect e s) = gp_audioDataPushed s"
  "gp_videoDataPushed (effect e s) = gp_videoDataPushed s"
  "gp_bufferedNotificationSent (effect e s) = gp_bufferedNotificationSent s"
  "gp_audioBuffers (effect e s) = gp_audioBuffers s"
  "gp_videoBuffers (effect e s) = gp_videoBuffers s"
  "gp_audioUnderflowOccured (effect e s) = gp_audioUnderflowOccured s"
  "gp_videoUnderflowOccured (effect e s) = gp_videoUnderflowOccured s"
  "gp_audioUnderflowEnabled (effect e s) = gp_audioUnderflowEnabled s"
  "gp_pendingGeometry (effect e s) = gp_pendingGeometry s"
  "gp_playbackRate (effect e s) = gp_playbackRate s"
  "gp_pendingPlaybackRate (effect e s) = gp_pendingPlaybackRate s"
  "gp_lastAudioSampleTimestamps (effect e s) = gp_lastAudioSampleTimestamps s"
  "gp_isSecondaryVideo (effect e s) = gp_isSecondaryVideo s"
  "gp_audioSourceRemoved (effect e s) = gp_audioSourceRemoved s"
  "gp_playbackGroup (effect e s) = gp_playbackGroup s"
  "gp_connectedSignals (effect e s) = gp_connectedSignals s"
  "gp_nextBuffer (effect e s) = gp_nextBuffer s"
  "gp_log (effect e s) = gp_log s @ [e]"
  by (simp_all add: effect_def)

text \<open>The effects that no view below looks at.\<close>

fun quiet_effect :: "GstEffect \<Rightarrow> bool" where
  "quiet_effect (FxPushBuffer _ _ _) = False"
| "quiet_effect (FxBufferUnref _) = False"
| "quiet_effect (FxNeedMediaData _ _) = False"
| "quiet_effect (FxNetworkState _) = False"
| "quiet_effect _ = True"

locale player_view =
  fixes view :: "GstGenericPlayer \<Rightarrow> 'v"
  assumes view_effect: "quiet_effect e \<Longrightarrow> view (effect e s) = view s"
    and view_workerThread: "view (s\<lparr>gp_workerThread := v0\<rparr>) = view s"
    and view_taskThreadActive: "view (s\<lparr>gp_taskThreadActive := v1\<rparr>) = view s"
    and view_tasks: "view (s\<lparr>gp_tasks := v2\<rparr>) = view s"
    and view_dispatcherActive: "view (s\<lparr>gp_dispatcherActive := v3\<rparr>) = view s"
    and view_finishSourceSetupTimer: "view (s\<lparr>gp_finishSourceSetupTimer := v4\<rparr>) = view s"
    and view_positionTimer: "view (s\<lparr>gp_positionTimer := v5\<rparr>) = view s"
    and view_audioAppSrc: "view (s\<lparr>gp_audioAppSrc := v6\<rparr>) = view s"
    and view_videoAppSrc: "view (s\<lparr>gp_videoAppSrc := v7\<rparr>) = view s"
    and view_pipeline: "view (s\<lparr>gp_pipeline := v8\<rparr>) = view s"
    and view_source: "view (s\<lparr>gp_source := v9\<rparr>) = view s"
    and view_streamInfo: "view (s\<lparr>gp_streamInfo := v10\<rparr>) = view s"
    and view_audioNeedData: "view (s\<lparr>gp_audioNeedData := v11\<rparr>) = view s"
    and view_videoNeedData: "view (s\<lparr>gp_videoNeedData := v12\<rparr>) = view s"
    and view_audioUnderflowEnabled: "view (s\<lparr>gp_audioUnderflowEnabled := v13\<rparr>) = view s"
    and view_pendingGeometry: "view (s\<lparr>gp_pendingGeometry := v14\<rparr>) = view s"
    and view_playbackRate: "view (s\<lparr>gp_playbackRate := v15\<rparr>) = view s"
    and view_pendingPlaybackRate: "view (s\<lparr>gp_pendingPlaybackRate := v16\<rparr>) = view s"
    and view_lastAudioSampleTimestamps: "view (s\<lparr>gp_lastAudioSampleTimestamps := v17\<rparr>) = view s"
    and view_audioSourceRemoved: "view (s\<lparr>gp_audioSourceRemoved := v18\<rparr>) = view s"
    and view_playbackGroup: "view (s\<lparr>gp_playbackGroup := v19\<rparr>) = view s"
    and view_connectedSignals: "view (s\<lparr>gp_connectedSignals := v20\<rparr>) = view s"
    and view_nextBuffer: "view (s\<lparr>gp_nextBuffer := v21\<rparr>) = view s"
    and view_audioDataPushed: "view (s\<lparr>gp_audioDataPushed := v22\<rparr>) = view s"
    and view_videoDataPushed: "view (s\<lparr>gp_videoDataPushed := v23\<rparr>) = view s"
begin

lemmas view_laws [simp] =
  view_effect view_workerThread view_taskThreadActive view_tasks view_dispatcherActive view_finishSourceSetupTimer view_positionTimer view_audioAppSrc view_videoAppSrc view_pipeline view_source view_streamInfo view_audioNeedData view_videoNeedData view_audioUnderflowEnabled view_pendingGeometry view_playbackRate view_pendingPlaybackRate view_lastAudioSampleTimestamps view_audioSourceRemoved view_playbackGroup view_connectedSignals view_nextBuffer view_audioDataPushed view_videoDataPushed

lemma view_find [simp]: "view (findAudioAppSrc s) = view s" "view (findVideoAppSrc s) = view s"
  by (simp_all add: findAudioAppSrc_def findVideoAppSrc_def split: option.split)

lemma view_caps [simp]: "view (updateAudioCaps w r c s) = view s" "view (updateVideoCaps w r c s) = view s"
  by (simp_all add: updateAudioCaps_def updateVideoCaps_def Let_def)

lemma view_createBuffer [simp]: "view (snd (createBuffer w seg s)) = view s"
  by (simp add: createBuffer_def Let_def)

lemma view_changePipelineState [simp]: "view (snd (changePipelineState w st s)) = view s"
  by (simp add: changePipelineState_def Let_def)

lemma view_timers [simp]: "view (startPositionTimer s) = view s" "view (stopPositionTimer s) = view s"
  "view (scheduleSourceSetupFinish s) = view s"
  by (simp_all add: startPositionTimer_def stopPositionTimer_def scheduleSourceSetupFinish_def)

lemma view_enqueue [simp]: "view (enqueueGstTask t s) = view s"
  by (simp add: enqueueGstTask_def)

lemma view_terminate [simp]: "view (terminate s) = view s"
  by (simp add: terminate_def)

lemma view_playPause [simp]: "view (executePlay w s) = view s" "view (executePause w s) = view s" "view (executeStop w s) = view s"
  by (simp_all add: executePlay_def executePause_def executeStop_def)

lemma view_sink [simp]: "view (snd (setWesterossinkRectangle w s)) = view s" "view (snd (setWesterossinkSecondaryVideo w s)) = view s"
  by (simp_all add: setWesterossinkRectangle_def setWesterossinkSecondaryVideo_def Let_def)

lemma view_attachSource [simp]: "view (addSource w source caps s) = view s" "view (updateSource w p caps s) = view s"
  by (simp_all add: addSource_def updateSource_def Let_def split: option.split)

lemma view_setup [simp]: "view (executeSetupSource p s) = view s" "view (executeSetupElement w p s) = view s"
  by (simp_all add: executeSetupSource_def executeSetupElement_def Let_def)

lemma view_group [simp]: "view (executeDeepElementAdded w p b e n i s) = view s" "view (executeUpdatePlaybackGroup w e caps s) = view s"
  by (simp_all add: executeDeepElementAdded_def executeUpdatePlaybackGroup_def Let_def split: option.split)

lemma view_stateChanged [simp]: "view (handleStateChanged new pending s) = view s"
  by (simp add: handleStateChanged_def gstSetPlaybackRate_def Let_def split: GstState.split)

lemma view_busMessage [simp]: "view (executeHandleBusMessage w m s) = view s"
  by (cases m) (simp_all add: executeHandleBusMessage_def Let_def)

lemma view_control [simp]: "view (executeEnoughData p s) = view s" "view (executeShutdown s) = view s"
  "view (executeSetVideoGeometry w r s) = view s" "view (executeSetVolume x s) = view s" "view (executeRenderFrame w s) = view s"
  "view (executeReportPosition w s) = view s"
  by (simp_all add: executeEnoughData_def executeShutdown_def executeSetVideoGeometry_def executeSetVolume_def
      executeRenderFrame_def executeReportPosition_def Let_def split: option.split)

lemma view_rate [simp]: "view (executeSetPlaybackRate w r s) = view s"
  by (simp add: executeSetPlaybackRate_def Let_def)

lemma view_keepSegment: "view (snd (snd (keepSegment w seg (as, vs, s)))) = view s"
  by (simp add: keepSegment_def case_prod_beta split: SegmentClass.split)

lemma view_keepSegments: "view (snd (snd (fold (keepSegment w) segs x))) = view (snd (snd x))"
proof (induction segs arbitrary: x)
  case (Cons seg segs)
  then show ?case using view_keepSegment [of w seg "fst x" "fst (snd x)" "snd (snd x)"] by simp
qed simp

text \<open>Nothing but the worker thread changes the view.\<close>

lemma view_event: "e \<noteq> WorkerRuns \<Longrightarrow> view (playerEvent w e s) = view s"
  using view_keepSegments [of w _ "([], [], s)"]
  by (cases e) (simp_all add: gst_request_defs gstBusEvent_def case_prod_beta Let_def split: option.split)

end

end
