(* ===== verification/Gst_Flow.thy ===== *)
theory Gst_Flow
  imports Gst_Views "HOL-Library.Sublist"
begin

text \<open>
  What the GStreamer player does with samples, with its requests for data and with underflow, over any run: any interleaving
  of the calls of the main thread, the signals of GStreamer, the timers and the tasks of the worker thread, whatever
  GStreamer and the client answer.
\<close>

section \<open>The tasks of a run\<close>

fun executedTasks :: "GstWorld \<Rightarrow> PlayerEvent list \<Rightarrow> GstGenericPlayer \<Rightarrow> PlayerTask list" where
  "executedTasks w [] s = []"
| "executedTasks w (e # es) s =
     (if e = WorkerRuns \<and> gp_taskThreadActive s \<and> gp_tasks s \<noteq> [] then [hd (gp_tasks s)] else []) @
     executedTasks w es (playerEvent w e s)"

lemma playerRun_simps [simp]:
  "playerRun w [] s = s" "playerRun w (e # es) s = playerRun w es (playerEvent w e s)"
  by (simp_all add: playerRun_def)

lemma worker_idle: "\<not> (gp_taskThreadActive s \<and> gp_tasks s \<noteq> []) \<Longrightarrow> workerStep w s = s"
  by (auto simp: workerStep_def split: list.split)

lemma worker_busy: "gp_taskThreadActive s \<Longrightarrow> gp_tasks s = t # ts \<Longrightarrow> workerStep w s = executeTask w t (s\<lparr>gp_tasks := ts\<rparr>)"
  by (simp add: workerStep_def)

text \<open>
  An induction over runs for a property of a view: \<open>P\<close> relates the tasks done so far with the view.
\<close>

context player_view
begin

lemma run_induct:
  assumes step: "\<And>ts t s. P ts (view s) \<Longrightarrow> P (ts @ [t]) (view (executeTask w t s))" and start: "P ts0 (view s)"
  shows "P (ts0 @ executedTasks w events s) (view (playerRun w events s))"
  using start
proof (induction events arbitrary: ts0 s)
  case (Cons e es)
  show ?case
  proof (cases "e = WorkerRuns \<and> gp_taskThreadActive s \<and> gp_tasks s \<noteq> []")
    case True
    then obtain t ts where t: "gp_tasks s = t # ts" by (cases "gp_tasks s") auto
    have "P (ts0 @ [t]) (view (executeTask w t (s\<lparr>gp_tasks := ts\<rparr>)))" using step Cons.prems by simp
    then show ?thesis using Cons.IH [of "ts0 @ [t]"] True t worker_busy [of s t ts w] by simp
  next
    case False
    then have "view (playerEvent w e s) = view s" using view_event [of e w s] worker_idle [of s w] by (cases "e = WorkerRuns") auto
    then show ?thesis using Cons.IH [of ts0 "playerEvent w e s"] Cons.prems False by auto
  qed
qed simp

end

section \<open>Samples\<close>

type_synonym sample = "u8 list \<times> u64 \<times> u64"

definition bufferSample :: "GstBuffer \<Rightarrow> sample" where
  "bufferSample b = (gb_data b, gb_timestamp b, gb_duration b)"

definition segmentSample :: "MediaSegment \<Rightarrow> sample" where
  "segmentSample seg = (take (unat (m_dataLength seg)) (payload seg), m_timeStamp seg, m_duration seg)"

definition pushedIn :: "MediaSourceType \<Rightarrow> GstEffect list \<Rightarrow> GstBuffer list" where
  "pushedIn type fx = concat (map (\<lambda>e. case e of FxPushBuffer t p b \<Rightarrow> if t = type then [b] else [] | _ \<Rightarrow> []) fx)"

text \<open>The samples of a stream that were handed to GStreamer and those that wait, in order.\<close>

definition flowOf :: "MediaSourceType \<Rightarrow> GstGenericPlayer \<Rightarrow> sample list" where
  "flowOf type s =
     map bufferSample (pushedIn type (gp_log s) @ (if type = AUDIO then gp_audioBuffers s else gp_videoBuffers s))"

text \<open>The samples a task brings for a stream, and the tasks that give samples up.\<close>

fun attachedBy :: "GstWorld \<Rightarrow> MediaSourceType \<Rightarrow> PlayerTask \<Rightarrow> sample list" where
  "attachedBy w type (AttachSamplesTask as vs) =
     (if type = AUDIO then map (bufferSample \<circ> ad_buffer) as else map (bufferSample \<circ> vd_buffer) vs)"
| "attachedBy w type (ReadShmDataAndAttachSamplesTask reader) =
     map segmentSample (filter (\<lambda>seg. m_type seg = type) (gw_segments w reader))"
| "attachedBy w type _ = []"

fun givesUpSamples :: "MediaSourceType \<Rightarrow> PlayerTask \<Rightarrow> bool" where
  "givesUpSamples type (RemoveSourceTask t) \<longleftrightarrow> t = AUDIO \<and> type = AUDIO"
| "givesUpSamples type (SetPositionTask _) \<longleftrightarrow> True"
| "givesUpSamples type _ \<longleftrightarrow> False"

definition flow_view :: "GstGenericPlayer \<Rightarrow> sample list \<times> sample list" where
  "flow_view s = (flowOf AUDIO s, flowOf VIDEO s)"

lemma pushedIn_append [simp]: "pushedIn type (xs @ ys) = pushedIn type xs @ pushedIn type ys"
  by (simp add: pushedIn_def)

lemma pushedIn_simps [simp]: "pushedIn type [] = []"
  "pushedIn type (e # fx) = (case e of FxPushBuffer t p b \<Rightarrow> if t = type then [b] else [] | _ \<Rightarrow> []) @ pushedIn type fx"
  by (simp_all add: pushedIn_def)

lemma pushedIn_quiet: "quiet_effect e \<Longrightarrow> pushedIn type [e] = []"
  by (cases e) simp_all

interpretation flow: player_view flow_view
  by unfold_locales (simp_all add: flow_view_def flowOf_def pushedIn_quiet del: pushedIn_simps(2))

lemma flow_other [simp]:
  "flow_view (effect (FxNetworkState n) s) = flow_view s" "flow_view (effect (FxNeedMediaData t r) s) = flow_view s"
  "flow_view (s\<lparr>gp_audioNeedDataPending := p\<rparr>) = flow_view s" "flow_view (s\<lparr>gp_videoNeedDataPending := p\<rparr>) = flow_view s"
  "flow_view (s\<lparr>gp_audioUnderflowOccured := p\<rparr>) = flow_view s" "flow_view (s\<lparr>gp_videoUnderflowOccured := p\<rparr>) = flow_view s"
  "flow_view (s\<lparr>gp_bufferedNotificationSent := p\<rparr>) = flow_view s"
  by (simp_all add: flow_view_def flowOf_def)

lemma flow_ask [simp]: "flow_view (askForAudio w s) = flow_view s" "flow_view (askForVideo w s) = flow_view s"
  by (simp_all add: askForAudio_def askForVideo_def askForData_def Let_def)

lemma flow_notify [simp]: "flow_view (gstNotifyNeedMediaData w a v s) = flow_view s" "flow_view (notifyBuffered b s) = flow_view s"
  by (simp_all add: gstNotifyNeedMediaData_def notifyBuffered_def Let_def)

lemma flow_cancel [simp]: "flow_view (cancelUnderflow w type s) = flow_view s"
  by (simp add: cancelUnderflow_def setUnderflowFlag_def Let_def)

lemma flow_underflow [simp]: "flow_view (executeUnderflow w type b s) = flow_view s" "flow_view (executeCheckAudioUnderflow w s) = flow_view s"
  by (simp_all add: executeUnderflow_def executeCheckAudioUnderflow_def setUnderflowFlag_def Let_def)

lemma flow_needData [simp]: "flow_view (executeNeedData w src s) = flow_view s"
  by (simp add: executeNeedData_def Let_def)

lemma flow_eos [simp]: "flow_view (executeEos w type s) = flow_view s"
  by (simp add: executeEos_def Let_def split: option.split)

lemma flow_attachSource [simp]: "flow_view (executeAttachSource w source s) = flow_view s"
  by (simp add: executeAttachSource_def switchAudioSource_def Let_def case_prod_beta split: sum.split option.split SourceClass.split)

lemma flow_finish [simp]: "flow_view (executeFinishSetupSource w s) = flow_view s"
  by (simp add: executeFinishSetupSource_def Let_def split: option.split)

text \<open>Handing the waiting samples over keeps the flow; a new sample comes at its end.\<close>

lemma push_fields [simp]: "pushedIn t (gp_log (pushBuffers type p bs s)) = pushedIn t (gp_log s) @ (if t = type then bs else [])"
  "gp_audioBuffers (pushBuffers type p bs s) = gp_audioBuffers s" "gp_videoBuffers (pushBuffers type p bs s) = gp_videoBuffers s"
  unfolding pushBuffers_def by (induction bs arbitrary: s) simp_all

lemma find_fields [simp]:
  "gp_audioBuffers (findAudioAppSrc s) = gp_audioBuffers s" "gp_videoBuffers (findVideoAppSrc s) = gp_videoBuffers s"
  by (simp_all add: findAudioAppSrc_def findVideoAppSrc_def split: option.split)

lemma flow_pushAudio: "flow_view ((pushBuffers AUDIO p (gp_audioBuffers s) s)\<lparr>gp_audioBuffers := []\<rparr>) = flow_view s"
  by (simp add: flow_view_def flowOf_def)

lemma flow_pushVideo: "flow_view ((pushBuffers VIDEO p (gp_videoBuffers s) s)\<lparr>gp_videoBuffers := []\<rparr>) = flow_view s"
  by (simp add: flow_view_def flowOf_def)

lemma flow_timestamp: "flow_view (s\<lparr>gp_lastAudioSampleTimestamps := t, gp_audioBuffers := b\<rparr>) = flow_view (s\<lparr>gp_audioBuffers := b\<rparr>)"
  by (simp add: flow_view_def flowOf_def)

lemma flow_attachData [simp]: "flow_view (attachAudioData w s) = flow_view s" "flow_view (attachVideoData w s) = flow_view s"
  using flow_pushAudio [of "gp_audioAppSrc (findAudioAppSrc s)" "findAudioAppSrc s"]
    flow_pushVideo [of "gp_videoAppSrc (findVideoAppSrc s)" "findVideoAppSrc s"]
  by (simp_all add: attachAudioData_def attachVideoData_def Let_def flow_timestamp)

lemma flow_view_eq: "flow_view s' = flow_view s \<Longrightarrow> flowOf AUDIO s' = flowOf AUDIO s" "flow_view s' = flow_view s \<Longrightarrow> flowOf VIDEO s' = flowOf VIDEO s"
  by (simp_all add: flow_view_def)

lemma flow_audioSample: "flow_view (attachAudioSample w d s) = (flowOf AUDIO s @ [bufferSample (ad_buffer d)], flowOf VIDEO s)"
  using flow_view_eq [OF flow.view_caps(1), of w "ad_rate d" "ad_channels d" s]
  by (simp add: attachAudioSample_def Let_def) (simp add: flow_view_def flowOf_def)

lemma flow_videoSample: "flow_view (attachVideoSample w d s) = (flowOf AUDIO s, flowOf VIDEO s @ [bufferSample (vd_buffer d)])"
  using flow_view_eq [OF flow.view_caps(2), of w "vd_width d" "vd_height d" s]
  by (simp add: attachVideoSample_def Let_def) (simp add: flow_view_def flowOf_def)

lemma flow_audioSamples:
  "flow_view (fold (attachAudioSample w) as s) = (flowOf AUDIO s @ map (bufferSample \<circ> ad_buffer) as, flowOf VIDEO s)"
proof (induction as arbitrary: s)
  case (Cons d as)
  then show ?case using flow_audioSample [of w d s] by (simp add: flow_view_def)
qed (simp add: flow_view_def)

lemma flow_videoSamples:
  "flow_view (fold (attachVideoSample w) vs s) = (flowOf AUDIO s, flowOf VIDEO s @ map (bufferSample \<circ> vd_buffer) vs)"
proof (induction vs arbitrary: s)
  case (Cons d vs)
  then show ?case using flow_videoSample [of w d s] by (simp add: flow_view_def)
qed (simp add: flow_view_def)

lemma flow_attachSamples: "flow_view (executeAttachSamples w as vs s) =
    (flowOf AUDIO s @ attachedBy w AUDIO (AttachSamplesTask as vs), flowOf VIDEO s @ attachedBy w VIDEO (AttachSamplesTask as vs))"
  using flow_audioSamples [of w as s] flow_videoSamples [of w vs "fold (attachAudioSample w) as s"]
  by (simp add: executeAttachSamples_def) (simp add: flow_view_def)

lemma createBuffer_sample: "bufferSample (fst (createBuffer w seg s)) = segmentSample seg"
  by (simp add: createBuffer_def Let_def bufferSample_def segmentSample_def)

lemma flow_readSegment: "flow_view (attachReadSegment w seg s) =
    (flowOf AUDIO s @ (if m_type seg = AUDIO then [segmentSample seg] else []),
     flowOf VIDEO s @ (if m_type seg = VIDEO then [segmentSample seg] else []))"
proof -
  let ?s = "snd (createBuffer w seg s)" and ?b = "fst (createBuffer w seg s)"
  let ?v = "case m_class seg of VideoSegment width height \<Rightarrow> updateVideoCaps w width height ?s | _ \<Rightarrow> ?s"
  let ?a = "case m_class seg of AudioSegment rate channels \<Rightarrow> updateAudioCaps w rate channels ?s | _ \<Rightarrow> ?s"
  have v: "flow_view ?v = flow_view s" and a: "flow_view ?a = flow_view s" by (simp_all split: SegmentClass.split)
  have new: "flow_view (x\<lparr>gp_audioBuffers := gp_audioBuffers x @ [?b]\<rparr>) = (flowOf AUDIO x @ [segmentSample seg], flowOf VIDEO x)"
    "flow_view (x\<lparr>gp_videoBuffers := gp_videoBuffers x @ [?b]\<rparr>) = (flowOf AUDIO x, flowOf VIDEO x @ [segmentSample seg])" for x
    by (simp_all add: flow_view_def flowOf_def createBuffer_sample)
  show ?thesis
    using flow_view_eq [OF v] flow_view_eq [OF a] new(1) [of ?a] new(2) [of ?v]
    by (simp add: attachReadSegment_def Let_def case_prod_beta) (simp add: flow_view_def)
qed

lemma flow_readSegments: "flow_view (fold (attachReadSegment w) segs s) =
    (flowOf AUDIO s @ map segmentSample (filter (\<lambda>seg. m_type seg = AUDIO) segs),
     flowOf VIDEO s @ map segmentSample (filter (\<lambda>seg. m_type seg = VIDEO) segs))"
proof (induction segs arbitrary: s)
  case (Cons seg segs)
  then show ?case using flow_readSegment [of w seg s] by (simp add: flow_view_def)
qed (simp add: flow_view_def)

lemma flow_readShm: "flow_view (executeReadShmDataAndAttachSamples w reader s) =
    (flowOf AUDIO s @ attachedBy w AUDIO (ReadShmDataAndAttachSamplesTask reader),
     flowOf VIDEO s @ attachedBy w VIDEO (ReadShmDataAndAttachSamplesTask reader))"
  by (simp add: executeReadShmDataAndAttachSamples_def flow_readSegments Let_def)

text \<open>Seeking and removing the audio source give up what waits; what was handed over stays.\<close>

lemma unref_fields [simp]: "pushedIn t (gp_log (fold bufferUnref bs s)) = pushedIn t (gp_log s)"
  "gp_audioBuffers (fold bufferUnref bs s) = gp_audioBuffers s" "gp_videoBuffers (fold bufferUnref bs s) = gp_videoBuffers s"
  by (induction bs arbitrary: s) (simp_all add: bufferUnref_def split: option.split)

lemma flow_needDataAll [simp]: "flow_view (fold (\<lambda>type s. case gp_streamInfo s type of
    Some src \<Rightarrow> if src \<noteq> 0 then executeNeedData w src s else s | None \<Rightarrow> s) types s) = flow_view s"
  by (induction types arbitrary: s) (simp_all split: option.split)

lemma flow_seek: "flow_view (executeSetPosition w position s) = flow_view s \<or>
    flow_view (executeSetPosition w position s) = (map bufferSample (pushedIn AUDIO (gp_log s)), map bufferSample (pushedIn VIDEO (gp_log s)))"
proof (cases "gp_client s")
  case True
  then show ?thesis
    using flow_needDataAll [of w "[MST_UNKNOWN, AUDIO, VIDEO]"]
    by (simp add: executeSetPosition_def Let_def del: fold.simps) (simp add: flow_view_def flowOf_def del: fold.simps)
next
  case False
  then show ?thesis by (simp add: executeSetPosition_def)
qed

lemma flow_remove: "flow_view (executeRemoveSource w type s) = flow_view s \<or>
    (type = AUDIO \<and> flow_view (executeRemoveSource w type s) = (map bufferSample (pushedIn AUDIO (gp_log s)), flowOf VIDEO s))"
  by (auto simp: executeRemoveSource_def Let_def terminate_def flow_view_def flowOf_def split: option.split)

lemma flow_task:
  assumes "\<And>type. \<not> givesUpSamples type t"
  shows "flow_view (executeTask w t s) = (flowOf AUDIO s @ attachedBy w AUDIO t, flowOf VIDEO s @ attachedBy w VIDEO t)"
  using assms
  by (cases t) (simp_all only: executeTask.simps flow_attachSamples flow_readShm, simp_all add: flow_view_def [of s] givesUpSamples.simps,
      auto simp: executeRemoveSource_def flow_view_def)

lemma flow_step:
  assumes "type = AUDIO \<or> type = VIDEO"
  shows "subseq (flowOf type (executeTask w t s)) (flowOf type s @ attachedBy w type t) \<and>
    (\<not> givesUpSamples type t \<longrightarrow> flowOf type (executeTask w t s) = flowOf type s @ attachedBy w type t)"
proof (cases "\<exists>type. givesUpSamples type t")
  case False
  then show ?thesis using flow_task [of t w s] assms by (auto simp: flow_view_def)
next
  case True
  have pre: "subseq (map bufferSample (pushedIn type (gp_log s))) (flowOf type s)"
    by (auto simp: flowOf_def intro: prefix_imp_subseq)
  show ?thesis
  proof (cases t)
    case (SetPositionTask position)
    then show ?thesis using flow_seek [of w position s] assms pre by (auto simp: flow_view_def)
  next
    case (RemoveSourceTask t')
    then show ?thesis using flow_remove [of w t' s] assms pre by (auto simp: flow_view_def)
  qed (use True in auto)
qed

section \<open>Requests for data\<close>

definition acceptedIn :: "MediaSourceType \<Rightarrow> GstEffect list \<Rightarrow> nat" where
  "acceptedIn type fx = length (filter (\<lambda>e. e = FxNeedMediaData type True) fx)"

definition requestPending :: "MediaSourceType \<Rightarrow> GstGenericPlayer \<Rightarrow> bool" where
  "requestPending type s = (if type = AUDIO then gp_audioNeedDataPending s else gp_videoNeedDataPending s)"

text \<open>The tasks that answer a request: they bring samples of the stream. A task with samples of both streams answers audio.\<close>

fun bringsSamples :: "GstWorld \<Rightarrow> MediaSourceType \<Rightarrow> PlayerTask \<Rightarrow> bool" where
  "bringsSamples w type (AttachSamplesTask as vs) \<longleftrightarrow> (if type = AUDIO then as \<noteq> [] else as = [] \<and> vs \<noteq> [])"
| "bringsSamples w type (ReadShmDataAndAttachSamplesTask reader) \<longleftrightarrow>
     gw_segments w reader \<noteq> [] \<and> m_type (hd (gw_segments w reader)) = type"
| "bringsSamples w type _ \<longleftrightarrow> False"

text \<open>The tasks after which the player may ask again although the client still owes an answer: they forget the pending
  request or do not look at it.\<close>

fun forgetsRequest :: "MediaSourceType \<Rightarrow> PlayerTask \<Rightarrow> bool" where
  "forgetsRequest type (AttachSourceTask source) \<longleftrightarrow> ms_type source = AUDIO \<and> type = AUDIO"
| "forgetsRequest type (RemoveSourceTask t) \<longleftrightarrow> t = AUDIO \<and> type = AUDIO"
| "forgetsRequest type (SetPositionTask position) \<longleftrightarrow> True"
| "forgetsRequest type FinishSetupSourceTask \<longleftrightarrow> True"
| "forgetsRequest type _ \<longleftrightarrow> False"

text \<open>The requests the client accepted, without the one that is pending.\<close>

definition settled :: "MediaSourceType \<Rightarrow> GstGenericPlayer \<Rightarrow> int" where
  "settled type s = int (acceptedIn type (gp_log s)) - of_bool (requestPending type s)"

definition request_view :: "GstGenericPlayer \<Rightarrow> int \<times> int" where
  "request_view s = (settled AUDIO s, settled VIDEO s)"

lemma acceptedIn_append [simp]: "acceptedIn type (xs @ ys) = acceptedIn type xs + acceptedIn type ys"
  by (simp add: acceptedIn_def)

lemma acceptedIn_simps [simp]: "acceptedIn type [] = 0"
  "acceptedIn type (e # fx) = (if e = FxNeedMediaData type True then 1 else 0) + acceptedIn type fx"
  by (simp_all add: acceptedIn_def)

lemmas pending_defs = request_view_def settled_def requestPending_def

lemma acceptedIn_quiet: "quiet_effect e \<Longrightarrow> e \<noteq> FxNeedMediaData type True"
  by (cases e) simp_all

interpretation requests: player_view request_view
  by unfold_locales (auto simp: pending_defs dest: acceptedIn_quiet)

lemma request_other [simp]:
  "request_view (effect (FxNetworkState n) s) = request_view s" "request_view (effect (FxBufferUnref b) s) = request_view s"
  "request_view (effect (FxPushBuffer t src b) s) = request_view s"
  "request_view (s\<lparr>gp_audioBuffers := bs\<rparr>) = request_view s" "request_view (s\<lparr>gp_videoBuffers := bs\<rparr>) = request_view s"
  "request_view (s\<lparr>gp_audioUnderflowOccured := p\<rparr>) = request_view s" "request_view (s\<lparr>gp_videoUnderflowOccured := p\<rparr>) = request_view s"
  "request_view (s\<lparr>gp_bufferedNotificationSent := p\<rparr>) = request_view s"
  by (simp_all add: pending_defs)

text \<open>A request that is made when none is pending settles nothing.\<close>

lemma request_ask: "\<not> gp_audioNeedDataPending s \<Longrightarrow> request_view (askForAudio w s) = request_view s"
  "\<not> gp_videoNeedDataPending s \<Longrightarrow> request_view (askForVideo w s) = request_view s"
  by (simp_all add: pending_defs askForAudio_def askForVideo_def askForData_def Let_def)

lemma request_needData [simp]: "request_view (executeNeedData w src s) = request_view s"
  by (simp add: executeNeedData_def Let_def request_ask)

lemma request_buffered [simp]: "request_view (notifyBuffered b s) = request_view s"
  by (simp add: notifyBuffered_def)

lemma request_cancel [simp]: "request_view (cancelUnderflow w type s) = request_view s"
  by (simp add: cancelUnderflow_def setUnderflowFlag_def Let_def)

lemma request_underflow [simp]: "request_view (executeUnderflow w type b s) = request_view s"
  "request_view (executeCheckAudioUnderflow w s) = request_view s"
  by (simp_all add: executeUnderflow_def executeCheckAudioUnderflow_def setUnderflowFlag_def Let_def)

lemma request_eos [simp]: "request_view (executeEos w type s) = request_view s"
  by (simp add: executeEos_def Let_def split: option.split)

lemma request_push [simp]: "request_view (pushBuffers type p bs s) = request_view s"
  unfolding pushBuffers_def by (induction bs arbitrary: s) simp_all

lemma request_attachData [simp]: "request_view (attachAudioData w s) = request_view s" "request_view (attachVideoData w s) = request_view s"
  by (simp_all add: attachAudioData_def attachVideoData_def Let_def)

lemma request_audioSamples [simp]: "request_view (fold (attachAudioSample w) as s) = request_view s"
  by (induction as arbitrary: s) (simp_all add: attachAudioSample_def Let_def)

lemma request_videoSamples [simp]: "request_view (fold (attachVideoSample w) vs s) = request_view s"
  by (induction vs arbitrary: s) (simp_all add: attachVideoSample_def Let_def)

lemma request_readSegments [simp]: "request_view (fold (attachReadSegment w) segs s) = request_view s"
  by (induction segs arbitrary: s)
    (simp_all add: attachReadSegment_def case_prod_beta Let_def split: SegmentClass.split)

lemma request_unref [simp]: "request_view (fold bufferUnref bs s) = request_view s"
  by (induction bs arbitrary: s) (simp_all add: bufferUnref_def split: option.split)

text \<open>An answer settles at most the request that was pending.\<close>

lemma request_clear:
  "settled AUDIO (s\<lparr>gp_audioNeedDataPending := False\<rparr>) \<le> settled AUDIO s + 1"
  "settled VIDEO (s\<lparr>gp_audioNeedDataPending := False\<rparr>) = settled VIDEO s"
  "settled VIDEO (s\<lparr>gp_videoNeedDataPending := False\<rparr>) \<le> settled VIDEO s + 1"
  "settled AUDIO (s\<lparr>gp_videoNeedDataPending := False\<rparr>) = settled AUDIO s"
  by (simp_all add: pending_defs)

lemma request_notify:
  "settled AUDIO (gstNotifyNeedMediaData w a v s) \<le> settled AUDIO s + of_bool a"
  "settled VIDEO (gstNotifyNeedMediaData w a v s) \<le> settled VIDEO s + of_bool (\<not> a \<and> v)"
  using request_ask [of "s\<lparr>gp_audioNeedDataPending := False\<rparr>" w] request_ask [of "s\<lparr>gp_videoNeedDataPending := False\<rparr>" w]
    request_clear [of s]
  by (auto simp: gstNotifyNeedMediaData_def request_view_def Let_def)

lemma request_view_eq: "request_view s' = request_view s \<Longrightarrow> settled AUDIO s' = settled AUDIO s"
  "request_view s' = request_view s \<Longrightarrow> settled VIDEO s' = settled VIDEO s"
  by (simp_all add: request_view_def)

lemma request_notify_view:
  assumes "request_view s' = request_view s"
  shows "settled AUDIO (gstNotifyNeedMediaData w a v s') \<le> settled AUDIO s + of_bool a"
    "settled VIDEO (gstNotifyNeedMediaData w a v s') \<le> settled VIDEO s + of_bool (\<not> a \<and> v)"
  using request_notify [of w a v s'] request_view_eq [OF assms] by simp_all

lemma request_needDataAll [simp]: "request_view (fold (\<lambda>type s. case gp_streamInfo s type of
    Some src \<Rightarrow> if src \<noteq> 0 then executeNeedData w src s else s | None \<Rightarrow> s) types s) = request_view s"
  by (induction types arbitrary: s) (simp_all split: option.split)

lemma request_seek: "settled AUDIO (executeSetPosition w position s) \<le> settled AUDIO s + 1"
  "settled VIDEO (executeSetPosition w position s) \<le> settled VIDEO s + 1"
proof -
  let ?s = "s\<lparr>gp_audioNeedDataPending := False, gp_videoNeedDataPending := False\<rparr>"
  have "request_view (executeSetPosition w position s) = request_view (if gp_client s then ?s else s)"
    using request_needDataAll [of w "[MST_UNKNOWN, AUDIO, VIDEO]"]
    by (simp add: executeSetPosition_def Let_def del: fold.simps) (simp add: pending_defs)
  then show "settled AUDIO (executeSetPosition w position s) \<le> settled AUDIO s + 1"
    "settled VIDEO (executeSetPosition w position s) \<le> settled VIDEO s + 1"
    by (simp_all add: pending_defs split: if_splits)
qed

lemma request_remove: "settled AUDIO (executeRemoveSource w type s) \<le> settled AUDIO s + of_bool (type = AUDIO)"
  "settled VIDEO (executeRemoveSource w type s) = settled VIDEO s"
  by (simp_all add: executeRemoveSource_def Let_def terminate_def pending_defs)

lemma request_notifyAudio:
  assumes "request_view s' = request_view s"
  shows "settled AUDIO (gstNotifyNeedMediaData w True False s') \<le> settled AUDIO s + 1"
    "settled VIDEO (gstNotifyNeedMediaData w True False s') = settled VIDEO s"
  using request_notify_view(1) [OF assms, of w True False] request_view_eq [OF assms]
  by (simp_all add: gstNotifyNeedMediaData_def askForAudio_def askForData_def pending_defs Let_def)

lemma request_switch: "settled AUDIO (switchAudioSource w source p caps s) \<le> settled AUDIO s + 1"
  "settled VIDEO (switchAudioSource w source p caps s) = settled VIDEO s"
  using request_view_eq [OF requests.view_terminate [of s]]
  by (simp_all add: switchAudioSource_def case_prod_beta request_notifyAudio Let_def split: SourceClass.split)

lemma request_attachSource: "settled AUDIO (executeAttachSource w source s) \<le> settled AUDIO s + of_bool (ms_type source = AUDIO)"
  "settled VIDEO (executeAttachSource w source s) = settled VIDEO s"
proof -
  let ?t = "executeAttachSource w source s"
  have "request_view ?t = request_view s \<or> (\<exists>p caps. ms_type source = AUDIO \<and> ?t = switchAudioSource w source p caps s)"
    by (auto simp: executeAttachSource_def split: sum.split option.split)
  then show "settled AUDIO ?t \<le> settled AUDIO s + of_bool (ms_type source = AUDIO)" "settled VIDEO ?t = settled VIDEO s"
    using request_switch [of w source _ _ s] by (auto dest: request_view_eq)
qed

lemma request_finish: "settled AUDIO (executeFinishSetupSource w s) \<le> settled AUDIO s + 1"
  "settled VIDEO (executeFinishSetupSource w s) \<le> settled VIDEO s + 1"
proof -
  let ?a = "case gp_streamInfo s AUDIO of
      Some elem \<Rightarrow> gstNotifyNeedMediaData w True False (effect (FxSetupAppSrc (gp_source s) elem AUDIO) s) | None \<Rightarrow> s"
  let ?v = "case gp_streamInfo ?a VIDEO of
      Some elem \<Rightarrow> gstNotifyNeedMediaData w False True (effect (FxSetupAppSrc (gp_source ?a) elem VIDEO) ?a) | None \<Rightarrow> ?a"
  have a: "settled AUDIO ?a \<le> settled AUDIO s + 1" "settled VIDEO ?a = settled VIDEO s"
    by (simp_all add: request_notifyAudio split: option.split)
  have v: "settled AUDIO ?v \<le> settled AUDIO ?a" "settled VIDEO ?v \<le> settled VIDEO ?a + 1"
    using request_notify_view [of "effect (FxSetupAppSrc (gp_source ?a) _ VIDEO) ?a" ?a w False True]
    by (auto split: option.split)
  have "request_view (executeFinishSetupSource w s) = request_view ?v"
    by (simp add: executeFinishSetupSource_def Let_def)
  from request_view_eq [OF this] a v
  show "settled AUDIO (executeFinishSetupSource w s) \<le> settled AUDIO s + 1" "settled VIDEO (executeFinishSetupSource w s) \<le> settled VIDEO s + 1"
    by linarith+
qed

lemma request_step:
  assumes "type = AUDIO \<or> type = VIDEO"
  shows "settled type (executeTask w t s) \<le> settled type s + of_bool (bringsSamples w type t \<or> forgetsRequest type t)"
proof (cases t)
  case (AttachSamplesTask as vs)
  then show ?thesis
    using request_notify_view [of "fold (attachVideoSample w) vs (fold (attachAudioSample w) as s)" s w "as \<noteq> []" "vs \<noteq> []"] assms
    by (auto simp: executeAttachSamples_def)
next
  case (ReadShmDataAndAttachSamplesTask reader)
  then show ?thesis
    using request_notify_view [of "fold (attachReadSegment w) (gw_segments w reader) s" s w
        "gw_segments w reader \<noteq> [] \<and> m_type (hd (gw_segments w reader)) = AUDIO"
        "gw_segments w reader \<noteq> [] \<and> m_type (hd (gw_segments w reader)) = VIDEO"] assms
    by (auto simp: executeReadShmDataAndAttachSamples_def Let_def)
next
  case (AttachSourceTask source)
  then show ?thesis using request_attachSource [of w source s] assms by auto
next
  case (RemoveSourceTask t')
  then show ?thesis using request_remove [of w t' s] assms by auto
next
  case (SetPositionTask position)
  then show ?thesis using request_seek [of w position s] assms by auto
next
  case FinishSetupSourceTask
  then show ?thesis using request_finish [of w s] assms by auto
qed (use assms in \<open>auto intro!: eq_refl request_view_eq\<close>)

section \<open>Underflow\<close>

definition lastNetwork :: "GstEffect list \<Rightarrow> NetworkState option" where
  "lastNetwork fx = fold (\<lambda>e report. case e of FxNetworkState n \<Rightarrow> Some n | _ \<Rightarrow> report) fx None"

lemma lastNetwork_snoc [simp]: "lastNetwork (fx @ [e]) = (case e of FxNetworkState n \<Rightarrow> Some n | _ \<Rightarrow> lastNetwork fx)"
  by (cases e) (simp_all add: lastNetwork_def)

definition network_view :: "GstGenericPlayer \<Rightarrow> bool \<times> bool \<times> bool \<times> bool \<times> NetworkState option" where
  "network_view s = (gp_client s, gp_bufferedNotificationSent s, gp_audioUnderflowOccured s, gp_videoUnderflowOccured s,
     lastNetwork (gp_log s))"

lemma lastNetwork_quiet: "quiet_effect e \<Longrightarrow> lastNetwork (fx @ [e]) = lastNetwork fx"
  by (cases e) simp_all

interpretation network: player_view network_view
  by unfold_locales (simp_all add: network_view_def lastNetwork_quiet del: lastNetwork_snoc)

lemma network_other [simp]:
  "network_view (effect (FxNeedMediaData t r) s) = network_view s" "network_view (effect (FxBufferUnref b) s) = network_view s"
  "network_view (effect (FxPushBuffer t src b) s) = network_view s"
  "network_view (s\<lparr>gp_audioBuffers := bs\<rparr>) = network_view s" "network_view (s\<lparr>gp_videoBuffers := bs\<rparr>) = network_view s"
  "network_view (s\<lparr>gp_audioNeedDataPending := p\<rparr>) = network_view s" "network_view (s\<lparr>gp_videoNeedDataPending := p\<rparr>) = network_view s"
  by (simp_all add: network_view_def)

lemma network_ask [simp]: "network_view (askForAudio w s) = network_view s" "network_view (askForVideo w s) = network_view s"
  by (simp_all add: askForAudio_def askForVideo_def askForData_def Let_def)

lemma network_notify [simp]: "network_view (gstNotifyNeedMediaData w a v s) = network_view s"
  by (simp add: gstNotifyNeedMediaData_def Let_def)

lemma network_needData [simp]: "network_view (executeNeedData w src s) = network_view s"
  by (simp add: executeNeedData_def Let_def)

lemma network_push [simp]: "network_view (pushBuffers type p bs s) = network_view s"
  unfolding pushBuffers_def by (induction bs arbitrary: s) simp_all

lemma network_attachSource [simp]: "network_view (executeAttachSource w source s) = network_view s"
  by (simp add: executeAttachSource_def switchAudioSource_def Let_def case_prod_beta split: sum.split option.split SourceClass.split)

lemma network_finish [simp]: "network_view (executeFinishSetupSource w s) = network_view s"
  by (simp add: executeFinishSetupSource_def Let_def split: option.split)

lemma network_unref [simp]: "network_view (fold bufferUnref bs s) = network_view s"
  by (induction bs arbitrary: s) (simp_all add: bufferUnref_def split: option.split)

lemma network_needDataAll [simp]: "network_view (fold (\<lambda>type s. case gp_streamInfo s type of
    Some src \<Rightarrow> if src \<noteq> 0 then executeNeedData w src s else s | None \<Rightarrow> s) types s) = network_view s"
  by (induction types arbitrary: s) (simp_all split: option.split)

lemma network_seek [simp]: "network_view (executeSetPosition w position s) = network_view s"
  by (simp add: executeSetPosition_def Let_def del: fold.simps)

lemma network_remove [simp]: "network_view (executeRemoveSource w type s) = network_view s"
  by (simp add: executeRemoveSource_def Let_def)

text \<open>Once \<open>BUFFERED\<close> was sent, \<open>STALLED\<close> is the last report exactly while one of the streams is in underflow.\<close>

definition network_inv :: "bool \<times> bool \<times> bool \<times> bool \<times> NetworkState option \<Rightarrow> bool" where
  "network_inv = (\<lambda>(client, sent, audio, video, report). client \<and> sent \<and> ((audio \<or> video) \<longleftrightarrow> report = Some NS_STALLED))"

definition network_start :: "bool \<times> bool \<times> bool \<times> bool \<times> NetworkState option \<Rightarrow> bool" where
  "network_start = (\<lambda>(client, sent, audio, video, report). client \<and> (report = Some NS_STALLED \<longrightarrow> audio \<or> video) \<and>
     (\<not> sent \<longrightarrow> audio \<or> video \<longrightarrow> report = Some NS_STALLED))"

lemma network_view_eq: "network_view s' = network_view s \<Longrightarrow> gp_client s' = gp_client s"
  "network_view s' = network_view s \<Longrightarrow> gp_bufferedNotificationSent s' = gp_bufferedNotificationSent s"
  "network_view s' = network_view s \<Longrightarrow> gp_audioUnderflowOccured s' = gp_audioUnderflowOccured s"
  "network_view s' = network_view s \<Longrightarrow> gp_videoUnderflowOccured s' = gp_videoUnderflowOccured s"
  "network_view s' = network_view s \<Longrightarrow> lastNetwork (gp_log s') = lastNetwork (gp_log s)"
  by (simp_all add: network_view_def)

lemmas network_play_eq [simp] = network_view_eq [OF network.view_playPause(1)] network_view_eq [OF network.view_playPause(2)]

text \<open>
  Where the three reports come from: an invariant of the flags and the last report that underflow, the end of underflow and
  the notice that both streams have data keep is kept by every run.
\<close>

locale network_invariant =
  fixes I :: "bool \<times> bool \<times> bool \<times> bool \<times> NetworkState option \<Rightarrow> bool"
  assumes underflow: "I (network_view s) \<Longrightarrow> I (network_view (executeUnderflow w type b s))"
    and cancel: "I (network_view s) \<Longrightarrow> I (network_view (cancelUnderflow w type s))"
    and buffered: "I (network_view s) \<Longrightarrow> I (network_view (notifyBuffered b s))"
begin

lemma keep_attachAudio: "I (network_view s) \<Longrightarrow> I (network_view (attachAudioData w s))"
  by (auto simp: attachAudioData_def Let_def intro!: cancel buffered)

lemma keep_attachVideo: "I (network_view s) \<Longrightarrow> I (network_view (attachVideoData w s))"
  by (auto simp: attachVideoData_def Let_def intro!: cancel buffered)

lemma keep_audioSamples: "I (network_view s) \<Longrightarrow> I (network_view (fold (attachAudioSample w) as s))"
  by (induction as arbitrary: s) (simp_all add: attachAudioSample_def keep_attachAudio Let_def)

lemma keep_videoSamples: "I (network_view s) \<Longrightarrow> I (network_view (fold (attachVideoSample w) vs s))"
  by (induction vs arbitrary: s) (simp_all add: attachVideoSample_def keep_attachVideo Let_def)

lemma keep_readSegment: "I (network_view s) \<Longrightarrow> I (network_view (attachReadSegment w seg s))"
  by (auto simp: attachReadSegment_def case_prod_beta Let_def split: SegmentClass.split
      intro!: keep_attachAudio keep_attachVideo)

lemma keep_readSegments: "I (network_view s) \<Longrightarrow> I (network_view (fold (attachReadSegment w) segs s))"
  by (induction segs arbitrary: s) (simp_all add: keep_readSegment)

lemma keep_step: "I (network_view s) \<Longrightarrow> I (network_view (executeTask w t s))"
proof (cases t)
  case (AttachSamplesTask as vs)
  assume "I (network_view s)"
  then show ?thesis using AttachSamplesTask by (simp add: executeAttachSamples_def keep_audioSamples keep_videoSamples)
next
  case (ReadShmDataAndAttachSamplesTask reader)
  assume "I (network_view s)"
  then show ?thesis using ReadShmDataAndAttachSamplesTask
    by (simp add: executeReadShmDataAndAttachSamples_def keep_readSegments Let_def)
next
  case (EosTask type)
  assume inv: "I (network_view s)"
  then show ?thesis using EosTask cancel [OF inv]
    by (auto simp: executeEos_def Let_def split: option.split)
next
  case CheckAudioUnderflowTask
  assume "I (network_view s)"
  then show ?thesis using CheckAudioUnderflowTask by (simp add: executeCheckAudioUnderflow_def underflow Let_def)
qed (simp_all add: underflow)

lemma keep_run: "I (network_view s) \<Longrightarrow> I (network_view (playerRun w events s))"
  using network.run_induct [of "\<lambda>ts v. I v" w "[]" s events] keep_step by blast

end

lemmas report_defs = executeUnderflow_def cancelUnderflow_def notifyBuffered_def setUnderflowFlag_def underflowFlag_def
  network_view_def Let_def

interpretation told: network_invariant network_inv
  by unfold_locales (auto simp: report_defs network_inv_def)

interpretation from_start: network_invariant network_start
  by unfold_locales (auto simp: report_defs network_start_def)

lemma constructed_network:
  assumes "newGstGenericPlayer w True type maxWidth maxHeight gstSrc timers protection worker = GstConstructed s"
  shows "network_start (network_view s)"
proof -
  have "network_view s = network_view (newGstContext True maxWidth maxHeight)"
    using assms by (auto simp: newGstGenericPlayer_def initMsePipeline_def Let_def split: if_splits MediaType.splits option.splits)
  then show ?thesis by (simp add: network_start_def network_view_def newGstContext_def lastNetwork_def)
qed

section \<open>The properties of a run\<close>

text \<open>
  A world for the examples: GStreamer and the client accept everything, there is one \<open>appsrc\<close>, the pipeline is in the
  state it is told to be in.
\<close>

definition demo_gst :: GstWorld where
  "demo_gst =
     \<lparr>gw_notifyNeedMediaData = (\<lambda>_ _. True), gw_setStateFails = (\<lambda>_ _. False), gw_state = (\<lambda>_. ST_PAUSED),
      gw_pendingState = (\<lambda>_. ST_VOID_PENDING), gw_position = (\<lambda>_. Some 0), gw_seek = (\<lambda>_. True), gw_sendEvent = (\<lambda>_. True),
      gw_makeElement = (\<lambda>_. 7), gw_appSrcCaps = (\<lambda>_ _. None), gw_opusHeaderValid = (\<lambda>_. True),
      gw_capsIsEqual = (\<lambda>a b. Some a = b), gw_capsString = (\<lambda>_. ''audio/mpeg''), gw_sink = (\<lambda>_ _. 0),
      gw_hasProperty = (\<lambda>_ _. False), gw_name = (\<lambda>_. None), gw_klass = (\<lambda>_. ''Video''), gw_parent = (\<lambda>_. 0),
      gw_factoryTypes = (\<lambda>_. None), gw_typeChain = (\<lambda>_. []), gw_signalId = (\<lambda>_. 1), gw_isNetflix = (\<lambda>_. False),
      gw_addMeta = (\<lambda>_. True), gw_switchAudioTrack = (\<lambda>_ g p. (g, p)), gw_uninitialised = 0, gw_playFlag = (\<lambda>_. 0),
      gw_playsink = (\<lambda>_. 0), gw_segments = (\<lambda>_. [])\<rparr>"

definition demo_player :: GstGenericPlayer where
  "demo_player = (newGstContext True 1920 1080)\<lparr>gp_workerThread := True, gp_taskThreadActive := True, gp_pipeline := 1\<rparr>"

definition gst_source :: MediaSource where
  "gst_source = newMediaSourceAudio 1 ''audio/aac''
     \<lparr>ac_numberOfChannels = 2, ac_sampleRate = 48000, ac_codecSpecificConfig = []\<rparr> SA_UNDEFINED SF_RAW []"

definition gst_segment :: MediaSegment where
  "gst_segment = setData 2 (Some [1, 2]) (newMediaSegmentAudio 1 100 20 48000 2)"

text \<open>C32. Samples of a stream reach GStreamer in the order in which they were attached, each at most once, over any run of
  the player: what was pushed to the stream followed by what still waits is a subsequence of what the executed tasks brought,
  with the bytes, time stamp and duration of the segments. When no seek and no removal of the source was among the tasks, no
  sample is missing.\<close>

theorem samples_in_order:
  assumes "type = AUDIO \<or> type = VIDEO"
  shows "subseq (flowOf type (playerRun w events s))
      (flowOf type s @ concat (map (attachedBy w type) (executedTasks w events s))) \<and>
    ((\<forall>t \<in> set (executedTasks w events s). \<not> givesUpSamples type t) \<longrightarrow>
      flowOf type (playerRun w events s) = flowOf type s @ concat (map (attachedBy w type) (executedTasks w events s)))"
proof -
  let ?flow = "\<lambda>v. if type = AUDIO then fst v else snd v"
  let ?P = "\<lambda>ts v. subseq (?flow v) (flowOf type s @ concat (map (attachedBy w type) ts)) \<and>
    ((\<forall>t \<in> set ts. \<not> givesUpSamples type t) \<longrightarrow> ?flow v = flowOf type s @ concat (map (attachedBy w type) ts))"
  have view: "?flow (flow_view x) = flowOf type x" for x using assms by (auto simp: flow_view_def)
  have start: "?P [] (flow_view s)" unfolding view by simp
  have step: "?P (ts @ [t]) (flow_view (executeTask w t x))" if "?P ts (flow_view x)" for ts t x
  proof -
    let ?h = "flowOf type s @ concat (map (attachedBy w type) ts)"
    have sub: "subseq (flowOf type x) ?h" and eq: "(\<forall>t \<in> set ts. \<not> givesUpSamples type t) \<longrightarrow> flowOf type x = ?h"
      using that unfolding view by auto
    have "subseq (flowOf type x @ attachedBy w type t) (?h @ attachedBy w type t)"
      using sub subseq_append [of "flowOf type x" "attachedBy w type t" ?h] by blast
    then show ?thesis unfolding view using flow_step [OF assms, of w t x] eq
      by (auto intro: subseq_order.order_trans)
  qed
  have "?P ([] @ executedTasks w events s) (flow_view (playerRun w events s))"
    using flow.run_induct [of ?P w "[]" s events] step start by blast
  then show ?thesis unfolding view by simp
qed

theorem samples_in_order_witness:
  "flowOf AUDIO (playerRun demo_gst [CallAttachSource gst_source, WorkerRuns, SignalNeedData 7, WorkerRuns,
      CallAttachSegments [gst_segment], WorkerRuns] demo_player) = [([1, 2], 100, 20)]"
proof -
  let ?events = "[CallAttachSource gst_source, WorkerRuns, SignalNeedData 7, WorkerRuns, CallAttachSegments [gst_segment], WorkerRuns]"
  have "map (attachedBy demo_gst AUDIO) (executedTasks demo_gst ?events demo_player) = [[], [], [([1, 2], 100, 20)]]"
    and "\<forall>t \<in> set (executedTasks demo_gst ?events demo_player). \<not> givesUpSamples AUDIO t"
    and "flowOf AUDIO demo_player = []"
    by code_simp+
  then show ?thesis using samples_in_order [of AUDIO demo_gst ?events demo_player] by simp
qed

text \<open>C33. The player never has two unanswered requests for data of one stream as long as it has no reason to ask afresh: over
  any run without a seek, an end of the set-up of the sources or, for audio, an attachment or removal of the source, the
  requests the client accepted exceed the deliveries of samples by at most the one that is marked as pending.\<close>

theorem one_request_outstanding:
  assumes "type = AUDIO \<or> type = VIDEO" and "\<forall>t \<in> set (executedTasks w events s). \<not> forgetsRequest type t"
  shows "acceptedIn type (gp_log (playerRun w events s)) + of_bool (requestPending type s) \<le>
    acceptedIn type (gp_log s) + length (filter (bringsSamples w type) (executedTasks w events s)) +
    of_bool (requestPending type (playerRun w events s))"
proof -
  let ?sel = "\<lambda>v. if type = AUDIO then fst v else snd v"
  let ?P = "\<lambda>ts v. (\<forall>t \<in> set ts. \<not> forgetsRequest type t) \<longrightarrow>
    ?sel v \<le> settled type s + int (length (filter (bringsSamples w type) ts))"
  have view: "?sel (request_view x) = settled type x" for x using assms(1) by (auto simp: request_view_def)
  have start: "?P [] (request_view s)" unfolding view by simp
  have step: "?P (ts @ [t]) (request_view (executeTask w t x))" if "?P ts (request_view x)" for ts t x
    using that request_step [OF assms(1), of w t x] unfolding view by (cases "bringsSamples w type t") auto
  have "?P ([] @ executedTasks w events s) (request_view (playerRun w events s))"
    using requests.run_induct [of ?P w "[]" s events] step start by blast
  then show ?thesis using assms(2) unfolding view settled_def
    by (cases "requestPending type s"; cases "requestPending type (playerRun w events s)") simp_all
qed

text \<open>The player after its audio source was attached.\<close>

definition gst_attached :: GstGenericPlayer where
  "gst_attached = playerRun demo_gst [CallAttachSource gst_source, WorkerRuns] demo_player"

theorem one_request_outstanding_witness:
  "acceptedIn AUDIO (gp_log (playerRun demo_gst [SignalNeedData 7, SignalNeedData 7, WorkerRuns, WorkerRuns, SignalNeedData 7, WorkerRuns]
     gst_attached)) = 1"
proof -
  let ?events = "[SignalNeedData 7, SignalNeedData 7, WorkerRuns, WorkerRuns, SignalNeedData 7, WorkerRuns]"
  have "\<forall>t \<in> set (executedTasks demo_gst ?events gst_attached). \<not> forgetsRequest AUDIO t"
    and "filter (bringsSamples demo_gst AUDIO) (executedTasks demo_gst ?events gst_attached) = []"
    and "acceptedIn AUDIO (gp_log gst_attached) = 0" and "0 < acceptedIn AUDIO (gp_log (playerRun demo_gst ?events gst_attached))"
    unfolding gst_attached_def by code_simp+
  then show ?thesis using one_request_outstanding [of AUDIO demo_gst ?events gst_attached]
    by (simp add: of_bool_def split: if_splits)
qed

text \<open>C34. The reports on the state of the network are right about underflow. In every state that a player with a client
  reaches, the last report is \<open>STALLED\<close> only while the audio or the video stream is in underflow. The last report is
  \<open>STALLED\<close> whenever one of them is, as long as the client has not been told that both streams have data, and from any state
  on in which it has been told so and no stream is in underflow. In between lies the exception: the first \<open>BUFFERED\<close> is sent
  even while the other stream is in underflow.\<close>

theorem stalled_while_underflow:
  assumes "newGstGenericPlayer w True type maxWidth maxHeight gstSrc timers protection worker = GstConstructed s0"
    and "s = playerRun w events s0" and "s' = playerRun w events' s"
  shows "(lastNetwork (gp_log s') = Some NS_STALLED \<longrightarrow> gp_audioUnderflowOccured s' \<or> gp_videoUnderflowOccured s') \<and>
    (\<not> gp_bufferedNotificationSent s' \<or>
       gp_bufferedNotificationSent s \<and> \<not> gp_audioUnderflowOccured s \<and> \<not> gp_videoUnderflowOccured s \<longrightarrow>
     (lastNetwork (gp_log s') = Some NS_STALLED \<longleftrightarrow> gp_audioUnderflowOccured s' \<or> gp_videoUnderflowOccured s'))"
proof -
  note views = network_start_def network_inv_def network_view_def prod.case
  have "network_start (network_view s0)" using constructed_network [OF assms(1)] .
  then have s: "network_start (network_view s)" and s': "network_start (network_view s')"
    using from_start.keep_run assms(2,3) by blast+
  have "network_inv (network_view s')"
    if "gp_bufferedNotificationSent s" "\<not> gp_audioUnderflowOccured s" "\<not> gp_videoUnderflowOccured s"
  proof -
    have "network_inv (network_view s)" using that s unfolding views by blast
    then show ?thesis unfolding assms(3) by (rule told.keep_run)
  qed
  with s' show ?thesis unfolding views by blast
qed

text \<open>A world in which every element is a new one, and a run that attaches both sources, delivers a sample of each and then
  sees the video run dry.\<close>

definition gst_elements :: GstWorld where
  "gst_elements = demo_gst\<lparr>gw_makeElement := (\<lambda>fx. 7 + length (filter (\<lambda>e. case e of FxMakeElement _ _ \<Rightarrow> True | _ \<Rightarrow> False) fx))\<rparr>"

definition gst_video :: MediaSource where
  "gst_video = newMediaSourceVideo 2 ''video/h264'' SA_UNDEFINED SF_RAW []"

definition gst_deliveries :: "PlayerEvent list" where
  "gst_deliveries = [CallAttachSource gst_source, CallAttachSource gst_video, WorkerRuns, WorkerRuns,
     SignalNeedData 8, SignalNeedData 9, WorkerRuns, WorkerRuns, CallAttachSegments [gst_segment],
     CallAttachSegments [setData 1 (Some [3]) (newMediaSegmentVideo 2 100 20 640 480)], WorkerRuns, WorkerRuns]"

definition gst_constructed :: GstGenericPlayer where
  "gst_constructed = (initMsePipeline gst_elements ((newGstContext True 1920 1080)\<lparr>gp_workerThread := True,
     gp_taskThreadActive := True\<rparr>))\<lparr>gp_dispatcherActive := True\<rparr>"

theorem stalled_while_underflow_witness:
  "lastNetwork (gp_log (playerRun gst_elements [SignalVideoUnderflow, WorkerRuns]
     (playerRun gst_elements gst_deliveries gst_constructed))) = Some NS_STALLED"
proof -
  let ?s = "playerRun gst_elements gst_deliveries gst_constructed"
  have "newGstGenericPlayer gst_elements True MSE 1920 1080 True True True True = GstConstructed gst_constructed"
    by (simp add: newGstGenericPlayer_def gst_constructed_def)
  note run = stalled_while_underflow [OF this refl refl, of "[SignalVideoUnderflow, WorkerRuns]" gst_deliveries]
  have "gp_bufferedNotificationSent ?s" "\<not> gp_audioUnderflowOccured ?s" "\<not> gp_videoUnderflowOccured ?s"
    "gp_videoUnderflowOccured (playerRun gst_elements [SignalVideoUnderflow, WorkerRuns] ?s)"
    unfolding gst_constructed_def gst_deliveries_def by code_simp+
  with run show ?thesis by blast
qed

end
