(* ===== verification/Gst_Ends.thy ===== *)
theory Gst_Ends
  imports Gst_Flow
begin

text \<open>
  How the life of a GStreamer player ends: the destructor and the threads it has to wait for, and
  what happens after an error of the pipeline; and what becomes of a playback rate and of the protection data of a sample.
\<close>

section \<open>What every task keeps\<close>

text \<open>
  A set of states that is closed under recording an effect, under changing any member but the queue and the flags of the
  worker thread, and under adding a task to the queue, is closed under every task but the one that stops the thread.
\<close>

locale player_closed =
  fixes Q :: "GstGenericPlayer \<Rightarrow> bool"
  assumes Q_effect: "Q s \<Longrightarrow> Q (effect e s)"
    and Q_enqueue: "Q s \<Longrightarrow> Q (enqueueGstTask t s)"
    and Q_terminate: "Q s \<Longrightarrow> Q (terminate s)"
    and Q_client: "Q s \<Longrightarrow> Q (s\<lparr>gp_client := v0\<rparr>)"
    and Q_finishSourceSetupTimer: "Q s \<Longrightarrow> Q (s\<lparr>gp_finishSourceSetupTimer := v2\<rparr>)"
    and Q_positionTimer: "Q s \<Longrightarrow> Q (s\<lparr>gp_positionTimer := v3\<rparr>)"
    and Q_audioAppSrc: "Q s \<Longrightarrow> Q (s\<lparr>gp_audioAppSrc := v4\<rparr>)"
    and Q_videoAppSrc: "Q s \<Longrightarrow> Q (s\<lparr>gp_videoAppSrc := v5\<rparr>)"
    and Q_pipeline: "Q s \<Longrightarrow> Q (s\<lparr>gp_pipeline := v6\<rparr>)"
    and Q_source: "Q s \<Longrightarrow> Q (s\<lparr>gp_source := v7\<rparr>)"
    and Q_streamInfo: "Q s \<Longrightarrow> Q (s\<lparr>gp_streamInfo := v8\<rparr>)"
    and Q_audioNeedData: "Q s \<Longrightarrow> Q (s\<lparr>gp_audioNeedData := v9\<rparr>)"
    and Q_videoNeedData: "Q s \<Longrightarrow> Q (s\<lparr>gp_videoNeedData := v10\<rparr>)"
    and Q_audioNeedDataPending: "Q s \<Longrightarrow> Q (s\<lparr>gp_audioNeedDataPending := v11\<rparr>)"
    and Q_videoNeedDataPending: "Q s \<Longrightarrow> Q (s\<lparr>gp_videoNeedDataPending := v12\<rparr>)"
    and Q_audioDataPushed: "Q s \<Longrightarrow> Q (s\<lparr>gp_audioDataPushed := v13\<rparr>)"
    and Q_videoDataPushed: "Q s \<Longrightarrow> Q (s\<lparr>gp_videoDataPushed := v14\<rparr>)"
    and Q_bufferedNotificationSent: "Q s \<Longrightarrow> Q (s\<lparr>gp_bufferedNotificationSent := v15\<rparr>)"
    and Q_audioBuffers: "Q s \<Longrightarrow> Q (s\<lparr>gp_audioBuffers := v16\<rparr>)"
    and Q_videoBuffers: "Q s \<Longrightarrow> Q (s\<lparr>gp_videoBuffers := v17\<rparr>)"
    and Q_audioUnderflowOccured: "Q s \<Longrightarrow> Q (s\<lparr>gp_audioUnderflowOccured := v18\<rparr>)"
    and Q_videoUnderflowOccured: "Q s \<Longrightarrow> Q (s\<lparr>gp_videoUnderflowOccured := v19\<rparr>)"
    and Q_audioUnderflowEnabled: "Q s \<Longrightarrow> Q (s\<lparr>gp_audioUnderflowEnabled := v20\<rparr>)"
    and Q_pendingGeometry: "Q s \<Longrightarrow> Q (s\<lparr>gp_pendingGeometry := v21\<rparr>)"
    and Q_playbackRate: "Q s \<Longrightarrow> Q (s\<lparr>gp_playbackRate := v22\<rparr>)"
    and Q_pendingPlaybackRate: "Q s \<Longrightarrow> Q (s\<lparr>gp_pendingPlaybackRate := v23\<rparr>)"
    and Q_lastAudioSampleTimestamps: "Q s \<Longrightarrow> Q (s\<lparr>gp_lastAudioSampleTimestamps := v24\<rparr>)"
    and Q_audioSourceRemoved: "Q s \<Longrightarrow> Q (s\<lparr>gp_audioSourceRemoved := v25\<rparr>)"
    and Q_playbackGroup: "Q s \<Longrightarrow> Q (s\<lparr>gp_playbackGroup := v26\<rparr>)"
    and Q_connectedSignals: "Q s \<Longrightarrow> Q (s\<lparr>gp_connectedSignals := v27\<rparr>)"
    and Q_nextBuffer: "Q s \<Longrightarrow> Q (s\<lparr>gp_nextBuffer := v28\<rparr>)"
begin

lemmas Q_laws [simp] =
  Q_effect Q_enqueue Q_terminate Q_client Q_finishSourceSetupTimer Q_positionTimer Q_audioAppSrc Q_videoAppSrc Q_pipeline Q_source Q_streamInfo Q_audioNeedData Q_videoNeedData Q_audioNeedDataPending Q_videoNeedDataPending Q_audioDataPushed Q_videoDataPushed Q_bufferedNotificationSent Q_audioBuffers Q_videoBuffers Q_audioUnderflowOccured Q_videoUnderflowOccured Q_audioUnderflowEnabled Q_pendingGeometry Q_playbackRate Q_pendingPlaybackRate Q_lastAudioSampleTimestamps Q_audioSourceRemoved Q_playbackGroup Q_connectedSignals Q_nextBuffer

lemma Q_find [simp]: "Q s \<Longrightarrow> Q (findAudioAppSrc s)" "Q s \<Longrightarrow> Q (findVideoAppSrc s)"
  by (simp_all add: findAudioAppSrc_def findVideoAppSrc_def split: option.split)

lemma Q_caps [simp]: "Q s \<Longrightarrow> Q (updateAudioCaps w r c s)" "Q s \<Longrightarrow> Q (updateVideoCaps w r c s)"
  by (simp_all add: updateAudioCaps_def updateVideoCaps_def Let_def)

lemma Q_createBuffer [simp]: "Q s \<Longrightarrow> Q (snd (createBuffer w seg s))"
  by (simp add: createBuffer_def Let_def)

lemma Q_changePipelineState [simp]: "Q s \<Longrightarrow> Q (snd (changePipelineState w st s))"
  by (simp add: changePipelineState_def Let_def)

lemma Q_timers [simp]: "Q s \<Longrightarrow> Q (startPositionTimer s)" "Q s \<Longrightarrow> Q (stopPositionTimer s)" "Q s \<Longrightarrow> Q (scheduleSourceSetupFinish s)"
  by (simp_all add: startPositionTimer_def stopPositionTimer_def scheduleSourceSetupFinish_def)

lemma Q_playPause [simp]: "Q s \<Longrightarrow> Q (executePlay w s)" "Q s \<Longrightarrow> Q (executePause w s)" "Q s \<Longrightarrow> Q (executeStop w s)"
  by (simp_all add: executePlay_def executePause_def executeStop_def)

lemma Q_sink [simp]: "Q s \<Longrightarrow> Q (snd (setWesterossinkRectangle w s))" "Q s \<Longrightarrow> Q (snd (setWesterossinkSecondaryVideo w s))"
  by (simp_all add: setWesterossinkRectangle_def setWesterossinkSecondaryVideo_def Let_def)

lemma Q_ask [simp]: "Q s \<Longrightarrow> Q (askForAudio w s)" "Q s \<Longrightarrow> Q (askForVideo w s)"
  by (simp_all add: askForAudio_def askForVideo_def askForData_def Let_def)

lemma Q_notify [simp]: "Q s \<Longrightarrow> Q (gstNotifyNeedMediaData w a v s)" "Q s \<Longrightarrow> Q (notifyBuffered b s)"
  by (simp_all add: gstNotifyNeedMediaData_def notifyBuffered_def Let_def)

lemma Q_underflow [simp]: "Q s \<Longrightarrow> Q (setUnderflowFlag type b s)" "Q s \<Longrightarrow> Q (cancelUnderflow w type s)"
  "Q s \<Longrightarrow> Q (executeUnderflow w type b s)" "Q s \<Longrightarrow> Q (executeCheckAudioUnderflow w s)"
  by (simp_all add: setUnderflowFlag_def cancelUnderflow_def executeUnderflow_def executeCheckAudioUnderflow_def Let_def)

lemma Q_push [simp]: "Q s \<Longrightarrow> Q (pushBuffers type p bs s)"
  unfolding pushBuffers_def by (induction bs arbitrary: s) simp_all

lemma Q_unref [simp]: "Q s \<Longrightarrow> Q (fold bufferUnref bs s)"
  by (induction bs arbitrary: s) (simp_all add: bufferUnref_def split: option.split)

lemma Q_attachData [simp]: "Q s \<Longrightarrow> Q (attachAudioData w s)" "Q s \<Longrightarrow> Q (attachVideoData w s)"
  by (simp_all add: attachAudioData_def attachVideoData_def Let_def)

lemma Q_audioSamples [simp]: "Q s \<Longrightarrow> Q (fold (attachAudioSample w) as s)"
  by (induction as arbitrary: s) (simp_all add: attachAudioSample_def Let_def)

lemma Q_videoSamples [simp]: "Q s \<Longrightarrow> Q (fold (attachVideoSample w) vs s)"
  by (induction vs arbitrary: s) (simp_all add: attachVideoSample_def Let_def)

lemma Q_readSegments [simp]: "Q s \<Longrightarrow> Q (fold (attachReadSegment w) segs s)"
  by (induction segs arbitrary: s) (simp_all add: attachReadSegment_def case_prod_beta Let_def split: SegmentClass.split)

lemma Q_samples [simp]: "Q s \<Longrightarrow> Q (executeAttachSamples w as vs s)" "Q s \<Longrightarrow> Q (executeReadShmDataAndAttachSamples w reader s)"
  by (simp_all add: executeAttachSamples_def executeReadShmDataAndAttachSamples_def Let_def)

lemma Q_needData [simp]: "Q s \<Longrightarrow> Q (executeNeedData w src s)" "Q s \<Longrightarrow> Q (executeEnoughData src s)"
  by (simp_all add: executeNeedData_def executeEnoughData_def Let_def)

lemma Q_needDataAll [simp]: "Q s \<Longrightarrow> Q (fold (\<lambda>type s. case gp_streamInfo s type of
    Some src \<Rightarrow> if src \<noteq> 0 then executeNeedData w src s else s | None \<Rightarrow> s) types s)"
  by (induction types arbitrary: s) (simp_all split: option.split)

lemma Q_seek [simp]: "Q s \<Longrightarrow> Q (executeSetPosition w position s)"
  by (simp add: executeSetPosition_def Let_def del: fold.simps)

lemma Q_sources [simp]: "Q s \<Longrightarrow> Q (executeAttachSource w source s)" "Q s \<Longrightarrow> Q (executeRemoveSource w type s)"
  by (simp_all add: executeAttachSource_def addSource_def updateSource_def switchAudioSource_def executeRemoveSource_def Let_def
      case_prod_beta split: sum.split option.split SourceClass.split)

lemma Q_setup [simp]: "Q s \<Longrightarrow> Q (executeSetupSource p s)" "Q s \<Longrightarrow> Q (executeSetupElement w p s)"
  "Q s \<Longrightarrow> Q (executeFinishSetupSource w s)"
  by (simp_all add: executeSetupSource_def executeSetupElement_def executeFinishSetupSource_def Let_def split: option.split)

lemma Q_group [simp]: "Q s \<Longrightarrow> Q (executeDeepElementAdded w p b e n i s)" "Q s \<Longrightarrow> Q (executeUpdatePlaybackGroup w e caps s)"
  by (simp_all add: executeDeepElementAdded_def executeUpdatePlaybackGroup_def Let_def split: option.split)

lemma Q_stateChanged [simp]: "Q s \<Longrightarrow> Q (handleStateChanged new pending s)"
  by (simp add: handleStateChanged_def gstSetPlaybackRate_def Let_def split: GstState.split)

lemma Q_busMessage [simp]: "Q s \<Longrightarrow> Q (executeHandleBusMessage w m s)"
  by (cases m) (simp_all add: executeHandleBusMessage_def Let_def)

lemma Q_control [simp]: "Q s \<Longrightarrow> Q (executeEos w type s)" "Q s \<Longrightarrow> Q (executeSetPlaybackRate w r s)"
  "Q s \<Longrightarrow> Q (executeSetVideoGeometry w rect s)" "Q s \<Longrightarrow> Q (executeSetVolume x s)" "Q s \<Longrightarrow> Q (executeRenderFrame w s)"
  "Q s \<Longrightarrow> Q (executeReportPosition w s)"
  by (simp_all add: executeEos_def executeSetPlaybackRate_def executeSetVideoGeometry_def executeSetVolume_def
      executeRenderFrame_def executeReportPosition_def Let_def split: option.split)

lemma Q_task: "t \<noteq> GstShutdownTask \<Longrightarrow> Q s \<Longrightarrow> Q (executeTask w t s)"
  by (cases t) simp_all

end

section \<open>The worker thread comes to an end\<close>

text \<open>A task only adds: effects to the log, tasks to the queue. It does not start the thread again.\<close>

definition grows :: "GstGenericPlayer \<Rightarrow> GstGenericPlayer \<Rightarrow> bool" where
  "grows s s' \<longleftrightarrow> (\<exists>fx. gp_log s' = gp_log s @ fx) \<and> (\<exists>ts. gp_tasks s' = gp_tasks s @ ts) \<and>
     gp_workerThread s' = gp_workerThread s \<and> (gp_taskThreadActive s' \<longrightarrow> gp_taskThreadActive s)"

interpretation grow: player_closed "grows s0" for s0
  by unfold_locales (auto simp: grows_def enqueueGstTask_def terminate_def)

lemma grows_task: "grows s (executeTask w t s)"
  using grow.Q_task [of t s s w] by (cases "t = GstShutdownTask") (auto simp: grows_def executeShutdown_def)

lemma shutdown_stops: "gp_workerThread s \<Longrightarrow> \<not> gp_taskThreadActive (executeTask w GstShutdownTask s)"
  by (simp add: executeShutdown_def)

lemma worker_grows: "gp_taskThreadActive s \<Longrightarrow> gp_tasks s = t # ts \<Longrightarrow> grows (s\<lparr>gp_tasks := ts\<rparr>) (workerStep w s)"
  using grows_task [of "s\<lparr>gp_tasks := ts\<rparr>" w t] by (simp add: worker_busy)

lemma join_returns:
  "gp_workerThread s \<Longrightarrow> gp_tasks s = pre @ GstShutdownTask # later \<Longrightarrow> \<exists>s'. joinRounds w False (Suc (length pre)) s = Some s'"
proof (induction pre arbitrary: s later)
  case Nil
  then have "gp_taskThreadActive s \<Longrightarrow> \<not> gp_taskThreadActive (workerStep w s)" by (simp add: worker_busy executeShutdown_def)
  then show ?case using Nil by auto
next
  case (Cons t pre)
  show ?case
  proof (cases "gp_taskThreadActive s")
    case True
    let ?s = "workerStep w s"
    obtain q where "gp_tasks ?s = (pre @ GstShutdownTask # later) @ q" "gp_workerThread ?s"
      using worker_grows [OF True, of t "pre @ GstShutdownTask # later" w] Cons.prems by (auto simp: grows_def)
    then have "\<exists>s'. joinRounds w False (Suc (length pre)) ?s = Some s'" using Cons.IH [of ?s "later @ q"] by simp
    then show ?thesis using Cons.prems True by simp
  qed simp
qed

lemma asks_through:
  assumes "gp_log s1 = gp_log s @ fx" and "gp_log s2 = gp_log s1 @ fy"
  shows "asksClient s s2 \<longleftrightarrow> asksClient s s1 \<or> asksClient s1 s2"
  using assms by (simp add: asksClient_def)

lemma join_log: "joinRounds w b n s = Some s' \<Longrightarrow> \<exists>fx. gp_log s' = gp_log s @ fx"
proof (induction n arbitrary: s)
  case 0
  then show ?case by (simp split: if_splits)
next
  case (Suc n)
  show ?case
  proof (cases "gp_taskThreadActive s")
    case True
    then obtain t ts where t: "gp_tasks s = t # ts" using Suc.prems by (cases "gp_tasks s") auto
    then obtain fx where "gp_log (workerStep w s) = gp_log s @ fx" using worker_grows [OF True t, of w] by (auto simp: grows_def)
    then show ?thesis using Suc.IH [of "workerStep w s"] Suc.prems True t by (fastforce split: if_splits)
  next
    case False
    then show ?thesis using Suc.prems by simp
  qed
qed

text \<open>The main thread waits for the same end of the thread, but in vain when there is a request on the way.\<close>

lemma join_main: "joinRounds w False n s = Some s' \<Longrightarrow> joinRounds w True n s = (if asksClient s s' then None else Some s')"
proof (induction n arbitrary: s)
  case 0
  then show ?case by (simp add: asksClient_def split: if_splits)
next
  case (Suc n)
  show ?case
  proof (cases "gp_taskThreadActive s")
    case True
    then obtain t ts where t: "gp_tasks s = t # ts" using Suc.prems by (cases "gp_tasks s") auto
    then obtain fx where fx: "gp_log (workerStep w s) = gp_log s @ fx" using worker_grows [OF True t, of w] by (auto simp: grows_def)
    have join: "joinRounds w False n (workerStep w s) = Some s'" using Suc.prems True t by simp
    obtain fy where fy: "gp_log s' = gp_log (workerStep w s) @ fy" using join_log [OF join] by blast
    show ?thesis using Suc.IH [OF join] asks_through [OF fx fy] True t by simp
  next
    case False
    then show ?thesis using Suc.prems by (simp add: asksClient_def)
  qed
qed

lemma disconnect_fields:
  "gp_workerThread (fold (\<lambda>(element, i). effect (FxSignalDisconnect element i)) signals s) = gp_workerThread s"
  "gp_tasks (fold (\<lambda>(element, i). effect (FxSignalDisconnect element i)) signals s) = gp_tasks s"
  by (induction signals arbitrary: s) (simp_all add: case_prod_beta)

lemma prepare_fields: "gp_workerThread (prepareShutdown s) = gp_workerThread s" "gp_tasks (prepareShutdown s) = gp_tasks s @ [GstShutdownTask]"
  by (simp_all add: prepareShutdown_def disconnectSignals_def disconnect_fields Let_def)

text \<open>C35. The destructor of a player always gets to the end of the worker thread when it runs outside the main thread. When the
  main thread runs it, as it does when media is loaded a second time, it returns if and only if none of the tasks that are still
  queued asks the client for data: that task waits for the main thread, and the main thread waits for the task.\<close>

theorem destructor_needs_quiet_queue:
  assumes "gp_workerThread s"
  shows "\<exists>s1. joinWorkerThread w False (prepareShutdown s) = Some s1 \<and>
    destroyGstGenericPlayer w False s = Some (releasePipeline w s1) \<and>
    destroyGstGenericPlayer w True s = (if asksClient (prepareShutdown s) s1 then None else Some (releasePipeline w s1))"
proof -
  obtain s1 where s1: "joinWorkerThread w False (prepareShutdown s) = Some s1"
    using join_returns [of "prepareShutdown s" "gp_tasks s" "[]" w] assms by (auto simp: prepare_fields joinWorkerThread_def)
  then have "joinWorkerThread w True (prepareShutdown s) = (if asksClient (prepareShutdown s) s1 then None else Some s1)"
    unfolding joinWorkerThread_def by (rule join_main)
  with s1 show ?thesis by (simp add: destroyGstGenericPlayer_def)
qed

theorem destructor_needs_quiet_queue_witness:
  "destroyGstGenericPlayer demo_gst True (demo_player\<lparr>gp_streamInfo := [AUDIO \<mapsto> 7], gp_tasks := [NeedDataTask 7]\<rparr>) = None"
proof -
  let ?s = "demo_player\<lparr>gp_streamInfo := [AUDIO \<mapsto> 7], gp_tasks := [NeedDataTask 7]\<rparr>"
  have "gp_workerThread ?s" by code_simp
  moreover have "map_option (asksClient (prepareShutdown ?s)) (joinWorkerThread demo_gst False (prepareShutdown ?s)) = Some True"
    by code_simp
  ultimately show ?thesis using destructor_needs_quiet_queue [of ?s demo_gst] by auto
qed

section \<open>Construction, errors, rates\<close>

text \<open>Once it has ended, the dispatcher thread is not started again.\<close>

interpretation undispatched: player_closed "\<lambda>s. \<not> gp_dispatcherActive s"
  by unfold_locales (simp_all add: enqueueGstTask_def terminate_def)

lemma undispatched_task: "\<not> gp_dispatcherActive s \<Longrightarrow> \<not> gp_dispatcherActive (executeTask w t s)"
  using undispatched.Q_task [of t s w] by (cases "t = GstShutdownTask") (simp_all add: executeShutdown_def)

lemma undispatched_segments: "\<not> gp_dispatcherActive (snd (snd x)) \<Longrightarrow> \<not> gp_dispatcherActive (snd (snd (fold (keepSegment w) segs x)))"
proof (induction segs arbitrary: x)
  case (Cons seg segs)
  then show ?case using undispatched.Q_createBuffer [of "snd (snd x)" w seg]
    by (simp add: keepSegment_def case_prod_beta split: SegmentClass.split)
qed simp

lemma undispatched_event: "\<not> gp_dispatcherActive s \<Longrightarrow> \<not> gp_dispatcherActive (playerEvent w e s)"
  using undispatched_segments [of "([], [], s)" w] undispatched_task [of "s\<lparr>gp_tasks := _\<rparr>" w]
  by (cases e) (simp_all add: gst_request_defs workerStep_def gstBusEvent_def case_prod_beta Let_def split: option.split list.split)

lemma undispatched_run: "\<not> gp_dispatcherActive s \<Longrightarrow> \<not> gp_dispatcherActive (playerRun w events s)"
  by (induction events arbitrary: s) (simp_all add: undispatched_event)

text \<open>C37. An error of the pipeline is not reported to anyone, and it is the last thing the player hears of its pipeline: the task
  that handles it does nothing but release the message, and no message that arrives later has any effect.\<close>

theorem pipeline_error_is_silent:
  assumes "gp_dispatcherActive s" and "s1 = playerEvent w (BusMessageArrives (BusError (gp_pipeline s))) s"
  shows "gp_tasks s1 = gp_tasks s @ [HandleBusMessageTask (BusError (gp_pipeline s))] \<and>
    (\<forall>x. executeTask w (HandleBusMessageTask (BusError (gp_pipeline s))) x = effect FxMessageUnref x) \<and>
    (\<forall>events m. playerEvent w (BusMessageArrives m) (playerRun w events s1) = playerRun w events s1)"
proof -
  have "\<not> gp_dispatcherActive s1" and "gp_tasks s1 = gp_tasks s @ [HandleBusMessageTask (BusError (gp_pipeline s))]"
    using assms by (simp_all add: gstBusEvent_def busMessageSource_def endsDispatcher_def dispatcherFilter_def gstHandleBusMessage_def Let_def)
  then show ?thesis using undispatched_run [of s1 w] by (simp add: executeHandleBusMessage_def gstBusEvent_def)
qed

theorem pipeline_error_is_silent_witness:
  "playerEvent demo_gst (BusMessageArrives (BusEos 1)) (playerEvent demo_gst (BusMessageArrives (BusError 1))
      (demo_player\<lparr>gp_dispatcherActive := True\<rparr>)) =
    playerEvent demo_gst (BusMessageArrives (BusError 1)) (demo_player\<lparr>gp_dispatcherActive := True\<rparr>)"
proof -
  have "gp_pipeline (demo_player\<lparr>gp_dispatcherActive := True\<rparr>) = 1" by code_simp
  then have "\<forall>events m. playerEvent demo_gst (BusMessageArrives m) (playerRun demo_gst events
      (playerEvent demo_gst (BusMessageArrives (BusError 1)) (demo_player\<lparr>gp_dispatcherActive := True\<rparr>))) =
    playerRun demo_gst events (playerEvent demo_gst (BusMessageArrives (BusError 1)) (demo_player\<lparr>gp_dispatcherActive := True\<rparr>))"
    using pipeline_error_is_silent [of "demo_player\<lparr>gp_dispatcherActive := True\<rparr>" _ demo_gst] by simp
  then show ?thesis by (metis playerRun_simps(1))
qed

text \<open>A playback rate that the application has taken back is applied all the same: when a rate and then the current rate are
  asked for before the pipeline plays, the first one stays pending, and the player sets it as soon as the pipeline plays.\<close>

theorem withdrawn_rate_is_applied:
  assumes "gp_workerThread s" and "gp_taskThreadActive s" and "gp_tasks s = []" and "gp_dispatcherActive s" and "gp_client s"
    and "gp_pipeline s \<noteq> 0" and "gstStateRank (gw_state w (gp_log s)) < gstStateRank ST_PLAYING"
    and "rate \<noteq> gp_playbackRate s" and "rate \<noteq> kNoPendingPlaybackRate"
  shows "gp_tasks (playerRun w [CallSetPlaybackRate rate, WorkerRuns, CallSetPlaybackRate (gp_playbackRate s), WorkerRuns,
      BusMessageArrives (BusStateChanged (gp_pipeline s) ST_PAUSED ST_PLAYING ST_VOID_PENDING), WorkerRuns] s) = [SetPlaybackRateTask rate]"
proof -
  let ?s = "s\<lparr>gp_tasks := [], gp_pendingPlaybackRate := rate\<rparr>"
  have "playerRun w [CallSetPlaybackRate rate, WorkerRuns, CallSetPlaybackRate (gp_playbackRate s), WorkerRuns] s = ?s"
    using assms by (simp add: gstSetPlaybackRate_def enqueueGstTask_def workerStep_def executeSetPlaybackRate_def)
  moreover have "gp_tasks (playerRun w [BusMessageArrives (BusStateChanged (gp_pipeline s) ST_PAUSED ST_PLAYING ST_VOID_PENDING),
      WorkerRuns] ?s) = [SetPlaybackRateTask rate]"
    using assms by (simp add: gstBusEvent_def gstHandleBusMessage_def dispatcherFilter_def endsDispatcher_def workerStep_def executeHandleBusMessage_def
        handleStateChanged_def gstSetPlaybackRate_def enqueueGstTask_def startPositionTimer_def Let_def)
  ultimately show ?thesis by simp
qed

theorem withdrawn_rate_is_applied_witness:
  "gp_tasks (playerRun demo_gst [CallSetPlaybackRate 2, WorkerRuns, CallSetPlaybackRate 1, WorkerRuns,
      BusMessageArrives (BusStateChanged 1 ST_PAUSED ST_PLAYING ST_VOID_PENDING), WorkerRuns]
      (demo_player\<lparr>gp_dispatcherActive := True\<rparr>)) = [SetPlaybackRateTask 2]"
  using withdrawn_rate_is_applied [of "demo_player\<lparr>gp_dispatcherActive := True\<rparr>" demo_gst 2]
  by (simp add: demo_player_def demo_gst_def newGstContext_def kNoPendingPlaybackRate_def)

section \<open>Protection data\<close>

text \<open>The table of the clear and encrypted ranges of a sample, as big-endian numbers of sixteen and of thirty-two bits.\<close>

fun parseSubsamples :: "u8 list \<Rightarrow> (nat \<times> nat) list" where
  "parseSubsamples (a # b # c # d # e # f # raw) =
     (unat a * 256 + unat b, ((unat c * 256 + unat d) * 256 + unat e) * 256 + unat f) # parseSubsamples raw"
| "parseSubsamples _ = []"

lemma split_bytes16: "n < 65536 \<Longrightarrow> n div 256 mod 256 * 256 + n mod 256 = (n :: nat)"
  using div_mult_mod_eq [of n 256] by (simp add: div_less_iff_less_mult)

lemma split_bytes32:
  assumes "n < 4294967296"
  shows "((n div 16777216 mod 256 * 256 + n div 65536 mod 256) * 256 + n div 256 mod 256) * 256 + n mod 256 = (n :: nat)"
proof -
  let ?a = "n div 256" and ?b = "n div 65536" and ?c = "n div 16777216"
  have eq: "?b = ?a div 256" "?c = ?b div 256" by (simp_all flip: div_mult2_eq)
  have "?c mod 256 = ?c" using assms by (simp add: div_less_iff_less_mult)
  then have c: "?c mod 256 * 256 + ?b mod 256 = ?b" unfolding eq(2) by simp
  have b: "?b * 256 + ?a mod 256 = ?a" unfolding eq(1) by simp
  have a: "?a * 256 + n mod 256 = n" by simp
  show ?thesis unfolding c b a by (rule refl)
qed

lemma be16_value: "unat (ucast (drop_bit 8 (v :: u16)) :: u8) * 256 + unat (ucast v :: u8) = unat v"
  using split_bytes16 [of "unat v"] unsigned_less [of v, where ?'a = nat]
  by (simp add: unsigned_ucast_eq unsigned_drop_bit_eq drop_bit_eq_div [where ?'a = nat] take_bit_eq_mod)

lemma be32_value: "((unat (ucast (drop_bit 24 (v :: u32)) :: u8) * 256 + unat (ucast (drop_bit 16 v) :: u8)) * 256 +
    unat (ucast (drop_bit 8 v) :: u8)) * 256 + unat (ucast v :: u8) = unat v"
  using split_bytes32 [of "unat v"] unsigned_less [of v, where ?'a = nat]
  by (simp add: unsigned_ucast_eq unsigned_drop_bit_eq drop_bit_eq_div [where ?'a = nat] take_bit_eq_mod)

lemma parse_subsamplesRaw:
  "parseSubsamples (subsamplesRaw ps) = map (\<lambda>p. (unat (numClearBytes p) mod 65536, unat (numEncryptedBytes p) mod 4294967296)) ps"
proof (induction ps)
  case (Cons p ps)
  have "parseSubsamples (subsamplesRaw (p # ps)) =
      (unat (ucast (numClearBytes p) :: u16), unat (ucast (numEncryptedBytes p) :: u32)) # parseSubsamples (subsamplesRaw ps)"
    using be16_value [of "ucast (numClearBytes p)"] be32_value [of "ucast (numEncryptedBytes p)"]
    by (simp only: subsamplesRaw_def list.map concat.simps putUint16Be_def putUint32Be_def append.simps parseSubsamples.simps)
  then show ?case using Cons by (simp add: unsigned_ucast_eq take_bit_eq_mod)
qed (simp add: subsamplesRaw_def)

text \<open>C38. The table of ranges that goes with an encrypted sample says what the segment says if and only if no clear range is
  longer than sixteen bits and no encrypted range longer than thirty-two bits can tell; longer ranges are cut off silently.\<close>

theorem subsample_table_faithful_iff:
  "parseSubsamples (subsamplesRaw ps) = map (\<lambda>p. (unat (numClearBytes p), unat (numEncryptedBytes p))) ps \<longleftrightarrow>
    (\<forall>p \<in> set ps. unat (numClearBytes p) < 65536 \<and> unat (numEncryptedBytes p) < 4294967296)"
  by (auto simp: parse_subsamplesRaw mod_eq_self_iff_div_eq_0 div_eq_0_iff)

theorem subsample_table_faithful_iff_witness:
  "parseSubsamples (subsamplesRaw [\<lparr>numClearBytes = 65540, numEncryptedBytes = 7\<rparr>]) \<noteq> [(65540, 7)]"
  using subsample_table_faithful_iff [of "[\<lparr>numClearBytes = 65540, numEncryptedBytes = 7\<rparr>]"] by simp

end
