(* ===== verification/Gst_Web_Audio.thy ===== *)
theory Gst_Web_Audio
  imports Gst_Tasks Web_Audio_Server
begin

text \<open>
  The GStreamer player of web audio (\<open>media/server/gstplayer/source/GstWebAudioPlayer.cpp\<close> and \<open>tasks/webAudio\<close>): the
  pipeline it builds, its tasks, and the write call that waits for a task of the worker thread for two seconds at most.
\<close>

section \<open>Data\<close>

datatype WebGstEffect =
    WxPipelineNew string | WxMakeElement string | WxBinAdd GstPtr | WxLink GstPtr GstPtr | WxSetProperty GstPtr string bool
  | WxMaxBytes GstPtr u32 | WxTimeFormat GstPtr | WxUnref GstPtr | WxSetCaps GstPtr "GstCaps option" | WxSetState GstState
  | WxPush "u8 list" | WxEndOfStream | WxStreamVolume double | WxNotifyState WebAudioPlayerState | WxMessageUnref
  | WxTerminate | WxInitSrc | WxRemoveSyncHandler

text \<open>
  What GStreamer answers; the answers may depend on everything done before. \<open>ww_mem\<close> is the shared memory at that moment,
  \<open>ww_write\<close> the level of the \<open>appsrc\<close> and whether a buffer is allocated and taken.
\<close>

record WebGstWorld =
  ww_pipelineNew :: "WebGstEffect list \<Rightarrow> GstPtr"
  ww_makeElement :: "WebGstEffect list \<Rightarrow> string \<Rightarrow> GstPtr"
  ww_registry :: bool
  ww_lookupFeature :: "string \<Rightarrow> GstPtr"
  ww_binAdd :: "WebGstEffect list \<Rightarrow> GstPtr \<Rightarrow> bool"
  ww_link :: "WebGstEffect list \<Rightarrow> GstPtr \<Rightarrow> GstPtr \<Rightarrow> bool"
  ww_setStateFails :: "WebGstEffect list \<Rightarrow> GstState \<Rightarrow> bool"
  ww_appSrcCaps :: "WebGstEffect list \<Rightarrow> GstCaps option"
  ww_capsIsEqual :: "GstCaps \<Rightarrow> GstCaps option \<Rightarrow> bool"
  ww_write :: "WebGstEffect list \<Rightarrow> AppSrcReply"
  ww_mem :: "WebGstEffect list \<Rightarrow> mem"
  ww_getBus :: "WebGstEffect list \<Rightarrow> GstPtr"
  ww_getVolume :: "WebGstEffect list \<Rightarrow> double"

text \<open>A write task keeps two pointers into the shared memory, with lengths.\<close>

datatype WebPlayerTask =
    WebSetCapsTask string "WebAudioPcmConfig option" | WebPlayTask | WebPauseTask | WebStopTask | WebShutdownTask
  | WebSetVolumeTask double | WebEosTask | WebWriteBufferTask nat nat nat nat | WebBusMessageTask BusMessage

text \<open>
  \<open>wp_waiting\<close>: the main thread waits in \<open>writeBuffer\<close>; \<open>wp_result\<close> is what the last call of \<open>writeBuffer\<close> returned.
\<close>

record GstWebAudioPlayer =
  wp_client :: bool
  wp_workerThread :: bool
  wp_taskThreadActive :: bool
  wp_tasks :: "WebPlayerTask list"
  wp_dispatcherActive :: bool
  wp_pipeline :: GstPtr
  wp_source :: GstPtr
  wp_lastBytesWritten :: u32
  wp_waiting :: bool
  wp_result :: "u32 option"
  wp_log :: "WebGstEffect list"

definition webEffect :: "WebGstEffect \<Rightarrow> GstWebAudioPlayer \<Rightarrow> GstWebAudioPlayer" where
  "webEffect e s = s\<lparr>wp_log := wp_log s @ [e]\<rparr>"

definition webTerminate :: "GstWebAudioPlayer \<Rightarrow> GstWebAudioPlayer" where
  "webTerminate s = (webEffect WxTerminate s)\<lparr>wp_taskThreadActive := False\<rparr>"

section \<open>The pipeline\<close>

definition makeWebElement :: "WebGstWorld \<Rightarrow> string \<Rightarrow> GstWebAudioPlayer \<Rightarrow> GstPtr \<times> GstWebAudioPlayer" where
  "makeWebElement w factory s = (ww_makeElement w (wp_log s) factory, webEffect (WxMakeElement factory) s)"

text \<open>Adding several elements to the pipeline, and linking each with the next one; the first failure ends it.\<close>

fun addAll :: "WebGstWorld \<Rightarrow> GstPtr list \<Rightarrow> GstWebAudioPlayer \<Rightarrow> bool \<times> GstWebAudioPlayer" where
  "addAll w [] s = (True, s)"
| "addAll w (e # es) s =
     (let ok = ww_binAdd w (wp_log s) e; s = webEffect (WxBinAdd e) s in if ok then addAll w es s else (False, s))"

fun linkAll :: "WebGstWorld \<Rightarrow> GstPtr list \<Rightarrow> GstWebAudioPlayer \<Rightarrow> bool \<times> GstWebAudioPlayer" where
  "linkAll w (a # b # es) s =
     (let ok = ww_link w (wp_log s) a b; s = webEffect (WxLink a b) s in if ok then linkAll w (b # es) s else (False, s))"
| "linkAll w _ s = (True, s)"

definition connectElements :: "WebGstWorld \<Rightarrow> GstPtr list \<Rightarrow> GstWebAudioPlayer \<Rightarrow> bool \<times> GstWebAudioPlayer" where
  "connectElements w es s = (let (ok, s) = addAll w es s in if ok then linkAll w es s else (False, s))"

definition createAmlhalaSink :: "WebGstWorld \<Rightarrow> GstWebAudioPlayer \<Rightarrow> bool \<times> GstWebAudioPlayer" where
  "createAmlhalaSink w s =
     (let (sink, s) = makeWebElement w ''amlhalasink'' s
      in if sink = 0 then (False, s)
         else connectElements w [wp_source s, sink] (webEffect (WxSetProperty sink ''direct-mode'' False) s))"

definition createRtkAudioSink :: "WebGstWorld \<Rightarrow> GstWebAudioPlayer \<Rightarrow> bool \<times> GstWebAudioPlayer" where
  "createRtkAudioSink w s =
     (let (sink, s) = makeWebElement w ''rtkaudiosink'' s
      in if sink = 0 then (False, s)
         else
           let s = webEffect (WxSetProperty sink ''audio-service'' True) (webEffect (WxSetProperty sink ''media-tunnel'' False) s);
               (conv, s) = makeWebElement w ''audioconvert'' s
           in if conv = 0 then (False, s)
              else
                let (resample, s) = makeWebElement w ''audioresample'' s
                in if resample = 0 then (False, s) else connectElements w [wp_source s, conv, resample, sink] s)"

definition createAutoSink :: "WebGstWorld \<Rightarrow> GstWebAudioPlayer \<Rightarrow> bool \<times> GstWebAudioPlayer" where
  "createAutoSink w s =
     (let (sink, s) = makeWebElement w ''autoaudiosink'' s
      in if sink = 0 then (False, s) else connectElements w [wp_source s, sink] s)"

definition initWebAudioPipeline :: "WebGstWorld \<Rightarrow> u32 \<Rightarrow> GstWebAudioPlayer \<Rightarrow> bool \<times> GstWebAudioPlayer" where
  "initWebAudioPipeline w priority s =
     (let pipeline = ww_pipelineNew w (wp_log s);
          s = (webEffect (WxPipelineNew (''webaudiopipeline'' @ toDecimal (unat priority))) s)\<lparr>wp_pipeline := pipeline\<rparr>
      in if pipeline = 0 then (False, s)
         else
           let (source, s) = makeWebElement w ''appsrc'' s; s = s\<lparr>wp_source := source\<rparr>
           in if source = 0 then (False, s)
              else
                let s = webEffect (WxTimeFormat source) (webEffect (WxMaxBytes source kMaxWebAudioBytes) s)
                in if \<not> ww_registry w then (False, s)
                   else
                     let amlhala = ww_lookupFeature w ''amlhalasink''; rtk = ww_lookupFeature w ''rtkaudiosink''
                     in if amlhala \<noteq> 0 then apsnd (webEffect (WxUnref amlhala)) (createAmlhalaSink w s)
                        else if rtk \<noteq> 0 then apsnd (webEffect (WxUnref rtk)) (createRtkAudioSink w s)
                        else createAutoSink w s)"

section \<open>Tasks\<close>

definition webChangePipelineState :: "WebGstWorld \<Rightarrow> GstState \<Rightarrow> GstWebAudioPlayer \<Rightarrow> bool \<times> GstWebAudioPlayer" where
  "webChangePipelineState w newState s =
     (let fails = ww_setStateFails w (wp_log s) newState; s = webEffect (WxSetState newState) s
      in if fails then (False, if wp_client s then webEffect (WxNotifyState WAS_FAILURE) s else s) else (True, s))"

text \<open>The client is not checked here.\<close>

definition webPlayOrPause :: "WebGstWorld \<Rightarrow> GstState \<Rightarrow> GstWebAudioPlayer \<Rightarrow> GstWebAudioPlayer" where
  "webPlayOrPause w newState s =
     (let (ok, s) = webChangePipelineState w newState s
      in if ok then s else if wp_client s then webEffect (WxNotifyState WAS_FAILURE) s else webTerminate s)"

definition executeWebPlay :: "WebGstWorld \<Rightarrow> GstWebAudioPlayer \<Rightarrow> GstWebAudioPlayer" where
  "executeWebPlay w s = webPlayOrPause w ST_PLAYING s"

definition executeWebPause :: "WebGstWorld \<Rightarrow> GstWebAudioPlayer \<Rightarrow> GstWebAudioPlayer" where
  "executeWebPause w s = webPlayOrPause w ST_PAUSED s"

definition executeWebStop :: "WebGstWorld \<Rightarrow> GstWebAudioPlayer \<Rightarrow> GstWebAudioPlayer" where
  "executeWebStop w s = snd (webChangePipelineState w ST_NULL s)"

definition executeWebShutdown :: "GstWebAudioPlayer \<Rightarrow> GstWebAudioPlayer" where
  "executeWebShutdown s = (if wp_workerThread s then s\<lparr>wp_taskThreadActive := False\<rparr> else s)"

definition pcmFormat :: "WebAudioPcmConfig \<Rightarrow> string" where
  "pcmFormat cfg =
     (if pcm_isFloat cfg then ''F'' else if pcm_isSigned cfg then ''S'' else ''U'') @ toDecimal (unat (pcm_sampleSize cfg)) @
     (if pcm_isBigEndian cfg then ''BE'' else ''LE'')"

definition buildPcmCaps :: "WebAudioPcmConfig \<Rightarrow> GstCaps" where
  "buildPcmCaps cfg =
     CapsSetSimple (CapsSetSimple (CapsSetSimple (CapsSetSimple (CapsNewEmptySimple ''audio/x-raw'')
       ''format'' (CapsString (pcmFormat cfg))) ''channels'' (CapsInt (pcm_channels cfg)))
       ''layout'' (CapsString ''interleaved'')) ''rate'' (CapsInt (pcm_rate cfg))"

text \<open>The constructor of \<open>SetCaps\<close> copies the configuration for raw audio only.\<close>

definition createCapsFromMimeType :: "string \<Rightarrow> WebAudioPcmConfig option \<Rightarrow> GstCaps option" where
  "createCapsFromMimeType mimeType config = (if mimeType = ''audio/x-raw'' then map_option buildPcmCaps config else None)"

definition executeWebSetCaps :: "WebGstWorld \<Rightarrow> string \<Rightarrow> WebAudioPcmConfig option \<Rightarrow> GstWebAudioPlayer \<Rightarrow> GstWebAudioPlayer" where
  "executeWebSetCaps w mimeType config s =
     (let caps = createCapsFromMimeType mimeType config
      in case ww_appSrcCaps w (wp_log s) of
           None \<Rightarrow> webEffect (WxSetCaps (wp_source s) caps) s
         | Some old \<Rightarrow> if ww_capsIsEqual w old caps then s else webEffect (WxSetCaps (wp_source s) caps) s)"

text \<open>The number of bytes is kept for the caller, who is woken when there is one; an empty push stands for none.\<close>

definition executeWebWriteBuffer :: "WebGstWorld \<Rightarrow> nat \<Rightarrow> nat \<Rightarrow> nat \<Rightarrow> nat \<Rightarrow> GstWebAudioPlayer \<Rightarrow> GstWebAudioPlayer" where
  "executeWebWriteBuffer w mainPtr mainLength wrapPtr wrapLength s =
     (let m = ww_mem w (wp_log s);
          (pushed, written) = executeWriteBuffer (ww_write w (wp_log s)) (read_bytes m mainPtr mainLength) (read_bytes m wrapPtr wrapLength);
          s = (webEffect (WxPush pushed) s)\<lparr>wp_lastBytesWritten := of_nat written\<rparr>
      in if wp_waiting s then s\<lparr>wp_waiting := False, wp_result := Some (wp_lastBytesWritten s)\<rparr> else s)"

definition webStateChanged :: "GstState \<Rightarrow> GstState \<Rightarrow> GstWebAudioPlayer \<Rightarrow> GstWebAudioPlayer" where
  "webStateChanged newState pending s =
     (case newState of
        ST_PAUSED \<Rightarrow> if pending \<noteq> ST_PAUSED then webEffect (WxNotifyState WAS_PAUSED) s else s
      | ST_PLAYING \<Rightarrow> webEffect (WxNotifyState WAS_PLAYING) s
      | ST_READY \<Rightarrow> webEffect (WxNotifyState WAS_IDLE) s
      | ST_NULL \<Rightarrow> s
      | ST_VOID_PENDING \<Rightarrow> s)"

definition executeWebBusMessage :: "BusMessage \<Rightarrow> GstWebAudioPlayer \<Rightarrow> GstWebAudioPlayer" where
  "executeWebBusMessage m s =
     webEffect WxMessageUnref
       (case m of
          BusStateChanged src oldState newState pending \<Rightarrow>
            if wp_pipeline s \<noteq> 0 \<and> src = wp_pipeline s \<and> wp_client s then webStateChanged newState pending s else s
        | BusEos src \<Rightarrow>
            if wp_pipeline s \<noteq> 0 \<and> src = wp_pipeline s \<and> wp_client s then webEffect (WxNotifyState WAS_END_OF_STREAM) s else s
        | _ \<Rightarrow> s)"

fun executeWebTask :: "WebGstWorld \<Rightarrow> WebPlayerTask \<Rightarrow> GstWebAudioPlayer \<Rightarrow> GstWebAudioPlayer" where
  "executeWebTask w (WebSetCapsTask mimeType config) s = executeWebSetCaps w mimeType config s"
| "executeWebTask w WebPlayTask s = executeWebPlay w s"
| "executeWebTask w WebPauseTask s = executeWebPause w s"
| "executeWebTask w WebStopTask s = executeWebStop w s"
| "executeWebTask w WebShutdownTask s = executeWebShutdown s"
| "executeWebTask w (WebSetVolumeTask volume) s = webEffect (WxStreamVolume volume) s"
| "executeWebTask w WebEosTask s = webEffect WxEndOfStream s"
| "executeWebTask w (WebWriteBufferTask mainPtr mainLength wrapPtr wrapLength) s =
     executeWebWriteBuffer w mainPtr mainLength wrapPtr wrapLength s"
| "executeWebTask w (WebBusMessageTask m) s = executeWebBusMessage m s"

definition webWorkerStep :: "WebGstWorld \<Rightarrow> GstWebAudioPlayer \<Rightarrow> GstWebAudioPlayer" where
  "webWorkerStep w s =
     (if wp_taskThreadActive s then
        case wp_tasks s of [] \<Rightarrow> s | t # ts \<Rightarrow> executeWebTask w t (s\<lparr>wp_tasks := ts\<rparr>)
      else s)"

section \<open>Construction and destruction\<close>

definition enqueueWebTask :: "WebPlayerTask \<Rightarrow> GstWebAudioPlayer \<Rightarrow> GstWebAudioPlayer" where
  "enqueueWebTask t s = s\<lparr>wp_tasks := wp_tasks s @ [t]\<rparr>"

text \<open>The thread is joined: it ends when it has done the task that stops it. \<open>None\<close>: it never ends.\<close>

fun webJoin :: "WebGstWorld \<Rightarrow> nat \<Rightarrow> GstWebAudioPlayer \<Rightarrow> GstWebAudioPlayer option" where
  "webJoin w 0 s = (if wp_taskThreadActive s then None else Some s)"
| "webJoin w (Suc n) s =
     (if \<not> wp_taskThreadActive s then Some s
      else if wp_tasks s = [] then None
      else webJoin w n (webWorkerStep w s))"

definition resetWorkerThread :: "WebGstWorld \<Rightarrow> GstWebAudioPlayer \<Rightarrow> GstWebAudioPlayer option" where
  "resetWorkerThread w s =
     (let s = enqueueWebTask WebShutdownTask s
      in map_option (\<lambda>s. s\<lparr>wp_workerThread := False, wp_tasks := []\<rparr>) (webJoin w (length (wp_tasks s)) s))"

definition termWebAudioPipeline :: "WebGstWorld \<Rightarrow> GstWebAudioPlayer \<Rightarrow> GstWebAudioPlayer" where
  "termWebAudioPipeline w s =
     (if wp_pipeline s \<noteq> 0 then
        let s = executeWebStop w s; bus = ww_getBus w (wp_log s);
            s = (if bus \<noteq> 0 then webEffect (WxUnref bus) (webEffect WxRemoveSyncHandler s) else s);
            s = (if wp_source s \<noteq> 0 then webEffect (WxUnref (wp_source s)) s else s)
        in webEffect (WxUnref (wp_pipeline s)) s
      else s)"

definition newWebContext :: "bool \<Rightarrow> GstWebAudioPlayer" where
  "newWebContext client =
     \<lparr>wp_client = client, wp_workerThread = False, wp_taskThreadActive = False, wp_tasks = [], wp_dispatcherActive = False,
      wp_pipeline = 0, wp_source = 0, wp_lastBytesWritten = 0, wp_waiting = False, wp_result = None, wp_log = []\<rparr>"

text \<open>
  The outcome of the constructor with what it leaves behind: a player, or an exception (\<open>Inl\<close>); \<open>None\<close>: it does not return.
\<close>

definition newGstWebAudioPlayer ::
  "WebGstWorld \<Rightarrow> bool \<Rightarrow> u32 \<Rightarrow> bool \<Rightarrow> bool \<Rightarrow> bool \<Rightarrow> (GstWebAudioPlayer + GstWebAudioPlayer) option" where
  "newGstWebAudioPlayer w client priority gstSrc worker dispatcher =
     (let s = newWebContext client
      in if \<not> gstSrc then Some (Inl s)
         else if \<not> worker then Some (Inl (webEffect WxInitSrc s))
         else
           let (ok, s) = initWebAudioPipeline w priority
                 ((webEffect WxInitSrc s)\<lparr>wp_workerThread := True, wp_taskThreadActive := True\<rparr>)
           in if \<not> ok then map_option Inl (resetWorkerThread w (termWebAudioPipeline w s))
              else if \<not> dispatcher then map_option Inl (resetWorkerThread w (termWebAudioPipeline w s))
              else Some (Inr (s\<lparr>wp_dispatcherActive := True\<rparr>)))"

definition destroyGstWebAudioPlayer :: "WebGstWorld \<Rightarrow> GstWebAudioPlayer \<Rightarrow> GstWebAudioPlayer option" where
  "destroyGstWebAudioPlayer w s =
     map_option (termWebAudioPipeline w) (resetWorkerThread w (s\<lparr>wp_dispatcherActive := False\<rparr>))"

section \<open>Requests\<close>

definition webSetCaps :: "string \<Rightarrow> WebAudioPcmConfig option \<Rightarrow> GstWebAudioPlayer \<Rightarrow> GstWebAudioPlayer" where
  "webSetCaps mimeType config s = enqueueWebTask (WebSetCapsTask mimeType config) s"

definition webPlay :: "GstWebAudioPlayer \<Rightarrow> GstWebAudioPlayer" where
  "webPlay s = enqueueWebTask WebPlayTask s"

definition webPause :: "GstWebAudioPlayer \<Rightarrow> GstWebAudioPlayer" where
  "webPause s = enqueueWebTask WebPauseTask s"

definition webSetVolume :: "double \<Rightarrow> GstWebAudioPlayer \<Rightarrow> GstWebAudioPlayer" where
  "webSetVolume volume s = enqueueWebTask (WebSetVolumeTask volume) s"

definition webSetEos :: "GstWebAudioPlayer \<Rightarrow> GstWebAudioPlayer" where
  "webSetEos s = enqueueWebTask WebEosTask s"

definition webGetVolume :: "WebGstWorld \<Rightarrow> GstWebAudioPlayer \<Rightarrow> double" where
  "webGetVolume w s = ww_getVolume w (wp_log s)"

definition webGetQueuedBytes :: "WebGstWorld \<Rightarrow> GstWebAudioPlayer \<Rightarrow> u64" where
  "webGetQueuedBytes w s = as_level (ww_write w (wp_log s))"

text \<open>
  The caller waits; \<open>writeTimesOut\<close> is the end of its wait after two seconds, \<open>writeWakesEarly\<close> the one a condition variable
  may bring about at any time: the caller does not check whether its task was done.
\<close>

definition beginWriteBuffer :: "nat \<Rightarrow> nat \<Rightarrow> nat \<Rightarrow> nat \<Rightarrow> GstWebAudioPlayer \<Rightarrow> GstWebAudioPlayer" where
  "beginWriteBuffer mainPtr mainLength wrapPtr wrapLength s =
     (enqueueWebTask (WebWriteBufferTask mainPtr mainLength wrapPtr wrapLength) s)\<lparr>wp_waiting := True, wp_result := None\<rparr>"

definition writeTimesOut :: "GstWebAudioPlayer \<Rightarrow> GstWebAudioPlayer" where
  "writeTimesOut s = (if wp_waiting s then s\<lparr>wp_waiting := False, wp_result := Some 0\<rparr> else s)"

definition writeWakesEarly :: "GstWebAudioPlayer \<Rightarrow> GstWebAudioPlayer" where
  "writeWakesEarly s = (if wp_waiting s then s\<lparr>wp_waiting := False, wp_result := Some (wp_lastBytesWritten s)\<rparr> else s)"

definition webHandleBusMessage :: "BusMessage \<Rightarrow> GstWebAudioPlayer \<Rightarrow> GstWebAudioPlayer" where
  "webHandleBusMessage m s = (if wp_workerThread s then enqueueWebTask (WebBusMessageTask m) s else s)"

section \<open>Runs\<close>

text \<open>What happens to a player. The main thread does nothing else while it waits in \<open>writeBuffer\<close>.\<close>

datatype WebEvent =
    WeSetCaps string "WebAudioPcmConfig option" | WePlay | WePause | WeSetVolume double | WeSetEos
  | WeWrite nat nat nat nat | WeTimeout | WeEarlyWake | WeBusMessage BusMessage | WeWorker

fun webEvent :: "WebGstWorld \<Rightarrow> WebEvent \<Rightarrow> GstWebAudioPlayer \<Rightarrow> GstWebAudioPlayer" where
  "webEvent w (WeSetCaps mimeType config) s = (if wp_waiting s then s else webSetCaps mimeType config s)"
| "webEvent w WePlay s = (if wp_waiting s then s else webPlay s)"
| "webEvent w WePause s = (if wp_waiting s then s else webPause s)"
| "webEvent w (WeSetVolume volume) s = (if wp_waiting s then s else webSetVolume volume s)"
| "webEvent w WeSetEos s = (if wp_waiting s then s else webSetEos s)"
| "webEvent w (WeWrite mainPtr mainLength wrapPtr wrapLength) s =
     (if wp_waiting s then s else beginWriteBuffer mainPtr mainLength wrapPtr wrapLength s)"
| "webEvent w WeTimeout s = writeTimesOut s"
| "webEvent w WeEarlyWake s = writeWakesEarly s"
| "webEvent w (WeBusMessage m) s = webHandleBusMessage m s"
| "webEvent w WeWorker s = webWorkerStep w s"

definition webRun :: "WebGstWorld \<Rightarrow> WebEvent list \<Rightarrow> GstWebAudioPlayer \<Rightarrow> GstWebAudioPlayer" where
  "webRun w events s = fold (webEvent w) events s"

text \<open>The values the calls of \<open>writeBuffer\<close> return, and the data that is pushed.\<close>

fun webResults :: "WebGstWorld \<Rightarrow> WebEvent list \<Rightarrow> GstWebAudioPlayer \<Rightarrow> u32 list" where
  "webResults w [] s = []"
| "webResults w (e # es) s =
     (let s' = webEvent w e s
      in (if wp_waiting s \<and> \<not> wp_waiting s' then (case wp_result s' of Some r \<Rightarrow> [r] | None \<Rightarrow> []) else []) @ webResults w es s')"

definition pushesIn :: "WebGstEffect list \<Rightarrow> u8 list list" where
  "pushesIn fx = concat (map (\<lambda>e. case e of WxPush bytes \<Rightarrow> [bytes] | _ \<Rightarrow> []) fx)"

fun isWriteTask :: "WebPlayerTask \<Rightarrow> bool" where
  "isWriteTask (WebWriteBufferTask _ _ _ _) = True"
| "isWriteTask _ = False"

definition one_write :: "GstWebAudioPlayer \<Rightarrow> bool" where
  "one_write s \<longleftrightarrow> length (filter isWriteTask (wp_tasks s)) = of_bool (wp_waiting s)"

lemma web_effect_fields [simp]:
  "wp_client (webEffect e s) = wp_client s" "wp_workerThread (webEffect e s) = wp_workerThread s"
  "wp_taskThreadActive (webEffect e s) = wp_taskThreadActive s" "wp_tasks (webEffect e s) = wp_tasks s"
  "wp_pipeline (webEffect e s) = wp_pipeline s" "wp_source (webEffect e s) = wp_source s"
  "wp_waiting (webEffect e s) = wp_waiting s" "wp_result (webEffect e s) = wp_result s"
  "wp_log (webEffect e s) = wp_log s @ [e]"
  by (simp_all add: webEffect_def)

lemma pushesIn_simps [simp]: "pushesIn [] = []"
  "pushesIn (fx @ fy) = pushesIn fx @ pushesIn fy"
  "pushesIn (e # fx) = (case e of WxPush bytes \<Rightarrow> [bytes] | _ \<Rightarrow> []) @ pushesIn fx"
  by (simp_all add: pushesIn_def)

lemmas web_task_defs =
  executeWebSetCaps_def executeWebPlay_def executeWebPause_def executeWebStop_def executeWebShutdown_def webPlayOrPause_def
  webChangePipelineState_def webTerminate_def executeWebBusMessage_def webStateChanged_def

text \<open>A task that does not write leaves the writing alone; none adds a task.\<close>

lemma web_task_quiet: "\<not> isWriteTask t \<Longrightarrow> wp_waiting (executeWebTask w t s) = wp_waiting s \<and>
    wp_result (executeWebTask w t s) = wp_result s \<and> pushesIn (wp_log (executeWebTask w t s)) = pushesIn (wp_log s)"
  by (cases t) (simp_all add: web_task_defs Let_def case_prod_beta split: option.split BusMessage.split GstState.split)

lemma web_task_queue [simp]: "wp_tasks (executeWebTask w t s) = wp_tasks s" "wp_workerThread (executeWebTask w t s) = wp_workerThread s"
  by (cases t; simp add: web_task_defs executeWebWriteBuffer_def Let_def case_prod_beta split: option.split BusMessage.split GstState.split)+

lemma write_counts: "executeWriteBuffer reply mainData wrapData = (pushed, written) \<Longrightarrow> written = length pushed"
  by (auto simp: executeWriteBuffer_def Let_def split: if_splits)

lemma web_task_write:
  assumes "isWriteTask t" and "wp_waiting s"
  shows "\<exists>bytes. pushesIn (wp_log (executeWebTask w t s)) = pushesIn (wp_log s) @ [bytes] \<and>
    \<not> wp_waiting (executeWebTask w t s) \<and> wp_result (executeWebTask w t s) = Some (of_nat (length bytes))"
proof (cases t)
  case (WebWriteBufferTask a b c d)
  obtain bytes n where wr: "executeWriteBuffer (ww_write w (wp_log s)) (read_bytes (ww_mem w (wp_log s)) a b)
      (read_bytes (ww_mem w (wp_log s)) c d) = (bytes, n)" by fastforce
  then show ?thesis using WebWriteBufferTask assms(2) write_counts [OF wr] by (simp add: executeWebWriteBuffer_def Let_def)
qed (use assms in simp_all)

lemma web_worker_step:
  assumes "one_write s"
  shows "one_write (webWorkerStep w s) \<and>
    map (\<lambda>b. of_nat (length b)) (pushesIn (wp_log (webWorkerStep w s))) = map (\<lambda>b. of_nat (length b)) (pushesIn (wp_log s)) @
      webResults w [WeWorker] s"
proof (cases "wp_taskThreadActive s \<and> wp_tasks s \<noteq> []")
  case True
  then obtain t ts where t: "wp_tasks s = t # ts" by (cases "wp_tasks s") auto
  let ?s = "s\<lparr>wp_tasks := ts\<rparr>"
  have step: "webWorkerStep w s = executeWebTask w t ?s" using True t by (simp add: webWorkerStep_def)
  show ?thesis
  proof (cases "isWriteTask t")
    case True
    then have wait: "wp_waiting ?s" "filter isWriteTask ts = []" using assms t by (auto simp: one_write_def of_bool_def split: if_splits)
    show ?thesis using web_task_write [OF True wait(1), of w] wait step by (auto simp: one_write_def)
  next
    case False
    then show ?thesis using web_task_quiet [OF False, of w ?s] assms t step by (auto simp: one_write_def)
  qed
next
  case False
  then have "webWorkerStep w s = s" by (auto simp: webWorkerStep_def split: list.split)
  then show ?thesis using assms by simp
qed

lemma web_event_step:
  assumes "one_write s" and "e \<noteq> WeTimeout" and "e \<noteq> WeEarlyWake"
  shows "one_write (webEvent w e s) \<and>
    map (\<lambda>b. of_nat (length b)) (pushesIn (wp_log (webEvent w e s))) = map (\<lambda>b. of_nat (length b)) (pushesIn (wp_log s)) @
      webResults w [e] s"
  using assms web_worker_step [OF assms(1), of w]
  by (cases e) (auto simp: one_write_def enqueueWebTask_def webSetCaps_def webPlay_def webPause_def webSetVolume_def webSetEos_def
      beginWriteBuffer_def webHandleBusMessage_def)

text \<open>C39. As long as no call of \<open>writeBuffer\<close> runs into its time limit or is woken for nothing, every call returns the number of bytes that were pushed to
  GStreamer for it, in order, whatever else happens in between.\<close>

theorem audio_writes_report_their_bytes:
  assumes "\<not> wp_waiting s" and "\<forall>t \<in> set (wp_tasks s). \<not> isWriteTask t" and "WeTimeout \<notin> set events" and "WeEarlyWake \<notin> set events"
  shows "map (\<lambda>b. of_nat (length b)) (pushesIn (wp_log (webRun w events s))) =
    map (\<lambda>b. of_nat (length b)) (pushesIn (wp_log s)) @ webResults w events s"
proof -
  have "one_write s" using assms(1,2) by (simp add: one_write_def)
  then show ?thesis using assms(3,4)
  proof (induction events arbitrary: s)
    case (Cons e es)
    have ne: "e \<noteq> WeTimeout" "e \<noteq> WeEarlyWake" using Cons.prems(2,3) by auto
    show ?case using Cons.IH [of "webEvent w e s"] web_event_step [OF Cons.prems(1) ne, of w] Cons.prems(2,3)
      by (simp add: webRun_def Let_def)
  qed (simp add: webRun_def)
qed

definition demo_web :: WebGstWorld where
  "demo_web =
     \<lparr>ww_pipelineNew = (\<lambda>_. 1), ww_makeElement = (\<lambda>fx _. 2 + length fx), ww_registry = True, ww_lookupFeature = (\<lambda>_. 0),
      ww_binAdd = (\<lambda>_ _. True), ww_link = (\<lambda>_ _ _. True), ww_setStateFails = (\<lambda>_ _. False), ww_appSrcCaps = (\<lambda>_. None),
      ww_capsIsEqual = (\<lambda>a b. Some a = b),
      ww_write = (\<lambda>_. \<lparr>as_level = 0, as_allocated = True, as_pushed = True, as_timeout = False\<rparr>), ww_mem = (\<lambda>_ _. 5),
      ww_getBus = (\<lambda>_. 7), ww_getVolume = (\<lambda>_. 1)\<rparr>"

definition demo_web_player :: GstWebAudioPlayer where
  "demo_web_player = (newWebContext True)\<lparr>wp_workerThread := True, wp_taskThreadActive := True\<rparr>"

theorem audio_writes_report_their_bytes_witness:
  "webResults demo_web [WeWrite 0 3 0 0, WePlay, WeWorker, WeWrite 3 2 0 0, WeWorker] demo_web_player = [3, 2]"
proof -
  let ?events = "[WeWrite 0 3 0 0, WePlay, WeWorker, WeWrite 3 2 0 0, WeWorker]"
  have "\<not> wp_waiting demo_web_player" "\<forall>t \<in> set (wp_tasks demo_web_player). \<not> isWriteTask t"
    "pushesIn (wp_log demo_web_player) = []" "pushesIn (wp_log (webRun demo_web ?events demo_web_player)) = [[5, 5, 5], [5, 5]]"
    by code_simp+
  then show ?thesis using audio_writes_report_their_bytes [of demo_web_player ?events demo_web] by simp
qed

text \<open>A write that runs into its time limit is still done later, and its result is taken for that of the next call: the next
  call returns the number of bytes the late task pushed, while its own task has not been done.\<close>

theorem late_write_answers_next_call:
  assumes "wp_taskThreadActive s" and "wp_tasks s = []" and "\<not> wp_waiting s"
    and "executeWriteBuffer (ww_write w (wp_log s)) (read_bytes (ww_mem w (wp_log s)) a b) (read_bytes (ww_mem w (wp_log s)) c d) = (bytes, n)"
  shows "webResults w [WeWrite a b c d, WeTimeout, WeWrite a' b' c' d', WeWorker] s = [0, of_nat n] \<and>
    wp_tasks (webRun w [WeWrite a b c d, WeTimeout, WeWrite a' b' c' d', WeWorker] s) = [WebWriteBufferTask a' b' c' d']"
  using assms by (simp add: webRun_def beginWriteBuffer_def enqueueWebTask_def writeTimesOut_def webWorkerStep_def
      executeWebWriteBuffer_def Let_def)

theorem late_write_answers_next_call_witness:
  "webResults demo_web [WeWrite 0 3 0 0, WeTimeout, WeWrite 3 2 0 0, WeWorker] demo_web_player = [0, 3]"
proof -
  have "wp_taskThreadActive demo_web_player" "wp_tasks demo_web_player = []" "\<not> wp_waiting demo_web_player"
    "executeWriteBuffer (ww_write demo_web (wp_log demo_web_player)) (read_bytes (ww_mem demo_web (wp_log demo_web_player)) 0 3)
      (read_bytes (ww_mem demo_web (wp_log demo_web_player)) 0 0) = ([5, 5, 5], 3)"
    by code_simp+
  then show ?thesis using late_write_answers_next_call [of demo_web_player demo_web 0 3 0 0 "[5, 5, 5]" 3] by simp
qed

section \<open>The end of the worker thread\<close>

lemma webJoin_returns: "wp_workerThread s \<Longrightarrow> wp_tasks s = ts @ [WebShutdownTask] \<Longrightarrow> \<exists>s'. webJoin w (Suc (length ts)) s = Some s'"
proof (induction ts arbitrary: s)
  case Nil
  then show ?case by (auto simp: webWorkerStep_def executeWebShutdown_def)
next
  case (Cons t ts)
  show ?case
  proof (cases "wp_taskThreadActive s")
    case True
    then have "webWorkerStep w s = executeWebTask w t (s\<lparr>wp_tasks := ts @ [WebShutdownTask]\<rparr>)"
      using Cons.prems by (simp add: webWorkerStep_def)
    then show ?thesis using Cons.IH [of "webWorkerStep w s"] Cons.prems True by simp
  qed simp
qed

lemma resetWorkerThread_returns: "wp_workerThread s \<Longrightarrow> \<exists>s'. resetWorkerThread w s = Some s'"
  using webJoin_returns [of "enqueueWebTask WebShutdownTask s" "wp_tasks s" w]
  by (auto simp: resetWorkerThread_def enqueueWebTask_def)

lemma add_worker [simp]: "wp_workerThread (snd (addAll w es s)) = wp_workerThread s"
  by (induction w es s rule: addAll.induct) (simp_all add: Let_def)

lemma link_worker [simp]: "wp_workerThread (snd (linkAll w es s)) = wp_workerThread s"
  by (induction w es s rule: linkAll.induct) (simp_all add: Let_def)

lemma connect_worker [simp]: "wp_workerThread (snd (connectElements w es s)) = wp_workerThread s"
  by (simp add: connectElements_def case_prod_beta Let_def)

lemma make_worker [simp]: "wp_workerThread (snd (makeWebElement w factory s)) = wp_workerThread s"
  by (simp add: makeWebElement_def)

lemma sink_worker [simp]: "wp_workerThread (snd (createAmlhalaSink w s)) = wp_workerThread s"
  "wp_workerThread (snd (createRtkAudioSink w s)) = wp_workerThread s" "wp_workerThread (snd (createAutoSink w s)) = wp_workerThread s"
  by (simp_all add: createAmlhalaSink_def createRtkAudioSink_def createAutoSink_def case_prod_beta Let_def)

lemma init_worker: "wp_workerThread (snd (initWebAudioPipeline w priority s)) = wp_workerThread s"
  by (simp add: initWebAudioPipeline_def case_prod_beta Let_def)

lemma term_worker: "wp_workerThread (termWebAudioPipeline w s) = wp_workerThread s"
  by (simp add: termWebAudioPipeline_def executeWebStop_def webChangePipelineState_def Let_def)

text \<open>Neither the constructor of the web audio player, whatever fails in it, nor its destructor waits for ever: the worker thread
  is told to stop before it is joined.\<close>

theorem web_audio_player_ends:
  "newGstWebAudioPlayer w client priority gstSrc worker dispatcher \<noteq> None \<and>
    (wp_workerThread s \<longrightarrow> destroyGstWebAudioPlayer w s \<noteq> None)"
  using resetWorkerThread_returns [of "termWebAudioPipeline w (snd (initWebAudioPipeline w priority
      ((webEffect WxInitSrc (newWebContext client))\<lparr>wp_workerThread := True, wp_taskThreadActive := True\<rparr>)))" w]
    resetWorkerThread_returns [of "s\<lparr>wp_dispatcherActive := False\<rparr>" w]
  by (auto simp: newGstWebAudioPlayer_def destroyGstWebAudioPlayer_def init_worker term_worker case_prod_beta Let_def)

end
