(* ===== verification/Gst_Source.thy ===== *)
theory Gst_Source
  imports Gst_Player
begin

text \<open>
  The source element of the pipeline (\<open>media/server/gstplayer/source/GstSrc.cpp\<close>): a bin with one chain of elements for every
  attached stream, its state changes and its treatment of messages. The registration of the element's type is left out.
\<close>

section \<open>Data\<close>

datatype GstStateChange = NULL_TO_READY | READY_TO_PAUSED | PAUSED_TO_PLAYING | PLAYING_TO_PAUSED | PAUSED_TO_READY | READY_TO_NULL

datatype GstStateChangeReturn = CHANGE_FAILURE | CHANGE_SUCCESS | CHANGE_ASYNC | CHANGE_NO_PREROLL

datatype SrcEffect =
    SxAppSrcProperties GstPtr | SxCallbacks GstPtr | SxMaxBytes GstPtr u64 | SxSeekable GstPtr | SxBinAdd GstPtr | SxSyncState GstPtr
  | SxLink GstPtr GstPtr | SxSetInPlace GstPtr | SxQueueProperties GstPtr | SxGhostPad u32 GstPtr | SxAddPad u32 | SxNoMorePads
  | SxAsyncStart | SxAsyncDone | SxParentChangeState GstStateChange | SxParentMessage | SxSendEos | SxRegister string | SxUnref GstPtr

text \<open>What GStreamer answers, after what was done before.\<close>

record SrcWorld =
  sw_factoryFind :: "SrcEffect list \<Rightarrow> string \<Rightarrow> GstPtr"
  sw_factoryCreate :: "SrcEffect list \<Rightarrow> GstPtr \<Rightarrow> GstPtr"
  sw_makeQueue :: "SrcEffect list \<Rightarrow> GstPtr"
  sw_createDecryptor :: "SrcEffect list \<Rightarrow> GstPtr"
  sw_isBaseTransform :: "GstPtr \<Rightarrow> bool"
  sw_changeState :: "SrcEffect list \<Rightarrow> GstStateChange \<Rightarrow> GstStateChangeReturn"

text \<open>
  The element. A pad is named by the element whose source pad it is: \<open>rs_targets\<close> are the targets of the pads \<open>src_0\<close>,
  \<open>src_1\<close>, \<dots>, \<open>rs_eosPads\<close> those that were marked \<open>is-eos\<close>. \<open>rs_payFactory\<close> is the static variable of \<open>createPayloader\<close>,
  once it is initialised.
\<close>

record RialtoSrc =
  rs_uri :: "string option"
  rs_appsrc_count :: u32
  rs_async_start :: bool
  rs_async_done :: bool
  rs_targets :: "GstPtr list"
  rs_eosPads :: "GstPtr list"
  rs_payFactory :: "GstPtr option"
  rs_log :: "SrcEffect list"

definition srcEffect :: "SrcEffect \<Rightarrow> RialtoSrc \<Rightarrow> RialtoSrc" where
  "srcEffect e s = s\<lparr>rs_log := rs_log s @ [e]\<rparr>"

definition gst_rialto_src_init :: "GstPtr option \<Rightarrow> RialtoSrc" where
  "gst_rialto_src_init factory =
     \<lparr>rs_uri = None, rs_appsrc_count = 0, rs_async_start = False, rs_async_done = False, rs_targets = [], rs_eosPads = [],
      rs_payFactory = factory, rs_log = []\<rparr>"

section \<open>The element\<close>

definition gstRialtoSrcGetProtocols :: "string list" where
  "gstRialtoSrcGetProtocols = [''rialto'']"

definition gstRialtoSrcGetUri :: "RialtoSrc \<Rightarrow> string option" where
  "gstRialtoSrcGetUri s = rs_uri s"

definition gstRialtoSrcSetUri :: "GstState \<Rightarrow> string option \<Rightarrow> RialtoSrc \<Rightarrow> bool \<times> RialtoSrc" where
  "gstRialtoSrcSetUri state uri s =
     (if state = ST_PAUSED \<or> state = ST_PLAYING then (False, s) else (True, s\<lparr>rs_uri := uri\<rparr>))"

text \<open>The end of the stream is signalled when the targets of all pads are marked; the source of the message is marked first.\<close>

definition handleEosMessage :: "GstPtr \<Rightarrow> RialtoSrc \<Rightarrow> RialtoSrc" where
  "handleEosMessage src s =
     (let s = s\<lparr>rs_eosPads := src # rs_eosPads s\<rparr>;
          emit_eos = list_all (\<lambda>t. t \<in> set (rs_eosPads s)) (take (unat (rs_appsrc_count s)) (rs_targets s))
      in if emit_eos then srcEffect SxSendEos s else s)"

definition gstRialtoSrcHandleMessage :: "GstPtr option \<Rightarrow> RialtoSrc \<Rightarrow> RialtoSrc" where
  "gstRialtoSrcHandleMessage eosFrom s =
     (case eosFrom of Some src \<Rightarrow> handleEosMessage src s | None \<Rightarrow> srcEffect SxParentMessage s)"

definition gstRialtoSrcDoAsyncStart :: "RialtoSrc \<Rightarrow> RialtoSrc" where
  "gstRialtoSrcDoAsyncStart s =
     (if rs_async_done s then s else srcEffect SxAsyncStart (s\<lparr>rs_async_start := True\<rparr>))"

definition gstRialtoSrcDoAsyncDone :: "RialtoSrc \<Rightarrow> RialtoSrc" where
  "gstRialtoSrcDoAsyncDone s =
     (if \<not> rs_async_start s then s
      else (srcEffect SxAsyncDone s)\<lparr>rs_async_done := True, rs_async_start := False\<rparr>)"

definition gstRialtoSrcChangeState :: "SrcWorld \<Rightarrow> GstStateChange \<Rightarrow> RialtoSrc \<Rightarrow> GstStateChangeReturn \<times> RialtoSrc" where
  "gstRialtoSrcChangeState w transition s =
     (let s = (if transition = READY_TO_PAUSED then gstRialtoSrcDoAsyncStart s else s);
          status = sw_changeState w (rs_log s) transition;
          s = srcEffect (SxParentChangeState transition) s
      in if status = CHANGE_FAILURE then (status, gstRialtoSrcDoAsyncDone s)
         else case transition of
             READY_TO_PAUSED \<Rightarrow> (if \<not> rs_async_done s then CHANGE_ASYNC else status, s)
           | PAUSED_TO_READY \<Rightarrow> (status, gstRialtoSrcDoAsyncDone s)
           | _ \<Rightarrow> (status, s))"

section \<open>Streams\<close>

definition initSrc :: "SrcWorld \<Rightarrow> RialtoSrc \<Rightarrow> RialtoSrc" where
  "initSrc w s =
     (let src_factory = sw_factoryFind w (rs_log s) ''rialtosrc''
      in if src_factory = 0 then srcEffect (SxRegister ''rialtosrc'') s else srcEffect (SxUnref src_factory) s)"

definition createPayloader :: "SrcWorld \<Rightarrow> RialtoSrc \<Rightarrow> GstPtr \<times> RialtoSrc" where
  "createPayloader w s =
     (let s = (if rs_payFactory s = None then s\<lparr>rs_payFactory := Some (sw_factoryFind w (rs_log s) ''svppay'')\<rparr> else s);
          factory = the (rs_payFactory s)
      in if factory = 0 then (0, s) else (sw_factoryCreate w (rs_log s) factory, s))"

text \<open>An element is put at the end of the chain.\<close>

definition appendToChain :: "GstPtr \<Rightarrow> GstPtr \<Rightarrow> RialtoSrc \<Rightarrow> GstPtr \<times> RialtoSrc" where
  "appendToChain e src_elem s = (e, srcEffect (SxLink src_elem e) (srcEffect (SxSyncState e) (srcEffect (SxBinAdd e) s)))"

definition appendDecryptor :: "SrcWorld \<Rightarrow> GstPtr \<Rightarrow> RialtoSrc \<Rightarrow> GstPtr \<times> RialtoSrc" where
  "appendDecryptor w src_elem s =
     (let decryptor = sw_createDecryptor w (rs_log s)
      in if decryptor \<noteq> 0 then appendToChain decryptor src_elem s else (src_elem, s))"

definition appendPayloader :: "SrcWorld \<Rightarrow> MediaSourceType \<Rightarrow> GstPtr \<Rightarrow> RialtoSrc \<Rightarrow> GstPtr \<times> RialtoSrc" where
  "appendPayloader w type src_elem s =
     (if type = VIDEO then
        let (payloader, s) = createPayloader w s
        in if payloader \<noteq> 0
           then appendToChain payloader src_elem (if sw_isBaseTransform w payloader then srcEffect (SxSetInPlace payloader) s else s)
           else (src_elem, s)
      else (src_elem, s))"

definition appendQueue :: "SrcWorld \<Rightarrow> GstPtr \<Rightarrow> RialtoSrc \<Rightarrow> GstPtr \<times> RialtoSrc" where
  "appendQueue w src_elem s =
     (let queue = sw_makeQueue w (rs_log s)
      in if queue \<noteq> 0 then appendToChain queue src_elem (srcEffect (SxQueueProperties queue) s) else (src_elem, s))"

definition configureAppSrc :: "GstPtr \<Rightarrow> MediaSourceType \<Rightarrow> RialtoSrc \<Rightarrow> RialtoSrc" where
  "configureAppSrc appsrc type s =
     srcEffect (SxSeekable appsrc)
       (srcEffect (SxMaxBytes appsrc (if type = VIDEO then 8 * 1024 * 1024 else 512 * 1024))
         (srcEffect (SxCallbacks appsrc) (srcEffect (SxAppSrcProperties appsrc) s)))"

definition setupAndAddAppArc :: "SrcWorld \<Rightarrow> GstPtr \<Rightarrow> MediaSourceType \<Rightarrow> RialtoSrc \<Rightarrow> RialtoSrc" where
  "setupAndAddAppArc w appsrc type s =
     (let s = configureAppSrc appsrc type s;
          number = rs_appsrc_count s;
          s = srcEffect (SxBinAdd appsrc) (s\<lparr>rs_appsrc_count := number + 1\<rparr>);
          (src_elem, s) = appendDecryptor w appsrc s;
          (src_elem, s) = appendPayloader w type src_elem s;
          (src_elem, s) = appendQueue w src_elem s
      in srcEffect (SxSyncState appsrc)
           (srcEffect (SxAddPad number) (srcEffect (SxGhostPad number src_elem) (s\<lparr>rs_targets := rs_targets s @ [src_elem]\<rparr>))))"

definition allAppSrcsAdded :: "RialtoSrc \<Rightarrow> RialtoSrc" where
  "allAppSrcsAdded s = gstRialtoSrcDoAsyncDone (srcEffect SxNoMorePads s)"

section \<open>Runs\<close>

datatype SrcOp =
    SoChangeState GstStateChange | SoAllAdded | SoMessage "GstPtr option" | SoSetUri GstState "string option"
  | SoAddSource GstPtr MediaSourceType

fun srcOp :: "SrcWorld \<Rightarrow> SrcOp \<Rightarrow> RialtoSrc \<Rightarrow> RialtoSrc" where
  "srcOp w (SoChangeState t) s = snd (gstRialtoSrcChangeState w t s)"
| "srcOp w SoAllAdded s = allAppSrcsAdded s"
| "srcOp w (SoMessage m) s = gstRialtoSrcHandleMessage m s"
| "srcOp w (SoSetUri state uri) s = snd (gstRialtoSrcSetUri state uri s)"
| "srcOp w (SoAddSource appsrc type) s = setupAndAddAppArc w appsrc type s"

definition srcRun :: "SrcWorld \<Rightarrow> SrcOp list \<Rightarrow> RialtoSrc \<Rightarrow> RialtoSrc" where
  "srcRun w ops s = fold (srcOp w) ops s"

definition asyncsIn :: "SrcEffect list \<Rightarrow> SrcEffect list" where
  "asyncsIn fx = filter (\<lambda>e. e = SxAsyncStart \<or> e = SxAsyncDone) fx"

definition linksIn :: "SrcEffect list \<Rightarrow> (GstPtr \<times> GstPtr) list" where
  "linksIn fx = concat (map (\<lambda>e. case e of SxLink a b \<Rightarrow> [(a, b)] | _ \<Rightarrow> []) fx)"

lemma src_effect_fields [simp]:
  "rs_uri (srcEffect e s) = rs_uri s" "rs_appsrc_count (srcEffect e s) = rs_appsrc_count s"
  "rs_async_start (srcEffect e s) = rs_async_start s" "rs_async_done (srcEffect e s) = rs_async_done s"
  "rs_targets (srcEffect e s) = rs_targets s" "rs_eosPads (srcEffect e s) = rs_eosPads s"
  "rs_payFactory (srcEffect e s) = rs_payFactory s" "rs_log (srcEffect e s) = rs_log s @ [e]"
  by (simp_all add: srcEffect_def)

lemma asyncs_simps [simp]: "asyncsIn [] = []" "asyncsIn (fx @ fy) = asyncsIn fx @ asyncsIn fy"
  "asyncsIn (e # fx) = (if e = SxAsyncStart \<or> e = SxAsyncDone then [e] else []) @ asyncsIn fx"
  by (simp_all add: asyncsIn_def)

lemma links_simps [simp]: "linksIn [] = []" "linksIn (fx @ fy) = linksIn fx @ linksIn fy"
  "linksIn (e # fx) = (case e of SxLink a b \<Rightarrow> [(a, b)] | _ \<Rightarrow> []) @ linksIn fx"
  by (simp_all add: linksIn_def)

text \<open>What the parts of a chain leave alone.\<close>

definition chain_frame :: "RialtoSrc \<Rightarrow> RialtoSrc \<Rightarrow> bool" where
  "chain_frame s s' \<longleftrightarrow> rs_async_start s' = rs_async_start s \<and> rs_async_done s' = rs_async_done s \<and>
     asyncsIn (rs_log s') = asyncsIn (rs_log s) \<and> rs_eosPads s' = rs_eosPads s \<and> rs_appsrc_count s' = rs_appsrc_count s \<and>
     rs_targets s' = rs_targets s"

lemma createPayloader_frame: "chain_frame s (snd (createPayloader w s))"
  by (simp add: chain_frame_def createPayloader_def Let_def)

lemma chain_frames:
  "chain_frame s (configureAppSrc a t s)" "chain_frame s (snd (appendDecryptor w e s))" "chain_frame s (snd (appendQueue w e s))"
  by (simp_all add: chain_frame_def configureAppSrc_def appendDecryptor_def appendQueue_def appendToChain_def Let_def)

lemma appendPayloader_frame: "chain_frame s (snd (appendPayloader w t e s))"
  using createPayloader_frame [of s w] by (simp add: chain_frame_def appendPayloader_def appendToChain_def case_prod_beta)

lemmas all_chain_frames = chain_frames appendPayloader_frame

text \<open>Adding a stream changes neither the flags nor the messages, and one pad and one number are added.\<close>

lemma setup_frame:
  "rs_async_start (setupAndAddAppArc w a t s) = rs_async_start s" "rs_async_done (setupAndAddAppArc w a t s) = rs_async_done s"
  "asyncsIn (rs_log (setupAndAddAppArc w a t s)) = asyncsIn (rs_log s)"
  "rs_eosPads (setupAndAddAppArc w a t s) = rs_eosPads s" "rs_appsrc_count (setupAndAddAppArc w a t s) = rs_appsrc_count s + 1"
  using all_chain_frames by (simp_all add: setupAndAddAppArc_def chain_frame_def case_prod_beta Let_def)

text \<open>
  The elements of a stream are chained in this order: the \<open>appsrc\<close>, the decryptor, for video the payloader, and the queue, leaving
  out those that could not be created; the pad with the next number is that of the last one.
\<close>

theorem stream_chain:
  "\<exists>d p q. let chain = appsrc # filter (\<lambda>e. e \<noteq> 0) [d, if type = VIDEO then p else 0, q] in
    linksIn (rs_log (setupAndAddAppArc w appsrc type s)) = linksIn (rs_log s) @ zip chain (tl chain) \<and>
    rs_targets (setupAndAddAppArc w appsrc type s) = rs_targets s @ [last chain] \<and>
    SxGhostPad (rs_appsrc_count s) (last chain) \<in> set (rs_log (setupAndAddAppArc w appsrc type s))"
proof -
  define s1 where "s1 = srcEffect (SxBinAdd appsrc) ((configureAppSrc appsrc type s)\<lparr>rs_appsrc_count := rs_appsrc_count s + 1\<rparr>)"
  define d where "d = sw_createDecryptor w (rs_log s1)"
  obtain e2 s2 where s2: "appendDecryptor w appsrc s1 = (e2, s2)" by fastforce
  define p where "p = fst (createPayloader w s2)"
  obtain e3 s3 where s3: "appendPayloader w type e2 s2 = (e3, s3)" by fastforce
  define q where "q = sw_makeQueue w (rs_log s3)"
  obtain e4 s4 where s4: "appendQueue w e3 s3 = (e4, s4)" by fastforce
  have pay: "linksIn (rs_log (snd (createPayloader w s2))) = linksIn (rs_log s2)" "rs_targets (snd (createPayloader w s2)) = rs_targets s2"
    by (simp_all add: createPayloader_def Let_def)
  have l1: "linksIn (rs_log s1) = linksIn (rs_log s)" "rs_targets s1 = rs_targets s" by (simp_all add: s1_def configureAppSrc_def)
  have l2: "e2 = (if d \<noteq> 0 then d else appsrc)" "linksIn (rs_log s2) = linksIn (rs_log s1) @ (if d \<noteq> 0 then [(appsrc, d)] else [])"
    "rs_targets s2 = rs_targets s1"
    using s2 by (auto simp: appendDecryptor_def appendToChain_def d_def Let_def split: if_splits)
  have l3: "e3 = (if type = VIDEO \<and> p \<noteq> 0 then p else e2)" "rs_targets s3 = rs_targets s2"
    "linksIn (rs_log s3) = linksIn (rs_log s2) @ (if type = VIDEO \<and> p \<noteq> 0 then [(e2, p)] else [])"
    using s3 pay by (auto simp: appendPayloader_def appendToChain_def p_def case_prod_beta split: if_splits)
  have l4: "e4 = (if q \<noteq> 0 then q else e3)" "linksIn (rs_log s4) = linksIn (rs_log s3) @ (if q \<noteq> 0 then [(e3, q)] else [])"
    "rs_targets s4 = rs_targets s3"
    using s4 by (auto simp: appendQueue_def appendToChain_def q_def Let_def split: if_splits)
  have "setupAndAddAppArc w appsrc type s = srcEffect (SxSyncState appsrc) (srcEffect (SxAddPad (rs_appsrc_count s))
      (srcEffect (SxGhostPad (rs_appsrc_count s) e4) (s4\<lparr>rs_targets := rs_targets s4 @ [e4]\<rparr>)))"
    using s2 s3 s4 by (simp add: setupAndAddAppArc_def s1_def configureAppSrc_def Let_def)
  then show ?thesis by (intro exI [of _ d] exI [of _ p] exI [of _ q]) (simp add: l1 l2 l3 l4 Let_def)
qed

section \<open>Asynchronous state changes\<close>

definition async_inv :: "RialtoSrc \<Rightarrow> bool" where
  "async_inv s \<longleftrightarrow> (\<exists>n. asyncsIn (rs_log s) = replicate n SxAsyncStart @ (if rs_async_done s then [SxAsyncDone] else []) \<and>
     (rs_async_start s \<longleftrightarrow> 0 < n \<and> \<not> rs_async_done s))"

lemma async_start_inv:
  assumes "async_inv s"
  shows "async_inv (gstRialtoSrcDoAsyncStart s)"
proof (cases "rs_async_done s")
  case False
  obtain n where "asyncsIn (rs_log s) = replicate n SxAsyncStart" using assms False by (auto simp: async_inv_def)
  then have "asyncsIn (rs_log (gstRialtoSrcDoAsyncStart s)) = replicate (Suc n) SxAsyncStart"
    using False by (simp add: gstRialtoSrcDoAsyncStart_def replicate_append_same)
  then show ?thesis using False unfolding async_inv_def
    by (intro exI [of _ "Suc n"]) (simp add: gstRialtoSrcDoAsyncStart_def)
qed (use assms in \<open>simp add: gstRialtoSrcDoAsyncStart_def\<close>)

lemma async_done_inv: "async_inv s \<Longrightarrow> async_inv (gstRialtoSrcDoAsyncDone s)"
  by (auto simp: async_inv_def gstRialtoSrcDoAsyncDone_def)

lemma async_effect_inv: "async_inv (srcEffect e s) = async_inv s" if "e \<noteq> SxAsyncStart" "e \<noteq> SxAsyncDone"
  using that by (simp add: async_inv_def)

lemma src_op_async: "async_inv s \<Longrightarrow> async_inv (srcOp w op s)"
proof (cases op)
  case (SoChangeState t)
  assume "async_inv s"
  then have "async_inv (srcEffect (SxParentChangeState t) (if t = READY_TO_PAUSED then gstRialtoSrcDoAsyncStart s else s))"
    by (simp add: async_effect_inv async_start_inv)
  then show ?thesis using SoChangeState async_done_inv by (cases t) (simp_all add: gstRialtoSrcChangeState_def Let_def)
qed (auto simp: allAppSrcsAdded_def gstRialtoSrcHandleMessage_def handleEosMessage_def gstRialtoSrcSetUri_def async_inv_def
    setup_frame gstRialtoSrcDoAsyncDone_def Let_def split: option.split)

text \<open>
  Whatever happens to the element, the end of an asynchronous state change is announced at most once, only after a beginning was
  announced, and no beginning is announced after it.
\<close>

theorem async_done_once:
  "\<exists>n. asyncsIn (rs_log (srcRun w ops (gst_rialto_src_init f))) = replicate n SxAsyncStart @
    (if rs_async_done (srcRun w ops (gst_rialto_src_init f)) then [SxAsyncDone] else [])"
proof -
  have "async_inv s \<Longrightarrow> async_inv (srcRun w ops s)" for s
    unfolding srcRun_def by (induction ops arbitrary: s) (simp_all add: src_op_async)
  moreover have "async_inv (gst_rialto_src_init f)" by (simp add: async_inv_def gst_rialto_src_init_def)
  ultimately show ?thesis unfolding async_inv_def by blast
qed

section \<open>The end of the stream\<close>

definition eos_inv :: "GstPtr set \<Rightarrow> RialtoSrc \<Rightarrow> bool" where
  "eos_inv A s \<longleftrightarrow> set (rs_eosPads s) \<subseteq> A \<and> set (rs_targets s) \<inter> A = {} \<and> rs_appsrc_count s = of_nat (length (rs_targets s))"

lemma setup_target:
  assumes "\<And>fx. sw_makeQueue w fx \<noteq> 0 \<and> sw_makeQueue w fx \<notin> A"
  shows "\<exists>t. rs_targets (setupAndAddAppArc w a type s) = rs_targets s @ [t] \<and> t \<notin> A"
proof -
  have "fst (appendQueue w e s) \<notin> A" for e s using assms by (simp add: appendQueue_def appendToChain_def Let_def)
  then show ?thesis using all_chain_frames by (simp add: setupAndAddAppArc_def chain_frame_def case_prod_beta Let_def)
qed

lemma async_frame [simp]:
  "rs_eosPads (gstRialtoSrcDoAsyncStart s) = rs_eosPads s" "rs_targets (gstRialtoSrcDoAsyncStart s) = rs_targets s"
  "rs_appsrc_count (gstRialtoSrcDoAsyncStart s) = rs_appsrc_count s"
  "rs_eosPads (gstRialtoSrcDoAsyncDone s) = rs_eosPads s" "rs_targets (gstRialtoSrcDoAsyncDone s) = rs_targets s"
  "rs_appsrc_count (gstRialtoSrcDoAsyncDone s) = rs_appsrc_count s"
  by (simp_all add: gstRialtoSrcDoAsyncStart_def gstRialtoSrcDoAsyncDone_def)

fun eos_source :: "GstPtr set \<Rightarrow> SrcOp \<Rightarrow> bool" where
  "eos_source A (SoMessage (Some src)) \<longleftrightarrow> src \<in> A"
| "eos_source A _ \<longleftrightarrow> True"

lemma src_op_eos:
  assumes "eos_inv A s" and "eos_source A op" and "\<And>fx. sw_makeQueue w fx \<noteq> 0 \<and> sw_makeQueue w fx \<notin> A"
  shows "eos_inv A (srcOp w op s)"
proof (cases op)
  case (SoChangeState t)
  then show ?thesis using assms(1) by (cases t) (simp_all add: eos_inv_def gstRialtoSrcChangeState_def Let_def)
next
  case (SoMessage m)
  then show ?thesis using assms(1,2)
    by (cases m) (auto simp: eos_inv_def gstRialtoSrcHandleMessage_def handleEosMessage_def Let_def)
next
  case (SoAddSource a t)
  then show ?thesis using assms(1) setup_target [OF assms(3), of a t s] by (auto simp: eos_inv_def setup_frame)
qed (use assms(1) in \<open>simp_all add: eos_inv_def allAppSrcsAdded_def gstRialtoSrcSetUri_def\<close>)

text \<open>
  The mark of a stream that has ended is put on the pad of the element that reports it, and looked for on the pad of the queue at
  the end of its chain: as long as queues can be created and only other elements report an end, the element never sends the end
  of the stream.
\<close>

theorem end_of_stream_never_sent:
  assumes "\<And>fx. sw_makeQueue w fx \<noteq> 0 \<and> sw_makeQueue w fx \<notin> A" and "\<forall>op \<in> set ops. eos_source A op" and "src \<in> A"
    and "rs_appsrc_count (srcRun w ops (gst_rialto_src_init f)) \<noteq> 0"
  shows "rs_log (gstRialtoSrcHandleMessage (Some src) (srcRun w ops (gst_rialto_src_init f))) =
    rs_log (srcRun w ops (gst_rialto_src_init f))"
proof -
  let ?s = "srcRun w ops (gst_rialto_src_init f)"
  have "eos_inv A s \<Longrightarrow> eos_inv A (srcRun w ops s)" for s
    unfolding srcRun_def using assms(2)
  proof (induction ops arbitrary: s)
    case (Cons op ops)
    then show ?case using src_op_eos [of A s op w] assms(1) by simp
  qed simp
  moreover have "eos_inv A (gst_rialto_src_init f)" by (simp add: eos_inv_def gst_rialto_src_init_def)
  ultimately have inv: "eos_inv A ?s" by blast
  then obtain t ts where t: "rs_targets ?s = t # ts" using assms(4) by (cases "rs_targets ?s") (auto simp: eos_inv_def)
  then have "t \<in> set (take (unat (rs_appsrc_count ?s)) (rs_targets ?s))"
    using assms(4) by (cases "unat (rs_appsrc_count ?s)") (auto simp: unat_eq_zero)
  moreover have "t \<notin> set (src # rs_eosPads ?s)" using inv t assms(3) by (auto simp: eos_inv_def)
  ultimately have "\<not> list_all (\<lambda>t. t \<in> set (src # rs_eosPads ?s)) (take (unat (rs_appsrc_count ?s)) (rs_targets ?s))"
    unfolding list_all_iff by blast
  then show ?thesis by (simp add: gstRialtoSrcHandleMessage_def handleEosMessage_def Let_def)
qed

end
