(* ===== verification/Control_Ipc.thy ===== *)
theory Control_Ipc
  imports Playback_Service Gst_Tasks
begin

text \<open>
  The connection of a client process (\<open>media/client/ipc/source/RialtoControlIpc.cpp\<close>), which all its remote ends share, and the
  service behind its one call (\<open>media/server/ipc/source/RialtoControlModuleService.cpp\<close>).
\<close>

section \<open>Reading a number\<close>

text \<open>\<open>strtol\<close> in base ten: the value, the rest of the string, and whether the value was out of range.\<close>

definition isSpaceChar :: "char \<Rightarrow> bool" where
  "isSpaceChar ch \<longleftrightarrow> of_char ch = (32 :: nat) \<or> 9 \<le> (of_char ch :: nat) \<and> (of_char ch :: nat) \<le> 13"

definition isDigitChar :: "char \<Rightarrow> bool" where
  "isDigitChar ch \<longleftrightarrow> 48 \<le> (of_char ch :: nat) \<and> (of_char ch :: nat) \<le> 57"

fun readDigits :: "nat \<Rightarrow> string \<Rightarrow> nat \<times> string" where
  "readDigits acc [] = (acc, [])"
| "readDigits acc (ch # cs) = (if isDigitChar ch then readDigits (10 * acc + (of_char ch - 48)) cs else (acc, ch # cs))"

definition clipLong :: "int \<Rightarrow> int \<times> bool" where
  "clipLong n = (if n < - (2 ^ 63) then (- (2 ^ 63), True) else if 2 ^ 63 \<le> n then (2 ^ 63 - 1, True) else (n, False))"

definition strtol :: "string \<Rightarrow> int \<times> string \<times> bool" where
  "strtol str =
     (let body = dropWhile isSpaceChar str;
          negative = (body \<noteq> [] \<and> hd body = CHR ''-'');
          digits = (if body \<noteq> [] \<and> (hd body = CHR ''-'' \<or> hd body = CHR ''+'') then tl body else body)
      in if digits = [] \<or> \<not> isDigitChar (hd digits) then (0, str, False)
         else
           let (n, rest) = readDigits 0 digits; (value, erange) = clipLong (if negative then - int n else int n)
           in (value, rest, erange))"

section \<open>The connection\<close>

datatype ChannelTarget = ChannelFd int | ChannelPath string

text \<open>
  \<open>ce_errno\<close> is the error number some earlier call left behind; \<open>ce_createChannel\<close> says whether a channel can be opened,
  \<open>ce_joinable\<close> whether the thread runs.
\<close>

record ControlEnv =
  ce_socketPath :: "string option"
  ce_socketFd :: "string option"
  ce_errno :: int
  ce_createChannel :: "ChannelTarget \<Rightarrow> bool"
  ce_joinable :: bool

record RialtoControlIpc =
  rc_ipcChannel :: "ChannelTarget option"
  rc_ipcThread :: bool
  rc_rialtoControlStub :: bool

definition openChannel :: "ControlEnv \<Rightarrow> ChannelTarget \<Rightarrow> RialtoControlIpc \<Rightarrow> bool \<times> RialtoControlIpc" where
  "openChannel env target c =
     (if \<not> ce_createChannel env target then (False, c)
      else
        let c = c\<lparr>rc_ipcChannel := Some target\<rparr>
        in if \<not> ce_joinable env then (False, c) else (True, c\<lparr>rc_ipcThread := True, rc_rialtoControlStub := True\<rparr>))"

definition controlConnect :: "ControlEnv \<Rightarrow> RialtoControlIpc \<Rightarrow> bool \<times> RialtoControlIpc" where
  "controlConnect env c =
     (if rc_ipcChannel c \<noteq> None then (True, c)
      else case ce_socketFd env of
          Some rialtoFd \<Rightarrow>
            let (value, rest, erange) = strtol rialtoFd
            in if ce_errno env \<noteq> 0 \<or> erange \<or> rest = rialtoFd \<or> rest \<noteq> [] then (False, c)
               else openChannel env (ChannelFd (sint (word_of_int value :: 32 word))) c
        | None \<Rightarrow>
            (case ce_socketPath env of
               Some rialtoPath \<Rightarrow> openChannel env (ChannelPath rialtoPath) c
             | None \<Rightarrow> (False, c)))"

text \<open>The thread ends when the channel is disconnected, and is joined.\<close>

definition controlDisconnect :: "RialtoControlIpc \<Rightarrow> bool \<times> RialtoControlIpc" where
  "controlDisconnect c =
     (if rc_ipcChannel c = None then (True, c)
      else (True, c\<lparr>rc_rialtoControlStub := False, rc_ipcThread := False, rc_ipcChannel := None\<rparr>))"

definition newRialtoControlIpc :: "ControlEnv \<Rightarrow> RialtoControlIpc option" where
  "newRialtoControlIpc env =
     (let (ok, c) = controlConnect env \<lparr>rc_ipcChannel = None, rc_ipcThread = False, rc_rialtoControlStub = False\<rparr>
      in if ok then Some c else None)"

text \<open>The factory hands out the one object as long as someone holds it.\<close>

definition getRialtoControlIpc :: "ControlEnv \<Rightarrow> RialtoControlIpc option \<Rightarrow> RialtoControlIpc option" where
  "getRialtoControlIpc env held = (case held of Some c \<Rightarrow> Some c | None \<Rightarrow> newRialtoControlIpc env)"

datatype BlockingClosure = ClosurePoll ChannelTarget | ClosureSemaphore

definition createBlockingClosure :: "bool \<Rightarrow> RialtoControlIpc \<Rightarrow> BlockingClosure option" where
  "createBlockingClosure onIpcThread c =
     (case rc_ipcChannel c of
        None \<Rightarrow> None
      | Some ch \<Rightarrow> Some (if onIpcThread then ClosurePoll ch else ClosureSemaphore))"

section \<open>The shared memory\<close>

text \<open>The server's handler; \<open>None\<close> is a controller that has failed. The descriptor the client gets is a copy of the server's.\<close>

definition serveSharedMemory :: "('p, 'w) PlaybackService \<Rightarrow> (int \<times> u32) option" where
  "serveSharedMemory s = getSharedMemory s"

definition controlGetSharedMemory :: "('p, 'w) PlaybackService \<Rightarrow> RialtoControlIpc \<Rightarrow> (int \<times> u32) option" where
  "controlGetSharedMemory s c =
     (if rc_ipcChannel c = None \<or> \<not> rc_rialtoControlStub c then None else serveSharedMemory s)"

section \<open>Properties\<close>

lemma digit_char: "d < 10 \<Longrightarrow> isDigitChar (char_of (48 + d)) \<and> of_char (char_of (48 + d) :: char) = (48 + d :: nat)"
  by (simp add: isDigitChar_def of_char_of)

lemma toDecimal_small: "n < 10 \<Longrightarrow> toDecimal n = [char_of (48 + n)]"
  by (simp add: toDecimal.simps [of n])

lemma toDecimal_step: "\<not> n < 10 \<Longrightarrow> toDecimal n = toDecimal (n div 10) @ [char_of (48 + n mod 10)]"
  by (simp add: toDecimal.simps [of n])

lemma readDigits_append: "\<forall>ch \<in> set ds. isDigitChar ch \<Longrightarrow> readDigits acc (ds @ cs) = readDigits (fst (readDigits acc ds)) cs"
  by (induction ds arbitrary: acc) auto

lemma toDecimal_digits: "\<forall>ch \<in> set (toDecimal n). isDigitChar ch"
proof (induction n rule: toDecimal.induct)
  case (1 n)
  then show ?case using digit_char by (cases "n < 10") (auto simp: toDecimal_small toDecimal_step [of n])
qed

text \<open>A number that was written is read again.\<close>

lemma readDigits_toDecimal: "readDigits 0 (toDecimal n) = (n, [])"
proof (induction n rule: toDecimal.induct)
  case (1 n)
  show ?case
  proof (cases "n < 10")
    case True
    then show ?thesis using digit_char [OF True] by (simp add: toDecimal_small)
  next
    case False
    have "n mod 10 < 10" by simp
    then show ?thesis using 1 [OF False] False digit_char [of "n mod 10"] toDecimal_digits [of "n div 10"]
      by (simp add: toDecimal_step [of n] readDigits_append)
  qed
qed

lemma toDecimal_nonempty: "toDecimal n \<noteq> []"
  by (cases "n < 10") (simp_all add: toDecimal_small toDecimal_step)

lemma toDecimal_head: "isDigitChar (hd (toDecimal n)) \<and> \<not> isSpaceChar (hd (toDecimal n)) \<and>
    hd (toDecimal n) \<noteq> CHR ''-'' \<and> hd (toDecimal n) \<noteq> CHR ''+''"
proof -
  have "isDigitChar (hd (toDecimal n))" using toDecimal_digits [of n] toDecimal_nonempty [of n] by simp
  then show ?thesis by (auto simp: isDigitChar_def isSpaceChar_def)
qed

theorem strtol_reads_decimal: "n < 2 ^ 63 \<Longrightarrow> strtol (toDecimal n) = (int n, [], False)"
proof -
  assume "n < 2 ^ 63"
  then have small: "int n < 2 ^ 63" by (simp add: of_nat_less_numeral_power_cancel_iff)
  have "dropWhile isSpaceChar (toDecimal n) = toDecimal n"
    using toDecimal_head [of n] toDecimal_nonempty [of n] by (cases "toDecimal n") auto
  then show ?thesis using toDecimal_head [of n] toDecimal_nonempty [of n] small
    by (simp add: strtol_def readDigits_toDecimal clipLong_def Let_def)
qed

text \<open>
  A client that is given the number of a connected socket connects to it if and only if the error number of the process is zero:
  \<open>connect\<close> does not clear it before it reads the number, so an earlier failure of any other call makes it refuse.
\<close>

theorem socket_fd_connects:
  assumes "rc_ipcChannel c = None" and "ce_socketFd env = Some (toDecimal n)" and "n < 2 ^ 31"
    and "ce_createChannel env (ChannelFd (int n))" and "ce_joinable env"
  shows "controlConnect env c =
    (if ce_errno env = 0
     then (True, c\<lparr>rc_ipcChannel := Some (ChannelFd (int n)), rc_ipcThread := True, rc_rialtoControlStub := True\<rparr>)
     else (False, c))"
proof -
  have "sint (word_of_int k :: 32 word) = k" if "0 \<le> k" "k < 2 ^ 31" for k
    using that by (simp add: sint_sbintrunc' signed_take_bit_int_eq_self)
  from this [of "int n"] have "sint (word_of_int (int n) :: 32 word) = int n" using assms(3) by simp
  moreover have "strtol (toDecimal n) = (int n, [], False)" using assms(3) by (simp add: strtol_reads_decimal)
  ultimately show ?thesis using assms toDecimal_nonempty [of n] by (simp add: controlConnect_def openChannel_def)
qed

text \<open>A client that was constructed gets exactly what the playback service has; after it disconnected it gets nothing.\<close>

theorem shared_memory_reaches_client:
  assumes "newRialtoControlIpc env = Some c"
  shows "controlGetSharedMemory s c = getSharedMemory s" "controlGetSharedMemory s (snd (controlDisconnect c)) = None"
  using assms by (auto simp: newRialtoControlIpc_def controlConnect_def openChannel_def controlGetSharedMemory_def
      serveSharedMemory_def controlDisconnect_def Let_def case_prod_beta split: if_splits option.splits)

end
