(* ===== verification/Gst_Capabilities.thy ===== *)
theory Gst_Capabilities
  imports Media_Common
begin

text \<open>
  The media types a session server supports (\<open>media/server/gstplayer/source/GstCapabilities.cpp\<close>): those of the sink pads of
  the decoders, and those of the sink pads of the parsers that can feed a decoder. Caps and the comparisons of caps are
  GStreamer's; the model is told what they answer.
\<close>

section \<open>Data\<close>

datatype PadDirection = PAD_UNKNOWN | PAD_SRC | PAD_SINK

text \<open>An element factory, as its static pad templates.\<close>

type_synonym 'c ElementFactory = "(PadDirection \<times> 'c) list"

record 'c CapsOperations =
  co_isStrictlyEqual :: "'c \<Rightarrow> 'c \<Rightarrow> bool"
  co_canIntersect :: "'c \<Rightarrow> 'c \<Rightarrow> bool"
  co_isSubset :: "'c \<Rightarrow> 'c \<Rightarrow> bool"
  co_fromString :: "string \<Rightarrow> 'c"

section \<open>Supported caps\<close>

definition isCapsInVector :: "'c CapsOperations \<Rightarrow> 'c list \<Rightarrow> 'c \<Rightarrow> bool" where
  "isCapsInVector ops capsVector caps = list_ex (\<lambda>compared. co_isStrictlyEqual ops caps compared) capsVector"

definition addUniqueSinkPad :: "'c CapsOperations \<Rightarrow> PadDirection \<times> 'c \<Rightarrow> 'c list \<Rightarrow> 'c list" where
  "addUniqueSinkPad ops pad capsVector =
     (if fst pad = PAD_SINK \<and> \<not> isCapsInVector ops capsVector (snd pad) then capsVector @ [snd pad] else capsVector)"

definition addAllUniqueSinkPadsCapsToVector :: "'c CapsOperations \<Rightarrow> 'c ElementFactory \<Rightarrow> 'c list \<Rightarrow> 'c list" where
  "addAllUniqueSinkPadsCapsToVector ops padTemplates capsVector = fold (addUniqueSinkPad ops) padTemplates capsVector"

definition getSupportedCapsFromDecoders :: "'c CapsOperations \<Rightarrow> 'c ElementFactory list \<Rightarrow> 'c list" where
  "getSupportedCapsFromDecoders ops decoders = fold (addAllUniqueSinkPadsCapsToVector ops) decoders []"

definition canCreateParserDecoderChain :: "'c CapsOperations \<Rightarrow> 'c \<Rightarrow> 'c ElementFactory \<Rightarrow> bool" where
  "canCreateParserDecoderChain ops decoderCaps parserPadTemplates =
     list_ex (\<lambda>(direction, caps). direction = PAD_SRC \<and> co_canIntersect ops decoderCaps caps) parserPadTemplates"

definition appendParserChain :: "'c CapsOperations \<Rightarrow> 'c \<Rightarrow> 'c ElementFactory \<Rightarrow> 'c list \<Rightarrow> 'c list" where
  "appendParserChain ops decoderCaps parser supportedCaps =
     (if canCreateParserDecoderChain ops decoderCaps parser
      then addAllUniqueSinkPadsCapsToVector ops parser supportedCaps else supportedCaps)"

definition appendSupportedCapsFromParserDecoderChains :: "'c CapsOperations \<Rightarrow> 'c ElementFactory list \<Rightarrow> 'c list \<Rightarrow> 'c list" where
  "appendSupportedCapsFromParserDecoderChains ops parsers supportedCaps =
     (if supportedCaps = [] then supportedCaps
      else fold (\<lambda>decoderCaps. fold (appendParserChain ops decoderCaps) parsers) supportedCaps supportedCaps)"

section \<open>Mime types\<close>

definition capsToMimeVec :: "(string \<times> string list) list" where
  "capsToMimeVec =
     [(''audio/mpeg, mpegversion=(int)4'', [''audio/mp4'', ''audio/aac'', ''audio/x-eac3'']),
      (''audio/x-eac3'', [''audio/x-eac3'']), (''audio/x-opus'', [''audio/x-opus'']), (''video/x-av1'', [''video/x-av1'']),
      (''video/x-h264'', [''video/h264'']), (''video/x-h265'', [''video/h265'']), (''video/x-vp9'', [''video/x-vp9''])]"

definition convertFromCapsVectorToMimeSet :: "'c CapsOperations \<Rightarrow> 'c list \<Rightarrow> string set" where
  "convertFromCapsVectorToMimeSet ops supportedCaps =
     set (concat (map (\<lambda>caps. concat (map (\<lambda>(text, mimes). if co_isSubset ops (co_fromString ops text) caps then mimes else [])
       capsToMimeVec)) supportedCaps))"

definition fillSupportedMimeTypes :: "'c CapsOperations \<Rightarrow> 'c ElementFactory list \<Rightarrow> 'c ElementFactory list \<Rightarrow> string set" where
  "fillSupportedMimeTypes ops decoders parsers =
     (let supportedCaps = appendSupportedCapsFromParserDecoderChains ops parsers (getSupportedCapsFromDecoders ops decoders)
      in if supportedCaps = [] then {} else convertFromCapsVectorToMimeSet ops supportedCaps)"

definition isMimeTypeSupported :: "string \<Rightarrow> string set \<Rightarrow> bool" where
  "isMimeTypeSupported mimeType supported \<longleftrightarrow> mimeType \<in> supported"

text \<open>The order of the result is that of a hash set.\<close>

definition getSupportedMimeTypes :: "MediaSourceType \<Rightarrow> string set \<Rightarrow> string set" where
  "getSupportedMimeTypes sourceType supported =
     (case sourceType of
        VIDEO \<Rightarrow> Set.filter (\<lambda>m. take 6 m = ''video/'') supported
      | AUDIO \<Rightarrow> Set.filter (\<lambda>m. take 6 m = ''audio/'') supported
      | MST_UNKNOWN \<Rightarrow> {})"

section \<open>What is reported\<close>

text \<open>Comparisons do not tell strictly equal caps apart.\<close>

definition keepsStrictEquality :: "'c CapsOperations \<Rightarrow> ('c \<Rightarrow> bool) \<Rightarrow> bool" where
  "keepsStrictEquality ops P \<longleftrightarrow> (\<forall>c d. co_isStrictlyEqual ops c d \<longrightarrow> P c = P d)"

definition playable :: "'c CapsOperations \<Rightarrow> 'c ElementFactory list \<Rightarrow> 'c ElementFactory list \<Rightarrow> 'c set" where
  "playable ops decoders parsers =
     {c. \<exists>d \<in> set decoders. (PAD_SINK, c) \<in> set d} \<union>
     {c. \<exists>p \<in> set parsers. (PAD_SINK, c) \<in> set p \<and>
        (\<exists>d \<in> set decoders. \<exists>e. (PAD_SINK, e) \<in> set d \<and> (\<exists>x. (PAD_SRC, x) \<in> set p \<and> co_canIntersect ops e x))}"

lemma unique_ex:
  assumes "keepsStrictEquality ops P"
  shows "(\<exists>c \<in> set (addAllUniqueSinkPadsCapsToVector ops pads v). P c) \<longleftrightarrow> (\<exists>c \<in> set v. P c) \<or> (\<exists>c. (PAD_SINK, c) \<in> set pads \<and> P c)"
  unfolding addAllUniqueSinkPadsCapsToVector_def
proof (induction pads arbitrary: v)
  case (Cons pad pads)
  have "(\<exists>c \<in> set (addUniqueSinkPad ops pad v). P c) \<longleftrightarrow> (\<exists>c \<in> set v. P c) \<or> (fst pad = PAD_SINK \<and> P (snd pad))"
    using assms by (auto simp: addUniqueSinkPad_def isCapsInVector_def list_ex_iff keepsStrictEquality_def)
  then show ?case using Cons [of "addUniqueSinkPad ops pad v"] by (cases pad) auto
qed simp

lemma unique_all_ex:
  assumes "keepsStrictEquality ops P"
  shows "(\<exists>c \<in> set (fold (addAllUniqueSinkPadsCapsToVector ops) ds v). P c) \<longleftrightarrow>
    (\<exists>c \<in> set v. P c) \<or> (\<exists>d \<in> set ds. \<exists>c. (PAD_SINK, c) \<in> set d \<and> P c)"
  using unique_ex [OF assms] by (induction ds arbitrary: v) auto

lemma chains_ex:
  assumes "keepsStrictEquality ops P"
  shows "(\<exists>c \<in> set (fold (appendParserChain ops e) ps v). P c) \<longleftrightarrow>
    (\<exists>c \<in> set v. P c) \<or> (\<exists>p \<in> set ps. canCreateParserDecoderChain ops e p \<and> (\<exists>c. (PAD_SINK, c) \<in> set p \<and> P c))"
  using unique_ex [OF assms] by (induction ps arbitrary: v) (auto simp: appendParserChain_def)

lemma all_chains_ex:
  assumes "keepsStrictEquality ops P"
  shows "(\<exists>c \<in> set (fold (\<lambda>e. fold (appendParserChain ops e) ps) es v). P c) \<longleftrightarrow> (\<exists>c \<in> set v. P c) \<or>
    (\<exists>e \<in> set es. \<exists>p \<in> set ps. canCreateParserDecoderChain ops e p \<and> (\<exists>c. (PAD_SINK, c) \<in> set p \<and> P c))"
  using chains_ex [OF assms] by (induction es arbitrary: v) auto

lemma supported_ex:
  assumes "keepsStrictEquality ops P" and "\<And>x. keepsStrictEquality ops (\<lambda>e. co_canIntersect ops e x)"
  shows "(\<exists>c \<in> set (appendSupportedCapsFromParserDecoderChains ops parsers (getSupportedCapsFromDecoders ops decoders)). P c) \<longleftrightarrow>
    (\<exists>c \<in> playable ops decoders parsers. P c)"
proof -
  let ?Q = "\<lambda>e. \<exists>p \<in> set parsers. canCreateParserDecoderChain ops e p \<and> (\<exists>c. (PAD_SINK, c) \<in> set p \<and> P c)"
  have "keepsStrictEquality ops ?Q" using assms(2)
    by (simp add: keepsStrictEquality_def canCreateParserDecoderChain_def list_ex_iff case_prod_beta)
  then have decoders: "(\<exists>e \<in> set (getSupportedCapsFromDecoders ops decoders). ?Q e) \<longleftrightarrow>
      (\<exists>d \<in> set decoders. \<exists>e. (PAD_SINK, e) \<in> set d \<and> ?Q e)"
    by (simp add: getSupportedCapsFromDecoders_def unique_all_ex)
  have "(\<exists>c \<in> set (appendSupportedCapsFromParserDecoderChains ops parsers (getSupportedCapsFromDecoders ops decoders)). P c) \<longleftrightarrow>
      (\<exists>d \<in> set decoders. \<exists>c. (PAD_SINK, c) \<in> set d \<and> P c) \<or> (\<exists>e \<in> set (getSupportedCapsFromDecoders ops decoders). ?Q e)"
    using unique_all_ex [OF assms(1), of decoders "[]"] all_chains_ex [OF assms(1), of parsers]
    by (auto simp: appendSupportedCapsFromParserDecoderChains_def getSupportedCapsFromDecoders_def)
  then show ?thesis unfolding decoders
    by (auto simp: playable_def canCreateParserDecoderChain_def list_ex_iff; blast)
qed

text \<open>A mime type is reported as supported if and only if the table gives it for caps that are contained in the caps of the sink
  pad of a decoder, or of a parser one of whose source pads fits a decoder; leaving out caps that are strictly equal to others
  loses nothing.\<close>

theorem mime_supported:
  assumes "\<And>x. keepsStrictEquality ops (\<lambda>c. co_canIntersect ops c x)" and "\<And>x. keepsStrictEquality ops (\<lambda>c. co_isSubset ops x c)"
  shows "isMimeTypeSupported mime (fillSupportedMimeTypes ops decoders parsers) \<longleftrightarrow>
    (\<exists>(text, mimes) \<in> set capsToMimeVec. mime \<in> set mimes \<and>
      (\<exists>c \<in> playable ops decoders parsers. co_isSubset ops (co_fromString ops text) c))"
proof -
  let ?v = "appendSupportedCapsFromParserDecoderChains ops parsers (getSupportedCapsFromDecoders ops decoders)"
  have "isMimeTypeSupported mime (fillSupportedMimeTypes ops decoders parsers) \<longleftrightarrow>
      (\<exists>(text, mimes) \<in> set capsToMimeVec. mime \<in> set mimes \<and> (\<exists>c \<in> set ?v. co_isSubset ops (co_fromString ops text) c))"
    by (cases "?v = []")
      (fastforce simp: isMimeTypeSupported_def fillSupportedMimeTypes_def convertFromCapsVectorToMimeSet_def Let_def split: if_splits)+
  then show ?thesis using supported_ex [OF assms(2) assms(1)] by simp
qed

text \<open>An example: caps are lists of media types.\<close>

definition demo_caps :: "string list CapsOperations" where
  "demo_caps = \<lparr>co_isStrictlyEqual = (=), co_canIntersect = (\<lambda>c d. list_ex (\<lambda>x. x \<in> set d) c),
     co_isSubset = (\<lambda>c d. list_all (\<lambda>x. x \<in> set d) c), co_fromString = (\<lambda>s. [s])\<rparr>"

end
