(* ===== verification/Ocdm_Wrapper.thy ===== *)
theory Ocdm_Wrapper
  imports Media_Keys
begin

text \<open>
  The wrappers of OpenCDM (\<open>media/server/wrappers/source\<close>: \<open>OcdmSession.cpp\<close>, \<open>OcdmSystem.cpp\<close>, \<open>Ocdm.cpp\<close>,
  \<open>OcdmCommon.cpp\<close>), through which the media keys call the library. The model records the calls of the library with the
  handles they are given and is told what the library answers.
\<close>

section \<open>Data\<close>

type_synonym CdmHandle = nat

text \<open>The error codes of the library that the wrappers know; \<open>ERROR_OTHER\<close> is any other number.\<close>

datatype OpenCDMError =
    ERROR_NONE | ERROR_UNKNOWN | ERROR_MORE_DATA_AVAILBALE | ERROR_INVALID_ACCESSOR | ERROR_KEYSYSTEM_NOT_SUPPORTED
  | ERROR_INVALID_SESSION | ERROR_INVALID_DECRYPT_BUFFER | ERROR_OUT_OF_MEMORY | ERROR_FAIL | ERROR_INVALID_ARG
  | ERROR_SERVER_INTERNAL_ERROR | ERROR_SERVER_INVALID_MESSAGE | ERROR_SERVER_SERVICE_SPECIFIC | ERROR_OTHER u32

datatype OpenCDMKeyStatus =
    CdmUsable | CdmExpired | CdmReleased | CdmOutputRestricted | CdmOutputRestrictedHDCP22 | CdmOutputDownscaled
  | CdmStatusPending | CdmInternalError | CdmHWError

datatype LicenseType = LicenseTemporary | LicensePersistent

datatype OpenCdmCall =
    CdmConstructSession LicenseType string "u8 list" | CdmGetChallengeData "u32 option" u32 | CdmStoreLicenseData "u8 list"
  | CdmLoad | CdmUpdate "u8 list" | CdmDecrypt u32 u32 | CdmRemove | CdmClose | CdmCancelChallengeData
  | CdmCleanDecryptContext | CdmDestructSession | CdmSessionStatus "u8 list" | CdmSessionId | CdmSelectKeyId u8 "u8 list"
  | CdmHasKeyId u8 "u8 list" | CdmSetDrmHeader "u8 list" | CdmSystemError
  | CdmGetVersion | CdmGetLdlSessionLimit | CdmDeleteKeyStore | CdmDeleteSecureStore | CdmGetKeyStoreHash u32
  | CdmGetSecureStoreHash u32 | CdmGetDrmTime | CdmDestructSystem

record OpenCdmReply =
  oc_error :: OpenCDMError
  oc_handle :: CdmHandle
  oc_bytes :: "u8 list"
  oc_text :: string
  oc_value :: u64
  oc_keyStatus :: OpenCDMKeyStatus

type_synonym CdmUse = "CdmHandle \<times> OpenCdmCall"

text \<open>The library: what a call answers after the calls before it, the number of an error code, the systems and types it knows.\<close>

record OpenCdm =
  cdm_reply :: "CdmUse list \<Rightarrow> CdmUse \<Rightarrow> OpenCdmReply"
  cdm_errorNumber :: "OpenCDMError \<Rightarrow> u32"
  cdm_createSystem :: "string \<Rightarrow> CdmHandle"
  cdm_isTypeSupported :: "string \<Rightarrow> OpenCDMError"

record OcdmSession =
  oh_systemHandle :: CdmHandle
  oh_client :: bool
  oh_session :: CdmHandle
  oh_uses :: "CdmUse list"

section \<open>Conversions\<close>

fun openCdmErrorToString :: "OpenCDMError \<Rightarrow> string" where
  "openCdmErrorToString ERROR_NONE = ''ERROR_NONE''"
| "openCdmErrorToString ERROR_UNKNOWN = ''ERROR_UNKNOWN''"
| "openCdmErrorToString ERROR_MORE_DATA_AVAILBALE = ''ERROR_MORE_DATA_AVAILBALE''"
| "openCdmErrorToString ERROR_INVALID_ACCESSOR = ''ERROR_INVALID_ACCESSOR''"
| "openCdmErrorToString ERROR_KEYSYSTEM_NOT_SUPPORTED = ''ERROR_KEYSYSTEM_NOT_SUPPORTED''"
| "openCdmErrorToString ERROR_INVALID_SESSION = ''ERROR_INVALID_SESSION''"
| "openCdmErrorToString ERROR_INVALID_DECRYPT_BUFFER = ''ERROR_INVALID_DECRYPT_BUFFER''"
| "openCdmErrorToString ERROR_OUT_OF_MEMORY = ''ERROR_OUT_OF_MEMORY''"
| "openCdmErrorToString ERROR_FAIL = ''ERROR_FAIL''"
| "openCdmErrorToString ERROR_INVALID_ARG = ''ERROR_INVALID_ARG''"
| "openCdmErrorToString ERROR_SERVER_INTERNAL_ERROR = ''ERROR_SERVER_INTERNAL_ERROR''"
| "openCdmErrorToString ERROR_SERVER_INVALID_MESSAGE = ''ERROR_SERVER_INVALID_MESSAGE''"
| "openCdmErrorToString ERROR_SERVER_SERVICE_SPECIFIC = ''ERROR_SERVER_SERVICE_SPECIFIC''"
| "openCdmErrorToString (ERROR_OTHER _) = ''UNKNOWN''"

fun convertOpenCdmError :: "OpenCDMError \<Rightarrow> MediaKeyErrorStatus" where
  "convertOpenCdmError ERROR_NONE = MKE_OK"
| "convertOpenCdmError ERROR_INVALID_SESSION = MKE_BAD_SESSION_ID"
| "convertOpenCdmError ERROR_KEYSYSTEM_NOT_SUPPORTED = MKE_NOT_SUPPORTED"
| "convertOpenCdmError _ = MKE_FAIL"

fun convertLicenseType :: "KeySessionType \<Rightarrow> LicenseType" where
  "convertLicenseType KST_PERSISTENT_LICENCE = LicensePersistent"
| "convertLicenseType _ = LicenseTemporary"

fun convertCdmInitDataType :: "InitDataType \<Rightarrow> string" where
  "convertCdmInitDataType IDT_CENC = ''cenc''"
| "convertCdmInitDataType IDT_KEY_IDS = ''keyids''"
| "convertCdmInitDataType IDT_WEBM = ''webm''"
| "convertCdmInitDataType IDT_DRMHEADER = ''drmheader''"
| "convertCdmInitDataType IDT_UNKNOWN = ''unknown''"

fun convertCdmKeyStatus :: "OpenCDMKeyStatus \<Rightarrow> KeyStatus" where
  "convertCdmKeyStatus CdmUsable = KS_USABLE"
| "convertCdmKeyStatus CdmExpired = KS_EXPIRED"
| "convertCdmKeyStatus CdmReleased = KS_RELEASED"
| "convertCdmKeyStatus CdmOutputRestricted = KS_OUTPUT_RESTRICTED"
| "convertCdmKeyStatus CdmOutputRestrictedHDCP22 = KS_OUTPUT_RESTRICTED"
| "convertCdmKeyStatus CdmStatusPending = KS_PENDING"
| "convertCdmKeyStatus _ = KS_INTERNAL_ERROR"

section \<open>A session\<close>

definition newOcdmSession :: "CdmHandle \<Rightarrow> bool \<Rightarrow> OcdmSession" where
  "newOcdmSession systemHandle client = \<lparr>oh_systemHandle = systemHandle, oh_client = client, oh_session = 0, oh_uses = []\<rparr>"

definition openCdm :: "OpenCdm \<Rightarrow> CdmHandle \<Rightarrow> OpenCdmCall \<Rightarrow> OcdmSession \<Rightarrow> OpenCdmReply \<times> OcdmSession" where
  "openCdm cdm h c s = (cdm_reply cdm (oh_uses s) (h, c), s\<lparr>oh_uses := oh_uses s @ [(h, c)]\<rparr>)"

definition os_constructSession :: "OpenCdm \<Rightarrow> KeySessionType \<Rightarrow> InitDataType \<Rightarrow> u8 list \<Rightarrow> OcdmSession \<Rightarrow> MediaKeyErrorStatus \<times> OcdmSession" where
  "os_constructSession cdm sessionType initDataType initData s =
     (if oh_session s \<noteq> 0 then (MKE_OK, s)
      else
        let (r, s) = openCdm cdm (oh_systemHandle s)
              (CdmConstructSession (convertLicenseType sessionType) (convertCdmInitDataType initDataType) initData) s
        in (convertOpenCdmError (oc_error r), s\<lparr>oh_session := oc_handle r\<rparr>))"

text \<open>What most calls have in common: without a session they fail, otherwise they hand on the status of the library.\<close>

definition withCdmSession :: "OpenCdm \<Rightarrow> OpenCdmCall \<Rightarrow> OcdmSession \<Rightarrow> (MediaKeyErrorStatus \<times> OpenCdmReply option) \<times> OcdmSession" where
  "withCdmSession cdm c s =
     (if oh_session s = 0 then ((MKE_FAIL, None), s)
      else let (r, s) = openCdm cdm (oh_session s) c s in ((convertOpenCdmError (oc_error r), Some r), s))"

definition os_getChallengeData :: "OpenCdm \<Rightarrow> bool \<Rightarrow> u32 option \<Rightarrow> OcdmSession \<Rightarrow> (MediaKeyErrorStatus \<times> OpenCdmReply option) \<times> OcdmSession" where
  "os_getChallengeData cdm isLDL challenge s = withCdmSession cdm (CdmGetChallengeData challenge (of_bool isLDL)) s"

definition os_storeLicenseData :: "OpenCdm \<Rightarrow> u8 list \<Rightarrow> OcdmSession \<Rightarrow> MediaKeyErrorStatus \<times> OcdmSession" where
  "os_storeLicenseData cdm challenge s = apfst fst (withCdmSession cdm (CdmStoreLicenseData challenge) s)"

definition os_load :: "OpenCdm \<Rightarrow> OcdmSession \<Rightarrow> MediaKeyErrorStatus \<times> OcdmSession" where
  "os_load cdm s = apfst fst (withCdmSession cdm CdmLoad s)"

definition os_update :: "OpenCdm \<Rightarrow> u8 list \<Rightarrow> OcdmSession \<Rightarrow> MediaKeyErrorStatus \<times> OcdmSession" where
  "os_update cdm response s = apfst fst (withCdmSession cdm (CdmUpdate response) s)"

definition os_decrypt :: "OpenCdm \<Rightarrow> u32 \<Rightarrow> u32 \<Rightarrow> OcdmSession \<Rightarrow> MediaKeyErrorStatus \<times> OcdmSession" where
  "os_decrypt cdm subSampleCount initWithLast15 s = apfst fst (withCdmSession cdm (CdmDecrypt subSampleCount initWithLast15) s)"

definition os_remove :: "OpenCdm \<Rightarrow> OcdmSession \<Rightarrow> MediaKeyErrorStatus \<times> OcdmSession" where
  "os_remove cdm s = apfst fst (withCdmSession cdm CdmRemove s)"

definition os_close :: "OpenCdm \<Rightarrow> OcdmSession \<Rightarrow> MediaKeyErrorStatus \<times> OcdmSession" where
  "os_close cdm s = apfst fst (withCdmSession cdm CdmClose s)"

definition os_cancelChallengeData :: "OpenCdm \<Rightarrow> OcdmSession \<Rightarrow> MediaKeyErrorStatus \<times> OcdmSession" where
  "os_cancelChallengeData cdm s = apfst fst (withCdmSession cdm CdmCancelChallengeData s)"

definition os_cleanDecryptContext :: "OpenCdm \<Rightarrow> OcdmSession \<Rightarrow> MediaKeyErrorStatus \<times> OcdmSession" where
  "os_cleanDecryptContext cdm s = apfst fst (withCdmSession cdm CdmCleanDecryptContext s)"

text \<open>The handle is kept.\<close>

definition os_destructSession :: "OpenCdm \<Rightarrow> OcdmSession \<Rightarrow> MediaKeyErrorStatus \<times> OcdmSession" where
  "os_destructSession cdm s = apfst fst (withCdmSession cdm CdmDestructSession s)"

text \<open>The handle is not checked.\<close>

definition os_getStatus :: "OpenCdm \<Rightarrow> u8 list \<Rightarrow> OcdmSession \<Rightarrow> KeyStatus \<times> OcdmSession" where
  "os_getStatus cdm keyId s =
     (let (r, s) = openCdm cdm (oh_session s) (CdmSessionStatus keyId) s in (convertCdmKeyStatus (oc_keyStatus r), s))"

definition os_getCdmKeySessionId :: "OpenCdm \<Rightarrow> OcdmSession \<Rightarrow> string option \<times> OcdmSession" where
  "os_getCdmKeySessionId cdm s =
     (if oh_session s = 0 then (None, s)
      else let (r, s) = openCdm cdm (oh_session s) CdmSessionId s in (Some (oc_text r), s))"

definition os_selectKeyId :: "OpenCdm \<Rightarrow> u8 \<Rightarrow> u8 list \<Rightarrow> OcdmSession \<Rightarrow> MediaKeyErrorStatus \<times> OcdmSession" where
  "os_selectKeyId cdm keyLength keyId s = apfst fst (withCdmSession cdm (CdmSelectKeyId keyLength keyId) s)"

definition os_hasKeyId :: "OpenCdm \<Rightarrow> u8 list \<Rightarrow> u8 \<Rightarrow> OcdmSession \<Rightarrow> u32 \<times> OcdmSession" where
  "os_hasKeyId cdm keyId keyIdSize s =
     (if oh_session s = 0 then (0, s)
      else let (r, s) = openCdm cdm (oh_session s) (CdmHasKeyId keyIdSize keyId) s in (ucast (oc_value r), s))"

definition os_setDrmHeader :: "OpenCdm \<Rightarrow> u8 list \<Rightarrow> OcdmSession \<Rightarrow> MediaKeyErrorStatus \<times> OcdmSession" where
  "os_setDrmHeader cdm drmHeader s = apfst fst (withCdmSession cdm (CdmSetDrmHeader drmHeader) s)"

text \<open>The code of the library's last error is handed on as a number, with status \<open>OK\<close>.\<close>

definition os_getLastDrmError :: "OpenCdm \<Rightarrow> OcdmSession \<Rightarrow> u32 option \<times> OcdmSession" where
  "os_getLastDrmError cdm s =
     (if oh_session s = 0 then (None, s)
      else let (r, s) = openCdm cdm (oh_session s) CdmSystemError s in (Some (cdm_errorNumber cdm (oc_error r)), s))"

text \<open>The calls of the media keys, answered by this session; \<open>None\<close> for the calls that are not made on a session.\<close>

definition statusReply :: "MediaKeyErrorStatus \<Rightarrow> OcdmReply" where
  "statusReply status = \<lparr>or_status = status, or_bytes = [], or_value = 0, or_keyStatus = KS_INTERNAL_ERROR\<rparr>"

definition passStatus :: "MediaKeyErrorStatus \<times> OcdmSession \<Rightarrow> (OcdmReply \<times> OcdmSession) option" where
  "passStatus = (\<lambda>(status, s). Some (statusReply status, s))"

fun ocdmSessionCall :: "OpenCdm \<Rightarrow> OcdmCall \<Rightarrow> OcdmSession \<Rightarrow> (OcdmReply \<times> OcdmSession) option" where
  "ocdmSessionCall cdm (OC_constructSession sessionType initDataType initData) s =
     passStatus (os_constructSession cdm sessionType initDataType initData s)"
| "ocdmSessionCall cdm (OC_getChallengeData isLDL challenge) s =
     (let ((status, r), s) = os_getChallengeData cdm isLDL challenge s
      in Some (case r of
          None \<Rightarrow> statusReply status
        | Some r \<Rightarrow> (statusReply status)\<lparr>or_bytes := oc_bytes r, or_value := oc_value r\<rparr>, s))"
| "ocdmSessionCall cdm (OC_storeLicenseData challenge) s = passStatus (os_storeLicenseData cdm challenge s)"
| "ocdmSessionCall cdm OC_load s = passStatus (os_load cdm s)"
| "ocdmSessionCall cdm (OC_update response) s = passStatus (os_update cdm response s)"
| "ocdmSessionCall cdm (OC_decrypt subSampleCount initWithLast15) s = passStatus (os_decrypt cdm subSampleCount initWithLast15 s)"
| "ocdmSessionCall cdm OC_remove s = passStatus (os_remove cdm s)"
| "ocdmSessionCall cdm OC_close s = passStatus (os_close cdm s)"
| "ocdmSessionCall cdm OC_cancelChallengeData s = passStatus (os_cancelChallengeData cdm s)"
| "ocdmSessionCall cdm OC_cleanDecryptContext s = passStatus (os_cleanDecryptContext cdm s)"
| "ocdmSessionCall cdm OC_destructSession s = passStatus (os_destructSession cdm s)"
| "ocdmSessionCall cdm (OC_getStatus keyId) s =
     (let (status, s) = os_getStatus cdm keyId s in Some ((statusReply MKE_OK)\<lparr>or_keyStatus := status\<rparr>, s))"
| "ocdmSessionCall cdm OC_getCdmKeySessionId s =
     (let (name, s) = os_getCdmKeySessionId cdm s
      in Some (case name of
          None \<Rightarrow> statusReply MKE_FAIL
        | Some name \<Rightarrow> (statusReply MKE_OK)\<lparr>or_bytes := map (\<lambda>ch. of_nat (of_char ch)) name\<rparr>, s))"
| "ocdmSessionCall cdm (OC_selectKeyId keyLength keyId) s = passStatus (os_selectKeyId cdm keyLength keyId s)"
| "ocdmSessionCall cdm (OC_hasKeyId keyId keyIdSize) s =
     (let (value, s) = os_hasKeyId cdm keyId keyIdSize s in Some ((statusReply MKE_OK)\<lparr>or_value := ucast value\<rparr>, s))"
| "ocdmSessionCall cdm (OC_setDrmHeader drmHeader) s = passStatus (os_setDrmHeader cdm drmHeader s)"
| "ocdmSessionCall cdm OC_getLastDrmError s =
     (let (code, s) = os_getLastDrmError cdm s
      in Some (case code of
          None \<Rightarrow> statusReply MKE_FAIL
        | Some code \<Rightarrow> (statusReply MKE_OK)\<lparr>or_value := ucast code\<rparr>, s))"
| "ocdmSessionCall cdm _ s = None"

section \<open>Callbacks\<close>

text \<open>
  The library calls a static function with the address of the session (\<open>userData\<close>), which calls the media key session. An error
  message is only logged there.
\<close>

datatype OpenCdmCallback =
  CbProcessChallenge string "u8 list" u16 | CbKeyUpdated "u8 list" u8 | CbAllKeysUpdated | CbError string

definition handleProcessChallenge :: "OcdmSession \<Rightarrow> string \<Rightarrow> u8 list \<Rightarrow> u16 \<Rightarrow> MediaKeySession \<Rightarrow> MediaKeysServer \<Rightarrow> MediaKeysServer" where
  "handleProcessChallenge ocdmSession url challenge challengeLength ses s =
     (if oh_client ocdmSession then onProcessChallenge ses url challenge challengeLength s else s)"

definition handleKeyUpdated :: "OcdmSession \<Rightarrow> u8 list \<Rightarrow> u8 \<Rightarrow> MediaKeySession \<Rightarrow> MediaKeysServer \<Rightarrow> MediaKeysServer" where
  "handleKeyUpdated ocdmSession keyId keyIdLength ses s = (if oh_client ocdmSession then onKeyUpdated ses keyId keyIdLength s else s)"

definition handleAllKeysUpdated :: "OcdmSession \<Rightarrow> MediaKeySession \<Rightarrow> MediaKeysServer \<Rightarrow> MediaKeysServer" where
  "handleAllKeysUpdated ocdmSession ses s = (if oh_client ocdmSession then onAllKeysUpdated ses s else s)"

definition onCdmError :: "MediaKeySession \<Rightarrow> string \<Rightarrow> MediaKeysServer \<Rightarrow> MediaKeysServer" where
  "onCdmError ses message s = s"

definition handleCdmError :: "OcdmSession \<Rightarrow> string \<Rightarrow> MediaKeySession \<Rightarrow> MediaKeysServer \<Rightarrow> MediaKeysServer" where
  "handleCdmError ocdmSession message ses s = (if oh_client ocdmSession then onCdmError ses message s else s)"

fun onCdmCallback :: "OcdmSession option \<Rightarrow> OpenCdmCallback \<Rightarrow> MediaKeySession \<Rightarrow> MediaKeysServer \<Rightarrow> MediaKeysServer" where
  "onCdmCallback None _ ses s = s"
| "onCdmCallback (Some ocdmSession) (CbProcessChallenge url challenge n) ses s = handleProcessChallenge ocdmSession url challenge n ses s"
| "onCdmCallback (Some ocdmSession) (CbKeyUpdated keyId n) ses s = handleKeyUpdated ocdmSession keyId n ses s"
| "onCdmCallback (Some ocdmSession) CbAllKeysUpdated ses s = handleAllKeysUpdated ocdmSession ses s"
| "onCdmCallback (Some ocdmSession) (CbError message) ses s = handleCdmError ocdmSession message ses s"

section \<open>The system\<close>

record OcdmSystem =
  oy_systemHandle :: CdmHandle
  oy_uses :: "CdmUse list"

text \<open>\<open>None\<close>: the exception of the constructor.\<close>

definition newOcdmSystem :: "OpenCdm \<Rightarrow> string \<Rightarrow> OcdmSystem option" where
  "newOcdmSystem cdm keySystem =
     (let h = cdm_createSystem cdm keySystem in if h = 0 then None else Some \<lparr>oy_systemHandle = h, oy_uses = []\<rparr>)"

definition systemCall :: "OpenCdm \<Rightarrow> OpenCdmCall \<Rightarrow> OcdmSystem \<Rightarrow> OpenCdmReply \<times> OcdmSystem" where
  "systemCall cdm c s =
     (cdm_reply cdm (oy_uses s) (oy_systemHandle s, c), s\<lparr>oy_uses := oy_uses s @ [(oy_systemHandle s, c)]\<rparr>)"

definition destroyOcdmSystem :: "OpenCdm \<Rightarrow> OcdmSystem \<Rightarrow> OcdmSystem" where
  "destroyOcdmSystem cdm s = snd (systemCall cdm CdmDestructSystem s)"

definition oy_getVersion :: "OpenCdm \<Rightarrow> OcdmSystem \<Rightarrow> (MediaKeyErrorStatus \<times> string) \<times> OcdmSystem" where
  "oy_getVersion cdm s = (let (r, s) = systemCall cdm CdmGetVersion s in ((convertOpenCdmError (oc_error r), oc_text r), s))"

definition oy_getLdlSessionsLimit :: "OpenCdm \<Rightarrow> OcdmSystem \<Rightarrow> (MediaKeyErrorStatus \<times> u32) \<times> OcdmSystem" where
  "oy_getLdlSessionsLimit cdm s =
     (let (r, s) = systemCall cdm CdmGetLdlSessionLimit s in ((convertOpenCdmError (oc_error r), ucast (oc_value r)), s))"

definition oy_deleteKeyStore :: "OpenCdm \<Rightarrow> OcdmSystem \<Rightarrow> MediaKeyErrorStatus \<times> OcdmSystem" where
  "oy_deleteKeyStore cdm s = (let (r, s) = systemCall cdm CdmDeleteKeyStore s in (convertOpenCdmError (oc_error r), s))"

definition oy_deleteSecureStore :: "OpenCdm \<Rightarrow> OcdmSystem \<Rightarrow> MediaKeyErrorStatus \<times> OcdmSystem" where
  "oy_deleteSecureStore cdm s = (let (r, s) = systemCall cdm CdmDeleteSecureStore s in (convertOpenCdmError (oc_error r), s))"

definition oy_getKeyStoreHash :: "OpenCdm \<Rightarrow> u32 \<Rightarrow> OcdmSystem \<Rightarrow> (MediaKeyErrorStatus \<times> u8 list) \<times> OcdmSystem" where
  "oy_getKeyStoreHash cdm n s =
     (let (r, s) = systemCall cdm (CdmGetKeyStoreHash n) s in ((convertOpenCdmError (oc_error r), oc_bytes r), s))"

definition oy_getSecureStoreHash :: "OpenCdm \<Rightarrow> u32 \<Rightarrow> OcdmSystem \<Rightarrow> (MediaKeyErrorStatus \<times> u8 list) \<times> OcdmSystem" where
  "oy_getSecureStoreHash cdm n s =
     (let (r, s) = systemCall cdm (CdmGetSecureStoreHash n) s in ((convertOpenCdmError (oc_error r), oc_bytes r), s))"

definition oy_getDrmTime :: "OpenCdm \<Rightarrow> OcdmSystem \<Rightarrow> (MediaKeyErrorStatus \<times> u64) \<times> OcdmSystem" where
  "oy_getDrmTime cdm s = (let (r, s) = systemCall cdm CdmGetDrmTime s in ((convertOpenCdmError (oc_error r), oc_value r), s))"

definition oy_createSession :: "bool \<Rightarrow> OcdmSystem \<Rightarrow> OcdmSession" where
  "oy_createSession client s = newOcdmSession (oy_systemHandle s) client"

definition isTypeSupported :: "OpenCdm \<Rightarrow> string \<Rightarrow> MediaKeyErrorStatus" where
  "isTypeSupported cdm keySystem = convertOpenCdmError (cdm_isTypeSupported cdm keySystem)"

section \<open>Handles\<close>

text \<open>A run of calls of the media keys on one session.\<close>

fun ocdmRun :: "OpenCdm \<Rightarrow> OcdmCall list \<Rightarrow> OcdmSession \<Rightarrow> OcdmSession" where
  "ocdmRun cdm [] s = s"
| "ocdmRun cdm (c # cs) s = (case ocdmSessionCall cdm c s of None \<Rightarrow> ocdmRun cdm cs s | Some (r, s) \<Rightarrow> ocdmRun cdm cs s)"

text \<open>A use of the library is sound: it constructs a session of the system, or it is given the handle \<open>h\<close>.\<close>

fun sound_use :: "CdmHandle \<Rightarrow> CdmHandle \<Rightarrow> CdmUse \<Rightarrow> bool" where
  "sound_use system h (g, CdmConstructSession _ _ _) \<longleftrightarrow> g = system"
| "sound_use system h (g, _) \<longleftrightarrow> g = h \<and> g \<noteq> 0"

lemmas ocdm_call_defs =
  os_constructSession_def withCdmSession_def os_getChallengeData_def os_storeLicenseData_def os_load_def os_update_def
  os_decrypt_def os_remove_def os_close_def os_cancelChallengeData_def os_cleanDecryptContext_def os_destructSession_def
  os_getStatus_def os_getCdmKeySessionId_def os_selectKeyId_def os_hasKeyId_def os_setDrmHeader_def os_getLastDrmError_def
  openCdm_def passStatus_def

lemma ocdm_call_sound:
  assumes "ocdmSessionCall cdm c s = Some (r, s')" and "\<forall>keyId. c = OC_getStatus keyId \<longrightarrow> oh_session s \<noteq> 0"
  shows "oh_systemHandle s' = oh_systemHandle s \<and> (oh_session s \<noteq> 0 \<longrightarrow> oh_session s' = oh_session s) \<and>
    (\<exists>us. oh_uses s' = oh_uses s @ us \<and> list_all (sound_use (oh_systemHandle s) (oh_session s')) us)"
  using assms by (cases c) (auto simp: ocdm_call_defs Let_def split: if_splits option.splits)

text \<open>
  Every call of the library is given the handle of the one session that was constructed, as long as the status of a key is only
  asked for in a session that exists: no other call passes a null handle on, and a second construction does not replace the
  handle.
\<close>

lemma sound_use_null: "list_all (sound_use system 0) us \<Longrightarrow> list_all (sound_use system h) us"
proof (induction us)
  case (Cons u us)
  then show ?case by (cases u; cases "snd u") auto
qed simp

lemma ocdm_run_sound:
  assumes "list_all (sound_use (oh_systemHandle s) (oh_session s)) (oh_uses s)" and "\<forall>keyId. OC_getStatus keyId \<notin> set cs"
  shows "list_all (sound_use (oh_systemHandle s) (oh_session (ocdmRun cdm cs s))) (oh_uses (ocdmRun cdm cs s))"
  using assms
proof (induction cs arbitrary: s)
  case (Cons c cs)
  show ?case
  proof (cases "ocdmSessionCall cdm c s")
    case (Some rs)
    obtain r s' where rs: "rs = (r, s')" by fastforce
    have step: "oh_systemHandle s' = oh_systemHandle s" "oh_session s \<noteq> 0 \<longrightarrow> oh_session s' = oh_session s"
      "\<exists>us. oh_uses s' = oh_uses s @ us \<and> list_all (sound_use (oh_systemHandle s) (oh_session s')) us"
      using ocdm_call_sound [of cdm c s r s'] Some rs Cons.prems(2) by auto
    have "list_all (sound_use (oh_systemHandle s) (oh_session s')) (oh_uses s)"
      using Cons.prems(1) step(2) sound_use_null by (cases "oh_session s = 0") auto
    then show ?thesis using Cons.IH [of s'] Cons.prems(2) step Some rs by auto
  qed (use Cons in simp)
qed simp

theorem ocdm_handles_sound:
  assumes "\<forall>keyId. OC_getStatus keyId \<notin> set cs"
  shows "list_all (sound_use system (oh_session (ocdmRun cdm cs (newOcdmSession system client))))
    (oh_uses (ocdmRun cdm cs (newOcdmSession system client)))"
  using ocdm_run_sound [of "newOcdmSession system client" cs cdm] assms by (simp add: newOcdmSession_def)

text \<open>
  The handle outlives its session: after a session was destructed, constructing it again is reported as done without a call of
  the library, and the next call gives the library the handle of the session that is gone.
\<close>

theorem destructed_session_is_used:
  assumes "oh_session s \<noteq> 0"
  shows "let s1 = snd (os_destructSession cdm s); (status, s2) = os_constructSession cdm sessionType initDataType initData s1
    in status = MKE_OK \<and> oh_uses s2 = oh_uses s @ [(oh_session s, CdmDestructSession)] \<and>
      oh_uses (snd (os_load cdm s2)) = oh_uses s @ [(oh_session s, CdmDestructSession), (oh_session s, CdmLoad)]"
  using assms by (simp add: ocdm_call_defs Let_def case_prod_beta)

text \<open>The media keys see a successful call exactly when the library reports no error.\<close>

lemma cdm_ok_iff: "convertOpenCdmError e = MKE_OK \<longleftrightarrow> e = ERROR_NONE"
  by (cases e) simp_all

theorem session_call_ok_iff:
  assumes "oh_session s \<noteq> 0"
  shows "fst (fst (withCdmSession cdm c s)) = MKE_OK \<longleftrightarrow> oc_error (cdm_reply cdm (oh_uses s) (oh_session s, c)) = ERROR_NONE"
  using assms by (simp add: withCdmSession_def openCdm_def cdm_ok_iff)

end
