(* ===== verification/Capabilities_Rpc.thy ===== *)
theory Capabilities_Rpc
  imports Pipeline_Rpc_Proofs Cdm_Service Gst_Capabilities Ocdm_Wrapper
begin

text \<open>
  What the session server can play and decrypt, asked by a client: \<open>MediaPipelineCapabilities\<close> and \<open>MediaKeysCapabilities\<close> in
  the client (\<open>media/client/main\<close>), their remote ends (\<open>media/client/ipc\<close>), the module services
  (\<open>media/server/ipc\<close>), the services and the server's capabilities objects (\<open>media/server/main\<close>).
\<close>

section \<open>Media types\<close>

datatype PbMediaSourceType = PB_SOURCE_UNKNOWN | PB_SOURCE_AUDIO | PB_SOURCE_VIDEO

text \<open>The list of mime types in a message has the order of a hash set, so it is a set here.\<close>

datatype MimeRequest = GetSupportedMimeTypesRequest PbMediaSourceType | IsMimeTypeSupportedRequest string

datatype MimeResponse = GetSupportedMimeTypesResponse "string set" | IsMimeTypeSupportedResponse bool

fun convertProtoMediaSourceType :: "MediaSourceType \<Rightarrow> PbMediaSourceType" where
  "convertProtoMediaSourceType AUDIO = PB_SOURCE_AUDIO"
| "convertProtoMediaSourceType VIDEO = PB_SOURCE_VIDEO"
| "convertProtoMediaSourceType MST_UNKNOWN = PB_SOURCE_UNKNOWN"

fun convertPbMediaSourceType :: "PbMediaSourceType \<Rightarrow> MediaSourceType" where
  "convertPbMediaSourceType PB_SOURCE_UNKNOWN = MST_UNKNOWN"
| "convertPbMediaSourceType PB_SOURCE_AUDIO = AUDIO"
| "convertPbMediaSourceType PB_SOURCE_VIDEO = VIDEO"

text \<open>
  The server's object, made when the media pipeline service is constructed; \<open>None\<close>: \<open>GstCapabilities\<close> could not be created, an
  exception.
\<close>

record MediaPipelineCapabilities =
  mc_supportedMimeTypes :: "string set"

definition newMediaPipelineCapabilities :: "'c CapsOperations \<Rightarrow> 'c ElementFactory list \<Rightarrow> 'c ElementFactory list \<Rightarrow> bool \<Rightarrow>
    MediaPipelineCapabilities option" where
  "newMediaPipelineCapabilities ops decoders parsers gstWrapper =
     (if gstWrapper then Some \<lparr>mc_supportedMimeTypes = fillSupportedMimeTypes ops decoders parsers\<rparr> else None)"

definition mc_getSupportedMimeTypes :: "MediaSourceType \<Rightarrow> MediaPipelineCapabilities \<Rightarrow> string set" where
  "mc_getSupportedMimeTypes sourceType mc = getSupportedMimeTypes sourceType (mc_supportedMimeTypes mc)"

definition mc_isMimeTypeSupported :: "string \<Rightarrow> MediaPipelineCapabilities \<Rightarrow> bool" where
  "mc_isMimeTypeSupported mimeType mc = isMimeTypeSupported mimeType (mc_supportedMimeTypes mc)"

fun serveMime :: "MimeRequest \<Rightarrow> MediaPipelineCapabilities \<Rightarrow> MimeResponse option \<times> MediaPipelineCapabilities" where
  "serveMime (GetSupportedMimeTypesRequest t) mc =
     (Some (GetSupportedMimeTypesResponse (mc_getSupportedMimeTypes (convertPbMediaSourceType t) mc)), mc)"
| "serveMime (IsMimeTypeSupportedRequest mimeType) mc = (Some (IsMimeTypeSupportedResponse (mc_isMimeTypeSupported mimeType mc)), mc)"

text \<open>The client's end; it subscribes to no event.\<close>

definition newMediaPipelineCapabilitiesIpc :: "nat \<Rightarrow> 's IpcWorld \<Rightarrow> IpcModule option \<times> 's IpcWorld" where
  "newMediaPipelineCapabilitiesIpc this w =
     (let (ok, c, w) = attachChannel [] this \<lparr>im_ipcChannel = None, im_eventTags = []\<rparr> w in (if ok then Some c else None, w))"

definition mci_getSupportedMimeTypes :: "nat \<Rightarrow> MediaSourceType \<Rightarrow> IpcModule \<Rightarrow> MediaPipelineCapabilities IpcWorld \<Rightarrow>
    string set \<times> IpcModule \<times> MediaPipelineCapabilities IpcWorld" where
  "mci_getSupportedMimeTypes this sourceType c w =
     (let (response, c, w) = remoteCall [] this serveMime (GetSupportedMimeTypesRequest (convertProtoMediaSourceType sourceType)) c w
      in (case response of Some (GetSupportedMimeTypesResponse mimes) \<Rightarrow> mimes | _ \<Rightarrow> {}, c, w))"

definition mci_isMimeTypeSupported :: "nat \<Rightarrow> string \<Rightarrow> IpcModule \<Rightarrow> MediaPipelineCapabilities IpcWorld \<Rightarrow>
    bool \<times> IpcModule \<times> MediaPipelineCapabilities IpcWorld" where
  "mci_isMimeTypeSupported this mimeType c w =
     (let (response, c, w) = remoteCall [] this serveMime (IsMimeTypeSupportedRequest mimeType) c w
      in (case response of Some (IsMimeTypeSupportedResponse isSupported) \<Rightarrow> isSupported | _ \<Rightarrow> False, c, w))"

definition destroyMediaPipelineCapabilitiesIpc :: "IpcModule \<Rightarrow> 's IpcWorld \<Rightarrow> 's IpcWorld" where
  "destroyMediaPipelineCapabilitiesIpc c w = snd (detachChannel c w)"

section \<open>Key systems\<close>

datatype KeySystemRequest =
  GetSupportedKeySystemsRequest | SupportsKeySystemRequest string | GetSupportedKeySystemVersionRequest string

datatype KeySystemResponse =
  GetSupportedKeySystemsResponse "string list" | SupportsKeySystemResponse bool | GetSupportedKeySystemVersionResponse string

definition kWidevineKeySystem :: string where "kWidevineKeySystem = ''com.widevine.alpha''"

definition kPlayreadyKeySystem :: string where "kPlayreadyKeySystem = ''com.microsoft.playready''"

definition kSupportedKeySystems :: "string list" where
  "kSupportedKeySystems = [kWidevineKeySystem, kPlayreadyKeySystem, kNetflixKeySystem]"

definition kc_getSupportedKeySystems :: "OpenCdm \<Rightarrow> string list" where
  "kc_getSupportedKeySystems cdm = filter (\<lambda>k. isTypeSupported cdm k = MKE_OK) kSupportedKeySystems"

definition kc_supportsKeySystem :: "OpenCdm \<Rightarrow> string \<Rightarrow> bool" where
  "kc_supportsKeySystem cdm keySystem \<longleftrightarrow> isTypeSupported cdm keySystem = MKE_OK"

text \<open>\<open>None\<close>: no version, with the result false.\<close>

definition kc_getSupportedKeySystemVersion :: "OpenCdm \<Rightarrow> string \<Rightarrow> string option" where
  "kc_getSupportedKeySystemVersion cdm keySystem =
     (case newOcdmSystem cdm keySystem of
        None \<Rightarrow> None
      | Some system \<Rightarrow>
          let ((status, version), system) = oy_getVersion cdm system in if status = MKE_OK then Some version else None)"

text \<open>The service; \<open>created\<close> says whether the capabilities object can be created.\<close>

definition cdm_getSupportedKeySystems :: "OpenCdm \<Rightarrow> bool \<Rightarrow> CdmService \<Rightarrow> string list" where
  "cdm_getSupportedKeySystems cdm created s =
     (if \<not> cs_isActive s then [] else if \<not> created then [] else kc_getSupportedKeySystems cdm)"

definition cdm_supportsKeySystem :: "OpenCdm \<Rightarrow> bool \<Rightarrow> string \<Rightarrow> CdmService \<Rightarrow> bool" where
  "cdm_supportsKeySystem cdm created keySystem s =
     (if \<not> cs_isActive s then False else if \<not> created then False else kc_supportsKeySystem cdm keySystem)"

definition cdm_getSupportedKeySystemVersion :: "OpenCdm \<Rightarrow> bool \<Rightarrow> string \<Rightarrow> CdmService \<Rightarrow> string option" where
  "cdm_getSupportedKeySystemVersion cdm created keySystem s =
     (if \<not> cs_isActive s then None else if \<not> created then None else kc_getSupportedKeySystemVersion cdm keySystem)"

fun serveKeySystems :: "OpenCdm \<Rightarrow> bool \<Rightarrow> KeySystemRequest \<Rightarrow> CdmService \<Rightarrow> KeySystemResponse option \<times> CdmService" where
  "serveKeySystems cdm created GetSupportedKeySystemsRequest s =
     (Some (GetSupportedKeySystemsResponse (cdm_getSupportedKeySystems cdm created s)), s)"
| "serveKeySystems cdm created (SupportsKeySystemRequest keySystem) s =
     (Some (SupportsKeySystemResponse (cdm_supportsKeySystem cdm created keySystem s)), s)"
| "serveKeySystems cdm created (GetSupportedKeySystemVersionRequest keySystem) s =
     (map_option GetSupportedKeySystemVersionResponse (cdm_getSupportedKeySystemVersion cdm created keySystem s), s)"

definition newMediaKeysCapabilitiesIpc :: "nat \<Rightarrow> 's IpcWorld \<Rightarrow> IpcModule option \<times> 's IpcWorld" where
  "newMediaKeysCapabilitiesIpc this w =
     (let (ok, c, w) = attachChannel [] this \<lparr>im_ipcChannel = None, im_eventTags = []\<rparr> w in (if ok then Some c else None, w))"

definition kci_getSupportedKeySystems :: "OpenCdm \<Rightarrow> bool \<Rightarrow> nat \<Rightarrow> IpcModule \<Rightarrow> CdmService IpcWorld \<Rightarrow>
    string list \<times> IpcModule \<times> CdmService IpcWorld" where
  "kci_getSupportedKeySystems cdm created this c w =
     (let (response, c, w) = remoteCall [] this (serveKeySystems cdm created) GetSupportedKeySystemsRequest c w
      in (case response of Some (GetSupportedKeySystemsResponse keySystems) \<Rightarrow> keySystems | _ \<Rightarrow> [], c, w))"

definition kci_supportsKeySystem :: "OpenCdm \<Rightarrow> bool \<Rightarrow> nat \<Rightarrow> string \<Rightarrow> IpcModule \<Rightarrow> CdmService IpcWorld \<Rightarrow>
    bool \<times> IpcModule \<times> CdmService IpcWorld" where
  "kci_supportsKeySystem cdm created this keySystem c w =
     (let (response, c, w) = remoteCall [] this (serveKeySystems cdm created) (SupportsKeySystemRequest keySystem) c w
      in (case response of Some (SupportsKeySystemResponse isSupported) \<Rightarrow> isSupported | _ \<Rightarrow> False, c, w))"

definition kci_getSupportedKeySystemVersion :: "OpenCdm \<Rightarrow> bool \<Rightarrow> nat \<Rightarrow> string \<Rightarrow> IpcModule \<Rightarrow> CdmService IpcWorld \<Rightarrow>
    string option \<times> IpcModule \<times> CdmService IpcWorld" where
  "kci_getSupportedKeySystemVersion cdm created this keySystem c w =
     (let (response, c, w) = remoteCall [] this (serveKeySystems cdm created) (GetSupportedKeySystemVersionRequest keySystem) c w
      in (case response of Some (GetSupportedKeySystemVersionResponse version) \<Rightarrow> Some version | _ \<Rightarrow> None, c, w))"

definition destroyMediaKeysCapabilitiesIpc :: "IpcModule \<Rightarrow> 's IpcWorld \<Rightarrow> 's IpcWorld" where
  "destroyMediaKeysCapabilitiesIpc c w = snd (detachChannel c w)"

section \<open>What a client is told\<close>

interpretation media_source_type: wire_conversion convertProtoMediaSourceType convertPbMediaSourceType
  by unfold_locales (metis MediaSourceType.exhaust convertProtoMediaSourceType.simps convertPbMediaSourceType.simps)

text \<open>C40. From end to end: a client with an attached channel is told that a mime type is supported if and only if the table gives it
  for caps that are contained in the caps of the sink pad of a decoder, or of a parser one of whose source pads fits a decoder;
  leaving out caps that are strictly equal to others loses nothing.\<close>

theorem client_mime_supported_iff:
  assumes "\<And>x. keepsStrictEquality ops (\<lambda>c. co_canIntersect ops c x)" and "\<And>x. keepsStrictEquality ops (\<lambda>c. co_isSubset ops x c)"
    and "newMediaPipelineCapabilities ops decoders parsers True = Some (iw_peer w)" and "attached c w"
  shows "fst (mci_isMimeTypeSupported this mime c w) \<longleftrightarrow>
    (\<exists>(text, mimes) \<in> set capsToMimeVec. mime \<in> set mimes \<and>
      (\<exists>x \<in> playable ops decoders parsers. co_isSubset ops (co_fromString ops text) x))"
proof -
  have "fst (mci_isMimeTypeSupported this mime c w) \<longleftrightarrow> isMimeTypeSupported mime (fillSupportedMimeTypes ops decoders parsers)"
    using assms(3,4) by (auto simp: mci_isMimeTypeSupported_def newMediaPipelineCapabilities_def mc_isMimeTypeSupported_def
        remoteCall_attached dest: sym)
  then show ?thesis using mime_supported [OF assms(1,2)] by simp
qed

definition demo_decoders :: "string list ElementFactory list" where
  "demo_decoders = [[(PAD_SINK, [''audio/mpeg, mpegversion=(int)4''])]]"

definition demo_caps_world :: "MediaPipelineCapabilities IpcWorld" where
  "demo_caps_world =
     \<lparr>iw_channel = Some 1, iw_connected = (\<lambda>_. True), iw_eventHandlers = [], iw_eventTagCounter = (\<lambda>_. 0),
      iw_peer = \<lparr>mc_supportedMimeTypes = fillSupportedMimeTypes demo_caps demo_decoders []\<rparr>\<rparr>"

theorem client_mime_supported_iff_witness:
  "fst (mci_isMimeTypeSupported 0 ''audio/x-eac3'' \<lparr>im_ipcChannel = Some 1, im_eventTags = []\<rparr> demo_caps_world)"
proof -
  let ?c = "\<lparr>im_ipcChannel = Some 1, im_eventTags = []\<rparr> :: IpcModule"
  have "keepsStrictEquality demo_caps (\<lambda>c. co_canIntersect demo_caps c x)" "keepsStrictEquality demo_caps (\<lambda>c. co_isSubset demo_caps x c)" for x
    by (simp_all add: keepsStrictEquality_def demo_caps_def)
  moreover have "newMediaPipelineCapabilities demo_caps demo_decoders [] True = Some (iw_peer demo_caps_world)" "attached ?c demo_caps_world"
    by (simp_all add: newMediaPipelineCapabilities_def demo_caps_world_def attached_def)
  moreover have "(''audio/mpeg, mpegversion=(int)4'', [''audio/mp4'', ''audio/aac'', ''audio/x-eac3'']) \<in> set capsToMimeVec"
    by (simp add: capsToMimeVec_def)
  moreover have "[''audio/mpeg, mpegversion=(int)4''] \<in> playable demo_caps demo_decoders []"
    by (simp add: playable_def demo_decoders_def)
  moreover have "co_isSubset demo_caps (co_fromString demo_caps ''audio/mpeg, mpegversion=(int)4'') [''audio/mpeg, mpegversion=(int)4'']"
    by (simp add: demo_caps_def)
  ultimately show ?thesis
    using client_mime_supported_iff [of demo_caps demo_decoders "[]" demo_caps_world ?c 0 "''audio/x-eac3''"] by fastforce
qed

text \<open>The mime types that are listed for a kind of stream are those that are supported and start with the kind's name.\<close>

theorem client_mime_types_listed:
  assumes "attached c w"
  shows "mime \<in> fst (mci_getSupportedMimeTypes this sourceType c w) \<longleftrightarrow>
    fst (mci_isMimeTypeSupported this mime c w) \<and>
    (sourceType = VIDEO \<and> take 6 mime = ''video/'' \<or> sourceType = AUDIO \<and> take 6 mime = ''audio/'')"
  using assms by (cases sourceType) (auto simp: mci_getSupportedMimeTypes_def mci_isMimeTypeSupported_def mc_getSupportedMimeTypes_def
      mc_isMimeTypeSupported_def isMimeTypeSupported_def getSupportedMimeTypes_def remoteCall_attached)

text \<open>
  A key system is listed for a client if and only if it is one of the three the server knows and the client is told that it is
  supported, whatever the state of the service; an inactive service supports none.
\<close>

theorem client_key_systems_listed:
  assumes "attached c w"
  shows "k \<in> set (fst (kci_getSupportedKeySystems cdm created this c w)) \<longleftrightarrow>
    k \<in> set kSupportedKeySystems \<and> fst (kci_supportsKeySystem cdm created this k c w)"
    "\<not> cs_isActive (iw_peer w) \<Longrightarrow> \<not> fst (kci_supportsKeySystem cdm created this k c w)"
  using assms by (auto simp: kci_getSupportedKeySystems_def kci_supportsKeySystem_def cdm_getSupportedKeySystems_def
      cdm_supportsKeySystem_def kc_getSupportedKeySystems_def kc_supportsKeySystem_def remoteCall_attached)

text \<open>A version is reported exactly when the system can be created and the library gives one without an error.\<close>

theorem client_key_system_version:
  assumes "attached c w" and "cs_isActive (iw_peer w)"
  shows "fst (kci_getSupportedKeySystemVersion cdm True this k c w) = Some version \<longleftrightarrow>
    cdm_createSystem cdm k \<noteq> 0 \<and>
    oc_error (cdm_reply cdm [] (cdm_createSystem cdm k, CdmGetVersion)) = ERROR_NONE \<and>
    oc_text (cdm_reply cdm [] (cdm_createSystem cdm k, CdmGetVersion)) = version"
  using assms by (simp add: kci_getSupportedKeySystemVersion_def cdm_getSupportedKeySystemVersion_def
      kc_getSupportedKeySystemVersion_def newOcdmSystem_def oy_getVersion_def systemCall_def remoteCall_attached Let_def
      cdm_ok_iff)

end
