(* ===== verification/Spec2Isabelle.thy ===== *)
theory Spec2Isabelle
  imports Server_Manager Audio_Rpc_Proofs Keys_Rpc_Proofs Ipc_Server_Proofs Buffer_Pool Gst_Ends Gst_Web_Audio Gst_Source Control_Ipc
    Capabilities_Rpc
begin

text \<open>
  \<^bold>\<open>Rialto\<close> plays media on behalf of applications that must not touch the decoder themselves. An
  application links a client library (\<open>media/client\<close>); its calls travel over a socket to a session server
  (\<open>media/server\<close>), one process per application, which owns the player (GStreamer) and the content decryption
  module (OCDM). Media data does not travel over the socket: the server maps a shared memory buffer, divides it into
  partitions, and tells the client where to write. A server manager (\<open>serverManager\<close>) starts, configures and stops
  the session servers. This development models the code of the library, the session server and the server manager that
  decides what happens, and proves what makes it correct.

  \<^bold>\<open>The theories, and the code under \<open>src/\<close> they model\<close>

  \<^item> \<open>Rialto_Prelude\<close>, \<open>Std_Map\<close>: machine integers, byte memory, first-match search, \<open>std::map\<close> in its iteration
    order, and the lemmas on them that the components share.
  \<^item> \<open>Media_Common\<close>: enumerations, structures and media segments of \<open>media/public/include\<close>.
  \<^item> \<open>Shared_Memory\<close>: \<open>SharedMemoryBuffer.cpp\<close>. The state is the two partition tables; \<open>getDataPtr\<close> and
    \<open>getMaxDataLen\<close> hand out regions. Shown: construction and the operations keep the table invariant, regions lie
    in the mapping and never meet.
  \<^item> \<open>Byte_Writer\<close>, \<open>Frame_Interface\<close>, \<open>Frame_V1\<close>, \<open>Frame_V2\<close>: \<open>media/common/source\<close> (the writers) and
    \<open>DataReaderV1.cpp\<close>, \<open>DataReaderV2.cpp\<close> (the readers) with their factories. The locale \<open>frame_format\<close> states what
    a format promises; both formats interpret it, which gives the round trips.
  \<^item> \<open>Active_Requests\<close>, \<open>Main_Thread\<close>: \<open>ActiveRequests.cpp\<close>, \<open>MainThread.cpp\<close>, each behind a locale.
  \<^item> \<open>Media_Pipeline_Server\<close>, \<open>Media_Pipeline_Proofs\<close>: \<open>MediaPipelineServerInternal.cpp\<close>, \<open>NeedMediaData.cpp\<close>.
    Shown: the invariant over every sequence of requests, player events and tasks, what a need-data request says, that
    requests are answered once and retried, and what construction and destruction leave.
  \<^item> \<open>Ring_Buffer\<close>, \<open>Web_Audio_Server\<close>, \<open>Web_Audio_Proofs\<close>: \<open>WebAudioPlayerServerInternal.cpp\<close> and the write task of
    \<open>GstWebAudioPlayer.cpp\<close>. \<open>Ring_Buffer\<close> is the abstract specification; shown: the code's four lengths implement
    it, audio reaches the player in order as long as no write runs into its time limit, and the player is never stuck with stored audio.
  \<^item> \<open>Playback_Service\<close>, \<open>Session_Services\<close>: \<open>PlaybackService.cpp\<close>, \<open>MediaPipelineService.cpp\<close>,
    \<open>WebAudioPlayerService.cpp\<close>. Shown: sessions and partitions agree, and exactly when a session can be created.
  \<^item> \<open>Media_Keys\<close>, \<open>Media_Keys_Proofs\<close>, \<open>Cdm_Service\<close>: \<open>MediaKeysServerInternal.cpp\<close>, \<open>MediaKeySession.cpp\<close>,
    \<open>CdmService.cpp\<close>. Shown: queued tasks find their session, closing is deferred while a session is in use, one
    licence request per challenge, and key sessions are routed to the object that owns them.
  \<^item> \<open>Logging_Levels\<close>: \<open>EnvVariableParser.cpp\<close>, \<open>RialtoLogging.cpp\<close>.
  \<^item> \<open>Session_Server_Manager\<close>: \<open>SessionServerManager.cpp\<close>, \<open>ServerManagerModuleService.cpp\<close>,
    \<open>ApplicationManagementServer.cpp\<close>, \<open>SessionManagementServer.cpp\<close>. Shown: the state reported to the server
    manager agrees with the services, reports of errors apart.
  \<^item> \<open>Server_Manager\<close>: \<open>SessionServerAppManager.cpp\<close>, \<open>SessionServerApp.cpp\<close>, \<open>Controller.cpp\<close>, \<open>Client.cpp\<close>.
    Shown: registry and connections agree, no child is left, the startup protocol.
  \<^item> \<open>Client_Control\<close>, \<open>Client_Library\<close>, \<open>Client_Proofs\<close>: \<open>media/client/main/source\<close>. The locale
    \<open>shared_memory_client\<close> is the contract between \<open>RialtoControl\<close> and the objects it notifies; shown: no frame writer
    outlives its mapping and a request is answered at most once.
  \<^item> \<open>Buffer_Pool\<close>, \<open>Ipc_Transport\<close>, \<open>Ipc_Channel\<close>, \<open>Ipc_Channel_Proofs\<close>, \<open>Ipc_Server\<close>, \<open>Ipc_Server_Proofs\<close>,
    \<open>Ipc_Connection\<close>: the socket transport (\<open>ipc/common\<close>, \<open>ipc/client\<close>, \<open>ipc/server\<close>): send buffers, messages and the
    descriptors that travel with them, the client's channel with its table of calls, timer and event loop, the server with
    its listening sockets, clients and services. Shown: a call completes once or waits in the table, a response is only
    filled with the answer to its own call however the traffic of many clients interleaves, a call on a live connection goes
    through; and which calls never end.
  \<^item> \<open>Ipc_Module\<close>, \<open>Module_Service\<close>, \<open>Pipeline_Rpc\<close>, \<open>Pipeline_Rpc_Proofs\<close>, \<open>Audio_Rpc\<close>, \<open>Audio_Rpc_Proofs\<close>, \<open>Keys_Rpc\<close>,
    \<open>Keys_Rpc_Proofs\<close>: the remote ends in the client (\<open>media/client/ipc\<close>) and the module services and event senders of the
    session server (\<open>media/server/ipc\<close>). The locale \<open>wire_conversion\<close> is the contract of the conversions, \<open>owned_service\<close>
    that of a service whose objects belong to clients. Shown: a remote call is the direct call on the service
    (\<open>selectKeyId\<close> of media keys is not implemented), objects go
    with their client, handlers go with their object, events reach their session.
  \<^item> \<open>Control_Ipc\<close>: \<open>RialtoControlIpc.cpp\<close>, \<open>RialtoControlModuleService.cpp\<close>. Shown: a socket number written in decimal is
    read back and connected to exactly when no error number is left over, and the client gets the shared memory the playback
    service has.
  \<^item> \<open>Gst_Player\<close>, \<open>Gst_Tasks\<close>, \<open>Gst_Lifecycle\<close>: \<open>GstGenericPlayer.cpp\<close>, the tasks in \<open>tasks/generic\<close>, the worker and dispatcher
    threads. \<open>Gst_Views\<close> holds the proof tools: the locale \<open>player_view\<close> says which updates a part of the state must not
    see, and is interpreted for the parts the theorems are about. \<open>Gst_Flow\<close>: over any run samples stay in order, one request
    for data is outstanding until the player has reason to ask afresh, and the network state reported agrees with underflow,
    with one exception. \<open>Gst_Ends\<close>: when the destructor returns, and what follows an error.
  \<^item> \<open>Gst_Web_Audio\<close>: \<open>GstWebAudioPlayer.cpp\<close> and \<open>tasks/webAudio\<close>. Shown: what a write call returns, and that construction
    and destruction end.
  \<^item> \<open>Gst_Source\<close>: the source element of the pipeline, \<open>GstSrc.cpp\<close>. Shown: the chain of elements of a stream, the announcements
    of asynchronous state changes, and that the end of the stream is never sent by it.
  \<^item> \<open>Ocdm_Wrapper\<close>: \<open>media/server/wrappers\<close>. Shown: which handles the library is given.
  \<^item> \<open>Gst_Capabilities\<close>, \<open>Capabilities_Rpc\<close>: \<open>GstCapabilities.cpp\<close>, the capabilities objects of the server and their remote
    calls. Shown: from end to end, which media types and key systems a client is told are supported.
  \<^item> This theory composes them: a need-data request from the server through the client back to the player.

  \<^bold>\<open>How the code is rendered\<close>

  A class is a record with the members of the class, a method a function from the state to its result and the new
  state; what it calls outside the model is appended to a list of outputs, and what such a call returns is an
  argument. \<open>uint32_t\<close> and its relatives are words, so sums wrap as in the code. A null pointer or an
  exception is \<open>None\<close>. A method is one atomic step: mutexes and condition variables are not modelled. Work posted to the
  main thread is a queue in the state; each pipeline, web audio player and media keys object carries its own view of
  that queue, since tasks of other clients cannot change it. \<open>double\<close> is \<open>real\<close>: values are compared with zero
  and passed on.

  GStreamer, GLib and OpenCDM are recorded: every call is appended to a log, and what it answers may depend on the whole log.
  Work of the worker threads is a queue in the state of the player, and a run interleaves requests, signals, timers, bus
  messages and tasks in any order.

  Fuel occurs twice. \<open>mainThreadLoop\<close> runs as many turns as it is given: a call that waits for its task gives it one turn for
  each task queued before its own; tasks posted meanwhile come later, so the awaited task is next. \<open>joinRounds\<close> and \<open>webJoin\<close>
  are given the length of the queue: each round takes a task from it, and the task that stops the thread is in the queue if
  the join returns at all. The loop that splits the debug variable is a \<open>function\<close> with a termination proof.

  \<^bold>\<open>What is assumed\<close>

  The protobuf serialisation of frame metadata is the record \<open>codec\<close>; theorems that read frames back assume \<open>codec_ok\<close>, that
  parsing inverts serialising. The results of GStreamer, OCDM, remote calls and system calls are arguments, unconstrained
  unless a theorem says so.

  \<^bold>\<open>What is not modelled\<close>

  The wrappers of GStreamer and GLib make one call of the library per method. Of the source element and the decryptor the
  registration of the GObject types is left out, of the decryptor everything but the treatment of a sample. The monitor of the
  IPC server copies traffic for debugging. Factories that only construct, the forwarding objects of the client's capabilities,
  logging output, the simulator of the server manager, examples, tests and build files carry no logic of the system.
\<close>

section \<open>From a need-data request to the player\<close>

text \<open>
  The two frame formats side by side: which frames version \<open>v\<close> can write, when they fit into the region of a request, and
  what it carries of a frame. Version 2 carries everything, but for decryption parameters of a frame that is not encrypted;
  version 1 carries no encryption data, no alignment and no source id.
\<close>

definition writableIn :: "codec \<Rightarrow> int \<Rightarrow> MediaSegment \<Rightarrow> bool" where
  "writableIn pb v seg = (if v = 1 then writable1 seg else writable2 pb seg)"

definition fitsIn :: "codec \<Rightarrow> int \<Rightarrow> MediaPlayerShmInfo \<Rightarrow> MediaSegment list \<Rightarrow> bool" where
  "fitsIn pb v info segs = (if v = 1 then fits1 info segs else fits2 pb info segs)"

definition carriedBy :: "int \<Rightarrow> MediaSegment \<Rightarrow> MediaSegment" where
  "carriedBy v seg = (if v = 1 then segment_view1 seg else segment_view2 seg)"

lemma either_format_roundtrip:
  assumes "need_data_info info" and "v \<in> {1, 2}" and "\<forall>seg \<in> set segs. writableIn pb v seg \<and> m_type seg = t" and "fitsIn pb v info segs"
  shows "\<exists>m' w reader. run_all (add_frame pb) segs (createFrameWriter v info m) = (True, m', w) \<and>
    unat (getNumFrames w) = length segs \<and>
    createDataReader t m' (metadataOffset info) (getNumFrames w) = Some reader \<and> readData pb reader m' = map (carriedBy v) segs"
proof (cases "v = 1")
  case True
  then have "\<forall>seg \<in> set segs. writable1 seg \<and> m_type seg = t" "fits1 info segs" "carriedBy v = segment_view1"
    using assms(3,4) by (simp_all add: writableIn_def fitsIn_def carriedBy_def fun_eq_iff)
  with True frames_roundtrip1 [OF assms(1), of segs t pb m] show ?thesis by force
next
  case False
  then have "v = 2" "\<forall>seg \<in> set segs. writable2 pb seg \<and> m_type seg = t" "fits2 pb info segs" "carriedBy v = segment_view2"
    using assms(2-4) by (simp_all add: writableIn_def fitsIn_def carriedBy_def fun_eq_iff)
  with frames_roundtrip2 [OF assms(1), of segs pb t m] show ?thesis by force
qed

text \<open>When the server asks for data of a source and the client writes frames into the region
  of the request, in either format, and answers it, the player is handed a reader that yields what the format
  carries of these frames, in order, and the request is closed.\<close>

lemma answered_request_reaches_player:
  assumes "pipeline_inv s" and "p_client s" and "p_gstPlayer s" and "ids_below (p_activeRequests s)"
    and "notifyNeedMediaDataInternal t s = (True, s1)"
    and "last (p_out s1) = ToClient (CE_needMediaData i frames r info)"
    and "segs \<noteq> []" and "v \<in> {1, 2}" and "\<forall>seg \<in> set segs. writableIn pb v seg \<and> m_type seg = t" and "fitsIn pb v info segs"
  shows "\<exists>m' w s2 reader. run_all (add_frame pb) segs (createFrameWriter v info (p_mem s1)) = (True, m', w) \<and>
    haveDataShmInternal MSS_OK (getNumFrames w) r (s1\<lparr>p_mem := m'\<rparr>) = (True, s2) \<and>
    p_out s2 = p_out s1 @ [ToPlayer (PC_attachReader reader)] \<and> readData pb reader (p_mem s2) = map (carriedBy v) segs \<and>
    getRequestType r (p_activeRequests s2) = MST_UNKNOWN \<and> t \<noteq> MST_UNKNOWN"
proof -
  have own: "owns_partition s" using assms(1) by (simp add: pipeline_inv_def)
  obtain j where j: "p_attachedSources s t = Some j"
    using assms(5) by (cases "p_attachedSources s t") (auto simp: notifyNeedMediaDataInternal_def Let_def)
  then have t: "t \<noteq> MST_UNKNOWN" using assms(1) by (auto simp: pipeline_inv_def sources_ok_def)
  note sent = need_data_sent [OF own t j assms(2)]
  have s1: "p_gstPlayer s1" "p_shmBuffer s1 = p_shmBuffer s" "p_sessionId s1 = p_sessionId s"
    "p_activeRequests s1 = snd (insertRequest t (maxMediaBytes (request_info t s)) (p_activeRequests s))"
    and r: "r = m_currentId (p_activeRequests s)" "info = request_info t s"
    using sent assms(3,5,6) by auto
  have type: "getRequestType r (p_activeRequests s1) = t"
    using reqs.ins_type [OF assms(4), of r t "maxMediaBytes info"] by (simp add: s1(4) r insertRequest_def Let_def)
  note info = request_info_ok [OF own t, folded r(2)]
  obtain m' w reader where w: "run_all (add_frame pb) segs (createFrameWriter v info (p_mem s1)) = (True, m', w)"
    "unat (getNumFrames w) = length segs" "createDataReader t m' (metadataOffset info) (getNumFrames w) = Some reader"
    "readData pb reader m' = map (carriedBy v) segs"
    using either_format_roundtrip [OF _ assms(8-10), of "p_mem s1"] info by auto
  have "getNumFrames w \<noteq> 0" using w(2) assms(7) by auto
  moreover have "getBuffer (p_shmBuffer s) \<noteq> None"
    using own by (simp add: owns_partition_def std_layout_def getBuffer_def)
  moreover have "getDataOffset GENERIC (p_sessionId s) t (p_shmBuffer s) = Some (metadataOffset info)"
    using info by (simp add: getDataOffset_def)
  ultimately have "haveDataShmInternal MSS_OK (getNumFrames w) r (s1\<lparr>p_mem := m'\<rparr>) =
      (True, toPlayer (PC_attachReader reader) (s1\<lparr>p_mem := m', p_activeRequests := eraseRequest r (p_activeRequests s1)\<rparr>))"
    using s1 type t w(3) by (simp add: haveDataShmInternal_def Let_def)
  then show ?thesis
    using w t by (auto simp: output_defs reqs.erase_id_type)
qed

text \<open>C1. End to end: when the server asks for data of a source the client has attached and is playing or
  buffering, and the application adds frames to the request and answers it, then the client accepts every frame, and its
  answer makes the server hand the player a reader that yields what the frame format carries of these frames, in order and
  with the keys selected for them, and close the request. The frames are of the type of the source, can be written in the
  format in use and together fit into the region of the request. Format 2 carries the whole frame, but for decryption
  parameters of a frame that is not encrypted; format 1 carries type, times, configuration, extra data and bytes, but no
  encryption data, alignment or source id.\<close>

theorem need_data_reaches_player:
  assumes "pipeline_inv s" and "p_client s" and "p_gstPlayer s" and "ids_below (p_activeRequests s)"
    and "notifyNeedMediaDataInternal t s = (True, s1)"
    and "last (p_out s1) = ToClient (CE_needMediaData i frameCount r info)"
    and "attachedGet i (mp_attachedSources p) = t" and "mp_currentState p \<in> {CS_BUFFERING, CS_PLAYING}"
    and "segs \<noteq> []" and "\<forall>seg \<in> set segs. m_data seg \<noteq> None"
    and "frames = map (withSelectedKey keyIds) segs" and "v \<in> {1, 2}"
    and "\<forall>seg \<in> set frames. writableIn pb v seg \<and> m_type seg = t" and "fitsIn pb v info frames"
  shows "\<exists>p2 m' n s2 reader.
    run_all (addSegmentTo pb (v, keyIds, Some a) r) segs (clNotifyNeedMediaData i (unat frameCount) r info p, p_mem s1) = (True, p2, m') \<and>
    mp_out (snd (clHaveData MSS_OK r True p2)) = mp_out p2 @ [ToServer (PI_haveData MSS_OK n r)] \<and>
    haveDataShmInternal MSS_OK n r (s1\<lparr>p_mem := m'\<rparr>) = (True, s2) \<and>
    p_out s2 = p_out s1 @ [ToPlayer (PC_attachReader reader)] \<and> readData pb reader (p_mem s2) = map (carriedBy v) frames \<and>
    getRequestType r (p_activeRequests s2) = MST_UNKNOWN"
proof -
  obtain m' w s2 reader where w: "run_all (add_frame pb) frames (createFrameWriter v info (p_mem s1)) = (True, m', w)"
    "haveDataShmInternal MSS_OK (getNumFrames w) r (s1\<lparr>p_mem := m'\<rparr>) = (True, s2)"
    "p_out s2 = p_out s1 @ [ToPlayer (PC_attachReader reader)]" "readData pb reader (p_mem s2) = map (carriedBy v) frames"
    "getRequestType r (p_activeRequests s2) = MST_UNKNOWN" and t: "t \<noteq> MST_UNKNOWN"
    using answered_request_reaches_player [OF assms(1-6) _ assms(12-14)] assms(9,11) by auto
  have "\<forall>seg \<in> set segs. m_data seg \<noteq> None \<and> m_type seg \<noteq> MST_UNKNOWN"
    using assms(10,11,13) t by auto
  from client_fills_request [OF _ assms(8,9) this w(1) [unfolded assms(11)]] assms(7) t w(2-) show ?thesis by blast
qed

lemma demo_attached_needs: "\<exists>s1. notifyNeedMediaDataInternal AUDIO demo_attached = (True, s1) \<and>
    last (p_out s1) = ToClient (CE_needMediaData 1 1 0 (request_info AUDIO demo_attached))"
proof -
  have "owns_partition demo_attached" using demo_attached_inv by (simp add: pipeline_inv_def)
  from need_data_sent [OF this, of AUDIO 1] show ?thesis
    by (simp add: demo_attached_def demo_pipeline_def newActiveRequests_def kPrerollNumFrames_def)
qed

definition demo_playing_client :: ClientPipeline where
  "demo_playing_client = (newClientPipeline True)\<lparr>mp_currentState := CS_PLAYING, mp_attachedSources := [(1, AUDIO)]\<rparr>"

theorem need_data_reaches_player_witness:
  "\<exists>s1 info p2 m' s2 reader. notifyNeedMediaDataInternal AUDIO demo_attached = (True, s1) \<and>
    run_all (addSegmentTo demo_codec (2, [], Some 65536) 0) [demo_segment]
      (clNotifyNeedMediaData 1 1 0 info demo_playing_client, p_mem s1) = (True, p2, m') \<and>
    (\<exists>n. haveDataShmInternal MSS_OK n 0 (s1\<lparr>p_mem := m'\<rparr>) = (True, s2)) \<and>
    last (p_out s2) = ToPlayer (PC_attachReader reader) \<and> readData demo_codec reader (p_mem s2) = [segment_view2 demo_segment]"
proof -
  let ?info = "request_info AUDIO demo_attached"
  obtain s1 where s1: "notifyNeedMediaDataInternal AUDIO demo_attached = (True, s1)"
    "last (p_out s1) = ToClient (CE_needMediaData 1 1 0 ?info)"
    using demo_attached_needs by blast
  have "owns_partition demo_attached" using demo_attached_inv by (simp add: pipeline_inv_def)
  from request_info_ok [OF this, of AUDIO] have "fits2 demo_codec ?info [demo_segment]"
    by (simp add: fits2_def cost2_def metadata_bytes2_def demo_defs)
  moreover have same: "withSelectedKey [] demo_segment = demo_segment" "m_data demo_segment \<noteq> None"
    by (simp_all add: withSelectedKey_def keyGet_def demo_segment_def segment_constructor_defs setData_def)
  ultimately have "\<forall>seg \<in> set [demo_segment]. writableIn demo_codec 2 seg \<and> m_type seg = AUDIO" "fitsIn demo_codec 2 ?info [demo_segment]"
    "[demo_segment] = map (withSelectedKey []) [demo_segment]" "carriedBy 2 demo_segment = segment_view2 demo_segment"
    using demo_segment_ok by (simp_all add: writableIn_def fitsIn_def carriedBy_def)
  moreover have "p_client demo_attached" "p_gstPlayer demo_attached" "ids_below (p_activeRequests demo_attached)"
    using newActiveRequests_ok by (simp_all add: demo_attached_def demo_pipeline_def)
  moreover have "attachedGet 1 (mp_attachedSources demo_playing_client) = AUDIO" "mp_currentState demo_playing_client \<in> {CS_BUFFERING, CS_PLAYING}"
    by (simp_all add: demo_playing_client_def attachedGet_def)
  ultimately show ?thesis
    using need_data_reaches_player [OF demo_attached_inv _ _ _ s1, of demo_playing_client "[demo_segment]" "[demo_segment]" "[]" 2 demo_codec 65536] same s1(1)
    by fastforce
qed

end
